(* ===== verification/Prelude.thy ===== *)
theory Prelude
  imports Main "HOL-Library.AList" "HOL-Library.List_Lexorder" "HOL-Library.Char_ord"
    "HOL-Library.Signed_Division" "HOL-Library.Multiset"
begin

text \<open>
  The shared vocabulary of the development.

  \<^item> Errors: every error value a modelled function returns, and a constructor for a Go
    runtime panic.
  \<^item> Programs: a Go function that talks to MongoDB, Redis or Kafka is a state transformer
    with an error result, \<open>'w \<Rightarrow> (err + 'a) \<times> 'w\<close>. The state starts with the record \<open>env\<close>: a
    fault plan (whether the n-th call to an external store succeeds, fails before it takes
    effect, or takes effect and loses its reply), the number of the next external call, a
    clock and the random numbers of the Lua interpreter. A theorem for every state is therefore
    a theorem for every pattern of store failures.
  \<^item> A small Hoare logic for these programs (\<open>hoare\<close>, \<open>preserves\<close>), with the rules in
    the collections \<open>hoare_rules\<close> and \<open>preserves_rules\<close>.
  \<^item> Go's string and integer library: the functions of \<^verbatim>\<open>strings\<close> and \<^verbatim>\<open>strconv\<close> the source uses;
    Go's division and remainder truncate towards zero (\<open>sdiv\<close> and \<open>smod\<close>).
\<close>

section \<open>Errors\<close>

datatype err =
    ErrArgs string
  | ErrInternalServer string
  | ErrNew string
  | ErrNoPermission
  | ErrRecordNotFound
  | ErrIO
  | RedisNil
  | MongoNoDocuments
  | MongoDuplicateKey
  | ErrBlockedByPeer
  | ErrNotPeersFriend
  | ErrDismissedAlready
  | ErrNotInGroupYet
  | ErrMutedInGroup
  | ErrMutedGroup
  | ErrMsgAlreadyRevoke
  | ErrTokenNotExist
  | ErrTokenKicked
  | ErrTokenUnknown
  | ErrCode string
  | Panic string

section \<open>Programs\<close>

datatype fault = NoFault | FailBefore | FailAfter

record env =
  faults :: "nat \<Rightarrow> fault"
  opno :: nat
  clock :: int
  rand :: "nat \<Rightarrow> int"

type_synonym ('w, 'a) prog = "'w \<Rightarrow> (err + 'a) \<times> 'w"

definition ret :: "'a \<Rightarrow> ('w, 'a) prog" where
  "ret a = (\<lambda>w. (Inr a, w))"

definition throw :: "err \<Rightarrow> ('w, 'a) prog" where
  "throw e = (\<lambda>w. (Inl e, w))"

definition bindM :: "('w, 'a) prog \<Rightarrow> ('a \<Rightarrow> ('w, 'b) prog) \<Rightarrow> ('w, 'b) prog" where
  "bindM m f = (\<lambda>w. case m w of (Inl e, w') \<Rightarrow> (Inl e, w') | (Inr a, w') \<Rightarrow> f a w')"

abbreviation thenM :: "('w, 'a) prog \<Rightarrow> ('w, 'b) prog \<Rightarrow> ('w, 'b) prog" where
  "thenM m n \<equiv> bindM m (\<lambda>_. n)"

definition gets :: "('w \<Rightarrow> 'a) \<Rightarrow> ('w, 'a) prog" where
  "gets f = (\<lambda>w. (Inr (f w), w))"

definition modifyM :: "('w \<Rightarrow> 'w) \<Rightarrow> ('w, unit) prog" where
  "modifyM f = (\<lambda>w. (Inr (), f w))"

text \<open>
  \<open>tryM\<close> is the Go idiom \<^verbatim>\<open>v, err := f()\<close> followed by a look at \<^verbatim>\<open>err\<close>: the error becomes a
  value. A panic is not an error value and passes through.
\<close>

definition tryM :: "('w, 'a) prog \<Rightarrow> ('w, err + 'a) prog" where
  "tryM m = (\<lambda>w. case m w of
     (Inl e, w') \<Rightarrow> (case e of Panic s \<Rightarrow> (Inl (Panic s), w') | _ \<Rightarrow> (Inr (Inl e), w'))
   | (Inr a, w') \<Rightarrow> (Inr (Inr a), w'))"

definition liftE :: "err + 'a \<Rightarrow> ('w, 'a) prog" where
  "liftE r = (\<lambda>w. (r, w))"

primrec forM :: "'b list \<Rightarrow> ('b \<Rightarrow> ('w, unit) prog) \<Rightarrow> ('w, unit) prog" where
  "forM [] f = ret ()"
| "forM (x # xs) f = thenM (f x) (forM xs f)"

primrec foldM :: "('b \<Rightarrow> 'c \<Rightarrow> ('w, 'c) prog) \<Rightarrow> 'b list \<Rightarrow> 'c \<Rightarrow> ('w, 'c) prog" where
  "foldM f [] c = ret c"
| "foldM f (x # xs) c = bindM (f x c) (foldM f xs)"

text \<open>An external call: it consumes one entry of the fault plan.\<close>

definition io :: "('e env_scheme, 'a) prog \<Rightarrow> ('e env_scheme, 'a) prog" where
  "io m = (\<lambda>w. let w1 = w\<lparr>opno := Suc (opno w)\<rparr> in
     case faults w (opno w) of
       NoFault \<Rightarrow> m w1
     | FailBefore \<Rightarrow> (Inl ErrIO, w1)
     | FailAfter \<Rightarrow> (Inl ErrIO, snd (m w1)))"

text \<open>A Go slice index that panics out of range.\<close>

definition idx :: "'a list \<Rightarrow> nat \<Rightarrow> ('w, 'a) prog" where
  "idx xs i = (if i < length xs then ret (xs ! i) else throw (Panic ''index out of range''))"

definition reliable :: "'e env_scheme \<Rightarrow> bool" where
  "reliable w \<longleftrightarrow> (\<forall>n. faults w n = NoFault)"

subsection \<open>Evaluation\<close>

named_theorems prog_simps "one-step evaluation of programs"

lemma ret_app [simp, prog_simps]: "ret a w = (Inr a, w)"
  by (simp add: ret_def)

lemma throw_app [simp, prog_simps]: "throw e w = (Inl e, w)"
  by (simp add: throw_def)

lemma gets_app [simp, prog_simps]: "gets f w = (Inr (f w), w)"
  by (simp add: gets_def)

lemma modifyM_app [simp, prog_simps]: "modifyM f w = (Inr (), f w)"
  by (simp add: modifyM_def)

lemma liftE_app [simp, prog_simps]: "liftE r w = (r, w)"
  by (simp add: liftE_def)

lemma bindM_Inr [prog_simps]: "m w = (Inr a, w') \<Longrightarrow> bindM m f w = f a w'"
  by (simp add: bindM_def)

lemma bindM_Inl [prog_simps]: "m w = (Inl e, w') \<Longrightarrow> bindM m f w = (Inl e, w')"
  by (simp add: bindM_def)

lemma bindM_ret [simp]: "bindM (ret a) f = f a"
  by (simp add: bindM_def ret_def)

lemma bindM_throw [simp]: "bindM (throw e) f = throw e"
  by (simp add: bindM_def throw_def)

lemma bindM_ret_right [simp]: "bindM m ret = m"
  by (rule ext) (auto simp: bindM_def split: prod.splits sum.splits)

lemma bindM_assoc: "bindM (bindM m f) g = bindM m (\<lambda>a. bindM (f a) g)"
  by (rule ext) (simp add: bindM_def split: prod.splits sum.splits)

lemma bindM_gets [simp]: "bindM (gets f) g = (\<lambda>w. g (f w) w)"
  by (rule ext) (simp add: bindM_def)

lemma bindM_modifyM [simp]: "bindM (modifyM f) g = (\<lambda>w. g () (f w))"
  by (rule ext) (simp add: bindM_def)

lemma bindM_eq_Inr:
  "bindM m f w = (Inr b, w'') \<longleftrightarrow> (\<exists>a w'. m w = (Inr a, w') \<and> f a w' = (Inr b, w''))"
  by (auto simp: bindM_def split: prod.splits sum.splits)

lemma tryM_Inr: "m w = (Inr a, w') \<Longrightarrow> tryM m w = (Inr (Inr a), w')"
  by (simp add: tryM_def)

lemma tryM_Inr_eq: "tryM m w = (Inr (Inr a), w') \<longleftrightarrow> m w = (Inr a, w')"
  by (simp add: tryM_def split: prod.splits sum.splits err.splits)

lemma tryM_Inl_eq: "tryM m w = (Inr (Inl e), w') \<longleftrightarrow> m w = (Inl e, w') \<and> (\<forall>s. e \<noteq> Panic s)"
  by (cases "m w"; cases "fst (m w)"; cases e) (auto simp: tryM_def split: err.splits)

text \<open>A call whose error is looked at: both ways to a result.\<close>

lemma bind_tryM_Inr:
  "bindM (tryM m) (\<lambda>r. case r of Inl e \<Rightarrow> f e | Inr a \<Rightarrow> g a) w = (Inr b, w'') \<longleftrightarrow>
   (\<exists>a w'. m w = (Inr a, w') \<and> g a w' = (Inr b, w'')) \<or>
   (\<exists>e w'. m w = (Inl e, w') \<and> (\<forall>s. e \<noteq> Panic s) \<and> f e w' = (Inr b, w''))"
  by (auto simp: bindM_def tryM_def split: prod.splits sum.splits err.splits)

lemma io_NoFault:
  "faults w (opno w) = NoFault \<Longrightarrow> io m w = m (w\<lparr>opno := Suc (opno w)\<rparr>)"
  by (simp add: io_def)

lemma io_reliable: "reliable w \<Longrightarrow> io m w = m (w\<lparr>opno := Suc (opno w)\<rparr>)"
  by (simp add: io_def reliable_def)

lemma io_Inr:
  "io m w = (Inr a, w') \<longleftrightarrow> faults w (opno w) = NoFault \<and> m (w\<lparr>opno := Suc (opno w)\<rparr>) = (Inr a, w')"
  by (auto simp: io_def Let_def split: fault.splits)

lemma reliable_opno [simp]: "reliable (w\<lparr>opno := n\<rparr>) = reliable w"
  by (simp add: reliable_def)

lemma idx_in [simp]: "i < length xs \<Longrightarrow> idx xs i = ret (xs ! i)"
  by (simp add: idx_def)

lemma idx_Inr: "idx xs i w = (Inr a, w') \<longleftrightarrow> i < length xs \<and> a = xs ! i \<and> w' = w"
  by (auto simp: idx_def)

lemma forM_append: "forM (xs @ ys) f = thenM (forM xs f) (forM ys f)"
  by (induction xs) (simp_all add: bindM_assoc del: ret_app)

section \<open>Hoare triples\<close>

definition hoare ::
  "('w \<Rightarrow> bool) \<Rightarrow> ('w, 'a) prog \<Rightarrow> ('a \<Rightarrow> 'w \<Rightarrow> bool) \<Rightarrow> (err \<Rightarrow> 'w \<Rightarrow> bool) \<Rightarrow> bool" where
  "hoare P m Q E \<longleftrightarrow> (\<forall>w. P w \<longrightarrow>
     (case m w of (Inl e, w') \<Rightarrow> E e w' | (Inr a, w') \<Rightarrow> Q a w'))"

definition preserves :: "('w \<Rightarrow> bool) \<Rightarrow> ('w, 'a) prog \<Rightarrow> bool" where
  "preserves P m \<longleftrightarrow> (\<forall>w. P w \<longrightarrow> P (snd (m w)))"

named_theorems hoare_rules "rules of the program logic"
named_theorems preserves_rules "preservation of an invariant, rule by rule"

lemma hoareI:
  "(\<And>w a w'. P w \<Longrightarrow> m w = (Inr a, w') \<Longrightarrow> Q a w') \<Longrightarrow>
   (\<And>w e w'. P w \<Longrightarrow> m w = (Inl e, w') \<Longrightarrow> E e w') \<Longrightarrow> hoare P m Q E"
  by (auto simp: hoare_def split: prod.splits sum.splits)

lemma hoareD_Inr: "hoare P m Q E \<Longrightarrow> P w \<Longrightarrow> m w = (Inr a, w') \<Longrightarrow> Q a w'"
  by (auto simp: hoare_def)

lemma hoareD_Inl: "hoare P m Q E \<Longrightarrow> P w \<Longrightarrow> m w = (Inl e, w') \<Longrightarrow> E e w'"
  by (auto simp: hoare_def)

lemma hoare_weaken:
  "hoare P' m Q' E' \<Longrightarrow> (\<And>w. P w \<Longrightarrow> P' w) \<Longrightarrow> (\<And>a w. Q' a w \<Longrightarrow> Q a w) \<Longrightarrow>
   (\<And>e w. E' e w \<Longrightarrow> E e w) \<Longrightarrow> hoare P m Q E"
  unfolding hoare_def by (fastforce split: prod.splits sum.splits)

lemma hoare_bind [hoare_rules]:
  "hoare P m R E \<Longrightarrow> (\<And>a. hoare (R a) (f a) Q E) \<Longrightarrow> hoare P (bindM m f) Q E"
  unfolding hoare_def bindM_def by (fastforce split: prod.splits sum.splits)

lemma hoare_ret [hoare_rules]: "hoare (Q a) (ret a) Q E"
  by (simp add: hoare_def)

lemma hoare_throw [hoare_rules]: "hoare (E e) (throw e) Q E"
  by (simp add: hoare_def)

lemma hoare_forM:
  "(\<And>x. x \<in> set xs \<Longrightarrow> hoare P (f x) (\<lambda>_. P) E) \<Longrightarrow> hoare P (forM xs f) (\<lambda>_. P) E"
proof (induction xs)
  case Nil
  then show ?case by (simp add: hoare_def)
next
  case (Cons x xs)
  then show ?case by (auto intro!: hoare_bind)
qed

lemma preservesD: "preserves P m \<Longrightarrow> P w \<Longrightarrow> m w = (r, w') \<Longrightarrow> P w'"
  by (metis preserves_def snd_conv)

lemma preservesI: "(\<And>w r w'. P w \<Longrightarrow> m w = (r, w') \<Longrightarrow> P w') \<Longrightarrow> preserves P m"
  by (metis preserves_def prod.collapse)

lemma preserves_ret [preserves_rules, intro!]: "preserves P (ret a)"
  by (simp add: preserves_def)

lemma preserves_throw [preserves_rules, intro!]: "preserves P (throw e)"
  by (simp add: preserves_def)

lemma preserves_gets [preserves_rules, intro!]: "preserves P (gets f)"
  by (simp add: preserves_def)

lemma preserves_liftE [preserves_rules, intro!]: "preserves P (liftE r)"
  by (simp add: preserves_def)

lemma preserves_idx [preserves_rules, intro!]: "preserves P (idx xs i)"
  by (simp add: idx_def preserves_ret preserves_throw)

lemma preserves_bind [preserves_rules]:
  "preserves P m \<Longrightarrow> (\<And>a. preserves P (f a)) \<Longrightarrow> preserves P (bindM m f)"
  unfolding preserves_def bindM_def
  by (fastforce split: prod.splits sum.splits)

lemma preserves_tryM [preserves_rules]: "preserves P m \<Longrightarrow> preserves P (tryM m)"
  unfolding preserves_def tryM_def
  by (fastforce split: prod.splits sum.splits err.splits)

lemma preserves_forM [preserves_rules]:
  "(\<And>x. x \<in> set xs \<Longrightarrow> preserves P (f x)) \<Longrightarrow> preserves P (forM xs f)"
  by (induction xs) (auto intro!: preserves_bind)

lemma preserves_foldM [preserves_rules]:
  "(\<And>x c. x \<in> set xs \<Longrightarrow> preserves P (f x c)) \<Longrightarrow> preserves P (foldM f xs c)"
  by (induction xs arbitrary: c) (auto intro!: preserves_bind)

lemma preserves_io:
  "(\<And>w. P w \<Longrightarrow> P (w\<lparr>opno := Suc (opno w)\<rparr>)) \<Longrightarrow> preserves P m \<Longrightarrow> preserves P (io m)"
  by (auto simp: preserves_def io_def Let_def split: fault.splits)

lemma preserves_if [preserves_rules]:
  "(b \<Longrightarrow> preserves P m) \<Longrightarrow> (\<not> b \<Longrightarrow> preserves P n) \<Longrightarrow> preserves P (if b then m else n)"
  by simp

lemma preserves_case_sum [preserves_rules]:
  "(\<And>e. preserves P (f e)) \<Longrightarrow> (\<And>a. preserves P (g a)) \<Longrightarrow> preserves P (case r of Inl e \<Rightarrow> f e | Inr a \<Rightarrow> g a)"
  by (simp split: sum.split)

lemma preserves_case_option [preserves_rules]:
  "preserves P m \<Longrightarrow> (\<And>a. preserves P (g a)) \<Longrightarrow> preserves P (case r of None \<Rightarrow> m | Some a \<Rightarrow> g a)"
  by (simp split: option.split)

lemma preserves_case_prod [preserves_rules]:
  "(\<And>a b. preserves P (g a b)) \<Longrightarrow> preserves P (case p of (a, b) \<Rightarrow> g a b)"
  by (simp split: prod.split)

section \<open>Strings\<close>

definition hasPrefix :: "string \<Rightarrow> string \<Rightarrow> bool" where
  "hasPrefix s p \<longleftrightarrow> take (length p) s = p"

definition trimPrefix :: "string \<Rightarrow> string \<Rightarrow> string" where
  "trimPrefix s p = (if hasPrefix s p then drop (length p) s else s)"

fun join :: "string \<Rightarrow> string list \<Rightarrow> string" where
  "join sep [] = []"
| "join sep [s] = s"
| "join sep (s # t # ss) = s @ sep @ join sep (t # ss)"

text \<open>\<^verbatim>\<open>strings.Split\<close> with a separator of one character.\<close>

fun splitOn :: "char \<Rightarrow> string \<Rightarrow> string list" where
  "splitOn c [] = [[]]"
| "splitOn c (x # xs) =
     (if x = c then [] # splitOn c xs
      else case splitOn c xs of [] \<Rightarrow> [[x]] | s # ss \<Rightarrow> (x # s) # ss)"

text \<open>\<^verbatim>\<open>strings.LastIndex\<close> of one character: \<open>None\<close> for -1.\<close>

fun lastIndex :: "char \<Rightarrow> string \<Rightarrow> nat option" where
  "lastIndex c [] = None"
| "lastIndex c (x # xs) =
     (case lastIndex c xs of Some n \<Rightarrow> Some (Suc n) | None \<Rightarrow> if x = c then Some 0 else None)"

definition digitChar :: "nat \<Rightarrow> char" where
  "digitChar d = char_of (48 + d)"

fun showNat :: "nat \<Rightarrow> string" where
  "showNat n = (if n < 10 then [digitChar n] else showNat (n div 10) @ [digitChar (n mod 10)])"

declare showNat.simps [simp del]

definition itoa :: "int \<Rightarrow> string" where
  "itoa i = (if i < 0 then CHR ''-'' # showNat (nat (- i)) else showNat (nat i))"

definition digitVal :: "char \<Rightarrow> nat option" where
  "digitVal c = (let n = of_char c :: nat in if 48 \<le> n \<and> n < 58 then Some (n - 48) else None)"

fun readNat :: "nat \<Rightarrow> string \<Rightarrow> nat option" where
  "readNat acc [] = Some acc"
| "readNat acc (c # cs) = (case digitVal c of None \<Rightarrow> None | Some d \<Rightarrow> readNat (10 * acc + d) cs)"

text \<open>\<^verbatim>\<open>strconv.Atoi\<close>: an optional sign and at least one digit.\<close>

definition atoi :: "string \<Rightarrow> int option" where
  "atoi s = (case s of
     [] \<Rightarrow> None
   | c # cs \<Rightarrow>
       if c = CHR ''-'' then (if cs = [] then None else map_option (\<lambda>n. - int n) (readNat 0 cs))
       else if c = CHR ''+'' then (if cs = [] then None else map_option int (readNat 0 cs))
       else map_option int (readNat 0 s))"

lemma hasPrefix_append [simp]: "hasPrefix (p @ s) p"
  by (simp add: hasPrefix_def)

lemma trimPrefix_append [simp]: "trimPrefix (p @ s) p = s"
  by (simp add: trimPrefix_def)

lemma splitOn_not_Nil [simp]: "splitOn c s \<noteq> []"
  by (induction s) (auto split: list.splits)

lemma splitOn_append_sep: "c \<notin> set s \<Longrightarrow> splitOn c (s @ c # t) = s # splitOn c t"
  by (induction s) auto

lemma splitOn_none: "c \<notin> set s \<Longrightarrow> splitOn c s = [s]"
  by (induction s) auto

lemma lastIndex_none: "c \<notin> set s \<Longrightarrow> lastIndex c s = None"
  by (induction s) auto

lemma lastIndex_append: "c \<notin> set t \<Longrightarrow> lastIndex c (s @ c # t) = Some (length s)"
  by (induction s) (auto simp: lastIndex_none)

lemma digitVal_digitChar: "d < 10 \<Longrightarrow> digitVal (digitChar d) = Some d"
  by (simp add: digitVal_def digitChar_def Let_def)

lemma of_char_digitChar: "d < 10 \<Longrightarrow> of_char (digitChar d) = (48 + d :: nat)"
  by (simp add: digitChar_def)

lemma digitChar_eq:
  "d < 10 \<Longrightarrow> of_char c \<notin> {48::nat..<58} \<Longrightarrow> c \<noteq> digitChar d"
  by (auto simp: of_char_digitChar)

lemma showNat_no_char: "of_char c \<notin> {48::nat..<58} \<Longrightarrow> c \<notin> set (showNat n)"
proof (induction n rule: showNat.induct)
  case (1 n)
  then show ?case
    by (subst showNat.simps) (simp add: digitChar_eq)
qed

lemma showNat_not_Nil [simp]: "showNat n \<noteq> []"
  by (subst showNat.simps) simp

lemma readNat_append: "readNat acc (s @ t) = Option.bind (readNat acc s) (\<lambda>a. readNat a t)"
  by (induction acc s rule: readNat.induct) (auto split: option.splits)

lemma readNat_showNat: "readNat 0 (showNat n) = Some n"
proof (induction n rule: showNat.induct)
  case (1 n)
  show ?case
  proof (cases "n < 10")
    case True
    then show ?thesis by (subst showNat.simps) (simp add: digitVal_digitChar)
  next
    case False
    with 1 have "readNat 0 (showNat (n div 10)) = Some (n div 10)" by simp
    with False show ?thesis
      by (subst showNat.simps) (simp add: readNat_append digitVal_digitChar)
  qed
qed

lemma showNat_inject [simp]: "showNat m = showNat n \<longleftrightarrow> m = n"
  using readNat_showNat by (metis option.inject)

lemma minus_notin_showNat: "CHR ''-'' \<notin> set (showNat n)"
  by (rule showNat_no_char) simp

lemma plus_notin_showNat: "CHR ''+'' \<notin> set (showNat n)"
  by (rule showNat_no_char) simp

lemma itoa_no_colon: "CHR '':'' \<notin> set (itoa i)"
  by (simp add: itoa_def showNat_no_char)

lemma atoi_itoa [simp]: "atoi (itoa i) = Some i"
proof (cases "i < 0")
  case True
  then show ?thesis by (simp add: atoi_def itoa_def readNat_showNat)
next
  case False
  then obtain c cs where cs: "showNat (nat i) = c # cs"
    by (metis neq_Nil_conv showNat_not_Nil)
  then have "c \<noteq> CHR ''-''" and "c \<noteq> CHR ''+''"
    using minus_notin_showNat [of "nat i"] plus_notin_showNat [of "nat i"] by auto
  moreover have "readNat 0 (c # cs) = Some (nat i)" using cs readNat_showNat by metis
  ultimately show ?thesis using False cs by (simp add: atoi_def itoa_def del: readNat.simps)
qed

lemma itoa_inject [simp]: "itoa i = itoa j \<longleftrightarrow> i = j"
  using atoi_itoa by (metis option.inject)

text \<open>Two texts split at their last colon.\<close>

lemma append_sep_inject:
  fixes s t s' t' :: string
  assumes "c \<notin> set t" and "c \<notin> set t'" and "s @ c # t = s' @ c # t'"
  shows "s = s' \<and> t = t'"
proof -
  have "length s = length s'"
    using assms lastIndex_append [of c t s] lastIndex_append [of c t' s'] by simp
  then show ?thesis using assms(3) by simp
qed

section \<open>Maps as association lists\<close>

text \<open>
  A Go map that is iterated is an association list: its order is the order of the
  iteration, which Go leaves open, so theorems quantify over the list.
\<close>

abbreviation distinct_keys :: "('k \<times> 'v) list \<Rightarrow> bool" where
  "distinct_keys m \<equiv> distinct (map fst m)"

definition mapGet :: "'v \<Rightarrow> ('k \<times> 'v) list \<Rightarrow> 'k \<Rightarrow> 'v" where
  "mapGet d m k = (case map_of m k of None \<Rightarrow> d | Some v \<Rightarrow> v)"

lemma map_of_update [simp]: "map_of (AList.update k v m) = (map_of m)(k \<mapsto> v)"
  by (rule update_conv')

lemma mapGet_update [simp]:
  "mapGet d (AList.update k v m) k' = (if k' = k then v else mapGet d m k')"
  by (simp add: mapGet_def)

lemma mapGet_Nil [simp]: "mapGet d [] k = d"
  by (simp add: mapGet_def)

text \<open>A map from string keys, changed by a reply: the new values of the changed and inserted rows, without the deleted ones.\<close>

definition applyReply :: "string list \<Rightarrow> (string \<rightharpoonup> 'v) \<Rightarrow> (string \<rightharpoonup> 'v) \<Rightarrow> string \<rightharpoonup> 'v" where
  "applyReply dels changed old = (old ++ changed) |` (- set dels)"

end
