(* ===== verification/Constants.thy ===== *)
theory Constants
  imports Prelude
begin

text \<open>
  The constants of \<^verbatim>\<open>protocol/constant/constant.go\<close> and
  \<^verbatim>\<open>protocol/constant/platform_id_to_name.go\<close> the modelled code uses, under their Go names
  with a lower-case first letter where HOL reserves the capital one for a constructor.
  They are abbreviations: a proof sees the number.
\<close>

section \<open>Content types, sessions and message status\<close>

abbreviation (input) Text :: int where "Text \<equiv> 101"
abbreviation (input) Revoke :: int where "Revoke \<equiv> 111"
abbreviation (input) Quote :: int where "Quote \<equiv> 114"
abbreviation (input) Stream :: int where "Stream \<equiv> 123"
abbreviation (input) NotificationBegin :: int where "NotificationBegin \<equiv> 1000"
abbreviation (input) MsgRevokeNotification :: int where "MsgRevokeNotification \<equiv> 2101"
abbreviation (input) DeleteMsgsNotification :: int where "DeleteMsgsNotification \<equiv> 2102"
abbreviation (input) ConversationUnreadNotification :: int where "ConversationUnreadNotification \<equiv> 1702"
abbreviation (input) ClearConversationNotification :: int where "ClearConversationNotification \<equiv> 1703"
abbreviation (input) HasReadReceipt :: int where "HasReadReceipt \<equiv> 2200"
abbreviation (input) NotificationEnd :: int where "NotificationEnd \<equiv> 5000"

abbreviation (input) MsgNormal :: int where "MsgNormal \<equiv> 1"
abbreviation (input) MsgDeleted :: int where "MsgDeleted \<equiv> 4"
abbreviation (input) MsgStatusSending :: int where "MsgStatusSending \<equiv> 1"
abbreviation (input) MsgStatusSendSuccess :: int where "MsgStatusSendSuccess \<equiv> 2"
abbreviation (input) MsgStatusSendFailed :: int where "MsgStatusSendFailed \<equiv> 3"
abbreviation (input) MsgStatusHasDeleted :: int where "MsgStatusHasDeleted \<equiv> 4"

abbreviation (input) UserMsgType :: int where "UserMsgType \<equiv> 100"
abbreviation (input) SysMsgType :: int where "SysMsgType \<equiv> 200"

abbreviation (input) SingleChatType :: int where "SingleChatType \<equiv> 1"
abbreviation (input) WriteGroupChatType :: int where "WriteGroupChatType \<equiv> 2"
abbreviation (input) ReadGroupChatType :: int where "ReadGroupChatType \<equiv> 3"
abbreviation (input) NotificationChatType :: int where "NotificationChatType \<equiv> 4"

section \<open>Tokens and multi-terminal login\<close>

abbreviation (input) NormalToken :: int where "NormalToken \<equiv> 0"
abbreviation (input) InValidToken :: int where "InValidToken \<equiv> 1"
abbreviation (input) KickedToken :: int where "KickedToken \<equiv> 2"
abbreviation (input) ExpiredToken :: int where "ExpiredToken \<equiv> 3"
abbreviation (input) DefalutNotKick :: int where "DefalutNotKick \<equiv> 0"
abbreviation (input) AllLoginButSameTermKick :: int where "AllLoginButSameTermKick \<equiv> 1"
abbreviation (input) AllLoginButSameClassKick :: int where "AllLoginButSameClassKick \<equiv> 4"
abbreviation (input) PCAndOther :: int where "PCAndOther \<equiv> 5"

section \<open>Receive options, groups and roles\<close>

abbreviation (input) ReceiveMessage :: int where "ReceiveMessage \<equiv> 0"
abbreviation (input) NotReceiveMessage :: int where "NotReceiveMessage \<equiv> 1"
abbreviation (input) ReceiveNotNotifyMessage :: int where "ReceiveNotNotifyMessage \<equiv> 2"

abbreviation (input) SuperGroup :: int where "SuperGroup \<equiv> 1"

abbreviation (input) AtAllString :: string where "AtAllString \<equiv> ''AtAllTag''"

section \<open>Keys of the option map\<close>

abbreviation (input) kIsHistory :: string where "kIsHistory \<equiv> ''history''"
abbreviation (input) kIsPersistent :: string where "kIsPersistent \<equiv> ''persistent''"
abbreviation (input) kIsOfflinePush :: string where "kIsOfflinePush \<equiv> ''offlinePush''"
abbreviation (input) kIsUnreadCount :: string where "kIsUnreadCount \<equiv> ''unreadCount''"
abbreviation (input) kIsConversationUpdate :: string where "kIsConversationUpdate \<equiv> ''conversationUpdate''"
abbreviation (input) kIsSenderSync :: string where "kIsSenderSync \<equiv> ''senderSync''"
abbreviation (input) kIsNotPrivate :: string where "kIsNotPrivate \<equiv> ''notPrivate''"
abbreviation (input) kIsSenderConversationUpdate :: string where
  "kIsSenderConversationUpdate \<equiv> ''senderConversationUpdate''"
abbreviation (input) kIsReactionFromCache :: string where "kIsReactionFromCache \<equiv> ''reactionFromCache''"
abbreviation (input) kIsNotNotification :: string where "kIsNotNotification \<equiv> ''isNotNotification''"
abbreviation (input) kIsSendMsg :: string where "kIsSendMsg \<equiv> ''isSendMsg''"

section \<open>Platforms\<close>

abbreviation (input) IOSPlatformID :: int where "IOSPlatformID \<equiv> 1"
abbreviation (input) AndroidPlatformID :: int where "AndroidPlatformID \<equiv> 2"
abbreviation (input) WindowsPlatformID :: int where "WindowsPlatformID \<equiv> 3"
abbreviation (input) OSXPlatformID :: int where "OSXPlatformID \<equiv> 4"
abbreviation (input) WebPlatformID :: int where "WebPlatformID \<equiv> 5"
abbreviation (input) MiniWebPlatformID :: int where "MiniWebPlatformID \<equiv> 6"
abbreviation (input) LinuxPlatformID :: int where "LinuxPlatformID \<equiv> 7"
abbreviation (input) AndroidPadPlatformID :: int where "AndroidPadPlatformID \<equiv> 8"
abbreviation (input) IPadPlatformID :: int where "IPadPlatformID \<equiv> 9"
abbreviation (input) AdminPlatformID :: int where "AdminPlatformID \<equiv> 10"

text \<open>The maps of the platform file; a missing key of a Go map reads as the empty string or 0.\<close>

definition PlatformID2Name :: "(int \<times> string) list" where
  "PlatformID2Name = [
    (IOSPlatformID, ''IOS''), (AndroidPlatformID, ''Android''), (WindowsPlatformID, ''Windows''),
    (OSXPlatformID, ''OSX''), (WebPlatformID, ''Web''), (MiniWebPlatformID, ''MiniWeb''),
    (LinuxPlatformID, ''Linux''), (AndroidPadPlatformID, ''APad''), (IPadPlatformID, ''IPad''),
    (AdminPlatformID, ''Admin'')]"

definition PlatformName2ID :: "(string \<times> int) list" where
  "PlatformName2ID = [
    (''IOS'', IOSPlatformID), (''Android'', AndroidPlatformID), (''Windows'', WindowsPlatformID),
    (''OSX'', OSXPlatformID), (''Web'', WebPlatformID), (''MiniWeb'', MiniWebPlatformID),
    (''Linux'', LinuxPlatformID), (''APad'', AndroidPadPlatformID), (''IPad'', IPadPlatformID),
    (''Admin'', AdminPlatformID)]"

definition PlatformName2class :: "(string \<times> string) list" where
  "PlatformName2class = [
    (''IOS'', ''Mobile''), (''Android'', ''Mobile''), (''MiniWeb'', ''MiniWeb''),
    (''Web'', ''Web''), (''Windows'', ''PC''), (''OSX'', ''PC''), (''Linux'', ''PC''),
    (''APad'', ''Pad''), (''IPad'', ''Pad''), (''Admin'', ''Admin'')]"

definition PlatformID2class :: "(int \<times> string) list" where
  "PlatformID2class = [
    (IOSPlatformID, ''Mobile''), (AndroidPlatformID, ''Mobile''), (MiniWebPlatformID, ''MiniWeb''),
    (WebPlatformID, ''Web''), (WindowsPlatformID, ''PC''), (OSXPlatformID, ''PC''),
    (LinuxPlatformID, ''PC''), (AndroidPadPlatformID, ''Pad''), (IPadPlatformID, ''Pad''),
    (AdminPlatformID, ''Admin'')]"

definition PlatformIDToName :: "int \<Rightarrow> string" where
  "PlatformIDToName num = mapGet '''' PlatformID2Name num"

definition PlatformNameToID :: "string \<Rightarrow> int" where
  "PlatformNameToID name = mapGet 0 PlatformName2ID name"

definition PlatformNameToClass :: "string \<Rightarrow> string" where
  "PlatformNameToClass name = mapGet '''' PlatformName2class name"

definition PlatformIDToClass :: "int \<Rightarrow> string" where
  "PlatformIDToClass num = mapGet '''' PlatformID2class num"

lemma platform_name_roundtrip:
  "map_of PlatformID2Name p = Some n \<Longrightarrow> PlatformNameToID n = p"
  by (auto simp: PlatformID2Name_def PlatformNameToID_def PlatformName2ID_def mapGet_def
      split: if_splits)

lemma platform_class_consistent: "PlatformNameToClass (PlatformIDToName p) = PlatformIDToClass p"
  by (simp add: PlatformNameToClass_def PlatformIDToName_def PlatformIDToClass_def
      PlatformID2Name_def PlatformName2class_def PlatformID2class_def mapGet_def)

end
