(* ===== verification/Msg_Options.thy ===== *)
theory Msg_Options
  imports Constants
begin

text \<open>
  The option map of a message, \<^verbatim>\<open>server/pkg/msgprocessor/options.go\<close>. A Go map is
  \<open>None\<close> when it is nil: reading it is a miss, writing to it panics. A missing key reads as
  true (\<^verbatim>\<open>Options.Is\<close>).
\<close>

type_synonym options = "(string \<rightharpoonup> bool) option"
type_synonym options_opt = "options \<Rightarrow> err + options"

definition setOption :: "string \<Rightarrow> bool \<Rightarrow> options_opt" where
  "setOption k b o' = (case o' of
     None \<Rightarrow> Inl (Panic ''assignment to entry in nil map'')
   | Some m \<Rightarrow> Inr (Some (m(k \<mapsto> b))))"

primrec applyOpts :: "options_opt list \<Rightarrow> options_opt" where
  "applyOpts [] o' = Inr o'"
| "applyOpts (f # fs) o' = (case f o' of Inl e \<Rightarrow> Inl e | Inr o2 \<Rightarrow> applyOpts fs o2)"

definition NewOptions :: "options_opt list \<Rightarrow> err + options" where
  "NewOptions opts = applyOpts opts (Some [
     kIsNotNotification \<mapsto> False,
     kIsSendMsg \<mapsto> False,
     kIsHistory \<mapsto> False,
     kIsPersistent \<mapsto> False,
     kIsOfflinePush \<mapsto> False,
     kIsUnreadCount \<mapsto> False,
     kIsConversationUpdate \<mapsto> False,
     kIsSenderSync \<mapsto> True,
     kIsNotPrivate \<mapsto> False,
     kIsSenderConversationUpdate \<mapsto> False,
     kIsReactionFromCache \<mapsto> False])"

text \<open>The source builds a map with one entry and returns another, empty one.\<close>

definition NewMsgOptions :: options where
  "NewMsgOptions = Some Map.empty"

definition WithOptions :: "options \<Rightarrow> options_opt list \<Rightarrow> err + options" where
  "WithOptions options' opts = applyOpts opts options'"

definition WithNotNotification :: "bool \<Rightarrow> options_opt" where
  "WithNotNotification b = setOption kIsNotNotification b"

definition WithSendMsg :: "bool \<Rightarrow> options_opt" where
  "WithSendMsg b = setOption kIsSendMsg b"

definition WithHistory :: "bool \<Rightarrow> options_opt" where
  "WithHistory b = setOption kIsHistory b"

definition WithPersistent :: options_opt where
  "WithPersistent = setOption kIsPersistent True"

definition WithOfflinePush :: "bool \<Rightarrow> options_opt" where
  "WithOfflinePush b = setOption kIsOfflinePush b"

definition WithUnreadCount :: "bool \<Rightarrow> options_opt" where
  "WithUnreadCount b = setOption kIsUnreadCount b"

definition WithConversationUpdate :: options_opt where
  "WithConversationUpdate = setOption kIsConversationUpdate True"

definition WithSenderSync :: options_opt where
  "WithSenderSync = setOption kIsSenderSync True"

definition WithNotPrivate :: options_opt where
  "WithNotPrivate = setOption kIsNotPrivate True"

definition WithSenderConversationUpdate :: options_opt where
  "WithSenderConversationUpdate = setOption kIsSenderConversationUpdate True"

definition WithReactionFromCache :: options_opt where
  "WithReactionFromCache = setOption kIsReactionFromCache True"

definition Options_Is :: "options \<Rightarrow> string \<Rightarrow> bool" where
  "Options_Is o' notification = (case o' of
     None \<Rightarrow> True
   | Some m \<Rightarrow> (case m notification of None \<Rightarrow> True | Some v \<Rightarrow> v))"

definition IsNotNotification :: "options \<Rightarrow> bool" where
  "IsNotNotification o' = Options_Is o' kIsNotNotification"

definition IsSendMsg :: "options \<Rightarrow> bool" where
  "IsSendMsg o' = Options_Is o' kIsSendMsg"

definition IsHistory :: "options \<Rightarrow> bool" where
  "IsHistory o' = Options_Is o' kIsHistory"

definition IsPersistent :: "options \<Rightarrow> bool" where
  "IsPersistent o' = Options_Is o' kIsPersistent"

definition IsOfflinePush :: "options \<Rightarrow> bool" where
  "IsOfflinePush o' = Options_Is o' kIsOfflinePush"

definition IsUnreadCount :: "options \<Rightarrow> bool" where
  "IsUnreadCount o' = Options_Is o' kIsUnreadCount"

definition IsConversationUpdate :: "options \<Rightarrow> bool" where
  "IsConversationUpdate o' = Options_Is o' kIsConversationUpdate"

definition IsSenderSync :: "options \<Rightarrow> bool" where
  "IsSenderSync o' = Options_Is o' kIsSenderSync"

definition IsNotPrivate :: "options \<Rightarrow> bool" where
  "IsNotPrivate o' = Options_Is o' kIsNotPrivate"

definition IsSenderConversationUpdate :: "options \<Rightarrow> bool" where
  "IsSenderConversationUpdate o' = Options_Is o' kIsSenderConversationUpdate"

definition IsReactionFromCache :: "options \<Rightarrow> bool" where
  "IsReactionFromCache o' = Options_Is o' kIsReactionFromCache"

lemma Options_Is_setOption:
  "setOption k b o' = Inr o2 \<Longrightarrow> Options_Is o2 k' = (if k' = k then b else Options_Is o' k')"
  by (auto simp: setOption_def Options_Is_def split: option.splits)

lemma Options_Is_nil [simp]: "Options_Is None k"
  by (simp add: Options_Is_def)

end
