(* ===== verification/Msg_Model.thy ===== *)
theory Msg_Model
  imports Msg_Options
begin

text \<open>
  The data of a message and its conversions: the wire message \<^verbatim>\<open>sdkws.MsgData\<close>, the stored
  message and the MongoDB document of \<^verbatim>\<open>server/pkg/common/storage/model/msg.go\<close>, and
  \<^verbatim>\<open>server/pkg/common/convert/msg.go\<close>. A Go pointer is an option (\<open>None\<close> is nil), a byte
  slice is a string. A conversation is cut into documents of \<open>singleGocMsgNum\<close> messages;
  the functions on sequence numbers give the document of a sequence number and its place there.
\<close>

section \<open>Data\<close>

record OfflinePushInfo =
  title :: string
  desc :: string
  opEx :: string
  iOSPushSound :: string
  iOSBadgeCount :: bool

record MsgData =
  sendID :: string
  recvID :: string
  groupID :: string
  clientMsgID :: string
  serverMsgID :: string
  senderPlatformID :: int
  senderNickname :: string
  senderFaceURL :: string
  sessionType :: int
  msgFrom :: int
  contentType :: int
  content :: string
  seq :: int
  sendTime :: int
  createTime :: int
  status :: int
  isRead :: bool
  options :: options
  offlinePushInfo :: "OfflinePushInfo option"
  atUserIDList :: "string list"
  attachedInfo :: string
  ex :: string

record RevokeModel =
  rRole :: int
  rUserID :: string
  rNickname :: string
  rTime :: int

record OfflinePushModel =
  mTitle :: string
  mDesc :: string
  mOpEx :: string
  mIOSPushSound :: string
  mIOSBadgeCount :: bool

record MsgDataModel =
  mSendID :: string
  mRecvID :: string
  mGroupID :: string
  mClientMsgID :: string
  mServerMsgID :: string
  mSenderPlatformID :: int
  mSenderNickname :: string
  mSenderFaceURL :: string
  mSessionType :: int
  mMsgFrom :: int
  mContentType :: int
  mContent :: string
  mSeq :: int
  mSendTime :: int
  mCreateTime :: int
  mStatus :: int
  mIsRead :: bool
  mOptions :: options
  mOfflinePush :: "OfflinePushModel option"
  mAtUserIDList :: "string list"
  mAttachedInfo :: string
  mEx :: string

record MsgInfoModel =
  iMsg :: "MsgDataModel option"
  iRevoke :: "RevokeModel option"
  iDelList :: "string list"
  iIsRead :: bool

record MsgDocModel =
  docID :: string
  docMsgs :: "MsgInfoModel option list"

text \<open>The zero values Go gives a fresh struct.\<close>

definition zeroMsgData :: MsgData where
  "zeroMsgData = \<lparr>sendID = '''', recvID = '''', groupID = '''', clientMsgID = '''', serverMsgID = '''',
     senderPlatformID = 0, senderNickname = '''', senderFaceURL = '''', sessionType = 0, msgFrom = 0,
     contentType = 0, content = '''', seq = 0, sendTime = 0, createTime = 0, status = 0, isRead = False,
     options = None, offlinePushInfo = None, atUserIDList = [], attachedInfo = '''', ex = ''''\<rparr>"

definition zeroMsgDataModel :: MsgDataModel where
  "zeroMsgDataModel = \<lparr>mSendID = '''', mRecvID = '''', mGroupID = '''', mClientMsgID = '''', mServerMsgID = '''',
     mSenderPlatformID = 0, mSenderNickname = '''', mSenderFaceURL = '''', mSessionType = 0, mMsgFrom = 0,
     mContentType = 0, mContent = '''', mSeq = 0, mSendTime = 0, mCreateTime = 0, mStatus = 0,
     mIsRead = False, mOptions = None, mOfflinePush = None, mAtUserIDList = [], mAttachedInfo = '''',
     mEx = ''''\<rparr>"

definition zeroMsgInfo :: MsgInfoModel where
  "zeroMsgInfo = \<lparr>iMsg = None, iRevoke = None, iDelList = [], iIsRead = False\<rparr>"

section \<open>Documents of a conversation\<close>

definition singleGocMsgNum :: int where
  "singleGocMsgNum = 100"

definition IsFull :: "MsgDocModel \<Rightarrow> err + bool" where
  "IsFull m = (if docMsgs m = [] then Inl (Panic ''index out of range'')
     else case last (docMsgs m) of
       None \<Rightarrow> Inl (Panic ''nil pointer dereference'')
     | Some i \<Rightarrow> Inr (iMsg i \<noteq> None))"

definition GetDocIndex :: "int \<Rightarrow> int" where
  "GetDocIndex s = (s - 1) sdiv singleGocMsgNum"

definition indexGen :: "string \<Rightarrow> int \<Rightarrow> string" where
  "indexGen conversationID seqSuffix = conversationID @ '':'' @ itoa seqSuffix"

definition GetDocID :: "string \<Rightarrow> int \<Rightarrow> string" where
  "GetDocID conversationID s = (let seqSuffix = (s - 1) sdiv singleGocMsgNum in
     indexGen conversationID seqSuffix)"

definition BuildDocIDByIndex :: "string \<Rightarrow> int \<Rightarrow> string" where
  "BuildDocIDByIndex conversationID i = conversationID @ '':'' @ itoa i"

definition GetMsgIndex :: "int \<Rightarrow> int" where
  "GetMsgIndex s = (s - 1) smod singleGocMsgNum"

definition GetMinSeq :: "int \<Rightarrow> int" where
  "GetMinSeq i = i * singleGocMsgNum + 1"

definition GetDocIDSeqsMap :: "string \<Rightarrow> int list \<Rightarrow> (string \<times> int list) list" where
  "GetDocIDSeqsMap conversationID seqs =
     foldl (\<lambda>t s. let d = GetDocID conversationID s in
        case map_of t d of
          None \<Rightarrow> AList.update d [s] t
        | Some value \<Rightarrow> AList.update d (value @ [s]) t) [] seqs"

definition GenExceptionMessageBySeqs :: "int list \<Rightarrow> MsgData option list" where
  "GenExceptionMessageBySeqs seqs = map (\<lambda>v. Some (zeroMsgData\<lparr>seq := v\<rparr>)) seqs"

section \<open>Conversions\<close>

definition MsgPb2DB :: "MsgData option \<Rightarrow> MsgDataModel option" where
  "MsgPb2DB msg = (case msg of
     None \<Rightarrow> None
   | Some m \<Rightarrow> Some \<lparr>
       mSendID = sendID m, mRecvID = recvID m, mGroupID = groupID m,
       mClientMsgID = clientMsgID m, mServerMsgID = serverMsgID m,
       mSenderPlatformID = senderPlatformID m, mSenderNickname = senderNickname m,
       mSenderFaceURL = senderFaceURL m, mSessionType = sessionType m, mMsgFrom = msgFrom m,
       mContentType = contentType m, mContent = content m, mSeq = seq m, mSendTime = sendTime m,
       mCreateTime = createTime m, mStatus = status m, mIsRead = False, mOptions = options m,
       mOfflinePush = (case offlinePushInfo m of
           None \<Rightarrow> None
         | Some p \<Rightarrow> Some \<lparr>mTitle = title p, mDesc = desc p, mOpEx = opEx p,
             mIOSPushSound = iOSPushSound p, mIOSBadgeCount = iOSBadgeCount p\<rparr>),
       mAtUserIDList = atUserIDList m, mAttachedInfo = attachedInfo m, mEx = ex m\<rparr>)"

definition MsgDB2Pb :: "MsgDataModel option \<Rightarrow> MsgData option" where
  "MsgDB2Pb msgModel = (case msgModel of
     None \<Rightarrow> None
   | Some m \<Rightarrow> Some \<lparr>
       sendID = mSendID m, recvID = mRecvID m, groupID = mGroupID m,
       clientMsgID = mClientMsgID m, serverMsgID = mServerMsgID m,
       senderPlatformID = mSenderPlatformID m, senderNickname = mSenderNickname m,
       senderFaceURL = mSenderFaceURL m, sessionType = mSessionType m, msgFrom = mMsgFrom m,
       contentType = mContentType m, content = mContent m, seq = mSeq m, sendTime = mSendTime m,
       createTime = mCreateTime m, status = mStatus m,
       isRead = (if mSessionType m = SingleChatType then mIsRead m else False),
       options = mOptions m,
       offlinePushInfo = (case mOfflinePush m of
           None \<Rightarrow> None
         | Some p \<Rightarrow> Some \<lparr>title = mTitle p, desc = mDesc p, opEx = mOpEx p,
             iOSPushSound = mIOSPushSound p, iOSBadgeCount = mIOSBadgeCount p\<rparr>),
       atUserIDList = mAtUserIDList m, attachedInfo = mAttachedInfo m, ex = mEx m\<rparr>)"

section \<open>Lemmas\<close>

lemma singleGocMsgNum_pos [simp]: "0 < singleGocMsgNum"
  by (simp add: singleGocMsgNum_def)

lemma sdiv_nonneg: "0 \<le> a \<Longrightarrow> 0 < b \<Longrightarrow> a sdiv b = a div (b :: int)"
  by (simp add: signed_divide_int_def sgn_if)

lemma smod_nonneg: "0 \<le> a \<Longrightarrow> 0 < b \<Longrightarrow> a smod b = a mod (b :: int)"
  by (auto simp: signed_modulo_int_def sgn_if)

text \<open>For the sequence numbers the server hands out (from 1 on).\<close>

lemma GetDocIndex_pos: "1 \<le> s \<Longrightarrow> GetDocIndex s = (s - 1) div 100"
  by (simp add: GetDocIndex_def sdiv_nonneg singleGocMsgNum_def)

lemma GetMsgIndex_pos: "1 \<le> s \<Longrightarrow> GetMsgIndex s = (s - 1) mod 100"
  by (simp add: GetMsgIndex_def smod_nonneg singleGocMsgNum_def)

lemma GetMsgIndex_bounds: "1 \<le> s \<Longrightarrow> 0 \<le> GetMsgIndex s \<and> GetMsgIndex s < singleGocMsgNum"
  by (simp add: GetMsgIndex_pos singleGocMsgNum_def)

lemma GetDocIndex_nonneg: "1 \<le> s \<Longrightarrow> 0 \<le> GetDocIndex s"
  by (simp add: GetDocIndex_pos)

lemma doc_position: "1 \<le> s \<Longrightarrow> s = GetDocIndex s * singleGocMsgNum + GetMsgIndex s + 1"
  by (simp add: GetDocIndex_pos GetMsgIndex_pos singleGocMsgNum_def)

lemma doc_position_unique:
  assumes "1 \<le> s" and "1 \<le> t" and "GetDocIndex s = GetDocIndex t" and "GetMsgIndex s = GetMsgIndex t"
  shows "s = t"
  using doc_position [OF assms(1)] doc_position [OF assms(2)] assms(3,4) by simp

lemma GetDocID_eq: "GetDocID c s = BuildDocIDByIndex c (GetDocIndex s)"
  by (simp add: GetDocID_def indexGen_def BuildDocIDByIndex_def GetDocIndex_def)

lemma BuildDocIDByIndex_inject [simp]:
  "BuildDocIDByIndex c i = BuildDocIDByIndex c' i' \<longleftrightarrow> c = c' \<and> i = i'"
  using append_sep_inject [of "CHR '':''" "itoa i" "itoa i'" c c']
  by (auto simp: BuildDocIDByIndex_def itoa_no_colon)

lemma GetDocID_inject: "GetDocID c s = GetDocID c' s' \<longleftrightarrow> c = c' \<and> GetDocIndex s = GetDocIndex s'"
  by (simp add: GetDocID_eq)

lemma MsgPb2DB_None [simp]: "MsgPb2DB None = None"
  by (simp add: MsgPb2DB_def)

lemma MsgDB2Pb_None [simp]: "MsgDB2Pb None = None"
  by (simp add: MsgDB2Pb_def)

lemma MsgDB2Pb_seq: "MsgDB2Pb (Some m) = Some m' \<Longrightarrow> seq m' = mSeq m"
  by (auto simp: MsgDB2Pb_def)

lemma MsgDB2Pb_eq_None [simp]: "MsgDB2Pb m = None \<longleftrightarrow> m = None"
  by (simp add: MsgDB2Pb_def split: option.split)

lemma MsgPb2DB_eq_None [simp]: "MsgPb2DB m = None \<longleftrightarrow> m = None"
  by (simp add: MsgPb2DB_def split: option.split)

end
