(* ===== verification/Stores.thy ===== *)
theory Stores
  imports Msg_Model
begin

text \<open>
  The environment the code calls: MongoDB collections, the redis client and rockscache. None of
  these is part of the repository; what is stated here is their documented behaviour, as far as
  the modelled code uses it.

  \<^item> A collection is the list of its documents in natural order. \<^verbatim>\<open>FindOne\<close> returns the first match,
    \<^verbatim>\<open>UpdateOne\<close> changes the first match, an upsert inserts a document when nothing matches,
    \<^verbatim>\<open>Find\<close> returns all matches in order.
  \<^item> The redis deployment is a single node (\<open>None\<close>) or a cluster, given by the slot of a key.
  \<^item> rockscache is a map from keys to cached texts; a tagged key is gone (the client runs with
    \<^verbatim>\<open>StrongConsistency\<close>), expiry may drop a key at any time, so theorems that must survive it are
    stated for every content of the map that agrees with the database.

  The helpers of \<^verbatim>\<open>cache/redis/redis_shard_manager.go\<close> and \<^verbatim>\<open>batch_handler.go\<close> that the caches
  share are modelled here too.
\<close>

section \<open>Collections\<close>

primrec updFirst :: "('d \<Rightarrow> bool) \<Rightarrow> ('d \<Rightarrow> 'd) \<Rightarrow> 'd list \<Rightarrow> 'd list" where
  "updFirst P f [] = []"
| "updFirst P f (x # xs) = (if P x then f x # xs else x # updFirst P f xs)"

definition upsert :: "('d \<Rightarrow> bool) \<Rightarrow> ('d \<Rightarrow> 'd) \<Rightarrow> 'd \<Rightarrow> 'd list \<Rightarrow> 'd list" where
  "upsert P f d xs = (if list_ex P xs then updFirst P f xs else xs @ [d])"

lemma find_append: "List.find P (xs @ ys) = (case List.find P xs of None \<Rightarrow> List.find P ys | Some x \<Rightarrow> Some x)"
  by (induction xs) auto

lemma find_None_list_ex: "List.find P xs = None \<longleftrightarrow> \<not> list_ex P xs"
  by (induction xs) auto

lemma find_Some_props: "List.find P xs = Some x \<Longrightarrow> P x \<and> x \<in> set xs"
  by (induction xs) (auto split: if_splits)

lemma find_updFirst:
  "(\<And>x. P x \<Longrightarrow> P (f x)) \<Longrightarrow> List.find P (updFirst P f xs) = map_option f (List.find P xs)"
  by (induction xs) auto

lemma find_updFirst_other:
  "(\<And>x. P x \<Longrightarrow> Q (f x) = Q x) \<Longrightarrow> (\<And>x. P x \<Longrightarrow> \<not> Q x) \<Longrightarrow>
   List.find Q (updFirst P f xs) = List.find Q xs"
  by (induction xs) auto

lemma find_upsert:
  "(\<And>x. P x \<Longrightarrow> P (f x)) \<Longrightarrow> P d \<Longrightarrow>
   List.find P (upsert P f d xs) = Some (case List.find P xs of None \<Rightarrow> d | Some x \<Rightarrow> f x)"
  by (cases "List.find P xs")
     (simp_all add: upsert_def find_updFirst find_append find_None_list_ex [symmetric])

lemma find_upsert_other:
  "(\<And>x. P x \<Longrightarrow> Q (f x) = Q x) \<Longrightarrow> (\<And>x. P x \<Longrightarrow> \<not> Q x) \<Longrightarrow> \<not> Q d \<Longrightarrow>
   List.find Q (upsert P f d xs) = List.find Q xs"
  by (auto simp: upsert_def find_updFirst_other find_append split: option.split)

lemma length_updFirst [simp]: "length (updFirst P f xs) = length xs"
  by (induction xs) auto

lemma map_updFirst_same: "(\<And>x. P x \<Longrightarrow> g (f x) = g x) \<Longrightarrow> map g (updFirst P f xs) = map g xs"
  by (induction xs) auto

section \<open>The redis client and rockscache\<close>

text \<open>
  A cached text. The JSON text of a message is kept decoded (\<open>CMsg\<close>): nothing in the code looks into
  it but the codec that made it. The empty text stands for a query without an answer.
\<close>

datatype cached = CText string | CMsg MsgInfoModel

definition encInt :: "int \<Rightarrow> cached" where
  "encInt n = CText (itoa n)"

definition decInt :: "cached \<Rightarrow> int option" where
  "decInt v = (case v of CText s \<Rightarrow> atoi s | CMsg _ \<Rightarrow> None)"

definition encMsg :: "MsgInfoModel \<Rightarrow> cached" where
  "encMsg m = CMsg m"

definition decMsg :: "cached \<Rightarrow> MsgInfoModel option" where
  "decMsg v = (case v of CText _ \<Rightarrow> None | CMsg m \<Rightarrow> Some m)"

lemma decInt_encInt [simp]: "decInt (encInt n) = Some n"
  by (simp add: decInt_def encInt_def)

lemma encInt_not_empty [simp]: "encInt n \<noteq> CText ''''"
  by (simp add: encInt_def itoa_def)

lemma encInt_inject [simp]: "encInt m = encInt n \<longleftrightarrow> m = n"
  by (simp add: encInt_def)

lemma decMsg_encMsg [simp]: "decMsg (encMsg m) = Some m"
  by (simp add: decMsg_def encMsg_def)

lemma encMsg_not_empty [simp]: "encMsg m \<noteq> CText ''''"
  by (simp add: encMsg_def)

record store_world = env +
  cluster :: "(string \<Rightarrow> int) option"
  rocks :: "string \<rightharpoonup> cached"

text \<open>\<^verbatim>\<open>groupKeysBySlot\<close>: the slots in the order they first appear.\<close>

definition addSlot :: "int \<Rightarrow> string \<Rightarrow> (int \<times> string list) list \<Rightarrow> (int \<times> string list) list" where
  "addSlot slot key slots = AList.update slot (mapGet [] slots slot @ [key]) slots"

definition groupKeysBySlot ::
  "string list \<Rightarrow> ('e store_world_scheme, (int \<times> string list) list) prog" where
  "groupKeysBySlot keys = (\<lambda>w.
     case cluster w of
       Some slotOf \<Rightarrow>
         if length keys > 1 then
           io (ret (foldl (\<lambda>slots key. addSlot (slotOf key) key slots) [] keys)) w
         else ret [(0, keys)] w
     | None \<Rightarrow> ret [(0, keys)] w)"

text \<open>
  \<^verbatim>\<open>splitIntoBatches\<close>. A batch size of 0 never ends (\<open>None\<close>); a negative one is a slice bound
  out of range, which Go panics on (here the empty result of an impossible slice).
\<close>

partial_function (option) splitIntoBatches_loop ::
  "string list \<Rightarrow> nat \<Rightarrow> string list list \<Rightarrow> string list list option" where
  "splitIntoBatches_loop keys batchSize batches =
     (if batchSize < length keys
      then splitIntoBatches_loop (drop batchSize keys) batchSize (batches @ [take batchSize keys])
      else Some (batches @ [keys]))"

definition splitIntoBatches :: "string list \<Rightarrow> nat \<Rightarrow> string list list option" where
  "splitIntoBatches keys batchSize = splitIntoBatches_loop keys batchSize []"

definition defaultBatchSize :: nat where
  "defaultBatchSize = 50"

text \<open>
  \<^verbatim>\<open>ProcessKeysBySlot\<close> starts every batch of every slot in a group of goroutines and returns
  the first error. Every batch is attempted; the fault plan decides which of them take effect.
\<close>

primrec runAll :: "('w, unit) prog list \<Rightarrow> ('w, unit) prog" where
  "runAll [] = ret ()"
| "runAll (m # ms) = bindM (tryM m) (\<lambda>r. bindM (tryM (runAll ms)) (\<lambda>rs.
     case r of Inl e \<Rightarrow> throw e | Inr _ \<Rightarrow> liftE rs))"

definition ProcessKeysBySlot ::
  "nat \<Rightarrow> string list \<Rightarrow> (int \<Rightarrow> string list \<Rightarrow> ('e store_world_scheme, unit) prog) \<Rightarrow>
   ('e store_world_scheme, unit) prog" where
  "ProcessKeysBySlot batchSize keys processFunc =
     bindM (groupKeysBySlot keys) (\<lambda>slots.
       runAll (concat (map (\<lambda>(slot, singleSlotKeys).
         case splitIntoBatches singleSlotKeys batchSize of
           None \<Rightarrow> []
         | Some batches \<Rightarrow> map (processFunc slot) batches) slots)))"

definition tagAsDeletedBatch2 :: "string list \<Rightarrow> ('e store_world_scheme, unit) prog" where
  "tagAsDeletedBatch2 keys = io (modifyM (\<lambda>w. w\<lparr>rocks := rocks w |` (- set keys)\<rparr>))"

definition DeleteCacheBySlot :: "string list \<Rightarrow> ('e store_world_scheme, unit) prog" where
  "DeleteCacheBySlot keys = (case keys of
     [] \<Rightarrow> ret ()
   | [k] \<Rightarrow> tagAsDeletedBatch2 keys
   | _ \<Rightarrow> ProcessKeysBySlot defaultBatchSize keys (\<lambda>slot ks. tagAsDeletedBatch2 ks))"

text \<open>
  \<open>rocksFetch2\<close> is the client's \<^verbatim>\<open>Fetch2\<close>: a hit returns the cached text; a miss runs the
  query, stores its text and returns it. The second component is the query's own value when
  the query ran (the source keeps it in the captured variable \<^verbatim>\<open>t\<close> and sets \<^verbatim>\<open>write\<close>).
\<close>

definition rocksFetch2 ::
  "string \<Rightarrow> ('e store_world_scheme, cached \<times> 't) prog \<Rightarrow> ('e store_world_scheme, cached \<times> 't option) prog" where
  "rocksFetch2 key fn = bindM (io (gets (\<lambda>w. rocks w key))) (\<lambda>r. case r of
       Some v \<Rightarrow> ret (v, None)
     | None \<Rightarrow> bindM fn (\<lambda>(s, t).
         bindM (io (modifyM (\<lambda>w. w\<lparr>rocks := (rocks w)(key \<mapsto> s)\<rparr>))) (\<lambda>_. ret (s, Some t))))"

text \<open>\<^verbatim>\<open>getCache\<close>; \<open>marshal\<close> and \<open>unmarshal\<close> are the JSON codec of the value type.\<close>

definition getCache ::
  "('t \<Rightarrow> cached) \<Rightarrow> (cached \<Rightarrow> 't option) \<Rightarrow> string \<Rightarrow> ('e store_world_scheme, 't) prog \<Rightarrow>
   ('e store_world_scheme, 't) prog" where
  "getCache marshal unmarshal key fn =
     bindM (rocksFetch2 key (bindM fn (\<lambda>t. ret (marshal t, t)))) (\<lambda>(v, written).
       case written of
         Some t \<Rightarrow> ret t
       | None \<Rightarrow>
           if v = CText '''' then throw ErrRecordNotFound
           else (case unmarshal v of
               None \<Rightarrow> throw (ErrNew ''cache json.Unmarshal failed'')
             | Some t \<Rightarrow> ret t))"

definition rocksRawSet :: "string \<Rightarrow> cached \<Rightarrow> ('e store_world_scheme, unit) prog" where
  "rocksRawSet key v = io (modifyM (\<lambda>w. w\<lparr>rocks := (rocks w)(key \<mapsto> v)\<rparr>))"

text \<open>
  \<open>rocksFetchBatch2\<close> is the client's \<^verbatim>\<open>FetchBatch2\<close>: one query for the indices whose keys are not cached;
  an index the query does not answer is the empty text, which is cached like any other (the client
  gives it a shorter life). The result holds the text of every index.
\<close>

definition rocksFetchBatch2 ::
  "string list \<Rightarrow> (nat list \<Rightarrow> ('e store_world_scheme, (nat \<times> cached) list) prog) \<Rightarrow>
   ('e store_world_scheme, cached list) prog" where
  "rocksFetchBatch2 keys fn = bindM (io (gets (\<lambda>w. map (rocks w) keys))) (\<lambda>hits.
     let idxs = filter (\<lambda>i. hits ! i = None) [0..<length keys] in
     if idxs = [] then ret (map the hits)
     else bindM (fn idxs) (\<lambda>data.
       let missing = map (\<lambda>i. (keys ! i, mapGet (CText '''') data i)) idxs in
       bindM (io (modifyM (\<lambda>w. w\<lparr>rocks := rocks w ++ map_of missing\<rparr>))) (\<lambda>_.
         ret (map (\<lambda>i. case hits ! i of Some v \<Rightarrow> v | None \<Rightarrow> mapGet (CText '''') data i) [0..<length keys]))))"

text \<open>
  \<^verbatim>\<open>batchGetCache2\<close>, with the JSON codec of the value type and the callback \<^verbatim>\<open>BatchCache\<close> (\<open>setId\<close>,
  the identity for a type without it). The results stand in the order of the keys; Go iterates
  a map, so their order means nothing to a caller.
\<close>

definition batchGetCache2 ::
  "('v \<Rightarrow> cached) \<Rightarrow> (cached \<Rightarrow> 'v option) \<Rightarrow> ('k \<Rightarrow> 'v \<Rightarrow> 'v) \<Rightarrow> 'k \<Rightarrow> 'k list \<Rightarrow> ('k \<Rightarrow> string) \<Rightarrow> ('v \<Rightarrow> 'k) \<Rightarrow>
   ('k list \<Rightarrow> ('e store_world_scheme, 'v list) prog) \<Rightarrow> ('e store_world_scheme, 'v list) prog" where
  "batchGetCache2 marshal unmarshal setId zeroK ids idKey vId fn =
     (if length ids = 0 then ret []
      else
        let (findKeys, keyId) = foldl (\<lambda>(findKeys, keyId) id.
              let key = idKey id in
              case map_of keyId key of
                Some _ \<Rightarrow> (findKeys, keyId)
              | None \<Rightarrow> (findKeys @ [key], AList.update key id keyId)) ([], []) ids in
        bindM (groupKeysBySlot findKeys) (\<lambda>slotKeys.
        foldM (\<lambda>(_, keys) result.
          bindM (rocksFetchBatch2 keys (\<lambda>idx.
            let queryIds = map (\<lambda>index. mapGet zeroK keyId (keys ! index)) idx;
                idIndex = foldl (\<lambda>m index. AList.update (mapGet zeroK keyId (keys ! index)) index m) [] idx in
            bindM (fn queryIds) (\<lambda>values.
              ret (foldl (\<lambda>cacheIndex value. case map_of idIndex (vId value) of
                    None \<Rightarrow> cacheIndex
                  | Some index \<Rightarrow> AList.update index (marshal value) cacheIndex) [] values)))) (\<lambda>indexCache.
          foldM (\<lambda>(index, data) result.
            if data = CText '''' then ret result
            else case unmarshal data of
                None \<Rightarrow> throw (ErrNew ''Unmarshal failed'')
              | Some value \<Rightarrow> ret (result @ [setId (mapGet zeroK keyId (keys ! index)) value]))
            (zip [0..<length indexCache] indexCache) result)) slotKeys []))"

subsection \<open>Lemmas\<close>

lemma splitIntoBatches_loop_step:
  "0 < n \<Longrightarrow> \<exists>bs. splitIntoBatches_loop keys n acc = Some (acc @ bs) \<and> concat bs = keys \<and>
     (\<forall>b\<in>set bs. length b \<le> n)"
proof (induction "length keys" arbitrary: keys acc rule: less_induct)
  case less
  show ?case
  proof (cases "n < length keys")
    case True
    then have "length (drop n keys) < length keys" using less.prems by simp
    from less.hyps [OF this less.prems, of "acc @ [take n keys]"] obtain bs where
      "splitIntoBatches_loop (drop n keys) n (acc @ [take n keys]) = Some (acc @ take n keys # bs)"
      "concat bs = drop n keys" "\<forall>b\<in>set bs. length b \<le> n" by auto
    with True show ?thesis
      by (intro exI [of _ "take n keys # bs"]) (simp add: splitIntoBatches_loop.simps [of keys])
  next
    case False
    then show ?thesis by (intro exI [of _ "[keys]"]) (simp add: splitIntoBatches_loop.simps [of keys])
  qed
qed

lemma splitIntoBatches_ok:
  assumes "0 < n"
  obtains bs where "splitIntoBatches keys n = Some bs" "concat bs = keys" "\<forall>b\<in>set bs. length b \<le> n"
  using splitIntoBatches_loop_step [OF assms, of keys "[]"] by (auto simp: splitIntoBatches_def)

lemma splitIntoBatches_loop_zero:
  "splitIntoBatches_loop keys n acc = Some r \<Longrightarrow> n = 0 \<longrightarrow> keys = []"
  by (rule splitIntoBatches_loop.raw_induct [of "\<lambda>k n a r. n = 0 \<longrightarrow> k = []"])
     (auto split: if_splits)

lemma splitIntoBatches_zero: "keys \<noteq> [] \<Longrightarrow> splitIntoBatches keys 0 = None"
  using splitIntoBatches_loop_zero [of keys 0 "[]"]
  by (cases "splitIntoBatches_loop keys 0 []") (auto simp: splitIntoBatches_def)

lemma mset_addSlot:
  "mset (concat (map snd (addSlot s k t))) = mset (concat (map snd t)) + {#k#}"
  unfolding addSlot_def by (induction t) (auto simp: mapGet_def)

lemma mset_foldl_addSlot:
  "mset (concat (map snd (foldl (\<lambda>slots key. addSlot (f key) key slots) t ks))) =
   mset (concat (map snd t)) + mset ks"
  by (induction ks arbitrary: t) (simp_all add: mset_addSlot)

lemma groupKeysBySlot_cases:
  assumes "groupKeysBySlot keys w = (Inr slots, w')"
  shows "mset (concat (map snd slots)) = mset keys \<and> (w' = w \<or> w' = w\<lparr>opno := Suc (opno w)\<rparr>)"
  using assms mset_foldl_addSlot [of _ "[]" keys]
  by (auto simp: groupKeysBySlot_def io_Inr split: option.splits if_splits)

lemma preserves_store_io [preserves_rules]:
  "(\<And>w n. P w \<Longrightarrow> P (w\<lparr>opno := n\<rparr>)) \<Longrightarrow> preserves P m \<Longrightarrow> preserves P (io m)"
  by (rule preserves_io)

lemma preserves_modifyM [preserves_rules]: "(\<And>w. P w \<Longrightarrow> P (f w)) \<Longrightarrow> preserves P (modifyM f)"
  by (simp add: preserves_def)

lemma preserves_runAll [preserves_rules]:
  "(\<And>m. m \<in> set ms \<Longrightarrow> preserves P m) \<Longrightarrow> preserves P (runAll ms)"
  by (induction ms) (auto intro!: preserves_bind preserves_tryM preserves_case_sum)

lemma groupKeysBySlot_state:
  "snd (groupKeysBySlot keys w) = w \<or> snd (groupKeysBySlot keys w) = w\<lparr>opno := Suc (opno w)\<rparr>"
  by (simp add: groupKeysBySlot_def io_def Let_def split: option.split fault.split)

lemma preserves_groupKeysBySlot [preserves_rules]:
  assumes "\<And>w n. P w \<Longrightarrow> P (w\<lparr>opno := n\<rparr>)"
  shows "preserves P (groupKeysBySlot keys)"
  unfolding preserves_def
proof (intro allI impI)
  fix w
  assume "P w"
  with groupKeysBySlot_state [of keys w] show "P (snd (groupKeysBySlot keys w))"
    by (elim disjE) (simp_all add: assms)
qed

lemma preserves_tagAsDeletedBatch2 [preserves_rules]:
  assumes "\<And>w n. P w \<Longrightarrow> P (w\<lparr>opno := n\<rparr>)"
    and "\<And>w (ks :: string list). P w \<Longrightarrow> P (w\<lparr>rocks := rocks w |` (- set ks)\<rparr>)"
  shows "preserves P (tagAsDeletedBatch2 keys)"
  unfolding tagAsDeletedBatch2_def
  by (rule preserves_store_io, erule assms(1), rule preserves_modifyM, erule assms(2))

lemma preserves_DeleteCacheBySlot [preserves_rules]:
  assumes "\<And>w n. P w \<Longrightarrow> P (w\<lparr>opno := n\<rparr>)"
    and "\<And>w (ks :: string list). P w \<Longrightarrow> P (w\<lparr>rocks := rocks w |` (- set ks)\<rparr>)"
  shows "preserves P (DeleteCacheBySlot keys)"
proof -
  have tag: "preserves P (tagAsDeletedBatch2 ks)" for ks
    by (rule preserves_tagAsDeletedBatch2, rule assms(1), assumption, rule assms(2), assumption)
  have "preserves P (ProcessKeysBySlot n ks (\<lambda>slot ks. tagAsDeletedBatch2 ks))" for n ks
    unfolding ProcessKeysBySlot_def
    by (rule preserves_bind, rule preserves_groupKeysBySlot, rule assms(1), assumption, rule preserves_runAll)
       (auto simp: tag split: option.splits)
  then show ?thesis by (simp add: DeleteCacheBySlot_def tag preserves_ret split: list.split)
qed

lemma runAll_Cons_Inr:
  assumes "runAll (m # ms) w = (Inr (), w')"
  shows "\<exists>w1. m w = (Inr (), w1) \<and> runAll ms w1 = (Inr (), w')"
proof -
  from assms obtain r w1 rs w2 where r: "tryM m w = (Inr r, w1)" "tryM (runAll ms) w1 = (Inr rs, w2)"
    and fin: "(case r of Inl e \<Rightarrow> throw e | Inr _ \<Rightarrow> liftE rs) w2 = (Inr (), w')"
    by (auto simp: bindM_eq_Inr)
  from fin have "r = Inr ()" and "rs = Inr ()" and "w2 = w'"
    by (auto split: sum.splits)
  with r show ?thesis by (auto simp: tryM_Inr_eq)
qed

end
