(* ===== verification/Conversation_Ids.thy ===== *)
theory Conversation_Ids
  imports Msg_Model
begin

text \<open>
  Conversation identifiers: \<^verbatim>\<open>server/pkg/msgprocessor/conversation.go\<close> and
  \<^verbatim>\<open>server/pkg/util/conversationutil/conversationutil.go\<close>. \<^verbatim>\<open>sort.Strings\<close> is \<open>sort\<close> under the
  lexicographic order on characters. The identifiers have the prefixes
  \<^verbatim>\<open>si_\<close> (single chat), \<^verbatim>\<open>g_\<close> and \<^verbatim>\<open>sg_\<close> (groups), \<^verbatim>\<open>sn_\<close> (server notifications) and
  \<^verbatim>\<open>n_\<close> (the notification conversation beside each of them).
\<close>

section \<open>msgprocessor\<close>

definition IsGroupConversationID :: "string \<Rightarrow> bool" where
  "IsGroupConversationID conversationID \<longleftrightarrow>
     hasPrefix conversationID ''g_'' \<or> hasPrefix conversationID ''sg_''"

definition GetNotificationConversationIDByMsg :: "MsgData \<Rightarrow> string" where
  "GetNotificationConversationIDByMsg msg =
     (if sessionType msg = SingleChatType then ''n_'' @ join ''_'' (sort [sendID msg, recvID msg])
      else if sessionType msg = WriteGroupChatType then ''n_'' @ groupID msg
      else if sessionType msg = ReadGroupChatType then ''n_'' @ groupID msg
      else if sessionType msg = NotificationChatType then ''n_'' @ join ''_'' (sort [sendID msg, recvID msg])
      else '''')"

definition GetChatConversationIDByMsg :: "MsgData \<Rightarrow> string" where
  "GetChatConversationIDByMsg msg =
     (if sessionType msg = SingleChatType then ''si_'' @ join ''_'' (sort [sendID msg, recvID msg])
      else if sessionType msg = WriteGroupChatType then ''g_'' @ groupID msg
      else if sessionType msg = ReadGroupChatType then ''sg_'' @ groupID msg
      else if sessionType msg = NotificationChatType then ''sn_'' @ join ''_'' (sort [sendID msg, recvID msg])
      else '''')"

definition GetConversationIDByMsg :: "MsgData \<Rightarrow> string" where
  "GetConversationIDByMsg msg =
     (let opts = options msg in
      if sessionType msg = SingleChatType then
        (let l = sort [sendID msg, recvID msg] in
         if \<not> IsNotNotification opts then ''n_'' @ join ''_'' l else ''si_'' @ join ''_'' l)
      else if sessionType msg = WriteGroupChatType then
        (if \<not> IsNotNotification opts then ''n_'' @ groupID msg else ''g_'' @ groupID msg)
      else if sessionType msg = ReadGroupChatType then
        (if \<not> IsNotNotification opts then ''n_'' @ groupID msg else ''sg_'' @ groupID msg)
      else if sessionType msg = NotificationChatType then
        (let l = sort [sendID msg, recvID msg] in
         if \<not> IsNotNotification opts then ''n_'' @ join ''_'' l else ''sn_'' @ join ''_'' l)
      else '''')"

definition GetConversationIDBySessionType :: "int \<Rightarrow> string list \<Rightarrow> string" where
  "GetConversationIDBySessionType st ids0 =
     (let ids = sort ids0 in
      if length ids > 2 \<or> length ids < 1 then ''''
      else if st = SingleChatType then ''si_'' @ join ''_'' ids
      else if st = WriteGroupChatType then ''g_'' @ ids ! 0
      else if st = ReadGroupChatType then ''sg_'' @ ids ! 0
      else if st = NotificationChatType then ''sn_'' @ ids ! 0
      else '''')"

definition IsNotification :: "string \<Rightarrow> bool" where
  "IsNotification conversationID = hasPrefix conversationID ''n_''"

definition GetGroupIDFromConversationID :: "string \<Rightarrow> string" where
  "GetGroupIDFromConversationID conversationID =
     (if hasPrefix conversationID ''sg_'' then trimPrefix conversationID ''sg_''
      else if hasPrefix conversationID ''g_'' then trimPrefix conversationID ''g_''
      else '''')"

definition IsNotificationByMsg :: "MsgData \<Rightarrow> bool" where
  "IsNotificationByMsg msg \<longleftrightarrow> \<not> IsNotNotification (options msg)"

text \<open>The order of the type \<^verbatim>\<open>MsgBySeq\<close>.\<close>

definition MsgBySeq_Less :: "MsgData \<Rightarrow> MsgData \<Rightarrow> bool" where
  "MsgBySeq_Less a b \<longleftrightarrow> seq a < seq b"

section \<open>conversationutil\<close>

definition GenConversationIDForSingle :: "string \<Rightarrow> string \<Rightarrow> string" where
  "GenConversationIDForSingle sendID' recvID' = ''si_'' @ join ''_'' (sort [sendID', recvID'])"

definition GenConversationUniqueKeyForGroup :: "string \<Rightarrow> string" where
  "GenConversationUniqueKeyForGroup groupID' = groupID'"

definition GenGroupConversationID :: "string \<Rightarrow> string" where
  "GenGroupConversationID groupID' = ''sg_'' @ groupID'"

definition util_IsGroupConversationID :: "string \<Rightarrow> bool" where
  "util_IsGroupConversationID conversationID = hasPrefix conversationID ''sg_''"

definition IsNotificationConversationID :: "string \<Rightarrow> bool" where
  "IsNotificationConversationID conversationID = hasPrefix conversationID ''n_''"

definition GenConversationUniqueKeyForSingle :: "string \<Rightarrow> string \<Rightarrow> string" where
  "GenConversationUniqueKeyForSingle sendID' recvID' = join ''_'' (sort [sendID', recvID'])"

definition GetNotificationConversationIDByConversationID :: "string \<Rightarrow> string" where
  "GetNotificationConversationIDByConversationID conversationID =
     (let l = splitOn CHR ''_'' conversationID in
      if length l > 1 then join ''_'' (l[0 := ''n'']) else '''')"

definition GetSelfNotificationConversationID :: "string \<Rightarrow> string" where
  "GetSelfNotificationConversationID userID = ''n_'' @ userID @ ''_'' @ userID"

definition GetSeqsBeginEnd :: "int list \<Rightarrow> int \<times> int" where
  "GetSeqsBeginEnd seqs = (if length seqs = 0 then (0, 0) else (seqs ! 0, seqs ! (length seqs - 1)))"

section \<open>Lemmas\<close>

lemma sort_pair: "sort [a, b] = (if a \<le> b then [a, b] else [b, a :: 'a :: linorder])"
  by simp

lemma sort_pair_commute: "sort [a, b] = sort [b, a :: 'a :: linorder]"
  by auto

lemma join_splitOn: "join [c] (splitOn c s) = s"
proof (induction s)
  case Nil
  then show ?case by simp
next
  case (Cons x s)
  then show ?case
    by (cases "splitOn c s"; cases "tl (splitOn c s)") auto
qed

lemma join_Cons: "ss \<noteq> [] \<Longrightarrow> join sep (s # ss) = s @ sep @ join sep ss"
  by (cases ss) auto

text \<open>Replacing the part before the first underscore.\<close>

lemma notification_id_of_prefix:
  assumes "CHR ''_'' \<notin> set p"
  shows "GetNotificationConversationIDByConversationID (p @ CHR ''_'' # s) = ''n_'' @ s"
  using assms
  by (simp add: GetNotificationConversationIDByConversationID_def splitOn_append_sep join_Cons
      join_splitOn)

text \<open>
  The conversation a message goes to is a notification conversation exactly when its option
  map marks it as a notification (the key \<^verbatim>\<open>isNotNotification\<close> is present and false), for every
  session type the system knows; otherwise it goes to the chat conversation of its session.
\<close>

theorem conversation_of_msg:
  assumes "sessionType msg \<in> {SingleChatType, WriteGroupChatType, ReadGroupChatType, NotificationChatType}"
  shows "IsNotification (GetConversationIDByMsg msg) = IsNotificationByMsg msg \<and>
    GetConversationIDByMsg msg = (if IsNotificationByMsg msg
      then GetNotificationConversationIDByMsg msg else GetChatConversationIDByMsg msg)"
  using assms
  by (auto simp: IsNotification_def GetConversationIDByMsg_def IsNotificationByMsg_def Let_def
      GetNotificationConversationIDByMsg_def GetChatConversationIDByMsg_def hasPrefix_def)

theorem conversation_of_msg_witness:
  "IsNotification (GetConversationIDByMsg (zeroMsgData\<lparr>sessionType := ReadGroupChatType, groupID := ''7'',
      options := Some [kIsNotNotification \<mapsto> False]\<rparr>))"
  using conjunct1 [OF conversation_of_msg [of "zeroMsgData\<lparr>sessionType := ReadGroupChatType,
      groupID := ''7'', options := Some [kIsNotNotification \<mapsto> False]\<rparr>"]]
  by (simp add: IsNotificationByMsg_def IsNotNotification_def Options_Is_def)

text \<open>
  From the identifier of a chat conversation alone, the server recovers the identifier of the
  notification conversation beside it: replacing the part before the first underscore gives
  exactly what is computed from the message, and both parties of a chat compute the same one.
\<close>

theorem notification_conversation_from_id:
  assumes "sessionType msg \<in> {SingleChatType, WriteGroupChatType, ReadGroupChatType, NotificationChatType}"
  shows "GetNotificationConversationIDByConversationID (GetChatConversationIDByMsg msg)
       = GetNotificationConversationIDByMsg msg \<and>
     GetNotificationConversationIDByMsg (msg\<lparr>sendID := recvID msg, recvID := sendID msg\<rparr>)
       = GetNotificationConversationIDByMsg msg"
  using assms notification_id_of_prefix [of "''si''"] notification_id_of_prefix [of "''g''"]
    notification_id_of_prefix [of "''sg''"] notification_id_of_prefix [of "''sn''"]
  by (auto simp: GetNotificationConversationIDByMsg_def GetChatConversationIDByMsg_def)

theorem notification_conversation_from_id_witness:
  "GetNotificationConversationIDByConversationID ''si_a_b'' = ''n_a_b''"
  using conjunct1 [OF notification_conversation_from_id [of "zeroMsgData\<lparr>sessionType := SingleChatType,
      sendID := ''b'', recvID := ''a''\<rparr>"]]
  by (simp add: GetNotificationConversationIDByMsg_def GetChatConversationIDByMsg_def)

lemma group_id_roundtrip:
  "GetGroupIDFromConversationID (GetConversationIDBySessionType ReadGroupChatType [g]) = g"
  "GetGroupIDFromConversationID (GetConversationIDBySessionType WriteGroupChatType [g]) = g"
  by (simp_all add: GetGroupIDFromConversationID_def GetConversationIDBySessionType_def
      hasPrefix_def trimPrefix_def)

end
