(* ===== verification/Seq_Store.thy ===== *)
theory Seq_Store
  imports Stores Conversation_Ids
begin

text \<open>
  The sequence-number collections of MongoDB: \<^verbatim>\<open>database/mgo/seq_conversation.go\<close> (the largest
  and smallest sequence number of a conversation) and \<^verbatim>\<open>database/mgo/seq_user.go\<close> (the bounds
  and the read position of a user in a conversation), with their models
  \<^verbatim>\<open>storage/model/seq.go\<close>, \<^verbatim>\<open>seq_user.go\<close> and the cache keys \<^verbatim>\<open>cachekey/seq.go\<close>. Sequence numbers
  are \<^verbatim>\<open>int64\<close> in Go and integers here: the code has no arithmetic on them but sums of block sizes, far
  from the 63-bit bound.
\<close>

section \<open>An interface: documents with a key\<close>

text \<open>
  What the operations on a keyed collection rely on: a fresh document carries the key it was
  made for. The two laws are lookup after an upsert under the same key and under another one.
\<close>

locale keyed_docs =
  fixes key :: "'d \<Rightarrow> 'k" and fresh :: "'k \<Rightarrow> 'd"
  assumes key_fresh: "key (fresh k) = k"
begin

lemma find_upsert_same:
  assumes "\<And>d. key (f d) = key d"
  shows "List.find (\<lambda>d. key d = k) (upsert (\<lambda>d. key d = k) f (f (fresh k)) xs) =
    Some (f (case List.find (\<lambda>d. key d = k) xs of None \<Rightarrow> fresh k | Some d \<Rightarrow> d))"
  by (subst find_upsert) (auto simp: assms key_fresh split: option.split)

lemma find_upsert_diff:
  assumes "\<And>d. key (f d) = key d" and "k' \<noteq> k"
  shows "List.find (\<lambda>d. key d = k') (upsert (\<lambda>d. key d = k) f (f (fresh k)) xs) =
    List.find (\<lambda>d. key d = k') xs"
  by (rule find_upsert_other) (use assms in \<open>auto simp: key_fresh\<close>)

end

section \<open>Data\<close>

record SeqConversation =
  scConversationID :: string
  scMaxSeq :: int
  scMinSeq :: int

record SeqUser =
  suUserID :: string
  suConversationID :: string
  suMinSeq :: int
  suMaxSeq :: int
  suReadSeq :: int

text \<open>The redis hash of a conversation: a field is \<open>None\<close> when the hash lacks it.\<close>

record malloc_hash =
  hCURR :: "int option"
  hLAST :: "int option"
  hTIME :: "int option"
  hLOCK :: "int option"

record seq_world = store_world +
  seqConvs :: "SeqConversation list"
  seqUsers :: "SeqUser list"
  mallocKeys :: "string \<rightharpoonup> (malloc_hash \<times> int)"

definition freshConv :: "string \<Rightarrow> SeqConversation" where
  "freshConv c = \<lparr>scConversationID = c, scMaxSeq = 0, scMinSeq = 0\<rparr>"

definition freshUser :: "string \<times> string \<Rightarrow> SeqUser" where
  "freshUser uc = \<lparr>suUserID = fst uc, suConversationID = snd uc, suMinSeq = 0, suMaxSeq = 0, suReadSeq = 0\<rparr>"

definition suKey :: "SeqUser \<Rightarrow> string \<times> string" where
  "suKey d = (suUserID d, suConversationID d)"

interpretation conv_docs: keyed_docs scConversationID freshConv
  by unfold_locales (simp add: freshConv_def)

interpretation user_docs: keyed_docs suKey freshUser
  by unfold_locales (simp add: freshUser_def suKey_def)

section \<open>Cache keys\<close>

definition GetMallocSeqKey :: "string \<Rightarrow> string" where
  "GetMallocSeqKey conversationID = ''MALLOC_SEQ:'' @ conversationID"

definition GetMallocMinSeqKey :: "string \<Rightarrow> string" where
  "GetMallocMinSeqKey conversationID = ''MALLOC_MIN_SEQ:'' @ conversationID"

definition GetSeqUserMaxSeqKey :: "string \<Rightarrow> string \<Rightarrow> string" where
  "GetSeqUserMaxSeqKey conversationID userID = ''SEQ_USER_MAX:'' @ conversationID @ '':'' @ userID"

definition GetSeqUserMinSeqKey :: "string \<Rightarrow> string \<Rightarrow> string" where
  "GetSeqUserMinSeqKey conversationID userID = ''SEQ_USER_MIN:'' @ conversationID @ '':'' @ userID"

definition GetSeqUserReadSeqKey :: "string \<Rightarrow> string \<Rightarrow> string" where
  "GetSeqUserReadSeqKey conversationID userID = ''SEQ_USER_READ:'' @ conversationID @ '':'' @ userID"

section \<open>The collection of conversations\<close>

definition convFind :: "string \<Rightarrow> 'e seq_world_scheme \<Rightarrow> SeqConversation option" where
  "convFind c w = List.find (\<lambda>d. scConversationID d = c) (seqConvs w)"

definition convUpsert ::
  "string \<Rightarrow> (SeqConversation \<Rightarrow> SeqConversation) \<Rightarrow> 'e seq_world_scheme \<Rightarrow> 'e seq_world_scheme" where
  "convUpsert c f w = w\<lparr>seqConvs := upsert (\<lambda>d. scConversationID d = c) f (f (freshConv c)) (seqConvs w)\<rparr>"

definition setConvField :: "string \<Rightarrow> int \<Rightarrow> SeqConversation \<Rightarrow> SeqConversation" where
  "setConvField field s d =
     (if field = ''max_seq'' then d\<lparr>scMaxSeq := s\<rparr>
      else if field = ''min_seq'' then d\<lparr>scMinSeq := s\<rparr> else d)"

definition conv_setSeq :: "string \<Rightarrow> int \<Rightarrow> string \<Rightarrow> ('e seq_world_scheme, unit) prog" where
  "conv_setSeq conversationID s field = io (modifyM (convUpsert conversationID (setConvField field s)))"

definition conv_GetMaxSeq :: "string \<Rightarrow> ('e seq_world_scheme, int) prog" where
  "conv_GetMaxSeq conversationID = io (gets (\<lambda>w. case convFind conversationID w of
       None \<Rightarrow> 0
     | Some d \<Rightarrow> scMaxSeq d))"

definition conv_GetMinSeq :: "string \<Rightarrow> ('e seq_world_scheme, int) prog" where
  "conv_GetMinSeq conversationID = io (gets (\<lambda>w. case convFind conversationID w of
       None \<Rightarrow> 0
     | Some d \<Rightarrow> scMinSeq d))"

text \<open>
  The update of \<^verbatim>\<open>Malloc\<close>: \<^verbatim>\<open>$inc\<close> of the largest sequence number, and \<^verbatim>\<open>$set min_seq: 0\<close> beside it.
  The reply is the document after the update.
\<close>

definition mallocUpdate :: "int \<Rightarrow> SeqConversation \<Rightarrow> SeqConversation" where
  "mallocUpdate size' d = d\<lparr>scMaxSeq := scMaxSeq d + size', scMinSeq := 0\<rparr>"

definition conv_maxOf :: "string \<Rightarrow> 'e seq_world_scheme \<Rightarrow> int" where
  "conv_maxOf c w = (case convFind c w of None \<Rightarrow> 0 | Some d \<Rightarrow> scMaxSeq d)"

definition conv_Malloc :: "string \<Rightarrow> int \<Rightarrow> ('e seq_world_scheme, int) prog" where
  "conv_Malloc conversationID size' =
     (if size' < 0 then throw (ErrNew ''size must be greater than 0'')
      else if size' = 0 then conv_GetMaxSeq conversationID
      else bindM (io (\<lambda>w. let w' = convUpsert conversationID (mallocUpdate size') w in
             (Inr (conv_maxOf conversationID w'), w')))
           (\<lambda>lastSeq. ret (lastSeq - size')))"

definition conv_SetMaxSeq :: "string \<Rightarrow> int \<Rightarrow> ('e seq_world_scheme, unit) prog" where
  "conv_SetMaxSeq conversationID s = conv_setSeq conversationID s ''max_seq''"

definition conv_SetMinSeq :: "string \<Rightarrow> int \<Rightarrow> ('e seq_world_scheme, unit) prog" where
  "conv_SetMinSeq conversationID s = conv_setSeq conversationID s ''min_seq''"

definition conv_GetConversation :: "string \<Rightarrow> ('e seq_world_scheme, SeqConversation) prog" where
  "conv_GetConversation conversationID = io (\<lambda>w. case convFind conversationID w of
       None \<Rightarrow> (Inl MongoNoDocuments, w)
     | Some d \<Rightarrow> (Inr d, w))"

subsection \<open>Lemmas\<close>

lemma key_setConvField [simp]: "scConversationID (setConvField field s d) = scConversationID d"
  by (simp add: setConvField_def)

lemma key_mallocUpdate [simp]: "scConversationID (mallocUpdate n d) = scConversationID d"
  by (simp add: mallocUpdate_def)

lemma convFind_upsert:
  assumes "\<And>d. scConversationID (f d) = scConversationID d"
  shows "convFind c' (convUpsert c f w) =
    (if c' = c then Some (f (case convFind c w of None \<Rightarrow> freshConv c | Some d \<Rightarrow> d)) else convFind c' w)"
  using conv_docs.find_upsert_same [of f, OF assms] conv_docs.find_upsert_diff [of f, OF assms]
  by (simp add: convFind_def convUpsert_def)

lemma conv_maxOf_mallocUpdate:
  "conv_maxOf c' (convUpsert c (mallocUpdate n) w) =
   (if c' = c then conv_maxOf c w + n else conv_maxOf c' w)"
  by (simp add: conv_maxOf_def convFind_upsert mallocUpdate_def freshConv_def split: option.split)

lemma convFind_opno [simp]: "convFind c (w\<lparr>opno := n\<rparr>) = convFind c w"
  by (simp add: convFind_def)

lemma conv_maxOf_opno [simp]: "conv_maxOf c (w\<lparr>opno := n\<rparr>) = conv_maxOf c w"
  by (simp add: conv_maxOf_def)

text \<open>A successful block allocation moves the largest sequence number up by exactly its size.\<close>

lemma conv_Malloc_Inr:
  assumes "conv_Malloc c n w = (Inr s, w')" and "0 < n"
  shows "s = conv_maxOf c w \<and> conv_maxOf c w' = s + n \<and> (\<forall>c'. c' \<noteq> c \<longrightarrow> conv_maxOf c' w' = conv_maxOf c' w)"
  using assms by (auto simp: conv_Malloc_def bindM_eq_Inr io_Inr Let_def conv_maxOf_mallocUpdate)

lemma conv_Malloc_zero: "conv_Malloc c 0 = conv_GetMaxSeq c"
  by (simp add: conv_Malloc_def)

text \<open>A failed one may have moved it, by its size, or left it.\<close>

lemma conv_Malloc_max_mono:
  assumes "conv_Malloc c n w = (r, w')" and "0 \<le> n"
  shows "conv_maxOf c' w \<le> conv_maxOf c' w'"
  using assms
  by (auto simp: conv_Malloc_def conv_GetMaxSeq_def bindM_def io_def Let_def conv_maxOf_mallocUpdate
      split: if_splits fault.splits)

text \<open>
  A block allocation that succeeds returns the previous largest sequence number and moves it up
  by the size; but it also resets the smallest sequence number of the conversation to 0, whatever
  an administrator or a clean-up had set it to.
\<close>

theorem malloc_block:
  assumes "conv_Malloc c n w = (Inr s, w')" and "0 < n"
  shows "s = conv_maxOf c w \<and> conv_maxOf c w' = s + n \<and>
    (\<exists>d. convFind c w' = Some d \<and> scMinSeq d = 0) \<and> (\<forall>c'. c' \<noteq> c \<longrightarrow> convFind c' w' = convFind c' w)"
proof -
  from assms have w': "w' = convUpsert c (mallocUpdate n) (w\<lparr>opno := Suc (opno w)\<rparr>)"
    by (auto simp: conv_Malloc_def bindM_eq_Inr io_Inr Let_def)
  have "\<exists>d. convFind c w' = Some d \<and> scMinSeq d = 0"
    by (simp add: w' convFind_upsert mallocUpdate_def)
  moreover have "\<forall>c'. c' \<noteq> c \<longrightarrow> convFind c' w' = convFind c' w"
    by (simp add: w' convFind_upsert)
  ultimately show ?thesis using conv_Malloc_Inr [OF assms] by blast
qed

definition demo_world :: seq_world where
  "demo_world = \<lparr>faults = (\<lambda>_. NoFault), opno = 0, clock = 1000, rand = (\<lambda>n. int n + 7),
     cluster = None, rocks = Map.empty,
     seqConvs = [\<lparr>scConversationID = ''sg_1'', scMaxSeq = 100, scMinSeq = 20\<rparr>], seqUsers = [],
     mallocKeys = Map.empty\<rparr>"

theorem malloc_block_witness:
  "fst (conv_Malloc ''sg_1'' 150 demo_world) = Inr 100 \<and>
   (\<exists>d. convFind ''sg_1'' (snd (conv_Malloc ''sg_1'' 150 demo_world)) = Some d \<and> scMinSeq d = 0)"
proof -
  have run: "conv_Malloc ''sg_1'' 150 demo_world = (Inr 100, snd (conv_Malloc ''sg_1'' 150 demo_world))"
    by (simp add: conv_Malloc_def bindM_def io_def Let_def demo_world_def conv_maxOf_def
        convFind_def convUpsert_def upsert_def mallocUpdate_def)
  from malloc_block [OF run] run show ?thesis by (metis fst_conv zero_less_numeral)
qed

section \<open>The collection of users\<close>

definition userFind :: "string \<Rightarrow> string \<Rightarrow> 'e seq_world_scheme \<Rightarrow> SeqUser option" where
  "userFind u c w = List.find (\<lambda>d. suKey d = (u, c)) (seqUsers w)"

definition userUpsert ::
  "string \<Rightarrow> string \<Rightarrow> (SeqUser \<Rightarrow> SeqUser) \<Rightarrow> 'e seq_world_scheme \<Rightarrow> 'e seq_world_scheme" where
  "userUpsert u c f w = w\<lparr>seqUsers := upsert (\<lambda>d. suKey d = (u, c)) f (f (freshUser (u, c))) (seqUsers w)\<rparr>"

definition setUserField :: "string \<Rightarrow> int \<Rightarrow> SeqUser \<Rightarrow> SeqUser" where
  "setUserField field s d =
     (if field = ''max_seq'' then d\<lparr>suMaxSeq := s\<rparr>
      else if field = ''min_seq'' then d\<lparr>suMinSeq := s\<rparr>
      else if field = ''read_seq'' then d\<lparr>suReadSeq := s\<rparr> else d)"

definition getUserField :: "string \<Rightarrow> SeqUser \<Rightarrow> int" where
  "getUserField field d =
     (if field = ''max_seq'' then suMaxSeq d else if field = ''min_seq'' then suMinSeq d
      else if field = ''read_seq'' then suReadSeq d else 0)"

definition user_setSeq :: "string \<Rightarrow> string \<Rightarrow> int \<Rightarrow> string \<Rightarrow> ('e seq_world_scheme, unit) prog" where
  "user_setSeq conversationID userID s field =
     io (modifyM (userUpsert userID conversationID (setUserField field s)))"

definition user_getSeq :: "string \<Rightarrow> string \<Rightarrow> string \<Rightarrow> ('e seq_world_scheme, int) prog" where
  "user_getSeq conversationID userID failed = io (gets (\<lambda>w. case userFind userID conversationID w of
       None \<Rightarrow> 0
     | Some d \<Rightarrow> getUserField failed d))"

definition user_GetUserMaxSeq :: "string \<Rightarrow> string \<Rightarrow> ('e seq_world_scheme, int) prog" where
  "user_GetUserMaxSeq conversationID userID = user_getSeq conversationID userID ''max_seq''"

definition user_SetUserMaxSeq :: "string \<Rightarrow> string \<Rightarrow> int \<Rightarrow> ('e seq_world_scheme, unit) prog" where
  "user_SetUserMaxSeq conversationID userID s = user_setSeq conversationID userID s ''max_seq''"

definition user_GetUserMinSeq :: "string \<Rightarrow> string \<Rightarrow> ('e seq_world_scheme, int) prog" where
  "user_GetUserMinSeq conversationID userID = user_getSeq conversationID userID ''min_seq''"

definition user_SetUserMinSeq :: "string \<Rightarrow> string \<Rightarrow> int \<Rightarrow> ('e seq_world_scheme, unit) prog" where
  "user_SetUserMinSeq conversationID userID s = user_setSeq conversationID userID s ''min_seq''"

definition user_GetUserReadSeq :: "string \<Rightarrow> string \<Rightarrow> ('e seq_world_scheme, int) prog" where
  "user_GetUserReadSeq conversationID userID = user_getSeq conversationID userID ''read_seq''"

definition notFoundSet0 :: "(string \<times> int) list \<Rightarrow> string list \<Rightarrow> (string \<times> int) list" where
  "notFoundSet0 seqm conversationIDs =
     foldl (\<lambda>m c. case map_of m c of None \<Rightarrow> AList.update c 0 m | Some _ \<Rightarrow> m) seqm conversationIDs"

definition user_GetUserReadSeqs ::
  "string \<Rightarrow> string list \<Rightarrow> ('e seq_world_scheme, (string \<times> int) list) prog" where
  "user_GetUserReadSeqs userID conversationID =
     (if length conversationID = 0 then ret []
      else bindM (io (gets (\<lambda>w. filter (\<lambda>d. suUserID d = userID \<and> suConversationID d \<in> set conversationID)
             (seqUsers w)))) (\<lambda>seqs.
        let res = foldl (\<lambda>m d. AList.update (suConversationID d) (suReadSeq d) m) [] seqs in
        ret (notFoundSet0 res conversationID)))"

definition user_SetUserReadSeq :: "string \<Rightarrow> string \<Rightarrow> int \<Rightarrow> ('e seq_world_scheme, unit) prog" where
  "user_SetUserReadSeq conversationID userID s =
     bindM (user_GetUserReadSeq conversationID userID) (\<lambda>dbSeq.
       if dbSeq > s then ret () else user_setSeq conversationID userID s ''read_seq'')"

definition user_GetConversationsUserReadSeqs ::
  "(string \<times> string list) list \<Rightarrow> ('e seq_world_scheme, (string \<times> (string \<times> int) list) list) prog" where
  "user_GetConversationsUserReadSeqs conversationUserIDs =
     (if length conversationUserIDs = 0 then ret []
      else
        let conversationIDs = map fst conversationUserIDs;
            userIDSets = map (\<lambda>(c, us). (c, set us)) conversationUserIDs in
        bindM (io (gets (\<lambda>w. filter (\<lambda>d. suConversationID d \<in> set conversationIDs) (seqUsers w)))) (\<lambda>seqs.
          ret (foldl (\<lambda>res d. case map_of userIDSets (suConversationID d) of
                None \<Rightarrow> res
              | Some userSet \<Rightarrow>
                  if suUserID d \<in> userSet
                  then AList.update (suConversationID d)
                         (AList.update (suUserID d) (suReadSeq d) (mapGet [] res (suConversationID d))) res
                  else res) [] seqs)))"

subsection \<open>Lemmas\<close>

lemma suKey_setUserField [simp]: "suKey (setUserField field s d) = suKey d"
  by (simp add: suKey_def setUserField_def)

lemma userFind_upsert:
  assumes "\<And>d. suKey (f d) = suKey d"
  shows "userFind u' c' (userUpsert u c f w) =
    (if (u', c') = (u, c) then Some (f (case userFind u c w of None \<Rightarrow> freshUser (u, c) | Some d \<Rightarrow> d))
     else userFind u' c' w)"
  using user_docs.find_upsert_same [of f, OF assms] user_docs.find_upsert_diff [of f, OF assms]
  by (simp add: userFind_def userUpsert_def)

lemma userFind_opno [simp]: "userFind u c (w\<lparr>opno := n\<rparr>) = userFind u c w"
  by (simp add: userFind_def)

definition userReadOf :: "string \<Rightarrow> string \<Rightarrow> 'e seq_world_scheme \<Rightarrow> int" where
  "userReadOf u c w = (case userFind u c w of None \<Rightarrow> 0 | Some d \<Rightarrow> suReadSeq d)"

lemma userReadOf_opno [simp]: "userReadOf u c (w\<lparr>opno := n\<rparr>) = userReadOf u c w"
  by (simp add: userReadOf_def)

lemma userReadOf_set:
  "userReadOf u' c' (userUpsert u c (setUserField ''read_seq'' s) w) =
   (if (u', c') = (u, c) then s else userReadOf u' c' w)"
  by (simp add: userReadOf_def userFind_upsert) (simp add: setUserField_def split: option.split)

lemma user_getSeq_Inr:
  "user_getSeq c u fld w = (Inr s, w') \<longleftrightarrow> faults w (opno w) = NoFault \<and> w' = w\<lparr>opno := Suc (opno w)\<rparr> \<and>
   s = (case userFind u c w of None \<Rightarrow> 0 | Some d \<Rightarrow> getUserField fld d)"
  by (auto simp: user_getSeq_def io_Inr)

lemma user_getSeq_state: "user_getSeq c u fld w = (r, w') \<Longrightarrow> w' = w\<lparr>opno := Suc (opno w)\<rparr>"
  by (auto simp: user_getSeq_def io_def Let_def split: fault.splits)

text \<open>
  The read position of a user in the database never moves back: whatever the outcome of
  \<^verbatim>\<open>SetUserReadSeq\<close> and whichever of its two calls fails or loses its reply, no user's position is
  smaller afterwards; and when it succeeds, the position is the larger of the old and the new one.
\<close>

theorem db_read_seq_monotone:
  assumes "user_SetUserReadSeq c u s w = (r, w')"
  shows "(\<forall>u' c'. userReadOf u' c' w \<le> userReadOf u' c' w') \<and>
    (r = Inr () \<longrightarrow> userReadOf u c w' = max (userReadOf u c w) s)"
proof -
  obtain r1 w1 where get: "user_GetUserReadSeq c u w = (r1, w1)" by fastforce
  have w1: "w1 = w\<lparr>opno := Suc (opno w)\<rparr>"
    using get user_getSeq_state by (simp add: user_GetUserReadSeq_def)
  have dbSeq: "r1 = Inr dbSeq \<Longrightarrow> dbSeq = userReadOf u c w" for dbSeq
    using get by (simp add: user_GetUserReadSeq_def user_getSeq_Inr userReadOf_def getUserField_def
        split: option.split)
  show ?thesis
    using assms get w1
    by (cases r1) (auto simp: user_SetUserReadSeq_def bindM_def user_setSeq_def io_def Let_def
        userReadOf_set dest!: dbSeq split: if_splits fault.splits)
qed

theorem db_read_seq_monotone_witness:
  "userReadOf ''u'' ''c'' (snd (user_SetUserReadSeq ''c'' ''u'' 5
     (snd (user_SetUserReadSeq ''c'' ''u'' 9 demo_world)))) \<ge> 9"
proof -
  let ?w1 = "snd (user_SetUserReadSeq ''c'' ''u'' 9 demo_world)"
  have ok: "user_SetUserReadSeq ''c'' ''u'' 9 demo_world = (Inr (), ?w1)"
    by (simp add: user_SetUserReadSeq_def bindM_def user_GetUserReadSeq_def user_getSeq_def
        user_setSeq_def io_def Let_def demo_world_def userFind_def)
  have "userReadOf ''u'' ''c'' ?w1 = 9"
    using db_read_seq_monotone [OF ok]
    by (simp add: userReadOf_def userFind_def demo_world_def)
  then show ?thesis
    using db_read_seq_monotone [of "''c''" "''u''" 5 ?w1, OF surjective_pairing] by metis
qed

end
