(* ===== verification/Seq_Conversation.thy ===== *)
theory Seq_Conversation
  imports Seq_Store
begin

text \<open>
  The allocator of sequence numbers, \<^verbatim>\<open>cache/redis/seq_conversation.go\<close>. A redis hash per
  conversation caches a block of numbers of the database: \<^verbatim>\<open>CURR\<close> is the last number handed out,
  \<^verbatim>\<open>LAST\<close> the end of the block, \<^verbatim>\<open>LOCK\<close> the owner of a pending refill. The two Lua scripts are pure
  functions from the hash (\<open>None\<close> when the key does not exist) to the reply and the new hash with its time to
  live; redis runs a script atomically. A key carries the deadline the last \<^verbatim>\<open>EXPIRE\<close> gave it.
  The random number of a script is a parameter of the world, so nothing rests on it.
\<close>

section \<open>The scripts\<close>

definition lockSecond :: int where "lockSecond = 3"
definition dataSecond :: int where "dataSecond = 60 * 60 * 24 * 365"

definition emptyHash :: malloc_hash where
  "emptyHash = \<lparr>hCURR = None, hLAST = None, hTIME = None, hLOCK = None\<rparr>"

text \<open>A script's reply, and the hash it leaves with the seconds of its \<^verbatim>\<open>EXPIRE\<close> (\<open>None\<close>: no write).\<close>

definition setSeqScript ::
  "int \<Rightarrow> int \<Rightarrow> int \<Rightarrow> int \<Rightarrow> malloc_hash option \<Rightarrow> int \<times> (malloc_hash \<times> int) option" where
  "setSeqScript lockValue curr_seq last_seq mallocTime h =
     (case h of
        None \<Rightarrow> (1, Some (emptyHash\<lparr>hCURR := Some curr_seq, hLAST := Some last_seq, hTIME := Some mallocTime\<rparr>,
                          dataSecond))
      | Some h \<Rightarrow>
          if hLOCK h \<noteq> Some lockValue then (2, None)
          else (0, Some (h\<lparr>hLOCK := None, hCURR := Some curr_seq, hLAST := Some last_seq,
                            hTIME := Some mallocTime\<rparr>, dataSecond)))"

text \<open>
  Arithmetic on a field the hash lacks is a Lua error, the reply \<open>None\<close>.
\<close>

definition mallocScript ::
  "int \<Rightarrow> int \<Rightarrow> int \<Rightarrow> malloc_hash option \<Rightarrow> int list option \<times> (malloc_hash \<times> int) option" where
  "mallocScript size' mallocTime lockValue h =
     (case h of
        None \<Rightarrow> (Some [1, lockValue, mallocTime], Some (emptyHash\<lparr>hLOCK := Some lockValue\<rparr>, lockSecond))
      | Some h \<Rightarrow>
          if hLOCK h \<noteq> None then (Some [2], None)
          else (case (hCURR h, hLAST h) of
              (Some curr_seq, Some last_seq) \<Rightarrow>
                if size' = 0 then
                  (Some [0, curr_seq, last_seq, (case hTIME h of Some t \<Rightarrow> t | None \<Rightarrow> 0)],
                   Some (h, dataSecond))
                else
                  let max_seq = curr_seq + size' in
                  if max_seq > last_seq then
                    (Some [3, curr_seq, last_seq, lockValue, mallocTime],
                     Some (h\<lparr>hLOCK := Some lockValue, hCURR := Some last_seq, hTIME := Some mallocTime\<rparr>,
                           lockSecond))
                  else
                    (Some [0, curr_seq, last_seq, mallocTime],
                     Some (h\<lparr>hCURR := Some max_seq, hTIME := Some mallocTime\<rparr>, dataSecond))
            | _ \<Rightarrow> (None, None)))"

text \<open>The hash behind a key, unless its deadline has passed, and the effect of a script.\<close>

definition liveHash :: "string \<Rightarrow> 'e seq_world_scheme \<Rightarrow> malloc_hash option" where
  "liveHash key w = (case mallocKeys w key of
     None \<Rightarrow> None
   | Some (h, deadline) \<Rightarrow> if clock w < deadline then Some h else None)"

definition writeHash :: "string \<Rightarrow> (malloc_hash \<times> int) option \<Rightarrow> 'e seq_world_scheme \<Rightarrow> 'e seq_world_scheme" where
  "writeHash key u w = (case u of
     None \<Rightarrow> w
   | Some (h, seconds) \<Rightarrow> w\<lparr>mallocKeys := (mallocKeys w)(key \<mapsto> (h, clock w + 1000 * seconds))\<rparr>)"

section \<open>The client\<close>

definition getSeqMallocKey :: "string \<Rightarrow> string" where
  "getSeqMallocKey conversationID = GetMallocSeqKey conversationID"

definition getMinSeqKey :: "string \<Rightarrow> string" where
  "getMinSeqKey conversationID = GetMallocMinSeqKey conversationID"

definition conv_setSeqCache ::
  "string \<Rightarrow> int \<Rightarrow> int \<Rightarrow> int \<Rightarrow> int \<Rightarrow> ('e seq_world_scheme, int) prog" where
  "conv_setSeqCache key owner currSeq lastSeq mill =
     (if lastSeq < currSeq then throw (ErrNew ''lastSeq must be greater than currSeq'')
      else io (\<lambda>w. let (r, u) = setSeqScript owner currSeq lastSeq mill (liveHash key w) in
                (Inr r, writeHash key u w)))"

definition malloc :: "string \<Rightarrow> int \<Rightarrow> ('e seq_world_scheme, int list) prog" where
  "malloc key size' = io (\<lambda>w.
     let (r, u) = mallocScript size' (clock w) (rand w (opno w)) (liveHash key w) in
     (case r of None \<Rightarrow> Inl (ErrNew ''lua script error'') | Some l \<Rightarrow> Inr l, writeHash key u w))"

text \<open>A quarter of a second, or the end of the request's context.\<close>

definition wait :: "('e seq_world_scheme, unit) prog" where
  "wait = io (modifyM (\<lambda>w. w\<lparr>clock := clock w + 250\<rparr>))"

primrec setSeqRetry_loop ::
  "nat \<Rightarrow> string \<Rightarrow> int \<Rightarrow> int \<Rightarrow> int \<Rightarrow> int \<Rightarrow> ('e seq_world_scheme, unit) prog" where
  "setSeqRetry_loop 0 key owner currSeq lastSeq mill = ret ()"
| "setSeqRetry_loop (Suc n) key owner currSeq lastSeq mill =
     bindM (tryM (conv_setSeqCache key owner currSeq lastSeq mill)) (\<lambda>st. case st of
       Inl err \<Rightarrow> bindM (tryM wait) (\<lambda>e. case e of
           Inl _ \<Rightarrow> ret ()
         | Inr _ \<Rightarrow> setSeqRetry_loop n key owner currSeq lastSeq mill)
     | Inr state \<Rightarrow> ret ())"

definition setSeqRetry ::
  "string \<Rightarrow> int \<Rightarrow> int \<Rightarrow> int \<Rightarrow> int \<Rightarrow> ('e seq_world_scheme, unit) prog" where
  "setSeqRetry = setSeqRetry_loop 10"

definition getMallocSize :: "string \<Rightarrow> int \<Rightarrow> int" where
  "getMallocSize conversationID size' =
     (if size' = 0 then 0
      else let basicSize = (if IsGroupConversationID conversationID then 100 else 50) in
        basicSize + size')"

primrec mallocTime_loop :: "nat \<Rightarrow> string \<Rightarrow> int \<Rightarrow> ('e seq_world_scheme, int \<times> int) prog" where
  "mallocTime_loop 0 conversationID size' = throw (ErrNew ''malloc seq waiting for lock timeout'')"
| "mallocTime_loop (Suc n) conversationID size' =
     (let key = getSeqMallocKey conversationID in
      bindM (malloc key size') (\<lambda>states. bindM (idx states 0) (\<lambda>st.
        if st = 0 then
          bindM (idx states 1) (\<lambda>s. bindM (idx states 3) (\<lambda>t. ret (s, t)))
        else if st = 1 then
          let mallocSize = getMallocSize conversationID size' in
          bindM (conv_Malloc conversationID mallocSize) (\<lambda>s.
          bindM (idx states 1) (\<lambda>owner. bindM (idx states 2) (\<lambda>mill.
          thenM (setSeqRetry key owner (s + size') (s + mallocSize) mill)
            (ret (s, 0)))))
        else if st = 2 then thenM wait (mallocTime_loop n conversationID size')
        else if st = 3 then
          bindM (idx states 1) (\<lambda>currSeq. bindM (idx states 2) (\<lambda>lastSeq. bindM (idx states 4) (\<lambda>mill.
          let mallocSize = getMallocSize conversationID size' in
          bindM (conv_Malloc conversationID mallocSize) (\<lambda>s.
          bindM (idx states 3) (\<lambda>owner.
            if lastSeq = s then
              thenM (setSeqRetry key owner (currSeq + size') (s + mallocSize) mill)
                (ret (currSeq, mill))
            else
              thenM (setSeqRetry key owner (s + size') (s + mallocSize) mill)
                (ret (s, mill)))))))
        else throw (ErrNew (''unknown state: '' @ itoa st)))))"

definition mallocTime :: "string \<Rightarrow> int \<Rightarrow> ('e seq_world_scheme, int \<times> int) prog" where
  "mallocTime conversationID size' =
     (if size' < 0 then throw (ErrNew ''size must be greater than 0'')
      else mallocTime_loop 10 conversationID size')"

definition Malloc :: "string \<Rightarrow> int \<Rightarrow> ('e seq_world_scheme, int) prog" where
  "Malloc conversationID size' = bindM (mallocTime conversationID size') (\<lambda>(s, _). ret s)"

definition GetMaxSeq :: "string \<Rightarrow> ('e seq_world_scheme, int) prog" where
  "GetMaxSeq conversationID = Malloc conversationID 0"

record SeqTime =
  stSeq :: int
  stTime :: int

definition GetMaxSeqWithTime :: "string \<Rightarrow> ('e seq_world_scheme, SeqTime) prog" where
  "GetMaxSeqWithTime conversationID =
     bindM (mallocTime conversationID 0) (\<lambda>(s, mill). ret \<lparr>stSeq = s, stTime = mill\<rparr>)"

subsection \<open>Smallest sequence numbers\<close>

text \<open>\<open>seqs\<close> is the argument map in the order of its iteration.\<close>

definition SetMinSeqs :: "(string \<times> int) list \<Rightarrow> ('e seq_world_scheme, unit) prog" where
  "SetMinSeqs seqs =
     bindM (foldM (\<lambda>(conversationID, s) keys.
        let keys' = keys @ [getMinSeqKey conversationID] in
        thenM (conv_SetMinSeq conversationID s) (ret keys')) seqs []) (\<lambda>keys.
      DeleteCacheBySlot keys)"

definition SetMinSeq :: "string \<Rightarrow> int \<Rightarrow> ('e seq_world_scheme, unit) prog" where
  "SetMinSeq conversationID s = SetMinSeqs [(conversationID, s)]"

definition GetMinSeq' :: "string \<Rightarrow> ('e seq_world_scheme, int) prog" where
  "GetMinSeq' conversationID = getCache encInt decInt (getMinSeqKey conversationID) (conv_GetMinSeq conversationID)"

subsection \<open>Many conversations at once\<close>

datatype redis_val = VNil | VInt int | VString string | VOther

definition parseInt64 :: "redis_val \<Rightarrow> err + int" where
  "parseInt64 v = (case v of
     VNil \<Rightarrow> Inr 0
   | VInt n \<Rightarrow> Inr n
   | VString s \<Rightarrow> (case atoi s of None \<Rightarrow> Inl (ErrNew ''invalid string not int64'') | Some n \<Rightarrow> Inr n)
   | VOther \<Rightarrow> Inl (ErrNew ''invalid result not int64''))"

definition fieldVal :: "int option \<Rightarrow> redis_val" where
  "fieldVal x = (case x of None \<Rightarrow> VNil | Some n \<Rightarrow> VString (itoa n))"

definition hgetCURR :: "string \<Rightarrow> 'e seq_world_scheme \<Rightarrow> redis_val" where
  "hgetCURR key w = (case liveHash key w of None \<Rightarrow> VNil | Some h \<Rightarrow> fieldVal (hCURR h))"

definition hmgetCURR_TIME :: "string \<Rightarrow> 'e seq_world_scheme \<Rightarrow> redis_val list" where
  "hmgetCURR_TIME key w = (case liveHash key w of
     None \<Rightarrow> [VNil, VNil]
   | Some h \<Rightarrow> [fieldVal (hCURR h), fieldVal (hTIME h)])"

definition getSingleMaxSeq :: "string \<Rightarrow> ('e seq_world_scheme, (string \<times> int) list) prog" where
  "getSingleMaxSeq conversationID = bindM (GetMaxSeq conversationID) (\<lambda>s. ret [(conversationID, s)])"

definition getSingleMaxSeqWithTime :: "string \<Rightarrow> ('e seq_world_scheme, (string \<times> SeqTime) list) prog" where
  "getSingleMaxSeqWithTime conversationID =
     bindM (GetMaxSeqWithTime conversationID) (\<lambda>s. ret [(conversationID, s)])"

definition batchGetMaxSeq ::
  "string list \<Rightarrow> (string \<times> string) list \<Rightarrow> (string \<times> int) list \<Rightarrow>
   ('e seq_world_scheme, (string \<times> int) list) prog" where
  "batchGetMaxSeq keys keyConversationID seqs =
     bindM (io (gets (\<lambda>w. map (\<lambda>key. hgetCURR key w) keys))) (\<lambda>result.
     bindM (foldM (\<lambda>(key, r) (seqs, notFoundKey).
         if r = VNil then ret (seqs, notFoundKey @ [key])
         else bindM (liftE (parseInt64 r)) (\<lambda>req.
           ret (AList.update (mapGet '''' keyConversationID key) req seqs, notFoundKey)))
       (zip keys result) (seqs, [])) (\<lambda>(seqs, notFoundKey).
     foldM (\<lambda>key seqs. let conversationID = mapGet '''' keyConversationID key in
         bindM (GetMaxSeq conversationID) (\<lambda>s. ret (AList.update conversationID s seqs)))
       notFoundKey seqs))"

definition batchGetMaxSeqWithTime ::
  "string list \<Rightarrow> (string \<times> string) list \<Rightarrow> (string \<times> SeqTime) list \<Rightarrow>
   ('e seq_world_scheme, (string \<times> SeqTime) list) prog" where
  "batchGetMaxSeqWithTime keys keyConversationID seqs =
     bindM (io (gets (\<lambda>w. map (\<lambda>key. hmgetCURR_TIME key w) keys))) (\<lambda>result.
     bindM (foldM (\<lambda>(key, val) (seqs, notFoundKey).
         if length val \<noteq> 2 then throw (ErrNew ''batchGetMaxSeqWithTime invalid result'')
         else if val ! 0 = VNil then ret (seqs, notFoundKey @ [key])
         else bindM (liftE (parseInt64 (val ! 0))) (\<lambda>s. bindM (liftE (parseInt64 (val ! 1))) (\<lambda>mill.
           ret (AList.update (mapGet '''' keyConversationID key) \<lparr>stSeq = s, stTime = mill\<rparr> seqs, notFoundKey))))
       (zip keys result) (seqs, [])) (\<lambda>(seqs, notFoundKey).
     foldM (\<lambda>key seqs. let conversationID = mapGet '''' keyConversationID key in
         bindM (GetMaxSeqWithTime conversationID) (\<lambda>s. ret (AList.update conversationID s seqs)))
       notFoundKey seqs))"

text \<open>The keys without duplicates, and the conversation of each.\<close>

definition dedupKeys :: "string list \<Rightarrow> string list \<times> (string \<times> string) list" where
  "dedupKeys conversationIDs = foldl (\<lambda>(keys, keyConversationID) conversationID.
     let key = getSeqMallocKey conversationID in
     case map_of keyConversationID key of
       Some _ \<Rightarrow> (keys, keyConversationID)
     | None \<Rightarrow> (keys @ [key], AList.update key conversationID keyConversationID)) ([], []) conversationIDs"

definition GetMaxSeqs :: "string list \<Rightarrow> ('e seq_world_scheme, (string \<times> int) list) prog" where
  "GetMaxSeqs conversationIDs =
     (if length conversationIDs = 0 then ret []
      else if length conversationIDs = 1 then getSingleMaxSeq (conversationIDs ! 0)
      else let (keys, keyConversationID) = dedupKeys conversationIDs in
        if length keys = 1 then getSingleMaxSeq (conversationIDs ! 0)
        else bindM (groupKeysBySlot keys) (\<lambda>slotKeys.
          foldM (\<lambda>(_, ks) seqs. batchGetMaxSeq ks keyConversationID seqs) slotKeys []))"

definition GetMaxSeqsWithTime :: "string list \<Rightarrow> ('e seq_world_scheme, (string \<times> SeqTime) list) prog" where
  "GetMaxSeqsWithTime conversationIDs =
     (if length conversationIDs = 0 then ret []
      else if length conversationIDs = 1 then getSingleMaxSeqWithTime (conversationIDs ! 0)
      else let (keys, keyConversationID) = dedupKeys conversationIDs in
        if length keys = 1 then getSingleMaxSeqWithTime (conversationIDs ! 0)
        else bindM (groupKeysBySlot keys) (\<lambda>slotKeys.
          foldM (\<lambda>(_, ks) seqs. batchGetMaxSeqWithTime ks keyConversationID seqs) slotKeys []))"

definition GetCacheMaxSeqWithTime :: "string list \<Rightarrow> ('e seq_world_scheme, (string \<times> SeqTime) list) prog" where
  "GetCacheMaxSeqWithTime conversationIDs =
     (if length conversationIDs = 0 then ret []
      else let (keys, key2conversationID) = dedupKeys conversationIDs in
        bindM (groupKeysBySlot keys) (\<lambda>slotKeys.
          foldM (\<lambda>(_, ks) res.
            if length ks = 0 then ret res
            else bindM (io (gets (\<lambda>w. map (\<lambda>key. hmgetCURR_TIME key w) ks))) (\<lambda>cmds.
              foldM (\<lambda>(key, val) res.
                if length val \<noteq> 2 then throw (ErrNew ''GetCacheMaxSeqWithTime invalid result'')
                else if val ! 0 = VNil then ret res
                else bindM (liftE (parseInt64 (val ! 0))) (\<lambda>s. bindM (liftE (parseInt64 (val ! 1))) (\<lambda>mill.
                  ret (AList.update (mapGet '''' key2conversationID key) \<lparr>stSeq = s, stTime = mill\<rparr> res))))
                (zip ks cmds) res)) slotKeys []))"

end
