(* ===== verification/Seq_Alloc.thy ===== *)
theory Seq_Alloc
  imports Seq_Conversation
begin

text \<open>
  What the allocator promises. The interface \<open>seq_allocator\<close> states it for any allocator: a level
  below which every number is taken, an allocation that succeeds takes its numbers above the old
  level and below the new one, and nothing lowers the level. From these laws alone, consecutive
  allocations hand out disjoint, increasing ranges. The allocator of \<^verbatim>\<open>Seq_Conversation\<close> is an
  instance, for every pattern of failures of redis and MongoDB and every passage of time between
  the calls.
\<close>

section \<open>The interface\<close>

locale seq_allocator =
  fixes alloc :: "'c \<Rightarrow> int \<Rightarrow> ('w, int) prog"
    and level :: "'c \<Rightarrow> 'w \<Rightarrow> int"
    and inv :: "'w \<Rightarrow> bool"
    and later :: "'w \<Rightarrow> 'w \<Rightarrow> bool"
  assumes alloc_inv: "inv w \<Longrightarrow> 0 \<le> n \<Longrightarrow> alloc c n w = (r, w') \<Longrightarrow> inv w'"
    and alloc_level: "inv w \<Longrightarrow> 0 \<le> n \<Longrightarrow> alloc c n w = (r, w') \<Longrightarrow> level c' w \<le> level c' w'"
    and alloc_range: "inv w \<Longrightarrow> 0 \<le> n \<Longrightarrow> alloc c n w = (Inr s, w') \<Longrightarrow>
      level c w \<le> s \<and> s + n \<le> level c w'"
    and later_inv: "inv w \<Longrightarrow> later w w' \<Longrightarrow> inv w'"
    and later_level: "inv w \<Longrightarrow> later w w' \<Longrightarrow> level c' w \<le> level c' w'"
begin

text \<open>
  A history of calls: what each call asked for, what it got, and the passage of time before it.
\<close>

inductive history :: "'w \<Rightarrow> ('c \<times> int \<times> (err + int)) list \<Rightarrow> 'w \<Rightarrow> bool" where
  Nil: "history w [] w"
| Call: "later w w1 \<Longrightarrow> 0 \<le> n \<Longrightarrow> alloc c n w1 = (r, w2) \<Longrightarrow> history w2 h w3 \<Longrightarrow>
    history w ((c, n, r) # h) w3"

lemma history_inv: "history w h w' \<Longrightarrow> inv w \<Longrightarrow> inv w' \<and> level c w \<le> level c w'"
proof (induction rule: history.induct)
  case (Nil w)
  then show ?case by simp
next
  case (Call w w1 n c' r w2 h w3)
  have 1: "inv w1" "level c w \<le> level c w1"
    using Call.prems Call.hyps(1) later_inv later_level by blast+
  have 2: "inv w2" "level c w1 \<le> level c w2"
    using 1(1) Call.hyps(2,3) alloc_inv alloc_level by blast+
  with 1 Call.IH show ?case by force
qed

lemma history_above:
  "history w h w' \<Longrightarrow> inv w \<Longrightarrow> (c, n, Inr s) \<in> set h \<Longrightarrow> level c w \<le> s \<and> s + n \<le> level c w'"
proof (induction rule: history.induct)
  case (Nil w)
  then show ?case by simp
next
  case (Call w w1 n' c' r w2 h w3)
  have 1: "inv w1" "level c w \<le> level c w1"
    using Call.prems Call.hyps(1) later_inv later_level by blast+
  have 2: "inv w2" "level c w1 \<le> level c w2"
    using 1(1) Call.hyps(2,3) alloc_inv alloc_level by blast+
  show ?case
  proof (cases "(c, n, Inr s) \<in> set h")
    case True
    with Call.IH 2(1) have "level c w2 \<le> s \<and> s + n \<le> level c w3" by blast
    with 1 2 show ?thesis by linarith
  next
    case False
    with Call.prems have [simp]: "c' = c" "n' = n" "r = Inr s" by auto
    have "level c w1 \<le> s \<and> s + n \<le> level c w2"
      using alloc_range [OF 1(1)] Call.hyps(2,3) by simp
    moreover have "level c w2 \<le> level c w3"
      using history_inv [OF Call.hyps(4) 2(1)] by simp
    ultimately show ?thesis using 1 by linarith
  qed
qed

lemma history_later_inv: "history w (h1 @ h2) w' \<Longrightarrow> \<exists>w1. history w h1 w1 \<and> history w1 h2 w'"
proof (induction h1 arbitrary: w)
  case Nil
  then show ?case using history.Nil by auto
next
  case (Cons x h1)
  from Cons.prems obtain w1 n c r w2 where x: "x = (c, n, r)" "later w w1" "0 \<le> n"
    "alloc c n w1 = (r, w2)" and rest: "history w2 (h1 @ h2) w'"
    by (cases rule: history.cases) auto
  from Cons.IH [OF rest] obtain w3 where "history w2 h1 w3" "history w3 h2 w'" by blast
  with x show ?case using history.Call by fastforce
qed

lemma history_increasing:
  assumes "inv w" and "history w (h1 @ (c, n, Inr s) # h2 @ (c, n', Inr s') # h3) w'"
  shows "s + n \<le> s'"
proof -
  from history_later_inv [of w "h1 @ [(c, n, Inr s)]" "h2 @ (c, n', Inr s') # h3" w'] assms(2)
  obtain w1 where 1: "history w (h1 @ [(c, n, Inr s)]) w1" "history w1 (h2 @ (c, n', Inr s') # h3) w'"
    by auto
  have "s + n \<le> level c w1" using history_above [OF 1(1) assms(1)] by simp
  moreover have "inv w1" using history_inv [OF 1(1) assms(1)] by simp
  ultimately show ?thesis using history_above [OF 1(2)] by fastforce
qed

end

section \<open>The invariant and the level of the redis allocator\<close>

text \<open>
  An unlocked hash holds a part of a block of the database. The level of a conversation is \<^verbatim>\<open>CURR\<close>
  of a live, unlocked hash; otherwise the next number comes from the database, and the level is its
  largest sequence number.
\<close>

definition hash_ok :: "int \<Rightarrow> malloc_hash \<Rightarrow> bool" where
  "hash_ok m h \<longleftrightarrow> (hLOCK h = None \<longrightarrow>
     (\<exists>cu la. hCURR h = Some cu \<and> hLAST h = Some la \<and> cu \<le> la \<and> la \<le> m))"

definition seq_inv :: "'e seq_world_scheme \<Rightarrow> bool" where
  "seq_inv w \<longleftrightarrow> (\<forall>c h dl. mallocKeys w (getSeqMallocKey c) = Some (h, dl) \<longrightarrow> hash_ok (conv_maxOf c w) h)"

definition hash_level :: "int \<Rightarrow> malloc_hash option \<Rightarrow> int" where
  "hash_level m h = (case h of
     Some h \<Rightarrow> (case (hLOCK h, hCURR h) of (None, Some cu) \<Rightarrow> cu | _ \<Rightarrow> m)
   | None \<Rightarrow> m)"

definition seq_level :: "string \<Rightarrow> 'e seq_world_scheme \<Rightarrow> int" where
  "seq_level c w = hash_level (conv_maxOf c w) (liveHash (getSeqMallocKey c) w)"

definition time_passes :: "'e seq_world_scheme \<Rightarrow> 'e seq_world_scheme \<Rightarrow> bool" where
  "time_passes w w' \<longleftrightarrow> (\<exists>d\<ge>0. w' = w\<lparr>clock := clock w + d\<rparr>)"

lemma getSeqMallocKey_inject [simp]: "getSeqMallocKey c = getSeqMallocKey c' \<longleftrightarrow> c = c'"
  by (simp add: getSeqMallocKey_def GetMallocSeqKey_def)

lemma hash_level_le: "h = None \<or> hash_ok m (the h) \<Longrightarrow> hash_level m h \<le> m"
  by (auto simp: hash_level_def hash_ok_def split: option.splits)

lemma liveHash_stored: "liveHash k w = Some h \<Longrightarrow> \<exists>dl. mallocKeys w k = Some (h, dl)"
  by (auto simp: liveHash_def split: option.splits if_splits)

lemma seq_inv_live: "seq_inv w \<Longrightarrow> liveHash (getSeqMallocKey c) w = Some h \<Longrightarrow> hash_ok (conv_maxOf c w) h"
  by (auto simp: seq_inv_def dest!: liveHash_stored)

lemma seq_level_le: "seq_inv w \<Longrightarrow> seq_level c w \<le> conv_maxOf c w"
  unfolding seq_level_def by (rule hash_level_le) (auto intro: seq_inv_live)

lemma liveHash_opno [simp]: "liveHash k (w\<lparr>opno := n\<rparr>) = liveHash k w"
  by (simp add: liveHash_def split: option.split)

lemma seq_inv_opno [simp]: "seq_inv (w\<lparr>opno := n\<rparr>) = seq_inv w"
  by (simp add: seq_inv_def)

lemma seq_level_opno [simp]: "seq_level c (w\<lparr>opno := n\<rparr>) = seq_level c w"
  by (simp add: seq_level_def)

lemma conv_maxOf_clock [simp]: "conv_maxOf c (w\<lparr>clock := t\<rparr>) = conv_maxOf c w"
  by (simp add: conv_maxOf_def convFind_def)

lemma seq_inv_clock [simp]: "seq_inv (w\<lparr>clock := t\<rparr>) = seq_inv w"
  by (simp add: seq_inv_def)

lemma seq_level_clock:
  assumes "seq_inv w" and "0 \<le> d"
  shows "seq_level c w \<le> seq_level c (w\<lparr>clock := clock w + d\<rparr>)"
proof (cases "liveHash (getSeqMallocKey c) (w\<lparr>clock := clock w + d\<rparr>)")
  case None
  then have "seq_level c (w\<lparr>clock := clock w + d\<rparr>) = conv_maxOf c w"
    by (simp add: seq_level_def hash_level_def)
  with seq_level_le [OF assms(1)] show ?thesis by simp
next
  case (Some h)
  then have "liveHash (getSeqMallocKey c) w = Some h"
    using assms(2) by (auto simp: liveHash_def split: option.splits if_splits)
  with Some show ?thesis by (simp add: seq_level_def)
qed

lemma io_cases:
  assumes "io m w = (r, w')"
  obtains (before) "r = Inl ErrIO" "w' = w\<lparr>opno := Suc (opno w)\<rparr>"
  | (after) "r = Inl ErrIO" "w' = snd (m (w\<lparr>opno := Suc (opno w)\<rparr>))"
  | (ok) "m (w\<lparr>opno := Suc (opno w)\<rparr>) = (r, w')"
  using assms
  by (cases "faults w (opno w)") (simp_all add: io_def)

lemma conv_maxOf_writeHash [simp]: "conv_maxOf c (writeHash k u w) = conv_maxOf c w"
  by (simp add: writeHash_def conv_maxOf_def convFind_def split: option.split)

lemma liveHash_writeHash_other:
  "k' \<noteq> k \<Longrightarrow> liveHash k' (writeHash k u w) = liveHash k' w"
  by (simp add: writeHash_def liveHash_def split: option.split)

lemma seq_inv_writeHash:
  assumes "seq_inv w" and "\<And>h s. u = Some (h, s) \<Longrightarrow> hash_ok (conv_maxOf c w) h"
  shows "seq_inv (writeHash (getSeqMallocKey c) u w)"
  using assms by (auto simp: seq_inv_def writeHash_def conv_maxOf_def convFind_def split: option.splits)

lemma liveHash_writeHash:
  "u = Some (h, s) \<Longrightarrow> 0 < s \<Longrightarrow> liveHash k (writeHash k u w) = Some h"
  by (simp add: writeHash_def liveHash_def)

section \<open>The steps of an allocation\<close>

definition after_script :: "malloc_hash option \<Rightarrow> (malloc_hash \<times> int) option \<Rightarrow> malloc_hash option" where
  "after_script h u = (case u of None \<Rightarrow> h | Some (h', _) \<Rightarrow> Some h')"

text \<open>
  The next number comes from the database: there is no hash, or it waits for its refill.
\<close>

definition needs_db :: "malloc_hash option \<Rightarrow> bool" where
  "needs_db h \<longleftrightarrow> (case h of None \<Rightarrow> True | Some h \<Rightarrow> hLOCK h \<noteq> None)"

lemma hash_level_needs_db: "needs_db h \<Longrightarrow> hash_level m h = m"
  by (auto simp: needs_db_def hash_level_def split: option.splits)

text \<open>The replies of the allocation script, with the level before and the hash after.\<close>

definition malloc_reply :: "int \<Rightarrow> int \<Rightarrow> int \<Rightarrow> malloc_hash option \<Rightarrow> int list \<Rightarrow> bool" where
  "malloc_reply m n lvl h' l \<longleftrightarrow>
     (\<exists>cu la t. l = [0, cu, la, t] \<and> lvl = cu \<and> cu + n \<le> hash_level m h')
   \<or> (\<exists>lv t. l = [1, lv, t] \<and> needs_db h')
   \<or> l = [2]
   \<or> (\<exists>cu la lv t. l = [3, cu, la, lv, t] \<and> lvl = cu \<and> cu \<le> la \<and> la \<le> m \<and> needs_db h')"

lemma mallocScript_ok:
  assumes "mallocScript n t lv h = (r, u)" and "0 \<le> n" and "\<And>h'. h = Some h' \<Longrightarrow> hash_ok m h'"
  shows "(\<forall>h' s. u = Some (h', s) \<longrightarrow> 0 < s \<and> hash_ok m h') \<and>
    hash_level m h \<le> hash_level m (after_script h u) \<and>
    (\<exists>l. r = Some l \<and> malloc_reply m n (hash_level m h) (after_script h u) l)"
proof (cases h)
  case None
  then show ?thesis
    using assms(1) by (auto simp: mallocScript_def hash_ok_def hash_level_def after_script_def
        malloc_reply_def needs_db_def emptyHash_def lockSecond_def)
next
  case (Some h')
  show ?thesis
  proof (cases "hLOCK h'")
    case None
    with assms(3) [OF Some] obtain cu la where "hCURR h' = Some cu" "hLAST h' = Some la" "cu \<le> la" "la \<le> m"
      by (auto simp: hash_ok_def)
    then show ?thesis
      using assms(1,2) Some None
      by (auto simp: mallocScript_def hash_ok_def hash_level_def after_script_def malloc_reply_def
          needs_db_def lockSecond_def dataSecond_def Let_def split: if_splits)
  next
    case (Some lk)
    then show ?thesis
      using assms(1) \<open>h = Some h'\<close>
      by (auto simp: mallocScript_def hash_level_def after_script_def malloc_reply_def)
  qed
qed

lemma setSeqScript_ok:
  assumes "setSeqScript owner cu la t h = (r, u)" and "cu \<le> la" and "la \<le> m" and "cu \<le> hash_level m h"
  shows "(\<forall>h' s. u = Some (h', s) \<longrightarrow> 0 < s \<and> hash_ok m h') \<and> cu \<le> hash_level m (after_script h u)"
  using assms
  by (auto simp: setSeqScript_def hash_ok_def hash_level_def after_script_def emptyHash_def dataSecond_def
      split: option.splits if_splits)

lemma liveHash_after:
  "(\<And>h s. u = Some (h, s) \<Longrightarrow> 0 < s) \<Longrightarrow>
   liveHash k (writeHash k u w) = after_script (liveHash k w) u"
  by (cases u) (auto simp: after_script_def writeHash_def liveHash_def)

lemma seq_level_writeHash:
  assumes "\<And>h s. u = Some (h, s) \<Longrightarrow> 0 < s"
  shows "seq_level c (writeHash (getSeqMallocKey c) u w) =
    hash_level (conv_maxOf c w) (after_script (liveHash (getSeqMallocKey c) w) u)"
  unfolding seq_level_def by (subst liveHash_after) (use assms in auto)

lemma seq_level_writeHash_other:
  "c' \<noteq> c \<Longrightarrow> seq_level c' (writeHash (getSeqMallocKey c) u w) = seq_level c' w"
  by (simp add: seq_level_def liveHash_writeHash_other)

text \<open>\<open>advance c\<close>: the invariant holds afterwards and no other conversation's level went down.\<close>

definition advance :: "string \<Rightarrow> 'e seq_world_scheme \<Rightarrow> 'e seq_world_scheme \<Rightarrow> bool" where
  "advance c w w' \<longleftrightarrow> seq_inv w' \<and> (\<forall>c'. c' \<noteq> c \<longrightarrow> seq_level c' w \<le> seq_level c' w') \<and>
     conv_maxOf c w \<le> conv_maxOf c w'"

lemma advance_refl [simp]: "seq_inv w \<Longrightarrow> advance c w w"
  by (simp add: advance_def)

lemma advance_trans: "advance c w w1 \<Longrightarrow> advance c w1 w2 \<Longrightarrow> advance c w w2"
  unfolding advance_def by (meson order_trans)

lemma advance_inv: "advance c w w' \<Longrightarrow> seq_inv w'"
  by (simp add: advance_def)

lemma advance_opno [simp]: "advance c (w\<lparr>opno := n\<rparr>) w' = advance c w w'"
  "advance c w (w'\<lparr>opno := n\<rparr>) = advance c w w'"
  by (simp_all add: advance_def)

lemma malloc_step:
  assumes "malloc (getSeqMallocKey c) n w = (r, w')" and "seq_inv w" and "0 \<le> n"
  shows "advance c w w' \<and> conv_maxOf c w' = conv_maxOf c w \<and> seq_level c w \<le> seq_level c w' \<and>
    (\<forall>l. r = Inr l \<longrightarrow> malloc_reply (conv_maxOf c w) n (seq_level c w) (liveHash (getSeqMallocKey c) w') l)"
proof -
  let ?k = "getSeqMallocKey c" and ?w1 = "w\<lparr>opno := Suc (opno w)\<rparr>"
  obtain sr u where script: "mallocScript n (clock w) (rand w (Suc (opno w))) (liveHash ?k w) = (sr, u)"
    by fastforce
  have ok: "hash_ok (conv_maxOf c w) h'" if "liveHash ?k w = Some h'" for h'
    using seq_inv_live [OF assms(2)] that by simp
  note S = mallocScript_ok [OF script assms(3), of "conv_maxOf c w", OF ok]
  obtain l where l: "sr = Some l" and rep: "malloc_reply (conv_maxOf c w) n
      (hash_level (conv_maxOf c w) (liveHash ?k w)) (after_script (liveHash ?k w) u) l"
    using S by blast
  let ?w2 = "writeHash ?k u ?w1"
  have lvl: "seq_level c ?w2 = hash_level (conv_maxOf c w) (after_script (liveHash ?k w) u)"
    using S seq_level_writeHash [of u c ?w1] by simp
  have inv: "seq_inv ?w2"
    by (rule seq_inv_writeHash) (use S assms(2) in auto)
  have adv: "advance c w ?w2"
    using inv by (simp add: advance_def seq_level_writeHash_other)
  have le: "seq_level c w \<le> seq_level c ?w2" using S lvl by (simp add: seq_level_def)
  have rep': "malloc_reply (conv_maxOf c w) n (seq_level c w) (liveHash ?k ?w2) l"
    using rep S liveHash_after [of u ?k ?w1] by (simp add: seq_level_def)
  show ?thesis
    using assms(1) unfolding malloc_def
  proof (cases rule: io_cases)
    case before
    then show ?thesis using assms(2) by simp
  next
    case after
    then have "w' = ?w2" by (simp add: script)
    with after(1) adv le show ?thesis by simp
  next
    case ok
    then have "w' = ?w2" and "r = Inr l" by (simp_all add: script l)
    with adv le rep' show ?thesis by (simp (no_asm_simp))
  qed
qed

text \<open>The refill writes a part of a block of the database, however often it is retried.\<close>

definition refill_post :: "string \<Rightarrow> int \<Rightarrow> 'e seq_world_scheme \<Rightarrow> 'e seq_world_scheme \<Rightarrow> bool" where
  "refill_post c cu w w' \<longleftrightarrow> advance c w w' \<and> conv_maxOf c w' = conv_maxOf c w \<and> cu \<le> seq_level c w'"

lemma setSeqCache_step:
  assumes "conv_setSeqCache (getSeqMallocKey c) owner cu la t w = (r, w')" and "seq_inv w"
    and "cu \<le> la" and "la \<le> conv_maxOf c w" and "cu \<le> seq_level c w"
  shows "refill_post c cu w w'"
proof -
  let ?k = "getSeqMallocKey c" and ?w1 = "w\<lparr>opno := Suc (opno w)\<rparr>"
  obtain sr u where script: "setSeqScript owner cu la t (liveHash ?k w) = (sr, u)"
    by fastforce
  note S = setSeqScript_ok [OF script assms(3,4)]
  have lvl: "cu \<le> hash_level (conv_maxOf c w) (liveHash ?k w)"
    using assms(5) by (simp add: seq_level_def)
  let ?w2 = "writeHash ?k u ?w1"
  have post: "refill_post c cu w ?w2"
    using S [OF lvl] assms(2) seq_level_writeHash [of u c ?w1] seq_inv_writeHash [of ?w1 u c]
    by (simp add: refill_post_def advance_def seq_level_writeHash_other)
  from assms(1,3) have run: "io (\<lambda>w. let (r, u) = setSeqScript owner cu la t (liveHash ?k w) in
      (Inr r, writeHash ?k u w)) w = (r, w')"
    by (simp add: conv_setSeqCache_def)
  then show ?thesis
  proof (cases rule: io_cases)
    case before
    then show ?thesis using assms(2,5) by (simp add: refill_post_def)
  next
    case after
    then have "w' = ?w2" by (simp add: script)
    with post show ?thesis by simp
  next
    case ok
    then have "w' = ?w2" by (simp add: script)
    with post show ?thesis by simp
  qed
qed

lemma wait_step:
  assumes "wait w = (r, w')" and "seq_inv w"
  shows "advance c w w' \<and> conv_maxOf c w' = conv_maxOf c w \<and> seq_level c w \<le> seq_level c w'"
proof -
  let ?w1 = "w\<lparr>opno := Suc (opno w)\<rparr>"
  have w': "w' = ?w1 \<or> w' = ?w1\<lparr>clock := clock ?w1 + 250\<rparr>"
    using assms(1) unfolding wait_def by (cases rule: io_cases) auto
  have "seq_level c' ?w1 \<le> seq_level c' (?w1\<lparr>clock := clock ?w1 + 250\<rparr>)" for c'
    by (rule seq_level_clock) (simp_all add: assms(2))
  then have lvl: "seq_level c' w \<le> seq_level c' w'" for c'
    using w' by (metis order_refl seq_level_opno)
  have "seq_inv w'" and "conv_maxOf c w' = conv_maxOf c w"
    using w' assms(2) by (elim disjE; simp)+
  with lvl show ?thesis by (simp add: advance_def)
qed

lemma tryM_state: "tryM m w = (r, w') \<Longrightarrow> \<exists>r0. m w = (r0, w')"
  by (simp add: tryM_def split: prod.splits sum.splits err.splits)

lemma bindM_cases:
  assumes "bindM m f w = (r, w')"
  obtains (err) e where "m w = (Inl e, w')" "r = Inl e"
  | (val) a w1 where "m w = (Inr a, w1)" "f a w1 = (r, w')"
  using assms by (cases "m w"; cases "fst (m w)") (auto simp: bindM_def)

lemma refill_post_trans:
  "refill_post c cu w w1 \<Longrightarrow> refill_post c cu' w1 w2 \<Longrightarrow> refill_post c cu' w w2"
  unfolding refill_post_def using advance_trans by metis

lemma setSeqRetry_loop_step:
  assumes "setSeqRetry_loop n (getSeqMallocKey c) owner cu la t w = (r, w')" and "seq_inv w"
    and "cu \<le> la" and "la \<le> conv_maxOf c w" and "cu \<le> seq_level c w"
  shows "refill_post c cu w w'"
  using assms
proof (induction n arbitrary: w)
  case 0
  then show ?case by (simp add: refill_post_def)
next
  case (Suc n)
  from Suc.prems(1) show ?case unfolding setSeqRetry_loop.simps
  proof (cases rule: bindM_cases)
    case (err e)
    from tryM_state [OF err(1)] obtain r0 where "conv_setSeqCache (getSeqMallocKey c) owner cu la t w = (r0, w')" by blast
    from setSeqCache_step [OF this Suc.prems(2-)] show ?thesis .
  next
    case (val st w1)
    from tryM_state [OF val(1)] obtain r0 where "conv_setSeqCache (getSeqMallocKey c) owner cu la t w = (r0, w1)" by blast
    from setSeqCache_step [OF this Suc.prems(2-)] have p1: "refill_post c cu w w1" .
    show ?thesis
    proof (cases st)
      case (Inr state)
      with val p1 show ?thesis by simp
    next
      case (Inl e)
      with val(2) have "bindM (tryM wait) (\<lambda>e. case e of Inl _ \<Rightarrow> ret ()
          | Inr _ \<Rightarrow> setSeqRetry_loop n (getSeqMallocKey c) owner cu la t) w1 = (r, w')" by simp
      then show ?thesis
      proof (cases rule: bindM_cases)
        case (err e')
        from tryM_state [OF err(1)] obtain r1 where "wait w1 = (r1, w')" by blast
        from wait_step [OF this, of c] p1 have "refill_post c cu w1 w'"
          by (auto simp: refill_post_def dest: advance_inv)
        with p1 show ?thesis by (rule refill_post_trans)
      next
        case (val rw w2)
        from tryM_state [OF val(1)] obtain r1 where "wait w1 = (r1, w2)" by blast
        from wait_step [OF this, of c] p1 have p2: "refill_post c cu w1 w2"
          by (auto simp: refill_post_def dest: advance_inv)
        with p1 have p12: "refill_post c cu w w2" by (rule refill_post_trans)
        show ?thesis
        proof (cases rw)
          case (Inl e2)
          with val p12 show ?thesis by simp
        next
          case (Inr u)
          with val(2) have "setSeqRetry_loop n (getSeqMallocKey c) owner cu la t w2 = (r, w')" by simp
          from Suc.IH [OF this] p12 Suc.prems(3-4) have "refill_post c cu w2 w'"
            by (auto simp: refill_post_def dest: advance_inv)
          with p12 show ?thesis by (rule refill_post_trans)
        qed
      qed
    qed
  qed
qed

lemma convUpsert_simps [simp]:
  "mallocKeys (convUpsert c f w) = mallocKeys w"
  "clock (convUpsert c f w) = clock w"
  by (simp_all add: convUpsert_def)

lemma liveHash_convUpsert [simp]: "liveHash k (convUpsert c f w) = liveHash k w"
  by (simp add: liveHash_def split: option.split)

lemma hash_ok_mono: "hash_ok m h \<Longrightarrow> m \<le> m' \<Longrightarrow> hash_ok m' h"
  by (auto simp: hash_ok_def)

lemma hash_level_mono: "m \<le> m' \<Longrightarrow> hash_level m h \<le> hash_level m' h"
  by (auto simp: hash_level_def split: option.split)

text \<open>A block allocation in the database; it does not touch the hashes.\<close>

lemma conv_Malloc_live:
  assumes "conv_Malloc c m w = (r, w')"
  shows "mallocKeys w' = mallocKeys w" and "liveHash k w' = liveHash k w"
  using assms
  by (auto simp: conv_Malloc_def conv_GetMaxSeq_def bindM_def io_def Let_def split: if_splits fault.splits)

lemma conv_Malloc_step:
  assumes "conv_Malloc c m w = (r, w')" and "seq_inv w" and "0 \<le> m"
  shows "advance c w w' \<and> seq_level c w \<le> seq_level c w' \<and>
    (\<forall>s. r = Inr s \<longrightarrow> s = conv_maxOf c w \<and> conv_maxOf c w' = s + m)"
proof -
  have mono: "conv_maxOf c' w \<le> conv_maxOf c' w'" for c'
    using conv_Malloc_max_mono [OF assms(1,3)] .
  have inv: "seq_inv w'"
    using assms(2) conv_Malloc_live(1) [OF assms(1)] mono by (auto simp: seq_inv_def intro: hash_ok_mono)
  have lvl: "seq_level c' w \<le> seq_level c' w'" for c'
    by (simp add: seq_level_def conv_Malloc_live(2) [OF assms(1)] hash_level_mono mono)
  have "s = conv_maxOf c w \<and> conv_maxOf c w' = s + m" if "r = Inr s" for s
  proof (cases "m = 0")
    case True
    with assms(1) that show ?thesis
      by (auto simp: conv_Malloc_def conv_GetMaxSeq_def io_Inr conv_maxOf_def split: option.splits)
  next
    case False
    with assms that conv_Malloc_Inr [of c m w s w'] show ?thesis by simp
  qed
  then show ?thesis
    using inv lvl mono by (auto simp: advance_def)
qed

lemma getMallocSize_ge: "0 \<le> n \<Longrightarrow> n \<le> getMallocSize c n"
  by (simp add: getMallocSize_def Let_def)

section \<open>An allocation\<close>

definition alloc_post :: "string \<Rightarrow> int \<Rightarrow> 'e seq_world_scheme \<Rightarrow> err + int \<times> int \<Rightarrow> 'e seq_world_scheme \<Rightarrow> bool" where
  "alloc_post c n w r w' \<longleftrightarrow> advance c w w' \<and> seq_level c w \<le> seq_level c w' \<and>
     (\<forall>s t. r = Inr (s, t) \<longrightarrow> seq_level c w \<le> s \<and> s + n \<le> seq_level c w')"

lemma alloc_post_earlier:
  "alloc_post c n w1 r w' \<Longrightarrow> advance c w w1 \<Longrightarrow> seq_level c w \<le> seq_level c w1 \<Longrightarrow> alloc_post c n w r w'"
  unfolding alloc_post_def by (fastforce intro: advance_trans)

text \<open>
  The two refills share this part: from a conversation that waits for its block, allocate one and
  write its rest, from \<open>g s\<close> on, to the cache.
\<close>

lemma refill_step:
  assumes "bindM (conv_Malloc c m) (\<lambda>s.
      thenM (setSeqRetry (getSeqMallocKey c) owner (g s + n) (s + m) t) (ret (g s, t'))) w = (r, w')"
    and "seq_inv w" and "0 \<le> n" and "n \<le> m"
    and "needs_db (liveHash (getSeqMallocKey c) w)"
    and "lvl \<le> conv_maxOf c w" and "\<And>s. s = conv_maxOf c w \<Longrightarrow> lvl \<le> g s \<and> g s \<le> s"
  shows "advance c w w' \<and> lvl \<le> seq_level c w' \<and>
    (\<forall>s t. r = Inr (s, t) \<longrightarrow> lvl \<le> s \<and> s + n \<le> seq_level c w')"
  using assms(1)
proof (cases rule: bindM_cases)
  case (err e)
  from conv_Malloc_step [OF err(1) assms(2)] assms(3,4) have
    "advance c w w'" "seq_level c w \<le> seq_level c w'" by auto
  with err assms(6) show ?thesis
    using hash_level_needs_db [OF assms(5)] by (simp add: seq_level_def)
next
  case (val s w1)
  from conv_Malloc_step [OF val(1) assms(2)] assms(3,4) have s: "s = conv_maxOf c w"
    and max1: "conv_maxOf c w1 = s + m" and adv1: "advance c w w1" by auto
  have lvl1: "seq_level c w1 = s + m"
    using assms(5) max1 conv_Malloc_live(2) [OF val(1)] by (simp add: seq_level_def hash_level_needs_db)
  have g: "lvl \<le> g s" "g s \<le> s" using assms(7) [OF s] by auto
  from val(2) obtain rr w2 where retry: "setSeqRetry (getSeqMallocKey c) owner (g s + n) (s + m) t w1 = (rr, w2)"
    and r: "w' = w2" "\<forall>s' t. r = Inr (s', t) \<longrightarrow> s' = g s"
    by (auto elim!: bindM_cases)
  have "refill_post c (g s + n) w1 w2"
    using retry unfolding setSeqRetry_def
    by (rule setSeqRetry_loop_step) (use adv1 advance_inv g assms(4) max1 lvl1 in auto)
  then have "advance c w w2" and "g s + n \<le> seq_level c w2"
    using adv1 advance_trans by (auto simp: refill_post_def)
  with r g assms(3) show ?thesis by auto
qed

lemma mallocTime_loop_step:
  assumes "mallocTime_loop k c n w = (r, w')" and "seq_inv w" and "0 \<le> n"
  shows "alloc_post c n w r w'"
  using assms(1,2)
proof (induction k arbitrary: w)
  case 0
  then show ?case by (auto simp: alloc_post_def)
next
  case (Suc k)
  let ?key = "getSeqMallocKey c" and ?m = "getMallocSize c n"
  note m = getMallocSize_ge [OF assms(3), of c]
  from Suc.prems(1) show ?case unfolding mallocTime_loop.simps Let_def
  proof (cases rule: bindM_cases)
    case (err e)
    from malloc_step [OF err(1) Suc.prems(2) assms(3)] err(2) show ?thesis
      by (simp add: alloc_post_def)
  next
    case (val states w1)
    from malloc_step [OF val(1) Suc.prems(2) assms(3)]
    have adv: "advance c w w1" and max1: "conv_maxOf c w1 = conv_maxOf c w"
      and le: "seq_level c w \<le> seq_level c w1"
      and rep: "malloc_reply (conv_maxOf c w) n (seq_level c w) (liveHash ?key w1) states" by auto
    have inv1: "seq_inv w1" using adv advance_inv by blast
    from rep consider
        (got) cu la t where "states = [0, cu, la, t]" "seq_level c w = cu"
          "cu + n \<le> hash_level (conv_maxOf c w) (liveHash ?key w1)"
      | (fresh) lv t where "states = [1, lv, t]" "needs_db (liveHash ?key w1)"
      | (locked) "states = [2]"
      | (full) cu la lv t where "states = [3, cu, la, lv, t]" "seq_level c w = cu" "cu \<le> la"
          "la \<le> conv_maxOf c w" "needs_db (liveHash ?key w1)"
      unfolding malloc_reply_def by blast
    then show ?thesis
    proof cases
      case got
      with val(2) have "r = Inr (cu, t)" and "w' = w1" by auto
      with got adv le max1 show ?thesis by (simp add: alloc_post_def seq_level_def)
    next
      case fresh
      from val(2) fresh(1) have "bindM (conv_Malloc c ?m) (\<lambda>s.
          thenM (setSeqRetry ?key lv (s + n) (s + ?m) t) (ret (s, 0))) w1 = (r, w')"
        by simp
      from refill_step [where g = "\<lambda>s. s" and lvl = "seq_level c w1", OF this inv1 assms(3) m fresh(2)]
      have "alloc_post c n w1 r w'"
        using seq_level_le [OF inv1, of c] by (auto simp: alloc_post_def)
      then show ?thesis using adv le by (rule alloc_post_earlier)
    next
      case locked
      with val(2) have "thenM wait (mallocTime_loop k c n) w1 = (r, w')" by simp
      then show ?thesis
      proof (cases rule: bindM_cases)
        case (err e)
        from wait_step [OF err(1) inv1, of c] err(2) have "alloc_post c n w1 r w'"
          by (simp add: alloc_post_def)
        then show ?thesis using adv le by (rule alloc_post_earlier)
      next
        case (val a w2)
        from wait_step [OF val(1) inv1, of c] have w2: "advance c w1 w2" "seq_level c w1 \<le> seq_level c w2"
          by auto
        from Suc.IH [OF val(2)] w2(1) have "alloc_post c n w2 r w'" by (simp add: advance_inv)
        then have "alloc_post c n w1 r w'" using w2 by (rule alloc_post_earlier)
        then show ?thesis using adv le by (rule alloc_post_earlier)
      qed
    next
      case full
      have same: "(\<lambda>s. thenM (setSeqRetry ?key lv ((if la = s then cu else s) + n) (s + ?m) t)
            (ret (if la = s then cu else s, t))) = (\<lambda>s. if la = s
          then thenM (setSeqRetry ?key lv (cu + n) (s + ?m) t) (ret (cu, t))
          else thenM (setSeqRetry ?key lv (s + n) (s + ?m) t) (ret (s, t)))"
        by (rule ext) (simp del: ret_app)
      from val(2) full(1) have "bindM (conv_Malloc c ?m) (\<lambda>s.
          thenM (setSeqRetry ?key lv ((if la = s then cu else s) + n) (s + ?m) t)
            (ret (if la = s then cu else s, t))) w1 = (r, w')"
        unfolding same full(1) by simp
      then have "advance c w1 w' \<and> cu \<le> seq_level c w' \<and>
          (\<forall>s t. r = Inr (s, t) \<longrightarrow> cu \<le> s \<and> s + n \<le> seq_level c w')"
        by (rule refill_step [OF _ inv1 assms(3) m full(5)]) (use full(3,4) max1 in \<open>auto split: if_splits\<close>)
      with full(2) adv advance_trans show ?thesis by (auto simp: alloc_post_def)
    qed
  qed
qed

lemma mallocTime_post:
  assumes "mallocTime c n w = (r, w')" and "seq_inv w" and "0 \<le> n"
  shows "alloc_post c n w r w'"
  using assms mallocTime_loop_step [of 10 c n w r w'] by (simp add: mallocTime_def)

section \<open>The instance\<close>

lemma Malloc_post:
  assumes "Malloc c n w = (r, w')" and "seq_inv w" and "0 \<le> n"
  shows "seq_inv w' \<and> seq_level c' w \<le> seq_level c' w' \<and>
    (\<forall>s. r = Inr s \<longrightarrow> seq_level c w \<le> s \<and> s + n \<le> seq_level c w')"
proof -
  from assms(1) obtain rt where rt: "mallocTime c n w = (rt, w')" and
    r: "\<forall>s. r = Inr s \<longrightarrow> (\<exists>t. rt = Inr (s, t))"
    unfolding Malloc_def by (cases rule: bindM_cases) auto
  from mallocTime_post [OF rt assms(2,3)] r show ?thesis
    by (cases "c' = c") (auto simp: alloc_post_def advance_def)
qed

interpretation redis_seq: seq_allocator Malloc seq_level seq_inv time_passes
proof
  fix w w' :: "'e seq_world_scheme" and n :: int and c c' and r and s
  show "seq_inv w'" if "seq_inv w" "0 \<le> n" "Malloc c n w = (r, w')"
    using Malloc_post [OF that(3,1,2)] by simp
  show "seq_level c' w \<le> seq_level c' w'" if "seq_inv w" "0 \<le> n" "Malloc c n w = (r, w')"
    using Malloc_post [OF that(3,1,2)] by simp
  show "seq_level c w \<le> s \<and> s + n \<le> seq_level c w'" if "seq_inv w" "0 \<le> n" "Malloc c n w = (Inr s, w')"
    using Malloc_post [OF that(3,1,2)] by simp
  show "seq_inv w'" if "seq_inv w" "time_passes w w'"
    using that by (auto simp: time_passes_def)
  show "seq_level c' w \<le> seq_level c' w'" if "seq_inv w" "time_passes w w'"
    using that seq_level_clock by (auto simp: time_passes_def)
qed

text \<open>
  C5. No two allocations of a conversation share a number. In any history of calls, on any
  conversations, with any failures of redis and MongoDB (an allocation may fail after it has
  moved the database or written the cache) and any time passing between the calls (so that
  keys expire), a later successful allocation begins at or after the end of an earlier one.
\<close>

theorem allocations_disjoint:
  assumes "seq_inv w"
    and "redis_seq.history w (h1 @ (c, n, Inr s) # h2 @ (c, n', Inr s') # h3) w'"
  shows "s + n \<le> s'"
  by (rule redis_seq.history_increasing [OF assms])

lemma demo_world_inv: "seq_inv demo_world"
  by (simp add: seq_inv_def demo_world_def)

definition demo_world1 :: seq_world where
  "demo_world1 = snd (Malloc ''sg_1'' 2 demo_world)"

lemmas malloc_eval = Malloc_def mallocTime_def eval_nat_numeral malloc_def io_def Let_def
  getSeqMallocKey_def GetMallocSeqKey_def liveHash_def mallocScript_def writeHash_def emptyHash_def
  conv_Malloc_def bindM_def getMallocSize_def IsGroupConversationID_def hasPrefix_def
  conv_maxOf_def convFind_def convUpsert_def upsert_def mallocUpdate_def setSeqRetry_def tryM_def
  conv_setSeqCache_def setSeqScript_def lockSecond_def dataSecond_def

lemma demo_run1: "Malloc ''sg_1'' 2 demo_world = (Inr 100, demo_world1)"
  unfolding demo_world1_def by (simp add: malloc_eval demo_world_def)

lemma demo_run2: "fst (Malloc ''sg_1'' 3 demo_world1) = Inr 102"
  unfolding demo_world1_def by (simp add: malloc_eval demo_world_def)

theorem allocations_disjoint_witness:
  "\<exists>w'. redis_seq.history demo_world [(''sg_1'', 2, Inr 100), (''sg_1'', 3, Inr 102)] w' \<and>
     100 + 2 \<le> (102 :: int)"
proof -
  have pass: "time_passes w w" for w :: seq_world by (auto simp: time_passes_def intro: exI [of _ 0])
  have 2: "Malloc ''sg_1'' 3 demo_world1 = (Inr 102, snd (Malloc ''sg_1'' 3 demo_world1))"
    using demo_run2 by (metis prod.collapse)
  have "redis_seq.history demo_world [(''sg_1'', 2, Inr 100), (''sg_1'', 3, Inr 102)]
      (snd (Malloc ''sg_1'' 3 demo_world1))"
    by (intro redis_seq.history.Call [OF pass _ demo_run1] redis_seq.history.Call [OF pass _ 2]
        redis_seq.history.Nil) simp_all
  moreover from this have "100 + 2 \<le> (102 :: int)"
    using allocations_disjoint [OF demo_world_inv, of "[]" "''sg_1''" 2 100 "[]" 3 102 "[]"] by simp
  ultimately show ?thesis by blast
qed

end
