(* ===== verification/Seq_Progress.thy ===== *)
theory Seq_Progress
  imports Seq_Alloc
begin

text \<open>
  When an allocation returns a number, and when it gives up. The refill of the cache never makes
  an allocation fail; an allocation that finds no lock succeeds when the stores do; one that
  finds the lock of a client that never comes back gives up after its ten tries, which take
  2.5 seconds, while the lock lives for 3 (\<open>lockSecond\<close>).
\<close>

lemma tryM_Inr_value:
  "(\<And>e w'. m w = (Inl e, w') \<Longrightarrow> \<forall>s. e \<noteq> Panic s) \<Longrightarrow> \<exists>r w'. tryM m w = (Inr r, w')"
  by (cases "m w"; cases "fst (m w)") (auto simp: tryM_def split: err.splits)

lemma setSeqCache_no_panic: "conv_setSeqCache k o' cu la t w = (Inl e, w') \<Longrightarrow> \<forall>s. e \<noteq> Panic s"
  by (auto simp: conv_setSeqCache_def io_def Let_def split: if_splits fault.splits prod.splits)

lemma wait_no_panic: "wait w = (Inl e, w') \<Longrightarrow> \<forall>s. e \<noteq> Panic s"
  by (auto simp: wait_def io_def Let_def split: fault.splits)

lemma setSeqRetry_loop_returns: "\<exists>w'. setSeqRetry_loop n k o' cu la t w = (Inr (), w')"
proof (induction n arbitrary: w)
  case 0
  then show ?case by simp
next
  case (Suc n)
  obtain st w1 where st: "tryM (conv_setSeqCache k o' cu la t) w = (Inr st, w1)"
    using tryM_Inr_value [of "conv_setSeqCache k o' cu la t" w] setSeqCache_no_panic by blast
  obtain e w2 where e: "tryM wait w1 = (Inr e, w2)"
    using tryM_Inr_value [of wait w1] wait_no_panic by blast
  show ?case
    using st e Suc.IH [of w2] by (cases st; cases e) (auto simp: bindM_Inr [of _ w] bindM_Inr [of _ w1])
qed

lemma setSeqRetry_returns: "\<exists>w'. setSeqRetry k o' cu la t w = (Inr (), w')"
  by (simp add: setSeqRetry_def setSeqRetry_loop_returns)

lemma reliable_writeHash [simp]: "reliable (writeHash k u w) = reliable w"
  by (simp add: reliable_def writeHash_def split: option.split)

lemma conv_Malloc_reliable:
  assumes "reliable w" and "0 \<le> m"
  shows "\<exists>w'. conv_Malloc c m w = (Inr (conv_maxOf c w), w')"
proof (cases "m = 0")
  case True
  then show ?thesis
    using assms by (simp add: conv_Malloc_zero conv_GetMaxSeq_def io_reliable conv_maxOf_def)
next
  case False
  then show ?thesis
    using assms by (simp add: conv_Malloc_def io_reliable bindM_def Let_def conv_maxOf_mallocUpdate)
qed

lemma malloc_reliable:
  assumes "reliable w" and "mallocScript n (clock w) (rand w (Suc (opno w))) (liveHash k w) = (Some l, u)"
  shows "malloc k n w = (Inr l, writeHash k u (w\<lparr>opno := Suc (opno w)\<rparr>))"
  using assms by (simp add: malloc_def io_reliable)

text \<open>
  C6. With stores that answer, and no live lock on the conversation, an allocation succeeds at its
  first try; it returns the level, or the largest number of the database when the cached block was not the
  last one (then the rest of that block is never used).
\<close>

theorem Malloc_succeeds:
  assumes "reliable w" and "seq_inv w" and "0 \<le> n"
    and "\<And>h. liveHash (getSeqMallocKey c) w = Some h \<Longrightarrow> hLOCK h = None"
  shows "\<exists>s w'. Malloc c n w = (Inr s, w') \<and> (s = seq_level c w \<or> s = conv_maxOf c w)"
proof -
  let ?k = "getSeqMallocKey c" and ?m = "getMallocSize c n"
  obtain sr u where script: "mallocScript n (clock w) (rand w (Suc (opno w))) (liveHash ?k w) = (sr, u)"
    by fastforce
  have ok: "hash_ok (conv_maxOf c w) h'" if "liveHash ?k w = Some h'" for h'
    using seq_inv_live [OF assms(2)] that by simp
  from mallocScript_ok [OF script assms(3) ok] obtain l where sr: "sr = Some l"
    and rep: "malloc_reply (conv_maxOf c w) n (seq_level c w) (after_script (liveHash ?k w) u) l"
    unfolding seq_level_def by blast
  have l2: "l \<noteq> [2]"
    using script sr assms(4) ok
    by (auto simp: mallocScript_def hash_ok_def Let_def split: option.splits if_splits)
  let ?w1 = "writeHash ?k u (w\<lparr>opno := Suc (opno w)\<rparr>)"
  have m: "malloc ?k n w = (Inr l, ?w1)"
    using malloc_reliable [OF assms(1)] script sr by simp
  obtain w2 where db: "conv_Malloc c ?m ?w1 = (Inr (conv_maxOf c w), w2)"
    using conv_Malloc_reliable [of ?w1 ?m c] assms(1) getMallocSize_ge [OF assms(3), of c] assms(3) by auto
  have retry: "\<exists>w3. setSeqRetry ?k o' cu la t w2 = (Inr (), w3)" for o' cu la t
    by (rule setSeqRetry_returns)
  have loop: "\<exists>s t w'. mallocTime_loop (Suc 9) c n w = (Inr (s, t), w') \<and>
      (s = seq_level c w \<or> s = conv_maxOf c w)"
    using rep [unfolded malloc_reply_def]
  proof (elim disjE exE conjE)
    fix lv t
    assume l: "l = [1, lv, t]"
    obtain w3 where "setSeqRetry ?k lv (conv_maxOf c w + n) (conv_maxOf c w + ?m) t w2 = (Inr (), w3)"
      using retry by blast
    with l db show ?thesis
      unfolding mallocTime_loop.simps Let_def bindM_Inr [of "malloc ?k n", OF m] by (simp add: bindM_Inr)
  next
    fix cu la lv t
    assume l: "l = [3, cu, la, lv, t]" and lvl: "seq_level c w = cu"
    obtain w3 where 3: "setSeqRetry ?k lv (cu + n) (conv_maxOf c w + ?m) t w2 = (Inr (), w3)"
      using retry by blast
    obtain w4 where 4: "setSeqRetry ?k lv (conv_maxOf c w + n) (conv_maxOf c w + ?m) t w2 = (Inr (), w4)"
      using retry by blast
    from 3 4 l db lvl show ?thesis
      unfolding mallocTime_loop.simps Let_def bindM_Inr [of "malloc ?k n", OF m] by (simp add: bindM_Inr)
  next
    fix cu la t
    assume "l = [0, cu, la, t]" and "seq_level c w = cu"
    then show ?thesis
      unfolding mallocTime_loop.simps Let_def bindM_Inr [of "malloc ?k n", OF m] by simp
  qed (use l2 in simp)
  then show ?thesis
    using assms(3) by (auto simp: Malloc_def mallocTime_def bindM_def eval_nat_numeral)
qed

theorem Malloc_succeeds_witness:
  "\<exists>s w'. Malloc ''sg_1'' 2 demo_world = (Inr s, w')"
  using Malloc_succeeds [of demo_world 2 "''sg_1''"] demo_world_inv
  by (auto simp: reliable_def demo_world_def liveHash_def)

text \<open>
  An allocation that meets a lock with more than 2.25 seconds to live, which nobody releases,
  makes ten tries a quarter of a second apart and gives up; it changes neither the cache nor
  the database. As a lock lives for 3 seconds, this is what happens to every call of the first
  three quarters of a second after a client died between locking and refilling.
\<close>

lemma locked_try:
  assumes "reliable w" and "mallocKeys w (getSeqMallocKey c) = Some (h, dl)" and "clock w < dl"
    and "hLOCK h \<noteq> None"
  shows "mallocTime_loop (Suc k) c n w = mallocTime_loop k c n (w\<lparr>opno := Suc (Suc (opno w)), clock := clock w + 250\<rparr>)"
proof -
  have m: "malloc (getSeqMallocKey c) n w = (Inr [2], w\<lparr>opno := Suc (opno w)\<rparr>)"
    using assms by (simp add: malloc_def io_reliable liveHash_def mallocScript_def writeHash_def)
  have wt: "wait (w\<lparr>opno := Suc (opno w)\<rparr>) = (Inr (), w\<lparr>opno := Suc (Suc (opno w)), clock := clock w + 250\<rparr>)"
    using assms(1) by (simp add: wait_def io_reliable)
  show ?thesis
    unfolding mallocTime_loop.simps Let_def bindM_Inr [of "malloc (getSeqMallocKey c) n", OF m]
    by (simp add: bindM_Inr [of wait, OF wt])
qed

lemma locked_tries:
  assumes "reliable w" and "mallocKeys w (getSeqMallocKey c) = Some (h, dl)" and "clock w + 250 * (int k - 1) < dl"
    and "hLOCK h \<noteq> None"
  shows "mallocTime_loop k c n w = (Inl (ErrNew ''malloc seq waiting for lock timeout''),
    w\<lparr>opno := opno w + 2 * k, clock := clock w + 250 * int k\<rparr>)"
  using assms
proof (induction k arbitrary: w)
  case 0
  then show ?case by simp
next
  case (Suc k)
  let ?w = "w\<lparr>opno := Suc (Suc (opno w)), clock := clock w + 250\<rparr>"
  have "mallocTime_loop (Suc k) c n w = mallocTime_loop k c n ?w"
    by (rule locked_try) (use Suc.prems in auto)
  moreover have "reliable ?w" using Suc.prems(1) by (simp add: reliable_def)
  ultimately show ?case using Suc.IH [of ?w] Suc.prems by (simp add: algebra_simps)
qed

theorem Malloc_lock_timeout:
  assumes "reliable w" and "mallocKeys w (getSeqMallocKey c) = Some (h, dl)" and "clock w + 2250 < dl"
    and "hLOCK h \<noteq> None" and "0 \<le> n"
  shows "Malloc c n w = (Inl (ErrNew ''malloc seq waiting for lock timeout''),
    w\<lparr>opno := opno w + 20, clock := clock w + 2500\<rparr>)"
  using locked_tries [OF assms(1,2), of 10 n] assms(3-5)
  by (simp add: Malloc_def mallocTime_def bindM_def)

definition crashed_world :: seq_world where
  "crashed_world = demo_world\<lparr>mallocKeys := [getSeqMallocKey ''sg_1'' \<mapsto> (emptyHash\<lparr>hLOCK := Some 5\<rparr>, 4000)]\<rparr>"

theorem Malloc_lock_timeout_witness:
  "fst (Malloc ''sg_1'' 1 crashed_world) = Inl (ErrNew ''malloc seq waiting for lock timeout'')"
  by (subst Malloc_lock_timeout [of _ _ "emptyHash\<lparr>hLOCK := Some 5\<rparr>" 4000])
     (simp_all add: crashed_world_def demo_world_def reliable_def)

section \<open>The smallest sequence number\<close>

text \<open>
  After \<^verbatim>\<open>SetMinSeq\<close> succeeded, \<^verbatim>\<open>GetMinSeq\<close> returns the new value, whatever was cached before: the
  database is written first, the cached value is dropped after it.
\<close>

lemma GetMinSeq_miss:
  assumes "reliable w" and "rocks w (getMinSeqKey c) = None"
  shows "fst (GetMinSeq' c w) = Inr (case convFind c w of None \<Rightarrow> 0 | Some d \<Rightarrow> scMinSeq d)"
  using assms
  by (simp add: GetMinSeq'_def getCache_def rocksFetch2_def bindM_def io_reliable conv_GetMinSeq_def)

theorem SetMinSeq_GetMinSeq:
  assumes "SetMinSeq c s w = (Inr (), w')" and "reliable w"
  shows "fst (GetMinSeq' c w') = Inr s"
proof -
  from assms(1) obtain keys w1 where w1: "w1 = convUpsert c (setConvField ''min_seq'' s) (w\<lparr>opno := Suc (opno w)\<rparr>)"
    and w': "w' = w1\<lparr>opno := Suc (opno w1), rocks := rocks w1 |` (- {getMinSeqKey c})\<rparr>"
    using assms(2)
    by (simp add: SetMinSeq_def SetMinSeqs_def bindM_def io_reliable conv_SetMinSeq_def conv_setSeq_def
        DeleteCacheBySlot_def tagAsDeletedBatch2_def io_def Let_def reliable_def convUpsert_def)
  have "reliable w'" using assms(2) by (simp add: w' w1 reliable_def convUpsert_def)
  moreover have "rocks w' (getMinSeqKey c) = None" by (simp add: w')
  moreover have "convFind c w' = convFind c w1" by (simp add: w' convFind_def)
  ultimately show ?thesis
    using GetMinSeq_miss [of w' c] by (simp add: w1 convFind_upsert) (simp add: setConvField_def split: option.split)
qed

theorem SetMinSeq_GetMinSeq_witness:
  "fst (GetMinSeq' ''sg_1'' (snd (SetMinSeq ''sg_1'' 50 demo_world))) = Inr 50"
proof -
  have "SetMinSeq ''sg_1'' 50 demo_world = (Inr (), snd (SetMinSeq ''sg_1'' 50 demo_world))"
    by (simp add: SetMinSeq_def SetMinSeqs_def bindM_def io_def Let_def demo_world_def conv_SetMinSeq_def
        conv_setSeq_def DeleteCacheBySlot_def tagAsDeletedBatch2_def convUpsert_def)
  then show ?thesis
    by (rule SetMinSeq_GetMinSeq) (simp add: reliable_def demo_world_def)
qed

end
