(* ===== verification/Seq_User.thy ===== *)
theory Seq_User
  imports Seq_Store
begin

text \<open>
  The cached sequence numbers of users, \<^verbatim>\<open>cache/redis/seq_user.go\<close>. The bounds are read through
  rockscache and dropped from it after a write; the read position is written to the cache first
  and to the database later (\<^verbatim>\<open>SetUserReadSeqToDB\<close>), so the cache may be ahead of the database.
\<close>

section \<open>Operations\<close>

definition getSeqUserMaxSeqKey :: "string \<Rightarrow> string \<Rightarrow> string" where
  "getSeqUserMaxSeqKey conversationID userID = GetSeqUserMaxSeqKey conversationID userID"

definition getSeqUserMinSeqKey :: "string \<Rightarrow> string \<Rightarrow> string" where
  "getSeqUserMinSeqKey conversationID userID = GetSeqUserMinSeqKey conversationID userID"

definition getSeqUserReadSeqKey :: "string \<Rightarrow> string \<Rightarrow> string" where
  "getSeqUserReadSeqKey conversationID userID = GetSeqUserReadSeqKey conversationID userID"

definition GetUserMaxSeq :: "string \<Rightarrow> string \<Rightarrow> ('e seq_world_scheme, int) prog" where
  "GetUserMaxSeq conversationID userID =
     getCache encInt decInt (getSeqUserMaxSeqKey conversationID userID) (user_GetUserMaxSeq conversationID userID)"

definition SetUserMaxSeq :: "string \<Rightarrow> string \<Rightarrow> int \<Rightarrow> ('e seq_world_scheme, unit) prog" where
  "SetUserMaxSeq conversationID userID s =
     thenM (user_SetUserMaxSeq conversationID userID s)
       (tagAsDeletedBatch2 [getSeqUserMaxSeqKey conversationID userID])"

definition GetUserMinSeq :: "string \<Rightarrow> string \<Rightarrow> ('e seq_world_scheme, int) prog" where
  "GetUserMinSeq conversationID userID =
     getCache encInt decInt (getSeqUserMinSeqKey conversationID userID) (user_GetUserMinSeq conversationID userID)"

definition SetUserMinSeqs :: "string \<Rightarrow> (string \<times> int) list \<Rightarrow> ('e seq_world_scheme, unit) prog" where
  "SetUserMinSeqs userID seqs =
     bindM (foldM (\<lambda>(conversationID, s) keys.
        thenM (user_SetUserMinSeq conversationID userID s)
          (ret (keys @ [getSeqUserMinSeqKey conversationID userID]))) seqs []) (\<lambda>keys.
      DeleteCacheBySlot keys)"

definition SetUserMinSeq :: "string \<Rightarrow> string \<Rightarrow> int \<Rightarrow> ('e seq_world_scheme, unit) prog" where
  "SetUserMinSeq conversationID userID s = SetUserMinSeqs userID [(conversationID, s)]"

definition GetUserReadSeq :: "string \<Rightarrow> string \<Rightarrow> ('e seq_world_scheme, int) prog" where
  "GetUserReadSeq conversationID userID =
     getCache encInt decInt (getSeqUserReadSeqKey conversationID userID) (user_GetUserReadSeq conversationID userID)"

definition SetUserReadSeq :: "string \<Rightarrow> string \<Rightarrow> int \<Rightarrow> ('e seq_world_scheme, unit) prog" where
  "SetUserReadSeq conversationID userID s =
     bindM (GetUserReadSeq conversationID userID) (\<lambda>dbSeq.
       if dbSeq < s then rocksRawSet (getSeqUserReadSeqKey conversationID userID) (encInt s) else ret ())"

definition SetUserReadSeqToDB :: "string \<Rightarrow> string \<Rightarrow> int \<Rightarrow> ('e seq_world_scheme, unit) prog" where
  "SetUserReadSeqToDB conversationID userID s = user_SetUserReadSeq conversationID userID s"

text \<open>One pipeline per slot; \<^verbatim>\<open>HSET value\<close> writes the field rockscache reads.\<close>

definition setUserRedisReadSeqs :: "string \<Rightarrow> (string \<times> int) list \<Rightarrow> ('e seq_world_scheme, unit) prog" where
  "setUserRedisReadSeqs userID seqs =
     (let keys = map (\<lambda>(conversationID, s). getSeqUserReadSeqKey conversationID userID) seqs;
          keySeq = foldl (\<lambda>m (conversationID, s). AList.update (getSeqUserReadSeqKey conversationID userID) s m) [] seqs in
      bindM (groupKeysBySlot keys) (\<lambda>slotKeys.
        forM slotKeys (\<lambda>(_, keys).
          io (modifyM (\<lambda>w. w\<lparr>rocks := rocks w ++ map_of (map (\<lambda>key. (key, encInt (mapGet 0 keySeq key))) keys)\<rparr>)))))"

definition SetUserReadSeqs :: "string \<Rightarrow> (string \<times> int) list \<Rightarrow> ('e seq_world_scheme, unit) prog" where
  "SetUserReadSeqs userID seqs =
     (if length seqs = 0 then ret () else setUserRedisReadSeqs userID seqs)"

record readSeqModel =
  rsConversationID :: string
  rsSeq :: int

definition BatchCache :: "string \<Rightarrow> readSeqModel \<Rightarrow> readSeqModel" where
  "BatchCache conversationID r = r\<lparr>rsConversationID := conversationID\<rparr>"

definition UnmarshalJSON :: "cached \<Rightarrow> readSeqModel option" where
  "UnmarshalJSON bytes = (case decInt bytes of
     None \<Rightarrow> None
   | Some s \<Rightarrow> Some \<lparr>rsConversationID = '''', rsSeq = s\<rparr>)"

definition MarshalJSON :: "readSeqModel \<Rightarrow> cached" where
  "MarshalJSON r = encInt (rsSeq r)"

definition GetUserReadSeqs :: "string \<Rightarrow> string list \<Rightarrow> ('e seq_world_scheme, (string \<times> int) list) prog" where
  "GetUserReadSeqs userID conversationIDs =
     bindM (batchGetCache2 MarshalJSON UnmarshalJSON BatchCache '''' conversationIDs
        (\<lambda>conversationID. getSeqUserReadSeqKey conversationID userID) rsConversationID
        (\<lambda>conversationIDs. bindM (user_GetUserReadSeqs userID conversationIDs) (\<lambda>seqs.
           ret (map (\<lambda>(conversationID, s). \<lparr>rsConversationID = conversationID, rsSeq = s\<rparr>) seqs)))) (\<lambda>res.
      ret (foldl (\<lambda>data v. AList.update (rsConversationID v) (rsSeq v) data) [] res))"

definition GetConversationsUserReadSeqs ::
  "(string \<times> string list) list \<Rightarrow> ('e seq_world_scheme, (string \<times> (string \<times> int) list) list) prog" where
  "GetConversationsUserReadSeqs conversationUserIDs = user_GetConversationsUserReadSeqs conversationUserIDs"

section \<open>Read-through caches\<close>

text \<open>
  The interface of a value behind the cache: loading it returns it and leaves it and the cache
  alone, and what the cache holds does not matter to it. Under these laws \<^verbatim>\<open>getCache\<close> returns the value
  whenever it returns, and keeps the cache coherent, whatever fails.
\<close>

locale read_through =
  fixes key :: string and load :: "('e store_world_scheme, int) prog"
    and val :: "'e store_world_scheme \<Rightarrow> int"
  assumes load_state: "load w = (r, w') \<Longrightarrow> val w' = val w \<and> rocks w' = rocks w"
    and load_val: "load w = (Inr s, w') \<Longrightarrow> s = val w"
    and val_rocks: "val (w\<lparr>rocks := m\<rparr>) = val w"
    and val_opno: "val (w\<lparr>opno := n\<rparr>) = val w"
begin

definition coherent :: "'e store_world_scheme \<Rightarrow> bool" where
  "coherent w \<longleftrightarrow> (\<forall>v. rocks w key = Some v \<longrightarrow> v = encInt (val w))"

lemma io_gets: "io (gets f) w = (r, w') \<Longrightarrow> w' = w\<lparr>opno := Suc (opno w)\<rparr>"
  by (auto simp: io_def Let_def split: fault.splits)

lemma getCache_coherent:
  assumes "getCache encInt decInt key load w = (r, w')" and "coherent w"
  shows "val w' = val w \<and> coherent w' \<and> (\<forall>s. r = Inr s \<longrightarrow> s = val w)"
proof -
  obtain r1 w1 where get: "io (gets (\<lambda>w. rocks w key)) w = (r1, w1)" by fastforce
  have w1: "w1 = w\<lparr>opno := Suc (opno w)\<rparr>" using io_gets [OF get] .
  have 1: "val w1 = val w" "coherent w1"
    using assms(2) by (simp_all add: w1 val_opno coherent_def)
  show ?thesis
  proof (cases r1)
    case (Inl e)
    with assms(1) get 1 show ?thesis by (auto simp: getCache_def rocksFetch2_def bindM_def)
  next
    case (Inr hit)
    with get have hit: "hit = rocks w key"
      by (auto simp: io_def Let_def split: fault.splits)
    show ?thesis
    proof (cases hit)
      case (Some v)
      with hit assms(2) have "v = encInt (val w)" by (simp add: coherent_def)
      with assms(1) get Inr Some 1 show ?thesis
        by (auto simp: getCache_def rocksFetch2_def bindM_def split: if_splits)
    next
      case None
      obtain r2 w2 where ld: "load w1 = (r2, w2)" by fastforce
      from load_state [OF ld] 1 have 2: "val w2 = val w" "coherent w2"
        by (simp_all add: coherent_def)
      show ?thesis
      proof (cases r2)
        case (Inl e)
        with assms(1) get Inr None ld 2 show ?thesis
          by (auto simp: getCache_def rocksFetch2_def bindM_def)
      next
        case (Inr s)
        with load_val ld 1 have s: "s = val w" by simp
        have 3: "val (w2\<lparr>opno := n, rocks := (rocks w2)(key \<mapsto> encInt s)\<rparr>) = val w"
          "coherent (w2\<lparr>opno := n, rocks := (rocks w2)(key \<mapsto> encInt s)\<rparr>)"
          "val (w2\<lparr>opno := n\<rparr>) = val w" "coherent (w2\<lparr>opno := n\<rparr>)" for n
          using 2 s by (simp_all add: val_rocks val_opno coherent_def)
        from assms(1) get \<open>r1 = Inr hit\<close> None ld Inr 3 s show ?thesis
          by (auto simp: getCache_def rocksFetch2_def bindM_def io_def Let_def split: fault.splits)
      qed
    qed
  qed
qed

end

section \<open>Instances\<close>

definition userField :: "string \<Rightarrow> string \<Rightarrow> string \<Rightarrow> 'e seq_world_scheme \<Rightarrow> int" where
  "userField fld c u w = (case userFind u c w of None \<Rightarrow> 0 | Some d \<Rightarrow> getUserField fld d)"

lemma userFind_rocks [simp]: "userFind u c (w\<lparr>rocks := m\<rparr>) = userFind u c w"
  by (simp add: userFind_def)

lemma userReadOf_rocks [simp]: "userReadOf u c (w\<lparr>rocks := m\<rparr>) = userReadOf u c w"
  by (simp add: userReadOf_def)

lemma userField_rocks [simp]: "userField fld c u (w\<lparr>rocks := m\<rparr>) = userField fld c u w"
  by (simp add: userField_def userFind_def)

lemma userField_opno [simp]: "userField fld c u (w\<lparr>opno := n\<rparr>) = userField fld c u w"
  by (simp add: userField_def)

lemma user_getSeq_read_through:
  "read_through (user_getSeq c u fld) (userField fld c u)"
  by unfold_locales (auto simp: userField_def user_getSeq_Inr dest: user_getSeq_state split: option.splits)

interpretation user_max: read_through "getSeqUserMaxSeqKey c u" "user_GetUserMaxSeq c u"
  "userField ''max_seq'' c u :: 'e seq_world_scheme \<Rightarrow> int" for c u
  unfolding user_GetUserMaxSeq_def by (rule user_getSeq_read_through)

interpretation user_min: read_through "getSeqUserMinSeqKey c u" "user_GetUserMinSeq c u"
  "userField ''min_seq'' c u :: 'e seq_world_scheme \<Rightarrow> int" for c u
  unfolding user_GetUserMinSeq_def by (rule user_getSeq_read_through)

interpretation conv_min: read_through "GetMallocMinSeqKey c" "conv_GetMinSeq c"
  "\<lambda>w :: 'e seq_world_scheme. case convFind c w of None \<Rightarrow> 0 | Some d \<Rightarrow> scMinSeq d" for c
  by unfold_locales (auto simp: conv_GetMinSeq_def convFind_def io_def Let_def split: fault.splits)

section \<open>Properties\<close>

text \<open>
  The cached upper bound of a user never hides the database: while the cache is coherent,
  \<^verbatim>\<open>GetUserMaxSeq\<close> returns the stored value whenever it returns, and leaves the cache coherent,
  whichever of its store calls fails.
\<close>

theorem GetUserMaxSeq_coherent:
  assumes "GetUserMaxSeq c u w = (r, w')" and "user_max.coherent c u w"
  shows "user_max.coherent c u w' \<and> userField ''max_seq'' c u w' = userField ''max_seq'' c u w \<and>
    (\<forall>s. r = Inr s \<longrightarrow> s = userField ''max_seq'' c u w)"
  using user_max.getCache_coherent [of c u w r w'] assms by (simp add: GetUserMaxSeq_def)

theorem GetUserMaxSeq_coherent_witness:
  "fst (GetUserMaxSeq ''sg_1'' ''u'' demo_world) = Inr 0"
proof -
  have run: "GetUserMaxSeq ''sg_1'' ''u'' demo_world = (Inr (0 :: int), snd (GetUserMaxSeq ''sg_1'' ''u'' demo_world))"
    by (simp add: GetUserMaxSeq_def getCache_def rocksFetch2_def bindM_def io_def Let_def demo_world_def
        user_GetUserMaxSeq_def user_getSeq_def userFind_def)
  have "user_max.coherent ''sg_1'' ''u'' demo_world"
    by (simp add: user_max.coherent_def demo_world_def)
  from GetUserMaxSeq_coherent [OF run this] run show ?thesis by (metis fst_conv)
qed

text \<open>
  The read position of a user, as the cache shows it: the cached one, or the stored one when nothing
  is cached.
\<close>

definition readPosition :: "string \<Rightarrow> string \<Rightarrow> 'e seq_world_scheme \<Rightarrow> int" where
  "readPosition c u w = (case rocks w (getSeqUserReadSeqKey c u) of
     None \<Rightarrow> userReadOf u c w
   | Some v \<Rightarrow> (case decInt v of Some n \<Rightarrow> n | None \<Rightarrow> 0))"

definition numeric :: "string \<Rightarrow> string \<Rightarrow> 'e seq_world_scheme \<Rightarrow> bool" where
  "numeric c u w \<longleftrightarrow> (\<forall>v. rocks w (getSeqUserReadSeqKey c u) = Some v \<longrightarrow> (\<exists>n. v = encInt n))"

lemma readPosition_opno [simp]: "readPosition c u (w\<lparr>opno := n\<rparr>) = readPosition c u w"
  by (simp add: readPosition_def split: option.split)

lemma readPosition_write:
  "readPosition c u (w\<lparr>rocks := (rocks w)(getSeqUserReadSeqKey c u \<mapsto> encInt s)\<rparr>) = s"
  by (simp add: readPosition_def)

lemma GetUserReadSeq_position:
  assumes "GetUserReadSeq c u w = (r, w')" and "numeric c u w"
  shows "readPosition c u w' = readPosition c u w \<and> numeric c u w' \<and>
    (\<forall>s. r = Inr s \<longrightarrow> s = readPosition c u w)"
proof (cases "rocks w (getSeqUserReadSeqKey c u)")
  case None
  have rp: "readPosition c u w = userReadOf u c w" using None by (simp add: readPosition_def)
  have ld: "(case userFind u c w of None \<Rightarrow> 0 | Some d \<Rightarrow> getUserField ''read_seq'' d) = userReadOf u c w"
    by (simp add: userReadOf_def getUserField_def split: option.split)
  from assms(1) None show ?thesis
    by (auto simp: GetUserReadSeq_def getCache_def rocksFetch2_def bindM_def io_def Let_def rp ld
        user_GetUserReadSeq_def user_getSeq_def numeric_def readPosition_def split: fault.splits)
next
  case (Some v)
  with assms(2) obtain n where "v = encInt n" by (auto simp: numeric_def)
  with assms Some show ?thesis
    by (auto simp: GetUserReadSeq_def getCache_def rocksFetch2_def bindM_def io_def Let_def
        readPosition_def numeric_def split: fault.splits)
qed

text \<open>
  A read position only moves forward in the cache: whatever \<^verbatim>\<open>SetUserReadSeq\<close> returns and
  whichever of its calls fails or loses its reply, the position afterwards is at least the one
  before, and when it succeeds it is the larger of the old position and the new one.
\<close>

theorem read_position_monotone:
  assumes "SetUserReadSeq c u s w = (r, w')" and "numeric c u w"
  shows "readPosition c u w \<le> readPosition c u w' \<and> numeric c u w' \<and>
    (r = Inr () \<longrightarrow> readPosition c u w' = max (readPosition c u w) s)"
proof -
  obtain r1 w1 where get: "GetUserReadSeq c u w = (r1, w1)" by fastforce
  note G = GetUserReadSeq_position [OF get assms(2)]
  show ?thesis
  proof (cases r1)
    case (Inl e)
    with assms(1) get G show ?thesis by (auto simp: SetUserReadSeq_def bindM_def)
  next
    case (Inr dbSeq)
    have n: "numeric c u (w1\<lparr>opno := k, rocks := (rocks w1)(getSeqUserReadSeqKey c u \<mapsto> encInt s)\<rparr>)"
      "numeric c u (w1\<lparr>opno := k\<rparr>)" for k
      using G by (auto simp: numeric_def)
    have p: "readPosition c u (w1\<lparr>opno := k, rocks := (rocks w1)(getSeqUserReadSeqKey c u \<mapsto> encInt s)\<rparr>) = s" for k
      by (simp add: readPosition_def)
    from assms(1) get Inr G n p show ?thesis
      by (auto simp: SetUserReadSeq_def bindM_def rocksRawSet_def io_def Let_def split: if_splits fault.splits)
  qed
qed

theorem read_position_monotone_witness:
  "readPosition ''sg_1'' ''u'' (snd (SetUserReadSeq ''sg_1'' ''u'' 7 demo_world)) = 7"
proof -
  have run: "SetUserReadSeq ''sg_1'' ''u'' 7 demo_world = (Inr (), snd (SetUserReadSeq ''sg_1'' ''u'' 7 demo_world))"
    by (simp add: SetUserReadSeq_def GetUserReadSeq_def getCache_def rocksFetch2_def bindM_def io_def Let_def
        demo_world_def user_GetUserReadSeq_def user_getSeq_def userFind_def rocksRawSet_def)
  from read_position_monotone [OF run] show ?thesis
    by (simp add: numeric_def readPosition_def demo_world_def userReadOf_def userFind_def)
qed

text \<open>
  A block allocation makes the cached smallest sequence number of its conversation stale: the
  cache keeps the value that was set, the database has gone back to 0, and \<^verbatim>\<open>GetMinSeq\<close> goes on
  returning the first until the key expires, and the second afterwards.
\<close>

theorem malloc_makes_min_seq_stale:
  assumes "conv_Malloc c n w = (Inr s, w')" and "0 < n" and "reliable w"
    and "rocks w (GetMallocMinSeqKey c) = Some (encInt m)" and "m \<noteq> 0"
  shows "fst (getCache encInt decInt (GetMallocMinSeqKey c) (conv_GetMinSeq c) w') = Inr m \<and>
    fst (getCache encInt decInt (GetMallocMinSeqKey c) (conv_GetMinSeq c) (w'\<lparr>rocks := Map.empty\<rparr>)) = Inr 0"
proof -
  from assms(1,2) have w': "w' = convUpsert c (mallocUpdate n) (w\<lparr>opno := Suc (opno w)\<rparr>)"
    by (auto simp: conv_Malloc_def bindM_eq_Inr io_Inr Let_def)
  have "reliable w'" and "rocks w' (GetMallocMinSeqKey c) = Some (encInt m)"
    using assms(3,4) by (simp_all add: w' reliable_def convUpsert_def)
  moreover have "\<exists>d. convFind c w' = Some d \<and> scMinSeq d = 0"
    by (simp add: w' convFind_upsert mallocUpdate_def)
  moreover have "convFind c (w'\<lparr>rocks := Map.empty, opno := k\<rparr>) = convFind c w'" for k
    by (simp add: convFind_def)
  ultimately show ?thesis
    by (auto simp: getCache_def rocksFetch2_def bindM_def io_def Let_def conv_GetMinSeq_def reliable_def
        convFind_def)
qed

theorem malloc_makes_min_seq_stale_witness:
  "\<exists>w'. fst (getCache encInt decInt (GetMallocMinSeqKey ''sg_1'') (conv_GetMinSeq ''sg_1'') (w' :: seq_world)) = Inr 20"
proof -
  let ?w = "demo_world\<lparr>rocks := [GetMallocMinSeqKey ''sg_1'' \<mapsto> encInt 20]\<rparr>"
  have "\<exists>w'. conv_Malloc ''sg_1'' 150 ?w = (Inr 100, w')"
    by (simp add: conv_Malloc_def bindM_def io_def Let_def demo_world_def conv_maxOf_def
        convFind_def convUpsert_def upsert_def mallocUpdate_def)
  then obtain w' where "conv_Malloc ''sg_1'' 150 ?w = (Inr 100, w')" ..
  from malloc_makes_min_seq_stale [OF this, of 20] show ?thesis
    by (auto simp: reliable_def demo_world_def)
qed

end
