(* ===== verification/Msg_Store.thy ===== *)
theory Msg_Store
  imports Seq_Store
begin

text \<open>
  The message collection, \<^verbatim>\<open>database/mgo/msg.go\<close>, and the message cache, \<^verbatim>\<open>cache/redis/msg.go\<close>.
  A document is addressed by its \<^verbatim>\<open>doc_id\<close>, which has a unique index; the natural order of the collection
  is the order of the object identifiers. A conversation identifier in a regular expression
  stands for itself (it holds no special characters). The functions of the tools library the code calls
  (\<^verbatim>\<open>datautil.Contain\<close>, \<^verbatim>\<open>datautil.Sort\<close>, the JSON encoders of the revocation notice) are the parameter \<open>tools\<close>. The
  Kafka topics are the lists of what was sent to them, with the key of each record.
\<close>

section \<open>State and parameters\<close>

record msg_world = seq_world +
  msgDocs :: "MsgDocModel list"
  sendStatus :: "string \<rightharpoonup> string"
  toRedisTopic :: "(string \<times> MsgData) list"
  toPushTopic :: "(string \<times> string \<times> MsgData) list"
  toMongoTopic :: "(string \<times> string \<times> MsgData list \<times> int) list"

record MessageRevokedContent =
  rvRevokerID :: string
  rvRevokerRole :: int
  rvClientMsgID :: string
  rvRevokerNickname :: string
  rvRevokeTime :: int
  rvSourceMessageSendTime :: int
  rvSourceMessageSendID :: string
  rvSourceMessageSenderNickname :: string
  rvSessionType :: int
  rvSeq :: int
  rvEx :: string

text \<open>The part of the quoted message the code reads, and the quote around it.\<close>

record QuoteData =
  qSeq :: int
  qContentType :: int
  qContent :: string
  qRest :: string

record QuoteMsg =
  qmText :: string
  qmQuoteMessage :: "QuoteData option"
  qmEntities :: string

record tools =
  tContain :: "string \<Rightarrow> string list \<Rightarrow> bool"
  tSort :: "int list \<Rightarrow> bool \<Rightarrow> int list"
  tJsonRevoked :: "MessageRevokedContent \<Rightarrow> err + string"
  tJsonElem :: "string \<Rightarrow> err + string"
  tJsonQuote :: "QuoteMsg \<Rightarrow> err + string"
  tUnjsonQuote :: "string \<Rightarrow> err + QuoteMsg"

text \<open>What the code relies on of the library.\<close>

definition tools_ok :: "'t tools_scheme \<Rightarrow> bool" where
  "tools_ok T \<longleftrightarrow> (\<forall>x xs. tContain T x xs = (x \<in> set xs)) \<and>
     (\<forall>xs. mset (tSort T xs False) = mset xs \<and> sorted (rev (tSort T xs False)))"

section \<open>One document\<close>

definition docFind :: "string \<Rightarrow> 'e msg_world_scheme \<Rightarrow> MsgDocModel option" where
  "docFind i w = List.find (\<lambda>d. docID d = i) (msgDocs w)"

datatype doc_value = VMsg "MsgDataModel option" | VRevoke "RevokeModel option"

text \<open>
  \<^verbatim>\<open>$set\<close> of a field of one array element. Past the end of the array MongoDB pads it with nulls; a
  field cannot be created in a null element.
\<close>

definition setElem :: "string \<Rightarrow> doc_value \<Rightarrow> MsgInfoModel option \<Rightarrow> err + MsgInfoModel" where
  "setElem key value e = (case e of
     None \<Rightarrow> Inl ErrIO
   | Some i \<Rightarrow> (case value of
       VMsg m \<Rightarrow> if key = ''msg'' then Inr (i\<lparr>iMsg := m\<rparr>) else Inl ErrIO
     | VRevoke r \<Rightarrow> if key = ''revoke'' then Inr (i\<lparr>iRevoke := r\<rparr>) else Inl ErrIO))"

definition setAt :: "int \<Rightarrow> string \<Rightarrow> doc_value \<Rightarrow> MsgInfoModel option list \<Rightarrow> err + MsgInfoModel option list" where
  "setAt index key value ms =
     (if index < 0 then Inl ErrIO
      else let i = nat index in
        if i < length ms then
          (case setElem key value (ms ! i) of Inl e \<Rightarrow> Inl e | Inr x \<Rightarrow> Inr (ms[i := Some x]))
        else
          (case setElem key value (Some zeroMsgInfo) of
             Inl e \<Rightarrow> Inl e
           | Inr x \<Rightarrow> Inr (ms @ replicate (i - length ms) None @ [Some x])))"

record UpdateResult =
  MatchedCount :: int
  ModifiedCount :: int

definition noMatch :: UpdateResult where
  "noMatch = \<lparr>MatchedCount = 0, ModifiedCount = 0\<rparr>"

section \<open>Operations of the collection\<close>

definition Create :: "MsgDocModel \<Rightarrow> ('e msg_world_scheme, unit) prog" where
  "Create msg = io (\<lambda>w.
     if docFind (docID msg) w \<noteq> None then (Inl MongoDuplicateKey, w)
     else (Inr (), w\<lparr>msgDocs := msgDocs w @ [msg]\<rparr>))"

definition replaceMsgs ::
  "string \<Rightarrow> MsgInfoModel option list \<Rightarrow> 'e msg_world_scheme \<Rightarrow> 'e msg_world_scheme" where
  "replaceMsgs i ms w = w\<lparr>msgDocs := updFirst (\<lambda>d. docID d = i) (\<lambda>d. d\<lparr>docMsgs := ms\<rparr>) (msgDocs w)\<rparr>"

definition UpdateMsg ::
  "string \<Rightarrow> int \<Rightarrow> string \<Rightarrow> doc_value \<Rightarrow> ('e msg_world_scheme, UpdateResult) prog" where
  "UpdateMsg docID' index key value = io (\<lambda>w. case docFind docID' w of
     None \<Rightarrow> (Inr noMatch, w)
   | Some d \<Rightarrow> (case setAt index key value (docMsgs d) of
         Inl e \<Rightarrow> (Inl e, w)
       | Inr ms \<Rightarrow> (Inr \<lparr>MatchedCount = 1, ModifiedCount = (if ms = docMsgs d then 0 else 1)\<rparr>,
                    replaceMsgs docID' ms w)))"

text \<open>\<^verbatim>\<open>$addToSet\<close> with \<^verbatim>\<open>$each\<close> on the deletion list of a message; the key is always \<^verbatim>\<open>del_list\<close>.\<close>

definition addEach :: "string list \<Rightarrow> string list \<Rightarrow> string list" where
  "addEach value xs = foldl (\<lambda>xs v. if v \<in> set xs then xs else xs @ [v]) xs value"

definition PushUnique ::
  "string \<Rightarrow> int \<Rightarrow> string list \<Rightarrow> ('e msg_world_scheme, UpdateResult) prog" where
  "PushUnique docID' index value = io (\<lambda>w. case docFind docID' w of
     None \<Rightarrow> (Inr noMatch, w)
   | Some d \<Rightarrow>
       if index < 0 then (Inl ErrIO, w)
       else let i = nat index in
         if i < length (docMsgs d) then
           (case docMsgs d ! i of
              None \<Rightarrow> (Inl ErrIO, w)
            | Some m \<Rightarrow>
                let m' = m\<lparr>iDelList := addEach value (iDelList m)\<rparr> in
                (Inr \<lparr>MatchedCount = 1, ModifiedCount = (if m' = m then 0 else 1)\<rparr>,
                 replaceMsgs docID' ((docMsgs d)[i := Some m']) w))
         else (Inr \<lparr>MatchedCount = 1, ModifiedCount = 1\<rparr>,
               replaceMsgs docID' (docMsgs d @ replicate (i - length (docMsgs d)) None @
                 [Some (zeroMsgInfo\<lparr>iDelList := addEach value []\<rparr>)]) w))"

definition FindOneByDocID :: "string \<Rightarrow> ('e msg_world_scheme, MsgDocModel) prog" where
  "FindOneByDocID docID' = io (\<lambda>w. case docFind docID' w of
     None \<Rightarrow> (Inl MongoNoDocuments, w)
   | Some d \<Rightarrow> (Inr d, w))"

text \<open>\<^verbatim>\<open>$arrayElemAt\<close>: a negative index counts from the end; outside the array there is no element.\<close>

definition arrayElemAt :: "MsgInfoModel option list \<Rightarrow> int \<Rightarrow> MsgInfoModel option" where
  "arrayElemAt ms i =
     (let j = (if i < 0 then int (length ms) + i else i) in
      if 0 \<le> j \<and> j < int (length ms) then ms ! nat j else None)"

definition revokeContentOf :: "RevokeModel \<Rightarrow> MsgDataModel \<Rightarrow> MessageRevokedContent" where
  "revokeContentOf r m = \<lparr>rvRevokerID = rUserID r, rvRevokerRole = rRole r, rvClientMsgID = mClientMsgID m,
     rvRevokerNickname = rNickname r, rvRevokeTime = rTime r, rvSourceMessageSendTime = mSendTime m,
     rvSourceMessageSendID = mSendID m, rvSourceMessageSenderNickname = mSenderNickname m,
     rvSessionType = mSessionType m, rvSeq = mSeq m, rvEx = mEx m\<rparr>"

text \<open>A deleted message loses its content for the user; a revoked one becomes a revocation notice.\<close>

definition getMsgBySeqIndexIn1Doc ::
  "'t tools_scheme \<Rightarrow> string \<Rightarrow> string \<Rightarrow> int list \<Rightarrow> ('e msg_world_scheme, MsgInfoModel list) prog" where
  "getMsgBySeqIndexIn1Doc T userID docID' seqs =
     (let indexes = map GetMsgIndex seqs in
      bindM (io (gets (\<lambda>w. map_option (\<lambda>d. map (arrayElemAt (docMsgs d)) indexes) (docFind docID' w)))) (\<lambda>r.
      case r of
        None \<Rightarrow> throw MongoNoDocuments
      | Some ms \<Rightarrow>
          foldM (\<lambda>e msgs. case e of
              None \<Rightarrow> ret msgs
            | Some i \<Rightarrow> (case iMsg i of
                None \<Rightarrow> ret msgs
              | Some m \<Rightarrow>
                  let m1 = (if tContain T userID (iDelList i)
                            then m\<lparr>mContent := '''', mStatus := MsgDeleted\<rparr> else m) in
                  (case iRevoke i of
                     None \<Rightarrow> ret (msgs @ [i\<lparr>iMsg := Some m1\<rparr>])
                   | Some rv \<Rightarrow>
                       bindM (liftE (tJsonRevoked T (revokeContentOf rv m1))) (\<lambda>data.
                       bindM (liftE (tJsonElem T data)) (\<lambda>cont.
                         ret (msgs @ [i\<lparr>iMsg := Some (m1\<lparr>mContentType := MsgRevokeNotification,
                           mContent := cont\<rparr>)\<rparr>]))))))
            ms []))"

definition GetMsgBySeqIndexIn1Doc ::
  "'t tools_scheme \<Rightarrow> string \<Rightarrow> string \<Rightarrow> int list \<Rightarrow> ('e msg_world_scheme, MsgInfoModel list) prog" where
  "GetMsgBySeqIndexIn1Doc T userID docID' seqs =
     bindM (getMsgBySeqIndexIn1Doc T userID docID' seqs) (\<lambda>msgs.
       if length msgs = length seqs then ret msgs
       else
         let tmp = foldl (\<lambda>t v. case iMsg v of None \<Rightarrow> t | Some m \<Rightarrow> AList.update (mSeq m) v t) [] msgs in
         ret (map (\<lambda>s. case map_of tmp s of
             Some v \<Rightarrow> v
           | None \<Rightarrow> zeroMsgInfo\<lparr>iMsg := Some (zeroMsgDataModel\<lparr>mSeq := s\<rparr>)\<rparr>) seqs))"

definition GetMsgDocModelByIndex ::
  "string \<Rightarrow> int \<Rightarrow> int \<Rightarrow> ('e msg_world_scheme, MsgDocModel) prog" where
  "GetMsgDocModelByIndex conversationID index sort' =
     (if sort' \<noteq> 1 \<and> sort' \<noteq> -1 then throw (ErrArgs ''mongo sort must be 1 or -1'')
      else bindM (io (gets (\<lambda>w.
             let ms = filter (\<lambda>d. hasPrefix (docID d) (conversationID @ '':'')) (msgDocs w) in
             take 1 (drop (nat index) (if sort' = 1 then ms else rev ms))))) (\<lambda>msgs.
        case msgs of m # _ \<Rightarrow> ret m | [] \<Rightarrow> throw (ErrNew ''user not have msg in mongoDB'')))"

text \<open>
  The first element that holds a message; an element that is null is a nil pointer the code dereferences.
\<close>

primrec firstMsg :: "MsgInfoModel option list \<Rightarrow> err + MsgInfoModel option" where
  "firstMsg [] = Inr None"
| "firstMsg (e # es) = (case e of
     None \<Rightarrow> Inl (Panic ''nil pointer dereference'')
   | Some i \<Rightarrow> if iMsg i \<noteq> None then Inr (Some i) else firstMsg es)"

primrec GetNewestMsg_loop :: "nat \<Rightarrow> int \<Rightarrow> string \<Rightarrow> ('e msg_world_scheme, MsgInfoModel) prog" where
  "GetNewestMsg_loop 0 skip conversationID = throw (Panic ''out of fuel'')"
| "GetNewestMsg_loop (Suc n) skip conversationID =
     bindM (GetMsgDocModelByIndex conversationID skip (-1)) (\<lambda>d.
     bindM (liftE (firstMsg (rev (docMsgs d)))) (\<lambda>r. case r of
         Some m \<Rightarrow> ret m
       | None \<Rightarrow> GetNewestMsg_loop n (skip + 1) conversationID))"

definition GetNewestMsg :: "string \<Rightarrow> ('e msg_world_scheme, MsgInfoModel) prog" where
  "GetNewestMsg conversationID = (\<lambda>w. GetNewestMsg_loop (Suc (length (msgDocs w))) 0 conversationID w)"

primrec GetOldestMsg_loop :: "nat \<Rightarrow> int \<Rightarrow> string \<Rightarrow> ('e msg_world_scheme, MsgInfoModel) prog" where
  "GetOldestMsg_loop 0 skip conversationID = throw (Panic ''out of fuel'')"
| "GetOldestMsg_loop (Suc n) skip conversationID =
     bindM (GetMsgDocModelByIndex conversationID skip 1) (\<lambda>d.
     bindM (liftE (firstMsg (docMsgs d))) (\<lambda>r. case r of
         Some m \<Rightarrow> ret m
       | None \<Rightarrow> GetOldestMsg_loop n (skip + 1) conversationID))"

definition GetOldestMsg :: "string \<Rightarrow> ('e msg_world_scheme, MsgInfoModel) prog" where
  "GetOldestMsg conversationID = (\<lambda>w. GetOldestMsg_loop (Suc (length (msgDocs w))) 0 conversationID w)"

text \<open>
  One \<^verbatim>\<open>$set\<close> with a whole new element for each index: the message, its deletion list and its revocation are gone.
\<close>

definition clearAt :: "nat \<Rightarrow> MsgInfoModel option list \<Rightarrow> MsgInfoModel option list" where
  "clearAt i ms = (if i < length ms then ms[i := Some zeroMsgInfo]
     else ms @ replicate (i - length ms) None @ [Some zeroMsgInfo])"

definition DeleteMsgsInOneDocByIndex :: "string \<Rightarrow> int list \<Rightarrow> ('e msg_world_scheme, unit) prog" where
  "DeleteMsgsInOneDocByIndex docID' indexes = io (modifyM (\<lambda>w. case docFind docID' w of
     None \<Rightarrow> w
   | Some d \<Rightarrow> replaceMsgs docID' (foldl (\<lambda>ms i. clearAt (nat i) ms) (docMsgs d) indexes) w))"

text \<open>
  A bulk write of one update per index; the filter leaves out the user's own messages. An element
  without a message passes the filter, as its sender is not the user.
\<close>

definition markAt :: "string \<Rightarrow> nat \<Rightarrow> MsgInfoModel option list \<Rightarrow> err + MsgInfoModel option list" where
  "markAt userID i ms =
     (if i < length ms then
        (case ms ! i of
           None \<Rightarrow> Inl ErrIO
         | Some e \<Rightarrow>
             if (case iMsg e of None \<Rightarrow> False | Some m \<Rightarrow> mSendID m = userID) then Inr ms
             else Inr (ms[i := Some (e\<lparr>iIsRead := True\<rparr>)]))
      else Inr (ms @ replicate (i - length ms) None @ [Some (zeroMsgInfo\<lparr>iIsRead := True\<rparr>)]))"

primrec markAll ::
  "string \<Rightarrow> int list \<Rightarrow> MsgInfoModel option list \<Rightarrow> (err + unit) \<times> MsgInfoModel option list" where
  "markAll userID [] ms = (Inr (), ms)"
| "markAll userID (i # is) ms = (case markAt userID (nat i) ms of
     Inl e \<Rightarrow> (Inl e, ms)
   | Inr ms' \<Rightarrow> markAll userID is ms')"

definition mgo_MarkSingleChatMsgsAsRead ::
  "string \<Rightarrow> string \<Rightarrow> int list \<Rightarrow> ('e msg_world_scheme, unit) prog" where
  "mgo_MarkSingleChatMsgsAsRead userID docID' indexes =
     (if indexes = [] then throw (ErrNew ''must provide at least one element in input slice'')
      else io (\<lambda>w. case docFind docID' w of
          None \<Rightarrow> (Inr (), w)
        | Some d \<Rightarrow> (let (r, ms) = markAll userID indexes (docMsgs d) in (r, replaceMsgs docID' ms w))))"

text \<open>What a projection to the send time and the sequence number leaves of a document.\<close>

definition projectTimes :: "MsgDocModel \<Rightarrow> MsgDocModel" where
  "projectTimes d = d\<lparr>docMsgs := map (map_option (\<lambda>i. zeroMsgInfo\<lparr>iMsg := map_option (\<lambda>m.
     zeroMsgDataModel\<lparr>mSendTime := mSendTime m, mSeq := mSeq m\<rparr>) (iMsg i)\<rparr>)) (docMsgs d)\<rparr>"

text \<open>\<^verbatim>\<open>$not $elemMatch\<close>, then a random sample, which is the parameter \<open>sample\<close>.\<close>

definition GetRandBeforeMsg ::
  "(nat \<Rightarrow> MsgDocModel list \<Rightarrow> MsgDocModel list) \<Rightarrow> int \<Rightarrow> nat \<Rightarrow> ('e msg_world_scheme, MsgDocModel list) prog" where
  "GetRandBeforeMsg sample ts limit = io (gets (\<lambda>w.
     sample limit (map projectTimes (filter (\<lambda>d. \<not> list_ex (\<lambda>e. case e of
         None \<Rightarrow> False
       | Some i \<Rightarrow> (case iMsg i of None \<Rightarrow> False | Some m \<Rightarrow> mSendTime m > ts)) (docMsgs d)) (msgDocs w)))))"

definition mgo_DeleteDoc :: "string \<Rightarrow> ('e msg_world_scheme, unit) prog" where
  "mgo_DeleteDoc docID' = io (modifyM (\<lambda>w. w\<lparr>msgDocs := filter (\<lambda>d. docID d \<noteq> docID') (msgDocs w)\<rparr>))"

definition elemSendTime :: "MsgInfoModel option \<Rightarrow> int option" where
  "elemSendTime e = (case e of None \<Rightarrow> None | Some i \<Rightarrow> map_option mSendTime (iMsg i))"

definition elemStatus :: "MsgInfoModel option \<Rightarrow> int option" where
  "elemStatus e = (case e of None \<Rightarrow> None | Some i \<Rightarrow> map_option mStatus (iMsg i))"

text \<open>The pattern of these two queries is the bare identifier, without the colon that ends it in a \<^verbatim>\<open>doc_id\<close>.\<close>

definition mgo_GetLastMessageSeqByTime :: "string \<Rightarrow> int \<Rightarrow> ('e msg_world_scheme, int) prog" where
  "mgo_GetLastMessageSeqByTime conversationID time = bindM (io (gets (\<lambda>w.
       take 1 (rev (filter (\<lambda>d. list_ex (\<lambda>e. case elemSendTime e of None \<Rightarrow> False | Some t \<Rightarrow> t \<le> time) (docMsgs d))
         (filter (\<lambda>d. hasPrefix (docID d) conversationID) (msgDocs w))))))) (\<lambda>res.
     case res of
       [] \<Rightarrow> ret 0
     | d # _ \<Rightarrow> foldM (\<lambda>v s. case v of
           None \<Rightarrow> throw (Panic ''nil pointer dereference'')
         | Some i \<Rightarrow> (case iMsg i of
             None \<Rightarrow> ret s
           | Some m \<Rightarrow> ret (if mSendTime m \<le> time then mSeq m else s))) (docMsgs d) 0)"

definition visibleElem :: "MsgInfoModel option \<Rightarrow> bool" where
  "visibleElem e = (case elemStatus e of None \<Rightarrow> False | Some s \<Rightarrow> s < MsgStatusHasDeleted)"

definition seqOfElem :: "MsgInfoModel option \<Rightarrow> int" where
  "seqOfElem e = (case e of None \<Rightarrow> 0 | Some i \<Rightarrow> (case iMsg i of None \<Rightarrow> 0 | Some m \<Rightarrow> mSeq m))"

definition mgo_GetLastMessage :: "string \<Rightarrow> ('e msg_world_scheme, MsgInfoModel option) prog" where
  "mgo_GetLastMessage conversationID = bindM (io (gets (\<lambda>w.
       let docs = take 1 (rev (filter (\<lambda>d. list_ex visibleElem (docMsgs d))
             (filter (\<lambda>d. hasPrefix (docID d) conversationID) (msgDocs w))));
           es = filter visibleElem (concat (map docMsgs docs)) in
       take 1 (sort_key (\<lambda>e. - seqOfElem e) es)))) (\<lambda>res.
     case res of [] \<Rightarrow> throw MongoNoDocuments | e # _ \<Rightarrow> ret e)"

definition onlyFindDocIndex :: "string \<Rightarrow> int list \<Rightarrow> ('e msg_world_scheme, MsgInfoModel option list) prog" where
  "onlyFindDocIndex docID' indexes =
     (if length indexes = 0 then ret []
      else io (gets (\<lambda>w. case docFind docID' w of
          None \<Rightarrow> []
        | Some d \<Rightarrow> map (arrayElemAt (docMsgs d)) indexes)))"

text \<open>
  The latest message with a send time before an index of a document: the source's loop runs from the last entry down to
  entry 1, so entry 0 is never looked at.
\<close>

fun scanDown :: "MsgInfoModel option list \<Rightarrow> nat \<Rightarrow> int \<times> int" where
  "scanDown res 0 = (0, 0)"
| "scanDown res (Suc i) =
     (case res ! Suc i of
        Some e \<Rightarrow> (case iMsg e of
            Some m \<Rightarrow> if mSendTime m > 0 then (mSeq m, mSendTime m) else scanDown res i
          | None \<Rightarrow> scanDown res i)
      | None \<Rightarrow> scanDown res i)"

definition findBeforeDocSendTime :: "string \<Rightarrow> int \<Rightarrow> ('e msg_world_scheme, int \<times> int) prog" where
  "findBeforeDocSendTime docID' limit =
     (if limit = 0 then ret (0, 0)
      else bindM (io (gets (\<lambda>w. case docFind docID' w of
             None \<Rightarrow> []
           | Some d \<Rightarrow> if limit > 0 then take (nat limit) (docMsgs d) else docMsgs d))) (\<lambda>res.
        ret (scanDown res (length res - 1))))"

primrec findBeforeSendTime_loop ::
  "nat \<Rightarrow> bool \<Rightarrow> string \<Rightarrow> int \<Rightarrow> ('e msg_world_scheme, int \<times> int) prog" where
  "findBeforeSendTime_loop 0 first conversationID s = ret (0, 0)"
| "findBeforeSendTime_loop (Suc i) first conversationID s =
     (let limit = (if first then GetMsgIndex s else -1);
          docID' = BuildDocIDByIndex conversationID (int i) in
      bindM (findBeforeDocSendTime docID' limit) (\<lambda>(msgSeq, msgSendTime).
        if msgSendTime > 0 then ret (msgSeq, msgSendTime)
        else findBeforeSendTime_loop i False conversationID s))"

text \<open>The loop goes from the document of the sequence number down to document 0.\<close>

definition findBeforeSendTime :: "string \<Rightarrow> int \<Rightarrow> ('e msg_world_scheme, int \<times> int) prog" where
  "findBeforeSendTime conversationID s =
     findBeforeSendTime_loop (nat (GetDocIndex s + 1)) True conversationID s"

primrec fillSendTimes ::
  "string \<Rightarrow> int list \<Rightarrow> int \<Rightarrow> int \<Rightarrow> (int \<times> int) list \<Rightarrow> ('e msg_world_scheme, (int \<times> int) list) prog" where
  "fillSendTimes conversationID [] lastSeq lastSendTime sendTime' = ret sendTime'"
| "fillSendTimes conversationID (s # ss) lastSeq lastSendTime sendTime' =
     (if lastSendTime > 0 \<and> lastSeq \<le> s
      then fillSendTimes conversationID ss lastSeq lastSendTime (AList.update s lastSendTime sendTime')
      else bindM (findBeforeSendTime conversationID s) (\<lambda>(msgSeq, msgSendTime).
        if msgSendTime \<le> 0 then ret sendTime'
        else fillSendTimes conversationID ss msgSeq msgSendTime (AList.update s msgSendTime sendTime')))"

definition deletedPlaceholder :: "(int \<times> int) list \<Rightarrow> int \<Rightarrow> MsgInfoModel" where
  "deletedPlaceholder sendTime' s = zeroMsgInfo\<lparr>iMsg := Some (zeroMsgDataModel\<lparr>
     mSeq := s, mStatus := MsgStatusHasDeleted, mSendTime := mapGet 0 sendTime' s\<rparr>)\<rparr>"

definition FindSeqs ::
  "'t tools_scheme \<Rightarrow> string \<Rightarrow> int list \<Rightarrow> ('e msg_world_scheme, MsgInfoModel list) prog" where
  "FindSeqs T conversationID seqs =
     (if length seqs = 0 then ret []
      else bindM (foldM (\<lambda>(docID', docSeqs) (result, abnormalSeq).
          bindM (onlyFindDocIndex docID' (map GetMsgIndex docSeqs)) (\<lambda>res.
            if length res = 0 then ret (result, abnormalSeq @ docSeqs)
            else ret (foldl (\<lambda>(result, abnormalSeq) (re, s).
                case re of
                  None \<Rightarrow> (result, abnormalSeq @ [s])
                | Some i \<Rightarrow> (case iMsg i of
                    None \<Rightarrow> (result, abnormalSeq @ [s])
                  | Some m \<Rightarrow> if mSendTime m = 0 then (result, abnormalSeq @ [s])
                              else (result @ [i], abnormalSeq)))
              (result, abnormalSeq) (zip res docSeqs))))
        (GetDocIDSeqsMap conversationID seqs) ([], [])) (\<lambda>(result, abnormalSeq).
        if length abnormalSeq > 0 then
          let abnormalSeq = tSort T abnormalSeq False in
          bindM (fillSendTimes conversationID abnormalSeq 0 0 []) (\<lambda>sendTime'.
            ret (result @ map (deletedPlaceholder sendTime') abnormalSeq))
        else ret result))"

section \<open>The message cache\<close>

definition GetMsgCacheKey :: "string \<Rightarrow> int \<Rightarrow> string" where
  "GetMsgCacheKey conversationID s = ''MSG_CACHE:'' @ conversationID @ '':'' @ itoa s"

definition GetSendMsgKey :: "string \<Rightarrow> string" where
  "GetSendMsgKey sid = ''SEND_MSG_FAILED_FLAG:'' @ sid"

definition cache_SetSendMsgStatus :: "string \<Rightarrow> int \<Rightarrow> ('e msg_world_scheme, unit) prog" where
  "cache_SetSendMsgStatus sid status' =
     io (modifyM (\<lambda>w. w\<lparr>sendStatus := (sendStatus w)(GetSendMsgKey sid \<mapsto> itoa status')\<rparr>))"

definition cache_GetSendMsgStatus :: "string \<Rightarrow> ('e msg_world_scheme, int) prog" where
  "cache_GetSendMsgStatus sid = io (\<lambda>w. case sendStatus w (GetSendMsgKey sid) of
     None \<Rightarrow> (Inl RedisNil, w)
   | Some s \<Rightarrow> (case atoi s of None \<Rightarrow> Inl ErrIO | Some n \<Rightarrow> Inr n, w))"

definition msgSeqOf :: "MsgInfoModel \<Rightarrow> int" where
  "msgSeqOf m = (case iMsg m of None \<Rightarrow> 0 | Some d \<Rightarrow> mSeq d)"

definition cache_GetMessageBySeqs ::
  "'t tools_scheme \<Rightarrow> string \<Rightarrow> int list \<Rightarrow> ('e msg_world_scheme, MsgInfoModel list) prog" where
  "cache_GetMessageBySeqs T conversationID seqs =
     (if length seqs = 0 then ret []
      else batchGetCache2 encMsg decMsg (\<lambda>_ m. m) 0 seqs (GetMsgCacheKey conversationID) msgSeqOf
        (\<lambda>seqs. FindSeqs T conversationID seqs))"

definition DelMessageBySeqs :: "string \<Rightarrow> int list \<Rightarrow> ('e msg_world_scheme, unit) prog" where
  "DelMessageBySeqs conversationID seqs =
     (if length seqs = 0 then ret ()
      else let keys = map (GetMsgCacheKey conversationID) seqs in
        bindM (groupKeysBySlot keys) (\<lambda>slotKeys.
          forM slotKeys (\<lambda>(_, keys). tagAsDeletedBatch2 keys)))"

definition SetMessageBySeqs :: "string \<Rightarrow> MsgInfoModel option list \<Rightarrow> ('e msg_world_scheme, unit) prog" where
  "SetMessageBySeqs conversationID msgs = forM msgs (\<lambda>msg. case msg of
     None \<Rightarrow> ret ()
   | Some i \<Rightarrow> (case iMsg i of
       None \<Rightarrow> ret ()
     | Some m \<Rightarrow> if mSeq m \<le> 0 then ret ()
                 else rocksRawSet (GetMsgCacheKey conversationID (mSeq m)) (encMsg i)))"

end
