(* ===== verification/Msg_Insert.thy ===== *)
theory Msg_Insert
  imports Msg_Store
begin

text \<open>
  Writing a block of messages, \<^verbatim>\<open>BatchInsertBlock\<close> of \<^verbatim>\<open>controller/msg_transfer.go\<close> and its twin in
  \<^verbatim>\<open>controller/msg.go\<close>. The code updates messages in place while their document exists, inserts
  a whole document when it does not, and falls back to updates when another writer inserted
  the document first. The abstraction \<open>infoAt\<close> reads the collection as one map from conversation
  and sequence number to what is stored there; \<open>insert_block_spec\<close> is the abstract effect of a
  block on it.
\<close>

section \<open>The loop\<close>

text \<open>
  The dynamic type of a field: \<open>FNil\<close> is an untyped nil, the pointers of the two known types may be nil themselves.
\<close>

datatype block_field = FMsg "MsgDataModel option" | FRevoke "RevokeModel option" | FNil | FOther

abbreviation (input) updateKeyMsg :: int where "updateKeyMsg \<equiv> 0"
abbreviation (input) updateKeyRevoke :: int where "updateKeyRevoke \<equiv> 1"

primrec checkFields :: "int \<Rightarrow> int \<Rightarrow> block_field list \<Rightarrow> err option" where
  "checkFields key s [] = None"
| "checkFields key s (fld # flds) =
     (if key = updateKeyMsg then
        (case fld of
           FMsg m \<Rightarrow> (case m of
               Some d \<Rightarrow> if mSeq d \<noteq> s then Some (ErrInternalServer ''seq is invalid'')
                         else checkFields key (s + 1) flds
             | None \<Rightarrow> checkFields key (s + 1) flds)
         | _ \<Rightarrow> Some (ErrInternalServer ''field type is invalid''))
      else if key = updateKeyRevoke then
        (case fld of
           FRevoke r \<Rightarrow> checkFields key (s + 1) flds
         | _ \<Rightarrow> Some (ErrInternalServer ''field type is invalid''))
      else Some (ErrInternalServer ''key is invalid''))"

definition updateMsgModel ::
  "string \<Rightarrow> int \<Rightarrow> int \<Rightarrow> block_field \<Rightarrow> ('e msg_world_scheme, bool) prog" where
  "updateMsgModel conversationID key s field =
     (let docID' = GetDocID conversationID s; index = GetMsgIndex s in
      bindM (case field of
          FMsg m \<Rightarrow> UpdateMsg docID' index ''msg'' (VMsg m)
        | FRevoke r \<Rightarrow> UpdateMsg docID' index ''revoke'' (VRevoke r)
        | _ \<Rightarrow> throw (Panic ''interface conversion'')) (\<lambda>res.
      ret (MatchedCount res > 0)))"

definition blockInfo :: "block_field \<Rightarrow> MsgInfoModel" where
  "blockInfo field = (case field of
     FMsg m \<Rightarrow> zeroMsgInfo\<lparr>iMsg := m\<rparr>
   | FRevoke r \<Rightarrow> zeroMsgInfo\<lparr>iRevoke := r\<rparr>
   | _ \<Rightarrow> zeroMsgInfo)"

text \<open>The number of fields, from the first on, that belong to the document of the first.\<close>

definition blockLen :: "string \<Rightarrow> int \<Rightarrow> block_field list \<Rightarrow> nat" where
  "blockLen conversationID s flds =
     length (takeWhile (\<lambda>j. GetDocID conversationID (s + int j) = GetDocID conversationID s) [0..<length flds])"

definition blockDoc :: "string \<Rightarrow> int \<Rightarrow> block_field list \<Rightarrow> MsgDocModel" where
  "blockDoc conversationID s flds =
     (let filled = foldl (\<lambda>ms j. ms[nat (GetMsgIndex (s + int j)) := Some (blockInfo (flds ! j))])
            (replicate (nat singleGocMsgNum) None) [0..<blockLen conversationID s flds] in
      \<lparr>docID = GetDocID conversationID s,
       docMsgs = map (\<lambda>e. case e of None \<Rightarrow> Some zeroMsgInfo | Some i \<Rightarrow> Some i) filled\<rparr>)"

text \<open>
  The loop over the fields: \<open>s\<close> is the sequence number of the first of the remaining \<open>flds\<close>. A message before
  sequence number 1 has a negative index, on which the slice access panics. The fuel counts the turns of the loop.
\<close>

primrec insertLoop ::
  "nat \<Rightarrow> string \<Rightarrow> int \<Rightarrow> bool \<Rightarrow> int \<Rightarrow> block_field list \<Rightarrow> ('e msg_world_scheme, unit) prog" where
  "insertLoop 0 conversationID key tryUpdate s flds = throw (Panic ''out of fuel'')"
| "insertLoop (Suc n) conversationID key tryUpdate s flds =
     (case flds of
        [] \<Rightarrow> ret ()
      | field # rest \<Rightarrow>
          bindM (if tryUpdate then updateMsgModel conversationID key s field else ret False) (\<lambda>matched.
            if matched then insertLoop n conversationID key tryUpdate (s + 1) rest
            else if GetMsgIndex s < 0 then throw (Panic ''index out of range'')
            else
              let doc = blockDoc conversationID s flds; k = blockLen conversationID s flds in
              bindM (tryM (Create doc)) (\<lambda>r. case r of
                  Inl e \<Rightarrow> if e = MongoDuplicateKey then insertLoop n conversationID key True s flds else throw e
                | Inr _ \<Rightarrow> insertLoop n conversationID key False (s + int k) (drop k flds))))"

definition BatchInsertBlock ::
  "string \<Rightarrow> block_field list \<Rightarrow> int \<Rightarrow> int \<Rightarrow> ('e msg_world_scheme, unit) prog" where
  "BatchInsertBlock conversationID flds key firstSeq =
     (if length flds = 0 then ret ()
      else case checkFields key firstSeq flds of
        Some e \<Rightarrow> throw e
      | None \<Rightarrow> insertLoop (2 * length flds + 1) conversationID key True firstSeq flds)"

text \<open>The copy in \<^verbatim>\<open>controller/msg.go\<close> is the same text.\<close>

definition batchInsertBlock ::
  "string \<Rightarrow> block_field list \<Rightarrow> int \<Rightarrow> int \<Rightarrow> ('e msg_world_scheme, unit) prog" where
  "batchInsertBlock conversationID flds key firstSeq = BatchInsertBlock conversationID flds key firstSeq"

section \<open>The collection as a map\<close>

definition infoAt :: "string \<Rightarrow> int \<Rightarrow> 'e msg_world_scheme \<Rightarrow> MsgInfoModel" where
  "infoAt c s w = (case docFind (GetDocID c s) w of
     None \<Rightarrow> zeroMsgInfo
   | Some d \<Rightarrow> (case arrayElemAt (docMsgs d) (GetMsgIndex s) of None \<Rightarrow> zeroMsgInfo | Some i \<Rightarrow> i))"

definition doc_ok :: "MsgDocModel \<Rightarrow> bool" where
  "doc_ok d \<longleftrightarrow> int (length (docMsgs d)) = singleGocMsgNum \<and> (\<forall>e\<in>set (docMsgs d). e \<noteq> None)"

definition docs_ok :: "'e msg_world_scheme \<Rightarrow> bool" where
  "docs_ok w \<longleftrightarrow> (\<forall>d\<in>set (msgDocs w). doc_ok d)"

definition setInfo :: "block_field \<Rightarrow> MsgInfoModel \<Rightarrow> MsgInfoModel" where
  "setInfo field i = (case field of
     FMsg m \<Rightarrow> i\<lparr>iMsg := m\<rparr>
   | FRevoke r \<Rightarrow> i\<lparr>iRevoke := r\<rparr>
   | _ \<Rightarrow> i)"

text \<open>The abstract effect of a block: each field goes to its sequence number, nothing else moves.\<close>

definition insert_block_spec ::
  "string \<Rightarrow> int \<Rightarrow> block_field list \<Rightarrow> (string \<Rightarrow> int \<Rightarrow> MsgInfoModel) \<Rightarrow> string \<Rightarrow> int \<Rightarrow> MsgInfoModel" where
  "insert_block_spec c s flds M = (\<lambda>c' s'.
     if c' = c \<and> s \<le> s' \<and> s' < s + int (length flds) then setInfo (flds ! nat (s' - s)) (M c' s') else M c' s')"

text \<open>Between the old map and the new one: each place holds what either of them holds.\<close>

definition between ::
  "(string \<Rightarrow> int \<Rightarrow> MsgInfoModel) \<Rightarrow> (string \<Rightarrow> int \<Rightarrow> MsgInfoModel) \<Rightarrow> (string \<Rightarrow> int \<Rightarrow> MsgInfoModel) \<Rightarrow> bool" where
  "between M M1 M2 \<longleftrightarrow> (\<forall>c s. 1 \<le> s \<longrightarrow> M1 c s = M c s \<or> M1 c s = M2 c s)"

definition same :: "(string \<Rightarrow> int \<Rightarrow> MsgInfoModel) \<Rightarrow> (string \<Rightarrow> int \<Rightarrow> MsgInfoModel) \<Rightarrow> bool" where
  "same M M1 \<longleftrightarrow> (\<forall>c s. 1 \<le> s \<longrightarrow> M1 c s = M c s)"

definition absMap :: "'e msg_world_scheme \<Rightarrow> string \<Rightarrow> int \<Rightarrow> MsgInfoModel" where
  "absMap w = (\<lambda>c s. infoAt c s w)"

section \<open>Single steps\<close>

lemma docFind_opno [simp]: "docFind i (w\<lparr>opno := n\<rparr>) = docFind i w"
  by (simp add: docFind_def)

lemma absMap_opno [simp]: "absMap (w\<lparr>opno := n\<rparr>) = absMap w"
  by (simp add: absMap_def infoAt_def)

lemma docs_ok_opno [simp]: "docs_ok (w\<lparr>opno := n\<rparr>) = docs_ok w"
  by (simp add: docs_ok_def)

lemma docFind_ok: "docs_ok w \<Longrightarrow> docFind i w = Some d \<Longrightarrow> doc_ok d \<and> docID d = i"
  unfolding docs_ok_def docFind_def by (drule find_Some_props) auto

lemma doc_slot:
  assumes "doc_ok d" and "1 \<le> s"
  obtains i where "nat (GetMsgIndex s) < length (docMsgs d)" "docMsgs d ! nat (GetMsgIndex s) = Some i"
    "arrayElemAt (docMsgs d) (GetMsgIndex s) = Some i"
proof -
  from GetMsgIndex_bounds [OF assms(2)] assms(1)
  have lt: "nat (GetMsgIndex s) < length (docMsgs d)" "0 \<le> GetMsgIndex s" "GetMsgIndex s < int (length (docMsgs d))"
    by (auto simp: doc_ok_def)
  then obtain i where "docMsgs d ! nat (GetMsgIndex s) = Some i"
    using assms(1) unfolding doc_ok_def by (metis nth_mem option.exhaust)
  with lt that show ?thesis by (auto simp: arrayElemAt_def)
qed

lemma infoAt_slot:
  assumes "docFind (GetDocID c s) w = Some d" and "docMsgs d ! nat (GetMsgIndex s) = Some i"
    and "doc_ok d" and "1 \<le> s"
  shows "infoAt c s w = i"
proof -
  from doc_slot [OF assms(3,4)] obtain i' where "docMsgs d ! nat (GetMsgIndex s) = Some i'"
    "arrayElemAt (docMsgs d) (GetMsgIndex s) = Some i'" .
  with assms(1,2) show ?thesis by (simp add: infoAt_def)
qed

lemma docFind_replaceMsgs:
  "docFind j (replaceMsgs i ms w) =
   (if j = i then map_option (\<lambda>d. d\<lparr>docMsgs := ms\<rparr>) (docFind i w) else docFind j w)"
proof (cases "j = i")
  case True
  then show ?thesis by (simp add: docFind_def replaceMsgs_def find_updFirst)
next
  case False
  then show ?thesis
    by (simp add: docFind_def replaceMsgs_def) (rule find_updFirst_other, auto)
qed

lemma set_updFirst: "set (updFirst P f xs) \<subseteq> set xs \<union> f ` set xs"
  by (induction xs) auto

lemma docs_ok_replaceMsgs:
  assumes "docs_ok w" and "int (length ms) = singleGocMsgNum" and "\<forall>e\<in>set ms. e \<noteq> None"
  shows "docs_ok (replaceMsgs i ms w)"
  unfolding docs_ok_def
proof
  fix d assume "d \<in> set (msgDocs (replaceMsgs i ms w))"
  then have "d \<in> set (msgDocs w) \<or> (\<exists>d0. d = d0\<lparr>docMsgs := ms\<rparr>)"
    unfolding replaceMsgs_def using set_updFirst [of "\<lambda>d. docID d = i" "\<lambda>d. d\<lparr>docMsgs := ms\<rparr>" "msgDocs w"]
    by auto
  then show "doc_ok d" using assms by (auto simp: docs_ok_def doc_ok_def)
qed

text \<open>Writing one slot of one document.\<close>

lemma absMap_write_slot:
  assumes "docs_ok w" and "docFind (GetDocID c s) w = Some d" and "1 \<le> s"
  shows "docs_ok (replaceMsgs (GetDocID c s) ((docMsgs d)[nat (GetMsgIndex s) := Some i]) w)"
    and "same ((absMap w)(c := (absMap w c)(s := i)))
      (absMap (replaceMsgs (GetDocID c s) ((docMsgs d)[nat (GetMsgIndex s) := Some i]) w))"
proof -
  let ?ms = "(docMsgs d)[nat (GetMsgIndex s) := Some i]"
  from docFind_ok [OF assms(1,2)] have d: "doc_ok d" by simp
  then have ms: "int (length ?ms) = singleGocMsgNum" "\<forall>e\<in>set ?ms. e \<noteq> None"
    by (auto simp: doc_ok_def dest: set_update_subset_insert [THEN subsetD])
  show "docs_ok (replaceMsgs (GetDocID c s) ?ms w)"
    by (rule docs_ok_replaceMsgs [OF assms(1) ms])
  show "same ((absMap w)(c := (absMap w c)(s := i))) (absMap (replaceMsgs (GetDocID c s) ?ms w))"
    unfolding same_def
  proof (intro allI impI)
    fix c' s' assume s': "(1::int) \<le> s'"
    have "doc_ok (d\<lparr>docMsgs := ?ms\<rparr>)" using ms by (simp add: doc_ok_def)
    note at = doc_slot [OF d s'] and at' = doc_slot [OF this s']
    show "absMap (replaceMsgs (GetDocID c s) ?ms w) c' s' = ((absMap w)(c := (absMap w c)(s := i))) c' s'"
    proof (cases "GetDocID c' s' = GetDocID c s")
      case False
      then have "\<not> (c' = c \<and> s' = s)" by auto
      with False show ?thesis by (auto simp: absMap_def infoAt_def docFind_replaceMsgs)
    next
      case True
      then have cc: "c' = c" and ii: "GetDocIndex s' = GetDocIndex s" by (simp_all add: GetDocID_inject)
      obtain e where e: "docMsgs d ! nat (GetMsgIndex s') = Some e" using at by blast
      obtain e' where e': "?ms ! nat (GetMsgIndex s') = Some e'" "nat (GetMsgIndex s') < length ?ms"
        using at' by auto
      have old: "infoAt c' s' w = e"
        using infoAt_slot [of c' s' w d e] True assms(2) e d s' by simp
      have new: "infoAt c' s' (replaceMsgs (GetDocID c s) ?ms w) = e'"
        using infoAt_slot [of c' s' "replaceMsgs (GetDocID c s) ?ms w" "d\<lparr>docMsgs := ?ms\<rparr>" e'] True assms(2) e' s' ms
        by (simp add: docFind_replaceMsgs doc_ok_def)
      show ?thesis
      proof (cases "s' = s")
        case True
        with e' new cc show ?thesis by (simp add: absMap_def)
      next
        case False
        then have "GetMsgIndex s' \<noteq> GetMsgIndex s" using doc_position_unique [OF s' assms(3) ii] by blast
        then have "nat (GetMsgIndex s') \<noteq> nat (GetMsgIndex s)"
          using GetMsgIndex_bounds [OF s'] GetMsgIndex_bounds [OF assms(3)] by (simp add: eq_nat_nat_iff)
        with e e' old new cc False show ?thesis by (simp add: absMap_def)
      qed
    qed
  qed
qed

text \<open>The update of one message.\<close>

definition write_slot :: "string \<Rightarrow> int \<Rightarrow> MsgInfoModel \<Rightarrow> (string \<Rightarrow> int \<Rightarrow> MsgInfoModel) \<Rightarrow> string \<Rightarrow> int \<Rightarrow> MsgInfoModel" where
  "write_slot c s i M = M(c := (M c)(s := i))"

lemma io_result:
  assumes "io m w = (r, w')"
  shows "(r = Inl ErrIO \<and> w' = w\<lparr>opno := Suc (opno w)\<rparr>) \<or>
    (r = Inl ErrIO \<and> w' = snd (m (w\<lparr>opno := Suc (opno w)\<rparr>))) \<or> m (w\<lparr>opno := Suc (opno w)\<rparr>) = (r, w')"
  using assms by (cases "faults w (opno w)") (simp_all add: io_def)

lemma UpdateMsg_step:
  assumes "UpdateMsg (GetDocID c s) (GetMsgIndex s) key v w = (r, w')" and "docs_ok w" and "1 \<le> s"
    and "\<And>i. setElem key v (Some i) = Inr (setInfo fld i)"
  shows "docs_ok w' \<and> (same (absMap w) (absMap w') \<or> same (write_slot c s (setInfo fld (infoAt c s w)) (absMap w)) (absMap w')) \<and>
    (\<forall>e. r = Inl e \<longrightarrow> e = ErrIO) \<and>
    (\<forall>u. r = Inr u \<longrightarrow> (if MatchedCount u > 0
       then same (write_slot c s (setInfo fld (infoAt c s w)) (absMap w)) (absMap w')
       else docFind (GetDocID c s) w = None \<and> same (absMap w) (absMap w') \<and> docFind (GetDocID c s) w' = None))"
proof -
  let ?w1 = "w\<lparr>opno := Suc (opno w)\<rparr>"
  let ?m = "\<lambda>w. case docFind (GetDocID c s) w of
     None \<Rightarrow> (Inr noMatch, w)
   | Some d \<Rightarrow> (case setAt (GetMsgIndex s) key v (docMsgs d) of
         Inl e \<Rightarrow> (Inl e, w)
       | Inr ms \<Rightarrow> (Inr \<lparr>MatchedCount = 1, ModifiedCount = (if ms = docMsgs d then 0 else 1)\<rparr>,
                    replaceMsgs (GetDocID c s) ms w))"
  have same0: "same (absMap w) (absMap ?w1)" "docs_ok ?w1" using assms(2) by (simp_all add: same_def)
  show ?thesis
  proof (cases "docFind (GetDocID c s) w")
    case None
    then have "?m ?w1 = (Inr noMatch, ?w1)" by simp
    with io_result [of ?m w r w'] assms(1) have "r = Inl ErrIO \<and> w' = ?w1 \<or> r = Inr noMatch \<and> w' = ?w1"
      unfolding UpdateMsg_def by auto
    with same0 None show ?thesis by (auto simp: noMatch_def)
  next
    case (Some d)
    from docFind_ok [OF assms(2) Some] have d: "doc_ok d" by simp
    obtain i where i: "nat (GetMsgIndex s) < length (docMsgs d)" "docMsgs d ! nat (GetMsgIndex s) = Some i"
      using doc_slot [OF d assms(3)] by blast
    have inf: "infoAt c s w = i" using infoAt_slot [OF Some i(2) d assms(3)] .
    let ?ms = "(docMsgs d)[nat (GetMsgIndex s) := Some (setInfo fld i)]"
    have "setAt (GetMsgIndex s) key v (docMsgs d) = Inr ?ms"
      using i GetMsgIndex_bounds [OF assms(3)] by (simp add: setAt_def assms(4))
    then have run: "?m ?w1 = (Inr \<lparr>MatchedCount = 1, ModifiedCount = (if ?ms = docMsgs d then 0 else 1)\<rparr>,
        replaceMsgs (GetDocID c s) ?ms ?w1)" using Some by simp
    have w2: "docs_ok (replaceMsgs (GetDocID c s) ?ms ?w1)"
      "same (write_slot c s (setInfo fld i) (absMap w)) (absMap (replaceMsgs (GetDocID c s) ?ms ?w1))"
      using absMap_write_slot [of ?w1 c s d] same0 Some assms(3) by (simp_all add: write_slot_def)
    from io_result [of ?m w r w'] assms(1) run have
      "(r = Inl ErrIO \<and> (w' = ?w1 \<or> w' = replaceMsgs (GetDocID c s) ?ms ?w1)) \<or>
       (\<exists>n. r = Inr \<lparr>MatchedCount = 1, ModifiedCount = n\<rparr>) \<and> w' = replaceMsgs (GetDocID c s) ?ms ?w1"
      unfolding UpdateMsg_def by auto
    with w2 same0 inf show ?thesis by auto
  qed
qed

lemma updateMsgModel_step:
  assumes "updateMsgModel c key s fld w = (r, w')" and "docs_ok w" and "1 \<le> s"
    and "(\<exists>m. fld = FMsg m) \<or> (\<exists>r. fld = FRevoke r)"
  shows "docs_ok w' \<and> (same (absMap w) (absMap w') \<or> same (write_slot c s (setInfo fld (infoAt c s w)) (absMap w)) (absMap w')) \<and>
    (\<forall>e. r = Inl e \<longrightarrow> e = ErrIO) \<and>
    (\<forall>b. r = Inr b \<longrightarrow> (if b
       then same (write_slot c s (setInfo fld (infoAt c s w)) (absMap w)) (absMap w')
       else same (absMap w) (absMap w') \<and> docFind (GetDocID c s) w' = None))"
proof -
  obtain key' v where kv: "updateMsgModel c key s fld w =
      bindM (UpdateMsg (GetDocID c s) (GetMsgIndex s) key' v) (\<lambda>res. ret (MatchedCount res > 0)) w"
    and el: "\<And>i. setElem key' v (Some i) = Inr (setInfo fld i)"
    using assms(4) by (elim disjE exE) (auto simp: updateMsgModel_def setElem_def setInfo_def)
  obtain r0 w0 where u: "UpdateMsg (GetDocID c s) (GetMsgIndex s) key' v w = (r0, w0)" by fastforce
  note U = UpdateMsg_step [OF u assms(2,3), of fld, OF el]
  from assms(1) u have "w' = w0" and "r = (case r0 of Inl e \<Rightarrow> Inl e | Inr u \<Rightarrow> Inr (MatchedCount u > 0))"
    by (auto simp: kv bindM_def split: sum.splits)
  with U show ?thesis by (cases r0) auto
qed

section \<open>A new document\<close>

lemma foldl_update_length [simp]: "length (foldl (\<lambda>ms j. ms[f j := g j]) ms js) = length ms"
  by (induction js arbitrary: ms) auto

lemma foldl_update_other:
  "(\<And>j. j \<in> set js \<Longrightarrow> f j \<noteq> p) \<Longrightarrow> foldl (\<lambda>ms j. ms[f j := g j]) ms js ! p = ms ! p"
  by (induction js arbitrary: ms) auto

lemma foldl_update_at:
  assumes "inj_on f (set js)" and "distinct js" and "j \<in> set js" and "f j < length ms"
  shows "foldl (\<lambda>ms j. ms[f j := g j]) ms js ! f j = g j"
  using assms
proof (induction js arbitrary: ms)
  case Nil
  then show ?case by simp
next
  case (Cons x js)
  show ?case
  proof (cases "j = x")
    case True
    have "f y \<noteq> f x" if "y \<in> set js" for y
      using that Cons.prems(1,2) by (auto simp: inj_on_def)
    then have "foldl (\<lambda>ms j. ms[f j := g j]) (ms[f x := g x]) js ! f x = (ms[f x := g x]) ! f x"
      by (rule foldl_update_other)
    with True Cons.prems(4) show ?thesis by simp
  next
    case False
    then show ?thesis using Cons.IH [of "ms[f x := g x]"] Cons.prems by (auto simp: inj_on_def)
  qed
qed

lemma blockLen_le: "blockLen c s flds \<le> length flds"
  unfolding blockLen_def using length_takeWhile_le [of _ "[0..<length flds]"] by simp

lemma blockLen_pos: "flds \<noteq> [] \<Longrightarrow> 0 < blockLen c s flds"
  by (cases flds) (auto simp: blockLen_def upt_rec [of 0])

lemma blockLen_same_doc:
  assumes "j < blockLen c s flds"
  shows "GetDocID c (s + int j) = GetDocID c s"
proof -
  let ?P = "\<lambda>j. GetDocID c (s + int j) = GetDocID c s"
  have "takeWhile ?P [0..<length flds] ! j = [0..<length flds] ! j"
    using assms unfolding blockLen_def by (rule takeWhile_nth)
  moreover have "j < length flds" using assms blockLen_le [of c s flds] by simp
  moreover have "takeWhile ?P [0..<length flds] ! j \<in> set (takeWhile ?P [0..<length flds])"
    using assms unfolding blockLen_def by simp
  ultimately show ?thesis by (metis (mono_tags, lifting) add_0 nth_upt set_takeWhileD)
qed

lemma blockDoc_slot:
  assumes "1 \<le> s" and "1 \<le> s'" and "GetDocID c s' = GetDocID c s"
  shows "docMsgs (blockDoc c s flds) ! nat (GetMsgIndex s') = Some (
    if s \<le> s' \<and> s' < s + int (blockLen c s flds) then blockInfo (flds ! nat (s' - s)) else zeroMsgInfo)"
proof -
  let ?f = "\<lambda>j. nat (GetMsgIndex (s + int j))" and ?g = "\<lambda>j. Some (blockInfo (flds ! j))"
  let ?k = "blockLen c s flds" and ?z = "replicate (nat singleGocMsgNum) None :: MsgInfoModel option list"
  let ?filled = "foldl (\<lambda>ms j. ms[?f j := ?g j]) ?z [0..<?k]"
  have idx: "s + int j = s'" if "j < ?k" "?f j = nat (GetMsgIndex s')" for j
  proof -
    have "GetMsgIndex (s + int j) = GetMsgIndex s'"
      using that(2) GetMsgIndex_bounds [of "s + int j"] GetMsgIndex_bounds [OF assms(2)] assms(1)
      by (simp add: eq_nat_nat_iff)
    moreover have "GetDocIndex (s + int j) = GetDocIndex s'"
      using blockLen_same_doc [OF that(1)] assms(3) by (simp add: GetDocID_inject)
    ultimately show ?thesis using doc_position_unique [of "s + int j" s'] assms by simp
  qed
  have inj: "inj_on ?f (set [0..<?k])"
  proof (rule inj_onI)
    fix i j assume "i \<in> set [0..<?k]" "j \<in> set [0..<?k]" "?f i = ?f j"
    then have "GetMsgIndex (s + int i) = GetMsgIndex (s + int j)" "i < ?k" "j < ?k"
      using GetMsgIndex_bounds [of "s + int i"] GetMsgIndex_bounds [of "s + int j"] assms(1)
      by (simp_all add: eq_nat_nat_iff)
    moreover have "GetDocIndex (s + int i) = GetDocIndex (s + int j)"
      using blockLen_same_doc [of i c s flds] blockLen_same_doc [of j c s flds] calculation(2,3)
      by (simp add: GetDocID_inject)
    ultimately show "i = j" using doc_position_unique [of "s + int i" "s + int j"] assms(1) by simp
  qed
  have len: "nat (GetMsgIndex s') < length ?filled"
    using GetMsgIndex_bounds [OF assms(2)] by simp
  have "?filled ! nat (GetMsgIndex s') =
      (if s \<le> s' \<and> s' < s + int ?k then ?g (nat (s' - s)) else None)"
  proof (cases "s \<le> s' \<and> s' < s + int ?k")
    case True
    then have j: "nat (s' - s) \<in> set [0..<?k]" "s + int (nat (s' - s)) = s'" by auto
    have "?filled ! ?f (nat (s' - s)) = ?g (nat (s' - s))"
      by (rule foldl_update_at [OF inj _ j(1)]) (use j(2) GetMsgIndex_bounds [OF assms(2)] in simp_all)
    from this [unfolded j(2)] True show ?thesis by simp
  next
    case False
    have "?filled ! nat (GetMsgIndex s') = ?z ! nat (GetMsgIndex s')"
    proof (rule foldl_update_other)
      fix j assume "j \<in> set [0..<?k]"
      then show "?f j \<noteq> nat (GetMsgIndex s')" using False idx [of j] by auto
    qed
    with False len show ?thesis by simp
  qed
  with len show ?thesis by (simp add: blockDoc_def Let_def)
qed

lemma blockDoc_ok: "doc_ok (blockDoc c s flds)"
  by (auto simp: doc_ok_def blockDoc_def Let_def singleGocMsgNum_def split: option.splits)

lemma blockDoc_id [simp]: "docID (blockDoc c s flds) = GetDocID c s"
  by (simp add: blockDoc_def Let_def)

lemma setInfo_zero: "setInfo fld zeroMsgInfo = blockInfo fld"
  by (simp add: setInfo_def blockInfo_def split: block_field.split)

text \<open>Inserting the document of a block does to the map what the block's part of it says.\<close>

lemma absMap_insert_doc:
  assumes "docs_ok w" and "docFind (GetDocID c s) w = None" and "1 \<le> s"
    and w': "w' = w\<lparr>msgDocs := msgDocs w @ [blockDoc c s flds]\<rparr>"
  shows "docs_ok w'"
    and "same (insert_block_spec c s (take (blockLen c s flds) flds) (absMap w)) (absMap w')"
proof -
  show ok: "docs_ok w'" using assms(1) blockDoc_ok by (auto simp: docs_ok_def w')
  have find: "docFind i w' = (if i = GetDocID c s then Some (blockDoc c s flds) else docFind i w)" for i
    using assms(2) by (auto simp: docFind_def w' find_append split: option.split)
  show "same (insert_block_spec c s (take (blockLen c s flds) flds) (absMap w)) (absMap w')"
    unfolding same_def
  proof (intro allI impI)
    fix c' s' assume s': "(1::int) \<le> s'"
    let ?k = "blockLen c s flds"
    have k: "length (take ?k flds) = ?k" using blockLen_le [of c s flds] by simp
    show "absMap w' c' s' = insert_block_spec c s (take ?k flds) (absMap w) c' s'"
    proof (cases "GetDocID c' s' = GetDocID c s")
      case True
      then have "c' = c" by (simp add: GetDocID_inject)
      have "infoAt c' s' w' = (if s \<le> s' \<and> s' < s + int ?k then blockInfo (flds ! nat (s' - s)) else zeroMsgInfo)"
        by (rule infoAt_slot [of _ _ _ "blockDoc c s flds"])
           (use True find blockDoc_slot [OF assms(3) s'] s' blockDoc_ok in \<open>simp_all add: \<open>c' = c\<close>\<close>)
      moreover have "infoAt c' s' w = zeroMsgInfo" using True assms(2) by (simp add: infoAt_def)
      ultimately show ?thesis
        using k \<open>c' = c\<close> by (auto simp: absMap_def insert_block_spec_def setInfo_zero)
    next
      case False
      have "\<not> (c' = c \<and> s \<le> s' \<and> s' < s + int ?k)"
      proof
        assume h: "c' = c \<and> s \<le> s' \<and> s' < s + int ?k"
        then have "GetDocID c (s + int (nat (s' - s))) = GetDocID c s" by (intro blockLen_same_doc [where flds = flds]) auto
        with h False show False by simp
      qed
      with False find k show ?thesis
        by (auto simp: absMap_def insert_block_spec_def infoAt_def)
    qed
  qed
qed

lemma Create_block_step:
  assumes "Create (blockDoc c s flds) w = (r, w')" and "docs_ok w" and "1 \<le> s"
  shows "docs_ok w' \<and> (r = Inl MongoDuplicateKey \<and> docFind (GetDocID c s) w \<noteq> None \<and> same (absMap w) (absMap w') \<and>
        docFind (GetDocID c s) w' \<noteq> None
      \<or> r = Inl ErrIO \<and> (same (absMap w) (absMap w') \<or>
          same (insert_block_spec c s (take (blockLen c s flds) flds) (absMap w)) (absMap w'))
      \<or> r = Inr () \<and> same (insert_block_spec c s (take (blockLen c s flds) flds) (absMap w)) (absMap w'))"
proof -
  let ?w1 = "w\<lparr>opno := Suc (opno w)\<rparr>"
  let ?m = "\<lambda>w. if docFind (docID (blockDoc c s flds)) w \<noteq> None then (Inl MongoDuplicateKey, w)
     else (Inr (), w\<lparr>msgDocs := msgDocs w @ [blockDoc c s flds]\<rparr>)"
  have same0: "same (absMap w) (absMap ?w1)" "docs_ok ?w1" using assms(2) by (simp_all add: same_def)
  note R = io_result [of ?m w r w', OF assms(1) [unfolded Create_def]]
  show ?thesis
  proof (cases "docFind (GetDocID c s) w")
    case (Some d)
    with R same0 show ?thesis by auto
  next
    case None
    let ?w2 = "?w1\<lparr>msgDocs := msgDocs ?w1 @ [blockDoc c s flds]\<rparr>"
    have "docs_ok ?w2" "same (insert_block_spec c s (take (blockLen c s flds) flds) (absMap w)) (absMap ?w2)"
      using absMap_insert_doc [of ?w1 c s ?w2 flds] same0 None assms(3) by simp_all
    with R same0 None show ?thesis by auto
  qed
qed

section \<open>The whole block\<close>

lemma same_refl [simp]: "same M M"
  by (simp add: same_def)

lemma same_at: "same M M1 \<Longrightarrow> 1 \<le> s \<Longrightarrow> M1 c s = M c s"
  by (simp add: same_def)

lemma insert_block_spec_Nil [simp]: "insert_block_spec c s [] M = M"
  by (intro ext) (auto simp: insert_block_spec_def)

lemma write_slot_spec:
  "write_slot c s (setInfo f (M c s)) M = insert_block_spec c s (take 1 (f # flds)) M"
  by (intro ext) (auto simp: write_slot_def insert_block_spec_def)

text \<open>A block falls into its first \<open>k\<close> fields and the rest.\<close>

lemma insert_block_spec_split:
  assumes "k \<le> length flds"
  shows "insert_block_spec c (s + int k) (drop k flds) (insert_block_spec c s (take k flds) M)
       = insert_block_spec c s flds M"
proof (intro ext)
  fix c' s'
  have "drop k flds ! nat (s' - (s + int k)) = flds ! nat (s' - s)" if "s + int k \<le> s'" "s' < s + int (length flds)"
  proof -
    have "k + nat (s' - (s + int k)) = nat (s' - s)" using that by simp
    then show ?thesis using assms by (simp add: nth_drop)
  qed
  then show "insert_block_spec c (s + int k) (drop k flds) (insert_block_spec c s (take k flds) M) c' s'
       = insert_block_spec c s flds M c' s'"
    using assms by (auto simp: insert_block_spec_def)
qed

lemma insert_block_spec_cong:
  "same M M1 \<Longrightarrow> same (insert_block_spec c s flds M) (insert_block_spec c s flds M1)"
  by (simp add: same_def insert_block_spec_def)

lemma same_trans: "same M M1 \<Longrightarrow> same M1 M2 \<Longrightarrow> same M M2"
  by (simp add: same_def)

lemma same_sym: "same M M1 \<Longrightarrow> same M1 M"
  by (simp add: same_def)

text \<open>What a run of the loop over the rest of the fields leaves.\<close>

definition block_post ::
  "string \<Rightarrow> int \<Rightarrow> block_field list \<Rightarrow> (string \<Rightarrow> int \<Rightarrow> MsgInfoModel) \<Rightarrow> err + unit \<Rightarrow> 'e msg_world_scheme \<Rightarrow> bool" where
  "block_post c s flds M r w' \<longleftrightarrow> docs_ok w' \<and>
     between M (absMap w') (insert_block_spec c s flds M) \<and>
     (case r of Inl e \<Rightarrow> e = ErrIO | Inr _ \<Rightarrow> same (insert_block_spec c s flds M) (absMap w'))"

lemma block_post_error:
  assumes "docs_ok w'" and "same M (absMap w') \<or> same (insert_block_spec c s (take k flds) M) (absMap w')"
  shows "block_post c s flds M (Inl ErrIO) w'"
  using assms by (auto simp: block_post_def between_def same_def insert_block_spec_def)

lemma block_post_step:
  assumes "block_post c (s + int k) (drop k flds) M1 r w'" and "same (insert_block_spec c s (take k flds) M) M1"
    and "k \<le> length flds"
  shows "block_post c s flds M r w'"
proof -
  let ?rest = "insert_block_spec c (s + int k) (drop k flds)"
  have spec: "same (insert_block_spec c s flds M) (?rest M1)"
    using insert_block_spec_cong [OF assms(2)] insert_block_spec_split [OF assms(3)] by metis
  have "absMap w' c' s' = M c' s' \<or> absMap w' c' s' = insert_block_spec c s flds M c' s'" if s': "1 \<le> s'" for c' s'
  proof -
    have M1: "M1 c' s' = insert_block_spec c s (take k flds) M c' s'" using assms(2) s' by (simp add: same_def)
    from assms(1) s' have "absMap w' c' s' = M1 c' s' \<or> absMap w' c' s' = ?rest M1 c' s'"
      by (simp add: block_post_def between_def)
    then show ?thesis
    proof
      assume "absMap w' c' s' = ?rest M1 c' s'"
      with spec s' show ?thesis by (simp add: same_def)
    next
      assume old: "absMap w' c' s' = M1 c' s'"
      show ?thesis
      proof (cases "c' = c \<and> s \<le> s' \<and> s' < s + int k")
        case True
        with old M1 assms(3) show ?thesis by (auto simp: insert_block_spec_def)
      next
        case False
        with old M1 assms(3) show ?thesis by (auto simp: insert_block_spec_def)
      qed
    qed
  qed
  with assms(1) spec show ?thesis
    by (cases r) (auto simp: block_post_def between_def intro: same_trans)
qed

lemma block_post_same:
  "block_post c s flds M1 r w' \<Longrightarrow> same M M1 \<Longrightarrow> block_post c s flds M r w'"
  using block_post_step [of c s 0 flds M1 r w' M] by simp

abbreviation typed :: "block_field list \<Rightarrow> bool" where
  "typed flds \<equiv> \<forall>f\<in>set flds. (\<exists>m. f = FMsg m) \<or> (\<exists>r. f = FRevoke r)"

text \<open>The turns the loop needs: two for each field, and one more when it begins with an insertion.\<close>

lemma insertLoop_step:
  assumes "insertLoop n c key t s flds w = (r, w')" and "docs_ok w" and "1 \<le> s" and "typed flds"
    and "2 * length flds + (if t then 1 else 2) \<le> n"
  shows "block_post c s flds (absMap w) r w'"
  using assms
proof (induction n arbitrary: t s flds w)
  case 0
  then show ?case by (simp split: if_splits)
next
  case (Suc n)
  show ?case
  proof (cases flds)
    case Nil
    with Suc.prems show ?thesis by (auto simp: block_post_def between_def)
  next
    case (Cons fld rest)
    let ?k = "blockLen c s flds" and ?doc = "blockDoc c s flds"
    let ?ins = "\<lambda>matched. if matched then insertLoop n c key t (s + 1) rest
            else if GetMsgIndex s < 0 then throw (Panic ''index out of range'')
            else bindM (tryM (Create ?doc)) (\<lambda>r. case r of
                  Inl e \<Rightarrow> if e = MongoDuplicateKey then insertLoop n c key True s flds else throw e
                | Inr _ \<Rightarrow> insertLoop n c key False (s + int ?k) (drop ?k flds))"
    let ?upd = "if t then updateMsgModel c key s fld else ret False"
    from Suc.prems(1) have run: "bindM ?upd ?ins w = (r, w')"
      by (simp only: insertLoop.simps Cons list.case Let_def)
    have idx: "\<not> GetMsgIndex s < 0" using GetMsgIndex_bounds [OF Suc.prems(3)] by simp
    have fld: "(\<exists>m. fld = FMsg m) \<or> (\<exists>r. fld = FRevoke r)" using Suc.prems(4) Cons by simp
    text \<open>The insertion, from a state with the same map.\<close>
    have ins: "block_post c s flds (absMap w) r w'"
      if I: "?ins False w1 = (r, w')" "docs_ok w1" "same (absMap w) (absMap w1)" "t \<Longrightarrow> docFind (GetDocID c s) w1 = None" for w1
    proof -
      from I(1) idx have "bindM (tryM (Create ?doc)) (\<lambda>r. case r of
                  Inl e \<Rightarrow> if e = MongoDuplicateKey then insertLoop n c key True s flds else throw e
                | Inr _ \<Rightarrow> insertLoop n c key False (s + int ?k) (drop ?k flds)) w1 = (r, w')" by simp
      moreover obtain r2 w2 where cr: "Create ?doc w1 = (r2, w2)" by fastforce
      note C = Create_block_step [OF cr I(2) Suc.prems(3)]
      ultimately show ?thesis
      proof (cases r2)
        case (Inr u)
        have "tryM (Create ?doc) w1 = (Inr (Inr ()), w2)" using cr Inr by (simp add: tryM_def)
        with \<open>bindM _ _ w1 = (r, w')\<close> have go: "insertLoop n c key False (s + int ?k) (drop ?k flds) w2 = (r, w')"
          by (simp add: bindM_Inr)
        have k: "0 < ?k" "?k \<le> length flds" using blockLen_pos [of flds] blockLen_le [of c s flds] Cons by auto
        have "block_post c (s + int ?k) (drop ?k flds) (absMap w2) r w'"
        proof (rule Suc.IH [OF go])
          show "docs_ok w2" using C by blast
          show "1 \<le> s + int ?k" using Suc.prems(3) by simp
          show "typed (drop ?k flds)" using Suc.prems(4) by (auto dest: in_set_dropD)
          have "2 * length flds \<le> n" using Suc.prems(5) by (simp split: if_splits)
          with k show "2 * length (drop ?k flds) + (if False then 1 else 2) \<le> n" by simp
        qed
        moreover have "same (insert_block_spec c s (take ?k flds) (absMap w1)) (absMap w2)" using C Inr by simp
        ultimately have "block_post c s flds (absMap w1) r w'" using k(2) by (rule block_post_step)
        then show ?thesis using I(3) by (rule block_post_same)
      next
        case (Inl e)
        show ?thesis
        proof (cases "e = MongoDuplicateKey")
          case True
          with C Inl have d: "docFind (GetDocID c s) w1 \<noteq> None" "same (absMap w1) (absMap w2)" "docs_ok w2" by auto
          with I(4) have "\<not> t" by blast
          have "tryM (Create ?doc) w1 = (Inr (Inl MongoDuplicateKey), w2)" using cr Inl True by (simp add: tryM_def)
          with \<open>bindM _ _ w1 = (r, w')\<close> have go: "insertLoop n c key True s flds w2 = (r, w')"
            by (simp add: bindM_Inr)
          have "block_post c s flds (absMap w2) r w'"
            by (rule Suc.IH [OF go]) (use d Suc.prems(3-5) \<open>\<not> t\<close> in auto)
          then show ?thesis using same_trans [OF I(3) d(2)] by (rule block_post_same)
        next
          case False
          with C Inl have e: "e = ErrIO" and w2: "docs_ok w2" "same (absMap w1) (absMap w2) \<or>
              same (insert_block_spec c s (take ?k flds) (absMap w1)) (absMap w2)" by auto
          have "tryM (Create ?doc) w1 = (Inr (Inl ErrIO), w2)" using cr Inl e by (simp add: tryM_def)
          with \<open>bindM _ _ w1 = (r, w')\<close> have "r = Inl ErrIO" "w' = w2" by (simp_all add: bindM_Inr)
          with block_post_error [OF w2] I(3) show ?thesis by (auto intro: block_post_same)
        qed
      qed
    qed
    show ?thesis
    proof (cases t)
      case False
      with run have "?ins False w = (r, w')" by simp
      then show ?thesis by (rule ins) (use Suc.prems(2) False in simp_all)
    next
      case True
      with run have run': "bindM (updateMsgModel c key s fld) ?ins w = (r, w')" by simp
      obtain r1 w1 where up: "updateMsgModel c key s fld w = (r1, w1)" by fastforce
      note U = updateMsgModel_step [OF up Suc.prems(2,3) fld]
      have one: "same (write_slot c s (setInfo fld (infoAt c s w)) (absMap w)) X \<longleftrightarrow>
          same (insert_block_spec c s (take 1 flds) (absMap w)) X" for X
        using write_slot_spec [of c s fld "absMap w" rest] by (simp add: Cons absMap_def)
      show ?thesis
      proof (cases r1)
        case (Inl e)
        with run' up have "r = Inl e" "w' = w1" by (simp_all add: bindM_Inl)
        with U Inl one block_post_error [of w1 "absMap w" c s 1 flds] show ?thesis by auto
      next
        case (Inr b)
        with run' up have go: "?ins b w1 = (r, w')" by (simp add: bindM_Inr)
        show ?thesis
        proof (cases b)
          case True
          with go have "insertLoop n c key t (s + 1) rest w1 = (r, w')" by simp
          then have "block_post c (s + 1) rest (absMap w1) r w'"
            by (rule Suc.IH) (use U Suc.prems(3-5) Cons \<open>t\<close> in auto)
          moreover have "same (insert_block_spec c s (take 1 flds) (absMap w)) (absMap w1)"
            using U Inr True one by auto
          ultimately show ?thesis using block_post_step [of c s 1 flds "absMap w1" r w' "absMap w"] Cons by simp
        next
          case False
          with go U Inr show ?thesis by (intro ins [of w1]) auto
        qed
      qed
    qed
  qed
qed

lemma checkFields_typed: "checkFields key s flds = None \<Longrightarrow> typed flds"
  by (induction flds arbitrary: s) (auto split: block_field.splits if_splits option.splits)

text \<open>
  C12. Inserting a block of messages is the abstract insertion, whatever the store does: when it succeeds, every
  field stands at its sequence number, beside what was already stored there of the other parts
  (a revocation survives a later write of the message), and nothing else has changed; when a
  call fails or loses its reply, each place holds either its old contents or the new ones, and
  a store error is the only error once the fields have passed the check. In particular the
  loop ends within its fuel: a document inserted by somebody else sends it back to updates once.
\<close>

theorem BatchInsertBlock_refines:
  assumes "BatchInsertBlock c flds key firstSeq w = (r, w')" and "docs_ok w" and "1 \<le> firstSeq"
    and "checkFields key firstSeq flds = None"
  shows "docs_ok w' \<and> between (absMap w) (absMap w') (insert_block_spec c firstSeq flds (absMap w)) \<and>
    (case r of Inl e \<Rightarrow> e = ErrIO
     | Inr _ \<Rightarrow> same (insert_block_spec c firstSeq flds (absMap w)) (absMap w'))"
proof (cases "flds = []")
  case True
  with assms show ?thesis by (auto simp: BatchInsertBlock_def between_def)
next
  case False
  with assms have "insertLoop (2 * length flds + 1) c key True firstSeq flds w = (r, w')"
    by (simp add: BatchInsertBlock_def)
  from insertLoop_step [OF this assms(2,3) checkFields_typed [OF assms(4)]]
  show ?thesis by (simp add: block_post_def)
qed

definition empty_world :: msg_world where
  "empty_world = \<lparr>faults = (\<lambda>_. NoFault), opno = 0, clock = 1000, rand = (\<lambda>n. int n + 7),
     cluster = None, rocks = Map.empty, seqConvs = [], seqUsers = [], mallocKeys = Map.empty,
     msgDocs = [], sendStatus = Map.empty, toRedisTopic = [], toPushTopic = [], toMongoTopic = []\<rparr>"

theorem BatchInsertBlock_refines_witness:
  "let m = zeroMsgDataModel\<lparr>mSeq := 100, mContent := ''hi''\<rparr>;
       w' = snd (BatchInsertBlock ''c'' [FMsg (Some m)] updateKeyMsg 100 empty_world) in
   infoAt ''c'' 100 w' = zeroMsgInfo\<lparr>iMsg := Some m\<rparr> \<and> infoAt ''c'' 101 w' = zeroMsgInfo"
proof -
  let ?m = "zeroMsgDataModel\<lparr>mSeq := 100, mContent := ''hi''\<rparr>"
  let ?run = "BatchInsertBlock ''c'' [FMsg (Some ?m)] updateKeyMsg 100 empty_world"
  have len: "blockLen ''c'' 100 [FMsg (Some ?m)] = 1"
    by (simp add: blockLen_def)
  have run: "?run = (Inr (), snd ?run)"
    by (simp add: BatchInsertBlock_def eval_nat_numeral updateMsgModel_def UpdateMsg_def bindM_def io_def
        empty_world_def docFind_def noMatch_def GetMsgIndex_pos Let_def Create_def tryM_def len)
  have ok: "docs_ok empty_world" by (simp add: docs_ok_def empty_world_def)
  have empty: "infoAt c s empty_world = zeroMsgInfo" for c s
    by (simp add: infoAt_def docFind_def empty_world_def)
  from BatchInsertBlock_refines [OF run ok] have
    "same (insert_block_spec ''c'' 100 [FMsg (Some ?m)] (absMap empty_world)) (absMap (snd ?run))"
    by simp
  then have "absMap (snd ?run) c s = insert_block_spec ''c'' 100 [FMsg (Some ?m)] (absMap empty_world) c s"
    if "1 \<le> s" for c s using that by (simp add: same_def)
  from this [of 100 "''c''"] this [of 101 "''c''"] show ?thesis
    by (simp add: empty absMap_def insert_block_spec_def setInfo_def Let_def)
qed

end
