(* ===== verification/Msg_Database.thy ===== *)
theory Msg_Database
  imports Msg_Insert Seq_Progress Seq_User
begin

text \<open>
  The message database of the message service, \<^verbatim>\<open>controller/msg.go\<close>: reading messages within the bounds a user
  may see, deletion, revocation, read marks, and the pass-through operations on sequence numbers. A Go
  map that is ranged over is the list of its entries in the order of the iteration. Messages that are
  changed in place through a pointer are returned changed.
\<close>

section \<open>Showing stored messages\<close>

definition handlerDeleteAndRevoked1 :: "'t tools_scheme \<Rightarrow> string \<Rightarrow> MsgInfoModel \<Rightarrow> MsgInfoModel" where
  "handlerDeleteAndRevoked1 T userID i = (case iMsg i of
     None \<Rightarrow> i
   | Some m0 \<Rightarrow>
       let m1 = m0\<lparr>mIsRead := iIsRead i\<rparr>;
           m2 = (if tContain T userID (iDelList i) then m1\<lparr>mContent := '''', mStatus := MsgDeleted\<rparr> else m1) in
       (case iRevoke i of
          None \<Rightarrow> i\<lparr>iMsg := Some m2\<rparr>
        | Some rv \<Rightarrow>
            let m3 = m2\<lparr>mContentType := MsgRevokeNotification\<rparr> in
            (case tJsonRevoked T (revokeContentOf rv m3) of
               Inl e \<Rightarrow> i\<lparr>iMsg := Some m3\<rparr>
             | Inr data \<Rightarrow> (case tJsonElem T data of
                 Inl e \<Rightarrow> i\<lparr>iMsg := Some m3\<rparr>
               | Inr cont \<Rightarrow> i\<lparr>iMsg := Some (m3\<lparr>mContent := cont\<rparr>)\<rparr>))))"

definition handlerDeleteAndRevoked ::
  "'t tools_scheme \<Rightarrow> string \<Rightarrow> MsgInfoModel option list \<Rightarrow> MsgInfoModel option list" where
  "handlerDeleteAndRevoked T userID msgs = map (map_option (handlerDeleteAndRevoked1 T userID)) msgs"

type_synonym quote_cache = "(int \<times> MsgInfoModel list) list"

text \<open>
  A quote of a message that was revoked or removed since shows the notice instead. The result is
  the message after the call and the cache of quoted messages.
\<close>

definition handlerDBMsg ::
  "'t tools_scheme \<Rightarrow> quote_cache \<Rightarrow> string \<Rightarrow> string \<Rightarrow> MsgInfoModel option \<Rightarrow>
   ('e msg_world_scheme, MsgInfoModel option \<times> quote_cache) prog" where
  "handlerDBMsg T cache userID conversationID msg = (case msg of
     None \<Rightarrow> ret (msg, cache)
   | Some i \<Rightarrow> (case iMsg i of
       None \<Rightarrow> ret (msg, cache)
     | Some m0 \<Rightarrow>
         let m = (if iIsRead i then m0\<lparr>mIsRead := True\<rparr> else m0);
             done = (\<lambda>m cache. ret (Some (i\<lparr>iMsg := Some m\<rparr>), cache)) in
         if mContentType m \<noteq> Quote then done m cache
         else if mContent m = '''' then done m cache
         else (case tUnjsonQuote T (mContent m) of
           Inl e \<Rightarrow> done m cache
         | Inr quoteMsg \<Rightarrow> (case qmQuoteMessage quoteMsg of
             None \<Rightarrow> done m cache
           | Some q0 \<Rightarrow>
               if qContent q0 = '''' then done m cache
               else
                 let q = (if qContent q0 = ''e30='' then q0\<lparr>qContent := ''{}''\<rparr> else q0);
                     r1 = (if qContent q0 = ''e30=''
                           then (case tJsonQuote T (quoteMsg\<lparr>qmQuoteMessage := Some q\<rparr>) of
                                   Inl e \<Rightarrow> Inl m
                                 | Inr data \<Rightarrow> Inr (m\<lparr>mContent := data\<rparr>))
                           else Inr m) in
                 (case r1 of
                    Inl m \<Rightarrow> done m cache
                  | Inr m \<Rightarrow>
                      if qSeq q \<le> 0 \<and> qContentType q = MsgRevokeNotification then done m cache
                      else
                        bindM (case map_of cache (qSeq q) of
                            Some v \<Rightarrow> ret (Some v, cache)
                          | None \<Rightarrow>
                              if qSeq q > 0 then
                                bindM (tryM (GetMsgBySeqIndexIn1Doc T userID (GetDocID conversationID (qSeq q)) [qSeq q]))
                                  (\<lambda>r. case r of
                                     Inl e \<Rightarrow> ret (None, cache)
                                   | Inr ms \<Rightarrow> ret (Some ms, AList.update (qSeq q) ms cache))
                              else ret (Some [], cache)) (\<lambda>(found, cache).
                        case found of
                          None \<Rightarrow> done m cache
                        | Some msgs \<Rightarrow>
                            (case msgs of
                               [] \<Rightarrow>
                                 (case tJsonQuote T (quoteMsg\<lparr>qmQuoteMessage :=
                                     Some (q\<lparr>qContentType := MsgRevokeNotification, qContent := ''{}''\<rparr>)\<rparr>) of
                                    Inl e \<Rightarrow> done m cache
                                  | Inr data \<Rightarrow> done (m\<lparr>mContent := data\<rparr>) cache)
                             | h # _ \<Rightarrow> (case iMsg h of
                                 None \<Rightarrow> throw (Panic ''nil pointer dereference'')
                               | Some hm \<Rightarrow>
                                   if mContentType hm \<noteq> MsgRevokeNotification then done m cache
                                   else (case tJsonQuote T (quoteMsg\<lparr>qmQuoteMessage :=
                                       Some (q\<lparr>qContentType := MsgRevokeNotification, qContent := mContent hm\<rparr>)\<rparr>) of
                                      Inl e \<Rightarrow> done m cache
                                    | Inr data \<Rightarrow> done (m\<lparr>mContent := data\<rparr>) cache)))))))))"

primrec handleAll ::
  "'t tools_scheme \<Rightarrow> string \<Rightarrow> string \<Rightarrow> MsgInfoModel option list \<Rightarrow> quote_cache \<Rightarrow>
   ('e msg_world_scheme, MsgInfoModel option list) prog" where
  "handleAll T userID conversationID [] cache = ret []"
| "handleAll T userID conversationID (m # ms) cache =
     bindM (handlerDBMsg T cache userID conversationID m) (\<lambda>(m', cache').
     bindM (handleAll T userID conversationID ms cache') (\<lambda>ms'. ret (m' # ms')))"

definition handlerQuote ::
  "'t tools_scheme \<Rightarrow> string \<Rightarrow> string \<Rightarrow> MsgInfoModel option list \<Rightarrow>
   ('e msg_world_scheme, MsgInfoModel option list) prog" where
  "handlerQuote T userID conversationID msgs = handleAll T userID conversationID msgs []"

definition findMsgInfoBySeq ::
  "'t tools_scheme \<Rightarrow> string \<Rightarrow> string \<Rightarrow> string \<Rightarrow> int list \<Rightarrow> ('e msg_world_scheme, MsgInfoModel option list) prog" where
  "findMsgInfoBySeq T userID docID' conversationID seqs =
     bindM (GetMsgBySeqIndexIn1Doc T userID docID' seqs) (\<lambda>msgs.
       handleAll T userID conversationID (map Some msgs) [])"

section \<open>Reading\<close>

text \<open>The answer is looked up by sequence number; a number without a message is answered by a placeholder.\<close>

definition seqMsgsOf :: "MsgInfoModel option list \<Rightarrow> (int \<times> MsgInfoModel) list" where
  "seqMsgsOf msgs = foldl (\<lambda>t v. case v of
      None \<Rightarrow> t
    | Some i \<Rightarrow> (case iMsg i of None \<Rightarrow> t | Some m \<Rightarrow> AList.update (mSeq m) i t)) [] msgs"

definition answerSeq :: "(int \<times> MsgInfoModel) list \<Rightarrow> int \<Rightarrow> MsgData option" where
  "answerSeq seqMsgs s = (case map_of seqMsgs s of
     Some v \<Rightarrow> MsgDB2Pb (iMsg v)
   | None \<Rightarrow> Some (zeroMsgData\<lparr>seq := s, status := MsgStatusHasDeleted\<rparr>))"

definition GetMessageBySeqs ::
  "'t tools_scheme \<Rightarrow> string \<Rightarrow> string \<Rightarrow> int list \<Rightarrow> ('e msg_world_scheme, MsgData option list) prog" where
  "GetMessageBySeqs T conversationID userID seqs =
     bindM (cache_GetMessageBySeqs T conversationID seqs) (\<lambda>msgs0.
     let msgs1 = handlerDeleteAndRevoked T userID (map Some msgs0) in
     bindM (handlerQuote T userID conversationID msgs1) (\<lambda>msgs.
     ret (map (answerSeq (seqMsgsOf msgs)) seqs)))"

definition getMsgBySeqs ::
  "'t tools_scheme \<Rightarrow> string \<Rightarrow> string \<Rightarrow> int list \<Rightarrow> ('e msg_world_scheme, MsgData option list) prog" where
  "getMsgBySeqs T userID conversationID seqs = GetMessageBySeqs T conversationID userID seqs"

definition rangeSeqs :: "int \<Rightarrow> int \<Rightarrow> int \<Rightarrow> int list" where
  "rangeSeqs begin' end' num =
     (if end' - begin' + 1 \<le> num then [begin'..end'] else [end' - num + 1..end'])"

text \<open>A missing redis key is tolerated for the user's bound; the value is then the zero value.\<close>

definition GetMsgBySeqsRange ::
  "'t tools_scheme \<Rightarrow> string \<Rightarrow> string \<Rightarrow> int \<Rightarrow> int \<Rightarrow> int \<Rightarrow> int \<Rightarrow>
   ('e msg_world_scheme, int \<times> int \<times> MsgData option list) prog" where
  "GetMsgBySeqsRange T userID conversationID begin0 end0 num userMaxSeq =
     bindM (tryM (GetUserMinSeq conversationID userID)) (\<lambda>r.
     bindM (case r of Inl e \<Rightarrow> if e = RedisNil then ret 0 else throw e | Inr s \<Rightarrow> ret s) (\<lambda>userMinSeq.
     bindM (GetMinSeq' conversationID) (\<lambda>convMin.
     let minSeq = (if userMinSeq > convMin then userMinSeq else convMin) in
     if minSeq > end0 then ret (0, 0, [])
     else bindM (GetMaxSeq conversationID) (\<lambda>convMax.
       let maxSeq = (if userMaxSeq \<noteq> 0 \<and> userMaxSeq < convMax then userMaxSeq else convMax);
           begin' = (if begin0 < minSeq then minSeq else begin0);
           end' = (if end0 > maxSeq then maxSeq else end0) in
       if end' < begin' then throw (ErrArgs ''seq end < begin'')
       else
         let seqs = rangeSeqs begin' end' num in
         bindM (GetMessageBySeqs T conversationID userID seqs) (\<lambda>successMsgs.
           ret (minSeq, maxSeq, successMsgs))))))"

text \<open>The bounds of a user in a conversation, read in the order the two next functions read them.\<close>

definition readBounds :: "string \<Rightarrow> string \<Rightarrow> ('e msg_world_scheme, int \<times> int) prog" where
  "readBounds userID conversationID =
     bindM (GetUserMinSeq conversationID userID) (\<lambda>userMinSeq.
     bindM (GetMinSeq' conversationID) (\<lambda>minSeq.
     bindM (GetMaxSeq conversationID) (\<lambda>maxSeq.
     bindM (GetUserMaxSeq conversationID userID) (\<lambda>userMaxSeq.
       ret (if userMinSeq > minSeq then userMinSeq else minSeq,
            if userMaxSeq > 0 \<and> userMaxSeq < maxSeq then userMaxSeq else maxSeq)))))"

definition GetMsgBySeqs ::
  "'t tools_scheme \<Rightarrow> string \<Rightarrow> string \<Rightarrow> int list \<Rightarrow>
   ('e msg_world_scheme, int \<times> int \<times> MsgData option list) prog" where
  "GetMsgBySeqs T userID conversationID seqs =
     bindM (readBounds userID conversationID) (\<lambda>(minSeq, maxSeq).
     let newSeqs = filter (\<lambda>s. \<not> s \<le> 0 \<and> s \<ge> minSeq \<and> s \<le> maxSeq) seqs in
     bindM (GetMessageBySeqs T conversationID userID newSeqs) (\<lambda>successMsgs.
       ret (minSeq, maxSeq, successMsgs)))"

datatype PullOrder = PullOrderAsc | PullOrderDesc

definition GetMessagesBySeqWithBounds ::
  "'t tools_scheme \<Rightarrow> string \<Rightarrow> string \<Rightarrow> int list \<Rightarrow> PullOrder \<Rightarrow>
   ('e msg_world_scheme, bool \<times> int \<times> MsgData option list) prog" where
  "GetMessagesBySeqWithBounds T userID conversationID seqs pullOrder =
     bindM (readBounds userID conversationID) (\<lambda>(minSeq, maxSeq).
     let (newSeqs, isEnd, endSeq) = foldl (\<lambda>(newSeqs, isEnd, endSeq) s.
           if s \<le> 0 then (newSeqs, isEnd, endSeq)
           else if s \<ge> minSeq \<and> s \<le> maxSeq then (newSeqs @ [s], isEnd, endSeq)
           else
             let (isEnd, endSeq) = (if s < minSeq \<and> pullOrder = PullOrderDesc then (True, minSeq) else (isEnd, endSeq));
                 (isEnd, endSeq) = (if s > maxSeq \<and> pullOrder = PullOrderAsc then (True, maxSeq) else (isEnd, endSeq)) in
             (newSeqs, isEnd, endSeq)) ([], False, 0) seqs in
     if length newSeqs = 0 then ret (isEnd, endSeq, [])
     else bindM (GetMessageBySeqs T conversationID userID newSeqs) (\<lambda>successMsgs.
       ret (isEnd, endSeq, successMsgs)))"

definition GetLastMessage ::
  "'t tools_scheme \<Rightarrow> string list \<Rightarrow> string \<Rightarrow> ('e msg_world_scheme, (string \<times> MsgData option) list) prog" where
  "GetLastMessage T conversationIDs userID = foldM (\<lambda>conversationID res.
     case map_of res conversationID of
       Some _ \<Rightarrow> ret res
     | None \<Rightarrow>
         bindM (tryM (mgo_GetLastMessage conversationID)) (\<lambda>r. case r of
             Inl e \<Rightarrow> if e = MongoNoDocuments then ret res else throw e
           | Inr msg \<Rightarrow>
               bindM (handlerQuote T userID conversationID (handlerDeleteAndRevoked T userID [msg])) (\<lambda>tmp.
               case tmp of
                 [Some i] \<Rightarrow> ret (AList.update conversationID (MsgDB2Pb (iMsg i)) res)
               | _ \<Rightarrow> throw (Panic ''nil pointer dereference''))))
     conversationIDs []"

definition FindOneByDocIDs ::
  "string list \<Rightarrow> (string \<times> int) list \<Rightarrow> ('e msg_world_scheme, (string \<times> MsgData option) list) prog" where
  "FindOneByDocIDs conversationIDs seqs = foldM (\<lambda>conversationID totalMsgs.
     let s = mapGet 0 seqs conversationID; docID' = GetDocID conversationID s in
     bindM (FindOneByDocID docID') (\<lambda>d.
     let index = GetMsgIndex s in
     if index < 0 then throw (Panic ''index out of range'')
     else bindM (idx (docMsgs d) (nat index)) (\<lambda>e. case e of
         None \<Rightarrow> throw (Panic ''nil pointer dereference'')
       | Some i \<Rightarrow> ret (AList.update conversationID (MsgDB2Pb (iMsg i)) totalMsgs))))
     conversationIDs []"

section \<open>Writing\<close>

definition MsgToMQ :: "string \<Rightarrow> MsgData \<Rightarrow> ('e msg_world_scheme, unit) prog" where
  "MsgToMQ key msg2mq = io (modifyM (\<lambda>w. w\<lparr>toRedisTopic := toRedisTopic w @ [(key, msg2mq)]\<rparr>))"

definition RevokeMsg :: "string \<Rightarrow> int \<Rightarrow> RevokeModel option \<Rightarrow> ('e msg_world_scheme, unit) prog" where
  "RevokeMsg conversationID s revoke =
     thenM (batchInsertBlock conversationID [FRevoke revoke] updateKeyRevoke s)
       (DelMessageBySeqs conversationID [s])"

definition MarkSingleChatMsgsAsRead :: "string \<Rightarrow> string \<Rightarrow> int list \<Rightarrow> ('e msg_world_scheme, unit) prog" where
  "MarkSingleChatMsgsAsRead userID conversationID totalSeqs =
     thenM (forM (GetDocIDSeqsMap conversationID totalSeqs) (\<lambda>(docID', seqs).
         mgo_MarkSingleChatMsgsAsRead userID docID' (map GetMsgIndex seqs)))
       (DelMessageBySeqs conversationID totalSeqs)"

definition DeleteMsgsPhysicalBySeqs :: "string \<Rightarrow> int list \<Rightarrow> ('e msg_world_scheme, unit) prog" where
  "DeleteMsgsPhysicalBySeqs conversationID allSeqs =
     thenM (forM (GetDocIDSeqsMap conversationID allSeqs) (\<lambda>(docID', seqs).
         DeleteMsgsInOneDocByIndex docID' (map GetMsgIndex seqs)))
       (DelMessageBySeqs conversationID allSeqs)"

definition DeleteUserMsgsBySeqs :: "string \<Rightarrow> string \<Rightarrow> int list \<Rightarrow> ('e msg_world_scheme, unit) prog" where
  "DeleteUserMsgsBySeqs userID conversationID seqs =
     thenM (forM (GetDocIDSeqsMap conversationID seqs) (\<lambda>(docID', seqs).
         forM seqs (\<lambda>s. thenM (PushUnique docID' (GetMsgIndex s) [userID]) (ret ()))))
       (DelMessageBySeqs conversationID seqs)"

definition DeleteDoc :: "string \<Rightarrow> ('e msg_world_scheme, unit) prog" where
  "DeleteDoc docID' = (case lastIndex CHR '':'' docID' of
     None \<Rightarrow> throw (ErrInternalServer ''docID is invalid'')
   | Some index \<Rightarrow>
       if index = 0 then throw (ErrInternalServer ''docID is invalid'')
       else (case atoi (drop (index + 1) docID') of
           None \<Rightarrow> throw (ErrNew ''strconv.Atoi'')
         | Some docIndex \<Rightarrow>
             let conversationID = take index docID';
                 minSeq = GetMinSeq docIndex;
                 seqs = map (\<lambda>i. minSeq + int i) [0..<nat singleGocMsgNum] in
             thenM (mgo_DeleteDoc docID') (DelMessageBySeqs conversationID seqs)))"

section \<open>Sequence numbers\<close>

definition db_SetMinSeqs :: "(string \<times> int) list \<Rightarrow> ('e msg_world_scheme, unit) prog" where
  "db_SetMinSeqs seqs = SetMinSeqs seqs"

definition SetUserConversationsMinSeqs :: "string \<Rightarrow> (string \<times> int) list \<Rightarrow> ('e msg_world_scheme, unit) prog" where
  "SetUserConversationsMinSeqs userID seqs = SetUserMinSeqs userID seqs"

definition SetUserConversationsMaxSeq :: "string \<Rightarrow> string \<Rightarrow> int \<Rightarrow> ('e msg_world_scheme, unit) prog" where
  "SetUserConversationsMaxSeq conversationID userID s = SetUserMaxSeq conversationID userID s"

definition SetUserConversationsMinSeq :: "string \<Rightarrow> string \<Rightarrow> int \<Rightarrow> ('e msg_world_scheme, unit) prog" where
  "SetUserConversationsMinSeq conversationID userID s = SetUserMinSeq conversationID userID s"

definition UserSetHasReadSeqs :: "string \<Rightarrow> (string \<times> int) list \<Rightarrow> ('e msg_world_scheme, unit) prog" where
  "UserSetHasReadSeqs userID hasReadSeqs = SetUserReadSeqs userID hasReadSeqs"

definition SetHasReadSeq :: "string \<Rightarrow> string \<Rightarrow> int \<Rightarrow> ('e msg_world_scheme, unit) prog" where
  "SetHasReadSeq userID conversationID hasReadSeq = SetUserReadSeq conversationID userID hasReadSeq"

definition GetHasReadSeqs :: "string \<Rightarrow> string list \<Rightarrow> ('e msg_world_scheme, (string \<times> int) list) prog" where
  "GetHasReadSeqs userID conversationIDs = GetUserReadSeqs userID conversationIDs"

definition GetHasReadSeq :: "string \<Rightarrow> string \<Rightarrow> ('e msg_world_scheme, int) prog" where
  "GetHasReadSeq userID conversationID = GetUserReadSeq conversationID userID"

definition SetSendMsgStatus :: "string \<Rightarrow> int \<Rightarrow> ('e msg_world_scheme, unit) prog" where
  "SetSendMsgStatus sid status' = cache_SetSendMsgStatus sid status'"

definition GetSendMsgStatus :: "string \<Rightarrow> ('e msg_world_scheme, int) prog" where
  "GetSendMsgStatus sid = cache_GetSendMsgStatus sid"

definition infoSeq :: "MsgInfoModel \<Rightarrow> ('w, int) prog" where
  "infoSeq i = (case iMsg i of None \<Rightarrow> throw (Panic ''nil pointer dereference'') | Some m \<Rightarrow> ret (mSeq m))"

definition GetMinMaxSeqMongo :: "string \<Rightarrow> ('e msg_world_scheme, int \<times> int) prog" where
  "GetMinMaxSeqMongo conversationID =
     bindM (GetOldestMsg conversationID) (\<lambda>oldestMsgMongo.
     bindM (infoSeq oldestMsgMongo) (\<lambda>minSeqMongo.
     bindM (GetNewestMsg conversationID) (\<lambda>newestMsgMongo.
     bindM (infoSeq newestMsgMongo) (\<lambda>maxSeqMongo. ret (minSeqMongo, maxSeqMongo)))))"

definition GetMongoMaxAndMinSeq :: "string \<Rightarrow> ('e msg_world_scheme, int \<times> int) prog" where
  "GetMongoMaxAndMinSeq conversationID = GetMinMaxSeqMongo conversationID"

definition GetConversationMinMaxSeqInMongoAndCache ::
  "string \<Rightarrow> ('e msg_world_scheme, int \<times> int \<times> int \<times> int) prog" where
  "GetConversationMinMaxSeqInMongoAndCache conversationID =
     bindM (GetMinMaxSeqMongo conversationID) (\<lambda>(minSeqMongo, maxSeqMongo).
     bindM (GetMinSeq' conversationID) (\<lambda>minSeqCache.
     bindM (GetMaxSeq conversationID) (\<lambda>maxSeqCache.
       ret (minSeqMongo, maxSeqMongo, minSeqCache, maxSeqCache))))"

text \<open>The smallest sequence number only moves up here; a missing redis key makes the call a no-op.\<close>

definition db_SetMinSeq :: "string \<Rightarrow> int \<Rightarrow> ('e msg_world_scheme, unit) prog" where
  "db_SetMinSeq conversationID s =
     bindM (tryM (GetMinSeq' conversationID)) (\<lambda>r. case r of
         Inl e \<Rightarrow> if e = RedisNil then ret () else throw e
       | Inr dbSeq \<Rightarrow> if dbSeq \<ge> s then ret () else SetMinSeq conversationID s)"

end
