(* ===== verification/Msg_Database_Props.thy ===== *)
theory Msg_Database_Props
  imports Msg_Database
begin

text \<open>
  What the message database promises: results in the order of the request, nothing outside the bounds of the
  user, nothing shown of a message that was deleted or revoked, revocation and document
  deletion as operations on the abstract map, a smallest sequence number that only grows; and
  two queries that answer otherwise than their callers expect.
\<close>

section \<open>Results of a read\<close>

lemma seqMsgs_seq_gen:
  assumes "map_of (foldl (\<lambda>t v. case v of None \<Rightarrow> t
      | Some i \<Rightarrow> (case iMsg i of None \<Rightarrow> t | Some m \<Rightarrow> AList.update (mSeq m) i t)) t0 msgs) s = Some v"
    and "\<And>s v. map_of t0 s = Some v \<Longrightarrow> \<exists>m. iMsg v = Some m \<and> mSeq m = s"
  shows "\<exists>m. iMsg v = Some m \<and> mSeq m = s"
  using assms
proof (induction msgs arbitrary: t0)
  case Nil
  then show ?case by simp
next
  case (Cons x msgs)
  show ?case
  proof (rule Cons.IH)
    show "map_of (foldl (\<lambda>t v. case v of None \<Rightarrow> t
        | Some i \<Rightarrow> (case iMsg i of None \<Rightarrow> t | Some m \<Rightarrow> AList.update (mSeq m) i t))
        (case x of None \<Rightarrow> t0
        | Some i \<Rightarrow> (case iMsg i of None \<Rightarrow> t0 | Some m \<Rightarrow> AList.update (mSeq m) i t0)) msgs) s = Some v"
      using Cons.prems(1) by simp
  qed (use Cons.prems(2) in \<open>auto split: option.splits if_splits\<close>)
qed

lemma seqMsgs_seq: "map_of (seqMsgsOf msgs) s = Some v \<Longrightarrow> \<exists>m. iMsg v = Some m \<and> mSeq m = s"
  unfolding seqMsgsOf_def by (rule seqMsgs_seq_gen) auto

lemma answerSeq_seq: "map_option seq (answerSeq (seqMsgsOf msgs) s) = Some s"
  using seqMsgs_seq [of msgs s] by (auto simp: answerSeq_def MsgDB2Pb_def split: option.split)

lemma bindM_InrE:
  assumes "bindM m f w = (Inr b, w'')"
  obtains a w' where "m w = (Inr a, w')" "f a w' = (Inr b, w'')"
  using assms by (auto simp: bindM_eq_Inr)

text \<open>
  A read returns one message for each requested sequence number, in the order of the request, whatever the
  cache and the database hold: a number without a message is answered by a placeholder with that
  number and the status of a deleted message.
\<close>

theorem GetMessageBySeqs_positional:
  assumes "GetMessageBySeqs T c u seqs w = (Inr res, w')"
  shows "map (map_option seq) res = map Some seqs"
proof -
  from assms obtain msgs where "res = map (answerSeq (seqMsgsOf msgs)) seqs"
    unfolding GetMessageBySeqs_def Let_def by (elim bindM_InrE) auto
  then show ?thesis by (simp add: answerSeq_seq)
qed

definition std_tools :: tools where
  "std_tools = \<lparr>tContain = (\<lambda>x xs. x \<in> set xs), tSort = (\<lambda>xs asc. if asc then sort xs else rev (sort xs)),
     tJsonRevoked = (\<lambda>r. Inr (rvRevokerID r)), tJsonElem = (\<lambda>s. Inr s),
     tJsonQuote = (\<lambda>q. Inr (qmText q)), tUnjsonQuote = (\<lambda>s. Inl (ErrNew ''json''))\<rparr>"

lemma std_tools_ok: "tools_ok std_tools"
  by (simp add: tools_ok_def std_tools_def)

theorem GetMessageBySeqs_positional_witness:
  "\<exists>res w'. GetMessageBySeqs std_tools ''c'' ''u'' [7] empty_world = (Inr res, w') \<and>
     map (map_option seq) res = [Some 7]"
proof -
  have "\<exists>res w'. GetMessageBySeqs std_tools ''c'' ''u'' [7] empty_world = (Inr res, w')"
    by (simp add: GetMessageBySeqs_def cache_GetMessageBySeqs_def batchGetCache2_def bindM_def
        groupKeysBySlot_def empty_world_def rocksFetchBatch2_def io_def Let_def FindSeqs_def GetDocIDSeqsMap_def
        onlyFindDocIndex_def docFind_def mapGet_def std_tools_def findBeforeSendTime_def GetDocIndex_pos
        GetMsgIndex_pos findBeforeDocSendTime_def deletedPlaceholder_def msgSeqOf_def handlerQuote_def
        handlerDeleteAndRevoked_def handlerDeleteAndRevoked1_def zeroMsgInfo_def handlerDBMsg_def zeroMsgDataModel_def)
  then obtain res w' where run: "GetMessageBySeqs std_tools ''c'' ''u'' [7] empty_world = (Inr res, w')" by blast
  from GetMessageBySeqs_positional [OF run] run show ?thesis by auto
qed

lemma length_res: "map (map_option seq) res = map Some seqs \<Longrightarrow> length res = length (seqs :: int list)"
  by (metis length_map)

lemma in_res:
  assumes "map (map_option seq) res = map Some (seqs :: int list)" and "Some m \<in> set res"
  shows "seq m \<in> set seqs"
proof -
  have "Some (seq m) \<in> set (map (map_option seq) res)" using assms(2) by force
  with assms(1) show ?thesis by auto
qed



definition chat_msg :: MsgInfoModel where
  "chat_msg = zeroMsgInfo\<lparr>iMsg := Some (zeroMsgDataModel\<lparr>mSeq := 5, mSendTime := 900, mContent := ''hi''\<rparr>)\<rparr>"

definition chat_world :: msg_world where
  "chat_world = empty_world\<lparr>mallocKeys := [getSeqMallocKey ''c'' \<mapsto>
       (\<lparr>hCURR = Some 5, hLAST = Some 50, hTIME = None, hLOCK = None\<rparr>, 100000)],
     rocks := [GetMsgCacheKey ''c'' 5 \<mapsto> encMsg chat_msg]\<rparr>"

lemmas read_eval = bindM_def io_def Let_def tryM_def groupKeysBySlot_def mapGet_def
  GetUserMinSeq_def GetUserMaxSeq_def getCache_def rocksFetch2_def user_GetUserMinSeq_def user_GetUserMaxSeq_def
  user_getSeq_def userFind_def GetMinSeq'_def conv_GetMinSeq_def convFind_def
  GetMaxSeq_def Malloc_def mallocTime_def malloc_def liveHash_def mallocScript_def writeHash_def
  GetMessageBySeqs_def cache_GetMessageBySeqs_def batchGetCache2_def rocksFetchBatch2_def
  handlerQuote_def handlerDeleteAndRevoked_def handlerDeleteAndRevoked1_def handlerDBMsg_def
  getSeqUserMinSeqKey_def getSeqUserMaxSeqKey_def GetSeqUserMinSeqKey_def GetSeqUserMaxSeqKey_def
  getSeqMallocKey_def GetMallocSeqKey_def getMinSeqKey_def GetMallocMinSeqKey_def GetMsgCacheKey_def
  eval_nat_numeral

lemma range_run:
  "\<exists>mn mx res w'. GetMsgBySeqsRange std_tools ''u'' ''c'' 1 9 1 0 chat_world = (Inr (mn, mx, res), w') \<and> res \<noteq> []"
  by (simp add: GetMsgBySeqsRange_def read_eval chat_world_def empty_world_def chat_msg_def rangeSeqs_def
      itoa_def showNat.simps digitChar_def std_tools_def zeroMsgInfo_def zeroMsgDataModel_def encMsg_def decMsg_def encInt_def)


section \<open>Deleted and revoked messages\<close>

text \<open>
  C15. Nothing of the content of a message is shown to a user who deleted it, nor to anybody once it was
  revoked (the encoders of the revocation notice not failing): what is shown is the same for any two
  contents.
\<close>

theorem hidden_content:
  assumes "tContain T u (iDelList i) \<or> iRevoke i \<noteq> None"
    and "\<And>r. \<exists>d. tJsonRevoked T r = Inr d" and "\<And>d. \<exists>t. tJsonElem T d = Inr t"
  shows "handlerDeleteAndRevoked1 T u (i\<lparr>iMsg := Some (m\<lparr>mContent := x\<rparr>)\<rparr>) =
         handlerDeleteAndRevoked1 T u (i\<lparr>iMsg := Some (m\<lparr>mContent := y\<rparr>)\<rparr>)"
proof (cases "iRevoke i")
  case None
  with assms(1) show ?thesis by (simp add: handlerDeleteAndRevoked1_def Let_def)
next
  case (Some rv)
  define m2 where "m2 z = (if tContain T u (iDelList i)
      then (m\<lparr>mContent := z\<rparr>)\<lparr>mIsRead := iIsRead i, mContent := '''', mStatus := MsgDeleted\<rparr>
      else (m\<lparr>mContent := z\<rparr>)\<lparr>mIsRead := iIsRead i\<rparr>)\<lparr>mContentType := MsgRevokeNotification\<rparr>" for z
  have same: "revokeContentOf rv (m2 x) = revokeContentOf rv (m2 y)"
    by (simp add: revokeContentOf_def m2_def)
  obtain d where d: "tJsonRevoked T (revokeContentOf rv (m2 x)) = Inr d" using assms(2) by blast
  obtain t where t: "tJsonElem T d = Inr t" using assms(3) by blast
  have "handlerDeleteAndRevoked1 T u (i\<lparr>iMsg := Some (m\<lparr>mContent := z\<rparr>)\<rparr>) =
      i\<lparr>iMsg := Some ((m2 z)\<lparr>mContent := t\<rparr>)\<rparr>" if "z = x \<or> z = y" for z
    using that d t same Some by (auto simp: handlerDeleteAndRevoked1_def Let_def m2_def)
  moreover have "(m2 x)\<lparr>mContent := t\<rparr> = (m2 y)\<lparr>mContent := t\<rparr>" by (simp add: m2_def)
  ultimately show ?thesis by simp
qed

theorem hidden_content_witness:
  "handlerDeleteAndRevoked1 std_tools ''u'' (zeroMsgInfo\<lparr>iDelList := [''u''],
      iMsg := Some (zeroMsgDataModel\<lparr>mContent := ''secret''\<rparr>)\<rparr>) =
   handlerDeleteAndRevoked1 std_tools ''u'' (zeroMsgInfo\<lparr>iDelList := [''u''],
      iMsg := Some (zeroMsgDataModel\<lparr>mContent := ''''\<rparr>)\<rparr>)"
  using hidden_content [where T = std_tools and u = "''u''" and i = "zeroMsgInfo\<lparr>iDelList := [''u'']\<rparr>"
      and m = zeroMsgDataModel and x = "''secret''" and y = "''''"]
  by (simp add: std_tools_def)

section \<open>The cache beside a write\<close>

lemma forM_tag_Inr:
  assumes "forM slots (\<lambda>(_, keys). tagAsDeletedBatch2 keys) w = (Inr (), w')"
  shows "rocks w' = rocks w |` (- set (concat (map snd slots)))"
  using assms
proof (induction slots arbitrary: w)
  case Nil
  then show ?case by simp
next
  case (Cons x slots)
  obtain slot keys where x: "x = (slot, keys)" by (cases x)
  from Cons.prems x obtain w1 where 1: "tagAsDeletedBatch2 keys w = (Inr (), w1)"
    and 2: "forM slots (\<lambda>(_, keys). tagAsDeletedBatch2 keys) w1 = (Inr (), w')"
    by (auto elim!: bindM_InrE)
  from 1 have "rocks w1 = rocks w |` (- set keys)"
    by (auto simp: tagAsDeletedBatch2_def io_Inr)
  with Cons.IH [OF 2] x show ?case by (auto simp: restrict_map_def)
qed

lemma DelMessageBySeqs_Inr:
  assumes "DelMessageBySeqs c seqs w = (Inr (), w')"
  shows "rocks w' = rocks w |` (- GetMsgCacheKey c ` set seqs)"
proof (cases "seqs = []")
  case True
  with assms show ?thesis by (simp add: DelMessageBySeqs_def restrict_map_def)
next
  case False
  with assms obtain slots w1 where 1: "groupKeysBySlot (map (GetMsgCacheKey c) seqs) w = (Inr slots, w1)"
    and 2: "forM slots (\<lambda>(_, keys). tagAsDeletedBatch2 keys) w1 = (Inr (), w')"
    by (auto simp: DelMessageBySeqs_def Let_def elim!: bindM_InrE)
  note G = groupKeysBySlot_cases [OF 1]
  have "set (concat (map snd slots)) = set (map (GetMsgCacheKey c) seqs)"
    by (rule mset_eq_setD) (rule conjunct1 [OF G])
  moreover have "rocks w1 = rocks w" using conjunct2 [OF G] by auto
  ultimately have "set (concat (map snd slots)) = GetMsgCacheKey c ` set seqs" and "rocks w1 = rocks w"
    by (simp_all only: set_map)
  then show ?thesis by (simp only: forM_tag_Inr [OF 2])
qed

text \<open>Dropping cached messages does not touch the collection.\<close>

lemma DelMessageBySeqs_docs: "msgDocs (snd (DelMessageBySeqs c seqs w)) = msgDocs w"
proof -
  have "preserves (\<lambda>v. msgDocs v = msgDocs w) (DelMessageBySeqs c seqs)"
    unfolding DelMessageBySeqs_def Let_def
    by (intro preserves_if preserves_ret preserves_bind preserves_groupKeysBySlot preserves_forM preserves_case_prod)
       (simp_all add: preserves_def tagAsDeletedBatch2_def io_def Let_def split: fault.split)
  then show ?thesis unfolding preserves_def by blast
qed

lemma absMap_docs: "msgDocs w' = msgDocs w \<Longrightarrow> absMap w' = absMap w"
  by (intro ext) (simp add: absMap_def infoAt_def docFind_def)

text \<open>
  A revocation that succeeds marks exactly the message it names: the stored message keeps its content and its
  deletion list, every other message is as before, and the cached copy is gone.
\<close>

theorem RevokeMsg_marks:
  assumes "RevokeMsg c s (Some rv) w = (Inr (), w')" and "docs_ok w" and "1 \<le> s"
  shows "infoAt c s w' = (infoAt c s w)\<lparr>iRevoke := Some rv\<rparr> \<and>
    (\<forall>c' s'. 1 \<le> s' \<and> (c', s') \<noteq> (c, s) \<longrightarrow> infoAt c' s' w' = infoAt c' s' w) \<and>
    rocks w' (GetMsgCacheKey c s) = None"
proof -
  from assms(1) obtain w1 where ins: "BatchInsertBlock c [FRevoke (Some rv)] updateKeyRevoke s w = (Inr (), w1)"
    and del: "DelMessageBySeqs c [s] w1 = (Inr (), w')"
    by (auto simp: RevokeMsg_def batchInsertBlock_def elim!: bindM_InrE)
  from BatchInsertBlock_refines [OF ins assms(2,3)]
  have "same (insert_block_spec c s [FRevoke (Some rv)] (absMap w)) (absMap w1)" by simp
  moreover have "absMap w' = absMap w1"
    using DelMessageBySeqs_docs [of c "[s]" w1] del by (intro absMap_docs) simp
  ultimately have at: "infoAt c' s' w' = insert_block_spec c s [FRevoke (Some rv)] (absMap w) c' s'" if "1 \<le> s'" for c' s'
    using that unfolding same_def absMap_def by metis
  from at [OF assms(3), of c] have "infoAt c s w' = (infoAt c s w)\<lparr>iRevoke := Some rv\<rparr>"
    by (simp add: insert_block_spec_def setInfo_def absMap_def)
  moreover have "infoAt c' s' w' = infoAt c' s' w" if "1 \<le> s'" "(c', s') \<noteq> (c, s)" for c' s'
    using at [OF that(1), of c'] that(2) by (auto simp: insert_block_spec_def absMap_def)
  ultimately show ?thesis using DelMessageBySeqs_Inr [OF del] by simp
qed

theorem RevokeMsg_marks_witness:
  "infoAt ''c'' 7 (snd (RevokeMsg ''c'' 7 (Some \<lparr>rRole = 20, rUserID = ''u'', rNickname = '''', rTime = 5\<rparr>) empty_world))
   = zeroMsgInfo\<lparr>iRevoke := Some \<lparr>rRole = 20, rUserID = ''u'', rNickname = '''', rTime = 5\<rparr>\<rparr>"
proof -
  let ?rv = "\<lparr>rRole = 20, rUserID = ''u'', rNickname = '''', rTime = 5\<rparr>"
  have run: "RevokeMsg ''c'' 7 (Some ?rv) empty_world = (Inr (), snd (RevokeMsg ''c'' 7 (Some ?rv) empty_world))"
    by (simp add: RevokeMsg_def batchInsertBlock_def BatchInsertBlock_def eval_nat_numeral updateMsgModel_def
        UpdateMsg_def bindM_def io_def empty_world_def docFind_def noMatch_def GetMsgIndex_pos Let_def Create_def
        tryM_def blockLen_def DelMessageBySeqs_def groupKeysBySlot_def tagAsDeletedBatch2_def)
  have "docs_ok empty_world" by (simp add: docs_ok_def empty_world_def)
  from RevokeMsg_marks [OF run this] show ?thesis
    by (simp add: infoAt_def docFind_def empty_world_def)
qed

section \<open>Deleting a document\<close>

text \<open>
  C17. A document identifier is taken apart the way it was put together: deleting the document with index \<open>k\<close> of a
  conversation removes from the map exactly the messages whose numbers belong to it, and drops exactly
  their cached copies, also for a conversation whose identifier has colons of its own.
\<close>

lemma DeleteDoc_parse:
  assumes "c \<noteq> ''''"
  shows "DeleteDoc (BuildDocIDByIndex c k) = thenM (mgo_DeleteDoc (BuildDocIDByIndex c k))
    (DelMessageBySeqs c (map (\<lambda>i. GetMinSeq k + int i) [0..<nat singleGocMsgNum]))"
proof -
  have "lastIndex CHR '':'' (BuildDocIDByIndex c k) = Some (length c)"
    using lastIndex_append [of "CHR '':''" "itoa k" c] by (simp add: BuildDocIDByIndex_def itoa_no_colon)
  moreover have "drop (length c + 1) (BuildDocIDByIndex c k) = itoa k" "take (length c) (BuildDocIDByIndex c k) = c"
    by (simp_all add: BuildDocIDByIndex_def)
  ultimately show ?thesis using assms by (simp add: DeleteDoc_def Let_def)
qed

lemma seqs_of_doc:
  assumes "1 \<le> s" and "0 \<le> k"
  shows "s \<in> set (map (\<lambda>i. GetMinSeq k + int i) [0..<nat singleGocMsgNum]) \<longleftrightarrow> GetDocIndex s = k"
proof
  assume "s \<in> set (map (\<lambda>i. GetMinSeq k + int i) [0..<nat singleGocMsgNum])"
  then obtain i where "s = k * 100 + 1 + int i" "i < 100" by (auto simp: GetMinSeq_def singleGocMsgNum_def)
  then show "GetDocIndex s = k" using assms by (simp add: GetDocIndex_pos)
next
  assume k: "GetDocIndex s = k"
  let ?i = "nat (GetMsgIndex s)"
  have "s = GetMinSeq k + int ?i" using doc_position [OF assms(1)] GetMsgIndex_bounds [OF assms(1)] k
    by (simp add: GetMinSeq_def)
  moreover have "?i < nat singleGocMsgNum" using GetMsgIndex_bounds [OF assms(1)] by simp
  ultimately show "s \<in> set (map (\<lambda>i. GetMinSeq k + int i) [0..<nat singleGocMsgNum])"
    unfolding set_map by (intro image_eqI [of _ _ ?i]) auto
qed

lemma find_filter_out: "List.find (\<lambda>d. docID d = i) (filter (\<lambda>d. docID d \<noteq> j) ds) =
    (if i = j then None else List.find (\<lambda>d. docID d = i) ds)"
  by (induction ds) auto

theorem DeleteDoc_removes:
  assumes "DeleteDoc (BuildDocIDByIndex c k) w = (Inr (), w')" and "c \<noteq> ''''" and "0 \<le> k" and "1 \<le> s"
  shows "infoAt c' s w' = (if c' = c \<and> GetDocIndex s = k then zeroMsgInfo else infoAt c' s w) \<and>
    (GetDocIndex s = k \<longrightarrow> rocks w' (GetMsgCacheKey c s) = None) \<and>
    (GetDocIndex s \<noteq> k \<longrightarrow> rocks w' (GetMsgCacheKey c s) = rocks w (GetMsgCacheKey c s))"
proof -
  let ?seqs = "map (\<lambda>i. GetMinSeq k + int i) [0..<nat singleGocMsgNum]"
  from assms(1) obtain w1 where m: "mgo_DeleteDoc (BuildDocIDByIndex c k) w = (Inr (), w1)"
    and d: "DelMessageBySeqs c ?seqs w1 = (Inr (), w')"
    unfolding DeleteDoc_parse [OF assms(2)] by (auto elim!: bindM_InrE)
  from m have w1: "msgDocs w1 = filter (\<lambda>d. docID d \<noteq> BuildDocIDByIndex c k) (msgDocs w)" "rocks w1 = rocks w"
    by (auto simp: mgo_DeleteDoc_def io_Inr)
  have docs: "msgDocs w' = msgDocs w1" using DelMessageBySeqs_docs [of c ?seqs w1] d by simp
  have find: "docFind (GetDocID c' s) w' =
      (if c' = c \<and> GetDocIndex s = k then None else docFind (GetDocID c' s) w)"
    by (simp add: docFind_def docs w1 find_filter_out GetDocID_eq)
  have keys: "GetMsgCacheKey c s \<in> GetMsgCacheKey c ` set ?seqs \<longleftrightarrow> GetDocIndex s = k"
  proof -
    have "inj (GetMsgCacheKey c)" by (auto simp: inj_def GetMsgCacheKey_def)
    then show ?thesis using seqs_of_doc [OF assms(4,3)] by (simp add: inj_image_mem_iff)
  qed
  show ?thesis
    using find keys DelMessageBySeqs_Inr [OF d] w1(2) by (auto simp: infoAt_def restrict_map_def)
qed

theorem DeleteDoc_removes_witness:
  "infoAt ''sg_a:b'' 3 (snd (DeleteDoc (BuildDocIDByIndex ''sg_a:b'' 0) empty_world)) = zeroMsgInfo"
proof -
  have "\<exists>w'. DeleteDoc (BuildDocIDByIndex ''sg_a:b'' 0) empty_world = (Inr (), w')"
    by (simp add: DeleteDoc_parse bindM_def mgo_DeleteDoc_def io_def Let_def empty_world_def DelMessageBySeqs_def
        groupKeysBySlot_def tagAsDeletedBatch2_def)
  then obtain w' where run: "DeleteDoc (BuildDocIDByIndex ''sg_a:b'' 0) empty_world = (Inr (), w')" ..
  from DeleteDoc_removes [OF run, of 3 "''sg_a:b''"] run show ?thesis by (simp add: GetDocIndex_pos)
qed

section \<open>Two queries that miss or mistake a message\<close>

text \<open>
  The send time given to a missing message is searched backwards through a document, but the loop stops before
  entry 0: a document whose only message is its first one is passed over, whatever that message is.
\<close>

lemma scanDown_empty:
  "(\<And>j. 0 < j \<Longrightarrow> j \<le> i \<Longrightarrow> elemSendTime (res ! j) = None) \<Longrightarrow> scanDown res i = (0, 0)"
proof (induction i)
  case 0
  then show ?case by simp
next
  case (Suc i)
  from Suc.prems [of "Suc i"] have "elemSendTime (res ! Suc i) = None" by simp
  moreover have "scanDown res i = (0, 0)" using Suc by simp
  ultimately show ?case by (auto simp: elemSendTime_def split: option.split)
qed

theorem first_entry_ignored:
  assumes "docFind d w = Some doc" and "reliable w"
    and "\<And>j. 0 < j \<Longrightarrow> j < length (docMsgs doc) \<Longrightarrow> elemSendTime (docMsgs doc ! j) = None"
  shows "fst (findBeforeDocSendTime d limit w) = Inr (0, 0)"
proof -
  have "scanDown (take n (docMsgs doc)) (length (take n (docMsgs doc)) - 1) = (0, 0)" for n
    by (rule scanDown_empty) (auto intro!: assms(3))
  moreover from this [of "length (docMsgs doc)"] have
    "scanDown (docMsgs doc) (length (docMsgs doc) - 1) = (0, 0)" by simp
  ultimately show ?thesis
    using assms(1,2) by (simp add: findBeforeDocSendTime_def bindM_def io_reliable)
qed

definition one_msg_world :: msg_world where
  "one_msg_world = empty_world\<lparr>msgDocs := [\<lparr>docID = ''sg_12:0'', docMsgs = [Some (zeroMsgInfo\<lparr>iMsg :=
     Some (zeroMsgDataModel\<lparr>mSeq := 1, mSendTime := 900, mStatus := MsgStatusSendSuccess\<rparr>)\<rparr>)]\<rparr>]\<rparr>"

theorem first_entry_ignored_witness:
  "fst (findBeforeDocSendTime ''sg_12:0'' (-1) one_msg_world) = Inr (0, 0)"
  by (rule first_entry_ignored) (auto simp: docFind_def one_msg_world_def empty_world_def reliable_def)

text \<open>
  The last message of a conversation is looked up by a pattern without the colon that ends its identifier:
  a conversation without messages is answered with the last message of another one whose
  identifier begins like it.
\<close>

theorem last_message_of_other_conversation:
  "fst (GetLastMessage std_tools [''sg_1''] ''u'' one_msg_world) =
     Inr [(''sg_1'', Some (zeroMsgData\<lparr>seq := 1, sendTime := 900, status := MsgStatusSendSuccess\<rparr>))] \<and>
   docFind (GetDocID ''sg_1'' 1) one_msg_world = None"
proof
  show "fst (GetLastMessage std_tools [''sg_1''] ''u'' one_msg_world) =
     Inr [(''sg_1'', Some (zeroMsgData\<lparr>seq := 1, sendTime := 900, status := MsgStatusSendSuccess\<rparr>))]"
    by (simp add: GetLastMessage_def mgo_GetLastMessage_def bindM_def io_def Let_def tryM_def one_msg_world_def
        empty_world_def hasPrefix_def visibleElem_def elemStatus_def zeroMsgInfo_def zeroMsgDataModel_def
        handlerQuote_def handlerDeleteAndRevoked_def handlerDeleteAndRevoked1_def std_tools_def handlerDBMsg_def
        MsgDB2Pb_def zeroMsgData_def)
  show "docFind (GetDocID ''sg_1'' 1) one_msg_world = None"
    by (simp add: docFind_def one_msg_world_def GetDocID_eq BuildDocIDByIndex_def)
qed

end
