(* ===== verification/Msg_Transfer.thy ===== *)
theory Msg_Transfer
  imports Msg_Database
begin

text \<open>
  The message transfer: \<^verbatim>\<open>controller/msg_transfer.go\<close> and the two consumers of \<^verbatim>\<open>internal/msgtransfer\<close>. A batch
  of messages with one key is sorted into stored and unstored messages and notifications; stored ones get
  their sequence numbers and go to the cache, to the MongoDB topic and to the push topic. Consumer
  records, remote calls and JSON are parameters (\<open>transfer_tools\<close>); the channel of read positions and the
  remote calls that create conversations are lists in the state. A context is its operation identifier.
\<close>

section \<open>State and parameters\<close>

record transfer_world = msg_world +
  readChan :: "(string \<times> (string \<times> int) list) list"
  groupConvs :: "(string \<times> string list) list"
  singleConvs :: "(string \<times> string \<times> string \<times> int) list"

record MarkAsReadTips =
  mtConversationID :: string
  mtMarkAsReadUserID :: string
  mtSeqs :: "int list"
  mtHasReadSeq :: int

record ContextMsg =
  cmMessage :: MsgData
  cmCtx :: string

record ConsumerMessage =
  rcKey :: string
  rcValue :: string
  rcOperationID :: string

record transfer_tools = tools +
  tUnjsonElem :: "string \<Rightarrow> err + string"
  tUnjsonTips :: "string \<Rightarrow> err + MarkAsReadTips"
  tUnprotoMsg :: "string \<Rightarrow> err + MsgData"
  tUnprotoMongo :: "string \<Rightarrow> err + string \<times> MsgData list \<times> int"
  tGroupMemberUserIDs :: "string \<Rightarrow> err + string list"

section \<open>The transfer database\<close>

text \<open>
  The stored form of a message is \<^verbatim>\<open>MsgPb2DB\<close>, field by field, of the message whose status has gone from sending
  to sent. A nil message leaves an untyped nil in the block.
\<close>

definition sentStatus :: "MsgData \<Rightarrow> MsgData" where
  "sentStatus m = (if status m = MsgStatusSending then m\<lparr>status := MsgStatusSendSuccess\<rparr> else m)"

definition BatchInsertChat2DB ::
  "string \<Rightarrow> MsgData option list \<Rightarrow> int \<Rightarrow> ('e msg_world_scheme, unit) prog" where
  "BatchInsertChat2DB conversationID msgList currentMaxSeq =
     (case msgList of
        [] \<Rightarrow> throw (ErrArgs ''msgList is empty'')
      | first # _ \<Rightarrow>
          let msgs = map (\<lambda>msg. case msg of
                None \<Rightarrow> FNil
              | Some m \<Rightarrow> FMsg (MsgPb2DB (Some (sentStatus m)))) msgList in
          (case first of
             None \<Rightarrow> throw (Panic ''nil pointer dereference'')
           | Some m \<Rightarrow> BatchInsertBlock conversationID msgs updateKeyMsg (seq m)))"

definition DeleteMessagesFromCache :: "string \<Rightarrow> int list \<Rightarrow> ('e msg_world_scheme, unit) prog" where
  "DeleteMessagesFromCache conversationID seqs = DelMessageBySeqs conversationID seqs"

text \<open>The messages after the call, which carry their numbers also when the call fails after numbering them.\<close>

definition numberMsgs :: "int \<Rightarrow> MsgData list \<Rightarrow> MsgData list" where
  "numberMsgs currentMaxSeq msgs = map (\<lambda>(i, m). m\<lparr>seq := currentMaxSeq + int i + 1\<rparr>) (zip [0..<length msgs] msgs)"

definition BatchInsertChat2Cache ::
  "string \<Rightarrow> MsgData list \<Rightarrow>
   ('e msg_world_scheme, (err + int \<times> bool \<times> (string \<times> int) list) \<times> MsgData list) prog" where
  "BatchInsertChat2Cache conversationID msgs =
     (if int (length msgs) > singleGocMsgNum then ret (Inl (ErrNew ''message count exceeds limit''), msgs)
      else if length msgs < 1 then ret (Inl (ErrNew ''no messages to insert''), msgs)
      else bindM (tryM (Malloc conversationID (int (length msgs)))) (\<lambda>r. case r of
          Inl e \<Rightarrow> ret (Inl e, msgs)
        | Inr currentMaxSeq \<Rightarrow>
            let isNew = (currentMaxSeq = 0); lastMaxSeq = currentMaxSeq;
                msgs' = numberMsgs currentMaxSeq msgs;
                userSeqMap = foldl (\<lambda>t m. AList.update (sendID m) (seq m) t) [] msgs' in
            bindM (tryM (SetMessageBySeqs conversationID
                (map (\<lambda>m. Some (zeroMsgInfo\<lparr>iMsg := MsgPb2DB (Some m)\<rparr>)) msgs'))) (\<lambda>e. case e of
              Inl e \<Rightarrow> ret (Inl e, msgs')
            | Inr _ \<Rightarrow> ret (Inr (lastMaxSeq, isNew, userSeqMap), msgs'))))"

definition SetHasReadSeqs :: "string \<Rightarrow> (string \<times> int) list \<Rightarrow> ('e msg_world_scheme, unit) prog" where
  "SetHasReadSeqs conversationID userSeqMap =
     forM userSeqMap (\<lambda>(userID, s). SetUserReadSeq conversationID userID s)"

definition SetHasReadSeqToDB :: "string \<Rightarrow> (string \<times> int) list \<Rightarrow> ('e msg_world_scheme, unit) prog" where
  "SetHasReadSeqToDB conversationID userSeqMap =
     forM userSeqMap (\<lambda>(userID, s). SetUserReadSeqToDB conversationID userID s)"

definition MsgToPushMQ :: "string \<Rightarrow> string \<Rightarrow> MsgData \<Rightarrow> ('e msg_world_scheme, unit) prog" where
  "MsgToPushMQ key conversationID msg2mq =
     io (modifyM (\<lambda>w. w\<lparr>toPushTopic := toPushTopic w @ [(key, conversationID, msg2mq)]\<rparr>))"

definition MsgToMongoMQ :: "string \<Rightarrow> string \<Rightarrow> MsgData list \<Rightarrow> int \<Rightarrow> ('e msg_world_scheme, unit) prog" where
  "MsgToMongoMQ key conversationID messages lastSeq =
     (if length messages > 0
      then io (modifyM (\<lambda>w. w\<lparr>toMongoTopic := toMongoTopic w @ [(key, conversationID, messages, lastSeq)]\<rparr>))
      else ret ())"

section \<open>The redis consumer\<close>

text \<open>An error that is only logged.\<close>

definition ignoreErr :: "('w, 'a) prog \<Rightarrow> ('w, unit) prog" where
  "ignoreErr m = bindM (tryM m) (\<lambda>_. ret ())"

definition toPush :: "string \<Rightarrow> string \<Rightarrow> ContextMsg list \<Rightarrow> ('e msg_world_scheme, unit) prog" where
  "toPush key conversationID msgs = forM msgs (\<lambda>v. ignoreErr (MsgToPushMQ key conversationID (cmMessage v)))"

definition withAggregationCtx :: "ContextMsg list \<Rightarrow> string" where
  "withAggregationCtx values = foldl (\<lambda>allMessageOperationID (i, v).
     let opid = cmCtx v in
     if opid \<noteq> '''' then
       (if i = (0::nat) then allMessageOperationID @ opid else allMessageOperationID @ ''$'' @ opid)
     else allMessageOperationID) '''' (zip [0..<length values] values)"

definition parseConsumerMessages :: "'t transfer_tools_scheme \<Rightarrow> ConsumerMessage list \<Rightarrow> ContextMsg list" where
  "parseConsumerMessages T consumerMessages = foldl (\<lambda>ctxMessages c.
     case tUnprotoMsg T (rcValue c) of
       Inl e \<Rightarrow> ctxMessages
     | Inr m \<Rightarrow> ctxMessages @ [\<lparr>cmMessage = m, cmCtx = rcOperationID c\<rparr>]) [] consumerMessages"

text \<open>The read positions of the receipts of a batch: the conversation of the last one, and a map of users (\<open>None\<close> is nil).\<close>

definition collectReadSeqs ::
  "'t transfer_tools_scheme \<Rightarrow> ContextMsg list \<Rightarrow> string \<times> (string \<times> int) list option" where
  "collectReadSeqs T msgs = foldl (\<lambda>(conversationID, userSeqMap) msg.
     if contentType (cmMessage msg) \<noteq> HasReadReceipt then (conversationID, userSeqMap)
     else (case tUnjsonElem T (content (cmMessage msg)) of
       Inl e \<Rightarrow> (conversationID, userSeqMap)
     | Inr detail \<Rightarrow> (case tUnjsonTips T detail of
         Inl e \<Rightarrow> (conversationID, userSeqMap)
       | Inr tips \<Rightarrow>
           let conversationID = mtConversationID tips;
               hasReadSeq = foldl (\<lambda>h s. if h < s then s else h) (mtHasReadSeq tips) (mtSeqs tips) in
           if hasReadSeq < 0 then (conversationID, userSeqMap)
           else
             let m = (case userSeqMap of None \<Rightarrow> [] | Some m \<Rightarrow> m) in
             if mapGet 0 m (mtMarkAsReadUserID tips) > hasReadSeq then (conversationID, Some m)
             else (conversationID, Some (AList.update (mtMarkAsReadUserID tips) hasReadSeq m)))))
     ('''', None) msgs"

definition doSetReadSeq :: "'t transfer_tools_scheme \<Rightarrow> ContextMsg list \<Rightarrow> ('e msg_world_scheme, unit) prog" where
  "doSetReadSeq T msgs =
     (let (conversationID, userSeqMap) = collectReadSeqs T msgs in
      case userSeqMap of
        None \<Rightarrow> ret ()
      | Some m \<Rightarrow> ignoreErr (SetHasReadSeqToDB conversationID m))"

record categorized =
  storageMsgs :: "ContextMsg list"
  notStorageMsgs :: "ContextMsg list"
  storageNotifications :: "ContextMsg list"
  notStorageNotifications :: "ContextMsg list"

text \<open>
  A notification that is also to be shown as a message is cloned; the clone starts from empty options, the
  notification itself gets neither a push nor an unread count.
\<close>

definition categorize1 :: "ContextMsg \<Rightarrow> categorized \<Rightarrow> err + categorized" where
  "categorize1 v acc =
     (let opts = options (cmMessage v) in
      if \<not> IsNotNotification opts then
        (let cloned =
           (if IsSendMsg opts then
              (let o0 = (if opts \<noteq> None then NewMsgOptions else opts) in
               case WithOptions o0 [WithOfflinePush (IsOfflinePush opts), WithUnreadCount (IsUnreadCount opts)] of
                 Inl e \<Rightarrow> Inl e
               | Inr o1 \<Rightarrow> (case WithOptions opts [WithOfflinePush False, WithUnreadCount False] of
                   Inl e \<Rightarrow> Inl e
                 | Inr o2 \<Rightarrow> Inr (Some (v\<lparr>cmMessage := (cmMessage v)\<lparr>options := o1\<rparr>\<rparr>),
                                  v\<lparr>cmMessage := (cmMessage v)\<lparr>options := o2\<rparr>\<rparr>)))
            else Inr (None, v)) in
         case cloned of
           Inl e \<Rightarrow> Inl e
         | Inr (clone, v') \<Rightarrow>
             let acc1 = (case clone of None \<Rightarrow> acc | Some c \<Rightarrow> acc\<lparr>storageMsgs := storageMsgs acc @ [c]\<rparr>) in
             if IsHistory (options (cmMessage v'))
             then Inr (acc1\<lparr>storageNotifications := storageNotifications acc1 @ [v']\<rparr>)
             else Inr (acc1\<lparr>notStorageNotifications := notStorageNotifications acc1 @ [v']\<rparr>))
      else if IsHistory opts then Inr (acc\<lparr>storageMsgs := storageMsgs acc @ [v]\<rparr>)
      else Inr (acc\<lparr>notStorageMsgs := notStorageMsgs acc @ [v]\<rparr>))"

primrec categorizeFrom :: "categorized \<Rightarrow> ContextMsg list \<Rightarrow> err + categorized" where
  "categorizeFrom acc [] = Inr acc"
| "categorizeFrom acc (v # vs) = (case categorize1 v acc of Inl e \<Rightarrow> Inl e | Inr acc' \<Rightarrow> categorizeFrom acc' vs)"

definition noMsgs :: categorized where
  "noMsgs = \<lparr>storageMsgs = [], notStorageMsgs = [], storageNotifications = [], notStorageNotifications = []\<rparr>"

definition categorizeMessageLists :: "ContextMsg list \<Rightarrow> err + categorized" where
  "categorizeMessageLists totalMsgs = categorizeFrom noMsgs totalMsgs"

definition CreateGroupChatConversations ::
  "string \<Rightarrow> string list \<Rightarrow> ('e transfer_world_scheme, unit) prog" where
  "CreateGroupChatConversations groupID' userIDs =
     io (modifyM (\<lambda>w. w\<lparr>groupConvs := groupConvs w @ [(groupID', userIDs)]\<rparr>))"

definition CreateSingleChatConversations ::
  "string \<Rightarrow> string \<Rightarrow> string \<Rightarrow> int \<Rightarrow> ('e transfer_world_scheme, unit) prog" where
  "CreateSingleChatConversations recvID' sendID' conversationID st =
     io (modifyM (\<lambda>w. w\<lparr>singleConvs := singleConvs w @ [(recvID', sendID', conversationID, st)]\<rparr>))"

definition putMsgs :: "ContextMsg list \<Rightarrow> MsgData list \<Rightarrow> ContextMsg list" where
  "putMsgs storageList msgs = map (\<lambda>(v, m). v\<lparr>cmMessage := m\<rparr>) (zip storageList msgs)"

definition handleMsg ::
  "'t transfer_tools_scheme \<Rightarrow> string \<Rightarrow> string \<Rightarrow> ContextMsg list \<Rightarrow> ContextMsg list \<Rightarrow>
   ('e transfer_world_scheme, unit) prog" where
  "handleMsg T key conversationID storageList notStorageList =
     thenM (toPush key conversationID notStorageList)
     (let storageMessageList = map cmMessage storageList in
      case storageMessageList of
        [] \<Rightarrow> ret ()
      | msg # _ \<Rightarrow>
          bindM (BatchInsertChat2Cache conversationID storageMessageList) (\<lambda>(r, msgs').
          let go = (\<lambda>lastSeq isNewConversation userSeqMap.
                thenM (ignoreErr (SetHasReadSeqs conversationID userSeqMap))
                (thenM (modifyM (\<lambda>w. w\<lparr>readChan := readChan w @ [(conversationID, userSeqMap)]\<rparr>))
                (thenM (if isNewConversation then
                          (if sessionType msg = ReadGroupChatType then
                             (case tGroupMemberUserIDs T (groupID msg) of
                                Inl e \<Rightarrow> ret ()
                              | Inr userIDs \<Rightarrow> ignoreErr (CreateGroupChatConversations (groupID msg) userIDs))
                           else if sessionType msg = SingleChatType \<or> sessionType msg = NotificationChatType then
                             ignoreErr (CreateSingleChatConversations (recvID msg) (sendID msg) conversationID
                               (sessionType msg))
                           else ret ())
                        else ret ())
                (thenM (ignoreErr (MsgToMongoMQ key conversationID msgs' lastSeq))
                  (toPush key conversationID (putMsgs storageList msgs')))))) in
          case r of
            Inl e \<Rightarrow> if e \<noteq> RedisNil then ret () else go 0 False []
          | Inr (lastSeq, isNewConversation, userSeqMap) \<Rightarrow> go lastSeq isNewConversation userSeqMap))"

definition handleNotification ::
  "string \<Rightarrow> string \<Rightarrow> ContextMsg list \<Rightarrow> ContextMsg list \<Rightarrow> ('e transfer_world_scheme, unit) prog" where
  "handleNotification key conversationID storageList notStorageList =
     thenM (toPush key conversationID notStorageList)
     (let storageMessageList = map cmMessage storageList in
      if length storageMessageList = 0 then ret ()
      else bindM (BatchInsertChat2Cache conversationID storageMessageList) (\<lambda>(r, msgs'). case r of
          Inl e \<Rightarrow> ret ()
        | Inr (lastSeq, _, _) \<Rightarrow>
            thenM (ignoreErr (MsgToMongoMQ key conversationID msgs' lastSeq))
              (toPush key conversationID (putMsgs storageList msgs'))))"

text \<open>One batch of the batcher: the records of one key.\<close>

definition do_batch ::
  "'t transfer_tools_scheme \<Rightarrow> string \<Rightarrow> ConsumerMessage list \<Rightarrow> ('e transfer_world_scheme, unit) prog" where
  "do_batch T key val =
     (let ctxMessages = parseConsumerMessages T val in
      thenM (doSetReadSeq T ctxMessages)
      (bindM (liftE (categorizeMessageLists ctxMessages)) (\<lambda>cat.
       case ctxMessages of
         [] \<Rightarrow> throw (Panic ''index out of range'')
       | first # _ \<Rightarrow>
           let conversationIDMsg = GetChatConversationIDByMsg (cmMessage first);
               conversationIDNotification = GetNotificationConversationIDByMsg (cmMessage first) in
           thenM (handleMsg T key conversationIDMsg (storageMsgs cat) (notStorageMsgs cat))
             (handleNotification key conversationIDNotification (storageNotifications cat) (notStorageNotifications cat)))))"

text \<open>The goroutine that writes read positions to the database: what it does with the channel's contents.\<close>

definition HandleUserHasReadSeqMessages :: "('e transfer_world_scheme, unit) prog" where
  "HandleUserHasReadSeqMessages = (\<lambda>w.
     forM (readChan w) (\<lambda>(conversationID, userHasReadMap).
       ignoreErr (SetHasReadSeqToDB conversationID userHasReadMap)) (w\<lparr>readChan := []\<rparr>))"

section \<open>The MongoDB consumer\<close>

definition handleChatWs2Mongo :: "'t transfer_tools_scheme \<Rightarrow> string \<Rightarrow> ('e msg_world_scheme, unit) prog" where
  "handleChatWs2Mongo T msg = (case tUnprotoMongo T msg of
     Inl e \<Rightarrow> ret ()
   | Inr (conversationID, msgData, lastSeq) \<Rightarrow>
       if length msgData = 0 then ret ()
       else ignoreErr (BatchInsertChat2DB conversationID (map Some msgData) lastSeq))"

end
