(* ===== verification/Msg_Transfer_Props.thy ===== *)
theory Msg_Transfer_Props
  imports Msg_Transfer Msg_Database_Props Seq_Progress
begin

text \<open>
  What the message transfer guarantees: the messages of a batch get consecutive fresh numbers and go to the
  cache under them, the MongoDB consumer stores them at these numbers, the classification of a batch loses
  nothing, the read positions of a batch are the largest ones of each user; and the two ways in which the code
  loses a batch: more messages than one document holds, and no record that parses.
\<close>

definition std_transfer_tools :: transfer_tools where
  "std_transfer_tools = tools.extend std_tools \<lparr>
     tUnjsonElem = (\<lambda>s. Inl ErrIO), tUnjsonTips = (\<lambda>s. Inl ErrIO), tUnprotoMsg = (\<lambda>s. Inr zeroMsgData),
     tUnprotoMongo = (\<lambda>s. Inl ErrIO), tGroupMemberUserIDs = (\<lambda>g. Inr [])\<rparr>"

section \<open>Numbers and the cache\<close>

lemma forM_rocksRawSet:
  "forM xs (\<lambda>x. rocksRawSet (f x) (g x)) w = (Inr u, w') \<Longrightarrow>
   rocks w' = foldl (\<lambda>r x. r(f x \<mapsto> g x)) (rocks w) xs"
proof (induction xs arbitrary: w)
  case (Cons x xs)
  then obtain w1 where 1: "rocksRawSet (f x) (g x) w = (Inr (), w1)"
    and 2: "forM xs (\<lambda>x. rocksRawSet (f x) (g x)) w1 = (Inr u, w')"
    by (auto simp: bindM_eq_Inr)
  from 1 have "rocks w1 = (rocks w)(f x \<mapsto> g x)"
    by (auto simp: rocksRawSet_def io_Inr)
  with Cons.IH [OF 2] show ?case by simp
qed simp

lemma foldl_upd_notin: "k \<notin> f ` set xs \<Longrightarrow> foldl (\<lambda>r x. r(f x \<mapsto> g x)) r xs k = r k"
  by (induction xs arbitrary: r) auto

lemma foldl_upd_in:
  "distinct (map f xs) \<Longrightarrow> x \<in> set xs \<Longrightarrow> foldl (\<lambda>r x. r(f x \<mapsto> g x)) r xs (f x) = Some (g x)"
  by (induction xs arbitrary: r) (auto simp: foldl_upd_notin)

lemma GetMsgCacheKey_inject [simp]: "GetMsgCacheKey c s = GetMsgCacheKey c' s' \<longleftrightarrow> c = c' \<and> s = s'"
  using append_sep_inject [of "CHR '':''" "itoa s" "itoa s'" c c']
  by (auto simp: GetMsgCacheKey_def itoa_no_colon)

lemma length_numberMsgs [simp]: "length (numberMsgs b msgs) = length msgs"
  by (simp add: numberMsgs_def)

lemma nth_numberMsgs [simp]: "i < length msgs \<Longrightarrow> numberMsgs b msgs ! i = (msgs ! i)\<lparr>seq := b + int i + 1\<rparr>"
  by (simp add: numberMsgs_def)

lemma numberMsgs_seqs: "map seq (numberMsgs b msgs) = map (\<lambda>i. b + int i + 1) [0..<length msgs]"
  by (rule nth_equalityI) simp_all

lemma MsgPb2DB_Some: "\<exists>d. MsgPb2DB (Some m) = Some d \<and> mSeq d = seq m"
  by (simp add: MsgPb2DB_def)

definition cachedForm :: "MsgData \<Rightarrow> cached" where
  "cachedForm m = encMsg (zeroMsgInfo\<lparr>iMsg := MsgPb2DB (Some m)\<rparr>)"

lemma SetMessageBySeqs_forM:
  "\<forall>m\<in>set ms. 0 < seq m \<Longrightarrow>
   SetMessageBySeqs c (map (\<lambda>m. Some (zeroMsgInfo\<lparr>iMsg := MsgPb2DB (Some m)\<rparr>)) ms) =
   forM ms (\<lambda>m. rocksRawSet (GetMsgCacheKey c (seq m)) (cachedForm m))"
proof (induction ms)
  case (Cons m ms)
  obtain d where "MsgPb2DB (Some m) = Some d" "mSeq d = seq m" using MsgPb2DB_Some by blast
  with Cons show ?case by (simp add: SetMessageBySeqs_def cachedForm_def)
qed (simp add: SetMessageBySeqs_def)

text \<open>The level of a conversation is not touched by a write to the message cache.\<close>

lemma SetMessageBySeqs_level:
  assumes "SetMessageBySeqs c ms w = (r, w')"
  shows "seq_inv w' = seq_inv w" and "seq_level c' w' = seq_level c' w"
proof -
  have "preserves (\<lambda>v. seqConvs v = seqConvs w \<and> mallocKeys v = mallocKeys w \<and> clock v = clock w) (SetMessageBySeqs c ms)"
    unfolding SetMessageBySeqs_def rocksRawSet_def
    by (intro preserves_forM) (auto simp: preserves_def io_def Let_def split: option.split fault.split)
  from preservesD [OF this _ assms] have same: "seqConvs w' = seqConvs w" "mallocKeys w' = mallocKeys w" "clock w' = clock w"
    by auto
  have "liveHash k w' = liveHash k w" "conv_maxOf k w' = conv_maxOf k w" for k
    by (simp_all add: liveHash_def conv_maxOf_def convFind_def same split: option.split)
  then show "seq_inv w' = seq_inv w" and "seq_level c' w' = seq_level c' w"
    by (simp_all add: seq_inv_def seq_level_def same)
qed

lemma foldl_update_last:
  "map_of (foldl (\<lambda>t m. AList.update (k m) (v m) t) t ms) u =
   (case filter (\<lambda>m. k m = u) ms of [] \<Rightarrow> map_of t u | ms' \<Rightarrow> Some (v (last ms')))"
proof (induction ms arbitrary: t)
  case (Cons m ms)
  show ?case
    by (cases "filter (\<lambda>m. k m = u) ms") (auto simp: Cons.IH)
qed simp

text \<open>
  C20. A batch of chat messages is numbered without gaps, with fresh numbers, and cached: after a successful
  \<^verbatim>\<open>BatchInsertChat2Cache\<close> the messages carry \<open>b + 1\<close> to \<open>b + n\<close> in their order, where \<open>b\<close> is at least the level
  the conversation had and its level now is at least \<open>b + n\<close> (so no later allocation gives these numbers again);
  the cache holds each message under its number, the conversation counts as new exactly when \<open>b\<close> is 0, and the
  read position reported for a sender is the number of the last message of the batch it sent.
\<close>

theorem BatchInsertChat2Cache_numbers:
  assumes "BatchInsertChat2Cache c msgs w = (Inr (Inr (b, isNew, reads), msgs'), w')" and "seq_inv w"
    and "0 \<le> seq_level c w"
  shows "msgs' = numberMsgs b msgs \<and> 1 \<le> length msgs \<and> length msgs \<le> 100 \<and>
    seq_level c w \<le> b \<and> b + int (length msgs) \<le> seq_level c w' \<and> seq_inv w' \<and>
    (isNew \<longleftrightarrow> b = 0) \<and>
    (\<forall>i<length msgs. rocks w' (GetMsgCacheKey c (b + int i + 1)) = Some (cachedForm (msgs' ! i))) \<and>
    (\<forall>u. map_of reads u = (case filter (\<lambda>m. sendID m = u) msgs' of [] \<Rightarrow> None | ms \<Rightarrow> Some (seq (last ms))))"
proof -
  have len: "1 \<le> length msgs" "length msgs \<le> 100"
    using assms(1) by (cases msgs; auto simp: BatchInsertChat2Cache_def singleGocMsgNum_def split: if_splits)+
  then have nonempty: "msgs \<noteq> []" by auto
  from assms(1) len nonempty obtain w1 where m: "Malloc c (int (length msgs)) w = (Inr b, w1)"
    and set': "SetMessageBySeqs c (map (\<lambda>m. Some (zeroMsgInfo\<lparr>iMsg := MsgPb2DB (Some m)\<rparr>)) msgs') w1 = (Inr (), w')"
    and msgs': "msgs' = numberMsgs b msgs" and new: "isNew \<longleftrightarrow> b = 0"
    and reads: "reads = foldl (\<lambda>t m. AList.update (sendID m) (seq m) t) [] msgs'"
    by (auto simp: BatchInsertChat2Cache_def bind_tryM_Inr singleGocMsgNum_def Let_def)
  from Malloc_post [OF m assms(2)] have 1: "seq_inv w1" "seq_level c w \<le> b" "b + int (length msgs) \<le> seq_level c w1"
    by simp_all
  have pos: "\<forall>m\<in>set msgs'. 0 < seq m"
    using 1(2) assms(3) by (auto simp: msgs' in_set_conv_nth)
  have dist: "distinct (map (\<lambda>m. GetMsgCacheKey c (seq m)) msgs')"
    by (simp add: distinct_conv_nth msgs')
  from set' have "rocks w' = foldl (\<lambda>r m. r(GetMsgCacheKey c (seq m) \<mapsto> cachedForm m)) (rocks w1) msgs'"
    unfolding SetMessageBySeqs_forM [OF pos] by (rule forM_rocksRawSet)
  then have "rocks w' (GetMsgCacheKey c (seq m)) = Some (cachedForm m)" if "m \<in> set msgs'" for m
    using foldl_upd_in [OF dist that] by simp
  from this [OF nth_mem] have "\<forall>i<length msgs. rocks w' (GetMsgCacheKey c (b + int i + 1)) = Some (cachedForm (msgs' ! i))"
    by (simp add: msgs')
  moreover have "\<forall>u. map_of reads u = (case filter (\<lambda>m. sendID m = u) msgs' of [] \<Rightarrow> None | ms \<Rightarrow> Some (seq (last ms)))"
    unfolding reads by (auto simp: foldl_update_last split: list.split)
  ultimately show ?thesis
    using SetMessageBySeqs_level [OF set'] 1 len msgs' new by simp
qed

definition transfer_msgs :: "MsgData list" where
  "transfer_msgs = [zeroMsgData\<lparr>sendID := ''a'', content := ''x''\<rparr>, zeroMsgData\<lparr>sendID := ''b'', content := ''y''\<rparr>]"

lemma empty_world_inv: "seq_inv empty_world" "seq_level c empty_world = 0"
  by (simp_all add: seq_inv_def seq_level_def empty_world_def liveHash_def hash_level_def conv_maxOf_def convFind_def)

theorem BatchInsertChat2Cache_numbers_witness:
  "\<exists>reads w'. BatchInsertChat2Cache ''sg_1'' transfer_msgs empty_world =
     (Inr (Inr (0, True, reads), numberMsgs 0 transfer_msgs), w') \<and>
     rocks w' (GetMsgCacheKey ''sg_1'' 2) = Some (cachedForm (zeroMsgData\<lparr>sendID := ''b'', content := ''y'', seq := 2\<rparr>)) \<and>
     map_of reads ''b'' = Some 2"
proof -
  have "\<exists>reads w'. BatchInsertChat2Cache ''sg_1'' transfer_msgs empty_world =
     (Inr (Inr (0, True, reads), numberMsgs 0 transfer_msgs), w')"
    by (simp add: BatchInsertChat2Cache_def transfer_msgs_def singleGocMsgNum_def malloc_eval empty_world_def
        SetMessageBySeqs_def MsgPb2DB_def rocksRawSet_def zeroMsgData_def zeroMsgInfo_def numberMsgs_def freshConv_def)
  then obtain reads w' where run: "BatchInsertChat2Cache ''sg_1'' transfer_msgs empty_world =
     (Inr (Inr (0, True, reads), numberMsgs 0 transfer_msgs), w')" by blast
  from BatchInsertChat2Cache_numbers [OF run] have
    "\<forall>i<length transfer_msgs. rocks w' (GetMsgCacheKey ''sg_1'' (0 + int i + 1)) = Some (cachedForm (numberMsgs 0 transfer_msgs ! i))"
    and "map_of reads ''b'' = (case filter (\<lambda>m. sendID m = ''b'') (numberMsgs 0 transfer_msgs) of [] \<Rightarrow> None | ms \<Rightarrow> Some (seq (last ms)))"
    by (simp_all add: empty_world_inv)
  from this(1) [rule_format, of 1] this(2) run show ?thesis
    by (simp add: transfer_msgs_def numberMsgs_def zeroMsgData_def)
qed

section \<open>The MongoDB consumer\<close>

lemma numberMsgs_Cons: "numberMsgs b (m # ms) = m\<lparr>seq := b + 1\<rparr> # numberMsgs (b + 1) ms"
  by (rule nth_equalityI) (auto simp: nth_Cons split: nat.split)

abbreviation storedForm :: "MsgData \<Rightarrow> block_field" where
  "storedForm m \<equiv> FMsg (MsgPb2DB (Some (sentStatus m)))"

lemma seq_sentStatus [simp]: "seq (sentStatus m) = seq m"
  by (simp add: sentStatus_def)

lemma checkFields_numbered: "checkFields updateKeyMsg (b + 1) (map storedForm (numberMsgs b ms)) = None"
proof (induction ms arbitrary: b)
  case (Cons m ms)
  obtain d where "MsgPb2DB (Some (sentStatus (m\<lparr>seq := b + 1\<rparr>))) = Some d" "mSeq d = b + 1"
    using MsgPb2DB_Some [of "sentStatus (m\<lparr>seq := b + 1\<rparr>)"] by auto
  with Cons.IH [of "b + 1"] show ?case by (simp add: numberMsgs_Cons add.commute)
qed (simp add: numberMsgs_def)

lemma BatchInsertChat2DB_numbered:
  assumes "ms \<noteq> []"
  shows "BatchInsertChat2DB c (map Some (numberMsgs b ms)) x =
    insertLoop (2 * length ms + 1) c updateKeyMsg True (b + 1) (map storedForm (numberMsgs b ms))"
proof -
  from assms obtain m ms' where ms: "ms = m # ms'" by (cases ms) auto
  have "BatchInsertChat2DB c (map Some (numberMsgs b ms)) x =
      BatchInsertBlock c (map storedForm (numberMsgs b ms)) updateKeyMsg (b + 1)"
    by (simp add: BatchInsertChat2DB_def ms numberMsgs_Cons Let_def comp_def)
  also have "\<dots> = insertLoop (2 * length ms + 1) c updateKeyMsg True (b + 1) (map storedForm (numberMsgs b ms))"
    using checkFields_numbered [of b ms] assms by (simp add: BatchInsertBlock_def)
  finally show ?thesis .
qed

text \<open>
  C21. What the cache step numbered, the MongoDB consumer stores. For the messages as \<^verbatim>\<open>BatchInsertChat2Cache\<close>
  leaves them, \<^verbatim>\<open>BatchInsertChat2DB\<close> never refuses the batch: its only error is a store failure, and then
  each place of the collection holds its old contents or the new message. On success, the place of each
  number holds the message, with the status sending turned into sent, next to the revocation and deletion marks
  already there; every other place of every conversation is as before. The last number the consumer is told is not used.
\<close>

theorem BatchInsertChat2DB_stores:
  assumes "BatchInsertChat2DB c (map Some (numberMsgs b ms)) x w = (r, w')" and "docs_ok w" and "0 \<le> b" and "ms \<noteq> []"
  shows "docs_ok w' \<and> (case r of Inl e \<Rightarrow> e = ErrIO | Inr _ \<Rightarrow>
      (\<forall>i<length ms. infoAt c (b + int i + 1) w' =
         (infoAt c (b + int i + 1) w)\<lparr>iMsg := MsgPb2DB (Some (sentStatus ((ms ! i)\<lparr>seq := b + int i + 1\<rparr>)))\<rparr>)) \<and>
    (\<forall>c' s. 1 \<le> s \<and> (c' \<noteq> c \<or> s \<le> b \<or> b + int (length ms) < s) \<longrightarrow> infoAt c' s w' = infoAt c' s w)"
proof -
  let ?flds = "map storedForm (numberMsgs b ms)"
  let ?spec = "insert_block_spec c (b + 1) ?flds (absMap w)"
  have "block_post c (b + 1) ?flds (absMap w) r w'"
    using assms(1) unfolding BatchInsertChat2DB_numbered [OF assms(4)]
    by (rule insertLoop_step) (use assms(2,3) in auto)
  then have ok: "docs_ok w'" and bt: "between (absMap w) (absMap w') ?spec"
    and sm: "case r of Inl e \<Rightarrow> e = ErrIO | Inr _ \<Rightarrow> same ?spec (absMap w')"
    by (simp_all add: block_post_def)
  have "infoAt c' s w' = infoAt c' s w" if "1 \<le> s" "c' \<noteq> c \<or> s \<le> b \<or> b + int (length ms) < s" for c' s
  proof -
    have "?spec c' s = absMap w c' s" using that(2) by (auto simp: insert_block_spec_def)
    moreover from bt that(1) have "absMap w' c' s = absMap w c' s \<or> absMap w' c' s = ?spec c' s"
      by (simp add: between_def)
    ultimately show ?thesis by (simp add: absMap_def)
  qed
  moreover have "case r of Inl e \<Rightarrow> e = ErrIO | Inr _ \<Rightarrow> (\<forall>i<length ms. infoAt c (b + int i + 1) w' =
         (infoAt c (b + int i + 1) w)\<lparr>iMsg := MsgPb2DB (Some (sentStatus ((ms ! i)\<lparr>seq := b + int i + 1\<rparr>)))\<rparr>)"
  proof (cases r)
    case (Inl e)
    with sm show ?thesis by simp
  next
    case (Inr u)
    have "infoAt c (b + int i + 1) w' = ?spec c (b + int i + 1)" if "i < length ms" for i
      using sm assms(3) by (simp add: Inr same_def absMap_def)
    moreover have "nat (b + int i + 1 - (b + 1)) = i" for i by simp
    ultimately show ?thesis
      by (simp add: Inr insert_block_spec_def setInfo_def absMap_def)
  qed
  ultimately show ?thesis using ok by blast
qed

theorem BatchInsertChat2DB_stores_witness:
  "let w' = snd (BatchInsertChat2DB ''c'' (map Some (numberMsgs 99 transfer_msgs)) 99 empty_world) in
   map_option mContent (iMsg (infoAt ''c'' 101 w')) = Some ''y'' \<and> infoAt ''c'' 102 w' = zeroMsgInfo"
proof -
  let ?run = "BatchInsertChat2DB ''c'' (map Some (numberMsgs 99 transfer_msgs)) 99 empty_world"
  have ne: "transfer_msgs \<noteq> []" "length transfer_msgs = 2" by (simp_all add: transfer_msgs_def)
  have ids: "GetDocID ''c'' 100 = BuildDocIDByIndex ''c'' 0" "GetDocID ''c'' 101 = BuildDocIDByIndex ''c'' 1"
    "GetMsgIndex 100 = 99" "GetMsgIndex 101 = 0"
    by (simp_all add: GetDocID_eq GetDocIndex_pos GetMsgIndex_pos)
  have "blockLen ''c'' 100 [f1, f2] = 1" "blockLen ''c'' 101 [f2] = 1" for f1 f2
    by (simp_all add: blockLen_def ids upt_rec)
  moreover have "numberMsgs 99 transfer_msgs = [(transfer_msgs ! 0)\<lparr>seq := 100\<rparr>, (transfer_msgs ! 1)\<lparr>seq := 101\<rparr>]"
    by (simp add: transfer_msgs_def numberMsgs_def)
  ultimately have "fst ?run = Inr ()"
    unfolding BatchInsertChat2DB_numbered [OF ne(1)]
    by (simp add: ne eval_nat_numeral updateMsgModel_def UpdateMsg_def bindM_def io_def MsgPb2DB_def
        empty_world_def docFind_def noMatch_def ids Let_def Create_def tryM_def blockDoc_def)
  then have run: "?run = (Inr (), snd ?run)" by (metis prod.collapse)
  have "docs_ok empty_world" by (simp add: docs_ok_def empty_world_def)
  from BatchInsertChat2DB_stores [OF run this _ ne(1)] have
    st: "\<forall>i<length transfer_msgs. infoAt ''c'' (99 + int i + 1) (snd ?run) = (infoAt ''c'' (99 + int i + 1) empty_world)
        \<lparr>iMsg := MsgPb2DB (Some (sentStatus ((transfer_msgs ! i)\<lparr>seq := 99 + int i + 1\<rparr>)))\<rparr>"
    and "infoAt ''c'' 102 (snd ?run) = infoAt ''c'' 102 empty_world"
    by (simp_all add: ne)
  with st [rule_format, of 1] show ?thesis
    by (simp add: transfer_msgs_def Let_def MsgPb2DB_def sentStatus_def zeroMsgData_def infoAt_def docFind_def empty_world_def)
qed

section \<open>Classification of a batch\<close>

text \<open>
  What the classification makes of a notification: \<open>silenced\<close> is the notification itself when it is also to be
  shown as a message, \<open>shown\<close> the message it is shown as.
\<close>

definition silenced :: "ContextMsg \<Rightarrow> ContextMsg" where
  "silenced v = (if IsSendMsg (options (cmMessage v))
     then v\<lparr>cmMessage := (cmMessage v)\<lparr>options :=
       Some ((the (options (cmMessage v)))(kIsOfflinePush \<mapsto> False, kIsUnreadCount \<mapsto> False))\<rparr>\<rparr>
     else v)"

definition shown :: "ContextMsg \<Rightarrow> ContextMsg" where
  "shown v = v\<lparr>cmMessage := (cmMessage v)\<lparr>options :=
     Some [kIsOfflinePush \<mapsto> IsOfflinePush (options (cmMessage v)), kIsUnreadCount \<mapsto> IsUnreadCount (options (cmMessage v))]\<rparr>\<rparr>"

abbreviation notif :: "ContextMsg \<Rightarrow> bool" where
  "notif v \<equiv> \<not> IsNotNotification (options (cmMessage v))"

abbreviation hist :: "ContextMsg \<Rightarrow> bool" where
  "hist v \<equiv> IsHistory (options (cmMessage v))"

definition storedAsMsg :: "ContextMsg \<Rightarrow> ContextMsg list" where
  "storedAsMsg v = (if notif v then (if IsSendMsg (options (cmMessage v)) then [shown v] else [])
     else if hist v then [v] else [])"

definition addCategory :: "ContextMsg list \<Rightarrow> categorized \<Rightarrow> categorized" where
  "addCategory vs acc = \<lparr>
     storageMsgs = storageMsgs acc @ concat (map storedAsMsg vs),
     notStorageMsgs = notStorageMsgs acc @ filter (\<lambda>v. \<not> notif v \<and> \<not> hist v) vs,
     storageNotifications = storageNotifications acc @ map silenced (filter (\<lambda>v. notif v \<and> hist v) vs),
     notStorageNotifications = notStorageNotifications acc @ map silenced (filter (\<lambda>v. notif v \<and> \<not> hist v) vs)\<rparr>"

lemma categorize1_spec: "categorize1 v acc = Inr (addCategory [v] acc)"
proof (cases "options (cmMessage v)")
  case None
  then show ?thesis
    by (simp add: categorize1_def addCategory_def storedAsMsg_def IsNotNotification_def IsHistory_def)
next
  case (Some m)
  then show ?thesis
    by (simp add: categorize1_def addCategory_def storedAsMsg_def silenced_def shown_def WithOptions_def
        WithOfflinePush_def WithUnreadCount_def setOption_def NewMsgOptions_def Let_def IsHistory_def Options_Is_def)
qed

lemma addCategory_Cons: "addCategory vs (addCategory [v] acc) = addCategory (v # vs) acc"
  by (simp add: addCategory_def)

lemma categorizeFrom_spec: "categorizeFrom acc vs = Inr (addCategory vs acc)"
  by (induction vs arbitrary: acc) (simp_all add: categorize1_spec addCategory_Cons, simp add: addCategory_def)

text \<open>
  C22. The classification of a batch never panics and loses nothing. Messages go, in their order and unchanged,
  to the stored or the unstored messages by their history flag; notifications to the stored or unstored notifications; a
  notification that is also to be sent as a message is stored a second time as one, with the same content,
  sender and context, taking the offline push and the unread count over from the notification, which loses both.
\<close>

theorem categorizeMessageLists_complete:
  "\<exists>cat. categorizeMessageLists msgs = Inr cat \<and>
     storageMsgs cat = concat (map storedAsMsg msgs) \<and>
     notStorageMsgs cat = filter (\<lambda>v. \<not> notif v \<and> \<not> hist v) msgs \<and>
     storageNotifications cat = map silenced (filter (\<lambda>v. notif v \<and> hist v) msgs) \<and>
     notStorageNotifications cat = map silenced (filter (\<lambda>v. notif v \<and> \<not> hist v) msgs)"
  by (simp add: categorizeMessageLists_def categorizeFrom_spec addCategory_def noMsgs_def)

section \<open>Read positions of a batch\<close>

text \<open>The receipt a message is, if it is one: conversation, reader and the largest number it reports.\<close>

definition receiptOf :: "'t transfer_tools_scheme \<Rightarrow> ContextMsg \<Rightarrow> (string \<times> string \<times> int) option" where
  "receiptOf T v =
     (if contentType (cmMessage v) \<noteq> HasReadReceipt then None
      else case tUnjsonElem T (content (cmMessage v)) of
        Inl e \<Rightarrow> None
      | Inr detail \<Rightarrow> (case tUnjsonTips T detail of
          Inl e \<Rightarrow> None
        | Inr tips \<Rightarrow> Some (mtConversationID tips, mtMarkAsReadUserID tips, Max (set (mtHasReadSeq tips # mtSeqs tips)))))"

definition reportedSeqs :: "'t transfer_tools_scheme \<Rightarrow> ContextMsg list \<Rightarrow> string \<Rightarrow> int set" where
  "reportedSeqs T msgs u = {s. 0 \<le> s \<and> (\<exists>v\<in>set msgs. \<exists>c. receiptOf T v = Some (c, u, s))}"

lemma foldl_max: "foldl (\<lambda>h s. if h < s then s else h) h ss = Max (set (h # ss :: int list))"
proof (induction ss arbitrary: h)
  case (Cons s ss)
  have "Max (insert h (insert s (set ss))) = Max (insert (max h s) (set ss))"
    by (simp add: Max_insert2 flip: insert_is_Un) (cases "ss = []"; simp add: max.assoc)
  with Cons show ?case by (simp add: max_def)
qed simp

lemma finite_reportedSeqs: "finite (reportedSeqs T msgs u)"
proof -
  have "reportedSeqs T msgs u \<subseteq> (\<lambda>v. snd (snd (the (receiptOf T v)))) ` set msgs"
    unfolding reportedSeqs_def by force
  then show ?thesis by (rule finite_subset) simp
qed

lemma reportedSeqs_snoc:
  "reportedSeqs T (msgs @ [v]) u = (case receiptOf T v of
     Some (c, u', s) \<Rightarrow> if u' = u \<and> 0 \<le> s then insert s (reportedSeqs T msgs u) else reportedSeqs T msgs u
   | None \<Rightarrow> reportedSeqs T msgs u)"
  unfolding reportedSeqs_def by (auto split: option.split)

definition readStep ::
  "(string \<times> string \<times> int) option \<Rightarrow> string \<times> (string \<times> int) list option \<Rightarrow> string \<times> (string \<times> int) list option" where
  "readStep r acc = (case r of
     None \<Rightarrow> acc
   | Some (c, u, s) \<Rightarrow>
       if s < 0 then (c, snd acc)
       else let m = (case snd acc of None \<Rightarrow> [] | Some m \<Rightarrow> m) in
         if mapGet 0 m u > s then (c, Some m) else (c, Some (AList.update u s m)))"

lemma collectReadSeqs_snoc:
  "collectReadSeqs T (msgs @ [v]) = readStep (receiptOf T v) (collectReadSeqs T msgs)"
  by (cases "collectReadSeqs T msgs")
    (simp add: collectReadSeqs_def receiptOf_def readStep_def foldl_max Let_def split: sum.split)

text \<open>
  The read positions of a batch are, for each reader, the largest number of its receipts in the batch, whatever
  their order: receipts that do not parse or report a negative number count for nothing, and there is no map, and no
  call to the database, exactly when no receipt is left.
\<close>

theorem collectReadSeqs_max:
  "(snd (collectReadSeqs T msgs) = None \<longleftrightarrow> (\<forall>u. reportedSeqs T msgs u = {})) \<and>
   (\<forall>m u. snd (collectReadSeqs T msgs) = Some m \<longrightarrow>
      map_of m u = (if reportedSeqs T msgs u = {} then None else Some (Max (reportedSeqs T msgs u))))"
proof (induction msgs rule: rev_induct)
  case Nil
  then show ?case by (simp add: collectReadSeqs_def reportedSeqs_def)
next
  case (snoc v msgs)
  show ?case
  proof (cases "receiptOf T v")
    case None
    with snoc show ?thesis by (simp add: collectReadSeqs_snoc readStep_def reportedSeqs_snoc)
  next
    case (Some r)
    obtain c u s where r: "r = (c, u, s)" by (cases r)
    let ?M = "case snd (collectReadSeqs T msgs) of None \<Rightarrow> [] | Some m \<Rightarrow> m"
    have IH: "map_of ?M u' = (if reportedSeqs T msgs u' = {} then None else Some (Max (reportedSeqs T msgs u')))" for u'
      using snoc by (cases "snd (collectReadSeqs T msgs)") simp_all
    have get: "mapGet 0 ?M u = (if reportedSeqs T msgs u = {} then 0 else Max (reportedSeqs T msgs u))"
      by (simp add: mapGet_def IH)
    show ?thesis
    proof (cases "s < 0")
      case True
      with Some r snoc show ?thesis by (simp add: collectReadSeqs_snoc readStep_def reportedSeqs_snoc)
    next
      case False
      let ?m' = "if mapGet 0 ?M u > s then ?M else AList.update u s ?M"
      have new: "snd (collectReadSeqs T (msgs @ [v])) = Some ?m'"
        using Some r False by (simp add: collectReadSeqs_snoc readStep_def Let_def)
      have rep: "reportedSeqs T (msgs @ [v]) u' = (if u' = u then insert s (reportedSeqs T msgs u) else reportedSeqs T msgs u')" for u'
        using Some r False by (simp add: reportedSeqs_snoc)
      have "map_of ?m' u' = (if reportedSeqs T (msgs @ [v]) u' = {} then None
          else Some (Max (reportedSeqs T (msgs @ [v]) u')))" for u'
      proof (cases "u' = u \<and> reportedSeqs T msgs u \<noteq> {}")
        case True
        with IH [of u] get False finite_reportedSeqs [of T msgs u] show ?thesis by (simp add: rep max_def)
      next
        case False
        with IH [of u'] get \<open>\<not> s < 0\<close> show ?thesis by (auto simp: rep)
      qed
      with new rep [of u] show ?thesis by auto
    qed
  qed
qed

theorem collectReadSeqs_max_witness:
  "let v = (\<lambda>s. \<lparr>cmMessage = zeroMsgData\<lparr>contentType := HasReadReceipt, content := s\<rparr>, cmCtx = ''''\<rparr>);
       T = std_transfer_tools\<lparr>tUnjsonElem := Inr, tUnjsonTips := (\<lambda>s. Inr \<lparr>mtConversationID = ''c'',
         mtMarkAsReadUserID = ''u'', mtSeqs = [3, 2], mtHasReadSeq = int (length s)\<rparr>)\<rparr> in
   map_of (the (snd (collectReadSeqs T [v ''xxxxx'', v ''x'']))) ''u'' = Some 5"
proof -
  let ?v = "\<lambda>s. \<lparr>cmMessage = zeroMsgData\<lparr>contentType := HasReadReceipt, content := s\<rparr>, cmCtx = ''''\<rparr>"
  let ?T = "std_transfer_tools\<lparr>tUnjsonElem := Inr, tUnjsonTips := (\<lambda>s. Inr \<lparr>mtConversationID = ''c'',
         mtMarkAsReadUserID = ''u'', mtSeqs = [3, 2], mtHasReadSeq = int (length s)\<rparr>)\<rparr>"
  have r: "receiptOf ?T (?v ''xxxxx'') = Some (''c'', ''u'', 5)" "receiptOf ?T (?v ''x'') = Some (''c'', ''u'', 3)"
    by (simp_all add: receiptOf_def)
  have "{s. 0 \<le> s \<and> (s = 5 \<or> s = (3::int))} = {5, 3}" by auto
  then have rep: "reportedSeqs ?T [?v ''xxxxx'', ?v ''x''] ''u'' = {5, 3}"
    by (simp add: reportedSeqs_def r)
  with collectReadSeqs_max [of ?T "[?v ''xxxxx'', ?v ''x'']"] obtain m where
    "snd (collectReadSeqs ?T [?v ''xxxxx'', ?v ''x'']) = Some m" by fastforce
  with collectReadSeqs_max [of ?T "[?v ''xxxxx'', ?v ''x'']"] rep show ?thesis by (simp add: Let_def)
qed

section \<open>Batches that are lost\<close>

lemma parseConsumerMessages_snoc:
  "parseConsumerMessages T (val @ [c]) = parseConsumerMessages T val @
     (case tUnprotoMsg T (rcValue c) of Inl e \<Rightarrow> [] | Inr m \<Rightarrow> [\<lparr>cmMessage = m, cmCtx = rcOperationID c\<rparr>])"
  by (simp add: parseConsumerMessages_def split: sum.split)

definition plainChat :: "MsgData \<Rightarrow> bool" where
  "plainChat m \<longleftrightarrow> IsNotNotification (options m) \<and> IsHistory (options m) \<and> contentType m \<noteq> HasReadReceipt"

lemma parse_plain:
  "\<forall>c\<in>set val. \<exists>m. tUnprotoMsg T (rcValue c) = Inr m \<and> plainChat m \<Longrightarrow>
   length (parseConsumerMessages T val) = length val \<and> (\<forall>v\<in>set (parseConsumerMessages T val). plainChat (cmMessage v))"
proof (induction val rule: rev_induct)
  case (snoc c val)
  then obtain m where "tUnprotoMsg T (rcValue c) = Inr m" "plainChat m" by auto
  with snoc show ?case by (simp add: parseConsumerMessages_snoc)
qed (simp add: parseConsumerMessages_def)

lemma collectReadSeqs_plain:
  "\<forall>v\<in>set msgs. plainChat (cmMessage v) \<Longrightarrow> collectReadSeqs T msgs = ('''', None)"
proof (induction msgs rule: rev_induct)
  case (snoc v msgs)
  then show ?case by (simp add: collectReadSeqs_snoc receiptOf_def readStep_def plainChat_def)
qed (simp add: collectReadSeqs_def)

lemma addCategory_plain:
  "\<forall>v\<in>set msgs. plainChat (cmMessage v) \<Longrightarrow> addCategory msgs noMsgs = noMsgs\<lparr>storageMsgs := msgs\<rparr>"
  by (induction msgs) (auto simp: addCategory_def noMsgs_def storedAsMsg_def plainChat_def)

text \<open>
  A batch of more messages than one document holds is dropped. The batcher collects up to 500 records, but
  \<^verbatim>\<open>BatchInsertChat2Cache\<close> refuses more than 100, and the handler only logs that error: for a batch of more than
  100 ordinary chat messages \<^verbatim>\<open>do\<close> ends normally (so the records count as consumed) and has no effect at all; no message gets a number,
  is cached, stored or pushed.
\<close>

theorem large_batch_dropped:
  assumes "100 < length val" and "\<forall>c\<in>set val. \<exists>m. tUnprotoMsg T (rcValue c) = Inr m \<and> plainChat m"
  shows "do_batch T key val w = (Inr (), w)"
proof -
  let ?ms = "parseConsumerMessages T val"
  from parse_plain [OF assms(2)] have ms: "length ?ms = length val" "\<forall>v\<in>set ?ms. plainChat (cmMessage v)" by auto
  with assms(1) have big: "100 < length ?ms" by simp
  then obtain v vs where vs: "?ms = v # vs" by (cases ?ms) auto
  have "doSetReadSeq T ?ms w = (Inr (), w)" by (simp add: doSetReadSeq_def collectReadSeqs_plain [OF ms(2)])
  moreover have "categorizeMessageLists ?ms = Inr (noMsgs\<lparr>storageMsgs := ?ms\<rparr>)"
    by (simp add: categorizeMessageLists_def categorizeFrom_spec addCategory_plain [OF ms(2)])
  moreover have "handleMsg T key c ?ms [] w = (Inr (), w)" for c
    using big by (simp add: handleMsg_def toPush_def vs BatchInsertChat2Cache_def singleGocMsgNum_def)
  moreover have "handleNotification key c [] [] w = (Inr (), w)" for c
    by (simp add: handleNotification_def toPush_def)
  ultimately show ?thesis
    by (simp add: do_batch_def Let_def vs noMsgs_def bindM_def)
qed

definition transfer_start :: transfer_world where
  "transfer_start = msg_world.extend empty_world \<lparr>readChan = [], groupConvs = [], singleConvs = []\<rparr>"

theorem large_batch_dropped_witness:
  "do_batch std_transfer_tools ''k'' (replicate 101 \<lparr>rcKey = ''k'', rcValue = ''v'', rcOperationID = ''o''\<rparr>) transfer_start =
     (Inr (), transfer_start)"
  by (rule large_batch_dropped)
    (simp_all add: std_transfer_tools_def tools.defs plainChat_def zeroMsgData_def IsNotNotification_def IsHistory_def)

text \<open>
  A batch without a single record that parses ends in a panic: \<^verbatim>\<open>do\<close> reads \<^verbatim>\<open>ctxMessages[0]\<close> of an empty list, after
  it has done nothing.
\<close>

theorem unparsable_batch_panics:
  assumes "\<forall>c\<in>set val. \<exists>e. tUnprotoMsg T (rcValue c) = Inl e"
  shows "do_batch T key val w = (Inl (Panic ''index out of range''), w)"
proof -
  have "parseConsumerMessages T val = []"
    using assms by (induction val rule: rev_induct) (auto simp: parseConsumerMessages_snoc, simp add: parseConsumerMessages_def)
  then show ?thesis
    by (simp add: do_batch_def doSetReadSeq_def collectReadSeqs_def categorizeMessageLists_def bindM_def)
qed

theorem unparsable_batch_panics_witness:
  "fst (do_batch (std_transfer_tools\<lparr>tUnprotoMsg := \<lambda>_. Inl ErrIO\<rparr>) ''k''
     [\<lparr>rcKey = ''k'', rcValue = ''v'', rcOperationID = ''o''\<rparr>] transfer_start) = Inl (Panic ''index out of range'')"
  by (subst unparsable_batch_panics) simp_all

end
