(* ===== verification/Version_Log.thy ===== *)
theory Version_Log
  imports Stores
begin

text \<open>
  The change logs behind incremental synchronisation: \<^verbatim>\<open>database/mgo/version_log.go\<close> with \<^verbatim>\<open>storage/model/version_log.go\<close>, and the two
  builders of a synchronisation reply, \<^verbatim>\<open>internal/rpc/incrversion/option.go\<close> and \<^verbatim>\<open>batch_option.go\<close>. A log belongs to an owner (\<^verbatim>\<open>d_id\<close>): it
  has an object id, a version that every change increases, and for every element that changed the version and the kind of its last change.

  The aggregation pipelines are written as the functions they compute on a document (an identifier that starts with a dollar sign, which
  MongoDB would read as a field path, is not covered). Object ids are numbers; their texts are given by the driver's
  \<^verbatim>\<open>Hex\<close> and \<^verbatim>\<open>ObjectIDFromHex\<close>, a parameter.
\<close>

section \<open>Data\<close>

definition VersionStateInsert :: int where "VersionStateInsert = 1"
definition VersionStateDelete :: int where "VersionStateDelete = 2"
definition VersionStateUpdate :: int where "VersionStateUpdate = 3"

definition VersionGroupChangeID :: string where "VersionGroupChangeID = ''''"
definition VersionSortChangeID :: string where "VersionSortChangeID = ''____S_O_R_T_I_D____''"

definition FirstVersion :: nat where "FirstVersion = 1"
definition DefaultDeleteVersion :: nat where "DefaultDeleteVersion = 0"

record VersionLogElem =
  vEID :: string
  vState :: int
  vElemVersion :: nat
  vElemUpdate :: int

record VersionLogTable =
  vtID :: nat
  vtDID :: string
  vtLogs :: "VersionLogElem list"
  vtVersion :: nat
  vtDeleted :: nat
  vtLastUpdate :: int

record VersionLog = VersionLogTable +
  vLogLen :: int

definition toVersionLog :: "VersionLogTable \<Rightarrow> VersionLog" where
  "toVersionLog v = VersionLogTable.extend v \<lparr>vLogLen = int (length (vtLogs v))\<rparr>"

text \<open>\<^verbatim>\<open>DeleteAndChangeIDs\<close>: inserted, deleted and updated elements; an unknown state is logged and dropped.\<close>

fun DeleteAndChangeIDs_loop ::
  "VersionLogElem list \<Rightarrow> string list \<times> string list \<times> string list \<Rightarrow> string list \<times> string list \<times> string list" where
  "DeleteAndChangeIDs_loop [] acc = acc"
| "DeleteAndChangeIDs_loop (l # ls) (insertIds, deleteIds, updateIds) = DeleteAndChangeIDs_loop ls
     (if vState l = VersionStateInsert then (insertIds @ [vEID l], deleteIds, updateIds)
      else if vState l = VersionStateDelete then (insertIds, deleteIds @ [vEID l], updateIds)
      else if vState l = VersionStateUpdate then (insertIds, deleteIds, updateIds @ [vEID l])
      else (insertIds, deleteIds, updateIds))"

definition DeleteAndChangeIDs :: "VersionLog \<Rightarrow> string list \<times> string list \<times> string list" where
  "DeleteAndChangeIDs v = DeleteAndChangeIDs_loop (vtLogs v) ([], [], [])"

text \<open>
  The state: the logs of each collection, the ids given out, and the logs that the current request collects for its notification
  (\<open>None\<close>: the context carries no collector).
\<close>

record version_world = store_world +
  versionDocs :: "string \<Rightarrow> VersionLogTable list"
  nextOid :: nat
  versionCtx :: "(string \<times> VersionLog) list option"

definition NewObjectID :: "('e version_world_scheme, nat) prog" where
  "NewObjectID = (\<lambda>w. (Inr (Suc (nextOid w)), w\<lparr>nextOid := Suc (nextOid w)\<rparr>))"

definition now :: "('e version_world_scheme, int) prog" where
  "now = gets clock"

definition appendCtx :: "string \<Rightarrow> VersionLog \<Rightarrow> ('e version_world_scheme, unit) prog" where
  "appendCtx name doc = modifyM (\<lambda>w. w\<lparr>versionCtx := map_option (\<lambda>data. data @ [(name, doc)]) (versionCtx w)\<rparr>)"

definition findVersion :: "string \<Rightarrow> string \<Rightarrow> 'e version_world_scheme \<Rightarrow> VersionLogTable option" where
  "findVersion coll dId w = List.find (\<lambda>d. vtDID d = dId) (versionDocs w coll)"

definition setVersionDocs ::
  "string \<Rightarrow> (VersionLogTable list \<Rightarrow> VersionLogTable list) \<Rightarrow> 'e version_world_scheme \<Rightarrow> 'e version_world_scheme" where
  "setVersionDocs coll f w = w\<lparr>versionDocs := (versionDocs w)(coll := f (versionDocs w coll))\<rparr>"

section \<open>Writing a log\<close>

text \<open>The unique index on \<^verbatim>\<open>d_id\<close> refuses a second document of an owner.\<close>

definition insertVersionDoc :: "string \<Rightarrow> VersionLogTable \<Rightarrow> ('e version_world_scheme, unit) prog" where
  "insertVersionDoc coll wl = io (\<lambda>w. case findVersion coll (vtDID wl) w of
       Some d \<Rightarrow> (Inl MongoDuplicateKey, w)
     | None \<Rightarrow> (Inr (), setVersionDocs coll (\<lambda>ds. ds @ [wl]) w))"

definition initDoc :: "string \<Rightarrow> string \<Rightarrow> string list \<Rightarrow> int \<Rightarrow> int \<Rightarrow> ('e version_world_scheme, VersionLog) prog" where
  "initDoc coll dId eIds state t =
     bindM NewObjectID (\<lambda>oid.
     let wl = \<lparr>vtID = oid, vtDID = dId,
               vtLogs = map (\<lambda>eId. \<lparr>vEID = eId, vState = state, vElemVersion = FirstVersion, vElemUpdate = t\<rparr>) eIds,
               vtVersion = FirstVersion, vtDeleted = DefaultDeleteVersion, vtLastUpdate = t\<rparr> in
     thenM (insertVersionDoc coll wl) (ret (toVersionLog wl)))"

text \<open>The stages of the update pipeline, in their order: the version first, so that the new entries carry the new version.\<close>

definition writeLogUpdate :: "string list \<Rightarrow> int \<Rightarrow> int \<Rightarrow> VersionLogTable \<Rightarrow> VersionLogTable" where
  "writeLogUpdate eIds state t d =
     (let v = vtVersion d + 1;
          kept = filter (\<lambda>log. \<not> (vEID log \<in> set eIds)) (vtLogs d);
          elems = map (\<lambda>eId. \<lparr>vEID = eId, vState = state, vElemVersion = v, vElemUpdate = t\<rparr>) eIds in
      d\<lparr>vtVersion := v, vtLastUpdate := t, vtLogs := kept @ elems\<rparr>)"

definition writeLogBatch2 ::
  "string \<Rightarrow> string \<Rightarrow> string list \<Rightarrow> int \<Rightarrow> int \<Rightarrow> ('e version_world_scheme, VersionLog) prog" where
  "writeLogBatch2 coll dId eIds state t =
     bindM (io (\<lambda>w. case findVersion coll dId w of
         None \<Rightarrow> (Inl MongoNoDocuments, w)
       | Some d \<Rightarrow> (Inr (writeLogUpdate eIds state t d),
           setVersionDocs coll (updFirst (\<lambda>d. vtDID d = dId) (writeLogUpdate eIds state t)) w))) (\<lambda>res.
     ret (VersionLogTable.extend
       (res\<lparr>vtLogs := map (\<lambda>id. \<lparr>vEID = id, vState = state, vElemVersion = vtVersion res, vElemUpdate = vtLastUpdate res\<rparr>) eIds\<rparr>)
       \<lparr>vLogLen = 0\<rparr>))"

definition incrVersionResult ::
  "string \<Rightarrow> string \<Rightarrow> string list \<Rightarrow> int \<Rightarrow> ('e version_world_scheme, VersionLog) prog" where
  "incrVersionResult coll dId eIds state =
     (if length eIds = 0 then throw (ErrArgs ''elem id is empty'')
      else bindM now (\<lambda>t.
        bindM (tryM (writeLogBatch2 coll dId eIds state t)) (\<lambda>r. case r of
          Inr res \<Rightarrow> ret res
        | Inl err \<Rightarrow> if err \<noteq> MongoNoDocuments then throw err
            else bindM (tryM (initDoc coll dId eIds state t)) (\<lambda>r2. case r2 of
              Inr res \<Rightarrow> ret res
            | Inl err2 \<Rightarrow> if err2 \<noteq> MongoDuplicateKey then throw err2
                else writeLogBatch2 coll dId eIds state t))))"

definition IncrVersionResult ::
  "string \<Rightarrow> string \<Rightarrow> string list \<Rightarrow> int \<Rightarrow> ('e version_world_scheme, VersionLog) prog" where
  "IncrVersionResult coll dId eIds state =
     bindM (incrVersionResult coll dId eIds state) (\<lambda>vl. thenM (appendCtx coll vl) (ret vl))"

definition IncrVersion :: "string \<Rightarrow> string \<Rightarrow> string list \<Rightarrow> int \<Rightarrow> ('e version_world_scheme, unit) prog" where
  "IncrVersion coll dId eIds state = bindM (IncrVersionResult coll dId eIds state) (\<lambda>_. ret ())"

section \<open>Reading a log\<close>

definition findDoc :: "string \<Rightarrow> string \<Rightarrow> ('e version_world_scheme, VersionLog) prog" where
  "findDoc coll dId = io (\<lambda>w. case findVersion coll dId w of
       None \<Rightarrow> (Inl MongoNoDocuments, w)
     | Some d \<Rightarrow> (Inr (toVersionLog (d\<lparr>vtLogs := []\<rparr>)), w))"

text \<open>The stages of the read pipeline; the last one is cut off when there is no limit.\<close>

definition changeLogOf :: "nat \<Rightarrow> int \<Rightarrow> VersionLogTable \<Rightarrow> VersionLog" where
  "changeLogOf version limit d =
     (let logs = (if vtVersion d < version \<or> vtDeleted d \<ge> version then [] else vtLogs d);
          logs = filter (\<lambda>l. vElemVersion l > version) logs;
          log_len = int (length logs);
          logs = (if limit \<le> 0 then logs else if log_len > limit then [] else logs) in
      VersionLogTable.extend (d\<lparr>vtLogs := logs\<rparr>) \<lparr>vLogLen = log_len\<rparr>)"

definition findChangeLog :: "string \<Rightarrow> string \<Rightarrow> nat \<Rightarrow> int \<Rightarrow> ('e version_world_scheme, VersionLog) prog" where
  "findChangeLog coll dId version limit =
     (if version = 0 \<and> limit = 0 then findDoc coll dId
      else bindM (io (gets (\<lambda>w. map (changeLogOf version limit) (filter (\<lambda>d. vtDID d = dId) (versionDocs w coll))))) (\<lambda>vl.
        if length vl = 0 then throw MongoNoDocuments else idx vl 0))"

definition FindChangeLog :: "string \<Rightarrow> string \<Rightarrow> nat \<Rightarrow> int \<Rightarrow> ('e version_world_scheme, VersionLog) prog" where
  "FindChangeLog coll dId version limit =
     bindM (tryM (findChangeLog coll dId version limit)) (\<lambda>r. case r of
       Inr wl \<Rightarrow> ret wl
     | Inl err \<Rightarrow> if err \<noteq> MongoNoDocuments then throw err
         else bindM now (\<lambda>t. bindM (tryM (initDoc coll dId [] 0 t)) (\<lambda>r2. case r2 of
           Inr res \<Rightarrow> ret res
         | Inl err2 \<Rightarrow> if err2 = MongoDuplicateKey then findChangeLog coll dId version limit else throw err2)))"

text \<open>
  One turn of \<^verbatim>\<open>BatchFindChangeLog\<close>. After a log has been found the turn goes on to create one, as if it had not; that fails on the unique
  index, and the log is read once more for nothing.
\<close>

definition BatchFindChangeLog_step ::
  "string \<Rightarrow> string list \<Rightarrow> nat list \<Rightarrow> int list \<Rightarrow> nat \<Rightarrow> VersionLog list \<Rightarrow> ('e version_world_scheme, VersionLog list) prog" where
  "BatchFindChangeLog_step coll dIds versions limits i vLogs =
     bindM (idx dIds i) (\<lambda>dId. bindM (idx versions i) (\<lambda>version. bindM (idx limits i) (\<lambda>limit.
     bindM (tryM (findChangeLog coll dId version limit)) (\<lambda>r.
       let vLogs = (case r of Inr vLog \<Rightarrow> vLogs @ [vLog] | Inl _ \<Rightarrow> vLogs) in
       bindM now (\<lambda>t. bindM (tryM (initDoc coll dId [] 0 t)) (\<lambda>r2. case r2 of
         Inr res \<Rightarrow> ret (vLogs @ [res])
       | Inl err \<Rightarrow> if err = MongoDuplicateKey
           then bindM (tryM (findChangeLog coll dId version limit)) (\<lambda>_. ret vLogs)
           else ret vLogs))))))"

definition BatchFindChangeLog ::
  "string \<Rightarrow> string list \<Rightarrow> nat list \<Rightarrow> int list \<Rightarrow> ('e version_world_scheme, VersionLog list) prog" where
  "BatchFindChangeLog coll dIds versions limits =
     foldM (BatchFindChangeLog_step coll dIds versions limits) [0..<length dIds] []"

definition DeleteAfterUnchangedLog :: "string \<Rightarrow> int \<Rightarrow> ('e version_world_scheme, unit) prog" where
  "DeleteAfterUnchangedLog coll deadline =
     io (modifyM (setVersionDocs coll (filter (\<lambda>d. \<not> vtLastUpdate d < deadline))))"

definition removeFirst :: "('d \<Rightarrow> bool) \<Rightarrow> 'd list \<Rightarrow> 'd list" where
  "removeFirst P xs = (case List.extract P xs of None \<Rightarrow> xs | Some (ys, x, zs) \<Rightarrow> ys @ zs)"

definition DeleteVersion :: "string \<Rightarrow> string \<Rightarrow> ('e version_world_scheme, unit) prog" where
  "DeleteVersion coll dId = io (modifyM (setVersionDocs coll (removeFirst (\<lambda>d. vtDID d = dId))))"

end
