(* ===== verification/Friends_Store.thy ===== *)
theory Friends_Store
  imports Version_Log "HOL-Library.Product_Lexorder"
begin

text \<open>
  Friends in the stores: the collections \<^verbatim>\<open>database/mgo/friend.go\<close> (with its change log) and \<^verbatim>\<open>friend_request.go\<close>, the cache
  \<^verbatim>\<open>cache/redis/friend.go\<close> with \<^verbatim>\<open>cachekey/friend.go\<close>, and the batch deleter of \<^verbatim>\<open>cache/redis/batch_handler.go\<close>, which drops keys
  from the shared cache and publishes them to the local caches of the other nodes (\<^verbatim>\<open>pkg/localcache/init.go\<close>).
\<close>

section \<open>Data\<close>

text \<open>A Go time that may be zero is an option.\<close>

record Friend =
  frID :: nat
  frOwnerUserID :: string
  frFriendUserID :: string
  frRemark :: string
  frCreateTime :: "int option"
  frAddSource :: int
  frOperatorUserID :: string
  frEx :: string
  frIsPinned :: bool

record FriendRequest =
  fqFromUserID :: string
  fqToUserID :: string
  fqHandleResult :: int
  fqReqMsg :: string
  fqCreateTime :: "int option"
  fqHandlerUserID :: string
  fqHandleMsg :: string
  fqHandleTime :: "int option"
  fqEx :: string

record pagination =
  pageNumber :: int
  showNumber :: int

text \<open>
  Parameters. \<open>fIncr\<close> is \<^verbatim>\<open>mongoutil.IncrVersion\<close>, which runs its functions one after the other until one fails; \<open>fTx\<close> runs a function in a
  database transaction; \<open>fTopics\<close> is the topic of the friend cache in the configuration; \<open>fPage\<close> cuts a page out of a result; the others are JSON and helpers on slices.
\<close>

record 'w friend_tools =
  fIncr :: "('w, unit) prog \<Rightarrow> ('w, unit) prog \<Rightarrow> ('w, unit) prog"
  fTx :: "('w, unit) prog \<Rightarrow> ('w, unit) prog"
  fPage :: "nat list \<Rightarrow> pagination \<Rightarrow> nat list"
  fOidTime :: "nat \<Rightarrow> int"
  fTopics :: "string list"
  fDistinct :: "string list \<Rightarrow> string list"
  fContain :: "string \<Rightarrow> string list \<Rightarrow> bool"
  fDuplicate :: "string list \<Rightarrow> bool"
  encIDs :: "string list \<Rightarrow> cached"
  decIDs :: "cached \<Rightarrow> string list option"
  encVL :: "VersionLog \<Rightarrow> cached"
  decVL :: "cached \<Rightarrow> VersionLog option"
  encFriend :: "Friend \<Rightarrow> cached"
  decFriend :: "cached \<Rightarrow> Friend option"

definition friend_tools_ok :: "('w, 't) friend_tools_scheme \<Rightarrow> bool" where
  "friend_tools_ok T \<longleftrightarrow> (\<forall>p q. fIncr T p q = thenM p q) \<and> (\<forall>p w w'. fTx T p w = (Inr (), w') \<longrightarrow> p w = (Inr (), w')) \<and>
     (\<forall>ks. set (fDistinct T ks) = set ks \<and> distinct (fDistinct T ks)) \<and> (\<forall>x xs. fContain T x xs = (x \<in> set xs)) \<and>
     (\<forall>xs. fDuplicate T xs = (\<not> distinct xs)) \<and>
     (\<forall>v. decVL T (encVL T v) = Some v \<and> encVL T v \<noteq> CText '''') \<and> (\<forall>v. decIDs T (encIDs T v) = Some v \<and> encIDs T v \<noteq> CText '''')"

text \<open>A notification to a user, with the version it announces.\<close>

record FriendNotice =
  fnFrom :: string
  fnTo :: string
  fnType :: int
  fnIDs :: "string list"
  fnVersion :: nat
  fnVersionID :: string
  fnSortVersion :: nat

record friend_world = version_world +
  friendDocs :: "Friend list"
  requestDocs :: "FriendRequest list"
  subscribed :: "(string \<times> string list) list"
  published :: "(string \<times> string list) list"
  notices :: "FriendNotice list"

section \<open>Deleting from the caches\<close>

definition GetPublishKeysByTopic :: "(string \<times> string list) list \<Rightarrow> string list \<Rightarrow> string list \<Rightarrow> (string \<times> string list) list" where
  "GetPublishKeysByTopic subscribe topics keys =
     (let keysByTopic = foldl (\<lambda>m topic. AList.update topic [] m) [] topics in
      foldl (\<lambda>m key. foldl (\<lambda>m topic. case map_of subscribe topic of
            None \<Rightarrow> m
          | Some prefixes \<Rightarrow>
              if list_ex (\<lambda>prefix. hasPrefix key prefix) prefixes
              then AList.update topic (mapGet [] m topic @ [key]) m else m) m topics) keysByTopic keys)"

text \<open>A failed publication is logged and forgotten.\<close>

definition publishKeys :: "(string \<times> string list) list \<Rightarrow> ('e friend_world_scheme, unit) prog" where
  "publishKeys keysByTopic = forM keysByTopic (\<lambda>(topic, keys).
     if length keys > 0 then
       bindM (tryM (io (modifyM (\<lambda>w. w\<lparr>published := published w @ [(topic, keys)]\<rparr>)))) (\<lambda>_. ret ())
     else ret ())"

definition execDel :: "string list \<Rightarrow> string list \<Rightarrow> ('e friend_world_scheme, unit) prog" where
  "execDel redisPubTopics keys =
     (if length keys > 0 then
        thenM (ProcessKeysBySlot defaultBatchSize keys (\<lambda>slot keys. tagAsDeletedBatch2 keys))
          (if length redisPubTopics > 0 \<and> length keys > 0 then
             bindM (gets subscribed) (\<lambda>subscribe. publishKeys (GetPublishKeysByTopic subscribe redisPubTopics keys))
           else ret ())
      else ret ())"

definition ChainExecDel :: "(string list \<Rightarrow> string list) \<Rightarrow> string list \<Rightarrow> string list \<Rightarrow> ('e friend_world_scheme, unit) prog" where
  "ChainExecDel Distinct redisPubTopics keys = execDel redisPubTopics (Distinct keys)"

section \<open>The collection of friends\<close>

definition FriendVersionName :: string where "FriendVersionName = ''friend_version''"

definition isFriendDoc :: "string \<Rightarrow> string \<Rightarrow> Friend \<Rightarrow> bool" where
  "isFriendDoc owner friend d \<longleftrightarrow> frOwnerUserID d = owner \<and> frFriendUserID d = friend"

text \<open>Pinned friends first, then by id.\<close>

definition friendSort :: "Friend list \<Rightarrow> Friend list" where
  "friendSort fs = sort_key (\<lambda>f. (\<not> frIsPinned f, frID f)) fs"

text \<open>An ordered insertion stops at the first document that violates the unique index on owner and friend.\<close>

fun insertFriendDocs :: "Friend list \<Rightarrow> Friend list \<Rightarrow> err option \<times> Friend list" where
  "insertFriendDocs [] ds = (None, ds)"
| "insertFriendDocs (f # fs) ds =
     (if list_ex (isFriendDoc (frOwnerUserID f) (frFriendUserID f)) ds then (Some MongoDuplicateKey, ds)
      else insertFriendDocs fs (ds @ [f]))"

definition friend_InsertMany :: "Friend list \<Rightarrow> ('e friend_world_scheme, unit) prog" where
  "friend_InsertMany fs = io (\<lambda>w. case insertFriendDocs fs (friendDocs w) of (e, ds) \<Rightarrow>
     ((case e of Some e \<Rightarrow> Inl e | None \<Rightarrow> Inr ()), w\<lparr>friendDocs := ds\<rparr>))"

definition prepareFriend :: "Friend \<Rightarrow> ('e friend_world_scheme, Friend) prog" where
  "prepareFriend friend =
     bindM (if frID friend = 0 then bindM NewObjectID (\<lambda>oid. ret (friend\<lparr>frID := oid\<rparr>)) else ret friend) (\<lambda>friend.
     bindM now (\<lambda>t. ret (if frCreateTime friend = None then friend\<lparr>frCreateTime := Some t\<rparr> else friend)))"

text \<open>The new friends of every owner; Go walks over the map in any order, here in the order of first appearance.\<close>

definition ownerGroups :: "Friend list \<Rightarrow> (string \<times> string list) list" where
  "ownerGroups friends = foldl (\<lambda>mp f. AList.update (frOwnerUserID f) (mapGet [] mp (frOwnerUserID f) @ [frFriendUserID f]) mp) [] friends"

definition friend_IncrVersion :: "string \<Rightarrow> string list \<Rightarrow> int \<Rightarrow> ('e friend_world_scheme, unit) prog" where
  "friend_IncrVersion ownerUserID friendUserIDs state = IncrVersion FriendVersionName ownerUserID friendUserIDs state"

definition friend_Create :: "('e friend_world_scheme, 't) friend_tools_scheme \<Rightarrow> Friend list \<Rightarrow> ('e friend_world_scheme, unit) prog" where
  "friend_Create T friends =
     bindM (foldM (\<lambda>f acc. bindM (prepareFriend f) (\<lambda>f. ret (acc @ [f]))) friends []) (\<lambda>friends.
     fIncr T (friend_InsertMany friends)
       (forM (ownerGroups friends) (\<lambda>(ownerUserID, friendUserIDs).
          friend_IncrVersion ownerUserID friendUserIDs VersionStateInsert)))"

text \<open>\<^verbatim>\<open>DeleteOne\<close> with a filter that matches several friends deletes the first of them; the log records all.\<close>

definition friend_Delete ::
  "('e friend_world_scheme, 't) friend_tools_scheme \<Rightarrow> string \<Rightarrow> string list \<Rightarrow> ('e friend_world_scheme, unit) prog" where
  "friend_Delete T ownerUserID friendUserIDs =
     fIncr T (io (modifyM (\<lambda>w. w\<lparr>friendDocs :=
         removeFirst (\<lambda>d. frOwnerUserID d = ownerUserID \<and> frFriendUserID d \<in> set friendUserIDs) (friendDocs w)\<rparr>)))
       (friend_IncrVersion ownerUserID friendUserIDs VersionStateDelete)"

datatype friend_field = SetRemark string | SetEx string | SetPinned bool

fun setFriendField :: "friend_field \<Rightarrow> Friend \<Rightarrow> Friend" where
  "setFriendField (SetRemark s) f = f\<lparr>frRemark := s\<rparr>"
| "setFriendField (SetEx s) f = f\<lparr>frEx := s\<rparr>"
| "setFriendField (SetPinned b) f = f\<lparr>frIsPinned := b\<rparr>"

definition setFriendFields :: "friend_field list \<Rightarrow> Friend \<Rightarrow> Friend" where
  "setFriendFields args f = foldl (\<lambda>f a. setFriendField a f) f args"

definition IsUpdateIsPinned :: "friend_field list \<Rightarrow> bool" where
  "IsUpdateIsPinned args = list_ex (\<lambda>a. case a of SetPinned _ \<Rightarrow> True | _ \<Rightarrow> False) args"

definition friend_UpdateByMap ::
  "('e friend_world_scheme, 't) friend_tools_scheme \<Rightarrow> string \<Rightarrow> string \<Rightarrow> friend_field list \<Rightarrow> ('e friend_world_scheme, unit) prog" where
  "friend_UpdateByMap T ownerUserID friendUserID args =
     (if length args = 0 then ret ()
      else fIncr T (io (\<lambda>w. if list_ex (isFriendDoc ownerUserID friendUserID) (friendDocs w)
            then (Inr (), w\<lparr>friendDocs := updFirst (isFriendDoc ownerUserID friendUserID) (setFriendFields args) (friendDocs w)\<rparr>)
            else (Inl MongoNoDocuments, w)))
        (friend_IncrVersion ownerUserID
          (if IsUpdateIsPinned args then [VersionSortChangeID, friendUserID] else [friendUserID]) VersionStateUpdate))"

definition friend_UpdateRemark ::
  "('e friend_world_scheme, 't) friend_tools_scheme \<Rightarrow> string \<Rightarrow> string \<Rightarrow> string \<Rightarrow> ('e friend_world_scheme, unit) prog" where
  "friend_UpdateRemark T ownerUserID friendUserID remark = friend_UpdateByMap T ownerUserID friendUserID [SetRemark remark]"

definition friend_UpdateFriends ::
  "('e friend_world_scheme, 't) friend_tools_scheme \<Rightarrow> string \<Rightarrow> string list \<Rightarrow> friend_field list \<Rightarrow> ('e friend_world_scheme, unit) prog" where
  "friend_UpdateFriends T ownerUserID friendUserIDs val =
     (if length friendUserIDs = 0 \<or> length val = 0 then ret ()
      else fIncr T (io (modifyM (\<lambda>w. w\<lparr>friendDocs :=
            map (\<lambda>d. if frOwnerUserID d = ownerUserID \<and> frFriendUserID d \<in> set friendUserIDs then setFriendFields val d else d)
              (friendDocs w)\<rparr>)))
        (friend_IncrVersion ownerUserID
          (if IsUpdateIsPinned val then VersionSortChangeID # friendUserIDs else friendUserIDs) VersionStateUpdate))"

text \<open>Reading.\<close>

definition fillTime :: "('w, 't) friend_tools_scheme \<Rightarrow> Friend \<Rightarrow> Friend" where
  "fillTime T f = (if frCreateTime f = None then f\<lparr>frCreateTime := Some (fOidTime T (frID f))\<rparr> else f)"

definition friend_findOne :: "('w, 't) friend_tools_scheme \<Rightarrow> (Friend \<Rightarrow> bool) \<Rightarrow> ('e friend_world_scheme, Friend) prog" where
  "friend_findOne T flt = bindM (io (\<lambda>w. case List.find flt (friendDocs w) of
       None \<Rightarrow> (Inl MongoNoDocuments, w) | Some f \<Rightarrow> (Inr f, w))) (\<lambda>f. ret (fillTime T f))"

definition friend_find :: "('w, 't) friend_tools_scheme \<Rightarrow> (Friend \<Rightarrow> bool) \<Rightarrow> ('e friend_world_scheme, Friend list) prog" where
  "friend_find T flt = bindM (io (gets (\<lambda>w. filter flt (friendDocs w)))) (\<lambda>fs. ret (map (fillTime T) fs))"

definition pageOf :: "('w, 't) friend_tools_scheme \<Rightarrow> 'd list \<Rightarrow> pagination \<Rightarrow> 'd list" where
  "pageOf T ds p = map ((!) ds) (filter (\<lambda>i. i < length ds) (fPage T [0..<length ds] p))"

definition friend_findPage ::
  "('w, 't) friend_tools_scheme \<Rightarrow> (Friend \<Rightarrow> bool) \<Rightarrow> pagination \<Rightarrow> ('e friend_world_scheme, int \<times> Friend list) prog" where
  "friend_findPage T flt p = io (gets (\<lambda>w. let fs = friendSort (filter flt (friendDocs w)) in (int (length fs), pageOf T fs p)))"

definition friend_Take ::
  "('w, 't) friend_tools_scheme \<Rightarrow> string \<Rightarrow> string \<Rightarrow> ('e friend_world_scheme, Friend) prog" where
  "friend_Take T ownerUserID friendUserID = friend_findOne T (isFriendDoc ownerUserID friendUserID)"

definition friend_FindUserState ::
  "('w, 't) friend_tools_scheme \<Rightarrow> string \<Rightarrow> string \<Rightarrow> ('e friend_world_scheme, Friend list) prog" where
  "friend_FindUserState T userID1 userID2 = friend_find T (\<lambda>d. isFriendDoc userID1 userID2 d \<or> isFriendDoc userID2 userID1 d)"

definition friend_FindFriends ::
  "('w, 't) friend_tools_scheme \<Rightarrow> string \<Rightarrow> string list \<Rightarrow> ('e friend_world_scheme, Friend list) prog" where
  "friend_FindFriends T ownerUserID friendUserIDs =
     friend_find T (\<lambda>d. frOwnerUserID d = ownerUserID \<and> frFriendUserID d \<in> set friendUserIDs)"

definition friend_FindReversalFriends ::
  "('w, 't) friend_tools_scheme \<Rightarrow> string \<Rightarrow> string list \<Rightarrow> ('e friend_world_scheme, Friend list) prog" where
  "friend_FindReversalFriends T friendUserID ownerUserIDs =
     friend_find T (\<lambda>d. frOwnerUserID d \<in> set ownerUserIDs \<and> frFriendUserID d = friendUserID)"

definition friend_FindOwnerFriends ::
  "('w, 't) friend_tools_scheme \<Rightarrow> string \<Rightarrow> pagination \<Rightarrow> ('e friend_world_scheme, int \<times> Friend list) prog" where
  "friend_FindOwnerFriends T ownerUserID p = friend_findPage T (\<lambda>d. frOwnerUserID d = ownerUserID) p"

definition friend_FindInWhoseFriends ::
  "('w, 't) friend_tools_scheme \<Rightarrow> string \<Rightarrow> pagination \<Rightarrow> ('e friend_world_scheme, int \<times> Friend list) prog" where
  "friend_FindInWhoseFriends T friendUserID p = friend_findPage T (\<lambda>d. frFriendUserID d = friendUserID) p"

text \<open>A limit of zero is no limit; a negative one limits to its absolute value.\<close>

definition friend_FindOwnerFriendUserIds :: "string \<Rightarrow> int \<Rightarrow> ('e friend_world_scheme, string list) prog" where
  "friend_FindOwnerFriendUserIds ownerUserID limit = io (gets (\<lambda>w.
     let ids = map frFriendUserID (friendSort (filter (\<lambda>d. frOwnerUserID d = ownerUserID) (friendDocs w))) in
     if limit = 0 then ids else take (nat (abs limit)) ids))"

definition friend_FindFriendUserIDs :: "string \<Rightarrow> ('e friend_world_scheme, string list) prog" where
  "friend_FindFriendUserIDs ownerUserID = io (gets (\<lambda>w.
     map frFriendUserID (friendSort (filter (\<lambda>d. frOwnerUserID d = ownerUserID) (friendDocs w)))))"

definition friend_FindFriendUserID :: "string \<Rightarrow> ('e friend_world_scheme, string list) prog" where
  "friend_FindFriendUserID friendUserID = io (gets (\<lambda>w.
     map frOwnerUserID (friendSort (filter (\<lambda>d. frFriendUserID d = friendUserID) (friendDocs w)))))"

definition friend_FindIncrVersion :: "string \<Rightarrow> nat \<Rightarrow> int \<Rightarrow> ('e friend_world_scheme, VersionLog) prog" where
  "friend_FindIncrVersion ownerUserID version limit = FindChangeLog FriendVersionName ownerUserID version limit"

end
