(* ===== verification/Friends_Db.thy ===== *)
theory Friends_Db
  imports Friends_Store
begin

text \<open>
  Friend requests (\<^verbatim>\<open>database/mgo/friend_request.go\<close>), the friend cache (\<^verbatim>\<open>cache/redis/friend.go\<close>) and the friend database
  that puts them together, \<^verbatim>\<open>storage/controller/friend.go\<close>.
\<close>

section \<open>Friend requests\<close>

definition isRequest :: "string \<Rightarrow> string \<Rightarrow> FriendRequest \<Rightarrow> bool" where
  "isRequest fromUserID toUserID r \<longleftrightarrow> fqFromUserID r = fromUserID \<and> fqToUserID r = toUserID"

definition request_FindToUserID ::
  "('w, 't) friend_tools_scheme \<Rightarrow> string \<Rightarrow> pagination \<Rightarrow> ('e friend_world_scheme, int \<times> FriendRequest list) prog" where
  "request_FindToUserID T toUserID p = io (gets (\<lambda>w.
     let rs = filter (\<lambda>r. fqToUserID r = toUserID) (requestDocs w) in (int (length rs), pageOf T rs p)))"

definition request_FindFromUserID ::
  "('w, 't) friend_tools_scheme \<Rightarrow> string \<Rightarrow> pagination \<Rightarrow> ('e friend_world_scheme, int \<times> FriendRequest list) prog" where
  "request_FindFromUserID T fromUserID p = io (gets (\<lambda>w.
     let rs = filter (\<lambda>r. fqFromUserID r = fromUserID) (requestDocs w) in (int (length rs), pageOf T rs p)))"

definition request_FindBothFriendRequests :: "string \<Rightarrow> string \<Rightarrow> ('e friend_world_scheme, FriendRequest list) prog" where
  "request_FindBothFriendRequests fromUserID toUserID = io (gets (\<lambda>w.
     filter (\<lambda>r. isRequest fromUserID toUserID r \<or> isRequest toUserID fromUserID r) (requestDocs w)))"

fun insertRequests :: "FriendRequest list \<Rightarrow> FriendRequest list \<Rightarrow> err option \<times> FriendRequest list" where
  "insertRequests [] ds = (None, ds)"
| "insertRequests (r # rs) ds =
     (if list_ex (isRequest (fqFromUserID r) (fqToUserID r)) ds then (Some MongoDuplicateKey, ds)
      else insertRequests rs (ds @ [r]))"

definition request_Create :: "FriendRequest list \<Rightarrow> ('e friend_world_scheme, unit) prog" where
  "request_Create rs = io (\<lambda>w. case insertRequests rs (requestDocs w) of (e, ds) \<Rightarrow>
     ((case e of Some e \<Rightarrow> Inl e | None \<Rightarrow> Inr ()), w\<lparr>requestDocs := ds\<rparr>))"

definition request_Delete :: "string \<Rightarrow> string \<Rightarrow> ('e friend_world_scheme, unit) prog" where
  "request_Delete fromUserID toUserID =
     io (modifyM (\<lambda>w. w\<lparr>requestDocs := removeFirst (isRequest fromUserID toUserID) (requestDocs w)\<rparr>))"

text \<open>An update that matches no request is an error.\<close>

definition request_set :: "string \<Rightarrow> string \<Rightarrow> (FriendRequest \<Rightarrow> FriendRequest) \<Rightarrow> ('e friend_world_scheme, unit) prog" where
  "request_set fromUserID toUserID f = io (\<lambda>w.
     if list_ex (isRequest fromUserID toUserID) (requestDocs w)
     then (Inr (), w\<lparr>requestDocs := updFirst (isRequest fromUserID toUserID) f (requestDocs w)\<rparr>)
     else (Inl MongoNoDocuments, w))"

text \<open>The fields of \<^verbatim>\<open>Update\<close>: the ones that are not zero.\<close>

definition updateRequest :: "FriendRequest \<Rightarrow> FriendRequest \<Rightarrow> FriendRequest" where
  "updateRequest n d = d\<lparr>
     fqHandleResult := (if fqHandleResult n \<noteq> 0 then fqHandleResult n else fqHandleResult d),
     fqReqMsg := (if fqReqMsg n \<noteq> '''' then fqReqMsg n else fqReqMsg d),
     fqHandlerUserID := (if fqHandlerUserID n \<noteq> '''' then fqHandlerUserID n else fqHandlerUserID d),
     fqHandleMsg := (if fqHandleMsg n \<noteq> '''' then fqHandleMsg n else fqHandleMsg d),
     fqHandleTime := (if fqHandleTime n \<noteq> None then fqHandleTime n else fqHandleTime d),
     fqEx := (if fqEx n \<noteq> '''' then fqEx n else fqEx d)\<rparr>"

definition request_Update :: "FriendRequest \<Rightarrow> ('e friend_world_scheme, unit) prog" where
  "request_Update n =
     (if fqHandleResult n = 0 \<and> fqReqMsg n = '''' \<and> fqHandlerUserID n = '''' \<and> fqHandleMsg n = '''' \<and> fqHandleTime n = None \<and> fqEx n = ''''
      then ret () else request_set (fqFromUserID n) (fqToUserID n) (updateRequest n))"

definition request_Take :: "string \<Rightarrow> string \<Rightarrow> ('e friend_world_scheme, FriendRequest) prog" where
  "request_Take fromUserID toUserID = io (\<lambda>w. case List.find (isRequest fromUserID toUserID) (requestDocs w) of
       None \<Rightarrow> (Inl MongoNoDocuments, w) | Some r \<Rightarrow> (Inr r, w))"

section \<open>The cache\<close>

definition GetFriendIDsKey :: "string \<Rightarrow> string" where "GetFriendIDsKey ownerUserID = ''FRIEND_IDS:'' @ ownerUserID"
definition GetTwoWayFriendsIDsKey :: "string \<Rightarrow> string" where
  "GetTwoWayFriendsIDsKey ownerUserID = ''COMMON_FRIENDS_IDS:'' @ ownerUserID"
definition GetFriendKey :: "string \<Rightarrow> string \<Rightarrow> string" where
  "GetFriendKey ownerUserID friendUserID = ''FRIEND_INFO:'' @ ownerUserID @ ''-'' @ friendUserID"
definition GetFriendMaxVersionKey :: "string \<Rightarrow> string" where
  "GetFriendMaxVersionKey ownerUserID = ''FRIEND_MAX_VERSION:'' @ ownerUserID"

definition GetFriendIDs ::
  "('w, 't) friend_tools_scheme \<Rightarrow> string \<Rightarrow> ('e friend_world_scheme, string list) prog" where
  "GetFriendIDs T ownerUserID = getCache (encIDs T) (decIDs T) (GetFriendIDsKey ownerUserID) (friend_FindFriendUserIDs ownerUserID)"

text \<open>\<^verbatim>\<open>GetTwoWayFriendIDs\<close> collects the owner once for every friend who has the owner as a friend, not the friend.\<close>

definition GetTwoWayFriendIDs ::
  "('w, 't) friend_tools_scheme \<Rightarrow> string \<Rightarrow> ('e friend_world_scheme, string list) prog" where
  "GetTwoWayFriendIDs T ownerUserID =
     bindM (GetFriendIDs T ownerUserID) (\<lambda>friendIDs.
     foldM (\<lambda>friendID twoWay. bindM (GetFriendIDs T friendID) (\<lambda>friendFriendID.
       ret (if fContain T ownerUserID friendFriendID then twoWay @ [ownerUserID] else twoWay))) friendIDs [])"

definition GetFriend ::
  "('w, 't) friend_tools_scheme \<Rightarrow> string \<Rightarrow> string \<Rightarrow> ('e friend_world_scheme, Friend) prog" where
  "GetFriend T ownerUserID friendUserID =
     getCache (encFriend T) (decFriend T) (GetFriendKey ownerUserID friendUserID) (friend_Take T ownerUserID friendUserID)"

definition FindMaxFriendVersion ::
  "('w, 't) friend_tools_scheme \<Rightarrow> string \<Rightarrow> ('e friend_world_scheme, VersionLog) prog" where
  "FindMaxFriendVersion T ownerUserID =
     getCache (encVL T) (decVL T) (GetFriendMaxVersionKey ownerUserID) (friend_FindIncrVersion ownerUserID 0 0)"

text \<open>A chain of deletions collects keys; \<^verbatim>\<open>CloneFriendCache\<close> starts from the keys collected so far.\<close>

definition DelFriendIDs :: "string list \<Rightarrow> string list \<Rightarrow> string list" where
  "DelFriendIDs ownerUserIDs keys = keys @ map GetFriendIDsKey ownerUserIDs"
definition DelFriend :: "string \<Rightarrow> string \<Rightarrow> string list \<Rightarrow> string list" where
  "DelFriend ownerUserID friendUserID keys = keys @ [GetFriendKey ownerUserID friendUserID]"
definition DelFriends :: "string \<Rightarrow> string list \<Rightarrow> string list \<Rightarrow> string list" where
  "DelFriends ownerUserID friendUserIDs keys = keys @ map (GetFriendKey ownerUserID) friendUserIDs"
definition DelOwner :: "string \<Rightarrow> string list \<Rightarrow> string list \<Rightarrow> string list" where
  "DelOwner friendUserID ownerUserIDs keys = keys @ map (\<lambda>ownerUserID. GetFriendKey ownerUserID friendUserID) ownerUserIDs"
definition DelMaxFriendVersion :: "string list \<Rightarrow> string list \<Rightarrow> string list" where
  "DelMaxFriendVersion ownerUserIDs keys = keys @ map GetFriendMaxVersionKey ownerUserIDs"
definition DelTwoWayFriendIDs :: "string \<Rightarrow> string list \<Rightarrow> string list" where
  "DelTwoWayFriendIDs ownerUserID keys = keys @ [GetTwoWayFriendsIDsKey ownerUserID]"

definition chainDel ::
  "('w, 't) friend_tools_scheme \<Rightarrow> string list \<Rightarrow> ('e friend_world_scheme, unit) prog" where
  "chainDel T keys = ChainExecDel (fDistinct T) (fTopics T) keys"

section \<open>The friend database\<close>

definition CheckIn ::
  "('w, 't) friend_tools_scheme \<Rightarrow> string \<Rightarrow> string \<Rightarrow> ('e friend_world_scheme, bool \<times> bool) prog" where
  "CheckIn T userID1 userID2 =
     bindM (GetFriendIDs T userID1) (\<lambda>ids1. bindM (GetFriendIDs T userID2) (\<lambda>ids2.
       ret (fContain T userID2 ids1, fContain T userID1 ids2)))"

definition AddFriendRequest ::
  "('e friend_world_scheme, 't) friend_tools_scheme \<Rightarrow> string \<Rightarrow> string \<Rightarrow> string \<Rightarrow> string \<Rightarrow> ('e friend_world_scheme, unit) prog" where
  "AddFriendRequest T fromUserID toUserID reqMsg ext = fTx T (
     bindM (tryM (request_Take fromUserID toUserID)) (\<lambda>r. case r of
       Inr _ \<Rightarrow> bindM now (\<lambda>t. request_set fromUserID toUserID (\<lambda>d. d\<lparr>fqHandleResult := 0, fqHandleMsg := '''',
           fqReqMsg := reqMsg, fqEx := ext, fqCreateTime := Some t\<rparr>))
     | Inl e \<Rightarrow> if e = MongoNoDocuments
         then bindM now (\<lambda>t. request_Create [\<lparr>fqFromUserID = fromUserID, fqToUserID = toUserID, fqHandleResult = 0, fqReqMsg = reqMsg,
           fqCreateTime = Some t, fqHandlerUserID = '''', fqHandleMsg = '''', fqHandleTime = Some 0, fqEx = ext\<rparr>])
         else throw e))"

definition newFriend :: "string \<Rightarrow> string \<Rightarrow> int \<Rightarrow> string \<Rightarrow> Friend" where
  "newFriend ownerUserID friendUserID addSource operator = \<lparr>frID = 0, frOwnerUserID = ownerUserID, frFriendUserID = friendUserID,
     frRemark = '''', frCreateTime = None, frAddSource = addSource, frOperatorUserID = operator, frEx = '''', frIsPinned = False\<rparr>"

record new_friends =
  nfMySet :: "string list"
  nfOwnerSet :: "string list"
  nfMyIDs :: "string list"
  nfOwnerIDs :: "string list"
  nfFriends :: "Friend list"

definition becomeStep :: "string \<Rightarrow> int \<Rightarrow> string \<Rightarrow> string \<Rightarrow> new_friends \<Rightarrow> new_friends" where
  "becomeStep ownerUserID addSource opUserID userID s =
     (if ownerUserID = userID then s
      else
        let s = (if userID \<notin> set (nfMySet s) then s\<lparr>nfMySet := nfMySet s @ [userID], nfMyIDs := nfMyIDs s @ [userID],
                   nfFriends := nfFriends s @ [newFriend ownerUserID userID addSource opUserID]\<rparr> else s) in
        if userID \<notin> set (nfOwnerSet s) then s\<lparr>nfOwnerSet := nfOwnerSet s @ [userID], nfOwnerIDs := nfOwnerIDs s @ [userID],
          nfFriends := nfFriends s @ [newFriend userID ownerUserID addSource opUserID]\<rparr> else s)"

definition BecomeFriends ::
  "('e friend_world_scheme, 't) friend_tools_scheme \<Rightarrow> string \<Rightarrow> string \<Rightarrow> string list \<Rightarrow> int \<Rightarrow> ('e friend_world_scheme, unit) prog" where
  "BecomeFriends T opUserID ownerUserID friendUserIDs addSource = fTx T (
     bindM (friend_FindFriends T ownerUserID friendUserIDs) (\<lambda>myFriends.
     bindM (friend_FindReversalFriends T ownerUserID friendUserIDs) (\<lambda>addOwners.
     let s = foldl (\<lambda>s userID. becomeStep ownerUserID addSource opUserID userID s)
           \<lparr>nfMySet = map frFriendUserID myFriends, nfOwnerSet = map frOwnerUserID addOwners, nfMyIDs = [], nfOwnerIDs = [], nfFriends = []\<rparr>
           friendUserIDs in
     if length (nfFriends s) = 0 then ret ()
     else thenM (friend_Create T (nfFriends s))
       (let keys = DelMaxFriendVersion [ownerUserID] (DelFriendIDs [ownerUserID] []);
            keys = (if length (nfMyIDs s) > 0
              then DelMaxFriendVersion (nfMyIDs s) (DelFriends ownerUserID (nfMyIDs s) (DelFriendIDs (nfMyIDs s) keys)) else keys);
            keys = (if length (nfOwnerIDs s) > 0
              then DelMaxFriendVersion (nfOwnerIDs s) (DelOwner ownerUserID (nfOwnerIDs s) (DelFriendIDs (nfOwnerIDs s) keys)) else keys) in
        chainDel T keys))))"

definition RefuseFriendRequest :: "FriendRequest \<Rightarrow> ('e friend_world_scheme, unit) prog" where
  "RefuseFriendRequest req =
     bindM (request_Take (fqFromUserID req) (fqToUserID req)) (\<lambda>fr.
     if fqHandleResult fr \<noteq> 0 then throw (ErrNew ''friend request has already been processed'')
     else bindM now (\<lambda>t. request_Update (req\<lparr>fqHandleResult := -1, fqHandleTime := Some t\<rparr>)))"

definition AgreeFriendRequest ::
  "('e friend_world_scheme, 't) friend_tools_scheme \<Rightarrow> string \<Rightarrow> FriendRequest \<Rightarrow> ('e friend_world_scheme, unit) prog" where
  "AgreeFriendRequest T opUserID req = fTx T (
     bindM now (\<lambda>t.
     bindM (request_Take (fqFromUserID req) (fqToUserID req)) (\<lambda>fr.
     if fqHandleResult fr \<noteq> 0 then throw (ErrArgs ''the friend request has been processed'')
     else thenM (request_Update (req\<lparr>fqHandlerUserID := opUserID, fqHandleResult := 1, fqHandleTime := Some t\<rparr>))
     (thenM (bindM (tryM (request_Take (fqToUserID req) (fqFromUserID req))) (\<lambda>r. case r of
          Inr fr2 \<Rightarrow> if fqHandleResult fr2 = 0
            then request_Update (fr2\<lparr>fqHandlerUserID := opUserID, fqHandleResult := 1, fqHandleTime := Some t\<rparr>) else ret ()
        | Inl e \<Rightarrow> if e \<noteq> MongoNoDocuments then throw e else ret ()))
     (bindM (friend_FindUserState T (fqFromUserID req) (fqToUserID req)) (\<lambda>exists'.
      let existing = map (\<lambda>f. (frOwnerUserID f, frFriendUserID f)) exists';
          adds = (if (fqToUserID req, fqFromUserID req) \<notin> set existing
              then [newFriend (fqToUserID req) (fqFromUserID req) 2 (fqFromUserID req)] else []) @
            (if (fqFromUserID req, fqToUserID req) \<notin> set existing
              then [newFriend (fqFromUserID req) (fqToUserID req) 2 (fqFromUserID req)] else []) in
      thenM (if length adds > 0 then friend_Create T adds else ret ())
        (chainDel T (DelMaxFriendVersion [fqToUserID req, fqFromUserID req]
          (DelFriendIDs [fqToUserID req, fqFromUserID req] [])))))))))"

definition db_Delete ::
  "('e friend_world_scheme, 't) friend_tools_scheme \<Rightarrow> string \<Rightarrow> string list \<Rightarrow> ('e friend_world_scheme, unit) prog" where
  "db_Delete T ownerUserID friendUserIDs =
     thenM (friend_Delete T ownerUserID friendUserIDs)
       (let userIds = friendUserIDs @ [ownerUserID] in chainDel T (DelMaxFriendVersion userIds (DelFriendIDs userIds [])))"

definition db_UpdateRemark ::
  "('e friend_world_scheme, 't) friend_tools_scheme \<Rightarrow> string \<Rightarrow> string \<Rightarrow> string \<Rightarrow> ('e friend_world_scheme, unit) prog" where
  "db_UpdateRemark T ownerUserID friendUserID remark =
     thenM (friend_UpdateRemark T ownerUserID friendUserID remark)
       (chainDel T (DelMaxFriendVersion [ownerUserID] (DelFriend ownerUserID friendUserID [])))"

definition FindFriendsWithError ::
  "('w, 't) friend_tools_scheme \<Rightarrow> string \<Rightarrow> string list \<Rightarrow> ('e friend_world_scheme, Friend list) prog" where
  "FindFriendsWithError T ownerUserID friendUserIDs = friend_FindFriends T ownerUserID friendUserIDs"

definition db_UpdateFriends ::
  "('e friend_world_scheme, 't) friend_tools_scheme \<Rightarrow> string \<Rightarrow> string list \<Rightarrow> friend_field list \<Rightarrow> ('e friend_world_scheme, unit) prog" where
  "db_UpdateFriends T ownerUserID friendUserIDs val =
     (if length val = 0 then ret ()
      else fTx T (thenM (friend_UpdateFriends T ownerUserID friendUserIDs val)
        (chainDel T (DelMaxFriendVersion [ownerUserID] (DelFriends ownerUserID friendUserIDs [])))))"

definition OwnerIncrVersion ::
  "('e friend_world_scheme, 't) friend_tools_scheme \<Rightarrow> string \<Rightarrow> string list \<Rightarrow> int \<Rightarrow> ('e friend_world_scheme, unit) prog" where
  "OwnerIncrVersion T ownerUserID friendUserIDs state =
     thenM (friend_IncrVersion ownerUserID friendUserIDs state) (chainDel T (DelMaxFriendVersion [ownerUserID] []))"

text \<open>The methods that only pass a call on.\<close>

definition PageOwnerFriends ::
  "('w, 't) friend_tools_scheme \<Rightarrow> string \<Rightarrow> pagination \<Rightarrow> ('e friend_world_scheme, int \<times> Friend list) prog" where
  "PageOwnerFriends T ownerUserID p = friend_FindOwnerFriends T ownerUserID p"

definition PageInWhoseFriends ::
  "('w, 't) friend_tools_scheme \<Rightarrow> string \<Rightarrow> pagination \<Rightarrow> ('e friend_world_scheme, int \<times> Friend list) prog" where
  "PageInWhoseFriends T friendUserID p = friend_FindInWhoseFriends T friendUserID p"

definition PageFriendRequestFromMe ::
  "('w, 't) friend_tools_scheme \<Rightarrow> string \<Rightarrow> pagination \<Rightarrow> ('e friend_world_scheme, int \<times> FriendRequest list) prog" where
  "PageFriendRequestFromMe T userID p = request_FindFromUserID T userID p"

definition PageFriendRequestToMe ::
  "('w, 't) friend_tools_scheme \<Rightarrow> string \<Rightarrow> pagination \<Rightarrow> ('e friend_world_scheme, int \<times> FriendRequest list) prog" where
  "PageFriendRequestToMe T userID p = request_FindToUserID T userID p"

definition FindFriendUserIDs ::
  "('w, 't) friend_tools_scheme \<Rightarrow> string \<Rightarrow> ('e friend_world_scheme, string list) prog" where
  "FindFriendUserIDs T ownerUserID = GetFriendIDs T ownerUserID"

definition FindBothFriendRequests :: "string \<Rightarrow> string \<Rightarrow> ('e friend_world_scheme, FriendRequest list) prog" where
  "FindBothFriendRequests fromUserID toUserID = request_FindBothFriendRequests fromUserID toUserID"

definition FindFriendIncrVersion :: "string \<Rightarrow> nat \<Rightarrow> int \<Rightarrow> ('e friend_world_scheme, VersionLog) prog" where
  "FindFriendIncrVersion ownerUserID version limit = friend_FindIncrVersion ownerUserID version limit"

definition FindMaxFriendVersionCache ::
  "('w, 't) friend_tools_scheme \<Rightarrow> string \<Rightarrow> ('e friend_world_scheme, VersionLog) prog" where
  "FindMaxFriendVersionCache T ownerUserID = FindMaxFriendVersion T ownerUserID"

definition db_FindFriendUserID :: "string \<Rightarrow> ('e friend_world_scheme, string list) prog" where
  "db_FindFriendUserID friendUserID = friend_FindFriendUserID friendUserID"

end
