(* ===== verification/Incr_Option.thy ===== *)
theory Incr_Option
  imports Version_Log
begin

text \<open>
  The builders of a synchronisation reply, \<^verbatim>\<open>internal/rpc/incrversion/option.go\<close> and \<^verbatim>\<open>batch_option.go\<close>: from the version a client has,
  they decide between no change, the changes since, and a full synchronisation. The functions a service plugs in are fields of the
  option record; a field that is \<open>None\<close> is a nil function.
\<close>

section \<open>Object ids\<close>

record oid_tools =
  Hex :: "nat \<Rightarrow> string"
  ObjectIDFromHex :: "string \<Rightarrow> nat option"

definition oid_ok :: "oid_tools \<Rightarrow> bool" where
  "oid_ok ot \<longleftrightarrow> (\<forall>n. ObjectIDFromHex ot (Hex ot n) = Some n)"

section \<open>One owner\<close>

definition syncLimit :: int where "syncLimit = 200"

datatype tag = tagQuery | tagFull | tagEqual

record ('w, 'a, 'b) sync_option =
  hasCtx :: bool
  VersionKey :: string
  VersionID :: string
  VersionNumber :: nat
  CacheMaxVersion :: "(string \<Rightarrow> ('w, VersionLog) prog) option"
  VersionFn :: "(string \<Rightarrow> nat \<Rightarrow> int \<Rightarrow> ('w, VersionLog) prog) option"
  Find :: "(string list \<Rightarrow> ('w, 'a list) prog) option"
  Resp :: "(VersionLog \<Rightarrow> string list \<Rightarrow> 'a list \<Rightarrow> 'a list \<Rightarrow> bool \<Rightarrow> ('w, 'b) prog) option"

definition newError :: "string \<Rightarrow> err" where
  "newError msg = ErrInternalServer msg"

definition check :: "('w, 'a, 'b) sync_option \<Rightarrow> err option" where
  "check o' =
     (if \<not> hasCtx o' then Some (newError ''opt ctx is nil'')
      else if VersionKey o' = '''' then Some (newError ''versionKey is empty'')
      else if VersionFn o' = None then Some (newError ''func version is nil'')
      else if Find o' = None then Some (newError ''func find is nil'')
      else if Resp o' = None then Some (newError ''func resp is nil'')
      else None)"

definition validVersion :: "oid_tools \<Rightarrow> ('w, 'a, 'b) sync_option \<Rightarrow> bool" where
  "validVersion ot o' = (case ObjectIDFromHex ot (VersionID o') of
     None \<Rightarrow> False
   | Some objID \<Rightarrow> objID \<noteq> 0 \<and> VersionNumber o' > 0)"

definition equalID :: "oid_tools \<Rightarrow> ('w, 'a, 'b) sync_option \<Rightarrow> nat \<Rightarrow> bool" where
  "equalID ot o' objID = (VersionID o' = Hex ot objID)"

text \<open>A local variable that the callbacks of a service capture: it is part of the state they run in.\<close>

definition withVar :: "('w, 'a) prog \<Rightarrow> ('v \<times> 'w, 'a) prog" where
  "withVar m = (\<lambda>(v, w). case m w of (r, w') \<Rightarrow> (r, (v, w')))"

definition setVar :: "'v \<Rightarrow> ('v \<times> 'w, unit) prog" where
  "setVar v = modifyM (\<lambda>(_, w). (v, w))"

definition runVar :: "'v \<Rightarrow> ('v \<times> 'w, 'a) prog \<Rightarrow> ('w, 'v \<times> 'a) prog" where
  "runVar v m = (\<lambda>w. case m (v, w) of (r, (v', w')) \<Rightarrow> ((case r of Inl e \<Rightarrow> Inl e | Inr a \<Rightarrow> Inr (v', a)), w'))"

text \<open>A call of a function field: calling nil panics.\<close>

definition call :: "'f option \<Rightarrow> ('f \<Rightarrow> ('w, 'a) prog) \<Rightarrow> ('w, 'a) prog" where
  "call f k = (case f of None \<Rightarrow> throw (Panic ''nil func'') | Some f \<Rightarrow> k f)"

definition getVersion :: "oid_tools \<Rightarrow> ('w, 'a, 'b) sync_option \<Rightarrow> ('w, tag \<times> VersionLog) prog" where
  "getVersion ot o' =
     (let query = bindM (call (VersionFn o') (\<lambda>f. f (VersionKey o') (VersionNumber o') syncLimit)) (\<lambda>v. ret (tagQuery, v)) in
      case CacheMaxVersion o' of
        None \<Rightarrow>
          if validVersion ot o' then query
          else bindM (call (VersionFn o') (\<lambda>f. f (VersionKey o') 0 0)) (\<lambda>v. ret (tagFull, v))
      | Some cacheFn \<Rightarrow>
          bindM (cacheFn (VersionKey o')) (\<lambda>cache.
            if \<not> validVersion ot o' then ret (tagFull, cache)
            else if \<not> equalID ot o' (vtID cache) then ret (tagFull, cache)
            else if VersionNumber o' = vtVersion cache then ret (tagEqual, cache)
            else query))"

definition Build :: "oid_tools \<Rightarrow> ('w, 'a, 'b) sync_option \<Rightarrow> ('w, 'b) prog" where
  "Build ot o' = (case check o' of Some e \<Rightarrow> throw e | None \<Rightarrow>
     bindM (getVersion ot o') (\<lambda>(tag, version).
     let full = (case tag of
           tagQuery \<Rightarrow> Hex ot (vtID version) \<noteq> VersionID o' \<or> vtVersion version < VersionNumber o' \<or>
             int (length (vtLogs version)) \<noteq> vLogLen version
         | tagFull \<Rightarrow> True
         | tagEqual \<Rightarrow> False);
         (insertIds, deleteIds, updateIds) = (if \<not> full then DeleteAndChangeIDs version else ([], [], [])) in
     bindM (if length insertIds > 0 then call (Find o') (\<lambda>f. f insertIds) else ret []) (\<lambda>insertList.
     bindM (if length updateIds > 0 then call (Find o') (\<lambda>f. f updateIds) else ret []) (\<lambda>updateList.
       call (Resp o') (\<lambda>f. f version deleteIds insertList updateList full)))))"

section \<open>Several owners\<close>

record ('w, 'a, 'b) batch_option =
  bHasCtx :: bool
  TargetKeys :: "string list"
  VersionIDs :: "string list"
  VersionNumbers :: "nat list"
  Versions :: "(string list \<Rightarrow> nat list \<Rightarrow> int list \<Rightarrow> ('w, (string \<times> VersionLog) list) prog) option"
  CacheMaxVersions :: "(string list \<Rightarrow> ('w, (string \<times> VersionLog) list) prog) option"
  BatchFind :: "(string \<Rightarrow> string list \<Rightarrow> ('w, 'a) prog) option"
  BatchResp :: "((string \<times> VersionLog) list \<Rightarrow> (string \<times> string list) list \<Rightarrow> (string \<times> 'a) list \<Rightarrow> (string \<times> 'a) list \<Rightarrow>
    (string \<times> bool) list \<Rightarrow> ('w, 'b) prog) option"

definition batch_check :: "('w, 'a, 'b) batch_option \<Rightarrow> err option" where
  "batch_check o' =
     (if \<not> bHasCtx o' then Some (newError ''opt ctx is nil'')
      else if length (TargetKeys o') = 0 then Some (newError ''targetKeys is empty'')
      else if Versions o' = None then Some (newError ''func versions is nil'')
      else if BatchFind o' = None then Some (newError ''func find is nil'')
      else if BatchResp o' = None then Some (newError ''func resp is nil'')
      else None)"

definition validVersions :: "oid_tools \<Rightarrow> ('w, 'a, 'b) batch_option \<Rightarrow> ('w, bool list) prog" where
  "validVersions ot o' = foldM (\<lambda>i valids.
     case ObjectIDFromHex ot (VersionIDs o' ! i) of
       None \<Rightarrow> ret (valids @ [False])
     | Some objID \<Rightarrow>
         if objID = 0 then ret (valids @ [False])
         else bindM (idx (VersionNumbers o') i) (\<lambda>n. ret (valids @ [n > 0])))
     [0..<length (VersionIDs o')] []"

text \<open>The ids are compared with the texts they were read from, not with the ids of the logs.\<close>

definition equalIDs :: "oid_tools \<Rightarrow> ('w, 'a, 'b) batch_option \<Rightarrow> nat list \<Rightarrow> bool list" where
  "equalIDs ot o' objIDs = map (\<lambda>i. VersionIDs o' ! i = Hex ot (objIDs ! i)) [0..<length (VersionIDs o')]"

text \<open>\<^verbatim>\<open>ObjectIDFromHex\<close> returns the zero id with its error, which the batch ignores.\<close>

definition parsedIDs :: "oid_tools \<Rightarrow> ('w, 'a, 'b) batch_option \<Rightarrow> nat list" where
  "parsedIDs ot o' = map (\<lambda>versionID. case ObjectIDFromHex ot versionID of None \<Rightarrow> 0 | Some objID \<Rightarrow> objID) (VersionIDs o')"

text \<open>The three slices of a query, and the tags, which start as zero (\<open>None\<close>) for every target.\<close>

type_synonym queries = "string list \<times> nat list \<times> int list"

definition addQuery :: "string \<Rightarrow> nat \<Rightarrow> int \<Rightarrow> queries \<Rightarrow> queries" where
  "addQuery dId n limit q = (case q of (dIDs, nums, limits) \<Rightarrow> (dIDs @ [dId], nums @ [n], limits @ [limit]))"

definition setTag :: "tag option list \<Rightarrow> nat \<Rightarrow> tag \<Rightarrow> ('w, tag option list) prog" where
  "setTag tags i t = (if i < length tags then ret (tags[i := Some t]) else throw (Panic ''index out of range''))"

definition uncached_step ::
  "('w, 'a, 'b) batch_option \<Rightarrow> nat \<times> bool \<Rightarrow> tag option list \<times> queries \<Rightarrow> ('w, tag option list \<times> queries) prog" where
  "uncached_step o' iv st = (case (iv, st) of ((i, valid), (tags, q)) \<Rightarrow>
     bindM (setTag tags i (if valid then tagQuery else tagFull)) (\<lambda>tags.
     bindM (idx (TargetKeys o') i) (\<lambda>key.
       if valid then bindM (idx (VersionNumbers o') i) (\<lambda>n. ret (tags, addQuery key n syncLimit q))
       else ret (tags, addQuery key 0 0 q))))"

definition cached_step ::
  "('w, 'a, 'b) batch_option \<Rightarrow> bool list \<Rightarrow> nat \<times> bool \<Rightarrow> tag option list \<times> queries \<times> (string \<times> VersionLog) list \<Rightarrow>
   ('w, tag option list \<times> queries \<times> (string \<times> VersionLog) list) prog" where
  "cached_step o' equals iv st = (case (iv, st) of ((i, valid), (tags, q, caches)) \<Rightarrow>
     if \<not> valid \<or> \<not> equals ! i then bindM (setTag tags i tagFull) (\<lambda>tags. ret (tags, q, caches))
     else bindM (idx (TargetKeys o') i) (\<lambda>key. bindM (idx (VersionNumbers o') i) (\<lambda>n.
       case map_of caches key of
         None \<Rightarrow> throw (Panic ''nil pointer dereference'')
       | Some cache \<Rightarrow>
           if n = vtVersion cache then bindM (setTag tags i tagEqual) (\<lambda>tags. ret (tags, q, caches))
           else bindM (setTag tags i tagQuery) (\<lambda>tags.
             ret (tags, addQuery key n syncLimit q, filter (\<lambda>kv. fst kv \<noteq> key) caches)))))"

definition getVersions ::
  "oid_tools \<Rightarrow> ('w, 'a, 'b) batch_option \<Rightarrow> ('w, tag option list \<times> (string \<times> VersionLog) list) prog" where
  "getVersions ot o' =
     (let tags0 = replicate (length (TargetKeys o')) None in
      bindM (validVersions ot o') (\<lambda>valids.
      let ivs = zip [0..<length valids] valids in
      case CacheMaxVersions o' of
        None \<Rightarrow>
          bindM (foldM (uncached_step o') ivs (tags0, [], [], [])) (\<lambda>(tags, dIDs, nums, limits).
          bindM (call (Versions o') (\<lambda>f. f dIDs nums limits)) (\<lambda>versions. ret (tags, versions)))
      | Some cacheFn \<Rightarrow>
          bindM (cacheFn (TargetKeys o')) (\<lambda>caches.
          bindM (foldM (cached_step o' (equalIDs ot o' (parsedIDs ot o'))) ivs (tags0, ([], [], []), caches))
            (\<lambda>(tags, (dIDs, nums, limits), caches).
          if dIDs \<noteq> [] then
            bindM (call (Versions o') (\<lambda>f. f dIDs nums limits)) (\<lambda>versionMap.
              ret (tags, foldl (\<lambda>m (k, v). AList.update k v m) caches versionMap))
          else ret (tags, caches)))))"

definition logOf :: "(string \<times> VersionLog) list \<Rightarrow> string \<Rightarrow> ('w, VersionLog) prog" where
  "logOf versions key = (case map_of versions key of None \<Rightarrow> throw (Panic ''nil pointer dereference'') | Some v \<Rightarrow> ret v)"

definition fullOf ::
  "oid_tools \<Rightarrow> ('w, 'a, 'b) batch_option \<Rightarrow> (string \<times> VersionLog) list \<Rightarrow> nat \<times> tag option \<Rightarrow> (string \<times> bool) list \<Rightarrow>
   ('w, (string \<times> bool) list) prog" where
  "fullOf ot o' versions it fullMap = (case it of (i, t) \<Rightarrow>
     let key = TargetKeys o' ! i in
     case t of
       None \<Rightarrow> throw (Panic ''undefined tag 0'')
     | Some tagQuery \<Rightarrow> bindM (logOf versions key) (\<lambda>vLog.
         bindM (idx (VersionIDs o') i) (\<lambda>versionID. bindM (idx (VersionNumbers o') i) (\<lambda>n.
         ret (AList.update key (Hex ot (vtID vLog) \<noteq> versionID \<or> vtVersion vLog < n \<or>
           int (length (vtLogs vLog)) \<noteq> vLogLen vLog) fullMap))))
     | Some tagFull \<Rightarrow> ret (AList.update key True fullMap)
     | Some tagEqual \<Rightarrow> ret (AList.update key False fullMap))"

text \<open>The elements found for each owner; Go iterates the maps of ids, here in the order of their keys.\<close>

definition findAll ::
  "('w, 'a, 'b) batch_option \<Rightarrow> (string \<times> string list) list \<Rightarrow> ('w, (string \<times> 'a) list) prog" where
  "findAll o' idsMap = foldM (\<lambda>(key, ids) lists.
     if length ids > 0 then bindM (call (BatchFind o') (\<lambda>f. f key ids)) (\<lambda>l. ret (AList.update key l lists))
     else ret lists) idsMap []"

definition batch_Build :: "oid_tools \<Rightarrow> ('w, 'a, 'b) batch_option \<Rightarrow> ('w, 'b) prog" where
  "batch_Build ot o' = (case batch_check o' of Some e \<Rightarrow> throw e | None \<Rightarrow>
     bindM (getVersions ot o') (\<lambda>(tags, versions).
     bindM (foldM (fullOf ot o' versions) (zip [0..<length tags] tags) []) (\<lambda>fullMap.
     bindM (foldM (\<lambda>key (ins, del, upd).
         if mapGet False fullMap key then ret (ins, del, upd)
         else bindM (logOf versions key) (\<lambda>version.
           let (insertIds, deleteIds, updateIds) = DeleteAndChangeIDs version in
           ret (AList.update key insertIds ins, AList.update key deleteIds del, AList.update key updateIds upd)))
       (TargetKeys o') ([], [], [])) (\<lambda>(insertIdsMap, deleteIdsMap, updateIdsMap).
     bindM (findAll o' insertIdsMap) (\<lambda>insertListMap.
     bindM (findAll o' updateIdsMap) (\<lambda>updateListMap.
       call (BatchResp o') (\<lambda>f. f versions deleteIdsMap insertListMap updateListMap fullMap)))))))"

end
