(* ===== verification/Token_Auth.thy ===== *)
theory Token_Auth
  imports Stores Constants
begin

text \<open>
  Login tokens: the token cache \<^verbatim>\<open>cache/redis/token.go\<close>, \<^verbatim>\<open>controller/auth.go\<close> with the login policies, and the
  auth service \<^verbatim>\<open>internal/rpc/auth/auth.go\<close>. Redis holds one hash for each user and platform, from token to flag, with
  a time to live. The JWT library, the remote user service and the order in which Go walks
  over a map are parameters (\<open>auth_tools\<close>); the requests to the gateways are a list in the state. A pipeline
  of commands is one call to the store.
\<close>

section \<open>State and parameters\<close>

record token_world = store_world +
  tokenHash :: "string \<rightharpoonup> (string \<times> string) list \<times> int option"
  kickReqs :: "(string \<times> int) list"

record Claims =
  cUserID :: string
  cPlatformID :: int
  cExpiresAt :: int

record auth_tools =
  jSign :: "string \<Rightarrow> int \<Rightarrow> int \<Rightarrow> int \<Rightarrow> err + string"
  jParse :: "string \<Rightarrow> int \<Rightarrow> err + Claims"
  orderPlatforms :: "(int \<times> (string \<times> int) list) list \<Rightarrow> (int \<times> (string \<times> int) list) list"
  orderTokens :: "(string \<times> int) list \<Rightarrow> (string \<times> int) list"
  orderLogins :: "(int \<times> string list) list \<Rightarrow> (int \<times> string list) list"
  uCheckUser :: "string list \<Rightarrow> err + unit"
  uAppMangerLevel :: "string \<Rightarrow> err + int"
  gateways :: nat

record auth_config =
  Policy :: int
  MaxNumOneEnd :: int
  accessExpire :: int
  adminUserIDs :: "string list"
  secretShare :: string

text \<open>
  What the code relies on. The library signs a token for a user and a platform that parses to them until its
  expiry, \<open>days\<close> days later; a walk over a map meets each of its entries once.
\<close>

definition dayMillis :: int where
  "dayMillis = 24 * 60 * 60 * 1000"

definition jwt_ok :: "'t auth_tools_scheme \<Rightarrow> bool" where
  "jwt_ok T \<longleftrightarrow> (\<forall>u p days now t now'. jSign T u p days now = Inr t \<longrightarrow> now \<le> now' \<longrightarrow> now' < now + days * dayMillis \<longrightarrow>
     (\<exists>c. jParse T t now' = Inr c \<and> cUserID c = u \<and> cPlatformID c = p))"

definition orders_ok :: "'t auth_tools_scheme \<Rightarrow> bool" where
  "orders_ok T \<longleftrightarrow> (\<forall>m. mset (orderPlatforms T m) = mset m) \<and> (\<forall>m. mset (orderTokens T m) = mset m) \<and>
     (\<forall>m. mset (orderLogins T m) = mset m)"

section \<open>The token cache\<close>

definition GetTokenKey :: "string \<Rightarrow> int \<Rightarrow> string" where
  "GetTokenKey userID platformID = ''UID_PID_TOKEN_STATUS:'' @ userID @ '':'' @ PlatformIDToName platformID"

definition GetAllPlatformTokenKey :: "string \<Rightarrow> string list" where
  "GetAllPlatformTokenKey userID = foldl (\<lambda>res k. res[nat (k - 1) := GetTokenKey userID k])
     (replicate (length PlatformID2Name) '''') (map fst PlatformID2Name)"

definition GetPlatformIDByTokenKey :: "string \<Rightarrow> int" where
  "GetPlatformIDByTokenKey key = PlatformNameToID (last (splitOn (CHR '':'') key))"

text \<open>The redis commands on a hash: a hash past its deadline is gone, writing a missing one creates it without a deadline.\<close>

definition liveTokens :: "string \<Rightarrow> 'e token_world_scheme \<Rightarrow> (string \<times> string) list" where
  "liveTokens key w = (case tokenHash w key of
     None \<Rightarrow> []
   | Some (h, deadline) \<Rightarrow> (case deadline of
       None \<Rightarrow> h
     | Some d \<Rightarrow> if clock w < d then h else []))"

definition liveDeadline :: "string \<Rightarrow> 'e token_world_scheme \<Rightarrow> int option" where
  "liveDeadline key w = (case tokenHash w key of
     None \<Rightarrow> None
   | Some (h, deadline) \<Rightarrow> (case deadline of
       None \<Rightarrow> None
     | Some d \<Rightarrow> if clock w < d then Some d else None))"

definition putTokens :: "string \<Rightarrow> (string \<times> string) list \<Rightarrow> 'e token_world_scheme \<Rightarrow> 'e token_world_scheme" where
  "putTokens key h w = w\<lparr>tokenHash := (tokenHash w)(key := if h = [] then None else Some (h, liveDeadline key w))\<rparr>"

definition hset1 :: "string \<Rightarrow> (string \<times> int) list \<Rightarrow> 'e token_world_scheme \<Rightarrow> 'e token_world_scheme" where
  "hset1 key m w = putTokens key (foldl (\<lambda>h (k, v). AList.update k (itoa v) h) (liveTokens key w) m) w"

text \<open>\<^verbatim>\<open>HSET\<close> without a field is an error reply.\<close>

definition HSet :: "string \<Rightarrow> (string \<times> int) list \<Rightarrow> ('e token_world_scheme, unit) prog" where
  "HSet key m = io (if m = [] then throw (ErrNew ''ERR wrong number of arguments'') else modifyM (hset1 key m))"

definition HDel :: "string \<Rightarrow> string list \<Rightarrow> ('e token_world_scheme, unit) prog" where
  "HDel key flds = io (modifyM (\<lambda>w. putTokens key (filter (\<lambda>(k, v). k \<notin> set flds) (liveTokens key w)) w))"

definition Expire :: "string \<Rightarrow> int \<Rightarrow> ('e token_world_scheme, unit) prog" where
  "Expire key millis = io (modifyM (\<lambda>w.
     if liveTokens key w = [] then w
     else w\<lparr>tokenHash := (tokenHash w)(key \<mapsto> (liveTokens key w, Some (clock w + millis)))\<rparr>))"

definition getExpireTime :: "int \<Rightarrow> int" where
  "getExpireTime t = t * dayMillis"

definition SetTokenFlag :: "string \<Rightarrow> int \<Rightarrow> string \<Rightarrow> int \<Rightarrow> ('e token_world_scheme, unit) prog" where
  "SetTokenFlag userID platformID token flag = HSet (GetTokenKey userID platformID) [(token, flag)]"

definition SetTokenFlagEx ::
  "auth_config \<Rightarrow> string \<Rightarrow> int \<Rightarrow> string \<Rightarrow> int \<Rightarrow> ('e token_world_scheme, unit) prog" where
  "SetTokenFlagEx cfg userID platformID token flag =
     (let key = GetTokenKey userID platformID in
      thenM (HSet key [(token, flag)]) (Expire key (getExpireTime (accessExpire cfg))))"

text \<open>The flags of a hash as numbers.\<close>

definition parseFlags :: "(string \<times> string) list \<Rightarrow> err + (string \<times> int) list" where
  "parseFlags m = foldr (\<lambda>(k, v) r. case r of
       Inl e \<Rightarrow> Inl e
     | Inr mm \<Rightarrow> (case atoi v of
         None \<Rightarrow> Inl (ErrNew ''redis token value is not int'')
       | Some state \<Rightarrow> Inr ((k, state) # mm))) m (Inr [])"

definition GetTokensWithoutError :: "string \<Rightarrow> int \<Rightarrow> ('e token_world_scheme, (string \<times> int) list) prog" where
  "GetTokensWithoutError userID platformID =
     bindM (io (gets (liveTokens (GetTokenKey userID platformID)))) (\<lambda>m. liftE (parseFlags m))"

text \<open>The goroutines of the batches write to one map; every batch is tried and the first error is returned.\<close>

primrec collectAll :: "('w, 'a list) prog list \<Rightarrow> ('w, 'a list) prog" where
  "collectAll [] = ret []"
| "collectAll (m # ms) = bindM (tryM m) (\<lambda>r. bindM (tryM (collectAll ms)) (\<lambda>rs.
     case r of Inl e \<Rightarrow> throw e | Inr xs \<Rightarrow> (case rs of Inl e \<Rightarrow> throw e | Inr ys \<Rightarrow> ret (xs @ ys))))"

definition readHashes :: "string list \<Rightarrow> ('e token_world_scheme, (int \<times> (string \<times> int) list) list) prog" where
  "readHashes keys = bindM (io (gets (\<lambda>w. map (\<lambda>k. liveTokens k w) keys))) (\<lambda>mapRes.
     foldM (\<lambda>(key, m) res. bindM (liftE (parseFlags m)) (\<lambda>mm. ret (AList.update (GetPlatformIDByTokenKey key) mm res)))
       (zip keys mapRes) [])"

definition GetAllTokensWithoutError ::
  "string \<Rightarrow> ('e token_world_scheme, (int \<times> (string \<times> int) list) list) prog" where
  "GetAllTokensWithoutError userID =
     bindM (groupKeysBySlot (GetAllPlatformTokenKey userID)) (\<lambda>slots.
       collectAll (concat (map (\<lambda>(slot, singleSlotKeys).
         case splitIntoBatches singleSlotKeys defaultBatchSize of
           None \<Rightarrow> []
         | Some batches \<Rightarrow> map readHashes batches) slots)))"

definition SetTokenMapByUidPid :: "string \<Rightarrow> int \<Rightarrow> (string \<times> int) list \<Rightarrow> ('e token_world_scheme, unit) prog" where
  "SetTokenMapByUidPid userID platformID m = HSet (GetTokenKey userID platformID) m"

definition cache_BatchSetTokenMapByUidPid ::
  "(string \<times> (string \<times> int) list) list \<Rightarrow> ('e token_world_scheme, unit) prog" where
  "cache_BatchSetTokenMapByUidPid tokens =
     (if tokens = [] then ret () else io (modifyM (\<lambda>w. foldl (\<lambda>w (k, v). hset1 k v w) w tokens)))"

definition DeleteTokenByUidPid :: "string \<Rightarrow> int \<Rightarrow> string list \<Rightarrow> ('e token_world_scheme, unit) prog" where
  "DeleteTokenByUidPid userID platformID flds = HDel (GetTokenKey userID platformID) flds"

section \<open>Login policies\<close>

abbreviation (input) NormalToken :: int where "NormalToken \<equiv> 0"
abbreviation (input) KickedToken :: int where "KickedToken \<equiv> 2"
abbreviation (input) DefalutNotKick :: int where "DefalutNotKick \<equiv> 0"
abbreviation (input) AllLoginButSameTermKick :: int where "AllLoginButSameTermKick \<equiv> 1"
abbreviation (input) AllLoginButSameClassKick :: int where "AllLoginButSameClassKick \<equiv> 4"
abbreviation (input) AppNotificationAdmin :: int where "AppNotificationAdmin \<equiv> 3"
abbreviation (input) PCAndOther :: int where "PCAndOther \<equiv> 5"

text \<open>The tokens sorted out: those to delete, and the valid ones by platform.\<close>

definition sortToken ::
  "'t auth_tools_scheme \<Rightarrow> int \<Rightarrow> int \<Rightarrow> string \<times> int \<Rightarrow> (int \<times> string list) list \<times> string list \<times> string list \<Rightarrow>
   (int \<times> string list) list \<times> string list \<times> string list" where
  "sortToken T now plfID = (\<lambda>(k, v) (loginTokenMap, deleteToken, adminToken).
     case jParse T k now of
       Inl e \<Rightarrow> (loginTokenMap, deleteToken @ [k], adminToken)
     | Inr claims \<Rightarrow>
         if v \<noteq> NormalToken then (loginTokenMap, deleteToken @ [k], adminToken)
         else if plfID \<noteq> AdminPlatformID
         then (AList.update plfID (mapGet [] loginTokenMap plfID @ [k]) loginTokenMap, deleteToken, adminToken)
         else (loginTokenMap, deleteToken, adminToken @ [k]))"

definition sortTokens ::
  "'t auth_tools_scheme \<Rightarrow> int \<Rightarrow> (int \<times> (string \<times> int) list) list \<Rightarrow> (int \<times> string list) list \<times> string list \<times> string list" where
  "sortTokens T now tokens = foldl (\<lambda>acc (plfID, tks). foldl (\<lambda>acc kv. sortToken T now plfID kv acc) acc (orderTokens T tks))
     ([], [], []) (orderPlatforms T tokens)"

text \<open>
  The slice \<^verbatim>\<open>ts[:n]\<close>. Beyond the length it depends on the capacity, which the language leaves open: it panics, or yields
  empty strings. The model panics.
\<close>

definition sliceTo :: "'a list \<Rightarrow> int \<Rightarrow> err + 'a list" where
  "sliceTo ts n = (if n < 0 \<or> int (length ts) < n then Inl (Panic ''slice bounds out of range'') else Inr (take (nat n) ts))"

primrec kickOverLimit :: "int \<Rightarrow> int \<Rightarrow> (int \<times> string list) list \<Rightarrow> err + string list" where
  "kickOverLimit limit platformID [] = Inr []"
| "kickOverLimit limit platformID (p # ps) = (let (plt, ts) = p;
      l = int (length ts) + (if platformID = plt then 1 else 0);
      kicked = (if l > limit then sliceTo ts (l - limit) else Inr []) in
    case kicked of Inl e \<Rightarrow> Inl e | Inr xs \<Rightarrow> (case kickOverLimit limit platformID ps of
      Inl e \<Rightarrow> Inl e | Inr ys \<Rightarrow> Inr (xs @ ys)))"

definition kickSameTerm :: "int \<Rightarrow> (int \<times> string list) list \<Rightarrow> string list" where
  "kickSameTerm platformID logins = foldl (\<lambda>kickToken (plt, ts).
     let kickToken = kickToken @ butlast ts in
     if plt = platformID then kickToken @ [last ts] else kickToken) [] logins"

definition kickOthers :: "(int \<times> string list) list \<Rightarrow> string list" where
  "kickOthers logins = foldl (\<lambda>kickToken (plt, ts).
     if PlatformIDToClass plt \<noteq> ''PC'' then kickToken @ ts else kickToken) [] logins"

definition kickButOne :: "(int \<times> string list) list \<Rightarrow> string list" where
  "kickButOne logins = (\<lambda>(kickToken, preKick, isReserve). kickToken) (foldl (\<lambda>(kickToken, preKick, isReserve) (plt, ts).
     if PlatformIDToClass plt \<noteq> ''PC'' then
       (if isReserve then (kickToken @ butlast ts, preKick @ [last ts], False)
        else if plt = AndroidPlatformID then (kickToken @ preKick @ butlast ts, preKick, isReserve)
        else (kickToken @ ts, preKick, isReserve))
     else (kickToken, preKick, isReserve)) ([], [], True) logins)"

definition kickSameClass :: "int \<Rightarrow> (int \<times> string list) list \<Rightarrow> string list" where
  "kickSameClass platformID logins = fst (foldl (\<lambda>(kickToken, reserved) (plt, ts).
     let c = PlatformIDToClass plt in
     if c = PlatformIDToClass platformID then (kickToken @ ts, reserved)
     else if c \<notin> set reserved then (kickToken @ butlast ts, c # reserved)
     else (kickToken @ ts, reserved)) ([], []) logins)"

definition kickTokens :: "auth_config \<Rightarrow> int \<Rightarrow> (int \<times> string list) list \<Rightarrow> err + string list" where
  "kickTokens cfg platformID logins =
     (if Policy cfg = DefalutNotKick then kickOverLimit (MaxNumOneEnd cfg) platformID logins
      else if Policy cfg = AllLoginButSameTermKick then Inr (kickSameTerm platformID logins)
      else if Policy cfg = PCAndOther then
        Inr (if PlatformIDToClass platformID \<noteq> ''PC'' then kickOthers logins else kickButOne logins)
      else if Policy cfg = AllLoginButSameClassKick then Inr (kickSameClass platformID logins)
      else Inl (ErrNew ''unknown multiLogin policy''))"

definition checkToken ::
  "'t auth_tools_scheme \<Rightarrow> auth_config \<Rightarrow> int \<Rightarrow> (int \<times> (string \<times> int) list) list \<Rightarrow> int \<Rightarrow> err + string list \<times> string list" where
  "checkToken T cfg now tokens platformID =
     (let (loginTokenMap, deleteToken, adminToken) = sortTokens T now tokens in
      case kickTokens cfg platformID (orderLogins T loginTokenMap) of
        Inl e \<Rightarrow> Inl e
      | Inr kickToken \<Rightarrow> Inr (deleteToken, kickToken))"

section \<open>The auth database\<close>

definition IsManagerUserID :: "string \<Rightarrow> string list \<Rightarrow> bool" where
  "IsManagerUserID opUserID imAdminUserID \<longleftrightarrow> opUserID \<in> set imAdminUserID"

definition CheckAdmin :: "string \<Rightarrow> string list \<Rightarrow> err + unit" where
  "CheckAdmin opUserID imAdminUserID = (if opUserID \<in> set imAdminUserID then Inr () else Inl ErrNoPermission)"

definition CheckAccessV3 :: "string \<Rightarrow> string \<Rightarrow> string list \<Rightarrow> err + unit" where
  "CheckAccessV3 opUserID ownerUserID imAdminUserID =
     (if opUserID \<in> set imAdminUserID then Inr ()
      else if opUserID = ownerUserID then Inr ()
      else Inl ErrNoPermission)"

definition IsAppManagerUid :: "string \<Rightarrow> string list \<Rightarrow> bool" where
  "IsAppManagerUid opUserID imAdminUserID \<longleftrightarrow> opUserID \<in> set imAdminUserID"

definition BatchSetTokenMapByUidPid ::
  "'t auth_tools_scheme \<Rightarrow> string list \<Rightarrow> ('e token_world_scheme, unit) prog" where
  "BatchSetTokenMapByUidPid T tokens = (\<lambda>w.
     cache_BatchSetTokenMapByUidPid (foldl (\<lambda>setMap token. case jParse T token (clock w) of
         Inl e \<Rightarrow> setMap
       | Inr claims \<Rightarrow>
           let key = GetTokenKey (cUserID claims) (cPlatformID claims) in
           AList.update key (AList.update token KickedToken (mapGet [] setMap key)) setMap) [] tokens) w)"

definition kickInHash ::
  "auth_config \<Rightarrow> string \<Rightarrow> int \<Rightarrow> string list \<Rightarrow> ('e token_world_scheme, unit) prog" where
  "kickInHash cfg userID platformID kickedTokenKey =
     forM kickedTokenKey (\<lambda>k. SetTokenFlagEx cfg userID platformID k KickedToken)"

definition CreateToken ::
  "'t auth_tools_scheme \<Rightarrow> auth_config \<Rightarrow> string \<Rightarrow> int \<Rightarrow> ('e token_world_scheme, string) prog" where
  "CreateToken T cfg userID platformID =
     (let isAdmin = IsManagerUserID userID (adminUserIDs cfg) in
      thenM (if isAdmin then ret ()
        else bindM (GetAllTokensWithoutError userID) (\<lambda>tokens.
          bindM (\<lambda>w. (checkToken T cfg (clock w) tokens platformID, w)) (\<lambda>(deleteTokenKey, kickedTokenKey).
            thenM (if length deleteTokenKey \<noteq> 0 then DeleteTokenByUidPid userID platformID deleteTokenKey else ret ())
              (kickInHash cfg userID platformID kickedTokenKey))))
      (bindM (\<lambda>w. (jSign T userID platformID (accessExpire cfg) (clock w), w)) (\<lambda>tokenString.
        thenM (if isAdmin then ret () else SetTokenFlagEx cfg userID platformID tokenString NormalToken)
          (ret tokenString))))"

section \<open>The auth service\<close>

definition parseToken ::
  "'t auth_tools_scheme \<Rightarrow> auth_config \<Rightarrow> string \<Rightarrow> ('e token_world_scheme, Claims) prog" where
  "parseToken T cfg tokensString =
     bindM (\<lambda>w. (jParse T tokensString (clock w), w)) (\<lambda>claims.
       if IsManagerUserID (cUserID claims) (adminUserIDs cfg) then ret claims
       else bindM (GetTokensWithoutError (cUserID claims) (cPlatformID claims)) (\<lambda>m.
         if length m = 0 then throw ErrTokenNotExist
         else (case map_of m tokensString of
             Some v \<Rightarrow>
               if v = NormalToken then ret claims
               else if v = KickedToken then throw ErrTokenKicked
               else throw ErrTokenUnknown
           | None \<Rightarrow> throw ErrTokenNotExist)))"

definition ParseToken ::
  "'t auth_tools_scheme \<Rightarrow> auth_config \<Rightarrow> string \<Rightarrow> ('e token_world_scheme, string \<times> int \<times> int) prog" where
  "ParseToken T cfg token = bindM (parseToken T cfg token) (\<lambda>claims.
     ret (cUserID claims, cPlatformID claims, cExpiresAt claims))"

definition GetAdminToken ::
  "'t auth_tools_scheme \<Rightarrow> auth_config \<Rightarrow> string \<Rightarrow> string \<Rightarrow> ('e token_world_scheme, string \<times> int) prog" where
  "GetAdminToken T cfg Secret userID =
     (if Secret \<noteq> secretShare cfg then throw ErrNoPermission
      else if userID \<notin> set (adminUserIDs cfg) then throw (ErrArgs ''userID is error.'')
      else thenM (liftE (uCheckUser T [userID]))
        (bindM (CreateToken T cfg userID AdminPlatformID) (\<lambda>token.
          ret (token, accessExpire cfg * 24 * 60 * 60))))"

definition GetUserToken ::
  "'t auth_tools_scheme \<Rightarrow> auth_config \<Rightarrow> string \<Rightarrow> string \<Rightarrow> int \<Rightarrow> ('e token_world_scheme, string \<times> int) prog" where
  "GetUserToken T cfg opUserID userID platformID =
     thenM (liftE (CheckAdmin opUserID (adminUserIDs cfg)))
     (if platformID = AdminPlatformID then throw ErrNoPermission
      else if IsManagerUserID userID (adminUserIDs cfg) then throw ErrNoPermission
      else bindM (liftE (uAppMangerLevel T userID)) (\<lambda>level.
        if level \<ge> AppNotificationAdmin then throw (ErrArgs ''app account can`t get token'')
        else bindM (CreateToken T cfg userID platformID) (\<lambda>token.
          ret (token, accessExpire cfg * 24 * 60 * 60))))"

definition kickAtGateway :: "string \<Rightarrow> int \<Rightarrow> ('e token_world_scheme, unit) prog" where
  "kickAtGateway userID platformID = io (modifyM (\<lambda>w. w\<lparr>kickReqs := kickReqs w @ [(userID, platformID)]\<rparr>))"

primrec kickLoop ::
  "string \<Rightarrow> int \<Rightarrow> string list \<Rightarrow> (string \<times> int) list \<Rightarrow> ('e token_world_scheme, unit) prog" where
  "kickLoop userID platformID [] m = ret ()"
| "kickLoop userID platformID (k # ks) m =
     (let m' = AList.update k KickedToken m in
      thenM (SetTokenMapByUidPid userID platformID m') (kickLoop userID platformID ks m'))"

definition forceKickOff ::
  "'t auth_tools_scheme \<Rightarrow> string \<Rightarrow> int \<Rightarrow> ('e token_world_scheme, unit) prog" where
  "forceKickOff T userID platformID =
     thenM (forM [0..<gateways T] (\<lambda>_. bindM (tryM (kickAtGateway userID platformID)) (\<lambda>_. ret ())))
     (bindM (tryM (GetTokensWithoutError userID platformID)) (\<lambda>r.
       case r of
         Inl e \<Rightarrow> if e \<noteq> RedisNil then throw e else ret ()
       | Inr m \<Rightarrow> kickLoop userID platformID (map fst (orderTokens T m)) m))"

definition ForceLogout ::
  "'t auth_tools_scheme \<Rightarrow> auth_config \<Rightarrow> string \<Rightarrow> string \<Rightarrow> int \<Rightarrow> ('e token_world_scheme, unit) prog" where
  "ForceLogout T cfg opUserID userID platformID =
     thenM (liftE (CheckAdmin opUserID (adminUserIDs cfg))) (forceKickOff T userID platformID)"

definition InvalidateToken ::
  "string \<Rightarrow> int \<Rightarrow> string \<Rightarrow> ('e token_world_scheme, unit) prog" where
  "InvalidateToken userID platformID preserved =
     bindM (tryM (GetTokensWithoutError userID platformID)) (\<lambda>r. case r of
       Inl e \<Rightarrow> if e \<noteq> RedisNil then throw e else throw (ErrNew ''token map is empty'')
     | Inr m \<Rightarrow> SetTokenMapByUidPid userID platformID
         (map (\<lambda>(k, v). (k, if k \<noteq> preserved then KickedToken else v)) m))"

definition KickTokens :: "'t auth_tools_scheme \<Rightarrow> string list \<Rightarrow> ('e token_world_scheme, unit) prog" where
  "KickTokens T tokens = BatchSetTokenMapByUidPid T tokens"

end
