(* ===== verification/Friends_Rpc.thy ===== *)
theory Friends_Rpc
  imports Friends_Db Incr_Option Token_Auth
begin

text \<open>
  The relation service: \<^verbatim>\<open>internal/rpc/relation/friend.go\<close>, \<^verbatim>\<open>sync.go\<close> and the notifications of \<^verbatim>\<open>notification.go\<close>, with the
  conversions of \<^verbatim>\<open>pkg/common/convert/friend.go\<close> and the user client of \<^verbatim>\<open>pkg/rpcli/user.go\<close>. The user service, the
  web hooks and the hash of ids are parameters; notifications are a list in the state. The asynchronous hooks after an answer have no effect on it
  and are left out.
\<close>

section \<open>Parameters\<close>

record UserInfo =
  uiUserID :: string
  uiNickname :: string
  uiFaceURL :: string
  uiEx :: string
  uiAppMangerLevel :: int

record BeforeConfig =
  hookEnable :: bool
  hookFailedContinue :: bool

text \<open>A hook answers with an error or its reply; \<open>hkContinue\<close> is \<^verbatim>\<open>ErrCallbackContinue\<close>.\<close>

record 'w relation_tools = "'w friend_tools" +
  rDesignateUsers :: "string list \<Rightarrow> err + UserInfo list"
  hkAddFriend :: "string \<times> string \<times> string \<times> string \<Rightarrow> err + unit"
  hkImport :: "string \<times> string list \<Rightarrow> err + string list"
  hkAgree :: "string \<times> string \<times> string \<times> int \<Rightarrow> err + unit"
  hkRemark :: "string \<times> string \<times> string \<Rightarrow> err + string"
  rIdHash :: "string list \<Rightarrow> nat"
  rOid :: oid_tools
  rAdmins :: "string list"
  cfgAddFriend :: BeforeConfig
  cfgImport :: BeforeConfig
  cfgAgree :: BeforeConfig
  cfgRemark :: BeforeConfig

definition ErrCallbackContinue :: err where "ErrCallbackContinue = ErrCode ''ErrCallbackContinue''"

definition WithCondition :: "BeforeConfig \<Rightarrow> ('w, 'a) prog \<Rightarrow> 'a \<Rightarrow> ('w, 'a) prog" where
  "WithCondition before callback unchanged = (if \<not> hookEnable before then ret unchanged else callback)"

text \<open>The result of a hook, as the handlers look at it: an error to go on after leaves the request as it was.\<close>

definition hookResult :: "'a \<Rightarrow> ('w, 'a) prog \<Rightarrow> ('w, 'a) prog" where
  "hookResult unchanged m = bindM (tryM m) (\<lambda>r. case r of
     Inr a \<Rightarrow> ret a
   | Inl e \<Rightarrow> if e \<noteq> ErrCallbackContinue then throw e else ret unchanged)"

definition webhookBeforeAddFriend ::
  "('w, 't) relation_tools_scheme \<Rightarrow> string \<times> string \<times> string \<times> string \<Rightarrow> ('e env_scheme, unit) prog" where
  "webhookBeforeAddFriend T req = WithCondition (cfgAddFriend T) (io (liftE (hkAddFriend T req))) ()"

definition webhookBeforeImportFriends ::
  "('w, 't) relation_tools_scheme \<Rightarrow> string \<Rightarrow> string list \<Rightarrow> ('e env_scheme, string list) prog" where
  "webhookBeforeImportFriends T ownerUserID friendUserIDs = WithCondition (cfgImport T)
     (bindM (io (liftE (hkImport T (ownerUserID, friendUserIDs)))) (\<lambda>ids. ret (if length ids > 0 then ids else friendUserIDs))) friendUserIDs"

definition webhookBeforeAddFriendAgree ::
  "('w, 't) relation_tools_scheme \<Rightarrow> string \<times> string \<times> string \<times> int \<Rightarrow> ('e env_scheme, unit) prog" where
  "webhookBeforeAddFriendAgree T req = WithCondition (cfgAgree T) (io (liftE (hkAgree T req))) ()"

definition webhookBeforeSetFriendRemark ::
  "('w, 't) relation_tools_scheme \<Rightarrow> string \<Rightarrow> string \<Rightarrow> string \<Rightarrow> ('e env_scheme, string) prog" where
  "webhookBeforeSetFriendRemark T ownerUserID friendUserID remark = WithCondition (cfgRemark T)
     (bindM (io (liftE (hkRemark T (ownerUserID, friendUserID, remark)))) (\<lambda>r. ret (if r \<noteq> '''' then r else remark))) remark"

section \<open>The user client\<close>

definition GetUsersInfo :: "('w, 't) relation_tools_scheme \<Rightarrow> string list \<Rightarrow> ('e env_scheme, UserInfo list) prog" where
  "GetUsersInfo T userIDs = (if length userIDs = 0 then ret [] else io (liftE (rDesignateUsers T userIDs)))"

definition CheckUser :: "('w, 't) relation_tools_scheme \<Rightarrow> string list \<Rightarrow> ('e env_scheme, unit) prog" where
  "CheckUser T userIDs =
     (if length userIDs = 0 then ret ()
      else bindM (GetUsersInfo T userIDs) (\<lambda>users.
        if length users \<noteq> length userIDs then throw ErrRecordNotFound else ret ()))"

definition GetUsersInfoMap :: "('w, 't) relation_tools_scheme \<Rightarrow> string list \<Rightarrow> ('e env_scheme, string \<rightharpoonup> UserInfo) prog" where
  "GetUsersInfoMap T userIDs = bindM (GetUsersInfo T userIDs) (\<lambda>users. ret (map_of (rev (map (\<lambda>u. (uiUserID u, u)) users))))"

section \<open>Conversion\<close>

record FriendInfo =
  fiOwnerUserID :: string
  fiRemark :: string
  fiCreateTime :: int
  fiFriendUser :: UserInfo
  fiAddSource :: int
  fiOperatorUserID :: string
  fiEx :: string
  fiIsPinned :: bool

text \<open>\<^verbatim>\<open>Time.Unix\<close> and \<^verbatim>\<open>UnixMilli\<close> of a time in milliseconds; the zero time is the year 1.\<close>

definition zeroTimeMilli :: int where "zeroTimeMilli = -62135596800000"

definition unixMilli :: "int option \<Rightarrow> int" where
  "unixMilli t = (case t of None \<Rightarrow> zeroTimeMilli | Some t \<Rightarrow> t)"

definition unixSeconds :: "int option \<Rightarrow> int" where
  "unixSeconds t = unixMilli t div 1000"

definition friendInfoOf :: "Friend \<Rightarrow> UserInfo \<Rightarrow> FriendInfo" where
  "friendInfoOf f u = \<lparr>fiOwnerUserID = frOwnerUserID f, fiRemark = frRemark f, fiCreateTime = unixSeconds (frCreateTime f),
     fiFriendUser = u, fiAddSource = frAddSource f, fiOperatorUserID = frOperatorUserID f, fiEx = frEx f, fiIsPinned = frIsPinned f\<rparr>"

text \<open>A friend whose user is not in the answer is a nil pointer.\<close>

definition FriendsDB2Pb :: "('w, 't) relation_tools_scheme \<Rightarrow> Friend list \<Rightarrow> ('e env_scheme, FriendInfo list) prog" where
  "FriendsDB2Pb T friendsDB =
     (if length friendsDB = 0 then ret []
      else bindM (GetUsersInfoMap T (map frFriendUserID friendsDB)) (\<lambda>users.
        foldM (\<lambda>f friendsPb. case users (frFriendUserID f) of
            None \<Rightarrow> throw (Panic ''nil pointer dereference'')
          | Some u \<Rightarrow> ret (friendsPb @ [friendInfoOf f u])) friendsDB []))"

record FriendInfoOnly =
  foOwnerUserID :: string
  foFriendUserID :: string
  foRemark :: string
  foCreateTime :: int
  foAddSource :: int
  foOperatorUserID :: string
  foEx :: string
  foIsPinned :: bool

definition FriendOnlyDB2PbOnly :: "Friend list \<Rightarrow> FriendInfoOnly list" where
  "FriendOnlyDB2PbOnly friendsDB = map (\<lambda>f. \<lparr>foOwnerUserID = frOwnerUserID f, foFriendUserID = frFriendUserID f, foRemark = frRemark f,
     foCreateTime = unixMilli (frCreateTime f), foAddSource = frAddSource f, foOperatorUserID = frOperatorUserID f, foEx = frEx f,
     foIsPinned = frIsPinned f\<rparr>) friendsDB"

record PbFriendRequest = FriendRequest +
  pqFromNickname :: string
  pqFromFaceURL :: string
  pqToNickname :: string
  pqToFaceURL :: string
  pqCreateTime :: int
  pqHandleTime :: int

definition FriendRequestDB2Pb ::
  "('w, 't) relation_tools_scheme \<Rightarrow> FriendRequest list \<Rightarrow> ('e env_scheme, PbFriendRequest list) prog" where
  "FriendRequestDB2Pb T rs =
     (if length rs = 0 then ret []
      else bindM (GetUsersInfoMap T (remdups (concat (map (\<lambda>r. [fqToUserID r, fqFromUserID r]) rs)))) (\<lambda>users.
        foldM (\<lambda>r res. case (users (fqToUserID r), users (fqFromUserID r)) of
            (Some toUser, Some fromUser) \<Rightarrow> ret (res @ [FriendRequest.extend r
              \<lparr>pqFromNickname = uiNickname fromUser, pqFromFaceURL = uiFaceURL fromUser, pqToNickname = uiNickname toUser,
               pqToFaceURL = uiFaceURL toUser, pqCreateTime = unixMilli (fqCreateTime r), pqHandleTime = unixMilli (fqHandleTime r)\<rparr>])
          | _ \<Rightarrow> throw (Panic ''nil pointer dereference'')) rs []))"

section \<open>Notifications\<close>

definition FriendApplicationApprovedNotification :: int where "FriendApplicationApprovedNotification = 1201"
definition FriendApplicationRejectedNotification :: int where "FriendApplicationRejectedNotification = 1202"
definition FriendApplicationNotification :: int where "FriendApplicationNotification = 1203"
definition FriendDeletedNotification :: int where "FriendDeletedNotification = 1205"
definition FriendRemarkSetNotification :: int where "FriendRemarkSetNotification = 1206"
definition FriendInfoUpdatedNotification :: int where "FriendInfoUpdatedNotification = 1209"
definition FriendsInfoUpdateNotification :: int where "FriendsInfoUpdateNotification = 1210"

definition notify :: "string \<Rightarrow> string \<Rightarrow> int \<Rightarrow> string list \<Rightarrow> ('e friend_world_scheme, unit) prog" where
  "notify from' to kind ids = modifyM (\<lambda>w. w\<lparr>notices := notices w @ [\<lparr>fnFrom = from', fnTo = to, fnType = kind, fnIDs = ids,
     fnVersion = 0, fnVersionID = '''', fnSortVersion = 0\<rparr>]\<rparr>)"

text \<open>\<^verbatim>\<open>setSortVersion\<close>: the version of an owner in the logs this request has written.\<close>

definition setSortVersion :: "oid_tools \<Rightarrow> string \<Rightarrow> string \<Rightarrow> (string \<times> VersionLog) list \<Rightarrow> FriendNotice \<Rightarrow> FriendNotice" where
  "setSortVersion ot collName did versions n = foldl (\<lambda>n (name, doc).
     if name = collName \<and> vtDID doc = did then
       foldl (\<lambda>n elem. if vEID elem = VersionSortChangeID then n\<lparr>fnSortVersion := vElemVersion elem\<rparr> else n)
         (n\<lparr>fnVersion := vtVersion doc, fnVersionID := Hex ot (vtID doc)\<rparr>) (vtLogs doc)
     else n) n versions"

text \<open>The logs are searched for the friend, not for the owner whose log has changed.\<close>

definition FriendRemarkSet :: "oid_tools \<Rightarrow> string \<Rightarrow> string \<Rightarrow> ('e friend_world_scheme, unit) prog" where
  "FriendRemarkSet ot fromUserID toUserID = modifyM (\<lambda>w. w\<lparr>notices := notices w @
     [setSortVersion ot FriendVersionName toUserID (case versionCtx w of None \<Rightarrow> [] | Some vs \<Rightarrow> vs)
       \<lparr>fnFrom = fromUserID, fnTo = toUserID, fnType = FriendRemarkSetNotification, fnIDs = [], fnVersion = 0, fnVersionID = '''', fnSortVersion = 0\<rparr>]\<rparr>)"

section \<open>Requests and answers\<close>

definition ApplyToAddFriend ::
  "('e friend_world_scheme, 't) relation_tools_scheme \<Rightarrow> string \<Rightarrow> string \<Rightarrow> string \<Rightarrow> string \<Rightarrow> string \<Rightarrow> ('e friend_world_scheme, unit) prog" where
  "ApplyToAddFriend T opUserID fromUserID toUserID reqMsg ext =
     thenM (liftE (CheckAccessV3 opUserID fromUserID (rAdmins T)))
     (if toUserID = fromUserID then throw (ErrCode ''CanNotAddYourselfError'')
      else thenM (hookResult () (webhookBeforeAddFriend T (fromUserID, toUserID, reqMsg, ext)))
     (thenM (CheckUser T [toUserID, fromUserID])
     (bindM (CheckIn (friend_tools.truncate T) fromUserID toUserID) (\<lambda>(in1, in2).
      if in1 \<and> in2 then throw (ErrCode ''RelationshipAlreadyError'')
      else thenM (AddFriendRequest (friend_tools.truncate T) fromUserID toUserID reqMsg ext)
        (notify fromUserID toUserID FriendApplicationNotification [])))))"

definition ImportFriends ::
  "('e friend_world_scheme, 't) relation_tools_scheme \<Rightarrow> string \<Rightarrow> string \<Rightarrow> string list \<Rightarrow> ('e friend_world_scheme, unit) prog" where
  "ImportFriends T opUserID ownerUserID friendUserIDs =
     thenM (liftE (CheckAdmin opUserID (rAdmins T)))
     (thenM (CheckUser T (ownerUserID # friendUserIDs))
     (if fContain T ownerUserID friendUserIDs then throw (ErrCode ''CanNotAddYourselfError'')
      else if fDuplicate T friendUserIDs then throw (ErrArgs ''friend userID repeated'')
      else bindM (hookResult friendUserIDs (webhookBeforeImportFriends T ownerUserID friendUserIDs)) (\<lambda>friendUserIDs.
        thenM (BecomeFriends (friend_tools.truncate T) opUserID ownerUserID friendUserIDs 1)
          (forM friendUserIDs (\<lambda>userID. notify userID ownerUserID FriendApplicationApprovedNotification [])))))"

definition RespondFriendApply ::
  "('e friend_world_scheme, 't) relation_tools_scheme \<Rightarrow> string \<Rightarrow> string \<Rightarrow> string \<Rightarrow> string \<Rightarrow> int \<Rightarrow> ('e friend_world_scheme, unit) prog" where
  "RespondFriendApply T opUserID fromUserID toUserID handleMsg handleResult =
     thenM (liftE (CheckAccessV3 opUserID toUserID (rAdmins T)))
     (let req = \<lparr>fqFromUserID = fromUserID, fqToUserID = toUserID, fqHandleResult = handleResult, fqReqMsg = '''', fqCreateTime = None,
                fqHandlerUserID = '''', fqHandleMsg = handleMsg, fqHandleTime = None, fqEx = ''''\<rparr> in
      if handleResult = 1 then
        thenM (hookResult () (webhookBeforeAddFriendAgree T (fromUserID, toUserID, handleMsg, handleResult)))
        (thenM (AgreeFriendRequest (friend_tools.truncate T) opUserID req)
          (notify toUserID fromUserID FriendApplicationApprovedNotification []))
      else if handleResult = -1 then
        thenM (RefuseFriendRequest req) (notify toUserID fromUserID FriendApplicationRejectedNotification [])
      else throw (ErrArgs ''req.HandleResult != -1/1''))"

definition DeleteFriend ::
  "('e friend_world_scheme, 't) relation_tools_scheme \<Rightarrow> string \<Rightarrow> string \<Rightarrow> string \<Rightarrow> ('e friend_world_scheme, unit) prog" where
  "DeleteFriend T opUserID ownerUserID friendUserID =
     thenM (liftE (CheckAccessV3 opUserID ownerUserID (rAdmins T)))
     (bindM (FindFriendsWithError (friend_tools.truncate T) ownerUserID [friendUserID]) (\<lambda>_.
      thenM (db_Delete (friend_tools.truncate T) ownerUserID [friendUserID])
        (notify ownerUserID friendUserID FriendDeletedNotification [])))"

definition SetFriendRemark ::
  "('e friend_world_scheme, 't) relation_tools_scheme \<Rightarrow> string \<Rightarrow> string \<Rightarrow> string \<Rightarrow> string \<Rightarrow> ('e friend_world_scheme, unit) prog" where
  "SetFriendRemark T opUserID ownerUserID friendUserID remark =
     bindM (hookResult remark (webhookBeforeSetFriendRemark T ownerUserID friendUserID remark)) (\<lambda>remark.
     thenM (liftE (CheckAccessV3 opUserID ownerUserID (rAdmins T)))
     (bindM (FindFriendsWithError (friend_tools.truncate T) ownerUserID [friendUserID]) (\<lambda>_.
      thenM (db_UpdateRemark (friend_tools.truncate T) ownerUserID friendUserID remark)
        (FriendRemarkSet (rOid T) ownerUserID friendUserID))))"

definition GetFriendInfo ::
  "('w, 't) relation_tools_scheme \<Rightarrow> string \<Rightarrow> string list \<Rightarrow> ('e friend_world_scheme, FriendInfoOnly list) prog" where
  "GetFriendInfo T ownerUserID friendUserIDs =
     bindM (FindFriendsWithError (friend_tools.truncate T) ownerUserID friendUserIDs) (\<lambda>friends. ret (FriendOnlyDB2PbOnly friends))"

definition getFriend ::
  "('w, 't) relation_tools_scheme \<Rightarrow> string \<Rightarrow> string list \<Rightarrow> ('e friend_world_scheme, FriendInfo list) prog" where
  "getFriend T ownerUserID friendUserIDs =
     (if length friendUserIDs = 0 then ret []
      else bindM (FindFriendsWithError (friend_tools.truncate T) ownerUserID friendUserIDs) (\<lambda>friends. FriendsDB2Pb T friends))"

definition GetDesignatedFriends ::
  "('w, 't) relation_tools_scheme \<Rightarrow> string \<Rightarrow> string list \<Rightarrow> ('e friend_world_scheme, FriendInfo list) prog" where
  "GetDesignatedFriends T ownerUserID friendUserIDs =
     (if fDuplicate T friendUserIDs then throw (ErrArgs ''friend userID repeated'') else getFriend T ownerUserID friendUserIDs)"

definition GetDesignatedFriendsApply ::
  "('w, 't) relation_tools_scheme \<Rightarrow> string \<Rightarrow> string \<Rightarrow> ('e friend_world_scheme, PbFriendRequest list) prog" where
  "GetDesignatedFriendsApply T fromUserID toUserID =
     bindM (FindBothFriendRequests fromUserID toUserID) (\<lambda>rs. FriendRequestDB2Pb T rs)"

definition GetPaginationFriendsApplyTo ::
  "('w, 't) relation_tools_scheme \<Rightarrow> string \<Rightarrow> string \<Rightarrow> pagination \<Rightarrow> ('e friend_world_scheme, int \<times> PbFriendRequest list) prog" where
  "GetPaginationFriendsApplyTo T opUserID userID p =
     thenM (liftE (CheckAccessV3 opUserID userID (rAdmins T)))
     (bindM (PageFriendRequestToMe (friend_tools.truncate T) userID p) (\<lambda>(total, rs).
      bindM (FriendRequestDB2Pb T rs) (\<lambda>pb. ret (total, pb))))"

definition GetPaginationFriendsApplyFrom ::
  "('w, 't) relation_tools_scheme \<Rightarrow> string \<Rightarrow> string \<Rightarrow> pagination \<Rightarrow> ('e friend_world_scheme, int \<times> PbFriendRequest list) prog" where
  "GetPaginationFriendsApplyFrom T opUserID userID p =
     thenM (liftE (CheckAccessV3 opUserID userID (rAdmins T)))
     (bindM (PageFriendRequestFromMe (friend_tools.truncate T) userID p) (\<lambda>(total, rs).
      bindM (FriendRequestDB2Pb T rs) (\<lambda>pb. ret (total, pb))))"

definition IsFriend ::
  "('w, 't) relation_tools_scheme \<Rightarrow> string \<Rightarrow> string \<Rightarrow> ('e friend_world_scheme, bool \<times> bool) prog" where
  "IsFriend T userID1 userID2 = CheckIn (friend_tools.truncate T) userID1 userID2"

definition GetPaginationFriends ::
  "('w, 't) relation_tools_scheme \<Rightarrow> string \<Rightarrow> string \<Rightarrow> pagination \<Rightarrow> ('e friend_world_scheme, int \<times> FriendInfo list) prog" where
  "GetPaginationFriends T opUserID userID p =
     thenM (liftE (CheckAccessV3 opUserID userID (rAdmins T)))
     (bindM (PageOwnerFriends (friend_tools.truncate T) userID p) (\<lambda>(total, friends).
      bindM (FriendsDB2Pb T friends) (\<lambda>pb. ret (total, pb))))"

definition rpc_GetFriendIDs ::
  "('w, 't) relation_tools_scheme \<Rightarrow> string \<Rightarrow> string \<Rightarrow> ('e friend_world_scheme, string list) prog" where
  "rpc_GetFriendIDs T opUserID userID =
     thenM (liftE (CheckAccessV3 opUserID userID (rAdmins T))) (FindFriendUserIDs (friend_tools.truncate T) userID)"

text \<open>A field of the request that is nil is not written.\<close>

definition UpdateFriends ::
  "('e friend_world_scheme, 't) relation_tools_scheme \<Rightarrow> string \<Rightarrow> string list \<Rightarrow> bool option \<Rightarrow> string option \<Rightarrow> string option \<Rightarrow>
   ('e friend_world_scheme, unit) prog" where
  "UpdateFriends T ownerUserID friendUserIDs isPinned remark ext =
     (if length friendUserIDs = 0 then throw (ErrArgs ''friendIDList is empty'')
      else if fDuplicate T friendUserIDs then throw (ErrArgs ''friendIDList repeated'')
      else bindM (FindFriendsWithError (friend_tools.truncate T) ownerUserID friendUserIDs) (\<lambda>_.
        let val = (case isPinned of None \<Rightarrow> [] | Some b \<Rightarrow> [SetPinned b]) @ (case remark of None \<Rightarrow> [] | Some s \<Rightarrow> [SetRemark s]) @
              (case ext of None \<Rightarrow> [] | Some s \<Rightarrow> [SetEx s]) in
        thenM (db_UpdateFriends (friend_tools.truncate T) ownerUserID friendUserIDs val)
          (notify ownerUserID ownerUserID FriendsInfoUpdateNotification friendUserIDs)))"

section \<open>Synchronisation\<close>

text \<open>
  \<^verbatim>\<open>NotificationUserInfoUpdate\<close>, with the queued function run at once: the friends of the user (those the user has,
  not those who have the user) get the user logged as updated; an error is logged and the next friend follows.
\<close>

definition NotificationUserInfoUpdate ::
  "('e friend_world_scheme, 't) relation_tools_scheme \<Rightarrow> string \<Rightarrow> string \<Rightarrow> ('e friend_world_scheme, unit) prog" where
  "NotificationUserInfoUpdate T opUserID reqUserID =
     bindM (FindFriendUserIDs (friend_tools.truncate T) reqUserID) (\<lambda>userIDs.
     if length userIDs > 0 then
       thenM (forM userIDs (\<lambda>userID. bindM (tryM (OwnerIncrVersion (friend_tools.truncate T) userID [reqUserID] VersionStateUpdate)) (\<lambda>_. ret ())))
         (forM userIDs (\<lambda>userID. notify opUserID userID FriendInfoUpdatedNotification [reqUserID]))
     else ret ())"

definition GetFullFriendUserIDs ::
  "('w, 't) relation_tools_scheme \<Rightarrow> string \<Rightarrow> nat \<Rightarrow> ('e friend_world_scheme, nat \<times> string \<times> bool \<times> string list option) prog" where
  "GetFullFriendUserIDs T userID reqIdHash =
     bindM (FindMaxFriendVersionCache (friend_tools.truncate T) userID) (\<lambda>vl.
     bindM (FindFriendUserIDs (friend_tools.truncate T) userID) (\<lambda>userIDs.
     let idHash = rIdHash T userIDs in
     ret (idHash, Hex (rOid T) (vtID vl), reqIdHash = idHash, if reqIdHash = idHash then None else Some userIDs)))"

record IncrementalFriends =
  irVersionID :: string
  irVersion :: nat
  irFull :: bool
  irDelete :: "string list"
  irInsert :: "FriendInfo list"
  irUpdate :: "FriendInfo list"
  irSortVersion :: nat

text \<open>The entries for the order of the list are taken out of a log.\<close>

definition splitSort :: "VersionLog \<Rightarrow> VersionLog \<times> VersionLogElem list" where
  "splitSort vl =
     (let sorts = filter (\<lambda>elem. vEID elem = VersionSortChangeID) (vtLogs vl) in
      (vl\<lparr>vtLogs := filter (\<lambda>elem. vEID elem \<noteq> VersionSortChangeID) (vtLogs vl), vLogLen := vLogLen vl - int (length sorts)\<rparr>, sorts))"

text \<open>The variable \<^verbatim>\<open>sortVersion\<close>, captured by two of the callbacks, is set when the log is read and read when the answer is made.\<close>

definition friendOption ::
  "('w, 't) relation_tools_scheme \<Rightarrow> string \<Rightarrow> nat \<Rightarrow> string \<Rightarrow>
   (nat \<times> 'e friend_world_scheme, FriendInfo, IncrementalFriends) sync_option" where
  "friendOption T userID version versionID = \<lparr>hasCtx = True, VersionKey = userID, VersionID = versionID, VersionNumber = version,
     CacheMaxVersion = Some (\<lambda>ownerUserID. withVar (FindMaxFriendVersionCache (friend_tools.truncate T) ownerUserID)),
     VersionFn = Some (\<lambda>ownerUserID version limit.
       bindM (withVar (FindFriendIncrVersion ownerUserID version limit)) (\<lambda>vl.
         let (vl', sorts) = splitSort vl in
         thenM (if sorts = [] then ret () else setVar (vElemVersion (last sorts))) (ret vl'))),
     Find = Some (\<lambda>ids. withVar (getFriend T userID ids)),
     Resp = Some (\<lambda>v deleteIds insertList updateList full. gets (\<lambda>(sortVersion, w). \<lparr>irVersionID = Hex (rOid T) (vtID v),
       irVersion = vtVersion v, irFull = full, irDelete = deleteIds, irInsert = insertList, irUpdate = updateList,
       irSortVersion = sortVersion\<rparr>))\<rparr>"

definition GetIncrementalFriends ::
  "('w, 't) relation_tools_scheme \<Rightarrow> string \<Rightarrow> string \<Rightarrow> nat \<Rightarrow> string \<Rightarrow> ('e friend_world_scheme, IncrementalFriends) prog" where
  "GetIncrementalFriends T opUserID userID version versionID =
     thenM (liftE (CheckAccessV3 opUserID userID (rAdmins T)))
       (bindM (runVar 0 (Build (rOid T) (friendOption T userID version versionID))) (\<lambda>(sortVersion, resp). ret resp))"

end
