(* ===== verification/Group_Store.thy ===== *)
theory Group_Store
  imports Friends_Rpc
begin

text \<open>
  Groups in the stores: the collections \<^verbatim>\<open>database/mgo/group.go\<close>, \<^verbatim>\<open>group_member.go\<close> (with its two change logs: the members of a group, and the
  groups of a user) and \<^verbatim>\<open>group_request.go\<close>, and the cache \<^verbatim>\<open>cache/redis/group.go\<close> with \<^verbatim>\<open>cachekey/group.go\<close>.
\<close>

section \<open>Data\<close>

record Group =
  gpGroupID :: string
  gpGroupName :: string
  gpNotification :: string
  gpIntroduction :: string
  gpFaceURL :: string
  gpCreateTime :: "int option"
  gpEx :: string
  gpStatus :: int
  gpCreatorUserID :: string
  gpGroupType :: int
  gpNeedVerification :: int
  gpLookMemberInfo :: int
  gpApplyMemberFriend :: int
  gpNotificationUpdateTime :: "int option"
  gpNotificationUserID :: string

record GroupMember =
  gmGroupID :: string
  gmUserID :: string
  gmNickname :: string
  gmFaceURL :: string
  gmRoleLevel :: int
  gmJoinTime :: "int option"
  gmJoinSource :: int
  gmInviterUserID :: string
  gmOperatorUserID :: string
  gmMuteEndTime :: "int option"
  gmEx :: string

record GroupRequest =
  gqUserID :: string
  gqGroupID :: string
  gqHandleResult :: int
  gqReqMsg :: string
  gqHandledMsg :: string
  gqReqTime :: "int option"
  gqHandleUserID :: string
  gqHandledTime :: "int option"
  gqJoinSource :: int
  gqInviterUserID :: string
  gqEx :: string

text \<open>The messages a client gets: a group and a member in full.\<close>

record GroupInfo =
  giGroupID :: string
  giGroupName :: string
  giNotification :: string
  giIntroduction :: string
  giFaceURL :: string
  giOwnerUserID :: string
  giCreateTime :: int
  giMemberCount :: int
  giEx :: string
  giStatus :: int
  giCreatorUserID :: string
  giGroupType :: int
  giNeedVerification :: int
  giLookMemberInfo :: int
  giApplyMemberFriend :: int
  giNotificationUpdateTime :: int
  giNotificationUserID :: string

record GroupMemberFullInfo =
  mfGroupID :: string
  mfUserID :: string
  mfRoleLevel :: int
  mfJoinTime :: int
  mfNickname :: string
  mfFaceURL :: string
  mfAppMangerLevel :: int
  mfJoinSource :: int
  mfOperatorUserID :: string
  mfEx :: string
  mfMuteEndTime :: int
  mfInviterUserID :: string

text \<open>A notification, with the members it is about and the version of the member log it announces.\<close>

record GroupNotice =
  gnFrom :: string
  gnTo :: string
  gnType :: int
  gnGroup :: "GroupInfo option"
  gnOpUser :: "GroupMemberFullInfo option"
  gnUsers :: "GroupMemberFullInfo list"
  gnVersion :: nat
  gnVersionID :: string
  gnSortVersion :: nat

text \<open>What the service asks of the message and the conversation service.\<close>

datatype peer_call =
    SetUserConversationsMinSeq string "string list" int
  | CreateGroupChatConversations string "string list"
  | SetConversationMaxSeq string "string list" int
  | SetConversations string "string list"

record group_world = friend_world +
  groupDocs :: "Group list"
  memberDocs :: "GroupMember list"
  groupReqDocs :: "GroupRequest list"
  groupNotices :: "GroupNotice list"
  peerCalls :: "peer_call list"

definition GroupOwner :: int where "GroupOwner = 100"
definition GroupAdmin :: int where "GroupAdmin = 60"
definition GroupOrdinaryUsers :: int where "GroupOrdinaryUsers = 20"

definition GroupOk :: int where "GroupOk = 0"
definition GroupStatusDismissed :: int where "GroupStatusDismissed = 2"
definition GroupStatusMuted :: int where "GroupStatusMuted = 3"

text \<open>
  Parameters. \<open>gIncr\<close> is \<^verbatim>\<open>mongoutil.IncrVersion\<close> with any number of functions; \<open>gRegex\<close> matches a keyword, \<open>gDay\<close> is the day of a time,
  \<open>gPaginate\<close>, \<open>gSingle\<close> and \<open>gOrder\<close> are helpers on slices; \<open>gTopics\<close> is the topic of the group cache in the configuration; \<open>gMembersHash\<close> is the
  MD5 sum of a JSON text; the others are the JSON codecs of groups and members.
\<close>

record 'w group_tools = "'w relation_tools" +
  gIncr :: "('w, unit) prog list \<Rightarrow> ('w, unit) prog"
  gTopics :: "string list"
  gRegex :: "string \<Rightarrow> string \<Rightarrow> bool"
  gDay :: "int \<Rightarrow> string"
  gPaginate :: "nat list \<Rightarrow> int \<Rightarrow> int \<Rightarrow> nat list"
  gSingle :: "string list \<Rightarrow> string list \<Rightarrow> string list"
  gOrder :: "string list \<Rightarrow> Group list \<Rightarrow> Group list"
  gSort :: "string list \<Rightarrow> string list"
  gMembersHash :: "GroupMemberFullInfo list \<Rightarrow> int"
  encGroup :: "Group \<Rightarrow> cached"
  decGroup :: "cached \<Rightarrow> Group option"
  encMember :: "GroupMember \<Rightarrow> cached"
  decMember :: "cached \<Rightarrow> GroupMember option"

definition sliceMap :: "('a \<Rightarrow> string) \<Rightarrow> 'a list \<Rightarrow> string \<rightharpoonup> 'a" where
  "sliceMap key xs = map_of (rev (map (\<lambda>x. (key x, x)) xs))"

definition Paginate :: "('w, 't) group_tools_scheme \<Rightarrow> 'd list \<Rightarrow> pagination \<Rightarrow> 'd list" where
  "Paginate T ds p = map ((!) ds) (filter (\<lambda>i. i < length ds) (gPaginate T [0..<length ds] (pageNumber p) (showNumber p)))"

definition uint32 :: "int \<Rightarrow> int" where "uint32 n = n mod 2 ^ 32"

section \<open>The collection of groups\<close>

definition isGroup :: "string \<Rightarrow> Group \<Rightarrow> bool" where
  "isGroup groupId d \<longleftrightarrow> gpGroupID d = groupId"

text \<open>An ordered insertion stops at the first document that violates the unique index.\<close>

fun insertGroupDocs :: "Group list \<Rightarrow> Group list \<Rightarrow> err option \<times> Group list" where
  "insertGroupDocs [] ds = (None, ds)"
| "insertGroupDocs (g # gs) ds =
     (if list_ex (isGroup (gpGroupID g)) ds then (Some MongoDuplicateKey, ds) else insertGroupDocs gs (ds @ [g]))"

definition group_Create :: "Group list \<Rightarrow> ('e group_world_scheme, unit) prog" where
  "group_Create gs = io (\<lambda>w. case insertGroupDocs gs (groupDocs w) of (e, ds) \<Rightarrow>
     ((case e of Some e \<Rightarrow> Inl e | None \<Rightarrow> Inr ()), w\<lparr>groupDocs := ds\<rparr>))"

datatype group_field =
    SetGroupName string
  | SetNotification string
  | SetNotificationUpdateTime "int option"
  | SetNotificationUserID string
  | SetIntroduction string
  | SetGroupFaceURL string
  | SetNeedVerification int
  | SetLookMemberInfo int
  | SetApplyMemberFriend int
  | SetGroupEx string
  | SetStatus int

fun setGroupField :: "group_field \<Rightarrow> Group \<Rightarrow> Group" where
  "setGroupField (SetGroupName s) g = g\<lparr>gpGroupName := s\<rparr>"
| "setGroupField (SetNotification s) g = g\<lparr>gpNotification := s\<rparr>"
| "setGroupField (SetNotificationUpdateTime t) g = g\<lparr>gpNotificationUpdateTime := t\<rparr>"
| "setGroupField (SetNotificationUserID s) g = g\<lparr>gpNotificationUserID := s\<rparr>"
| "setGroupField (SetIntroduction s) g = g\<lparr>gpIntroduction := s\<rparr>"
| "setGroupField (SetGroupFaceURL s) g = g\<lparr>gpFaceURL := s\<rparr>"
| "setGroupField (SetNeedVerification n) g = g\<lparr>gpNeedVerification := n\<rparr>"
| "setGroupField (SetLookMemberInfo n) g = g\<lparr>gpLookMemberInfo := n\<rparr>"
| "setGroupField (SetApplyMemberFriend n) g = g\<lparr>gpApplyMemberFriend := n\<rparr>"
| "setGroupField (SetGroupEx s) g = g\<lparr>gpEx := s\<rparr>"
| "setGroupField (SetStatus n) g = g\<lparr>gpStatus := n\<rparr>"

definition setGroupFields :: "group_field list \<Rightarrow> Group \<Rightarrow> Group" where
  "setGroupFields args g = foldl (\<lambda>g a. setGroupField a g) g args"

definition group_UpdateMap :: "string \<Rightarrow> group_field list \<Rightarrow> ('e group_world_scheme, unit) prog" where
  "group_UpdateMap groupId args =
     (if length args = 0 then ret ()
      else io (\<lambda>w. if list_ex (isGroup groupId) (groupDocs w)
        then (Inr (), w\<lparr>groupDocs := updFirst (isGroup groupId) (setGroupFields args) (groupDocs w)\<rparr>)
        else (Inl MongoNoDocuments, w)))"

definition group_UpdateStatus :: "string \<Rightarrow> int \<Rightarrow> ('e group_world_scheme, unit) prog" where
  "group_UpdateStatus groupId st = group_UpdateMap groupId [SetStatus st]"

definition group_Find :: "string list \<Rightarrow> ('e group_world_scheme, Group list) prog" where
  "group_Find groupIDs = io (gets (\<lambda>w. filter (\<lambda>d. gpGroupID d \<in> set groupIDs) (groupDocs w)))"

definition group_Take :: "string \<Rightarrow> ('e group_world_scheme, Group) prog" where
  "group_Take groupId = io (\<lambda>w. case List.find (isGroup groupId) (groupDocs w) of
     None \<Rightarrow> (Inl MongoNoDocuments, w) | Some g \<Rightarrow> (Inr g, w))"

definition group_Search ::
  "('w, 't) group_tools_scheme \<Rightarrow> string \<Rightarrow> pagination \<Rightarrow> ('e group_world_scheme, int \<times> Group list) prog" where
  "group_Search T keyword p = io (gets (\<lambda>w.
     let gs = sort_key (\<lambda>g. - unixMilli (gpCreateTime g))
           (filter (\<lambda>g. gRegex T keyword (gpGroupName g) \<and> gpStatus g \<noteq> GroupStatusDismissed) (groupDocs w)) in
     (int (length gs), pageOf T gs p)))"

definition group_CountTotal :: "int option \<Rightarrow> ('e group_world_scheme, int) prog" where
  "group_CountTotal before = io (gets (\<lambda>w. case before of
     None \<Rightarrow> int (length (groupDocs w))
   | Some t \<Rightarrow> int (length (filter (\<lambda>g. unixMilli (gpCreateTime g) < t) (groupDocs w)))))"

definition group_CountRangeEverydayTotal ::
  "('w, 't) group_tools_scheme \<Rightarrow> int \<Rightarrow> int \<Rightarrow> ('e group_world_scheme, (string \<times> int) list) prog" where
  "group_CountRangeEverydayTotal T start end' = io (gets (\<lambda>w.
     foldl (\<lambda>m d. AList.update d (mapGet 0 m d + 1) m) []
       (map (\<lambda>g. gDay T (unixMilli (gpCreateTime g)))
         (filter (\<lambda>g. start \<le> unixMilli (gpCreateTime g) \<and> unixMilli (gpCreateTime g) < end') (groupDocs w)))))"

text \<open>By name, then by time; below two groups nothing is looked up, so that a dismissed group stays.\<close>

definition sortGroup :: "Group list \<Rightarrow> Group list" where
  "sortGroup gs = sort_key (\<lambda>g. (gpGroupName g, unixMilli (gpCreateTime g))) gs"

definition group_FindJoinSortGroupID :: "string list \<Rightarrow> ('e group_world_scheme, string list) prog" where
  "group_FindJoinSortGroupID groupIDs =
     (if length groupIDs < 2 then ret groupIDs
      else io (gets (\<lambda>w. map gpGroupID (sortGroup
        (filter (\<lambda>g. gpGroupID g \<in> set groupIDs \<and> gpStatus g \<noteq> GroupStatusDismissed) (groupDocs w))))))"

definition group_SearchJoin ::
  "('w, 't) group_tools_scheme \<Rightarrow> string list \<Rightarrow> string \<Rightarrow> pagination \<Rightarrow> ('e group_world_scheme, int \<times> Group list) prog" where
  "group_SearchJoin T groupIDs keyword p =
     (if length groupIDs = 0 then ret (0, [])
      else io (gets (\<lambda>w.
        let gs = sortGroup (filter (\<lambda>g. gpGroupID g \<in> set groupIDs \<and> gpStatus g \<noteq> GroupStatusDismissed \<and>
              (keyword = '''' \<or> gRegex T keyword (gpGroupName g))) (groupDocs w)) in
        (int (length gs), pageOf T gs p))))"

section \<open>The collection of members\<close>

definition GroupMemberVersionName :: string where "GroupMemberVersionName = ''group_member_version''"
definition GroupJoinVersionName :: string where "GroupJoinVersionName = ''group_join_version''"

definition isMember :: "string \<Rightarrow> string \<Rightarrow> GroupMember \<Rightarrow> bool" where
  "isMember groupId userID m \<longleftrightarrow> gmGroupID m = groupId \<and> gmUserID m = userID"

text \<open>
  By role, highest first. The second key of the source, \<^verbatim>\<open>create_time\<close>, is not a field of a member (\<^verbatim>\<open>join_time\<close> is): members of one role keep the
  order of the collection.
\<close>

definition memberSort :: "GroupMember list \<Rightarrow> GroupMember list" where
  "memberSort ms = sort_key (\<lambda>m. - gmRoleLevel m) ms"

fun insertMemberDocs :: "GroupMember list \<Rightarrow> GroupMember list \<Rightarrow> err option \<times> GroupMember list" where
  "insertMemberDocs [] ds = (None, ds)"
| "insertMemberDocs (m # ms) ds =
     (if list_ex (isMember (gmGroupID m) (gmUserID m)) ds then (Some MongoDuplicateKey, ds) else insertMemberDocs ms (ds @ [m]))"

definition member_InsertMany :: "GroupMember list \<Rightarrow> ('e group_world_scheme, unit) prog" where
  "member_InsertMany ms = io (\<lambda>w. case insertMemberDocs ms (memberDocs w) of (e, ds) \<Rightarrow>
     ((case e of Some e \<Rightarrow> Inl e | None \<Rightarrow> Inr ()), w\<lparr>memberDocs := ds\<rparr>))"

text \<open>A map from one text to the others that come with it, in the order of first appearance (Go walks over it in any order).\<close>

definition collect :: "('a \<Rightarrow> string) \<Rightarrow> ('a \<Rightarrow> string) \<Rightarrow> 'a list \<Rightarrow> (string \<times> string list) list" where
  "collect key val xs = foldl (\<lambda>gms x. AList.update (key x) (mapGet [] gms (key x) @ [val x]) gms) [] xs"

definition member_Create ::
  "('e group_world_scheme, 't) group_tools_scheme \<Rightarrow> GroupMember list \<Rightarrow> ('e group_world_scheme, unit) prog" where
  "member_Create T groupMembers = gIncr T [
     member_InsertMany groupMembers,
     forM (collect gmGroupID gmUserID groupMembers) (\<lambda>(groupId, userIDs).
       IncrVersion GroupMemberVersionName groupId userIDs VersionStateInsert),
     forM (collect gmUserID gmGroupID groupMembers) (\<lambda>(userID, groupIDs).
       IncrVersion GroupJoinVersionName userID groupIDs VersionStateInsert)]"

definition deletes :: "string \<Rightarrow> string list \<Rightarrow> GroupMember \<Rightarrow> bool" where
  "deletes groupId userIDs m \<longleftrightarrow> gmGroupID m = groupId \<and> (length userIDs > 0 \<longrightarrow> gmUserID m \<in> set userIDs)"

definition member_Delete ::
  "('e group_world_scheme, 't) group_tools_scheme \<Rightarrow> string \<Rightarrow> string list \<Rightarrow> ('e group_world_scheme, unit) prog" where
  "member_Delete T groupId userIDs = gIncr T [
     io (modifyM (\<lambda>w. w\<lparr>memberDocs := filter (\<lambda>m. \<not> deletes groupId userIDs m) (memberDocs w)\<rparr>)),
     if length userIDs = 0 then DeleteVersion GroupMemberVersionName groupId
     else IncrVersion GroupMemberVersionName groupId userIDs VersionStateDelete,
     forM userIDs (\<lambda>userID. IncrVersion GroupJoinVersionName userID [groupId] VersionStateDelete)]"

datatype member_field =
    SetNickname string
  | SetFaceURL string
  | SetRoleLevel int
  | SetMemberEx string
  | SetMuteEndTime "int option"

fun setMemberField :: "member_field \<Rightarrow> GroupMember \<Rightarrow> GroupMember" where
  "setMemberField (SetNickname s) m = m\<lparr>gmNickname := s\<rparr>"
| "setMemberField (SetFaceURL s) m = m\<lparr>gmFaceURL := s\<rparr>"
| "setMemberField (SetRoleLevel n) m = m\<lparr>gmRoleLevel := n\<rparr>"
| "setMemberField (SetMemberEx s) m = m\<lparr>gmEx := s\<rparr>"
| "setMemberField (SetMuteEndTime t) m = m\<lparr>gmMuteEndTime := t\<rparr>"

definition setMemberFields :: "member_field list \<Rightarrow> GroupMember \<Rightarrow> GroupMember" where
  "setMemberFields data m = foldl (\<lambda>m a. setMemberField a m) m data"

text \<open>\<^verbatim>\<open>UpdateOne\<close> of a member, which is an error when there is none.\<close>

definition member_set :: "string \<Rightarrow> string \<Rightarrow> member_field list \<Rightarrow> ('e group_world_scheme, unit) prog" where
  "member_set groupId userID data = io (\<lambda>w. if list_ex (isMember groupId userID) (memberDocs w)
     then (Inr (), w\<lparr>memberDocs := updFirst (isMember groupId userID) (setMemberFields data) (memberDocs w)\<rparr>)
     else (Inl MongoNoDocuments, w))"

definition member_UpdateRoleLevel ::
  "('e group_world_scheme, 't) group_tools_scheme \<Rightarrow> string \<Rightarrow> string \<Rightarrow> int \<Rightarrow> ('e group_world_scheme, unit) prog" where
  "member_UpdateRoleLevel T groupId userID roleLevel = gIncr T [
     member_set groupId userID [SetRoleLevel roleLevel],
     IncrVersion GroupMemberVersionName groupId [VersionSortChangeID, userID] VersionStateUpdate]"

definition member_UpdateUserRoleLevels ::
  "('e group_world_scheme, 't) group_tools_scheme \<Rightarrow> string \<Rightarrow> string \<Rightarrow> int \<Rightarrow> string \<Rightarrow> int \<Rightarrow> ('e group_world_scheme, unit) prog" where
  "member_UpdateUserRoleLevels T groupId firstUserID firstUserRoleLevel secondUserID secondUserRoleLevel = gIncr T [
     thenM (member_set groupId firstUserID [SetRoleLevel firstUserRoleLevel])
       (member_set groupId secondUserID [SetRoleLevel secondUserRoleLevel]),
     IncrVersion GroupMemberVersionName groupId [VersionSortChangeID, firstUserID, secondUserID] VersionStateUpdate]"

definition IsUpdateRoleLevel :: "member_field list \<Rightarrow> bool" where
  "IsUpdateRoleLevel data \<longleftrightarrow> list_ex (\<lambda>a. case a of SetRoleLevel _ \<Rightarrow> True | _ \<Rightarrow> False) data"

definition member_Update ::
  "('e group_world_scheme, 't) group_tools_scheme \<Rightarrow> string \<Rightarrow> string \<Rightarrow> member_field list \<Rightarrow> ('e group_world_scheme, unit) prog" where
  "member_Update T groupId userID data =
     (if length data = 0 then ret ()
      else gIncr T [member_set groupId userID data,
        IncrVersion GroupMemberVersionName groupId
          (if IsUpdateRoleLevel data then [VersionSortChangeID, userID] else [userID]) VersionStateUpdate])"

definition member_find :: "(GroupMember \<Rightarrow> bool) \<Rightarrow> ('e group_world_scheme, GroupMember list) prog" where
  "member_find flt = io (gets (\<lambda>w. filter flt (memberDocs w)))"

definition member_findOne :: "(GroupMember \<Rightarrow> bool) \<Rightarrow> ('e group_world_scheme, GroupMember) prog" where
  "member_findOne flt = io (\<lambda>w. case List.find flt (memberDocs w) of None \<Rightarrow> (Inl MongoNoDocuments, w) | Some m \<Rightarrow> (Inr m, w))"

definition member_FindMemberUserID :: "string \<Rightarrow> ('e group_world_scheme, string list) prog" where
  "member_FindMemberUserID groupId =
     io (gets (\<lambda>w. map gmUserID (memberSort (filter (\<lambda>m. gmGroupID m = groupId) (memberDocs w)))))"

definition member_Find :: "string \<Rightarrow> string list \<Rightarrow> ('e group_world_scheme, GroupMember list) prog" where
  "member_Find groupId userIDs = member_find (\<lambda>m. gmGroupID m = groupId \<and> (length userIDs > 0 \<longrightarrow> gmUserID m \<in> set userIDs))"

definition member_FindInGroup :: "string \<Rightarrow> string list \<Rightarrow> ('e group_world_scheme, GroupMember list) prog" where
  "member_FindInGroup userID groupIDs = member_find (\<lambda>m. gmUserID m = userID \<and> (length groupIDs > 0 \<longrightarrow> gmGroupID m \<in> set groupIDs))"

definition member_Take :: "string \<Rightarrow> string \<Rightarrow> ('e group_world_scheme, GroupMember) prog" where
  "member_Take groupId userID = member_findOne (isMember groupId userID)"

definition member_TakeOwner :: "string \<Rightarrow> ('e group_world_scheme, GroupMember) prog" where
  "member_TakeOwner groupId = member_findOne (\<lambda>m. gmGroupID m = groupId \<and> gmRoleLevel m = GroupOwner)"

definition member_FindRoleLevelUserIDs :: "string \<Rightarrow> int \<Rightarrow> ('e group_world_scheme, string list) prog" where
  "member_FindRoleLevelUserIDs groupId roleLevel =
     io (gets (\<lambda>w. map gmUserID (filter (\<lambda>m. gmGroupID m = groupId \<and> gmRoleLevel m = roleLevel) (memberDocs w))))"

definition member_SearchMember ::
  "('w, 't) group_tools_scheme \<Rightarrow> string \<Rightarrow> string \<Rightarrow> pagination \<Rightarrow> ('e group_world_scheme, int \<times> GroupMember list) prog" where
  "member_SearchMember T keyword groupId p = io (gets (\<lambda>w.
     let ms = memberSort (filter (\<lambda>m. gmGroupID m = groupId \<and> gRegex T keyword (gmNickname m)) (memberDocs w)) in
     (int (length ms), pageOf T ms p)))"

definition member_FindUserJoinedGroupID :: "string \<Rightarrow> ('e group_world_scheme, string list) prog" where
  "member_FindUserJoinedGroupID userID =
     io (gets (\<lambda>w. map gmGroupID (memberSort (filter (\<lambda>m. gmUserID m = userID) (memberDocs w)))))"

definition member_TakeGroupMemberNum :: "string \<Rightarrow> ('e group_world_scheme, int) prog" where
  "member_TakeGroupMemberNum groupId = io (gets (\<lambda>w. int (length (filter (\<lambda>m. gmGroupID m = groupId) (memberDocs w)))))"

definition member_FindUserManagedGroupID :: "string \<Rightarrow> ('e group_world_scheme, string list) prog" where
  "member_FindUserManagedGroupID userID =
     io (gets (\<lambda>w. map gmGroupID (filter (\<lambda>m. gmUserID m = userID \<and> gmRoleLevel m \<in> {GroupOwner, GroupAdmin}) (memberDocs w))))"

definition member_JoinGroupIncrVersion :: "string \<Rightarrow> string list \<Rightarrow> int \<Rightarrow> ('e group_world_scheme, unit) prog" where
  "member_JoinGroupIncrVersion userID groupIDs state = IncrVersion GroupJoinVersionName userID groupIDs state"

definition member_MemberGroupIncrVersion :: "string \<Rightarrow> string list \<Rightarrow> int \<Rightarrow> ('e group_world_scheme, unit) prog" where
  "member_MemberGroupIncrVersion groupId userIDs state = IncrVersion GroupMemberVersionName groupId userIDs state"

definition member_FindMemberIncrVersion :: "string \<Rightarrow> nat \<Rightarrow> int \<Rightarrow> ('e group_world_scheme, VersionLog) prog" where
  "member_FindMemberIncrVersion groupId version limit = FindChangeLog GroupMemberVersionName groupId version limit"

definition member_BatchFindMemberIncrVersion ::
  "string list \<Rightarrow> nat list \<Rightarrow> int list \<Rightarrow> ('e group_world_scheme, VersionLog list) prog" where
  "member_BatchFindMemberIncrVersion groupIDs versions limits = BatchFindChangeLog GroupMemberVersionName groupIDs versions limits"

definition member_FindJoinIncrVersion :: "string \<Rightarrow> nat \<Rightarrow> int \<Rightarrow> ('e group_world_scheme, VersionLog) prog" where
  "member_FindJoinIncrVersion userID version limit = FindChangeLog GroupJoinVersionName userID version limit"

section \<open>The collection of requests to join\<close>

definition isGroupReq :: "string \<Rightarrow> string \<Rightarrow> GroupRequest \<Rightarrow> bool" where
  "isGroupReq groupId userID r \<longleftrightarrow> gqGroupID r = groupId \<and> gqUserID r = userID"

fun insertGroupReqDocs :: "GroupRequest list \<Rightarrow> GroupRequest list \<Rightarrow> err option \<times> GroupRequest list" where
  "insertGroupReqDocs [] ds = (None, ds)"
| "insertGroupReqDocs (r # rs) ds =
     (if list_ex (isGroupReq (gqGroupID r) (gqUserID r)) ds then (Some MongoDuplicateKey, ds) else insertGroupReqDocs rs (ds @ [r]))"

definition greq_Create :: "GroupRequest list \<Rightarrow> ('e group_world_scheme, unit) prog" where
  "greq_Create rs = io (\<lambda>w. case insertGroupReqDocs rs (groupReqDocs w) of (e, ds) \<Rightarrow>
     ((case e of Some e \<Rightarrow> Inl e | None \<Rightarrow> Inr ()), w\<lparr>groupReqDocs := ds\<rparr>))"

definition greq_Delete :: "string \<Rightarrow> string \<Rightarrow> ('e group_world_scheme, unit) prog" where
  "greq_Delete groupId userID = io (modifyM (\<lambda>w. w\<lparr>groupReqDocs := removeFirst (isGroupReq groupId userID) (groupReqDocs w)\<rparr>))"

text \<open>Neither the handler nor the time of an answer is stored.\<close>

definition greq_UpdateHandler :: "string \<Rightarrow> string \<Rightarrow> string \<Rightarrow> int \<Rightarrow> ('e group_world_scheme, unit) prog" where
  "greq_UpdateHandler groupId userID handledMsg handleResult = io (\<lambda>w. if list_ex (isGroupReq groupId userID) (groupReqDocs w)
     then (Inr (), w\<lparr>groupReqDocs := updFirst (isGroupReq groupId userID)
       (\<lambda>r. r\<lparr>gqHandledMsg := handledMsg, gqHandleResult := handleResult\<rparr>) (groupReqDocs w)\<rparr>)
     else (Inl MongoNoDocuments, w))"

definition greq_Take :: "string \<Rightarrow> string \<Rightarrow> ('e group_world_scheme, GroupRequest) prog" where
  "greq_Take groupId userID = io (\<lambda>w. case List.find (isGroupReq groupId userID) (groupReqDocs w) of
     None \<Rightarrow> (Inl MongoNoDocuments, w) | Some r \<Rightarrow> (Inr r, w))"

definition greq_FindGroupRequests :: "string \<Rightarrow> string list \<Rightarrow> ('e group_world_scheme, GroupRequest list) prog" where
  "greq_FindGroupRequests groupId userIDs =
     io (gets (\<lambda>w. filter (\<lambda>r. gqGroupID r = groupId \<and> gqUserID r \<in> set userIDs) (groupReqDocs w)))"

definition greq_Page ::
  "('w, 't) group_tools_scheme \<Rightarrow> string \<Rightarrow> pagination \<Rightarrow> ('e group_world_scheme, int \<times> GroupRequest list) prog" where
  "greq_Page T userID p = io (gets (\<lambda>w. let rs = filter (\<lambda>r. gqUserID r = userID) (groupReqDocs w) in (int (length rs), pageOf T rs p)))"

definition greq_PageGroup ::
  "('w, 't) group_tools_scheme \<Rightarrow> string list \<Rightarrow> pagination \<Rightarrow> ('e group_world_scheme, int \<times> GroupRequest list) prog" where
  "greq_PageGroup T groupIDs p = io (gets (\<lambda>w.
     let rs = filter (\<lambda>r. gqGroupID r \<in> set groupIDs) (groupReqDocs w) in (int (length rs), pageOf T rs p)))"

section \<open>The cache\<close>

definition GetGroupInfoKey :: "string \<Rightarrow> string" where "GetGroupInfoKey groupId = ''GROUP_INFO:'' @ groupId"
definition GetJoinedGroupsKey :: "string \<Rightarrow> string" where "GetJoinedGroupsKey userID = ''JOIN_GROUPS_KEY:'' @ userID"
definition GetGroupMembersHashKey :: "string \<Rightarrow> string" where "GetGroupMembersHashKey groupId = ''GROUP_MEMBERS_HASH2:'' @ groupId"
definition GetGroupMemberIDsKey :: "string \<Rightarrow> string" where "GetGroupMemberIDsKey groupId = ''GROUP_MEMBER_IDS:'' @ groupId"
definition GetGroupMemberInfoKey :: "string \<Rightarrow> string \<Rightarrow> string" where
  "GetGroupMemberInfoKey groupId userID = ''GROUP_MEMBER_INFO:'' @ groupId @ ''-'' @ userID"
definition GetGroupMemberNumKey :: "string \<Rightarrow> string" where "GetGroupMemberNumKey groupId = ''GROUP_MEMBER_NUM_CACHE:'' @ groupId"
definition GetGroupRoleLevelMemberIDsKey :: "string \<Rightarrow> int \<Rightarrow> string" where
  "GetGroupRoleLevelMemberIDsKey groupId roleLevel = ''GROUP_ROLE_LEVEL_MEMBER_IDS:'' @ groupId @ ''-'' @ itoa roleLevel"
definition GetGroupMemberMaxVersionKey :: "string \<Rightarrow> string" where
  "GetGroupMemberMaxVersionKey groupId = ''GROUP_MEMBER_MAX_VERSION:'' @ groupId"
definition GetJoinGroupMaxVersionKey :: "string \<Rightarrow> string" where
  "GetJoinGroupMaxVersionKey userID = ''GROUP_JOIN_MAX_VERSION:'' @ userID"

text \<open>A chain of deletions collects keys.\<close>

definition DelGroupsInfo :: "string list \<Rightarrow> string list \<Rightarrow> string list" where
  "DelGroupsInfo groupIDs keys = keys @ map GetGroupInfoKey groupIDs"
definition DelGroupsOwner :: "string list \<Rightarrow> string list \<Rightarrow> string list" where
  "DelGroupsOwner groupIDs keys = keys @ map (\<lambda>groupId. GetGroupRoleLevelMemberIDsKey groupId GroupOwner) groupIDs"
definition DelGroupRoleLevel :: "string \<Rightarrow> int list \<Rightarrow> string list \<Rightarrow> string list" where
  "DelGroupRoleLevel groupId roleLevels keys = keys @ map (GetGroupRoleLevelMemberIDsKey groupId) roleLevels"
definition DelGroupAllRoleLevel :: "string \<Rightarrow> string list \<Rightarrow> string list" where
  "DelGroupAllRoleLevel groupId keys = DelGroupRoleLevel groupId [GroupOwner, GroupAdmin, GroupOrdinaryUsers] keys"
definition DelGroupMembersHash :: "string \<Rightarrow> string list \<Rightarrow> string list" where
  "DelGroupMembersHash groupId keys = keys @ [GetGroupMembersHashKey groupId]"
definition DelGroupMemberIDs :: "string \<Rightarrow> string list \<Rightarrow> string list" where
  "DelGroupMemberIDs groupId keys = keys @ [GetGroupMemberIDsKey groupId]"
definition DelJoinedGroupID :: "string list \<Rightarrow> string list \<Rightarrow> string list" where
  "DelJoinedGroupID userIDs keys = keys @ map GetJoinedGroupsKey userIDs"
definition DelGroupMembersInfo :: "string \<Rightarrow> string list \<Rightarrow> string list \<Rightarrow> string list" where
  "DelGroupMembersInfo groupId userIDs keys = keys @ map (GetGroupMemberInfoKey groupId) userIDs"
definition DelGroupsMemberNum :: "string list \<Rightarrow> string list \<Rightarrow> string list" where
  "DelGroupsMemberNum groupIDs keys = keys @ map GetGroupMemberNumKey groupIDs"
definition DelMaxGroupMemberVersion :: "string list \<Rightarrow> string list \<Rightarrow> string list" where
  "DelMaxGroupMemberVersion groupIDs keys = keys @ map GetGroupMemberMaxVersionKey groupIDs"
definition DelMaxJoinGroupVersion :: "string list \<Rightarrow> string list \<Rightarrow> string list" where
  "DelMaxJoinGroupVersion userIDs keys = keys @ map GetJoinGroupMaxVersionKey userIDs"

definition groupChainDel :: "('w, 't) group_tools_scheme \<Rightarrow> string list \<Rightarrow> ('e group_world_scheme, unit) prog" where
  "groupChainDel T keys = ChainExecDel (fDistinct T) (gTopics T) keys"

definition cache_GetGroupsInfo ::
  "('w, 't) group_tools_scheme \<Rightarrow> string list \<Rightarrow> ('e group_world_scheme, Group list) prog" where
  "cache_GetGroupsInfo T groupIDs =
     batchGetCache2 (encGroup T) (decGroup T) (\<lambda>_ g. g) '''' groupIDs GetGroupInfoKey gpGroupID group_Find"

definition cache_GetGroupInfo :: "('w, 't) group_tools_scheme \<Rightarrow> string \<Rightarrow> ('e group_world_scheme, Group) prog" where
  "cache_GetGroupInfo T groupId = getCache (encGroup T) (decGroup T) (GetGroupInfoKey groupId) (group_Take groupId)"

definition cache_GetGroupMemberIDs ::
  "('w, 't) group_tools_scheme \<Rightarrow> string \<Rightarrow> ('e group_world_scheme, string list) prog" where
  "cache_GetGroupMemberIDs T groupId = getCache (encIDs T) (decIDs T) (GetGroupMemberIDsKey groupId) (member_FindMemberUserID groupId)"

definition findUserJoinedGroupID :: "string \<Rightarrow> ('e group_world_scheme, string list) prog" where
  "findUserJoinedGroupID userID = bindM (member_FindUserJoinedGroupID userID) (\<lambda>groupIDs. group_FindJoinSortGroupID groupIDs)"

definition GetJoinedGroupIDs :: "('w, 't) group_tools_scheme \<Rightarrow> string \<Rightarrow> ('e group_world_scheme, string list) prog" where
  "GetJoinedGroupIDs T userID = getCache (encIDs T) (decIDs T) (GetJoinedGroupsKey userID) (findUserJoinedGroupID userID)"

definition cache_GetGroupMemberInfo ::
  "('w, 't) group_tools_scheme \<Rightarrow> string \<Rightarrow> string \<Rightarrow> ('e group_world_scheme, GroupMember) prog" where
  "cache_GetGroupMemberInfo T groupId userID =
     getCache (encMember T) (decMember T) (GetGroupMemberInfoKey groupId userID) (member_Take groupId userID)"

definition cache_GetGroupMembersInfo ::
  "('w, 't) group_tools_scheme \<Rightarrow> string \<Rightarrow> string list \<Rightarrow> ('e group_world_scheme, GroupMember list) prog" where
  "cache_GetGroupMembersInfo T groupId userIDs =
     batchGetCache2 (encMember T) (decMember T) (\<lambda>_ m. m) '''' userIDs (GetGroupMemberInfoKey groupId) gmUserID (member_Find groupId)"

definition GetAllGroupMembersInfo ::
  "('w, 't) group_tools_scheme \<Rightarrow> string \<Rightarrow> ('e group_world_scheme, GroupMember list) prog" where
  "GetAllGroupMembersInfo T groupId =
     bindM (cache_GetGroupMemberIDs T groupId) (\<lambda>groupMemberIDs. cache_GetGroupMembersInfo T groupId groupMemberIDs)"

definition GetGroupMemberNum :: "string \<Rightarrow> ('e group_world_scheme, int) prog" where
  "GetGroupMemberNum groupId = getCache encInt decInt (GetGroupMemberNumKey groupId) (member_TakeGroupMemberNum groupId)"

definition cache_GetGroupRoleLevelMemberIDs ::
  "('w, 't) group_tools_scheme \<Rightarrow> string \<Rightarrow> int \<Rightarrow> ('e group_world_scheme, string list) prog" where
  "cache_GetGroupRoleLevelMemberIDs T groupId roleLevel =
     getCache (encIDs T) (decIDs T) (GetGroupRoleLevelMemberIDsKey groupId roleLevel) (member_FindRoleLevelUserIDs groupId roleLevel)"

definition GetGroupRoleLevelMemberInfo ::
  "('w, 't) group_tools_scheme \<Rightarrow> string \<Rightarrow> int \<Rightarrow> ('e group_world_scheme, GroupMember list) prog" where
  "GetGroupRoleLevelMemberInfo T groupId roleLevel =
     bindM (cache_GetGroupRoleLevelMemberIDs T groupId roleLevel) (\<lambda>userIDs. cache_GetGroupMembersInfo T groupId userIDs)"

definition GetGroupRolesLevelMemberInfo ::
  "('w, 't) group_tools_scheme \<Rightarrow> string \<Rightarrow> int list \<Rightarrow> ('e group_world_scheme, GroupMember list) prog" where
  "GetGroupRolesLevelMemberInfo T groupId roleLevels =
     bindM (foldM (\<lambda>roleLevel userIDs. bindM (cache_GetGroupRoleLevelMemberIDs T groupId roleLevel) (\<lambda>ids. ret (userIDs @ ids))) roleLevels [])
       (\<lambda>userIDs. cache_GetGroupMembersInfo T groupId userIDs)"

definition GetGroupOwner :: "('w, 't) group_tools_scheme \<Rightarrow> string \<Rightarrow> ('e group_world_scheme, GroupMember) prog" where
  "GetGroupOwner T groupId = bindM (GetGroupRoleLevelMemberInfo T groupId GroupOwner) (\<lambda>members.
     if length members = 0 then throw ErrRecordNotFound else idx members 0)"

definition GetGroupsOwner :: "('w, 't) group_tools_scheme \<Rightarrow> string list \<Rightarrow> ('e group_world_scheme, GroupMember list) prog" where
  "GetGroupsOwner T groupIDs = foldM (\<lambda>groupId members.
     bindM (GetGroupRoleLevelMemberInfo T groupId GroupOwner) (\<lambda>items.
       if length items > 0 then bindM (idx items 0) (\<lambda>m. ret (members @ [m])) else ret members)) groupIDs []"

definition cache_FindGroupMemberUser ::
  "('w, 't) group_tools_scheme \<Rightarrow> string list \<Rightarrow> string \<Rightarrow> ('e group_world_scheme, GroupMember list) prog" where
  "cache_FindGroupMemberUser T groupIDs userID =
     bindM (if length groupIDs = 0 then GetJoinedGroupIDs T userID else ret groupIDs) (\<lambda>groupIDs.
       batchGetCache2 (encMember T) (decMember T) (\<lambda>_ m. m) '''' groupIDs (\<lambda>groupId. GetGroupMemberInfoKey groupId userID) gmGroupID
         (member_FindInGroup userID))"

definition FindMaxGroupMemberVersion ::
  "('w, 't) group_tools_scheme \<Rightarrow> string \<Rightarrow> ('e group_world_scheme, VersionLog) prog" where
  "FindMaxGroupMemberVersion T groupId =
     getCache (encVL T) (decVL T) (GetGroupMemberMaxVersionKey groupId) (member_FindMemberIncrVersion groupId 0 0)"

definition BatchFindMaxGroupMemberVersion ::
  "('w, 't) group_tools_scheme \<Rightarrow> string list \<Rightarrow> ('e group_world_scheme, VersionLog list) prog" where
  "BatchFindMaxGroupMemberVersion T groupIDs =
     batchGetCache2 (encVL T) (decVL T) (\<lambda>_ v. v) '''' groupIDs GetGroupMemberMaxVersionKey vtDID
       (\<lambda>groupIDs. member_BatchFindMemberIncrVersion groupIDs (replicate (length groupIDs) 0) (replicate (length groupIDs) 0))"

definition FindMaxJoinGroupVersion ::
  "('w, 't) group_tools_scheme \<Rightarrow> string \<Rightarrow> ('e group_world_scheme, VersionLog) prog" where
  "FindMaxJoinGroupVersion T userID =
     getCache (encVL T) (decVL T) (GetJoinGroupMaxVersionKey userID) (member_FindJoinIncrVersion userID 0 0)"

end
