(* ===== verification/Group_Db.thy ===== *)
theory Group_Db
  imports Group_Store
begin

text \<open>
  The group database, \<^verbatim>\<open>storage/controller/group.go\<close>: each write changes the collections in a transaction and then takes the
  keys it makes wrong out of the cache, still inside the transaction.
\<close>

section \<open>Reading\<close>

definition FindJoinGroupID :: "('w, 't) group_tools_scheme \<Rightarrow> string \<Rightarrow> ('e group_world_scheme, string list) prog" where
  "FindJoinGroupID T userID = GetJoinedGroupIDs T userID"

definition FindGroupMembers ::
  "('w, 't) group_tools_scheme \<Rightarrow> string \<Rightarrow> string list \<Rightarrow> ('e group_world_scheme, GroupMember list) prog" where
  "FindGroupMembers T groupId userIDs = cache_GetGroupMembersInfo T groupId userIDs"

definition FindGroupMemberUser ::
  "('w, 't) group_tools_scheme \<Rightarrow> string list \<Rightarrow> string \<Rightarrow> ('e group_world_scheme, GroupMember list) prog" where
  "FindGroupMemberUser T groupIDs userID = cache_FindGroupMemberUser T groupIDs userID"

definition FindGroupMemberRoleLevels ::
  "('w, 't) group_tools_scheme \<Rightarrow> string \<Rightarrow> int list \<Rightarrow> ('e group_world_scheme, GroupMember list) prog" where
  "FindGroupMemberRoleLevels T groupId roleLevels = GetGroupRolesLevelMemberInfo T groupId roleLevels"

definition FindGroupMemberAll :: "('w, 't) group_tools_scheme \<Rightarrow> string \<Rightarrow> ('e group_world_scheme, GroupMember list) prog" where
  "FindGroupMemberAll T groupId = GetAllGroupMembersInfo T groupId"

definition FindGroupsOwner :: "('w, 't) group_tools_scheme \<Rightarrow> string list \<Rightarrow> ('e group_world_scheme, GroupMember list) prog" where
  "FindGroupsOwner T groupIDs = GetGroupsOwner T groupIDs"

definition GetGroupRoleLevelMemberIDs ::
  "('w, 't) group_tools_scheme \<Rightarrow> string \<Rightarrow> int \<Rightarrow> ('e group_world_scheme, string list) prog" where
  "GetGroupRoleLevelMemberIDs T groupId roleLevel = cache_GetGroupRoleLevelMemberIDs T groupId roleLevel"

definition FindGroupMemberUserID :: "('w, 't) group_tools_scheme \<Rightarrow> string \<Rightarrow> ('e group_world_scheme, string list) prog" where
  "FindGroupMemberUserID T groupId = cache_GetGroupMemberIDs T groupId"

definition FindGroupMemberNum :: "string \<Rightarrow> ('e group_world_scheme, int) prog" where
  "FindGroupMemberNum groupId = bindM (GetGroupMemberNum groupId) (\<lambda>num. ret (uint32 num))"

definition TakeGroup :: "('w, 't) group_tools_scheme \<Rightarrow> string \<Rightarrow> ('e group_world_scheme, Group) prog" where
  "TakeGroup T groupId = cache_GetGroupInfo T groupId"

definition FindGroup :: "('w, 't) group_tools_scheme \<Rightarrow> string list \<Rightarrow> ('e group_world_scheme, Group list) prog" where
  "FindGroup T groupIDs = cache_GetGroupsInfo T groupIDs"

definition SearchGroup ::
  "('w, 't) group_tools_scheme \<Rightarrow> string \<Rightarrow> pagination \<Rightarrow> ('e group_world_scheme, int \<times> Group list) prog" where
  "SearchGroup T keyword p = group_Search T keyword p"

definition TakeGroupMember :: "('w, 't) group_tools_scheme \<Rightarrow> string \<Rightarrow> string \<Rightarrow> ('e group_world_scheme, GroupMember) prog" where
  "TakeGroupMember T groupId userID = cache_GetGroupMemberInfo T groupId userID"

definition TakeGroupOwner :: "('w, 't) group_tools_scheme \<Rightarrow> string \<Rightarrow> ('e group_world_scheme, GroupMember) prog" where
  "TakeGroupOwner T groupId = GetGroupOwner T groupId"

definition FindUserManagedGroupID :: "string \<Rightarrow> ('e group_world_scheme, string list) prog" where
  "FindUserManagedGroupID userID = member_FindUserManagedGroupID userID"

definition PageGroupRequest ::
  "('w, 't) group_tools_scheme \<Rightarrow> string list \<Rightarrow> pagination \<Rightarrow> ('e group_world_scheme, int \<times> GroupRequest list) prog" where
  "PageGroupRequest T groupIDs p = greq_PageGroup T groupIDs p"

definition PageGetJoinGroup ::
  "('w, 't) group_tools_scheme \<Rightarrow> string \<Rightarrow> pagination \<Rightarrow> ('e group_world_scheme, int \<times> GroupMember list) prog" where
  "PageGetJoinGroup T userID p =
     bindM (GetJoinedGroupIDs T userID) (\<lambda>groupIDs.
     bindM (foldM (\<lambda>groupId totalGroupMembers. bindM (cache_GetGroupMembersInfo T groupId [userID]) (\<lambda>groupMembers.
         ret (totalGroupMembers @ groupMembers))) (Paginate T groupIDs p) []) (\<lambda>totalGroupMembers.
     ret (int (length groupIDs), totalGroupMembers)))"

definition PageGetGroupMember ::
  "('w, 't) group_tools_scheme \<Rightarrow> string \<Rightarrow> pagination \<Rightarrow> ('e group_world_scheme, int \<times> GroupMember list) prog" where
  "PageGetGroupMember T groupId p =
     bindM (cache_GetGroupMemberIDs T groupId) (\<lambda>groupMemberIDs.
     let pageIDs = Paginate T groupMemberIDs p in
     if length pageIDs = 0 then ret (int (length groupMemberIDs), [])
     else bindM (cache_GetGroupMembersInfo T groupId pageIDs) (\<lambda>members. ret (int (length groupMemberIDs), members)))"

definition SearchGroupMember ::
  "('w, 't) group_tools_scheme \<Rightarrow> string \<Rightarrow> string \<Rightarrow> pagination \<Rightarrow> ('e group_world_scheme, int \<times> GroupMember list) prog" where
  "SearchGroupMember T keyword groupId p = member_SearchMember T keyword groupId p"

definition MapGroupMemberNum :: "string list \<Rightarrow> ('e group_world_scheme, (string \<times> int) list) prog" where
  "MapGroupMemberNum groupIDs = foldM (\<lambda>groupId m. bindM (GetGroupMemberNum groupId) (\<lambda>num.
     ret (AList.update groupId (uint32 num) m))) groupIDs []"

definition TakeGroupRequest :: "string \<Rightarrow> string \<Rightarrow> ('e group_world_scheme, GroupRequest) prog" where
  "TakeGroupRequest groupId userID = greq_Take groupId userID"

definition PageGroupRequestUser ::
  "('w, 't) group_tools_scheme \<Rightarrow> string \<Rightarrow> pagination \<Rightarrow> ('e group_world_scheme, int \<times> GroupRequest list) prog" where
  "PageGroupRequestUser T userID p = greq_Page T userID p"

definition CountTotal :: "int option \<Rightarrow> ('e group_world_scheme, int) prog" where
  "CountTotal before = group_CountTotal before"

definition CountRangeEverydayTotal ::
  "('w, 't) group_tools_scheme \<Rightarrow> int \<Rightarrow> int \<Rightarrow> ('e group_world_scheme, (string \<times> int) list) prog" where
  "CountRangeEverydayTotal T start end' = group_CountRangeEverydayTotal T start end'"

definition FindGroupRequests :: "string \<Rightarrow> string list \<Rightarrow> ('e group_world_scheme, GroupRequest list) prog" where
  "FindGroupRequests groupId userIDs = greq_FindGroupRequests groupId userIDs"

definition FindMemberIncrVersion :: "string \<Rightarrow> nat \<Rightarrow> int \<Rightarrow> ('e group_world_scheme, VersionLog) prog" where
  "FindMemberIncrVersion groupId version limit = member_FindMemberIncrVersion groupId version limit"

definition BatchFindMemberIncrVersion ::
  "string list \<Rightarrow> nat list \<Rightarrow> int list \<Rightarrow> ('e group_world_scheme, string \<rightharpoonup> VersionLog) prog" where
  "BatchFindMemberIncrVersion groupIDs versions limits =
     (if length groupIDs = 0 then throw (ErrNew ''groupIDs is nil.'')
      else bindM (member_BatchFindMemberIncrVersion groupIDs versions limits) (\<lambda>versionLogs. ret (sliceMap vtDID versionLogs)))"

definition FindJoinIncrVersion :: "string \<Rightarrow> nat \<Rightarrow> int \<Rightarrow> ('e group_world_scheme, VersionLog) prog" where
  "FindJoinIncrVersion userID version limit = member_FindJoinIncrVersion userID version limit"

definition FindMaxGroupMemberVersionCache ::
  "('w, 't) group_tools_scheme \<Rightarrow> string \<Rightarrow> ('e group_world_scheme, VersionLog) prog" where
  "FindMaxGroupMemberVersionCache T groupId = FindMaxGroupMemberVersion T groupId"

definition BatchFindMaxGroupMemberVersionCache ::
  "('w, 't) group_tools_scheme \<Rightarrow> string list \<Rightarrow> ('e group_world_scheme, string \<rightharpoonup> VersionLog) prog" where
  "BatchFindMaxGroupMemberVersionCache T groupIDs =
     (if length groupIDs = 0 then throw (ErrNew ''groupIDs is nil in Cache.'')
      else bindM (BatchFindMaxGroupMemberVersion T groupIDs) (\<lambda>versionLogs. ret (sliceMap vtDID versionLogs)))"

definition FindMaxJoinGroupVersionCache ::
  "('w, 't) group_tools_scheme \<Rightarrow> string \<Rightarrow> ('e group_world_scheme, VersionLog) prog" where
  "FindMaxJoinGroupVersionCache T userID = FindMaxJoinGroupVersion T userID"

definition SearchJoinGroup ::
  "('w, 't) group_tools_scheme \<Rightarrow> string \<Rightarrow> string \<Rightarrow> pagination \<Rightarrow> ('e group_world_scheme, int \<times> Group list) prog" where
  "SearchJoinGroup T userID keyword p = bindM (GetJoinedGroupIDs T userID) (\<lambda>groupIDs. group_SearchJoin T groupIDs keyword p)"

section \<open>Writing\<close>

definition createGroupKeys :: "Group list \<Rightarrow> string list" where
  "createGroupKeys groups = foldl (\<lambda>c group. let g = gpGroupID group in
     DelMaxGroupMemberVersion [g] (DelGroupAllRoleLevel g (DelGroupMemberIDs g (DelGroupsMemberNum [g]
       (DelGroupMembersHash g (DelGroupMembersHash g (DelGroupsInfo [g] c))))))) [] groups"

definition createMemberKeys :: "GroupMember list \<Rightarrow> string list \<Rightarrow> string list" where
  "createMemberKeys groupMembers keys = foldl (\<lambda>c groupMember. let g = gmGroupID groupMember; u = gmUserID groupMember in
     DelMaxGroupMemberVersion [g] (DelMaxJoinGroupVersion [u] (DelGroupAllRoleLevel g (DelGroupMembersInfo g [u]
       (DelJoinedGroupID [u] (DelGroupMemberIDs g (DelGroupsMemberNum [g] (DelGroupMembersHash g c)))))))) keys groupMembers"

definition db_CreateGroup ::
  "('e group_world_scheme, 't) group_tools_scheme \<Rightarrow> Group list \<Rightarrow> GroupMember list \<Rightarrow> ('e group_world_scheme, unit) prog" where
  "db_CreateGroup T groups groupMembers =
     (if length groups + length groupMembers = 0 then ret ()
      else fTx T (
        thenM (if length groups > 0 then group_Create groups else ret ())
        (thenM (if length groupMembers > 0 then member_Create T groupMembers else ret ())
          (groupChainDel T (createMemberKeys groupMembers (createGroupKeys groups))))))"

definition UpdateGroup ::
  "('e group_world_scheme, 't) group_tools_scheme \<Rightarrow> string \<Rightarrow> group_field list \<Rightarrow> ('e group_world_scheme, unit) prog" where
  "UpdateGroup T groupId data = fTx T (
     thenM (group_UpdateMap groupId data)
     (thenM (member_MemberGroupIncrVersion groupId [VersionGroupChangeID] VersionStateUpdate)
       (groupChainDel T (DelMaxGroupMemberVersion [groupId] (DelGroupsInfo [groupId] [])))))"

definition db_DismissGroup ::
  "('e group_world_scheme, 't) group_tools_scheme \<Rightarrow> string \<Rightarrow> bool \<Rightarrow> ('e group_world_scheme, unit) prog" where
  "db_DismissGroup T groupId deleteMember = fTx T (
     thenM (group_UpdateStatus groupId GroupStatusDismissed)
     (if deleteMember then
        bindM (cache_GetGroupMemberIDs T groupId) (\<lambda>userIDs.
        thenM (member_Delete T groupId [])
        (thenM (forM userIDs (\<lambda>userID. member_JoinGroupIncrVersion userID [groupId] VersionStateDelete))
          (groupChainDel T (DelGroupsInfo [groupId] (DelMaxJoinGroupVersion userIDs (DelMaxGroupMemberVersion [groupId]
            (DelGroupMembersInfo groupId userIDs (DelGroupAllRoleLevel groupId (DelGroupMembersHash groupId
              (DelGroupsMemberNum [groupId] (DelGroupMemberIDs groupId (DelJoinedGroupID userIDs []))))))))))))
      else
        thenM (member_MemberGroupIncrVersion groupId [VersionGroupChangeID] VersionStateUpdate)
          (groupChainDel T (DelGroupsInfo [groupId] (DelMaxGroupMemberVersion [groupId] [])))))"

definition HandlerGroupRequest ::
  "('e group_world_scheme, 't) group_tools_scheme \<Rightarrow> string \<Rightarrow> string \<Rightarrow> string \<Rightarrow> int \<Rightarrow> GroupMember option \<Rightarrow>
   ('e group_world_scheme, unit) prog" where
  "HandlerGroupRequest T groupId userID handledMsg handleResult member = fTx T (
     thenM (greq_UpdateHandler groupId userID handledMsg handleResult)
     (case member of
        None \<Rightarrow> ret ()
      | Some m \<Rightarrow>
          thenM (member_Create T [m])
            (groupChainDel T (DelMaxGroupMemberVersion [groupId] (DelMaxJoinGroupVersion [userID] (DelGroupRoleLevel groupId [gmRoleLevel m]
              (DelJoinedGroupID [gmUserID m] (DelGroupsMemberNum [groupId] (DelGroupMemberIDs groupId
                (DelGroupMembersInfo groupId [gmUserID m] (DelGroupMembersHash groupId [])))))))))))"

definition DeleteGroupMember ::
  "('e group_world_scheme, 't) group_tools_scheme \<Rightarrow> string \<Rightarrow> string list \<Rightarrow> ('e group_world_scheme, unit) prog" where
  "DeleteGroupMember T groupId userIDs = fTx T (
     thenM (member_Delete T groupId userIDs)
       (groupChainDel T (DelMaxJoinGroupVersion userIDs (DelMaxGroupMemberVersion [groupId] (DelGroupAllRoleLevel groupId
         (DelGroupMembersInfo groupId userIDs (DelJoinedGroupID userIDs (DelGroupsMemberNum [groupId] (DelGroupMemberIDs groupId
           (DelGroupMembersHash groupId []))))))))))"

definition db_TransferGroupOwner ::
  "('e group_world_scheme, 't) group_tools_scheme \<Rightarrow> string \<Rightarrow> string \<Rightarrow> string \<Rightarrow> int \<Rightarrow> ('e group_world_scheme, unit) prog" where
  "db_TransferGroupOwner T groupId oldOwnerUserID newOwnerUserID roleLevel = fTx T (
     thenM (member_UpdateUserRoleLevels T groupId oldOwnerUserID roleLevel newOwnerUserID GroupOwner)
       (groupChainDel T (DelGroupMemberIDs groupId (DelMaxGroupMemberVersion [groupId] (DelGroupMembersHash groupId
         (DelGroupAllRoleLevel groupId (DelGroupMembersInfo groupId [oldOwnerUserID, newOwnerUserID] [])))))))"

text \<open>The hash of the members stays in the cache.\<close>

definition UpdateGroupMember ::
  "('e group_world_scheme, 't) group_tools_scheme \<Rightarrow> string \<Rightarrow> string \<Rightarrow> member_field list \<Rightarrow> ('e group_world_scheme, unit) prog" where
  "UpdateGroupMember T groupId userID data =
     (if length data = 0 then ret ()
      else fTx T (
        thenM (member_Update T groupId userID data)
          (groupChainDel T (DelMaxGroupMemberVersion [groupId]
            (let c = DelGroupMembersInfo groupId [userID] [] in
             if IsUpdateRoleLevel data then DelGroupMemberIDs groupId (DelGroupAllRoleLevel groupId c) else c)))))"

record BatchUpdateGroupMember =
  buGroupID :: string
  buUserID :: string
  buMap :: "member_field list"

definition updateMemberKeys :: "BatchUpdateGroupMember \<Rightarrow> string list \<Rightarrow> string list" where
  "updateMemberKeys item c =
     (let g = buGroupID item in
      DelGroupMembersHash g (DelMaxGroupMemberVersion [g] (DelGroupMembersInfo g [buUserID item]
        (if IsUpdateRoleLevel (buMap item) then DelGroupMemberIDs g (DelGroupAllRoleLevel g c) else c))))"

definition UpdateGroupMembers ::
  "('e group_world_scheme, 't) group_tools_scheme \<Rightarrow> BatchUpdateGroupMember list \<Rightarrow> ('e group_world_scheme, unit) prog" where
  "UpdateGroupMembers T data = fTx T (
     bindM (foldM (\<lambda>item c. thenM (member_Update T (buGroupID item) (buUserID item) (buMap item)) (ret (updateMemberKeys item c))) data [])
       (\<lambda>c. groupChainDel T c))"

definition CreateGroupRequest ::
  "('e group_world_scheme, 't) group_tools_scheme \<Rightarrow> GroupRequest list \<Rightarrow> ('e group_world_scheme, unit) prog" where
  "CreateGroupRequest T requests = fTx T (
     thenM (forM requests (\<lambda>request. greq_Delete (gqGroupID request) (gqUserID request))) (greq_Create requests))"

definition DeleteGroupMemberHash ::
  "('w, 't) group_tools_scheme \<Rightarrow> string list \<Rightarrow> ('e group_world_scheme, unit) prog" where
  "DeleteGroupMemberHash T groupIDs =
     (if length groupIDs = 0 then ret ()
      else groupChainDel T (foldl (\<lambda>c groupId. DelGroupMembersHash groupId c) [] groupIDs))"

definition MemberGroupIncrVersion ::
  "('w, 't) group_tools_scheme \<Rightarrow> string \<Rightarrow> string list \<Rightarrow> int \<Rightarrow> ('e group_world_scheme, unit) prog" where
  "MemberGroupIncrVersion T groupId userIDs state =
     thenM (member_MemberGroupIncrVersion groupId userIDs state) (groupChainDel T (DelMaxGroupMemberVersion [groupId] []))"

end
