(* ===== verification/Group_Notify.thy ===== *)
theory Group_Notify
  imports Group_Db Conversation_Ids
begin

text \<open>
  What the group service tells others: the conversions of \<^verbatim>\<open>pkg/common/convert/group.go\<close> and \<^verbatim>\<open>rpc/grp/convert.go\<close>, the notifications of
  \<^verbatim>\<open>rpc/grp/notification.go\<close>, and the clients of the user, message and conversation services (\<^verbatim>\<open>pkg/rpcli\<close>). A notification reads the
  grp and its members through the cache, and is then a record in a list of the state.
\<close>

section \<open>Conversion\<close>

definition Db2PbGroupInfo :: "Group \<Rightarrow> string \<Rightarrow> int \<Rightarrow> GroupInfo" where
  "Db2PbGroupInfo m ownerUserID memberCount = \<lparr>
     giGroupID = gpGroupID m,
     giGroupName = gpGroupName m,
     giNotification = gpNotification m,
     giIntroduction = gpIntroduction m,
     giFaceURL = gpFaceURL m,
     giOwnerUserID = ownerUserID,
     giCreateTime = unixMilli (gpCreateTime m),
     giMemberCount = memberCount,
     giEx = gpEx m,
     giStatus = gpStatus m,
     giCreatorUserID = gpCreatorUserID m,
     giGroupType = gpGroupType m,
     giNeedVerification = gpNeedVerification m,
     giLookMemberInfo = gpLookMemberInfo m,
     giApplyMemberFriend = gpApplyMemberFriend m,
     giNotificationUpdateTime = unixMilli (gpNotificationUpdateTime m),
     giNotificationUserID = gpNotificationUserID m\<rparr>"

definition groupDB2PB :: "Group \<Rightarrow> string \<Rightarrow> int \<Rightarrow> GroupInfo" where
  "groupDB2PB m ownerUserID memberCount = \<lparr>
     giGroupID = gpGroupID m,
     giGroupName = gpGroupName m,
     giNotification = gpNotification m,
     giIntroduction = gpIntroduction m,
     giFaceURL = gpFaceURL m,
     giOwnerUserID = ownerUserID,
     giCreateTime = unixMilli (gpCreateTime m),
     giMemberCount = memberCount,
     giEx = gpEx m,
     giStatus = gpStatus m,
     giCreatorUserID = gpCreatorUserID m,
     giGroupType = gpGroupType m,
     giNeedVerification = gpNeedVerification m,
     giLookMemberInfo = gpLookMemberInfo m,
     giApplyMemberFriend = gpApplyMemberFriend m,
     giNotificationUpdateTime = unixMilli (gpNotificationUpdateTime m),
     giNotificationUserID = gpNotificationUserID m\<rparr>"

definition Pb2DBGroupInfo :: "int \<Rightarrow> GroupInfo \<Rightarrow> Group" where
  "Pb2DBGroupInfo t m = \<lparr>
     gpGroupID = giGroupID m,
     gpGroupName = giGroupName m,
     gpNotification = giNotification m,
     gpIntroduction = giIntroduction m,
     gpFaceURL = giFaceURL m,
     gpCreateTime = Some t,
     gpEx = giEx m,
     gpStatus = giStatus m,
     gpCreatorUserID = giCreatorUserID m,
     gpGroupType = giGroupType m,
     gpNeedVerification = giNeedVerification m,
     gpLookMemberInfo = giLookMemberInfo m,
     gpApplyMemberFriend = giApplyMemberFriend m,
     gpNotificationUpdateTime = Some (giNotificationUpdateTime m),
     gpNotificationUserID = giNotificationUserID m\<rparr>"

definition groupMemberDB2PB :: "GroupMember \<Rightarrow> int \<Rightarrow> GroupMemberFullInfo" where
  "groupMemberDB2PB member appMangerLevel = \<lparr>
     mfGroupID = gmGroupID member,
     mfUserID = gmUserID member,
     mfRoleLevel = gmRoleLevel member,
     mfJoinTime = unixMilli (gmJoinTime member),
     mfNickname = gmNickname member,
     mfFaceURL = gmFaceURL member,
     mfAppMangerLevel = appMangerLevel,
     mfJoinSource = gmJoinSource member,
     mfOperatorUserID = gmOperatorUserID member,
     mfEx = gmEx member,
     mfMuteEndTime = unixMilli (gmMuteEndTime member),
     mfInviterUserID = gmInviterUserID member\<rparr>"

definition Db2PbGroupMember :: "GroupMember \<Rightarrow> GroupMemberFullInfo" where
  "Db2PbGroupMember m = \<lparr>
     mfGroupID = gmGroupID m,
     mfUserID = gmUserID m,
     mfRoleLevel = gmRoleLevel m,
     mfJoinTime = unixMilli (gmJoinTime m),
     mfNickname = gmNickname m,
     mfFaceURL = gmFaceURL m,
     mfAppMangerLevel = 0,
     mfJoinSource = gmJoinSource m,
     mfOperatorUserID = gmOperatorUserID m,
     mfEx = gmEx m,
     mfMuteEndTime = unixMilli (gmMuteEndTime m),
     mfInviterUserID = gmInviterUserID m\<rparr>"

record PbGroupRequest =
  prUserInfo :: "UserInfo option"
  prGroupInfo :: GroupInfo
  prHandleResult :: int
  prReqMsg :: string
  prHandleMsg :: string
  prReqTime :: int
  prHandleUserID :: string
  prHandleTime :: int
  prEx :: string
  prJoinSource :: int
  prInviterUserID :: string

definition Db2PbGroupRequest :: "GroupRequest \<Rightarrow> UserInfo option \<Rightarrow> GroupInfo \<Rightarrow> PbGroupRequest" where
  "Db2PbGroupRequest m user grp = \<lparr>
     prUserInfo = map_option (\<lambda>u. u\<lparr>uiAppMangerLevel := 0\<rparr>) user,
     prGroupInfo = grp,
     prHandleResult = gqHandleResult m,
     prReqMsg = gqReqMsg m,
     prHandleMsg = gqHandledMsg m,
     prReqTime = unixMilli (gqReqTime m),
     prHandleUserID = gqHandleUserID m,
     prHandleTime = unixMilli (gqHandledTime m),
     prEx = gqEx m,
     prJoinSource = gqJoinSource m,
     prInviterUserID = gqInviterUserID m\<rparr>"

record CMSGroup =
  cmGroupInfo :: GroupInfo
  cmGroupOwnerUserID :: string
  cmGroupOwnerUserName :: string

definition Db2PbCMSGroup :: "Group \<Rightarrow> string \<Rightarrow> string \<Rightarrow> int \<Rightarrow> CMSGroup" where
  "Db2PbCMSGroup m ownerUserID ownerUserName memberCount = \<lparr>
     cmGroupInfo = Db2PbGroupInfo m ownerUserID memberCount,
     cmGroupOwnerUserID = ownerUserID,
     cmGroupOwnerUserName = ownerUserName\<rparr>"

record GroupAbstractInfo =
  gaGroupID :: string
  gaGroupMemberNumber :: int
  gaGroupMemberListHash :: int

definition Db2PbGroupAbstractInfo :: "string \<Rightarrow> int \<Rightarrow> int \<Rightarrow> GroupAbstractInfo" where
  "Db2PbGroupAbstractInfo groupId groupMemberNumber groupMemberListHash =
     \<lparr>gaGroupID = groupId, gaGroupMemberNumber = groupMemberNumber, gaGroupMemberListHash = groupMemberListHash\<rparr>"

section \<open>The clients of the other services\<close>

text \<open>\<open>nMaxSeq\<close> is the message service's answer for a conversation; the calls that change something there are recorded.\<close>

record 'w notify_tools = "'w group_tools" +
  nMaxSeq :: "string \<Rightarrow> err + int"
  nEnableHistory :: bool

definition GetUserInfo :: "('w, 't) relation_tools_scheme \<Rightarrow> string \<Rightarrow> ('e env_scheme, UserInfo) prog" where
  "GetUserInfo T userID = bindM (GetUsersInfo T [userID]) (\<lambda>val. if length val = 0 then throw ErrRecordNotFound else idx val 0)"

definition GetConversationMaxSeq :: "('w, 't) notify_tools_scheme \<Rightarrow> string \<Rightarrow> ('e env_scheme, int) prog" where
  "GetConversationMaxSeq T cid = io (liftE (nMaxSeq T cid))"

definition peer :: "peer_call \<Rightarrow> ('e group_world_scheme, unit) prog" where
  "peer c = io (modifyM (\<lambda>w. w\<lparr>peerCalls := peerCalls w @ [c]\<rparr>))"

definition client_SetConversationMaxSeq :: "string \<Rightarrow> string list \<Rightarrow> int \<Rightarrow> ('e group_world_scheme, unit) prog" where
  "client_SetConversationMaxSeq cid ownerUserIDs maxSeq =
     (if length ownerUserIDs = 0 then ret () else peer (SetConversationMaxSeq cid ownerUserIDs maxSeq))"

definition client_SetConversations :: "string \<Rightarrow> string list \<Rightarrow> ('e group_world_scheme, unit) prog" where
  "client_SetConversations cid ownerUserIDs = (if length ownerUserIDs = 0 then ret () else peer (SetConversations cid ownerUserIDs))"

definition client_CreateGroupChatConversations :: "string \<Rightarrow> string list \<Rightarrow> ('e group_world_scheme, unit) prog" where
  "client_CreateGroupChatConversations groupId userIDs =
     (if length userIDs = 0 then ret () else peer (CreateGroupChatConversations groupId userIDs))"

definition client_SetUserConversationsMinSeq :: "string \<Rightarrow> string list \<Rightarrow> int \<Rightarrow> ('e group_world_scheme, unit) prog" where
  "client_SetUserConversationsMinSeq cid userIDs seq' =
     (if length userIDs = 0 then ret () else peer (SetUserConversationsMinSeq cid userIDs seq'))"

section \<open>Filling in users\<close>

definition emptyUserIDs :: "GroupMember list \<Rightarrow> string list" where
  "emptyUserIDs members = remdups (map gmUserID (filter (\<lambda>m. gmNickname m = '''' \<or> gmFaceURL m = '''') members))"

definition fillMember :: "(string \<rightharpoonup> UserInfo) \<Rightarrow> GroupMember \<Rightarrow> GroupMember" where
  "fillMember userMap m = (case userMap (gmUserID m) of
     None \<Rightarrow> m
   | Some user \<Rightarrow> m\<lparr>gmNickname := (if gmNickname m = '''' then uiNickname user else gmNickname m),
       gmFaceURL := (if gmFaceURL m = '''' then uiFaceURL user else gmFaceURL m)\<rparr>)"

text \<open>The members are changed in place in the source; here the changed ones are the result.\<close>

definition PopulateGroupMember ::
  "('w, 't) group_tools_scheme \<Rightarrow> GroupMember list \<Rightarrow> ('e env_scheme, GroupMember list) prog" where
  "PopulateGroupMember T members =
     (if length members = 0 then ret members
      else if length (emptyUserIDs members) > 0
        then bindM (GetUsersInfo T (emptyUserIDs members)) (\<lambda>users. ret (map (fillMember (sliceMap uiUserID users)) members))
        else ret members)"

definition getUser :: "('w, 't) group_tools_scheme \<Rightarrow> string \<Rightarrow> ('e env_scheme, UserInfo) prog" where
  "getUser T userID = bindM (GetUsersInfo T [userID]) (\<lambda>users.
     if length users = 0 then throw (ErrCode ''UserIDNotFoundError'')
     else bindM (idx users 0) (\<lambda>u. ret (u\<lparr>uiAppMangerLevel := 0\<rparr>)))"

definition firstOr :: "string list \<Rightarrow> string" where
  "firstOr ids = (if length ids > 0 then ids ! 0 else '''')"

definition getGroupInfo :: "('w, 't) group_tools_scheme \<Rightarrow> string \<Rightarrow> ('e group_world_scheme, GroupInfo) prog" where
  "getGroupInfo T groupId =
     bindM (TakeGroup T groupId) (\<lambda>gm.
     bindM (FindGroupMemberNum groupId) (\<lambda>num.
     bindM (GetGroupRoleLevelMemberIDs T groupId GroupOwner) (\<lambda>ownerUserIDs.
       ret (Db2PbGroupInfo gm (firstOr ownerUserIDs) num))))"

definition getGroupMembers ::
  "('w, 't) group_tools_scheme \<Rightarrow> string \<Rightarrow> string list \<Rightarrow> ('e group_world_scheme, GroupMemberFullInfo list) prog" where
  "getGroupMembers T groupId userIDs =
     bindM (FindGroupMembers T groupId userIDs) (\<lambda>members.
     bindM (PopulateGroupMember T members) (\<lambda>members. ret (map (\<lambda>member. groupMemberDB2PB member 0) members)))"

definition getGroupMemberMap ::
  "('w, 't) group_tools_scheme \<Rightarrow> string \<Rightarrow> string list \<Rightarrow> ('e group_world_scheme, string \<rightharpoonup> GroupMemberFullInfo) prog" where
  "getGroupMemberMap T groupId userIDs = bindM (getGroupMembers T groupId userIDs) (\<lambda>members. ret (sliceMap mfUserID members))"

definition getGroupMember ::
  "('w, 't) group_tools_scheme \<Rightarrow> string \<Rightarrow> string \<Rightarrow> ('e group_world_scheme, GroupMemberFullInfo) prog" where
  "getGroupMember T groupId userID = bindM (getGroupMembers T groupId [userID]) (\<lambda>members.
     if length members = 0 then throw (ErrInternalServer ''grp member not found'') else idx members 0)"

definition getGroupOwnerAndAdminUserID :: "('w, 't) group_tools_scheme \<Rightarrow> string \<Rightarrow> ('e group_world_scheme, string list) prog" where
  "getGroupOwnerAndAdminUserID T groupId =
     bindM (FindGroupMemberRoleLevels T groupId [GroupOwner, GroupAdmin]) (\<lambda>members.
     bindM (PopulateGroupMember T members) (\<lambda>members. ret (map gmUserID members)))"

definition AppAdmin :: int where "AppAdmin = 2"

definition noMember :: GroupMemberFullInfo where
  "noMember = \<lparr>mfGroupID = '''', mfUserID = '''', mfRoleLevel = 0, mfJoinTime = 0, mfNickname = '''', mfFaceURL = '''', mfAppMangerLevel = 0,
     mfJoinSource = 0, mfOperatorUserID = '''', mfEx = '''', mfMuteEndTime = 0, mfInviterUserID = ''''\<rparr>"

definition fillUserByUserID ::
  "('w, 't) group_tools_scheme \<Rightarrow> string \<Rightarrow> GroupMemberFullInfo option \<Rightarrow> string \<Rightarrow>
   ('e group_world_scheme, GroupMemberFullInfo option) prog" where
  "fillUserByUserID T userID targetUser groupId =
     bindM (if groupId \<noteq> '''' then
         (if IsManagerUserID userID (rAdmins T)
          then ret (Some (noMember\<lparr>mfGroupID := groupId, mfUserID := userID, mfRoleLevel := GroupAdmin, mfAppMangerLevel := AppAdmin\<rparr>))
          else bindM (tryM (TakeGroupMember T groupId userID)) (\<lambda>r. case r of
              Inr member \<Rightarrow> ret (Some (groupMemberDB2PB member 0))
            | Inl err \<Rightarrow> if \<not> (err = MongoNoDocuments \<or> err = ErrRecordNotFound) then throw err else ret targetUser))
       else ret targetUser) (\<lambda>targetUser.
     bindM (getUser T userID) (\<lambda>user. ret (Some (case targetUser of
         None \<Rightarrow> noMember\<lparr>mfGroupID := groupId, mfUserID := userID, mfNickname := uiNickname user, mfFaceURL := uiFaceURL user,
           mfOperatorUserID := userID\<rparr>
       | Some t \<Rightarrow> t\<lparr>mfNickname := (if mfNickname t = '''' then uiNickname user else mfNickname t),
           mfFaceURL := (if mfFaceURL t = '''' then uiFaceURL user else mfFaceURL t)\<rparr>))))"

definition fillOpUser ::
  "('w, 't) group_tools_scheme \<Rightarrow> string \<Rightarrow> GroupMemberFullInfo option \<Rightarrow> string \<Rightarrow>
   ('e group_world_scheme, GroupMemberFullInfo option) prog" where
  "fillOpUser T opUserID targetUser groupId = fillUserByUserID T opUserID targetUser groupId"

section \<open>Versions\<close>

text \<open>The logs written by this request: \<^verbatim>\<open>setVersion\<close> takes the first that matches, \<^verbatim>\<open>setSortVersion\<close> the last.\<close>

definition ctxLogs :: "'e version_world_scheme \<Rightarrow> (string \<times> VersionLog) list" where
  "ctxLogs w = (case versionCtx w of None \<Rightarrow> [] | Some vs \<Rightarrow> vs)"

definition g_setVersion :: "oid_tools \<Rightarrow> string \<Rightarrow> string \<Rightarrow> (string \<times> VersionLog) list \<Rightarrow> GroupNotice \<Rightarrow> GroupNotice" where
  "g_setVersion ot collName did versions n = (case List.find (\<lambda>(name, doc). name = collName \<and> vtDID doc = did) versions of
     None \<Rightarrow> n
   | Some (name, doc) \<Rightarrow> n\<lparr>gnVersion := vtVersion doc, gnVersionID := Hex ot (vtID doc)\<rparr>)"

definition g_setSortVersion :: "oid_tools \<Rightarrow> string \<Rightarrow> string \<Rightarrow> (string \<times> VersionLog) list \<Rightarrow> GroupNotice \<Rightarrow> GroupNotice" where
  "g_setSortVersion ot collName did versions n = foldl (\<lambda>n (name, doc).
     if name = collName \<and> vtDID doc = did then
       foldl (\<lambda>n elem. if vEID elem = VersionSortChangeID then n\<lparr>gnSortVersion := vElemVersion elem\<rparr> else n)
         (n\<lparr>gnVersion := vtVersion doc, gnVersionID := Hex ot (vtID doc)\<rparr>) (vtLogs doc)
     else n) n versions"

definition noticeOf ::
  "string \<Rightarrow> string \<Rightarrow> int \<Rightarrow> GroupInfo option \<Rightarrow> GroupMemberFullInfo option \<Rightarrow> GroupMemberFullInfo list \<Rightarrow> GroupNotice" where
  "noticeOf from' to kind grp opUser users = \<lparr>gnFrom = from', gnTo = to, gnType = kind, gnGroup = grp, gnOpUser = opUser, gnUsers = users,
     gnVersion = 0, gnVersionID = '''', gnSortVersion = 0\<rparr>"

definition send :: "GroupNotice \<Rightarrow> ('e group_world_scheme, unit) prog" where
  "send n = modifyM (\<lambda>w. w\<lparr>groupNotices := groupNotices w @ [n]\<rparr>)"

definition sendVersion :: "('w, 't) group_tools_scheme \<Rightarrow> string \<Rightarrow> GroupNotice \<Rightarrow> ('e group_world_scheme, unit) prog" where
  "sendVersion T groupId n = bindM (gets ctxLogs) (\<lambda>vs. send (g_setVersion (rOid T) GroupMemberVersionName groupId vs n))"

definition sendSortVersion :: "('w, 't) group_tools_scheme \<Rightarrow> string \<Rightarrow> GroupNotice \<Rightarrow> ('e group_world_scheme, unit) prog" where
  "sendSortVersion T groupId n = bindM (gets ctxLogs) (\<lambda>vs. send (g_setSortVersion (rOid T) GroupMemberVersionName groupId vs n))"

text \<open>A notification that returns nothing logs its error.\<close>

definition quietly :: "('w, unit) prog \<Rightarrow> ('w, unit) prog" where
  "quietly m = bindM (tryM m) (\<lambda>_. ret ())"

section \<open>The notifications\<close>

definition GroupCreatedNotification ::
  "('w, 't) group_tools_scheme \<Rightarrow> string \<Rightarrow> GroupInfo \<Rightarrow> GroupMemberFullInfo option \<Rightarrow> GroupMemberFullInfo list \<Rightarrow>
   ('e group_world_scheme, unit) prog" where
  "GroupCreatedNotification T opUserID grp opUser members = quietly (
     bindM (fillOpUser T opUserID opUser (giGroupID grp)) (\<lambda>opUser.
       sendVersion T (giGroupID grp) (noticeOf opUserID (giGroupID grp) 1501 (Some grp) opUser members)))"

definition GroupInfoSetNotification ::
  "('w, 't) group_tools_scheme \<Rightarrow> string \<Rightarrow> GroupInfo \<Rightarrow> GroupMemberFullInfo option \<Rightarrow> ('e group_world_scheme, unit) prog" where
  "GroupInfoSetNotification T opUserID grp opUser = quietly (
     bindM (fillOpUser T opUserID opUser (giGroupID grp)) (\<lambda>opUser.
       sendVersion T (giGroupID grp) (noticeOf opUserID (giGroupID grp) 1502 (Some grp) opUser [])))"

definition GroupInfoSetNameNotification ::
  "('w, 't) group_tools_scheme \<Rightarrow> string \<Rightarrow> GroupInfo \<Rightarrow> GroupMemberFullInfo option \<Rightarrow> ('e group_world_scheme, unit) prog" where
  "GroupInfoSetNameNotification T opUserID grp opUser = quietly (
     bindM (fillOpUser T opUserID opUser (giGroupID grp)) (\<lambda>opUser.
       sendVersion T (giGroupID grp) (noticeOf opUserID (giGroupID grp) 1520 (Some grp) opUser [])))"

definition GroupInfoSetAnnouncementNotification ::
  "('w, 't) group_tools_scheme \<Rightarrow> string \<Rightarrow> GroupInfo \<Rightarrow> GroupMemberFullInfo option \<Rightarrow> ('e group_world_scheme, unit) prog" where
  "GroupInfoSetAnnouncementNotification T opUserID grp opUser = quietly (
     bindM (fillOpUser T opUserID opUser (giGroupID grp)) (\<lambda>opUser.
       sendVersion T (giGroupID grp) (noticeOf opUserID (giGroupID grp) 1519 (Some grp) opUser [])))"

definition JoinGroupApplicationNotification ::
  "('w, 't) group_tools_scheme \<Rightarrow> string \<Rightarrow> string \<Rightarrow> string \<Rightarrow> ('e group_world_scheme, unit) prog" where
  "JoinGroupApplicationNotification T opUserID groupId inviterUserID = quietly (
     bindM (getGroupInfo T groupId) (\<lambda>grp.
     bindM (getUser T inviterUserID) (\<lambda>user.
     bindM (getGroupOwnerAndAdminUserID T groupId) (\<lambda>userIDs.
       forM (fDistinct T (userIDs @ [inviterUserID, opUserID])) (\<lambda>userID.
         send (noticeOf opUserID userID 1503 (Some grp) None []))))))"

definition MemberQuitNotification ::
  "('w, 't) group_tools_scheme \<Rightarrow> string \<Rightarrow> GroupMemberFullInfo \<Rightarrow> ('e group_world_scheme, unit) prog" where
  "MemberQuitNotification T opUserID member = quietly (
     bindM (getGroupInfo T (mfGroupID member)) (\<lambda>grp.
       sendVersion T (mfGroupID member) (noticeOf opUserID (mfGroupID member) 1504 (Some grp) None [member])))"

definition GroupApplicationAcceptedNotification ::
  "('w, 't) group_tools_scheme \<Rightarrow> string \<Rightarrow> string \<Rightarrow> string \<Rightarrow> ('e group_world_scheme, unit) prog" where
  "GroupApplicationAcceptedNotification T opUserID groupId fromUserID = quietly (
     bindM (getGroupInfo T groupId) (\<lambda>grp.
     bindM (getGroupOwnerAndAdminUserID T groupId) (\<lambda>userIDs.
     bindM (fillOpUser T opUserID None (giGroupID grp)) (\<lambda>opUser.
       forM (userIDs @ [fromUserID]) (\<lambda>userID. send (noticeOf opUserID userID 1505 (Some grp) opUser []))))))"

definition GroupApplicationRejectedNotification ::
  "('w, 't) group_tools_scheme \<Rightarrow> string \<Rightarrow> string \<Rightarrow> string \<Rightarrow> ('e group_world_scheme, unit) prog" where
  "GroupApplicationRejectedNotification T opUserID groupId fromUserID = quietly (
     bindM (getGroupInfo T groupId) (\<lambda>grp.
     bindM (getGroupOwnerAndAdminUserID T groupId) (\<lambda>userIDs.
     bindM (fillOpUser T opUserID None (giGroupID grp)) (\<lambda>opUser.
       forM (userIDs @ [fromUserID]) (\<lambda>userID. send (noticeOf opUserID userID 1506 (Some grp) opUser []))))))"

definition listed :: "'a option \<Rightarrow> 'a list" where
  "listed x = (case x of None \<Rightarrow> [] | Some a \<Rightarrow> [a])"

definition GroupOwnerTransferredNotification ::
  "('w, 't) group_tools_scheme \<Rightarrow> string \<Rightarrow> string \<Rightarrow> string \<Rightarrow> string \<Rightarrow> ('e group_world_scheme, unit) prog" where
  "GroupOwnerTransferredNotification T opUserID groupId oldOwnerUserID newOwnerUserID = quietly (
     bindM (getGroupInfo T groupId) (\<lambda>grp.
     bindM (getGroupMemberMap T groupId [opUserID, newOwnerUserID, oldOwnerUserID]) (\<lambda>member.
     bindM (fillOpUser T opUserID (member opUserID) (giGroupID grp)) (\<lambda>opUser.
       sendVersion T groupId (noticeOf opUserID (giGroupID grp) 1507 (Some grp) opUser
         (listed (member newOwnerUserID) @ listed (member oldOwnerUserID)))))))"

definition MemberKickedNotification ::
  "('w, 't) group_tools_scheme \<Rightarrow> string \<Rightarrow> GroupInfo \<Rightarrow> GroupMemberFullInfo option \<Rightarrow> GroupMemberFullInfo list \<Rightarrow>
   ('e group_world_scheme, unit) prog" where
  "MemberKickedNotification T opUserID grp opUser kicked = quietly (
     bindM (fillOpUser T opUserID opUser (giGroupID grp)) (\<lambda>opUser.
       sendVersion T (giGroupID grp) (noticeOf opUserID (giGroupID grp) 1508 (Some grp) opUser kicked)))"

text \<open>Who enters a group sees its messages from now on, unless the configuration shows the history.\<close>

definition hideHistory :: "('w, 't) notify_tools_scheme \<Rightarrow> string \<Rightarrow> string list \<Rightarrow> ('e group_world_scheme, unit) prog" where
  "hideHistory T groupId entrantUserIDs =
     (if \<not> nEnableHistory T then
        (let cid = GetConversationIDBySessionType ReadGroupChatType [groupId] in
         bindM (GetConversationMaxSeq T cid) (\<lambda>maxSeq. client_SetUserConversationsMinSeq cid entrantUserIDs (maxSeq + 1)))
      else ret ())"

definition GroupApplicationAgreeMemberEnterNotification ::
  "('w, 't) notify_tools_scheme \<Rightarrow> string \<Rightarrow> string \<Rightarrow> string \<Rightarrow> string list \<Rightarrow> ('e group_world_scheme, unit) prog" where
  "GroupApplicationAgreeMemberEnterNotification T opUserID groupId invitedOpUserID entrantUserIDs =
     thenM (hideHistory T groupId entrantUserIDs)
     (thenM (client_CreateGroupChatConversations groupId entrantUserIDs)
     (bindM (getGroupInfo T groupId) (\<lambda>grp.
      bindM (getGroupMembers T groupId entrantUserIDs) (\<lambda>users.
      bindM (tryM (fillUserByUserID T opUserID None (giGroupID grp))) (\<lambda>r. case r of
        Inl err \<Rightarrow> ret ()
      | Inr opUser \<Rightarrow>
          bindM (if invitedOpUserID = opUserID then ret opUser else fillUserByUserID T invitedOpUserID None (giGroupID grp)) (\<lambda>inviter.
            sendVersion T (giGroupID grp)
              (noticeOf opUserID (giGroupID grp) 1509 (Some grp) opUser (users @ listed inviter))))))))"

definition MemberEnterNotification ::
  "('w, 't) notify_tools_scheme \<Rightarrow> string \<Rightarrow> string \<Rightarrow> string \<Rightarrow> ('e group_world_scheme, unit) prog" where
  "MemberEnterNotification T opUserID groupId entrantUserID =
     thenM (hideHistory T groupId [entrantUserID])
     (thenM (client_CreateGroupChatConversations groupId [entrantUserID])
     (bindM (getGroupInfo T groupId) (\<lambda>grp.
      bindM (getGroupMember T groupId entrantUserID) (\<lambda>user.
        sendVersion T (giGroupID grp) (noticeOf opUserID (giGroupID grp) 1510 (Some grp) None [user])))))"

definition GroupDismissedNotification ::
  "('w, 't) group_tools_scheme \<Rightarrow> string \<Rightarrow> GroupInfo \<Rightarrow> GroupMemberFullInfo option \<Rightarrow> ('e group_world_scheme, unit) prog" where
  "GroupDismissedNotification T opUserID grp opUser = quietly (
     bindM (fillOpUser T opUserID opUser (giGroupID grp)) (\<lambda>opUser.
       send (noticeOf opUserID (giGroupID grp) 1511 (Some grp) opUser [])))"

definition GroupMemberMutedNotification ::
  "('w, 't) group_tools_scheme \<Rightarrow> string \<Rightarrow> string \<Rightarrow> string \<Rightarrow> ('e group_world_scheme, unit) prog" where
  "GroupMemberMutedNotification T opUserID groupId groupMemberUserID = quietly (
     bindM (getGroupInfo T groupId) (\<lambda>grp.
     bindM (getGroupMemberMap T groupId [opUserID, groupMemberUserID]) (\<lambda>user.
     bindM (fillOpUser T opUserID (user opUserID) (giGroupID grp)) (\<lambda>opUser.
       sendVersion T (giGroupID grp) (noticeOf opUserID (giGroupID grp) 1512 (Some grp) opUser (listed (user groupMemberUserID)))))))"

definition GroupMemberCancelMutedNotification ::
  "('w, 't) group_tools_scheme \<Rightarrow> string \<Rightarrow> string \<Rightarrow> string \<Rightarrow> ('e group_world_scheme, unit) prog" where
  "GroupMemberCancelMutedNotification T opUserID groupId groupMemberUserID = quietly (
     bindM (getGroupInfo T groupId) (\<lambda>grp.
     bindM (getGroupMemberMap T groupId [opUserID, groupMemberUserID]) (\<lambda>user.
     bindM (fillOpUser T opUserID (user opUserID) (giGroupID grp)) (\<lambda>opUser.
       sendVersion T (giGroupID grp) (noticeOf opUserID (giGroupID grp) 1513 (Some grp) opUser (listed (user groupMemberUserID)))))))"

definition GroupMutedNotification :: "('w, 't) group_tools_scheme \<Rightarrow> string \<Rightarrow> string \<Rightarrow> ('e group_world_scheme, unit) prog" where
  "GroupMutedNotification T opUserID groupId = quietly (
     bindM (getGroupInfo T groupId) (\<lambda>grp.
     bindM (getGroupMembers T groupId [opUserID]) (\<lambda>users.
     bindM (fillOpUser T opUserID (if length users > 0 then Some (users ! 0) else None) (giGroupID grp)) (\<lambda>opUser.
       sendVersion T groupId (noticeOf opUserID (giGroupID grp) 1514 (Some grp) opUser [])))))"

definition GroupCancelMutedNotification :: "('w, 't) group_tools_scheme \<Rightarrow> string \<Rightarrow> string \<Rightarrow> ('e group_world_scheme, unit) prog" where
  "GroupCancelMutedNotification T opUserID groupId = quietly (
     bindM (getGroupInfo T groupId) (\<lambda>grp.
     bindM (getGroupMembers T groupId [opUserID]) (\<lambda>users.
     bindM (fillOpUser T opUserID (if length users > 0 then Some (users ! 0) else None) (giGroupID grp)) (\<lambda>opUser.
       sendVersion T groupId (noticeOf opUserID (giGroupID grp) 1515 (Some grp) opUser [])))))"

definition GroupMemberInfoSetNotification ::
  "('w, 't) group_tools_scheme \<Rightarrow> string \<Rightarrow> string \<Rightarrow> string \<Rightarrow> ('e group_world_scheme, unit) prog" where
  "GroupMemberInfoSetNotification T opUserID groupId groupMemberUserID = quietly (
     bindM (getGroupInfo T groupId) (\<lambda>grp.
     bindM (getGroupMemberMap T groupId [groupMemberUserID]) (\<lambda>user.
     bindM (fillOpUser T opUserID (user opUserID) (giGroupID grp)) (\<lambda>opUser.
       sendSortVersion T (giGroupID grp)
         (noticeOf opUserID (giGroupID grp) 1516 (Some grp) opUser (listed (user groupMemberUserID)))))))"

definition GroupMemberSetToAdminNotification ::
  "('w, 't) group_tools_scheme \<Rightarrow> string \<Rightarrow> string \<Rightarrow> string \<Rightarrow> ('e group_world_scheme, unit) prog" where
  "GroupMemberSetToAdminNotification T opUserID groupId groupMemberUserID = quietly (
     bindM (getGroupInfo T groupId) (\<lambda>grp.
     bindM (getGroupMemberMap T groupId [opUserID, groupMemberUserID]) (\<lambda>user.
     bindM (fillOpUser T opUserID (user opUserID) (giGroupID grp)) (\<lambda>opUser.
       sendSortVersion T (giGroupID grp)
         (noticeOf opUserID (giGroupID grp) 1517 (Some grp) opUser (listed (user groupMemberUserID)))))))"

definition GroupMemberSetToOrdinaryUserNotification ::
  "('w, 't) group_tools_scheme \<Rightarrow> string \<Rightarrow> string \<Rightarrow> string \<Rightarrow> ('e group_world_scheme, unit) prog" where
  "GroupMemberSetToOrdinaryUserNotification T opUserID groupId groupMemberUserID = quietly (
     bindM (getGroupInfo T groupId) (\<lambda>grp.
     bindM (getGroupMemberMap T groupId [opUserID, groupMemberUserID]) (\<lambda>user.
     bindM (fillOpUser T opUserID (user opUserID) (giGroupID grp)) (\<lambda>opUser.
       sendSortVersion T (giGroupID grp)
         (noticeOf opUserID (giGroupID grp) 1518 (Some grp) opUser (listed (user groupMemberUserID)))))))"

end
