(* ===== verification/Group_Hooks.thy ===== *)
theory Group_Hooks
  imports Group_Notify
begin

text \<open>
  The web hooks of \<^verbatim>\<open>rpc/group/callback.go\<close> that run before a change and may alter the request, the requests themselves, and
  \<^verbatim>\<open>rpc/group/db_map.go\<close>, which turns a request into the fields to write. A hook answers with an error or a reply; the hooks after a change
  have no effect on it and are left out. In a reply, \<open>None\<close> is a nil pointer.
\<close>

section \<open>Requests\<close>

record CreateGroupReq =
  cgMemberUserIDs :: "string list"
  cgGroupInfo :: GroupInfo
  cgAdminUserIDs :: "string list"
  cgOwnerUserID :: string

record GroupInfoForSet =
  sfGroupID :: string
  sfGroupName :: string
  sfNotification :: string
  sfIntroduction :: string
  sfFaceURL :: string
  sfEx :: "string option"
  sfNeedVerification :: "int option"
  sfLookMemberInfo :: "int option"
  sfApplyMemberFriend :: "int option"

record SetGroupInfoExReq =
  sxGroupID :: string
  sxGroupName :: "string option"
  sxNotification :: "string option"
  sxIntroduction :: "string option"
  sxFaceURL :: "string option"
  sxEx :: "string option"
  sxNeedVerification :: "int option"
  sxLookMemberInfo :: "int option"
  sxApplyMemberFriend :: "int option"

record SetGroupMemberInfo =
  smGroupID :: string
  smUserID :: string
  smNickname :: "string option"
  smFaceURL :: "string option"
  smRoleLevel :: "int option"
  smEx :: "string option"

section \<open>Replies and parameters\<close>

record CreateGroupReply =
  crGroupID :: "string option"
  crGroupName :: "string option"
  crNotification :: "string option"
  crIntroduction :: "string option"
  crFaceURL :: "string option"
  crOwnerUserID :: "string option"
  crEx :: "string option"
  crStatus :: "int option"
  crCreatorUserID :: "string option"
  crGroupType :: "int option"
  crNeedVerification :: "int option"
  crLookMemberInfo :: "int option"

record MemberReply =
  jrUserID :: "string option"
  jrNickname :: "string option"
  jrFaceURL :: "string option"
  jrRoleLevel :: "int option"
  jrMuteEndTime :: "int option"
  jrEx :: "string option"

record SetInfoReply =
  srGroupID :: string
  srGroupName :: string
  srIntroduction :: string
  srFaceURL :: string
  srEx :: "string option"
  srNeedVerification :: "int option"
  srLookMemberInfo :: "int option"
  srApplyMemberFriend :: "int option"

record SetMemberReply =
  msNickname :: "string option"
  msFaceURL :: "string option"
  msRoleLevel :: "int option"
  msEx :: "string option"

text \<open>
  \<open>gNotFound\<close> tells an error that says there is no such record; \<open>gGenID\<close> is the random number of the n-th try to find an id; \<open>gCfg\<close> is the
  configuration of a hook.
\<close>

record 'w gserver_tools = "'w notify_tools" +
  gNotFound :: "err \<Rightarrow> bool"
  gGenID :: "int \<Rightarrow> nat \<Rightarrow> string"
  gCfg :: "string \<Rightarrow> BeforeConfig"
  hkCreateGroup :: "CreateGroupReq \<Rightarrow> err + CreateGroupReply"
  hkMembersJoin :: "(string \<times> string) list \<times> string \<times> string \<Rightarrow> err + MemberReply list"
  hkSetMember :: "SetGroupMemberInfo \<Rightarrow> err + SetMemberReply"
  hkApplyJoin :: "string \<times> int \<times> string \<times> string \<times> string \<Rightarrow> err + unit"
  hkInvite :: "string \<times> string list \<Rightarrow> err + unit"
  hkSetInfo :: "GroupInfoForSet \<Rightarrow> err + SetInfoReply"
  hkSetInfoEx :: "SetGroupInfoExReq \<Rightarrow> err + SetGroupInfoExReq"

section \<open>The hooks\<close>

text \<open>The library's \<^verbatim>\<open>NotNilReplace\<close>: a new value that is there takes the place of the old one.\<close>

definition NotNilReplace :: "'a option \<Rightarrow> 'a \<Rightarrow> 'a" where
  "NotNilReplace new old = (case new of None \<Rightarrow> old | Some v \<Rightarrow> v)"

definition webhookBeforeCreateGroup ::
  "('w, 't) gserver_tools_scheme \<Rightarrow> CreateGroupReq \<Rightarrow> ('e env_scheme, CreateGroupReq) prog" where
  "webhookBeforeCreateGroup T req = WithCondition (gCfg T ''BeforeCreateGroup'')
     (bindM (io (liftE (hkCreateGroup T req))) (\<lambda>resp. ret (req\<lparr>cgGroupInfo := (cgGroupInfo req)\<lparr>
        giGroupID := NotNilReplace (crGroupID resp) (giGroupID (cgGroupInfo req)),
        giGroupName := NotNilReplace (crGroupName resp) (giGroupName (cgGroupInfo req)),
        giNotification := NotNilReplace (crNotification resp) (giNotification (cgGroupInfo req)),
        giIntroduction := NotNilReplace (crIntroduction resp) (giIntroduction (cgGroupInfo req)),
        giFaceURL := NotNilReplace (crFaceURL resp) (giFaceURL (cgGroupInfo req)),
        giOwnerUserID := NotNilReplace (crOwnerUserID resp) (giOwnerUserID (cgGroupInfo req)),
        giEx := NotNilReplace (crEx resp) (giEx (cgGroupInfo req)),
        giStatus := NotNilReplace (crStatus resp) (giStatus (cgGroupInfo req)),
        giCreatorUserID := NotNilReplace (crCreatorUserID resp) (giCreatorUserID (cgGroupInfo req)),
        giGroupType := NotNilReplace (crGroupType resp) (giGroupType (cgGroupInfo req)),
        giNeedVerification := NotNilReplace (crNeedVerification resp) (giNeedVerification (cgGroupInfo req)),
        giLookMemberInfo := NotNilReplace (crLookMemberInfo resp) (giLookMemberInfo (cgGroupInfo req))\<rparr>\<rparr>))) req"

definition replaceMember :: "MemberReply \<Rightarrow> GroupMember \<Rightarrow> GroupMember" where
  "replaceMember r m = m\<lparr>
     gmMuteEndTime := (case jrMuteEndTime r of None \<Rightarrow> gmMuteEndTime m | Some t \<Rightarrow> Some t),
     gmFaceURL := NotNilReplace (jrFaceURL r) (gmFaceURL m),
     gmEx := NotNilReplace (jrEx r) (gmEx m),
     gmNickname := NotNilReplace (jrNickname r) (gmNickname m),
     gmRoleLevel := NotNilReplace (jrRoleLevel r) (gmRoleLevel m)\<rparr>"

text \<open>The map from users to members holds the last member of a user; a reply without a user is a nil pointer.\<close>

definition joinReply :: "MemberReply \<Rightarrow> GroupMember list \<Rightarrow> ('w, GroupMember list) prog" where
  "joinReply r ms = (case jrUserID r of
     None \<Rightarrow> throw (Panic ''nil pointer dereference'')
   | Some u \<Rightarrow> ret (rev (updFirst (\<lambda>m. gmUserID m = u) (replaceMember r) (rev ms))))"

definition webhookBeforeMembersJoinGroup ::
  "('w, 't) gserver_tools_scheme \<Rightarrow> GroupMember list \<Rightarrow> string \<Rightarrow> string \<Rightarrow> ('e env_scheme, GroupMember list) prog" where
  "webhookBeforeMembersJoinGroup T groupMembers groupId groupEx = WithCondition (gCfg T ''BeforeMemberJoinGroup'')
     (bindM (io (liftE (hkMembersJoin T (map (\<lambda>m. (gmUserID m, gmEx m)) groupMembers, groupId, groupEx)))) (\<lambda>resp.
        foldM joinReply resp groupMembers)) groupMembers"

definition webhookBeforeSetGroupMemberInfo ::
  "('w, 't) gserver_tools_scheme \<Rightarrow> SetGroupMemberInfo \<Rightarrow> ('e env_scheme, SetGroupMemberInfo) prog" where
  "webhookBeforeSetGroupMemberInfo T req = WithCondition (gCfg T ''BeforeSetGroupMemberInfo'')
     (bindM (io (liftE (hkSetMember T req))) (\<lambda>resp. ret (req\<lparr>
        smFaceURL := (case msFaceURL resp of None \<Rightarrow> smFaceURL req | Some s \<Rightarrow> Some s),
        smNickname := (case msNickname resp of None \<Rightarrow> smNickname req | Some s \<Rightarrow> Some s),
        smRoleLevel := (case msRoleLevel resp of None \<Rightarrow> smRoleLevel req | Some n \<Rightarrow> Some n),
        smEx := (case msEx resp of None \<Rightarrow> smEx req | Some s \<Rightarrow> Some s)\<rparr>))) req"

definition webhookBeforeApplyJoinGroup ::
  "('w, 't) gserver_tools_scheme \<Rightarrow> string \<times> int \<times> string \<times> string \<times> string \<Rightarrow> ('e env_scheme, unit) prog" where
  "webhookBeforeApplyJoinGroup T req = WithCondition (gCfg T ''BeforeApplyJoinGroup'') (io (liftE (hkApplyJoin T req))) ()"

definition webhookBeforeInviteUserToGroup ::
  "('w, 't) gserver_tools_scheme \<Rightarrow> string \<Rightarrow> string list \<Rightarrow> ('e env_scheme, unit) prog" where
  "webhookBeforeInviteUserToGroup T groupId invitedUserIDs =
     WithCondition (gCfg T ''BeforeInviteUserToGroup'') (io (liftE (hkInvite T (groupId, invitedUserIDs)))) ()"

text \<open>
  The reply's texts are plain values, whose addresses are never nil: the id of the group, its name, its picture and its introduction are always replaced,
  with empty texts when the reply leaves them out. In \<^verbatim>\<open>webhookBeforeSetGroupInfoEx\<close> they are pointers, whose addresses are never nil
  either: a field that the reply leaves out is dropped from the request.
\<close>

definition webhookBeforeSetGroupInfo ::
  "('w, 't) gserver_tools_scheme \<Rightarrow> GroupInfoForSet \<Rightarrow> ('e env_scheme, GroupInfoForSet) prog" where
  "webhookBeforeSetGroupInfo T req = WithCondition (gCfg T ''BeforeSetGroupInfo'')
     (bindM (io (liftE (hkSetInfo T req))) (\<lambda>resp. ret (req\<lparr>
        sfEx := (case srEx resp of None \<Rightarrow> sfEx req | Some s \<Rightarrow> Some s),
        sfNeedVerification := (case srNeedVerification resp of None \<Rightarrow> sfNeedVerification req | Some n \<Rightarrow> Some n),
        sfLookMemberInfo := (case srLookMemberInfo resp of None \<Rightarrow> sfLookMemberInfo req | Some n \<Rightarrow> Some n),
        sfApplyMemberFriend := (case srApplyMemberFriend resp of None \<Rightarrow> sfApplyMemberFriend req | Some n \<Rightarrow> Some n),
        sfGroupID := NotNilReplace (Some (srGroupID resp)) (sfGroupID req),
        sfGroupName := NotNilReplace (Some (srGroupName resp)) (sfGroupName req),
        sfFaceURL := NotNilReplace (Some (srFaceURL resp)) (sfFaceURL req),
        sfIntroduction := NotNilReplace (Some (srIntroduction resp)) (sfIntroduction req)\<rparr>))) req"

definition webhookBeforeSetGroupInfoEx ::
  "('w, 't) gserver_tools_scheme \<Rightarrow> SetGroupInfoExReq \<Rightarrow> ('e env_scheme, SetGroupInfoExReq) prog" where
  "webhookBeforeSetGroupInfoEx T req = WithCondition (gCfg T ''BeforeSetGroupInfoEx'')
     (bindM (io (liftE (hkSetInfoEx T req))) (\<lambda>resp. ret (req\<lparr>
        sxGroupID := NotNilReplace (Some (sxGroupID resp)) (sxGroupID req),
        sxGroupName := NotNilReplace (Some (sxGroupName resp)) (sxGroupName req),
        sxFaceURL := NotNilReplace (Some (sxFaceURL resp)) (sxFaceURL req),
        sxIntroduction := NotNilReplace (Some (sxIntroduction resp)) (sxIntroduction req),
        sxEx := NotNilReplace (Some (sxEx resp)) (sxEx req),
        sxNeedVerification := NotNilReplace (Some (sxNeedVerification resp)) (sxNeedVerification req),
        sxLookMemberInfo := NotNilReplace (Some (sxLookMemberInfo resp)) (sxLookMemberInfo req),
        sxApplyMemberFriend := NotNilReplace (Some (sxApplyMemberFriend resp)) (sxApplyMemberFriend req)\<rparr>))) req"

section \<open>Fields to write\<close>

definition optField :: "('a \<Rightarrow> 'f) \<Rightarrow> 'a option \<Rightarrow> 'f list" where
  "optField f x = (case x of None \<Rightarrow> [] | Some a \<Rightarrow> [f a])"

definition textField :: "(string \<Rightarrow> 'f) \<Rightarrow> string \<Rightarrow> 'f list" where
  "textField f s = (if s \<noteq> '''' then [f s] else [])"

definition UpdateGroupInfoMap :: "string \<Rightarrow> int \<Rightarrow> GroupInfoForSet \<Rightarrow> group_field list" where
  "UpdateGroupInfoMap opUserID t grp =
     textField SetGroupName (sfGroupName grp) @
     (if sfNotification grp \<noteq> '''' then [SetNotification (sfNotification grp), SetNotificationUpdateTime (Some t), SetNotificationUserID opUserID]
      else []) @
     textField SetIntroduction (sfIntroduction grp) @
     textField SetGroupFaceURL (sfFaceURL grp) @
     optField SetNeedVerification (sfNeedVerification grp) @
     optField SetLookMemberInfo (sfLookMemberInfo grp) @
     optField SetApplyMemberFriend (sfApplyMemberFriend grp) @
     optField SetGroupEx (sfEx grp)"

text \<open>\<^verbatim>\<open>strings.TrimSpace\<close> on ASCII texts.\<close>

definition isSpace :: "char \<Rightarrow> bool" where
  "isSpace c \<longleftrightarrow> c \<in> {CHR '' '', CHR 0x09, CHR 0x0A, CHR 0x0B, CHR 0x0C, CHR 0x0D}"

definition TrimSpace :: "string \<Rightarrow> string" where
  "TrimSpace s = rev (dropWhile isSpace (rev (dropWhile isSpace s)))"

text \<open>The fields, the three flags (normal, name, announcement) and the error; with the error come no fields.\<close>

definition UpdateGroupInfoExMap ::
  "string \<Rightarrow> int \<Rightarrow> SetGroupInfoExReq \<Rightarrow> group_field list \<times> bool \<times> bool \<times> bool \<times> err option" where
  "UpdateGroupInfoExMap opUserID t grp =
     (if \<exists>s. sxGroupName grp = Some s \<and> TrimSpace s = '''' then ([], False, False, False, Some (ErrArgs ''group name is empty''))
      else
        (optField SetGroupName (sxGroupName grp) @
         (case sxNotification grp of None \<Rightarrow> []
          | Some s \<Rightarrow> [SetNotification (TrimSpace s), SetNotificationUserID opUserID, SetNotificationUpdateTime (Some t)]) @
         optField SetIntroduction (sxIntroduction grp) @
         optField SetGroupFaceURL (sxFaceURL grp) @
         optField SetNeedVerification (sxNeedVerification grp) @
         optField SetLookMemberInfo (sxLookMemberInfo grp) @
         optField SetApplyMemberFriend (sxApplyMemberFriend grp) @
         optField SetGroupEx (sxEx grp),
         sxIntroduction grp \<noteq> None \<or> sxFaceURL grp \<noteq> None \<or> sxNeedVerification grp \<noteq> None \<or> sxLookMemberInfo grp \<noteq> None \<or>
           sxApplyMemberFriend grp \<noteq> None \<or> sxEx grp \<noteq> None,
         sxGroupName grp \<noteq> None,
         sxNotification grp \<noteq> None,
         None))"

definition UpdateGroupStatusMap :: "int \<Rightarrow> group_field list" where
  "UpdateGroupStatusMap st = [SetStatus st]"

definition UpdateGroupMemberMutedTimeMap :: "int \<Rightarrow> member_field list" where
  "UpdateGroupMemberMutedTimeMap t = [SetMuteEndTime (Some t)]"

definition UpdateGroupMemberMap :: "SetGroupMemberInfo \<Rightarrow> member_field list" where
  "UpdateGroupMemberMap req = optField SetNickname (smNickname req) @ optField SetFaceURL (smFaceURL req) @
     optField SetRoleLevel (smRoleLevel req) @ optField SetMemberEx (smEx req)"

end
