(* ===== verification/Msg_Send.thy ===== *)
theory Msg_Send
  imports Msg_Database Group_Hooks
begin

text \<open>
  Sending, \<^verbatim>\<open>server/internal/rpc/msg\<close>: who may send a message to whom (\<^verbatim>\<open>verify.go\<close>), the handler (\<^verbatim>\<open>send.go\<close>), the web hooks around it
  (\<^verbatim>\<open>callback.go\<close>, \<^verbatim>\<open>filter.go\<close>), and the notifications other handlers send through it (\<^verbatim>\<open>pkg/notification/msg.go\<close>). The handler ends with the message on
  the topic of the message transfer. Work the code hands to a queue or a goroutine is an entry of a list of the state; \<open>sendNotice\<close> and
  \<open>setConversationAtInfo\<close> are the programs that work an entry off. The other services and the configuration are parameters (\<open>msg_peers\<close>): a call to them is
  answered by its number, in any way.
\<close>

section \<open>State\<close>

text \<open>\<^verbatim>\<open>pbconversation.Conversation\<close>.\<close>

record Conversation =
  pcOwnerUserID :: string
  pcConversationID :: string
  pcRecvMsgOpt :: int
  pcConversationType :: int
  pcUserID :: string
  pcGroupID :: string
  pcIsPinned :: bool
  pcAttachedInfo :: string
  pcIsPrivateChat :: bool
  pcGroupAtType :: int
  pcEx :: string
  pcBurnDuration :: int
  pcMinSeq :: int
  pcMaxSeq :: int
  pcMsgDestructTime :: int
  pcLatestMsgDestructTime :: int
  pcIsMsgDestruct :: bool

text \<open>The contents of the notifications of the message service.\<close>

datatype msg_tips =
    TipsRead string string "int list" int
  | TipsGroupRead string string string int
  | TipsDelete string string "int list"
  | TipsClear string "string list"
  | TipsRevoke string string int int int string bool
  | TipsStream string

record notice =
  nSendID :: string
  nRecvID :: string
  nContentType :: int
  nSessionType :: int
  nTips :: msg_tips

datatype after_post =
    PostSingle string string
  | PostGroup string string
  | PostSingleRead string string "int list" int
  | PostGroupRead string string int int
  | PostRevoke string int string

datatype conv_call =
    SetAtType string int string int "string list"
  | SetConvMinSeq string "string list" int

record msg_rpc_world = msg_world +
  noticeQueue :: "notice list"
  atQueue :: "MsgData list"
  hookQueue :: "after_post list"
  convCalls :: "conv_call list"

section \<open>Parameters\<close>

record MsgBeforeConfig = BeforeConfig +
  beforeAllowed :: "string list"
  beforeDenied :: "string list"

record AfterConfig =
  afterEnable :: bool
  attentionIds :: "string list"
  allowedTypes :: "string list"
  deniedTypes :: "string list"

record OfflinePushConfig =
  ofEnable :: bool
  ofTitle :: string
  ofDesc :: string
  ofExt :: string

record NotificationConfig =
  ncIsSendMsg :: bool
  ncReliabilityLevel :: int
  ncUnreadCount :: bool
  ncOfflinePush :: OfflinePushConfig

record msg_conf =
  FriendVerify :: bool
  IMAdminUserID :: "string list"
  cfBeforeSingle :: MsgBeforeConfig
  cfBeforeGroup :: MsgBeforeConfig
  cfModify :: MsgBeforeConfig
  cfAfterSingle :: AfterConfig
  cfAfterGroup :: AfterConfig
  cfAfterSingleRead :: AfterConfig
  cfAfterGroupRead :: AfterConfig
  cfAfterRevoke :: AfterConfig
  cfNotification :: "string \<Rightarrow> NotificationConfig"

text \<open>
  The library: \<^verbatim>\<open>datautil.Contains\<close>, \<^verbatim>\<open>BetweenEq\<close>, \<^verbatim>\<open>Single\<close>, \<^verbatim>\<open>DeleteElems\<close> and \<^verbatim>\<open>SliceIntersectFuncs\<close>, what \<^verbatim>\<open>SetSwitchFromOptions\<close> does with a nil map and
  \<^verbatim>\<open>NotNilReplace\<close> with a nil destination, JSON and protobuf, and the fresh identifiers.
\<close>

record msg_lib = msg_conf +
  lContains :: "string list \<Rightarrow> string list \<Rightarrow> bool"
  lBetweenEq :: "int \<Rightarrow> int \<Rightarrow> int \<Rightarrow> bool"
  lSingle :: "string list \<Rightarrow> string list \<Rightarrow> string list"
  lDeleteElems :: "string list \<Rightarrow> string \<Rightarrow> string list"
  lIntersect :: "string list \<Rightarrow> string list \<Rightarrow> string list"
  lNilSwitch :: "err + unit"
  lNilReplace :: "OfflinePushInfo \<Rightarrow> err + OfflinePushInfo option"
  lTipsDetail :: "string \<Rightarrow> string"
  lDetail :: "msg_tips \<Rightarrow> string"
  lNoticeElem :: "string \<Rightarrow> err + string"
  lServerMsgID :: "nat \<Rightarrow> string \<Rightarrow> string"
  lClientMsgID :: "nat \<Rightarrow> string \<Rightarrow> string"
  lNotFound :: "err \<Rightarrow> bool"

record CommonCallbackReq =
  ccSendID :: string
  ccCallbackCommand :: string
  ccServerMsgID :: string
  ccClientMsgID :: string
  ccOperationID :: string
  ccSenderPlatformID :: int
  ccSenderNickname :: string
  ccSessionType :: int
  ccMsgFrom :: int
  ccContentType :: int
  ccStatus :: int
  ccSendTime :: int
  ccCreateTime :: int
  ccContent :: string
  ccSeq :: int
  ccAtUserIDList :: "string list"
  ccSenderFaceURL :: string
  ccEx :: string

record MsgModifyReply =
  mrContent :: "string option"
  mrRecvID :: "string option"
  mrGroupID :: "string option"
  mrClientMsgID :: "string option"
  mrServerMsgID :: "string option"
  mrSenderPlatformID :: "int option"
  mrSenderNickname :: "string option"
  mrSenderFaceURL :: "string option"
  mrSessionType :: "int option"
  mrMsgFrom :: "int option"
  mrContentType :: "int option"
  mrStatus :: "int option"
  mrOptions :: "options option"
  mrOfflinePushInfo :: "OfflinePushInfo option"
  mrAtUserIDList :: "string list option"
  mrAttachedInfo :: "string option"
  mrEx :: "string option"

record msg_peers = msg_lib +
  pIsBlack :: "nat \<Rightarrow> string \<Rightarrow> string \<Rightarrow> err + bool"
  pIsFriend :: "nat \<Rightarrow> string \<Rightarrow> string \<Rightarrow> err + bool"
  pGroupInfo :: "nat \<Rightarrow> string \<Rightarrow> err + GroupInfo"
  pGroupMember :: "nat \<Rightarrow> string \<Rightarrow> string \<Rightarrow> err + GroupMemberFullInfo"
  pGroupMemberIDs :: "nat \<Rightarrow> string \<Rightarrow> err + string list"
  pUserRecvOpt :: "nat \<Rightarrow> string \<Rightarrow> err + int"
  pUserInfo :: "nat \<Rightarrow> string \<Rightarrow> err + UserInfo"
  pConversation :: "nat \<Rightarrow> string \<Rightarrow> string \<Rightarrow> err + Conversation"
  pConversations :: "nat \<Rightarrow> string \<Rightarrow> string list \<Rightarrow> err + Conversation list"
  pConversationIDs :: "nat \<Rightarrow> string \<Rightarrow> err + string list"
  pConversationsByID :: "nat \<Rightarrow> string list \<Rightarrow> err + Conversation list"
  pConvCall :: "nat \<Rightarrow> conv_call \<Rightarrow> err + unit"
  hkBeforeSingle :: "nat \<Rightarrow> CommonCallbackReq \<times> string \<Rightarrow> err + unit"
  hkBeforeGroup :: "nat \<Rightarrow> CommonCallbackReq \<times> string \<Rightarrow> err + unit"
  hkMsgModify :: "nat \<Rightarrow> CommonCallbackReq \<Rightarrow> err + MsgModifyReply"

record call_ctx =
  ctxOpUserID :: string
  ctxOperationID :: string

text \<open>A call to another service.\<close>

definition peerReply :: "(nat \<Rightarrow> err + 'a) \<Rightarrow> ('e env_scheme, 'a) prog" where
  "peerReply f = (\<lambda>w. (case f (opno w) of Inl (Panic s) \<Rightarrow> Inl (ErrNew s) | r \<Rightarrow> r, w\<lparr>opno := Suc (opno w)\<rparr>))"

section \<open>Filters of the hooks\<close>

text \<open>A type or an interval of types; what is not one is passed over, negative numbers among them.\<close>

fun isInInterval :: "'p msg_lib_scheme \<Rightarrow> int \<Rightarrow> string list \<Rightarrow> bool" where
  "isInInterval P contentType' [] \<longleftrightarrow> False"
| "isInInterval P contentType' (v # interval) \<longleftrightarrow>
     (if CHR ''-'' \<in> set v then
        (case splitOn CHR ''-'' v of
           [b, t] \<Rightarrow> (case (atoi b, atoi t) of
               (Some bottom, Some upper) \<Rightarrow> lBetweenEq P contentType' bottom upper \<or> isInInterval P contentType' interval
             | _ \<Rightarrow> isInInterval P contentType' interval)
         | _ \<Rightarrow> isInInterval P contentType' interval)
      else (case atoi v of
          Some iv \<Rightarrow> contentType' = iv \<or> isInInterval P contentType' interval
        | None \<Rightarrow> isInInterval P contentType' interval))"

definition filterMsg :: "'p msg_lib_scheme \<Rightarrow> MsgData \<Rightarrow> string list \<Rightarrow> string list \<Rightarrow> string list \<Rightarrow> bool" where
  "filterMsg P m attention allowed denied \<longleftrightarrow>
     (if length attention \<noteq> 0 \<and> \<not> lContains P [sendID m, recvID m] attention then False
      else if length allowed \<noteq> 0 \<and> \<not> isInInterval P (contentType m) allowed then False
      else if length denied \<noteq> 0 \<and> isInInterval P (contentType m) denied then False
      else True)"

definition filterAfterMsg :: "'p msg_lib_scheme \<Rightarrow> MsgData \<Rightarrow> AfterConfig \<Rightarrow> bool" where
  "filterAfterMsg P m after = filterMsg P m (attentionIds after) (allowedTypes after) (deniedTypes after)"

definition filterBeforeMsg :: "'p msg_lib_scheme \<Rightarrow> MsgData \<Rightarrow> MsgBeforeConfig \<Rightarrow> bool" where
  "filterBeforeMsg P m before = filterMsg P m [] (beforeAllowed before) (beforeDenied before)"

section \<open>The hooks\<close>

abbreviation (input) Typing :: int where "Typing \<equiv> 113"
abbreviation (input) AtText :: int where "AtText \<equiv> 106"

definition GetContent :: "'p msg_lib_scheme \<Rightarrow> MsgData \<Rightarrow> string" where
  "GetContent P m = (if contentType m \<ge> NotificationBegin \<and> contentType m \<le> NotificationEnd then lTipsDetail P (content m) else content m)"

definition toCommonCallback :: "'p msg_lib_scheme \<Rightarrow> call_ctx \<Rightarrow> MsgData \<Rightarrow> string \<Rightarrow> CommonCallbackReq" where
  "toCommonCallback P C m command = \<lparr>
     ccSendID = sendID m, ccCallbackCommand = command, ccServerMsgID = serverMsgID m, ccClientMsgID = clientMsgID m,
     ccOperationID = ctxOperationID C, ccSenderPlatformID = senderPlatformID m, ccSenderNickname = senderNickname m,
     ccSessionType = sessionType m, ccMsgFrom = msgFrom m, ccContentType = contentType m, ccStatus = status m, ccSendTime = sendTime m,
     ccCreateTime = createTime m, ccContent = GetContent P m, ccSeq = uint32 (seq m), ccAtUserIDList = atUserIDList m,
     ccSenderFaceURL = senderFaceURL m, ccEx = ex m\<rparr>"

definition webhookBeforeSendSingleMsg :: "'p msg_peers_scheme \<Rightarrow> call_ctx \<Rightarrow> MsgData \<Rightarrow> ('e env_scheme, unit) prog" where
  "webhookBeforeSendSingleMsg P C m = WithCondition (BeforeConfig.truncate (cfBeforeSingle P))
     (if contentType m = Typing then ret ()
      else if \<not> filterBeforeMsg P m (cfBeforeSingle P) then ret ()
      else peerReply (\<lambda>n. hkBeforeSingle P n (toCommonCallback P C m ''callbackBeforeSendSingleMsgCommand'', recvID m))) ()"

definition webhookBeforeSendGroupMsg :: "'p msg_peers_scheme \<Rightarrow> call_ctx \<Rightarrow> MsgData \<Rightarrow> ('e env_scheme, unit) prog" where
  "webhookBeforeSendGroupMsg P C m = WithCondition (BeforeConfig.truncate (cfBeforeGroup P))
     (if \<not> filterBeforeMsg P m (cfBeforeGroup P) then ret ()
      else if contentType m = Typing then ret ()
      else peerReply (\<lambda>n. hkBeforeGroup P n (toCommonCallback P C m ''callbackBeforeSendGroupMsgCommand'', groupID m))) ()"

definition AsyncPost :: "AfterConfig \<Rightarrow> after_post \<Rightarrow> ('e msg_rpc_world_scheme, unit) prog" where
  "AsyncPost after p = (if afterEnable after then modifyM (\<lambda>w. w\<lparr>hookQueue := hookQueue w @ [p]\<rparr>) else ret ())"

definition webhookAfterSendSingleMsg :: "'p msg_peers_scheme \<Rightarrow> MsgData \<Rightarrow> ('e msg_rpc_world_scheme, unit) prog" where
  "webhookAfterSendSingleMsg P m = (if contentType m = Typing then ret ()
     else if \<not> filterAfterMsg P m (cfAfterSingle P) then ret ()
     else AsyncPost (cfAfterSingle P) (PostSingle (serverMsgID m) (recvID m)))"

definition webhookAfterSendGroupMsg :: "'p msg_peers_scheme \<Rightarrow> MsgData \<Rightarrow> ('e msg_rpc_world_scheme, unit) prog" where
  "webhookAfterSendGroupMsg P m = (if contentType m = Typing then ret ()
     else if \<not> filterAfterMsg P m (cfAfterGroup P) then ret ()
     else AsyncPost (cfAfterGroup P) (PostGroup (serverMsgID m) (groupID m)))"

text \<open>The message after the reply of the hook; the offline push is copied into the one the message has.\<close>

definition modifiedMsg :: "'p msg_lib_scheme \<Rightarrow> MsgModifyReply \<Rightarrow> MsgData \<Rightarrow> err + MsgData" where
  "modifiedMsg P r m =
     (case (case mrOfflinePushInfo r of
              None \<Rightarrow> Inr (offlinePushInfo m)
            | Some v \<Rightarrow> (case offlinePushInfo m of Some _ \<Rightarrow> Inr (Some v) | None \<Rightarrow> lNilReplace P v)) of
        Inl e \<Rightarrow> Inl e
      | Inr push \<Rightarrow> Inr (m\<lparr>
          content := NotNilReplace (mrContent r) (content m), offlinePushInfo := push,
          recvID := NotNilReplace (mrRecvID r) (recvID m), groupID := NotNilReplace (mrGroupID r) (groupID m),
          clientMsgID := NotNilReplace (mrClientMsgID r) (clientMsgID m), serverMsgID := NotNilReplace (mrServerMsgID r) (serverMsgID m),
          senderPlatformID := NotNilReplace (mrSenderPlatformID r) (senderPlatformID m),
          senderNickname := NotNilReplace (mrSenderNickname r) (senderNickname m), senderFaceURL := NotNilReplace (mrSenderFaceURL r) (senderFaceURL m),
          sessionType := NotNilReplace (mrSessionType r) (sessionType m), msgFrom := NotNilReplace (mrMsgFrom r) (msgFrom m),
          contentType := NotNilReplace (mrContentType r) (contentType m), status := NotNilReplace (mrStatus r) (status m),
          options := NotNilReplace (mrOptions r) (options m), atUserIDList := NotNilReplace (mrAtUserIDList r) (atUserIDList m),
          attachedInfo := NotNilReplace (mrAttachedInfo r) (attachedInfo m), ex := NotNilReplace (mrEx r) (ex m)\<rparr>))"

definition webhookBeforeMsgModify :: "'p msg_peers_scheme \<Rightarrow> call_ctx \<Rightarrow> MsgData \<Rightarrow> ('e env_scheme, MsgData) prog" where
  "webhookBeforeMsgModify P C m = WithCondition (BeforeConfig.truncate (cfModify P))
     (if contentType m \<noteq> Text then ret m
      else if \<not> filterBeforeMsg P m (cfModify P) then ret m
      else bindM (peerReply (\<lambda>n. hkMsgModify P n (toCommonCallback P C m ''callbackBeforeMsgModifyCommand''))) (\<lambda>resp.
        liftE (modifiedMsg P resp m))) m"

definition webhookAfterGroupMsgRead :: "'p msg_peers_scheme \<Rightarrow> string \<Rightarrow> string \<Rightarrow> int \<Rightarrow> int \<Rightarrow> ('e msg_rpc_world_scheme, unit) prog" where
  "webhookAfterGroupMsgRead P sid receiveID unreadMsgNum ct = AsyncPost (cfAfterGroupRead P) (PostGroupRead sid receiveID unreadMsgNum ct)"

definition webhookAfterSingleMsgRead :: "'p msg_peers_scheme \<Rightarrow> string \<Rightarrow> string \<Rightarrow> int list \<Rightarrow> int \<Rightarrow> ('e msg_rpc_world_scheme, unit) prog" where
  "webhookAfterSingleMsgRead P conversationID userID seqs ct = AsyncPost (cfAfterSingleRead P) (PostSingleRead conversationID userID seqs ct)"

definition webhookAfterRevokeMsg :: "'p msg_peers_scheme \<Rightarrow> string \<Rightarrow> int \<Rightarrow> string \<Rightarrow> ('e msg_rpc_world_scheme, unit) prog" where
  "webhookAfterRevokeMsg P conversationID s userID = AsyncPost (cfAfterRevoke P) (PostRevoke conversationID s userID)"

section \<open>Who may send\<close>

abbreviation (input) GroupDismissedNotification :: int where "GroupDismissedNotification \<equiv> 1511"

definition isNotificationType :: "int \<Rightarrow> bool" where
  "isNotificationType ct \<longleftrightarrow> ct \<le> NotificationEnd \<and> ct \<ge> NotificationBegin"

text \<open>The branch of a chat of two, and the branch of a group.\<close>

definition verifySingle :: "'p msg_peers_scheme \<Rightarrow> call_ctx \<Rightarrow> MsgData \<Rightarrow> ('e env_scheme, unit) prog" where
  "verifySingle P C m =
     (if sendID m \<in> set (IMAdminUserID P) then ret ()
      else if isNotificationType (contentType m) then ret ()
      else thenM (webhookBeforeSendSingleMsg P C m)
        (bindM (peerReply (\<lambda>n. pIsBlack P n (sendID m) (recvID m))) (\<lambda>black.
         if black then throw ErrBlockedByPeer
         else if FriendVerify P then
           bindM (peerReply (\<lambda>n. pIsFriend P n (sendID m) (recvID m))) (\<lambda>friend.
           if \<not> friend then throw ErrNotPeersFriend else ret ())
         else ret ())))"

definition memberMayPost :: "GroupInfo \<Rightarrow> GroupMemberFullInfo \<Rightarrow> int \<Rightarrow> err + unit" where
  "memberMayPost g mem t =
     (if mfRoleLevel mem = GroupOwner then Inr ()
      else if mfMuteEndTime mem \<ge> t then Inl ErrMutedInGroup
      else if giStatus g = GroupStatusMuted \<and> mfRoleLevel mem \<noteq> GroupAdmin then Inl ErrMutedGroup
      else Inr ())"

definition verifyGroup :: "'p msg_peers_scheme \<Rightarrow> MsgData \<Rightarrow> ('e env_scheme, unit) prog" where
  "verifyGroup P m =
     bindM (peerReply (\<lambda>n. pGroupInfo P n (groupID m))) (\<lambda>groupInfo.
     if giStatus groupInfo = GroupStatusDismissed \<and> contentType m \<noteq> GroupDismissedNotification then throw ErrDismissedAlready
     else if giGroupType groupInfo = SuperGroup then ret ()
     else if sendID m \<in> set (IMAdminUserID P) then ret ()
     else if isNotificationType (contentType m) then ret ()
     else bindM (peerReply (\<lambda>n. pGroupMemberIDs P n (groupID m))) (\<lambda>memberIDs.
       if sendID m \<notin> set memberIDs then throw ErrNotInGroupYet
       else bindM (tryM (peerReply (\<lambda>n. pGroupMember P n (groupID m) (sendID m)))) (\<lambda>r. case r of
           Inl e \<Rightarrow> if lNotFound P e then throw ErrNotInGroupYet else throw e
         | Inr mem \<Rightarrow> bindM (gets clock) (\<lambda>t. liftE (memberMayPost groupInfo mem t)))))"

definition messageVerification :: "'p msg_peers_scheme \<Rightarrow> call_ctx \<Rightarrow> MsgData \<Rightarrow> ('e env_scheme, unit) prog" where
  "messageVerification P C m =
     (if sessionType m = SingleChatType then verifySingle P C m
      else if sessionType m = ReadGroupChatType then verifyGroup P m
      else ret ())"

section \<open>The message as it is sent\<close>

definition SetSwitchFromOptions :: "'p msg_lib_scheme \<Rightarrow> string \<Rightarrow> bool \<Rightarrow> MsgData \<Rightarrow> err + MsgData" where
  "SetSwitchFromOptions P key b m = (case options m of
     Some opts \<Rightarrow> Inr (m\<lparr>options := Some (opts(key \<mapsto> b))\<rparr>)
   | None \<Rightarrow> (case lNilSwitch P of Inl e \<Rightarrow> Inl e | Inr _ \<Rightarrow> Inr m))"

primrec switchOff :: "'p msg_lib_scheme \<Rightarrow> string list \<Rightarrow> MsgData \<Rightarrow> err + MsgData" where
  "switchOff P [] m = Inr m"
| "switchOff P (k # ks) m = (case SetSwitchFromOptions P k False m of Inl e \<Rightarrow> Inl e | Inr m' \<Rightarrow> switchOff P ks m')"

definition switchesOf :: "int \<Rightarrow> string list" where
  "switchesOf ct =
     (if ct = Revoke then [kIsUnreadCount, kIsOfflinePush]
      else if ct = HasReadReceipt then [kIsConversationUpdate, kIsSenderConversationUpdate, kIsUnreadCount, kIsOfflinePush]
      else if ct = Typing then
        [kIsHistory, kIsPersistent, kIsSenderSync, kIsConversationUpdate, kIsSenderConversationUpdate, kIsUnreadCount, kIsOfflinePush]
      else [])"

definition encapsulateMsgData :: "'p msg_lib_scheme \<Rightarrow> MsgData \<Rightarrow> ('e env_scheme, MsgData) prog" where
  "encapsulateMsgData P m =
     bindM (peerReply (\<lambda>n. Inr (lServerMsgID P n (sendID m)))) (\<lambda>i.
     bindM (gets clock) (\<lambda>t.
     let m = m\<lparr>serverMsgID := i\<rparr>;
         m = (if sendTime m = 0 then m\<lparr>sendTime := t\<rparr> else m) in
     liftE (switchOff P (switchesOf (contentType m)) m)))"

definition GetSingleConversationRecvMsgOpt :: "'p msg_peers_scheme \<Rightarrow> string \<Rightarrow> string \<Rightarrow> ('e env_scheme, int) prog" where
  "GetSingleConversationRecvMsgOpt P userID conversationID =
     bindM (peerReply (\<lambda>n. pConversation P n userID conversationID)) (\<lambda>conv. ret (pcRecvMsgOpt conv))"

text \<open>Without a push when the receiver wants none: whether to send, and the message.\<close>

definition withoutPush :: "'p msg_lib_scheme \<Rightarrow> MsgData \<Rightarrow> ('w, bool \<times> MsgData) prog" where
  "withoutPush P m =
     (let m = (if options m = None then m\<lparr>options := Some Map.empty\<rparr> else m) in
      bindM (liftE (SetSwitchFromOptions P kIsOfflinePush False m)) (\<lambda>m. ret (True, m)))"

definition modifyMessageByUserMessageReceiveOpt ::
  "'p msg_peers_scheme \<Rightarrow> string \<Rightarrow> string \<Rightarrow> MsgData \<Rightarrow> ('e env_scheme, bool \<times> MsgData) prog" where
  "modifyMessageByUserMessageReceiveOpt P userID conversationID m =
     bindM (peerReply (\<lambda>n. pUserRecvOpt P n userID)) (\<lambda>opt.
     if opt = NotReceiveMessage then ret (False, m)
     else if opt = ReceiveNotNotifyMessage then withoutPush P m
     else bindM (tryM (GetSingleConversationRecvMsgOpt P userID conversationID)) (\<lambda>r. case r of
         Inl e \<Rightarrow> if lNotFound P e then ret (True, m) else throw e
       | Inr singleOpt \<Rightarrow>
           if singleOpt = ReceiveMessage then ret (True, m)
           else if singleOpt = NotReceiveMessage then ret (contentType m = HasReadReceipt, m)
           else if singleOpt = ReceiveNotNotifyMessage then withoutPush P m
           else ret (True, m)))"

section \<open>Sending\<close>

record SendMsgResp =
  rsServerMsgID :: string
  rsClientMsgID :: string
  rsSendTime :: int

definition sentResp :: "MsgData \<Rightarrow> SendMsgResp option" where
  "sentResp m = Some \<lparr>rsServerMsgID = serverMsgID m, rsClientMsgID = clientMsgID m, rsSendTime = sendTime m\<rparr>"

definition sendMsgGroupChat :: "'p msg_peers_scheme \<Rightarrow> call_ctx \<Rightarrow> MsgData \<Rightarrow> ('e msg_rpc_world_scheme, SendMsgResp option) prog" where
  "sendMsgGroupChat P C m =
     thenM (messageVerification P C m)
     (thenM (webhookBeforeSendGroupMsg P C m)
     (bindM (webhookBeforeMsgModify P C m) (\<lambda>m.
      thenM (MsgToMQ (GenConversationUniqueKeyForGroup (groupID m)) m)
      (thenM (if contentType m = AtText then modifyM (\<lambda>w. w\<lparr>atQueue := atQueue w @ [m]\<rparr>) else ret ())
      (thenM (webhookAfterSendGroupMsg P m)
       (ret (sentResp m)))))))"

definition sendMsgNotification :: "MsgData \<Rightarrow> ('e msg_rpc_world_scheme, SendMsgResp option) prog" where
  "sendMsgNotification m = thenM (MsgToMQ (GenConversationUniqueKeyForSingle (sendID m) (recvID m)) m) (ret (sentResp m))"

text \<open>\<open>None\<close> is the nil response without an error.\<close>

definition sendMsgSingleChat :: "'p msg_peers_scheme \<Rightarrow> call_ctx \<Rightarrow> MsgData \<Rightarrow> ('e msg_rpc_world_scheme, SendMsgResp option) prog" where
  "sendMsgSingleChat P C m =
     thenM (messageVerification P C m)
     (bindM (if \<not> IsNotificationByMsg m
         then modifyMessageByUserMessageReceiveOpt P (recvID m) (GenConversationIDForSingle (sendID m) (recvID m)) m
         else ret (True, m)) (\<lambda>(isSend, m).
      if \<not> isSend then ret None
      else bindM (webhookBeforeMsgModify P C m) (\<lambda>m.
        thenM (MsgToMQ (GenConversationUniqueKeyForSingle (sendID m) (recvID m)) m)
        (thenM (webhookAfterSendSingleMsg P m) (ret (sentResp m))))))"

definition SendMsg :: "'p msg_peers_scheme \<Rightarrow> call_ctx \<Rightarrow> MsgData option \<Rightarrow> ('e msg_rpc_world_scheme, SendMsgResp option) prog" where
  "SendMsg P C msgData = (case msgData of
     None \<Rightarrow> throw (ErrArgs ''msgData is nil'')
   | Some m0 \<Rightarrow> bindM (encapsulateMsgData P m0) (\<lambda>m.
       if sessionType m = SingleChatType then sendMsgSingleChat P C m
       else if sessionType m = NotificationChatType then sendMsgNotification m
       else if sessionType m = ReadGroupChatType then sendMsgGroupChat P C m
       else throw (ErrArgs ''unknown sessionType'')))"

end
