(* ===== verification/Msg_Rpc.thy ===== *)
theory Msg_Rpc
  imports Msg_Send
begin

text \<open>
  The handlers of the message service, \<^verbatim>\<open>server/internal/rpc/msg\<close>: reading (\<^verbatim>\<open>sync_msg.go\<close>), read positions (\<^verbatim>\<open>as_read.go\<close>), revocation
  (\<^verbatim>\<open>revoke.go\<close>), deletion (\<^verbatim>\<open>delete.go\<close>, \<^verbatim>\<open>clear.go\<close>) and the numbers of conversations (\<^verbatim>\<open>seq.go\<close>), with the notifications they send
  (\<^verbatim>\<open>pkg/notification/msg.go\<close>). They work on the message database; \<open>C\<close> is the caller, \<open>P\<close> the other services, \<open>T\<close> the library behind the database.
  A handler whose name the database has already is prefixed with \<open>rpc\<close>.
\<close>

section \<open>Notifications\<close>

abbreviation (input) UnreliableNotification :: int where "UnreliableNotification \<equiv> 1"
abbreviation (input) ReliableNotificationNoMsg :: int where "ReliableNotificationNoMsg \<equiv> 2"
abbreviation (input) GroupHasReadReceipt :: int where "GroupHasReadReceipt \<equiv> 2201"
abbreviation (input) UserStatusChangeNotification :: int where "UserStatusChangeNotification \<equiv> 1304"

definition zeroNotificationConfig :: NotificationConfig where
  "zeroNotificationConfig = \<lparr>ncIsSendMsg = False, ncReliabilityLevel = 0, ncUnreadCount = False,
     ncOfflinePush = \<lparr>ofEnable = False, ofTitle = '''', ofDesc = '''', ofExt = ''''\<rparr>\<rparr>"

text \<open>The configuration by content type, the fields of the file under their names; a type that is not there has the zero value.\<close>

definition newContentTypeConf :: "(string \<Rightarrow> NotificationConfig) \<Rightarrow> (int \<times> NotificationConfig) list" where
  "newContentTypeConf conf = (let noMsg = zeroNotificationConfig\<lparr>ncReliabilityLevel := ReliableNotificationNoMsg\<rparr> in [
     (1501, conf ''GroupCreated''), (1502, conf ''GroupInfoSet''), (1503, conf ''JoinGroupApplication''),
     (1504, conf ''MemberQuit''), (1505, conf ''GroupApplicationAccepted''), (1506, conf ''GroupApplicationRejected''),
     (1507, conf ''GroupOwnerTransferred''), (1508, conf ''MemberKicked''), (1509, conf ''MemberInvited''),
     (1510, conf ''MemberEnter''), (1511, conf ''GroupDismissed''), (1514, conf ''GroupMuted''),
     (1515, conf ''GroupCancelMuted''), (1512, conf ''GroupMemberMuted''), (1513, conf ''GroupMemberCancelMuted''),
     (1516, conf ''GroupMemberInfoSet''), (1517, conf ''GroupMemberSetToAdmin''), (1518, conf ''GroupMemberSetToOrdinary''),
     (1519, conf ''GroupInfoSetAnnouncement''), (1520, conf ''GroupInfoSetName''), (1303, conf ''UserInfoUpdated''),
     (1304, conf ''UserStatusChanged''), (1203, conf ''FriendApplicationAdded''), (1201, conf ''FriendApplicationApproved''),
     (1202, conf ''FriendApplicationRejected''), (1204, conf ''FriendAdded''), (1205, conf ''FriendDeleted''),
     (1206, conf ''FriendRemarkSet''), (1207, conf ''BlackAdded''), (1208, conf ''BlackDeleted''),
     (1209, conf ''FriendInfoUpdated''), (1210, conf ''FriendInfoUpdated''), (1300, conf ''ConversationChanged''),
     (1702, conf ''ConversationChanged''), (1701, conf ''ConversationSetPrivate''),
     (MsgRevokeNotification, noMsg), (HasReadReceipt, noMsg), (DeleteMsgsNotification, noMsg)])"

definition newSessionTypeConf :: "(int \<times> int) list" where
  "newSessionTypeConf = [
     (1501, ReadGroupChatType), (1502, ReadGroupChatType), (1503, SingleChatType), (1504, ReadGroupChatType),
     (1505, SingleChatType), (1506, SingleChatType), (1507, ReadGroupChatType), (1508, ReadGroupChatType),
     (1509, ReadGroupChatType), (1510, ReadGroupChatType), (1511, ReadGroupChatType), (1514, ReadGroupChatType),
     (1515, ReadGroupChatType), (1512, ReadGroupChatType), (1513, ReadGroupChatType), (1516, ReadGroupChatType),
     (1517, ReadGroupChatType), (1518, ReadGroupChatType), (1519, ReadGroupChatType), (1520, ReadGroupChatType),
     (1303, SingleChatType), (1304, SingleChatType), (1203, SingleChatType), (1201, SingleChatType),
     (1202, SingleChatType), (1204, SingleChatType), (1205, SingleChatType), (1206, SingleChatType),
     (1207, SingleChatType), (1208, SingleChatType), (1209, SingleChatType), (1210, SingleChatType),
     (1300, SingleChatType), (1702, SingleChatType), (1701, SingleChatType), (2102, SingleChatType)]"

definition GetOptionsByNotification :: "NotificationConfig \<Rightarrow> bool option \<Rightarrow> err + options" where
  "GetOptionsByNotification cfg sendMessage = (case NewOptions [] of Inl e \<Rightarrow> Inl e | Inr opts \<Rightarrow>
     let isSendMsg = (case sendMessage of None \<Rightarrow> ncIsSendMsg cfg | Some b \<Rightarrow> b) in
     WithOptions opts (
       (if isSendMsg then [WithUnreadCount True] else []) @
       (if ofEnable (ncOfflinePush cfg) then [WithOfflinePush True] else []) @
       (if ncReliabilityLevel cfg = ReliableNotificationNoMsg then [WithHistory True, WithPersistent] else []) @
       [WithSendMsg isSendMsg]))"

definition SetOptionsByContentType :: "options \<Rightarrow> int \<Rightarrow> err + options" where
  "SetOptionsByContentType options' ct = (if ct = UserStatusChangeNotification then setOption kIsSenderSync False options' else Inr options')"

text \<open>\<^verbatim>\<open>NotificationSender.send\<close>, as the message service has it: without a lookup of user names and without options of the caller.\<close>

definition sendNotice :: "'p msg_peers_scheme \<Rightarrow> call_ctx \<Rightarrow> notice \<Rightarrow> ('e msg_rpc_world_scheme, unit) prog" where
  "sendNotice P C n = (case lNoticeElem P (lDetail P (nTips n)) of
     Inl e \<Rightarrow> ret ()
   | Inr cont \<Rightarrow>
       bindM (gets clock) (\<lambda>t.
       bindM (peerReply (\<lambda>k. Inr (lClientMsgID P k (nSendID n)))) (\<lambda>i.
       let cfg = mapGet zeroNotificationConfig (newContentTypeConf (cfNotification P)) (nContentType n);
           cfg = (if nSendID n = nRecvID n \<and> nContentType n = HasReadReceipt then cfg\<lparr>ncReliabilityLevel := UnreliableNotification\<rparr> else cfg) in
       bindM (liftE (GetOptionsByNotification cfg None)) (\<lambda>opts.
       bindM (liftE (SetOptionsByContentType opts (nContentType n))) (\<lambda>opts.
       let push = \<lparr>title = ofTitle (ncOfflinePush cfg), desc = ofDesc (ncOfflinePush cfg), opEx = ofExt (ncOfflinePush cfg), iOSPushSound = '''', iOSBadgeCount = False\<rparr>;
           m = zeroMsgData\<lparr>sendID := nSendID n, recvID := nRecvID n, content := cont, msgFrom := SysMsgType, contentType := nContentType n,
             sessionType := nSessionType n, groupID := (if nSessionType n = ReadGroupChatType then nRecvID n else ''''),
             createTime := t, clientMsgID := i, options := opts, offlinePushInfo := Some push\<rparr> in
       thenM (tryM (SendMsg P C (Some m))) (ret ()))))))"

text \<open>The notification is put into the memory queue; a queue that is full drops it.\<close>

definition NotificationWithSessionType :: "string \<Rightarrow> string \<Rightarrow> int \<Rightarrow> int \<Rightarrow> msg_tips \<Rightarrow> ('e msg_rpc_world_scheme, unit) prog" where
  "NotificationWithSessionType sid rid ct st tips = thenM (tryM (io (modifyM (\<lambda>w. w\<lparr>noticeQueue := noticeQueue w @
     [\<lparr>nSendID = sid, nRecvID = rid, nContentType = ct, nSessionType = st, nTips = tips\<rparr>]\<rparr>)))) (ret ())"

definition Notification :: "string \<Rightarrow> string \<Rightarrow> int \<Rightarrow> msg_tips \<Rightarrow> ('e msg_rpc_world_scheme, unit) prog" where
  "Notification sid rid ct tips = NotificationWithSessionType sid rid ct (mapGet 0 newSessionTypeConf ct) tips"

definition UserDeleteMsgsNotification :: "string \<Rightarrow> string \<Rightarrow> int list \<Rightarrow> ('e msg_rpc_world_scheme, unit) prog" where
  "UserDeleteMsgsNotification userID conversationID seqs = Notification userID userID DeleteMsgsNotification (TipsDelete userID conversationID seqs)"

definition MarkAsReadNotification :: "string \<Rightarrow> int \<Rightarrow> string \<Rightarrow> string \<Rightarrow> int list \<Rightarrow> int \<Rightarrow> ('e msg_rpc_world_scheme, unit) prog" where
  "MarkAsReadNotification conversationID st sid rid seqs hasReadSeq =
     NotificationWithSessionType sid rid HasReadReceipt st (TipsRead sid conversationID seqs hasReadSeq)"

definition StreamMsgNotification :: "string \<Rightarrow> string \<Rightarrow> int \<Rightarrow> string \<Rightarrow> ('e msg_rpc_world_scheme, unit) prog" where
  "StreamMsgNotification sid rid st tips = NotificationWithSessionType sid rid 2300 st (TipsStream tips)"

definition conversationAndGetRecvID :: "Conversation \<Rightarrow> string \<Rightarrow> string" where
  "conversationAndGetRecvID c userID =
     (if pcConversationType c = SingleChatType \<or> pcConversationType c = NotificationChatType
      then (if userID = pcOwnerUserID c then pcUserID c else pcOwnerUserID c)
      else if pcConversationType c = ReadGroupChatType then pcGroupID c
      else '''')"

section \<open>Mentions\<close>

definition convCall :: "'p msg_peers_scheme \<Rightarrow> conv_call \<Rightarrow> ('e msg_rpc_world_scheme, unit) prog" where
  "convCall P c = thenM (modifyM (\<lambda>w. w\<lparr>convCalls := convCalls w @ [c]\<rparr>)) (peerReply (\<lambda>n. pConvCall P n c))"

text \<open>\<^verbatim>\<open>SetConversations\<close> of the client with the kind of mention; its error is only logged.\<close>

definition setAtType :: "'p msg_peers_scheme \<Rightarrow> MsgData \<Rightarrow> int \<Rightarrow> string list \<Rightarrow> ('e msg_rpc_world_scheme, unit) prog" where
  "setAtType P m atType userIDs = (if userIDs = [] then ret ()
     else thenM (tryM (convCall P (SetAtType (GetConversationIDByMsg m) (sessionType m) (groupID m) atType userIDs))) (ret ()))"

abbreviation (input) AtMe :: int where "AtMe \<equiv> 1"
abbreviation (input) AtAll :: int where "AtAll \<equiv> 2"
abbreviation (input) AtAllAtMe :: int where "AtAllAtMe \<equiv> 3"

definition setConversationAtInfo :: "'p msg_peers_scheme \<Rightarrow> MsgData \<Rightarrow> ('e msg_rpc_world_scheme, unit) prog" where
  "setConversationAtInfo P m =
     bindM (tryM (peerReply (\<lambda>n. pGroupMemberIDs P n (groupID m)))) (\<lambda>r. case r of
       Inl e \<Rightarrow> ret ()
     | Inr memberIDs \<Rightarrow>
         if AtAllString \<in> set (atUserIDList m) then
           (let memberIDs = lDeleteElems P memberIDs (sendID m);
                atUserID = lSingle P [AtAllString] (atUserIDList m) in
            if atUserID = [] then setAtType P m AtAll memberIDs
            else (let atUserID = lIntersect P atUserID memberIDs in
              thenM (setAtType P m AtAllAtMe atUserID) (setAtType P m AtAll (lSingle P atUserID memberIDs))))
         else setAtType P m AtMe (lIntersect P (atUserIDList m) memberIDs))"

section \<open>Reading\<close>

text \<open>\<^verbatim>\<open>sdkws.SeqRange\<close>.\<close>

record SeqRangeReq =
  sqConversationID :: string
  sqBegin :: int
  sqEnd :: int
  sqNum :: int

record RespPullMsgs =
  rpMsgs :: "MsgData option list"
  rpIsEnd :: bool
  rpEndSeq :: int

type_synonym pull_resp = "(string \<times> RespPullMsgs) list \<times> (string \<times> RespPullMsgs) list"

definition pullIsEnd :: "PullOrder \<Rightarrow> SeqRangeReq \<Rightarrow> int \<Rightarrow> int \<Rightarrow> bool" where
  "pullIsEnd order r minSeq maxSeq = (case order of PullOrderAsc \<Rightarrow> maxSeq \<le> sqEnd r | PullOrderDesc \<Rightarrow> sqBegin r \<le> minSeq)"

text \<open>One range of the request; an error of it is logged, and the range is left out.\<close>

definition pullRange ::
  "'t tools_scheme \<Rightarrow> 'p msg_peers_scheme \<Rightarrow> string \<Rightarrow> PullOrder \<Rightarrow> SeqRangeReq \<Rightarrow> pull_resp \<Rightarrow> ('e msg_rpc_world_scheme, pull_resp) prog" where
  "pullRange T P userID order r = (\<lambda>(msgs, notes).
     if \<not> IsNotification (sqConversationID r) then
       bindM (tryM (peerReply (\<lambda>n. pConversation P n userID (sqConversationID r)))) (\<lambda>conv. case conv of
         Inl e \<Rightarrow> ret (msgs, notes)
       | Inr conversation \<Rightarrow>
           bindM (tryM (GetMsgBySeqsRange T userID (sqConversationID r) (sqBegin r) (sqEnd r) (sqNum r) (pcMaxSeq conversation))) (\<lambda>a. case a of
             Inl e \<Rightarrow> ret (msgs, notes)
           | Inr (minSeq, maxSeq, ms) \<Rightarrow>
               if length ms = 0 then ret (msgs, notes)
               else ret (AList.update (sqConversationID r) \<lparr>rpMsgs = ms, rpIsEnd = pullIsEnd order r minSeq maxSeq, rpEndSeq = 0\<rparr> msgs, notes)))
     else
       bindM (tryM (GetMsgBySeqs T userID (sqConversationID r) [sqBegin r..sqEnd r])) (\<lambda>a. case a of
         Inl e \<Rightarrow> ret (msgs, notes)
       | Inr (minSeq, maxSeq, ms) \<Rightarrow>
           if length ms = 0 then ret (msgs, notes)
           else ret (msgs, AList.update (sqConversationID r) \<lparr>rpMsgs = ms, rpIsEnd = pullIsEnd order r minSeq maxSeq, rpEndSeq = 0\<rparr> notes)))"

definition PullMessageBySeqs ::
  "'t tools_scheme \<Rightarrow> 'p msg_peers_scheme \<Rightarrow> string \<Rightarrow> SeqRangeReq list \<Rightarrow> PullOrder \<Rightarrow> ('e msg_rpc_world_scheme, pull_resp) prog" where
  "PullMessageBySeqs T P userID seqRanges order = foldM (pullRange T P userID order) seqRanges ([], [])"

definition addPulled :: "string \<Rightarrow> MsgData option list \<Rightarrow> bool \<Rightarrow> int \<Rightarrow> (string \<times> RespPullMsgs) list \<Rightarrow> (string \<times> RespPullMsgs) list" where
  "addPulled c ms isEnd endSeq resp = AList.update c
     \<lparr>rpMsgs = (case map_of resp c of None \<Rightarrow> [] | Some p \<Rightarrow> rpMsgs p) @ ms, rpIsEnd = isEnd, rpEndSeq = endSeq\<rparr> resp"

definition GetSeqMessage ::
  "'t tools_scheme \<Rightarrow> string \<Rightarrow> (string \<times> int list) list \<Rightarrow> PullOrder \<Rightarrow> ('e msg_rpc_world_scheme, pull_resp) prog" where
  "GetSeqMessage T userID convs order = foldM (\<lambda>(c, seqs) (msgs, notes).
     bindM (GetMessagesBySeqWithBounds T userID c seqs order) (\<lambda>(isEnd, endSeq, ms).
     ret (if IsNotificationConversationID c then (msgs, addPulled c ms isEnd endSeq notes) else (addPulled c ms isEnd endSeq msgs, notes))))
     convs ([], [])"

definition rpcGetMaxSeq :: "'p msg_peers_scheme \<Rightarrow> call_ctx \<Rightarrow> string \<Rightarrow> ('e msg_rpc_world_scheme, (string \<times> int) list) prog" where
  "rpcGetMaxSeq P C userID =
     thenM (liftE (CheckAccessV3 (ctxOpUserID C) userID (IMAdminUserID P)))
     (bindM (peerReply (\<lambda>n. pConversationIDs P n userID)) (\<lambda>conversationIDs.
      bindM (GetMaxSeqs (conversationIDs @ map GetNotificationConversationIDByConversationID conversationIDs @
         [GetSelfNotificationConversationID userID])) (\<lambda>maxSeqs.
      ret (filter (\<lambda>(c, s). s \<noteq> 0) maxSeqs))))"

definition GetServerTime :: "('e env_scheme, int) prog" where
  "GetServerTime = gets clock"

definition rpcGetLastMessage :: "'t tools_scheme \<Rightarrow> string list \<Rightarrow> string \<Rightarrow> ('e msg_rpc_world_scheme, (string \<times> MsgData option) list) prog" where
  "rpcGetLastMessage T conversationIDs userID = GetLastMessage T conversationIDs userID"

section \<open>Read positions\<close>

text \<open>\<^verbatim>\<open>if err != nil && !errors.Is(err, redis.Nil)\<close>: a missing key is the zero value.\<close>

definition nilAsZero :: "('w, int) prog \<Rightarrow> ('w, int) prog" where
  "nilAsZero m = bindM (tryM m) (\<lambda>r. case r of Inl e \<Rightarrow> if e = RedisNil then ret 0 else throw e | Inr s \<Rightarrow> ret s)"

record HasReadAndMax =
  hmHasReadSeq :: int
  hmMaxSeq :: int
  hmMaxSeqTime :: int

definition GetConversationsHasReadAndMaxSeq ::
  "'p msg_peers_scheme \<Rightarrow> string \<Rightarrow> string list \<Rightarrow> ('e msg_rpc_world_scheme, (string \<times> HasReadAndMax) list) prog" where
  "GetConversationsHasReadAndMaxSeq P userID ids =
     bindM (if length ids = 0 then peerReply (\<lambda>n. pConversationIDs P n userID) else ret ids) (\<lambda>conversationIDs.
     bindM (GetHasReadSeqs userID conversationIDs) (\<lambda>hasReadSeqs.
     bindM (peerReply (\<lambda>n. pConversations P n userID conversationIDs)) (\<lambda>conversations.
     let conversationMaxSeqMap = foldl (\<lambda>m c. if pcMaxSeq c \<noteq> 0 then AList.update (pcConversationID c) (pcMaxSeq c) m else m) [] conversations in
     bindM (GetMaxSeqsWithTime conversationIDs) (\<lambda>maxSeqs.
     ret (map (\<lambda>(c, st). (c, \<lparr>hmHasReadSeq = mapGet 0 hasReadSeqs c,
       hmMaxSeq = (case map_of conversationMaxSeqMap c of None \<Rightarrow> stSeq st | Some v \<Rightarrow> v), hmMaxSeqTime = stTime st\<rparr>)) maxSeqs)))))"

definition sendMarkAsReadNotification :: "string \<Rightarrow> int \<Rightarrow> string \<Rightarrow> string \<Rightarrow> int list \<Rightarrow> int \<Rightarrow> ('e msg_rpc_world_scheme, unit) prog" where
  "sendMarkAsReadNotification conversationID st sid rid seqs hasReadSeq =
     NotificationWithSessionType sid rid HasReadReceipt st (TipsRead sid conversationID seqs hasReadSeq)"

definition SetConversationHasReadSeq :: "string \<Rightarrow> string \<Rightarrow> int \<Rightarrow> ('e msg_rpc_world_scheme, unit) prog" where
  "SetConversationHasReadSeq userID conversationID hasReadSeq =
     bindM (GetMaxSeq conversationID) (\<lambda>maxSeq.
     if hasReadSeq > maxSeq then throw (ErrArgs ''hasReadSeq must not be bigger than maxSeq'')
     else thenM (SetHasReadSeq userID conversationID hasReadSeq)
       (sendMarkAsReadNotification conversationID SingleChatType userID userID [] hasReadSeq))"

definition MarkMsgsAsRead :: "'p msg_peers_scheme \<Rightarrow> string \<Rightarrow> string \<Rightarrow> int list \<Rightarrow> ('e msg_rpc_world_scheme, unit) prog" where
  "MarkMsgsAsRead P userID conversationID seqs =
     (if length seqs < 1 then throw (ErrArgs ''seqs must not be empty'')
      else bindM (GetMaxSeq conversationID) (\<lambda>maxSeq.
        let hasReadSeq = last seqs in
        if hasReadSeq > maxSeq then throw (ErrArgs ''hasReadSeq must not be bigger than maxSeq'')
        else bindM (peerReply (\<lambda>n. pConversation P n userID conversationID)) (\<lambda>conversation.
          thenM (MarkSingleChatMsgsAsRead userID conversationID seqs)
          (bindM (nilAsZero (GetHasReadSeq userID conversationID)) (\<lambda>currentHasReadSeq.
           thenM (if hasReadSeq > currentHasReadSeq then SetHasReadSeq userID conversationID hasReadSeq else ret ())
           (thenM (webhookAfterSingleMsgRead P (pcConversationID conversation) userID seqs (pcConversationType conversation))
             (sendMarkAsReadNotification conversationID (pcConversationType conversation) userID
               (conversationAndGetRecvID conversation userID) seqs hasReadSeq)))))))"

definition broadcastGroupHasReadReceipt :: "'p msg_peers_scheme \<Rightarrow> string \<Rightarrow> string \<Rightarrow> int \<Rightarrow> ('e msg_rpc_world_scheme, unit) prog" where
  "broadcastGroupHasReadReceipt P conversationID userID hasReadSeq =
     (let grp = GetGroupIDFromConversationID conversationID in
      if grp = '''' then ret ()
      else bindM (tryM (peerReply (\<lambda>n. pGroupMemberIDs P n grp))) (\<lambda>r. case r of
          Inl e \<Rightarrow> ret ()
        | Inr memberUserIDs \<Rightarrow> forM memberUserIDs (\<lambda>memberUserID.
            if memberUserID = userID then ret ()
            else NotificationWithSessionType userID memberUserID GroupHasReadReceipt SingleChatType
              (TipsGroupRead grp conversationID userID hasReadSeq))))"

text \<open>The numbers after the position up to the one of the request, then those of the request that are not among them.\<close>

definition readSeqs :: "int \<Rightarrow> int \<Rightarrow> int list \<Rightarrow> int list" where
  "readSeqs hasReadSeq reqSeq reqSeqs = foldl (\<lambda>seqs v. if v \<in> set seqs then seqs else seqs @ [v]) [hasReadSeq + 1..reqSeq] reqSeqs"

definition moveReadSeq :: "string \<Rightarrow> string \<Rightarrow> int \<Rightarrow> int \<Rightarrow> ('e msg_rpc_world_scheme, int) prog" where
  "moveReadSeq userID conversationID hasReadSeq reqSeq =
     (if reqSeq > hasReadSeq then thenM (SetHasReadSeq userID conversationID reqSeq) (ret reqSeq) else ret hasReadSeq)"

definition MarkConversationAsRead ::
  "'p msg_peers_scheme \<Rightarrow> string \<Rightarrow> string \<Rightarrow> int \<Rightarrow> int list \<Rightarrow> ('e msg_rpc_world_scheme, unit) prog" where
  "MarkConversationAsRead P userID conversationID reqSeq reqSeqs =
     bindM (peerReply (\<lambda>n. pConversation P n userID conversationID)) (\<lambda>conversation.
     bindM (nilAsZero (GetHasReadSeq userID conversationID)) (\<lambda>hasReadSeq.
     let ct = pcConversationType conversation in
     thenM
       (if ct = SingleChatType then
          (let seqs = readSeqs hasReadSeq reqSeq reqSeqs in
           thenM (if length seqs > 0 then MarkSingleChatMsgsAsRead userID conversationID seqs else ret ())
           (bindM (moveReadSeq userID conversationID hasReadSeq reqSeq) (\<lambda>hasReadSeq.
            sendMarkAsReadNotification conversationID ct userID (conversationAndGetRecvID conversation userID) seqs hasReadSeq)))
        else if ct = ReadGroupChatType \<or> ct = NotificationChatType then
          bindM (moveReadSeq userID conversationID hasReadSeq reqSeq) (\<lambda>hasReadSeq.
          thenM (sendMarkAsReadNotification conversationID SingleChatType userID userID [] hasReadSeq)
            (if ct = ReadGroupChatType then broadcastGroupHasReadReceipt P conversationID userID hasReadSeq else ret ()))
        else ret ())
       (if ct = SingleChatType then webhookAfterSingleMsgRead P (pcConversationID conversation) (pcOwnerUserID conversation) reqSeqs ct
        else if ct = ReadGroupChatType then webhookAfterGroupMsgRead P (pcOwnerUserID conversation) userID reqSeq ct
        else ret ())))"

section \<open>Revocation\<close>

definition GetGroupMemberInfoMap :: "'p msg_peers_scheme \<Rightarrow> string \<Rightarrow> string list \<Rightarrow> ('e env_scheme, (string \<times> GroupMemberFullInfo) list) prog" where
  "GetGroupMemberInfoMap P grp userIDs = foldM (\<lambda>userID members.
     bindM (tryM (peerReply (\<lambda>n. pGroupMember P n grp userID))) (\<lambda>r. case r of
       Inl e \<Rightarrow> if lNotFound P e then ret members else throw e
     | Inr member \<Rightarrow> ret (AList.update userID member members))) userIDs []"

text \<open>Who may revoke a message: the role of the one who does. \<^verbatim>\<open>members[req.UserID].RoleLevel\<close> of somebody who is not in the map is a nil pointer.\<close>

definition revokeRole :: "'p msg_peers_scheme \<Rightarrow> call_ctx \<Rightarrow> string \<Rightarrow> UserInfo \<Rightarrow> MsgData \<Rightarrow> ('e env_scheme, int) prog" where
  "revokeRole P C userID user m =
     (if IsAppManagerUid (ctxOpUserID C) (IMAdminUserID P) then ret 0
      else if sessionType m = SingleChatType then
        thenM (liftE (CheckAccessV3 (ctxOpUserID C) (sendID m) (IMAdminUserID P))) (ret (uiAppMangerLevel user))
      else if sessionType m = ReadGroupChatType then
        bindM (GetGroupMemberInfoMap P (groupID m) (remdups [userID, sendID m])) (\<lambda>members.
        thenM (if userID \<noteq> sendID m then
            (case map_of members userID of
               None \<Rightarrow> throw (Panic ''nil pointer dereference'')
             | Some member \<Rightarrow>
                 if mfRoleLevel member = GroupOwner then ret ()
                 else if mfRoleLevel member = GroupAdmin then
                   (case map_of members (sendID m) of
                      Some sendMember \<Rightarrow> if mfRoleLevel sendMember \<noteq> GroupOrdinaryUsers then throw ErrNoPermission else ret ()
                    | None \<Rightarrow> ret ())
                 else throw ErrNoPermission)
           else ret ())
        (ret (case map_of members userID of None \<Rightarrow> 0 | Some member \<Rightarrow> mfRoleLevel member)))
      else throw (ErrInternalServer ''msg sessionType not supported''))"

definition rpcRevokeMsg :: "'t tools_scheme \<Rightarrow> 'p msg_peers_scheme \<Rightarrow> call_ctx \<Rightarrow> string \<Rightarrow> string \<Rightarrow> int \<Rightarrow> ('e msg_rpc_world_scheme, unit) prog" where
  "rpcRevokeMsg T P C userID conversationID s =
     (if userID = '''' then throw (ErrArgs ''user_id is empty'')
      else if conversationID = '''' then throw (ErrArgs ''conversation_id is empty'')
      else if s < 0 then throw (ErrArgs ''seq is invalid'')
      else thenM (liftE (CheckAccessV3 (ctxOpUserID C) userID (IMAdminUserID P)))
       (bindM (peerReply (\<lambda>n. pUserInfo P n userID)) (\<lambda>user.
        bindM (GetMsgBySeqs T userID conversationID [s]) (\<lambda>(minSeq, maxSeq, msgs). case msgs of
          [] \<Rightarrow> throw ErrRecordNotFound
        | None # _ \<Rightarrow> throw ErrRecordNotFound
        | Some m # _ \<Rightarrow>
            if contentType m = MsgRevokeNotification then throw ErrMsgAlreadyRevoke
            else bindM (revokeRole P C userID user m) (\<lambda>role.
              bindM (gets clock) (\<lambda>t.
              thenM (RevokeMsg conversationID s (Some \<lparr>rRole = role, rUserID = userID, rNickname = uiNickname user, rTime = t\<rparr>))
              (thenM (NotificationWithSessionType userID (if sessionType m = ReadGroupChatType then groupID m else recvID m)
                  MsgRevokeNotification (sessionType m)
                  (TipsRevoke (ctxOpUserID C) (clientMsgID m) t s (sessionType m) conversationID (ctxOpUserID C \<in> set (IMAdminUserID P))))
               (webhookAfterRevokeMsg P conversationID s userID))))))))"

section \<open>Deletion\<close>

record DeleteSyncOpt =
  isSyncSelf :: bool
  isSyncOther :: bool

definition getMinSeqs :: "(string \<times> int) list \<Rightarrow> (string \<times> int) list" where
  "getMinSeqs maxSeqs = map (\<lambda>(k, v). (k, v + 1)) maxSeqs"

definition validateDeleteSyncOpt :: "DeleteSyncOpt option \<Rightarrow> bool \<times> bool" where
  "validateDeleteSyncOpt opt = (case opt of None \<Rightarrow> (False, False) | Some d \<Rightarrow> (isSyncSelf d, isSyncOther d))"

definition GetConversationsByConversationIDs :: "'p msg_peers_scheme \<Rightarrow> string list \<Rightarrow> ('e env_scheme, Conversation list) prog" where
  "GetConversationsByConversationIDs P ids = (if ids = [] then ret [] else peerReply (\<lambda>n. pConversationsByID P n ids))"

definition GetConversationsByConversationID :: "'p msg_peers_scheme \<Rightarrow> string \<Rightarrow> ('e env_scheme, Conversation) prog" where
  "GetConversationsByConversationID P c = bindM (GetConversationsByConversationIDs P [c]) (\<lambda>cs. case cs of
     [] \<Rightarrow> throw ErrRecordNotFound | conv # _ \<Rightarrow> ret conv)"

definition client_SetConversationMinSeq :: "'p msg_peers_scheme \<Rightarrow> string \<Rightarrow> string list \<Rightarrow> int \<Rightarrow> ('e msg_rpc_world_scheme, unit) prog" where
  "client_SetConversationMinSeq P c ownerUserIDs s = (if ownerUserIDs = [] then ret () else convCall P (SetConvMinSeq c ownerUserIDs s))"

definition clearConversation ::
  "'p msg_peers_scheme \<Rightarrow> string list \<Rightarrow> string \<Rightarrow> DeleteSyncOpt option \<Rightarrow> ('e msg_rpc_world_scheme, unit) prog" where
  "clearConversation P conversationIDs userID opt =
     bindM (GetConversationsByConversationIDs P conversationIDs) (\<lambda>existConversations.
     let existConversationIDs = map pcConversationID existConversations in
     bindM (GetMaxSeqs existConversationIDs) (\<lambda>maxSeqs.
     let (syncSelf, syncOther) = validateDeleteSyncOpt opt in
     thenM
       (if \<not> syncOther then
          (let setSeqs = getMinSeqs maxSeqs in
           thenM (SetUserConversationsMinSeqs userID setSeqs)
           (thenM (forM setSeqs (\<lambda>(c, s). client_SetConversationMinSeq P c [userID] s))
            (if syncSelf then NotificationWithSessionType userID userID ClearConversationNotification SingleChatType
                (TipsClear userID existConversationIDs) else ret ())))
        else thenM (db_SetMinSeqs (getMinSeqs maxSeqs))
          (forM existConversations (\<lambda>conv. NotificationWithSessionType userID (conversationAndGetRecvID conv userID)
             ClearConversationNotification (pcConversationType conv) (TipsClear userID [pcConversationID conv]))))
       (UserSetHasReadSeqs userID maxSeqs)))"

definition ClearConversationsMsg ::
  "'p msg_peers_scheme \<Rightarrow> call_ctx \<Rightarrow> string \<Rightarrow> string list \<Rightarrow> DeleteSyncOpt option \<Rightarrow> ('e msg_rpc_world_scheme, unit) prog" where
  "ClearConversationsMsg P C userID conversationIDs opt =
     thenM (liftE (CheckAccessV3 (ctxOpUserID C) userID (IMAdminUserID P))) (clearConversation P conversationIDs userID opt)"

definition UserClearAllMsg :: "'p msg_peers_scheme \<Rightarrow> call_ctx \<Rightarrow> string \<Rightarrow> DeleteSyncOpt option \<Rightarrow> ('e msg_rpc_world_scheme, unit) prog" where
  "UserClearAllMsg P C userID opt =
     thenM (liftE (CheckAccessV3 (ctxOpUserID C) userID (IMAdminUserID P)))
     (bindM (peerReply (\<lambda>n. pConversationIDs P n userID)) (\<lambda>conversationIDs. clearConversation P conversationIDs userID opt))"

definition DeleteMsgs ::
  "'p msg_peers_scheme \<Rightarrow> call_ctx \<Rightarrow> string \<Rightarrow> string \<Rightarrow> int list \<Rightarrow> DeleteSyncOpt option \<Rightarrow> ('e msg_rpc_world_scheme, unit) prog" where
  "DeleteMsgs P C userID conversationID seqs opt =
     thenM (liftE (CheckAccessV3 (ctxOpUserID C) userID (IMAdminUserID P)))
     (let (syncSelf, syncOther) = validateDeleteSyncOpt opt in
      if syncOther then
        thenM (DeleteMsgsPhysicalBySeqs conversationID seqs)
        (bindM (GetConversationsByConversationID P conversationID) (\<lambda>conv.
         NotificationWithSessionType userID (conversationAndGetRecvID conv userID) DeleteMsgsNotification (pcConversationType conv)
           (TipsDelete userID conversationID seqs)))
      else thenM (DeleteUserMsgsBySeqs userID conversationID seqs)
        (if syncSelf then NotificationWithSessionType userID userID DeleteMsgsNotification SingleChatType (TipsDelete userID conversationID seqs)
         else ret ()))"

definition DeleteMsgPhysicalBySeq :: "string \<Rightarrow> int list \<Rightarrow> ('e msg_rpc_world_scheme, unit) prog" where
  "DeleteMsgPhysicalBySeq conversationID seqs = DeleteMsgsPhysicalBySeqs conversationID seqs"

text \<open>The largest number of a deleted document; an entry that is null is a nil pointer.\<close>

primrec docMaxSeq :: "MsgInfoModel option list \<Rightarrow> int \<Rightarrow> err + int" where
  "docMaxSeq [] s = Inr s"
| "docMaxSeq (e # es) s = (case e of
     None \<Rightarrow> Inl (Panic ''nil pointer dereference'')
   | Some i \<Rightarrow> (case iMsg i of None \<Rightarrow> docMaxSeq es s | Some m \<Rightarrow> docMaxSeq es (if mSeq m > s then mSeq m else s)))"

definition DestructMsgs ::
  "(nat \<Rightarrow> MsgDocModel list \<Rightarrow> MsgDocModel list) \<Rightarrow> 'p msg_peers_scheme \<Rightarrow> call_ctx \<Rightarrow> int \<Rightarrow> nat \<Rightarrow> ('e msg_rpc_world_scheme, int) prog" where
  "DestructMsgs sample P C timestamp limit =
     thenM (liftE (CheckAdmin (ctxOpUserID C) (IMAdminUserID P)))
     (bindM (GetRandBeforeMsg sample timestamp limit) (\<lambda>docs.
      thenM (forM docs (\<lambda>doc.
        thenM (DeleteDoc (docID doc))
        (case lastIndex CHR '':'' (docID doc) of
           None \<Rightarrow> ret ()
         | Some index \<Rightarrow> bindM (liftE (docMaxSeq (docMsgs doc) 0)) (\<lambda>minSeq.
             if minSeq \<le> 0 then ret ()
             else if take index (docID doc) = '''' then ret ()
             else db_SetMinSeq (take index (docID doc)) (minSeq + 1)))))
      (ret (int (length docs)))))"

definition DeleteMsgPhysical ::
  "(nat \<Rightarrow> MsgDocModel list \<Rightarrow> MsgDocModel list) \<Rightarrow> 'p msg_peers_scheme \<Rightarrow> call_ctx \<Rightarrow> int \<Rightarrow> ('e msg_rpc_world_scheme, unit) prog" where
  "DeleteMsgPhysical sample P C timestamp =
     thenM (liftE (CheckAdmin (ctxOpUserID C) (IMAdminUserID P)))
     (bindM (gets clock) (\<lambda>t. thenM (DestructMsgs sample P C (t sdiv 1000 - timestamp) 9999) (ret ())))"

definition GetLastMessageSeqByTime :: "string \<Rightarrow> int \<Rightarrow> ('e msg_rpc_world_scheme, int) prog" where
  "GetLastMessageSeqByTime conversationID time = mgo_GetLastMessageSeqByTime conversationID time"

section \<open>Numbers of conversations\<close>

definition rpcGetConversationMaxSeq :: "string \<Rightarrow> ('e msg_rpc_world_scheme, int) prog" where
  "rpcGetConversationMaxSeq conversationID = nilAsZero (GetMaxSeq conversationID)"

definition rpcGetMaxSeqs :: "string list \<Rightarrow> ('e msg_rpc_world_scheme, (string \<times> int) list) prog" where
  "rpcGetMaxSeqs conversationIDs = GetMaxSeqs conversationIDs"

definition rpcGetHasReadSeqs :: "string \<Rightarrow> string list \<Rightarrow> ('e msg_rpc_world_scheme, (string \<times> int) list) prog" where
  "rpcGetHasReadSeqs userID conversationIDs = GetHasReadSeqs userID conversationIDs"

definition GetMsgByConversationIDs :: "string list \<Rightarrow> (string \<times> int) list \<Rightarrow> ('e msg_rpc_world_scheme, (string \<times> MsgData option) list) prog" where
  "GetMsgByConversationIDs conversationIDs maxSeqs = FindOneByDocIDs conversationIDs maxSeqs"

definition rpcSetUserConversationsMinSeq :: "string list \<Rightarrow> string \<Rightarrow> int \<Rightarrow> ('e msg_rpc_world_scheme, unit) prog" where
  "rpcSetUserConversationsMinSeq userIDs conversationID s = forM userIDs (\<lambda>userID. SetUserConversationsMinSeqs userID [(conversationID, s)])"

text \<open>The sort, which leaves open the order of conversations of one time, is a parameter.\<close>

definition GetActiveConversation ::
  "((string \<times> SeqTime) list \<Rightarrow> (string \<times> SeqTime) list) \<Rightarrow> string list \<Rightarrow> int \<Rightarrow> ('e msg_rpc_world_scheme, (string \<times> SeqTime) list) prog" where
  "GetActiveConversation sortByTime conversationIDs limit =
     bindM (GetCacheMaxSeqWithTime conversationIDs) (\<lambda>res.
     if limit > 0 then
       (let conversations = sortByTime res in
        ret (if int (length conversations) > limit then take (nat limit) conversations else conversations))
     else ret res)"

definition SetUserConversationMaxSeq :: "string \<Rightarrow> string list \<Rightarrow> int \<Rightarrow> ('e msg_rpc_world_scheme, unit) prog" where
  "SetUserConversationMaxSeq conversationID ownerUserIDs maxSeq = forM ownerUserIDs (\<lambda>userID. SetUserConversationsMaxSeq conversationID userID maxSeq)"

definition SetUserConversationMinSeq :: "string \<Rightarrow> string list \<Rightarrow> int \<Rightarrow> ('e msg_rpc_world_scheme, unit) prog" where
  "SetUserConversationMinSeq conversationID ownerUserIDs minSeq = forM ownerUserIDs (\<lambda>userID. Msg_Database.SetUserConversationsMinSeq conversationID userID minSeq)"

definition rpcGetConversationsUserReadSeqs ::
  "(string \<times> string list) list \<Rightarrow> ('e msg_rpc_world_scheme, (string \<times> (string \<times> int) list) list) prog" where
  "rpcGetConversationsUserReadSeqs conversationUserIDs = GetConversationsUserReadSeqs conversationUserIDs"

section \<open>The status of a message that is being sent\<close>

definition rpcSetSendMsgStatus :: "call_ctx \<Rightarrow> int \<Rightarrow> ('e msg_rpc_world_scheme, unit) prog" where
  "rpcSetSendMsgStatus C status' = SetSendMsgStatus (ctxOperationID C) status'"

definition IsNotFound :: "err \<Rightarrow> bool" where
  "IsNotFound e \<longleftrightarrow> e = RedisNil \<or> e = MongoNoDocuments"

definition rpcGetSendMsgStatus :: "call_ctx \<Rightarrow> ('e msg_rpc_world_scheme, int) prog" where
  "rpcGetSendMsgStatus C = bindM (tryM (GetSendMsgStatus (ctxOperationID C))) (\<lambda>r. case r of
     Inl e \<Rightarrow> if IsNotFound e then ret 0 else throw e
   | Inr s \<Rightarrow> ret s)"

end
