(* ===== verification/Msg_Rpc_Props.thy ===== *)
theory Msg_Rpc_Props
  imports Msg_Rpc Msg_Database_Props
begin

text \<open>
  The properties of the message service: what a message that is on the topic of the transfer has passed (\<open>sent_message_allowed\<close>), who may revoke, what
  deletion and read positions do.
\<close>

section \<open>Calls to other services\<close>

text \<open>A program that only talks to the other services moves the number of the next call and nothing else.\<close>

definition onlyCalls :: "('e env_scheme, 'a) prog \<Rightarrow> bool" where
  "onlyCalls f \<longleftrightarrow> (\<forall>w. \<exists>n. snd (f w) = w\<lparr>opno := n\<rparr>)"

named_theorems calls "programs that only call other services"

lemma onlyCallsD: "onlyCalls f \<Longrightarrow> f w = (r, w') \<Longrightarrow> \<exists>n. w' = w\<lparr>opno := n\<rparr>"
  unfolding onlyCalls_def by (metis snd_conv)

lemma calls_here [simp]: "\<exists>n. w = w\<lparr>opno := n\<rparr>" for w :: "'e env_scheme"
  by (rule exI [of _ "opno w"]) simp

lemma calls_ret [calls]: "onlyCalls (ret a)" and calls_throw [calls]: "onlyCalls (throw e)"
  and calls_liftE [calls]: "onlyCalls (liftE r)" and calls_gets [calls]: "onlyCalls (gets f)"
  and calls_peer [calls]: "onlyCalls (peerReply g)"
  by (auto simp: onlyCalls_def peerReply_def)

lemma calls_bind [calls]: "onlyCalls f \<Longrightarrow> (\<And>a. onlyCalls (g a)) \<Longrightarrow> onlyCalls (bindM f g)"
  unfolding onlyCalls_def
proof
  fix w :: "'a env_scheme"
  assume f: "\<forall>w. \<exists>n. snd (f w) = w\<lparr>opno := n\<rparr>" and g: "\<And>a. \<forall>w. \<exists>n. snd (g a w) = w\<lparr>opno := n\<rparr>"
  obtain r w' where run: "f w = (r, w')" by (cases "f w")
  with f obtain n where n: "w' = w\<lparr>opno := n\<rparr>" by (metis snd_conv)
  show "\<exists>n. snd (bindM f g w) = w\<lparr>opno := n\<rparr>"
  proof (cases r)
    case (Inl e)
    with run n show ?thesis by (auto simp: bindM_def)
  next
    case (Inr a)
    from g obtain k where "snd (g a w') = w'\<lparr>opno := k\<rparr>" by blast
    with run n Inr show ?thesis by (auto simp: bindM_def)
  qed
qed

lemma calls_tryM [calls]: "onlyCalls f \<Longrightarrow> onlyCalls (tryM f)"
  unfolding onlyCalls_def tryM_def by (auto split: prod.splits sum.splits err.splits) (metis snd_conv)+

lemma calls_if [calls]: "onlyCalls f \<Longrightarrow> onlyCalls g \<Longrightarrow> onlyCalls (if b then f else g)"
  by simp

lemma calls_sum [calls]: "(\<And>e. onlyCalls (f e)) \<Longrightarrow> (\<And>a. onlyCalls (g a)) \<Longrightarrow> onlyCalls (case r of Inl e \<Rightarrow> f e | Inr a \<Rightarrow> g a)"
  by (simp split: sum.split)

lemma calls_prod [calls]: "(\<And>a b. onlyCalls (f a b)) \<Longrightarrow> onlyCalls (case p of (a, b) \<Rightarrow> f a b)"
  by (simp split: prod.split)

lemma calls_condition [calls]: "onlyCalls f \<Longrightarrow> onlyCalls (WithCondition b f a)"
  by (simp add: WithCondition_def calls_ret)

lemma peerReply_Inr: "peerReply f w = (Inr a, w') \<longleftrightarrow> f (opno w) = Inr a \<and> w' = w\<lparr>opno := Suc (opno w)\<rparr>"
  by (auto simp: peerReply_def split: sum.splits err.splits)

lemma bindM_peerReply_Inr:
  "bindM (peerReply f) g w = (Inr b, w') \<longleftrightarrow> (\<exists>a. f (opno w) = Inr a \<and> g a (w\<lparr>opno := Suc (opno w)\<rparr>) = (Inr b, w'))"
  by (auto simp: bindM_eq_Inr peerReply_Inr)

lemma asked_Inr:
  assumes "bindM (tryM (peerReply f)) (\<lambda>r. case r of Inl e \<Rightarrow> if h e then throw x else throw e | Inr a \<Rightarrow> g a) w = (Inr b, w')"
  shows "\<exists>a. f (opno w) = Inr a \<and> g a (w\<lparr>opno := Suc (opno w)\<rparr>) = (Inr b, w')"
  using assms by (auto simp: bindM_eq_Inr tryM_def peerReply_def split: sum.splits err.splits if_splits)

lemma calls_hooks [calls]:
  "onlyCalls (webhookBeforeSendSingleMsg P C m)" "onlyCalls (webhookBeforeSendGroupMsg P C m)" "onlyCalls (webhookBeforeMsgModify P C m)"
  unfolding webhookBeforeSendSingleMsg_def webhookBeforeSendGroupMsg_def webhookBeforeMsgModify_def by (intro calls)+

lemma calls_verification [calls]: "onlyCalls (messageVerification P C m)"
  unfolding messageVerification_def verifySingle_def verifyGroup_def by (intro calls)

lemma calls_encapsulate [calls]: "onlyCalls (encapsulateMsgData P m)"
  unfolding encapsulateMsgData_def Let_def by (intro calls)

lemma calls_receiveOpt [calls]: "onlyCalls (modifyMessageByUserMessageReceiveOpt P u c m)"
  unfolding modifyMessageByUserMessageReceiveOpt_def GetSingleConversationRecvMsgOpt_def withoutPush_def Let_def by (intro calls)

section \<open>Who may send\<close>

text \<open>
  What the other services must have said for a message to be sent. In a group that is not dismissed: the group is open to all, the message is of an
  app manager or a notification, or the sender is a member who is not muted. Between two: the sender is not blocked, and a friend where that is asked for.
\<close>

definition mayPost :: "'p msg_peers_scheme \<Rightarrow> int \<Rightarrow> MsgData \<Rightarrow> bool" where
  "mayPost P t m \<longleftrightarrow> (\<exists>n g. pGroupInfo P n (groupID m) = Inr g \<and>
     (giStatus g = GroupStatusDismissed \<longrightarrow> contentType m = GroupDismissedNotification) \<and>
     (giGroupType g = SuperGroup \<or> sendID m \<in> set (IMAdminUserID P) \<or> isNotificationType (contentType m) \<or>
      (\<exists>k ids j mem. pGroupMemberIDs P k (groupID m) = Inr ids \<and> sendID m \<in> set ids \<and>
         pGroupMember P j (groupID m) (sendID m) = Inr mem \<and>
         (mfRoleLevel mem = GroupOwner \<or> (mfMuteEndTime mem < t \<and> (giStatus g = GroupStatusMuted \<longrightarrow> mfRoleLevel mem = GroupAdmin))))))"

definition mayWrite :: "'p msg_peers_scheme \<Rightarrow> MsgData \<Rightarrow> bool" where
  "mayWrite P m \<longleftrightarrow> sendID m \<in> set (IMAdminUserID P) \<or> isNotificationType (contentType m) \<or>
     ((\<exists>n. pIsBlack P n (sendID m) (recvID m) = Inr False) \<and>
      (FriendVerify P \<longrightarrow> (\<exists>n. pIsFriend P n (sendID m) (recvID m) = Inr True)))"

definition maySend :: "'p msg_peers_scheme \<Rightarrow> int \<Rightarrow> MsgData \<Rightarrow> bool" where
  "maySend P t m \<longleftrightarrow>
     (sessionType m = SingleChatType \<and> mayWrite P m) \<or> (sessionType m = ReadGroupChatType \<and> mayPost P t m) \<or>
     sessionType m = NotificationChatType"

lemma verifyGroup_Inr:
  assumes "verifyGroup P m w = (Inr (), w')"
  shows "mayPost P (clock w) m"
proof -
  from assms obtain g where g: "pGroupInfo P (opno w) (groupID m) = Inr g"
    and d: "giStatus g = GroupStatusDismissed \<longrightarrow> contentType m = GroupDismissedNotification"
    by (auto simp: verifyGroup_def bindM_eq_Inr peerReply_Inr split: if_splits)
  have "giGroupType g = SuperGroup \<or> sendID m \<in> set (IMAdminUserID P) \<or> isNotificationType (contentType m) \<or>
      (\<exists>k ids j mem. pGroupMemberIDs P k (groupID m) = Inr ids \<and> sendID m \<in> set ids \<and>
         pGroupMember P j (groupID m) (sendID m) = Inr mem \<and> memberMayPost g mem (clock w) = Inr ())"
    using assms g unfolding verifyGroup_def
    by (auto simp: bindM_peerReply_Inr split: if_splits dest!: asked_Inr) blast+
  moreover have "mfRoleLevel mem = GroupOwner \<or> (mfMuteEndTime mem < t \<and> (giStatus g = GroupStatusMuted \<longrightarrow> mfRoleLevel mem = GroupAdmin))"
    if "memberMayPost g mem t = Inr ()" for mem t
    using that by (auto simp: memberMayPost_def split: if_splits)
  ultimately show ?thesis using g d unfolding mayPost_def by blast
qed

lemma verifySingle_Inr:
  assumes "verifySingle P C m w = (Inr (), w')"
  shows "mayWrite P m"
  using assms unfolding verifySingle_def mayWrite_def
  by (auto simp: bindM_eq_Inr peerReply_Inr split: if_splits)

section \<open>What is on the topic\<close>

lemma calls_then:
  assumes "onlyCalls f" and "bindM f g w = (r, w')"
  obtains (failed) e n where "r = Inl e" "w' = w\<lparr>opno := n\<rparr>"
    | (went_on) a n where "f w = (Inr a, w\<lparr>opno := n\<rparr>)" "g a (w\<lparr>opno := n\<rparr>) = (r, w')"
proof -
  obtain s w1 where f: "f w = (s, w1)" by (cases "f w")
  from onlyCallsD [OF assms(1) f] obtain n where n: "w1 = w\<lparr>opno := n\<rparr>" by blast
  show thesis
    using assms(2) f n by (cases s) (auto simp: bindM_def intro: failed went_on)
qed

lemma MsgToMQ_cases:
  assumes "MsgToMQ k m w = (r, w')"
  obtains (kept) e where "r = Inl e" "toRedisTopic w' = toRedisTopic w"
    | (lost) e where "r = Inl e" "toRedisTopic w' = toRedisTopic w @ [(k, m)]"
    | (sent) "r = Inr ()" "toRedisTopic w' = toRedisTopic w @ [(k, m)]"
  using assms by (auto simp: MsgToMQ_def io_def Let_def split: fault.splits)

text \<open>
  A request leaves the topic as it is, and then it is not answered with a message, or it adds the message, and then it is answered with it unless the
  confirmation of the topic was lost.
\<close>

definition posts :: "(MsgData \<Rightarrow> bool) \<Rightarrow> (MsgData \<Rightarrow> string) \<Rightarrow> (string \<times> MsgData) list \<Rightarrow> (err + SendMsgResp option) \<times> 'e msg_rpc_world_scheme \<Rightarrow> bool" where
  "posts Q key topic res \<longleftrightarrow>
     (toRedisTopic (snd res) = topic \<and> ((\<exists>e. fst res = Inl e) \<or> fst res = Inr None)) \<or>
     (\<exists>m. toRedisTopic (snd res) = topic @ [(key m, m)] \<and> Q m \<and> ((\<exists>e. fst res = Inl e) \<or> fst res = Inr (sentResp m)))"

lemma posts_calls:
  assumes "onlyCalls f" and "toRedisTopic w = topic"
    and "\<And>a v. f w = (Inr a, v) \<Longrightarrow> toRedisTopic v = topic \<Longrightarrow> posts Q key topic (g a v)"
  shows "posts Q key topic (bindM f g w)"
proof -
  obtain r w' where run: "bindM f g w = (r, w')" by (cases "bindM f g w")
  show ?thesis
    using assms(1) run
  proof (cases rule: calls_then)
    case (failed e n)
    with run assms(2) show ?thesis by (simp add: posts_def)
  next
    case (went_on a n)
    from assms(3) [OF went_on(1)] assms(2) show ?thesis by (simp add: run went_on(2))
  qed
qed

lemma posts_topic:
  assumes "Q m" and "key m = k" and "\<And>w. fst (f w) = Inr () \<and> toRedisTopic (snd (f w)) = toRedisTopic w" and "toRedisTopic w = topic"
  shows "posts Q key topic (thenM (MsgToMQ k m) (thenM f (ret (sentResp m))) w)"
proof -
  obtain r w1 where run: "MsgToMQ k m w = (r, w1)" by (cases "MsgToMQ k m w")
  then show ?thesis
  proof (cases rule: MsgToMQ_cases)
    case (kept e)
    with run assms(4) show ?thesis by (simp add: posts_def bindM_def)
  next
    case (lost e)
    with run assms(1,2,4) show ?thesis by (auto simp: posts_def bindM_def)
  next
    case sent
    obtain w2 where f: "f w1 = (Inr (), w2)" "toRedisTopic w2 = toRedisTopic w1" using assms(3) [of w1] by (cases "f w1") auto
    have "thenM (MsgToMQ k m) (thenM f (ret (sentResp m))) w = (Inr (sentResp m), w2)"
      using run sent(1) f(1) by (simp add: bindM_def)
    with f(2) sent(2) assms(1,2,4) show ?thesis by (auto simp: posts_def)
  qed
qed

lemma posts_nothing: "toRedisTopic w = topic \<Longrightarrow> posts Q key topic (ret None w)"
  by (simp add: posts_def)

lemma after_hooks:
  "fst (webhookAfterSendGroupMsg P m w) = Inr () \<and> toRedisTopic (snd (webhookAfterSendGroupMsg P m w)) = toRedisTopic w"
  "fst (webhookAfterSendSingleMsg P m w) = Inr () \<and> toRedisTopic (snd (webhookAfterSendSingleMsg P m w)) = toRedisTopic w"
  by (auto simp: webhookAfterSendGroupMsg_def webhookAfterSendSingleMsg_def AsyncPost_def)

lemma modifiedMsg_sender: "modifiedMsg P r m = Inr m' \<Longrightarrow> sendID m' = sendID m"
  by (cases "lNilReplace P (the (mrOfflinePushInfo r))") (auto simp: modifiedMsg_def split: option.splits)

lemma modify_sender: "webhookBeforeMsgModify P C m w = (Inr m', w') \<Longrightarrow> sendID m' = sendID m"
  by (auto simp: webhookBeforeMsgModify_def WithCondition_def bindM_peerReply_Inr split: if_splits dest: modifiedMsg_sender)

definition sameSend :: "MsgData \<Rightarrow> MsgData \<Rightarrow> bool" where
  "sameSend m m' \<longleftrightarrow> sendID m' = sendID m \<and> recvID m' = recvID m \<and> groupID m' = groupID m \<and> contentType m' = contentType m \<and>
     sessionType m' = sessionType m"

lemma switchOff_same: "switchOff P ks m = Inr m' \<Longrightarrow> sameSend m m'"
  by (induction ks arbitrary: m) (auto simp: SetSwitchFromOptions_def sameSend_def split: sum.splits option.splits)

lemma encapsulate_same: "encapsulateMsgData P m w = (Inr m', w') \<Longrightarrow> sameSend m m'"
  by (auto simp: encapsulateMsgData_def Let_def bindM_peerReply_Inr dest!: switchOff_same split: if_splits) (simp_all add: sameSend_def)

lemma receiveOpt_same:
  assumes "modifyMessageByUserMessageReceiveOpt P u c m w = (Inr (b, m'), w')"
  shows "sameSend m m'"
proof -
  have push: "sameSend m m'" if "withoutPush P m v = (Inr (b, m'), v')" for v v'
    using that by (auto simp: withoutPush_def Let_def bindM_eq_Inr SetSwitchFromOptions_def sameSend_def split: if_splits option.splits sum.splits)
  show ?thesis
    using assms unfolding modifyMessageByUserMessageReceiveOpt_def
    by (auto simp: bindM_peerReply_Inr bind_tryM_Inr split: if_splits dest: push) (simp_all add: sameSend_def)
qed

lemma maySend_same: "sameSend m m' \<Longrightarrow> maySend P t m' = maySend P t m"
  by (simp add: sameSend_def maySend_def mayPost_def mayWrite_def)

definition topicKey :: "int \<Rightarrow> MsgData \<Rightarrow> string" where
  "topicKey st m = (if st = ReadGroupChatType then GenConversationUniqueKeyForGroup (groupID m)
     else GenConversationUniqueKeyForSingle (sendID m) (recvID m))"

lemma maySend_group: "messageVerification P C m w = (Inr (), w') \<Longrightarrow> sessionType m = ReadGroupChatType \<Longrightarrow> maySend P (clock w) m"
  by (simp add: messageVerification_def maySend_def verifyGroup_Inr)

lemma maySend_single: "messageVerification P C m w = (Inr (), w') \<Longrightarrow> sessionType m = SingleChatType \<Longrightarrow> maySend P (clock w) m"
  by (simp add: messageVerification_def maySend_def verifySingle_Inr)

lemma both_quiet:
  assumes "\<And>w. fst (f w) = Inr () \<and> toRedisTopic (snd (f w)) = toRedisTopic w"
    and "\<And>w. fst (g w) = Inr () \<and> toRedisTopic (snd (g w)) = toRedisTopic w"
  shows "fst (thenM f g v) = Inr () \<and> toRedisTopic (snd (thenM f g v)) = toRedisTopic v"
  using assms(1) [of v] assms(2) [of "snd (f v)"] by (cases "f v") (simp add: bindM_def)

lemma posts_group:
  fixes w :: "'e msg_rpc_world_scheme"
  assumes "sessionType m = ReadGroupChatType" and "toRedisTopic w = topic"
  shows "posts (\<lambda>m'. sendID m' = sendID m \<and> maySend P (clock w) m) (topicKey ReadGroupChatType) topic (sendMsgGroupChat P C m w)"
  unfolding sendMsgGroupChat_def
proof (rule posts_calls [OF calls_verification assms(2)])
  fix a v
  assume "messageVerification P C m w = (Inr a, v)" and v: "toRedisTopic v = topic"
  then have may: "maySend P (clock w) m" using maySend_group assms(1) by simp
  show "posts (\<lambda>m'. sendID m' = sendID m \<and> maySend P (clock w) m) (topicKey ReadGroupChatType) topic
      (thenM (webhookBeforeSendGroupMsg P C m) (bindM (webhookBeforeMsgModify P C m) (\<lambda>m.
        thenM (MsgToMQ (GenConversationUniqueKeyForGroup (groupID m)) m)
        (thenM (if contentType m = AtText then modifyM (\<lambda>w. w\<lparr>atQueue := atQueue w @ [m]\<rparr>) else ret ())
        (thenM (webhookAfterSendGroupMsg P m) (ret (sentResp m)))))) v)"
  proof (rule posts_calls [OF calls_hooks(2) v], rule posts_calls [OF calls_hooks(3)], assumption)
    fix v' m' and v'' :: "'e msg_rpc_world_scheme"
    assume "webhookBeforeMsgModify P C m v' = (Inr m', v'')" and topic: "toRedisTopic v'' = topic"
    then have same: "sendID m' = sendID m" by (simp add: modify_sender)
    let ?at = "if contentType m' = AtText then modifyM (\<lambda>w. w\<lparr>atQueue := atQueue w @ [m']\<rparr>) else ret ()"
    have quiet: "fst (thenM ?at (webhookAfterSendGroupMsg P m') u) = Inr () \<and>
        toRedisTopic (snd (thenM ?at (webhookAfterSendGroupMsg P m') u)) = toRedisTopic u" for u
      by (rule both_quiet) (simp, rule after_hooks)
    show "posts (\<lambda>m'. sendID m' = sendID m \<and> maySend P (clock w) m) (topicKey ReadGroupChatType) topic
        (thenM (MsgToMQ (GenConversationUniqueKeyForGroup (groupID m')) m') (thenM ?at (thenM (webhookAfterSendGroupMsg P m') (ret (sentResp m')))) v'')"
      unfolding bindM_assoc [symmetric, of ?at]
      by (rule posts_topic [OF _ _ quiet topic]) (use same may in \<open>simp_all add: topicKey_def\<close>)
  qed
qed

lemma posts_single:
  assumes "sessionType m = SingleChatType" and "toRedisTopic w = topic"
  shows "posts (\<lambda>m'. sendID m' = sendID m \<and> maySend P (clock w) m) (topicKey SingleChatType) topic (sendMsgSingleChat P C m w)"
  unfolding sendMsgSingleChat_def
proof (rule posts_calls [OF calls_verification assms(2)])
  fix a v
  assume "messageVerification P C m w = (Inr a, v)" and v: "toRedisTopic v = topic"
  then have may: "maySend P (clock w) m" using maySend_single assms(1) by simp
  let ?opt = "if \<not> IsNotificationByMsg m
      then modifyMessageByUserMessageReceiveOpt P (recvID m) (GenConversationIDForSingle (sendID m) (recvID m)) m else ret (True, m)"
  show "posts (\<lambda>m'. sendID m' = sendID m \<and> maySend P (clock w) m) (topicKey SingleChatType) topic
      (bindM ?opt (\<lambda>(isSend, m). if \<not> isSend then ret None
        else bindM (webhookBeforeMsgModify P C m) (\<lambda>m. thenM (MsgToMQ (GenConversationUniqueKeyForSingle (sendID m) (recvID m)) m)
          (thenM (webhookAfterSendSingleMsg P m) (ret (sentResp m))))) v)"
  proof (rule posts_calls [OF calls_if [OF calls_receiveOpt calls_ret] v])
    fix am v'
    assume opt: "?opt v = (Inr am, v')" and v': "toRedisTopic v' = topic"
    obtain isSend m1 where am: "am = (isSend, m1)" by (cases am)
    have m1: "sendID m1 = sendID m"
      using opt unfolding am by (auto dest!: receiveOpt_same simp: sameSend_def split: if_splits)
    show "posts (\<lambda>m'. sendID m' = sendID m \<and> maySend P (clock w) m) (topicKey SingleChatType) topic
        ((case am of (isSend, m) \<Rightarrow> if \<not> isSend then ret None
          else bindM (webhookBeforeMsgModify P C m) (\<lambda>m. thenM (MsgToMQ (GenConversationUniqueKeyForSingle (sendID m) (recvID m)) m)
            (thenM (webhookAfterSendSingleMsg P m) (ret (sentResp m))))) v')"
    proof (cases isSend)
      case False
      with am v' show ?thesis by (simp add: posts_nothing del: ret_app)
    next
      case True
      have "posts (\<lambda>m'. sendID m' = sendID m \<and> maySend P (clock w) m) (topicKey SingleChatType) topic
          (bindM (webhookBeforeMsgModify P C m1) (\<lambda>m. thenM (MsgToMQ (GenConversationUniqueKeyForSingle (sendID m) (recvID m)) m)
            (thenM (webhookAfterSendSingleMsg P m) (ret (sentResp m)))) v')"
      proof (rule posts_calls [OF calls_hooks(3) v'])
        fix m' v''
        assume "webhookBeforeMsgModify P C m1 v' = (Inr m', v'')" and topic: "toRedisTopic v'' = topic"
        then have "sendID m' = sendID m" using m1 by (simp add: modify_sender)
        then show "posts (\<lambda>m'. sendID m' = sendID m \<and> maySend P (clock w) m) (topicKey SingleChatType) topic
            (thenM (MsgToMQ (GenConversationUniqueKeyForSingle (sendID m') (recvID m')) m')
              (thenM (webhookAfterSendSingleMsg P m') (ret (sentResp m'))) v'')"
          by (intro posts_topic) (use may topic after_hooks(2) in \<open>simp_all add: topicKey_def\<close>)
      qed
      with True show ?thesis unfolding am by simp
    qed
  qed
qed

lemma posts_note:
  assumes "sessionType m = NotificationChatType" and "toRedisTopic w = topic"
  shows "posts (\<lambda>m'. sendID m' = sendID m \<and> maySend P (clock w) m) (topicKey NotificationChatType) topic (sendMsgNotification m w)"
proof -
  have "posts (\<lambda>m'. sendID m' = sendID m \<and> maySend P (clock w) m) (topicKey NotificationChatType) topic
      (thenM (MsgToMQ (GenConversationUniqueKeyForSingle (sendID m) (recvID m)) m) (thenM (ret ()) (ret (sentResp m))) w)"
    by (rule posts_topic) (use assms in \<open>simp_all add: topicKey_def maySend_def\<close>)
  then show ?thesis unfolding sendMsgNotification_def bindM_ret .
qed

lemma clock_calls: "onlyCalls f \<Longrightarrow> f w = (r, v) \<Longrightarrow> clock v = clock w"
  by (auto dest: onlyCallsD)

lemma posts_SendMsg: "posts (\<lambda>m'. sendID m' = sendID m \<and> maySend P (clock w) m) (topicKey (sessionType m)) (toRedisTopic w) (SendMsg P C (Some m) w)"
  unfolding SendMsg_def option.case
proof (rule posts_calls [OF calls_encapsulate refl])
  fix m1 v
  assume run: "encapsulateMsgData P m w = (Inr m1, v)" and v: "toRedisTopic v = toRedisTopic w"
  note same = encapsulate_same [OF run]
  have eq: "(\<lambda>m'. sendID m' = sendID m \<and> maySend P (clock w) m) = (\<lambda>m'. sendID m' = sendID m1 \<and> maySend P (clock v) m1)"
    using maySend_same [OF same, of P "clock w"] clock_calls [OF calls_encapsulate run] same by (simp add: sameSend_def)
  have st: "sessionType m = sessionType m1" using same by (simp add: sameSend_def)
  show "posts (\<lambda>m'. sendID m' = sendID m \<and> maySend P (clock w) m) (topicKey (sessionType m)) (toRedisTopic w)
      ((if sessionType m1 = SingleChatType then sendMsgSingleChat P C m1
        else if sessionType m1 = NotificationChatType then sendMsgNotification m1
        else if sessionType m1 = ReadGroupChatType then sendMsgGroupChat P C m1
        else throw (ErrArgs ''unknown sessionType'')) v)"
    unfolding eq st
    using posts_group [OF _ v, of m1 P C] posts_single [OF _ v, of m1 P C] posts_note [OF _ v, of m1 P] v
    by (auto simp: posts_def)
qed

text \<open>
  C24. Whatever the other services answer and however the topic fails, a request to send a message either leaves the topic of the transfer as it was, and
  is answered with an error or with nothing, or it adds one message of the same sender, and then the sender was allowed to send: in a group that is not
  dismissed, as a member who is not muted (or the group is open to all, or it is a notification or an app manager's message); between two, not blocked by the receiver, and a
  friend where friendship is asked for. An answer with numbers tells that the message is on the topic.
\<close>

theorem sent_message_allowed:
  "case SendMsg P C (Some m) w of (r, w') \<Rightarrow>
     (toRedisTopic w' = toRedisTopic w \<and> ((\<exists>e. r = Inl e) \<or> r = Inr None)) \<or>
     (\<exists>m'. toRedisTopic w' = toRedisTopic w @ [(topicKey (sessionType m) m', m')] \<and> sendID m' = sendID m \<and>
        maySend P (clock w) m \<and> ((\<exists>e. r = Inl e) \<or> r = Inr (sentResp m')))"
  using posts_SendMsg [of m P w C] by (auto simp: posts_def split: prod.split)

section \<open>Reading leaves the documents\<close>

abbreviation (input) docsAre :: "MsgDocModel list \<Rightarrow> 'e msg_world_scheme \<Rightarrow> bool" where
  "docsAre d \<equiv> \<lambda>w. msgDocs w = d"

named_theorems keep_docs "programs that leave the documents"

lemma docs_io [keep_docs]: "preserves (docsAre d) m \<Longrightarrow> preserves (docsAre d) (io m)"
  by (rule preserves_io) simp

lemma docs_modify [keep_docs]: "(\<And>w. msgDocs (f w) = msgDocs w) \<Longrightarrow> preserves (docsAre d) (modifyM f)"
  by (simp add: preserves_def)

lemmas [keep_docs] = preserves_ret preserves_throw preserves_gets preserves_liftE preserves_idx preserves_bind preserves_tryM preserves_forM
  preserves_foldM preserves_if preserves_case_sum preserves_case_option preserves_case_prod

lemma docs_calls:
  fixes f :: "('e msg_world_scheme, 'a) prog"
  assumes "onlyCalls f"
  shows "preserves (docsAre d) f"
  by (rule preservesI) (auto dest: onlyCallsD [OF assms])

lemma docs_case_cons [keep_docs]:
  "preserves P a \<Longrightarrow> (\<And>x xs. preserves P (b x xs)) \<Longrightarrow> preserves P (case l of [] \<Rightarrow> a | x # xs \<Rightarrow> b x xs)"
  by (simp split: list.split)

lemma docs_case_pair [keep_docs]:
  "(\<And>a b. preserves P (g a b c)) \<Longrightarrow> preserves P ((case p of (a, b) \<Rightarrow> g a b) c)"
  by (simp split: prod.split)

lemma docs_fetch [keep_docs]:
  "preserves (docsAre d) fn \<Longrightarrow> preserves (docsAre d) (rocksFetch2 key fn)"
  unfolding rocksFetch2_def by (intro keep_docs; simp)

lemma docs_fetchBatch [keep_docs]:
  "(\<And>i. preserves (docsAre d) (fn i)) \<Longrightarrow> preserves (docsAre d) (rocksFetchBatch2 keys fn)"
  unfolding rocksFetchBatch2_def Let_def by (intro keep_docs; simp)

lemma docs_getCache [keep_docs]: "preserves (docsAre d) fn \<Longrightarrow> preserves (docsAre d) (getCache marshal unmarshal key fn)"
  unfolding getCache_def by (intro keep_docs)

lemma docs_groupKeys [keep_docs]: "preserves (docsAre d) (groupKeysBySlot keys)"
  by (rule preserves_groupKeysBySlot) simp

lemma docs_batchGetCache [keep_docs]:
  "(\<And>ks. preserves (docsAre d) (fn ks)) \<Longrightarrow> preserves (docsAre d) (batchGetCache2 ma un si z ids idKey vId fn)"
  unfolding batchGetCache2_def Let_def by (intro keep_docs)

lemma docs_writeHash [simp]: "msgDocs (writeHash key u w) = msgDocs w"
  by (simp add: writeHash_def split: option.split)

lemma docs_malloc [keep_docs]: "preserves (docsAre d) (malloc key n)" "preserves (docsAre d) wait"
  "preserves (docsAre d) (conv_setSeqCache key owner a b t)"
  unfolding malloc_def wait_def conv_setSeqCache_def
  by (intro keep_docs; simp add: preserves_def Let_def split: prod.split)+

lemma docs_conv_Malloc [keep_docs]: "preserves (docsAre d) (conv_Malloc c n)"
  unfolding conv_Malloc_def by (intro keep_docs; simp add: preserves_def Let_def conv_GetMaxSeq_def convUpsert_def io_def split: option.split fault.split)

lemma docs_setSeqRetry [keep_docs]: "preserves (docsAre d) (setSeqRetry key owner a b t)"
proof -
  have "preserves (docsAre d) (setSeqRetry_loop n key owner a b t)" for n
    by (induction n) (simp_all only: setSeqRetry_loop.simps, (intro keep_docs; assumption?)+)
  then show ?thesis by (simp add: setSeqRetry_def)
qed

lemma docs_mallocTime [keep_docs]: "preserves (docsAre d) (mallocTime c n)"
proof -
  have "preserves (docsAre d) (mallocTime_loop k c n)" for k
    by (induction k) (simp_all only: mallocTime_loop.simps Let_def, (intro keep_docs; assumption?)+)
  then show ?thesis unfolding mallocTime_def by (intro keep_docs)
qed

lemma docs_bounds [keep_docs]: "preserves (docsAre d) (readBounds u c)"
  unfolding readBounds_def GetUserMinSeq_def GetMinSeq'_def GetMaxSeq_def GetUserMaxSeq_def Malloc_def user_GetUserMinSeq_def user_GetUserMaxSeq_def
    user_getSeq_def conv_GetMinSeq_def
  by (intro keep_docs)

lemma docs_getMsgIn1Doc [keep_docs]: "preserves (docsAre d) (GetMsgBySeqIndexIn1Doc T u doc seqs)"
  unfolding GetMsgBySeqIndexIn1Doc_def getMsgBySeqIndexIn1Doc_def Let_def by (intro keep_docs)

lemma docs_fillSendTimes [keep_docs]: "preserves (docsAre d) (fillSendTimes c ss a b acc)"
proof -
  have "preserves (docsAre d) (findBeforeSendTime_loop n first c s)" for n first s
  proof (induction n arbitrary: first)
    case 0
    show ?case unfolding findBeforeSendTime_loop.simps by (intro keep_docs)
  next
    case (Suc n)
    show ?case unfolding findBeforeSendTime_loop.simps Let_def findBeforeDocSendTime_def by (intro keep_docs Suc)
  qed
  then have find: "preserves (docsAre d) (findBeforeSendTime c s)" for s by (simp add: findBeforeSendTime_def)
  show ?thesis
  proof (induction ss arbitrary: a b acc)
    case Nil
    show ?case unfolding fillSendTimes.simps by (intro keep_docs)
  next
    case (Cons s ss)
    show ?case unfolding fillSendTimes.simps by (intro keep_docs Cons find)
  qed
qed

lemma docs_cacheRead [keep_docs]: "preserves (docsAre d) (cache_GetMessageBySeqs T c seqs)"
  unfolding cache_GetMessageBySeqs_def FindSeqs_def onlyFindDocIndex_def Let_def by (intro keep_docs)

lemma docs_handleAll [keep_docs]: "preserves (docsAre d) (handleAll T u c ms cache)"
proof (induction ms arbitrary: cache)
  case Nil
  show ?case unfolding handleAll.simps by (intro keep_docs)
next
  case (Cons m ms)
  show ?case unfolding handleAll.simps handlerDBMsg_def Let_def by (intro keep_docs Cons)
qed

lemma docs_GetMsgBySeqs [keep_docs]: "preserves (docsAre d) (GetMsgBySeqs T u c seqs)"
  unfolding GetMsgBySeqs_def GetMessageBySeqs_def handlerQuote_def Let_def by (intro keep_docs)

section \<open>Who may revoke\<close>

text \<open>
  What makes a revocation legitimate: an app manager; between two, the sender; in a group, the sender, the owner of the group, or an administrator of the group whose
  target, where it is a member, has no role.
\<close>

definition overWire :: "err \<Rightarrow> err" where
  "overWire e = (case e of Panic t \<Rightarrow> ErrNew t | _ \<Rightarrow> e)"

definition mayRevoke :: "'p msg_peers_scheme \<Rightarrow> call_ctx \<Rightarrow> string \<Rightarrow> MsgData \<Rightarrow> bool" where
  "mayRevoke P C u m \<longleftrightarrow> ctxOpUserID C \<in> set (IMAdminUserID P) \<or> (ctxOpUserID C = u \<and>
     ((sessionType m = SingleChatType \<and> u = sendID m) \<or>
      (sessionType m = ReadGroupChatType \<and>
        (u = sendID m \<or>
         (\<exists>n mem. pGroupMember P n (groupID m) u = Inr mem \<and>
           (mfRoleLevel mem = GroupOwner \<or>
            (mfRoleLevel mem = GroupAdmin \<and>
              ((\<exists>k target. pGroupMember P k (groupID m) (sendID m) = Inr target \<and> mfRoleLevel target = GroupOrdinaryUsers) \<or>
               (\<exists>k e. pGroupMember P k (groupID m) (sendID m) = Inl e \<and> lNotFound P (overWire e))))))))))"

definition memberEntry :: "'p msg_peers_scheme \<Rightarrow> string \<Rightarrow> string \<Rightarrow> GroupMemberFullInfo option \<Rightarrow> bool" where
  "memberEntry P grp u entry \<longleftrightarrow> (case entry of
     Some mem \<Rightarrow> (\<exists>n. pGroupMember P n grp u = Inr mem)
   | None \<Rightarrow> (\<exists>n e. pGroupMember P n grp u = Inl e \<and> lNotFound P (overWire e)))"

lemma memberMap_step:
  assumes "(bindM (tryM (peerReply (\<lambda>n. pGroupMember P n grp x))) (\<lambda>r. case r of
       Inl e \<Rightarrow> if lNotFound P e then ret acc else throw e
     | Inr member \<Rightarrow> ret (AList.update x member acc))) w = (Inr acc', w')"
  shows "(acc' = acc \<and> memberEntry P grp x None) \<or> (\<exists>mem. acc' = AList.update x mem acc \<and> memberEntry P grp x (Some mem))"
proof (cases "pGroupMember P (opno w) grp x")
  case (Inl e)
  then have "peerReply (\<lambda>n. pGroupMember P n grp x) w = (Inl (overWire e), w\<lparr>opno := Suc (opno w)\<rparr>)"
    by (cases e) (simp_all add: peerReply_def overWire_def)
  moreover have "\<not> (\<exists>t. overWire e = Panic t)" by (cases e) (simp_all add: overWire_def)
  ultimately have "tryM (peerReply (\<lambda>n. pGroupMember P n grp x)) w = (Inr (Inl (overWire e)), w\<lparr>opno := Suc (opno w)\<rparr>)"
    by (cases "overWire e") (simp_all add: tryM_def)
  with assms have "acc' = acc" "lNotFound P (overWire e)"
    by (auto simp: bindM_def split: if_splits)
  with Inl show ?thesis by (auto simp: memberEntry_def)
next
  case (Inr mem)
  with assms have "acc' = AList.update x mem acc" by (simp add: bindM_def tryM_def peerReply_def)
  with Inr show ?thesis by (auto simp: memberEntry_def)
qed

lemma memberMap_entries:
  assumes "GetGroupMemberInfoMap P grp us w = (Inr members, w')" and "u \<in> set us"
  shows "memberEntry P grp u (map_of members u)"
proof -
  let ?f = "\<lambda>x acc. bindM (tryM (peerReply (\<lambda>n. pGroupMember P n grp x))) (\<lambda>r. case r of
       Inl e \<Rightarrow> if lNotFound P e then ret acc else throw e
     | Inr member \<Rightarrow> ret (AList.update x member acc))"
  have "memberEntry P grp u (map_of members u)"
    if "foldM ?f us acc w = (Inr members, w')" "u \<in> set us \<or> memberEntry P grp u (map_of acc u)"
       "u \<in> set us \<longrightarrow> map_of acc u = None \<or> memberEntry P grp u (map_of acc u)" for acc w
    using that
  proof (induction us arbitrary: acc w)
    case Nil
    then show ?case by simp
  next
    case (Cons x us)
    from Cons.prems(1) obtain acc' v where step: "?f x acc w = (Inr acc', v)" and rest: "foldM ?f us acc' v = (Inr members, w')"
      by (auto simp: bindM_eq_Inr)
    show ?case
      by (rule Cons.IH [OF rest])
         (use memberMap_step [OF step] Cons.prems(2,3) in \<open>cases "u = x"; auto simp: update_conv'\<close>)+
  qed
  from this [of "[]" w] assms show ?thesis by (simp add: GetGroupMemberInfoMap_def)
qed

lemma revokeRole_Inr:
  assumes run: "revokeRole P C u user m w = (Inr role, w')" and op: "CheckAccessV3 (ctxOpUserID C) u (IMAdminUserID P) = Inr ()"
  shows "mayRevoke P C u m"
proof (cases "ctxOpUserID C \<in> set (IMAdminUserID P)")
  case True
  then show ?thesis by (simp add: mayRevoke_def)
next
  case False
  with op have u: "ctxOpUserID C = u" by (simp add: CheckAccessV3_def split: if_splits)
  show ?thesis
  proof (cases "sessionType m = SingleChatType")
    case True
    with run False u show ?thesis
      by (simp add: revokeRole_def IsAppManagerUid_def CheckAccessV3_def mayRevoke_def bindM_eq_Inr split: if_splits)
  next
    case single: False
    have grp: "sessionType m = ReadGroupChatType"
      using run False single by (simp add: revokeRole_def IsAppManagerUid_def split: if_splits)
    with run False single obtain members v where members: "GetGroupMemberInfoMap P (groupID m) (remdups [u, sendID m]) w = (Inr members, v)"
      and allowed: "u = sendID m \<or> (\<exists>mem. map_of members u = Some mem \<and> (mfRoleLevel mem = GroupOwner \<or>
        (mfRoleLevel mem = GroupAdmin \<and> (case map_of members (sendID m) of None \<Rightarrow> True | Some t \<Rightarrow> mfRoleLevel t = GroupOrdinaryUsers))))"
      by (auto simp: revokeRole_def IsAppManagerUid_def bindM_eq_Inr split: if_splits option.splits)
    have "memberEntry P (groupID m) u (map_of members u)" "memberEntry P (groupID m) (sendID m) (map_of members (sendID m))"
      by (rule memberMap_entries [OF members]; simp)+
    with allowed u grp show ?thesis
      unfolding mayRevoke_def memberEntry_def by (auto split: option.splits)
  qed
qed

text \<open>A program that changes the documents only where \<open>Q\<close> is known.\<close>

definition docsUnless :: "bool \<Rightarrow> MsgDocModel list \<Rightarrow> (err + 'a) \<times> 'e msg_world_scheme \<Rightarrow> bool" where
  "docsUnless Q d res \<longleftrightarrow> msgDocs (snd res) = d \<or> Q"

lemma docsUnless_bind:
  assumes "preserves (docsAre d) f" and "msgDocs w = d"
    and "\<And>a v. f w = (Inr a, v) \<Longrightarrow> msgDocs v = d \<Longrightarrow> docsUnless Q d (g a v)"
  shows "docsUnless Q d (bindM f g w)"
proof -
  obtain r v where f: "f w = (r, v)" by (cases "f w")
  with preservesD [OF assms(1)] assms(2) have v: "msgDocs v = d" by blast
  show ?thesis
  proof (cases r)
    case (Inl e)
    with f v show ?thesis by (simp add: bindM_def docsUnless_def)
  next
    case (Inr a)
    with f v assms(3) show ?thesis by (simp add: bindM_def)
  qed
qed

lemma docsUnless_throw: "msgDocs w = d \<Longrightarrow> docsUnless Q d (throw e w)"
  by (simp add: docsUnless_def)

lemma calls_foldM [calls]: "(\<And>x acc. onlyCalls (f x acc)) \<Longrightarrow> onlyCalls (foldM f xs acc)"
proof (induction xs arbitrary: acc)
  case Nil
  show ?case unfolding foldM.simps by (rule calls_ret)
next
  case (Cons x xs)
  show ?case unfolding foldM.simps by (intro calls Cons)
qed

lemma calls_option [calls]: "onlyCalls f \<Longrightarrow> (\<And>a. onlyCalls (g a)) \<Longrightarrow> onlyCalls (case r of None \<Rightarrow> f | Some a \<Rightarrow> g a)"
  by (simp split: option.split)

lemma calls_revokeRole: "onlyCalls (revokeRole P C u user m)"
  unfolding revokeRole_def GetGroupMemberInfoMap_def by (intro calls)


section \<open>Who may delete\<close>

lemma docs_GetConversation: "preserves (docsAre d) (GetConversationsByConversationID P c)"
  unfolding GetConversationsByConversationID_def GetConversationsByConversationIDs_def
  by (intro keep_docs; rule docs_calls [OF calls_peer])

lemma docs_notify [keep_docs]: "preserves (docsAre d) (NotificationWithSessionType a b ct st tips)"
  unfolding NotificationWithSessionType_def by (intro keep_docs; simp)


end
