(* ===== verification/Token_Auth_Props.thy ===== *)
theory Token_Auth_Props
  imports Token_Auth
begin

text \<open>
  What the login tokens guarantee: a created token is valid, a forced logout leaves no valid token of the platform, the
  policies pick the right tokens to kick, and the flaw that makes them ineffective across platforms: the kicked
  flag is written into the hash of the platform that logs in.
\<close>

section \<open>Hashes\<close>

text \<open>The representation of a hash: one value for each token, and every value a number.\<close>

definition hash_wf :: "(string \<times> string) list \<Rightarrow> bool" where
  "hash_wf h \<longleftrightarrow> distinct_keys h \<and> (\<forall>(f, v)\<in>set h. atoi v \<noteq> None)"

definition tokens_wf :: "'e token_world_scheme \<Rightarrow> bool" where
  "tokens_wf w \<longleftrightarrow> (\<forall>k h d. tokenHash w k = Some (h, d) \<longrightarrow> hash_wf h)"

lemma hash_wf_Nil [simp]: "hash_wf []"
  by (simp add: hash_wf_def)

lemma tokens_wf_live: "tokens_wf w \<Longrightarrow> hash_wf (liveTokens k w)"
  unfolding tokens_wf_def liveTokens_def by (auto split: option.split)

lemma liveTokens_opno [simp]: "liveTokens k (w\<lparr>opno := n\<rparr>) = liveTokens k w"
  by (simp add: liveTokens_def split: option.split)

lemma tokens_wf_opno [simp]: "tokens_wf (w\<lparr>opno := n\<rparr>) = tokens_wf w"
  by (simp add: tokens_wf_def)

lemma liveTokens_putTokens [simp]:
  "liveTokens k' (putTokens k h w) = (if k' = k then h else liveTokens k' w)"
  by (auto simp: putTokens_def liveTokens_def liveDeadline_def split: option.split)

lemma putTokens_simps [simp]: "clock (putTokens k h w) = clock w" "faults (putTokens k h w) = faults w"
  "opno (putTokens k h w) = opno w"
  by (simp_all add: putTokens_def)

definition setFlags :: "(string \<times> int) list \<Rightarrow> (string \<times> string) list \<Rightarrow> (string \<times> string) list" where
  "setFlags m h = foldl (\<lambda>h (k, v). AList.update k (itoa v) h) h m"

lemma hset1_alt: "hset1 k m w = putTokens k (setFlags m (liveTokens k w)) w"
  by (simp add: hset1_def setFlags_def)

lemma set_update_subset: "set (AList.update k v h) \<subseteq> insert (k, v) (set h)"
  by (induction h) auto

lemma hash_wf_update: "hash_wf h \<Longrightarrow> hash_wf (AList.update k (itoa v) h)"
  using set_update_subset [of k "itoa v" h] distinct_update [of h k "itoa v"] by (auto simp: hash_wf_def)

lemma setFlags_wf: "hash_wf h \<Longrightarrow> hash_wf (setFlags m h)"
  by (induction m arbitrary: h) (auto simp: setFlags_def hash_wf_update)

lemma tokens_wf_putTokens: "tokens_wf w \<Longrightarrow> hash_wf h \<Longrightarrow> tokens_wf (putTokens k h w)"
  unfolding tokens_wf_def putTokens_def by auto

lemma tokens_wf_hset1: "tokens_wf w \<Longrightarrow> tokens_wf (hset1 k m w)"
  unfolding hset1_alt by (intro tokens_wf_putTokens setFlags_wf tokens_wf_live)

lemma map_of_setFlags:
  "distinct_keys m \<Longrightarrow> map_of (setFlags m h) k = (case map_of m k of Some v \<Rightarrow> Some (itoa v) | None \<Rightarrow> map_of h k)"
proof (induction m arbitrary: h)
  case (Cons kv m)
  obtain k1 v where kv: "kv = (k1, v)" by (cases kv)
  with Cons.prems have "map_of m k1 = None" "distinct_keys m" by (auto simp: map_of_eq_None_iff)
  with Cons.IH [of "AList.update k1 (itoa v) h"] show ?case
    by (auto simp: setFlags_def kv split: option.split)
qed (simp add: setFlags_def)

lemma parseFlags_wf:
  "hash_wf h \<Longrightarrow> parseFlags h = Inr (map (\<lambda>(k, v). (k, the (atoi v))) h)"
  by (induction h) (auto simp: parseFlags_def hash_wf_def)

lemma map_of_parsed: "map_of (map (\<lambda>(k, v). (k, f v)) h) t = map_option f (map_of h t)"
  by (induction h) auto

text \<open>Reading the hash of a user and platform.\<close>

lemma GetTokens_run:
  assumes "tokens_wf w" and "faults w (opno w) = NoFault"
  shows "GetTokensWithoutError u p w =
    (Inr (map (\<lambda>(k, v). (k, the (atoi v))) (liveTokens (GetTokenKey u p) w)), w\<lparr>opno := Suc (opno w)\<rparr>)"
  using tokens_wf_live [OF assms(1), of "GetTokenKey u p"] assms(2)
  by (simp add: GetTokensWithoutError_def bindM_def io_NoFault parseFlags_wf)

lemma GetTokens_Inr:
  assumes "GetTokensWithoutError u p w = (Inr m, w')" and "tokens_wf w"
  shows "m = map (\<lambda>(k, v). (k, the (atoi v))) (liveTokens (GetTokenKey u p) w) \<and> w' = w\<lparr>opno := Suc (opno w)\<rparr>"
  using assms(1) tokens_wf_live [OF assms(2), of "GetTokenKey u p"]
  by (auto simp: GetTokensWithoutError_def bindM_eq_Inr io_Inr parseFlags_wf)

text \<open>When a token is accepted.\<close>

lemma parseToken_Inr:
  assumes "parseToken T cfg t w = (Inr c, w')" and "tokens_wf w" and "cUserID c \<notin> set (adminUserIDs cfg)"
  shows "map_of (liveTokens (GetTokenKey (cUserID c) (cPlatformID c)) w) t \<noteq> None \<and>
    atoi (the (map_of (liveTokens (GetTokenKey (cUserID c) (cPlatformID c)) w) t)) = Some NormalToken"
proof -
  let ?h = "liveTokens (GetTokenKey (cUserID c) (cPlatformID c)) w"
  from assms(1,3) obtain m w1 where m: "GetTokensWithoutError (cUserID c) (cPlatformID c) w = (Inr m, w1)"
    and v: "map_of m t = Some NormalToken"
    by (auto simp: parseToken_def bindM_eq_Inr IsManagerUserID_def split: if_splits option.splits)
  from GetTokens_Inr [OF m assms(2)] v obtain s where s: "map_of ?h t = Some s" "the (atoi s) = NormalToken"
    by (auto simp: map_of_parsed)
  from s(1) have "(t, s) \<in> set ?h" by (rule map_of_SomeD)
  with tokens_wf_live [OF assms(2)] have "atoi s \<noteq> None" unfolding hash_wf_def by blast
  with s show ?thesis by auto
qed

lemma parseToken_ok:
  assumes "jParse T t (clock w) = Inr c" and "tokens_wf w" and "faults w (opno w) = NoFault"
    and "cUserID c \<in> set (adminUserIDs cfg) \<or> map_of (liveTokens (GetTokenKey (cUserID c) (cPlatformID c)) w) t = Some (itoa NormalToken)"
  shows "fst (parseToken T cfg t w) = Inr c"
proof (cases "cUserID c \<in> set (adminUserIDs cfg)")
  case True
  with assms(1) show ?thesis by (simp add: parseToken_def bindM_def IsManagerUserID_def)
next
  case False
  with assms(4) have "map_of (liveTokens (GetTokenKey (cUserID c) (cPlatformID c)) w) t = Some (itoa NormalToken)" by blast
  moreover from this have "liveTokens (GetTokenKey (cUserID c) (cPlatformID c)) w \<noteq> []" by auto
  ultimately show ?thesis using False assms(1) GetTokens_run [OF assms(2,3)]
    by (simp add: parseToken_def bindM_def IsManagerUserID_def map_of_parsed)
qed

section \<open>What a login does to the store\<close>

text \<open>It keeps the representation, the clock and the fault plan, and touches only the hash of its platform.\<close>

definition only_hash :: "string \<Rightarrow> 'e token_world_scheme \<Rightarrow> 'e token_world_scheme \<Rightarrow> bool" where
  "only_hash k w w' \<longleftrightarrow> (tokens_wf w \<longrightarrow> tokens_wf w') \<and> clock w' = clock w \<and> faults w' = faults w \<and>
     (\<forall>k'. k' \<noteq> k \<longrightarrow> liveTokens k' w' = liveTokens k' w)"

definition keeps_others :: "string \<Rightarrow> ('e token_world_scheme, 'a) prog \<Rightarrow> bool" where
  "keeps_others k m \<longleftrightarrow> (\<forall>w. only_hash k w (snd (m w)))"

named_theorems keeps_rules "programs that only touch one hash"

lemma others_bind [keeps_rules]:
  "keeps_others k m \<Longrightarrow> (\<And>a. keeps_others k (f a)) \<Longrightarrow> keeps_others k (bindM m f)"
  unfolding keeps_others_def only_hash_def bindM_def
  by (auto split: prod.split sum.split) (metis snd_conv)+

lemma others_tryM [keeps_rules]: "keeps_others k m \<Longrightarrow> keeps_others k (tryM m)"
  unfolding keeps_others_def only_hash_def tryM_def
  by (auto split: prod.split sum.split err.split) (metis snd_conv)+

lemma others_pure [keeps_rules]: "keeps_others k (\<lambda>w. (r w, w))"
  by (simp add: keeps_others_def only_hash_def)

lemma others_ret [keeps_rules]: "keeps_others k (ret a)"
  by (simp add: keeps_others_def only_hash_def)

lemma others_throw [keeps_rules]: "keeps_others k (throw a)"
  by (simp add: keeps_others_def only_hash_def)

lemma others_liftE [keeps_rules]: "keeps_others k (liftE a)"
  by (simp add: keeps_others_def only_hash_def)

lemma others_gets [keeps_rules]: "keeps_others k (gets a)"
  by (simp add: keeps_others_def only_hash_def)

lemma others_io [keeps_rules]: "keeps_others k m \<Longrightarrow> keeps_others k (io m)"
  unfolding keeps_others_def only_hash_def io_def Let_def
  by (auto split: fault.split)

lemma others_forM [keeps_rules]: "(\<And>x. keeps_others k (f x)) \<Longrightarrow> keeps_others k (forM xs f)"
  by (induction xs) (auto intro!: others_bind others_ret)

lemma others_foldM [keeps_rules]: "(\<And>x c. keeps_others k (f x c)) \<Longrightarrow> keeps_others k (foldM f xs c)"
  by (induction xs arbitrary: c) (auto intro!: others_bind others_ret)

lemma others_if [keeps_rules]: "keeps_others k m \<Longrightarrow> keeps_others k n \<Longrightarrow> keeps_others k (if b then m else n)"
  by simp

lemma keeps_HSet [keeps_rules]: "keeps_others k (HSet k m)"
  unfolding HSet_def
  by (intro others_io others_if others_throw)
    (simp add: keeps_others_def only_hash_def hset1_alt tokens_wf_putTokens setFlags_wf tokens_wf_live)

lemma hash_wf_filter: "hash_wf h \<Longrightarrow> hash_wf (filter P h)"
  by (auto simp: hash_wf_def intro: distinct_map_filter)

lemma keeps_HDel [keeps_rules]: "keeps_others k (HDel k flds)"
  unfolding HDel_def
  by (intro others_io) (simp add: keeps_others_def only_hash_def tokens_wf_putTokens hash_wf_filter tokens_wf_live)

lemma tokens_wf_deadline:
  "tokens_wf w \<Longrightarrow> tokens_wf (w\<lparr>tokenHash := (tokenHash w)(k \<mapsto> (liveTokens k w, x))\<rparr>)"
  using tokens_wf_live [of w k] unfolding tokens_wf_def by auto

lemma liveTokens_other:
  "k' \<noteq> k \<Longrightarrow> liveTokens k' (w\<lparr>tokenHash := (tokenHash w)(k \<mapsto> x)\<rparr>) = liveTokens k' w"
  by (simp add: liveTokens_def split: option.split)

lemma keeps_Expire [keeps_rules]: "keeps_others k (Expire k d)"
  unfolding Expire_def
  by (intro others_io) (auto simp: keeps_others_def only_hash_def tokens_wf_deadline liveTokens_other)

lemma keeps_groupKeysBySlot [keeps_rules]: "keeps_others k (groupKeysBySlot keys)"
  unfolding keeps_others_def
proof
  fix w
  show "only_hash k w (snd (groupKeysBySlot keys w))"
    using groupKeysBySlot_state [of keys w] by (auto simp: only_hash_def)
qed

lemma others_case_sum [keeps_rules]:
  "(\<And>e. keeps_others k (f e)) \<Longrightarrow> (\<And>a. keeps_others k (g a)) \<Longrightarrow> keeps_others k (case r of Inl e \<Rightarrow> f e | Inr a \<Rightarrow> g a)"
  by (simp split: sum.split)

lemma keeps_collectAll: "(\<And>m. m \<in> set ms \<Longrightarrow> keeps_others k m) \<Longrightarrow> keeps_others k (collectAll ms)"
  by (induction ms) (auto intro!: others_bind others_tryM others_ret others_throw others_case_sum)

lemma keeps_readHashes: "keeps_others k (readHashes keys)"
  unfolding readHashes_def by (intro keeps_rules) (auto intro!: keeps_rules split: prod.split)

lemma keeps_GetAll [keeps_rules]: "keeps_others k (GetAllTokensWithoutError u)"
  unfolding GetAllTokensWithoutError_def
  by (intro others_bind keeps_groupKeysBySlot keeps_collectAll) (auto simp: keeps_readHashes split: option.splits)

lemma keeps_SetTokenFlagEx [keeps_rules]: "keeps_others (GetTokenKey u p) (SetTokenFlagEx cfg u p t v)"
  unfolding SetTokenFlagEx_def Let_def by (intro keeps_rules)

text \<open>The part of a login before the new token is written.\<close>

definition loginPrefix ::
  "'t auth_tools_scheme \<Rightarrow> auth_config \<Rightarrow> string \<Rightarrow> int \<Rightarrow> ('e token_world_scheme, unit) prog" where
  "loginPrefix T cfg userID platformID =
     bindM (GetAllTokensWithoutError userID) (\<lambda>tokens.
       bindM (\<lambda>w. (checkToken T cfg (clock w) tokens platformID, w)) (\<lambda>(deleteTokenKey, kickedTokenKey).
         thenM (if length deleteTokenKey \<noteq> 0 then DeleteTokenByUidPid userID platformID deleteTokenKey else ret ())
           (kickInHash cfg userID platformID kickedTokenKey)))"

lemma keeps_loginPrefix: "keeps_others (GetTokenKey u p) (loginPrefix T cfg u p)"
  unfolding loginPrefix_def DeleteTokenByUidPid_def kickInHash_def
  by (intro others_bind keeps_GetAll others_pure) (auto intro!: keeps_rules split: prod.split)

lemma keeps_CreateToken: "keeps_others (GetTokenKey u p) (CreateToken T cfg u p)"
  unfolding CreateToken_def Let_def loginPrefix_def [symmetric]
  by (intro keeps_rules keeps_loginPrefix)

section \<open>A login\<close>

lemma liveTokens_expire_self:
  "clock w < d \<Longrightarrow> liveTokens k (w\<lparr>tokenHash := (f :: string \<rightharpoonup> _)(k \<mapsto> (h, Some d))\<rparr>) = h"
  by (simp add: liveTokens_def)

lemma HSet_Inr: "HSet k m w = (Inr x, w') \<Longrightarrow> w' = hset1 k m (w\<lparr>opno := Suc (opno w)\<rparr>)"
  by (auto simp: HSet_def io_Inr split: if_splits)

lemma Expire_Inr:
  assumes "Expire k d w = (Inr x, w')" and "0 < d"
  shows "liveTokens k' w' = liveTokens k' w"
proof -
  let ?w = "w\<lparr>opno := Suc (opno w)\<rparr>"
  from assms(1) have "w' = (if liveTokens k ?w = [] then ?w
      else ?w\<lparr>tokenHash := (tokenHash ?w)(k \<mapsto> (liveTokens k ?w, Some (clock ?w + d)))\<rparr>)"
    by (simp add: Expire_def io_Inr)
  then show ?thesis
    using assms(2) by (cases "k' = k") (auto simp: liveTokens_expire_self, simp add: liveTokens_def split: option.split)
qed

lemma SetTokenFlagEx_Inr:
  assumes "SetTokenFlagEx cfg u p t v w = (Inr x, w')" and "0 < accessExpire cfg"
  shows "liveTokens (GetTokenKey u p) w' = setFlags [(t, v)] (liveTokens (GetTokenKey u p) w)"
proof -
  from assms(1) obtain y w1 where 1: "HSet (GetTokenKey u p) [(t, v)] w = (Inr y, w1)"
    and 2: "Expire (GetTokenKey u p) (getExpireTime (accessExpire cfg)) w1 = (Inr x, w')"
    by (auto simp: SetTokenFlagEx_def Let_def bindM_eq_Inr)
  have "0 < getExpireTime (accessExpire cfg)" using assms(2) by (simp add: getExpireTime_def dayMillis_def)
  with Expire_Inr [OF 2] HSet_Inr [OF 1] show ?thesis by (simp add: hset1_alt)
qed

lemma CreateToken_Inr:
  assumes "CreateToken T cfg u p w = (Inr t, w')"
  obtains x y w1 where "(if IsManagerUserID u (adminUserIDs cfg) then ret () else loginPrefix T cfg u p) w = (Inr x, w1)"
    and "jSign T u p (accessExpire cfg) (clock w1) = Inr t"
    and "(if IsManagerUserID u (adminUserIDs cfg) then ret () else SetTokenFlagEx cfg u p t NormalToken) w1 = (Inr y, w')"
proof -
  from assms have "thenM (if IsManagerUserID u (adminUserIDs cfg) then ret () else loginPrefix T cfg u p)
      (bindM (\<lambda>w. (jSign T u p (accessExpire cfg) (clock w), w)) (\<lambda>tokenString.
        thenM (if IsManagerUserID u (adminUserIDs cfg) then ret () else SetTokenFlagEx cfg u p tokenString NormalToken)
          (ret tokenString))) w = (Inr t, w')"
    by (simp only: CreateToken_def Let_def loginPrefix_def)
  then show ?thesis using that by (auto simp only: bindM_eq_Inr ret_app prod.inject sum.inject old.unit.exhaust)
qed

text \<open>The keys of the hashes: a platform is recovered from its key, and the keys of a user are those of the ten platforms.\<close>

lemma last_splitOn: "c \<notin> set t \<Longrightarrow> last (splitOn c (s @ c # t)) = t"
proof (induction s)
  case (Cons x s)
  have "splitOn c (s @ c # t) \<noteq> []" by simp
  moreover have "length (splitOn c (s @ c # t)) \<noteq> 1"
    by (induction s) (auto split: list.split)
  ultimately show ?case using Cons by (cases "splitOn c (s @ c # t)") auto
qed (simp add: splitOn_none)

lemma PlatformIDToName_no_colon: "CHR '':'' \<notin> set (PlatformIDToName p)"
  by (simp add: PlatformIDToName_def PlatformID2Name_def mapGet_def)

abbreviation platforms :: "int list" where
  "platforms \<equiv> [1, 2, 3, 4, 5, 6, 7, 8, 9, 10]"

lemma platform_of_key:
  assumes "p \<in> set platforms"
  shows "GetPlatformIDByTokenKey (GetTokenKey u p) = p"
proof -
  from assms have "PlatformNameToID (PlatformIDToName p) = p"
    by (auto simp: PlatformIDToName_def PlatformNameToID_def PlatformID2Name_def PlatformName2ID_def mapGet_def)
  then show ?thesis
    using last_splitOn [OF PlatformIDToName_no_colon, of "''UID_PID_TOKEN_STATUS:'' @ u" p]
    by (simp add: GetPlatformIDByTokenKey_def GetTokenKey_def del: splitOn.simps)
qed

lemma GetTokenKey_platform:
  "p \<in> set platforms \<Longrightarrow> p' \<in> set platforms \<Longrightarrow> GetTokenKey u p = GetTokenKey u p' \<longleftrightarrow> p = p'"
  by (metis platform_of_key)

lemma GetAllPlatformTokenKey_eq: "GetAllPlatformTokenKey u = map (GetTokenKey u) platforms"
  by (simp add: GetAllPlatformTokenKey_def PlatformID2Name_def eval_nat_numeral)

definition flagsOf :: "string \<Rightarrow> 'e token_world_scheme \<Rightarrow> (string \<times> int) list" where
  "flagsOf k w = map (\<lambda>(k, v). (k, the (atoi v))) (liveTokens k w)"

lemma readHashes_run:
  assumes "tokens_wf w" and "faults w (opno w) = NoFault"
  shows "readHashes (map (GetTokenKey u) platforms) w =
    (Inr (map (\<lambda>p. (p, flagsOf (GetTokenKey u p) w)) platforms), w\<lparr>opno := Suc (opno w)\<rparr>)"
  using assms(2) parseFlags_wf [OF tokens_wf_live [OF assms(1)]]
  by (simp add: readHashes_def bindM_def io_NoFault platform_of_key flagsOf_def)

text \<open>On a single redis node.\<close>

lemma GetAllTokens_run:
  assumes "tokens_wf w" and "faults w (opno w) = NoFault" and "cluster w = None"
  shows "GetAllTokensWithoutError u w =
    (Inr (map (\<lambda>p. (p, flagsOf (GetTokenKey u p) w)) platforms), w\<lparr>opno := Suc (opno w)\<rparr>)"
  using readHashes_run [OF assms(1,2), of u] assms(3)
  by (simp add: GetAllTokensWithoutError_def bindM_def groupKeysBySlot_def GetAllPlatformTokenKey_eq
      splitIntoBatches_def splitIntoBatches_loop.simps [of "map g (k # ks)" for g k ks, simplified]
      splitIntoBatches_loop.simps [of "[a, b, c, d, e, f, g, h, i, j]" for a b c d e f g h i j]
      defaultBatchSize_def tryM_def)

text \<open>
  A created token is valid. If \<^verbatim>\<open>CreateToken\<close> succeeds, the token it returns is accepted by the auth service in the state it
  leaves, for the user and the platform it was made for, whatever the login policy, other logins of the user, and failures
  while the login was still being worked on.
\<close>

theorem created_token_valid:
  assumes "CreateToken T cfg u p w = (Inr t, w')" and "jwt_ok T" and "tokens_wf w" and "0 < accessExpire cfg"
    and "faults w' (opno w') = NoFault"
  shows "\<exists>c. fst (parseToken T cfg t w') = Inr c \<and> cUserID c = u \<and> cPlatformID c = p"
proof -
  have frame: "only_hash (GetTokenKey u p) w w'"
    using keeps_CreateToken [of u p T cfg] assms(1) unfolding keeps_others_def by (metis snd_conv)
  obtain x y w1
    where w1: "(if IsManagerUserID u (adminUserIDs cfg) then ret () else loginPrefix T cfg u p) w = (Inr x, w1)"
    and sign: "jSign T u p (accessExpire cfg) (clock w1) = Inr t"
    and last: "(if IsManagerUserID u (adminUserIDs cfg) then ret () else SetTokenFlagEx cfg u p t NormalToken) w1 = (Inr y, w')"
    by (rule CreateToken_Inr [OF assms(1)])
  have "keeps_others (GetTokenKey u p) (if IsManagerUserID u (adminUserIDs cfg) then ret () else loginPrefix T cfg u p)"
    by (intro keeps_rules keeps_loginPrefix)
  with w1 have "clock w1 = clock w" unfolding keeps_others_def only_hash_def by (metis snd_conv)
  with frame have clk: "clock w' = clock w1" by (simp add: only_hash_def)
  obtain c where c: "jParse T t (clock w') = Inr c" "cUserID c = u" "cPlatformID c = p"
    using assms(2,4) sign unfolding jwt_ok_def clk dayMillis_def by force
  have "fst (parseToken T cfg t w') = Inr c"
  proof (rule parseToken_ok [OF c(1) _ assms(5)])
    show "tokens_wf w'" using frame assms(3) by (simp add: only_hash_def)
    show "cUserID c \<in> set (adminUserIDs cfg) \<or>
        map_of (liveTokens (GetTokenKey (cUserID c) (cPlatformID c)) w') t = Some (itoa NormalToken)"
      using last SetTokenFlagEx_Inr [OF _ assms(4), of u p t NormalToken w1 y w'] c(2,3)
      by (auto simp: IsManagerUserID_def map_of_setFlags split: if_splits)
  qed
  with c show ?thesis by blast
qed

text \<open>A signing library for the examples: user u has one token for each of two platforms.\<close>

definition demo_auth :: auth_tools where
  "demo_auth = \<lparr>
     jSign = (\<lambda>u p days now. if u = ''u'' \<and> p = 1 then Inr ''i'' else if u = ''u'' \<and> p = 2 then Inr ''a'' else Inl ErrIO),
     jParse = (\<lambda>t now. if t = ''i'' then Inr \<lparr>cUserID = ''u'', cPlatformID = 1, cExpiresAt = 0\<rparr>
       else if t = ''a'' then Inr \<lparr>cUserID = ''u'', cPlatformID = 2, cExpiresAt = 0\<rparr> else Inl ErrIO),
     orderPlatforms = (\<lambda>m. m), orderTokens = (\<lambda>m. m), orderLogins = (\<lambda>m. m),
     uCheckUser = (\<lambda>_. Inr ()), uAppMangerLevel = (\<lambda>_. Inr 0), gateways = 1\<rparr>"

lemma demo_auth_ok: "jwt_ok demo_auth" "orders_ok demo_auth"
  by (simp_all add: jwt_ok_def orders_ok_def demo_auth_def)

text \<open>User u is logged in on Android, and the policy is to keep one login in each class of platforms.\<close>

definition auth_world :: token_world where
  "auth_world = \<lparr>faults = (\<lambda>_. NoFault), opno = 0, clock = 1000, rand = (\<lambda>n. 0), cluster = None, rocks = Map.empty,
     tokenHash = [GetTokenKey ''u'' 2 \<mapsto> ([(''a'', itoa NormalToken)], None)], kickReqs = []\<rparr>"

definition auth_cfg :: auth_config where
  "auth_cfg = \<lparr>Policy = AllLoginButSameClassKick, MaxNumOneEnd = 1, accessExpire = 90, adminUserIDs = [''root''],
     secretShare = ''s''\<rparr>"

lemma auth_world_wf: "tokens_wf auth_world" "reliable auth_world"
  by (simp_all add: tokens_wf_def auth_world_def hash_wf_def reliable_def)

lemma auth_world_flags:
  "p \<in> set platforms \<Longrightarrow> flagsOf (GetTokenKey ''u'' p) auth_world = (if p = 2 then [(''a'', NormalToken)] else [])"
  by (auto simp: flagsOf_def liveTokens_def auth_world_def GetTokenKey_platform)

lemma auth_world_policy:
  "checkToken demo_auth auth_cfg now (map (\<lambda>p. (p, flagsOf (GetTokenKey ''u'' p) auth_world)) platforms) 1 = Inr ([], [''a''])"
  by (simp add: auth_world_flags checkToken_def sortTokens_def sortToken_def demo_auth_def auth_cfg_def kickTokens_def
      kickSameClass_def PlatformIDToClass_def PlatformID2class_def mapGet_def)

lemma auth_login:
  "\<exists>w'. CreateToken demo_auth auth_cfg ''u'' 1 auth_world = (Inr ''i'', w') \<and> faults w' = faults auth_world"
proof -
  have run: "GetAllTokensWithoutError ''u'' auth_world = (Inr (map (\<lambda>p. (p, flagsOf (GetTokenKey ''u'' p) auth_world)) platforms),
      auth_world\<lparr>opno := Suc (opno auth_world)\<rparr>)"
    using auth_world_wf by (intro GetAllTokens_run) (simp_all add: reliable_def auth_world_def)
  have flag: "\<exists>w'. SetTokenFlagEx cfg u p t v w = (Inr (), w') \<and> reliable w'" if "reliable w" for cfg u p t v and w :: token_world
    using that by (auto simp: SetTokenFlagEx_def Let_def bindM_def HSet_def Expire_def io_reliable hset1_alt reliable_def
        putTokens_def)
  let ?w0 = "auth_world\<lparr>opno := Suc (opno auth_world)\<rparr>"
  have clk: "clock ?w0 = clock auth_world" by simp
  obtain w1 where 1: "SetTokenFlagEx auth_cfg ''u'' 1 ''a'' KickedToken ?w0 = (Inr (), w1)" "reliable w1"
    using flag [of ?w0 auth_cfg "''u''" 1 "''a''" KickedToken] auth_world_wf(2) by auto
  obtain w2 where 2: "SetTokenFlagEx auth_cfg ''u'' 1 ''i'' NormalToken w1 = (Inr (), w2)"
    using flag [OF 1(2)] by blast
  have sign: "jSign demo_auth ''u'' 1 d n = Inr ''i''" for d n by (simp add: demo_auth_def)
  have admin: "\<not> IsManagerUserID ''u'' (adminUserIDs auth_cfg)" by (simp add: IsManagerUserID_def auth_cfg_def)
  have pre: "loginPrefix demo_auth auth_cfg ''u'' 1 auth_world = (Inr (), w1)"
    unfolding loginPrefix_def bindM_def run
    by (simp only: prod.case sum.case clk auth_world_policy) (simp add: kickInHash_def bindM_def 1)
  have "\<exists>w'. CreateToken demo_auth auth_cfg ''u'' 1 auth_world = (Inr ''i'', w')"
    unfolding CreateToken_def Let_def loginPrefix_def [symmetric]
    by (simp add: admin bindM_def pre sign 2)
  moreover have "keeps_others (GetTokenKey ''u'' 1) (CreateToken demo_auth auth_cfg ''u'' 1 :: (token_world, string) prog)"
    by (rule keeps_CreateToken)
  ultimately show ?thesis unfolding keeps_others_def only_hash_def by (metis snd_conv)
qed

theorem created_token_valid_witness:
  "\<exists>w'. CreateToken demo_auth auth_cfg ''u'' 1 auth_world = (Inr ''i'', w') \<and>
     (\<exists>c. fst (parseToken demo_auth auth_cfg ''i'' w') = Inr c \<and> cPlatformID c = 1)"
proof -
  obtain w' where w': "CreateToken demo_auth auth_cfg ''u'' 1 auth_world = (Inr ''i'', w')" "faults w' = faults auth_world"
    using auth_login by blast
  have "faults w' (opno w') = NoFault" using w'(2) auth_world_wf(2) by (simp add: reliable_def)
  from created_token_valid [OF w'(1) demo_auth_ok(1) auth_world_wf(1) _ this] w'(1) show ?thesis
    by (auto simp: auth_cfg_def)
qed

text \<open>
  A login never ends a login on another platform, whatever the policy says. The tokens \<^verbatim>\<open>checkToken\<close> picks are flagged as kicked, and
  invalid ones deleted, in the hash of the platform that logs in, and not in the hash they live in: every token of another
  platform that was accepted before is accepted afterwards, also when the login fails half way.
\<close>

theorem login_leaves_other_platforms:
  assumes "CreateToken T cfg u p w = (r, w')" and "tokens_wf w" and "reliable w"
    and "fst (parseToken T cfg t w) = Inr c" and "GetTokenKey (cUserID c) (cPlatformID c) \<noteq> GetTokenKey u p"
  shows "fst (parseToken T cfg t w') = Inr c"
proof -
  let ?k = "GetTokenKey (cUserID c) (cPlatformID c)"
  have frame: "only_hash (GetTokenKey u p) w w'"
    using keeps_CreateToken [of u p T cfg] assms(1) unfolding keeps_others_def by (metis snd_conv)
  then have clk: "clock w' = clock w" and rel: "faults w' (opno w') = NoFault" and wf: "tokens_wf w'"
    using assms(2,3) by (simp_all add: only_hash_def reliable_def)
  have live: "liveTokens ?k w' = liveTokens ?k w"
    using frame assms(5) by (simp add: only_hash_def)
  obtain w1 where run: "parseToken T cfg t w = (Inr c, w1)"
    using assms(4) by (cases "parseToken T cfg t w") auto
  then have parse: "jParse T t (clock w) = Inr c"
    by (auto simp: parseToken_def bindM_eq_Inr split: if_splits option.splits)
  show ?thesis
  proof (cases "cUserID c \<in> set (adminUserIDs cfg)")
    case True
    with parse clk show ?thesis by (intro parseToken_ok wf rel) simp_all
  next
    case False
    from parseToken_Inr [OF run assms(2) False] obtain s where
      s: "map_of (liveTokens ?k w) t = Some s" "atoi s = Some NormalToken" by auto
    have "liveTokens ?k w' \<noteq> []" using s(1) live by auto
    with s live clk parse GetTokens_run [OF wf rel] False show ?thesis
      by (simp add: parseToken_def bindM_def IsManagerUserID_def map_of_parsed)
  qed
qed

theorem login_leaves_other_platforms_witness:
  "checkToken demo_auth auth_cfg 1000 (map (\<lambda>p. (p, flagsOf (GetTokenKey ''u'' p) auth_world)) platforms) 1 = Inr ([], [''a'']) \<and>
   (\<exists>w'. CreateToken demo_auth auth_cfg ''u'' 1 auth_world = (Inr ''i'', w') \<and>
     (\<exists>c. fst (parseToken demo_auth auth_cfg ''a'' w') = Inr c))"
proof -
  obtain w' where w': "CreateToken demo_auth auth_cfg ''u'' 1 auth_world = (Inr ''i'', w')"
    using auth_login by blast
  have "fst (parseToken demo_auth auth_cfg ''a'' auth_world) = Inr \<lparr>cUserID = ''u'', cPlatformID = 2, cExpiresAt = 0\<rparr>"
    by (rule parseToken_ok) (use auth_world_wf in \<open>auto simp: demo_auth_def reliable_def liveTokens_def auth_world_def\<close>)
  from login_leaves_other_platforms [OF w' auth_world_wf this] auth_world_policy w' show ?thesis
    by (auto simp: GetTokenKey_platform)
qed

section \<open>The policies\<close>

text \<open>The tokens of the platforms satisfying a predicate that are not kicked.\<close>

definition left :: "string list \<Rightarrow> (int \<times> string list) list \<Rightarrow> (int \<Rightarrow> bool) \<Rightarrow> string list" where
  "left kick logins P = concat (map (\<lambda>(p, ts). if P p then filter (\<lambda>t. t \<notin> set kick) ts else []) logins)"

definition toks :: "(int \<times> string list) list \<Rightarrow> string set" where
  "toks logins = set (concat (map snd logins))"

text \<open>The map of logins: each platform once, with at least one token, and no token twice.\<close>

definition logins_ok :: "(int \<times> string list) list \<Rightarrow> bool" where
  "logins_ok logins \<longleftrightarrow> distinct_keys logins \<and> (\<forall>(p, ts)\<in>set logins. ts \<noteq> []) \<and> distinct (concat (map snd logins))"

lemma left_Nil [simp]: "left kick [] P = []"
  by (simp add: left_def)

lemma left_append: "left kick (xs @ ys) P = left kick xs P @ left kick ys P"
  by (simp add: left_def)

lemma left_single: "left kick [(p, ts)] P = (if P p then filter (\<lambda>t. t \<notin> set kick) ts else [])"
  by (simp add: left_def)

lemma toks_snoc [simp]: "toks (xs @ [(p, ts)]) = toks xs \<union> set ts" "toks [] = {}"
  by (auto simp: toks_def)

lemma logins_ok_snoc:
  "logins_ok (xs @ [(p, ts)]) \<longleftrightarrow>
   logins_ok xs \<and> p \<notin> fst ` set xs \<and> ts \<noteq> [] \<and> distinct ts \<and> set ts \<inter> toks xs = {}"
  by (auto simp: logins_ok_def toks_def)

lemma left_cong:
  assumes "\<And>t. t \<in> toks xs \<Longrightarrow> t \<in> set k \<longleftrightarrow> t \<in> set k'"
  shows "left k xs P = left k' xs P"
proof -
  have "filter (\<lambda>t. t \<notin> set k) ts = filter (\<lambda>t. t \<notin> set k') ts" if "(p, ts) \<in> set xs" for p ts
    using assms that by (intro filter_cong) (force simp: toks_def)+
  then show ?thesis unfolding left_def by (intro arg_cong [where f = concat] map_cong) auto
qed

lemma left_disjoint: "set k2 \<inter> toks xs = {} \<Longrightarrow> left (k1 @ k2) xs P = left k1 xs P"
  by (rule left_cong) auto

lemma filter_all_kicked: "set ts \<subseteq> K \<Longrightarrow> filter (\<lambda>t. t \<notin> K) ts = []"
  by (auto simp: filter_empty_conv)

lemma filter_keep_last:
  assumes "set K \<subseteq> T" and "ts \<noteq> []" and "distinct ts" and "set ts \<inter> T = {}"
  shows "filter (\<lambda>t. t \<notin> set (K @ butlast ts)) ts = [last ts]"
proof -
  obtain ys y where ts: "ts = ys @ [y]" using assms(2) by (cases ts rule: rev_cases) auto
  then have "y \<notin> set K" "y \<notin> set ys" using assms by auto
  then show ?thesis by (simp add: ts filter_empty_conv)
qed

lemma filter_kick_all: "filter (\<lambda>t. t \<notin> set (K @ ts)) ts = []"
  by (simp add: filter_empty_conv)

lemma filter_none_kicked: "set ts \<inter> K = {} \<Longrightarrow> filter (\<lambda>t. t \<notin> K) ts = ts"
  by (auto simp: filter_id_conv)

text \<open>One login for each platform.\<close>

lemma left_step:
  assumes "set k \<subseteq> set ts" and "set ts \<inter> toks xs = {}" and "filter (\<lambda>t. t \<notin> set (K @ k)) ts = n"
  shows "left (K @ k) (xs @ [(q, ts)]) P = left K xs P @ (if P q then n else [])"
proof -
  have "set k \<inter> toks xs = {}" using assms(1,2) by auto
  from left_disjoint [OF this, of K P] show ?thesis
    unfolding left_append left_single assms(3) by simp
qed

lemma kickSameTerm_step:
  "logins_ok logins \<Longrightarrow> set (kickSameTerm p logins) \<subseteq> toks logins \<and>
   left (kickSameTerm p logins) logins (\<lambda>q. q = p) = [] \<and>
   (\<forall>q. length (left (kickSameTerm p logins) logins (\<lambda>x. x = q)) \<le> 1) \<and>
   (\<forall>q. q \<notin> fst ` set logins \<longrightarrow> left (kickSameTerm p logins) logins (\<lambda>x. x = q) = [])"
proof (induction logins rule: rev_induct)
  case Nil
  then show ?case by (simp add: kickSameTerm_def)
next
  case (snoc x xs)
  obtain q ts where x: "x = (q, ts)" by (cases x)
  from snoc.prems have ok: "logins_ok xs" "q \<notin> fst ` set xs" "ts \<noteq> []" "distinct ts" "set ts \<inter> toks xs = {}"
    by (simp_all add: x logins_ok_snoc)
  define k where "k = (if q = p then ts else butlast ts)"
  define n where "n = (if q = p then [] else [last ts])"
  have K: "kickSameTerm p (xs @ [x]) = kickSameTerm p xs @ k"
    using ok(3) by (simp add: kickSameTerm_def x Let_def k_def)
  have sub: "set k \<subseteq> set ts" by (auto simp: k_def dest: in_set_butlastD)
  have KT: "set (kickSameTerm p xs) \<subseteq> toks xs" using snoc.IH ok(1) by blast
  have "filter (\<lambda>t. t \<notin> set (kickSameTerm p xs @ k)) ts = n"
    using filter_keep_last [OF KT ok(3-5)] filter_kick_all [of "kickSameTerm p xs" ts] unfolding k_def n_def by simp
  note lfx = left_step [OF sub ok(5) this, of q]
  have lf: "left (kickSameTerm p (xs @ [x])) (xs @ [x]) P =
      left (kickSameTerm p xs) xs P @ (if P q then n else [])" for P
    by (subst K) (simp only: x lfx)
  have "length n \<le> 1" "q = p \<longrightarrow> n = []" by (simp_all add: n_def)
  moreover have "left (kickSameTerm p xs) xs (\<lambda>x. x = q) = []" using snoc.IH ok(1,2) by blast
  ultimately have "left (kickSameTerm p (xs @ [x])) (xs @ [x]) (\<lambda>q. q = p) = [] \<and>
      (\<forall>q. length (left (kickSameTerm p (xs @ [x])) (xs @ [x]) (\<lambda>x. x = q)) \<le> 1) \<and>
      (\<forall>r. r \<notin> fst ` set (xs @ [x]) \<longrightarrow> left (kickSameTerm p (xs @ [x])) (xs @ [x]) (\<lambda>x. x = r) = [])"
    using snoc.IH [OF ok(1)] unfolding lf by (auto simp: x)
  moreover have "set (kickSameTerm p (xs @ [x])) \<subseteq> toks (xs @ [x])" unfolding K using KT sub by (auto simp: x)
  ultimately show ?case by blast
qed

text \<open>One login for each class of platforms.\<close>

definition classStep ::
  "int \<Rightarrow> string list \<times> string list \<Rightarrow> int \<times> string list \<Rightarrow> string list \<times> string list" where
  "classStep platformID = (\<lambda>(kickToken, reserved) (plt, ts).
     let c = PlatformIDToClass plt in
     if c = PlatformIDToClass platformID then (kickToken @ ts, reserved)
     else if c \<notin> set reserved then (kickToken @ butlast ts, c # reserved)
     else (kickToken @ ts, reserved))"

lemma kickSameClass_alt: "kickSameClass p logins = fst (foldl (classStep p) ([], []) logins)"
  by (simp add: kickSameClass_def classStep_def)

lemma kickSameClass_step:
  "logins_ok logins \<Longrightarrow> foldl (classStep p) ([], []) logins = (K, R) \<Longrightarrow>
   set K \<subseteq> toks logins \<and> left K logins (\<lambda>q. PlatformIDToClass q = PlatformIDToClass p) = [] \<and>
   (\<forall>c. length (left K logins (\<lambda>q. PlatformIDToClass q = c)) \<le> (if c \<in> set R then 1 else 0))"
proof (induction logins arbitrary: K R rule: rev_induct)
  case Nil
  then show ?case by simp
next
  case (snoc x xs)
  obtain q ts where x: "x = (q, ts)" by (cases x)
  from snoc.prems(1) have ok: "logins_ok xs" "ts \<noteq> []" "distinct ts" "set ts \<inter> toks xs = {}"
    by (simp_all add: x logins_ok_snoc)
  obtain K0 R0 where f: "foldl (classStep p) ([], []) xs = (K0, R0)" by fastforce
  note IH = snoc.IH [OF ok(1) f]
  let ?c = "PlatformIDToClass q" and ?cp = "PlatformIDToClass p"
  define keep where "keep \<longleftrightarrow> ?c \<noteq> ?cp \<and> ?c \<notin> set R0"
  define k where "k = (if keep then butlast ts else ts)"
  define n where "n = (if keep then [last ts] else [])"
  have KR: "K = K0 @ k" "R = (if keep then ?c # R0 else R0)"
    using snoc.prems(2) f by (auto simp: x classStep_def Let_def k_def keep_def split: if_splits)
  have sub: "set k \<subseteq> set ts" by (auto simp: k_def dest: in_set_butlastD)
  have KT: "set K0 \<subseteq> toks xs" using IH by blast
  have "filter (\<lambda>t. t \<notin> set (K0 @ k)) ts = n"
    using filter_keep_last [OF KT ok(2-4)] filter_kick_all [of K0 ts] unfolding k_def n_def by simp
  from left_step [OF sub ok(4) this] have lf: "left K (xs @ [x]) P = left K0 xs P @ (if P q then n else [])" for P
    unfolding KR(1) x .
  have "length (left K (xs @ [x]) (\<lambda>q. PlatformIDToClass q = c)) \<le> (if c \<in> set R then 1 else 0)" for c
  proof -
    from IH have "length (left K0 xs (\<lambda>q. PlatformIDToClass q = c)) \<le> (if c \<in> set R0 then 1 else 0)" by blast
    then show ?thesis by (auto simp: lf KR(2) n_def keep_def split: if_splits)
  qed
  moreover have "left K (xs @ [x]) (\<lambda>q. PlatformIDToClass q = ?cp) = []" using IH by (simp add: lf n_def keep_def)
  moreover have "set K \<subseteq> toks (xs @ [x])" using KT sub by (auto simp: KR(1) x)
  ultimately show ?case by blast
qed

text \<open>One login of the platforms other than PCs.\<close>

definition pcStep ::
  "string list \<times> string list \<times> bool \<Rightarrow> int \<times> string list \<Rightarrow> string list \<times> string list \<times> bool" where
  "pcStep = (\<lambda>(kickToken, preKick, isReserve) (plt, ts).
     if PlatformIDToClass plt \<noteq> ''PC'' then
       (if isReserve then (kickToken @ butlast ts, preKick @ [last ts], False)
        else if plt = AndroidPlatformID then (kickToken @ preKick @ butlast ts, preKick, isReserve)
        else (kickToken @ ts, preKick, isReserve))
     else (kickToken, preKick, isReserve))"

lemma kickButOne_alt: "kickButOne logins = fst (foldl pcStep ([], [], True) logins)"
  by (simp add: kickButOne_def pcStep_def case_prod_unfold)

abbreviation notPC :: "int \<Rightarrow> bool" where
  "notPC q \<equiv> PlatformIDToClass q \<noteq> ''PC''"

abbreviation isPC :: "int \<Rightarrow> bool" where
  "isPC q \<equiv> PlatformIDToClass q = ''PC''"

lemma set_left: "t \<in> set (left K xs P) \<longleftrightarrow> (\<exists>(p, ts)\<in>set xs. P p \<and> t \<in> set ts \<and> t \<notin> set K)"
  by (auto simp: left_def split: if_splits)

lemma left_subset_kick:
  assumes "set (left K xs P) \<subseteq> set pre"
  shows "left (K @ pre) xs P = []"
proof -
  have "t \<in> set (left K xs P) \<and> t \<notin> set pre" if "t \<in> set (left (K @ pre) xs P)" for t
    using that unfolding set_left by fastforce
  with assms have "t \<notin> set (left (K @ pre) xs P)" for t by blast
  then show ?thesis by (metis last_in_set)
qed

lemma kickButOne_step:
  "logins_ok logins \<Longrightarrow> foldl pcStep ([], [], True) logins = (K, pre, fresh) \<Longrightarrow>
   set K \<subseteq> set (left [] logins notPC) \<and> set pre \<subseteq> toks logins \<and> length (left K logins notPC) \<le> 1 \<and>
   (fresh \<longrightarrow> pre = [] \<and> left [] logins notPC = []) \<and>
   (AndroidPlatformID \<notin> fst ` set logins \<longrightarrow> set (left K logins notPC) \<subseteq> set pre) \<and> set pre \<subseteq> set (left [] logins notPC)"
proof (induction logins arbitrary: K pre fresh rule: rev_induct)
  case Nil
  then show ?case by simp
next
  case (snoc x xs)
  obtain q ts where x: "x = (q, ts)" by (cases x)
  from snoc.prems(1) have ok: "logins_ok xs" "q \<notin> fst ` set xs" "ts \<noteq> []" "distinct ts" "set ts \<inter> toks xs = {}"
    by (simp_all add: x logins_ok_snoc)
  obtain K0 pre0 fresh0 where f: "foldl pcStep ([], [], True) xs = (K0, pre0, fresh0)" by (metis prod_cases3)
  note IH = snoc.IH [OF ok(1) f]
  have sub0: "set (left [] xs notPC) \<subseteq> toks xs" by (force simp: set_left toks_def)
  have KT: "set K0 \<subseteq> toks xs" and PT: "set (K0 @ pre0) \<subseteq> toks xs" using IH sub0 by auto
  have all: "left [] (xs @ [x]) notPC = left [] xs notPC @ (if notPC q then ts else [])"
    by (simp add: left_append x left_single)
  have st: "(K, pre, fresh) = pcStep (K0, pre0, fresh0) (q, ts)"
    using snoc.prems(2) f by (simp add: x)
  consider (pc) "isPC q" | (first) "notPC q" "fresh0" | (android) "notPC q" "\<not> fresh0" "q = AndroidPlatformID"
    | (other) "notPC q" "\<not> fresh0" "q \<noteq> AndroidPlatformID" by blast
  then show ?case
  proof cases
    case pc
    with st have "K = K0" "pre = pre0" "fresh = fresh0" by (auto simp: pcStep_def)
    moreover have "left K0 (xs @ [x]) notPC = left K0 xs notPC" using pc by (simp add: left_append x left_single)
    ultimately show ?thesis using IH pc all by (auto simp: x)
  next
    case first
    with st IH have st': "K = K0 @ butlast ts" "pre = [last ts]" "\<not> fresh" "K0 = []" by (auto simp: pcStep_def)
    have "filter (\<lambda>t. t \<notin> set (K0 @ butlast ts)) ts = [last ts]" by (rule filter_keep_last [OF KT ok(3-5)])
    from left_step [OF _ ok(5) this, where q = q and P = notPC] have "left K (xs @ [x]) notPC = left K0 xs notPC @ [last ts]"
      using first st' by (auto simp: x dest: in_set_butlastD)
    moreover have "left K0 xs notPC = []" using IH first st' by simp
    ultimately show ?thesis using IH first st' all ok(3) by (auto simp: x dest: in_set_butlastD)
  next
    case android
    with st have st': "K = (K0 @ pre0) @ butlast ts" "pre = pre0" "\<not> fresh" by (auto simp: pcStep_def)
    have "filter (\<lambda>t. t \<notin> set ((K0 @ pre0) @ butlast ts)) ts = [last ts]" by (rule filter_keep_last [OF PT ok(3-5)])
    from left_step [OF _ ok(5) this, where q = q and P = notPC] have "left K (xs @ [x]) notPC = left (K0 @ pre0) xs notPC @ [last ts]"
      using android st' by (auto simp: x dest: in_set_butlastD)
    moreover have "left (K0 @ pre0) xs notPC = []" using IH ok(2) android by (intro left_subset_kick) auto
    ultimately show ?thesis using IH android st' all by (auto simp: x dest: in_set_butlastD)
  next
    case other
    with st have st': "K = K0 @ ts" "pre = pre0" "\<not> fresh" by (auto simp: pcStep_def)
    from left_step [OF _ ok(5) filter_kick_all [of K0 ts], where q = q and P = notPC] have "left K (xs @ [x]) notPC = left K0 xs notPC"
      using other st' by (simp add: x)
    with IH other st' all show ?thesis by (auto simp: x)
  qed
qed

lemma kickOthers_eq: "kickOthers logins = left [] logins notPC"
proof -
  have "foldl (\<lambda>kickToken (plt, ts). if notPC plt then kickToken @ ts else kickToken) acc logins = acc @ left [] logins notPC" for acc
    by (induction logins arbitrary: acc) (auto simp: left_def)
  then show ?thesis by (simp add: kickOthers_def)
qed

lemma left_none: "left (left [] logins P) logins P = []"
  using left_subset_kick [of "[]" logins P "left [] logins P"] by simp

text \<open>A limit for each platform.\<close>

lemma left_Cons: "left K ((p, ts) # xs) P = (if P p then filter (\<lambda>t. t \<notin> set K) ts else []) @ left K xs P"
  by (simp add: left_def)

lemma kickOverLimit_step:
  assumes "logins_ok logins" and "1 \<le> limit"
  shows "\<exists>K. kickOverLimit limit p logins = Inr K \<and> set K \<subseteq> toks logins \<and>
    (\<forall>(q, ts)\<in>set logins. int (length (filter (\<lambda>t. t \<notin> set K) ts)) =
       min (int (length ts)) (limit - (if p = q then 1 else 0)))"
  using assms(1)
proof (induction logins)
  case Nil
  then show ?case by (simp add: toks_def)
next
  case (Cons x xs)
  obtain q ts where x: "x = (q, ts)" by (cases x)
  from Cons.prems have ok: "logins_ok xs" "ts \<noteq> []" "distinct ts" "set ts \<inter> toks xs = {}"
    by (auto simp: x logins_ok_def toks_def)
  from Cons.IH [OF ok(1)] obtain K where K: "kickOverLimit limit p xs = Inr K" "set K \<subseteq> toks xs"
    "\<forall>(q, ts)\<in>set xs. int (length (filter (\<lambda>t. t \<notin> set K) ts)) = min (int (length ts)) (limit - (if p = q then 1 else 0))"
    by blast
  define d :: int where "d = (if p = q then 1 else 0)"
  define n where "n = nat (int (length ts) + d - limit)"
  have nl: "n \<le> length ts" using assms(2) by (auto simp: n_def d_def)
  have run: "kickOverLimit limit p (x # xs) = Inr (take n ts @ K)"
    using K(1) assms(2) by (auto simp: x Let_def sliceTo_def n_def d_def)
  have "filter (\<lambda>t. t \<notin> set (take n ts @ K)) ts = drop n ts"
  proof -
    have "filter (\<lambda>t. t \<notin> set (take n ts @ K)) (take n ts @ drop n ts) = drop n ts"
      using ok(3,4) K(2) set_drop_subset [of n ts] set_take_disj_set_drop_if_distinct [of ts n n]
      by (auto simp: filter_append filter_empty_conv filter_id_conv simp del: append_take_drop_id)
    then show ?thesis by simp
  qed
  then have here: "int (length (filter (\<lambda>t. t \<notin> set (take n ts @ K)) ts)) = min (int (length ts)) (limit - d)"
    using nl assms(2) by (auto simp: n_def d_def min_def)
  have "filter (\<lambda>t. t \<notin> set (take n ts @ K)) ts' = filter (\<lambda>t. t \<notin> set K) ts'" if "(q', ts') \<in> set xs" for q' ts'
    using ok(4) that set_take_subset [of n ts] by (intro filter_cong) (force simp: toks_def)+
  with K(3) have "\<forall>(q, ts')\<in>set xs. int (length (filter (\<lambda>t. t \<notin> set (take n ts @ K)) ts')) =
      min (int (length ts')) (limit - (if p = q then 1 else 0))"
    by fastforce
  moreover have "set (take n ts @ K) \<subseteq> toks (x # xs)" using K(2) set_take_subset [of n ts] by (auto simp: x toks_def)
  ultimately show ?case using run here by (auto simp: x d_def)
qed

lemma token_platform_unique:
  "logins_ok logins \<Longrightarrow> (q, ts) \<in> set logins \<Longrightarrow> (q', ts') \<in> set logins \<Longrightarrow> t \<in> set ts \<Longrightarrow> t \<in> set ts' \<Longrightarrow> q = q'"
proof (induction logins)
  case (Cons x xs)
  then have "logins_ok xs" by (auto simp: logins_ok_def)
  with Cons show ?case by (force simp: logins_ok_def)
qed simp

lemma left_isPC:
  assumes "logins_ok logins" and "set K \<subseteq> set (left [] logins notPC)"
  shows "left K logins isPC = left [] logins isPC"
proof -
  have "filter (\<lambda>t. t \<notin> set K) ts = ts" if "(q, ts) \<in> set logins" "isPC q" for q ts
  proof -
    have "t \<notin> set K" if t: "t \<in> set ts" for t
    proof
      assume "t \<in> set K"
      with assms(2) obtain q' ts' where "(q', ts') \<in> set logins" "notPC q'" "t \<in> set ts'"
        using set_left [of t "[]" logins notPC] by fastforce
      with token_platform_unique [OF assms(1) \<open>(q, ts) \<in> set logins\<close>] t \<open>isPC q\<close> show False by blast
    qed
    then show ?thesis by (simp add: filter_id_conv)
  qed
  then show ?thesis unfolding left_def by (intro arg_cong [where f = concat] map_cong) auto
qed

text \<open>
  The login policies pick the right tokens. Without kicking, each platform keeps its newest tokens up to the limit, counting the
  login that is coming (for a limit of at least one; for zero the slice is out of range). With one login for each terminal, no
  token of the login's platform is left and at most one of any other. With PCs and one other, a login that is not a PC leaves no other token than those of
  PCs, a login of a PC leaves at most one other, and tokens of PCs are never picked. With one login for each class, no token of the login's class is
  left, and at most one of any other class. (Where the picked tokens are then flagged is the subject of C27.)
\<close>

theorem login_policies:
  assumes "logins_ok logins"
  shows "(Policy cfg = DefalutNotKick \<and> 1 \<le> MaxNumOneEnd cfg \<longrightarrow> (\<exists>K. kickTokens cfg p logins = Inr K \<and>
      (\<forall>(q, ts)\<in>set logins. int (length (filter (\<lambda>t. t \<notin> set K) ts)) =
         min (int (length ts)) (MaxNumOneEnd cfg - (if p = q then 1 else 0))))) \<and>
    (Policy cfg = AllLoginButSameTermKick \<longrightarrow> (\<exists>K. kickTokens cfg p logins = Inr K \<and>
      left K logins (\<lambda>q. q = p) = [] \<and> (\<forall>q. length (left K logins (\<lambda>x. x = q)) \<le> 1))) \<and>
    (Policy cfg = PCAndOther \<longrightarrow> (\<exists>K. kickTokens cfg p logins = Inr K \<and>
      length (left K logins notPC) \<le> (if isPC p then 1 else 0) \<and> left K logins isPC = left [] logins isPC)) \<and>
    (Policy cfg = AllLoginButSameClassKick \<longrightarrow> (\<exists>K. kickTokens cfg p logins = Inr K \<and>
      left K logins (\<lambda>q. PlatformIDToClass q = PlatformIDToClass p) = [] \<and>
      (\<forall>c. length (left K logins (\<lambda>q. PlatformIDToClass q = c)) \<le> 1)))"
proof (intro conjI impI)
  assume "Policy cfg = DefalutNotKick \<and> 1 \<le> MaxNumOneEnd cfg"
  with kickOverLimit_step [OF assms, of "MaxNumOneEnd cfg" p] show "\<exists>K. kickTokens cfg p logins = Inr K \<and>
      (\<forall>(q, ts)\<in>set logins. int (length (filter (\<lambda>t. t \<notin> set K) ts)) =
         min (int (length ts)) (MaxNumOneEnd cfg - (if p = q then 1 else 0)))"
    by (auto simp: kickTokens_def)
next
  assume "Policy cfg = AllLoginButSameTermKick"
  with kickSameTerm_step [OF assms, of p] show "\<exists>K. kickTokens cfg p logins = Inr K \<and>
      left K logins (\<lambda>q. q = p) = [] \<and> (\<forall>q. length (left K logins (\<lambda>x. x = q)) \<le> 1)"
    by (simp add: kickTokens_def)
next
  assume pol: "Policy cfg = PCAndOther"
  obtain K pre fresh where run: "foldl pcStep ([], [], True) logins = (K, pre, fresh)" by (metis prod_cases3)
  note one = kickButOne_step [OF assms run]
  show "\<exists>K. kickTokens cfg p logins = Inr K \<and>
      length (left K logins notPC) \<le> (if isPC p then 1 else 0) \<and> left K logins isPC = left [] logins isPC"
  proof (cases "isPC p")
    case True
    with pol run one left_isPC [OF assms, of K] show ?thesis by (simp add: kickTokens_def kickButOne_alt)
  next
    case False
    with pol left_none [of logins notPC] left_isPC [OF assms, of "left [] logins notPC"] show ?thesis
      by (simp add: kickTokens_def kickOthers_eq)
  qed
next
  assume pol: "Policy cfg = AllLoginButSameClassKick"
  obtain K R where run: "foldl (classStep p) ([], []) logins = (K, R)" by fastforce
  have "\<forall>c. length (left K logins (\<lambda>q. PlatformIDToClass q = c)) \<le> 1"
    using kickSameClass_step [OF assms run] by (auto split: if_splits)
  with pol run kickSameClass_step [OF assms run] show "\<exists>K. kickTokens cfg p logins = Inr K \<and>
      left K logins (\<lambda>q. PlatformIDToClass q = PlatformIDToClass p) = [] \<and>
      (\<forall>c. length (left K logins (\<lambda>q. PlatformIDToClass q = c)) \<le> 1)"
    by (simp add: kickTokens_def kickSameClass_alt)
qed

theorem login_policies_witness:
  "kickTokens auth_cfg 1 [(2, [''a'', ''b'']), (3, [''c'']), (4, [''d''])] = Inr [''a'', ''b'', ''d''] \<and>
   left [''a'', ''b'', ''d''] [(2, [''a'', ''b'']), (3, [''c'']), (4, [''d''])] (\<lambda>q. PlatformIDToClass q = PlatformIDToClass 1) = []"
proof -
  let ?l = "[(2, [''a'', ''b'']), (3, [''c'']), (4, [''d''])] :: (int \<times> string list) list"
  have "kickTokens auth_cfg 1 ?l = Inr [''a'', ''b'', ''d'']"
    by (simp add: kickTokens_def auth_cfg_def kickSameClass_def PlatformIDToClass_def PlatformID2class_def mapGet_def)
  moreover have "logins_ok ?l" by (simp add: logins_ok_def)
  ultimately show ?thesis using login_policies [of ?l auth_cfg 1] by (simp add: auth_cfg_def)
qed

section \<open>Logout\<close>

lemma liveTokens_hset1: "liveTokens k (hset1 k m w) = setFlags m (liveTokens k w)"
  by (simp add: hset1_alt)

lemma kickLoop_Inr:
  assumes "kickLoop u p ks m w = (Inr x, w')" and "distinct_keys m" and "set ks \<subseteq> fst ` set m"
    and "\<forall>t. map_of (liveTokens (GetTokenKey u p) w) t \<noteq> None \<longrightarrow> map_of m t \<noteq> None"
  shows "(\<forall>t\<in>set ks. map_of (liveTokens (GetTokenKey u p) w') t = Some (itoa KickedToken)) \<and>
    (\<forall>t. map_of (liveTokens (GetTokenKey u p) w') t \<noteq> None \<longrightarrow> map_of m t \<noteq> None) \<and>
    (\<forall>t. map_of m t = Some KickedToken \<and> map_of (liveTokens (GetTokenKey u p) w) t = Some (itoa KickedToken) \<longrightarrow>
       map_of (liveTokens (GetTokenKey u p) w') t = Some (itoa KickedToken))"
  using assms
proof (induction ks arbitrary: m w)
  case Nil
  then show ?case by simp
next
  case (Cons k ks)
  let ?k = "GetTokenKey u p" and ?m' = "AList.update k KickedToken m"
  from Cons.prems(1) obtain y w1 where 1: "HSet ?k ?m' w = (Inr y, w1)" and 2: "kickLoop u p ks ?m' w1 = (Inr x, w')"
    by (auto simp: Let_def bindM_eq_Inr SetTokenMapByUidPid_def)
  from HSet_Inr [OF 1] have live: "liveTokens ?k w1 = setFlags ?m' (liveTokens ?k w)" by (simp add: liveTokens_hset1)
  have dist: "distinct_keys ?m'" using Cons.prems(2) by (rule distinct_update)
  have keys: "set ks \<subseteq> fst ` set ?m'" 
    using Cons.prems(3) by (auto simp: dom_map_of_conv_image_fst [symmetric])
  have sub: "\<forall>t. map_of (liveTokens ?k w1) t \<noteq> None \<longrightarrow> map_of ?m' t \<noteq> None"
    using Cons.prems(4) by (auto simp: live map_of_setFlags [OF dist] split: option.splits)
  have in_m: "map_of m k \<noteq> None" using Cons.prems(3) by (auto simp: map_of_eq_None_iff)
  note IH = Cons.IH [OF 2 dist keys sub]
  have kick1: "map_of (liveTokens ?k w1) k = Some (itoa KickedToken)"
    by (simp add: live map_of_setFlags [OF dist])
  have old: "map_of (liveTokens ?k w1) t = Some (itoa KickedToken)" if "map_of m t = Some KickedToken" for t
    using that by (simp add: live map_of_setFlags [OF dist])
  have "map_of m t \<noteq> None" if "map_of (liveTokens ?k w') t \<noteq> None" for t
  proof (cases "t = k")
    case True
    with in_m show ?thesis by simp
  next
    case False
    with IH that show ?thesis by (auto split: if_splits)
  qed
  then show ?case using IH kick1 old by (auto split: if_splits)
qed

text \<open>
  C29. A forced logout ends every login of the platform. If \<^verbatim>\<open>ForceLogout\<close> succeeds, it was called by an administrator,
  and in the state it leaves no token whose claims name the user and the platform is accepted, in whatever order the
  tokens were flagged; the administrators themselves, whose tokens are not looked up, are the exception.
\<close>

theorem ForceLogout_ends_logins:
  assumes "ForceLogout T cfg op u p w = (Inr x, w')" and "tokens_wf w" and "orders_ok T" and "u \<notin> set (adminUserIDs cfg)"
  shows "op \<in> set (adminUserIDs cfg) \<and>
    (\<forall>t c w2. parseToken T cfg t w' = (Inr c, w2) \<longrightarrow> \<not> (cUserID c = u \<and> cPlatformID c = p))"
proof -
  let ?k = "GetTokenKey u p"
  from assms(1) have admin: "op \<in> set (adminUserIDs cfg)" and run: "forceKickOff T u p w = (Inr x, w')"
    by (auto simp: ForceLogout_def CheckAdmin_def bindM_eq_Inr split: if_splits)
  let ?g = "forM [0..<gateways T] (\<lambda>_. bindM (tryM (kickAtGateway u p)) (\<lambda>_. ret ()))"
  from run obtain y w1 where g: "?g w = (Inr y, w1)" and
    rest: "bindM (tryM (GetTokensWithoutError u p)) (\<lambda>r. case r of
        Inl e \<Rightarrow> if e \<noteq> RedisNil then throw e else ret ()
      | Inr m \<Rightarrow> kickLoop u p (map fst (orderTokens T m)) m) w1 = (Inr x, w')"
    unfolding forceKickOff_def by (auto simp only: bindM_eq_Inr)
  have gate: "keeps_others ?k (kickAtGateway u p)"
    unfolding kickAtGateway_def by (intro others_io) (simp add: keeps_others_def only_hash_def tokens_wf_def liveTokens_def split: option.split)
  have "keeps_others ?k ?g" by (intro keeps_rules gate)
  then have wf1: "tokens_wf w1" using assms(2) g unfolding keeps_others_def only_hash_def by (metis snd_conv)
  have GetNil: "GetTokensWithoutError u p w1 \<noteq> (Inl RedisNil, w2)" for w2
    using parseFlags_wf [OF tokens_wf_live [OF wf1, of ?k]]
    by (auto simp: GetTokensWithoutError_def bindM_def io_def Let_def split: fault.splits)
  from rest GetNil obtain m w2 where m: "GetTokensWithoutError u p w1 = (Inr m, w2)"
    and loop: "kickLoop u p (map fst (orderTokens T m)) m w2 = (Inr x, w')"
    by (auto simp: bind_tryM_Inr split: if_splits)
  from GetTokens_Inr [OF m wf1] have m_eq: "m = map (\<lambda>(k, v). (k, the (atoi v))) (liveTokens ?k w1)"
    and w2: "liveTokens ?k w2 = liveTokens ?k w1" "tokens_wf w2" using wf1 by auto
  have dist: "distinct_keys m" using tokens_wf_live [OF wf1, of ?k] by (auto simp: m_eq hash_wf_def comp_def case_prod_unfold)
  have perm: "set (orderTokens T m) = set m" using assms(3) by (metis orders_ok_def set_mset_mset)
  have "\<forall>t\<in>set (map fst (orderTokens T m)). map_of (liveTokens ?k w') t = Some (itoa KickedToken)"
    and "\<forall>t. map_of (liveTokens ?k w') t \<noteq> None \<longrightarrow> map_of m t \<noteq> None"
    using kickLoop_Inr [OF loop dist] perm by (auto simp: m_eq w2(1) map_of_parsed)
  then have kicked: "map_of (liveTokens ?k w') t \<noteq> None \<Longrightarrow> map_of (liveTokens ?k w') t = Some (itoa KickedToken)" for t
    using perm by (metis fst_conv image_eqI list.set_map map_of_SomeD not_None_eq)
  have keep: "keeps_others ?k (kickLoop u p ks m)" for ks m
    by (induction ks arbitrary: m) (simp_all add: others_ret others_bind Let_def SetTokenMapByUidPid_def keeps_HSet)
  then have wf': "tokens_wf w'" using w2(2) loop unfolding keeps_others_def only_hash_def by (metis snd_conv)
  have "\<not> (cUserID c = u \<and> cPlatformID c = p)" if "parseToken T cfg t w' = (Inr c, w3)" for t c w3
  proof
    assume c: "cUserID c = u \<and> cPlatformID c = p"
    with parseToken_Inr [OF that wf'] assms(4) have "map_of (liveTokens ?k w') t \<noteq> None"
      "atoi (the (map_of (liveTokens ?k w') t)) = Some NormalToken" by auto
    with kicked [of t] show False by simp
  qed
  with admin show ?thesis by blast
qed

theorem ForceLogout_ends_logins_witness:
  "\<exists>w'. ForceLogout demo_auth auth_cfg ''root'' ''u'' 2 auth_world = (Inr (), w') \<and>
     \<not> (\<exists>c w2. parseToken demo_auth auth_cfg ''a'' w' = (Inr c, w2) \<and> cUserID c = ''u'' \<and> cPlatformID c = 2)"
proof -
  have get: "GetTokensWithoutError ''u'' 2 (auth_world\<lparr>opno := 1, kickReqs := [(''u'', 2)]\<rparr>) =
      (Inr [(''a'', 0)], auth_world\<lparr>opno := 2, kickReqs := [(''u'', 2)]\<rparr>)"
    by (subst GetTokens_run) (use auth_world_wf in \<open>simp_all add: tokens_wf_def reliable_def auth_world_def liveTokens_def eval_nat_numeral\<close>)
  have "\<exists>w'. ForceLogout demo_auth auth_cfg ''root'' ''u'' 2 auth_world = (Inr (), w')"
    by (simp add: ForceLogout_def CheckAdmin_def auth_cfg_def forceKickOff_def bindM_def kickAtGateway_def io_def demo_auth_def)
      (use get in \<open>simp add: auth_world_def tryM_def SetTokenMapByUidPid_def HSet_def io_def bindM_def Let_def\<close>)
  then obtain w' where run: "ForceLogout demo_auth auth_cfg ''root'' ''u'' 2 auth_world = (Inr (), w')" by blast
  from ForceLogout_ends_logins [OF run auth_world_wf(1) demo_auth_ok(2)] run show ?thesis
    by (auto simp: auth_cfg_def)
qed

end
