(* ===== verification/Batcher.thy ===== *)
theory Batcher
  imports Prelude
begin

text \<open>
  The batcher of the message transfer, \<^verbatim>\<open>server/pkg/tools/batcher/batcher.go\<close>: producers put records on a channel, one
  scheduler goroutine collects them by key and hands full batches to worker goroutines, each with a channel of its
  own, chosen by the key. The goroutines are a transition system: an action is one step of a producer, of
  the scheduler, of a worker or of \<^verbatim>\<open>Close\<close>. The callbacks are recorded: \<open>processed\<close> are the calls of \<^verbatim>\<open>Do\<close>,
  \<open>completed\<close> the calls of \<^verbatim>\<open>OnComplete\<close> (which, in the transfer, commits the Kafka offset of its record).
\<close>

section \<open>Configuration\<close>

record Config =
  size :: int
  buffer :: nat
  dataBuffer :: nat
  worker :: nat
  interval :: int
  syncWait :: bool

definition DefaultDataChanSize :: nat where "DefaultDataChanSize = 1000"

definition defaultConfig :: Config where
  "defaultConfig = \<lparr>size = 100, buffer = 100, dataBuffer = 0, worker = 5, interval = 1000, syncWait = False\<rparr>"

definition WithSize :: "int \<Rightarrow> Config \<Rightarrow> Config" where "WithSize s c = c\<lparr>size := s\<rparr>"
definition WithBuffer :: "nat \<Rightarrow> Config \<Rightarrow> Config" where "WithBuffer b c = c\<lparr>buffer := b\<rparr>"
definition WithWorker :: "nat \<Rightarrow> Config \<Rightarrow> Config" where "WithWorker w c = c\<lparr>worker := w\<rparr>"
definition WithInterval :: "int \<Rightarrow> Config \<Rightarrow> Config" where "WithInterval i c = c\<lparr>interval := i\<rparr>"
definition WithSyncWait :: "bool \<Rightarrow> Config \<Rightarrow> Config" where "WithSyncWait b c = c\<lparr>syncWait := b\<rparr>"
definition WithDataBuffer :: "nat \<Rightarrow> Config \<Rightarrow> Config" where "WithDataBuffer s c = c\<lparr>dataBuffer := s\<rparr>"

section \<open>State\<close>

text \<open>
  The scheduler waits for a record, hands the rest of a batch to the channels (with the last record and the number of records of
  the batch, and whether it stops afterwards), or has returned. Its local \<^verbatim>\<open>vals\<close> and \<^verbatim>\<open>count\<close> are emptied when a batch starts to be
  handed out, not when that is done; it does not look at them in between.
\<close>

datatype 'm phase = Waiting | Distributing "(string \<times> 'm list) list" "'m option" int bool | Returned

record 'm batcher =
  dataChan :: "'m option list"
  cancelled :: bool
  closeCalls :: nat
  phase :: "'m phase"
  vals :: "(string \<times> 'm list) list"
  count :: int
  lastAny :: "'m option"
  chArrays :: "(string \<times> 'm list) list list"
  counter :: nat
  hooks :: "((string \<times> 'm list) list \<times> int \<times> 'm option) list"
  processed :: "(nat \<times> string \<times> 'm list) list"
  completed :: "('m option \<times> int) list"
  panicked :: bool
  puts :: "'m list"

record 'm callbacks =
  Key :: "'m \<Rightarrow> string"
  Sharding :: "string \<Rightarrow> int"

definition New :: "(Config \<Rightarrow> Config) list \<Rightarrow> Config \<times> 'm batcher" where
  "New opts = (let config = foldl (\<lambda>c opt. opt c) defaultConfig opts in
     (config, \<lparr>dataChan = [], cancelled = False, closeCalls = 0, phase = Waiting, vals = [], count = 0, lastAny = None,
        chArrays = replicate (worker config) [], counter = 0, hooks = [], processed = [], completed = [],
        panicked = False, puts = []\<rparr>))"

section \<open>Steps\<close>

datatype 'm action =
    Put 'm
  | Cancel
  | SendNil
  | Receive
  | Tick
  | Send nat
  | Complete
  | Work nat

definition startBatch :: "bool \<Rightarrow> 'm batcher \<Rightarrow> 'm batcher" where
  "startBatch stop b = b\<lparr>hooks := hooks b @ [(vals b, count b, lastAny b)],
     phase := Distributing (vals b) (lastAny b) (count b) stop, vals := [], count := 0\<rparr>"

text \<open>
  A record is put when there is room; after \<^verbatim>\<open>Close\<close> has cancelled the context, \<^verbatim>\<open>select\<close> may still take this branch. When the
  scheduler has returned the channel is closed, and the send panics.
\<close>

definition putStep :: "'m \<Rightarrow> 'm batcher \<Rightarrow> 'm batcher option" where
  "putStep d b = (case phase b of
     Returned \<Rightarrow> Some (b\<lparr>panicked := True\<rparr>)
   | _ \<Rightarrow> if length (dataChan b) < DefaultDataChanSize
           then Some (b\<lparr>dataChan := dataChan b @ [Some d], puts := puts b @ [d]\<rparr>) else None)"

definition receiveStep :: "Config \<Rightarrow> 'm callbacks \<Rightarrow> 'm batcher \<Rightarrow> 'm batcher option" where
  "receiveStep cfg cb b = (case (phase b, dataChan b) of
     (Waiting, Some d # rest) \<Rightarrow>
       let key = Key cb d;
           b1 = b\<lparr>dataChan := rest, vals := AList.update key (mapGet [] (vals b) key @ [d]) (vals b),
                   lastAny := Some d, count := count b + 1\<rparr> in
       Some (if count b1 \<ge> size cfg then startBatch False b1 else b1)
   | (Waiting, None # rest) \<Rightarrow>
       let b1 = b\<lparr>dataChan := rest\<rparr> in
       Some (if count b > 0 then startBatch True b1 else b1\<lparr>phase := Returned\<rparr>)
   | _ \<Rightarrow> None)"

definition tickStep :: "'m batcher \<Rightarrow> 'm batcher option" where
  "tickStep b = (case phase b of Waiting \<Rightarrow> Some (if count b > 0 then startBatch False b else b) | _ \<Rightarrow> None)"

text \<open>The next entry of the map, in any order, goes to the channel of its key; a full channel blocks.\<close>

definition sendStep :: "Config \<Rightarrow> 'm callbacks \<Rightarrow> nat \<Rightarrow> 'm batcher \<Rightarrow> 'm batcher option" where
  "sendStep cfg cb i b = (case phase b of
     Distributing rem l n stop \<Rightarrow>
       if i < length rem then
         let (key, data) = rem ! i; channelID = Sharding cb key in
         if channelID < 0 \<or> int (length (chArrays b)) \<le> channelID then Some (b\<lparr>panicked := True\<rparr>)
         else
           let c = nat channelID in
           if length (chArrays b ! c) < buffer cfg then
             Some (b\<lparr>counter := (if syncWait cfg then Suc (counter b) else counter b),
                     chArrays := (chArrays b)[c := chArrays b ! c @ [(key, data)]],
                     phase := Distributing (take i rem @ drop (Suc i) rem) l n stop\<rparr>)
           else None
       else None
   | _ \<Rightarrow> None)"

definition completeStep :: "Config \<Rightarrow> 'm batcher \<Rightarrow> 'm batcher option" where
  "completeStep cfg b = (case phase b of
     Distributing [] l n stop \<Rightarrow>
       if syncWait cfg \<and> counter b \<noteq> 0 then None
       else Some (b\<lparr>completed := completed b @ [(l, n)], phase := (if stop then Returned else Waiting)\<rparr>)
   | _ \<Rightarrow> None)"

definition workStep :: "Config \<Rightarrow> nat \<Rightarrow> 'm batcher \<Rightarrow> 'm batcher option" where
  "workStep cfg i b =
     (if i < length (chArrays b) then
        (case chArrays b ! i of
           [] \<Rightarrow> None
         | (key, data) # rest \<Rightarrow> Some (b\<lparr>chArrays := (chArrays b)[i := rest],
             processed := processed b @ [(i, key, data)],
             counter := (if syncWait cfg then counter b - 1 else counter b)\<rparr>))
      else None)"

definition act :: "Config \<Rightarrow> 'm callbacks \<Rightarrow> 'm action \<Rightarrow> 'm batcher \<Rightarrow> 'm batcher option" where
  "act cfg cb a b = (if panicked b then None else (case a of
     Put d \<Rightarrow> putStep d b
   | Cancel \<Rightarrow> Some (b\<lparr>cancelled := True, closeCalls := Suc (closeCalls b)\<rparr>)
   | SendNil \<Rightarrow> if closeCalls b = 0 then None
       else (case phase b of
           Returned \<Rightarrow> Some (b\<lparr>panicked := True\<rparr>)
         | _ \<Rightarrow> if length (dataChan b) < DefaultDataChanSize
                 then Some (b\<lparr>dataChan := dataChan b @ [None], closeCalls := closeCalls b - 1\<rparr>) else None)
   | Receive \<Rightarrow> receiveStep cfg cb b
   | Tick \<Rightarrow> tickStep b
   | Send i \<Rightarrow> sendStep cfg cb i b
   | Complete \<Rightarrow> completeStep cfg b
   | Work i \<Rightarrow> workStep cfg i b))"

primrec run :: "Config \<Rightarrow> 'm callbacks \<Rightarrow> 'm action list \<Rightarrow> 'm batcher \<Rightarrow> 'm batcher option" where
  "run cfg cb [] b = Some b"
| "run cfg cb (a # as) b = (case act cfg cb a b of None \<Rightarrow> None | Some b' \<Rightarrow> run cfg cb as b')"

inductive reach :: "(Config \<Rightarrow> Config) list \<Rightarrow> 'm callbacks \<Rightarrow> 'm batcher \<Rightarrow> bool" for opts cb where
  Start: "reach opts cb (snd (New opts))"
| Step: "reach opts cb b \<Longrightarrow> act (fst (New opts :: Config \<times> 'm batcher)) cb a b = Some b' \<Longrightarrow> reach opts cb b'"

end
