(* ===== verification/Batcher_Props.thy ===== *)
theory Batcher_Props
  imports Batcher "HOL-Library.Sublist"
begin

text \<open>
  What the batcher guarantees, for every interleaving of its goroutines: the records of a key are processed in the order they were
  put, with none left out; with \<^verbatim>\<open>syncWait\<close> a batch is only reported complete when everything received up to its last record
  has been processed; the scheduler is never stuck; and the two flaws of the shutdown and of the configuration.
\<close>

section \<open>Records of a key\<close>

definition ofKey :: "string \<Rightarrow> (string \<times> 'm list) list \<Rightarrow> 'm list" where
  "ofKey k es = concat (map (\<lambda>(k', ds). if k' = k then ds else []) es)"

definition pending :: "'m batcher \<Rightarrow> 'm list" where
  "pending b = concat (map (\<lambda>x. case x of Some d \<Rightarrow> [d] | None \<Rightarrow> []) (dataChan b))"

definition rest :: "'m batcher \<Rightarrow> (string \<times> 'm list) list" where
  "rest b = (case phase b of Distributing rem l n stop \<Rightarrow> rem | _ \<Rightarrow> [])"

definition queued :: "'m callbacks \<Rightarrow> string \<Rightarrow> 'm batcher \<Rightarrow> 'm list" where
  "queued cb k b = (if 0 \<le> Sharding cb k \<and> Sharding cb k < int (length (chArrays b))
     then ofKey k (chArrays b ! nat (Sharding cb k)) else [])"

definition doneOf :: "string \<Rightarrow> 'm batcher \<Rightarrow> 'm list" where
  "doneOf k b = ofKey k (map snd (processed b))"

definition putOf :: "'m callbacks \<Rightarrow> string \<Rightarrow> 'm list \<Rightarrow> 'm list" where
  "putOf cb k ds = filter (\<lambda>d. Key cb d = k) ds"

lemma ofKey_simps [simp]:
  "ofKey k [] = []" "ofKey k ((k', ds) # es) = (if k' = k then ds else []) @ ofKey k es"
  "ofKey k (es @ fs) = ofKey k es @ ofKey k fs"
  by (simp_all add: ofKey_def)

lemma ofKey_notin: "k \<notin> fst ` set es \<Longrightarrow> ofKey k es = []"
  by (induction es) auto

lemma ofKey_mapGet: "distinct_keys es \<Longrightarrow> ofKey k es = mapGet [] es k"
  by (induction es) (auto simp: mapGet_def ofKey_notin)

lemma ofKey_remove:
  assumes "distinct_keys rem" and "i < length rem" and "rem ! i = (k, ds)"
  shows "ofKey k' rem = (if k' = k then ds else ofKey k' (take i rem @ drop (Suc i) rem))"
    and "ofKey k (take i rem @ drop (Suc i) rem) = []"
proof -
  have split: "rem = take i rem @ (k, ds) # drop (Suc i) rem"
    using assms(2,3) by (metis id_take_nth_drop)
  have "distinct (map fst (take i rem @ (k, ds) # drop (Suc i) rem))" using assms(1) split by metis
  then have out: "k \<notin> fst ` set (take i rem)" "k \<notin> fst ` set (drop (Suc i) rem)" by auto
  then show "ofKey k (take i rem @ drop (Suc i) rem) = []" by (simp add: ofKey_notin)
  show "ofKey k' rem = (if k' = k then ds else ofKey k' (take i rem @ drop (Suc i) rem))"
    by (subst split) (use out in \<open>simp add: ofKey_notin\<close>)
qed

section \<open>The invariant\<close>

text \<open>
  The records of a key that were put are, in this order, those processed, those in the channel of the key, those of the batch
  being handed out, those collected, and those not received yet.
\<close>

definition routed :: "'m callbacks \<Rightarrow> (string \<times> 'm list) list list \<Rightarrow> bool" where
  "routed cb chs \<longleftrightarrow> (\<forall>c<length chs. \<forall>e\<in>set (chs ! c). Sharding cb (fst e) = int c)"

lemma routed_update: "routed cb chs \<Longrightarrow> \<forall>e\<in>set es. Sharding cb (fst e) = int i \<Longrightarrow> routed cb (chs[i := es])"
  by (cases "i < length chs") (auto simp: routed_def nth_list_update)

definition fifo_inv :: "'m callbacks \<Rightarrow> 'm batcher \<Rightarrow> bool" where
  "fifo_inv cb b \<longleftrightarrow>
     distinct_keys (vals b) \<and> distinct_keys (rest b) \<and>
     routed cb (chArrays b) \<and>
     (\<forall>k. putOf cb k (puts b) = doneOf k b @ queued cb k b @ ofKey k (rest b) @ ofKey k (vals b) @ putOf cb k (pending b)) \<and>
     (\<exists>rc. puts b = rc @ pending b) \<and>
     (phase b \<noteq> Waiting \<longrightarrow> vals b = [] \<and> count b = 0)"

lemma putOf_simps [simp]: "putOf cb k [] = []" "putOf cb k (xs @ ys) = putOf cb k xs @ putOf cb k ys"
  "putOf cb k (d # ds) = (if Key cb d = k then [d] else []) @ putOf cb k ds"
  by (simp_all add: putOf_def)

text \<open>Handing out starts: the collected records become the rest of the batch.\<close>

lemma startBatch_frame [simp]:
  "dataChan (startBatch s b) = dataChan b" "puts (startBatch s b) = puts b" "processed (startBatch s b) = processed b"
  "chArrays (startBatch s b) = chArrays b" "counter (startBatch s b) = counter b" "completed (startBatch s b) = completed b"
  "panicked (startBatch s b) = panicked b" "lastAny (startBatch s b) = lastAny b"
  "vals (startBatch s b) = []" "count (startBatch s b) = 0"
  "phase (startBatch s b) = Distributing (vals b) (lastAny b) (count b) s"
  by (simp_all add: startBatch_def)

lemma fifo_startBatch: "fifo_inv cb b \<Longrightarrow> phase b = Waiting \<Longrightarrow> fifo_inv cb (startBatch s b)"
  by (auto simp: fifo_inv_def rest_def pending_def queued_def doneOf_def)

definition takeIn :: "'m callbacks \<Rightarrow> 'm \<Rightarrow> 'm option list \<Rightarrow> 'm batcher \<Rightarrow> 'm batcher" where
  "takeIn cb d ms b = b\<lparr>dataChan := ms, vals := AList.update (Key cb d) (mapGet [] (vals b) (Key cb d) @ [d]) (vals b),
     lastAny := Some d, count := count b + 1\<rparr>"

lemma ofKey_update:
  "distinct_keys es \<Longrightarrow> ofKey k (AList.update k' (mapGet [] es k' @ [d]) es) = ofKey k es @ (if k' = k then [d] else [])"
  by (simp add: ofKey_mapGet distinct_update)

lemma fifo_takeIn:
  assumes "fifo_inv cb b" and "phase b = Waiting" and "dataChan b = Some d # ms"
  shows "fifo_inv cb (takeIn cb d ms b)"
proof -
  have pend: "pending b = d # pending (takeIn cb d ms b)"
    using assms(3) by (simp add: pending_def takeIn_def)
  have frame: "rest (takeIn cb d ms b) = rest b" "queued cb k (takeIn cb d ms b) = queued cb k b"
    "doneOf k (takeIn cb d ms b) = doneOf k b" "puts (takeIn cb d ms b) = puts b" "chArrays (takeIn cb d ms b) = chArrays b"
    "phase (takeIn cb d ms b) = Waiting" for k
    by (simp_all add: takeIn_def rest_def queued_def doneOf_def assms(2))
  have dist: "distinct_keys (vals b)" and r: "rest b = []" using assms(1,2) by (auto simp: fifo_inv_def rest_def)
  have vals: "ofKey k (vals (takeIn cb d ms b)) = ofKey k (vals b) @ (if Key cb d = k then [d] else [])" for k
    using dist by (simp add: takeIn_def ofKey_update)
  have "distinct_keys (vals (takeIn cb d ms b))" using dist by (simp add: takeIn_def distinct_update)
  moreover have "\<exists>rc. puts b = rc @ pending (takeIn cb d ms b)"
    using assms(1) pend by (auto simp: fifo_inv_def)
  ultimately show ?thesis
    using assms(1) by (auto simp: fifo_inv_def frame vals pend)
qed

lemma receiveStep_cases:
  assumes "receiveStep cfg cb b = Some b'"
  obtains (taken) d ms where "phase b = Waiting" "dataChan b = Some d # ms"
      "b' = (if count b + 1 \<ge> size cfg then startBatch False (takeIn cb d ms b) else takeIn cb d ms b)"
  | (stopped) ms where "phase b = Waiting" "dataChan b = None # ms"
      "b' = (if count b > 0 then startBatch True (b\<lparr>dataChan := ms\<rparr>) else b\<lparr>dataChan := ms, phase := Returned\<rparr>)"
  using assms unfolding receiveStep_def takeIn_def Let_def
  by (auto split: phase.splits list.splits option.splits)

lemma fifo_receive: "receiveStep cfg cb b = Some b' \<Longrightarrow> 0 \<le> count b \<Longrightarrow> (count b = 0 \<longrightarrow> vals b = []) \<Longrightarrow>
  fifo_inv cb b \<Longrightarrow> fifo_inv cb b'"
proof (erule receiveStep_cases)
  fix d ms
  assume "fifo_inv cb b" "phase b = Waiting" "dataChan b = Some d # ms"
    and b': "b' = (if count b + 1 \<ge> size cfg then startBatch False (takeIn cb d ms b) else takeIn cb d ms b)"
  then have "fifo_inv cb (takeIn cb d ms b)" "phase (takeIn cb d ms b) = Waiting"
    by (simp_all add: fifo_takeIn) (simp add: takeIn_def)
  then show "fifo_inv cb b'" by (simp add: b' fifo_startBatch)
next
  fix ms
  assume inv: "fifo_inv cb b" and ph: "phase b = Waiting" and data: "dataChan b = None # ms"
    and b': "b' = (if count b > 0 then startBatch True (b\<lparr>dataChan := ms\<rparr>) else b\<lparr>dataChan := ms, phase := Returned\<rparr>)"
    and cnt: "0 \<le> count b" "count b = 0 \<longrightarrow> vals b = []"
  have "fifo_inv cb (b\<lparr>dataChan := ms\<rparr>)"
    using inv data by (auto simp: fifo_inv_def rest_def pending_def queued_def doneOf_def)
  moreover have "fifo_inv cb (b\<lparr>dataChan := ms, phase := Returned\<rparr>)" if "count b = 0"
    using inv data ph that cnt(2) by (auto simp: fifo_inv_def rest_def pending_def queued_def doneOf_def)
  ultimately show "fifo_inv cb b'" using ph cnt(1) by (auto simp: b' fifo_startBatch)
qed

lemma sendStep_cases:
  assumes "sendStep cfg cb i b = Some b'" and "\<not> panicked b'"
  obtains rem l n stop key data where "phase b = Distributing rem l n stop" "i < length rem" "rem ! i = (key, data)"
    "0 \<le> Sharding cb key" "Sharding cb key < int (length (chArrays b))"
    "length (chArrays b ! nat (Sharding cb key)) < buffer cfg"
    "b' = b\<lparr>counter := (if syncWait cfg then Suc (counter b) else counter b),
        chArrays := (chArrays b)[nat (Sharding cb key) := chArrays b ! nat (Sharding cb key) @ [(key, data)]],
        phase := Distributing (take i rem @ drop (Suc i) rem) l n stop\<rparr>"
  using assms unfolding sendStep_def Let_def
  by (auto split: phase.splits if_splits prod.splits)

lemma send_panics:
  assumes "sendStep cfg cb i b = Some b'" and "panicked b'" and "\<not> panicked b"
  shows "b' = b\<lparr>panicked := True\<rparr>"
  using assms unfolding sendStep_def Let_def by (auto split: phase.splits if_splits prod.splits)

lemma fifo_send:
  assumes "sendStep cfg cb i b = Some b'" and "\<not> panicked b'" and "fifo_inv cb b"
  shows "fifo_inv cb b'"
  using assms(1,2)
proof (cases rule: sendStep_cases)
  case (1 rem l n stop key data)
  let ?c = "nat (Sharding cb key)" and ?rem' = "take i rem @ drop (Suc i) rem"
  have c: "?c < length (chArrays b)" using 1(4,5) by simp
  have dist: "distinct_keys rem" using assms(3) 1(1) by (simp add: fifo_inv_def rest_def)
  note rm = ofKey_remove [OF dist 1(2,3)]
  have "distinct (map fst (take i rem @ rem ! i # drop (Suc i) rem))" using dist 1(2) by (metis id_take_nth_drop)
  then have dist': "distinct_keys ?rem'" by auto
  have Q: "queued cb k b' = queued cb k b @ (if k = key then data else [])" for k
  proof (cases "nat (Sharding cb k) = ?c \<and> 0 \<le> Sharding cb k")
    case True
    then show ?thesis using 1(4,5) c by (auto simp: queued_def 1(7))
  next
    case False
    then have "k \<noteq> key" using 1(4) by auto
    with False show ?thesis by (auto simp: queued_def 1(7))
  qed
  have frame: "doneOf k b' = doneOf k b" "vals b' = vals b" "pending b' = pending b" "puts b' = puts b" "rest b' = ?rem'"
    "rest b = rem" "count b' = count b" "phase b' = Distributing ?rem' l n stop" for k
    by (simp_all add: 1(1,7) doneOf_def pending_def rest_def)
  have "routed cb (chArrays b')"
    using assms(3) c 1(4) by (auto simp: fifo_inv_def 1(7) routed_def nth_list_update)
  moreover have "queued cb k b' @ ofKey k ?rem' = queued cb k b @ ofKey k rem" for k
    using rm by (simp add: Q del: ofKey_simps(3))
  ultimately show ?thesis
    using assms(3) dist' 1(1) by (auto simp: fifo_inv_def frame simp del: ofKey_simps(3))
qed

lemma workStep_E:
  assumes "workStep cfg i b = Some b'"
  obtains key data es where "i < length (chArrays b)" "chArrays b ! i = (key, data) # es"
    "b' = b\<lparr>chArrays := (chArrays b)[i := es], processed := processed b @ [(i, key, data)],
      counter := (if syncWait cfg then counter b - 1 else counter b)\<rparr>"
  using assms by (auto simp: workStep_def split: if_splits list.splits)

lemma fifo_work:
  assumes "workStep cfg i b = Some b'" and "fifo_inv cb b"
  shows "fifo_inv cb b'"
proof -
  from assms(1) obtain key data es where i: "i < length (chArrays b)" and ch: "chArrays b ! i = (key, data) # es"
    and b': "b' = b\<lparr>chArrays := (chArrays b)[i := es], processed := processed b @ [(i, key, data)],
      counter := (if syncWait cfg then counter b - 1 else counter b)\<rparr>"
    by (rule workStep_E)
  have here: "\<forall>e\<in>set (chArrays b ! i). Sharding cb (fst e) = int i" using assms(2) i by (auto simp: fifo_inv_def routed_def)
  then have sh: "Sharding cb key = int i" by (simp add: ch)
  have D: "doneOf k b' = doneOf k b @ (if k = key then data else [])" for k
    by (simp add: doneOf_def b')
  have "doneOf k b' @ queued cb k b' = doneOf k b @ queued cb k b" for k
  proof (cases "Sharding cb k = int i")
    case True
    then have "queued cb k b = (if k = key then data else []) @ queued cb k b'"
      using i ch by (auto simp: queued_def b')
    then show ?thesis by (simp add: D)
  next
    case False
    then have "k \<noteq> key" and neq: "0 \<le> Sharding cb k \<longrightarrow> i \<noteq> nat (Sharding cb k)" using sh by auto
    have "queued cb k b' = queued cb k b" using neq by (simp add: queued_def b')
    then show ?thesis using \<open>k \<noteq> key\<close> by (simp add: D)
  qed
  moreover have "rest b' = rest b" "pending b' = pending b" by (simp_all add: b' rest_def pending_def)
  moreover have "routed cb (chArrays b')"
    using assms(2) here by (simp add: fifo_inv_def b' ch routed_update)
  ultimately show ?thesis
    using assms(2) by (simp add: fifo_inv_def b' flip: append_assoc)
qed


text \<open>The steps that only touch the data channel.\<close>

lemma pending_simps [simp]:
  "pending (b\<lparr>dataChan := dataChan b @ [x], puts := ps\<rparr>) = pending b @ (case x of Some d \<Rightarrow> [d] | None \<Rightarrow> [])"
  "pending (b\<lparr>dataChan := dataChan b @ [x], closeCalls := c\<rparr>) = pending b @ (case x of Some d \<Rightarrow> [d] | None \<Rightarrow> [])"
  by (simp_all add: pending_def split: option.split)

lemma fifo_put: "putStep d b = Some b' \<Longrightarrow> fifo_inv cb b \<Longrightarrow> fifo_inv cb b'"
  unfolding putStep_def
  by (auto simp: fifo_inv_def rest_def queued_def doneOf_def pending_def split: phase.splits if_splits)

lemma fifo_nil: "fifo_inv cb b \<Longrightarrow> fifo_inv cb (b\<lparr>dataChan := dataChan b @ [None], closeCalls := c\<rparr>)"
  by (simp add: fifo_inv_def rest_def queued_def doneOf_def)

text \<open>
  The bookkeeping of the scheduler: what it counts is what it has collected, and with \<^verbatim>\<open>syncWait\<close> the wait group counts the
  entries in the channels.
\<close>

definition batch_inv :: "Config \<Rightarrow> 'm batcher \<Rightarrow> bool" where
  "batch_inv cfg b \<longleftrightarrow> 0 \<le> count b \<and> (count b = 0) = (vals b = []) \<and> length (chArrays b) = worker cfg \<and>
     (syncWait cfg \<longrightarrow> counter b = sum_list (map length (chArrays b)))"

lemma sum_length_update:
  "i < length chs \<Longrightarrow> sum_list (map length (chs[i := es])) + length (chs ! i) = sum_list (map length chs) + length es"
  by (simp add: map_update sum_list_update) (use member_le_sum_list [of "length (chs ! i)" "map length chs"] in simp)

lemma update_not_Nil [simp]: "AList.update k v es \<noteq> []"
  by (cases es) auto

lemma batch_startBatch [simp]: "batch_inv cfg b \<Longrightarrow> batch_inv cfg (startBatch s b)"
  by (simp add: batch_inv_def)

lemma batch_receive: "receiveStep cfg cb b = Some b' \<Longrightarrow> batch_inv cfg b \<Longrightarrow> batch_inv cfg b'"
proof (erule receiveStep_cases)
  fix d ms
  assume "batch_inv cfg b"
    and b': "b' = (if count b + 1 \<ge> size cfg then startBatch False (takeIn cb d ms b) else takeIn cb d ms b)"
  then have "batch_inv cfg (takeIn cb d ms b)" by (simp add: batch_inv_def takeIn_def)
  then show "batch_inv cfg b'" by (simp add: b')
next
  fix ms
  assume "batch_inv cfg b"
    and b': "b' = (if count b > 0 then startBatch True (b\<lparr>dataChan := ms\<rparr>) else b\<lparr>dataChan := ms, phase := Returned\<rparr>)"
  then show "batch_inv cfg b'" by (simp add: batch_inv_def)
qed

lemma batch_send: "sendStep cfg cb i b = Some b' \<Longrightarrow> \<not> panicked b' \<Longrightarrow> batch_inv cfg b \<Longrightarrow> batch_inv cfg b'"
proof (erule sendStep_cases, assumption)
  fix rem l n stop key data
  assume "batch_inv cfg b" and sh: "0 \<le> Sharding cb key" "Sharding cb key < int (length (chArrays b))"
    and b': "b' = b\<lparr>counter := (if syncWait cfg then Suc (counter b) else counter b),
        chArrays := (chArrays b)[nat (Sharding cb key) := chArrays b ! nat (Sharding cb key) @ [(key, data)]],
        phase := Distributing (take i rem @ drop (Suc i) rem) l n stop\<rparr>"
  with sum_length_update [of "nat (Sharding cb key)" "chArrays b" "chArrays b ! nat (Sharding cb key) @ [(key, data)]"]
  show "batch_inv cfg b'" by (simp add: batch_inv_def)
qed

lemma batch_work: "workStep cfg i b = Some b' \<Longrightarrow> batch_inv cfg b \<Longrightarrow> batch_inv cfg b'"
proof (erule workStep_E)
  fix key data es
  assume "batch_inv cfg b" and i: "i < length (chArrays b)" and ch: "chArrays b ! i = (key, data) # es"
    and b': "b' = b\<lparr>chArrays := (chArrays b)[i := es], processed := processed b @ [(i, key, data)],
      counter := (if syncWait cfg then counter b - 1 else counter b)\<rparr>"
  have "sum_list (map length ((chArrays b)[i := es])) = sum_list (map length (chArrays b)) - 1"
    using sum_length_update [OF i, of es] by (simp add: ch)
  with \<open>batch_inv cfg b\<close> show "batch_inv cfg b'" by (simp add: batch_inv_def b')
qed

section \<open>Completion reports\<close>

text \<open>The reports of a run, each as the number of records it covers and the record it names.\<close>

primrec ackPoints :: "int \<Rightarrow> ('m option \<times> int) list \<Rightarrow> (int \<times> 'm option) list" where
  "ackPoints s [] = []"
| "ackPoints s (c # cs) = (s + snd c, fst c) # ackPoints (s + snd c) cs"

definition acked :: "'m callbacks \<Rightarrow> 'm batcher \<Rightarrow> int \<Rightarrow> 'm option \<Rightarrow> bool" where
  "acked cb b N l \<longleftrightarrow> 0 < N \<and> nat N \<le> length (puts b) \<and> l = Some (puts b ! (nat N - 1)) \<and>
     (\<forall>k. prefix (putOf cb k (take (nat N) (puts b))) (doneOf k b))"

definition received :: "'m batcher \<Rightarrow> 'm list" where
  "received b = take (length (puts b) - length (pending b)) (puts b)"

definition inHand :: "'m batcher \<Rightarrow> int" where
  "inHand b = (case phase b of Distributing rem l n stop \<Rightarrow> n | _ \<Rightarrow> 0)"

definition ack_inv :: "'m callbacks \<Rightarrow> 'm batcher \<Rightarrow> bool" where
  "ack_inv cb b \<longleftrightarrow>
     int (length (received b)) = sum_list (map snd (completed b)) + inHand b + count b \<and>
     0 \<le> sum_list (map snd (completed b)) \<and>
     lastAny b = (if received b = [] then None else Some (last (received b))) \<and>
     (\<forall>rem l n stop. phase b = Distributing rem l n stop \<longrightarrow> l = lastAny b \<and> 0 < n) \<and>
     (\<forall>(N, l)\<in>set (ackPoints 0 (completed b)). acked cb b N l)"

lemma ackPoints_append [simp]:
  "ackPoints s (cs @ [c]) = ackPoints s cs @ [(s + sum_list (map snd cs) + snd c, fst c)]"
  by (induction cs arbitrary: s) (auto simp: add.assoc)

lemma acked_grows:
  assumes "acked cb b N l" and "puts b' = puts b @ ps" and "processed b' = processed b @ qs"
  shows "acked cb b' N l"
proof -
  have "prefix (putOf cb k (take (nat N) (puts b))) (doneOf k b')" for k
    using assms(1,3) by (auto simp: acked_def doneOf_def intro: prefix_prefix)
  then show ?thesis using assms(1,2) by (auto simp: acked_def nth_append)
qed

lemma acks_grow:
  assumes "\<forall>(N, l)\<in>set as. acked cb b N l" and "puts b' = puts b @ ps" and "processed b' = processed b @ qs"
  shows "\<forall>(N, l)\<in>set as. acked cb b' N l"
  using assms acked_grows [OF _ assms(2,3)] by auto

lemma received_puts: "fifo_inv cb b \<Longrightarrow> puts b = received b @ pending b"
  by (auto simp: fifo_inv_def received_def)

text \<open>A step that does not report anything keeps the reports, when what has been received, counted and handed out still adds up.\<close>

lemma ack_quiet:
  assumes "ack_inv cb b" and "puts b' = puts b @ ps" and "processed b' = processed b @ qs" and "completed b' = completed b"
    and "int (length (received b')) = sum_list (map snd (completed b)) + inHand b' + count b'"
    and "lastAny b' = (if received b' = [] then None else Some (last (received b')))"
    and "\<And>rem l n stop. phase b' = Distributing rem l n stop \<Longrightarrow> l = lastAny b' \<and> 0 < n"
  shows "ack_inv cb b'"
proof -
  have "\<forall>(N, l)\<in>set (ackPoints 0 (completed b)). acked cb b N l" using assms(1) unfolding ack_inv_def by blast
  from acks_grow [OF this assms(2,3)] have "\<forall>(N, l)\<in>set (ackPoints 0 (completed b)). acked cb b' N l" .
  moreover have "0 \<le> sum_list (map snd (completed b))" using assms(1) by (simp add: ack_inv_def)
  ultimately show ?thesis using assms(4-7) by (simp add: ack_inv_def)
qed

lemma ack_startBatch:
  assumes "ack_inv cb b" and "phase b = Waiting" and "0 < count b"
  shows "ack_inv cb (startBatch s b)"
proof (rule ack_quiet [OF assms(1), of _ "[]" "[]"])
  have "received (startBatch s b) = received b" by (simp add: received_def pending_def)
  then show "int (length (received (startBatch s b)))
      = sum_list (map snd (completed b)) + inHand (startBatch s b) + count (startBatch s b)"
    "lastAny (startBatch s b) = (if received (startBatch s b) = [] then None else Some (last (received (startBatch s b))))"
    using assms(1,2) by (simp_all add: ack_inv_def inHand_def)
qed (use assms(3) in simp_all)

lemma ack_takeIn:
  assumes "ack_inv cb b" and "fifo_inv cb b" and "phase b = Waiting" and "dataChan b = Some d # ms"
  shows "ack_inv cb (takeIn cb d ms b)"
proof (rule ack_quiet [OF assms(1), of _ "[]" "[]"])
  have "puts (takeIn cb d ms b) = (received b @ [d]) @ pending (takeIn cb d ms b)"
    using received_puts [OF assms(2)] assms(4) by (simp add: takeIn_def pending_def)
  then have rc: "received (takeIn cb d ms b) = received b @ [d]" by (simp add: received_def)
  show "int (length (received (takeIn cb d ms b)))
      = sum_list (map snd (completed b)) + inHand (takeIn cb d ms b) + count (takeIn cb d ms b)"
    unfolding rc using assms(1) by (simp add: ack_inv_def inHand_def takeIn_def)
  show "lastAny (takeIn cb d ms b) = (if received (takeIn cb d ms b) = [] then None else Some (last (received (takeIn cb d ms b))))"
    unfolding rc by (simp add: takeIn_def)
qed (use assms(3) in \<open>simp_all add: takeIn_def\<close>)

text \<open>A step of a producer leaves what has been received; so does taking the closing record.\<close>

lemma ack_same_received:
  assumes "ack_inv cb b" and "fifo_inv cb b" and "puts b' = puts b @ ps" and "pending b' = pending b @ ps"
    and "processed b' = processed b" and "completed b' = completed b" and "count b' = count b" and "lastAny b' = lastAny b"
    and "phase b' = phase b \<or> phase b = Waiting \<and> phase b' = Returned"
  shows "ack_inv cb b'"
proof (rule ack_quiet [OF assms(1,3), of "[]"])
  have "puts b' = received b @ pending b'" using received_puts [OF assms(2)] assms(3,4) by simp
  then have rc: "received b' = received b" by (simp add: received_def)
  have ih: "inHand b' = inHand b" using assms(9) by (auto simp: inHand_def)
  show "int (length (received b')) = sum_list (map snd (completed b)) + inHand b' + count b'"
    "lastAny b' = (if received b' = [] then None else Some (last (received b')))"
    unfolding rc ih using assms(1,7,8) by (simp_all add: ack_inv_def)
  show "l = lastAny b' \<and> 0 < n" if "phase b' = Distributing rem l n stop" for rem l n stop
  proof -
    have "phase b = Distributing rem l n stop" using assms(9) that by auto
    then show ?thesis using assms(1) unfolding ack_inv_def assms(8) by blast
  qed
qed (use assms(5,6) in simp_all)

lemma ack_receive:
  assumes "receiveStep cfg cb b = Some b'" and "ack_inv cb b" and "fifo_inv cb b" and "batch_inv cfg b"
  shows "ack_inv cb b'"
  using assms(1)
proof (cases rule: receiveStep_cases)
  case (taken d ms)
  note ti = ack_takeIn [OF assms(2,3) taken(1,2)]
  show ?thesis
  proof (cases "count b + 1 \<ge> size cfg")
    case True
    then show ?thesis using ack_startBatch [OF ti] taken(1,3) assms(4) by (simp add: takeIn_def batch_inv_def)
  qed (use ti taken(3) in simp)
next
  case (stopped ms)
  have "ack_inv cb (b\<lparr>dataChan := ms\<rparr>)"
    by (rule ack_same_received [OF assms(2,3), of _ "[]"]) (use stopped(2) in \<open>simp_all add: pending_def\<close>)
  moreover have "ack_inv cb (b\<lparr>dataChan := ms, phase := Returned\<rparr>)"
    by (rule ack_same_received [OF assms(2,3), of _ "[]"]) (use stopped(1,2) in \<open>simp_all add: pending_def\<close>)
  ultimately show ?thesis using stopped(1,3) by (simp add: ack_startBatch)
qed

lemma ack_send:
  assumes "sendStep cfg cb i b = Some b'" and "\<not> panicked b'" and "ack_inv cb b"
  shows "ack_inv cb b'"
  using assms(1,2)
proof (cases rule: sendStep_cases)
  case (1 rem l n stop key data)
  have "received b' = received b" "inHand b' = inHand b" by (simp_all add: 1(1,7) received_def pending_def inHand_def)
  then show ?thesis
    using assms(3) 1(1) by (intro ack_quiet [OF assms(3), of _ "[]" "[]"]) (auto simp: ack_inv_def 1(7))
qed

lemma ack_work:
  assumes "workStep cfg i b = Some b'" and "ack_inv cb b"
  shows "ack_inv cb b'"
proof -
  from assms(1) obtain key data es where b': "b' = b\<lparr>chArrays := (chArrays b)[i := es], processed := processed b @ [(i, key, data)],
      counter := (if syncWait cfg then counter b - 1 else counter b)\<rparr>" by (rule workStep_E)
  have "received b' = received b" "inHand b' = inHand b" by (simp_all add: b' received_def pending_def inHand_def)
  then show ?thesis
    using assms(2) by (intro ack_quiet [OF assms(2), of _ "[]" "[(i, key, data)]"]) (auto simp: ack_inv_def b')
qed

text \<open>
  With \<^verbatim>\<open>syncWait\<close> the report waits until the channels are empty: all that has been received has been processed.
\<close>

lemma ack_complete:
  assumes "completeStep cfg b = Some b'" and "syncWait cfg" and "ack_inv cb b" and "fifo_inv cb b" and "batch_inv cfg b"
  shows "ack_inv cb b'"
proof -
  from assms(1,2) obtain l n stop where ph: "phase b = Distributing [] l n stop" and c0: "counter b = 0"
    and b': "b' = b\<lparr>completed := completed b @ [(l, n)], phase := (if stop then Returned else Waiting)\<rparr>"
    by (auto simp: completeStep_def split: phase.splits list.splits if_splits)
  have rest0: "rest b = []" and vals0: "vals b = []" and cnt0: "count b = 0"
    using assms(4) ph by (simp_all add: fifo_inv_def rest_def)
  have "\<forall>c<length (chArrays b). chArrays b ! c = []"
    using assms(2,5) c0 by (auto simp: batch_inv_def)
  then have q0: "queued cb k b = []" for k by (auto simp: queued_def)
  have "putOf cb k (puts b) = doneOf k b @ putOf cb k (pending b)" for k
    using assms(4) by (simp add: fifo_inv_def q0 rest0 vals0)
  then have all: "putOf cb k (received b) = doneOf k b" for k
    using received_puts [OF assms(4)] by (metis append_same_eq putOf_simps(2))
  have inv: "int (length (received b)) = sum_list (map snd (completed b)) + n" "l = lastAny b" "0 < n"
    "lastAny b = (if received b = [] then None else Some (last (received b)))"
    "\<forall>(N, l)\<in>set (ackPoints 0 (completed b)). acked cb b N l"
    using assms(3) ph cnt0 by (auto simp: ack_inv_def inHand_def split: if_splits)
  let ?N = "sum_list (map snd (completed b)) + n"
  have N: "0 < ?N" "nat ?N = length (received b)" "received b \<noteq> []" using assms(3) inv(1,3) by (auto simp: ack_inv_def)
  have rc: "received b' = received b" by (simp add: b' received_def pending_def)
  have same: "puts b' = puts b" "processed b' = processed b" "doneOf k b' = doneOf k b" for k
    by (simp_all add: b' doneOf_def)
  have "acked cb b' ?N l"
    unfolding acked_def same N(2) received_puts [OF assms(4)]
    using N(1,3) inv(2,4) all by (simp add: last_conv_nth nth_append)
  moreover have "\<forall>(N, l)\<in>set (ackPoints 0 (completed b)). acked cb b' N l"
    using acks_grow [OF inv(5), of b' "[]" "[]"] same by simp
  moreover have "inHand b' = 0" "count b' = 0" "lastAny b' = lastAny b" "completed b' = completed b @ [(l, n)]"
    "phase b' \<noteq> Distributing r l' n' s" for r l' n' s
    using cnt0 by (auto simp: b' inHand_def)
  ultimately show ?thesis using inv N(1) by (simp add: ack_inv_def rc)
qed

lemma fifo_complete: "completeStep cfg b = Some b' \<Longrightarrow> fifo_inv cb b \<Longrightarrow> fifo_inv cb b'"
  unfolding completeStep_def
  by (auto simp: fifo_inv_def rest_def queued_def doneOf_def pending_def split: phase.splits list.splits if_splits)

lemma batch_complete: "completeStep cfg b = Some b' \<Longrightarrow> batch_inv cfg b \<Longrightarrow> batch_inv cfg b'"
  unfolding completeStep_def by (auto simp: batch_inv_def split: phase.splits list.splits if_splits)

section \<open>Reachable states\<close>

definition batcher_inv :: "Config \<Rightarrow> 'm callbacks \<Rightarrow> 'm batcher \<Rightarrow> bool" where
  "batcher_inv cfg cb b \<longleftrightarrow> fifo_inv cb b \<and> batch_inv cfg b \<and> (syncWait cfg \<longrightarrow> ack_inv cb b)"

lemma inv_New: "batcher_inv (fst (New opts :: Config \<times> 'm batcher)) cb (snd (New opts))"
  by (auto simp: batcher_inv_def fifo_inv_def batch_inv_def ack_inv_def New_def Let_def rest_def queued_def doneOf_def
      pending_def routed_def received_def inHand_def)

text \<open>A panic ends the process; it leaves the state as it was.\<close>

lemma inv_panicked [simp]: "batcher_inv cfg cb (b\<lparr>panicked := p\<rparr>) = batcher_inv cfg cb b"
proof -
  have "rest (b\<lparr>panicked := p\<rparr>) = rest b" "queued cb k (b\<lparr>panicked := p\<rparr>) = queued cb k b"
    "doneOf k (b\<lparr>panicked := p\<rparr>) = doneOf k b" "pending (b\<lparr>panicked := p\<rparr>) = pending b" for k
    by (simp_all add: rest_def queued_def doneOf_def pending_def)
  note frame = this
  have "received (b\<lparr>panicked := p\<rparr>) = received b" "inHand (b\<lparr>panicked := p\<rparr>) = inHand b"
    by (simp_all add: received_def frame inHand_def)
  then show ?thesis
    by (simp add: batcher_inv_def fifo_inv_def batch_inv_def ack_inv_def acked_def frame)
qed

lemma put_cases:
  assumes "putStep d b = Some b'"
  obtains "b' = b\<lparr>panicked := True\<rparr>" | "b' = b\<lparr>dataChan := dataChan b @ [Some d], puts := puts b @ [d]\<rparr>"
  using assms by (auto simp: putStep_def split: phase.splits if_splits)

lemma inv_put:
  assumes put: "putStep d b = Some b'" and inv: "batcher_inv cfg cb b"
  shows "batcher_inv cfg cb b'"
  using put
proof (cases rule: put_cases)
  case 2
  from inv have f: "fifo_inv cb b" by (simp add: batcher_inv_def)
  have "ack_inv cb b'" if "syncWait cfg"
    by (rule ack_same_received [OF _ f, of _ "[d]"]) (use inv that in \<open>simp_all add: batcher_inv_def 2\<close>)
  then show ?thesis
    using inv fifo_put [OF put f] by (simp add: batcher_inv_def) (simp add: batch_inv_def 2)
qed (use inv in simp)

lemma inv_quiet:
  assumes "batcher_inv cfg cb b" and "b' = b\<lparr>dataChan := dataChan b @ [None], closeCalls := c\<rparr> \<or> b' = b\<lparr>cancelled := True, closeCalls := c\<rparr>"
  shows "batcher_inv cfg cb b'"
proof -
  have f: "fifo_inv cb b" using assms(1) by (simp add: batcher_inv_def)
  have pend: "pending b' = pending b" using assms(2) by (auto simp: pending_def)
  have "batch_inv cfg b'" using assms by (auto simp: batcher_inv_def batch_inv_def)
  moreover have "rest b' = rest b" "queued cb k b' = queued cb k b" "doneOf k b' = doneOf k b" for k
    using assms(2) by (auto simp: rest_def queued_def doneOf_def)
  then have "fifo_inv cb b'" using f pend assms(2) by (auto simp: fifo_inv_def)
  moreover have "ack_inv cb b'" if "syncWait cfg"
    by (rule ack_same_received [OF _ f, of _ "[]"]) (use assms that pend in \<open>auto simp: batcher_inv_def\<close>)
  ultimately show ?thesis by (simp add: batcher_inv_def)
qed

lemma inv_send:
  assumes "sendStep cfg cb i b = Some b'" and "\<not> panicked b" and "batcher_inv cfg cb b"
  shows "batcher_inv cfg cb b'"
proof (cases "panicked b'")
  case True
  with send_panics [OF assms(1)] assms(2,3) show ?thesis by simp
next
  case False
  with fifo_send [OF assms(1)] batch_send [OF assms(1)] ack_send [OF assms(1)] assms(3)
  show ?thesis by (simp add: batcher_inv_def)
qed

lemma inv_act: "act cfg cb a b = Some b' \<Longrightarrow> batcher_inv cfg cb b \<Longrightarrow> batcher_inv cfg cb b'"
proof (cases a)
  case (Put d)
  then show "act cfg cb a b = Some b' \<Longrightarrow> batcher_inv cfg cb b \<Longrightarrow> batcher_inv cfg cb b'"
    by (auto simp: act_def split: if_splits intro: inv_put)
next
  case Cancel
  then show "act cfg cb a b = Some b' \<Longrightarrow> batcher_inv cfg cb b \<Longrightarrow> batcher_inv cfg cb b'"
    by (auto simp: act_def split: if_splits intro: inv_quiet)
next
  case SendNil
  then show "act cfg cb a b = Some b' \<Longrightarrow> batcher_inv cfg cb b \<Longrightarrow> batcher_inv cfg cb b'"
    by (auto simp: act_def split: if_splits phase.splits intro: inv_quiet)
next
  case Receive
  then show "act cfg cb a b = Some b' \<Longrightarrow> batcher_inv cfg cb b \<Longrightarrow> batcher_inv cfg cb b'"
    using fifo_receive [of cfg cb b b'] batch_receive [of cfg cb b b'] ack_receive [of cfg cb b b']
    by (auto simp: act_def batcher_inv_def batch_inv_def split: if_splits)
next
  case Tick
  then show "act cfg cb a b = Some b' \<Longrightarrow> batcher_inv cfg cb b \<Longrightarrow> batcher_inv cfg cb b'"
    by (auto simp: act_def tickStep_def batcher_inv_def fifo_startBatch ack_startBatch split: if_splits phase.splits)
next
  case (Send i)
  then show "act cfg cb a b = Some b' \<Longrightarrow> batcher_inv cfg cb b \<Longrightarrow> batcher_inv cfg cb b'"
    by (auto simp: act_def split: if_splits intro: inv_send)
next
  case Complete
  then show "act cfg cb a b = Some b' \<Longrightarrow> batcher_inv cfg cb b \<Longrightarrow> batcher_inv cfg cb b'"
    by (auto simp: act_def batcher_inv_def split: if_splits intro: fifo_complete batch_complete ack_complete)
next
  case (Work i)
  then show "act cfg cb a b = Some b' \<Longrightarrow> batcher_inv cfg cb b \<Longrightarrow> batcher_inv cfg cb b'"
    by (auto simp: act_def batcher_inv_def split: if_splits intro: fifo_work batch_work ack_work)
qed

lemma inv_reach: "reach opts cb b \<Longrightarrow> batcher_inv (fst (New opts :: Config \<times> 'm batcher)) cb (b :: 'm batcher)"
  by (induction rule: reach.induct) (auto intro: inv_New inv_act)

section \<open>Progress\<close>

text \<open>The steps of the batcher's own goroutines, and the work they have left.\<close>

fun internal :: "'m action \<Rightarrow> bool" where
  "internal (Put d) = False" | "internal Cancel = False" | "internal SendNil = False"
| "internal Receive = True" | "internal Tick = True" | "internal (Send i) = True"
| "internal Complete = True" | "internal (Work i) = True"

definition batcherWork :: "'m batcher \<Rightarrow> nat" where
  "batcherWork b = (if panicked b then 0 else Suc (6 * length (dataChan b) + 4 * length (vals b) + 2 * length (rest b)
     + sum_list (map length (chArrays b)) + (case phase b of Distributing rem l n stop \<Rightarrow> 1 | _ \<Rightarrow> 0)))"

lemma length_update_le: "length (AList.update k v es) \<le> Suc (length es)"
  by (induction es) auto

lemma work_startBatch:
  "phase b = Waiting \<Longrightarrow> \<not> panicked b \<Longrightarrow> vals b \<noteq> [] \<Longrightarrow> batcherWork (startBatch s b) < batcherWork b"
  by (cases "vals b") (auto simp: batcherWork_def rest_def)

lemma work_takeIn:
  "phase b = Waiting \<Longrightarrow> \<not> panicked b \<Longrightarrow> dataChan b = Some d # ms \<Longrightarrow> batcherWork (takeIn cb d ms b) < batcherWork b"
  using length_update_le [of "Key cb d" "mapGet [] (vals b) (Key cb d) @ [d]" "vals b"]
  by (simp add: batcherWork_def takeIn_def rest_def)

lemma work_receive:
  assumes "receiveStep cfg cb b = Some b'" and "\<not> panicked b" and "batch_inv cfg b"
  shows "batcherWork b' < batcherWork b"
  using assms(1)
proof (cases rule: receiveStep_cases)
  case (taken d ms)
  note ti = work_takeIn [OF taken(1) assms(2) taken(2), of cb]
  have "batcherWork (startBatch False (takeIn cb d ms b)) < batcherWork (takeIn cb d ms b)"
    using taken(1) assms(2) by (intro work_startBatch) (simp_all add: takeIn_def)
  with ti taken(3) show ?thesis by auto
next
  case (stopped ms)
  have "batcherWork (b\<lparr>dataChan := ms\<rparr>) < batcherWork b" "batcherWork (b\<lparr>dataChan := ms, phase := Returned\<rparr>) < batcherWork b"
    using stopped(1,2) assms(2) by (simp_all add: batcherWork_def rest_def)
  moreover have "batcherWork (startBatch True (b\<lparr>dataChan := ms\<rparr>)) < batcherWork (b\<lparr>dataChan := ms\<rparr>)" if "0 < count b"
    using that stopped(1) assms(2,3) by (intro work_startBatch) (auto simp: batch_inv_def)
  ultimately show ?thesis using stopped(3) by auto
qed

lemma work_send:
  assumes "sendStep cfg cb i b = Some b'" and "\<not> panicked b"
  shows "batcherWork b' < batcherWork b"
proof (cases "panicked b'")
  case True
  then show ?thesis using assms(2) by (simp add: batcherWork_def)
next
  case False
  from assms(1) False show ?thesis
  proof (cases rule: sendStep_cases)
    case (1 rem l n stop key data)
    let ?c = "nat (Sharding cb key)"
    have "sum_list (map length (chArrays b')) = Suc (sum_list (map length (chArrays b)))"
      using sum_length_update [of ?c "chArrays b" "chArrays b ! ?c @ [(key, data)]"] 1(4,5,7) by simp
    moreover have "Suc (length (rest b')) = length (rest b)" using 1(1,2,7) by (simp add: rest_def)
    moreover have "dataChan b' = dataChan b" "vals b' = vals b" "panicked b' = panicked b"
      "phase b' = Distributing (take i rem @ drop (Suc i) rem) l n stop" by (simp_all add: 1(7))
    ultimately show ?thesis using 1(1) assms(2) by (simp add: batcherWork_def)
  qed
qed

lemma work_work:
  assumes "workStep cfg i b = Some b'" and "\<not> panicked b"
  shows "batcherWork b' < batcherWork b"
proof -
  from assms(1) obtain key data es where i: "i < length (chArrays b)" and ch: "chArrays b ! i = (key, data) # es"
    and b': "b' = b\<lparr>chArrays := (chArrays b)[i := es], processed := processed b @ [(i, key, data)],
      counter := (if syncWait cfg then counter b - 1 else counter b)\<rparr>" by (rule workStep_E)
  have "sum_list (map length (chArrays b')) < sum_list (map length (chArrays b))"
    using sum_length_update [OF i, of es] by (simp add: ch b')
  moreover have "rest b' = rest b" "dataChan b' = dataChan b" "vals b' = vals b" "panicked b' = panicked b" "phase b' = phase b"
    by (simp_all add: b' rest_def)
  ultimately show ?thesis using assms(2) by (simp add: batcherWork_def)
qed

lemma work_complete:
  assumes "completeStep cfg b = Some b'" and "\<not> panicked b"
  shows "batcherWork b' < batcherWork b"
  using assms unfolding completeStep_def
  by (auto simp: batcherWork_def rest_def split: phase.splits list.splits if_splits)

text \<open>A channel that is not empty lets its worker run.\<close>

lemma work_enabled: "i < length (chArrays b) \<Longrightarrow> chArrays b ! i \<noteq> [] \<Longrightarrow> \<exists>b'. workStep cfg i b = Some b'"
  by (auto simp: workStep_def neq_Nil_conv)

lemma not_stuck:
  assumes "batch_inv cfg b" and "phase b = Distributing rem l n stop" and "0 < buffer cfg"
    and "\<And>k. 0 \<le> Sharding cb k \<and> Sharding cb k < int (worker cfg)" and "\<not> panicked b"
  shows "\<exists>a b'. internal a \<and> act cfg cb a b = Some b'"
proof (cases "\<exists>i<length (chArrays b). chArrays b ! i \<noteq> []")
  case True
  then obtain i where "i < length (chArrays b)" "chArrays b ! i \<noteq> []" by blast
  from work_enabled [OF this, of cfg] obtain b' where "workStep cfg i b = Some b'" by blast
  then show ?thesis using assms(5) by (intro exI [of _ "Work i"]) (auto simp: act_def)
next
  case False
  then have empty: "\<forall>i<length (chArrays b). chArrays b ! i = []" by simp
  show ?thesis
  proof (cases rem)
    case Nil
    have "syncWait cfg \<longrightarrow> counter b = 0"
      using assms(1) empty by (auto simp: batch_inv_def in_set_conv_nth)
    then have "\<exists>b'. completeStep cfg b = Some b'" using assms(2) Nil by (auto simp: completeStep_def)
    then obtain b' where "completeStep cfg b = Some b'" by blast
    then show ?thesis using assms(5) by (intro exI [of _ Complete]) (auto simp: act_def)
  next
    case (Cons e es)
    obtain key data where e: "e = (key, data)" by (cases e)
    have sh: "0 \<le> Sharding cb key" "Sharding cb key < int (length (chArrays b))"
      using assms(1) assms(4) [of key] by (auto simp: batch_inv_def)
    then have "chArrays b ! nat (Sharding cb key) = []" using empty by simp
    then have "\<exists>b'. sendStep cfg cb 0 b = Some b'"
      using assms(2,3) Cons e sh by (auto simp: sendStep_def)
    then obtain b' where "sendStep cfg cb 0 b = Some b'" by blast
    then show ?thesis using assms(5) by (intro exI [of _ "Send 0"]) (auto simp: act_def)
  qed
qed

text \<open>When nothing is left to do, all is received, handed out and processed.\<close>

lemma act_progress:
  assumes "act cfg cb a b = Some b'" and "internal a" and "batch_inv cfg b"
  shows "b' = b \<or> batcherWork b' < batcherWork b"
proof (cases a)
  case Tick
  then show ?thesis
    using assms work_startBatch [of b False] by (auto simp: act_def tickStep_def batch_inv_def split: if_splits phase.splits)
qed (use assms in \<open>auto simp: act_def split: if_splits intro: work_receive work_send work_complete work_work\<close>)

lemma idle:
  assumes inv: "batcher_inv cfg cb b" and np: "\<not> panicked b" and ret: "phase b \<noteq> Returned" and buf: "0 < buffer cfg"
    and sh: "\<And>k. 0 \<le> Sharding cb k \<and> Sharding cb k < int (worker cfg)"
    and idle: "\<And>a b'. internal a \<Longrightarrow> act cfg cb a b = Some b' \<Longrightarrow> b' = b"
  shows "dataChan b = [] \<and> vals b = [] \<and> count b = 0 \<and> phase b = Waiting \<and> (\<forall>i<length (chArrays b). chArrays b ! i = [])"
proof -
  have binv: "batch_inv cfg b" using inv by (simp add: batcher_inv_def)
  have less: False if "internal a" "act cfg cb a b = Some b'" "batcherWork b' < batcherWork b" for a b'
    using idle [OF that(1,2)] that(3) by simp
  have chs: "chArrays b ! i = []" if "i < length (chArrays b)" for i
  proof (rule ccontr)
    assume "chArrays b ! i \<noteq> []"
    from work_enabled [OF that this, of cfg] obtain b' where w: "workStep cfg i b = Some b'" by blast
    then have "act cfg cb (Work i) b = Some b'" using np by (simp add: act_def)
    with less [of "Work i"] work_work [OF w np] show False by simp
  qed
  have waiting: "phase b = Waiting"
  proof (cases "phase b")
    case (Distributing rem l n stop)
    from not_stuck [OF binv this buf sh np] obtain a b' where a: "internal a" "act cfg cb a b = Some b'" by blast
    then have same: "act cfg cb a b = Some b" using idle [OF a] by simp
    have "phase b \<noteq> Waiting" using Distributing by simp
    then have "batcherWork b < batcherWork b"
      using same a(1) np by (cases a)
        (auto simp: act_def receiveStep_def tickStep_def Distributing dest: work_send work_complete work_work)
    then show ?thesis by simp
  qed (use ret in simp_all)
  have data: "dataChan b = []"
  proof (rule ccontr)
    assume "dataChan b \<noteq> []"
    then obtain b' where r: "receiveStep cfg cb b = Some b'"
      using waiting by (cases "dataChan b"; cases "hd (dataChan b)") (auto simp: receiveStep_def Let_def)
    then have "act cfg cb Receive b = Some b'" using np by (simp add: act_def)
    with less [of Receive] work_receive [OF r np binv] show False by simp
  qed
  have cnt: "count b = 0"
  proof (rule ccontr)
    assume "count b \<noteq> 0"
    then have c: "0 < count b" "vals b \<noteq> []" using binv by (auto simp: batch_inv_def)
    then have "act cfg cb Tick b = Some (startBatch False b)" using np waiting by (simp add: act_def tickStep_def)
    with less [of Tick] work_startBatch [OF waiting np c(2)] show False by simp
  qed
  then have "vals b = []" using binv by (simp add: batch_inv_def)
  with chs waiting data cnt show ?thesis by simp
qed

section \<open>The properties\<close>

text \<open>
  C30. Per-key order. In every reachable state, whatever the interleaving of producers, scheduler and workers, the records of a
  key that \<^verbatim>\<open>Do\<close> has been given are the first records of that key that were put, in the order they were put: none is
  skipped, repeated or overtaken.
\<close>

theorem batcher_fifo:
  assumes "reach opts cb b"
  shows "prefix (doneOf k b) (putOf cb k (puts b))"
  using inv_reach [OF assms] by (simp add: batcher_inv_def fifo_inv_def)

definition demoCallbacks :: "nat callbacks" where
  "demoCallbacks = \<lparr>Key = (\<lambda>d. if even d then ''e'' else ''o''), Sharding = (\<lambda>k. if k = ''e'' then 0 else 1)\<rparr>"

definition demoOpts :: "(Config \<Rightarrow> Config) list" where
  "demoOpts = [WithSize 3, WithWorker 2, WithBuffer 1, WithSyncWait True]"

definition demoRun :: "nat action list" where
  "demoRun = [Put 2, Put 3, Receive, Put 4, Receive, Receive, Send 1, Work 1, Send 0, Put 5, Work 0, Complete]"

lemma reach_run:
  "reach opts cb b \<Longrightarrow> run (fst (New opts :: Config \<times> 'm batcher)) cb as b = Some b' \<Longrightarrow> reach opts cb (b' :: 'm batcher)"
proof (induction as arbitrary: b)
  case (Cons a as)
  then show ?case by (auto split: option.splits intro: Step)
qed simp

definition demoState :: "nat batcher" where
  "demoState = the (run (fst (New demoOpts :: Config \<times> nat batcher)) demoCallbacks demoRun (snd (New demoOpts)))"

lemma demoState_eq: "run (fst (New demoOpts :: Config \<times> nat batcher)) demoCallbacks demoRun (snd (New demoOpts)) = Some demoState"
  "doneOf ''e'' demoState = [2, 4]" "puts demoState = [2, 3, 4, 5]" "completed demoState = [(Some 4, 3)]"
  by code_simp+

lemma demo_reach: "reach demoOpts demoCallbacks demoState"
  by (rule reach_run [OF Start demoState_eq(1)])

lemma batcher_fifo_witness: "prefix (doneOf ''e'' demoState) (putOf demoCallbacks ''e'' (puts demoState)) \<and> doneOf ''e'' demoState = [2, 4]"
  using batcher_fifo [OF demo_reach, of "''e''"] by (simp add: demoState_eq)

text \<open>
  C31. A completion report is safe to commit. With \<^verbatim>\<open>syncWait\<close>, a call of \<^verbatim>\<open>OnComplete\<close> that brings the total of reported records to
  \<open>N\<close> names the \<open>N\<close>-th record that was put, and every one of the first \<open>N\<close> records has been given to \<^verbatim>\<open>Do\<close> before.
\<close>

theorem batcher_ack:
  assumes "reach opts cb (b :: 'm batcher)" and "syncWait (fst (New opts :: Config \<times> 'm batcher))"
    and "(N, l) \<in> set (ackPoints 0 (completed b))"
  shows "0 < N \<and> nat N \<le> length (puts b) \<and> l = Some (puts b ! (nat N - 1)) \<and>
    (\<forall>k. prefix (putOf cb k (take (nat N) (puts b))) (doneOf k b))"
  using inv_reach [OF assms(1)] assms(2,3) by (auto simp: batcher_inv_def ack_inv_def acked_def)

lemma batcher_ack_witness:
  "nat 3 \<le> length (puts demoState) \<and> Some 4 = Some (puts demoState ! (nat 3 - 1)) \<and>
   (\<forall>k. prefix (putOf demoCallbacks k (take (nat 3) (puts demoState))) (doneOf k demoState))"
  using batcher_ack [OF demo_reach, of 3 "Some 4"] by (simp add: demoState_eq New_def demoOpts_def WithSyncWait_def)

text \<open>
  C32. No record is left behind. When the batcher's goroutines have no step left that changes anything (and it has not been
  closed), every record that was put has been given to \<^verbatim>\<open>Do\<close>, key by key; with \<^verbatim>\<open>syncWait\<close> the completion reports cover them
  all. So the goroutines cannot get stuck waiting for each other, provided the worker channels have a buffer and \<^verbatim>\<open>Sharding\<close> names
  an existing worker.
\<close>

theorem batcher_drains:
  assumes "reach opts cb (b :: 'm batcher)" and "cfg = fst (New opts :: Config \<times> 'm batcher)"
    and "\<not> panicked b" and "phase b \<noteq> Returned" and "0 < buffer cfg"
    and "\<And>k. 0 \<le> Sharding cb k \<and> Sharding cb k < int (worker cfg)"
    and "\<And>a b'. internal a \<Longrightarrow> act cfg cb a b = Some b' \<Longrightarrow> b' = b"
  shows "(\<forall>k. doneOf k b = putOf cb k (puts b)) \<and> (syncWait cfg \<longrightarrow> sum_list (map snd (completed b)) = int (length (puts b)))"
proof -
  have inv: "batcher_inv cfg cb b" using inv_reach [OF assms(1)] assms(2) by simp
  have q: "dataChan b = [] \<and> vals b = [] \<and> count b = 0 \<and> phase b = Waiting \<and> (\<forall>i<length (chArrays b). chArrays b ! i = [])"
    by (rule idle [OF inv assms(3-6)]) (rule assms(7))
  have p: "pending b = []" "rest b = []" "queued cb k b = []" for k
    using q by (auto simp: pending_def rest_def queued_def)
  have "received b = puts b" by (simp add: received_def p)
  with inv q p show ?thesis by (auto simp: batcher_inv_def fifo_inv_def ack_inv_def inHand_def)
qed

definition drainedState :: "nat batcher" where
  "drainedState = the (run (fst (New demoOpts :: Config \<times> nat batcher)) demoCallbacks
     (demoRun @ [Receive, Tick, Send 0, Work 1, Complete]) (snd (New demoOpts)))"

lemma drainedState_eq:
  "run (fst (New demoOpts :: Config \<times> nat batcher)) demoCallbacks
     (demoRun @ [Receive, Tick, Send 0, Work 1, Complete]) (snd (New demoOpts)) = Some drainedState"
  "panicked drainedState = False" "phase drainedState = Waiting" "dataChan drainedState = []" "count drainedState = 0"
  "chArrays drainedState = [[], []]" "puts drainedState = [2, 3, 4, 5]"
  by code_simp+

lemma drained_idle: "internal a \<Longrightarrow> act cfg cb a drainedState = Some b' \<Longrightarrow> b' = drainedState"
proof (cases a)
  case (Work i)
  then show "act cfg cb a drainedState = Some b' \<Longrightarrow> b' = drainedState"
    by (cases i) (auto simp: act_def workStep_def drainedState_eq nth_Cons' split: if_splits)
qed (auto simp: act_def receiveStep_def tickStep_def sendStep_def completeStep_def drainedState_eq split: if_splits)

lemma batcher_drains_witness: "doneOf ''o'' drainedState = putOf demoCallbacks ''o'' [2, 3, 4, 5]"
proof -
  have "fst (New demoOpts :: Config \<times> nat batcher) = \<lparr>size = 3, buffer = 1, dataBuffer = 0, worker = 2, interval = 1000, syncWait = True\<rparr>"
    by (simp add: New_def demoOpts_def defaultConfig_def WithSize_def WithWorker_def WithBuffer_def WithSyncWait_def)
  then have cfg: "0 < buffer (fst (New demoOpts :: Config \<times> nat batcher))" "worker (fst (New demoOpts :: Config \<times> nat batcher)) = 2"
    by simp_all
  show ?thesis
    using batcher_drains [OF reach_run [OF Start drainedState_eq(1)] refl _ _ cfg(1) _ drained_idle]
    by (simp add: drainedState_eq cfg demoCallbacks_def)
qed

text \<open>
  C33. The batcher's goroutines come to rest. From a reachable state, each of their steps either changes nothing (a tick with
  nothing collected) or uses up some of the finite work left, so between two calls from outside they take finitely many steps.
\<close>

theorem batcher_terminates:
  assumes "reach opts cb (b :: 'm batcher)" and "internal a" and "act (fst (New opts :: Config \<times> 'm batcher)) cb a b = Some b'"
  shows "b' = b \<or> batcherWork b' < batcherWork b"
  using act_progress [OF assms(3,2)] inv_reach [OF assms(1)] by (simp add: batcher_inv_def)

lemma batcher_terminates_witness:
  "the (act (fst (New demoOpts :: Config \<times> nat batcher)) demoCallbacks Receive demoState) = demoState \<or>
   batcherWork (the (act (fst (New demoOpts :: Config \<times> nat batcher)) demoCallbacks Receive demoState)) < batcherWork demoState"
proof (rule batcher_terminates [OF demo_reach, of Receive])
  show "act (fst (New demoOpts :: Config \<times> nat batcher)) demoCallbacks Receive demoState
      = Some (the (act (fst (New demoOpts :: Config \<times> nat batcher)) demoCallbacks Receive demoState))"
    by code_simp
qed simp

section \<open>Shutdown and configuration\<close>

text \<open>The option \<^verbatim>\<open>WithDataBuffer\<close> has no effect on any step: \<^verbatim>\<open>New\<close> sizes the data channel with the default.\<close>

lemma databuffer_ignored: "act (WithDataBuffer n cfg) cb a b = act cfg cb a b"
proof -
  have sel: "size (cfg\<lparr>dataBuffer := n\<rparr>) = size cfg" "buffer (cfg\<lparr>dataBuffer := n\<rparr>) = buffer cfg"
    "syncWait (cfg\<lparr>dataBuffer := n\<rparr>) = syncWait cfg" by simp_all
  have "receiveStep (cfg\<lparr>dataBuffer := n\<rparr>) cb b = receiveStep cfg cb b" "sendStep (cfg\<lparr>dataBuffer := n\<rparr>) cb i b = sendStep cfg cb i b"
    "completeStep (cfg\<lparr>dataBuffer := n\<rparr>) b = completeStep cfg b" "workStep (cfg\<lparr>dataBuffer := n\<rparr>) i b = workStep cfg i b" for i
    unfolding receiveStep_def sendStep_def completeStep_def workStep_def sel by (rule refl)+
  then show ?thesis by (simp only: act_def WithDataBuffer_def)
qed

text \<open>
  A \<^verbatim>\<open>Put\<close> that runs while \<^verbatim>\<open>Close\<close> does may be accepted behind the closing record, and is then never processed; one that runs after
  the scheduler has returned may send on the closed channel.
\<close>

definition lateRun :: "nat action list" where "lateRun = [Cancel, SendNil, Put 7, Receive]"

lemma late_put_lost:
  "map_option (\<lambda>b. (puts b, processed b, phase b)) (run (fst (New [] :: Config \<times> nat batcher)) demoCallbacks lateRun (snd (New [])))
     = Some ([7], [], Returned)"
  "map_option panicked (run (fst (New [] :: Config \<times> nat batcher)) demoCallbacks (lateRun @ [Put 8]) (snd (New []))) = Some True"
  by code_simp+

end
