(* ===== verification/Syncer.thy ===== *)
theory Syncer
  imports Prelude
begin

text \<open>
  Synchronisation in the client SDK: \<^verbatim>\<open>sdk-core/pkg/syncer/syncer.go\<close> (a table is made equal to what the server sent),
  \<^verbatim>\<open>FetchAndInsertPagedData\<close> of \<^verbatim>\<open>pkg/network/http_client.go\<close>, \<^verbatim>\<open>pkg/syncer/version_synchronizer.go\<close> (incremental synchronisation by versions) and
  the table of versions, \<^verbatim>\<open>pkg/db/version_sync.go\<close>. The functions a caller plugs in are fields of the records; the slice
  helpers of the tools package and \<^verbatim>\<open>cmp.Equal\<close> are parameters. A Go slice that may be nil is an option.
\<close>

section \<open>The library\<close>

record ('t, 'k) slice_tools =
  SliceToMap :: "('t \<Rightarrow> 'k) \<Rightarrow> 't list \<Rightarrow> ('k \<times> 't) list"
  MapValues :: "('k \<times> 't) list \<Rightarrow> 't list"
  DeleteElems :: "string list option \<Rightarrow> string list \<Rightarrow> string list option"
  cmpEqual :: "'t \<Rightarrow> 't \<Rightarrow> bool"

text \<open>
  What they promise: of two items with the same key the later one is in the map; the values of a map in any order; the elements of a slice
  without some; equality.
\<close>

definition elemsOf :: "'a list option \<Rightarrow> 'a list" where
  "elemsOf xs = (case xs of None \<Rightarrow> [] | Some xs \<Rightarrow> xs)"

definition slice_ok :: "('t, 'k) slice_tools \<Rightarrow> bool" where
  "slice_ok T \<longleftrightarrow>
     (\<forall>f xs. distinct_keys (SliceToMap T f xs) \<and> map_of (SliceToMap T f xs) = map_of (rev (map (\<lambda>x. (f x, x)) xs))) \<and>
     (\<forall>m. distinct_keys m \<longrightarrow> mset (MapValues T m) = mset (map snd m)) \<and>
     (\<forall>xs ys. elemsOf (DeleteElems T xs ys) = filter (\<lambda>x. x \<notin> set ys) (elemsOf xs)) \<and>
     (\<forall>a b. cmpEqual T a b = (a = b))"

section \<open>Making a table equal to the server's\<close>

datatype syncState = Unchanged | Insert | Update | Delete

record ('w, 't, 'k, 'q, 'resp) Syncer =
  insert :: "'t \<Rightarrow> ('w, unit) prog"
  update :: "'t \<Rightarrow> 't \<Rightarrow> ('w, unit) prog"
  deleteFn :: "'t \<Rightarrow> ('w, unit) prog"
  batchInsert :: "'t list \<Rightarrow> ('w, unit) prog"
  deleteAll :: "string \<Rightarrow> ('w, unit) prog"
  noticeFn :: "(syncState \<Rightarrow> 't \<Rightarrow> 't \<Rightarrow> ('w, unit) prog) option"
  equalFn :: "('t \<Rightarrow> 't \<Rightarrow> bool) option"
  uuid :: "'t \<Rightarrow> 'k"
  batchPageReq :: "string \<Rightarrow> 'q \<times> int"
  batchPageRespConvertFunc :: "'resp \<Rightarrow> 't list"
  reqApiRouter :: string
  fullSyncLimit :: int
  zero :: 't

definition eq :: "('t, 'k) slice_tools \<Rightarrow> ('w, 't, 'k, 'q, 'resp) Syncer \<Rightarrow> 't \<Rightarrow> 't \<Rightarrow> bool" where
  "eq T s server local = (case equalFn s of Some f \<Rightarrow> f server local | None \<Rightarrow> cmpEqual T server local)"

definition onNotice ::
  "('w, 't, 'k, 'q, 'resp) Syncer \<Rightarrow> syncState \<Rightarrow> 't \<Rightarrow> 't \<Rightarrow> (syncState \<Rightarrow> 't \<Rightarrow> 't \<Rightarrow> ('w, unit) prog) option \<Rightarrow> ('w, unit) prog" where
  "onNotice s state server local fn =
     thenM (case noticeFn s of Some f \<Rightarrow> f state server local | None \<Rightarrow> ret ())
       (case fn of Some f \<Rightarrow> f state server local | None \<Rightarrow> ret ())"

text \<open>One server item: insert, skip or update; the item leaves the map of local items.\<close>

definition Sync_item ::
  "('t, 'k) slice_tools \<Rightarrow> ('w, 't, 'k, 'q, 'resp) Syncer \<Rightarrow> (syncState \<Rightarrow> 't \<Rightarrow> 't \<Rightarrow> ('w, unit) prog) option \<Rightarrow> bool \<Rightarrow>
   't \<Rightarrow> ('k \<times> 't) list \<Rightarrow> ('w, ('k \<times> 't) list) prog" where
  "Sync_item T s notice skipNotice server localMap =
     (let id = uuid s server in
      case map_of localMap id of
        None \<Rightarrow>
          thenM (insert s server)
            (thenM (if \<not> skipNotice then onNotice s Insert server (zero s) notice else ret ()) (ret localMap))
      | Some local \<Rightarrow>
          let localMap = filter (\<lambda>kv. fst kv \<noteq> id) localMap in
          if eq T s server local then
            thenM (if \<not> skipNotice then onNotice s Unchanged local server notice else ret ()) (ret localMap)
          else
            thenM (update s server local)
              (thenM (if \<not> skipNotice then onNotice s Update server local notice else ret ()) (ret localMap)))"

definition Sync_delete ::
  "('w, 't, 'k, 'q, 'resp) Syncer \<Rightarrow> (syncState \<Rightarrow> 't \<Rightarrow> 't \<Rightarrow> ('w, unit) prog) option \<Rightarrow> bool \<Rightarrow> 'k \<times> 't \<Rightarrow> ('w, unit) prog" where
  "Sync_delete s notice skipNotice kv =
     thenM (deleteFn s (snd kv)) (if \<not> skipNotice then onNotice s Delete (zero s) (snd kv) notice else ret ())"

definition Sync ::
  "('t, 'k) slice_tools \<Rightarrow> ('w, 't, 'k, 'q, 'resp) Syncer \<Rightarrow> 't list \<Rightarrow> 't list \<Rightarrow>
   (syncState \<Rightarrow> 't \<Rightarrow> 't \<Rightarrow> ('w, unit) prog) option \<Rightarrow> bool list \<Rightarrow> ('w, unit) prog" where
  "Sync T s serverData localData notice skipDeletionAndNotice =
     (let skipDeletion = (if length skipDeletionAndNotice > 0 then skipDeletionAndNotice ! 0 else False);
          skipNotice = (if length skipDeletionAndNotice > 1 then skipDeletionAndNotice ! 1 else False) in
      if length serverData = 0 \<and> length localData = 0 then ret ()
      else bindM (foldM (Sync_item T s notice skipNotice) serverData (SliceToMap T (uuid s) localData)) (\<lambda>localMap.
        if skipDeletion then ret () else forM localMap (Sync_delete s notice skipNotice)))"

section \<open>Full synchronisation\<close>

text \<open>
  The page loop, with a bound on the number of pages. A page whose batch insertion fails is inserted item by item; the errors
  of these are collected and reported at the end.
\<close>

definition insertEach :: "('t \<Rightarrow> ('w, unit) prog) \<Rightarrow> 't list \<Rightarrow> err list \<Rightarrow> ('w, err list) prog" where
  "insertEach insertFn items errList = foldM (\<lambda>item errs. bindM (tryM (insertFn item)) (\<lambda>r. case r of
       Inl e \<Rightarrow> ret (errs @ [e]) | Inr _ \<Rightarrow> ret errs)) items errList"

fun fetchPages ::
  "nat \<Rightarrow> (int \<Rightarrow> ('w, 'resp) prog) \<Rightarrow> ('resp \<Rightarrow> 't list) \<Rightarrow> ('t list \<Rightarrow> ('w, unit) prog) \<Rightarrow> ('t \<Rightarrow> ('w, unit) prog) \<Rightarrow>
   int \<Rightarrow> int \<Rightarrow> int \<Rightarrow> int \<Rightarrow> err list \<Rightarrow> ('w, err list) prog" where
  "fetchPages 0 page fn batchInsertFn insertFn showNumber maxItems i totalFetched errList = throw (Panic ''page bound'')"
| "fetchPages (Suc fuel) page fn batchInsertFn insertFn showNumber maxItems i totalFetched errList =
     bindM (page (i + 1)) (\<lambda>memberResp.
     let list = fn memberResp in
     bindM (bindM (tryM (batchInsertFn list)) (\<lambda>r. case r of
         Inl _ \<Rightarrow> insertEach insertFn list errList | Inr _ \<Rightarrow> ret errList)) (\<lambda>errList.
     let totalFetched = totalFetched + int (length list) in
     if int (length list) < showNumber \<or> (maxItems > 0 \<and> totalFetched \<ge> maxItems) then ret errList
     else fetchPages fuel page fn batchInsertFn insertFn showNumber maxItems (i + 1) totalFetched errList))"

definition FetchAndInsertPagedData ::
  "nat \<Rightarrow> (string \<Rightarrow> 'q \<Rightarrow> int \<Rightarrow> int \<Rightarrow> ('w, 'resp) prog) \<Rightarrow> string \<Rightarrow> 'q \<times> int \<Rightarrow> ('resp \<Rightarrow> 't list) \<Rightarrow> ('t list \<Rightarrow> ('w, unit) prog) \<Rightarrow>
   ('t \<Rightarrow> ('w, unit) prog) \<Rightarrow> int \<Rightarrow> ('w, unit) prog" where
  "FetchAndInsertPagedData fuel CallApi api req fn batchInsertFn insertFn maxItems =
     (let showNumber = (if snd req \<le> 0 then 50 else snd req) in
      bindM (fetchPages fuel (\<lambda>pageNumber. CallApi api (fst req) pageNumber showNumber) fn batchInsertFn insertFn showNumber maxItems 0 0 [])
        (\<lambda>errList. case errList of e # es \<Rightarrow> throw e | [] \<Rightarrow> ret ()))"

definition FullSync ::
  "nat \<Rightarrow> (string \<Rightarrow> 'q \<Rightarrow> int \<Rightarrow> int \<Rightarrow> ('w, 'resp) prog) \<Rightarrow> ('w, 't, 'k, 'q, 'resp) Syncer \<Rightarrow> string \<Rightarrow> ('w, unit) prog" where
  "FullSync fuel CallApi s entityID =
     bindM (tryM (deleteAll s entityID)) (\<lambda>r. case r of
       Inl e \<Rightarrow> throw (ErrNew ''full sync delete all failed'')
     | Inr _ \<Rightarrow>
         bindM (tryM (FetchAndInsertPagedData fuel CallApi (reqApiRouter s) (batchPageReq s entityID)
             (batchPageRespConvertFunc s) (batchInsert s) (insert s) (fullSyncLimit s))) (\<lambda>r2. case r2 of
           Inl e \<Rightarrow> throw (ErrNew ''full sync batch insert failed'')
         | Inr _ \<Rightarrow> ret ()))"

section \<open>The table of versions\<close>

record LocalVersionSync =
  lvTable :: string
  lvEntityID :: string
  lvVersionID :: string
  lvVersion :: nat
  lvCreateTime :: int
  lvUIDList :: "string list option"

record client_world = env +
  versionTable :: "LocalVersionSync list"

definition zeroVersionSync :: LocalVersionSync where
  "zeroVersionSync = \<lparr>lvTable = '''', lvEntityID = '''', lvVersionID = '''', lvVersion = 0, lvCreateTime = 0, lvUIDList = None\<rparr>"

definition versionRow :: "string \<Rightarrow> string \<Rightarrow> LocalVersionSync \<Rightarrow> bool" where
  "versionRow table entity lv \<longleftrightarrow> lvTable lv = table \<and> lvEntityID lv = entity"

text \<open>\<^verbatim>\<open>GetVersionSync\<close> returns its value and its error: an empty record with the error that there is none.\<close>

definition GetVersionSync :: "string \<Rightarrow> string \<Rightarrow> ('e client_world_scheme, LocalVersionSync \<times> err option) prog" where
  "GetVersionSync tableName entityID =
     io (gets (\<lambda>w. case List.find (versionRow tableName entityID) (versionTable w) of
       None \<Rightarrow> (zeroVersionSync, Some ErrRecordNotFound)
     | Some lv \<Rightarrow> (lv, None)))"

text \<open>\<^verbatim>\<open>Updates\<close> with a struct writes the fields that are not zero; a nil slice is zero, an empty one is not.\<close>

definition updatesNonZero :: "LocalVersionSync \<Rightarrow> LocalVersionSync \<Rightarrow> LocalVersionSync" where
  "updatesNonZero lv ex =
     \<lparr>lvTable = (if lvTable lv = '''' then lvTable ex else lvTable lv),
      lvEntityID = (if lvEntityID lv = '''' then lvEntityID ex else lvEntityID lv),
      lvVersionID = (if lvVersionID lv = '''' then lvVersionID ex else lvVersionID lv),
      lvVersion = (if lvVersion lv = 0 then lvVersion ex else lvVersion lv),
      lvCreateTime = (if lvCreateTime lv = 0 then lvCreateTime ex else lvCreateTime lv),
      lvUIDList = (if lvUIDList lv = None then lvUIDList ex else lvUIDList lv)\<rparr>"

definition SetVersionSync :: "LocalVersionSync \<Rightarrow> ('e client_world_scheme, unit) prog" where
  "SetVersionSync lv =
     bindM (io (gets (\<lambda>w. List.find (versionRow (lvTable lv) (lvEntityID lv)) (versionTable w)))) (\<lambda>existing. case existing of
       None \<Rightarrow> io (modifyM (\<lambda>w. w\<lparr>versionTable := versionTable w @ [lv]\<rparr>))
     | Some ex \<Rightarrow> io (modifyM (\<lambda>w. w\<lparr>versionTable :=
         map (\<lambda>r. if versionRow (lvTable ex) (lvEntityID ex) r then updatesNonZero lv r else r) (versionTable w)\<rparr>)))"

definition DeleteVersionSync :: "string \<Rightarrow> string \<Rightarrow> ('e client_world_scheme, unit) prog" where
  "DeleteVersionSync tableName entityID =
     io (modifyM (\<lambda>w. w\<lparr>versionTable := filter (\<lambda>r. \<not> versionRow tableName entityID r) (versionTable w)\<rparr>))"

section \<open>Incremental synchronisation\<close>

text \<open>
  The callbacks of one table. \<^verbatim>\<open>ExtraData\<close> returns \<open>None\<close> for a nil pointer; a \<^verbatim>\<open>ServerVersion\<close> is the reply pushed by the server.
\<close>

record ('w, 'v, 'r, 'x) VersionSynchronizer =
  TableName :: string
  EntityID :: string
  Key :: "'v \<Rightarrow> string"
  Local :: "('w, 'v list) prog"
  ServerVersion :: "'r option"
  Server :: "LocalVersionSync \<Rightarrow> ('w, 'r) prog"
  Full :: "'r \<Rightarrow> bool"
  Version :: "'r \<Rightarrow> string \<times> nat"
  DeleteIDs :: "'r \<Rightarrow> string list"
  UpdateOf :: "'r \<Rightarrow> 'v list"
  InsertOf :: "'r \<Rightarrow> 'v list"
  ExtraData :: "('r \<Rightarrow> 'x option) option"
  ExtraDataProcessor :: "('x \<Rightarrow> ('w, unit) prog) option"
  SyncerFn :: "'v list \<Rightarrow> 'v list \<Rightarrow> ('w, unit) prog"
  FullSyncer :: "('w, unit) prog"
  FullID :: "('w, string list option) prog"
  IDOrderChanged :: "('r \<Rightarrow> bool) option"

type_synonym ('e, 'v, 'r, 'x) vsync = "('e client_world_scheme, 'v, 'r, 'x) VersionSynchronizer"

definition getVersionInfo :: "('e, 'v, 'r, 'x) vsync \<Rightarrow> ('e client_world_scheme, LocalVersionSync) prog" where
  "getVersionInfo o' = bindM (GetVersionSync (TableName o') (EntityID o')) (\<lambda>(versionInfo, err). case err of
     Some e \<Rightarrow> if e \<noteq> ErrRecordNotFound then throw e else ret versionInfo
   | None \<Rightarrow> ret versionInfo)"

definition updateVersionInfo :: "('e, 'v, 'r, 'x) vsync \<Rightarrow> LocalVersionSync \<Rightarrow> 'r \<Rightarrow> ('e client_world_scheme, unit) prog" where
  "updateVersionInfo o' lvs resp = SetVersionSync
     (lvs\<lparr>lvTable := TableName o', lvEntityID := EntityID o', lvVersionID := fst (Version o' resp), lvVersion := snd (Version o' resp)\<rparr>)"

definition extraOf :: "('w, 'v, 'r, 'x) VersionSynchronizer \<Rightarrow> 'r \<Rightarrow> 'x option" where
  "extraOf o' resp = (case ExtraData o' of None \<Rightarrow> None | Some f \<Rightarrow> f resp)"

text \<open>The rows the table should have: the local ones, overwritten by the changed and new ones, without the deleted ones.\<close>

definition mergedRows ::
  "('v, string) slice_tools \<Rightarrow> ('w, 'v, 'r, 'x) VersionSynchronizer \<Rightarrow> 'v list \<Rightarrow> 'v list \<Rightarrow> 'v list \<Rightarrow> string list \<Rightarrow> (string \<times> 'v) list" where
  "mergedRows T o' local changes ins delIDs =
     (let kv = SliceToMap T (Key o') local;
          kv = foldl (\<lambda>kv change. AList.update (Key o' change) change kv) kv (changes @ ins) in
      foldl (\<lambda>kv id. filter (\<lambda>e. fst e \<noteq> id) kv) kv delIDs)"

definition uidList ::
  "('v, string) slice_tools \<Rightarrow> ('w, 'v, 'r, 'x) VersionSynchronizer \<Rightarrow> LocalVersionSync \<Rightarrow> string list \<Rightarrow> 'v list \<Rightarrow> LocalVersionSync" where
  "uidList T o' lvs delIDs ins =
     (let lvs = (if length delIDs > 0 then lvs\<lparr>lvUIDList := DeleteElems T (lvUIDList lvs) delIDs\<rparr> else lvs) in
      if length ins > 0 then lvs\<lparr>lvUIDList := Some (elemsOf (lvUIDList lvs) @ map (Key o') ins)\<rparr> else lvs)"

text \<open>The part that \<^verbatim>\<open>IncrementalSync\<close> and \<^verbatim>\<open>CheckVersionSync\<close> have in common: a reply with changes is applied.\<close>

definition applyChanges ::
  "('v, string) slice_tools \<Rightarrow> ('e, 'v, 'r, 'x) vsync \<Rightarrow> LocalVersionSync \<Rightarrow> 'r \<Rightarrow> 'x option \<Rightarrow> ('e client_world_scheme, LocalVersionSync) prog" where
  "applyChanges T o' lvs resp extraData =
     (let delIDs = DeleteIDs o' resp; ins = InsertOf o' resp; lvs = uidList T o' lvs delIDs ins in
      bindM (Local o') (\<lambda>local.
      let server = MapValues T (mergedRows T o' local (UpdateOf o' resp) ins delIDs) in
      thenM (SyncerFn o' server local)
      (thenM (case (extraData, ExtraDataProcessor o') of (Some x, Some f) \<Rightarrow> f x | _ \<Rightarrow> ret ())
      (if (case IDOrderChanged o' of None \<Rightarrow> False | Some f \<Rightarrow> f resp)
       then bindM (FullID o') (\<lambda>ids. ret (lvs\<lparr>lvUIDList := ids\<rparr>))
       else ret lvs))))"

definition noChange :: "('w, 'v, 'r, 'x) VersionSynchronizer \<Rightarrow> 'r \<Rightarrow> 'x option \<Rightarrow> bool" where
  "noChange o' resp extraData \<longleftrightarrow> length (DeleteIDs o' resp) = 0 \<and> length (UpdateOf o' resp) = 0 \<and> length (InsertOf o' resp) = 0 \<and>
     \<not> Full o' resp \<and> extraData = None"

definition IncrementalSync :: "('v, string) slice_tools \<Rightarrow> ('e, 'v, 'r, 'x) vsync \<Rightarrow> ('e client_world_scheme, unit) prog" where
  "IncrementalSync T o' =
     bindM (getVersionInfo o') (\<lambda>lvs.
     bindM (case ServerVersion o' of None \<Rightarrow> Server o' lvs | Some resp \<Rightarrow> ret resp) (\<lambda>resp.
     let extraData = extraOf o' resp in
     if noChange o' resp extraData then ret ()
     else bindM (if Full o' resp
         then thenM (FullSyncer o') (bindM (FullID o') (\<lambda>ids. ret (lvs\<lparr>lvUIDList := ids\<rparr>)))
         else applyChanges T o' lvs resp extraData) (\<lambda>lvs.
       updateVersionInfo o' lvs resp)))"

definition CheckVersionSync :: "('v, string) slice_tools \<Rightarrow> ('e, 'v, 'r, 'x) vsync \<Rightarrow> ('e client_world_scheme, unit) prog" where
  "CheckVersionSync T o' =
     bindM (getVersionInfo o') (\<lambda>lvs.
     case ServerVersion o' of None \<Rightarrow> throw (Panic ''nil func'') | Some resp \<Rightarrow>
     let extraData = extraOf o' resp; (versionID, version) = Version o' resp in
     if noChange o' resp extraData then ret ()
     else if versionID \<noteq> lvVersionID lvs then IncrementalSync T (o'\<lparr>ServerVersion := None\<rparr>)
     else if lvVersion lvs + 1 = version then
       bindM (applyChanges T o' lvs resp extraData) (\<lambda>lvs. updateVersionInfo o' lvs resp)
     else if version \<le> lvVersion lvs then ret ()
     else IncrementalSync T (o'\<lparr>ServerVersion := None\<rparr>))"

end
