(* ===== verification/Sdk_Friends.thy ===== *)
theory Sdk_Friends
  imports Syncer Friends_Rpc
begin

text \<open>
  The friend list of a client: its table \<^verbatim>\<open>sdk-core/pkg/db/friend_model.go\<close>, the conversion of \<^verbatim>\<open>internal/relation/conversion.go\<close>, the
  synchroniser of \<^verbatim>\<open>internal/relation/relation.go\<close> and \<^verbatim>\<open>internal/relation/incremental_sync.go\<close>. The calls to the server are parameters;
  the events for the listener and for the conversations are a list in the state.
\<close>

section \<open>State\<close>

record LocalFriend =
  lfOwnerUserID :: string
  lfFriendUserID :: string
  lfRemark :: string
  lfCreateTime :: int
  lfAddSource :: int
  lfOperatorUserID :: string
  lfNickname :: string
  lfFaceURL :: string
  lfEx :: string
  lfAttachedInfo :: string
  lfIsPinned :: bool

datatype friend_event =
    OnFriendAdded LocalFriend
  | OnFriendDeleted LocalFriend
  | OnFriendInfoChanged LocalFriend
  | UpdateConFaceUrlAndNickName string string string
  | UpdateMsgFaceUrlAndNickName string string string

record sdk_world = client_world +
  localFriends :: "LocalFriend list"
  userCache :: "string list"
  events :: "friend_event list"

definition zeroFriend :: LocalFriend where
  "zeroFriend = \<lparr>lfOwnerUserID = '''', lfFriendUserID = '''', lfRemark = '''', lfCreateTime = 0, lfAddSource = 0, lfOperatorUserID = '''',
     lfNickname = '''', lfFaceURL = '''', lfEx = '''', lfAttachedInfo = '''', lfIsPinned = False\<rparr>"

section \<open>The table\<close>

text \<open>The primary key is the pair of the owner and the friend.\<close>

definition friendKey :: "LocalFriend \<Rightarrow> string \<times> string" where
  "friendKey f = (lfOwnerUserID f, lfFriendUserID f)"

definition InsertFriend :: "LocalFriend \<Rightarrow> ('e sdk_world_scheme, unit) prog" where
  "InsertFriend friend = io (\<lambda>w. if friendKey friend \<in> friendKey ` set (localFriends w) then (Inl (ErrNew ''UNIQUE constraint failed''), w)
     else (Inr (), w\<lparr>localFriends := localFriends w @ [friend]\<rparr>))"

definition DeleteFriendDB :: "string \<Rightarrow> string \<Rightarrow> ('e sdk_world_scheme, unit) prog" where
  "DeleteFriendDB loginUserID friendUserID =
     io (modifyM (\<lambda>w. w\<lparr>localFriends := filter (\<lambda>f. friendKey f \<noteq> (loginUserID, friendUserID)) (localFriends w)\<rparr>))"

definition UpdateFriend :: "LocalFriend \<Rightarrow> ('e sdk_world_scheme, unit) prog" where
  "UpdateFriend friend = io (\<lambda>w. if friendKey friend \<notin> friendKey ` set (localFriends w) then (Inl (ErrNew ''RowsAffected == 0''), w)
     else (Inr (), w\<lparr>localFriends := map (\<lambda>f. if friendKey f = friendKey friend then friend else f) (localFriends w)\<rparr>))"

definition GetAllFriendList :: "string \<Rightarrow> ('e sdk_world_scheme, LocalFriend list) prog" where
  "GetAllFriendList loginUserID = io (gets (\<lambda>w. filter (\<lambda>f. lfOwnerUserID f = loginUserID) (localFriends w)))"

text \<open>One statement for all rows: a row that violates the key refuses all of them, and so does an empty slice.\<close>

definition BatchInsertFriend :: "LocalFriend list \<Rightarrow> ('e sdk_world_scheme, unit) prog" where
  "BatchInsertFriend friendList = io (\<lambda>w.
     if friendList = [] then (Inl (ErrNew ''empty slice found''), w)
     else if \<not> distinct (map friendKey friendList) \<or> friendKey ` set friendList \<inter> friendKey ` set (localFriends w) \<noteq> {}
     then (Inl (ErrNew ''UNIQUE constraint failed''), w)
     else (Inr (), w\<lparr>localFriends := localFriends w @ friendList\<rparr>))"

definition DeleteAllFriend :: "('e sdk_world_scheme, unit) prog" where
  "DeleteAllFriend = io (modifyM (\<lambda>w. w\<lparr>localFriends := []\<rparr>))"

definition GetFriendInfoByFriendUserID :: "string \<Rightarrow> string \<Rightarrow> ('e sdk_world_scheme, LocalFriend) prog" where
  "GetFriendInfoByFriendUserID loginUserID friendUserID = io (\<lambda>w.
     case List.find (\<lambda>f. friendKey f = (loginUserID, friendUserID)) (localFriends w) of
       None \<Rightarrow> (Inl ErrRecordNotFound, w) | Some f \<Rightarrow> (Inr f, w))"

definition GetFriendInfoList :: "string list \<Rightarrow> ('e sdk_world_scheme, LocalFriend list) prog" where
  "GetFriendInfoList friendUserIDList = io (gets (\<lambda>w. filter (\<lambda>f. lfFriendUserID f \<in> set friendUserIDList) (localFriends w)))"

section \<open>The synchroniser of friends\<close>

definition ServerFriendToLocalFriend :: "FriendInfo \<Rightarrow> LocalFriend" where
  "ServerFriendToLocalFriend info = \<lparr>lfOwnerUserID = fiOwnerUserID info, lfFriendUserID = uiUserID (fiFriendUser info), lfRemark = fiRemark info,
     lfCreateTime = fiCreateTime info, lfAddSource = fiAddSource info, lfOperatorUserID = fiOperatorUserID info,
     lfNickname = uiNickname (fiFriendUser info), lfFaceURL = uiFaceURL (fiFriendUser info), lfEx = fiEx info,
     lfAttachedInfo = '''', lfIsPinned = fiIsPinned info\<rparr>"

definition event :: "friend_event \<Rightarrow> ('e sdk_world_scheme, unit) prog" where
  "event ev = modifyM (\<lambda>w. w\<lparr>events := events w @ [ev]\<rparr>)"

text \<open>A remark stands for the nickname in the conversations.\<close>

definition renameEvents :: "LocalFriend \<Rightarrow> ('e sdk_world_scheme, unit) prog" where
  "renameEvents server =
     (let nickname = (if lfRemark server \<noteq> '''' then lfRemark server else lfNickname server) in
      thenM (event (UpdateConFaceUrlAndNickName (lfFriendUserID server) (lfFaceURL server) nickname))
        (event (UpdateMsgFaceUrlAndNickName (lfFriendUserID server) (lfFaceURL server) nickname)))"

definition friendNotice :: "syncState \<Rightarrow> LocalFriend \<Rightarrow> LocalFriend \<Rightarrow> ('e sdk_world_scheme, unit) prog" where
  "friendNotice state server local = (case state of
     Insert \<Rightarrow> thenM (event (OnFriendAdded server)) (renameEvents server)
   | Delete \<Rightarrow> event (OnFriendDeleted local)
   | Update \<Rightarrow> thenM (event (OnFriendInfoChanged server))
       (if lfNickname local \<noteq> lfNickname server \<or> lfFaceURL local \<noteq> lfFaceURL server \<or> lfRemark local \<noteq> lfRemark server
        then renameEvents server else ret ())
   | Unchanged \<Rightarrow> ret ())"

definition friendSyncLimit :: int where "friendSyncLimit = 10000"

definition friendSyncer :: "string \<Rightarrow> ('e sdk_world_scheme, LocalFriend, string \<times> string, string, FriendInfo list) Syncer" where
  "friendSyncer loginUserID = \<lparr>insert = InsertFriend,
     update = (\<lambda>server local. thenM (modifyM (\<lambda>w. w\<lparr>userCache := removeAll (lfFriendUserID server) (userCache w)\<rparr>)) (UpdateFriend server)),
     deleteFn = (\<lambda>local. DeleteFriendDB loginUserID (lfFriendUserID local)),
     batchInsert = BatchInsertFriend, deleteAll = (\<lambda>_. DeleteAllFriend), noticeFn = Some friendNotice, equalFn = None,
     uuid = friendKey, batchPageReq = (\<lambda>entityID. (entityID, 100)),
     batchPageRespConvertFunc = map ServerFriendToLocalFriend, reqApiRouter = ''/friend/get_friend_list'',
     fullSyncLimit = friendSyncLimit, zero = zeroFriend\<rparr>"

section \<open>Incremental synchronisation of friends\<close>

text \<open>The calls to the server.\<close>

record 'w friend_calls =
  getIncrementalFriends :: "string \<Rightarrow> nat \<Rightarrow> string \<Rightarrow> ('w, IncrementalFriends) prog"
  getFullFriendUserIDs :: "string \<Rightarrow> ('w, string list option) prog"
  callApi :: "string \<Rightarrow> string \<Rightarrow> int \<Rightarrow> int \<Rightarrow> ('w, FriendInfo list) prog"
  pageBound :: nat

definition friendVersionSync ::
  "(LocalFriend, string \<times> string) slice_tools \<Rightarrow> 'e sdk_world_scheme friend_calls \<Rightarrow> string \<Rightarrow>
   ('e sdk_world_scheme, LocalFriend, IncrementalFriends, unit) VersionSynchronizer" where
  "friendVersionSync T2 R loginUserID = \<lparr>TableName = ''local_friends'', EntityID = loginUserID, Key = lfFriendUserID,
     Local = GetAllFriendList loginUserID, ServerVersion = None,
     Server = (\<lambda>lvs. getIncrementalFriends R loginUserID (lvVersion lvs) (lvVersionID lvs)),
     Full = irFull, Version = (\<lambda>resp. (irVersionID resp, irVersion resp)), DeleteIDs = irDelete,
     UpdateOf = (\<lambda>resp. map ServerFriendToLocalFriend (irUpdate resp)),
     InsertOf = (\<lambda>resp. map ServerFriendToLocalFriend (irInsert resp)),
     ExtraData = None, ExtraDataProcessor = None,
     SyncerFn = (\<lambda>server local. Sync T2 (friendSyncer loginUserID) server local None []),
     FullSyncer = FullSync (pageBound R) (callApi R) (friendSyncer loginUserID) loginUserID,
     FullID = getFullFriendUserIDs R loginUserID,
     IDOrderChanged = Some (\<lambda>resp. irSortVersion resp > 0)\<rparr>"

definition IncrSyncFriends ::
  "(LocalFriend, string) slice_tools \<Rightarrow> (LocalFriend, string \<times> string) slice_tools \<Rightarrow> 'e sdk_world_scheme friend_calls \<Rightarrow> string \<Rightarrow>
   ('e sdk_world_scheme, unit) prog" where
  "IncrSyncFriends T1 T2 R loginUserID = IncrementalSync T1 (friendVersionSync T2 R loginUserID)"

end
