(* ===== verification/Syncer_Props.thy ===== *)
theory Syncer_Props
  imports Syncer
begin

text \<open>
  What a synchronisation does to a table, for every table: the locale \<open>synced_table\<close> is the contract between the synchroniser and the
  functions a caller plugs in. When \<^verbatim>\<open>Sync\<close> returns without an error, the table has exactly the server's rows; a full
  synchronisation stores all pages.
\<close>

definition rowMap :: "('t \<Rightarrow> 'k) \<Rightarrow> 't list \<Rightarrow> 'k \<rightharpoonup> 't" where
  "rowMap f xs = map_of (map (\<lambda>x. (f x, x)) xs)"

lemma rowMap_Nil [simp]: "rowMap f [] = Map.empty"
  by (simp add: rowMap_def)

lemma dom_rowMap [simp]: "dom (rowMap f xs) = f ` set xs"
  by (auto simp: rowMap_def dom_map_of_conv_image_fst image_comp)

lemma rowMap_None: "rowMap f xs k = None \<longleftrightarrow> k \<notin> f ` set xs"
  by (metis dom_rowMap domIff)

lemma map_add_idem: "f ++ g ++ g = f ++ g"
  by (simp add: map_add_def fun_eq_iff split: option.split)

lemma rowMap_key: "rowMap f xs k = Some x \<Longrightarrow> f x = k \<and> x \<in> set xs"
  unfolding rowMap_def by (drule map_of_SomeD) auto

lemma rowMap_append: "rowMap f (xs @ ys) = rowMap f ys ++ rowMap f xs"
  by (simp add: rowMap_def)

lemma rowMap_rev: "distinct (map f xs) \<Longrightarrow> map_of (rev (map (\<lambda>x. (f x, x)) xs)) = rowMap f xs"
  unfolding rowMap_def by (rule map_of_inject_set [THEN iffD2]) (auto simp: comp_def simp flip: rev_map)

lemma rowMap_Cons: "rowMap f (x # xs) = (rowMap f xs)(f x \<mapsto> x)"
  by (simp add: rowMap_def)

lemma rowMap_set: "distinct (map f xs) \<Longrightarrow> rowMap f xs k = Some x \<longleftrightarrow> x \<in> set xs \<and> f x = k"
  unfolding rowMap_def by (subst map_of_eq_Some_iff) (auto simp: comp_def)

lemma option_eqI: "(\<And>x. a = Some x \<longleftrightarrow> b = Some x) \<Longrightarrow> a = b"
  by (cases a; cases b) auto

lemma rowMap_same: "set xs = set ys \<Longrightarrow> distinct (map f xs) \<Longrightarrow> distinct (map f ys) \<Longrightarrow> rowMap f xs = rowMap f ys"
  by (rule ext, rule option_eqI) (simp add: rowMap_set)

lemma SliceToMap_ok:
  "slice_ok T \<Longrightarrow> distinct_keys (SliceToMap T f xs)"
  "slice_ok T \<Longrightarrow> distinct (map f xs) \<Longrightarrow> map_of (SliceToMap T f xs) = rowMap f xs"
  by (simp_all add: slice_ok_def rowMap_rev)

text \<open>A program that keeps a property of the state whenever it succeeds.\<close>

definition keeps :: "('w \<Rightarrow> bool) \<Rightarrow> ('w, 'a) prog \<Rightarrow> bool" where
  "keeps P m \<longleftrightarrow> (\<forall>w a w'. P w \<longrightarrow> m w = (Inr a, w') \<longrightarrow> P w')"

named_theorems keeps_rules "successful programs keep a property"

lemma keepsD: "keeps P m \<Longrightarrow> P w \<Longrightarrow> m w = (Inr a, w') \<Longrightarrow> P w'"
  unfolding keeps_def by blast

lemma keeps_preserves: "preserves P m \<Longrightarrow> keeps P m"
  unfolding keeps_def by (metis preservesD)

lemma keeps_ret [keeps_rules]: "keeps P (ret a)"
  by (simp add: keeps_def)

lemma keeps_throw [keeps_rules]: "keeps P (throw e)"
  by (simp add: keeps_def)

lemma keeps_bind [keeps_rules]: "keeps P m \<Longrightarrow> (\<And>a. keeps P (f a)) \<Longrightarrow> keeps P (bindM m f)"
  unfolding keeps_def bindM_eq_Inr by blast

lemma keeps_if [keeps_rules]: "keeps P m \<Longrightarrow> keeps P n \<Longrightarrow> keeps P (if c then m else n)"
  by simp

lemma keeps_case_option [keeps_rules]: "keeps P m \<Longrightarrow> (\<And>a. keeps P (f a)) \<Longrightarrow> keeps P (case x of None \<Rightarrow> m | Some a \<Rightarrow> f a)"
  by (cases x) simp_all

lemma keeps_foldM [keeps_rules]: "(\<And>x c. keeps P (f x c)) \<Longrightarrow> keeps P (foldM f xs c)"
  by (induction xs arbitrary: c) (auto intro: keeps_rules)

lemma keeps_io [keeps_rules]: "(\<And>w n. P w \<Longrightarrow> P (w\<lparr>opno := n\<rparr>)) \<Longrightarrow> keeps P m \<Longrightarrow> keeps P (io m)"
  unfolding keeps_def io_Inr by blast

lemma keeps_gets [keeps_rules]: "keeps P (gets f)"
  by (simp add: keeps_def)

lemma keeps_modifyM [keeps_rules]: "(\<And>w. P w \<Longrightarrow> P (f w)) \<Longrightarrow> keeps P (modifyM f)"
  by (simp add: keeps_def)

text \<open>The error of a program that is run for its value is thrown on.\<close>

lemma keeps_rethrow [keeps_rules]:
  "keeps P m \<Longrightarrow> (\<And>a. keeps P (g a)) \<Longrightarrow> keeps P (bindM (tryM m) (\<lambda>r. case r of Inl e \<Rightarrow> throw (f e) | Inr a \<Rightarrow> g a))"
  unfolding keeps_def
proof (intro allI impI)
  fix w b w'
  assume k: "\<forall>w a w'. P w \<longrightarrow> m w = (Inr a, w') \<longrightarrow> P w'" "\<And>a. \<forall>w b w'. P w \<longrightarrow> g a w = (Inr b, w') \<longrightarrow> P w'" and "P w"
    and run: "bindM (tryM m) (\<lambda>r. case r of Inl e \<Rightarrow> throw (f e) | Inr a \<Rightarrow> g a) w = (Inr b, w')"
  from run obtain a w1 where "m w = (Inr a, w1)" "g a w1 = (Inr b, w')" by (auto simp: bind_tryM_Inr)
  with k \<open>P w\<close> show "P w'" by blast
qed

section \<open>The contract\<close>

locale synced_table =
  fixes T :: "('t, 'k) slice_tools"
    and s :: "('w, 't, 'k, 'q, 'resp) Syncer"
    and rows :: "'w \<Rightarrow> 'k \<rightharpoonup> 't"
    and own :: "'t \<Rightarrow> bool"
  assumes eq_ok: "slice_ok T \<Longrightarrow> eq T s a b = (a = b)"
    and insert_ok: "insert s x w = (Inr (), w') \<Longrightarrow> own x \<Longrightarrow> rows w' = (rows w)(uuid s x \<mapsto> x)"
    and update_ok: "update s x y w = (Inr (), w') \<Longrightarrow> own x \<Longrightarrow> rows w' = (rows w)(uuid s x \<mapsto> x)"
    and delete_ok: "deleteFn s x w = (Inr (), w') \<Longrightarrow> own x \<Longrightarrow> rows w' = (rows w)(uuid s x := None)"
    and notice_ok: "noticeFn s = Some f \<Longrightarrow> f st a b w = (Inr (), w') \<Longrightarrow> rows w' = rows w"
begin

lemma onNotice_ok: "onNotice s st a b None w = (Inr (), w') \<Longrightarrow> rows w' = rows w"
  by (auto simp: onNotice_def bindM_eq_Inr split: option.splits dest: notice_ok)

text \<open>After the items \<open>done\<close>: their rows are the server's, the others are as they were, and the map holds the others.\<close>

definition synced :: "'k set \<Rightarrow> ('k \<rightharpoonup> 't) \<Rightarrow> ('k \<rightharpoonup> 't) \<Rightarrow> ('k \<times> 't) list \<Rightarrow> 'w \<Rightarrow> bool" where
  "synced keys new old localMap w \<longleftrightarrow> dom new = keys \<and> rows w = (old |` (- keys)) ++ new \<and>
     distinct_keys localMap \<and> map_of localMap = old |` (- keys)"

lemma map_of_filter_key: "map_of (filter (\<lambda>kv. fst kv \<noteq> k) m) = (map_of m)(k := None)"
  by (induction m) (auto simp: fun_eq_iff)

lemma Sync_item_ok:
  assumes "Sync_item T s None skipNotice x m w = (Inr m', w')" and "synced K new old m w" and "own x" and "uuid s x \<notin> K" and "slice_ok T"
  shows "synced (Set.insert (uuid s x) K) (new(uuid s x \<mapsto> x)) old m' w'"
proof (cases "map_of m (uuid s x)")
  case None
  from assms(1) None obtain w1 where ins: "insert s x w = (Inr (), w1)" and rw: "rows w' = rows w1" and m': "m' = m"
    by (auto simp: Sync_item_def bindM_eq_Inr split: if_splits dest: onNotice_ok)
  from None assms(2,4) have old: "old (uuid s x) = None" by (auto simp: synced_def restrict_map_def split: if_splits)
  have r: "rows w' = (rows w)(uuid s x \<mapsto> x)" using insert_ok [OF ins assms(3)] rw by simp
  show ?thesis
    unfolding synced_def
  proof (intro conjI)
    show "rows w' = old |` (- Set.insert (uuid s x) K) ++ new(uuid s x \<mapsto> x)"
      using assms(2) old by (auto simp: r synced_def fun_eq_iff restrict_map_def map_add_def split: option.split)
    show "map_of m' = old |` (- Set.insert (uuid s x) K)"
      using assms(2) old by (auto simp: m' synced_def fun_eq_iff restrict_map_def)
  qed (use assms(2) in \<open>auto simp: synced_def m'\<close>)
next
  case (Some y)
  from Some assms(2,4) have old: "old (uuid s x) = Some y" by (auto simp: synced_def restrict_map_def split: if_splits)
  have m': "m' = filter (\<lambda>kv. fst kv \<noteq> uuid s x) m"
    using assms(1) Some by (auto simp: Sync_item_def Let_def bindM_eq_Inr split: if_splits)
  have r: "rows w' = (rows w)(uuid s x \<mapsto> x)"
  proof (cases "x = y")
    case True
    then have "rows w' = rows w"
      using assms(1) Some by (auto simp: Sync_item_def Let_def bindM_eq_Inr eq_ok [OF assms(5)] split: if_splits dest: onNotice_ok)
    moreover have "rows w (uuid s x) = Some x"
      using assms(2,4) old True by (auto simp: synced_def map_add_def restrict_map_def split: option.split)
    ultimately show ?thesis by auto
  next
    case False
    then obtain w1 where "update s x y w = (Inr (), w1)" "rows w' = rows w1"
      using assms(1) Some by (auto simp: Sync_item_def Let_def bindM_eq_Inr eq_ok [OF assms(5)] split: if_splits dest: onNotice_ok)
    then show ?thesis using update_ok [OF _ assms(3)] by simp
  qed
  show ?thesis
    unfolding synced_def
  proof (intro conjI)
    show "rows w' = old |` (- Set.insert (uuid s x) K) ++ new(uuid s x \<mapsto> x)"
      using assms(2) by (auto simp: r synced_def fun_eq_iff restrict_map_def map_add_def split: option.split)
    show "map_of m' = old |` (- Set.insert (uuid s x) K)"
      using assms(2) by (auto simp: m' map_of_filter_key synced_def fun_eq_iff restrict_map_def)
    show "distinct_keys m'" using assms(2) by (auto simp: m' synced_def distinct_map inj_on_def)
  qed (use assms(2) in \<open>auto simp: synced_def\<close>)
qed

lemma Sync_items_ok:
  assumes "foldM (Sync_item T s None skipNotice) xs m w = (Inr m', w')" and "synced K new old m w"
    and "\<forall>x\<in>set xs. own x" and "distinct (map (uuid s) xs)" and "uuid s ` set xs \<inter> K = {}" and "slice_ok T"
  shows "synced (K \<union> uuid s ` set xs) (new ++ rowMap (uuid s) xs) old m' w'"
  using assms
proof (induction xs arbitrary: m w K new)
  case (Cons x xs)
  from Cons.prems(1) obtain m1 w1 where step: "Sync_item T s None skipNotice x m w = (Inr m1, w1)"
    and rest: "foldM (Sync_item T s None skipNotice) xs m1 w1 = (Inr m', w')"
    by (auto simp: bindM_eq_Inr)
  have s1: "synced (Set.insert (uuid s x) K) (new(uuid s x \<mapsto> x)) old m1 w1"
    using Cons.prems by (intro Sync_item_ok [OF step]) auto
  have "synced (Set.insert (uuid s x) K \<union> uuid s ` set xs) (new(uuid s x \<mapsto> x) ++ rowMap (uuid s) xs) old m' w'"
    using Cons.prems by (intro Cons.IH [OF rest s1]) auto
  moreover have "new(uuid s x \<mapsto> x) ++ rowMap (uuid s) xs = new ++ rowMap (uuid s) (x # xs)"
    using Cons.prems(4) by (simp add: rowMap_Cons map_add_upd_left)
  ultimately show ?case by (simp add: Un_commute insert_commute)
qed simp

lemma Sync_deletes_ok:
  assumes "forM m (Sync_delete s None skipNotice) w = (Inr (), w')" and "\<forall>(k, x)\<in>set m. own x \<and> uuid s x = k"
  shows "rows w' = rows w |` (- fst ` set m)"
  using assms
proof (induction m arbitrary: w)
  case Nil
  then show ?case by (simp add: restrict_map_def fun_eq_iff)
next
  case (Cons kx m)
  obtain k x where kx: "kx = (k, x)" by (cases kx)
  from Cons.prems obtain w2 where step: "Sync_delete s None skipNotice kx w = (Inr (), w2)"
    and rest: "forM m (Sync_delete s None skipNotice) w2 = (Inr (), w')"
    by (auto simp: bindM_eq_Inr)
  from step obtain w1 where d: "deleteFn s x w = (Inr (), w1)" and r2: "rows w2 = rows w1"
    by (auto simp: kx bindM_eq_Inr Sync_delete_def split: if_splits dest: onNotice_ok)
  have "rows w1 = (rows w)(k := None)" using delete_ok [OF d] Cons.prems(2) by (auto simp: kx)
  with Cons.IH [OF rest] Cons.prems(2) r2 show ?case by (auto simp: kx restrict_map_def fun_eq_iff)
qed

lemma Sync_ok:
  assumes "Sync T s server local None skips w = (Inr (), w')" and "skips = [] \<or> \<not> skips ! 0"
    and "rows w = rowMap (uuid s) local" and "distinct (map (uuid s) local)" and "\<forall>x\<in>set local. own x"
    and "distinct (map (uuid s) server)" and "\<forall>x\<in>set server. own x" and tools: "slice_ok T"
  shows "rows w' = rowMap (uuid s) server"
proof (cases "server = [] \<and> local = []")
  case True
  then show ?thesis using assms(1,3) by (simp add: Sync_def Let_def)
next
  case False
  define m where "m = SliceToMap T (uuid s) local"
  have m: "distinct_keys m" "map_of m = rowMap (uuid s) local"
    using SliceToMap_ok [OF tools] assms(4) by (simp_all add: m_def)
  obtain skipNotice m1 w1 where items: "foldM (Sync_item T s None skipNotice) server m w = (Inr m1, w1)"
    and dels: "forM m1 (Sync_delete s None skipNotice) w1 = (Inr (), w')"
    using assms(1,2) False by (auto simp: Sync_def Let_def bindM_eq_Inr m_def split: if_splits)
  have "synced {} Map.empty (rowMap (uuid s) local) m w"
    using m assms(3) by (simp add: synced_def restrict_map_def)
  from Sync_items_ok [OF items this assms(7,6) _ tools]
  have syn: "synced (uuid s ` set server) (rowMap (uuid s) server) (rowMap (uuid s) local) m1 w1" by simp
  then have m1: "map_of m1 = rowMap (uuid s) local |` (- uuid s ` set server)" "distinct_keys m1" by (simp_all add: synced_def)
  have keys: "\<forall>(k, x)\<in>set m1. own x \<and> uuid s x = k"
  proof clarify
    fix k x
    assume "(k, x) \<in> set m1"
    then have "map_of m1 k = Some x" using m1(2) by simp
    then have "rowMap (uuid s) local k = Some x" using m1(1) by (auto simp: restrict_map_def split: if_splits)
    then show "own x \<and> uuid s x = k" using assms(5) by (auto dest: rowMap_key)
  qed
  have "rows w' = rows w1 |` (- dom (map_of m1))"
    using Sync_deletes_ok [OF dels keys] by (simp add: dom_map_of_conv_image_fst)
  also have "\<dots> = rowMap (uuid s) server"
  proof (rule ext)
    fix k
    have m1k: "map_of m1 k = (if k \<in> uuid s ` set server then None else rowMap (uuid s) local k)"
      by (simp add: m1(1) restrict_map_def)
    have w1k: "rows w1 k = (case rowMap (uuid s) server k of None \<Rightarrow> map_of m1 k | Some x \<Rightarrow> Some x)"
      using syn by (simp add: synced_def map_add_def split: option.split)
    show "(rows w1 |` (- dom (map_of m1))) k = rowMap (uuid s) server k"
    proof (cases "rowMap (uuid s) server k")
      case None
      then show ?thesis by (auto simp: restrict_map_def w1k)
    next
      case (Some x)
      then have "map_of m1 k = None" using rowMap_key [OF Some] by (auto simp: m1k)
      then show ?thesis using Some by (simp add: restrict_map_def w1k domIff)
    qed
  qed
  finally show ?thesis .
qed

end

text \<open>What all the functions of a synchroniser keep, a synchronisation keeps, whatever it returns.\<close>

lemma preserves_Sync:
  assumes "\<And>x. preserves P (insert s x)" and "\<And>x y. preserves P (update s x y)" and "\<And>x. preserves P (deleteFn s x)"
    and "\<And>f st a b. noticeFn s = Some f \<Longrightarrow> preserves P (f st a b)"
  shows "preserves P (Sync T s server local None skips)"
proof -
  have n: "preserves P (onNotice s st a b None)" for st a b
    using assms(4) by (auto simp: onNotice_def preserves_ret split: option.split)
  have item: "preserves P (Sync_item T s None skip x m)" for skip x m
    unfolding Sync_item_def Let_def
    by (intro preserves_case_option preserves_if preserves_bind preserves_ret assms(1,2) n)
  have del: "preserves P (Sync_delete s None skip kv)" for skip kv
    unfolding Sync_delete_def by (intro preserves_if preserves_bind preserves_ret assms(3) n)
  show ?thesis
    unfolding Sync_def Let_def by (intro preserves_if preserves_bind preserves_foldM preserves_forM preserves_ret item del)
qed

section \<open>Full synchronisation\<close>

text \<open>
  A table that can also be emptied and filled by pages. A batch that reports an error may still have been stored.
\<close>

locale full_table = synced_table T s rows own
  for T :: "('t, 'k) slice_tools" and s :: "('w, 't, 'k, 'q, 'resp) Syncer" and rows :: "'w \<Rightarrow> 'k \<rightharpoonup> 't" and own :: "'t \<Rightarrow> bool" +
  assumes batch_ok: "batchInsert s xs w = (Inr (), w') \<Longrightarrow> \<forall>x\<in>set xs. own x \<Longrightarrow> rows w' = rows w ++ rowMap (uuid s) xs"
    and batch_error: "batchInsert s xs w = (Inl e, w') \<Longrightarrow> \<forall>x\<in>set xs. own x \<Longrightarrow> rows w' = rows w \<or> rows w' = rows w ++ rowMap (uuid s) xs"
    and deleteAll_ok: "deleteAll s i w = (Inr (), w') \<Longrightarrow> rows w' = Map.empty"
begin

lemma insertEach_Cons:
  "insertEach f (x # xs) errs w = (Inr errs', w') \<longleftrightarrow>
     (\<exists>w1. f x w = (Inr (), w1) \<and> insertEach f xs errs w1 = (Inr errs', w')) \<or>
     (\<exists>e w1. f x w = (Inl e, w1) \<and> (\<forall>s. e \<noteq> Panic s) \<and> insertEach f xs (errs @ [e]) w1 = (Inr errs', w'))"
  unfolding insertEach_def foldM.simps by (subst bindM_eq_Inr) (auto simp: bind_tryM_Inr)

lemma insertEach_grows: "insertEach f xs errs w = (Inr errs', w') \<Longrightarrow> \<exists>more. errs' = errs @ more"
proof (induction xs arbitrary: errs w)
  case (Cons x xs)
  from Cons.prems consider w1 where "insertEach f xs errs w1 = (Inr errs', w')"
    | e w1 where "insertEach f xs (errs @ [e]) w1 = (Inr errs', w')"
    by (auto simp: insertEach_Cons)
  then show ?case
  proof cases
    case 1
    then show ?thesis by (rule Cons.IH)
  next
    case 2
    from Cons.IH [OF this] show ?thesis by auto
  qed
qed (simp add: insertEach_def)

lemma insertEach_ok:
  "insertEach (insert s) xs [] w = (Inr [], w') \<Longrightarrow> \<forall>x\<in>set xs. own x \<Longrightarrow> distinct (map (uuid s) xs) \<Longrightarrow> rows w' = rows w ++ rowMap (uuid s) xs"
proof (induction xs arbitrary: w)
  case (Cons x xs)
  have no: "insertEach (insert s) xs ([] @ [e]) w1 \<noteq> (Inr [], w')" for e w1
    using insertEach_grows [of "insert s" xs "[] @ [e]" w1 "[]" w'] by auto
  with Cons.prems(1) obtain w1 where ins: "insert s x w = (Inr (), w1)" and rest: "insertEach (insert s) xs [] w1 = (Inr [], w')"
    unfolding insertEach_Cons by blast
  have "rows w1 = (rows w)(uuid s x \<mapsto> x)" using insert_ok [OF ins] Cons.prems(2) by simp
  moreover have "rows w' = rows w1 ++ rowMap (uuid s) xs" using Cons.IH [OF rest] Cons.prems(2,3) by simp
  moreover have "(rows w)(uuid s x \<mapsto> x) ++ rowMap (uuid s) xs = (rows w ++ rowMap (uuid s) xs)(uuid s x \<mapsto> x)"
    using Cons.prems(3) by (intro map_add_upd_left) auto
  ultimately show ?case by (simp only: rowMap_Cons map_add_upd)
qed (simp add: insertEach_def)

text \<open>One page.\<close>

definition storePage :: "'t list \<Rightarrow> err list \<Rightarrow> ('w, err list) prog" where
  "storePage xs errs = bindM (tryM (batchInsert s xs)) (\<lambda>r. case r of
     Inl _ \<Rightarrow> insertEach (insert s) xs errs | Inr _ \<Rightarrow> ret errs)"

lemma storePage_Inr:
  "storePage xs errs w = (Inr errs', w') \<longleftrightarrow>
     (batchInsert s xs w = (Inr (), w') \<and> errs' = errs) \<or>
     (\<exists>e w1. batchInsert s xs w = (Inl e, w1) \<and> (\<forall>s. e \<noteq> Panic s) \<and> insertEach (insert s) xs errs w1 = (Inr errs', w'))"
  unfolding storePage_def bind_tryM_Inr by auto

lemma storePage_grows: "storePage xs errs w = (Inr errs', w') \<Longrightarrow> \<exists>more. errs' = errs @ more"
  unfolding storePage_Inr by (auto dest: insertEach_grows)

lemma storePage_ok:
  assumes "storePage xs [] w = (Inr [], w')" and "\<forall>x\<in>set xs. own x" and "distinct (map (uuid s) xs)"
  shows "rows w' = rows w ++ rowMap (uuid s) xs"
  using assms(1) unfolding storePage_Inr
proof (elim disjE exE conjE)
  fix e w1
  assume b: "batchInsert s xs w = (Inl e, w1)" and i: "insertEach (insert s) xs [] w1 = (Inr [], w')"
  from batch_error [OF b assms(2)] have "rows w1 ++ rowMap (uuid s) xs = rows w ++ rowMap (uuid s) xs"
    using map_add_idem by auto
  then show ?thesis using insertEach_ok [OF i assms(2,3)] by simp
qed (use batch_ok assms(2) in blast)

lemma fetchPages_Suc:
  "fetchPages (Suc fuel) page fn (batchInsert s) (insert s) sn maxItems i tot errs =
   bindM (page (i + 1)) (\<lambda>r. bindM (storePage (fn r) errs) (\<lambda>errList.
     if int (length (fn r)) < sn \<or> (maxItems > 0 \<and> tot + int (length (fn r)) \<ge> maxItems) then ret errList
     else fetchPages fuel page fn (batchInsert s) (insert s) sn maxItems (i + 1) (tot + int (length (fn r))) errList))"
  by (simp add: storePage_def Let_def)

lemma fetchPages_grows:
  "fetchPages fuel page fn (batchInsert s) (insert s) sn maxItems i tot errs w = (Inr errs', w') \<Longrightarrow> \<exists>more. errs' = errs @ more"
proof (induction fuel arbitrary: i tot errs w)
  case (Suc fuel)
  from Suc.prems obtain r w1 errs2 w2 where st: "storePage (fn r) errs w1 = (Inr errs2, w2)"
    and "(if int (length (fn r)) < sn \<or> (maxItems > 0 \<and> tot + int (length (fn r)) \<ge> maxItems) then ret errs2
     else fetchPages fuel page fn (batchInsert s) (insert s) sn maxItems (i + 1) (tot + int (length (fn r))) errs2) w2 = (Inr errs', w')"
    unfolding fetchPages_Suc bindM_eq_Inr by blast
  then have c: "errs' = errs2 \<or> (\<exists>t. fetchPages fuel page fn (batchInsert s) (insert s) sn maxItems (i + 1) t errs2 w2 = (Inr errs', w'))"
    by (auto split: if_splits)
  from st obtain more where "errs2 = errs @ more" using storePage_grows by blast
  with c show ?case using Suc.IH by fastforce
qed simp

lemma preserves_storePage:
  assumes "\<And>xs. preserves Q (batchInsert s xs)" and "\<And>x. preserves Q (insert s x)"
  shows "preserves Q (storePage xs errs)"
  unfolding storePage_def insertEach_def
  by (intro preserves_bind preserves_tryM preserves_case_sum preserves_foldM preserves_ret assms)

lemma fetchPages_ok:
  assumes page: "\<And>n w r w'. page n w = (Inr r, w') \<Longrightarrow> Q w \<Longrightarrow> 0 < n \<Longrightarrow> rows w' = rows w \<and> Q w' \<and> fn r = take sz (drop (sz * nat (n - 1)) L)"
    and keep: "\<And>xs. preserves Q (batchInsert s xs)" "\<And>x. preserves Q (insert s x)"
    and max: "int (length L) \<le> maxItems \<or> maxItems \<le> 0" and "0 < sz"
    and own: "\<forall>x\<in>set L. own x" and dist: "distinct (map (uuid s) L)"
  shows "fetchPages fuel page fn (batchInsert s) (insert s) (int sz) maxItems (int i) (int (sz * i)) errs w = (Inr [], w') \<Longrightarrow> Q w \<Longrightarrow>
    sz * i \<le> length L \<Longrightarrow> rows w = rowMap (uuid s) (take (sz * i) L) \<Longrightarrow> rows w' = rowMap (uuid s) L"
proof (induction fuel arbitrary: i errs w)
  case (Suc fuel)
  let ?xs = "take sz (drop (sz * i) L)"
  let ?stop = "int (length ?xs) < int sz \<or> (maxItems > 0 \<and> int (sz * i) + int (length ?xs) \<ge> maxItems)"
  from Suc.prems(1) obtain r w1 errs2 w2 where p: "page (int i + 1) w = (Inr r, w1)" and st: "storePage (fn r) errs w1 = (Inr errs2, w2)"
    and c: "(if int (length (fn r)) < int sz \<or> (maxItems > 0 \<and> int (sz * i) + int (length (fn r)) \<ge> maxItems) then ret errs2
      else fetchPages fuel page fn (batchInsert s) (insert s) (int sz) maxItems (int i + 1) (int (sz * i) + int (length (fn r))) errs2) w2 = (Inr [], w')"
    unfolding fetchPages_Suc bindM_eq_Inr by blast
  have fr: "fn r = ?xs" and r1: "rows w1 = rows w" and "Q w1" using page [OF p Suc.prems(2)] by simp_all
  then have q2: "Q w2" using preserves_storePage [OF keep] st by (auto dest: preservesD)
  have "errs2 = [] \<or> (\<exists>t. fetchPages fuel page fn (batchInsert s) (insert s) (int sz) maxItems (int i + 1) t errs2 w2 = (Inr [], w'))"
    using c by (auto split: if_splits)
  then have "errs2 = []" by (auto dest: fetchPages_grows)
  then have "errs = []" using storePage_grows [OF st] by simp
  have xs: "set ?xs \<subseteq> set L" "distinct (map (uuid s) ?xs)"
    using dist by (auto dest: in_set_takeD in_set_dropD simp: take_map [symmetric] drop_map [symmetric] distinct_take distinct_drop simp del: take_map drop_map)
  have r2: "rows w2 = rows w1 ++ rowMap (uuid s) ?xs"
    using storePage_ok [of ?xs w1 w2] st own xs \<open>errs = []\<close> \<open>errs2 = []\<close> fr by auto
  have split: "take (sz * Suc i) L = take (sz * i) L @ ?xs"
    using take_add [of "sz * i" sz L] by (simp only: mult_Suc_right add.commute)
  have "distinct (map (uuid s) (take (sz * Suc i) L))" using dist by (metis distinct_take take_map)
  then have dj: "uuid s ` set (take (sz * i) L) \<inter> uuid s ` set ?xs = {}"
    unfolding split by (auto simp: inj_on_def)
  have rw2: "rows w2 = rowMap (uuid s) (take (sz * Suc i) L)"
    unfolding split rowMap_append r2 r1 Suc.prems(4) by (rule map_add_comm) (use dj in simp)
  show ?case
  proof (cases ?stop)
    case True
    then have "length L \<le> sz * Suc i" using max Suc.prems(3) by (auto simp: min_def simp del: of_nat_mult split: if_splits)
    moreover have "w' = w2" using True c by (simp add: fr del: length_take)
    ultimately show ?thesis using rw2 by simp
  next
    case False
    then have len: "length ?xs = sz" by auto
    then have "sz * Suc i \<le> length L" using Suc.prems(3) \<open>0 < sz\<close> by auto
    moreover have "fetchPages fuel page fn (batchInsert s) (insert s) (int sz) maxItems (int (Suc i)) (int (sz * Suc i)) errs2 w2 = (Inr [], w')"
    proof -
      have e: "int (Suc i) = int i + 1" "int (sz * Suc i) = int (sz * i) + int (length ?xs)"
        unfolding len by (simp_all add: algebra_simps)
      show ?thesis unfolding e using c False by (simp only: fr if_False)
    qed
    ultimately show ?thesis using Suc.IH rw2 q2 by blast
  qed
qed simp

lemma FullSync_ok:
  assumes full: "FullSync fuel CallApi s i w = (Inr (), w')"
    and page: "\<And>n w r w'. CallApi (reqApiRouter s) (fst (batchPageReq s i)) n (int sz) w = (Inr r, w') \<Longrightarrow> Q w \<Longrightarrow> 0 < n \<Longrightarrow>
      rows w' = rows w \<and> Q w' \<and> batchPageRespConvertFunc s r = take sz (drop (sz * nat (n - 1)) L)"
    and keep: "\<And>xs. preserves Q (batchInsert s xs)" "\<And>x. preserves Q (insert s x)" "preserves Q (deleteAll s i)" and "Q w"
    and sz: "snd (batchPageReq s i) = int sz" "0 < sz"
    and max: "int (length L) \<le> fullSyncLimit s \<or> fullSyncLimit s \<le> 0"
    and own: "\<forall>x\<in>set L. own x" and dist: "distinct (map (uuid s) L)"
  shows "rows w' = rowMap (uuid s) L"
proof -
  from full obtain w1 where del: "deleteAll s i w = (Inr (), w1)"
    and fetch: "FetchAndInsertPagedData fuel CallApi (reqApiRouter s) (batchPageReq s i) (batchPageRespConvertFunc s) (batchInsert s)
      (insert s) (fullSyncLimit s) w1 = (Inr (), w')"
    by (auto simp: FullSync_def bind_tryM_Inr)
  let ?fetch = "fetchPages fuel (\<lambda>n. CallApi (reqApiRouter s) (fst (batchPageReq s i)) n (int sz)) (batchPageRespConvertFunc s) (batchInsert s)
      (insert s) (int sz) (fullSyncLimit s) (int 0) (int (sz * 0)) []"
  from fetch obtain el w2 where el: "?fetch w1 = (Inr el, w2)" and c: "(case el of e # es \<Rightarrow> throw e | [] \<Rightarrow> ret ()) w2 = (Inr (), w')"
    using sz by (auto simp: FetchAndInsertPagedData_def Let_def bindM_eq_Inr)
  then have f: "?fetch w1 = (Inr [], w2)" and w2: "w' = w2" by (auto split: list.splits)
  have "rows w1 = rowMap (uuid s) (take (sz * 0) L)" using deleteAll_ok [OF del] by simp
  moreover have "Q w1" using preservesD [OF keep(3) \<open>Q w\<close> del] .
  ultimately show ?thesis using fetchPages_ok [OF page keep(1,2) max sz(2) own dist f] by (simp add: w2)
qed

lemma keeps_fetchPages:
  assumes "\<And>n. keeps Q (page n)" and "\<And>xs. preserves Q (batchInsert s xs)" and "\<And>x. preserves Q (insert s x)"
  shows "keeps Q (fetchPages fuel page fn (batchInsert s) (insert s) sn maxItems i tot errs)"
proof (induction fuel arbitrary: i tot errs)
  case (Suc fuel)
  have "keeps Q (storePage xs errs)" for xs errs by (rule keeps_preserves [OF preserves_storePage [OF assms(2,3)]])
  then show ?case unfolding fetchPages_Suc by (intro keeps_rules assms(1) Suc.IH)
qed (simp add: keeps_rules)

lemma keeps_FullSync:
  assumes "\<And>n m. keeps Q (CallApi (reqApiRouter s) (fst (batchPageReq s i)) n m)" and "\<And>xs. preserves Q (batchInsert s xs)"
    and "\<And>x. preserves Q (insert s x)" and "preserves Q (deleteAll s i)"
  shows "keeps Q (FullSync fuel CallApi s i)"
proof -
  have "keeps Q (FetchAndInsertPagedData fuel CallApi (reqApiRouter s) (batchPageReq s i) (batchPageRespConvertFunc s) (batchInsert s)
      (insert s) (fullSyncLimit s))"
    unfolding FetchAndInsertPagedData_def Let_def
    by (intro keeps_bind keeps_fetchPages assms) (auto split: list.split intro: keeps_rules)
  then show ?thesis unfolding FullSync_def by (intro keeps_rules keeps_preserves [OF assms(4)])
qed

end

section \<open>Incremental synchronisation\<close>

lemma map_of_updates:
  "map_of (foldl (\<lambda>kv x. AList.update (f x) x kv) kv xs) = map_of kv ++ map_of (rev (map (\<lambda>x. (f x, x)) xs))"
  by (induction xs arbitrary: kv) (simp_all add: map_add_def fun_eq_iff split: option.split)

lemma distinct_updates: "distinct_keys kv \<Longrightarrow> distinct_keys (foldl (\<lambda>kv x. AList.update (f x) x kv) kv xs)"
  by (induction xs arbitrary: kv) (simp_all add: distinct_update)

lemma keys_updates: "\<forall>(k, x)\<in>set kv. f x = k \<Longrightarrow> \<forall>(k, x)\<in>set (foldl (\<lambda>kv x. AList.update (f x) x kv) kv xs). f x = k"
proof (induction xs arbitrary: kv)
  case (Cons x xs)
  have "\<forall>(k, y)\<in>set (AList.update (f x) x kv). f y = k"
    using Cons.prems by (induction kv) auto
  then show ?case using Cons.IH by simp
qed simp

lemma foldl_filter: "foldl (\<lambda>kv id. filter (\<lambda>e. fst e \<noteq> id) kv) kv dels = filter (\<lambda>e. fst e \<notin> set dels) kv"
  by (induction dels arbitrary: kv) (auto intro!: filter_cong)

lemma map_of_filter_keys: "map_of (filter (\<lambda>e. fst e \<notin> D) kv) = map_of kv |` (- D)"
  by (induction kv) (auto simp: fun_eq_iff restrict_map_def)

lemma mergedRows_ok:
  assumes "slice_ok T" and "distinct (map (Key o') local)" and "distinct (map (Key o') (changes @ ins))"
  shows "map_of (mergedRows T o' local changes ins dels) = applyReply dels (rowMap (Key o') (changes @ ins)) (rowMap (Key o') local)"
    and "distinct_keys (mergedRows T o' local changes ins dels)"
    and "\<forall>(k, x)\<in>set (mergedRows T o' local changes ins dels). Key o' x = k"
proof -
  let ?kv = "SliceToMap T (Key o') local"
  have kv: "distinct_keys ?kv" "map_of ?kv = rowMap (Key o') local" using SliceToMap_ok assms(1,2) by blast+
  have keys: "\<forall>(k, x)\<in>set ?kv. Key o' x = k"
    using kv by (auto dest!: map_of_is_SomeI [OF kv(1)] dest: rowMap_key)
  show "map_of (mergedRows T o' local changes ins dels) = applyReply dels (rowMap (Key o') (changes @ ins)) (rowMap (Key o') local)"
    by (simp only: mergedRows_def Let_def foldl_filter map_of_filter_keys map_of_updates kv rowMap_rev [OF assms(3)] applyReply_def)
  show "distinct_keys (mergedRows T o' local changes ins dels)"
    by (simp add: mergedRows_def foldl_filter distinct_map_filter distinct_updates kv(1))
  show "\<forall>(k, x)\<in>set (mergedRows T o' local changes ins dels). Key o' x = k"
    using keys_updates [OF keys, of "changes @ ins"] by (simp add: mergedRows_def foldl_filter)
qed

text \<open>The version of a table that is kept: its id and number, zero when there is none.\<close>

definition keptVersion :: "string \<Rightarrow> string \<Rightarrow> 'e client_world_scheme \<Rightarrow> string \<times> nat" where
  "keptVersion table entity w = (case List.find (versionRow table entity) (versionTable w) of
     None \<Rightarrow> ('''', 0) | Some lv \<Rightarrow> (lvVersionID lv, lvVersion lv))"

lemma find_map_same: "(\<And>x. P (f x) = P x) \<Longrightarrow> List.find P (map f xs) = map_option f (List.find P xs)"
  by (induction xs) auto

lemma find_append_new: "List.find P xs = None \<Longrightarrow> P x \<Longrightarrow> List.find P (xs @ [x]) = Some x"
  by (induction xs) (auto split: if_splits)

lemma updatesNonZero_kept:
  "lvTable lv \<noteq> '''' \<Longrightarrow> lvEntityID lv \<noteq> '''' \<Longrightarrow> lvVersionID lv \<noteq> '''' \<Longrightarrow> 0 < lvVersion lv \<Longrightarrow>
   SetVersionSync lv w = (Inr u, w') \<Longrightarrow> keptVersion (lvTable lv) (lvEntityID lv) w' = (lvVersionID lv, lvVersion lv)"
proof -
  assume nz: "lvTable lv \<noteq> ''''" "lvEntityID lv \<noteq> ''''" "lvVersionID lv \<noteq> ''''" "0 < lvVersion lv"
    and set: "SetVersionSync lv w = (Inr u, w')"
  let ?P = "versionRow (lvTable lv) (lvEntityID lv)"
  have up: "?P (updatesNonZero lv r)" for r using nz by (simp add: versionRow_def updatesNonZero_def)
  show ?thesis
  proof (cases "List.find ?P (versionTable w)")
    case None
    then have "versionTable w' = versionTable w @ [lv]" using set by (auto simp: SetVersionSync_def bindM_eq_Inr io_Inr)
    then show ?thesis using find_append_new [OF None, of lv] by (simp add: keptVersion_def versionRow_def)
  next
    case (Some ex)
    then have ex: "lvTable ex = lvTable lv" "lvEntityID ex = lvEntityID lv" by (auto simp: find_Some_iff versionRow_def)
    have "versionTable w' = map (\<lambda>r. if ?P r then updatesNonZero lv r else r) (versionTable w)"
      using set Some by (auto simp: SetVersionSync_def bindM_eq_Inr io_Inr ex)
    moreover have "?P (if ?P r then updatesNonZero lv r else r) = ?P r" for r using up by simp
    ultimately have "List.find ?P (versionTable w') = Some (if ?P ex then updatesNonZero lv ex else ex)"
      by (simp add: find_map_same Some)
    moreover have "?P ex" using ex by (simp add: versionRow_def)
    ultimately show ?thesis using nz by (simp add: keptVersion_def updatesNonZero_def)
  qed
qed

text \<open>
  The contract of an incremental synchroniser: its table as above, with a key inside the primary key, its local rows, and a table of versions
  apart from the rows. In a well-formed state the primary key is unique.
\<close>

locale version_sync = full_table T s rows own
  for T :: "('v, 'k) slice_tools" and s :: "('e client_world_scheme, 'v, 'k, 'q, 'resp) Syncer"
    and rows :: "'e client_world_scheme \<Rightarrow> 'k \<rightharpoonup> 'v" and own :: "'v \<Rightarrow> bool" +
  fixes o' :: "('e client_world_scheme, 'v, 'r, 'x) VersionSynchronizer" and emb :: "string \<Rightarrow> 'k"
    and wf :: "'e client_world_scheme \<Rightarrow> bool"
  assumes emb_key: "own x \<Longrightarrow> uuid s x = emb (Key o' x)"
    and emb_inj: "emb j = emb k \<Longrightarrow> j = k"
    and local_rows: "Local o' w = (Inr xs, w') \<Longrightarrow> wf w \<Longrightarrow>
      rows w' = rows w \<and> rows w = rowMap (uuid s) xs \<and> distinct (map (uuid s) xs) \<and> (\<forall>x\<in>set xs. own x)"
    and syncer_fn: "SyncerFn o' = (\<lambda>server local. Sync T s server local None [])"
    and no_extra: "ExtraData o' = None"
    and rows_versions: "rows (w\<lparr>versionTable := vt\<rparr>) = rows w"
    and rows_opno: "rows (w\<lparr>opno := n\<rparr>) = rows w"
    and wf_opno: "wf (w\<lparr>opno := n\<rparr>) = wf w"
begin

definition vals :: "'e client_world_scheme \<Rightarrow> string \<rightharpoonup> 'v" where
  "vals w k = rows w (emb k)"

lemma keys_inj: "\<forall>x\<in>set xs. own x \<Longrightarrow> distinct (map (uuid s) xs) = distinct (map (Key o') xs)"
proof -
  assume "\<forall>x\<in>set xs. own x"
  then have eq: "map (uuid s) xs = map emb (map (Key o') xs)" by (auto simp: emb_key)
  have "distinct (map emb ys) = distinct ys" for ys using emb_inj by (auto simp: distinct_map inj_on_def)
  then show ?thesis unfolding eq .
qed

lemma rowMap_emb: "\<forall>x\<in>set xs. own x \<Longrightarrow> rowMap (uuid s) xs (emb k) = rowMap (Key o') xs k"
  by (induction xs) (auto simp: rowMap_Cons emb_key dest: emb_inj)

lemma getVersionInfo_rows: "getVersionInfo o' w = (Inr lvs, w') \<Longrightarrow> rows w' = rows w \<and> wf w' = wf w"
  by (auto simp: getVersionInfo_def GetVersionSync_def bindM_eq_Inr io_Inr rows_opno wf_opno split: option.splits if_splits)

lemma updateVersionInfo_rows: "updateVersionInfo o' lvs resp w = (Inr u, w') \<Longrightarrow> rows w' = rows w"
  by (auto simp: updateVersionInfo_def SetVersionSync_def bindM_eq_Inr io_Inr rows_opno rows_versions split: option.splits)

lemma applyChanges_ok:
  assumes "applyChanges T1 o' lvs resp None w = (Inr lvs', w')" and tools: "slice_ok T" "slice_ok T1" and "wf w"
    and fullID: "\<And>w ids w'. FullID o' w = (Inr ids, w') \<Longrightarrow> rows w' = rows w"
    and own: "\<forall>x\<in>set (UpdateOf o' resp @ InsertOf o' resp). own x" and dist: "distinct (map (Key o') (UpdateOf o' resp @ InsertOf o' resp))"
  shows "vals w' = applyReply (DeleteIDs o' resp) (rowMap (Key o') (UpdateOf o' resp @ InsertOf o' resp)) (vals w)"
proof -
  let ?upd = "UpdateOf o' resp" and ?ins = "InsertOf o' resp" and ?del = "DeleteIDs o' resp"
  from assms(1) obtain local w1 w2 where l: "Local o' w = (Inr local, w1)"
    and sy: "Sync T s (MapValues T1 (mergedRows T1 o' local ?upd ?ins ?del)) local None [] w1 = (Inr (), w2)"
    and r2: "rows w' = rows w2"
    by (auto simp: applyChanges_def Let_def bindM_eq_Inr syncer_fn split: option.splits if_splits dest: fullID)
  have lr: "rows w = rowMap (uuid s) local" "distinct (map (uuid s) local)" "\<forall>x\<in>set local. own x" "rows w1 = rows w"
    using local_rows [OF l \<open>wf w\<close>] by auto
  have r1: "rows w1 = rowMap (uuid s) local" using lr(1,4) by simp
  have dl: "distinct (map (Key o') local)" using lr(2,3) keys_inj by simp
  let ?m = "mergedRows T1 o' local ?upd ?ins ?del"
  note m = mergedRows_ok [OF tools(2) dl dist, of ?del]
  have mv: "mset (MapValues T1 ?m) = mset (map snd ?m)" using tools(2) m(2) by (simp add: slice_ok_def)
  then have sv: "set (MapValues T1 ?m) = set (map snd ?m)" by (metis set_mset_mset)
  have keym: "map (Key o') (map snd ?m) = map fst ?m" using m(3) by (auto simp: case_prod_beta)
  have "distinct (map (Key o') (MapValues T1 ?m)) = distinct (map (Key o') (map snd ?m))"
    by (rule mset_eq_imp_distinct_iff) (simp add: mv image_mset.compositionality comp_def)
  then have dk: "distinct (map (Key o') (MapValues T1 ?m))" unfolding keym using m(2) by simp
  have ownv: "\<forall>x\<in>set (MapValues T1 ?m). own x"
  proof
    fix x
    assume "x \<in> set (MapValues T1 ?m)"
    then obtain k where "(k, x) \<in> set ?m" using sv by auto
    then have "map_of ?m k = Some x" using m(2) by simp
    then have "(rowMap (Key o') local ++ rowMap (Key o') (?upd @ ?ins)) k = Some x"
      unfolding m(1) applyReply_def by (auto simp: restrict_map_def split: if_splits)
    then show "own x" using lr(3) own by (auto dest: rowMap_key)
  qed
  have "rows w2 = rowMap (uuid s) (MapValues T1 ?m)"
    by (rule Sync_ok [OF sy _ r1 lr(2,3) _ ownv tools(1)]) (use dk keys_inj [OF ownv] in simp_all)
  then have "vals w' k = rowMap (Key o') (MapValues T1 ?m) k" for k
    by (simp add: vals_def r2 rowMap_emb [OF ownv])
  moreover have "rowMap (Key o') (MapValues T1 ?m) = map_of ?m"
  proof (rule ext)
    fix k
    show "rowMap (Key o') (MapValues T1 ?m) k = map_of ?m k"
    proof (rule option_eqI)
      fix x
      have "rowMap (Key o') (MapValues T1 ?m) k = Some x \<longleftrightarrow> x \<in> snd ` set ?m \<and> Key o' x = k"
        by (simp add: rowMap_set [OF dk] sv)
      also have "\<dots> \<longleftrightarrow> (k, x) \<in> set ?m" using m(3) by force
      also have "\<dots> \<longleftrightarrow> map_of ?m k = Some x" using m(2) by simp
      finally show "rowMap (Key o') (MapValues T1 ?m) k = Some x \<longleftrightarrow> map_of ?m k = Some x" .
    qed
  qed
  moreover have "vals w = rowMap (Key o') local"
    by (rule ext) (simp add: vals_def lr(1) rowMap_emb [OF lr(3)])
  ultimately have "vals w' = map_of ?m" and "vals w = rowMap (Key o') local" by (simp_all add: fun_eq_iff)
  then show ?thesis by (simp only: m(1))
qed

lemma getVersionInfo_kept:
  "getVersionInfo o' w = (Inr lvs, w') \<Longrightarrow> (lvVersionID lvs, lvVersion lvs) = keptVersion (TableName o') (EntityID o') w \<and> w' = w\<lparr>opno := Suc (opno w)\<rparr>"
  by (auto simp: getVersionInfo_def GetVersionSync_def bindM_eq_Inr io_Inr keptVersion_def zeroVersionSync_def split: option.splits if_splits)

lemma updateVersionInfo_kept:
  assumes "updateVersionInfo o' lvs resp w = (Inr u, w')" and "fst (Version o' resp) \<noteq> ''''" and "0 < snd (Version o' resp)"
    and "TableName o' \<noteq> ''''" and "EntityID o' \<noteq> ''''"
  shows "keptVersion (TableName o') (EntityID o') w' = Version o' resp"
  using updatesNonZero_kept [OF _ _ _ _ assms(1) [unfolded updateVersionInfo_def]] assms(2-5) by simp

lemma keeps_applyChanges:
  assumes "keeps P (Local o')" and "\<And>server local. keeps P (SyncerFn o' server local)" and "keeps P (FullID o')"
  shows "keeps P (applyChanges T1 o' lvs resp None)"
  unfolding applyChanges_def Let_def by (auto intro!: keeps_rules assms)

lemma keeps_updateVersionInfo:
  assumes "\<And>w n. P w \<Longrightarrow> P (w\<lparr>opno := n\<rparr>)" and "\<And>w vt. P w \<Longrightarrow> P (w\<lparr>versionTable := vt\<rparr>)"
  shows "keeps P (updateVersionInfo o' lvs resp)"
  unfolding updateVersionInfo_def SetVersionSync_def
  by (intro keeps_bind keeps_case_option keeps_io keeps_gets keeps_modifyM assms)

text \<open>A synchronisation that returns: the reply it got, what it made of the rows, and the version it keeps.\<close>

lemma IncrementalSync_ok:
  assumes "IncrementalSync T1 o' w = (Inr (), w')" and "ServerVersion o' = None" and tools: "slice_ok T" "slice_ok T1" and "wf w"
    and fullID: "\<And>w ids w'. FullID o' w = (Inr ids, w') \<Longrightarrow> rows w' = rows w"
    and server: "\<And>lvs w resp w'. Server o' lvs w = (Inr resp, w') \<Longrightarrow> rows w' = rows w \<and> versionTable w' = versionTable w \<and> (wf w \<longrightarrow> wf w')"
    and reply: "\<And>lvs resp w2. Server o' lvs (w\<lparr>opno := Suc (opno w)\<rparr>) = (Inr resp, w2) \<Longrightarrow> (lvVersionID lvs, lvVersion lvs) = keptVersion (TableName o') (EntityID o') w \<Longrightarrow> \<not> Full o' resp \<Longrightarrow>
      (\<forall>x\<in>set (UpdateOf o' resp @ InsertOf o' resp). own x) \<and> distinct (map (Key o') (UpdateOf o' resp @ InsertOf o' resp))"
  obtains lvs resp w2 where "(lvVersionID lvs, lvVersion lvs) = keptVersion (TableName o') (EntityID o') w" "Server o' lvs (w\<lparr>opno := Suc (opno w)\<rparr>) = (Inr resp, w2)"
    "\<not> Full o' resp \<Longrightarrow> vals w' = applyReply (DeleteIDs o' resp) (rowMap (Key o') (UpdateOf o' resp @ InsertOf o' resp)) (vals w)"
    "Full o' resp \<Longrightarrow> \<exists>w3. FullSyncer o' w2 = (Inr (), w3) \<and> vals w' = vals w3"
    "\<And>P. keeps P (Local o') \<Longrightarrow> (\<And>server local. keeps P (SyncerFn o' server local)) \<Longrightarrow> keeps P (FullSyncer o') \<Longrightarrow> keeps P (FullID o') \<Longrightarrow>
      (\<And>w n. P w \<Longrightarrow> P (w\<lparr>opno := n\<rparr>)) \<Longrightarrow> (\<And>w vt. P w \<Longrightarrow> P (w\<lparr>versionTable := vt\<rparr>)) \<Longrightarrow> P w2 \<Longrightarrow> P w'"
    "keptVersion (TableName o') (EntityID o') w' = keptVersion (TableName o') (EntityID o') w \<and> \<not> Full o' resp \<or> (\<exists>lvs' w4. updateVersionInfo o' lvs' resp w4 = (Inr (), w'))"
proof -
  from assms(1,2) obtain lvs w1 resp w2 where g: "getVersionInfo o' w = (Inr lvs, w1)" and sv: "Server o' lvs w1 = (Inr resp, w2)"
    and c: "(if noChange o' resp None then ret ()
     else bindM (if Full o' resp
         then thenM (FullSyncer o') (bindM (FullID o') (\<lambda>ids. ret (lvs\<lparr>lvUIDList := ids\<rparr>)))
         else applyChanges T1 o' lvs resp None) (\<lambda>lvs. updateVersionInfo o' lvs resp)) w2 = (Inr (), w')"
    unfolding IncrementalSync_def by (auto simp: bindM_eq_Inr Let_def extraOf_def no_extra)
  have r2: "rows w2 = rows w" "versionTable w2 = versionTable w" "wf w2"
    using getVersionInfo_rows [OF g] getVersionInfo_kept [OF g] server [OF sv] \<open>wf w\<close> by simp_all
  then have v2: "vals w2 = vals w" by (simp add: vals_def fun_eq_iff)
  have kept: "(lvVersionID lvs, lvVersion lvs) = keptVersion (TableName o') (EntityID o') w" and w1: "w1 = w\<lparr>opno := Suc (opno w)\<rparr>"
    using getVersionInfo_kept [OF g] by simp_all
  note sv1 = sv [unfolded w1]
  show ?thesis
  proof (cases "noChange o' resp None")
    case True
    then have "w' = w2" using c by simp
    moreover have "\<not> Full o' resp" "DeleteIDs o' resp = []" "UpdateOf o' resp = []" "InsertOf o' resp = []"
      using True by (simp_all add: noChange_def)
    ultimately show ?thesis
      by (intro that [OF kept sv1]) (simp_all add: v2 r2(2) applyReply_def keptVersion_def restrict_map_def)
  next
    case False
    then obtain lvs' w4 where m: "(if Full o' resp
         then thenM (FullSyncer o') (bindM (FullID o') (\<lambda>ids. ret (lvs\<lparr>lvUIDList := ids\<rparr>)))
         else applyChanges T1 o' lvs resp None) w2 = (Inr lvs', w4)" and u: "updateVersionInfo o' lvs' resp w4 = (Inr (), w')"
      using c by (auto simp: bindM_eq_Inr)
    have v4: "vals w' = vals w4" using updateVersionInfo_rows [OF u] by (simp add: vals_def fun_eq_iff)
    show ?thesis
    proof (rule that [OF kept sv1])
      show "vals w' = applyReply (DeleteIDs o' resp) (rowMap (Key o') (UpdateOf o' resp @ InsertOf o' resp)) (vals w)" if "\<not> Full o' resp"
        using applyChanges_ok [OF _ tools r2(3) fullID, of lvs resp lvs' w4] reply [OF sv1 kept that] m that v2 v4 by simp
      show "\<exists>w3. FullSyncer o' w2 = (Inr (), w3) \<and> vals w' = vals w3" if "Full o' resp"
        using m that v4 by (auto simp: bindM_eq_Inr vals_def fun_eq_iff dest: fullID)
      show "P w'" if k: "keeps P (Local o')" "\<And>server local. keeps P (SyncerFn o' server local)" "keeps P (FullSyncer o')" "keeps P (FullID o')"
        and "\<And>w n. P w \<Longrightarrow> P (w\<lparr>opno := n\<rparr>)" and "\<And>w vt. P w \<Longrightarrow> P (w\<lparr>versionTable := vt\<rparr>)" and "P w2" for P
      proof -
        have "keeps P (if Full o' resp
           then thenM (FullSyncer o') (bindM (FullID o') (\<lambda>ids. ret (lvs\<lparr>lvUIDList := ids\<rparr>)))
           else applyChanges T1 o' lvs resp None)"
          by (intro keeps_rules keeps_applyChanges k)
        then have "P w4" using that(7) m by (rule keepsD)
        with keeps_updateVersionInfo [OF that(5,6)] show "P w'" using u by (rule keepsD)
      qed
    qed (use u in blast)
  qed
qed

end

end
