(* ===== verification/Sdk_Friends_Props.thy ===== *)
theory Sdk_Friends_Props
  imports Sdk_Friends Syncer_Props
begin

text \<open>
  The friend table of a client satisfies the contracts of the synchronisers: what the generic lemmas say of a synchronised table holds of it. The rows are
  those of the user who is logged in.
\<close>

definition ownFriend :: "string \<Rightarrow> LocalFriend \<Rightarrow> bool" where
  "ownFriend login f \<longleftrightarrow> lfOwnerUserID f = login"

definition ownFriends :: "string \<Rightarrow> 'e sdk_world_scheme \<Rightarrow> LocalFriend list" where
  "ownFriends login w = filter (ownFriend login) (localFriends w)"

definition friendRows :: "string \<Rightarrow> 'e sdk_world_scheme \<Rightarrow> string \<times> string \<rightharpoonup> LocalFriend" where
  "friendRows login w = rowMap friendKey (ownFriends login w)"

text \<open>The primary key of the table is unique.\<close>

definition friendTable :: "'e sdk_world_scheme \<Rightarrow> bool" where
  "friendTable w \<longleftrightarrow> distinct (map friendKey (localFriends w))"

section \<open>The operations keep the primary key\<close>

lemma friendTable_env [simp]:
  "friendTable (w\<lparr>opno := n\<rparr>) = friendTable w" "friendTable (w\<lparr>versionTable := vt\<rparr>) = friendTable w"
  "friendTable (w\<lparr>events := ev\<rparr>) = friendTable w" "friendTable (w\<lparr>userCache := uc\<rparr>) = friendTable w"
  by (simp_all add: friendTable_def)

lemma friendTable_InsertFriend: "preserves friendTable (InsertFriend f)"
  unfolding InsertFriend_def by (rule preserves_io) (auto simp: preserves_def friendTable_def)

lemma friendTable_UpdateFriend: "preserves friendTable (UpdateFriend f)"
proof -
  have "map friendKey (map (\<lambda>g. if friendKey g = friendKey f then f else g) fs) = map friendKey fs" for fs by simp
  then show ?thesis
    unfolding UpdateFriend_def by (intro preserves_io) (auto simp: preserves_def friendTable_def simp del: map_map)
qed

lemma friendTable_DeleteFriendDB: "preserves friendTable (DeleteFriendDB login friend)"
  unfolding DeleteFriendDB_def by (rule preserves_io) (auto simp: preserves_def friendTable_def distinct_map_filter)

lemma friendTable_BatchInsertFriend: "preserves friendTable (BatchInsertFriend fs)"
  unfolding BatchInsertFriend_def by (rule preserves_io) (auto simp: preserves_def friendTable_def)

lemma friendTable_DeleteAllFriend: "preserves friendTable DeleteAllFriend"
  unfolding DeleteAllFriend_def by (rule preserves_io) (auto simp: preserves_def friendTable_def)

lemma friendTable_GetAllFriendList: "preserves friendTable (GetAllFriendList login)"
  unfolding GetAllFriendList_def by (rule preserves_io) (auto simp: preserves_def)

lemma friendTable_friendNotice: "preserves friendTable (friendNotice st a b)"
  by (cases st) (auto simp: preserves_def friendNotice_def event_def renameEvents_def Let_def)

lemmas friendTable_rules = friendTable_InsertFriend friendTable_UpdateFriend friendTable_DeleteFriendDB friendTable_BatchInsertFriend
  friendTable_friendNotice

lemma friendTable_Sync: "preserves friendTable (Sync T (friendSyncer login) server local None skips)"
  by (rule preserves_Sync)
    (auto simp: friendSyncer_def friendTable_rules simp del: bindM_modifyM intro!: preserves_bind preserves_modifyM)

section \<open>The contracts\<close>

lemma ownFriend_key: "ownFriend login f \<Longrightarrow> friendKey f = (login, lfFriendUserID f)"
  by (simp add: friendKey_def ownFriend_def)

lemma own_key: "friendKey f = friendKey g \<Longrightarrow> ownFriend login f = ownFriend login g"
  by (simp add: friendKey_def ownFriend_def)

lemma friendRows_dom: "dom (friendRows login w) = {k \<in> friendKey ` set (localFriends w). fst k = login}"
  by (auto simp: friendRows_def ownFriends_def ownFriend_def friendKey_def)

lemma friendRows_env [simp]:
  "friendRows login (w\<lparr>opno := n\<rparr>) = friendRows login w" "friendRows login (w\<lparr>versionTable := vt\<rparr>) = friendRows login w"
  "friendRows login (w\<lparr>userCache := uc\<rparr>) = friendRows login w" "friendRows login (w\<lparr>localFriends := []\<rparr>) = Map.empty"
  by (simp_all add: friendRows_def ownFriends_def)

lemma InsertFriend_rows:
  "InsertFriend f w = (Inr (), w') \<Longrightarrow> ownFriend login f \<Longrightarrow> friendRows login w' = (friendRows login w)(friendKey f \<mapsto> f)"
proof -
  assume ins: "InsertFriend f w = (Inr (), w')" and own: "ownFriend login f"
  then have lf: "localFriends w' = localFriends w @ [f]" and "friendKey f \<notin> friendKey ` set (localFriends w)"
    by (auto simp: InsertFriend_def io_Inr split: if_splits)
  then have none: "rowMap friendKey (ownFriends login w) (friendKey f) = None" by (auto simp: rowMap_None ownFriends_def)
  have "friendRows login w' = rowMap friendKey [f] ++ friendRows login w" using lf own by (simp add: friendRows_def ownFriends_def rowMap_append map_add_def)
  also have "\<dots> = (friendRows login w)(friendKey f \<mapsto> f)"
    using none by (auto simp: rowMap_Cons friendRows_def map_add_def fun_eq_iff split: option.split)
  finally show ?thesis .
qed

lemma rowMap_replace:
  "friendKey f \<in> friendKey ` set fs \<Longrightarrow>
   rowMap friendKey (map (\<lambda>g. if friendKey g = friendKey f then f else g) fs) = (rowMap friendKey fs)(friendKey f \<mapsto> f)"
proof (induction fs)
  case (Cons g fs)
  show ?case
  proof (cases "friendKey f \<in> friendKey ` set fs")
    case True
    then show ?thesis using Cons.IH by (auto simp: rowMap_Cons)
  next
    case False
    then have "map (\<lambda>g. if friendKey g = friendKey f then f else g) fs = fs" by (intro map_idI) (metis imageI)
    then show ?thesis using Cons.prems False by (auto simp: rowMap_Cons)
  qed
qed simp

lemma UpdateFriend_rows:
  "UpdateFriend f w = (Inr (), w') \<Longrightarrow> ownFriend login f \<Longrightarrow> friendRows login w' = (friendRows login w)(friendKey f \<mapsto> f)"
proof -
  assume upd: "UpdateFriend f w = (Inr (), w')" and own: "ownFriend login f"
  let ?r = "\<lambda>g. if friendKey g = friendKey f then f else g"
  from upd have lf: "localFriends w' = map ?r (localFriends w)" and k: "friendKey f \<in> friendKey ` set (localFriends w)"
    by (auto simp: UpdateFriend_def io_Inr split: if_splits)
  have h: "friendKey g = friendKey f \<Longrightarrow> ownFriend login g" for g using own own_key [of g f login] by simp
  have "filter (ownFriend login) (map ?r fs) = map ?r (filter (ownFriend login) fs)" for fs
    by (induction fs) (auto simp: h)
  moreover have "friendKey f \<in> friendKey ` set (ownFriends login w)"
    using k h by (auto simp: ownFriends_def)
  ultimately show ?thesis by (simp add: friendRows_def ownFriends_def lf rowMap_replace)
qed

lemma DeleteFriendDB_rows:
  "DeleteFriendDB login (lfFriendUserID f) w = (Inr (), w') \<Longrightarrow> ownFriend login f \<Longrightarrow>
   friendRows login w' = (friendRows login w)(friendKey f := None)"
proof -
  assume del: "DeleteFriendDB login (lfFriendUserID f) w = (Inr (), w')" and "ownFriend login f"
  then have k: "friendKey f = (login, lfFriendUserID f)" by (simp add: ownFriend_key)
  have lf: "localFriends w' = filter (\<lambda>g. friendKey g \<noteq> friendKey f) (localFriends w)"
    using del by (auto simp: DeleteFriendDB_def io_Inr k)
  have "rowMap friendKey (filter P (filter (\<lambda>g. friendKey g \<noteq> friendKey f) fs)) = (rowMap friendKey (filter P fs))(friendKey f := None)" for P fs
    by (induction fs) (auto simp: rowMap_Cons)
  then show ?thesis by (simp add: friendRows_def ownFriends_def lf)
qed

lemma BatchInsertFriend_state:
  "BatchInsertFriend fs w = (r, w') \<Longrightarrow> \<forall>f\<in>set fs. ownFriend login f \<Longrightarrow>
   (friendRows login w' = friendRows login w \<and> r \<noteq> Inr ()) \<or> friendRows login w' = friendRows login w ++ rowMap friendKey fs"
proof -
  assume b: "BatchInsertFriend fs w = (r, w')" and own: "\<forall>f\<in>set fs. ownFriend login f"
  have ins: "friendRows login (w1\<lparr>localFriends := localFriends w @ fs\<rparr>) = friendRows login w ++ rowMap friendKey fs"
    if "friendKey ` set fs \<inter> friendKey ` set (localFriends w) = {}" for w1 :: "'a sdk_world_scheme"
  proof -
    have "filter (ownFriend login) fs = fs" using own by (simp add: filter_id_conv)
    then have "friendRows login (w1\<lparr>localFriends := localFriends w @ fs\<rparr>) = rowMap friendKey fs ++ friendRows login w"
      by (simp add: friendRows_def ownFriends_def rowMap_append)
    also have "\<dots> = friendRows login w ++ rowMap friendKey fs"
      by (rule map_add_comm) (use that in \<open>auto simp only: friendRows_dom dom_rowMap\<close>)
    finally show ?thesis .
  qed
  have opno: "friendRows login (w\<lparr>opno := n\<rparr>) = friendRows login w" for n by (simp add: friendRows_def ownFriends_def)
  show ?thesis using b ins opno
    by (auto simp: BatchInsertFriend_def io_def Let_def friendRows_def ownFriends_def split: fault.splits if_splits)
qed

lemma friendNotice_rows: "friendNotice st a b w = (Inr (), w') \<Longrightarrow> friendRows login w' = friendRows login w"
  by (cases st) (auto simp: friendNotice_def event_def renameEvents_def Let_def bindM_eq_Inr friendRows_def ownFriends_def split: if_splits)

lemma GetAllFriendList_rows:
  assumes "GetAllFriendList login w = (Inr fs, w')" and "friendTable w"
  shows "friendRows login w' = friendRows login w \<and> friendRows login w = rowMap friendKey fs \<and> distinct (map friendKey fs) \<and>
    (\<forall>f\<in>set fs. ownFriend login f)"
proof -
  have "fs = ownFriends login w" and "localFriends w' = localFriends w"
    using assms(1) by (auto simp: GetAllFriendList_def io_Inr ownFriends_def ownFriend_def [abs_def])
  then show ?thesis using assms(2) by (auto simp: friendRows_def ownFriends_def friendTable_def distinct_map_filter)
qed

interpretation friends: version_sync T2 "friendSyncer login" "friendRows login" "ownFriend login" "friendVersionSync T2 R login"
  "Pair login" friendTable
  for T2 :: "(LocalFriend, string \<times> string) slice_tools" and login :: string and R :: "'e sdk_world_scheme friend_calls"
  by unfold_locales
    (auto simp: friendSyncer_def friendVersionSync_def eq_def slice_ok_def bindM_eq_Inr DeleteAllFriend_def io_Inr friendNotice_rows
      ownFriend_key InsertFriend_rows UpdateFriend_rows DeleteFriendDB_rows dest: GetAllFriendList_rows BatchInsertFriend_state)

section \<open>Synchronising the friend list\<close>

lemma rowMap_eq_mset:
  assumes "rowMap f xs = rowMap f ys" and "distinct (map f xs)" and "distinct (map f ys)"
  shows "mset xs = mset ys"
proof -
  have "x \<in> set xs \<longleftrightarrow> x \<in> set ys" for x
    using rowMap_set [OF assms(2), of "f x" x] rowMap_set [OF assms(3), of "f x" x] assms(1) by simp
  then have "set xs = set ys" by blast
  with assms(2,3) show ?thesis using set_eq_iff_mset_eq_distinct distinct_map by blast
qed


definition simpleSlices :: "('t, 'k) slice_tools" where
  "simpleSlices = \<lparr>SliceToMap = (\<lambda>f xs. foldl (\<lambda>m x. AList.update (f x) x m) [] xs), MapValues = map snd,
     DeleteElems = (\<lambda>xs ys. map_option (filter (\<lambda>x. x \<notin> set ys)) xs), cmpEqual = (=)\<rparr>"

lemma simpleSlices_ok: "slice_ok simpleSlices"
  by (auto simp: slice_ok_def simpleSlices_def elemsOf_def map_of_updates distinct_updates split: option.split)

definition aFriend :: "string \<Rightarrow> string \<Rightarrow> string \<Rightarrow> LocalFriend" where
  "aFriend login f remark = zeroFriend\<lparr>lfOwnerUserID := login, lfFriendUserID := f, lfRemark := remark\<rparr>"

definition sdkWorld :: "LocalFriend list \<Rightarrow> sdk_world" where
  "sdkWorld fs = \<lparr>faults = (\<lambda>_. NoFault), opno = 0, clock = 0, rand = (\<lambda>_. 0), versionTable = [], localFriends = fs, userCache = [], events = []\<rparr>"


end
