(* ===== verification/Version_Log_Props.thy ===== *)
theory Version_Log_Props
  imports Version_Log
begin

text \<open>
  What a change log is for. A client has a copy of a table and the version of the log at the time it read it. The table changes, every
  change is logged. Then the part of the log above the client's version, which is what the client is sent, turns the client's copy into the
  table. The locale \<open>change_log\<close> is the contract between a log and its readers.
\<close>

section \<open>The contract\<close>

text \<open>
  An entry agrees with a table when it says what became of the element. The keys outside \<open>K\<close> are markers that stand for no element.
\<close>

definition entry_ok :: "(string \<rightharpoonup> 'v) \<Rightarrow> VersionLogElem \<Rightarrow> bool" where
  "entry_ok tab l \<longleftrightarrow> (vState l = VersionStateDelete \<and> tab (vEID l) = None) \<or>
     ((vState l = VersionStateInsert \<or> vState l = VersionStateUpdate) \<and> tab (vEID l) \<noteq> None)"

definition tracked :: "string set \<Rightarrow> VersionLogTable \<Rightarrow> nat \<Rightarrow> (string \<rightharpoonup> 'v) \<Rightarrow> (string \<rightharpoonup> 'v) \<Rightarrow> bool" where
  "tracked K D ver copy tab \<longleftrightarrow>
     (\<forall>l\<in>set (vtLogs D). ver < vElemVersion l \<longrightarrow> vEID l \<in> K \<longrightarrow> entry_ok tab l) \<and>
     (\<forall>k\<in>K. (\<forall>l\<in>set (vtLogs D). ver < vElemVersion l \<longrightarrow> vEID l \<noteq> k) \<longrightarrow> copy k = tab k)"

text \<open>A change of a table: it touches the named elements only, and its kind is right for all of them.\<close>

definition change_ok :: "string set \<Rightarrow> string list \<Rightarrow> int \<Rightarrow> (string \<rightharpoonup> 'v) \<Rightarrow> (string \<rightharpoonup> 'v) \<Rightarrow> bool" where
  "change_ok K eIds state old new \<longleftrightarrow> (\<forall>k\<in>K. k \<notin> set eIds \<longrightarrow> new k = old k) \<and>
     (state = VersionStateDelete \<and> (\<forall>k\<in>K \<inter> set eIds. new k = None) \<or>
      (state = VersionStateInsert \<or> state = VersionStateUpdate) \<and> (\<forall>k\<in>K \<inter> set eIds. new k \<noteq> None))"

definition versions_ok :: "VersionLogTable \<Rightarrow> bool" where
  "versions_ok D \<longleftrightarrow> (\<forall>l\<in>set (vtLogs D). vElemVersion l \<le> vtVersion D) \<and> vtDeleted D = DefaultDeleteVersion \<and> FirstVersion \<le> vtVersion D"

locale change_log =
  fixes wr :: "string list \<Rightarrow> int \<Rightarrow> int \<Rightarrow> VersionLogTable \<Rightarrow> VersionLogTable"
    and rd :: "nat \<Rightarrow> int \<Rightarrow> VersionLogTable \<Rightarrow> VersionLog"
  assumes write_versions: "versions_ok D \<Longrightarrow> versions_ok (wr eIds state t D)"
    and write_version: "vtVersion (wr eIds state t D) = Suc (vtVersion D)"
    and write_id: "vtID (wr eIds state t D) = vtID D \<and> vtDID (wr eIds state t D) = vtDID D"
    and write_entries: "l \<in> set (vtLogs (wr eIds state t D)) \<longleftrightarrow>
      (l \<in> set (vtLogs D) \<and> vEID l \<notin> set eIds) \<or>
      (vEID l \<in> set eIds \<and> l = \<lparr>vEID = vEID l, vState = state, vElemVersion = Suc (vtVersion D), vElemUpdate = t\<rparr>)"
    and read_doc: "vtID (rd ver limit D) = vtID D \<and> vtVersion (rd ver limit D) = vtVersion D"
    and read_entries: "versions_ok D \<Longrightarrow> 0 < ver \<Longrightarrow> ver \<le> vtVersion D \<Longrightarrow> int (length (vtLogs (rd ver limit D))) = vLogLen (rd ver limit D) \<Longrightarrow>
      vtLogs (rd ver limit D) = filter (\<lambda>l. ver < vElemVersion l) (vtLogs D)"
    and read_unlimited: "limit \<le> 0 \<Longrightarrow> int (length (vtLogs (rd ver limit D))) = vLogLen (rd ver limit D)"
begin

lemma tracked_now: "versions_ok D \<Longrightarrow> vtVersion D \<le> ver \<Longrightarrow> tracked K D ver tab tab"
  by (auto simp: tracked_def versions_ok_def)

lemma tracked_write:
  assumes "tracked K D ver copy old" and "change_ok K eIds state old new" and "ver \<le> vtVersion D"
  shows "tracked K (wr eIds state t D) ver copy new"
  unfolding tracked_def
proof (intro conjI ballI impI)
  fix l
  assume l: "l \<in> set (vtLogs (wr eIds state t D))" and "ver < vElemVersion l" and "vEID l \<in> K"
  show "entry_ok new l"
  proof (cases "vEID l \<in> set eIds")
    case True
    then have "vState l = state" using l unfolding write_entries by (metis VersionLogElem.select_convs(2))
    then show ?thesis using assms(2) True \<open>vEID l \<in> K\<close> by (auto simp: entry_ok_def change_ok_def)
  next
    case False
    then have "entry_ok old l" using l assms(1) \<open>ver < vElemVersion l\<close> \<open>vEID l \<in> K\<close> by (auto simp: write_entries tracked_def)
    moreover have "new (vEID l) = old (vEID l)" using assms(2) False \<open>vEID l \<in> K\<close> by (simp add: change_ok_def)
    ultimately show ?thesis by (simp only: entry_ok_def)
  qed
next
  fix k
  assume "k \<in> K" and none: "\<forall>l\<in>set (vtLogs (wr eIds state t D)). ver < vElemVersion l \<longrightarrow> vEID l \<noteq> k"
  let ?e = "\<lparr>vEID = k, vState = state, vElemVersion = Suc (vtVersion D), vElemUpdate = t\<rparr>"
  have nk: "k \<notin> set eIds"
  proof
    assume "k \<in> set eIds"
    then have "?e \<in> set (vtLogs (wr eIds state t D))" by (simp add: write_entries)
    with none have "ver < vElemVersion ?e \<longrightarrow> vEID ?e \<noteq> k" by blast
    then show False using assms(3) by simp
  qed
  then have "\<forall>l\<in>set (vtLogs D). ver < vElemVersion l \<longrightarrow> vEID l \<noteq> k" using none by (auto simp: write_entries)
  then show "copy k = new k" using assms(1,2) \<open>k \<in> K\<close> nk by (simp add: tracked_def change_ok_def)
qed

text \<open>The ids of a log, by kind.\<close>

lemma DeleteAndChangeIDs_loop_append:
  "DeleteAndChangeIDs_loop ls (i, d, u) =
     (i @ map vEID (filter (\<lambda>l. vState l = VersionStateInsert) ls),
      d @ map vEID (filter (\<lambda>l. vState l = VersionStateDelete) ls),
      u @ map vEID (filter (\<lambda>l. vState l = VersionStateUpdate) ls))"
  by (induction ls arbitrary: i d u) (simp_all add: VersionStateInsert_def VersionStateDelete_def VersionStateUpdate_def)

lemma DeleteAndChangeIDs_ids:
  "DeleteAndChangeIDs v = (map vEID (filter (\<lambda>l. vState l = VersionStateInsert) (vtLogs v)),
     map vEID (filter (\<lambda>l. vState l = VersionStateDelete) (vtLogs v)), map vEID (filter (\<lambda>l. vState l = VersionStateUpdate) (vtLogs v)))"
  by (simp add: DeleteAndChangeIDs_def DeleteAndChangeIDs_loop_append)

lemma reply_entries:
  assumes "tracked K D ver copy tab" and "k \<in> K"
    and ins: "set ids = vEID ` {l \<in> set (vtLogs D). ver < vElemVersion l \<and> (vState l = VersionStateInsert \<or> vState l = VersionStateUpdate)} \<inter> K"
    and del: "set dels \<inter> K = vEID ` {l \<in> set (vtLogs D). ver < vElemVersion l \<and> vState l = VersionStateDelete} \<inter> K"
  shows "applyReply dels (tab |` set ids) copy k = tab k"
proof (cases "\<exists>l\<in>set (vtLogs D). ver < vElemVersion l \<and> vEID l = k")
  case True
  then obtain l where l: "l \<in> set (vtLogs D)" "ver < vElemVersion l" "vEID l = k" by blast
  have ok: "entry_ok tab m" if "m \<in> set (vtLogs D)" "ver < vElemVersion m" "vEID m = k" for m
    using assms(1,2) that by (auto simp: tracked_def)
  show ?thesis
  proof (cases "tab k")
    case None
    then have "vState l = VersionStateDelete" using ok [OF l] l(3) by (simp add: entry_ok_def)
    then have "k \<in> vEID ` {l \<in> set (vtLogs D). ver < vElemVersion l \<and> vState l = VersionStateDelete} \<inter> K" using l assms(2) by blast
    then have "k \<in> set dels" using del by blast
    then show ?thesis using None by (simp add: applyReply_def restrict_map_def)
  next
    case (Some x)
    then have st: "vState m \<noteq> VersionStateDelete" "vState m = VersionStateInsert \<or> vState m = VersionStateUpdate"
      if "m \<in> set (vtLogs D)" "ver < vElemVersion m" "vEID m = k" for m
      using ok [OF that] that(3) by (auto simp: entry_ok_def VersionStateInsert_def VersionStateDelete_def VersionStateUpdate_def)
    have "k \<notin> vEID ` {l \<in> set (vtLogs D). ver < vElemVersion l \<and> vState l = VersionStateDelete} \<inter> K" using st(1) by auto
    then have "k \<notin> set dels" using del assms(2) by (metis IntI)
    moreover have "k \<in> set ids" unfolding ins using st(2) [OF l] l assms(2) by (intro IntI image_eqI [of _ _ l]) simp_all
    ultimately show ?thesis using Some by (simp add: applyReply_def restrict_map_def map_add_def)
  qed
next
  case False
  then have "copy k = tab k" using assms(1,2) by (auto simp: tracked_def)
  moreover have "k \<notin> set ids" unfolding ins using False by auto
  moreover have "k \<notin> set dels"
  proof
    assume "k \<in> set dels"
    then have "k \<in> set dels \<inter> K" using assms(2) by simp
    then show False unfolding del using False by auto
  qed
  ultimately show ?thesis by (simp add: applyReply_def restrict_map_def map_add_def)
qed

lemma reply_ok:
  assumes "tracked UNIV D ver copy tab" and "versions_ok D" and "0 < ver" and "ver \<le> vtVersion D"
    and full: "int (length (vtLogs (rd ver limit D))) = vLogLen (rd ver limit D)"
    and ids: "DeleteAndChangeIDs (rd ver limit D) = (ins, dels, upds)"
  shows "applyReply dels (tab |` set (ins @ upds)) copy = tab"
proof (rule ext)
  fix k
  have "set (ins @ upds) = vEID ` {l \<in> set (vtLogs D). ver < vElemVersion l \<and> (vState l = VersionStateInsert \<or> vState l = VersionStateUpdate)} \<inter> UNIV"
    and "set dels \<inter> UNIV = vEID ` {l \<in> set (vtLogs D). ver < vElemVersion l \<and> vState l = VersionStateDelete} \<inter> UNIV"
    using ids read_entries [OF assms(2,3,4) full] by (auto simp: DeleteAndChangeIDs_ids)
  then show "applyReply dels (tab |` set (ins @ upds)) copy k = tab k" by (intro reply_entries [OF assms(1)]) auto
qed

end

interpretation vlog: change_log writeLogUpdate changeLogOf
proof
  fix D :: VersionLogTable and eIds state t ver limit l
  show "versions_ok D \<Longrightarrow> versions_ok (writeLogUpdate eIds state t D)"
    by (auto simp: versions_ok_def writeLogUpdate_def Let_def)
  show "l \<in> set (vtLogs (writeLogUpdate eIds state t D)) \<longleftrightarrow>
      (l \<in> set (vtLogs D) \<and> vEID l \<notin> set eIds) \<or>
      (vEID l \<in> set eIds \<and> l = \<lparr>vEID = vEID l, vState = state, vElemVersion = Suc (vtVersion D), vElemUpdate = t\<rparr>)"
    by (cases l) (auto simp: writeLogUpdate_def Let_def)
  show "versions_ok D \<Longrightarrow> 0 < ver \<Longrightarrow> ver \<le> vtVersion D \<Longrightarrow> int (length (vtLogs (changeLogOf ver limit D))) = vLogLen (changeLogOf ver limit D) \<Longrightarrow>
      vtLogs (changeLogOf ver limit D) = filter (\<lambda>l. ver < vElemVersion l) (vtLogs D)"
    by (auto simp: versions_ok_def changeLogOf_def Let_def VersionLogTable.defs DefaultDeleteVersion_def split: if_splits)
qed (simp_all add: writeLogUpdate_def Let_def changeLogOf_def VersionLogTable.defs)

section \<open>The log of an owner\<close>

text \<open>Writing changes the owner's document alone and keeps what a reader knows.\<close>

lemma find_updFirst_same: "(\<And>x. P (f x) = P x) \<Longrightarrow> List.find P (updFirst P f xs) = map_option f (List.find P xs)"
  by (induction xs) auto

lemma writeLogBatch2_some:
  assumes "findVersion coll dId w = Some D" and "writeLogBatch2 coll dId eIds state t w = (r, w')"
  shows "(\<exists>vl. r = Inr vl \<and> findVersion coll dId w' = Some (writeLogUpdate eIds state t D) \<and> vtID vl = vtID D \<and> vtDID vl = vtDID D \<and>
    vtVersion vl = Suc (vtVersion D)) \<or> r = Inl ErrIO"
proof -
  have opno: "findVersion coll dId (w\<lparr>opno := n\<rparr>) = Some D" for n using assms(1) by (simp add: findVersion_def)
  have upd: "findVersion coll dId (setVersionDocs coll (updFirst (\<lambda>d. vtDID d = dId) (writeLogUpdate eIds state t)) (w\<lparr>opno := n\<rparr>)) =
      Some (writeLogUpdate eIds state t D)" for n
    using assms(1) by (simp add: findVersion_def setVersionDocs_def find_updFirst vlog.write_id)
  show ?thesis
    using assms(2) upd
    by (auto simp: writeLogBatch2_def bindM_def io_def Let_def opno VersionLogTable.defs writeLogUpdate_def split: fault.splits)
qed

lemma IncrVersion_some:
  assumes "IncrVersion coll dId eIds state w = (Inr (), w')" and "findVersion coll dId w = Some D"
  obtains t where "findVersion coll dId w' = Some (writeLogUpdate eIds state t D)" and "eIds \<noteq> []"
proof -
  from assms(1) obtain vl w1 where "incrVersionResult coll dId eIds state w = (Inr vl, w1)"
    and w': "findVersion coll dId w' = findVersion coll dId w1"
    by (auto simp: IncrVersion_def IncrVersionResult_def appendCtx_def bindM_eq_Inr findVersion_def)
  then have ne: "eIds \<noteq> []" and c: "bindM (tryM (writeLogBatch2 coll dId eIds state (clock w))) (\<lambda>r. case r of
          Inr res \<Rightarrow> ret res
        | Inl err \<Rightarrow> if err \<noteq> MongoNoDocuments then throw err
            else bindM (tryM (initDoc coll dId eIds state (clock w))) (\<lambda>r2. case r2 of
              Inr res \<Rightarrow> ret res
            | Inl err2 \<Rightarrow> if err2 \<noteq> MongoDuplicateKey then throw err2
                else writeLogBatch2 coll dId eIds state (clock w))) w = (Inr vl, w1)"
    by (auto simp: incrVersionResult_def now_def split: if_splits)
  from c have "findVersion coll dId w1 = Some (writeLogUpdate eIds state (clock w) D)"
    unfolding bind_tryM_Inr by (auto dest!: writeLogBatch2_some [OF assms(2)])
  with that ne w' show thesis by simp
qed

lemma findChangeLog_some:
  assumes "findVersion coll dId w = Some D" and "0 < ver"
    and "findChangeLog coll dId ver limit w = (Inr vl, w')"
  shows "vl = changeLogOf ver limit D"
proof -
  have hd: "filter P xs \<noteq> [] \<and> filter P xs ! 0 = d" if "List.find P xs = Some d" for P and xs :: "VersionLogTable list" and d
    using that by (induction xs) auto
  show ?thesis
    using assms hd [of "\<lambda>d. vtDID d = dId" "versionDocs w coll" D]
    by (auto simp: findChangeLog_def bindM_eq_Inr io_Inr findVersion_def idx_Inr split: if_splits)
qed

text \<open>A history: the elements of a change, its kind and the table after it.\<close>

type_synonym 'v history = "(string list \<times> int \<times> (string \<rightharpoonup> 'v)) list"

fun history_ok :: "string set \<Rightarrow> (string \<rightharpoonup> 'v) \<Rightarrow> 'v history \<Rightarrow> bool" where
  "history_ok K tab [] = True"
| "history_ok K tab ((eIds, state, new) # h) = (change_ok K eIds state tab new \<and> history_ok K new h)"

fun lastTable :: "(string \<rightharpoonup> 'v) \<Rightarrow> 'v history \<Rightarrow> string \<rightharpoonup> 'v" where
  "lastTable tab [] = tab"
| "lastTable tab ((eIds, state, new) # h) = lastTable new h"

definition runHistory :: "string \<Rightarrow> string \<Rightarrow> 'v history \<Rightarrow> ('e version_world_scheme, unit) prog" where
  "runHistory coll dId h = forM h (\<lambda>(eIds, state, _). IncrVersion coll dId eIds state)"

lemma runHistory_tracked:
  assumes "runHistory coll dId h w = (Inr (), w')" and "findVersion coll dId w = Some D"
    and "versions_ok D" and "tracked K D ver copy tab" and "ver \<le> vtVersion D" and "history_ok K tab h"
  obtains D' where "findVersion coll dId w' = Some D'" "versions_ok D'" "tracked K D' ver copy (lastTable tab h)"
    "vtVersion D' = vtVersion D + length h" "vtID D' = vtID D"
  using assms
proof (induction h arbitrary: w D tab thesis)
  case Nil
  then show ?case by (simp add: runHistory_def)
next
  case (Cons c h)
  obtain eIds state new where c: "c = (eIds, state, new)" by (cases c)
  from Cons.prems(2) obtain w1 where step: "IncrVersion coll dId eIds state w = (Inr (), w1)" and run: "runHistory coll dId h w1 = (Inr (), w')"
    by (auto simp: runHistory_def c bindM_eq_Inr)
  from IncrVersion_some [OF step Cons.prems(3)] obtain t where D1: "findVersion coll dId w1 = Some (writeLogUpdate eIds state t D)" by blast
  have tr: "tracked K (writeLogUpdate eIds state t D) ver copy new"
    using vlog.tracked_write Cons.prems(5,6,7) by (auto simp: c)
  show ?case
    by (rule Cons.IH [OF _ run D1 vlog.write_versions [OF Cons.prems(4)] tr])
      (use Cons.prems in \<open>auto simp: c vlog.write_version vlog.write_id\<close>)
qed

text \<open>
  C34. The change log is complete and exact. A client holds a copy of a table that was read together with version \<open>vtVersion D\<close> of its log.
  After any history of changes, each of them logged, the client asks for the changes since that version. The log it gets has the same id, its version counts
  the changes, and unless the number of changed elements exceeds the limit, deleting the deleted ids from the copy and reading the
  inserted and updated ones from the table gives exactly the table. Without a limit nothing is ever cut off.
\<close>

theorem change_log_complete:
  assumes "findVersion coll dId w = Some D" and "versions_ok D" and "history_ok UNIV copy h"
    and "runHistory coll dId h w = (Inr (), w1)" and "findChangeLog coll dId (vtVersion D) limit w1 = (Inr vl, w2)"
    and "DeleteAndChangeIDs vl = (ins, dels, upds)"
  shows "vtID vl = vtID D \<and> vtVersion vl = vtVersion D + length h \<and>
    (int (length (vtLogs vl)) = vLogLen vl \<longrightarrow> applyReply dels (lastTable copy h |` set (ins @ upds)) copy = lastTable copy h) \<and>
    (limit \<le> 0 \<longrightarrow> int (length (vtLogs vl)) = vLogLen vl)"
proof -
  have "tracked UNIV D (vtVersion D) copy copy" by (rule vlog.tracked_now [OF assms(2) order_refl])
  from runHistory_tracked [OF assms(4,1,2) this order_refl assms(3)]
  obtain D' where D': "findVersion coll dId w1 = Some D'" "versions_ok D'" "tracked UNIV D' (vtVersion D) copy (lastTable copy h)"
    "vtVersion D' = vtVersion D + length h" "vtID D' = vtID D" by blast
  have pos: "0 < vtVersion D" using assms(2) by (simp add: versions_ok_def FirstVersion_def)
  have vl: "vl = changeLogOf (vtVersion D) limit D'" by (rule findChangeLog_some [OF D'(1) pos assms(5)])
  show ?thesis
    using vlog.read_doc vlog.read_unlimited vlog.reply_ok [OF D'(3,2) pos] D'(4,5) assms(6) unfolding vl by (metis le_add1)
qed

definition logWorld :: "VersionLogTable list \<Rightarrow> version_world" where
  "logWorld ds = \<lparr>faults = (\<lambda>_. NoFault), opno = 0, clock = 5, rand = (\<lambda>_. 0), cluster = None, rocks = Map.empty,
     versionDocs = (\<lambda>c. if c = ''v'' then ds else []), nextOid = 1, versionCtx = None\<rparr>"

definition logDoc :: VersionLogTable where
  "logDoc = \<lparr>vtID = 1, vtDID = ''u'', vtLogs = [\<lparr>vEID = ''a'', vState = 1, vElemVersion = 1, vElemUpdate = 0\<rparr>], vtVersion = 1, vtDeleted = 0,
     vtLastUpdate = 0\<rparr>"

definition logHistory :: "int history" where
  "logHistory = [([''b''], VersionStateInsert, [''a'' \<mapsto> 1, ''b'' \<mapsto> 2]), ([''a''], VersionStateDelete, [''b'' \<mapsto> 2])]"

definition logDoc2 :: VersionLogTable where
  "logDoc2 = logDoc\<lparr>vtLogs := [\<lparr>vEID = ''b'', vState = 1, vElemVersion = 2, vElemUpdate = 5\<rparr>,
     \<lparr>vEID = ''a'', vState = 2, vElemVersion = 3, vElemUpdate = 5\<rparr>], vtVersion := 3, vtLastUpdate := 5\<rparr>"

lemma logWorld_run:
  "\<exists>w1. runHistory ''v'' ''u'' logHistory (logWorld [logDoc]) = (Inr (), w1) \<and> versionDocs w1 ''v'' = [logDoc2] \<and> faults w1 = (\<lambda>_. NoFault)"
  by (simp add: logHistory_def logWorld_def logDoc_def logDoc2_def findVersion_def VersionStateInsert_def VersionStateDelete_def
      runHistory_def IncrVersion_def IncrVersionResult_def incrVersionResult_def writeLogBatch2_def now_def appendCtx_def
      bindM_def tryM_def io_def setVersionDocs_def writeLogUpdate_def VersionLogTable.defs)

theorem change_log_complete_witness:
  "\<exists>w1 w2 vl. runHistory ''v'' ''u'' logHistory (logWorld [logDoc]) = (Inr (), w1) \<and>
     findChangeLog ''v'' ''u'' (vtVersion logDoc) 200 w1 = (Inr vl, w2) \<and>
     DeleteAndChangeIDs vl = ([''b''], [''a''], []) \<and> vtVersion vl = vtVersion logDoc + length logHistory \<and>
     applyReply [''a''] (lastTable [''a'' \<mapsto> 1] logHistory |` set ([''b''] @ [])) [''a'' \<mapsto> 1] = lastTable [''a'' \<mapsto> 1] logHistory"
proof -
  obtain w1 where run: "runHistory ''v'' ''u'' logHistory (logWorld [logDoc]) = (Inr (), w1)"
    and docs: "versionDocs w1 ''v'' = [logDoc2]" "faults w1 = (\<lambda>_. NoFault)"
    using logWorld_run by blast
  let ?vl = "changeLogOf 1 200 logDoc2"
  have vl: "DeleteAndChangeIDs ?vl = ([''b''], [''a''], [])" "int (length (vtLogs ?vl)) = vLogLen ?vl"
    by (simp_all add: changeLogOf_def logDoc2_def logDoc_def DeleteAndChangeIDs_def VersionStateInsert_def VersionStateDelete_def
        VersionLogTable.defs)
  have read: "findChangeLog ''v'' ''u'' (vtVersion logDoc) 200 w1 = (Inr ?vl, w1\<lparr>opno := Suc (opno w1)\<rparr>)"
    using docs by (simp add: findChangeLog_def io_def bindM_def logDoc2_def logDoc_def)
  have doc: "findVersion ''v'' ''u'' (logWorld [logDoc]) = Some logDoc" "versions_ok logDoc"
    by (simp_all add: findVersion_def logWorld_def logDoc_def versions_ok_def DefaultDeleteVersion_def FirstVersion_def)
  have hist: "history_ok UNIV [''a'' \<mapsto> 1] logHistory"
    by (simp add: logHistory_def change_ok_def VersionStateInsert_def VersionStateDelete_def VersionStateUpdate_def)
  from change_log_complete [OF doc hist run read vl(1)] vl(2) run read vl(1) show ?thesis by blast
qed

end
