(* ===== verification/Friend_Sync.thy ===== *)
theory Friend_Sync
  imports Sdk_Friends_Props Version_Log_Props
begin

text \<open>
  The client and the server together: the friend list of a client after \<^verbatim>\<open>IncrSyncFriends\<close> against the friend collection of the server that answers its calls
  with \<^verbatim>\<open>GetIncrementalFriends\<close>, \<^verbatim>\<open>GetPaginationFriends\<close> and \<^verbatim>\<open>GetFullFriendUserIDs\<close>. The state is the client's with the server's inside.
\<close>

section \<open>The system\<close>

record system = sdk_world +
  srv :: friend_world

lemma srv_opno [simp]: "srv (w\<lparr>opno := n\<rparr>) = srv w"
  by (cases w) (simp only: env.update_convs system.select_convs)

definition onServer :: "(friend_world, 'a) prog \<Rightarrow> ('e system_scheme, 'a) prog" where
  "onServer p = io (\<lambda>w. case p (srv w) of (r, s) \<Rightarrow> (r, w\<lparr>srv := s\<rparr>))"

definition serverCalls :: "friend_world relation_tools \<Rightarrow> string \<Rightarrow> nat \<Rightarrow> 'e system_scheme friend_calls" where
  "serverCalls T op fuel = \<lparr>getIncrementalFriends = (\<lambda>u ver vid. onServer (GetIncrementalFriends T op u ver vid)),
     getFullFriendUserIDs = (\<lambda>u. onServer (bindM (GetFullFriendUserIDs T u 0) (\<lambda>(idHash, versionID, equal, ids). ret ids))),
     callApi = (\<lambda>api u page n. onServer (bindM (GetPaginationFriends T op u \<lparr>pageNumber = page, showNumber = n\<rparr>) (\<lambda>(total, fs). ret fs))),
     pageBound = fuel\<rparr>"

lemma onServer_Inr: "onServer p w = (Inr a, w') \<Longrightarrow> \<exists>s. p (srv w) = (Inr a, s) \<and> w' = w\<lparr>opno := Suc (opno w), srv := s\<rparr>"
  by (auto simp: onServer_def io_Inr split: prod.splits)

section \<open>The server's state\<close>

text \<open>The user service answers for every id; a page is a section of the list.\<close>

definition users_ok :: "'w relation_tools \<Rightarrow> (string \<Rightarrow> UserInfo) \<Rightarrow> bool" where
  "users_ok T info \<longleftrightarrow> (\<forall>ids. rDesignateUsers T ids = Inr (map info ids)) \<and> (\<forall>id. uiUserID (info id) = id)"

definition pages_ok :: "('w, 't) friend_tools_scheme \<Rightarrow> bool" where
  "pages_ok T \<longleftrightarrow> (\<forall>is p. 0 < showNumber p \<longrightarrow> 0 < pageNumber p \<longrightarrow>
     fPage T is p = take (nat (showNumber p)) (drop (nat (showNumber p) * nat (pageNumber p - 1)) is))"

definition tools_ok :: "'w relation_tools \<Rightarrow> (string \<Rightarrow> UserInfo) \<Rightarrow> bool" where
  "tools_ok T info \<longleftrightarrow> friend_tools_ok (friend_tools.truncate T) \<and> pages_ok (friend_tools.truncate T) \<and> users_ok T info \<and> oid_ok (rOid T) \<and>
     (\<forall>n. Hex (rOid T) n \<noteq> '''')"

definition emptyLog :: "VersionLogTable \<Rightarrow> VersionLog" where
  "emptyLog D = toVersionLog (D\<lparr>vtLogs := []\<rparr>)"

definition friendLog :: "string \<Rightarrow> 'e version_world_scheme \<Rightarrow> VersionLogTable option" where
  "friendLog u s = findVersion FriendVersionName u s"

text \<open>
  The invariant of the server for a user: a friend is stored once, with its time, and is not the marker of the order; the log is well-formed; a cached version is the
  log's.
\<close>

definition log_ok :: "VersionLogTable \<Rightarrow> bool" where
  "log_ok D \<longleftrightarrow> versions_ok D \<and> distinct (map vEID (vtLogs D)) \<and> vtID D \<noteq> 0"

definition docs_ok :: "Friend list \<Rightarrow> bool" where
  "docs_ok ds \<longleftrightarrow> distinct (map (\<lambda>d. (frOwnerUserID d, frFriendUserID d)) ds) \<and>
     (\<forall>d\<in>set ds. frCreateTime d \<noteq> None \<and> frFriendUserID d \<noteq> VersionSortChangeID)"

definition cache_ok :: "('w, 't) friend_tools_scheme \<Rightarrow> string \<Rightarrow> 'e version_world_scheme \<Rightarrow> bool" where
  "cache_ok F u s \<longleftrightarrow> (\<forall>v. rocks s (GetFriendMaxVersionKey u) = Some v \<longrightarrow> (\<exists>D. friendLog u s = Some D \<and> v = encVL F (emptyLog D)))"

definition server_ok :: "'w relation_tools \<Rightarrow> string \<Rightarrow> 'e friend_world_scheme \<Rightarrow> bool" where
  "server_ok T u s \<longleftrightarrow> docs_ok (friendDocs s) \<and> (\<forall>D. friendLog u s = Some D \<longrightarrow> log_ok D) \<and> cache_ok (friend_tools.truncate T) u s"

text \<open>The friends of a user as the client should have them.\<close>

definition ownerDocs :: "string \<Rightarrow> 'e friend_world_scheme \<Rightarrow> Friend list" where
  "ownerDocs u s = filter (\<lambda>d. frOwnerUserID d = u) (friendDocs s)"

definition localOf :: "(string \<Rightarrow> UserInfo) \<Rightarrow> Friend \<Rightarrow> LocalFriend" where
  "localOf info d = ServerFriendToLocalFriend (friendInfoOf d (info (frFriendUserID d)))"

definition serverTab :: "(string \<Rightarrow> UserInfo) \<Rightarrow> string \<Rightarrow> Friend list \<Rightarrow> string \<rightharpoonup> LocalFriend" where
  "serverTab info u ds = rowMap lfFriendUserID (map (localOf info) (filter (\<lambda>d. frOwnerUserID d = u) ds))"

lemma localOf_keys: "users_ok T info \<Longrightarrow> lfFriendUserID (localOf info d) = frFriendUserID d \<and> lfOwnerUserID (localOf info d) = frOwnerUserID d"
  by (simp add: localOf_def ServerFriendToLocalFriend_def friendInfoOf_def users_ok_def)

section \<open>What the server answers\<close>

lemma emptyLog_simps [simp]: "vtLogs (emptyLog D) = []" "vtID (emptyLog D) = vtID D" "vtVersion (emptyLog D) = vtVersion D" "vLogLen (emptyLog D) = 0"
  by (simp_all add: emptyLog_def toVersionLog_def VersionLogTable.defs)

text \<open>Between two reads the friends are the same, and a log that is there stays.\<close>

definition same_friends :: "string \<Rightarrow> 'e friend_world_scheme \<Rightarrow> 'e friend_world_scheme \<Rightarrow> bool" where
  "same_friends u s s' \<longleftrightarrow> friendDocs s' = friendDocs s \<and> (\<forall>D. friendLog u s = Some D \<longrightarrow> friendLog u s' = Some D)"

lemma same_friends_refl [simp]: "same_friends u s s"
  by (simp add: same_friends_def)

lemma same_friends_trans: "same_friends u s s1 \<Longrightarrow> same_friends u s1 s2 \<Longrightarrow> same_friends u s s2"
  by (simp add: same_friends_def)

lemma friendLog_env [simp]:
  "friendLog u (s\<lparr>opno := n\<rparr>) = friendLog u s" "friendLog u (s\<lparr>nextOid := m\<rparr>) = friendLog u s" "friendLog u (s\<lparr>rocks := r\<rparr>) = friendLog u s"
  by (simp_all add: friendLog_def findVersion_def)

text \<open>Reading the newest version of an owner: the log that is there, or a new one.\<close>

lemma initDoc_friend:
  assumes "initDoc FriendVersionName u [] 0 t s = (Inr v, s')"
  shows "\<exists>D. friendLog u s' = Some D \<and> log_ok D \<and> v = emptyLog D \<and> friendLog u s = None \<and> friendDocs s' = friendDocs s \<and> rocks s' = rocks s"
proof -
  let ?D = "\<lparr>vtID = Suc (nextOid s), vtDID = u, vtLogs = [], vtVersion = FirstVersion, vtDeleted = DefaultDeleteVersion, vtLastUpdate = t\<rparr>"
  have f: "findVersion FriendVersionName u (s\<lparr>nextOid := m, opno := n\<rparr>) = friendLog u s" for m n by (simp add: findVersion_def friendLog_def)
  have v: "v = toVersionLog ?D" and none: "friendLog u s = None"
    and s': "s' = setVersionDocs FriendVersionName (\<lambda>ds. ds @ [?D]) (s\<lparr>nextOid := Suc (nextOid s), opno := Suc (opno s)\<rparr>)"
    using assms by (auto simp: initDoc_def NewObjectID_def bindM_eq_Inr Let_def insertVersionDoc_def io_Inr f split: option.splits)
  have "friendLog u s' = Some ?D"
    using none by (simp add: s' friendLog_def findVersion_def setVersionDocs_def find_append)
  moreover have "log_ok ?D" by (simp add: log_ok_def versions_ok_def)
  moreover have "v = emptyLog ?D" by (simp add: v emptyLog_def)
  ultimately show ?thesis using none by (auto simp: s' setVersionDocs_def)
qed

lemma findChangeLog_max:
  assumes "findChangeLog FriendVersionName u 0 0 s = (Inr v, s')"
  shows "\<exists>D. friendLog u s = Some D \<and> friendLog u s' = Some D \<and> v = emptyLog D \<and> friendDocs s' = friendDocs s \<and> rocks s' = rocks s"
  using assms by (auto simp: findChangeLog_def findDoc_def io_Inr emptyLog_def friendLog_def findVersion_def split: option.splits)

lemma findChangeLog_error:
  assumes "findChangeLog FriendVersionName u ver limit s = (Inl e, s')"
  shows "friendDocs s' = friendDocs s \<and> rocks s' = rocks s \<and> versionDocs s' = versionDocs s"
  using assms
  by (auto simp: findChangeLog_def findDoc_def io_def bindM_def Let_def idx_def split: option.splits fault.splits if_splits)

lemma FindChangeLog_max:
  assumes "FindChangeLog FriendVersionName u 0 0 s = (Inr v, s')"
  shows "\<exists>D. friendLog u s' = Some D \<and> v = emptyLog D \<and> (friendLog u s = Some D \<or> friendLog u s = None \<and> log_ok D) \<and>
    friendDocs s' = friendDocs s \<and> rocks s' = rocks s"
  using assms unfolding FindChangeLog_def bind_tryM_Inr
proof (elim disjE exE conjE)
  fix a w'
  assume "findChangeLog FriendVersionName u 0 0 s = (Inr a, w')" "ret a w' = (Inr v, s')"
  then show ?thesis using findChangeLog_max [of u s] by auto
next
  fix e s1
  assume f: "findChangeLog FriendVersionName u 0 0 s = (Inl e, s1)"
    and c: "(if e \<noteq> MongoNoDocuments then throw e
         else bindM now (\<lambda>t. bindM (tryM (initDoc FriendVersionName u [] 0 t)) (\<lambda>r2. case r2 of
           Inr res \<Rightarrow> ret res
         | Inl err2 \<Rightarrow> if err2 = MongoDuplicateKey then findChangeLog FriendVersionName u 0 0 else throw err2))) s1 = (Inr v, s')"
  have s1: "friendLog u s1 = friendLog u s" "friendDocs s1 = friendDocs s" "rocks s1 = rocks s"
    using findChangeLog_error [OF f] by (simp_all add: friendLog_def findVersion_def)
  have e: "e = MongoNoDocuments" using c by (auto split: if_splits)
  have none: "friendLog u s = None"
    using f unfolding e by (auto simp: findChangeLog_def findDoc_def io_def Let_def friendLog_def findVersion_def split: option.splits fault.splits)
  from c e obtain t where "bindM (tryM (initDoc FriendVersionName u [] 0 t)) (\<lambda>r2. case r2 of
           Inr res \<Rightarrow> ret res
         | Inl err2 \<Rightarrow> if err2 = MongoDuplicateKey then findChangeLog FriendVersionName u 0 0 else throw err2) s1 = (Inr v, s')"
    by (auto simp: now_def)
  then consider "initDoc FriendVersionName u [] 0 t s1 = (Inr v, s')"
    | s2 where "initDoc FriendVersionName u [] 0 t s1 = (Inl MongoDuplicateKey, s2)"
    unfolding bind_tryM_Inr by (auto split: if_splits)
  then show ?thesis
  proof cases
    case 1
    from initDoc_friend [OF this] show ?thesis using s1 by auto
  next
    case 2
    then show ?thesis using none s1(1)
      by (auto simp: initDoc_def NewObjectID_def bindM_def insertVersionDoc_def io_def Let_def friendLog_def findVersion_def
          split: option.splits fault.splits)
  qed
qed

lemma max_version:
  assumes "server_ok T u s" and "friend_tools_ok (friend_tools.truncate T)"
    and "FindMaxFriendVersionCache (friend_tools.truncate T) u s = (Inr v, s')"
  shows "\<exists>D. friendLog u s' = Some D \<and> v = emptyLog D \<and> server_ok T u s' \<and> same_friends u s s'"
proof -
  let ?F = "friend_tools.truncate T" and ?key = "GetFriendMaxVersionKey u"
  have dec: "decVL ?F (encVL ?F x) = Some x" "encVL ?F x \<noteq> CText ''''" for x using assms(2) by (simp_all add: friend_tools_ok_def)
  let ?s1 = "s\<lparr>opno := Suc (opno s)\<rparr>"
  show ?thesis
  proof (cases "rocks s ?key")
    case (Some c)
    with assms(1) obtain D where D: "friendLog u s = Some D" "c = encVL ?F (emptyLog D)" by (auto simp: server_ok_def cache_ok_def)
    with Some assms(3) have "v = emptyLog D" and "s' = ?s1"
      by (auto simp: FindMaxFriendVersionCache_def FindMaxFriendVersion_def getCache_def rocksFetch2_def bindM_eq_Inr io_Inr dec split: if_splits)
    with D assms(1) show ?thesis by (auto simp: server_ok_def cache_ok_def same_friends_def)
  next
    case None
    with assms(3) obtain s2 where f: "FindChangeLog FriendVersionName u 0 0 ?s1 = (Inr v, s2)"
      and s': "s' = s2\<lparr>opno := Suc (opno s2), rocks := (rocks s2)(?key \<mapsto> encVL ?F v)\<rparr>"
      by (auto simp: FindMaxFriendVersionCache_def FindMaxFriendVersion_def getCache_def rocksFetch2_def bindM_eq_Inr io_Inr
          friend_FindIncrVersion_def split: if_splits)
    from FindChangeLog_max [OF f] obtain D where D: "friendLog u s2 = Some D" "v = emptyLog D"
      "friendLog u s = Some D \<or> friendLog u s = None \<and> log_ok D" "friendDocs s2 = friendDocs s" "rocks s2 = rocks s" by auto
    then show ?thesis using assms(1) by (auto simp: s' server_ok_def cache_ok_def same_friends_def)
  qed
qed

text \<open>The changes since a version.\<close>

lemma query_log:
  assumes "friendLog u s = Some D" and "0 < ver" and "FindFriendIncrVersion u ver limit s = (Inr vl, s')"
  shows "vl = changeLogOf ver limit D \<and> friendDocs s' = friendDocs s \<and> rocks s' = rocks s \<and> friendLog u s' = friendLog u s"
proof -
  have D: "findVersion FriendVersionName u s = Some D" using assms(1) by (simp add: friendLog_def)
  have ok: "a = changeLogOf ver limit D \<and> friendDocs s1 = friendDocs s \<and> rocks s1 = rocks s \<and> friendLog u s1 = friendLog u s"
    if "findChangeLog FriendVersionName u ver limit s = (Inr a, s1)" for a s1
    using findChangeLog_some [OF D assms(2) that] that assms(2) by (auto simp: findChangeLog_def bindM_eq_Inr io_Inr idx_Inr split: if_splits)
  have "e = ErrIO" if "findChangeLog FriendVersionName u ver limit s = (Inl e, s1)" for e s1
  proof -
    have "filter (\<lambda>d. vtDID d = u) (versionDocs s FriendVersionName) \<noteq> []"
      using D by (auto simp: findVersion_def filter_empty_conv dest: find_Some_props)
    with that assms(2) show ?thesis
      by (auto simp: findChangeLog_def io_def bindM_def Let_def idx_def split: fault.splits if_splits)
  qed
  with ok assms(3) show ?thesis
    unfolding FindFriendIncrVersion_def friend_FindIncrVersion_def FindChangeLog_def bind_tryM_Inr by fastforce
qed

text \<open>The friends with given ids, as they are sent.\<close>

definition infosOf :: "(string \<Rightarrow> UserInfo) \<Rightarrow> string \<Rightarrow> string list \<Rightarrow> Friend list \<Rightarrow> FriendInfo list" where
  "infosOf info u ids ds = map (\<lambda>d. friendInfoOf d (info (frFriendUserID d))) (filter (\<lambda>d. frOwnerUserID d = u \<and> frFriendUserID d \<in> set ids) ds)"

lemma convert_loop:
  assumes "\<forall>d\<in>set ds. users (frFriendUserID d) = Some (info (frFriendUserID d))"
  shows "foldM (\<lambda>f friendsPb. case users (frFriendUserID f) of
            None \<Rightarrow> throw (Panic ''nil pointer dereference'')
          | Some u \<Rightarrow> ret (friendsPb @ [friendInfoOf f u])) ds acc w =
     (Inr (acc @ map (\<lambda>d. friendInfoOf d (info (frFriendUserID d))) ds), w)"
  using assms by (induction ds arbitrary: acc) simp_all

lemma users_map:
  assumes "users_ok T info" and "i \<in> set ids"
  shows "map_of (rev (map (\<lambda>u. (uiUserID u, u)) (map info ids))) i = Some (info i)"
proof -
  have "map_of (map (\<lambda>i. (i, info i)) is) i = (if i \<in> set is then Some (info i) else None)" for "is" by (induction "is") auto
  moreover have "rev (map (\<lambda>u. (uiUserID u, u)) (map info ids)) = map (\<lambda>i. (i, info i)) (rev ids)"
    using assms(1) by (simp add: users_ok_def rev_map comp_def)
  ultimately show ?thesis using assms(2) by simp
qed

lemma FriendsDB2Pb_ok:
  assumes "users_ok T info" and "FriendsDB2Pb T ds w = (Inr fs, w')"
  shows "fs = map (\<lambda>d. friendInfoOf d (info (frFriendUserID d))) ds \<and> (w' = w \<or> w' = w\<lparr>opno := Suc (opno w)\<rparr>)"
proof (cases "ds = []")
  case False
  let ?ids = "map frFriendUserID ds"
  have u: "\<forall>d\<in>set ds. map_of (rev (map (\<lambda>u. (uiUserID u, u)) (map info ?ids))) (frFriendUserID d) = Some (info (frFriendUserID d))"
    using users_map [OF assms(1), of _ ?ids] by simp
  have "rDesignateUsers T ?ids = Inr (map info ?ids)" using assms(1) by (simp only: users_ok_def)
  with False assms(2) show ?thesis
    by (auto simp: FriendsDB2Pb_def GetUsersInfoMap_def GetUsersInfo_def bindM_eq_Inr io_Inr convert_loop [OF u] simp del: map_map)
qed (use assms(2) in \<open>simp add: FriendsDB2Pb_def\<close>)

lemma getFriend_ok:
  assumes "users_ok T info" and "docs_ok (friendDocs s)" and "getFriend T u ids s = (Inr fs, s')"
  shows "fs = infosOf info u ids (friendDocs s) \<and> friendDocs s' = friendDocs s \<and> rocks s' = rocks s \<and> friendLog u s' = friendLog u s"
proof (cases "ids = []")
  case True
  then show ?thesis using assms(3) by (simp add: getFriend_def infosOf_def)
next
  case False
  let ?ds = "filter (\<lambda>d. frOwnerUserID d = u \<and> frFriendUserID d \<in> set ids) (friendDocs s)"
  have "map (fillTime (friend_tools.truncate T)) ?ds = ?ds" using assms(2) by (intro map_idI) (auto simp: fillTime_def docs_ok_def)
  with False assms(3) have "FriendsDB2Pb T ?ds (s\<lparr>opno := Suc (opno s)\<rparr>) = (Inr fs, s')"
    by (auto simp: getFriend_def FindFriendsWithError_def friend_FindFriends_def friend_find_def bindM_eq_Inr io_Inr)
  from FriendsDB2Pb_ok [OF assms(1) this] show ?thesis by (auto simp: infosOf_def)
qed

text \<open>The elements a reply names: changed ones without the marker, and deleted ones.\<close>

definition changesOf :: "VersionLogTable \<Rightarrow> nat \<Rightarrow> string list \<Rightarrow> string list \<Rightarrow> string list \<Rightarrow> bool" where
  "changesOf D ver ins dels upds \<longleftrightarrow> ver \<le> vtVersion D \<and> distinct (ins @ upds) \<and>
     set (ins @ upds) = vEID ` {l \<in> set (vtLogs D). ver < vElemVersion l \<and> (vState l = VersionStateInsert \<or> vState l = VersionStateUpdate)} \<inter>
       - {VersionSortChangeID} \<and>
     set dels = vEID ` {l \<in> set (vtLogs D). ver < vElemVersion l \<and> vState l = VersionStateDelete} \<inter> - {VersionSortChangeID}"

lemma changesOf_none: "log_ok D \<Longrightarrow> ver = vtVersion D \<Longrightarrow> changesOf D ver [] [] []"
  by (auto simp: changesOf_def log_ok_def versions_ok_def)

lemma changesOf_log:
  assumes "log_ok D" and "0 < ver" and "\<not> vtVersion vl < ver" and "int (length (vtLogs vl)) = vLogLen vl"
    and "vl = fst (splitSort (changeLogOf ver limit D))" and "DeleteAndChangeIDs vl = (ins, dels, upds)"
  shows "changesOf D ver ins dels upds"
proof -
  let ?c = "changeLogOf ver limit D" and ?P = "\<lambda>l. vEID l \<noteq> VersionSortChangeID"
  have ver: "ver \<le> vtVersion D" and logs: "vtLogs vl = filter ?P (vtLogs ?c)"
    using assms(3,5) vlog.read_doc [of ver limit D] by (simp_all add: splitSort_def Let_def)
  have "vLogLen vl = vLogLen ?c - int (length (filter (\<lambda>l. \<not> ?P l) (vtLogs ?c)))"
    using assms(5) by (simp add: splitSort_def Let_def)
  then have "int (length (vtLogs ?c)) = vLogLen ?c"
    using assms(4) sum_length_filter_compl [of ?P "vtLogs ?c"] unfolding logs by linarith
  then have "vtLogs ?c = filter (\<lambda>l. ver < vElemVersion l) (vtLogs D)"
    using vlog.read_entries assms(1,2) ver by (simp add: log_ok_def)
  then have vl: "vtLogs vl = filter (\<lambda>l. ver < vElemVersion l \<and> ?P l) (vtLogs D)" by (simp add: logs conj_commute)
  then have dis: "distinct (map vEID (vtLogs vl))" using assms(1) by (simp add: log_ok_def distinct_map_filter)
  have ids: "ins = map vEID (filter (\<lambda>l. vState l = VersionStateInsert) (vtLogs vl))"
    "dels = map vEID (filter (\<lambda>l. vState l = VersionStateDelete) (vtLogs vl))"
    "upds = map vEID (filter (\<lambda>l. vState l = VersionStateUpdate) (vtLogs vl))"
    using assms(6) by (simp_all add: vlog.DeleteAndChangeIDs_ids)
  have "set ins \<inter> set upds = {}"
  proof -
    have "l = m" if "l \<in> set (vtLogs vl)" "m \<in> set (vtLogs vl)" "vEID l = vEID m" for l m
      using dis that by (auto simp: distinct_map dest: inj_onD)
    then show ?thesis unfolding ids VersionStateInsert_def VersionStateUpdate_def by auto (metis one_eq_numeral_iff semiring_norm(84))
  qed
  then have "distinct (ins @ upds)" using dis by (simp add: ids distinct_map_filter)
  with ver show ?thesis by (auto simp: changesOf_def ids vl)
qed

text \<open>What a reply is built from.\<close>

lemma call_Some: "call (Some f) k = k f"
  by (simp add: call_def)

lemma Build_Inr:
  assumes "Build ot o' w = (Inr r, w')" and "Find o' = Some findFn" and "Resp o' = Some resp"
  obtains tg vl w1 ins dels upds il w2 ul w3 full where "getVersion ot o' w = (Inr (tg, vl), w1)"
    "full = (case tg of
           tagQuery \<Rightarrow> Hex ot (vtID vl) \<noteq> VersionID o' \<or> vtVersion vl < VersionNumber o' \<or> int (length (vtLogs vl)) \<noteq> vLogLen vl
         | tagFull \<Rightarrow> True
         | tagEqual \<Rightarrow> False)"
    "(if \<not> full then DeleteAndChangeIDs vl else ([], [], [])) = (ins, dels, upds)"
    "(if length ins > 0 then findFn ins else ret []) w1 = (Inr il, w2)" "(if length upds > 0 then findFn upds else ret []) w2 = (Inr ul, w3)"
    "resp vl dels il ul full w3 = (Inr r, w')"
proof -
  from assms(1) obtain tg vl w1 where g: "getVersion ot o' w = (Inr (tg, vl), w1)"
    and c: "(let full = (case tg of
           tagQuery \<Rightarrow> Hex ot (vtID vl) \<noteq> VersionID o' \<or> vtVersion vl < VersionNumber o' \<or>
             int (length (vtLogs vl)) \<noteq> vLogLen vl
         | tagFull \<Rightarrow> True
         | tagEqual \<Rightarrow> False);
         (insertIds, deleteIds, updateIds) = (if \<not> full then DeleteAndChangeIDs vl else ([], [], [])) in
     bindM (if length insertIds > 0 then findFn insertIds else ret []) (\<lambda>insertList.
     bindM (if length updateIds > 0 then findFn updateIds else ret []) (\<lambda>updateList.
       resp vl deleteIds insertList updateList full))) w1 = (Inr r, w')"
    unfolding Build_def assms(2,3) call_Some by (auto simp: bindM_eq_Inr split: option.splits)
  obtain full where f: "full = (case tg of
           tagQuery \<Rightarrow> Hex ot (vtID vl) \<noteq> VersionID o' \<or> vtVersion vl < VersionNumber o' \<or> int (length (vtLogs vl)) \<noteq> vLogLen vl
         | tagFull \<Rightarrow> True
         | tagEqual \<Rightarrow> False)" by blast
  obtain ins dels upds where i: "(if \<not> full then DeleteAndChangeIDs vl else ([], [], [])) = (ins, dels, upds)" by (rule prod_cases3)
  from c obtain il w2 ul w3 where "(if length ins > 0 then findFn ins else ret []) w1 = (Inr il, w2)"
    "(if length upds > 0 then findFn upds else ret []) w2 = (Inr ul, w3)" "resp vl dels il ul full w3 = (Inr r, w')"
    unfolding Let_def f [symmetric] i prod.case bindM_eq_Inr by blast
  with g f i that show thesis by blast
qed

lemma getVersion_Inr:
  assumes "getVersion ot o' w = (Inr (tg, vl), w1)" and "CacheMaxVersion o' = Some cacheFn" and "VersionFn o' = Some vf"
  obtains (full) "tg = tagFull" "cacheFn (VersionKey o') w = (Inr vl, w1)"
  | (equal) "tg = tagEqual" "cacheFn (VersionKey o') w = (Inr vl, w1)" "validVersion ot o'" "equalID ot o' (vtID vl)" "VersionNumber o' = vtVersion vl"
  | (query) cache w0 where "tg = tagQuery" "cacheFn (VersionKey o') w = (Inr cache, w0)" "validVersion ot o'" "equalID ot o' (vtID cache)"
      "vf (VersionKey o') (VersionNumber o') syncLimit w0 = (Inr vl, w1)"
proof -
  from assms obtain cache w0 where c: "cacheFn (VersionKey o') w = (Inr cache, w0)"
    and "(if \<not> validVersion ot o' then ret (tagFull, cache)
            else if \<not> equalID ot o' (vtID cache) then ret (tagFull, cache)
            else if VersionNumber o' = vtVersion cache then ret (tagEqual, cache)
            else bindM (vf (VersionKey o') (VersionNumber o') syncLimit) (\<lambda>v. ret (tagQuery, v))) w0 = (Inr (tg, vl), w1)"
    by (auto simp: getVersion_def call_def bindM_eq_Inr)
  then show thesis using that by (auto simp: bindM_eq_Inr split: if_splits)
qed

lemma server_ok_cong:
  "server_ok T u s \<Longrightarrow> friendDocs s' = friendDocs s \<Longrightarrow> rocks s' = rocks s \<Longrightarrow> friendLog u s' = friendLog u s \<Longrightarrow> server_ok T u s'"
  by (simp add: server_ok_def cache_ok_def)

lemma friendOption_simps [simp]:
  "VersionKey (friendOption T u ver vid) = u" "VersionID (friendOption T u ver vid) = vid" "VersionNumber (friendOption T u ver vid) = ver"
  by (simp_all add: friendOption_def)

lemma withVar_Inr: "withVar m (v, w) = (Inr a, (v', w')) \<longleftrightarrow> v' = v \<and> m w = (Inr a, w')"
  by (auto simp: withVar_def split: prod.splits)

lemma sorted_query_Inr:
  assumes "bindM (withVar m) (\<lambda>vl. let (vl', sorts) = splitSort vl in
     thenM (if sorts = [] then ret () else setVar (vElemVersion (last sorts))) (ret vl')) (v, w) = (Inr vl, (v', w'))"
  shows "\<exists>vl0. m w = (Inr vl0, w') \<and> vl = fst (splitSort vl0)"
proof -
  from assms obtain vl0 w1 where m: "m w = (Inr vl0, w1)" and c: "(let (vl', sorts) = splitSort vl0 in
     thenM (if sorts = [] then ret () else setVar (vElemVersion (last sorts))) (ret vl')) (v, w1) = (Inr vl, (v', w'))"
  proof -
    assume h: "\<And>vl0 w1. m w = (Inr vl0, w1) \<Longrightarrow> (let (vl', sorts) = splitSort vl0 in
     thenM (if sorts = [] then ret () else setVar (vElemVersion (last sorts))) (ret vl')) (v, w1) = (Inr vl, (v', w')) \<Longrightarrow> thesis"
    from assms obtain vl0 x where x: "withVar m (v, w) = (Inr vl0, x)" and "(let (vl', sorts) = splitSort vl0 in
     thenM (if sorts = [] then ret () else setVar (vElemVersion (last sorts))) (ret vl')) x = (Inr vl, (v', w'))"
      unfolding bindM_eq_Inr by blast
    then show thesis using h by (cases x) (auto simp: withVar_Inr)
  qed
  obtain vl1 sorts where "splitSort vl0 = (vl1, sorts)" by fastforce
  with m c show ?thesis by (auto simp: setVar_def split: if_splits)
qed

text \<open>The answer to an incremental synchronisation.\<close>

lemma incremental_reply:
  assumes "GetIncrementalFriends T op u ver vid s = (Inr resp, s')" and "server_ok T u s" and tools: "tools_ok T info"
  shows "\<exists>D. friendLog u s' = Some D \<and> server_ok T u s' \<and> same_friends u s s' \<and> irVersionID resp = Hex (rOid T) (vtID D) \<and> irVersion resp = vtVersion D \<and>
    (\<not> irFull resp \<longrightarrow> vid = Hex (rOid T) (vtID D) \<and> 0 < ver \<and> (\<exists>ins upds. changesOf D ver ins (irDelete resp) upds \<and>
       irInsert resp = infosOf info u ins (friendDocs s) \<and> irUpdate resp = infosOf info u upds (friendDocs s)))"
proof -
  have ft: "friend_tools_ok (friend_tools.truncate T)" and ut: "users_ok T info" and ot: "oid_ok (rOid T)" using tools by (simp_all add: tools_ok_def)
  let ?o = "friendOption T u ver vid" and ?F = "friend_tools.truncate T"
  note fo = friendOption_def sync_option.simps
  let ?find = "\<lambda>ids. withVar (getFriend T u ids)" and ?max = "\<lambda>u. withVar (FindMaxFriendVersionCache ?F u)"
  from assms(1) obtain sv where b: "Build (rOid T) ?o (0, s) = (Inr resp, (sv, s'))"
    by (auto simp: GetIncrementalFriends_def bindM_eq_Inr runVar_def liftE_def split: prod.splits sum.splits)
  let ?resp = "\<lambda>v deleteIds insertList updateList full. gets (\<lambda>(sortVersion, w). \<lparr>irVersionID = Hex (rOid T) (vtID v),
       irVersion = vtVersion v, irFull = full, irDelete = deleteIds, irInsert = insertList, irUpdate = updateList,
       irSortVersion = sortVersion\<rparr>)"
  have o1: "Find ?o = Some ?find" and o2: "Resp ?o = Some ?resp" and o3: "CacheMaxVersion ?o = Some ?max" by (simp_all add: fo)
  obtain tg vl w1 ins dels upds il w2 ul w3 full where gv: "getVersion (rOid T) ?o (0, s) = (Inr (tg, vl), w1)"
    and full: "full = (case tg of
           tagQuery \<Rightarrow> Hex (rOid T) (vtID vl) \<noteq> vid \<or> vtVersion vl < ver \<or> int (length (vtLogs vl)) \<noteq> vLogLen vl
         | tagFull \<Rightarrow> True
         | tagEqual \<Rightarrow> False)"
    and ids: "(if \<not> full then DeleteAndChangeIDs vl else ([], [], [])) = (ins, dels, upds)"
    and il: "(if length ins > 0 then ?find ins else ret []) w1 = (Inr il, w2)"
    and ul: "(if length upds > 0 then ?find upds else ret []) w2 = (Inr ul, w3)"
    and r: "?resp vl dels il ul full w3 = (Inr resp, (sv, s'))"
    by (rule Build_Inr [OF b o1 o2, unfolded friendOption_simps]) blast
  obtain v1 s1 v2 s2 v3 s3 where w: "w1 = (v1, s1)" "w2 = (v2, s2)" "w3 = (v3, s3)" by (metis surj_pair)
  have get: "l = infosOf info u is ds \<and> friendDocs t' = ds \<and> friendLog u t' = friendLog u t \<and> rocks t' = rocks t"
    if "(if length is > 0 then ?find is else ret []) (x, t) = (Inr l, (x', t'))" and "docs_ok ds" and "friendDocs t = ds"
    for "is" l x x' t t' ds
  proof (cases "is = []")
    case False
    then have "getFriend T u is t = (Inr l, t')" using that(1) by (auto simp: withVar_def split: prod.splits)
    from getFriend_ok [OF ut _ this] that(2,3) show ?thesis by simp
  qed (use that in \<open>simp add: infosOf_def\<close>)
  let ?query = "\<lambda>ownerUserID version limit.
       bindM (withVar (FindFriendIncrVersion ownerUserID version limit)) (\<lambda>vl.
         let (vl', sorts) = splitSort vl in
         thenM (if sorts = [] then ret () else setVar (vElemVersion (last sorts))) (ret vl'))"
  have o4: "VersionFn ?o = Some ?query" by (simp add: fo)
  have "\<exists>D. friendLog u s1 = Some D \<and> vtID vl = vtID D \<and> vtVersion vl = vtVersion D \<and> server_ok T u s1 \<and> same_friends u s s1 \<and>
      (\<not> full \<longrightarrow> vid = Hex (rOid T) (vtID D) \<and> 0 < ver \<and> changesOf D ver ins dels upds)"
  proof (cases rule: getVersion_Inr [OF gv [unfolded w] o3 o4, unfolded friendOption_simps withVar_Inr, case_names full equal query])
    case full
    then show ?thesis using max_version [OF assms(2) ft, of vl s1] \<open>full = _\<close> by auto
  next
    case equal
    then obtain D where D: "friendLog u s1 = Some D" "vl = emptyLog D" "server_ok T u s1" "same_friends u s s1"
      using max_version [OF assms(2) ft, of vl s1] by auto
    moreover have "ver = vtVersion D" "vid = Hex (rOid T) (vtID D)" "0 < ver"
      using equal D(2) by (auto simp: validVersion_def equalID_def split: option.splits)
    moreover have "ins = []" "dels = []" "upds = []" using ids \<open>full = _\<close> equal(1) D(2) by (simp_all add: vlog.DeleteAndChangeIDs_ids)
    moreover have "log_ok D" using D by (simp add: server_ok_def)
    ultimately show ?thesis using changesOf_none by auto
  next
    case (query cache w0)
    obtain v0 s0 where w0: "w0 = (v0, s0)" by (cases w0)
    from query(2) have mx: "FindMaxFriendVersionCache ?F u s = (Inr cache, s0)" by (simp add: w0 withVar_Inr)
    from max_version [OF assms(2) ft mx] obtain D
      where D: "friendLog u s0 = Some D" "cache = emptyLog D" "server_ok T u s0" "same_friends u s s0" by blast
    have v: "0 < ver" "vid = Hex (rOid T) (vtID D)" using query(3,4) D(2) by (auto simp: validVersion_def equalID_def split: option.splits)
    from sorted_query_Inr [OF query(5) [unfolded w0]]
    obtain vl0 where q: "FindFriendIncrVersion u ver syncLimit s0 = (Inr vl0, s1)" and vl: "vl = fst (splitSort vl0)" by blast
    from query_log [OF D(1) v(1) q] have vl0: "vl0 = changeLogOf ver syncLimit D"
      and s1: "friendDocs s1 = friendDocs s0" "rocks s1 = rocks s0" "friendLog u s1 = friendLog u s0" by simp_all
    have "vtID vl = vtID D" "vtVersion vl = vtVersion D" by (simp_all add: vl vl0 splitSort_def Let_def vlog.read_doc)
    moreover have "changesOf D ver ins dels upds" if "\<not> full"
      using changesOf_log [OF _ v(1) _ _ vl [unfolded vl0]] ids \<open>full = _\<close> query(1) that D(1,3) by (simp add: server_ok_def)
    ultimately show ?thesis using D s1 v server_ok_cong [OF D(3) s1] by (auto simp: same_friends_def)
  qed
  then obtain D where D: "friendLog u s1 = Some D" "vtID vl = vtID D" "vtVersion vl = vtVersion D" "server_ok T u s1" "same_friends u s s1"
    "\<not> full \<longrightarrow> vid = Hex (rOid T) (vtID D) \<and> 0 < ver \<and> changesOf D ver ins dels upds" by blast
  have docs: "docs_ok (friendDocs s)" "friendDocs s1 = friendDocs s" using assms(2) D(5) by (simp_all add: server_ok_def same_friends_def)
  note i = get [OF il [unfolded w] docs]
  note l = get [OF ul [unfolded w] docs(1)]
  show ?thesis
    using D i l r by (auto simp: w docs same_friends_def intro!: server_ok_cong [OF D(4)]) blast
qed

text \<open>A page of the friend list, and the ids of all friends.\<close>

definition friendList :: "(string \<Rightarrow> UserInfo) \<Rightarrow> string \<Rightarrow> Friend list \<Rightarrow> LocalFriend list" where
  "friendList info u ds = map (localOf info) (friendSort (filter (\<lambda>d. frOwnerUserID d = u) ds))"

lemma pageOf_section:
  assumes "pages_ok T" and "0 < n" and "0 < p"
  shows "pageOf T ds \<lparr>pageNumber = p, showNumber = int n\<rparr> = take n (drop (n * nat (p - 1)) ds)"
proof -
  let ?is = "take n (drop (n * nat (p - 1)) [0..<length ds])"
  have page: "fPage T [0..<length ds] \<lparr>pageNumber = p, showNumber = int n\<rparr> = ?is"
    using assms by (auto simp: pages_ok_def)
  have "filter (\<lambda>i. i < length ds) ?is = ?is" by (auto simp: filter_id_conv dest: in_set_takeD in_set_dropD)
  moreover have "map ((!) ds) ?is = take n (drop (n * nat (p - 1)) ds)" by (simp only: take_map [symmetric] drop_map [symmetric] map_nth)
  ultimately show ?thesis by (simp add: pageOf_def page)
qed

lemma pagination_reply:
  assumes "GetPaginationFriends T op u \<lparr>pageNumber = p, showNumber = int n\<rparr> s = (Inr (tot, fs), s')" and "tools_ok T info" and "0 < n" and "0 < p"
  shows "map ServerFriendToLocalFriend fs = take n (drop (n * nat (p - 1)) (friendList info u (friendDocs s))) \<and>
    friendDocs s' = friendDocs s \<and> rocks s' = rocks s \<and> friendLog u s' = friendLog u s"
proof -
  have pg: "pages_ok (friend_tools.truncate T)" and ut: "users_ok T info" using assms(2) by (simp_all add: tools_ok_def)
  let ?ds = "friendSort (filter (\<lambda>d. frOwnerUserID d = u) (friendDocs s))"
  have "FriendsDB2Pb T (pageOf (friend_tools.truncate T) ?ds \<lparr>pageNumber = p, showNumber = int n\<rparr>) (s\<lparr>opno := Suc (opno s)\<rparr>) = (Inr fs, s')"
    using assms(1)
    by (auto simp: GetPaginationFriends_def PageOwnerFriends_def friend_FindOwnerFriends_def friend_findPage_def bindM_eq_Inr io_Inr liftE_def Let_def)
  from FriendsDB2Pb_ok [OF ut this] have fs: "fs = map (\<lambda>d. friendInfoOf d (info (frFriendUserID d))) (take n (drop (n * nat (p - 1)) ?ds))"
    and s': "friendDocs s' = friendDocs s \<and> rocks s' = rocks s \<and> friendLog u s' = friendLog u s"
    by (auto simp: pageOf_section [OF pg assms(3,4)])
  then show ?thesis by (simp add: friendList_def take_map drop_map localOf_def)
qed

lemma pagination_state:
  assumes "GetPaginationFriends T op u p s = (Inr r, s')" and "users_ok T info"
  shows "friendDocs s' = friendDocs s \<and> rocks s' = rocks s \<and> friendLog u s' = friendLog u s"
proof -
  obtain fs ds where "FriendsDB2Pb T ds (s\<lparr>opno := Suc (opno s)\<rparr>) = (Inr fs, s')"
    using assms(1)
    by (auto simp: GetPaginationFriends_def PageOwnerFriends_def friend_FindOwnerFriends_def friend_findPage_def bindM_eq_Inr io_Inr liftE_def Let_def)
  from FriendsDB2Pb_ok [OF assms(2) this] show ?thesis by auto
qed

lemma full_ids_reply:
  assumes "GetFullFriendUserIDs T u h s = (Inr r, s')" and "server_ok T u s" and "tools_ok T info"
  shows "server_ok T u s' \<and> same_friends u s s'"
proof -
  have ft: "friend_tools_ok (friend_tools.truncate T)" using assms(3) by (simp add: tools_ok_def)
  let ?F = "friend_tools.truncate T"
  from assms(1) obtain vl s1 ids where m: "FindMaxFriendVersionCache ?F u s = (Inr vl, s1)" and i: "GetFriendIDs ?F u s1 = (Inr ids, s')"
    by (auto simp: GetFullFriendUserIDs_def FindFriendUserIDs_def bindM_eq_Inr Let_def)
  from max_version [OF assms(2) ft m] have s1: "server_ok T u s1" "same_friends u s s1" by blast+
  have key: "GetFriendMaxVersionKey u \<noteq> GetFriendIDsKey u'" for u' by (simp add: GetFriendMaxVersionKey_def GetFriendIDsKey_def)
  have "friendDocs s' = friendDocs s1 \<and> friendLog u s' = friendLog u s1 \<and> rocks s' (GetFriendMaxVersionKey u) = rocks s1 (GetFriendMaxVersionKey u)"
    using i key by (auto simp: GetFriendIDs_def getCache_def rocksFetch2_def bindM_eq_Inr io_Inr friend_FindFriendUserIDs_def
        split: option.splits if_splits)
  then show ?thesis using s1 by (auto simp: server_ok_def cache_ok_def same_friends_def)
qed

section \<open>The client's knowledge\<close>

definition clientTab :: "string \<Rightarrow> 'e sdk_world_scheme \<Rightarrow> string \<rightharpoonup> LocalFriend" where
  "clientTab u w k = friendRows u w (u, k)"

definition keptFriends :: "string \<Rightarrow> 'e sdk_world_scheme \<Rightarrow> string \<times> nat" where
  "keptFriends u w = keptVersion ''local_friends'' u w"

text \<open>
  Whatever version of the log the client keeps, its table is the one of that version, as far as the log tells: an element without a newer
  entry is as the server has it.
\<close>

definition knows :: "'t relation_tools \<Rightarrow> (string \<Rightarrow> UserInfo) \<Rightarrow> string \<Rightarrow> 'e system_scheme \<Rightarrow> bool" where
  "knows T info u w \<longleftrightarrow> clientTab u w VersionSortChangeID = None \<and> (case friendLog u (srv w) of
     None \<Rightarrow> snd (keptFriends u w) = 0
   | Some D \<Rightarrow> fst (keptFriends u w) = Hex (rOid T) (vtID D) \<longrightarrow> 0 < snd (keptFriends u w) \<longrightarrow>
       snd (keptFriends u w) \<le> vtVersion D \<and>
       tracked (- {VersionSortChangeID}) D (snd (keptFriends u w)) (clientTab u w) (serverTab info u (friendDocs (srv w))))"

lemma srv_env [simp]:
  "srv (w\<lparr>versionTable := vt\<rparr>) = srv w" "srv (w\<lparr>localFriends := fs\<rparr>) = srv w" "friendTable (w\<lparr>srv := s\<rparr>) = friendTable w"
  "friendRows u (w\<lparr>srv := s\<rparr>) = friendRows u w" "versionTable (w\<lparr>srv := s\<rparr>) = versionTable w"
  by (simp_all add: friendTable_def friendRows_def ownFriends_def)

lemma serverTab_ids:
  "users_ok T info \<Longrightarrow> docs_ok ds \<Longrightarrow>
   rowMap lfFriendUserID (map ServerFriendToLocalFriend (infosOf info u ids ds)) = serverTab info u ds |` set ids"
proof -
  assume ut: "users_ok T info"
  have "rowMap lfFriendUserID (map (localOf info) (filter (\<lambda>d. frOwnerUserID d = u \<and> frFriendUserID d \<in> set ids) es)) =
      rowMap lfFriendUserID (map (localOf info) (filter (\<lambda>d. frOwnerUserID d = u) es)) |` set ids" for es
    by (induction es) (auto simp: rowMap_Cons localOf_keys [OF ut] fun_eq_iff restrict_map_def)
  then show ?thesis by (simp add: infosOf_def serverTab_def localOf_def [abs_def] comp_def)
qed

lemma infos_own:
  "x \<in> set (infosOf info u ids ds) \<Longrightarrow> ownFriend u (ServerFriendToLocalFriend x)"
  by (auto simp: infosOf_def ownFriend_def ServerFriendToLocalFriend_def friendInfoOf_def)

lemma infos_keys:
  "users_ok T info \<Longrightarrow> map lfFriendUserID (map ServerFriendToLocalFriend (infosOf info u ids ds)) =
     map frFriendUserID (filter (\<lambda>d. frOwnerUserID d = u \<and> frFriendUserID d \<in> set ids) ds)"
  by (simp add: infosOf_def ServerFriendToLocalFriend_def friendInfoOf_def users_ok_def)

lemma docs_distinct: "docs_ok ds \<Longrightarrow> distinct (map frFriendUserID (filter (\<lambda>d. frOwnerUserID d = u \<and> P d) ds))"
proof -
  assume "docs_ok ds"
  then have "inj_on (\<lambda>d. (frOwnerUserID d, frFriendUserID d)) (set ds)" and "distinct ds" by (auto simp: docs_ok_def distinct_map)
  then show ?thesis by (auto simp: distinct_map inj_on_def)
qed

lemma infos_distinct:
  assumes "users_ok T info" and "docs_ok ds" and "set is \<inter> set js = {}"
  shows "distinct (map lfFriendUserID (map ServerFriendToLocalFriend (infosOf info u is ds) @ map ServerFriendToLocalFriend (infosOf info u js ds)))"
  unfolding map_append infos_keys [OF assms(1)]
  using docs_distinct [OF assms(2)] assms(3) by auto

lemma serverTab_marker: "users_ok T info \<Longrightarrow> docs_ok ds \<Longrightarrow> serverTab info u ds VersionSortChangeID = None"
  by (auto simp: serverTab_def rowMap_None localOf_keys docs_ok_def)

text \<open>The reply to a client that knows its version turns its table into the server's.\<close>

lemma reply_serverTab:
  assumes "tracked (- {VersionSortChangeID}) D ver copy (serverTab info u ds)" and "changesOf D ver ins dels upds"
    and "users_ok T info" and "docs_ok ds" and "copy VersionSortChangeID = None"
  shows "applyReply dels (rowMap lfFriendUserID (map ServerFriendToLocalFriend (infosOf info u upds ds) @
    map ServerFriendToLocalFriend (infosOf info u ins ds))) copy = serverTab info u ds"
proof (rule ext)
  fix k
  let ?tab = "serverTab info u ds"
  have rm: "rowMap lfFriendUserID (map ServerFriendToLocalFriend (infosOf info u upds ds) @ map ServerFriendToLocalFriend (infosOf info u ins ds)) =
      ?tab |` set (ins @ upds)"
    by (auto simp: rowMap_append serverTab_ids [OF assms(3,4)] fun_eq_iff restrict_map_def map_add_def split: option.split)
  show "applyReply dels (rowMap lfFriendUserID (map ServerFriendToLocalFriend (infosOf info u upds ds) @
    map ServerFriendToLocalFriend (infosOf info u ins ds))) copy k = ?tab k"
  proof (cases "k = VersionSortChangeID")
    case True
    then show ?thesis using serverTab_marker [OF assms(3,4)] assms(5)
      by (simp add: rm applyReply_def restrict_map_def map_add_def)
  next
    case False
    then show ?thesis unfolding rm using assms(2)
      by (intro vlog.reply_entries [OF assms(1)]) (auto simp: changesOf_def)
  qed
qed

section \<open>Synchronisation\<close>

lemma keeps_conj: "keeps P m \<Longrightarrow> keeps Q m \<Longrightarrow> keeps (\<lambda>w. P w \<and> Q w) m"
  unfolding keeps_def by blast

text \<open>The client's own operations leave the server alone.\<close>

lemma preserves_srv:
  assumes "\<And>w. srv (f w) = srv w"
  shows "preserves (\<lambda>w. Q (srv w)) (io (modifyM f))"
  by (intro preserves_io preserves_modifyM) (simp_all add: assms)

lemma friendOps_srv:
  "preserves (\<lambda>w. Q (srv w)) (InsertFriend f)" "preserves (\<lambda>w. Q (srv w)) (UpdateFriend f)" "preserves (\<lambda>w. Q (srv w)) (DeleteFriendDB u i)"
  "preserves (\<lambda>w. Q (srv w)) (BatchInsertFriend fs)" "preserves (\<lambda>w. Q (srv w)) DeleteAllFriend"
  "preserves (\<lambda>w. Q (srv w)) (GetAllFriendList u)"
  by (auto simp: InsertFriend_def UpdateFriend_def DeleteFriendDB_def BatchInsertFriend_def DeleteAllFriend_def GetAllFriendList_def
      intro!: preserves_io) (auto simp: preserves_def split: if_splits)

lemma friendNotice_srv: "preserves (\<lambda>w. Q (srv w)) (friendNotice st a b)"
proof -
  have "srv (w\<lparr>events := e\<rparr>) = srv w" for w :: "'e system_scheme" and e by simp
  then show ?thesis by (cases st) (auto simp: preserves_def friendNotice_def event_def renameEvents_def Let_def)
qed

lemma Sync_srv: "preserves (\<lambda>w. Q (srv w)) (Sync T (friendSyncer u) server local None skips)"
proof (rule preserves_Sync)
  fix x y :: LocalFriend
  show "preserves (\<lambda>w. Q (srv w)) (update (friendSyncer u) x y)"
    by (auto simp: friendSyncer_def friendOps_srv simp del: bindM_modifyM intro!: preserves_bind preserves_modifyM)
qed (auto simp: friendSyncer_def friendOps_srv friendNotice_srv)

lemma onServer_keeps: "(\<And>s a s'. Q s \<Longrightarrow> p s = (Inr a, s') \<Longrightarrow> Q s') \<Longrightarrow> keeps (\<lambda>w. Q (srv w)) (onServer p)"
  by (auto simp: keeps_def dest!: onServer_Inr)

lemma onServer_friendTable: "keeps friendTable (onServer p)"
  by (auto simp: keeps_def dest!: onServer_Inr)

lemma own_rowMap: "\<forall>x\<in>set xs. ownFriend u x \<Longrightarrow> rowMap friendKey xs (u, k) = rowMap lfFriendUserID xs k"
  by (induction xs) (auto simp: rowMap_Cons ownFriend_key [of u])

text \<open>A full synchronisation stores the list of the server.\<close>

lemma friends_full:
  fixes w :: "'e system_scheme"
  assumes "FullSync fuel (callApi (serverCalls T op fuel)) (friendSyncer u) u w = (Inr (), w')" and tools: "tools_ok T info"
    and "docs_ok (friendDocs (srv w))" and "length (filter (\<lambda>d. frOwnerUserID d = u) (friendDocs (srv w))) \<le> 10000"
  shows "clientTab u w' = serverTab info u (friendDocs (srv w))"
proof -
  have ut: "users_ok T info" using tools by (simp add: tools_ok_def)
  let ?ds = "friendDocs (srv w)" and ?L = "friendList info u (friendDocs (srv w))"
  let ?own = "filter (\<lambda>d. frOwnerUserID d = u) ?ds"
  have L: "mset ?L = mset (map (localOf info) ?own)" by (simp add: friendList_def friendSort_def mset_map)
  then have setL: "set ?L = localOf info ` set ?own" by (metis set_mset_mset set_map)
  have own: "\<forall>x\<in>set ?L. ownFriend u x" by (auto simp: setL ownFriend_def localOf_keys [OF ut])
  have keys: "mset (map lfFriendUserID ?L) = mset (map frFriendUserID ?own)"
    by (simp add: mset_map [of lfFriendUserID] L image_mset.compositionality comp_def localOf_keys [OF ut])
  have "distinct (map frFriendUserID ?own)" using docs_distinct [OF assms(3), of u "\<lambda>_. True"] by simp
  then have dk: "distinct (map lfFriendUserID ?L)" using mset_eq_imp_distinct_iff [OF keys] by simp
  have dl: "distinct (map friendKey ?L)" using dk by (auto simp: friendKey_def distinct_map inj_on_def)
  let ?Q = "\<lambda>x :: 'e system_scheme. friendDocs (srv x) = ?ds"
  have page: "friendRows u x' = friendRows u x \<and> ?Q x' \<and>
      batchPageRespConvertFunc (friendSyncer u) r = take 100 (drop (100 * nat (n - 1)) ?L)"
    if "callApi (serverCalls T op fuel) (reqApiRouter (friendSyncer u)) (fst (batchPageReq (friendSyncer u) u)) n (int 100) x = (Inr r, x')" and "?Q x"
      and "0 < n" for n r and x x' :: "'e system_scheme"
  proof -
    have "onServer (bindM (GetPaginationFriends T op u \<lparr>pageNumber = n, showNumber = int 100\<rparr>) (\<lambda>(total, fs). ret fs)) x = (Inr r, x')"
      using that(1) by (simp add: serverCalls_def friendSyncer_def)
    from onServer_Inr [OF this] obtain s tot where p: "GetPaginationFriends T op u \<lparr>pageNumber = n, showNumber = int 100\<rparr> (srv x) = (Inr (tot, r), s)"
      and x': "x' = x\<lparr>opno := Suc (opno x), srv := s\<rparr>" by (auto simp: bindM_eq_Inr)
    from pagination_reply [OF p tools _ that(3)] that(2) show ?thesis by (simp add: x' friendSyncer_def)
  qed
  have uu: "uuid (friendSyncer u) = friendKey" by (simp add: friendSyncer_def)
  have "friendRows u w' = rowMap friendKey ?L"
    by (rule friends.FullSync_ok [where Q = ?Q and L = ?L and sz = 100, OF assms(1) page, unfolded uu])
      (use own dl assms(4) L in \<open>auto simp: friendSyncer_def friendSyncLimit_def friendOps_srv [where Q = "\<lambda>s. friendDocs s = ?ds"] friendList_def friendSort_def\<close>)
  then have "clientTab u w' = rowMap lfFriendUserID ?L"
    by (auto simp: clientTab_def own_rowMap [OF own])
  also have "\<dots> = serverTab info u ?ds"
    unfolding serverTab_def
    by (rule rowMap_same) (use dk docs_distinct [OF assms(3), of u "\<lambda>_. True"] setL in \<open>simp_all add: comp_def localOf_keys [OF ut]\<close>)
  finally show ?thesis .
qed

text \<open>The calls of a synchronisation of the friend list.\<close>

definition friendSyncOn ::
  "(LocalFriend, string \<times> string) slice_tools \<Rightarrow> friend_world relation_tools \<Rightarrow> string \<Rightarrow> nat \<Rightarrow> string \<Rightarrow>
   ('e system_scheme, LocalFriend, IncrementalFriends, unit) VersionSynchronizer" where
  "friendSyncOn T2 T op fuel u = friendVersionSync T2 (serverCalls T op fuel) u"

lemma friendSyncOn_simps:
  "ServerVersion (friendSyncOn T2 T op fuel u) = None" "TableName (friendSyncOn T2 T op fuel u) = ''local_friends''"
  "EntityID (friendSyncOn T2 T op fuel u) = u" "Full (friendSyncOn T2 T op fuel u) = irFull" "DeleteIDs (friendSyncOn T2 T op fuel u) = irDelete"
  "UpdateOf (friendSyncOn T2 T op fuel u) = (\<lambda>r. map ServerFriendToLocalFriend (irUpdate r))"
  "InsertOf (friendSyncOn T2 T op fuel u) = (\<lambda>r. map ServerFriendToLocalFriend (irInsert r))"
  "Key (friendSyncOn T2 T op fuel u) = lfFriendUserID" "Version (friendSyncOn T2 T op fuel u) = (\<lambda>r. (irVersionID r, irVersion r))"
  "FullSyncer (friendSyncOn T2 T op fuel u) = FullSync fuel (callApi (serverCalls T op fuel)) (friendSyncer u) u"
  "Local (friendSyncOn T2 T op fuel u) = GetAllFriendList u"
  "SyncerFn (friendSyncOn T2 T op fuel u) = (\<lambda>server local. Sync T2 (friendSyncer u) server local None [])"
  by (simp_all add: friendSyncOn_def friendVersionSync_def serverCalls_def)

lemma server_call:
  "Server (friendSyncOn T2 T op fuel u) lvs x = (Inr resp, x') \<Longrightarrow>
   \<exists>s. GetIncrementalFriends T op u (lvVersion lvs) (lvVersionID lvs) (srv x) = (Inr resp, s) \<and> x' = x\<lparr>opno := Suc (opno x), srv := s\<rparr>"
  using onServer_Inr by (simp add: friendSyncOn_def friendVersionSync_def serverCalls_def)

lemma fullID_call:
  assumes "FullID (friendSyncOn T2 T op fuel u) x = (Inr ids, x')"
  shows "\<exists>s h r. GetFullFriendUserIDs T u h (srv x) = (Inr r, s) \<and> x' = x\<lparr>opno := Suc (opno x), srv := s\<rparr>"
proof -
  from assms have "onServer (bindM (GetFullFriendUserIDs T u 0) (\<lambda>(idHash, versionID, equal, ids). ret ids)) x = (Inr ids, x')"
    by (simp add: friendSyncOn_def friendVersionSync_def serverCalls_def)
  from onServer_Inr [OF this] show ?thesis by (auto simp: bindM_eq_Inr) blast
qed

lemma fullID_rows: "FullID (friendSyncOn T2 T op fuel u) x = (Inr ids, x') \<Longrightarrow> friendRows u x' = friendRows u x"
  by (auto dest: fullID_call)

lemma server_call_rows:
  "Server (friendSyncOn T2 T op fuel u) lvs x = (Inr resp, x') \<Longrightarrow>
   friendRows u x' = friendRows u x \<and> versionTable x' = versionTable x \<and> (friendTable x \<longrightarrow> friendTable x')"
  by (auto dest: server_call)

text \<open>The rows of a reply are the user's, each named once.\<close>

lemma reply_rows:
  assumes "tools_ok T info" and "server_ok T u (srv w)"
    and "Server (friendSyncOn T2 T op fuel u) lvs (w\<lparr>opno := n\<rparr>) = (Inr resp, w2)" and "\<not> irFull resp"
  shows "(\<forall>x\<in>set (map ServerFriendToLocalFriend (irUpdate resp) @ map ServerFriendToLocalFriend (irInsert resp)). ownFriend u x) \<and>
    distinct (map lfFriendUserID (map ServerFriendToLocalFriend (irUpdate resp) @ map ServerFriendToLocalFriend (irInsert resp)))"
proof -
  have ut: "users_ok T info" and docs: "docs_ok (friendDocs (srv w))" using assms(1,2) by (simp_all add: tools_ok_def server_ok_def)
  from server_call [OF assms(3)] obtain s where "GetIncrementalFriends T op u (lvVersion lvs) (lvVersionID lvs) (srv w) = (Inr resp, s)" by auto
  from incremental_reply [OF this assms(2,1)] assms(4) obtain D ins upds where "changesOf D (lvVersion lvs) ins (irDelete resp) upds"
    "irInsert resp = infosOf info u ins (friendDocs (srv w))" "irUpdate resp = infosOf info u upds (friendDocs (srv w))" by auto
  moreover from this have "set upds \<inter> set ins = {}" by (auto simp: changesOf_def)
  ultimately show ?thesis
    using infos_distinct [OF ut docs, of upds ins u] by (auto simp: infos_own simp del: map_map)
qed

text \<open>What follows the server's reply keeps the client's key and the server's data.\<close>

definition settled :: "'t relation_tools \<Rightarrow> string \<Rightarrow> friend_world \<Rightarrow> 'e system_scheme \<Rightarrow> bool" where
  "settled T u s x \<longleftrightarrow> friendTable x \<and> server_ok T u (srv x) \<and> same_friends u s (srv x)"

lemma settled_env: "settled T u s (x\<lparr>opno := n\<rparr>) = settled T u s x" "settled T u s (x\<lparr>versionTable := vt\<rparr>) = settled T u s x"
  by (simp_all add: settled_def)

lemma keeps_settled: "keeps friendTable m \<Longrightarrow> keeps (\<lambda>x. server_ok T u (srv x) \<and> same_friends u s (srv x)) m \<Longrightarrow> keeps (settled T u s) m"
  unfolding keeps_def settled_def by blast

lemma settled_client:
  "keeps (settled T u s) (Local (friendSyncOn T2 T op fuel u))" "keeps (settled T u s) (SyncerFn (friendSyncOn T2 T op fuel u) server local)"
  unfolding friendSyncOn_simps
  by (intro keeps_settled keeps_preserves friendTable_GetAllFriendList friendTable_Sync friendOps_srv(6) [where Q = "\<lambda>st. server_ok T u st \<and> same_friends u s st"]
    Sync_srv [where Q = "\<lambda>st. server_ok T u st \<and> same_friends u s st"])+

lemma settled_fullID:
  assumes "tools_ok T info"
  shows "keeps (settled T u s) (FullID (friendSyncOn T2 T op fuel u))"
  unfolding keeps_def
proof (intro allI impI)
  fix x ids x'
  assume x: "settled T u s x" and "FullID (friendSyncOn T2 T op fuel u) x = (Inr ids, x')"
  with fullID_call obtain st h r where "GetFullFriendUserIDs T u h (srv x) = (Inr r, st)" "x' = x\<lparr>opno := Suc (opno x), srv := st\<rparr>" by blast
  with full_ids_reply [OF this(1) _ assms] x show "settled T u s x'" by (auto simp: settled_def intro: same_friends_trans)
qed

lemma settled_full:
  assumes "users_ok T info"
  shows "keeps (settled T u s) (FullSyncer (friendSyncOn T2 T op fuel u))"
  unfolding friendSyncOn_simps
proof (rule keeps_settled)
  let ?Q = "\<lambda>st. server_ok T u st \<and> same_friends u s st"
  let ?call = "callApi (serverCalls T op fuel)"
  have call: "?call api v n m = onServer (bindM (GetPaginationFriends T op v \<lparr>pageNumber = n, showNumber = m\<rparr>) (\<lambda>(total, fs). ret fs))" for api v n m
    by (simp add: serverCalls_def)
  show "keeps friendTable (FullSync fuel ?call (friendSyncer u) u)"
    by (rule friends.keeps_FullSync)
      (simp_all add: call onServer_friendTable friendSyncer_def friendTable_rules friendTable_DeleteAllFriend)
  have q: "keeps (\<lambda>x. ?Q (srv x)) (?call api u n m)" for api n m
    unfolding call
  proof (rule onServer_keeps)
    fix st r st'
    assume st: "?Q st" and "bindM (GetPaginationFriends T op u \<lparr>pageNumber = n, showNumber = m\<rparr>) (\<lambda>(total, fs). ret fs) st = (Inr r, st')"
    then obtain tot where "GetPaginationFriends T op u \<lparr>pageNumber = n, showNumber = m\<rparr> st = (Inr (tot, r), st')" by (auto simp: bindM_eq_Inr)
    from pagination_state [OF this assms] st show "?Q st'" by (auto simp: same_friends_def intro: server_ok_cong)
  qed
  show "keeps (\<lambda>x. ?Q (srv x)) (FullSync fuel ?call (friendSyncer u) u)"
    by (rule friends.keeps_FullSync) (use q friendOps_srv [of ?Q] in \<open>simp_all add: friendSyncer_def\<close>)
qed

lemma friends_sync:
  fixes w :: "'e system_scheme"
  assumes "IncrSyncFriends T1 T2 (serverCalls T op fuel) u w = (Inr (), w')" and "u \<noteq> ''''" and "slice_ok T1" and "slice_ok T2" and "tools_ok T info"
    and "server_ok T u (srv w)" and "friendTable w" and "knows T info u w" and "length (ownerDocs u (srv w)) \<le> 10000"
  shows "clientTab u w' = serverTab info u (friendDocs (srv w)) \<and> friendTable w' \<and> friendDocs (srv w') = friendDocs (srv w) \<and>
    server_ok T u (srv w') \<and> knows T info u w'"
proof -
  let ?o = "friendSyncOn T2 T op fuel u :: ('e system_scheme, LocalFriend, IncrementalFriends, unit) VersionSynchronizer"
  let ?ds = "friendDocs (srv w)" and ?tab = "serverTab info u (friendDocs (srv w))"
  note simps = friendSyncOn_simps
  have ut: "users_ok T info" and docs: "docs_ok ?ds" using assms(5,6) by (simp_all add: tools_ok_def server_ok_def)
  have vals: "friends.vals u x = clientTab u x" for x :: "'e system_scheme"
    by (simp add: friends.vals_def clientTab_def fun_eq_iff)
  note on = friendSyncOn_def [symmetric]
  have run: "IncrementalSync T1 ?o w = (Inr (), w')" using assms(1) by (simp add: IncrSyncFriends_def on)
  have reply: "(\<forall>x\<in>set (UpdateOf ?o resp @ InsertOf ?o resp). ownFriend u x) \<and> distinct (map (Key ?o) (UpdateOf ?o resp @ InsertOf ?o resp))"
    if "Server ?o lvs (w\<lparr>opno := Suc (opno w)\<rparr>) = (Inr resp, w2)" and "(lvVersionID lvs, lvVersion lvs) = keptVersion (TableName ?o) (EntityID ?o) w"
      and "\<not> Full ?o resp" for lvs resp w2
    using reply_rows [OF assms(5,6) that(1) that(3) [unfolded simps]] unfolding simps .
  show ?thesis
  proof (rule friends.IncrementalSync_ok [of T1 T2 "serverCalls T op fuel" u w w', unfolded on, OF run simps(1) assms(4,3,7) fullID_rows server_call_rows reply,
      unfolded simps vals keptFriends_def [symmetric]])
    fix lvs resp w2
    assume kept: "(lvVersionID lvs, lvVersion lvs) = keptFriends u w"
      and server: "Server ?o lvs (w\<lparr>opno := Suc (opno w)\<rparr>) = (Inr resp, w2)"
      and part: "\<not> irFull resp \<Longrightarrow> clientTab u w' = applyReply (irDelete resp) (rowMap lfFriendUserID
        (map ServerFriendToLocalFriend (irUpdate resp) @ map ServerFriendToLocalFriend (irInsert resp))) (clientTab u w)"
      and fully: "irFull resp \<Longrightarrow> \<exists>w3. FullSync fuel (callApi (serverCalls T op fuel)) (friendSyncer u) u w2 = (Inr (), w3) \<and> clientTab u w' = clientTab u w3"
      and keep: "\<And>P. keeps P (GetAllFriendList u) \<Longrightarrow> (\<And>server local. keeps P (Sync T2 (friendSyncer u) server local None [])) \<Longrightarrow>
          keeps P (FullSync fuel (callApi (serverCalls T op fuel)) (friendSyncer u) u) \<Longrightarrow> keeps P (FullID ?o) \<Longrightarrow>
        (\<And>w n. P w \<Longrightarrow> P (w\<lparr>opno := n\<rparr>)) \<Longrightarrow> (\<And>w vt. P w \<Longrightarrow> P (w\<lparr>versionTable := vt\<rparr>)) \<Longrightarrow> P w2 \<Longrightarrow> P w'"
      and ver: "keptFriends u w' = keptFriends u w \<and> \<not> irFull resp \<or> (\<exists>lvs' w4. updateVersionInfo ?o lvs' resp w4 = (Inr (), w'))"
    from server_call [OF server] obtain s where g: "GetIncrementalFriends T op u (lvVersion lvs) (lvVersionID lvs) (srv w) = (Inr resp, s)"
      and w2: "srv w2 = s" "friendTable w2 = friendTable w" by auto
    from incremental_reply [OF g assms(6,5)] obtain D where D: "friendLog u s = Some D" "server_ok T u s" "same_friends u (srv w) s"
      "irVersionID resp = Hex (rOid T) (vtID D)" "irVersion resp = vtVersion D"
      and inc: "\<not> irFull resp \<longrightarrow> lvVersionID lvs = Hex (rOid T) (vtID D) \<and> 0 < lvVersion lvs \<and> (\<exists>ins upds. changesOf D (lvVersion lvs) ins (irDelete resp) upds \<and>
       irInsert resp = infosOf info u ins ?ds \<and> irUpdate resp = infosOf info u upds ?ds)" by blast
    have tr: "tracked (- {VersionSortChangeID}) D (lvVersion lvs) (clientTab u w) ?tab \<and> lvVersion lvs \<le> vtVersion D" if "\<not> irFull resp"
    proof -
      have "lvVersionID lvs = Hex (rOid T) (vtID D)" "0 < lvVersion lvs" using inc that by simp_all
      then show ?thesis
        using assms(8) kept D(1,3) by (cases "friendLog u (srv w)") (auto simp: knows_def same_friends_def prod_eq_iff dest: sym)
    qed
    have marker: "clientTab u w VersionSortChangeID = None" using assms(8) by (simp add: knows_def)
    have tab: "clientTab u w' = ?tab"
    proof (cases "irFull resp")
      case True
      then obtain w3 where "FullSync fuel (callApi (serverCalls T op fuel)) (friendSyncer u) u w2 = (Inr (), w3)" "clientTab u w' = clientTab u w3"
        using fully by blast
      with friends_full [OF this(1) assms(5)] docs D(3) w2 assms(9) show ?thesis by (simp add: same_friends_def ownerDocs_def)
    next
      case False
      then obtain ins upds where "changesOf D (lvVersion lvs) ins (irDelete resp) upds" "irInsert resp = infosOf info u ins ?ds"
        "irUpdate resp = infosOf info u upds ?ds" using inc by blast
      with part [OF False] reply_serverTab [OF conjunct1 [OF tr [OF False]] _ ut docs marker] show ?thesis by simp
    qed
    have "settled T u s w'"
      by (rule keep)
        (use settled_client [where s = s] settled_fullID [OF assms(5)] settled_full [OF ut] w2 D assms(7) in
          \<open>simp_all add: simps settled_env settled_def [of T u s w2]\<close>)
    then have fin: "friendTable w'" "server_ok T u (srv w')" "friendLog u (srv w') = Some D" "friendDocs (srv w') = ?ds"
      using D(1,3) by (simp_all add: settled_def same_friends_def)
    have log: "versions_ok D" using D(1,2) by (simp add: server_ok_def log_ok_def)
    have "knows T info u w'"
    proof (cases "keptFriends u w' = keptFriends u w \<and> \<not> irFull resp")
      case True
      with tr have "tracked (- {VersionSortChangeID}) D (snd (keptFriends u w)) (clientTab u w) ?tab" "snd (keptFriends u w) \<le> vtVersion D"
        using kept by (metis snd_conv)+
      then show ?thesis using True fin tab marker serverTab_marker [OF ut docs] by (auto simp: knows_def tracked_def)
    next
      case False
      then obtain lvs' w4 where "updateVersionInfo ?o lvs' resp w4 = (Inr (), w')" using ver by blast
      from friends.updateVersionInfo_kept [OF this [unfolded friendSyncOn_def], unfolded on] have "keptFriends u w' = (Hex (rOid T) (vtID D), vtVersion D)"
        using assms(2,5) D(4,5) log by (simp add: simps keptFriends_def tools_ok_def versions_ok_def FirstVersion_def)
      then show ?thesis using fin tab serverTab_marker [OF ut docs] by (simp add: knows_def vlog.tracked_now [OF log order_refl])
    qed
    then show ?thesis using fin tab by simp
  qed
qed

text \<open>
  C36. An incremental synchronisation of the friend list that succeeds leaves the client with the friend list of the server: the same friends with the same values, whether
  the server answered with the changes since the client's version, with no change or with a full synchronisation. The client's table keeps its primary
  key, the server's friends are untouched, and the version the client keeps stands for what it has, so that the next synchronisation starts from the same
  hypotheses.
\<close>

theorem friends_converge:
  fixes w :: "'e system_scheme"
  assumes "IncrSyncFriends T1 T2 (serverCalls T op fuel) u w = (Inr (), w')" and "u \<noteq> ''''" and "slice_ok T1" and "slice_ok T2" and "tools_ok T info"
    and "server_ok T u (srv w)" and "friendTable w" and "knows T info u w" and "length (ownerDocs u (srv w)) \<le> 10000"
  shows "clientTab u w' = serverTab info u (friendDocs (srv w)) \<and> friendTable w' \<and> friendDocs (srv w') = friendDocs (srv w) \<and>
    server_ok T u (srv w') \<and> knows T info u w'"
  by (rule friends_sync [OF assms])

end
