(* ===== verification/Friend_Ops.thy ===== *)
theory Friend_Ops
  imports Friend_Sync
begin

text \<open>
  What the server's operations on friends do to the log, and that they keep what the clients know: deleting a friend, changing friends and adding friends are
  changes in the sense of \<open>Version_Log_Props\<close>, and the newest version leaves the cache.
\<close>

section \<open>Dropping keys\<close>

lemma preserves_publishKeys:
  assumes "\<And>w n. P w \<Longrightarrow> P (w\<lparr>opno := n\<rparr>)" and "\<And>w p. P w \<Longrightarrow> P (w\<lparr>published := p\<rparr>)"
  shows "preserves P (publishKeys m)"
  unfolding publishKeys_def
  by (auto intro!: preserves_forM preserves_if preserves_bind preserves_tryM preserves_io preserves_modifyM assms split: prod.splits)

lemma preserves_execDel [preserves_rules]:
  assumes "\<And>w n. P w \<Longrightarrow> P (w\<lparr>opno := n\<rparr>)" and "\<And>w (ks :: string list). P w \<Longrightarrow> P (w\<lparr>rocks := rocks w |` (- set ks)\<rparr>)"
    and "\<And>w p. P w \<Longrightarrow> P (w\<lparr>published := p\<rparr>)"
  shows "preserves P (execDel topics keys)"
proof -
  have tag: "preserves P (tagAsDeletedBatch2 ks)" for ks
    by (rule preserves_tagAsDeletedBatch2, rule assms(1), assumption, rule assms(2), assumption)
  have "preserves P (ProcessKeysBySlot n ks (\<lambda>slot ks. tagAsDeletedBatch2 ks))" for n ks
    unfolding ProcessKeysBySlot_def
    by (rule preserves_bind, rule preserves_groupKeysBySlot, rule assms(1), assumption, rule preserves_runAll)
       (auto simp: tag split: option.splits)
  then show ?thesis unfolding execDel_def
    by (intro preserves_if preserves_bind preserves_ret preserves_gets preserves_publishKeys assms)
qed

lemma runAll_done:
  assumes "runAll ms w = (Inr (), w')" and "m \<in> set ms" and "\<And>v v'. m v = (Inr (), v') \<Longrightarrow> Q v'" and "\<And>m. m \<in> set ms \<Longrightarrow> preserves Q m"
  shows "Q w'"
  using assms
proof (induction ms arbitrary: w)
  case (Cons x ms)
  from runAll_Cons_Inr [OF Cons.prems(1)] obtain w1 where x: "x w = (Inr (), w1)" and r: "runAll ms w1 = (Inr (), w')" by blast
  show ?case
  proof (cases "m \<in> set ms")
    case True
    then show ?thesis using Cons.IH [OF r] Cons.prems(3,4) by auto
  next
    case False
    then have "Q w1" using Cons.prems(2,3) x by auto
    moreover have "preserves Q (runAll ms)" using Cons.prems(4) by (auto intro: preserves_runAll)
    ultimately show ?thesis using r by (metis preservesD)
  qed
qed simp

lemma tagged_gone:
  assumes "ProcessKeysBySlot n keys (\<lambda>slot ks. tagAsDeletedBatch2 ks) w = (Inr a, w')" and "0 < n" and "k \<in> set keys"
  shows "rocks w' k = None"
proof -
  from assms(1) obtain slots w1 where g: "groupKeysBySlot keys w = (Inr slots, w1)"
    and r: "runAll (concat (map (\<lambda>(slot, ks). case splitIntoBatches ks n of None \<Rightarrow> [] | Some batches \<Rightarrow> map (\<lambda>ks. tagAsDeletedBatch2 ks) batches) slots)) w1 =
      (Inr (), w')"
    by (auto simp: ProcessKeysBySlot_def bindM_eq_Inr)
  have "mset (concat (map snd slots)) = mset keys" using groupKeysBySlot_cases [OF g] by simp
  then have "k \<in> set (concat (map snd slots))" using assms(3) by (metis set_mset_mset)
  then obtain slot ks where sl: "(slot, ks) \<in> set slots" "k \<in> set ks" by auto
  from splitIntoBatches_ok [OF assms(2), of ks] obtain bs where bs: "splitIntoBatches ks n = Some bs" "concat bs = ks" by blast
  with sl(2) obtain b where b: "b \<in> set bs" "k \<in> set b" by auto
  show ?thesis
  proof (rule runAll_done [OF r, where m = "tagAsDeletedBatch2 b" and Q = "\<lambda>v. rocks v k = None"])
    show "tagAsDeletedBatch2 b \<in> set (concat (map (\<lambda>(slot, ks). case splitIntoBatches ks n of None \<Rightarrow> [] | Some batches \<Rightarrow>
        map (\<lambda>ks. tagAsDeletedBatch2 ks) batches) slots))"
      using sl(1) bs b by (auto intro!: bexI [of _ "(slot, ks)"])
    show "rocks v' k = None" if "tagAsDeletedBatch2 b v = (Inr (), v')" for v v'
      using that b(2) by (auto simp: tagAsDeletedBatch2_def io_Inr)
  qed (auto simp: restrict_map_def split: option.splits intro!: preserves_tagAsDeletedBatch2)
qed

text \<open>A chain of deletions takes its keys out of the cache and nothing else of the data changes.\<close>

lemma chainDel_ok:
  assumes "chainDel F keys s = (Inr (), s')" and "friend_tools_ok F"
  shows "friendDocs s' = friendDocs s \<and> versionDocs s' = versionDocs s \<and> nextOid s' = nextOid s \<and> rocks s' \<subseteq>\<^sub>m rocks s \<and> (\<forall>k\<in>set keys. rocks s' k = None)"
proof -
  let ?P = "\<lambda>x. friendDocs x = friendDocs s \<and> versionDocs x = versionDocs s \<and> nextOid x = nextOid s \<and> rocks x \<subseteq>\<^sub>m rocks s"
  have "preserves ?P (chainDel F keys)"
    unfolding chainDel_def ChainExecDel_def by (rule preserves_execDel) (auto simp: map_le_def restrict_map_def)
  from preservesD [OF this _ assms(1)] have "?P s'" by simp
  moreover have "rocks s' k = None" if "k \<in> set keys" for k
  proof -
    let ?keys = "fDistinct F keys"
    let ?rest = "if length (fTopics F) > 0 \<and> length ?keys > 0 then bindM (gets subscribed) (\<lambda>subscribe. publishKeys (GetPublishKeysByTopic subscribe (fTopics F) ?keys))
           else ret ()"
    have k: "k \<in> set ?keys" using that assms(2) by (simp add: friend_tools_ok_def)
    then have "length ?keys > 0" by (cases ?keys) simp_all
    then have "chainDel F keys s = thenM (ProcessKeysBySlot defaultBatchSize ?keys (\<lambda>slot ks. tagAsDeletedBatch2 ks)) ?rest s"
      by (simp only: chainDel_def ChainExecDel_def execDel_def if_True)
    with assms(1) have "thenM (ProcessKeysBySlot defaultBatchSize ?keys (\<lambda>slot ks. tagAsDeletedBatch2 ks)) ?rest s = (Inr (), s')" by (simp only:)
    then obtain a s1 where p: "ProcessKeysBySlot defaultBatchSize ?keys (\<lambda>slot ks. tagAsDeletedBatch2 ks) s = (Inr a, s1)"
      and r: "?rest s1 = (Inr (), s')"
      unfolding bindM_eq_Inr by blast
    have gone: "rocks s1 k = None" using tagged_gone [OF p _ k] by (simp add: defaultBatchSize_def)
    have "preserves (\<lambda>x. rocks x k = None) ?rest"
      by (intro preserves_if preserves_bind preserves_gets preserves_ret preserves_publishKeys) simp_all
    from preservesD [OF this gone r] show ?thesis .
  qed
  ultimately show ?thesis by simp
qed

section \<open>Logging a change\<close>

text \<open>What a logged change does to the log of the owner: it is written to, or created.\<close>

definition logged :: "string \<Rightarrow> string list \<Rightarrow> int \<Rightarrow> 'e friend_world_scheme \<Rightarrow> 'e friend_world_scheme \<Rightarrow> bool" where
  "logged u ids state s s' \<longleftrightarrow> (case friendLog u s of
     None \<Rightarrow> \<exists>D. friendLog u s' = Some D \<and> (distinct ids \<longrightarrow> log_ok D)
   | Some D \<Rightarrow> \<exists>t. friendLog u s' = Some (writeLogUpdate ids state t D))"

lemma find_append_other: "\<not> P x \<Longrightarrow> List.find P (xs @ [x]) = List.find P xs"
  by (induction xs) auto

lemma writeLogBatch2_other:
  assumes "writeLogBatch2 FriendVersionName u ids state t s = (r, s')"
  shows "(\<forall>v. v \<noteq> u \<longrightarrow> friendLog v s' = friendLog v s) \<and> friendDocs s' = friendDocs s \<and> rocks s' = rocks s \<and>
    (friendLog u s = None \<longrightarrow> friendLog u s' = None \<and> (\<forall>a. r \<noteq> Inr a))"
proof -
  have "List.find (\<lambda>d. vtDID d = v) (updFirst (\<lambda>d. vtDID d = u) (writeLogUpdate ids state t) ds) = List.find (\<lambda>d. vtDID d = v) ds"
    if "v \<noteq> u" for v ds
    using that by (intro find_updFirst_other) (auto simp: vlog.write_id)
  then show ?thesis using assms
    by (auto simp: writeLogBatch2_def bindM_def io_def Let_def friendLog_def findVersion_def setVersionDocs_def split: fault.splits option.splits)
qed

lemma initDoc_other:
  assumes "initDoc FriendVersionName u ids state t s = (r, s')"
  shows "(\<forall>v. v \<noteq> u \<longrightarrow> friendLog v s' = friendLog v s) \<and> friendDocs s' = friendDocs s \<and> rocks s' = rocks s \<and>
    (\<forall>a. r = Inr a \<longrightarrow> friendLog u s = None \<and> (\<exists>D. friendLog u s' = Some D \<and> (distinct ids \<longrightarrow> log_ok D))) \<and>
    (r = Inl MongoDuplicateKey \<longrightarrow> friendLog u s \<noteq> None)"
proof -
  let ?D = "\<lparr>vtID = Suc (nextOid s), vtDID = u, vtLogs = map (\<lambda>eId. \<lparr>vEID = eId, vState = state, vElemVersion = FirstVersion, vElemUpdate = t\<rparr>) ids,
     vtVersion = FirstVersion, vtDeleted = DefaultDeleteVersion, vtLastUpdate = t\<rparr>"
  have "distinct ids \<longrightarrow> log_ok ?D" by (auto simp: log_ok_def versions_ok_def comp_def)
  then show ?thesis using assms
    by (auto simp: initDoc_def NewObjectID_def bindM_def Let_def insertVersionDoc_def io_def friendLog_def findVersion_def setVersionDocs_def
        find_append find_append_other split: fault.splits option.splits)
qed

lemma friend_IncrVersion_ok:
  assumes "friend_IncrVersion u ids state s = (Inr (), s')"
  shows "logged u ids state s s' \<and> (\<forall>v. v \<noteq> u \<longrightarrow> friendLog v s' = friendLog v s) \<and> friendDocs s' = friendDocs s \<and> rocks s' = rocks s"
proof -
  have inc: "IncrVersion FriendVersionName u ids state s = (Inr (), s')" using assms by (simp add: friend_IncrVersion_def)
  then obtain vl s1 where res: "incrVersionResult FriendVersionName u ids state s = (Inr vl, s1)" and "s' = s1 \<or> (\<exists>c. s' = s1\<lparr>versionCtx := c\<rparr>)"
    by (auto simp: IncrVersion_def IncrVersionResult_def appendCtx_def bindM_eq_Inr)
  then have same: "friendLog v s' = friendLog v s1" "friendDocs s' = friendDocs s1" "rocks s' = rocks s1" for v
    by (auto simp: friendLog_def findVersion_def)
  from res consider "writeLogBatch2 FriendVersionName u ids state (clock s) s = (Inr vl, s1)"
    | s2 where "writeLogBatch2 FriendVersionName u ids state (clock s) s = (Inl MongoNoDocuments, s2)"
        "initDoc FriendVersionName u ids state (clock s) s2 = (Inr vl, s1)"
    | s2 s3 where "writeLogBatch2 FriendVersionName u ids state (clock s) s = (Inl MongoNoDocuments, s2)"
        "initDoc FriendVersionName u ids state (clock s) s2 = (Inl MongoDuplicateKey, s3)"
    unfolding incrVersionResult_def now_def by (auto simp: bind_tryM_Inr split: if_splits)
  then show ?thesis
  proof cases
    case 1
    note o = writeLogBatch2_other [OF 1]
    show ?thesis
    proof (cases "friendLog u s")
      case (Some D)
      then have "findVersion FriendVersionName u s = Some D" by (simp add: friendLog_def)
      from IncrVersion_some [OF inc this] obtain t where "friendLog u s' = Some (writeLogUpdate ids state t D)" by (auto simp: friendLog_def)
      then have "logged u ids state s s'" using Some by (auto simp: logged_def)
      then show ?thesis using o same by simp
    qed (use o in auto)
  next
    case 2
    note o = writeLogBatch2_other [OF 2(1)] initDoc_other [OF 2(2)]
    have "friendLog u s = None"
      using writeLogBatch2_some [of FriendVersionName u s _ ids state] 2(1) by (cases "friendLog u s") (auto simp: friendLog_def)
    then show ?thesis using o same by (auto simp: logged_def)
  next
    case 3
    have "friendLog u s = None"
      using writeLogBatch2_some [of FriendVersionName u s _ ids state] 3(1) by (cases "friendLog u s") (auto simp: friendLog_def)
    with writeLogBatch2_other [OF 3(1)] initDoc_other [OF 3(2)] show ?thesis by simp
  qed
qed

section \<open>The clients' knowledge\<close>

lemma log_ok_write: "log_ok D \<Longrightarrow> distinct ids \<Longrightarrow> log_ok (writeLogUpdate ids state t D)"
  using vlog.write_versions [of D ids state t]
  by (auto simp: log_ok_def vlog.write_id writeLogUpdate_def Let_def distinct_map_filter comp_def)

text \<open>
  A change of the server that leaves a user alone, or that is logged for the user, keeps what the user's client knows and the server's invariant for the user.
\<close>

lemma client_srv:
  "keptFriends v (w\<lparr>srv := s'\<rparr>) = keptFriends v w" "clientTab v (w\<lparr>srv := s'\<rparr>) = clientTab v w"
  by (simp_all add: keptFriends_def keptVersion_def clientTab_def fun_eq_iff)

lemma knows_same:
  assumes "knows T info v w" and "friendLog v s' = friendLog v (srv w)" and "serverTab info v (friendDocs s') = serverTab info v (friendDocs (srv w))"
  shows "knows T info v (w\<lparr>srv := s'\<rparr>)"
  using assms by (simp add: knows_def client_srv cong: option.case_cong)

lemma knows_logged:
  assumes "knows T info v w" and "logged v ids state (srv w) s'"
    and "change_ok (- {VersionSortChangeID}) ids state (serverTab info v (friendDocs (srv w))) (serverTab info v (friendDocs s'))"
  shows "knows T info v (w\<lparr>srv := s'\<rparr>)"
proof (cases "friendLog v (srv w)")
  case None
  then show ?thesis using assms(1,2) by (auto simp: knows_def client_srv logged_def)
next
  case (Some D)
  then obtain t where "friendLog v s' = Some (writeLogUpdate ids state t D)" using assms(2) by (auto simp: logged_def)
  then show ?thesis
    using assms(1) Some vlog.tracked_write [OF _ assms(3)]
    by (auto simp: knows_def client_srv vlog.write_id vlog.write_version)
qed

section \<open>The operations\<close>

text \<open>The table of a user, friend by friend.\<close>

lemma serverTab_find:
  "users_ok T info \<Longrightarrow> serverTab info u ds k = map_option (localOf info) (List.find (isFriendDoc u k) ds)"
  by (induction ds) (auto simp: serverTab_def rowMap_Cons localOf_keys isFriendDoc_def)

lemma find_isFriendDoc: "List.find (isFriendDoc u k) ds = None \<longleftrightarrow> (u, k) \<notin> (\<lambda>d. (frOwnerUserID d, frFriendUserID d)) ` set ds"
  by (auto simp: find_None_iff isFriendDoc_def)

text \<open>What an operation keeps for the user of a client; the newest version in the cache goes or stays.\<close>

definition version_cache :: "string \<Rightarrow> 'e friend_world_scheme \<Rightarrow> 'e friend_world_scheme \<Rightarrow> bool" where
  "version_cache v s s' \<longleftrightarrow> rocks s' (GetFriendMaxVersionKey v) = None \<or> rocks s' (GetFriendMaxVersionKey v) = rocks s (GetFriendMaxVersionKey v)"

lemma version_cache_le: "rocks s' \<subseteq>\<^sub>m rocks s \<Longrightarrow> version_cache v s s'"
  unfolding version_cache_def map_le_def dom_def by (cases "rocks s' (GetFriendMaxVersionKey v)") auto

lemma server_ok_logged:
  assumes "server_ok T v s" and "docs_ok (friendDocs s')"
    and "friendLog v s' = friendLog v s \<and> version_cache v s s' \<or> logged v ids state s s' \<and> distinct ids \<and> rocks s' (GetFriendMaxVersionKey v) = None"
  shows "server_ok T v s'"
  using assms(3)
proof
  assume "friendLog v s' = friendLog v s \<and> version_cache v s s'"
  then show ?thesis using assms(1,2) by (auto simp: server_ok_def cache_ok_def version_cache_def)
next
  assume "logged v ids state s s' \<and> distinct ids \<and> rocks s' (GetFriendMaxVersionKey v) = None"
  then show ?thesis using assms(1,2) log_ok_write
    by (cases "friendLog v s") (auto simp: server_ok_def cache_ok_def logged_def)
qed

definition op_ok :: "'t relation_tools \<Rightarrow> (string \<Rightarrow> UserInfo) \<Rightarrow> string \<Rightarrow> friend_world \<Rightarrow> friend_world \<Rightarrow> bool" where
  "op_ok T info v s s' \<longleftrightarrow> docs_ok (friendDocs s') \<and>
     (friendLog v s' = friendLog v s \<and> version_cache v s s' \<and> serverTab info v (friendDocs s') = serverTab info v (friendDocs s) \<or>
      (\<exists>ids state. logged v ids state s s' \<and> distinct ids \<and> rocks s' (GetFriendMaxVersionKey v) = None \<and>
        change_ok (- {VersionSortChangeID}) ids state (serverTab info v (friendDocs s)) (serverTab info v (friendDocs s'))))"

lemma op_ok_keeps:
  assumes "op_ok T info v (srv w) s'" and "server_ok T v (srv w)" and "knows T info v w"
  shows "server_ok T v s' \<and> knows T info v (w\<lparr>srv := s'\<rparr>)"
  using assms(1) unfolding op_ok_def
proof (elim conjE disjE exE)
  assume "docs_ok (friendDocs s')" "friendLog v s' = friendLog v (srv w)" "version_cache v (srv w) s'"
    "serverTab info v (friendDocs s') = serverTab info v (friendDocs (srv w))"
  then show ?thesis using server_ok_logged [OF assms(2)] knows_same [OF assms(3)] by blast
next
  fix ids state
  assume "docs_ok (friendDocs s')" "logged v ids state (srv w) s'" "distinct ids" "rocks s' (GetFriendMaxVersionKey v) = None"
    "change_ok (- {VersionSortChangeID}) ids state (serverTab info v (friendDocs (srv w))) (serverTab info v (friendDocs s'))"
  then show ?thesis using server_ok_logged [OF assms(2)] knows_logged [OF assms(3)] by blast
qed

text \<open>A change of one owner's friends, logged, with the version dropped from the cache.\<close>

lemma change_op:
  assumes "fIncr F p (friend_IncrVersion u ids state) s = (Inr (), s1)" and "chainDel F keys s1 = (Inr (), s')" and "friend_tools_ok F"
    and "\<And>s0. p s = (Inr (), s0) \<Longrightarrow> friendDocs s0 = ds \<and> versionDocs s0 = versionDocs s \<and> rocks s0 = rocks s"
    and "GetFriendMaxVersionKey u \<in> set keys" and "distinct ids" and "docs_ok ds"
    and "\<And>v. v \<noteq> u \<Longrightarrow> serverTab info v ds = serverTab info v (friendDocs s)"
    and "change_ok (- {VersionSortChangeID}) ids state (serverTab info u (friendDocs s)) (serverTab info u ds)"
  shows "op_ok T info v s s'"
proof -
  have "fIncr F p q = thenM p q" for p q using assms(3) by (simp add: friend_tools_ok_def)
  with assms(1) obtain s0 where "p s = (Inr (), s0)" and i: "friend_IncrVersion u ids state s0 = (Inr (), s1)"
    by (auto simp: bindM_eq_Inr)
  then have s0: "friendDocs s0 = ds" "friendLog v s0 = friendLog v s" "rocks s0 = rocks s" for v
    using assms(4) by (auto simp: friendLog_def findVersion_def)
  note c = chainDel_ok [OF assms(2,3)]
  have log: "friendLog v s' = friendLog v s1" for v using c by (simp add: friendLog_def findVersion_def)
  note j = friend_IncrVersion_ok [OF i]
  show ?thesis
  proof (cases "v = u")
    case True
    then have "logged v ids state s s'" using j log s0(2) by (simp add: logged_def cong: option.case_cong)
    then show ?thesis using True assms(5-7,9) c j s0 by (auto simp: op_ok_def)
  next
    case False
    then show ?thesis using assms(7,8) c j s0 log version_cache_le by (auto simp: op_ok_def)
  qed
qed

lemma removeFirst_key: "distinct (map f xs) \<Longrightarrow> removeFirst (\<lambda>x. f x = k) xs = filter (\<lambda>x. f x \<noteq> k) xs"
proof (induction xs)
  case (Cons x xs)
  then show ?case
  proof (cases "f x = k")
    case True
    then have "filter (\<lambda>x. f x \<noteq> k) xs = xs" using Cons.prems by (auto simp: filter_id_conv) (metis imageI)
    then show ?thesis using True by (simp add: removeFirst_def extract_Cons_code)
  next
    case False
    then show ?thesis using Cons by (auto simp: removeFirst_def extract_Cons_code split: option.split)
  qed
qed (simp add: removeFirst_def extract_Nil_code)

lemma delete_op:
  assumes "db_Delete F u [k] s = (Inr (), s')" and "friend_tools_ok F" and "users_ok T info" and "docs_ok (friendDocs s)"
  shows "op_ok T info v s s'"
proof -
  let ?f = "removeFirst (\<lambda>d. frOwnerUserID d = u \<and> frFriendUserID d \<in> set [k])"
  have f: "?f (friendDocs s) = filter (\<lambda>d. (frOwnerUserID d, frFriendUserID d) \<noteq> (u, k)) (friendDocs s)"
    using removeFirst_key [of "\<lambda>d. (frOwnerUserID d, frFriendUserID d)" "friendDocs s" "(u, k)"] assms(4) by (simp add: docs_ok_def)
  have find: "List.find (isFriendDoc v j) (filter (\<lambda>d. (frOwnerUserID d, frFriendUserID d) \<noteq> (u, k)) ds) =
      (if (v, j) = (u, k) then None else List.find (isFriendDoc v j) ds)" for v j ds
  proof (induction ds)
    case (Cons d ds)
    have "isFriendDoc v j d \<longleftrightarrow> frOwnerUserID d = v \<and> frFriendUserID d = j" by (simp add: isFriendDoc_def)
    with Cons show ?case by (cases "isFriendDoc v j d") auto
  qed simp
  from assms(1) obtain s1 where d: "friend_Delete F u [k] s = (Inr (), s1)"
    and c: "chainDel F (DelMaxFriendVersion ([k] @ [u]) (DelFriendIDs ([k] @ [u]) [])) s1 = (Inr (), s')"
    by (auto simp: db_Delete_def bindM_eq_Inr Let_def)
  show ?thesis
  proof (rule change_op [OF d [unfolded friend_Delete_def] c assms(2), where ds = "?f (friendDocs s)"])
    show "docs_ok (?f (friendDocs s))" using assms(4) unfolding f by (auto simp: docs_ok_def distinct_map_filter)
    show "serverTab info v (?f (friendDocs s)) = serverTab info v (friendDocs s)" if "v \<noteq> u" for v
      using that unfolding f by (auto simp: fun_eq_iff serverTab_find [OF assms(3)] find [simplified])
    show "change_ok (- {VersionSortChangeID}) [k] VersionStateDelete (serverTab info u (friendDocs s)) (serverTab info u (?f (friendDocs s)))"
      unfolding f by (auto simp: change_ok_def serverTab_find [OF assms(3)] find [simplified])
  qed (auto simp: DelMaxFriendVersion_def io_Inr)
qed


text \<open>Changing the fields of friends that exist.\<close>

lemma setFriendFields_keys [simp]:
  "frOwnerUserID (setFriendFields args d) = frOwnerUserID d" "frFriendUserID (setFriendFields args d) = frFriendUserID d"
  "frCreateTime (setFriendFields args d) = frCreateTime d"
proof -
  have "frOwnerUserID (setFriendField a d) = frOwnerUserID d \<and> frFriendUserID (setFriendField a d) = frFriendUserID d \<and>
    frCreateTime (setFriendField a d) = frCreateTime d" for a d
    by (cases a) simp_all
  then have "frOwnerUserID (setFriendFields args d) = frOwnerUserID d \<and> frFriendUserID (setFriendFields args d) = frFriendUserID d \<and>
    frCreateTime (setFriendFields args d) = frCreateTime d"
    unfolding setFriendFields_def by (induction args arbitrary: d) simp_all
  then show "frOwnerUserID (setFriendFields args d) = frOwnerUserID d" "frFriendUserID (setFriendFields args d) = frFriendUserID d"
    "frCreateTime (setFriendFields args d) = frCreateTime d"
    by simp_all
qed

definition setFriends :: "string \<Rightarrow> string set \<Rightarrow> friend_field list \<Rightarrow> Friend list \<Rightarrow> Friend list" where
  "setFriends u ks args ds = map (\<lambda>d. if frOwnerUserID d = u \<and> frFriendUserID d \<in> ks then setFriendFields args d else d) ds"

lemma setFriends_docs_ok:
  assumes "docs_ok ds"
  shows "docs_ok (setFriends u ks args ds)"
proof -
  have "map (\<lambda>d. (frOwnerUserID d, frFriendUserID d)) (setFriends u ks args ds) = map (\<lambda>d. (frOwnerUserID d, frFriendUserID d)) ds"
    unfolding setFriends_def map_map by (rule map_cong) simp_all
  moreover have "\<forall>d\<in>set (setFriends u ks args ds). frCreateTime d \<noteq> None \<and> frFriendUserID d \<noteq> VersionSortChangeID"
    using assms by (auto simp: setFriends_def docs_ok_def)
  ultimately show ?thesis using assms unfolding docs_ok_def by metis
qed

lemma find_setFriends:
  "List.find (isFriendDoc v k) (setFriends u ks args ds) =
     map_option (if v = u \<and> k \<in> ks then setFriendFields args else id) (List.find (isFriendDoc v k) ds)"
  by (induction ds) (auto simp: setFriends_def isFriendDoc_def)

lemma setFriends_change:
  assumes "users_ok T info" and "\<forall>k\<in>set ids. serverTab info u ds k \<noteq> None"
  shows "v \<noteq> u \<Longrightarrow> serverTab info v (setFriends u (set ids) args ds) = serverTab info v ds"
    and "change_ok (- {VersionSortChangeID}) (if b then VersionSortChangeID # ids else ids) VersionStateUpdate
      (serverTab info u ds) (serverTab info u (setFriends u (set ids) args ds))"
  using assms(2) by (auto simp: change_ok_def serverTab_find [OF assms(1)] find_setFriends fun_eq_iff option.map_id)

lemma updFirst_setFriends:
  assumes "docs_ok ds"
  shows "updFirst (isFriendDoc u k) (setFriendFields args) ds = setFriends u {k} args ds"
proof -
  have "updFirst (isFriendDoc u k) f ds = map (\<lambda>d. if isFriendDoc u k d then f d else d) ds"
    if "distinct (map (\<lambda>d. (frOwnerUserID d, frFriendUserID d)) ds)" for f
    using that
  proof (induction ds)
    case (Cons d ds)
    have "map (\<lambda>d. if isFriendDoc u k d then f d else d) ds = ds" if "isFriendDoc u k d"
      using Cons.prems that by (intro map_idI) (auto simp: isFriendDoc_def image_iff)
    then show ?case using Cons by auto
  qed simp
  then show ?thesis using assms by (simp add: docs_ok_def setFriends_def isFriendDoc_def)
qed

lemma update_op:
  assumes "db_UpdateFriends F u ids args s = (Inr (), s')" and "friend_tools_ok F" and "users_ok T info" and "docs_ok (friendDocs s)"
    and "distinct ids" and "\<forall>k\<in>set ids. serverTab info u (friendDocs s) k \<noteq> None"
  shows "op_ok T info v s s'"
proof (cases "args = [] \<or> ids = []")
  case True
  have "op_ok T info v s s"
    using assms(4) by (simp add: op_ok_def version_cache_def)
  have tx: "fTx F p s = (Inr (), s') \<Longrightarrow> p s = (Inr (), s')" for p using assms(2) by (simp add: friend_tools_ok_def)
  show ?thesis
  proof (cases "args = []")
    case False
    with assms(1) True have "chainDel F (DelMaxFriendVersion [u] (DelFriends u ids [])) s = (Inr (), s')"
      using tx by (fastforce simp: db_UpdateFriends_def friend_UpdateFriends_def)
    from chainDel_ok [OF this assms(2)] assms(4) version_cache_le show ?thesis by (auto simp: op_ok_def friendLog_def findVersion_def)
  qed (use assms(1) \<open>op_ok T info v s s\<close> in \<open>simp add: db_UpdateFriends_def\<close>)
next
  case False
  have tx: "fTx F p s = (Inr (), s') \<Longrightarrow> p s = (Inr (), s')" for p using assms(2) by (simp add: friend_tools_ok_def)
  have "fTx F (thenM (friend_UpdateFriends F u ids args) (chainDel F (DelMaxFriendVersion [u] (DelFriends u ids [])))) s = (Inr (), s')"
    using assms(1) False by (simp add: db_UpdateFriends_def)
  from tx [OF this] obtain s1 where d: "friend_UpdateFriends F u ids args s = (Inr (), s1)"
    and c: "chainDel F (DelMaxFriendVersion [u] (DelFriends u ids [])) s1 = (Inr (), s')"
    by (auto simp: bindM_eq_Inr)
  let ?ids = "if IsUpdateIsPinned args then VersionSortChangeID # ids else ids"
  have d': "fIncr F (io (modifyM (\<lambda>w. w\<lparr>friendDocs := map (\<lambda>d. if frOwnerUserID d = u \<and> frFriendUserID d \<in> set ids then setFriendFields args d else d)
      (friendDocs w)\<rparr>))) (friend_IncrVersion u ?ids VersionStateUpdate) s = (Inr (), s1)"
    using d False by (simp add: friend_UpdateFriends_def)
  have nm: "VersionSortChangeID \<notin> set ids"
  proof
    assume "VersionSortChangeID \<in> set ids"
    then have "serverTab info u (friendDocs s) VersionSortChangeID \<noteq> None" using assms(6) by blast
    with serverTab_marker [OF assms(3,4)] show False by simp
  qed
  show ?thesis
  proof (rule change_op [OF d' c assms(2), where ds = "setFriends u (set ids) args (friendDocs s)"])
    show "distinct ?ids" using nm assms(5) by simp
    show "serverTab info v (setFriends u (set ids) args (friendDocs s)) = serverTab info v (friendDocs s)" if "v \<noteq> u" for v
      by (rule setFriends_change(1) [OF assms(3,6) that])
    show "change_ok (- {VersionSortChangeID}) ?ids VersionStateUpdate (serverTab info u (friendDocs s))
      (serverTab info u (setFriends u (set ids) args (friendDocs s)))"
      by (rule setFriends_change(2) [OF assms(3,6)])
  qed (auto simp: DelMaxFriendVersion_def io_Inr setFriends_def setFriends_docs_ok [OF assms(4), unfolded setFriends_def])
qed

lemma remark_op:
  assumes "db_UpdateRemark F u k remark s = (Inr (), s')" and "friend_tools_ok F" and "users_ok T info" and "docs_ok (friendDocs s)"
  shows "op_ok T info v s s'"
proof -
  let ?args = "[SetRemark remark]"
  let ?p = "io (\<lambda>w. if list_ex (isFriendDoc u k) (friendDocs w)
            then (Inr (), w\<lparr>friendDocs := updFirst (isFriendDoc u k) (setFriendFields ?args) (friendDocs w)\<rparr>)
            else (Inl MongoNoDocuments, w))"
  from assms(1) obtain s1 where d: "fIncr F ?p (friend_IncrVersion u [k] VersionStateUpdate) s = (Inr (), s1)"
    and c: "chainDel F (DelMaxFriendVersion [u] (DelFriend u k [])) s1 = (Inr (), s')"
    by (auto simp: db_UpdateRemark_def friend_UpdateRemark_def friend_UpdateByMap_def IsUpdateIsPinned_def bindM_eq_Inr)
  have incr: "fIncr F p q = thenM p q" for p q using assms(2) by (simp add: friend_tools_ok_def)
  have "list_ex (isFriendDoc u k) (friendDocs s)" using d by (auto simp: incr bindM_eq_Inr io_Inr split: if_splits)
  then have tab: "\<forall>k\<in>set [k]. serverTab info u (friendDocs s) k \<noteq> None"
    by (auto simp: serverTab_find [OF assms(3)] find_None_iff list_ex_iff)
  note ch = setFriends_change [OF assms(3) tab, where args = ?args]
  show ?thesis
  proof (rule change_op [OF d c assms(2), where ds = "setFriends u {k} ?args (friendDocs s)"])
    show "serverTab info v (setFriends u {k} ?args (friendDocs s)) = serverTab info v (friendDocs s)" if "v \<noteq> u" for v
      using ch(1) [OF that] by simp
    show "change_ok (- {VersionSortChangeID}) [k] VersionStateUpdate (serverTab info u (friendDocs s)) (serverTab info u (setFriends u {k} ?args (friendDocs s)))"
      using ch(2) [of False] by simp
  qed (auto simp: DelMaxFriendVersion_def io_Inr updFirst_setFriends [OF assms(4)] setFriends_docs_ok [OF assms(4)] split: if_splits)
qed

section \<open>Adding friends\<close>

text \<open>The friends of a list, by owner.\<close>

lemma ownerGroups_get:
  "map_of (ownerGroups fs) v = (let ids = map frFriendUserID (filter (\<lambda>f. frOwnerUserID f = v) fs) in if ids = [] then None else Some ids)"
proof (induction fs rule: rev_induct)
  case (snoc f fs)
  then show ?case by (auto simp: ownerGroups_def mapGet_def update_conv Let_def split: if_splits)
qed (simp add: ownerGroups_def)

lemma ownerGroups_distinct: "distinct (map fst (ownerGroups fs))"
proof (induction fs rule: rev_induct)
  case (snoc f fs)
  then show ?case by (simp add: ownerGroups_def distinct_update)
qed (simp add: ownerGroups_def)

text \<open>Preparing the friends gives every friend a time and changes no document.\<close>

definition sameStores :: "'e friend_world_scheme \<Rightarrow> 'e friend_world_scheme \<Rightarrow> bool" where
  "sameStores s s' \<longleftrightarrow> friendDocs s' = friendDocs s \<and> versionDocs s' = versionDocs s \<and> rocks s' = rocks s"

lemma prepareFriend_ok:
  assumes "prepareFriend f s = (Inr f', s')"
  shows "sameStores s s' \<and> frCreateTime f' \<noteq> None \<and> frOwnerUserID f' = frOwnerUserID f \<and> frFriendUserID f' = frFriendUserID f"
  using assms by (auto simp: prepareFriend_def NewObjectID_def now_def sameStores_def bindM_eq_Inr split: if_splits)

lemma prepareFriends_ok:
  assumes "foldM (\<lambda>f acc. bindM (prepareFriend f) (\<lambda>f. ret (acc @ [f]))) fs acc s = (Inr fs', s')" and "\<forall>f\<in>set acc. frCreateTime f \<noteq> None"
  shows "sameStores s s' \<and> (\<forall>f\<in>set fs'. frCreateTime f \<noteq> None) \<and>
    map (\<lambda>f. (frOwnerUserID f, frFriendUserID f)) fs' = map (\<lambda>f. (frOwnerUserID f, frFriendUserID f)) (acc @ fs)"
  using assms
proof (induction fs arbitrary: acc s)
  case Nil
  then show ?case by (simp add: sameStores_def)
next
  case (Cons f fs)
  from Cons.prems(1) obtain f' s1 where p: "prepareFriend f s = (Inr f', s1)"
    and r: "foldM (\<lambda>f acc. bindM (prepareFriend f) (\<lambda>f. ret (acc @ [f]))) fs (acc @ [f']) s1 = (Inr fs', s')"
    unfolding foldM.simps bindM_eq_Inr by auto
  from prepareFriend_ok [OF p] Cons.IH [OF r] Cons.prems(2) show ?case by (auto simp: sameStores_def)
qed

lemma insertFriendDocs_ok:
  assumes "insertFriendDocs fs ds = (None, ds')" and "distinct (map (\<lambda>d. (frOwnerUserID d, frFriendUserID d)) ds)"
  shows "ds' = ds @ fs \<and> distinct (map (\<lambda>d. (frOwnerUserID d, frFriendUserID d)) ds')"
  using assms
proof (induction fs arbitrary: ds)
  case (Cons f fs)
  then have "(frOwnerUserID f, frFriendUserID f) \<notin> (\<lambda>d. (frOwnerUserID d, frFriendUserID d)) ` set ds"
    by (auto simp: list_ex_iff isFriendDoc_def split: if_splits)
  then have "distinct (map (\<lambda>d. (frOwnerUserID d, frFriendUserID d)) (ds @ [f]))" using Cons.prems(2) by simp
  moreover have "insertFriendDocs fs (ds @ [f]) = (None, ds')" using Cons.prems(1) by (simp split: if_splits)
  ultimately show ?case using Cons.IH by fastforce
qed simp

text \<open>Logging for every owner of a list.\<close>

lemma logged_groups:
  assumes "forM gs (\<lambda>(owner, ids). friend_IncrVersion owner ids st) s = (Inr (), s')" and "distinct (map fst gs)"
  shows "(\<forall>v. case map_of gs v of None \<Rightarrow> friendLog v s' = friendLog v s | Some ids \<Rightarrow> logged v ids st s s') \<and>
    friendDocs s' = friendDocs s \<and> rocks s' = rocks s"
  using assms
proof (induction gs arbitrary: s)
  case (Cons g gs)
  obtain o' ids where g: "g = (o', ids)" by (cases g)
  from Cons.prems(1) obtain s1 where i: "friend_IncrVersion o' ids st s = (Inr (), s1)"
    and r: "forM gs (\<lambda>(owner, ids). friend_IncrVersion owner ids st) s1 = (Inr (), s')"
    by (auto simp: g bindM_eq_Inr)
  note j = friend_IncrVersion_ok [OF i]
  have "map_of gs o' = None" using Cons.prems(2) by (auto simp: g map_of_eq_None_iff)
  with Cons.IH [OF r] Cons.prems(2) have ih: "\<And>v. case map_of gs v of None \<Rightarrow> friendLog v s' = friendLog v s1 | Some ids \<Rightarrow> logged v ids st s1 s'"
    "friendDocs s' = friendDocs s1" "rocks s' = rocks s1" "friendLog o' s' = friendLog o' s1"
    by auto (metis option.simps(4))
  have "case map_of (g # gs) v of None \<Rightarrow> friendLog v s' = friendLog v s | Some ids \<Rightarrow> logged v ids st s s'" for v
  proof (cases "v = o'")
    case True
    then show ?thesis using j ih(4) by (simp add: g logged_def cong: option.case_cong)
  next
    case False
    then have "friendLog v s1 = friendLog v s" using j by blast
    then show ?thesis using ih(1) [of v] False by (simp add: g logged_def split: option.splits cong: option.case_cong)
  qed
  with j ih show ?case by simp
qed simp

text \<open>Creating friends is a change for all their owners.\<close>

definition created :: "string \<Rightarrow> Friend list \<Rightarrow> string list" where
  "created v fs = map frFriendUserID (filter (\<lambda>f. frOwnerUserID f = v) fs)"

lemma created_key: "k \<in> set (created v fs) \<longleftrightarrow> (v, k) \<in> (\<lambda>d. (frOwnerUserID d, frFriendUserID d)) ` set fs"
  by (auto simp: created_def)

lemma create_op:
  assumes "friend_Create F fs s = (Inr (), s1)" and "chainDel F keys s1 = (Inr (), s')" and "friend_tools_ok F" and "users_ok T info"
    and "docs_ok (friendDocs s)" and "\<forall>f\<in>set fs. frFriendUserID f \<noteq> VersionSortChangeID"
    and "\<forall>f\<in>set fs. GetFriendMaxVersionKey (frOwnerUserID f) \<in> set keys"
  shows "op_ok T info v s s'"
proof -
  let ?key = "\<lambda>d. (frOwnerUserID d, frFriendUserID d)"
  have incr: "fIncr F p q = thenM p q" for p q using assms(3) by (simp add: friend_tools_ok_def)
  from assms(1) obtain fs' s0 sm where p: "foldM (\<lambda>f acc. bindM (prepareFriend f) (\<lambda>f. ret (acc @ [f]))) fs [] s = (Inr fs', s0)"
    and i: "friend_InsertMany fs' s0 = (Inr (), sm)"
    and g: "forM (ownerGroups fs') (\<lambda>(owner, ids). friend_IncrVersion owner ids VersionStateInsert) sm = (Inr (), s1)"
    unfolding friend_Create_def incr bindM_eq_Inr by auto
  note p' = prepareFriends_ok [OF p, simplified]
  from i obtain n ds where ins: "insertFriendDocs fs' (friendDocs s0) = (None, ds)" and sm: "sm = s0\<lparr>opno := n, friendDocs := ds\<rparr>"
    by (auto simp: friend_InsertMany_def io_Inr split: prod.splits option.splits)
  have same: "friendDocs s0 = friendDocs s" "distinct (map ?key (friendDocs s))" using p' assms(5) by (simp_all add: sameStores_def docs_ok_def)
  have ds: "ds = friendDocs s @ fs'" "distinct (map ?key ds)"
    using insertFriendDocs_ok [OF ins [unfolded same(1)] same(2)] by blast+
  note log = logged_groups [OF g ownerGroups_distinct, unfolded ownerGroups_get Let_def, folded created_def]
  note c = chainDel_ok [OF assms(2,3)]
  have keys: "?key ` set fs' = ?key ` set fs" using p' by (metis list.set_map)
  have docs: "docs_ok ds"
  proof -
    have "snd (?key f) \<noteq> VersionSortChangeID" if "f \<in> set fs'" for f
    proof -
      have "?key f \<in> ?key ` set fs" using that keys by blast
      then show ?thesis using assms(6) by auto
    qed
    then show ?thesis using ds p' assms(5) by (auto simp: docs_ok_def)
  qed
  have s': "friendDocs s' = ds" "friendLog x s' = friendLog x s1" "friendLog x sm = friendLog x s" for x
    using c log p' by (simp_all add: sm friendLog_def findVersion_def sameStores_def)
  have tab: "serverTab info v ds k = (if k \<in> set (created v fs') then map_option (localOf info) (List.find (isFriendDoc v k) fs')
      else serverTab info v (friendDocs s) k)" for k
  proof -
    have "k \<in> set (created v fs') \<Longrightarrow> List.find (isFriendDoc v k) (friendDocs s) = None"
      using ds by (auto simp: created_key find_isFriendDoc)
    moreover have "k \<notin> set (created v fs') \<Longrightarrow> List.find (isFriendDoc v k) fs' = None" by (simp add: created_key find_isFriendDoc)
    ultimately show ?thesis by (auto simp: ds serverTab_find [OF assms(4)] find_append split: option.splits)
  qed
  show ?thesis
  proof (cases "created v fs' = []")
    case True
    then have "friendLog v s' = friendLog v s" using spec [OF conjunct1 [OF log], of v] s' by simp
    moreover have "serverTab info v ds = serverTab info v (friendDocs s)" using tab True by (simp add: fun_eq_iff)
    moreover have "version_cache v s s'" using c log p' by (intro version_cache_le) (simp add: sm sameStores_def)
    ultimately show ?thesis using docs by (simp add: op_ok_def s'(1))
  next
    case False
    have "logged v (created v fs') VersionStateInsert s s'"
      using spec [OF conjunct1 [OF log], of v] False by (simp add: logged_def s' cong: option.case_cong)
    moreover have "distinct (created v fs')"
    proof -
      have "distinct (map ?key fs')" using ds by simp
      then have "distinct (map ?key (filter (\<lambda>f. frOwnerUserID f = v) fs'))" by (rule distinct_map_filter)
      then show ?thesis by (auto simp: created_def distinct_map inj_on_def)
    qed
    moreover have "rocks s' (GetFriendMaxVersionKey v) = None"
    proof -
      from False obtain k where "k \<in> set (created v fs')" by (cases "created v fs'") auto
      then have "(v, k) \<in> ?key ` set fs" by (simp add: created_key keys)
      then have "GetFriendMaxVersionKey v \<in> set keys" using assms(7) by auto
      then show ?thesis using c by blast
    qed
    moreover have "change_ok (- {VersionSortChangeID}) (created v fs') VersionStateInsert (serverTab info v (friendDocs s)) (serverTab info v ds)"
    proof -
      have "serverTab info v ds k \<noteq> None" if "k \<in> set (created v fs')" for k
        using that find_isFriendDoc [of v k fs'] by (simp add: tab created_key)
      then show ?thesis by (simp add: change_ok_def tab)
    qed
    ultimately show ?thesis using docs unfolding op_ok_def s'(1) by blast
  qed
qed

section \<open>The requests\<close>

text \<open>What does not concern the synchronisation: the friends, the logs and the cached versions are the same.\<close>

definition quiet :: "'e friend_world_scheme \<Rightarrow> 'e friend_world_scheme \<Rightarrow> bool" where
  "quiet s s' \<longleftrightarrow> friendDocs s' = friendDocs s \<and> versionDocs s' = versionDocs s \<and>
     (\<forall>v. rocks s' (GetFriendMaxVersionKey v) = rocks s (GetFriendMaxVersionKey v))"

lemma quiet_refl [simp]: "quiet s s"
  by (simp add: quiet_def)

lemma quiet_set [simp]:
  "quiet s (s'\<lparr>opno := n\<rparr>) = quiet s s'" "quiet s (s'\<lparr>notices := ns\<rparr>) = quiet s s'" "quiet s (s'\<lparr>requestDocs := rs\<rparr>) = quiet s s'"
  "quiet s (s'\<lparr>rocks := (rocks s')(GetFriendIDsKey u \<mapsto> c)\<rparr>) = quiet s s'"
  by (auto simp: quiet_def GetFriendIDsKey_def GetFriendMaxVersionKey_def)

lemma quiet_io: "preserves (quiet s) m \<Longrightarrow> preserves (quiet s) (io m)"
  by (rule preserves_io) simp_all

lemma quiet_modify:
  "preserves (quiet s) (modifyM (\<lambda>w. w\<lparr>notices := f w\<rparr>))" "preserves (quiet s) (modifyM (\<lambda>w. w\<lparr>requestDocs := g w\<rparr>))"
  by (simp_all add: preserves_def)

lemma quiet_hook: "preserves (quiet s) m \<Longrightarrow> preserves (quiet s) (hookResult a m)"
  unfolding hookResult_def by (intro preserves_rules)

lemmas quiet_rules = preserves_rules quiet_io quiet_modify quiet_hook

lemma quiet_ops:
  "preserves (quiet s) (friend_find F flt)" "preserves (quiet s) (FindFriendsWithError F u ids)" "preserves (quiet s) (notify a b t is)"
  "preserves (quiet s) (FriendRemarkSet ot a b)" "preserves (quiet s) (CheckUser T ids)" "preserves (quiet s) (request_Take a b)"
  "preserves (quiet s) now" "preserves (quiet s) (friend_FindUserState F a b)"
  "preserves (quiet s) (webhookBeforeAddFriend T r1)" "preserves (quiet s) (webhookBeforeAddFriendAgree T r2)"
  "preserves (quiet s) (webhookBeforeSetFriendRemark T a b c)"
  unfolding friend_find_def FindFriendsWithError_def friend_FindFriends_def friend_FindUserState_def notify_def FriendRemarkSet_def CheckUser_def GetUsersInfo_def
    request_Take_def now_def webhookBeforeAddFriend_def webhookBeforeAddFriendAgree_def webhookBeforeSetFriendRemark_def WithCondition_def
  by (intro quiet_rules; simp add: preserves_def split: option.split)+

lemma quiet_requests:
  "preserves (quiet s) (request_set a b f)" "preserves (quiet s) (request_Update n)" "preserves (quiet s) (request_Create rs)"
  "preserves (quiet s) (RefuseFriendRequest req)"
proof -
  show set: "preserves (quiet s) (request_set a b f)" for a b f
    unfolding request_set_def by (intro quiet_io) (simp add: preserves_def)
  show upd: "preserves (quiet s) (request_Update n)" for n
    unfolding request_Update_def by (intro quiet_rules set)
  show "preserves (quiet s) (request_Create rs)"
    unfolding request_Create_def by (intro quiet_io) (auto simp: preserves_def split: prod.split option.split)
  show "preserves (quiet s) (RefuseFriendRequest req)"
    unfolding RefuseFriendRequest_def by (intro quiet_rules quiet_ops upd)
qed

lemma quiet_GetFriendIDs: "preserves (quiet s) (GetFriendIDs F u)"
  unfolding GetFriendIDs_def getCache_def rocksFetch2_def friend_FindFriendUserIDs_def
  by (intro quiet_rules) (simp_all add: preserves_def split: option.split)

lemma quiet_CheckIn: "preserves (quiet s) (CheckIn F a b)"
  unfolding CheckIn_def by (intro quiet_rules quiet_GetFriendIDs)

lemma op_ok_quiet:
  assumes "op_ok T info v s1 s2" and "quiet s s1" and "quiet s2 s3"
  shows "op_ok T info v s s3"
proof -
  have log: "friendLog x s1 = friendLog x s" "friendLog x s3 = friendLog x s2" for x
    using assms(2,3) by (simp_all add: quiet_def friendLog_def findVersion_def)
  have "logged v ids st s s3 = logged v ids st s1 s2" for ids st by (simp only: logged_def log)
  then show ?thesis using assms log by (simp add: op_ok_def quiet_def version_cache_def)
qed

lemma op_ok_refl: "docs_ok (friendDocs s) \<Longrightarrow> quiet s s' \<Longrightarrow> op_ok T info v s s'"
  by (simp add: op_ok_def quiet_def version_cache_def friendLog_def findVersion_def)

lemma quietD: "preserves (quiet s) m \<Longrightarrow> m s = (r, s') \<Longrightarrow> quiet s s'"
  by (erule preservesD) simp_all

lemma tools_ok_F: "tools_ok T info \<Longrightarrow> friend_tools_ok (friend_tools.truncate T) \<and> users_ok T info"
  by (simp add: tools_ok_def)

lemma thenM_pure: "thenM (liftE r) m s = (Inr a, s') \<Longrightarrow> m s = (Inr a, s')"
  by (auto simp: bindM_eq_Inr)

lemma DeleteFriend_op:
  assumes "DeleteFriend T op u k s = (Inr (), s')" and "tools_ok T info" and "docs_ok (friendDocs s)"
  shows "op_ok T info v s s'"
proof -
  note t = tools_ok_F [OF assms(2)]
  from assms(1) obtain a s1 s2 where f: "FindFriendsWithError (friend_tools.truncate T) u [k] s = (Inr a, s1)"
    and d: "db_Delete (friend_tools.truncate T) u [k] s1 = (Inr (), s2)" and n: "notify u k FriendDeletedNotification [] s2 = (Inr (), s')"
    by (auto simp: DeleteFriend_def bindM_eq_Inr)
  have q: "quiet s s1" using f by (rule quietD [OF quiet_ops(2)])
  then have "docs_ok (friendDocs s1)" using assms(3) by (simp add: quiet_def)
  from delete_op [OF d conjunct1 [OF t] conjunct2 [OF t] this] q quietD [OF quiet_ops(3) n] show ?thesis by (rule op_ok_quiet)
qed

lemma SetFriendRemark_op:
  assumes "SetFriendRemark T op u k remark s = (Inr (), s')" and "tools_ok T info" and "docs_ok (friendDocs s)"
  shows "op_ok T info v s s'"
proof -
  note t = tools_ok_F [OF assms(2)]
  from assms(1) obtain remark' s0 a s1 s2 where h: "hookResult remark (webhookBeforeSetFriendRemark T u k remark) s = (Inr remark', s0)"
    and f: "FindFriendsWithError (friend_tools.truncate T) u [k] s0 = (Inr a, s1)"
    and d: "db_UpdateRemark (friend_tools.truncate T) u k remark' s1 = (Inr (), s2)" and n: "FriendRemarkSet (rOid T) u k s2 = (Inr (), s')"
    by (auto simp: SetFriendRemark_def bindM_eq_Inr)
  have "preserves (quiet s) (hookResult remark (webhookBeforeSetFriendRemark T u k remark))" by (intro quiet_hook quiet_ops)
  from quietD [OF this h] have q: "quiet s s1" using quietD [OF quiet_ops(2) f] by (simp add: quiet_def)
  then have "docs_ok (friendDocs s1)" using assms(3) by (simp add: quiet_def)
  from remark_op [OF d conjunct1 [OF t] conjunct2 [OF t] this] q quietD [OF quiet_ops(4) n] show ?thesis by (rule op_ok_quiet)
qed

lemma UpdateFriends_op:
  assumes "UpdateFriends T u ids isPinned remark ext s = (Inr (), s')" and "tools_ok T info" and "docs_ok (friendDocs s)"
    and "\<forall>k\<in>set ids. list_ex (isFriendDoc u k) (friendDocs s)"
  shows "op_ok T info v s s'"
proof -
  note t = tools_ok_F [OF assms(2)]
  define args where "args = (case isPinned of None \<Rightarrow> [] | Some b \<Rightarrow> [SetPinned b]) @ (case remark of None \<Rightarrow> [] | Some s \<Rightarrow> [SetRemark s]) @
              (case ext of None \<Rightarrow> [] | Some s \<Rightarrow> [SetEx s])"
  have g: "\<not> length ids = 0" "\<not> fDuplicate T ids"
    using assms(1) by (rule contrapos_pn, simp only: UpdateFriends_def if_True if_False, simp split: if_splits)+
  then have dup: "distinct ids" using assms(2) by (simp add: tools_ok_def friend_tools_ok_def friend_tools.defs)
  have "bindM (FindFriendsWithError (friend_tools.truncate T) u ids) (\<lambda>_. thenM (db_UpdateFriends (friend_tools.truncate T) u ids args)
      (notify u u FriendsInfoUpdateNotification ids)) s = (Inr (), s')"
    using assms(1) unfolding UpdateFriends_def Let_def args_def if_not_P [OF g(1)] if_not_P [OF g(2)] .
  then obtain a s1 s2 where f: "FindFriendsWithError (friend_tools.truncate T) u ids s = (Inr a, s1)"
    and d: "db_UpdateFriends (friend_tools.truncate T) u ids args s1 = (Inr (), s2)"
    and n: "notify u u FriendsInfoUpdateNotification ids s2 = (Inr (), s')"
    by (auto simp: bindM_eq_Inr)
  have q: "quiet s s1" using f by (rule quietD [OF quiet_ops(2)])
  then have docs: "docs_ok (friendDocs s1)" using assms(3) by (simp add: quiet_def)
  have "\<forall>k\<in>set ids. serverTab info u (friendDocs s1) k \<noteq> None"
    using assms(4) q by (auto simp: serverTab_find [OF conjunct2 [OF t]] find_None_iff list_ex_iff quiet_def)
  from update_op [OF d conjunct1 [OF t] conjunct2 [OF t] docs dup this] q quietD [OF quiet_ops(3) n] show ?thesis by (rule op_ok_quiet)
qed

lemma Agree_op:
  assumes "AgreeFriendRequest F op req s = (Inr (), s')" and "friend_tools_ok F" and "users_ok T info" and "docs_ok (friendDocs s)"
    and "fqFromUserID req \<noteq> VersionSortChangeID" and "fqToUserID req \<noteq> VersionSortChangeID"
  shows "op_ok T info v s s'"
proof -
  let ?a = "fqFromUserID req" and ?b = "fqToUserID req"
  have tx: "fTx F p s = (Inr (), s') \<Longrightarrow> p s = (Inr (), s')" for p using assms(2) by (simp add: friend_tools_ok_def)
  let ?keys = "DelMaxFriendVersion [?b, ?a] (DelFriendIDs [?b, ?a] [])"
  define adds where "adds ex = (if (?b, ?a) \<notin> set (map (\<lambda>f. (frOwnerUserID f, frFriendUserID f)) ex) then [newFriend ?b ?a 2 ?a] else []) @
      (if (?a, ?b) \<notin> set (map (\<lambda>f. (frOwnerUserID f, frFriendUserID f)) ex) then [newFriend ?a ?b 2 ?a] else [])" for ex :: "Friend list"
  let ?upd = "\<lambda>t. request_Update (req\<lparr>fqHandlerUserID := op, fqHandleResult := 1, fqHandleTime := Some t\<rparr>)"
  let ?counter = "\<lambda>t. bindM (tryM (request_Take ?b ?a)) (\<lambda>r. case r of
          Inr fr2 \<Rightarrow> if fqHandleResult fr2 = 0
            then request_Update (fr2\<lparr>fqHandlerUserID := op, fqHandleResult := 1, fqHandleTime := Some t\<rparr>) else ret ()
        | Inl e \<Rightarrow> if e \<noteq> MongoNoDocuments then throw e else ret ())"
  let ?add = "\<lambda>ex. thenM (if length (adds ex) > 0 then friend_Create F (adds ex) else ret ()) (chainDel F ?keys)"
  have "AgreeFriendRequest F op req = fTx F (bindM now (\<lambda>t. bindM (request_Take ?a ?b) (\<lambda>fr.
     if fqHandleResult fr \<noteq> 0 then throw (ErrArgs ''the friend request has been processed'')
     else thenM (?upd t) (thenM (?counter t) (bindM (friend_FindUserState F ?a ?b) ?add)))))"
    by (simp only: AgreeFriendRequest_def adds_def Let_def)
  from tx [OF assms(1) [unfolded this]] obtain t fr w1 w2 where n: "now s = (Inr t, w1)" and fr: "request_Take ?a ?b w1 = (Inr fr, w2)"
    and r: "(if fqHandleResult fr \<noteq> 0 then throw (ErrArgs ''the friend request has been processed'')
     else thenM (?upd t) (thenM (?counter t) (bindM (friend_FindUserState F ?a ?b) ?add))) w2 = (Inr (), s')"
    unfolding bindM_eq_Inr [of now] bindM_eq_Inr [of "request_Take ?a ?b"] by blast
  from r have "thenM (?upd t) (thenM (?counter t) (bindM (friend_FindUserState F ?a ?b) ?add)) w2 = (Inr (), s')"
    by (cases "fqHandleResult fr \<noteq> 0") simp_all
  then obtain w3 s1 ex s2 s3 where u: "?upd t w2 = (Inr (), w3)" and x: "?counter t w3 = (Inr (), s1)"
    and ex: "friend_FindUserState F ?a ?b s1 = (Inr ex, s2)"
    and c: "(if length (adds ex) > 0 then friend_Create F (adds ex) else ret ()) s2 = (Inr (), s3)" and d: "chainDel F ?keys s3 = (Inr (), s')"
    unfolding bindM_eq_Inr [of "?upd t"] bindM_eq_Inr [of "?counter t"] bindM_eq_Inr [of "friend_FindUserState F ?a ?b"]
      bindM_eq_Inr [of "if b then p else q" for b p q] by auto
  have "preserves (quiet s) (?counter t)"
    by (intro quiet_rules quiet_ops quiet_requests)
  from preservesD [OF this preservesD [OF quiet_requests(2) preservesD [OF quiet_ops(6) preservesD [OF quiet_ops(7) quiet_refl n] fr] u] x]
  have q1: "quiet s s1" .
  have q: "quiet s s2" using q1 quietD [OF quiet_ops(8) ex] by (simp add: quiet_def)
  then have docs: "docs_ok (friendDocs s2)" using assms(4) by (simp add: quiet_def)
  show ?thesis
  proof (cases "adds ex = []")
    case True
    then have "chainDel F ?keys s2 = (Inr (), s')" using c d by simp
    from chainDel_ok [OF this assms(2)] have "op_ok T info v s2 s'"
      using docs version_cache_le by (auto simp: op_ok_def friendLog_def findVersion_def)
    from op_ok_quiet [OF this q quiet_refl] show ?thesis .
  next
    case False
    then have "friend_Create F (adds ex) s2 = (Inr (), s3)" using c by simp
    have mem: "(frOwnerUserID f, frFriendUserID f) = (?b, ?a) \<or> (frOwnerUserID f, frFriendUserID f) = (?a, ?b)" if "f \<in> set (adds ex)" for f
      using that by (auto simp: adds_def newFriend_def split: if_splits)
    have "op_ok T info v s2 s'"
    proof (rule create_op [OF \<open>friend_Create F (adds ex) s2 = (Inr (), s3)\<close> d assms(2,3) docs])
      show "\<forall>f\<in>set (adds ex). frFriendUserID f \<noteq> VersionSortChangeID" using mem assms(5,6) by fastforce
      show "\<forall>f\<in>set (adds ex). GetFriendMaxVersionKey (frOwnerUserID f) \<in> set ?keys" using mem by (fastforce simp: DelMaxFriendVersion_def)
    qed
    from op_ok_quiet [OF this q quiet_refl] show ?thesis .
  qed
qed

lemma RespondFriendApply_op:
  assumes "RespondFriendApply T op a b msg res s = (Inr (), s')" and "tools_ok T info" and "docs_ok (friendDocs s)"
    and "a \<noteq> VersionSortChangeID" and "b \<noteq> VersionSortChangeID"
  shows "op_ok T info v s s'"
proof -
  note t = tools_ok_F [OF assms(2)]
  define req where "req = \<lparr>fqFromUserID = a, fqToUserID = b, fqHandleResult = res, fqReqMsg = '''', fqCreateTime = None,
                fqHandlerUserID = '''', fqHandleMsg = msg, fqHandleTime = None, fqEx = ''''\<rparr>"
  let ?hook = "hookResult () (webhookBeforeAddFriendAgree T (a, b, msg, res))"
  from assms(1) have "(if res = 1 then thenM ?hook (thenM (AgreeFriendRequest (friend_tools.truncate T) op req)
          (notify b a FriendApplicationApprovedNotification []))
      else if res = -1 then thenM (RefuseFriendRequest req) (notify b a FriendApplicationRejectedNotification [])
      else throw (ErrArgs ''req.HandleResult != -1/1'')) s = (Inr (), s')"
    unfolding RespondFriendApply_def Let_def req_def by (rule thenM_pure)
  then consider w1 w2 where "?hook s = (Inr (), w1)" "AgreeFriendRequest (friend_tools.truncate T) op req w1 = (Inr (), w2)"
      "notify b a FriendApplicationApprovedNotification [] w2 = (Inr (), s')"
    | w1 where "RefuseFriendRequest req s = (Inr (), w1)" "notify b a FriendApplicationRejectedNotification [] w1 = (Inr (), s')"
    by (cases "res = 1"; cases "res = -1") (auto simp: bindM_eq_Inr)
  then show ?thesis
  proof cases
    case 1
    have "preserves (quiet s) ?hook" by (intro quiet_hook quiet_ops)
    from quietD [OF this 1(1)] have q: "quiet s w1" .
    then have docs: "docs_ok (friendDocs w1)" using assms(3) by (simp add: quiet_def)
    have "op_ok T info v w1 w2" by (rule Agree_op [OF 1(2) conjunct1 [OF t] conjunct2 [OF t] docs]) (use assms(4,5) in \<open>simp_all add: req_def\<close>)
    from op_ok_quiet [OF this q quietD [OF quiet_ops(3) 1(3)]] show ?thesis .
  next
    case 2
    from preservesD [OF quiet_ops(3) quietD [OF quiet_requests(4) 2(1)] 2(2)] show ?thesis by (rule op_ok_refl [OF assms(3)])
  qed
qed

lemma ApplyToAddFriend_op:
  assumes "ApplyToAddFriend T op a b msg ext s = (Inr (), s')" and "tools_ok T info" and "docs_ok (friendDocs s)"
  shows "op_ok T info v s s'"
proof -
  let ?F = "friend_tools.truncate T"
  let ?hook = "hookResult () (webhookBeforeAddFriend T (a, b, msg, ext))"
  have tx: "fTx ?F p w = (Inr (), w') \<Longrightarrow> p w = (Inr (), w')" for p w w' using assms(2) by (simp add: tools_ok_def friend_tools_ok_def)
  from assms(1) have "b \<noteq> a" by (auto simp: ApplyToAddFriend_def bindM_eq_Inr)
  then have "thenM ?hook (thenM (CheckUser T [b, a]) (bindM (CheckIn ?F a b) (\<lambda>(in1, in2).
      if in1 \<and> in2 then throw (ErrCode ''RelationshipAlreadyError'')
      else thenM (AddFriendRequest ?F a b msg ext) (notify a b FriendApplicationNotification [])))) s = (Inr (), s')"
    using thenM_pure [OF assms(1) [unfolded ApplyToAddFriend_def]] by simp
  then obtain w1 w2 w3 w4 i1 i2 where r: "?hook s = (Inr (), w1)" "CheckUser T [b, a] w1 = (Inr (), w2)" "CheckIn ?F a b w2 = (Inr (i1, i2), w3)"
    and add: "AddFriendRequest ?F a b msg ext w3 = (Inr (), w4)" and n: "notify a b FriendApplicationNotification [] w4 = (Inr (), s')"
    unfolding bindM_eq_Inr by (auto split: if_splits simp: bindM_eq_Inr)
  have "preserves (quiet s) ?hook" by (intro quiet_hook quiet_ops)
  note q3 = preservesD [OF quiet_CheckIn preservesD [OF quiet_ops(5) quietD [OF this r(1)] r(2)] r(3)]
  have "preserves (quiet s) (bindM (tryM (request_Take a b)) (\<lambda>r. case r of
       Inr _ \<Rightarrow> bindM now (\<lambda>t. request_set a b (\<lambda>d. d\<lparr>fqHandleResult := 0, fqHandleMsg := '''', fqReqMsg := msg, fqEx := ext, fqCreateTime := Some t\<rparr>))
     | Inl e \<Rightarrow> if e = MongoNoDocuments
         then bindM now (\<lambda>t. request_Create [\<lparr>fqFromUserID = a, fqToUserID = b, fqHandleResult = 0, fqReqMsg = msg,
           fqCreateTime = Some t, fqHandlerUserID = '''', fqHandleMsg = '''', fqHandleTime = Some 0, fqEx = ext\<rparr>])
         else throw e))"
    by (intro quiet_rules quiet_ops quiet_requests)
  from preservesD [OF quiet_ops(3) preservesD [OF this q3 tx [OF add [unfolded AddFriendRequest_def]]] n] show ?thesis by (rule op_ok_refl [OF assms(3)])
qed

end
