(* ===== verification/Friend_Runs.thy ===== *)
theory Friend_Runs
  imports Friend_Ops
begin

text \<open>
  The friend list over time: clients that synchronise while the friends on the server change. A step is a request to the relation service, of any user, or a
  synchronisation of the client of \<open>u\<close>. Requests that fail are not steps: several of them leave a change that is not logged.
\<close>

section \<open>Steps\<close>

inductive friend_step ::
  "(LocalFriend, string) slice_tools \<Rightarrow> (LocalFriend, string \<times> string) slice_tools \<Rightarrow> friend_world relation_tools \<Rightarrow> string \<Rightarrow>
   'e system_scheme \<Rightarrow> 'e system_scheme \<Rightarrow> bool" for T1 T2 T u where
  sync: "IncrSyncFriends T1 T2 (serverCalls T op fuel) u w = (Inr (), w') \<Longrightarrow> length (ownerDocs u (srv w)) \<le> 10000 \<Longrightarrow> friend_step T1 T2 T u w w'"
| delete: "DeleteFriend T op v k (srv w) = (Inr (), s) \<Longrightarrow> friend_step T1 T2 T u w (w\<lparr>srv := s\<rparr>)"
| remark: "SetFriendRemark T op v k rm (srv w) = (Inr (), s) \<Longrightarrow> friend_step T1 T2 T u w (w\<lparr>srv := s\<rparr>)"
| update: "UpdateFriends T v ids isPinned rm ext (srv w) = (Inr (), s) \<Longrightarrow> \<forall>k\<in>set ids. list_ex (isFriendDoc v k) (friendDocs (srv w)) \<Longrightarrow>
    friend_step T1 T2 T u w (w\<lparr>srv := s\<rparr>)"
| ask: "ApplyToAddFriend T op a b msg ext (srv w) = (Inr (), s) \<Longrightarrow> friend_step T1 T2 T u w (w\<lparr>srv := s\<rparr>)"
| respond: "RespondFriendApply T op a b msg res (srv w) = (Inr (), s) \<Longrightarrow> a \<noteq> VersionSortChangeID \<Longrightarrow> b \<noteq> VersionSortChangeID \<Longrightarrow>
    friend_step T1 T2 T u w (w\<lparr>srv := s\<rparr>)"

text \<open>The client and the server agree: what the client has and what the log says is what the server has.\<close>

definition agreed :: "friend_world relation_tools \<Rightarrow> (string \<Rightarrow> UserInfo) \<Rightarrow> string \<Rightarrow> 'e system_scheme \<Rightarrow> bool" where
  "agreed T info u w \<longleftrightarrow> server_ok T u (srv w) \<and> friendTable w \<and> knows T info u w"

lemma agreed_op: "agreed T info u w \<Longrightarrow> op_ok T info u (srv w) s \<Longrightarrow> agreed T info u (w\<lparr>srv := s\<rparr>)"
  using op_ok_keeps [of T info u w s] by (simp add: agreed_def friendTable_def)

lemma agreed_step:
  assumes "friend_step T1 T2 T u w w'" and "agreed T info u w" and "u \<noteq> ''''" and "slice_ok T1" and "slice_ok T2" and "tools_ok T info"
  shows "agreed T info u w'"
proof -
  have docs: "docs_ok (friendDocs (srv w))" using assms(2) by (simp add: agreed_def server_ok_def)
  from assms(1) show ?thesis
  proof cases
    case (sync op fuel)
    from assms(2) have "server_ok T u (srv w)" "friendTable w" "knows T info u w" by (simp_all add: agreed_def)
    from friends_sync [OF sync(1) assms(3-6) this sync(2)] show ?thesis by (simp add: agreed_def)
  next
    case (delete op v k s)
    with DeleteFriend_op [OF delete(2) assms(6) docs] agreed_op assms(2) show ?thesis by blast
  next
    case (remark op v k rm s)
    with SetFriendRemark_op [OF remark(2) assms(6) docs] agreed_op assms(2) show ?thesis by blast
  next
    case (update v ids isPinned rm ext s)
    with UpdateFriends_op [OF update(2) assms(6) docs update(3)] agreed_op assms(2) show ?thesis by blast
  next
    case (ask op a b msg ext s)
    with ApplyToAddFriend_op [OF ask(2) assms(6) docs] agreed_op assms(2) show ?thesis by blast
  next
    case (respond op a b msg res s)
    with RespondFriendApply_op [OF respond(2) assms(6) docs respond(3,4)] agreed_op assms(2) show ?thesis by blast
  qed
qed


end
