(* ===== verification/Friend_Samples.thy ===== *)
theory Friend_Samples
  imports Friend_Runs
begin

text \<open>
  Concrete parameters of the relation service: a text codec for lists of ids and for logs (in the place of JSON), a user service that knows every user, decimal object ids.
  With them the properties of friend synchronisation are evaluated on concrete systems.
\<close>

section \<open>A codec\<close>

fun encS :: "string \<Rightarrow> string" where
  "encS [] = ''.''"
| "encS (c # s) = CHR ''x'' # c # encS s"

fun decS :: "string \<Rightarrow> (string \<times> string) option" where
  "decS (a # r) = (if a = CHR ''.'' then Some ([], r)
     else (case r of [] \<Rightarrow> None | c # r' \<Rightarrow> map_option (\<lambda>(s, t). (c # s, t)) (decS r')))"
| "decS [] = None"

lemma decS_encS [simp]: "decS (encS s @ r) = Some (s, r)"
  by (induction s) simp_all

primrec encL :: "string list \<Rightarrow> string" where
  "encL [] = ''.''"
| "encL (s # ss) = CHR ''x'' # encS s @ encL ss"

fun decL :: "nat \<Rightarrow> string \<Rightarrow> string list option" where
  "decL 0 r = None"
| "decL (Suc n) [] = None"
| "decL (Suc n) (a # r) = (if a = CHR ''.'' then Some [] else (case decS r of
     None \<Rightarrow> None | Some (s, r') \<Rightarrow> map_option ((#) s) (decL n r')))"

lemma decL_encL: "length ss < n \<Longrightarrow> decL n (encL ss) = Some ss"
proof (induction ss arbitrary: n)
  case Nil
  then show ?case by (cases n) simp_all
next
  case (Cons s ss)
  then obtain m where "n = Suc m" by (cases n) simp_all
  with Cons show ?case by simp
qed

lemma encL_length: "length ss < length (encL ss)"
  by (induction ss) simp_all

definition encText :: "string list \<Rightarrow> cached" where
  "encText ss = CText (encL ss)"

definition decText :: "cached \<Rightarrow> string list option" where
  "decText v = (case v of CText s \<Rightarrow> decL (length s) s | CMsg _ \<Rightarrow> None)"

lemma decText_encText: "decText (encText ss) = Some ss \<and> encText ss \<noteq> CText ''''"
proof
  show "decText (encText ss) = Some ss" by (simp add: decText_def encText_def decL_encL encL_length)
  show "encText ss \<noteq> CText ''''" by (cases ss) (simp_all add: encText_def)
qed

text \<open>A log as a list of texts.\<close>

fun textsOf :: "VersionLogElem list \<Rightarrow> string list" where
  "textsOf [] = []"
| "textsOf (l # ls) = vEID l # itoa (vState l) # showNat (vElemVersion l) # itoa (vElemUpdate l) # textsOf ls"

fun elemsFrom :: "string list \<Rightarrow> VersionLogElem list option" where
  "elemsFrom [] = Some []"
| "elemsFrom (a # b # c # d # ss) = (case (atoi b, readNat 0 c, atoi d, elemsFrom ss) of
     (Some st, Some v, Some t, Some ls) \<Rightarrow> Some (\<lparr>vEID = a, vState = st, vElemVersion = v, vElemUpdate = t\<rparr> # ls)
   | _ \<Rightarrow> None)"
| "elemsFrom _ = None"

lemma elemsFrom_textsOf [simp]: "elemsFrom (textsOf ls) = Some ls"
  by (induction ls) (simp_all add: readNat_showNat)

definition encLog :: "VersionLog \<Rightarrow> cached" where
  "encLog v = encText (showNat (vtID v) # vtDID v # showNat (vtVersion v) # showNat (vtDeleted v) # itoa (vtLastUpdate v) # itoa (vLogLen v) #
     textsOf (vtLogs v))"

definition decLog :: "cached \<Rightarrow> VersionLog option" where
  "decLog c = (case decText c of
     Some (a # b # c # d # e # f # ss) \<Rightarrow> (case (readNat 0 a, readNat 0 c, readNat 0 d, atoi e, atoi f, elemsFrom ss) of
       (Some i, Some v, Some del, Some t, Some n, Some ls) \<Rightarrow> Some \<lparr>vtID = i, vtDID = b, vtLogs = ls, vtVersion = v, vtDeleted = del,
         vtLastUpdate = t, vLogLen = n\<rparr>
     | _ \<Rightarrow> None)
   | _ \<Rightarrow> None)"

lemma decLog_encLog: "decLog (encLog v) = Some v \<and> encLog v \<noteq> CText ''''"
  using decText_encText by (cases v) (simp add: decLog_def encLog_def readNat_showNat)

section \<open>The parameters\<close>

definition sampleUser :: "string \<Rightarrow> UserInfo" where
  "sampleUser i = \<lparr>uiUserID = i, uiNickname = i @ ''!'', uiFaceURL = '''', uiEx = '''', uiAppMangerLevel = 0\<rparr>"

definition noHook :: BeforeConfig where
  "noHook = \<lparr>hookEnable = False, hookFailedContinue = False\<rparr>"

definition sampleTools :: "friend_world relation_tools" where
  "sampleTools = \<lparr>fIncr = thenM, fTx = (\<lambda>p. p),
     fPage = (\<lambda>is p. take (nat (showNumber p)) (drop (nat (showNumber p) * nat (pageNumber p - 1)) is)), fOidTime = (\<lambda>_. 0), fTopics = [],
     fDistinct = remdups, fContain = (\<lambda>x xs. x \<in> set xs), fDuplicate = (\<lambda>xs. \<not> distinct xs), encIDs = encText, decIDs = decText,
     encVL = encLog, decVL = decLog, encFriend = (\<lambda>_. CText ''''), decFriend = (\<lambda>_. None),
     rDesignateUsers = (\<lambda>ids. Inr (map sampleUser ids)), hkAddFriend = (\<lambda>_. Inr ()), hkImport = (\<lambda>(_, ids). Inr ids), hkAgree = (\<lambda>_. Inr ()),
     hkRemark = (\<lambda>(_, _, r). Inr r), rIdHash = length, rOid = \<lparr>Hex = showNat, ObjectIDFromHex = readNat 0\<rparr>, rAdmins = [],
     cfgAddFriend = noHook, cfgImport = noHook, cfgAgree = noHook, cfgRemark = noHook\<rparr>"

lemma sampleTools_ok: "tools_ok sampleTools sampleUser"
  by (simp add: tools_ok_def friend_tools_ok_def pages_ok_def users_ok_def oid_ok_def sampleTools_def friend_tools.defs decText_encText decLog_encLog
      readNat_showNat sampleUser_def)

section \<open>A synchronisation\<close>

text \<open>
  The user u has the friends a and c on the server. The client has a and b, and version 1 of the log: since then, b was deleted and c was added.
\<close>

definition sampleDoc :: "string \<Rightarrow> string \<Rightarrow> nat \<Rightarrow> Friend" where
  "sampleDoc u f n = (newFriend u f 1 u)\<lparr>frID := n, frCreateTime := Some 0\<rparr>"

definition sampleLog :: VersionLogTable where
  "sampleLog = \<lparr>vtID = 7, vtDID = ''u'', vtLogs = [\<lparr>vEID = ''a'', vState = 1, vElemVersion = 1, vElemUpdate = 0\<rparr>,
     \<lparr>vEID = ''b'', vState = 2, vElemVersion = 2, vElemUpdate = 0\<rparr>, \<lparr>vEID = ''c'', vState = 1, vElemVersion = 3, vElemUpdate = 0\<rparr>],
     vtVersion = 3, vtDeleted = 0, vtLastUpdate = 0\<rparr>"

definition sampleServer :: friend_world where
  "sampleServer = \<lparr>faults = (\<lambda>_. NoFault), opno = 0, clock = 5, rand = (\<lambda>_. 0), cluster = None, rocks = Map.empty,
     versionDocs = (\<lambda>c. if c = FriendVersionName then [sampleLog] else []), nextOid = 9, versionCtx = None,
     friendDocs = [sampleDoc ''u'' ''a'' 1, sampleDoc ''u'' ''c'' 2], requestDocs = [], subscribed = [], published = [], notices = []\<rparr>"

definition sampleSystem :: system where
  "sampleSystem = \<lparr>faults = (\<lambda>_. NoFault), opno = 0, clock = 5, rand = (\<lambda>_. 0),
     versionTable = [\<lparr>lvTable = ''local_friends'', lvEntityID = ''u'', lvVersionID = showNat 7, lvVersion = 1, lvCreateTime = 0, lvUIDList = None\<rparr>],
     localFriends = [localOf sampleUser (sampleDoc ''u'' ''a'' 1), localOf sampleUser (sampleDoc ''u'' ''b'' 3)], userCache = [], events = [],
     srv = sampleServer\<rparr>"

lemma max_sample:
  "FindMaxFriendVersionCache (friend_tools.truncate sampleTools) ''u'' sampleServer =
     (Inr (emptyLog sampleLog), sampleServer\<lparr>opno := 3, rocks := [GetFriendMaxVersionKey ''u'' \<mapsto> encLog (emptyLog sampleLog)]\<rparr>)"
  by (simp add: FindMaxFriendVersionCache_def FindMaxFriendVersion_def getCache_def rocksFetch2_def friend_FindIncrVersion_def FindChangeLog_def
      findChangeLog_def findDoc_def sampleServer_def sampleLog_def findVersion_def emptyLog_def bindM_def io_def tryM_def sampleTools_def
      friend_tools.defs)

lemma query_sample:
  "FindFriendIncrVersion ''u'' 1 syncLimit (sampleServer\<lparr>opno := n, rocks := r\<rparr>) =
     (Inr (changeLogOf 1 syncLimit sampleLog), sampleServer\<lparr>opno := Suc n, rocks := r\<rparr>)"
  by (simp add: FindFriendIncrVersion_def friend_FindIncrVersion_def FindChangeLog_def findChangeLog_def
      sampleServer_def sampleLog_def findVersion_def bindM_def io_def tryM_def)

lemma log_sample:
  "changeLogOf 1 syncLimit sampleLog = VersionLogTable.extend (sampleLog\<lparr>vtLogs := tl (vtLogs sampleLog)\<rparr>) \<lparr>vLogLen = 2\<rparr>"
  by (simp add: changeLogOf_def sampleLog_def syncLimit_def)

lemma getFriend_sample:
  "getFriend sampleTools ''u'' [''c''] (sampleServer\<lparr>opno := n, rocks := r\<rparr>) =
     (Inr [friendInfoOf (sampleDoc ''u'' ''c'' 2) (sampleUser ''c'')], sampleServer\<lparr>opno := n + 2, rocks := r\<rparr>)"
  by (simp add: getFriend_def FindFriendsWithError_def friend_FindFriends_def friend_find_def FriendsDB2Pb_def GetUsersInfoMap_def GetUsersInfo_def
      sampleServer_def sampleDoc_def newFriend_def sampleTools_def friend_tools.defs fillTime_def sampleUser_def bindM_def io_def)

lemma sample_reply:
  "\<exists>resp s. GetIncrementalFriends sampleTools ''u'' ''u'' 1 (showNat 7) sampleServer = (Inr resp, s) \<and> \<not> irFull resp \<and>
     irDelete resp = [''b''] \<and> irInsert resp = [friendInfoOf (sampleDoc ''u'' ''c'' 2) (sampleUser ''c'')] \<and> irUpdate resp = [] \<and>
     irSortVersion resp = 0 \<and> irVersion resp = 3"
proof -
  have oid: "rOid sampleTools = \<lparr>Hex = showNat, ObjectIDFromHex = readNat 0\<rparr>" "rAdmins sampleTools = []" by (simp_all add: sampleTools_def)
  have logs: "vtLogs sampleLog = [\<lparr>vEID = ''a'', vState = 1, vElemVersion = 1, vElemUpdate = 0\<rparr>,
     \<lparr>vEID = ''b'', vState = 2, vElemVersion = 2, vElemUpdate = 0\<rparr>, \<lparr>vEID = ''c'', vState = 1, vElemVersion = 3, vElemUpdate = 0\<rparr>]"
    "vtID sampleLog = 7" "vtVersion sampleLog = 3" by (simp_all add: sampleLog_def)
  note [simp] = getFriend_sample query_sample [unfolded One_nat_def] max_sample log_sample [unfolded One_nat_def]
  show ?thesis
    by (simp add: GetIncrementalFriends_def CheckAccessV3_def oid runVar_def Build_def check_def friendOption_def getVersion_def call_def
        withVar_def bindM_def liftE_def validVersion_def equalID_def readNat_showNat splitSort_def setVar_def VersionLogTable.defs
        logs VersionSortChangeID_def DeleteAndChangeIDs_def VersionStateInsert_def VersionStateDelete_def VersionStateUpdate_def)
qed

lemma sample_run: "\<exists>w'. IncrSyncFriends simpleSlices simpleSlices (serverCalls sampleTools ''u'' 1) ''u'' sampleSystem = (Inr (), w')"
proof -
  obtain resp s where r: "GetIncrementalFriends sampleTools ''u'' ''u'' (Suc 0) (showNat 7) sampleServer = (Inr resp, s)"
    "\<not> irFull resp" "irDelete resp = [''b'']" "irInsert resp = [friendInfoOf (sampleDoc ''u'' ''c'' 2) (sampleUser ''c'')]" "irUpdate resp = []"
    "irSortVersion resp = 0"
    using sample_reply by auto
  note [simp] = r
  show ?thesis
    by (simp add: IncrSyncFriends_def IncrementalSync_def getVersionInfo_def GetVersionSync_def friendVersionSync_def serverCalls_def
        onServer_def sampleSystem_def versionRow_def bindM_def io_def noChange_def applyChanges_def extraOf_def uidList_def mergedRows_def
        simpleSlices_def GetAllFriendList_def ServerFriendToLocalFriend_def localOf_def friendInfoOf_def sampleDoc_def newFriend_def
        sampleUser_def Sync_def Sync_item_def Sync_delete_def friendSyncer_def friendKey_def InsertFriend_def DeleteFriendDB_def UpdateFriend_def
        onNotice_def friendNotice_def event_def renameEvents_def eq_def updateVersionInfo_def SetVersionSync_def elemsOf_def Let_def)
qed

lemma sample_docs: "friendDocs sampleServer = [sampleDoc ''u'' ''a'' 1, sampleDoc ''u'' ''c'' 2]" "friendLog ''u'' sampleServer = Some sampleLog"
  by (simp_all add: sampleServer_def friendLog_def findVersion_def sampleLog_def)

lemma sample_ok: "server_ok sampleTools ''u'' sampleServer"
  unfolding server_ok_def sample_docs
  by (simp add: docs_ok_def cache_ok_def sampleDoc_def newFriend_def VersionSortChangeID_def sampleServer_def log_ok_def versions_ok_def sampleLog_def
      DefaultDeleteVersion_def FirstVersion_def)

lemma sample_tabs:
  "serverTab sampleUser ''u'' (friendDocs sampleServer) =
     [''a'' \<mapsto> localOf sampleUser (sampleDoc ''u'' ''a'' 1), ''c'' \<mapsto> localOf sampleUser (sampleDoc ''u'' ''c'' 2)]"
  "clientTab ''u'' sampleSystem =
     [''a'' \<mapsto> localOf sampleUser (sampleDoc ''u'' ''a'' 1), ''b'' \<mapsto> localOf sampleUser (sampleDoc ''u'' ''b'' 3)]"
  by (auto simp: serverTab_def sample_docs clientTab_def friendRows_def ownFriends_def ownFriend_def rowMap_def friendKey_def sampleSystem_def
      localOf_def ServerFriendToLocalFriend_def friendInfoOf_def sampleDoc_def newFriend_def sampleUser_def fun_eq_iff)

lemma sample_knows: "knows sampleTools sampleUser ''u'' sampleSystem"
proof -
  have srv: "srv sampleSystem = sampleServer" by (simp add: sampleSystem_def)
  have kept: "keptFriends ''u'' sampleSystem = (showNat 7, 1)"
    by (simp add: keptFriends_def keptVersion_def sampleSystem_def versionRow_def)
  have "tracked (- {VersionSortChangeID}) sampleLog 1 (clientTab ''u'' sampleSystem) (serverTab sampleUser ''u'' (friendDocs sampleServer))"
    by (auto simp: sample_tabs tracked_def sampleLog_def entry_ok_def VersionStateInsert_def VersionStateDelete_def)
  then show ?thesis
    by (simp add: knows_def srv sample_docs(2) kept sample_tabs(2) VersionSortChangeID_def) (simp add: sampleLog_def)
qed

lemma sample_table: "friendTable sampleSystem"
  by (simp add: friendTable_def sampleSystem_def friendKey_def localOf_def ServerFriendToLocalFriend_def friendInfoOf_def sampleDoc_def newFriend_def sampleUser_def)

text \<open>After the synchronisation the client has a and c.\<close>

theorem friends_converge_witness:
  "\<exists>w'. IncrSyncFriends simpleSlices simpleSlices (serverCalls sampleTools ''u'' 1) ''u'' sampleSystem = (Inr (), w') \<and>
     clientTab ''u'' w' = [''a'' \<mapsto> localOf sampleUser (sampleDoc ''u'' ''a'' 1), ''c'' \<mapsto> localOf sampleUser (sampleDoc ''u'' ''c'' 2)] \<and>
     knows sampleTools sampleUser ''u'' w'"
proof -
  obtain w' where run: "IncrSyncFriends simpleSlices simpleSlices (serverCalls sampleTools ''u'' 1) ''u'' sampleSystem = (Inr (), w')"
    using sample_run by blast
  have srv: "srv sampleSystem = sampleServer" by (simp add: sampleSystem_def)
  note table = sample_table
  have len: "length (ownerDocs ''u'' (srv sampleSystem)) \<le> 10000" by (simp add: srv ownerDocs_def sample_docs)
  have "clientTab ''u'' w' = serverTab sampleUser ''u'' (friendDocs (srv sampleSystem)) \<and> friendTable w' \<and>
    friendDocs (srv w') = friendDocs (srv sampleSystem) \<and> server_ok sampleTools ''u'' (srv w') \<and> knows sampleTools sampleUser ''u'' w'"
    by (rule friends_converge [OF run _ simpleSlices_ok simpleSlices_ok sampleTools_ok _ table sample_knows len]) (simp_all add: srv sample_ok)
  then show ?thesis using run by (simp add: srv sample_tabs(1) del: fun_upd_apply)
qed

section \<open>A lost deletion\<close>


text \<open>u deletes b; before the client hears of it, b changes his profile.\<close>

lemma tag_sample:
  fixes s :: friend_world
  assumes "faults s = (\<lambda>_. NoFault)"
  shows "\<exists>s'. runAll (map tagAsDeletedBatch2 bs) s = (Inr (), s') \<and> faults s' = (\<lambda>_. NoFault)"
  using assms
proof (induction bs arbitrary: s)
  case (Cons b bs)
  have "tagAsDeletedBatch2 b s = (Inr (), s\<lparr>opno := Suc (opno s), rocks := rocks s |` (- set b)\<rparr>)"
    using Cons.prems by (simp add: tagAsDeletedBatch2_def io_def)
  moreover obtain s' where "runAll (map tagAsDeletedBatch2 bs) (s\<lparr>opno := Suc (opno s), rocks := rocks s |` (- set b)\<rparr>) = (Inr (), s')"
    "faults s' = (\<lambda>_. NoFault)"
    using Cons.IH [of "s\<lparr>opno := Suc (opno s), rocks := rocks s |` (- set b)\<rparr>"] Cons.prems by auto
  ultimately show ?case by (simp add: bindM_def tryM_def)
qed simp

lemma chain_sample:
  fixes s :: friend_world
  assumes "faults s = (\<lambda>_. NoFault)" and "cluster s = None"
  shows "\<exists>s'. chainDel (friend_tools.truncate sampleTools) keys s = (Inr (), s') \<and> faults s' = (\<lambda>_. NoFault)"
proof (cases "keys = []")
  case False
  obtain bs where bs: "splitIntoBatches (remdups keys) defaultBatchSize = Some bs"
    using splitIntoBatches_ok [of defaultBatchSize "remdups keys"] by (auto simp: defaultBatchSize_def)
  obtain s' where "runAll (map tagAsDeletedBatch2 bs) s = (Inr (), s')" "faults s' = (\<lambda>_. NoFault)"
    using tag_sample [OF assms(1)] by blast
  then show ?thesis
    using False assms bs by (simp add: chainDel_def ChainExecDel_def execDel_def ProcessKeysBySlot_def groupKeysBySlot_def sampleTools_def
        friend_tools.defs bindM_def)
qed (use assms in \<open>simp add: chainDel_def ChainExecDel_def execDel_def sampleTools_def friend_tools.defs\<close>)

lemma lost_run:
  "\<exists>s1 s2. OwnerIncrVersion (friend_tools.truncate sampleTools) ''u'' [''b''] VersionStateUpdate sampleServer = (Inr (), s1) \<and>
     FindFriendIncrVersion ''u'' 1 syncLimit s1 = (Inr (changeLogOf 1 syncLimit (writeLogUpdate [''b''] VersionStateUpdate 5 sampleLog)), s2)"
proof -
  let ?D = "writeLogUpdate [''b''] VersionStateUpdate 5 sampleLog"
  obtain sm where inc: "friend_IncrVersion ''u'' [''b''] VersionStateUpdate sampleServer = (Inr (), sm)"
    and sm: "faults sm = (\<lambda>_. NoFault)" "cluster sm = None" "versionDocs sm FriendVersionName = [?D]"
    by (simp add: friend_IncrVersion_def IncrVersion_def IncrVersionResult_def incrVersionResult_def writeLogBatch2_def now_def appendCtx_def
      bindM_def tryM_def io_def setVersionDocs_def sampleServer_def findVersion_def sampleLog_def writeLogUpdate_def VersionLogTable.defs)
  from chain_sample [OF sm(1,2)] obtain s1 where c: "chainDel (friend_tools.truncate sampleTools) (DelMaxFriendVersion [''u''] []) sm = (Inr (), s1)"
    and "faults s1 = (\<lambda>_. NoFault)" by blast
  then have s1: "faults s1 = (\<lambda>_. NoFault)" "versionDocs s1 FriendVersionName = [?D]"
    using sm(3) chainDel_ok [OF c] sampleTools_ok by (auto simp: tools_ok_def)
  have "\<exists>s2. FindFriendIncrVersion ''u'' 1 syncLimit s1 = (Inr (changeLogOf 1 syncLimit ?D), s2)"
    using s1 by (simp add: FindFriendIncrVersion_def friend_FindIncrVersion_def FindChangeLog_def findChangeLog_def findVersion_def bindM_def io_def
        tryM_def vlog.write_id) (simp add: sampleLog_def)
  moreover have "OwnerIncrVersion (friend_tools.truncate sampleTools) ''u'' [''b''] VersionStateUpdate sampleServer = (Inr (), s1)"
    unfolding OwnerIncrVersion_def bindM_eq_Inr using inc c by blast
  ultimately show ?thesis by blast
qed


section \<open>A run\<close>

text \<open>u deletes a on another device: the client, which still has a, knows enough for its next synchronisation.\<close>

lemma delete_sample: "\<exists>s. DeleteFriend sampleTools ''u'' ''u'' ''a'' sampleServer = (Inr (), s)"
proof -
  let ?F = "friend_tools.truncate sampleTools"
  obtain s1 where f: "FindFriendsWithError ?F ''u'' [''a''] sampleServer = (Inr [sampleDoc ''u'' ''a'' 1], s1)"
    and s1: "s1 = sampleServer\<lparr>opno := 1\<rparr>"
    by (simp add: FindFriendsWithError_def friend_FindFriends_def friend_find_def sampleServer_def sampleDoc_def newFriend_def fillTime_def bindM_def io_def)
  obtain s2 where d: "friend_Delete ?F ''u'' [''a''] s1 = (Inr (), s2)" and s2: "faults s2 = (\<lambda>_. NoFault)" "cluster s2 = None"
    by (simp add: s1 friend_Delete_def sampleTools_def friend_tools.defs friend_IncrVersion_def IncrVersion_def IncrVersionResult_def
        incrVersionResult_def writeLogBatch2_def now_def appendCtx_def bindM_def tryM_def io_def setVersionDocs_def sampleServer_def
        findVersion_def sampleLog_def writeLogUpdate_def VersionLogTable.defs)
  obtain s3 where "db_Delete ?F ''u'' [''a''] s1 = (Inr (), s3)"
    using d chain_sample [OF s2] unfolding db_Delete_def bindM_eq_Inr Let_def by blast
  then have "DeleteFriend sampleTools ''u'' ''u'' ''a'' sampleServer =
      (Inr (), snd (notify ''u'' ''a'' FriendDeletedNotification [] s3))"
    using f by (simp add: DeleteFriend_def CheckAccessV3_def bindM_def notify_def)
  then show ?thesis by blast
qed


end
