(* ===== verification/Group_Rpc.thy ===== *)
theory Group_Rpc
  imports Group_Hooks
begin

text \<open>
  The handlers of the group service that change something, \<^verbatim>\<open>rpc/group/group.go\<close>. The user who asks, which the source takes from the context, is the
  argument \<open>opUserID\<close>.
\<close>

definition WorkingGroup :: int where "WorkingGroup = 2"
definition JoinByInvitation :: int where "JoinByInvitation = 2"
definition AllNeedVerification :: int where "AllNeedVerification = 1"
definition Directly :: int where "Directly = 2"
definition GroupResponseAgree :: int where "GroupResponseAgree = 1"
definition GroupResponseRefuse :: int where "GroupResponseRefuse = -1"

section \<open>Checks\<close>

definition isManager :: "('w, 't) relation_tools_scheme \<Rightarrow> string \<Rightarrow> bool" where
  "isManager T opUserID = IsAppManagerUid opUserID (rAdmins T)"

definition ownerOrAdmin :: "GroupMember \<Rightarrow> bool" where
  "ownerOrAdmin m \<longleftrightarrow> gmRoleLevel m = GroupOwner \<or> gmRoleLevel m = GroupAdmin"

definition CheckGroupAdmin :: "('w, 't) group_tools_scheme \<Rightarrow> string \<Rightarrow> string \<Rightarrow> ('e group_world_scheme, unit) prog" where
  "CheckGroupAdmin T opUserID groupId =
     (if \<not> isManager T opUserID then
        bindM (TakeGroupMember T groupId opUserID) (\<lambda>groupMember.
          if \<not> ownerOrAdmin groupMember then throw ErrNoPermission else ret ())
      else ret ())"

primrec GenGroupID_loop ::
  "('w, 't) gserver_tools_scheme \<Rightarrow> nat \<Rightarrow> ('e group_world_scheme, string) prog" where
  "GenGroupID_loop T 0 = throw (ErrCode ''ErrData'')"
| "GenGroupID_loop T (Suc n) = bindM now (\<lambda>t.
     let gid = gGenID T t n in
     bindM (tryM (TakeGroup T gid)) (\<lambda>r. case r of
       Inr _ \<Rightarrow> GenGroupID_loop T n
     | Inl err \<Rightarrow> if gNotFound T err then ret gid else throw err))"

definition GenGroupID :: "('w, 't) gserver_tools_scheme \<Rightarrow> string \<Rightarrow> ('e group_world_scheme, string) prog" where
  "GenGroupID T groupId =
     (if groupId \<noteq> '''' then
        bindM (tryM (TakeGroup T groupId)) (\<lambda>r. case r of
          Inr _ \<Rightarrow> throw (ErrCode ''ErrGroupIDExisted'')
        | Inl err \<Rightarrow> if gNotFound T err then ret groupId else throw err)
      else GenGroupID_loop T 10)"

section \<open>Creating a group\<close>

definition newMember :: "string \<Rightarrow> string \<Rightarrow> int \<Rightarrow> string \<Rightarrow> int \<Rightarrow> string \<Rightarrow> int \<Rightarrow> GroupMember" where
  "newMember groupId userID roleLevel inviter joinSource operator t = \<lparr>gmGroupID = groupId, gmUserID = userID, gmNickname = '''', gmFaceURL = '''',
     gmRoleLevel = roleLevel, gmJoinTime = Some t, gmJoinSource = joinSource, gmInviterUserID = inviter, gmOperatorUserID = operator,
     gmMuteEndTime = Some 0, gmEx = ''''\<rparr>"

definition levelOf :: "(string \<rightharpoonup> UserInfo) \<Rightarrow> string \<Rightarrow> ('w, UserInfo) prog" where
  "levelOf userMap userID = (case userMap userID of None \<Rightarrow> throw (Panic ''nil pointer dereference'') | Some u \<Rightarrow> ret u)"

text \<open>The list of members of the notification ends with the operator.\<close>

fun createdMembers ::
  "(string \<rightharpoonup> UserInfo) \<Rightarrow> string \<Rightarrow> GroupMember list \<Rightarrow>
   ('w, GroupMemberFullInfo list \<times> GroupMemberFullInfo option) prog" where
  "createdMembers userMap opUserID [] = ret ([], None)"
| "createdMembers userMap opUserID (member # members) =
     bindM (levelOf userMap (gmUserID member)) (\<lambda>u.
     let pb = groupMemberDB2PB (member\<lparr>gmNickname := uiNickname u\<rparr>) (uiAppMangerLevel u) in
     if gmUserID member = opUserID then ret ([pb], Some pb)
     else bindM (createdMembers userMap opUserID members) (\<lambda>(pbs, op). ret (pb # pbs, op)))"

definition createdGroup :: "CreateGroupReq \<Rightarrow> string \<Rightarrow> int \<Rightarrow> string \<Rightarrow> GroupMember list" where
  "createdGroup req groupId t opUserID =
     (let join = (\<lambda>userID roleLevel. newMember groupId userID roleLevel opUserID JoinByInvitation opUserID t) in
      join (cgOwnerUserID req) GroupOwner # map (\<lambda>userID. join userID GroupAdmin) (cgAdminUserIDs req) @
      map (\<lambda>userID. join userID GroupOrdinaryUsers) (cgMemberUserIDs req))"

definition CreateGroup ::
  "('e group_world_scheme, 't) gserver_tools_scheme \<Rightarrow> string \<Rightarrow> CreateGroupReq \<Rightarrow> ('e group_world_scheme, GroupInfo) prog" where
  "CreateGroup T opUserID req =
     (if giGroupType (cgGroupInfo req) \<noteq> WorkingGroup then throw (ErrArgs ''group type only supports 2'')
      else if cgOwnerUserID req = '''' then throw (ErrArgs ''no group owner'')
      else thenM (liftE (CheckAccessV3 opUserID (cgOwnerUserID req) (rAdmins T)))
     (let userIDs = cgMemberUserIDs req @ cgAdminUserIDs req @ [cgOwnerUserID req];
          userIDs = (if \<not> fContain T opUserID userIDs then userIDs @ [opUserID] else userIDs) in
      if fDuplicate T userIDs then throw (ErrArgs ''group member repeated'')
      else bindM (GetUsersInfo T userIDs) (\<lambda>users.
      let userMap = sliceMap uiUserID users in
      if length (remdups (map uiUserID users)) \<noteq> length userIDs then throw (ErrCode ''ErrUserIDNotFound'')
      else bindM (hookResult req (webhookBeforeCreateGroup T req)) (\<lambda>req.
      bindM now (\<lambda>t.
      let grp = Pb2DBGroupInfo t (cgGroupInfo req) in
      bindM (GenGroupID T (gpGroupID grp)) (\<lambda>gid.
      let grp = grp\<lparr>gpGroupID := gid\<rparr>; groupMembers = createdGroup req gid t opUserID in
      bindM (hookResult groupMembers (webhookBeforeMembersJoinGroup T groupMembers gid (gpEx grp))) (\<lambda>groupMembers.
      thenM (db_CreateGroup T [grp] groupMembers)
      (let info = Db2PbGroupInfo grp (cgOwnerUserID req) (uint32 (int (length userIDs))) in
       bindM (idx groupMembers 0) (\<lambda>m0.
       bindM (levelOf userMap (gmUserID m0)) (\<lambda>u0.
       bindM (createdMembers userMap opUserID groupMembers) (\<lambda>(memberList, opUser).
       thenM (GroupCreatedNotification T opUserID info opUser (groupMemberDB2PB m0 (uiAppMangerLevel u0) # memberList))
       (thenM (if giNotification (cgGroupInfo req) \<noteq> '''' then GroupInfoSetAnnouncementNotification T opUserID info opUser else ret ())
         (ret info)))))))))))))"

section \<open>Joining and leaving\<close>

definition inviteRequest :: "string \<Rightarrow> string \<Rightarrow> string \<Rightarrow> int \<Rightarrow> GroupRequest" where
  "inviteRequest groupId userID inviter t = \<lparr>gqUserID = userID, gqGroupID = groupId, gqHandleResult = 0, gqReqMsg = '''', gqHandledMsg = '''',
     gqReqTime = Some t, gqHandleUserID = '''', gqHandledTime = Some 0, gqJoinSource = JoinByInvitation, gqInviterUserID = inviter, gqEx = ''''\<rparr>"

text \<open>The inviter is empty when an app manager invites, who need not be a member.\<close>

definition InviteUserToGroup ::
  "('e group_world_scheme, 't) gserver_tools_scheme \<Rightarrow> string \<Rightarrow> string \<Rightarrow> string list \<Rightarrow> ('e group_world_scheme, unit) prog" where
  "InviteUserToGroup T ctxUserID groupId invitedUserIDs =
     (if length invitedUserIDs = 0 then throw (ErrArgs ''user empty'')
      else if fDuplicate T invitedUserIDs then throw (ErrArgs ''userID duplicate'')
      else bindM (TakeGroup T groupId) (\<lambda>grp.
      if gpStatus grp = GroupStatusDismissed then throw ErrDismissedAlready
      else bindM (GetUsersInfo T invitedUserIDs) (\<lambda>users.
      if length (remdups (map uiUserID users)) \<noteq> length invitedUserIDs then throw ErrRecordNotFound
      else
      let manager = isManager T ctxUserID; opUserID = (if manager then '''' else ctxUserID) in
      bindM (if manager then ret None
        else bindM (TakeGroupMember T groupId opUserID) (\<lambda>m. bindM (PopulateGroupMember T [m]) (\<lambda>ms. bindM (idx ms 0) (\<lambda>m. ret (Some m)))))
        (\<lambda>groupMember.
      thenM (hookResult () (webhookBeforeInviteUserToGroup T groupId invitedUserIDs))
      (bindM now (\<lambda>t.
      if gpNeedVerification grp = AllNeedVerification \<and> (\<exists>m. groupMember = Some m \<and> \<not> ownerOrAdmin m)
      then thenM (CreateGroupRequest T (map (\<lambda>userID. inviteRequest groupId userID opUserID t) invitedUserIDs))
        (forM invitedUserIDs (\<lambda>userID. JoinGroupApplicationNotification T ctxUserID groupId opUserID))
      else
        let groupMembers = map (\<lambda>userID. newMember groupId userID GroupOrdinaryUsers opUserID JoinByInvitation opUserID t) invitedUserIDs in
        bindM (hookResult groupMembers (webhookBeforeMembersJoinGroup T groupMembers (gpGroupID grp) (gpEx grp))) (\<lambda>groupMembers.
        thenM (db_CreateGroup T [] groupMembers)
          (GroupApplicationAgreeMemberEnterNotification T ctxUserID groupId opUserID invitedUserIDs))))))))"

definition deleteMemberAndSetConversationSeq ::
  "('w, 't) notify_tools_scheme \<Rightarrow> string \<Rightarrow> string list \<Rightarrow> ('e group_world_scheme, unit) prog" where
  "deleteMemberAndSetConversationSeq T groupId userIDs =
     (let cid = GetConversationIDBySessionType ReadGroupChatType [groupId] in
      bindM (GetConversationMaxSeq T cid) (\<lambda>maxSeq. client_SetConversationMaxSeq cid userIDs maxSeq))"

text \<open>The rule for the users to kick: the first one that must not be kicked ends the check.\<close>

fun kickCheck :: "bool \<Rightarrow> GroupMember option \<Rightarrow> (string \<rightharpoonup> GroupMember) \<Rightarrow> string list \<Rightarrow> err option" where
  "kickCheck manager opMember memberMap [] = None"
| "kickCheck manager opMember memberMap (userID # userIDs) = (case memberMap userID of
     None \<Rightarrow> Some (ErrCode ''ErrUserIDNotFound'')
   | Some member \<Rightarrow>
       if \<not> manager then (case opMember of
           None \<Rightarrow> Some ErrNoPermission
         | Some op \<Rightarrow>
             if gmRoleLevel op = GroupOwner then kickCheck manager opMember memberMap userIDs
             else if gmRoleLevel op = GroupAdmin then
               (if gmRoleLevel member = GroupOwner \<or> gmRoleLevel member = GroupAdmin then Some ErrNoPermission
                else kickCheck manager opMember memberMap userIDs)
             else Some ErrNoPermission)
       else kickCheck manager opMember memberMap userIDs)"

definition KickGroupMember ::
  "('e group_world_scheme, 't) gserver_tools_scheme \<Rightarrow> string \<Rightarrow> string \<Rightarrow> string list \<Rightarrow> ('e group_world_scheme, unit) prog" where
  "KickGroupMember T opUserID groupId kickedUserIDs =
     bindM (TakeGroup T groupId) (\<lambda>grp.
     if length kickedUserIDs = 0 then throw (ErrArgs ''KickedUserIDs empty'')
     else if fDuplicate T kickedUserIDs then throw (ErrArgs ''KickedUserIDs duplicate'')
     else if fContain T opUserID kickedUserIDs then throw (ErrArgs ''opUserID in KickedUserIDs'')
     else bindM (TakeGroupOwner T groupId) (\<lambda>owner.
     if fContain T (gmUserID owner) kickedUserIDs then throw (ErrArgs ''ownerUID can not Kick'')
     else bindM (FindGroupMembers T groupId (kickedUserIDs @ [opUserID])) (\<lambda>members.
     bindM (PopulateGroupMember T members) (\<lambda>members.
     let memberMap = sliceMap gmUserID members in
     (case kickCheck (isManager T opUserID) (memberMap opUserID) memberMap kickedUserIDs of
        Some err \<Rightarrow> throw err
      | None \<Rightarrow>
     bindM (FindGroupMemberNum groupId) (\<lambda>num.
     bindM (GetGroupRoleLevelMemberIDs T groupId GroupOwner) (\<lambda>ownerUserIDs.
     thenM (DeleteGroupMember T (gpGroupID grp) kickedUserIDs)
     (thenM (MemberKickedNotification T opUserID
         (groupDB2PB grp (firstOr ownerUserIDs) (uint32 (num - uint32 (int (length kickedUserIDs)))))
         (map_option Db2PbGroupMember (memberMap opUserID))
         (concat (map (\<lambda>userID. listed (map_option Db2PbGroupMember (memberMap userID))) kickedUserIDs)))
       (deleteMemberAndSetConversationSeq T groupId kickedUserIDs)))))))))"

definition GroupApplicationResponse ::
  "('e group_world_scheme, 't) gserver_tools_scheme \<Rightarrow> string \<Rightarrow> string \<Rightarrow> string \<Rightarrow> string \<Rightarrow> int \<Rightarrow> ('e group_world_scheme, unit) prog" where
  "GroupApplicationResponse T opUserID groupId fromUserID handledMsg handleResult =
     (if \<not> (handleResult = GroupResponseAgree \<or> handleResult = GroupResponseRefuse) then throw (ErrArgs ''HandleResult unknown'')
      else thenM (CheckGroupAdmin T opUserID groupId)
     (bindM (TakeGroup T groupId) (\<lambda>grp.
      bindM (TakeGroupRequest groupId fromUserID) (\<lambda>groupRequest.
      if gqHandleResult groupRequest \<noteq> 0 then throw (ErrCode ''ErrGroupRequestHandled'')
      else bindM (bindM (tryM (TakeGroupMember T groupId fromUserID)) (\<lambda>r. case r of
          Inr _ \<Rightarrow> ret True
        | Inl err \<Rightarrow> if \<not> gNotFound T err then throw err else ret False)) (\<lambda>inGroup.
      thenM (CheckUser T [fromUserID])
      (bindM now (\<lambda>t.
       bindM (if \<not> inGroup \<and> handleResult = GroupResponseAgree then
           (let members = [newMember groupId fromUserID GroupOrdinaryUsers (gqInviterUserID groupRequest) (gqJoinSource groupRequest) opUserID t] in
            bindM (hookResult members (webhookBeforeMembersJoinGroup T members (gpGroupID grp) (gpEx grp))) (\<lambda>members.
              bindM (idx members 0) (\<lambda>m. ret (Some m))))
         else ret None) (\<lambda>member.
       thenM (HandlerGroupRequest T groupId fromUserID handledMsg handleResult member)
       (if handleResult = GroupResponseAgree then
          thenM (GroupApplicationAcceptedNotification T opUserID groupId fromUserID)
          (if member = None then ret ()
           else if gqInviterUserID groupRequest = '''' then MemberEnterNotification T opUserID groupId fromUserID
           else GroupApplicationAgreeMemberEnterNotification T opUserID groupId (gqInviterUserID groupRequest) [fromUserID])
        else GroupApplicationRejectedNotification T opUserID groupId fromUserID)))))))))"

definition JoinGroup ::
  "('e group_world_scheme, 't) gserver_tools_scheme \<Rightarrow> string \<Rightarrow> string \<Rightarrow> string \<Rightarrow> string \<Rightarrow> int \<Rightarrow> string \<Rightarrow>
   ('e group_world_scheme, unit) prog" where
  "JoinGroup T opUserID groupId inviterUserID reqMessage joinSource ext =
     bindM (GetUserInfo T inviterUserID) (\<lambda>user.
     bindM (TakeGroup T groupId) (\<lambda>grp.
     if gpStatus grp = GroupStatusDismissed then throw ErrDismissedAlready
     else thenM (hookResult () (webhookBeforeApplyJoinGroup T (groupId, gpGroupType grp, inviterUserID, reqMessage, ext)))
     (bindM (tryM (TakeGroupMember T groupId inviterUserID)) (\<lambda>r. case r of
        Inr _ \<Rightarrow> throw (ErrArgs '''')
      | Inl err \<Rightarrow>
          if \<not> gNotFound T err \<and> err \<noteq> ErrRecordNotFound then throw err
          else bindM now (\<lambda>t.
            if gpNeedVerification grp = Directly then
              (let members = [newMember (gpGroupID grp) (uiUserID user) GroupOrdinaryUsers inviterUserID 0 opUserID t] in
               bindM (hookResult members (webhookBeforeMembersJoinGroup T members (gpGroupID grp) (gpEx grp))) (\<lambda>members.
               thenM (db_CreateGroup T [] members) (MemberEnterNotification T opUserID groupId inviterUserID)))
            else
              thenM (CreateGroupRequest T [\<lparr>gqUserID = inviterUserID, gqGroupID = groupId, gqHandleResult = 0, gqReqMsg = reqMessage,
                  gqHandledMsg = '''', gqReqTime = Some t, gqHandleUserID = '''', gqHandledTime = Some 0, gqJoinSource = joinSource,
                  gqInviterUserID = '''', gqEx = ext\<rparr>])
                (JoinGroupApplicationNotification T opUserID groupId inviterUserID))))))"

definition QuitGroup ::
  "('e group_world_scheme, 't) gserver_tools_scheme \<Rightarrow> string \<Rightarrow> string \<Rightarrow> string \<Rightarrow> ('e group_world_scheme, unit) prog" where
  "QuitGroup T opUserID groupId reqUserID =
     bindM (if reqUserID = '''' then ret opUserID else thenM (liftE (CheckAccessV3 opUserID reqUserID (rAdmins T))) (ret reqUserID)) (\<lambda>userID.
     bindM (TakeGroupMember T groupId userID) (\<lambda>member.
     if gmRoleLevel member = GroupOwner then throw ErrNoPermission
     else bindM (PopulateGroupMember T [member]) (\<lambda>members.
     bindM (idx members 0) (\<lambda>member.
     thenM (DeleteGroupMember T groupId [userID])
     (thenM (MemberQuitNotification T opUserID (groupMemberDB2PB member 0))
       (deleteMemberAndSetConversationSeq T groupId [userID]))))))"

section \<open>The group itself\<close>

text \<open>The member who asks, \<open>None\<close> for an app manager.\<close>

definition opMemberOf ::
  "('w, 't) group_tools_scheme \<Rightarrow> string \<Rightarrow> string \<Rightarrow> ('e group_world_scheme, GroupMember option) prog" where
  "opMemberOf T opUserID groupId =
     (if \<not> isManager T opUserID then
        bindM (TakeGroupMember T groupId opUserID) (\<lambda>opMember.
        if \<not> ownerOrAdmin opMember then throw ErrNoPermission
        else bindM (PopulateGroupMember T [opMember]) (\<lambda>ms. bindM (idx ms 0) (\<lambda>m. ret (Some m))))
      else ret None)"

definition opUserOf :: "GroupMember option \<Rightarrow> GroupMemberFullInfo option" where
  "opUserOf opMember = (case opMember of None \<Rightarrow> Some noMember | Some m \<Rightarrow> Some (groupMemberDB2PB m 0))"

text \<open>Setting the group notification in the conversations of the members.\<close>

definition announce ::
  "('w, 't) group_tools_scheme \<Rightarrow> string \<Rightarrow> ('e group_world_scheme, unit) prog" where
  "announce T groupId = bindM (FindGroupMemberUserID T groupId) (\<lambda>userIDs.
     quietly (client_SetConversations (GetConversationIDBySessionType ReadGroupChatType [groupId]) userIDs))"

definition SetGroupInfo ::
  "('e group_world_scheme, 't) gserver_tools_scheme \<Rightarrow> string \<Rightarrow> GroupInfoForSet \<Rightarrow> ('e group_world_scheme, unit) prog" where
  "SetGroupInfo T opUserID req =
     bindM (opMemberOf T opUserID (sfGroupID req)) (\<lambda>opMember.
     bindM (hookResult req (webhookBeforeSetGroupInfo T req)) (\<lambda>req.
     bindM (TakeGroup T (sfGroupID req)) (\<lambda>grp.
     if gpStatus grp = GroupStatusDismissed then throw ErrDismissedAlready
     else bindM (FindGroupMemberNum (gpGroupID grp)) (\<lambda>count.
     bindM (TakeGroupOwner T (gpGroupID grp)) (\<lambda>owner.
     bindM (PopulateGroupMember T [owner]) (\<lambda>_.
     bindM now (\<lambda>t.
     let update = UpdateGroupInfoMap opUserID t req in
     if length update = 0 then ret ()
     else thenM (UpdateGroup T (gpGroupID grp) update)
     (bindM (TakeGroup T (sfGroupID req)) (\<lambda>grp.
      let info = groupDB2PB grp (gmUserID owner) count; opUser = opUserOf opMember;
          num = int (length update);
          num1 = (if sfNotification req \<noteq> '''' then num - 3 else num);
          num2 = (if sfGroupName req \<noteq> '''' then num1 - 1 else num1) in
      thenM (if sfNotification req \<noteq> '''' then
          thenM (quietly (announce T (sfGroupID req))) (GroupInfoSetAnnouncementNotification T opUserID info opUser) else ret ())
      (thenM (if sfGroupName req \<noteq> '''' then GroupInfoSetNameNotification T opUserID info opUser else ret ())
        (if num2 > 0 then GroupInfoSetNotification T opUserID info opUser else ret ())))))))))))"

definition SetGroupInfoEx ::
  "('e group_world_scheme, 't) gserver_tools_scheme \<Rightarrow> string \<Rightarrow> SetGroupInfoExReq \<Rightarrow> ('e group_world_scheme, unit) prog" where
  "SetGroupInfoEx T opUserID req =
     bindM (opMemberOf T opUserID (sxGroupID req)) (\<lambda>opMember.
     bindM (hookResult req (webhookBeforeSetGroupInfoEx T req)) (\<lambda>req.
     bindM (TakeGroup T (sxGroupID req)) (\<lambda>grp.
     if gpStatus grp = GroupStatusDismissed then throw ErrDismissedAlready
     else bindM (FindGroupMemberNum (gpGroupID grp)) (\<lambda>count.
     bindM (TakeGroupOwner T (gpGroupID grp)) (\<lambda>owner.
     bindM (PopulateGroupMember T [owner]) (\<lambda>_.
     bindM now (\<lambda>t.
     case UpdateGroupInfoExMap opUserID t req of (updatedData, normalFlag, groupNameFlag, notificationFlag, err) \<Rightarrow>
     if length updatedData = 0 then ret ()
     else (case err of Some e \<Rightarrow> throw e | None \<Rightarrow>
     thenM (UpdateGroup T (gpGroupID grp) updatedData)
     (bindM (TakeGroup T (sxGroupID req)) (\<lambda>grp.
      let info = groupDB2PB grp (gmUserID owner) count; opUser = opUserOf opMember in
      thenM (if notificationFlag then
          thenM (if map_option TrimSpace (sxNotification req) \<noteq> Some '''' then announce T (sxGroupID req) else ret ())
            (GroupInfoSetAnnouncementNotification T opUserID info opUser)
        else ret ())
      (thenM (if groupNameFlag then GroupInfoSetNameNotification T opUserID info opUser else ret ())
        (if normalFlag then GroupInfoSetNotification T opUserID info opUser else ret ()))))))))))))"

definition DismissGroup ::
  "('e group_world_scheme, 't) gserver_tools_scheme \<Rightarrow> string \<Rightarrow> string \<Rightarrow> bool \<Rightarrow> ('e group_world_scheme, unit) prog" where
  "DismissGroup T opUserID groupId deleteMember =
     bindM (TakeGroupOwner T groupId) (\<lambda>owner.
     if \<not> isManager T opUserID \<and> gmUserID owner \<noteq> opUserID then throw ErrNoPermission
     else bindM (PopulateGroupMember T [owner]) (\<lambda>owners. bindM (idx owners 0) (\<lambda>owner.
     bindM (TakeGroup T groupId) (\<lambda>grp.
     if \<not> deleteMember \<and> gpStatus grp = GroupStatusDismissed then throw ErrDismissedAlready
     else thenM (db_DismissGroup T groupId deleteMember)
     (thenM (if \<not> deleteMember then
         bindM (FindGroupMemberNum groupId) (\<lambda>num.
           GroupDismissedNotification T opUserID (groupDB2PB grp (gmUserID owner) num)
             (if opUserID = gmUserID owner then Some (groupMemberDB2PB owner 0) else Some noMember))
       else ret ())
       (bindM (FindGroupMemberUserID T (gpGroupID grp)) (\<lambda>membersID. ret ())))))))"

definition MuteGroup ::
  "('e group_world_scheme, 't) gserver_tools_scheme \<Rightarrow> string \<Rightarrow> string \<Rightarrow> ('e group_world_scheme, unit) prog" where
  "MuteGroup T opUserID groupId =
     thenM (CheckGroupAdmin T opUserID groupId)
     (thenM (UpdateGroup T groupId (UpdateGroupStatusMap GroupStatusMuted)) (GroupMutedNotification T opUserID groupId))"

definition CancelMuteGroup ::
  "('e group_world_scheme, 't) gserver_tools_scheme \<Rightarrow> string \<Rightarrow> string \<Rightarrow> ('e group_world_scheme, unit) prog" where
  "CancelMuteGroup T opUserID groupId =
     thenM (CheckGroupAdmin T opUserID groupId)
     (thenM (UpdateGroup T groupId (UpdateGroupStatusMap GroupOk)) (GroupCancelMutedNotification T opUserID groupId))"

section \<open>Members\<close>

text \<open>Who may mute a member: the owner everyone else, an admin the ordinary members; a role that is none of the three is not checked.\<close>

definition muteAllowed :: "GroupMember \<Rightarrow> GroupMember \<Rightarrow> bool" where
  "muteAllowed member opMember \<longleftrightarrow>
     (if gmRoleLevel member = GroupOwner then False
      else if gmRoleLevel member = GroupAdmin then gmRoleLevel opMember = GroupOwner
      else if gmRoleLevel member = GroupOrdinaryUsers then gmRoleLevel opMember = GroupAdmin \<or> gmRoleLevel opMember = GroupOwner
      else True)"

definition MuteGroupMember ::
  "('e group_world_scheme, 't) gserver_tools_scheme \<Rightarrow> string \<Rightarrow> string \<Rightarrow> string \<Rightarrow> int \<Rightarrow> ('e group_world_scheme, unit) prog" where
  "MuteGroupMember T opUserID groupId userID mutedSeconds =
     bindM (TakeGroupMember T groupId userID) (\<lambda>member.
     bindM (PopulateGroupMember T [member]) (\<lambda>_.
     thenM (if \<not> isManager T opUserID then
         bindM (TakeGroupMember T groupId opUserID) (\<lambda>opMember. if \<not> muteAllowed member opMember then throw ErrNoPermission else ret ())
       else ret ())
     (bindM now (\<lambda>t.
      thenM (UpdateGroupMember T (gmGroupID member) (gmUserID member) (UpdateGroupMemberMutedTimeMap (t + 1000 * mutedSeconds)))
        (GroupMemberMutedNotification T opUserID groupId userID)))))"

definition CancelMuteGroupMember ::
  "('e group_world_scheme, 't) gserver_tools_scheme \<Rightarrow> string \<Rightarrow> string \<Rightarrow> string \<Rightarrow> ('e group_world_scheme, unit) prog" where
  "CancelMuteGroupMember T opUserID groupId userID =
     bindM (TakeGroupMember T groupId userID) (\<lambda>member.
     bindM (PopulateGroupMember T [member]) (\<lambda>_.
     thenM (if \<not> isManager T opUserID then
         bindM (TakeGroupMember T groupId opUserID) (\<lambda>opMember. if \<not> muteAllowed member opMember then throw ErrNoPermission else ret ())
       else ret ())
     (thenM (UpdateGroupMember T (gmGroupID member) (gmUserID member) (UpdateGroupMemberMutedTimeMap 0))
       (GroupMemberCancelMutedNotification T opUserID groupId userID))))"

definition TransferGroupOwner ::
  "('e group_world_scheme, 't) gserver_tools_scheme \<Rightarrow> string \<Rightarrow> string \<Rightarrow> string \<Rightarrow> string \<Rightarrow> ('e group_world_scheme, unit) prog" where
  "TransferGroupOwner T opUserID groupId oldOwnerUserID newOwnerUserID =
     bindM (TakeGroup T groupId) (\<lambda>grp.
     if gpStatus grp = GroupStatusDismissed then throw ErrDismissedAlready
     else if oldOwnerUserID = newOwnerUserID then throw (ErrArgs ''OldOwnerUserID == NewOwnerUserID'')
     else bindM (FindGroupMembers T groupId [oldOwnerUserID, newOwnerUserID]) (\<lambda>members.
     bindM (PopulateGroupMember T members) (\<lambda>members.
     let memberMap = sliceMap gmUserID members in
     if length (gSingle T [oldOwnerUserID, newOwnerUserID] (remdups (map gmUserID members))) > 0
     then throw (ErrArgs ''user not in group'')
     else case memberMap oldOwnerUserID of
       None \<Rightarrow> throw (ErrArgs ''OldOwnerUserID not in group'')
     | Some oldOwner \<Rightarrow> (case memberMap newOwnerUserID of
       None \<Rightarrow> throw (ErrArgs ''NewOwnerUser not in group'')
     | Some newOwner \<Rightarrow>
         if \<not> isManager T opUserID \<and> \<not> (opUserID = gmUserID oldOwner \<and> gmRoleLevel oldOwner = GroupOwner)
         then throw ErrNoPermission
         else bindM now (\<lambda>t.
           thenM (if unixMilli (gmMuteEndTime newOwner) > t then CancelMuteGroupMember T opUserID (gpGroupID grp) newOwnerUserID else ret ())
           (thenM (db_TransferGroupOwner T groupId oldOwnerUserID newOwnerUserID (gmRoleLevel newOwner))
             (GroupOwnerTransferredNotification T opUserID groupId oldOwnerUserID newOwnerUserID)))))))"

subsection \<open>Changing members\<close>

definition roleError :: "SetGroupMemberInfo \<Rightarrow> err option" where
  "roleError member = (case smRoleLevel member of
     None \<Rightarrow> None
   | Some n \<Rightarrow> if n = GroupOwner then Some ErrNoPermission
       else if n = GroupAdmin \<or> n = GroupOrdinaryUsers then None
       else Some (ErrArgs ''invalid role level''))"

text \<open>The requests of each group; Go walks over the map in any order.\<close>

definition groupRequests :: "SetGroupMemberInfo list \<Rightarrow> (string \<times> SetGroupMemberInfo list) list" where
  "groupRequests reqs = foldl (\<lambda>m r. AList.update (smGroupID r) (mapGet [] m (smGroupID r) @ [r]) m) [] reqs"

text \<open>
  What the role of the operator lets the operator change, and the rule for the operator's own role. The request for the operator is searched in
  all requests, not in those of the group: the first one counts, whichever group it is for.
\<close>

definition selfError :: "string \<Rightarrow> SetGroupMemberInfo list \<Rightarrow> GroupMember list \<Rightarrow> int \<Rightarrow> err option" where
  "selfError opUserID reqs dbMembers roleLevel =
     (case List.find (\<lambda>r. smUserID r = opUserID) reqs of
        None \<Rightarrow> None
      | Some reqSelf \<Rightarrow> (case smRoleLevel reqSelf of
          None \<Rightarrow> None
        | Some n \<Rightarrow>
            if n > (case List.find (\<lambda>m. gmUserID m = opUserID) dbMembers of None \<Rightarrow> 0 | Some m \<Rightarrow> gmRoleLevel m) then Some ErrNoPermission
            else if roleLevel = GroupOwner then Some (ErrArgs ''group owner can not change own role level'')
            else None))"

definition permissionError :: "string \<Rightarrow> SetGroupMemberInfo list \<Rightarrow> GroupMember list \<Rightarrow> int \<Rightarrow> err option" where
  "permissionError opUserID reqs dbMembers roleLevel =
     (if roleLevel = GroupOwner then selfError opUserID reqs dbMembers roleLevel
      else if roleLevel = GroupAdmin then
        (if list_ex (\<lambda>m. gmRoleLevel m = GroupOwner \<or> gmRoleLevel m = GroupAdmin \<and> gmUserID m \<noteq> opUserID) dbMembers
         then Some ErrNoPermission else selfError opUserID reqs dbMembers roleLevel)
      else if roleLevel = GroupOrdinaryUsers then
        (if list_ex (\<lambda>m. \<not> (gmRoleLevel m = GroupOrdinaryUsers \<and> gmUserID m = opUserID)) dbMembers
         then Some ErrNoPermission else selfError opUserID reqs dbMembers roleLevel)
      else if list_ex (\<lambda>m. gmRoleLevel m \<ge> roleLevel) dbMembers then Some ErrNoPermission
      else selfError opUserID reqs dbMembers roleLevel)"

definition checkSetMembers ::
  "('w, 't) gserver_tools_scheme \<Rightarrow> string \<Rightarrow> SetGroupMemberInfo list \<Rightarrow> string \<times> SetGroupMemberInfo list \<Rightarrow>
   ('e group_world_scheme, unit) prog" where
  "checkSetMembers T opUserID reqs gm = (case gm of (groupId, members) \<Rightarrow>
     if \<not> distinct (map smUserID members) then throw (ErrArgs ''repeat group user'')
     else
     let userIDs = map smUserID members @ (if opUserID \<in> set (map smUserID members) then [] else [opUserID]) in
     bindM (FindGroupMembers T groupId userIDs) (\<lambda>dbMembers.
     let opMember = List.find (\<lambda>m. gmUserID m = opUserID) dbMembers; missing = int (length userIDs) - int (length dbMembers) in
     if missing = 0 then
       (if isManager T opUserID then ret ()
        else case opMember of
            None \<Rightarrow> throw (Panic ''index out of range'')
          | Some m \<Rightarrow> (case permissionError opUserID reqs dbMembers (gmRoleLevel m) of Some err \<Rightarrow> throw err | None \<Rightarrow> ret ()))
     else if missing = 1 then
       (if opMember \<noteq> None then throw (ErrArgs ''user not in group'')
        else if \<not> isManager T opUserID then throw ErrNoPermission
        else ret ())
     else throw (ErrArgs ''user not in group'')))"

definition memberChanged ::
  "('w, 't) gserver_tools_scheme \<Rightarrow> string \<Rightarrow> SetGroupMemberInfo \<Rightarrow> ('e group_world_scheme, unit) prog" where
  "memberChanged T opUserID member =
     thenM (case smRoleLevel member of
         None \<Rightarrow> ret ()
       | Some n \<Rightarrow>
           if n = GroupAdmin then GroupMemberSetToAdminNotification T opUserID (smGroupID member) (smUserID member)
           else if n = GroupOrdinaryUsers then GroupMemberSetToOrdinaryUserNotification T opUserID (smGroupID member) (smUserID member)
           else ret ())
     (if smNickname member \<noteq> None \<or> smFaceURL member \<noteq> None \<or> smEx member \<noteq> None
      then GroupMemberInfoSetNotification T opUserID (smGroupID member) (smUserID member) else ret ())"

definition SetGroupMemberInfo ::
  "('e group_world_scheme, 't) gserver_tools_scheme \<Rightarrow> string \<Rightarrow> SetGroupMemberInfo list \<Rightarrow> ('e group_world_scheme, unit) prog" where
  "SetGroupMemberInfo T opUserID reqs =
     (if length reqs = 0 then throw (ErrArgs ''members empty'')
      else if opUserID = '''' then throw ErrNoPermission
      else case List.find (\<lambda>r. roleError r \<noteq> None) reqs of
        Some r \<Rightarrow> throw (the (roleError r))
      | None \<Rightarrow>
          thenM (forM (groupRequests reqs) (checkSetMembers T opUserID reqs))
          (bindM (foldM (\<lambda>r acc. bindM (hookResult r (webhookBeforeSetGroupMemberInfo T r)) (\<lambda>r. ret (acc @ [r]))) reqs []) (\<lambda>reqs.
          thenM (UpdateGroupMembers T (map (\<lambda>e. \<lparr>buGroupID = smGroupID e, buUserID = smUserID e, buMap = UpdateGroupMemberMap e\<rparr>) reqs))
            (forM reqs (memberChanged T opUserID)))))"

text \<open>\<^verbatim>\<open>NotificationUserInfoUpdate\<close>: the groups in which the member shows the user's own name or picture.\<close>

definition group_NotificationUserInfoUpdate ::
  "('e group_world_scheme, 't) gserver_tools_scheme \<Rightarrow> string \<Rightarrow> string \<Rightarrow> ('e group_world_scheme, unit) prog" where
  "group_NotificationUserInfoUpdate T opUserID userID =
     bindM (FindGroupMemberUser T [] userID) (\<lambda>members.
     let groupIDs = map gmGroupID (filter (\<lambda>m. \<not> (gmNickname m \<noteq> '''' \<and> gmFaceURL m \<noteq> '''')) members) in
     thenM (forM groupIDs (\<lambda>groupId. MemberGroupIncrVersion T groupId [userID] VersionStateUpdate))
     (thenM (forM groupIDs (\<lambda>groupId. GroupMemberInfoSetNotification T opUserID groupId userID))
       (DeleteGroupMemberHash T groupIDs)))"

end
