(* ===== verification/Group_Query.thy ===== *)
theory Group_Query
  imports Group_Rpc
begin

text \<open>
  The handlers of the group service that answer questions: the rest of \<^verbatim>\<open>rpc/group/group.go\<close>, \<^verbatim>\<open>cache.go\<close>, \<^verbatim>\<open>statistics.go\<close> and the
  synchronisation of members and groups in \<^verbatim>\<open>sync.go\<close>, with the hash of a member list (\<^verbatim>\<open>pkg/notification/grouphash\<close>).
\<close>

section \<open>Groups\<close>

definition ownerIDOf :: "(string \<rightharpoonup> GroupMember) \<Rightarrow> string \<Rightarrow> string" where
  "ownerIDOf ownerMap groupId = (case ownerMap groupId of None \<Rightarrow> '''' | Some owner \<Rightarrow> gmUserID owner)"

definition GetJoinedGroupList ::
  "('w, 't) gserver_tools_scheme \<Rightarrow> string \<Rightarrow> string \<Rightarrow> pagination \<Rightarrow> ('e group_world_scheme, int \<times> GroupInfo list) prog" where
  "GetJoinedGroupList T opUserID fromUserID p =
     thenM (liftE (CheckAccessV3 opUserID fromUserID (rAdmins T)))
     (bindM (PageGetJoinGroup T fromUserID p) (\<lambda>(total, members).
      if length members = 0 then ret (uint32 total, [])
      else let groupIDs = map gmGroupID members in
        bindM (FindGroup T groupIDs) (\<lambda>groups.
        bindM (MapGroupMemberNum groupIDs) (\<lambda>groupMemberNum.
        bindM (FindGroupsOwner T groupIDs) (\<lambda>owners.
        bindM (PopulateGroupMember T members) (\<lambda>_.
        let ownerMap = sliceMap gmGroupID owners in
        ret (uint32 total, map (\<lambda>grp. Db2PbGroupInfo grp (ownerIDOf ownerMap (gpGroupID grp)) (mapGet 0 groupMemberNum (gpGroupID grp)))
          (gOrder T groupIDs groups))))))))"

definition getGroupsInfo :: "('w, 't) group_tools_scheme \<Rightarrow> string list \<Rightarrow> ('e group_world_scheme, GroupInfo list) prog" where
  "getGroupsInfo T groupIDs =
     (if length groupIDs = 0 then ret []
      else bindM (FindGroup T groupIDs) (\<lambda>groups.
        bindM (MapGroupMemberNum groupIDs) (\<lambda>groupMemberNumMap.
        bindM (FindGroupsOwner T groupIDs) (\<lambda>owners.
        bindM (PopulateGroupMember T owners) (\<lambda>owners.
        let ownerMap = sliceMap gmGroupID owners in
        ret (map (\<lambda>e. Db2PbGroupInfo e (ownerIDOf ownerMap (gpGroupID e)) (mapGet 0 groupMemberNumMap (gpGroupID e))) groups))))))"

definition GetGroupsInfo :: "('w, 't) group_tools_scheme \<Rightarrow> string list \<Rightarrow> ('e group_world_scheme, GroupInfo list) prog" where
  "GetGroupsInfo T groupIDs = (if length groupIDs = 0 then throw (ErrArgs ''groupID is empty'') else getGroupsInfo T groupIDs)"

definition GetGroups ::
  "('w, 't) group_tools_scheme \<Rightarrow> string \<Rightarrow> string \<Rightarrow> pagination \<Rightarrow> ('e group_world_scheme, int \<times> CMSGroup list) prog" where
  "GetGroups T groupId groupName p =
     bindM (if groupId \<noteq> '''' then bindM (FindGroup T [groupId]) (\<lambda>grp. ret (int (length grp), grp)) else SearchGroup T groupName p)
       (\<lambda>(total, grp).
     let groupIDs = map gpGroupID grp in
     bindM (FindGroupsOwner T groupIDs) (\<lambda>ownerMembers.
     let ownerMemberMap = sliceMap gmGroupID ownerMembers in
     bindM (MapGroupMemberNum groupIDs) (\<lambda>groupMemberNumMap.
       ret (uint32 total, map (\<lambda>g. Db2PbCMSGroup g (ownerIDOf ownerMemberMap (gpGroupID g))
         (case ownerMemberMap (gpGroupID g) of None \<Rightarrow> '''' | Some m \<Rightarrow> gmNickname m) (mapGet 0 groupMemberNumMap (gpGroupID g))) grp))))"

definition GetGroupInfoCache :: "('w, 't) group_tools_scheme \<Rightarrow> string \<Rightarrow> ('e group_world_scheme, GroupInfo) prog" where
  "GetGroupInfoCache T groupId = bindM (TakeGroup T groupId) (\<lambda>grp. ret (Db2PbGroupInfo grp '''' 0))"

definition GroupCreateCount ::
  "('w, 't) group_tools_scheme \<Rightarrow> int \<Rightarrow> int \<Rightarrow> ('e group_world_scheme, int \<times> int \<times> (string \<times> int) list) prog" where
  "GroupCreateCount T start end' =
     (if start > end' then throw (ErrArgs ''start > end'')
      else bindM (CountTotal None) (\<lambda>total. bindM (CountTotal (Some start)) (\<lambda>before.
        bindM (CountRangeEverydayTotal T start end') (\<lambda>count. ret (total, before, count)))))"

section \<open>Members\<close>

definition GetGroupAllMember :: "('w, 't) group_tools_scheme \<Rightarrow> string \<Rightarrow> ('e group_world_scheme, GroupMemberFullInfo list) prog" where
  "GetGroupAllMember T groupId =
     bindM (FindGroupMemberAll T groupId) (\<lambda>members.
     bindM (PopulateGroupMember T members) (\<lambda>members. ret (map Db2PbGroupMember members)))"

definition GetGroupMemberList ::
  "('w, 't) group_tools_scheme \<Rightarrow> string \<Rightarrow> string \<Rightarrow> pagination \<Rightarrow> ('e group_world_scheme, int \<times> GroupMemberFullInfo list) prog" where
  "GetGroupMemberList T groupId keyword p =
     bindM (if keyword = '''' then PageGetGroupMember T groupId p
       else bindM (FindGroupMemberAll T groupId) (\<lambda>members. ret (0, members))) (\<lambda>(total, members).
     bindM (PopulateGroupMember T members) (\<lambda>members.
     if keyword \<noteq> '''' then
       let groupMembers = filter (\<lambda>member. gmUserID member = keyword \<or> gmNickname member = keyword) members in
       ret (uint32 (int (length groupMembers)), map Db2PbGroupMember (Paginate T groupMembers p))
     else ret (uint32 total, map Db2PbGroupMember members)))"

definition getGroupMembersInfo ::
  "('w, 't) group_tools_scheme \<Rightarrow> string \<Rightarrow> string list \<Rightarrow> ('e group_world_scheme, GroupMemberFullInfo list) prog" where
  "getGroupMembersInfo T groupId userIDs =
     (if length userIDs = 0 then ret []
      else bindM (FindGroupMembers T groupId userIDs) (\<lambda>members.
        bindM (PopulateGroupMember T members) (\<lambda>members. ret (map Db2PbGroupMember members))))"

definition GetGroupMembersInfo ::
  "('w, 't) group_tools_scheme \<Rightarrow> string \<Rightarrow> string list \<Rightarrow> ('e group_world_scheme, GroupMemberFullInfo list) prog" where
  "GetGroupMembersInfo T groupId userIDs =
     (if length userIDs = 0 then throw (ErrArgs ''userIDs empty'')
      else if groupId = '''' then throw (ErrArgs ''groupID empty'')
      else getGroupMembersInfo T groupId userIDs)"

definition GetGroupMembersCMS ::
  "('w, 't) group_tools_scheme \<Rightarrow> string \<Rightarrow> string \<Rightarrow> pagination \<Rightarrow> ('e group_world_scheme, int \<times> GroupMemberFullInfo list) prog" where
  "GetGroupMembersCMS T groupId userName p =
     bindM (SearchGroupMember T userName groupId p) (\<lambda>(total, members).
     bindM (PopulateGroupMember T members) (\<lambda>members. ret (uint32 total, map Db2PbGroupMember members)))"

definition GetUserInGroupMembers ::
  "('w, 't) group_tools_scheme \<Rightarrow> string list \<Rightarrow> string \<Rightarrow> ('e group_world_scheme, GroupMemberFullInfo list) prog" where
  "GetUserInGroupMembers T groupIDs userID =
     (if length groupIDs = 0 then throw (ErrArgs ''groupIDs empty'')
      else bindM (FindGroupMemberUser T groupIDs userID) (\<lambda>members.
        bindM (PopulateGroupMember T members) (\<lambda>members. ret (map Db2PbGroupMember members))))"

definition GetGroupMemberUserIDs :: "('w, 't) group_tools_scheme \<Rightarrow> string \<Rightarrow> ('e group_world_scheme, string list) prog" where
  "GetGroupMemberUserIDs T groupId = FindGroupMemberUserID T groupId"

definition GetGroupMemberRoleLevel ::
  "('w, 't) group_tools_scheme \<Rightarrow> string \<Rightarrow> int list \<Rightarrow> ('e group_world_scheme, GroupMemberFullInfo list) prog" where
  "GetGroupMemberRoleLevel T groupId roleLevels =
     (if length roleLevels = 0 then throw (ErrArgs ''RoleLevels empty'')
      else bindM (FindGroupMemberRoleLevels T groupId roleLevels) (\<lambda>members.
        bindM (PopulateGroupMember T members) (\<lambda>members. ret (map Db2PbGroupMember members))))"

definition GetGroupMemberCache ::
  "('w, 't) group_tools_scheme \<Rightarrow> string \<Rightarrow> string \<Rightarrow> ('e group_world_scheme, GroupMemberFullInfo) prog" where
  "GetGroupMemberCache T groupId groupMemberID = bindM (TakeGroupMember T groupId groupMemberID) (\<lambda>members. ret (Db2PbGroupMember members))"

subsection \<open>The hash of the members\<close>

definition GetGroupHash :: "('w, 't) group_tools_scheme \<Rightarrow> string \<Rightarrow> ('e group_world_scheme, int) prog" where
  "GetGroupHash T groupId =
     bindM (GetGroupMemberUserIDs T groupId) (\<lambda>userIDs.
     bindM (if length userIDs > 0 then GetGroupMembersInfo T groupId userIDs else ret []) (\<lambda>members.
     let userIDs = (if length userIDs > 0 then gSort T userIDs else userIDs);
         memberMap = sliceMap mfUserID members;
         res = concat (map (\<lambda>userID. case memberMap userID of None \<Rightarrow> [] | Some member \<Rightarrow> [member\<lparr>mfAppMangerLevel := 0\<rparr>]) userIDs) in
     ret (gMembersHash T res)))"

definition GetGroupMembersHash :: "('w, 't) group_tools_scheme \<Rightarrow> string \<Rightarrow> ('e group_world_scheme, int) prog" where
  "GetGroupMembersHash T groupId = getCache encInt decInt (GetGroupMembersHashKey groupId) (GetGroupHash T groupId)"

definition GetGroupMemberHashMap ::
  "('w, 't) group_tools_scheme \<Rightarrow> string list \<Rightarrow> ('e group_world_scheme, (string \<times> int \<times> int) list) prog" where
  "GetGroupMemberHashMap T groupIDs = foldM (\<lambda>groupId res.
     bindM (GetGroupMembersHash T groupId) (\<lambda>hash. bindM (GetGroupMemberNum groupId) (\<lambda>num.
       ret (AList.update groupId (hash, uint32 num) res)))) groupIDs []"

definition MapGroupMemberUserID ::
  "('w, 't) group_tools_scheme \<Rightarrow> string list \<Rightarrow> ('e group_world_scheme, (string \<times> int \<times> int) list) prog" where
  "MapGroupMemberUserID T groupIDs = GetGroupMemberHashMap T groupIDs"

definition GetGroupAbstractInfo ::
  "('w, 't) group_tools_scheme \<Rightarrow> string list \<Rightarrow> ('e group_world_scheme, GroupAbstractInfo list) prog" where
  "GetGroupAbstractInfo T groupIDs =
     (if length groupIDs = 0 then throw (ErrArgs ''groupIDs empty'')
      else if fDuplicate T groupIDs then throw (ErrArgs ''groupIDs duplicate'')
      else bindM (FindGroup T groupIDs) (\<lambda>groups.
        if length (gSingle T groupIDs (map gpGroupID groups)) > 0 then throw (ErrCode ''ErrGroupIDNotFound'')
        else bindM (MapGroupMemberUserID T groupIDs) (\<lambda>groupUserMap.
          if length (gSingle T groupIDs (map fst groupUserMap)) > 0 then throw (ErrCode ''ErrGroupIDNotFound'')
          else foldM (\<lambda>grp infos. case map_of groupUserMap (gpGroupID grp) of
              None \<Rightarrow> throw (Panic ''nil pointer dereference'')
            | Some (hash, num) \<Rightarrow> ret (infos @ [Db2PbGroupAbstractInfo (gpGroupID grp) num hash])) groups [])))"

section \<open>Requests to join\<close>

text \<open>A request of a group that is not in the map is a nil pointer.\<close>

definition pbRequests ::
  "(GroupRequest \<Rightarrow> UserInfo option) \<Rightarrow> (string \<rightharpoonup> Group) \<Rightarrow> (string \<rightharpoonup> GroupMember) \<Rightarrow> (string \<times> int) list \<Rightarrow> GroupRequest list \<Rightarrow>
   ('w, PbGroupRequest list) prog" where
  "pbRequests userOf groupMap ownerMap groupMemberNum requests = foldM (\<lambda>e prs. case groupMap (gqGroupID e) of
       None \<Rightarrow> throw (Panic ''nil pointer dereference'')
     | Some grp \<Rightarrow> ret (prs @ [Db2PbGroupRequest e (userOf e)
         (Db2PbGroupInfo grp (ownerIDOf ownerMap (gqGroupID e)) (mapGet 0 groupMemberNum (gqGroupID e)))])) requests []"

definition GetGroupApplicationList ::
  "('w, 't) group_tools_scheme \<Rightarrow> string \<Rightarrow> pagination \<Rightarrow> ('e group_world_scheme, int \<times> PbGroupRequest list) prog" where
  "GetGroupApplicationList T fromUserID p =
     bindM (FindUserManagedGroupID fromUserID) (\<lambda>groupIDs.
     if length groupIDs = 0 then ret (0, [])
     else bindM (PageGroupRequest T groupIDs p) (\<lambda>(total, groupRequests).
     if length groupRequests = 0 then ret (uint32 total, [])
     else bindM (GetUsersInfoMap T (fDistinct T (map gqUserID groupRequests))) (\<lambda>userMap.
     bindM (FindGroup T (fDistinct T groupIDs)) (\<lambda>groups.
     let groupMap = sliceMap gpGroupID groups in
     if length (gSingle T (remdups (map gpGroupID groups)) groupIDs) > 0 then throw (ErrCode ''ErrGroupIDNotFound'')
     else bindM (MapGroupMemberNum groupIDs) (\<lambda>groupMemberNumMap.
     bindM (FindGroupsOwner T groupIDs) (\<lambda>owners.
     bindM (PopulateGroupMember T owners) (\<lambda>owners.
     bindM (pbRequests (\<lambda>e. userMap (gqUserID e)) groupMap (sliceMap gmGroupID owners) groupMemberNumMap groupRequests) (\<lambda>prs.
       ret (uint32 total, prs)))))))))"

definition GetUserReqApplicationList ::
  "('w, 't) group_tools_scheme \<Rightarrow> string \<Rightarrow> pagination \<Rightarrow> ('e group_world_scheme, int \<times> PbGroupRequest list) prog" where
  "GetUserReqApplicationList T userID p =
     bindM (GetUserInfo T userID) (\<lambda>user.
     bindM (PageGroupRequestUser T userID p) (\<lambda>(total, requests).
     if length requests = 0 then ret (uint32 total, [])
     else let groupIDs = fDistinct T (map gqGroupID requests) in
     bindM (FindGroup T groupIDs) (\<lambda>groups.
     bindM (FindGroupsOwner T groupIDs) (\<lambda>owners.
     bindM (PopulateGroupMember T owners) (\<lambda>owners.
     bindM (MapGroupMemberNum groupIDs) (\<lambda>groupMemberNum.
     bindM (pbRequests (\<lambda>e. Some user) (sliceMap gpGroupID groups) (sliceMap gmGroupID owners) groupMemberNum requests) (\<lambda>prs.
       ret (uint32 total, prs))))))))"

text \<open>The user of a request is looked up, and taken when it is not there.\<close>

definition GetGroupUsersReqApplicationList ::
  "('w, 't) group_tools_scheme \<Rightarrow> string \<Rightarrow> string list \<Rightarrow> ('e group_world_scheme, int \<times> PbGroupRequest list) prog" where
  "GetGroupUsersReqApplicationList T groupId userIDs =
     bindM (FindGroupRequests groupId userIDs) (\<lambda>requests.
     if length requests = 0 then ret (0, [])
     else let groupIDs = fDistinct T (map gqGroupID requests) in
     bindM (FindGroup T groupIDs) (\<lambda>groups.
     if length (gSingle T groupIDs (remdups (map gpGroupID groups))) > 0 then throw (ErrCode ''ErrGroupIDNotFound'')
     else bindM (GetUsersInfoMap T userIDs) (\<lambda>userMap.
     bindM (FindGroupsOwner T groupIDs) (\<lambda>owners.
     bindM (PopulateGroupMember T owners) (\<lambda>owners.
     bindM (MapGroupMemberNum groupIDs) (\<lambda>groupMemberNum.
     bindM (pbRequests (\<lambda>e. case userMap (gqUserID e) of None \<Rightarrow> userMap (gqUserID e) | Some user \<Rightarrow> None)
         (sliceMap gpGroupID groups) (sliceMap gmGroupID owners) groupMemberNum requests) (\<lambda>prs.
       ret (int (length requests), prs))))))))"

definition GetSpecifiedUserGroupRequestInfo ::
  "('w, 't) group_tools_scheme \<Rightarrow> string \<Rightarrow> string \<Rightarrow> string \<Rightarrow> ('e group_world_scheme, int \<times> PbGroupRequest list) prog" where
  "GetSpecifiedUserGroupRequestInfo T opUserID groupId userID =
     bindM (FindGroupsOwner T [groupId]) (\<lambda>owners.
     thenM (if userID \<noteq> opUserID then
         bindM (GetGroupRoleLevelMemberIDs T groupId GroupAdmin) (\<lambda>adminIDs.
         bindM (idx owners 0) (\<lambda>owner.
         if \<not> fContain T opUserID (adminIDs @ [gmUserID owner] @ rAdmins T) then throw ErrNoPermission else ret ()))
       else ret ())
     (bindM (FindGroupRequests groupId [userID]) (\<lambda>requests.
      if length requests = 0 then ret (0, [])
      else bindM (FindGroup T [groupId]) (\<lambda>groups.
      bindM (GetUsersInfo T [userID]) (\<lambda>userInfos.
      bindM (MapGroupMemberNum [groupId]) (\<lambda>groupMemberNum.
      bindM (foldM (\<lambda>request prs. bindM (idx userInfos 0) (\<lambda>user. bindM (idx groups 0) (\<lambda>grp. bindM (idx owners 0) (\<lambda>owner.
          ret (prs @ [Db2PbGroupRequest request (Some user)
            (Db2PbGroupInfo grp (gmUserID owner) (mapGet 0 groupMemberNum (gpGroupID grp)))]))))) requests []) (\<lambda>prs.
        ret (uint32 (int (length requests)), prs))))))))"

section \<open>Synchronisation\<close>

definition GetFullGroupMemberUserIDs ::
  "('w, 't) group_tools_scheme \<Rightarrow> string \<Rightarrow> nat \<Rightarrow> ('e group_world_scheme, nat \<times> string \<times> bool \<times> string list option) prog" where
  "GetFullGroupMemberUserIDs T groupId reqIdHash =
     bindM (FindMaxGroupMemberVersionCache T groupId) (\<lambda>vl.
     bindM (FindGroupMemberUserID T groupId) (\<lambda>userIDs.
     let idHash = rIdHash T userIDs in
     ret (idHash, Hex (rOid T) (vtID vl), reqIdHash = idHash, if reqIdHash = idHash then None else Some userIDs)))"

definition GetFullJoinGroupIDs ::
  "('w, 't) group_tools_scheme \<Rightarrow> string \<Rightarrow> nat \<Rightarrow> ('e group_world_scheme, nat \<times> string \<times> bool \<times> string list option) prog" where
  "GetFullJoinGroupIDs T userID reqIdHash =
     bindM (FindMaxJoinGroupVersionCache T userID) (\<lambda>vl.
     bindM (FindJoinGroupID T userID) (\<lambda>groupIDs.
     let idHash = rIdHash T groupIDs in
     ret (idHash, Hex (rOid T) (vtID vl), reqIdHash = idHash, if reqIdHash = idHash then None else Some groupIDs)))"

record 'a IncrementalResp =
  gsVersionID :: string
  gsVersion :: nat
  gsFull :: bool
  gsDelete :: "string list"
  gsInsert :: "'a list"
  gsUpdate :: "'a list"
  gsSortVersion :: nat
  gsGroup :: "GroupInfo option"

text \<open>The entries for the group itself and for the order of its members are taken out of a log; the captured variables are \<^verbatim>\<open>hasGroupUpdate\<close> and \<^verbatim>\<open>sortVersion\<close>.\<close>

fun splitGroup :: "VersionLogElem list \<Rightarrow> int \<times> bool \<times> nat \<Rightarrow> VersionLogElem list \<times> int \<times> bool \<times> nat" where
  "splitGroup [] (n, upd, srt) = ([], n, upd, srt)"
| "splitGroup (l # ls) (n, upd, srt) =
     (if vEID l = VersionGroupChangeID then splitGroup ls (n - 1, True, srt)
      else if vEID l = VersionSortChangeID then splitGroup ls (n - 1, upd, vElemVersion l)
      else (case splitGroup ls (n, upd, srt) of (logs, r) \<Rightarrow> (l # logs, r)))"

definition memberOption ::
  "('w, 't) group_tools_scheme \<Rightarrow> string \<Rightarrow> nat \<Rightarrow> string \<Rightarrow>
   ((bool \<times> nat) \<times> 'e group_world_scheme, GroupMemberFullInfo, GroupMemberFullInfo IncrementalResp) sync_option" where
  "memberOption T groupId version versionID = \<lparr>hasCtx = True, VersionKey = groupId, VersionID = versionID, VersionNumber = version,
     CacheMaxVersion = Some (\<lambda>gid. withVar (FindMaxGroupMemberVersionCache T gid)),
     VersionFn = Some (\<lambda>gid version limit.
       bindM (withVar (FindMemberIncrVersion gid version limit)) (\<lambda>vl.
       bindM (gets fst) (\<lambda>(hasGroupUpdate, sortVersion).
       case splitGroup (vtLogs vl) (vLogLen vl, hasGroupUpdate, sortVersion) of (logs, logLen, upd, srt) \<Rightarrow>
         thenM (setVar (upd \<or> logLen > 0, srt)) (ret (vl\<lparr>vtLogs := logs, vLogLen := logLen\<rparr>))))),
     Find = Some (\<lambda>ids. withVar (getGroupMembersInfo T groupId ids)),
     Resp = Some (\<lambda>v deleteIds insertList updateList full. gets (\<lambda>((_, sortVersion), _). \<lparr>gsVersionID = Hex (rOid T) (vtID v),
       gsVersion = vtVersion v, gsFull = full, gsDelete = deleteIds, gsInsert = insertList, gsUpdate = updateList,
       gsSortVersion = sortVersion, gsGroup = None\<rparr>))\<rparr>"

definition GetIncrementalGroupMember ::
  "('w, 't) group_tools_scheme \<Rightarrow> string \<Rightarrow> nat \<Rightarrow> string \<Rightarrow> ('e group_world_scheme, GroupMemberFullInfo IncrementalResp) prog" where
  "GetIncrementalGroupMember T groupId version versionID =
     bindM (TakeGroup T groupId) (\<lambda>grp.
     if gpStatus grp = GroupStatusDismissed then throw ErrDismissedAlready
     else bindM (runVar (False, 0) (Build (rOid T) (memberOption T groupId version versionID))) (\<lambda>((hasGroupUpdate, _), resp).
     if gsFull resp \<or> hasGroupUpdate then
       bindM (FindGroupMemberNum (gpGroupID grp)) (\<lambda>count.
       bindM (TakeGroupOwner T (gpGroupID grp)) (\<lambda>owner.
         ret (resp\<lparr>gsGroup := Some (groupDB2PB grp (gmUserID owner) count)\<rparr>)))
     else ret resp))"

definition joinOption ::
  "('w, 't) group_tools_scheme \<Rightarrow> string \<Rightarrow> nat \<Rightarrow> string \<Rightarrow>
   ('e group_world_scheme, GroupInfo, GroupInfo IncrementalResp) sync_option" where
  "joinOption T userID version versionID = \<lparr>hasCtx = True, VersionKey = userID, VersionID = versionID, VersionNumber = version,
     CacheMaxVersion = Some (FindMaxJoinGroupVersionCache T),
     VersionFn = Some FindJoinIncrVersion,
     Find = Some (getGroupsInfo T),
     Resp = Some (\<lambda>v deleteIds insertList updateList full. ret \<lparr>gsVersionID = Hex (rOid T) (vtID v),
       gsVersion = vtVersion v, gsFull = full, gsDelete = deleteIds, gsInsert = insertList, gsUpdate = updateList,
       gsSortVersion = 0, gsGroup = None\<rparr>)\<rparr>"

definition GetIncrementalJoinGroup ::
  "('w, 't) group_tools_scheme \<Rightarrow> string \<Rightarrow> string \<Rightarrow> nat \<Rightarrow> string \<Rightarrow> ('e group_world_scheme, GroupInfo IncrementalResp) prog" where
  "GetIncrementalJoinGroup T opUserID userID version versionID =
     thenM (liftE (CheckAccessV3 opUserID userID (rAdmins T))) (Build (rOid T) (joinOption T userID version versionID))"

definition versionSyncLimit :: nat where "versionSyncLimit = 500"

text \<open>The answers collected so far and their number of changes; a group is asked once, and enough changes end the batch.\<close>

fun batchMembers ::
  "('w, 't) group_tools_scheme \<Rightarrow> (string \<times> nat \<times> string) list \<Rightarrow> nat \<Rightarrow> (string \<times> GroupMemberFullInfo IncrementalResp) list \<Rightarrow>
   ('e group_world_scheme, (string \<times> GroupMemberFullInfo IncrementalResp) list) prog" where
  "batchMembers T [] num resp = ret resp"
| "batchMembers T ((groupId, version, versionID) # reqs) num resp =
     (if groupId \<in> fst ` set resp then batchMembers T reqs num resp
      else bindM (GetIncrementalGroupMember T groupId version versionID) (\<lambda>memberResp.
        let num = num + length (gsInsert memberResp) + length (gsUpdate memberResp) + length (gsDelete memberResp);
            resp = AList.update groupId memberResp resp in
        if num \<ge> versionSyncLimit then ret resp else batchMembers T reqs num resp))"

definition BatchGetIncrementalGroupMember ::
  "('w, 't) group_tools_scheme \<Rightarrow> (string \<times> nat \<times> string) list \<Rightarrow>
   ('e group_world_scheme, (string \<times> GroupMemberFullInfo IncrementalResp) list) prog" where
  "BatchGetIncrementalGroupMember T reqs = batchMembers T reqs 0 []"

end
