(* ===== verification/Cache_View.thy ===== *)
theory Cache_View
  imports Stores
begin

text \<open>
  Read-through caches that agree with the data behind them. The interface: what part of the state is the data, and which text a key may hold when the
  data is \<open>d\<close>. Its client lemmas are about programs that only read (\<open>reads\<close>): they leave the data alone, keep the cache in agreement with it,
  whatever fails, and their results have a property of the data.
\<close>

text \<open>What a key of a batch holds: its value, or the empty text when there is none.\<close>

definition valKey :: "('v \<Rightarrow> cached) \<Rightarrow> 'v option \<Rightarrow> cached" where
  "valKey enc v = (case v of None \<Rightarrow> CText '''' | Some a \<Rightarrow> enc a)"

locale cache_view =
  fixes data :: "'e store_world_scheme \<Rightarrow> 'd" and okKey :: "'d \<Rightarrow> string \<Rightarrow> cached \<Rightarrow> bool"
  assumes data_opno: "data (w\<lparr>opno := n\<rparr>) = data w" and data_rocks: "data (w\<lparr>rocks := m\<rparr>) = data w"
begin

definition coh :: "'d \<Rightarrow> (string \<rightharpoonup> cached) \<Rightarrow> bool" where
  "coh d r \<longleftrightarrow> (\<forall>k c. r k = Some c \<longrightarrow> okKey d k c)"

definition sees :: "'d \<Rightarrow> 'e store_world_scheme \<Rightarrow> bool" where
  "sees d w \<longleftrightarrow> data w = d \<and> coh d (rocks w)"

definition reads :: "'d \<Rightarrow> ('a \<Rightarrow> bool) \<Rightarrow> ('e store_world_scheme, 'a) prog \<Rightarrow> bool" where
  "reads d Q m \<longleftrightarrow> (\<forall>w. sees d w \<longrightarrow> sees d (snd (m w)) \<and> (\<forall>a. fst (m w) = Inr a \<longrightarrow> Q a))"

lemma sees_opno [simp]: "sees d (w\<lparr>opno := n\<rparr>) = sees d w"
  by (simp add: sees_def data_opno)

lemma sees_fill: "sees d w \<Longrightarrow> (\<And>k c. m k = Some c \<Longrightarrow> okKey d k c) \<Longrightarrow> sees d (w\<lparr>rocks := rocks w ++ m\<rparr>)"
  by (auto simp: sees_def data_rocks coh_def map_add_def split: option.splits)

lemma sees_fill_io: "sees d w \<Longrightarrow> (\<And>k c. m k = Some c \<Longrightarrow> okKey d k c) \<Longrightarrow> sees d (w\<lparr>opno := n, rocks := rocks w ++ m\<rparr>)"
  using sees_fill [of d "w\<lparr>opno := n\<rparr>" m] by simp

lemma coh_le: "coh d r \<Longrightarrow> r' \<subseteq>\<^sub>m r \<Longrightarrow> coh d r'"
  unfolding coh_def map_le_def by (metis domI)

lemma reads_weaken: "reads d Q m \<Longrightarrow> (\<And>a. Q a \<Longrightarrow> R a) \<Longrightarrow> reads d R m"
  by (auto simp: reads_def)

lemma reads_ret: "Q a \<Longrightarrow> reads d Q (ret a)"
  by (simp add: reads_def)

lemma reads_throw: "reads d Q (throw e)"
  by (simp add: reads_def)

lemma reads_gets: "(\<And>w. data w = d \<Longrightarrow> Q (f w)) \<Longrightarrow> reads d Q (gets f)"
  by (simp add: reads_def sees_def)

lemma reads_bind: "reads d Q m \<Longrightarrow> (\<And>a. Q a \<Longrightarrow> reads d R (f a)) \<Longrightarrow> reads d R (bindM m f)"
  unfolding reads_def bindM_def by (fastforce split: prod.splits sum.splits)

lemma reads_io: "reads d Q m \<Longrightarrow> reads d Q (io m)"
  unfolding reads_def io_def Let_def
proof (intro allI impI, goal_cases)
  case (1 w)
  then have "sees d (w\<lparr>opno := Suc (opno w)\<rparr>)" by simp
  with 1(1) have "sees d (snd (m (w\<lparr>opno := Suc (opno w)\<rparr>)))" "\<And>a. fst (m (w\<lparr>opno := Suc (opno w)\<rparr>)) = Inr a \<Longrightarrow> Q a" by blast+
  with 1 show ?case by (auto split: fault.splits)
qed

lemma reads_tryM: "reads d Q m \<Longrightarrow> reads d (\<lambda>r. \<forall>a. r = Inr a \<longrightarrow> Q a) (tryM m)"
  unfolding reads_def tryM_def by (fastforce split: prod.splits sum.splits err.splits)

lemma reads_foldM:
  assumes "\<And>x c. x \<in> set xs \<Longrightarrow> Q c \<Longrightarrow> reads d Q (f x c)"
  shows "Q c \<Longrightarrow> reads d Q (foldM f xs c)"
  using assms by (induction xs arbitrary: c) (auto intro!: reads_ret intro: reads_bind)

lemma reads_forM: "(\<And>x. x \<in> set xs \<Longrightarrow> reads d (\<lambda>_. True) (f x)) \<Longrightarrow> reads d (\<lambda>_. True) (forM xs f)"
  by (induction xs) (auto intro!: reads_ret intro: reads_bind)

lemma reads_groupKeysBySlot:
  "reads d (\<lambda>slots. mset (concat (map snd slots)) = mset keys) (groupKeysBySlot keys)"
  unfolding reads_def
proof (intro allI impI conjI)
  fix w
  assume "sees d w"
  with groupKeysBySlot_state [of keys w] show "sees d (snd (groupKeysBySlot keys w))" by auto
  show "mset (concat (map snd slots)) = mset keys" if "fst (groupKeysBySlot keys w) = Inr slots" for slots
    using groupKeysBySlot_cases [of keys w slots "snd (groupKeysBySlot keys w)"] that by (metis prod.collapse)
qed

section \<open>One key\<close>

lemma reads_getCache:
  assumes fn: "reads d Q fn" and enc: "\<And>a. Q a \<Longrightarrow> okKey d key (enc a)"
    and hit: "\<And>c. okKey d key c \<Longrightarrow> c \<noteq> CText '''' \<Longrightarrow> \<exists>a. dec c = Some a \<and> Q a"
  shows "reads d Q (getCache enc dec key fn)"
proof -
  have get: "reads d (\<lambda>r. \<forall>v. r = Some v \<longrightarrow> okKey d key v) (io (gets (\<lambda>w. rocks w key)))"
    by (auto simp: reads_def io_def Let_def sees_def coh_def data_opno split: fault.splits)
  have set: "reads d (\<lambda>_. True) (io (modifyM (\<lambda>w. w\<lparr>rocks := (rocks w)(key \<mapsto> enc t)\<rparr>)))" if "Q t" for t
    using enc [OF that] by (auto simp: reads_def io_def Let_def sees_def coh_def data_opno data_rocks split: fault.splits)
  have "reads d (\<lambda>(v, w). (case w of None \<Rightarrow> okKey d key v | Some t \<Rightarrow> Q t)) (rocksFetch2 key (bindM fn (\<lambda>t. ret (enc t, t))))"
    unfolding rocksFetch2_def
    by (rule reads_bind [OF get])
       (auto intro!: reads_ret reads_bind [OF reads_bind [OF fn, of "\<lambda>(s, t). s = enc t \<and> Q t"]] reads_bind [OF set] split: option.split)
  then show ?thesis
    unfolding getCache_def
    by (rule reads_bind) (use hit in \<open>auto intro!: reads_ret reads_throw split: option.split\<close>, fastforce+)
qed

section \<open>Several keys at once\<close>

lemma reads_rocksFetchBatch2:
  assumes ok: "\<And>k. k \<in> set keys \<Longrightarrow> okKey d k (want k)"
    and hit: "\<And>k c. k \<in> set keys \<Longrightarrow> okKey d k c \<Longrightarrow> c = want k"
    and fn: "\<And>idxs. set idxs \<subseteq> {..<length keys} \<Longrightarrow>
      reads d (\<lambda>data. \<forall>i\<in>set idxs. mapGet (CText '''') data i = want (keys ! i)) (fn idxs)"
  shows "reads d (\<lambda>cs. cs = map want keys) (rocksFetchBatch2 keys fn)"
proof -
  have get: "reads d (\<lambda>hits. length hits = length keys \<and> (\<forall>i<length keys. \<forall>c. hits ! i = Some c \<longrightarrow> okKey d (keys ! i) c))
     (io (gets (\<lambda>w. map (rocks w) keys)))"
    by (auto simp: reads_def io_def Let_def sees_def coh_def data_opno split: fault.splits)
  have set: "reads d (\<lambda>_. True) (io (modifyM (\<lambda>w. w\<lparr>rocks := rocks w ++ map_of (map (\<lambda>i. (keys ! i, mapGet (CText '''') data i)) idxs)\<rparr>)))"
    if "\<forall>i\<in>set idxs. mapGet (CText '''') data i = want (keys ! i)" "set idxs \<subseteq> {..<length keys}" for data idxs
  proof -
    have "okKey d k c" if "map_of (map (\<lambda>i. (keys ! i, mapGet (CText '''') data i)) idxs) k = Some c" for k c
    proof -
      from map_of_SomeD [OF that] obtain i where "i \<in> set idxs" "k = keys ! i" "c = mapGet (CText '''') data i" by auto
      then show ?thesis using \<open>\<forall>i\<in>set idxs. _\<close> \<open>set idxs \<subseteq> _\<close> ok by auto
    qed
    then show ?thesis by (auto simp: reads_def io_def Let_def sees_fill_io split: fault.splits)
  qed
  have idxs: "set (filter (\<lambda>i. hits ! i = None) [0..<length keys]) \<subseteq> {..<length keys}" for hits :: "cached option list" by auto
  show ?thesis
    unfolding rocksFetchBatch2_def
  proof (rule reads_bind [OF get])
    fix hits :: "cached option list"
    assume h: "length hits = length keys \<and> (\<forall>i<length keys. \<forall>c. hits ! i = Some c \<longrightarrow> okKey d (keys ! i) c)"
    define idxs' where "idxs' = filter (\<lambda>i. hits ! i = None) [0..<length keys]"
    have all: "map the hits = map want keys" if "idxs' = []"
    proof (rule nth_equalityI)
      fix i assume il: "i < length (map the hits)"
      with h have "i < length keys" by simp
      then have "i \<in> set [0..<length keys]" by simp
      with that have "hits ! i \<noteq> None" by (auto simp: idxs'_def filter_empty_conv)
      then obtain c where "hits ! i = Some c" by blast
      with h hit il show "map the hits ! i = map want keys ! i" by auto
    qed (use h in simp)
    have result: "map (\<lambda>i. case hits ! i of Some v \<Rightarrow> v | None \<Rightarrow> mapGet (CText '''') data i) [0..<length keys] = map want keys"
      if "\<forall>i\<in>set idxs'. mapGet (CText '''') data i = want (keys ! i)" for data
      using that h hit by (auto simp: idxs'_def intro!: nth_equalityI split: option.split)
    show "reads d (\<lambda>cs. cs = map want keys)
        (let idxs = filter (\<lambda>i. hits ! i = None) [0..<length keys] in
         if idxs = [] then ret (map the hits)
         else bindM (fn idxs) (\<lambda>data. let missing = map (\<lambda>i. (keys ! i, mapGet (CText '''') data i)) idxs in
           bindM (io (modifyM (\<lambda>w. w\<lparr>rocks := rocks w ++ map_of missing\<rparr>))) (\<lambda>_.
             ret (map (\<lambda>i. case hits ! i of Some v \<Rightarrow> v | None \<Rightarrow> mapGet (CText '''') data i) [0..<length keys]))))"
      unfolding idxs'_def [symmetric] Let_def
      by (auto intro!: reads_ret all reads_bind [OF fn] reads_bind [OF set] result simp: idxs'_def [symmetric] idxs [folded idxs'_def])
         (auto simp: idxs'_def)
  qed
qed

text \<open>
  \<^verbatim>\<open>batchGetCache2\<close> for values that are part of the data: the result is the values of the ids, each key with its value or the empty text.
\<close>

lemma batch_keys:
  assumes inj: "inj_on idKey (insert x (set ids))"
  shows "\<exists>findKeys keyId. foldl (\<lambda>(findKeys, keyId) id. let key = idKey id in
      case map_of keyId key of Some _ \<Rightarrow> (findKeys, keyId) | None \<Rightarrow> (findKeys @ [key], AList.update key id keyId)) ([], []) ids =
    (findKeys, keyId) \<and> distinct findKeys \<and> set findKeys = idKey ` set ids \<and> (\<forall>id\<in>set ids. map_of keyId (idKey id) = Some id) \<and>
    dom (map_of keyId) \<subseteq> idKey ` set ids"
  using inj
proof (induction ids rule: rev_induct)
  case (snoc id ids)
  from snoc.prems have i: "inj_on idKey (insert x (set ids))" by (rule inj_on_subset) auto
  from snoc.IH [OF i] obtain findKeys keyId where IH: "foldl (\<lambda>(findKeys, keyId) id. let key = idKey id in
      case map_of keyId key of Some _ \<Rightarrow> (findKeys, keyId) | None \<Rightarrow> (findKeys @ [key], AList.update key id keyId)) ([], []) ids =
      (findKeys, keyId)" "distinct findKeys" "set findKeys = idKey ` set ids" "\<forall>id\<in>set ids. map_of keyId (idKey id) = Some id"
      "dom (map_of keyId) \<subseteq> idKey ` set ids" by blast
  show ?case
  proof (cases "id \<in> set ids")
    case True
    with IH show ?thesis by (auto simp: Let_def)
  next
    case False
    with snoc.prems have new: "idKey id \<notin> idKey ` set ids" by (auto simp: inj_on_def)
    then have "map_of keyId (idKey id) = None" using IH(5) by blast
    moreover have "idKey i \<noteq> idKey id" if "i \<in> set ids" for i using new imageI [OF that, of idKey] by auto
    ultimately show ?thesis using IH new by (auto simp: Let_def update_conv')
  qed
qed simp

lemma map_of_foldl_index:
  assumes "inj_on f (set is)"
  shows "map_of (foldl (\<lambda>m i. AList.update (f i) i m) [] is) k = Some i \<longleftrightarrow> i \<in> set is \<and> f i = k"
  using assms
proof (induction "is" arbitrary: i rule: rev_induct)
  case (snoc j "is")
  then have "inj_on f (set is)" by (rule_tac inj_on_subset) auto
  from snoc.IH [OF this] snoc.prems show ?case by (auto simp: update_conv' inj_on_def)
qed simp

lemma batch_stored:
  assumes f: "inj_on f (set is)"
    and m: "\<And>k i. map_of m k = Some i \<longleftrightarrow> i \<in> set is \<and> f i = k" and vs: "distinct (map vId vs)" and i: "i \<in> set is"
  shows "mapGet z (foldl (\<lambda>c v. case map_of m (vId v) of None \<Rightarrow> c | Some j \<Rightarrow> AList.update j (enc v) c) c0 vs) i =
     (case List.find (\<lambda>v. vId v = f i) vs of None \<Rightarrow> mapGet z c0 i | Some v \<Rightarrow> enc v)"
  using vs
proof (induction vs arbitrary: c0)
  case (Cons v vs)
  from Cons.prems have d: "distinct (map vId vs)" and v: "vId v \<notin> vId ` set vs" by simp_all
  have new: "vId x \<noteq> vId v" if "x \<in> set vs" for x using v imageI [OF that, of vId] by metis
  show ?case
  proof (cases "vId v = f i")
    case True
    have s: "map_of m (vId v) = Some i" unfolding m using i True [symmetric] by (rule conjI)
    have n: "List.find (\<lambda>x. vId x = f i) vs = None" unfolding find_None_iff using new True by auto
    have "mapGet z (AList.update i (enc v) c0) i = enc v" by (simp add: mapGet_def update_conv')
    with Cons.IH [OF d, of "AList.update i (enc v) c0"] n show ?thesis
      by (simp only: foldl.simps List.find.simps s [unfolded True] True refl if_True option.case)
  next
    case False
    have same: "mapGet z (case map_of m (vId v) of None \<Rightarrow> c0 | Some j \<Rightarrow> AList.update j (enc v) c0) i = mapGet z c0 i"
    proof (cases "map_of m (vId v)")
      case (Some j)
      with False m have "j \<noteq> i" by metis
      with Some show ?thesis by (simp add: mapGet_def update_conv')
    qed simp
    show ?thesis using Cons.IH [OF d, of "case map_of m (vId v) of None \<Rightarrow> c0 | Some j \<Rightarrow> AList.update j (enc v) c0"]
      by (simp only: foldl.simps List.find.simps False if_False same)
  qed
qed simp

lemma reads_batchGetCache2:
  fixes idKey :: "'k \<Rightarrow> string" and val :: "'k \<Rightarrow> 'v option"
  assumes inj: "inj_on idKey (set ids)"
    and key: "\<And>id c. id \<in> set ids \<Longrightarrow> okKey d (idKey id) c \<longleftrightarrow> c = valKey enc (val id)"
    and dec: "\<And>v. dec (enc v) = Some v" "\<And>v. enc v \<noteq> CText ''''"
    and fn: "\<And>ids'. set ids' \<subseteq> set ids \<Longrightarrow>
      reads d (\<lambda>vs. distinct (map vId vs) \<and> (\<forall>id\<in>set ids'. List.find (\<lambda>v. vId v = id) vs = val id)) (fn ids')"
  shows "reads d (\<lambda>vs. set vs = {v. \<exists>id\<in>set ids. val id = Some v}) (batchGetCache2 enc dec (\<lambda>_ v. v) z ids idKey vId fn)"
proof (cases "ids = []")
  case True
  then show ?thesis by (auto simp: batchGetCache2_def intro: reads_ret)
next
  case False
  then obtain x where x: "insert x (set ids) = set ids" by (metis insert_absorb last_in_set)
  obtain findKeys keyId where fk: "foldl (\<lambda>(findKeys, keyId) id. let key = idKey id in
      case map_of keyId key of Some _ \<Rightarrow> (findKeys, keyId) | None \<Rightarrow> (findKeys @ [key], AList.update key id keyId)) ([], []) ids =
      (findKeys, keyId)" and dk: "distinct findKeys" and sk: "set findKeys = idKey ` set ids"
      and ki: "\<And>id. id \<in> set ids \<Longrightarrow> map_of keyId (idKey id) = Some id"
    using batch_keys [of idKey x ids] inj x by metis
  have get: "mapGet z keyId (idKey id) = id" if "id \<in> set ids" for id using ki [OF that] by (simp add: mapGet_def)
  define want where "want k = valKey enc (val (mapGet z keyId k))" for k
  have want: "want (idKey id) = valKey enc (val id)" if "id \<in> set ids" for id using get [OF that] by (simp add: want_def)
  define nodeFn where "nodeFn keys idx =
      (let queryIds = map (\<lambda>index. mapGet z keyId (keys ! index)) idx;
           idIndex = foldl (\<lambda>m index. AList.update (mapGet z keyId (keys ! index)) index m) [] idx in
       bindM (fn queryIds) (\<lambda>values. ret (foldl (\<lambda>cacheIndex value. case map_of idIndex (vId value) of
             None \<Rightarrow> cacheIndex | Some index \<Rightarrow> AList.update index (enc value) cacheIndex) [] values)))" for keys :: "string list" and idx :: "nat list"
  define add :: "nat \<times> cached \<Rightarrow> 'v list \<Rightarrow> ('e store_world_scheme, 'v list) prog"
    where "add = (\<lambda>(index, data) result. if data = CText '''' then ret result
     else case dec data of None \<Rightarrow> throw (ErrNew ''Unmarshal failed'') | Some value \<Rightarrow> ret (result @ [value]))"
  have node: "reads d (\<lambda>cs. cs = map want keys) (rocksFetchBatch2 keys (nodeFn keys))"
    if keys: "distinct keys" "set keys \<subseteq> idKey ` set ids" for keys
  proof (rule reads_rocksFetchBatch2)
    have ok: "okKey d k c \<longleftrightarrow> c = want k" if k: "k \<in> set keys" for k c
    proof -
      from k keys(2) obtain id where "k = idKey id" "id \<in> set ids" by blast
      then show ?thesis using key want by simp
    qed
    show "okKey d k (want k)" if "k \<in> set keys" for k using ok [OF that] by simp
    show "c = want k" if "k \<in> set keys" "okKey d k c" for k c using ok that by blast
    fix "is" :: "nat list"
    assume is_: "set is \<subseteq> {..<length keys}"
    let ?f = "\<lambda>i. mapGet z keyId (keys ! i)"
    have k: "?f i \<in> set ids \<and> idKey (?f i) = keys ! i" if "i \<in> set is" for i
    proof -
      have "keys ! i \<in> idKey ` set ids" using that is_ keys nth_mem by blast
      then show ?thesis using get by auto
    qed
    have inj': "inj_on ?f (set is)"
    proof (rule inj_onI)
      fix i j assume ij: "i \<in> set is" "j \<in> set is" and eq: "?f i = ?f j"
      then have "keys ! i = keys ! j" using k by metis
      with ij is_ show "i = j" using nth_eq_iff_index_eq [OF keys(1), of i j] by auto
    qed
    have m: "map_of (foldl (\<lambda>m i. AList.update (?f i) i m) [] is) k = Some i \<longleftrightarrow> i \<in> set is \<and> ?f i = k" for k i
      by (rule map_of_foldl_index [OF inj'])
    have "set (map ?f is) \<subseteq> set ids" using k by auto
    from fn [OF this] show "reads d (\<lambda>data. \<forall>i\<in>set is. mapGet (CText '''') data i = want (keys ! i)) (nodeFn keys is)"
      unfolding nodeFn_def Let_def
    proof (rule reads_bind)
      fix vs assume vs: "distinct (map vId vs) \<and> (\<forall>id\<in>set (map ?f is). List.find (\<lambda>v. vId v = id) vs = val id)"
      have "mapGet (CText '''') (foldl (\<lambda>c v. case map_of (foldl (\<lambda>m i. AList.update (?f i) i m) [] is) (vId v) of None \<Rightarrow> c
          | Some j \<Rightarrow> AList.update j (enc v) c) [] vs) i = want (keys ! i)" if i: "i \<in> set is" for i
      proof -
        have "List.find (\<lambda>v. vId v = ?f i) vs = val (?f i)" using vs i by simp
        moreover have "want (keys ! i) = valKey enc (val (?f i))" by (simp add: want_def)
        ultimately show ?thesis using batch_stored [OF inj' m _ i, of vId vs "CText ''''" enc "[]"] vs
          by (simp add: valKey_def mapGet_def split: option.splits)
      qed
      then show "reads d (\<lambda>data. \<forall>i\<in>set is. mapGet (CText '''') data i = want (keys ! i))
          (ret (foldl (\<lambda>c v. case map_of (foldl (\<lambda>m i. AList.update (?f i) i m) [] is) (vId v) of None \<Rightarrow> c
             | Some j \<Rightarrow> AList.update j (enc v) c) [] vs))"
        by (intro reads_ret) blast
    qed
  qed
  have collect: "reads d (\<lambda>vs. set vs = set acc \<union> {v. \<exists>k\<in>snd ` set xs. k = enc v}) (foldM add xs acc)"
    if "\<forall>k\<in>snd ` set xs. \<exists>ov. k = valKey enc ov" for xs acc
    using that
  proof (induction xs arbitrary: acc)
    case (Cons y xs)
    obtain n c where y: "y = (n, c)" by (cases y)
    with Cons.prems obtain ov where c: "c = valKey enc ov" by auto
    from Cons.prems have xs: "\<forall>k\<in>snd ` set xs. \<exists>ov. k = valKey enc ov" by simp
    show ?case
    proof (cases ov)
      case None
      with c have "c = CText ''''" by (simp add: valKey_def)
      with Cons.IH [OF xs, of acc] y dec(2) show ?thesis
        by (auto simp: add_def intro: reads_weaken)
    next
      case (Some v)
      with c have c: "c = enc v" by (simp add: valKey_def)
      have "enc u = enc v \<longleftrightarrow> u = v" for u using dec(1) by (metis option.inject)
      with Cons.IH [OF xs, of "acc @ [v]"] y c dec show ?thesis
        by (auto simp: add_def elim!: reads_weaken)
    qed
  qed (auto intro: reads_ret)
  have slots: "reads d (\<lambda>vs. set vs = set acc \<union> {v. \<exists>k\<in>set (concat (map snd slots)). want k = enc v})
      (foldM (\<lambda>(_, keys) result. bindM (rocksFetchBatch2 keys (nodeFn keys)) (\<lambda>indexCache. foldM add (zip [0..<length indexCache] indexCache) result))
        slots acc)"
    if "distinct (concat (map snd slots))" "set (concat (map snd slots)) \<subseteq> idKey ` set ids" for slots :: "(int \<times> string list) list" and acc
    using that
  proof (induction slots arbitrary: acc)
    case (Cons y slots)
    obtain n keys where y: "y = (n, keys)" by (cases y)
    with Cons.prems have keys: "distinct keys" "set keys \<subseteq> idKey ` set ids" and rest: "distinct (concat (map snd slots))" "set (concat (map snd slots)) \<subseteq> idKey ` set ids"
      by auto
    have one: "reads d (\<lambda>vs. set vs = set acc \<union> {v. \<exists>k\<in>set keys. want k = enc v})
        (bindM (rocksFetchBatch2 keys (nodeFn keys)) (\<lambda>indexCache. foldM add (zip [0..<length indexCache] indexCache) acc))"
    proof (rule reads_bind [OF node [OF keys]])
      fix cs assume cs: "cs = map want keys"
      have z: "snd ` set (zip [0..<length cs] cs) = set cs" by (metis length_upt list.set_map map_snd_zip minus_nat.diff_0)
      have v: "\<forall>k\<in>set cs. \<exists>ov. k = valKey enc ov" using cs by (auto simp: want_def)
      have e: "{v. \<exists>k\<in>set cs. k = enc v} = {v. \<exists>k\<in>set keys. want k = enc v}" using cs by force
      show "reads d (\<lambda>vs. set vs = set acc \<union> {v. \<exists>k\<in>set keys. want k = enc v}) (foldM add (zip [0..<length cs] cs) acc)"
        using collect [of "zip [0..<length cs] cs" acc] v unfolding z e by blast
    qed
    show ?case
      unfolding y foldM.simps prod.case
    proof (rule reads_bind [OF one])
      fix vs assume h: "set vs = set acc \<union> {v. \<exists>k\<in>set keys. want k = enc v}"
      have e: "set vs \<union> {v. \<exists>k\<in>set (concat (map snd slots)). want k = enc v} =
          set acc \<union> {v. \<exists>k\<in>set (concat (map snd ((n, keys) # slots))). want k = enc v}"
        unfolding h by (simp only: list.map concat.simps snd_conv set_append bex_Un Collect_disj_eq Un_assoc)
      show "reads d (\<lambda>vs. set vs = set acc \<union> {v. \<exists>k\<in>set (concat (map snd ((n, keys) # slots))). want k = enc v})
        (foldM (\<lambda>(_, keys) result. bindM (rocksFetchBatch2 keys (nodeFn keys)) (\<lambda>indexCache. foldM add (zip [0..<length indexCache] indexCache) result)) slots vs)"
        using Cons.IH [OF rest, of vs] unfolding e by (simp only: y)
    qed
  qed (auto intro: reads_ret)
  have want_enc: "want (idKey id) = enc v \<longleftrightarrow> val id = Some v" if "id \<in> set ids" for id v
  proof -
    have "enc a = enc v \<longleftrightarrow> a = v" for a using dec(1) by (metis option.inject)
    with want [OF that] dec(2) show ?thesis by (auto simp: valKey_def dest: sym split: option.splits)
  qed
  have "reads d (\<lambda>vs. set vs = {v. \<exists>id\<in>set ids. val id = Some v}) (bindM (groupKeysBySlot findKeys) (\<lambda>slotKeys.
      foldM (\<lambda>(_, keys) result. bindM (rocksFetchBatch2 keys (nodeFn keys)) (\<lambda>indexCache. foldM add (zip [0..<length indexCache] indexCache) result))
        slotKeys []))"
  proof (rule reads_bind [OF reads_groupKeysBySlot])
    fix slots :: "(int \<times> string list) list"
    assume m: "mset (concat (map snd slots)) = mset findKeys"
    have d: "distinct (concat (map snd slots))" by (metis m dk mset_eq_imp_distinct_iff)
    have s: "set (concat (map snd slots)) = idKey ` set ids" using mset_eq_setD [OF m] sk by simp
    have e: "{v. \<exists>k\<in>set (concat (map snd slots)). want k = enc v} = {v. \<exists>id\<in>set ids. val id = Some v}"
      unfolding s using want_enc by auto
    show "reads d (\<lambda>vs. set vs = {v. \<exists>id\<in>set ids. val id = Some v})
      (foldM (\<lambda>(_, keys) result. bindM (rocksFetchBatch2 keys (nodeFn keys)) (\<lambda>indexCache. foldM add (zip [0..<length indexCache] indexCache) result)) slots [])"
      using slots [OF d, of "[]"] unfolding e by (simp only: s subset_refl list.set(1) Un_empty_left simp_thms)
  qed
  with False fk show ?thesis
    unfolding batchGetCache2_def nodeFn_def add_def by simp
qed

section \<open>Programs in general\<close>

lemma reads_preserves: "(\<And>d'. preserves (sees d') m) \<Longrightarrow> reads d (\<lambda>_. True) m"
  by (simp add: reads_def preserves_def)

lemma reads_idx: "(\<And>x. x \<in> set xs \<Longrightarrow> Q x) \<Longrightarrow> reads d Q (idx xs i)"
  by (auto simp: idx_def intro: reads_ret reads_throw)

lemma reads_modifyM: "(\<And>w. data (f w) = data w \<and> rocks (f w) = rocks w) \<Longrightarrow> reads d (\<lambda>_. True) (modifyM f)"
  by (simp add: reads_def sees_def)

lemma reads_liftE: "(\<And>a. r = Inr a \<Longrightarrow> Q a) \<Longrightarrow> reads d Q (liftE r)"
  by (auto simp: reads_def liftE_def)

lemma reads_still: "(\<And>w. data (snd (m w)) = data w \<and> rocks (snd (m w)) = rocks w) \<Longrightarrow> reads d (\<lambda>_. True) m"
  by (simp add: reads_def sees_def)

lemma reads_if: "(b \<Longrightarrow> reads d Q m) \<Longrightarrow> (\<not> b \<Longrightarrow> reads d Q n) \<Longrightarrow> reads d Q (if b then m else n)"
  by simp

lemma reads_case_option:
  "(r = None \<Longrightarrow> reads d Q m) \<Longrightarrow> (\<And>a. r = Some a \<Longrightarrow> reads d Q (g a)) \<Longrightarrow> reads d Q (case r of None \<Rightarrow> m | Some a \<Rightarrow> g a)"
  by (simp split: option.split)

lemma reads_case_sum:
  "(\<And>e. r = Inl e \<Longrightarrow> reads d Q (f e)) \<Longrightarrow> (\<And>a. r = Inr a \<Longrightarrow> reads d Q (g a)) \<Longrightarrow> reads d Q (case r of Inl e \<Rightarrow> f e | Inr a \<Rightarrow> g a)"
  by (simp split: sum.split)

lemma reads_case_prod: "(\<And>a b. p = (a, b) \<Longrightarrow> reads d Q (g a b)) \<Longrightarrow> reads d Q (case p of (a, b) \<Rightarrow> g a b)"
  by (simp split: prod.split)

lemma reads_case_prod_arg: "(\<And>a b. p = (a, b) \<Longrightarrow> reads d Q (g a b c)) \<Longrightarrow> reads d Q ((case p of (a, b) \<Rightarrow> g a b) c)"
  by (simp split: prod.split)

lemmas reads_split = reads_if reads_case_option reads_case_sum reads_case_prod reads_case_prod_arg

text \<open>Keys that may hold anything.\<close>

lemma reads_free_getCache:
  assumes "reads d (\<lambda>_. True) fn" and "\<And>c. okKey d key c"
  shows "reads d (\<lambda>_. True) (getCache enc dec key fn)"
proof -
  have get: "reads d (\<lambda>_. True) (io (gets (\<lambda>w. rocks w key)))" by (intro reads_io reads_gets TrueI)
  have set: "reads d (\<lambda>_. True) (io (modifyM (\<lambda>w. w\<lparr>rocks := (rocks w)(key \<mapsto> c)\<rparr>)))" for c
    using assms(2) by (auto simp: reads_def io_def Let_def sees_def coh_def data_opno data_rocks split: fault.splits)
  show ?thesis unfolding getCache_def rocksFetch2_def
    by (intro reads_bind [where Q = "\<lambda>_. True"] get set assms(1) reads_split reads_ret reads_throw TrueI)
qed

lemma reads_free_batchGetCache2:
  assumes fn: "\<And>ids'. reads d (\<lambda>_. True) (fn ids')" and key: "\<And>id c. id \<in> set ids \<Longrightarrow> okKey d (idKey id) c"
  shows "reads d (\<lambda>_. True) (batchGetCache2 enc dec setId z ids idKey vId fn)"
proof -
  have keys: "set (fst (foldl (\<lambda>(findKeys, keyId) id. let key = idKey id in
      case map_of keyId key of Some _ \<Rightarrow> (findKeys, keyId) | None \<Rightarrow> (findKeys @ [key], AList.update key id keyId)) ([], []) xs)) \<subseteq> idKey ` set xs" for xs
    by (induction xs rule: rev_induct) (auto simp: Let_def split: prod.splits option.splits)
  have get: "reads d (\<lambda>_. True) (io (gets (\<lambda>w. map (rocks w) keys)))" for keys by (intro reads_io reads_gets TrueI)
  have set: "reads d (\<lambda>_. True) (io (modifyM (\<lambda>w. w\<lparr>rocks := rocks w ++ map_of (map (\<lambda>i. (keys ! i, mapGet (CText '''') data i)) is)\<rparr>)))"
    if keys: "set keys \<subseteq> idKey ` set ids" and i: "set is \<subseteq> {..<length keys}" for keys data "is"
  proof -
    have "okKey d k c" if "map_of (map (\<lambda>i. (keys ! i, mapGet (CText '''') data i)) is) k = Some c" for k c
    proof -
      from map_of_SomeD [OF that] obtain i where "i \<in> set is" "k = keys ! i" by auto
      then have "k \<in> idKey ` set ids" using i keys by (metis lessThan_iff nth_mem subset_iff)
      then show ?thesis using key by auto
    qed
    then show ?thesis by (auto simp: reads_def io_def Let_def sees_fill_io split: fault.splits)
  qed
  have fetch: "reads d (\<lambda>_. True) (rocksFetchBatch2 keys g)"
    if "\<And>is. reads d (\<lambda>_. True) (g is)" and "set keys \<subseteq> idKey ` set ids" for keys g
    unfolding rocksFetchBatch2_def Let_def
    by (intro reads_bind [where Q = "\<lambda>_. True"] get reads_split reads_ret TrueI that(1) set [OF that(2)]) auto
  have slots: "reads d (\<lambda>slots. \<forall>(n, keys)\<in>set slots. set keys \<subseteq> idKey ` set ids) (groupKeysBySlot keys)" if "set keys \<subseteq> idKey ` set ids" for keys
  proof (rule reads_weaken [OF reads_groupKeysBySlot])
    fix slots :: "(int \<times> string list) list"
    assume "mset (concat (map snd slots)) = mset keys"
    then have "set (concat (map snd slots)) = set keys" by (rule mset_eq_setD)
    with that show "\<forall>(n, keys)\<in>set slots. set keys \<subseteq> idKey ` set ids" by fastforce
  qed
  obtain findKeys keyId where fk: "foldl (\<lambda>(findKeys, keyId) id. let key = idKey id in
      case map_of keyId key of Some _ \<Rightarrow> (findKeys, keyId) | None \<Rightarrow> (findKeys @ [key], AList.update key id keyId)) ([], []) ids = (findKeys, keyId)"
    by (rule prod.exhaust)
  with keys [of ids] have "set findKeys \<subseteq> idKey ` set ids" by simp
  note sl = slots [OF this]
  have add: "reads d (\<lambda>_. True) (foldM (\<lambda>(index, data) result. if data = CText '''' then ret result
      else case dec data of None \<Rightarrow> throw (ErrNew ''Unmarshal failed'') | Some value \<Rightarrow> ret (result @ [setId (mapGet z keyId (keys ! index)) value]))
      (zip [0..<length cs] cs) result)" for keys cs result
    by (intro reads_foldM [where Q = "\<lambda>_. True"] TrueI reads_split reads_ret reads_throw)
  have one: "reads d (\<lambda>_. True) (bindM (fn ids') (\<lambda>vs. ret (f vs)))" for ids' and f :: "'b list \<Rightarrow> (nat \<times> cached) list"
    by (intro reads_bind [OF fn] reads_ret TrueI)
  show ?thesis
    unfolding batchGetCache2_def fk
    unfolding Let_def unfolding prod.case
  proof (intro reads_if reads_ret TrueI, rule reads_bind [OF sl], intro reads_foldM [where Q = "\<lambda>_. True"] TrueI reads_case_prod_arg, goal_cases)
    case (1 slotKeys x c n keys)
    then have "set keys \<subseteq> idKey ` set ids" by auto
    then show ?case by (intro reads_bind [where Q = "\<lambda>_. True"] fetch add one)
  qed
qed

end

text \<open>
  Programs that also write. The data has an invariant \<open>ok\<close>; \<open>moves d R m\<close>: whatever happens, the data after \<open>m\<close> satisfies \<open>ok\<close> and \<open>R\<close>, and the cache
  agrees with it.
\<close>

locale cache_inv = cache_view data okKey for data :: "'e store_world_scheme \<Rightarrow> 'd" and okKey +
  fixes ok :: "'d \<Rightarrow> bool"
begin

definition inv :: "'e store_world_scheme \<Rightarrow> bool" where
  "inv w \<longleftrightarrow> ok (data w) \<and> coh (data w) (rocks w)"

definition moves :: "'d \<Rightarrow> ('d \<Rightarrow> bool) \<Rightarrow> ('e store_world_scheme, 'a) prog \<Rightarrow> bool" where
  "moves d R m \<longleftrightarrow> (\<forall>w. sees d w \<longrightarrow> inv (snd (m w)) \<and> R (data (snd (m w))))"

lemma inv_sees: "inv w \<longleftrightarrow> sees (data w) w \<and> ok (data w)"
  by (auto simp: inv_def sees_def)

lemma moves_reads: "reads d Q m \<Longrightarrow> ok d \<Longrightarrow> R d \<Longrightarrow> moves d R m"
  by (auto simp: moves_def reads_def sees_def inv_def)

lemma moves_bind: "reads d Q m \<Longrightarrow> ok d \<Longrightarrow> R d \<Longrightarrow> (\<And>a. Q a \<Longrightarrow> moves d R (f a)) \<Longrightarrow> moves d R (bindM m f)"
  unfolding moves_def reads_def bindM_def
  by (fastforce simp: sees_def inv_def split: prod.splits sum.splits)

lemma moves_then:
  assumes "moves d S m" and "\<And>d' a. ok d' \<Longrightarrow> S d' \<Longrightarrow> moves d' R (f a)" and "\<And>d'. S d' \<Longrightarrow> R d'"
  shows "moves d R (bindM m f)"
  unfolding moves_def
proof (intro allI impI)
  fix w
  assume "sees d w"
  with assms(1) have m: "inv (snd (m w))" "S (data (snd (m w)))" by (auto simp: moves_def)
  show "inv (snd (bindM m f w)) \<and> R (data (snd (bindM m f w)))"
  proof (cases "m w")
    case (Pair r w')
    then show ?thesis using m assms(2) [of "data w'"] assms(3) by (cases r) (auto simp: bindM_def inv_sees moves_def)
  qed
qed

lemma moves_then_reads: "moves d R m \<Longrightarrow> (\<And>d' a. ok d' \<Longrightarrow> reads d' Q (f a)) \<Longrightarrow> moves d R (bindM m f)"
  by (rule moves_then [where S = R]) (auto intro: moves_reads)

lemma moves_ret: "ok d \<Longrightarrow> R d \<Longrightarrow> moves d R (ret a)"
  by (simp add: moves_def sees_def inv_def)

lemma moves_throw: "ok d \<Longrightarrow> R d \<Longrightarrow> moves d R (throw e)"
  by (simp add: moves_def sees_def inv_def)

lemma moves_weaken: "moves d S m \<Longrightarrow> (\<And>d'. S d' \<Longrightarrow> R d') \<Longrightarrow> moves d R m"
  by (auto simp: moves_def)

lemma moves_if: "(b \<Longrightarrow> moves d R m) \<Longrightarrow> (\<not> b \<Longrightarrow> moves d R n) \<Longrightarrow> moves d R (if b then m else n)"
  by simp

lemma moves_case_option:
  "(r = None \<Longrightarrow> moves d R m) \<Longrightarrow> (\<And>a. r = Some a \<Longrightarrow> moves d R (g a)) \<Longrightarrow> moves d R (case r of None \<Rightarrow> m | Some a \<Rightarrow> g a)"
  by (simp split: option.split)

lemma moves_case_sum:
  "(\<And>e. r = Inl e \<Longrightarrow> moves d R (f e)) \<Longrightarrow> (\<And>a. r = Inr a \<Longrightarrow> moves d R (g a)) \<Longrightarrow> moves d R (case r of Inl e \<Rightarrow> f e | Inr a \<Rightarrow> g a)"
  by (simp split: sum.split)

lemma moves_case_prod: "(\<And>a b. p = (a, b) \<Longrightarrow> moves d R (g a b)) \<Longrightarrow> moves d R (case p of (a, b) \<Rightarrow> g a b)"
  by (simp split: prod.split)

lemmas moves_split = moves_if moves_case_option moves_case_sum moves_case_prod

lemma moves_inv: "(\<And>d. ok d \<Longrightarrow> moves d R m) \<Longrightarrow> inv w \<Longrightarrow> inv (snd (m w))"
  by (auto simp: moves_def inv_sees)

text \<open>\<open>ends d R m\<close>: after a success of \<open>m\<close>, the data satisfies \<open>R\<close>.\<close>

definition ends :: "'d \<Rightarrow> ('d \<Rightarrow> bool) \<Rightarrow> ('e store_world_scheme, 'a) prog \<Rightarrow> bool" where
  "ends d R m \<longleftrightarrow> (\<forall>w a. sees d w \<longrightarrow> fst (m w) = Inr a \<longrightarrow> R (data (snd (m w))))"

lemma ends_throw: "ends d R (throw e)"
  by (simp add: ends_def)

lemma ends_weaken: "ends d S m \<Longrightarrow> (\<And>d'. S d' \<Longrightarrow> R d') \<Longrightarrow> ends d R m"
  by (auto simp: ends_def)

lemma ends_reads: "reads d Q m \<Longrightarrow> R d \<Longrightarrow> ends d R m"
  by (auto simp: ends_def reads_def sees_def)

lemma ends_bind: "reads d Q m \<Longrightarrow> (\<And>a. Q a \<Longrightarrow> ends d R (f a)) \<Longrightarrow> ends d R (bindM m f)"
  unfolding ends_def reads_def bindM_def by (fastforce split: prod.splits sum.splits)

lemma ends_then:
  assumes "moves d S m" and "ends d R m" and "\<And>d' a. ok d' \<Longrightarrow> reads d' Q (f a)"
  shows "ends d R (bindM m f)"
  unfolding ends_def
proof (intro allI impI)
  fix w b assume w: "sees d w" and b: "fst (bindM m f w) = Inr b"
  obtain r w1 where m: "m w = (r, w1)" by fastforce
  with b obtain a where r: "r = Inr a" by (cases r) (simp_all add: bindM_def)
  have "sees (data w1) w1" and "ok (data w1)" and "R (data w1)"
    using assms(1,2) w m r by (auto simp: moves_def ends_def inv_def sees_def)
  with assms(3) have "data (snd (f a w1)) = data w1" by (auto simp: reads_def sees_def)
  with \<open>R (data w1)\<close> m r show "R (data (snd (bindM m f w)))" by (simp add: bindM_def)
qed

lemma ends_after:
  assumes "moves d S m" and "\<And>d' a. ok d' \<Longrightarrow> S d' \<Longrightarrow> ends d' R (f a)"
  shows "ends d R (bindM m f)"
  unfolding ends_def
proof (intro allI impI)
  fix w b assume w: "sees d w" and b: "fst (bindM m f w) = Inr b"
  obtain r w1 where m: "m w = (r, w1)" by fastforce
  with b obtain a where r: "r = Inr a" by (cases r) (simp_all add: bindM_def)
  have "sees (data w1) w1" and "ends (data w1) R (f a)" using assms w m by (auto simp: moves_def inv_sees)
  with m r b show "R (data (snd (bindM m f w)))" by (simp add: ends_def bindM_def)
qed

lemma ends_if: "(b \<Longrightarrow> ends d R m) \<Longrightarrow> (\<not> b \<Longrightarrow> ends d R n) \<Longrightarrow> ends d R (if b then m else n)"
  by simp

lemma ends_case_option:
  "(r = None \<Longrightarrow> ends d R m) \<Longrightarrow> (\<And>a. r = Some a \<Longrightarrow> ends d R (g a)) \<Longrightarrow> ends d R (case r of None \<Rightarrow> m | Some a \<Rightarrow> g a)"
  by (simp split: option.split)

lemma ends_case_sum:
  "(\<And>e. r = Inl e \<Longrightarrow> ends d R (f e)) \<Longrightarrow> (\<And>a. r = Inr a \<Longrightarrow> ends d R (g a)) \<Longrightarrow> ends d R (case r of Inl e \<Rightarrow> f e | Inr a \<Rightarrow> g a)"
  by (simp split: sum.split)

lemmas ends_split = ends_if ends_case_option ends_case_sum ends_throw

end

end
