(* ===== verification/Group_Inv.thy ===== *)
theory Group_Inv
  imports Group_Query Cache_View
begin

text \<open>
  The invariant of the group service: the collections are well-typed, and what the cache holds for a group, a member, the members of a group, their number, the
  members of a role and the groups of a user agrees with them. Reading through the cache returns what the collections hold. The cached hash of the members and the
  cached newest versions are left out (a change of a member's name leaves the hash). The keys of a member join two ids with a dash, so that
  the agreement is about groups whose id has none (\<open>plain\<close>).
\<close>

section \<open>Documents\<close>

definition gdata :: "'e group_world_scheme \<Rightarrow> Group list \<times> GroupMember list" where
  "gdata w = (groupDocs w, memberDocs w)"

definition plain :: "string \<Rightarrow> bool" where
  "plain g \<longleftrightarrow> CHR ''-'' \<notin> set g"

definition isRole :: "int \<Rightarrow> bool" where
  "isRole r \<longleftrightarrow> r = GroupOrdinaryUsers \<or> r = GroupAdmin \<or> r = GroupOwner"

definition memberKey :: "GroupMember \<Rightarrow> string \<times> string" where
  "memberKey m = (gmGroupID m, gmUserID m)"

definition one_owner :: "GroupMember list \<Rightarrow> bool" where
  "one_owner ms \<longleftrightarrow> (\<forall>m\<in>set ms. \<forall>n\<in>set ms. gmRoleLevel m = GroupOwner \<and> gmRoleLevel n = GroupOwner \<and> gmGroupID m = gmGroupID n \<longrightarrow> m = n)"

text \<open>With \<open>own\<close>, a group has at most one owner.\<close>

definition docs_typed :: "bool \<Rightarrow> Group list \<times> GroupMember list \<Rightarrow> bool" where
  "docs_typed own d \<longleftrightarrow> (case d of (ds, ms) \<Rightarrow>
     distinct (map gpGroupID ds) \<and> (\<forall>g\<in>set ds. plain (gpGroupID g)) \<and>
     distinct (map memberKey ms) \<and> (\<forall>m\<in>set ms. isRole (gmRoleLevel m) \<and> gmGroupID m \<in> gpGroupID ` set ds) \<and>
     (own \<longrightarrow> one_owner ms))"

definition membersOf :: "string \<Rightarrow> GroupMember list \<Rightarrow> GroupMember list" where
  "membersOf g ms = filter (\<lambda>m. gmGroupID m = g) ms"

definition memberIDs :: "string \<Rightarrow> GroupMember list \<Rightarrow> string list" where
  "memberIDs g ms = map gmUserID (memberSort (membersOf g ms))"

definition roleIDs :: "string \<Rightarrow> int \<Rightarrow> GroupMember list \<Rightarrow> string list" where
  "roleIDs g r ms = map gmUserID (filter (\<lambda>m. gmGroupID m = g \<and> gmRoleLevel m = r) ms)"

definition groupsOf :: "string \<Rightarrow> GroupMember list \<Rightarrow> string set" where
  "groupsOf u ms = gmGroupID ` {m \<in> set ms. gmUserID m = u}"

section \<open>What a key may hold\<close>

definition entryOK :: "('w, 't) group_tools_scheme \<Rightarrow> Group list \<times> GroupMember list \<Rightarrow> string \<Rightarrow> cached \<Rightarrow> bool" where
  "entryOK T d k c \<longleftrightarrow> (case d of (ds, ms) \<Rightarrow>
     (\<forall>g. k = GetGroupInfoKey g \<longrightarrow> c = valKey (encGroup T) (List.find (isGroup g) ds)) \<and>
     (\<forall>g u. plain g \<and> k = GetGroupMemberInfoKey g u \<longrightarrow> c = valKey (encMember T) (List.find (isMember g u) ms)) \<and>
     (\<forall>g. k = GetGroupMemberIDsKey g \<longrightarrow> c = encIDs T (memberIDs g ms)) \<and>
     (\<forall>g r. plain g \<and> k = GetGroupRoleLevelMemberIDsKey g r \<longrightarrow> c = encIDs T (roleIDs g r ms)) \<and>
     (\<forall>g. k = GetGroupMemberNumKey g \<longrightarrow> c = encInt (int (length (membersOf g ms)))) \<and>
     (\<forall>u. k = GetJoinedGroupsKey u \<longrightarrow> (\<exists>ids. c = encIDs T ids \<and> set ids \<subseteq> groupsOf u ms)))"

lemmas group_keys = GetGroupInfoKey_def GetJoinedGroupsKey_def GetGroupMembersHashKey_def GetGroupMemberIDsKey_def GetGroupMemberInfoKey_def
  GetGroupMemberNumKey_def GetGroupRoleLevelMemberIDsKey_def GetGroupMemberMaxVersionKey_def GetJoinGroupMaxVersionKey_def

lemma group_key_inject: "GetGroupInfoKey g = GetGroupInfoKey g' \<longleftrightarrow> g = g'"
  by (simp add: GetGroupInfoKey_def)

lemma plain_split: "plain g \<Longrightarrow> plain g' \<Longrightarrow> g @ CHR ''-'' # u = g' @ CHR ''-'' # u' \<longleftrightarrow> g = g' \<and> u = u'"
proof (induction g arbitrary: g')
  case Nil
  then show ?case by (cases g') (auto simp: plain_def)
next
  case (Cons c g)
  then show ?case by (cases g') (auto simp: plain_def)
qed

lemma entry_group: "entryOK T (ds, ms) (GetGroupInfoKey g) c \<longleftrightarrow> c = valKey (encGroup T) (List.find (isGroup g) ds)"
  by (simp add: entryOK_def group_keys)

lemma entry_member:
  "plain g \<Longrightarrow> entryOK T (ds, ms) (GetGroupMemberInfoKey g u) c \<longleftrightarrow> c = valKey (encMember T) (List.find (isMember g u) ms)"
  by (auto simp: entryOK_def group_keys plain_split)

lemma entry_ids: "entryOK T (ds, ms) (GetGroupMemberIDsKey g) c \<longleftrightarrow> c = encIDs T (memberIDs g ms)"
  by (simp add: entryOK_def group_keys)

lemma entry_role: "plain g \<Longrightarrow> entryOK T (ds, ms) (GetGroupRoleLevelMemberIDsKey g r) c \<longleftrightarrow> c = encIDs T (roleIDs g r ms)"
  by (auto simp: entryOK_def group_keys plain_split)

lemma entry_num: "entryOK T (ds, ms) (GetGroupMemberNumKey g) c \<longleftrightarrow> c = encInt (int (length (membersOf g ms)))"
  by (simp add: entryOK_def group_keys)

lemma entry_joined: "entryOK T (ds, ms) (GetJoinedGroupsKey u) c \<longleftrightarrow> (\<exists>ids. c = encIDs T ids \<and> set ids \<subseteq> groupsOf u ms)"
  by (simp add: entryOK_def group_keys)

lemma entry_free:
  "entryOK T d (GetGroupMembersHashKey g) c" "entryOK T d (GetGroupMemberMaxVersionKey g) c" "entryOK T d (GetJoinGroupMaxVersionKey u) c"
  by (auto simp: entryOK_def group_keys split: prod.split)

lemmas entry_simps = entry_group entry_member entry_ids entry_role entry_num entry_joined entry_free

interpretation grp: cache_inv gdata "entryOK T" "docs_typed own" for T :: "('w, 't) group_tools_scheme" and own
  by unfold_locales (simp_all add: gdata_def)

section \<open>The tools\<close>

definition group_tools_ok :: "('e group_world_scheme, 't) group_tools_scheme \<Rightarrow> bool" where
  "group_tools_ok T \<longleftrightarrow> friend_tools_ok T \<and>
     (\<forall>p w e w'. fTx T p w = (Inl e, w') \<longrightarrow> gdata w' = gdata w \<and> rocks w' = rocks (snd (p w))) \<and>
     (\<forall>ps. gIncr T ps = foldr thenM ps (ret ())) \<and>
     (\<forall>v. decGroup T (encGroup T v) = Some v \<and> encGroup T v \<noteq> CText '''') \<and>
     (\<forall>v. decMember T (encMember T v) = Some v \<and> encMember T v \<noteq> CText '''')"

abbreviation greads :: "('e group_world_scheme, 't) group_tools_scheme \<Rightarrow> Group list \<times> GroupMember list \<Rightarrow> ('a \<Rightarrow> bool) \<Rightarrow>
    ('e group_world_scheme, 'a) prog \<Rightarrow> bool" where
  "greads T \<equiv> cache_view.reads gdata (entryOK T)"

abbreviation gmoves :: "('e group_world_scheme, 't) group_tools_scheme \<Rightarrow> bool \<Rightarrow> Group list \<times> GroupMember list \<Rightarrow>
    (Group list \<times> GroupMember list \<Rightarrow> bool) \<Rightarrow> ('e group_world_scheme, 'a) prog \<Rightarrow> bool" where
  "gmoves T own \<equiv> cache_inv.moves gdata (entryOK T) (docs_typed own)"

abbreviation ginv :: "('e group_world_scheme, 't) group_tools_scheme \<Rightarrow> bool \<Rightarrow> 'e group_world_scheme \<Rightarrow> bool" where
  "ginv T own \<equiv> cache_inv.inv gdata (entryOK T) (docs_typed own)"

lemma tools_codec:
  assumes "group_tools_ok T"
  shows "decGroup T (encGroup T g) = Some g" "encGroup T g \<noteq> CText ''''" "decMember T (encMember T m) = Some m" "encMember T m \<noteq> CText ''''"
    "decIDs T (encIDs T ids) = Some ids" "encIDs T ids \<noteq> CText ''''"
  using assms by (simp_all add: group_tools_ok_def friend_tools_ok_def)

section \<open>Reading one document\<close>

lemma gdata_eq [simp]: "(ds, ms) = gdata w \<longleftrightarrow> ds = groupDocs w \<and> ms = memberDocs w" "gdata w = (ds, ms) \<longleftrightarrow> groupDocs w = ds \<and> memberDocs w = ms"
  by (auto simp: gdata_def)

lemma reads_query:
  assumes "\<And>w. gdata w = d \<Longrightarrow> (\<forall>a. fst (m w) = Inr a \<longrightarrow> Q a) \<and> snd (m w) = w"
  shows "greads T d Q (io m)"
  by (rule grp.reads_io) (use assms in \<open>auto simp: grp.reads_def grp.sees_def\<close>)

lemma reads_gets_io: "(\<And>w. gdata w = d \<Longrightarrow> Q (f w)) \<Longrightarrow> greads T d Q (io (gets f))"
  by (rule reads_query) simp

lemma reads_TakeGroup:
  assumes "group_tools_ok T"
  shows "greads T (ds, ms) (\<lambda>g. List.find (isGroup groupId) ds = Some g) (TakeGroup T groupId)"
  unfolding TakeGroup_def cache_GetGroupInfo_def group_Take_def
  by (rule grp.reads_getCache, rule reads_query)
     (auto simp: entry_group valKey_def tools_codec [OF assms] split: option.splits)

lemma reads_TakeGroupMember:
  assumes "group_tools_ok T" and "plain groupId"
  shows "greads T (ds, ms) (\<lambda>m. List.find (isMember groupId userID) ms = Some m) (TakeGroupMember T groupId userID)"
  unfolding TakeGroupMember_def cache_GetGroupMemberInfo_def member_Take_def member_findOne_def
  by (rule grp.reads_getCache, rule reads_query)
     (auto simp: entry_member assms(2) valKey_def tools_codec [OF assms(1)] split: option.splits)

lemma reads_FindGroupMemberUserID:
  assumes "group_tools_ok T"
  shows "greads T (ds, ms) (\<lambda>ids. ids = memberIDs groupId ms) (FindGroupMemberUserID T groupId)"
  unfolding FindGroupMemberUserID_def cache_GetGroupMemberIDs_def member_FindMemberUserID_def
  by (rule grp.reads_getCache, rule reads_gets_io)
     (auto simp: entry_ids memberIDs_def membersOf_def tools_codec [OF assms])

lemma reads_roleIDs:
  assumes "group_tools_ok T" and "plain groupId"
  shows "greads T (ds, ms) (\<lambda>ids. ids = roleIDs groupId r ms) (cache_GetGroupRoleLevelMemberIDs T groupId r)"
  unfolding cache_GetGroupRoleLevelMemberIDs_def member_FindRoleLevelUserIDs_def
  by (rule grp.reads_getCache, rule reads_gets_io)
     (auto simp: entry_role assms(2) roleIDs_def tools_codec [OF assms(1)])

lemma reads_GetGroupMemberNum: "greads T (ds, ms) (\<lambda>n. n = int (length (membersOf groupId ms))) (GetGroupMemberNum groupId)"
  unfolding GetGroupMemberNum_def member_TakeGroupMemberNum_def
  by (rule grp.reads_getCache, rule reads_gets_io) (auto simp: entry_num membersOf_def)

lemma find_typed: "docs_typed own (ds, ms) \<Longrightarrow> List.find (isMember g u) ms = Some m \<longleftrightarrow> m \<in> set ms \<and> gmGroupID m = g \<and> gmUserID m = u"
proof
  assume "List.find (isMember g u) ms = Some m"
  then show "m \<in> set ms \<and> gmGroupID m = g \<and> gmUserID m = u" using find_Some_props by (fastforce simp: isMember_def)
next
  assume ok: "docs_typed own (ds, ms)" and m: "m \<in> set ms \<and> gmGroupID m = g \<and> gmUserID m = u"
  then obtain n where n: "List.find (isMember g u) ms = Some n"
    by (cases "List.find (isMember g u) ms") (auto simp: find_None_iff isMember_def)
  with find_Some_props [OF n] m have "memberKey n = memberKey m" "n \<in> set ms" by (auto simp: memberKey_def isMember_def)
  moreover have "inj_on memberKey (set ms)" using ok by (simp add: docs_typed_def distinct_map)
  ultimately show "List.find (isMember g u) ms = Some m" using n m by (auto dest: inj_onD)
qed

lemma reads_GetJoinedGroupIDs:
  assumes "group_tools_ok T"
  shows "greads T (ds, ms) (\<lambda>ids. set ids \<subseteq> groupsOf userID ms) (GetJoinedGroupIDs T userID)"
proof -
  have "greads T (ds, ms) (\<lambda>ids. set ids \<subseteq> groupsOf userID ms) (findUserJoinedGroupID userID)"
    unfolding findUserJoinedGroupID_def member_FindUserJoinedGroupID_def group_FindJoinSortGroupID_def
    by (rule grp.reads_bind [where Q = "\<lambda>ids. set ids = groupsOf userID ms"], rule reads_gets_io)
       (auto simp: groupsOf_def memberSort_def sortGroup_def intro!: grp.reads_ret reads_gets_io)
  then show ?thesis
    unfolding GetJoinedGroupIDs_def
    by (rule grp.reads_getCache) (auto simp: entry_joined tools_codec [OF assms])
qed

lemma plain_groups: "docs_typed own (ds, ms) \<Longrightarrow> g \<in> groupsOf u ms \<Longrightarrow> plain g"
  by (auto simp: docs_typed_def groupsOf_def)

section \<open>Reading several documents\<close>

lemma reads_FindGroup:
  assumes "group_tools_ok T" and "docs_typed own (ds, ms)"
  shows "greads T (ds, ms) (\<lambda>gs. set gs = {g \<in> set ds. gpGroupID g \<in> set groupIDs}) (FindGroup T groupIDs)"
proof -
  have d: "distinct (map gpGroupID ds)" using assms(2) by (auto simp: docs_typed_def)
  have find: "List.find (\<lambda>v. gpGroupID v = g) (filter (\<lambda>d. gpGroupID d \<in> ids) ds) = List.find (isGroup g) ds" if "g \<in> ids" for g ids
    using that by (induction ds) (auto simp: isGroup_def)
  have "greads T (ds, ms) (\<lambda>gs. set gs = {g. \<exists>id\<in>set groupIDs. List.find (isGroup id) ds = Some g})
      (batchGetCache2 (encGroup T) (decGroup T) (\<lambda>_ g. g) '''' groupIDs GetGroupInfoKey gpGroupID group_Find)"
  proof (rule grp.reads_batchGetCache2)
    show "greads T (ds, ms) (\<lambda>vs. distinct (map gpGroupID vs) \<and> (\<forall>id\<in>set ids'. List.find (\<lambda>v. gpGroupID v = id) vs = List.find (isGroup id) ds))
        (group_Find ids')" for ids'
      unfolding group_Find_def by (rule reads_gets_io) (use find d in \<open>auto simp: distinct_map_filter\<close>)
  qed (auto simp: entry_group group_key_inject inj_on_def tools_codec [OF assms(1)])
  moreover have "{g. \<exists>id\<in>set groupIDs. List.find (isGroup id) ds = Some g} = {g \<in> set ds. gpGroupID g \<in> set groupIDs}"
  proof -
    have "List.find (isGroup id) ds = Some g \<longleftrightarrow> g \<in> set ds \<and> gpGroupID g = id" for id g
      using d by (induction ds) (auto simp: isGroup_def)
    then show ?thesis by auto
  qed
  ultimately show ?thesis by (simp add: FindGroup_def cache_GetGroupsInfo_def)
qed

lemma reads_batch_members:
  assumes "group_tools_ok T" and "docs_typed own (ds, ms)" and plain: "\<And>id. id \<in> set ids \<Longrightarrow> plain (fst (key id))"
    and inj: "inj_on key (set ids)" and ck: "\<And>id. id \<in> set ids \<Longrightarrow> ck id = GetGroupMemberInfoKey (fst (key id)) (snd (key id))"
    and fn: "\<And>ids'. set ids' \<subseteq> set ids \<Longrightarrow> greads T (ds, ms)
      (\<lambda>vs. distinct (map vId vs) \<and> (\<forall>id\<in>set ids'. List.find (\<lambda>v. vId v = id) vs = List.find (isMember (fst (key id)) (snd (key id))) ms)) (fn ids')"
  shows "greads T (ds, ms) (\<lambda>vs. set vs = {m \<in> set ms. \<exists>id\<in>set ids. memberKey m = key id})
    (batchGetCache2 (encMember T) (decMember T) (\<lambda>_ m. m) z ids ck vId fn)"
proof -
  have "greads T (ds, ms) (\<lambda>vs. set vs = {m. \<exists>id\<in>set ids. List.find (isMember (fst (key id)) (snd (key id))) ms = Some m})
      (batchGetCache2 (encMember T) (decMember T) (\<lambda>_ m. m) z ids ck vId fn)"
  proof (rule grp.reads_batchGetCache2)
    show "inj_on ck (set ids)"
    proof (rule inj_onI)
      fix i j assume ij: "i \<in> set ids" "j \<in> set ids" and eq: "ck i = ck j"
      then have "key i = key j" using ck plain plain_split [of "fst (key i)" "fst (key j)"] by (auto simp: GetGroupMemberInfoKey_def prod_eq_iff)
      with ij inj show "i = j" by (auto dest: inj_onD)
    qed
  qed (use ck plain fn in \<open>auto simp: entry_member tools_codec [OF assms(1)]\<close>)
  moreover have "{m. \<exists>id\<in>set ids. List.find (isMember (fst (key id)) (snd (key id))) ms = Some m} = {m \<in> set ms. \<exists>id\<in>set ids. memberKey m = key id}"
    by (auto simp: find_typed [OF assms(2)] memberKey_def prod_eq_iff)
  ultimately show ?thesis by simp
qed

lemma distinct_members:
  assumes "docs_typed own (ds, ms)"
  shows "distinct (map gmUserID (filter (\<lambda>m. gmGroupID m = g \<and> P m) ms))" "distinct (map gmGroupID (filter (\<lambda>m. gmUserID m = u \<and> P m) ms))"
proof -
  have "inj_on memberKey (set ms)" "distinct ms" using assms by (simp_all add: docs_typed_def distinct_map)
  then show "distinct (map gmUserID (filter (\<lambda>m. gmGroupID m = g \<and> P m) ms))" "distinct (map gmGroupID (filter (\<lambda>m. gmUserID m = u \<and> P m) ms))"
    by (auto simp: distinct_map inj_on_def memberKey_def)
qed

lemma reads_FindGroupMembers:
  assumes "group_tools_ok T" and "docs_typed own (ds, ms)" and "plain groupId"
  shows "greads T (ds, ms) (\<lambda>vs. set vs = {m \<in> set ms. gmGroupID m = groupId \<and> gmUserID m \<in> set userIDs}) (FindGroupMembers T groupId userIDs)"
proof -
  have find: "List.find (\<lambda>v. gmUserID v = u) (filter (\<lambda>m. gmGroupID m = groupId \<and> (length ids > 0 \<longrightarrow> gmUserID m \<in> set ids)) ns) =
      List.find (isMember groupId u) ns" if "u \<in> set ids" for u ids ns
    using that by (induction ns) (auto simp: isMember_def)
  have "greads T (ds, ms) (\<lambda>vs. set vs = {m \<in> set ms. \<exists>id\<in>set userIDs. memberKey m = (groupId, id)}) (FindGroupMembers T groupId userIDs)"
    unfolding FindGroupMembers_def cache_GetGroupMembersInfo_def
  proof (rule reads_batch_members [OF assms(1,2)])
    show "greads T (ds, ms) (\<lambda>vs. distinct (map gmUserID vs) \<and> (\<forall>id\<in>set ids'. List.find (\<lambda>v. gmUserID v = id) vs =
        List.find (isMember (fst (groupId, id)) (snd (groupId, id))) ms)) (member_Find groupId ids')" for ids'
      unfolding member_Find_def member_find_def
      by (rule reads_gets_io) (use distinct_members(1) [OF assms(2)] find [of _ ids'] in auto)
  qed (auto simp: assms(3) inj_on_def)
  then show ?thesis by (rule grp.reads_weaken) (auto simp: memberKey_def)
qed

lemma reads_FindGroupMemberUser:
  assumes "group_tools_ok T" and "docs_typed own (ds, ms)" and "\<And>g. g \<in> set groupIDs \<Longrightarrow> plain g"
  shows "greads T (ds, ms) (\<lambda>vs. set vs \<subseteq> {m \<in> set ms. gmUserID m = userID}) (FindGroupMemberUser T groupIDs userID)"
proof -
  have find: "List.find (\<lambda>v. gmGroupID v = g) (filter (\<lambda>m. gmUserID m = userID \<and> (length ids > 0 \<longrightarrow> gmGroupID m \<in> set ids)) ns) =
      List.find (isMember g userID) ns" if "g \<in> set ids" for g ids ns
    using that by (induction ns) (auto simp: isMember_def)
  have batch: "greads T (ds, ms) (\<lambda>vs. set vs = {m \<in> set ms. \<exists>id\<in>set ids. memberKey m = (id, userID)})
      (batchGetCache2 (encMember T) (decMember T) (\<lambda>_ m. m) '''' ids (\<lambda>groupId. GetGroupMemberInfoKey groupId userID) gmGroupID (member_FindInGroup userID))"
    if "\<forall>g\<in>set ids. plain g" for ids
  proof (rule reads_batch_members [OF assms(1,2)])
    show "greads T (ds, ms) (\<lambda>vs. distinct (map gmGroupID vs) \<and> (\<forall>id\<in>set ids'. List.find (\<lambda>v. gmGroupID v = id) vs =
        List.find (isMember (fst (id, userID)) (snd (id, userID))) ms)) (member_FindInGroup userID ids')" for ids'
      unfolding member_FindInGroup_def member_find_def
      by (rule reads_gets_io) (use distinct_members(2) [OF assms(2)] find [of _ ids'] in auto)
  qed (use that in \<open>auto simp: inj_on_def\<close>)
  show ?thesis
    unfolding FindGroupMemberUser_def cache_FindGroupMemberUser_def
  proof (rule grp.reads_bind)
    show "greads T (ds, ms) (\<lambda>ids. \<forall>g\<in>set ids. plain g) (if length groupIDs = 0 then GetJoinedGroupIDs T userID else ret groupIDs)"
      using plain_groups [OF assms(2)] assms(3)
      by (auto intro!: grp.reads_ret grp.reads_weaken [OF reads_GetJoinedGroupIDs [OF assms(1)]])
  qed (auto intro!: grp.reads_weaken [OF batch] simp: memberKey_def)
qed

end
