(* ===== verification/Group_Writes.thy ===== *)
theory Group_Writes
  imports Group_Inv Friend_Ops
begin

text \<open>
  The writes of the group database keep the invariant: a transaction changes documents and takes out of the cache at least the keys of what it changed; when it fails
  the documents are those of before.
\<close>

section \<open>Programs inside a transaction\<close>

text \<open>
  The documents change from \<open>d\<close> to data with \<open>S\<close>, while the cache still agrees with the data \<open>d0\<close> of before the transaction.
\<close>

definition alters :: "('e group_world_scheme, 't) group_tools_scheme \<Rightarrow> Group list \<times> GroupMember list \<Rightarrow> Group list \<times> GroupMember list \<Rightarrow>
    ('a \<Rightarrow> Group list \<times> GroupMember list \<Rightarrow> bool) \<Rightarrow> ('e group_world_scheme, 'a) prog \<Rightarrow> bool" where
  "alters T d0 d S m \<longleftrightarrow> (\<forall>w. gdata w = d \<and> cache_view.coh (entryOK T) d0 (rocks w) \<longrightarrow>
     cache_view.coh (entryOK T) d0 (rocks (snd (m w))) \<and> (\<forall>a. fst (m w) = Inr a \<longrightarrow> S a (gdata (snd (m w)))))"

lemma alters_bind: "alters T d0 d Q m \<Longrightarrow> (\<And>a d'. Q a d' \<Longrightarrow> alters T d0 d' R (f a)) \<Longrightarrow> alters T d0 d R (bindM m f)"
  unfolding alters_def
proof (intro allI impI, goal_cases)
  case (1 w)
  obtain r w' where m: "m w = (r, w')" by fastforce
  with 1(1,3) have c: "cache_view.coh (entryOK T) d0 (rocks w')" and Q: "\<And>a. r = Inr a \<Longrightarrow> Q a (gdata w')" by fastforce+
  show ?case
  proof (cases r)
    case (Inr a)
    from 1(2) [OF Q [OF Inr]] c have "cache_view.coh (entryOK T) d0 (rocks (snd (f a w'))) \<and> (\<forall>b. fst (f a w') = Inr b \<longrightarrow> R b (gdata (snd (f a w'))))" by blast
    with Inr m show ?thesis by (simp add: bindM_def)
  qed (use m c in \<open>simp add: bindM_def\<close>)
qed

lemma alters_ret: "S a d \<Longrightarrow> alters T d0 d S (ret a)"
  by (simp add: alters_def)

lemma alters_throw: "alters T d0 d S (throw e)"
  by (simp add: alters_def)

lemma alters_weaken: "alters T d0 d S m \<Longrightarrow> (\<And>a d'. S a d' \<Longrightarrow> R a d') \<Longrightarrow> alters T d0 d R m"
  by (auto simp: alters_def)

lemma alters_io: "alters T d0 d S m \<Longrightarrow> alters T d0 d S (io m)"
  unfolding alters_def io_def Let_def
proof (intro allI impI, goal_cases)
  case (1 w)
  from 1(2) have "gdata (w\<lparr>opno := Suc (opno w)\<rparr>) = d" "cache_view.coh (entryOK T) d0 (rocks (w\<lparr>opno := Suc (opno w)\<rparr>))" by (simp_all add: gdata_def)
  then show ?case using 1 by (auto split: fault.splits)
qed

lemma alters_still: "(\<And>w. gdata (snd (m w)) = gdata w \<and> rocks (snd (m w)) = rocks w) \<Longrightarrow> alters T d0 d (\<lambda>_ d'. d' = d) m"
  by (simp add: alters_def)

lemma alters_modify: "(\<And>w. rocks (f w) = rocks w) \<Longrightarrow> (\<And>w. gdata w = d \<Longrightarrow> S () (gdata (f w))) \<Longrightarrow> alters T d0 d S (modifyM f)"
  by (simp add: alters_def)

lemma alters_forM:
  assumes "\<And>x. x \<in> set xs \<Longrightarrow> alters T d0 d (\<lambda>_ d'. d' = d) (f x)"
  shows "alters T d0 d (\<lambda>_ d'. d' = d) (forM xs f)"
  using assms by (induction xs) (auto intro: alters_ret alters_bind)

lemma alters_foldM:
  assumes "\<And>x c d'. x \<in> set xs \<Longrightarrow> Q c d' \<Longrightarrow> alters T d0 d' Q (f x c)"
  shows "Q c d \<Longrightarrow> alters T d0 d Q (foldM f xs c)"
  using assms
proof (induction xs arbitrary: c d)
  case (Cons x xs)
  then have "alters T d0 d Q (f x c)" and "\<And>a d'. Q a d' \<Longrightarrow> alters T d0 d' Q (foldM f xs a)" by simp_all
  then show ?case by (simp add: alters_bind)
qed (simp add: alters_ret)

lemma IncrVersion_still: "gdata (snd (IncrVersion coll did ids st w)) = gdata w \<and> rocks (snd (IncrVersion coll did ids st w)) = rocks w"
proof -
  have "preserves (\<lambda>v. gdata v = gdata w \<and> rocks v = rocks w) (IncrVersion coll did ids st)"
    unfolding IncrVersion_def IncrVersionResult_def incrVersionResult_def writeLogBatch2_def initDoc_def insertVersionDoc_def appendCtx_def now_def NewObjectID_def Let_def
    by (intro preserves_rules preserves_bind preserves_if; auto simp: preserves_def setVersionDocs_def gdata_def split: option.split)
  from preservesD [OF this, of w] show ?thesis by (metis prod.collapse)
qed

lemma DeleteVersion_still: "gdata (snd (DeleteVersion coll did w)) = gdata w \<and> rocks (snd (DeleteVersion coll did w)) = rocks w"
  by (simp add: DeleteVersion_def io_def Let_def setVersionDocs_def gdata_def split: fault.split)

lemma alters_version:
  "S d \<Longrightarrow> alters T d0 d (\<lambda>_ d'. S d') (IncrVersion coll did ids st)" "S d \<Longrightarrow> alters T d0 d (\<lambda>_ d'. S d') (DeleteVersion coll did)"
  by (simp_all add: alters_def IncrVersion_still DeleteVersion_still)

text \<open>A chain of deletions.\<close>

lemma groupChainDel_ok:
  fixes w :: "'e group_world_scheme"
  assumes "friend_tools_ok T" and "groupChainDel T keys w = (r, w')"
  shows "gdata w' = gdata w \<and> rocks w' \<subseteq>\<^sub>m rocks w \<and> (\<forall>a. r = Inr a \<longrightarrow> (\<forall>k\<in>set keys. rocks w' k = None))"
proof -
  let ?P = "\<lambda>x. gdata x = gdata w \<and> rocks x \<subseteq>\<^sub>m rocks w"
  have "preserves ?P (groupChainDel T keys)"
    unfolding groupChainDel_def ChainExecDel_def by (rule preserves_execDel) (auto simp: map_le_def restrict_map_def gdata_def)
  from preservesD [OF this _ assms(2)] have "?P w'" by simp
  moreover have "rocks w' k = None" if "r = Inr a" "k \<in> set keys" for k a
  proof -
    have k: "k \<in> set (fDistinct T keys)" using that assms(1) by (simp add: friend_tools_ok_def)
    then have ne: "length (fDistinct T keys) > 0" by (cases "fDistinct T keys") simp_all
    define rest :: "('e group_world_scheme, unit) prog" where "rest = (if length (gTopics T) > 0 \<and> length (fDistinct T keys) > 0 then
        bindM (gets subscribed) (\<lambda>subscribe. publishKeys (GetPublishKeysByTopic subscribe (gTopics T) (fDistinct T keys))) else ret ())"
    have "groupChainDel T keys w = thenM (ProcessKeysBySlot defaultBatchSize (fDistinct T keys) (\<lambda>slot ks. tagAsDeletedBatch2 ks)) rest w"
      using ne by (simp only: groupChainDel_def ChainExecDel_def execDel_def if_True rest_def)
    then have "thenM (ProcessKeysBySlot defaultBatchSize (fDistinct T keys) (\<lambda>slot ks. tagAsDeletedBatch2 ks)) rest w = (Inr (), w')"
      using assms(2) that(1) by simp
    then obtain a s1 where p: "ProcessKeysBySlot defaultBatchSize (fDistinct T keys) (\<lambda>slot ks. tagAsDeletedBatch2 ks) w = (Inr a, s1)"
      and r: "rest s1 = (Inr (), w')"
      unfolding bindM_eq_Inr by blast
    have gone: "rocks s1 k = None" using tagged_gone [OF p _ k] by (simp add: defaultBatchSize_def)
    have "preserves (\<lambda>x. rocks x k = None) rest"
      unfolding rest_def by (intro preserves_if preserves_bind preserves_gets preserves_ret preserves_publishKeys) simp_all
    from preservesD [OF this gone r] show ?thesis .
  qed
  ultimately show ?thesis by simp
qed

lemma reads_groupChainDel:
  assumes "group_tools_ok T"
  shows "greads T d (\<lambda>_. True) (groupChainDel T keys)"
  unfolding grp.reads_def
proof (intro allI impI conjI TrueI, goal_cases)
  case (1 w)
  obtain r w' where del: "groupChainDel T keys w = (r, w')" by fastforce
  have "friend_tools_ok T" using assms by (simp add: group_tools_ok_def)
  note ok = groupChainDel_ok [OF this del]
  from 1 have w: "gdata w = d" "cache_view.coh (entryOK T) d (rocks w)" by (simp_all add: grp.sees_def)
  have "cache_view.coh (entryOK T) d (rocks w')" using grp.coh_le [OF w(2)] ok by blast
  with ok w del show ?case by (simp add: grp.sees_def)
qed

text \<open>The keys cover the change from \<open>d\<close> to \<open>d'\<close>.\<close>

definition covers :: "('w, 't) group_tools_scheme \<Rightarrow> Group list \<times> GroupMember list \<Rightarrow> string list \<Rightarrow> Group list \<times> GroupMember list \<Rightarrow> bool" where
  "covers T d keys d' \<longleftrightarrow> (\<forall>k c. entryOK T d k c \<longrightarrow> k \<notin> set keys \<longrightarrow> entryOK T d' k c)"

lemma covers_refl: "covers T d keys d"
  by (simp add: covers_def)

lemma covers_trans: "covers T d1 K d2 \<Longrightarrow> covers T d2 K' d3 \<Longrightarrow> set K \<union> set K' \<subseteq> set K'' \<Longrightarrow> covers T d1 K'' d3"
  unfolding covers_def by blast

lemma moves_tx:
  assumes T: "group_tools_ok T" and d: "docs_typed own d" "R d" and W: "alters T d d S W"
    and S: "\<And>a d'. S a d' \<Longrightarrow> docs_typed own d' \<and> R d' \<and> covers T d (f a) d'"
  shows "gmoves T own d R (fTx T (bindM W (\<lambda>a. groupChainDel T (f a))))"
  unfolding grp.moves_def
proof (intro allI impI)
  fix w :: "'a group_world_scheme"
  assume "cache_view.sees gdata (entryOK T) d w"
  then have w: "gdata w = d" "cache_view.coh (entryOK T) d (rocks w)" by (simp_all add: grp.sees_def)
  let ?p = "bindM W (\<lambda>a. groupChainDel T (f a))"
  have F: "friend_tools_ok T" using T by (simp add: group_tools_ok_def)
  obtain r1 w1 where W1: "W w = (r1, w1)" by fastforce
  have c1: "cache_view.coh (entryOK T) d (rocks w1)" and S1: "\<And>a. r1 = Inr a \<Longrightarrow> S a (gdata w1)"
    using W w W1 by (auto simp: alters_def dest!: spec [of _ w])
  have c2: "cache_view.coh (entryOK T) d (rocks (snd (?p w)))"
  proof (cases r1)
    case (Inr a)
    obtain r2 w2 where "groupChainDel T (f a) w1 = (r2, w2)" by fastforce
    with Inr W1 groupChainDel_ok [OF F this] grp.coh_le [OF c1] show ?thesis by (simp add: bindM_def)
  qed (use W1 c1 in \<open>simp add: bindM_def\<close>)
  obtain r' w' where tx: "fTx T ?p w = (r', w')" by fastforce
  show "ginv T own (snd (fTx T ?p w)) \<and> R (gdata (snd (fTx T ?p w)))"
  proof (cases r')
    case (Inl e)
    then have "gdata w' = gdata w \<and> rocks w' = rocks (snd (?p w))" using T tx by (auto simp: group_tools_ok_def)
    then show ?thesis using tx w d c2 by (simp add: grp.inv_def)
  next
    case (Inr u)
    then have "?p w = (Inr (), w')" using F tx by (auto simp: friend_tools_ok_def)
    then obtain a where a: "r1 = Inr a" "groupChainDel T (f a) w1 = (Inr (), w')" using W1 by (auto simp: bindM_eq_Inr)
    note S' = S [OF S1 [OF a(1)]]
    note del = groupChainDel_ok [OF F a(2)]
    have "entryOK T (gdata w1) k c" if "rocks w' k = Some c" for k c
    proof -
      have "k \<notin> set (f a)" using del that by auto
      moreover have "rocks w1 k = Some c" using del that unfolding map_le_def by (metis domI)
      ultimately show ?thesis using c1 S' by (auto simp: grp.coh_def covers_def)
    qed
    then show ?thesis using tx S' del by (simp add: grp.inv_def grp.coh_def)
  qed
qed

lemma ends_tx:
  assumes T: "group_tools_ok T" and W: "alters T d d S W" and S: "\<And>a d'. S a d' \<Longrightarrow> R d'"
  shows "cache_inv.ends gdata (entryOK T) d R (fTx T (bindM W (\<lambda>a. groupChainDel T (f a))))"
  unfolding grp.ends_def
proof (intro allI impI)
  fix w :: "'a group_world_scheme" and u
  let ?p = "bindM W (\<lambda>a. groupChainDel T (f a))"
  assume w: "cache_view.sees gdata (entryOK T) d w" and u: "fst (fTx T ?p w) = Inr u"
  have F: "friend_tools_ok T" using T by (simp add: group_tools_ok_def)
  obtain w' where tx: "fTx T ?p w = (Inr (), w')" using u by (cases "fTx T ?p w") simp
  then have "?p w = (Inr (), w')" using F by (auto simp: friend_tools_ok_def)
  then obtain a w1 where a: "W w = (Inr a, w1)" "groupChainDel T (f a) w1 = (Inr (), w')" by (auto simp: bindM_eq_Inr)
  have "S a (gdata w1)" using W w a(1) by (auto simp: alters_def grp.sees_def dest!: spec [of _ w])
  with S groupChainDel_ok [OF F a(2)] tx show "R (gdata (snd (fTx T ?p w)))" by simp
qed

lemma reads_tx:
  assumes T: "group_tools_ok T" and p: "greads T d Q p"
  shows "greads T d (\<lambda>_. True) (fTx T p)"
  unfolding grp.reads_def
proof (intro allI impI conjI TrueI)
  fix w :: "'a group_world_scheme"
  assume w: "cache_view.sees gdata (entryOK T) d w"
  then have s: "cache_view.sees gdata (entryOK T) d (snd (p w))" using p by (auto simp: grp.reads_def)
  obtain r' w' where tx: "fTx T p w = (r', w')" by fastforce
  show "cache_view.sees gdata (entryOK T) d (snd (fTx T p w))"
  proof (cases r')
    case (Inl e)
    then have "gdata w' = gdata w \<and> rocks w' = rocks (snd (p w))" using T tx by (auto simp: group_tools_ok_def)
    then show ?thesis using tx w s by (simp add: grp.sees_def)
  next
    case (Inr u)
    then have "p w = (Inr (), w')" using T tx by (auto simp: group_tools_ok_def friend_tools_ok_def)
    then show ?thesis using s tx by simp
  qed
qed

section \<open>Changing documents\<close>

text \<open>What the entries of a group depend on: the role and the id of each member, in the order of the collection.\<close>

definition rolesOf :: "string \<Rightarrow> GroupMember list \<Rightarrow> (int \<times> string) list" where
  "rolesOf g ms = map (\<lambda>m. (gmRoleLevel m, gmUserID m)) (membersOf g ms)"

lemma map_sort_key: "map f (sort_key (\<lambda>x. k (f x)) xs) = sort_key k (map f xs)"
proof -
  have "map f (insort_key (\<lambda>x. k (f x)) x xs) = insort_key k (f x) (map f xs)" for x xs by (induction xs) auto
  then show ?thesis by (induction xs) (simp_all add: sort_key_def)
qed

lemma entries_rolesOf:
  "memberIDs g ms = map snd (sort_key (\<lambda>p. - fst p) (rolesOf g ms))" "roleIDs g r ms = map snd (filter (\<lambda>p. fst p = r) (rolesOf g ms))"
  "length (membersOf g ms) = length (rolesOf g ms)"
proof -
  have "sort_key (\<lambda>p. - fst p) (rolesOf g ms) = map (\<lambda>m. (gmRoleLevel m, gmUserID m)) (memberSort (membersOf g ms))"
    unfolding rolesOf_def memberSort_def by (subst map_sort_key [symmetric]) simp
  then show "memberIDs g ms = map snd (sort_key (\<lambda>p. - fst p) (rolesOf g ms))" by (simp add: memberIDs_def comp_def)
  show "roleIDs g r ms = map snd (filter (\<lambda>p. fst p = r) (rolesOf g ms))"
    by (simp add: roleIDs_def rolesOf_def membersOf_def filter_map comp_def)
qed (simp add: rolesOf_def)

lemma roleIDs_typed: "docs_typed own (ds, ms) \<Longrightarrow> \<not> isRole r \<Longrightarrow> roleIDs g r ms = []"
  by (auto simp: docs_typed_def roleIDs_def filter_empty_conv)

lemma coversI:
  assumes "docs_typed own (ds, ms)" and "docs_typed own (ds', ms')"
    and "\<And>g. GetGroupInfoKey g \<notin> set keys \<Longrightarrow> List.find (isGroup g) ds' = List.find (isGroup g) ds"
    and "\<And>g u. GetGroupMemberInfoKey g u \<notin> set keys \<Longrightarrow> List.find (isMember g u) ms' = List.find (isMember g u) ms"
    and "\<And>g. GetGroupMemberIDsKey g \<notin> set keys \<Longrightarrow> rolesOf g ms' = rolesOf g ms"
    and "\<And>g r. isRole r \<Longrightarrow> GetGroupRoleLevelMemberIDsKey g r \<notin> set keys \<Longrightarrow> roleIDs g r ms' = roleIDs g r ms"
    and "\<And>g. GetGroupMemberNumKey g \<notin> set keys \<Longrightarrow> length (membersOf g ms') = length (membersOf g ms)"
    and "\<And>u. GetJoinedGroupsKey u \<notin> set keys \<Longrightarrow> groupsOf u ms \<subseteq> groupsOf u ms'"
  shows "covers T (ds, ms) keys (ds', ms')"
proof -
  have role: "roleIDs g r ms' = roleIDs g r ms" if "GetGroupRoleLevelMemberIDsKey g r \<notin> set keys" for g r
    using assms(6) [OF _ that] roleIDs_typed [OF assms(1)] roleIDs_typed [OF assms(2)] by (cases "isRole r") auto
  have ids: "memberIDs g ms' = memberIDs g ms" if "GetGroupMemberIDsKey g \<notin> set keys" for g
    using assms(5) [OF that] by (simp add: entries_rolesOf(1))
  show ?thesis
    unfolding covers_def
  proof (intro allI impI)
    fix k c
    assume e: "entryOK T (ds, ms) k c" and k: "k \<notin> set keys"
    note e' = e [unfolded entryOK_def prod.case]
    show "entryOK T (ds', ms') k c"
      unfolding entryOK_def prod.case
    proof (intro conjI allI impI, goal_cases)
      case (1 g)
      with e' k assms(3) [of g] show ?case by simp
    next
      case (2 g u)
      with e' k assms(4) [of g u] show ?case by simp
    next
      case (3 g)
      with e' k ids [of g] show ?case by simp
    next
      case (4 g r)
      with e' k role [of g r] show ?case by simp
    next
      case (5 g)
      with e' k assms(7) [of g] show ?case by simp
    next
      case (6 u)
      with e' k assms(8) [of u] show ?case by blast
    qed
  qed
qed

text \<open>A change of one member.\<close>

lemma updFirst_member:
  assumes "distinct (map memberKey ms)"
  shows "updFirst (isMember g u) f ms = map (\<lambda>m. if memberKey m = (g, u) then f m else m) ms"
  using assms
proof (induction ms)
  case (Cons m ms)
  show ?case
  proof (cases "memberKey m = (g, u)")
    case True
    with Cons.prems have "\<forall>n\<in>set ms. memberKey n \<noteq> (g, u)" by (auto simp: image_iff)
    then have "map (\<lambda>m. if memberKey m = (g, u) then f m else m) ms = ms" by (induction ms) auto
    with True show ?thesis by (simp add: isMember_def memberKey_def)
  qed (use Cons in \<open>auto simp: isMember_def memberKey_def\<close>)
qed simp

lemma setMemberFields_key [simp]: "memberKey (setMemberFields data m) = memberKey m"
proof -
  have "memberKey (setMemberField a m) = memberKey m" for a m by (cases a) (simp_all add: memberKey_def)
  then show ?thesis unfolding setMemberFields_def by (induction data arbitrary: m) simp_all
qed

lemma setMemberFields_ids [simp]: "gmGroupID (setMemberFields data m) = gmGroupID m" "gmUserID (setMemberFields data m) = gmUserID m"
  using setMemberFields_key [of data m] by (simp_all add: memberKey_def)

lemma setMemberFields_role:
  "gmRoleLevel (setMemberFields data m) = gmRoleLevel m \<or> SetRoleLevel (gmRoleLevel (setMemberFields data m)) \<in> set data"
  "\<not> IsUpdateRoleLevel data \<Longrightarrow> gmRoleLevel (setMemberFields data m) = gmRoleLevel m"
proof -
  show role: "gmRoleLevel (setMemberFields data m) = gmRoleLevel m \<or> SetRoleLevel (gmRoleLevel (setMemberFields data m)) \<in> set data"
    unfolding setMemberFields_def
  proof (induction data rule: rev_induct)
    case (snoc a data)
    then show ?case by (cases a) auto
  qed simp
  show "\<not> IsUpdateRoleLevel data \<Longrightarrow> gmRoleLevel (setMemberFields data m) = gmRoleLevel m"
    using role by (fastforce simp: IsUpdateRoleLevel_def list_ex_iff split: member_field.splits)
qed

definition setOne :: "string \<Rightarrow> string \<Rightarrow> (GroupMember \<Rightarrow> GroupMember) \<Rightarrow> GroupMember list \<Rightarrow> GroupMember list" where
  "setOne g u f ms = map (\<lambda>m. if memberKey m = (g, u) then f m else m) ms"

lemma setOne_keys: "(\<And>m. memberKey (f m) = memberKey m) \<Longrightarrow> map memberKey (setOne g u f ms) = map memberKey ms"
  by (simp add: setOne_def)

lemma groupsOf_keys: "groupsOf u ms = fst ` {p \<in> set (map memberKey ms). snd p = u}"
  by (force simp: groupsOf_def memberKey_def)

lemma groupsOf_cong: "map memberKey ms' = map memberKey ms \<Longrightarrow> groupsOf u ms' = groupsOf u ms"
  by (simp only: groupsOf_keys)

lemma membersOf_map: "(\<And>m. gmGroupID (h m) = gmGroupID m) \<Longrightarrow> membersOf g (map h ms) = map h (membersOf g ms)"
  by (simp add: membersOf_def filter_map comp_def)

lemma find_member_map:
  "(\<And>m. memberKey (h m) = memberKey m) \<Longrightarrow> List.find (isMember g u) (map h ms) = map_option h (List.find (isMember g u) ms)"
  by (induction ms) (auto simp: isMember_def memberKey_def)

lemma roles_distinct: "GroupOwner \<noteq> GroupAdmin" "GroupOwner \<noteq> GroupOrdinaryUsers"
  by (simp_all add: GroupOwner_def GroupAdmin_def GroupOrdinaryUsers_def)

lemma typed_setOne:
  assumes d: "docs_typed own (ds, ms)" and f: "\<And>m. memberKey (f m) = memberKey m"
    and r: "\<And>m. m \<in> set ms \<Longrightarrow> gmRoleLevel (f m) = gmRoleLevel m \<or> gmRoleLevel (f m) = GroupAdmin \<or> gmRoleLevel (f m) = GroupOrdinaryUsers"
  shows "docs_typed own (ds, setOne g u f ms)"
proof -
  have ms: "distinct (map memberKey ms)" "\<And>m. m \<in> set ms \<Longrightarrow> isRole (gmRoleLevel m) \<and> gmGroupID m \<in> gpGroupID ` set ds" "own \<Longrightarrow> one_owner ms"
    using d by (simp_all add: docs_typed_def)
  let ?h = "\<lambda>m. if memberKey m = (g, u) then f m else m"
  have h: "memberKey (?h m) = memberKey m" for m using f by simp
  then have hg: "gmGroupID (?h m) = gmGroupID m" for m by (metis memberKey_def prod.inject)
  have hr: "gmRoleLevel (?h m) = gmRoleLevel m \<or> gmRoleLevel (?h m) = GroupAdmin \<or> gmRoleLevel (?h m) = GroupOrdinaryUsers" if "m \<in> set ms" for m
    using r [OF that] by simp
  have "one_owner (map ?h ms)" if own
    unfolding one_owner_def
  proof (intro ballI impI, elim conjE)
    fix x y assume "x \<in> set (map ?h ms)" "y \<in> set (map ?h ms)" and xy: "gmRoleLevel x = GroupOwner" "gmRoleLevel y = GroupOwner" "gmGroupID x = gmGroupID y"
    then obtain m n where mn: "m \<in> set ms" "n \<in> set ms" "x = ?h m" "y = ?h n" unfolding set_map by blast
    have "gmRoleLevel m = GroupOwner" "gmRoleLevel n = GroupOwner"
      using hr [OF mn(1), folded mn(3)] hr [OF mn(2), folded mn(4)] xy(1,2) roles_distinct by simp_all
    moreover have "gmGroupID m = gmGroupID n" using xy(3) unfolding mn(3,4) hg .
    ultimately have "m = n" using ms(3) [OF that, unfolded one_owner_def] mn(1,2) by blast
    with mn show "x = y" by simp
  qed
  then have A: "own \<longrightarrow> one_owner (setOne g u f ms)" unfolding setOne_def by blast
  have "isRole (gmRoleLevel (?h m)) \<and> gmGroupID (?h m) \<in> gpGroupID ` set ds" if "m \<in> set ms" for m
    using ms(2) [OF that] hr [OF that] hg [of m] unfolding isRole_def by metis
  then have B: "\<forall>m\<in>set (setOne g u f ms). isRole (gmRoleLevel m) \<and> gmGroupID m \<in> gpGroupID ` set ds"
    unfolding setOne_def set_map by blast
  have C: "distinct (map memberKey (setOne g u f ms))" using ms(1) by (simp only: setOne_keys [OF f])
  show ?thesis using d A B C unfolding docs_typed_def prod.case by blast
qed

lemma covers_setOne:
  assumes d: "docs_typed own (ds, ms)" and d': "docs_typed own' (ds, setOne g u f ms)" and f: "\<And>m. memberKey (f m) = memberKey m"
    and k: "GetGroupMemberInfoKey g u \<in> set keys"
    and r: "(\<forall>m. gmRoleLevel (f m) = gmRoleLevel m) \<or>
      GetGroupMemberIDsKey g \<in> set keys \<and> (\<forall>r. isRole r \<longrightarrow> GetGroupRoleLevelMemberIDsKey g r \<in> set keys)"
  shows "covers T (ds, ms) keys (ds, setOne g u f ms)"
proof -
  let ?h = "\<lambda>m. if memberKey m = (g, u) then f m else m"
  have h: "memberKey (?h m) = memberKey m" for m using f by simp
  then have hg: "gmGroupID (?h m) = gmGroupID m" "gmUserID (?h m) = gmUserID m" for m by (metis memberKey_def prod.inject)+
  have roles: "rolesOf g' (setOne g u f ms) = rolesOf g' ms" if or: "(\<forall>m. gmRoleLevel (f m) = gmRoleLevel m) \<or> g' \<noteq> g" for g'
  proof -
    have "(gmRoleLevel (?h m), gmUserID (?h m)) = (gmRoleLevel m, gmUserID m)" if "m \<in> set (membersOf g' ms)" for m
      using that or hg(2) [of m] by (cases "memberKey m = (g, u)") (auto simp: membersOf_def memberKey_def)
    then show ?thesis unfolding rolesOf_def setOne_def membersOf_map [of ?h, OF hg(1)] map_map comp_def by (rule map_cong [OF refl])
  qed
  have d0: "docs_typed False (ds, ms)" "docs_typed False (ds, setOne g u f ms)" using d d' by (simp_all add: docs_typed_def)
  show ?thesis
  proof (rule coversI [OF d0])
    show "List.find (isMember g' u') (setOne g u f ms) = List.find (isMember g' u') ms" if "GetGroupMemberInfoKey g' u' \<notin> set keys" for g' u'
    proof -
      have "(g', u') \<noteq> (g, u)" using that k by auto
      then have "memberKey m \<noteq> (g, u)" if "List.find (isMember g' u') ms = Some m" for m
        using find_Some_props [OF that] by (simp add: isMember_def memberKey_def)
      then have "map_option ?h (List.find (isMember g' u') ms) = List.find (isMember g' u') ms"
        by (cases "List.find (isMember g' u') ms") simp_all
      then show ?thesis using find_member_map [of ?h, OF h] by (simp only: setOne_def)
    qed
    show "rolesOf g' (setOne g u f ms) = rolesOf g' ms" if "GetGroupMemberIDsKey g' \<notin> set keys" for g'
      using that r roles by metis
    show "roleIDs g' r' (setOne g u f ms) = roleIDs g' r' ms" if "isRole r'" "GetGroupRoleLevelMemberIDsKey g' r' \<notin> set keys" for g' r'
      using that r roles [of g'] unfolding entries_rolesOf(2) by metis
    show "length (membersOf g' (setOne g u f ms)) = length (membersOf g' ms)" for g'
      unfolding setOne_def membersOf_map [of ?h, OF hg(1)] by simp
  qed (simp_all add: groupsOf_cong [OF setOne_keys, OF f])
qed

section \<open>The operations of the database\<close>

lemma gIncr_simps:
  assumes "group_tools_ok T"
  shows "gIncr T [p, q] = thenM p q" "gIncr T [p, q, r] = thenM p (thenM q r)"
proof -
  have u: "(\<lambda>_. ret ()) = ret" by (auto simp: fun_eq_iff)
  show "gIncr T [p, q] = thenM p q" "gIncr T [p, q, r] = thenM p (thenM q r)"
    using assms by (simp_all add: group_tools_ok_def u)
qed

subsection \<open>Members\<close>

lemma alters_member_set:
  "alters T d0 (ds, ms) (\<lambda>_ d'. d' = (ds, updFirst (isMember g u) (setMemberFields data) ms)) (member_set g u data)"
  unfolding member_set_def by (rule alters_io) (auto simp: alters_def gdata_def)

lemma setOne_nothing [simp]: "setOne g u (setMemberFields []) ms = ms"
  by (simp add: setOne_def setMemberFields_def cong: if_cong)

lemma alters_member_Update:
  assumes "group_tools_ok T" and "docs_typed own (ds, ms)"
  shows "alters T d0 (ds, ms) (\<lambda>_ d'. d' = (ds, setOne g u (setMemberFields data) ms)) (member_Update T g u data)"
proof (cases "data = []")
  case False
  have "distinct (map memberKey ms)" using assms(2) by (simp add: docs_typed_def)
  with False show ?thesis
    unfolding member_Update_def gIncr_simps [OF assms(1)] setOne_def
    by (auto simp: updFirst_member [symmetric] intro!: alters_bind [OF alters_member_set] alters_version)
qed (simp add: member_Update_def alters_ret)

definition safe_fields :: "member_field list \<Rightarrow> bool" where
  "safe_fields data \<longleftrightarrow> (\<forall>n. SetRoleLevel n \<in> set data \<longrightarrow> n = GroupAdmin \<or> n = GroupOrdinaryUsers)"

lemma typed_member_Update: "docs_typed own (ds, ms) \<Longrightarrow> safe_fields data \<Longrightarrow> docs_typed own (ds, setOne g u (setMemberFields data) ms)"
  by (rule typed_setOne) (use setMemberFields_role(1) in \<open>auto simp: safe_fields_def\<close>)

definition member_keys :: "string \<Rightarrow> string list" where
  "member_keys g = [GetGroupMemberIDsKey g, GetGroupRoleLevelMemberIDsKey g GroupOwner, GetGroupRoleLevelMemberIDsKey g GroupAdmin,
     GetGroupRoleLevelMemberIDsKey g GroupOrdinaryUsers]"

lemma member_keys_roles: "set (member_keys g) \<subseteq> K \<Longrightarrow> GetGroupMemberIDsKey g \<in> K \<and> (\<forall>r. isRole r \<longrightarrow> GetGroupRoleLevelMemberIDsKey g r \<in> K)"
  by (auto simp: member_keys_def isRole_def)

lemma covers_member_Update:
  assumes "docs_typed own (ds, ms)" and "safe_fields data" and "GetGroupMemberInfoKey g u \<in> set keys"
    and "IsUpdateRoleLevel data \<Longrightarrow> set (member_keys g) \<subseteq> set keys"
  shows "covers T (ds, ms) keys (ds, setOne g u (setMemberFields data) ms)"
  using assms(1) typed_member_Update [OF assms(1,2)]
  by (rule covers_setOne) (use assms(3) member_keys_roles [OF assms(4)] setMemberFields_role(2) in \<open>auto\<close>)

text \<open>What a change of a member leaves: with the mute time only, every role.\<close>

definition rolls :: "GroupMember list \<Rightarrow> ((string \<times> string) \<times> int) list" where
  "rolls ms = map (\<lambda>m. (memberKey m, gmRoleLevel m)) ms"

lemma rolls_member_Update: "\<not> IsUpdateRoleLevel data \<Longrightarrow> rolls (setOne g u (setMemberFields data) ms) = rolls ms"
  by (simp add: rolls_def setOne_def setMemberFields_role(2))

lemma moves_UpdateGroupMember:
  assumes T: "group_tools_ok T" and d: "docs_typed own (ds, ms)" and R: "R (ds, ms)" "R (ds, setOne g u (setMemberFields data) ms)" and data: "safe_fields data"
  shows "gmoves T own (ds, ms) R (UpdateGroupMember T g u data)"
proof (cases "data = []")
  case True
  then show ?thesis using d R by (simp add: UpdateGroupMember_def grp.moves_ret)
next
  case False
  then show ?thesis
    unfolding UpdateGroupMember_def
    by (auto intro!: moves_tx [OF T d, where S = "\<lambda>_ d'. d' = (ds, setOne g u (setMemberFields data) ms)"] alters_member_Update [OF T d] R
        typed_member_Update [OF d data] covers_member_Update [OF d data]
        simp: Let_def DelMaxGroupMemberVersion_def DelGroupMembersInfo_def DelGroupMemberIDs_def DelGroupAllRoleLevel_def DelGroupRoleLevel_def member_keys_def)
qed

lemma updateMemberKeys_set: "set c \<union> {GetGroupMemberInfoKey (buGroupID item) (buUserID item)} \<subseteq> set (updateMemberKeys item c)"
  "IsUpdateRoleLevel (buMap item) \<Longrightarrow> set (member_keys (buGroupID item)) \<subseteq> set (updateMemberKeys item c)"
  by (auto simp: updateMemberKeys_def Let_def DelMaxGroupMemberVersion_def DelGroupMembersInfo_def DelGroupMemberIDs_def DelGroupMembersHash_def
      DelGroupAllRoleLevel_def DelGroupRoleLevel_def member_keys_def)

lemma moves_UpdateGroupMembers:
  assumes T: "group_tools_ok T" and d: "docs_typed own d" and data: "\<And>item. item \<in> set items \<Longrightarrow> safe_fields (buMap item)"
  shows "gmoves T own d (\<lambda>_. True) (UpdateGroupMembers T items)"
  unfolding UpdateGroupMembers_def
proof (rule moves_tx [OF T d TrueI, where S = "\<lambda>c d'. docs_typed own d' \<and> covers T d c d'"])
  show "alters T d d (\<lambda>c d'. docs_typed own d' \<and> covers T d c d')
      (foldM (\<lambda>item c. thenM (member_Update T (buGroupID item) (buUserID item) (buMap item)) (ret (updateMemberKeys item c))) items [])"
  proof (rule alters_foldM)
    fix item c d'
    assume item: "item \<in> set items" and d': "docs_typed own d' \<and> covers T d c d'"
    obtain ds ms where dm: "d' = (ds, ms)" by fastforce
    let ?ms = "setOne (buGroupID item) (buUserID item) (setMemberFields (buMap item)) ms"
    have c: "covers T (ds, ms) (updateMemberKeys item c) (ds, ?ms)"
      by (rule covers_member_Update) (use d' dm data [OF item] updateMemberKeys_set in auto)
    have "covers T d (updateMemberKeys item c) (ds, ?ms)"
      using covers_trans [OF _ c] d' dm updateMemberKeys_set(1) by blast
    moreover have "docs_typed own (ds, ?ms)" using typed_member_Update data [OF item] d' dm by blast
    ultimately show "alters T d d' (\<lambda>c d'. docs_typed own d' \<and> covers T d c d')
        (thenM (member_Update T (buGroupID item) (buUserID item) (buMap item)) (ret (updateMemberKeys item c)))"
      unfolding dm by (intro alters_bind [OF alters_member_Update [OF T]] alters_ret) (use d' dm in auto)
  qed (use d in \<open>simp add: covers_refl\<close>)
qed simp

subsection \<open>A new owner\<close>

lemma typed_transfer:
  assumes d: "docs_typed own (ds, ms)" and r: "isRole r" and ne: "old \<noteq> new"
    and own: "own \<Longrightarrow> r \<noteq> GroupOwner \<and> (\<exists>m\<in>set ms. memberKey m = (g, old) \<and> gmRoleLevel m = GroupOwner)"
  shows "docs_typed own (ds, setOne g new (setMemberFields [SetRoleLevel GroupOwner]) (setOne g old (setMemberFields [SetRoleLevel r]) ms))"
proof -
  define h where "h m = (if memberKey m = (g, new) then m\<lparr>gmRoleLevel := GroupOwner\<rparr> else if memberKey m = (g, old) then m\<lparr>gmRoleLevel := r\<rparr> else m)" for m
  have ms: "distinct (map memberKey ms)" "\<And>m. m \<in> set ms \<Longrightarrow> isRole (gmRoleLevel m) \<and> gmGroupID m \<in> gpGroupID ` set ds" "own \<Longrightarrow> one_owner ms"
    using d by (simp_all add: docs_typed_def)
  have inj: "m = n" if "m \<in> set ms" "n \<in> set ms" "memberKey m = memberKey n" for m n
    using ms(1) that by (auto simp: distinct_map dest: inj_onD)
  have key: "memberKey (h m) = memberKey m" for m by (simp add: h_def memberKey_def)
  have eq: "setOne g new (setMemberFields [SetRoleLevel GroupOwner]) (setOne g old (setMemberFields [SetRoleLevel r]) ms) = map h ms"
    using ne by (auto simp: setOne_def h_def setMemberFields_def memberKey_def)
  have grp: "gmGroupID (h m) = gmGroupID m" for m using key [of m] by (simp add: memberKey_def)
  have A: "one_owner (map h ms)" if own: own
  proof -
    from assms(4) [OF own] obtain m0 where m0: "m0 \<in> set ms" "memberKey m0 = (g, old)" "gmRoleLevel m0 = GroupOwner" and r: "r \<noteq> GroupOwner" by blast
    have new: "memberKey m = (g, new)" if m: "m \<in> set ms" "gmRoleLevel (h m) = GroupOwner" "gmGroupID m = g" for m
    proof (rule ccontr)
      assume n: "memberKey m \<noteq> (g, new)"
      then have "memberKey m \<noteq> (g, old)" using m(2) r by (auto simp: h_def)
      moreover from n this have "gmRoleLevel m = GroupOwner" using m(2) by (simp add: h_def)
      ultimately show False using ms(3) [OF own] m(1,3) m0 unfolding one_owner_def by (metis memberKey_def prod.inject)
    qed
    have other: "h m = m" if "gmGroupID m \<noteq> g" for m using that by (simp add: h_def memberKey_def)
    show ?thesis unfolding one_owner_def
    proof (intro ballI impI, elim conjE)
      fix x y assume "x \<in> set (map h ms)" "y \<in> set (map h ms)" and xy: "gmRoleLevel x = GroupOwner" "gmRoleLevel y = GroupOwner" "gmGroupID x = gmGroupID y"
      then obtain m n where mn: "m \<in> set ms" "n \<in> set ms" "x = h m" "y = h n" by auto
      with xy(3) have g: "gmGroupID m = gmGroupID n" by (simp add: grp)
      show "x = y"
      proof (cases "gmGroupID m = g")
        case True
        with g mn xy new [of m] new [of n] have "memberKey m = memberKey n" by simp
        with mn inj show ?thesis by metis
      next
        case False
        with g mn xy other ms(3) [OF own] show ?thesis unfolding one_owner_def by metis
      qed
    qed
  qed
  have B: "isRole (gmRoleLevel (h m)) \<and> gmGroupID (h m) \<in> gpGroupID ` set ds" if "m \<in> set ms" for m
    using ms(2) [OF that] grp [of m] r by (auto simp: h_def isRole_def)
  show ?thesis
    unfolding eq using d A B by (simp add: docs_typed_def comp_def key)
qed

text \<open>The members after a change of the roles of two of them.\<close>

definition swapRoles :: "string \<Rightarrow> string \<Rightarrow> string \<Rightarrow> int \<Rightarrow> GroupMember list \<Rightarrow> GroupMember list" where
  "swapRoles g old new r ms = setOne g new (setMemberFields [SetRoleLevel GroupOwner]) (setOne g old (setMemberFields [SetRoleLevel r]) ms)"

lemma alters_transfer:
  assumes T: "group_tools_ok T" and dist: "distinct (map memberKey ms)"
  shows "alters T d0 (ds, ms) (\<lambda>_ d'. d' = (ds, swapRoles g old new r ms)) (member_UpdateUserRoleLevels T g old r new GroupOwner)"
  unfolding member_UpdateUserRoleLevels_def gIncr_simps [OF T]
proof (rule alters_bind [OF alters_bind [OF alters_member_set]])
  let ?ms1 = "setOne g old (setMemberFields [SetRoleLevel r]) ms"
  have dist1: "distinct (map memberKey ?ms1)" using dist by (simp add: setOne_keys)
  fix a d' assume "d' = (ds, updFirst (isMember g old) (setMemberFields [SetRoleLevel r]) ms)"
  then have "d' = (ds, ?ms1)" by (simp add: setOne_def updFirst_member [OF dist])
  then show "alters T d0 d' (\<lambda>_ d'. d' = (ds, swapRoles g old new r ms)) (member_set g new [SetRoleLevel GroupOwner])"
    using alters_member_set [of T d0 ds ?ms1 g new "[SetRoleLevel GroupOwner]"] updFirst_member [OF dist1] by (simp add: setOne_def swapRoles_def)
qed (simp add: alters_version)

lemma ends_transfer:
  assumes "group_tools_ok T" and "distinct (map memberKey ms)"
  shows "cache_inv.ends gdata (entryOK T) (ds, ms) (\<lambda>d'. d' = (ds, swapRoles g old new r ms)) (db_TransferGroupOwner T g old new r)"
  unfolding db_TransferGroupOwner_def by (rule ends_tx [OF assms(1) alters_transfer [OF assms]])

lemma moves_TransferGroupOwner:
  assumes T: "group_tools_ok T" and d: "docs_typed own (ds, ms)" and r: "isRole r" and ne: "old \<noteq> new"
    and own: "own \<Longrightarrow> r \<noteq> GroupOwner \<and> (\<exists>m\<in>set ms. memberKey m = (g, old) \<and> gmRoleLevel m = GroupOwner)"
  shows "gmoves T own (ds, ms) (\<lambda>_. True) (db_TransferGroupOwner T g old new r)"
proof -
  let ?ms1 = "setOne g old (setMemberFields [SetRoleLevel r]) ms"
  let ?ms2 = "setOne g new (setMemberFields [SetRoleLevel GroupOwner]) ?ms1"
  have dist: "distinct (map memberKey ms)" using d by (simp add: docs_typed_def)
  then have dist1: "distinct (map memberKey ?ms1)" by (simp add: setOne_keys)
  have weak: "docs_typed False (ds, ms)" using d by (simp add: docs_typed_def)
  have typed1: "docs_typed False (ds, ?ms1)"
  proof -
    have "isRole (gmRoleLevel (setMemberFields [SetRoleLevel r] m))" for m using r by (simp add: setMemberFields_def)
    moreover have "gmGroupID m \<in> gpGroupID ` set ds" if "m \<in> set ?ms1" for m
    proof -
      from that obtain n where "n \<in> set ms" "memberKey m = memberKey n" by (auto simp: setOne_def split: if_splits)
      then show ?thesis using d by (auto simp: docs_typed_def memberKey_def)
    qed
    ultimately show ?thesis using weak dist1 by (auto simp: docs_typed_def setOne_def)
  qed
  have typed2: "docs_typed own (ds, ?ms2)" by (rule typed_transfer [OF d r ne own])
  let ?keys = "DelGroupMemberIDs g (DelMaxGroupMemberVersion [g] (DelGroupMembersHash g (DelGroupAllRoleLevel g (DelGroupMembersInfo g [old, new] []))))"
  have keys: "set (member_keys g) \<subseteq> set ?keys" "GetGroupMemberInfoKey g old \<in> set ?keys" "GetGroupMemberInfoKey g new \<in> set ?keys"
    by (auto simp: DelMaxGroupMemberVersion_def DelGroupMembersInfo_def DelGroupMemberIDs_def DelGroupMembersHash_def DelGroupAllRoleLevel_def
        DelGroupRoleLevel_def member_keys_def)
  have c1: "covers T (ds, ms) ?keys (ds, ?ms1)"
    by (rule covers_setOne [OF weak typed1]) (use keys member_keys_roles in auto)
  have c2: "covers T (ds, ?ms1) ?keys (ds, ?ms2)"
    by (rule covers_setOne [OF typed1 typed2]) (use keys member_keys_roles in auto)
  show ?thesis
    unfolding db_TransferGroupOwner_def
    by (rule moves_tx [OF T d TrueI alters_transfer [OF T dist]]) (use typed2 covers_trans [OF c1 c2] in \<open>auto simp: swapRoles_def\<close>)
qed

subsection \<open>New groups and members\<close>

lemma not_in_image: "x \<notin> f ` A \<longleftrightarrow> (\<forall>a\<in>A. f a \<noteq> x)"
  by auto

lemma insertGroupDocs_ok:
  "insertGroupDocs gs ds = (None, ds') \<Longrightarrow> ds' = ds @ gs"
  "insertGroupDocs gs ds = (e, ds') \<Longrightarrow> distinct (map gpGroupID ds) \<Longrightarrow> distinct (map gpGroupID ds')"
  by (induction gs ds rule: insertGroupDocs.induct) (auto simp: list_ex_iff isGroup_def not_in_image split: if_splits)

lemma insertMemberDocs_ok:
  "insertMemberDocs ns ms = (None, ms') \<Longrightarrow> ms' = ms @ ns"
  "insertMemberDocs ns ms = (e, ms') \<Longrightarrow> distinct (map memberKey ms) \<Longrightarrow> distinct (map memberKey ms')"
  by (induction ns ms rule: insertMemberDocs.induct) (auto simp: list_ex_iff isMember_def memberKey_def not_in_image split: if_splits)

lemma alters_group_Create:
  "alters T d0 (ds, ms) (\<lambda>_ d'. d' = (ds @ gs, ms) \<and> (distinct (map gpGroupID ds) \<longrightarrow> distinct (map gpGroupID (ds @ gs)))) (group_Create gs)"
  unfolding group_Create_def
proof (rule alters_io, unfold alters_def, intro allI impI, goal_cases)
  case (1 w)
  obtain e ds' where i: "insertGroupDocs gs ds = (e, ds')" by fastforce
  with 1 show ?case using insertGroupDocs_ok(1) [of gs ds ds'] insertGroupDocs_ok(2) [OF i] by (cases e) simp_all
qed

lemma alters_member_Create:
  assumes "group_tools_ok T"
  shows "alters T d0 (ds, ms) (\<lambda>_ d'. d' = (ds, ms @ ns) \<and> (distinct (map memberKey ms) \<longrightarrow> distinct (map memberKey (ms @ ns)))) (member_Create T ns)"
proof -
  have ins: "alters T d0 (ds, ms) (\<lambda>_ d'. d' = (ds, ms @ ns) \<and> (distinct (map memberKey ms) \<longrightarrow> distinct (map memberKey (ms @ ns)))) (member_InsertMany ns)"
    unfolding member_InsertMany_def
  proof (rule alters_io, unfold alters_def, intro allI impI, goal_cases)
    case (1 w)
    obtain e ms' where i: "insertMemberDocs ns ms = (e, ms')" by fastforce
    with 1 show ?case using insertMemberDocs_ok(1) [of ns ms ms'] insertMemberDocs_ok(2) [OF i] by (cases e) simp_all
  qed
  have ver: "alters T d0 d (\<lambda>_ d'. d' = d) (forM xs (\<lambda>(k, ids). IncrVersion coll k ids st))" for d xs coll st
    by (rule alters_forM) (auto intro: alters_version split: prod.split)
  show ?thesis unfolding member_Create_def gIncr_simps [OF assms]
    by (rule alters_bind [OF ins], rule alters_bind [OF ver], rule alters_weaken [OF ver]) simp
qed

definition isOwner :: "GroupMember \<Rightarrow> bool" where
  "isOwner m \<longleftrightarrow> gmRoleLevel m = GroupOwner"

lemma one_owner_append:
  assumes "one_owner ms" and "length (filter isOwner ns) \<le> 1" and "\<And>m n. m \<in> set ms \<Longrightarrow> n \<in> set ns \<Longrightarrow> isOwner n \<Longrightarrow> gmGroupID m \<noteq> gmGroupID n"
  shows "one_owner (ms @ ns)"
proof -
  have "m = n" if "m \<in> set ns" "n \<in> set ns" "isOwner m" "isOwner n" for m n
  proof -
    from that have "m \<in> set (filter isOwner ns)" "n \<in> set (filter isOwner ns)" by simp_all
    then show ?thesis using assms(2) by (cases "filter isOwner ns") auto
  qed
  with assms(1,3) show ?thesis unfolding one_owner_def isOwner_def set_append by (metis Un_iff)
qed

lemma typed_append:
  assumes "docs_typed own (ds, ms)" and "distinct (map gpGroupID (ds @ gs))" and "distinct (map memberKey (ms @ ns))"
    and "\<And>g. g \<in> set gs \<Longrightarrow> plain (gpGroupID g)" and "\<And>n. n \<in> set ns \<Longrightarrow> isRole (gmRoleLevel n) \<and> gmGroupID n \<in> gpGroupID ` set (ds @ gs)"
    and "own \<Longrightarrow> length (filter isOwner ns) \<le> 1" and "own \<Longrightarrow> (\<And>n. n \<in> set ns \<Longrightarrow> isOwner n \<Longrightarrow> gmGroupID n \<in> gpGroupID ` set gs)"
  shows "docs_typed own (ds @ gs, ms @ ns)"
proof -
  have "one_owner (ms @ ns)" if own
  proof (rule one_owner_append)
    show "gmGroupID m \<noteq> gmGroupID n" if "m \<in> set ms" "n \<in> set ns" "isOwner n" for m n
    proof -
      have "gmGroupID m \<in> gpGroupID ` set ds" using assms(1) that(1) by (auto simp: docs_typed_def)
      moreover have "gmGroupID n \<in> gpGroupID ` set gs" using assms(7) \<open>own\<close> that(2,3) by blast
      moreover have "gpGroupID ` set ds \<inter> gpGroupID ` set gs = {}" using assms(2) by simp
      ultimately show ?thesis by (metis disjoint_iff)
    qed
  qed (use assms(1,6) that in \<open>auto simp: docs_typed_def\<close>)
  moreover have "isRole (gmRoleLevel m) \<and> gmGroupID m \<in> gpGroupID ` set (ds @ gs)" if "m \<in> set (ms @ ns)" for m
    using that assms(1,5) by (auto simp: docs_typed_def)
  ultimately show ?thesis using assms(1-4) by (auto simp: docs_typed_def)
qed

lemma covers_append:
  assumes d: "docs_typed own (ds, ms)" and d': "docs_typed own (ds @ gs, ms @ ns)"
    and g: "\<And>g. g \<in> set gs \<Longrightarrow> GetGroupInfoKey (gpGroupID g) \<in> set keys"
    and n: "\<And>n. n \<in> set ns \<Longrightarrow> set [GetGroupMemberInfoKey (gmGroupID n) (gmUserID n), GetGroupMemberIDsKey (gmGroupID n), GetGroupMemberNumKey (gmGroupID n),
      GetGroupRoleLevelMemberIDsKey (gmGroupID n) (gmRoleLevel n)] \<subseteq> set keys"
  shows "covers T (ds, ms) keys (ds @ gs, ms @ ns)"
  using d d'
proof (rule coversI)
  have mem: "membersOf x (ms @ ns) = membersOf x ms" if "\<And>n. n \<in> set ns \<Longrightarrow> gmGroupID n \<noteq> x" for x
    using that by (auto simp: membersOf_def filter_empty_conv)
  show "List.find (isGroup x) (ds @ gs) = List.find (isGroup x) ds" if "GetGroupInfoKey x \<notin> set keys" for x
  proof -
    have "List.find (isGroup x) gs = None" using that g by (auto simp: find_None_iff isGroup_def)
    then show ?thesis by (simp add: find_append split: option.split)
  qed
  show "List.find (isMember x u) (ms @ ns) = List.find (isMember x u) ms" if "GetGroupMemberInfoKey x u \<notin> set keys" for x u
  proof -
    have "List.find (isMember x u) ns = None" using that n by (auto simp: find_None_iff isMember_def)
    then show ?thesis by (simp add: find_append split: option.split)
  qed
  show "rolesOf x (ms @ ns) = rolesOf x ms" if "GetGroupMemberIDsKey x \<notin> set keys" for x
  proof -
    have "membersOf x (ms @ ns) = membersOf x ms" by (rule mem) (use that n in auto)
    then show ?thesis by (simp only: rolesOf_def)
  qed
  show "roleIDs x r (ms @ ns) = roleIDs x r ms" if "isRole r" "GetGroupRoleLevelMemberIDsKey x r \<notin> set keys" for x r
    using that n by (auto simp: roleIDs_def filter_empty_conv)
  show "length (membersOf x (ms @ ns)) = length (membersOf x ms)" if "GetGroupMemberNumKey x \<notin> set keys" for x
  proof -
    have "membersOf x (ms @ ns) = membersOf x ms" by (rule mem) (use that n in auto)
    then show ?thesis by simp
  qed
qed (auto simp: groupsOf_def)

lemma createKeys_set:
  "set (createMemberKeys ns c) = set c \<union> (\<Union>n\<in>set ns. set [GetGroupMemberMaxVersionKey (gmGroupID n), GetJoinGroupMaxVersionKey (gmUserID n),
     GetGroupMemberInfoKey (gmGroupID n) (gmUserID n), GetJoinedGroupsKey (gmUserID n), GetGroupMemberNumKey (gmGroupID n),
     GetGroupMembersHashKey (gmGroupID n)] \<union> set (member_keys (gmGroupID n)))"
  "set (createGroupKeys gs) = (\<Union>g\<in>set gs. set [GetGroupMemberMaxVersionKey (gpGroupID g), GetGroupInfoKey (gpGroupID g), GetGroupMemberNumKey (gpGroupID g),
     GetGroupMembersHashKey (gpGroupID g)] \<union> set (member_keys (gpGroupID g)))"
proof -
  note dels = DelMaxGroupMemberVersion_def DelMaxJoinGroupVersion_def DelGroupAllRoleLevel_def DelGroupRoleLevel_def DelGroupMembersInfo_def DelJoinedGroupID_def
    DelGroupMemberIDs_def DelGroupsMemberNum_def DelGroupMembersHash_def DelGroupsInfo_def member_keys_def Let_def
  show "set (createMemberKeys ns c) = set c \<union> (\<Union>n\<in>set ns. set [GetGroupMemberMaxVersionKey (gmGroupID n), GetJoinGroupMaxVersionKey (gmUserID n),
     GetGroupMemberInfoKey (gmGroupID n) (gmUserID n), GetJoinedGroupsKey (gmUserID n), GetGroupMemberNumKey (gmGroupID n),
     GetGroupMembersHashKey (gmGroupID n)] \<union> set (member_keys (gmGroupID n)))"
    unfolding createMemberKeys_def by (induction ns rule: rev_induct) (auto simp: dels)
  show "set (createGroupKeys gs) = (\<Union>g\<in>set gs. set [GetGroupMemberMaxVersionKey (gpGroupID g), GetGroupInfoKey (gpGroupID g), GetGroupMemberNumKey (gpGroupID g),
     GetGroupMembersHashKey (gpGroupID g)] \<union> set (member_keys (gpGroupID g)))"
    unfolding createGroupKeys_def by (induction gs rule: rev_induct) (auto simp: dels)
qed

text \<open>Members that may be added: their roles are roles, their groups exist or are new, and a new owner is the only one of a new group.\<close>

definition joinable :: "bool \<Rightarrow> Group list \<Rightarrow> Group list \<Rightarrow> GroupMember list \<Rightarrow> bool" where
  "joinable own ds gs ns \<longleftrightarrow> (\<forall>n\<in>set ns. isRole (gmRoleLevel n) \<and> gmGroupID n \<in> gpGroupID ` set (ds @ gs)) \<and>
     (own \<longrightarrow> length (filter isOwner ns) \<le> 1 \<and> (\<forall>n\<in>set ns. isOwner n \<longrightarrow> gmGroupID n \<in> gpGroupID ` set gs))"

lemma bindM_then_assoc: "thenM a (thenM b c) = thenM (thenM a b) c"
  by (simp add: bindM_assoc)

lemma moves_CreateGroup:
  assumes T: "group_tools_ok T" and d: "docs_typed own (ds, ms)" and gs: "\<forall>g\<in>set gs. plain (gpGroupID g)" and ns: "joinable own ds gs ns"
  shows "gmoves T own (ds, ms) (\<lambda>_. True) (db_CreateGroup T gs ns)"
proof (cases "gs = [] \<and> ns = []")
  case True
  then show ?thesis using d by (simp add: db_CreateGroup_def grp.moves_ret)
next
  case False
  let ?S = "\<lambda>_ d'. d' = (ds @ gs, ms @ ns) \<and> distinct (map gpGroupID (ds @ gs)) \<and> distinct (map memberKey (ms @ ns))"
  have g: "alters T (ds, ms) (ds, ms) (\<lambda>_ d'. d' = (ds @ gs, ms) \<and> distinct (map gpGroupID (ds @ gs))) (if length gs > 0 then group_Create gs else ret ())"
    using d by (auto simp: docs_typed_def simp del: distinct_append map_append intro!: alters_ret alters_weaken [OF alters_group_Create])
  have n: "alters T (ds, ms) d' ?S (if length ns > 0 then member_Create T ns else ret ())"
    if "d' = (ds @ gs, ms) \<and> distinct (map gpGroupID (ds @ gs))" for d'
    using d that by (auto simp: docs_typed_def simp del: distinct_append map_append intro!: alters_ret alters_weaken [OF alters_member_Create [OF T]])
  have typed: "docs_typed own (ds @ gs, ms @ ns)" if "distinct (map gpGroupID (ds @ gs))" "distinct (map memberKey (ms @ ns))"
    by (rule typed_append [OF d that]) (use gs ns in \<open>auto simp: joinable_def\<close>)
  have role: "GetGroupRoleLevelMemberIDsKey (gmGroupID n) (gmRoleLevel n) \<in> set (member_keys (gmGroupID n))" if "n \<in> set ns" for n
    using ns that by (auto simp: joinable_def isRole_def member_keys_def)
  have cov: "covers T (ds, ms) (createMemberKeys ns (createGroupKeys gs)) (ds @ gs, ms @ ns)"
    if "docs_typed own (ds @ gs, ms @ ns)"
    by (rule covers_append [OF d that]) (use role in \<open>auto simp: createKeys_set member_keys_def\<close>)
  have "gmoves T own (ds, ms) (\<lambda>_. True) (fTx T (thenM (thenM (if length gs > 0 then group_Create gs else ret ())
      (if length ns > 0 then member_Create T ns else ret ())) (groupChainDel T (createMemberKeys ns (createGroupKeys gs)))))"
    by (rule moves_tx [OF T d TrueI alters_bind [OF g n]]) (use typed cov in auto)
  then show ?thesis using False unfolding db_CreateGroup_def bindM_then_assoc by auto
qed

lemma moves_HandlerGroupRequest:
  assumes T: "group_tools_ok T" and d: "docs_typed own (ds, ms)" and m: "\<And>m. mo = Some m \<Longrightarrow> gmGroupID m = g \<and> joinable own ds [] [m]"
  shows "gmoves T own (ds, ms) (\<lambda>_. True) (HandlerGroupRequest T g u msg res mo)"
proof (cases mo)
  case None
  have upd: "greads T (ds, ms) (\<lambda>_. True) (greq_UpdateHandler g u msg res)"
    unfolding greq_UpdateHandler_def by (intro grp.reads_io grp.reads_still) (simp add: gdata_def)
  have "greads T (ds, ms) (\<lambda>_. True) (HandlerGroupRequest T g u msg res mo)"
    unfolding HandlerGroupRequest_def None option.case
    by (intro reads_tx [OF T, where Q = "\<lambda>_. True"] grp.reads_bind [OF upd] grp.reads_ret TrueI)
  then show ?thesis by (rule grp.moves_reads) (use d in simp_all)
next
  case (Some m)
  note m = m [OF Some]
  have upd: "alters T (ds, ms) (ds, ms) (\<lambda>_ d'. d' = (ds, ms)) (greq_UpdateHandler g u msg res)"
    unfolding greq_UpdateHandler_def by (intro alters_io alters_still) (simp add: gdata_def)
  have new: "alters T (ds, ms) d' (\<lambda>_ d'. d' = (ds, ms @ [m]) \<and> distinct (map memberKey (ms @ [m]))) (member_Create T [m])" if "d' = (ds, ms)" for d'
    using alters_member_Create [OF T, of "(ds, ms)" ds ms "[m]"] d that by (auto simp: docs_typed_def elim!: alters_weaken)
  have typed: "docs_typed own (ds, ms @ [m])" if "distinct (map memberKey (ms @ [m]))"
    using typed_append [OF d, of "[]" "[m]"] that m d by (auto simp: joinable_def docs_typed_def)
  have cov: "covers T (ds, ms) keys (ds, ms @ [m])"
    if "docs_typed own (ds, ms @ [m])" "set [GetGroupMemberInfoKey g (gmUserID m), GetGroupMemberIDsKey g, GetGroupMemberNumKey g,
      GetGroupRoleLevelMemberIDsKey g (gmRoleLevel m)] \<subseteq> set keys" for keys
    using covers_append [OF d, of "[]" "[m]" keys T] that m by auto
  show ?thesis
    unfolding HandlerGroupRequest_def Some option.case bindM_then_assoc
    by (rule moves_tx [OF T d TrueI alters_bind [OF upd new]], assumption)
       (use typed cov in \<open>auto simp: DelMaxGroupMemberVersion_def DelMaxJoinGroupVersion_def DelGroupRoleLevel_def DelGroupMembersInfo_def DelJoinedGroupID_def
          DelGroupMemberIDs_def DelGroupsMemberNum_def DelGroupMembersHash_def\<close>)
qed

subsection \<open>Leaving\<close>

lemma typed_filter: "docs_typed own (ds, ms) \<Longrightarrow> docs_typed own (ds, filter P ms)"
  by (auto simp: docs_typed_def one_owner_def distinct_map_filter)

lemma find_filter: "(\<And>x. P x \<Longrightarrow> Q x) \<Longrightarrow> List.find P (filter Q xs) = List.find P xs"
  by (induction xs) auto

lemma covers_delete:
  assumes d: "docs_typed own (ds, ms)"
    and keys: "set (member_keys g) \<subseteq> set keys" "GetGroupMemberNumKey g \<in> set keys"
    and us: "\<And>m. m \<in> set ms \<Longrightarrow> deletes g us m \<Longrightarrow> GetGroupMemberInfoKey g (gmUserID m) \<in> set keys \<and> GetJoinedGroupsKey (gmUserID m) \<in> set keys"
  shows "covers T (ds, ms) keys (ds, filter (\<lambda>m. \<not> deletes g us m) ms)"
  using d typed_filter [OF d]
proof (rule coversI)
  have other: "membersOf x (filter (\<lambda>m. \<not> deletes g us m) ms) = membersOf x ms" if "x \<noteq> g" for x
    using that by (auto simp: membersOf_def deletes_def intro!: filter_cong)
  show "List.find (isMember x u) (filter (\<lambda>m. \<not> deletes g us m) ms) = List.find (isMember x u) ms" if "GetGroupMemberInfoKey x u \<notin> set keys" for x u
  proof -
    have "\<not> deletes g us m" if "m \<in> set ms" "isMember x u m" for m
      using us [OF that(1)] that \<open>_ \<notin> set keys\<close> by (auto simp: isMember_def deletes_def)
    then show ?thesis by (induction ms) auto
  qed
  show "rolesOf x (filter (\<lambda>m. \<not> deletes g us m) ms) = rolesOf x ms" if "GetGroupMemberIDsKey x \<notin> set keys" for x
  proof -
    have "x \<noteq> g" using that keys(1) by (auto simp: member_keys_def)
    then show ?thesis by (simp add: rolesOf_def other)
  qed
  show "roleIDs x r (filter (\<lambda>m. \<not> deletes g us m) ms) = roleIDs x r ms" if "isRole r" "GetGroupRoleLevelMemberIDsKey x r \<notin> set keys" for x r
  proof -
    have "x \<noteq> g" using that member_keys_roles [OF keys(1)] by auto
    then show ?thesis using other [of x] by (simp add: entries_rolesOf(2) rolesOf_def)
  qed
  show "length (membersOf x (filter (\<lambda>m. \<not> deletes g us m) ms)) = length (membersOf x ms)" if "GetGroupMemberNumKey x \<notin> set keys" for x
  proof -
    have "x \<noteq> g" using that keys(2) by auto
    then show ?thesis by (simp add: other)
  qed
  show "groupsOf u ms \<subseteq> groupsOf u (filter (\<lambda>m. \<not> deletes g us m) ms)" if "GetJoinedGroupsKey u \<notin> set keys" for u
    using that us by (auto simp: groupsOf_def)
qed simp

lemma alters_member_Delete:
  assumes "group_tools_ok T"
  shows "alters T d0 (ds, ms) (\<lambda>_ d'. d' = (ds, filter (\<lambda>m. \<not> deletes g us m) ms)) (member_Delete T g us)"
proof -
  have del: "alters T d0 (ds, ms) (\<lambda>_ d'. d' = (ds, filter (\<lambda>m. \<not> deletes g us m) ms))
      (io (modifyM (\<lambda>w. w\<lparr>memberDocs := filter (\<lambda>m. \<not> deletes g us m) (memberDocs w)\<rparr>)))"
    by (intro alters_io alters_modify) (simp_all add: gdata_def)
  have ver: "alters T d0 d (\<lambda>_ d'. d' = d) (if length us = 0 then DeleteVersion GroupMemberVersionName g
      else IncrVersion GroupMemberVersionName g us VersionStateDelete)" for d
    by (auto intro: alters_version)
  have join: "alters T d0 d (\<lambda>_ d'. d' = d) (forM us (\<lambda>u. IncrVersion GroupJoinVersionName u [g] VersionStateDelete))" for d
    by (rule alters_forM) (rule alters_version, rule refl)
  show ?thesis unfolding member_Delete_def gIncr_simps [OF assms]
    by (rule alters_bind [OF del], rule alters_bind [OF ver], rule alters_weaken [OF join]) simp
qed

lemma moves_DeleteGroupMember:
  assumes T: "group_tools_ok T" and d: "docs_typed own (ds, ms)" and us: "us \<noteq> []"
    and R: "R (ds, ms)" "R (ds, filter (\<lambda>m. \<not> deletes g us m) ms)"
  shows "gmoves T own (ds, ms) R (DeleteGroupMember T g us)"
  unfolding DeleteGroupMember_def
proof (rule moves_tx [where R = R, OF T d R(1) alters_member_Delete [OF T]], intro conjI)
  fix d' assume d': "d' = (ds, filter (\<lambda>m. \<not> deletes g us m) ms)"
  then show "docs_typed own d'" and "R d'" using typed_filter [OF d] R(2) by simp_all
  show "covers T (ds, ms) (DelMaxJoinGroupVersion us (DelMaxGroupMemberVersion [g] (DelGroupAllRoleLevel g (DelGroupMembersInfo g us
      (DelJoinedGroupID us (DelGroupsMemberNum [g] (DelGroupMemberIDs g (DelGroupMembersHash g [])))))))) d'"
    unfolding d'
    by (rule covers_delete [OF d])
       (use us in \<open>auto simp: DelMaxGroupMemberVersion_def DelMaxJoinGroupVersion_def DelGroupAllRoleLevel_def
        DelGroupRoleLevel_def DelGroupMembersInfo_def DelJoinedGroupID_def DelGroupMemberIDs_def DelGroupsMemberNum_def DelGroupMembersHash_def
        deletes_def member_keys_def\<close>)
qed

lemma ends_DeleteGroupMember:
  assumes "group_tools_ok T"
  shows "cache_inv.ends gdata (entryOK T) (ds, ms) (\<lambda>d'. d' = (ds, filter (\<lambda>m. \<not> deletes g us m) ms)) (DeleteGroupMember T g us)"
  unfolding DeleteGroupMember_def by (rule ends_tx [OF assms alters_member_Delete [OF assms]])

subsection \<open>Groups\<close>

lemma setGroupFields_id [simp]: "gpGroupID (setGroupFields args g) = gpGroupID g"
proof -
  have "gpGroupID (setGroupField a g) = gpGroupID g" for a g by (cases a) simp_all
  then show ?thesis unfolding setGroupFields_def by (induction args arbitrary: g) simp_all
qed

definition changeGroup :: "string \<Rightarrow> group_field list \<Rightarrow> Group list \<Rightarrow> Group list" where
  "changeGroup g args ds = updFirst (isGroup g) (setGroupFields args) ds"

lemma changeGroup_ids: "map gpGroupID (changeGroup g args ds) = map gpGroupID ds"
  unfolding changeGroup_def by (rule map_updFirst_same) simp

lemma changeGroup_nothing: "changeGroup g [] ds = ds"
  unfolding changeGroup_def by (induction ds) (simp_all add: setGroupFields_def)

lemma changeGroup_find: "g' \<noteq> g \<Longrightarrow> List.find (isGroup g') (changeGroup g args ds) = List.find (isGroup g') ds"
  unfolding changeGroup_def by (rule find_updFirst_other) (auto simp: isGroup_def)

lemma typed_groups:
  assumes "docs_typed own (ds, ms)" and "map gpGroupID ds' = map gpGroupID ds"
  shows "docs_typed own (ds', ms)"
proof -
  have s: "gpGroupID ` set ds' = gpGroupID ` set ds" by (metis assms(2) list.set_map)
  have "plain (gpGroupID g)" if "g \<in> set ds'" for g
  proof -
    have "gpGroupID g \<in> gpGroupID ` set ds" using s that by blast
    then show ?thesis using assms(1) by (auto simp: docs_typed_def)
  qed
  with assms s show ?thesis by (simp add: docs_typed_def)
qed

lemma covers_changeGroup:
  assumes d: "docs_typed own (ds, ms)" and k: "GetGroupInfoKey g \<in> set keys"
  shows "covers T (ds, ms) keys (changeGroup g args ds, ms)"
  using d typed_groups [OF d changeGroup_ids]
proof (rule coversI)
  show "List.find (isGroup x) (changeGroup g args ds) = List.find (isGroup x) ds" if "GetGroupInfoKey x \<notin> set keys" for x
    by (rule changeGroup_find) (use that k in auto)
qed simp_all

lemma alters_group_UpdateMap:
  "alters T d0 (ds, ms) (\<lambda>_ d'. d' = (changeGroup g args ds, ms)) (group_UpdateMap g args)"
proof (cases "args = []")
  case True
  then show ?thesis by (simp add: group_UpdateMap_def changeGroup_nothing alters_ret)
next
  case False
  have "alters T d0 (ds, ms) (\<lambda>_ d'. d' = (changeGroup g args ds, ms)) (io (\<lambda>w. if list_ex (isGroup g) (groupDocs w)
        then (Inr (), w\<lparr>groupDocs := updFirst (isGroup g) (setGroupFields args) (groupDocs w)\<rparr>) else (Inl MongoNoDocuments, w)))"
    by (rule alters_io) (auto simp: alters_def gdata_def changeGroup_def)
  with False show ?thesis by (simp add: group_UpdateMap_def)
qed

lemma moves_UpdateGroup:
  assumes T: "group_tools_ok T" and d: "docs_typed own (ds, ms)"
  shows "gmoves T own (ds, ms) (\<lambda>_. True) (UpdateGroup T g args)"
  unfolding UpdateGroup_def member_MemberGroupIncrVersion_def bindM_then_assoc
proof (rule moves_tx [OF T d TrueI, where S = "\<lambda>_ d'. d' = (changeGroup g args ds, ms)"])
  show "alters T (ds, ms) (ds, ms) (\<lambda>_ d'. d' = (changeGroup g args ds, ms))
      (thenM (group_UpdateMap g args) (IncrVersion GroupMemberVersionName g [VersionGroupChangeID] VersionStateUpdate))"
    by (rule alters_bind [OF alters_group_UpdateMap]) (rule alters_version, assumption)
  show "docs_typed own d' \<and> True \<and> covers T (ds, ms) (DelMaxGroupMemberVersion [g] (DelGroupsInfo [g] [])) d'"
    if "d' = (changeGroup g args ds, ms)" for d'
    using typed_groups [OF d changeGroup_ids] that by (auto simp: DelMaxGroupMemberVersion_def DelGroupsInfo_def intro!: covers_changeGroup [OF d])
qed

text \<open>
  A dissolved group. The members are read through the cache inside the transaction, when the status of the group is already changed but the cache is of before;
  what the read puts into the cache depends on the members alone.
\<close>

interpretation mem: cache_view memberDocs "\<lambda>ms. entryOK T (ds, ms)" for T :: "('w, 't) group_tools_scheme" and ds
  by unfold_locales simp_all

lemma alters_member_ids:
  fixes T :: "('e group_world_scheme, 't) group_tools_scheme"
  assumes "group_tools_ok T"
  shows "alters T (ds0, ms) (ds, ms) (\<lambda>ids d'. d' = (ds, ms) \<and> ids = memberIDs g ms) (cache_GetGroupMemberIDs T g)"
proof -
  let ?m = "cache_GetGroupMemberIDs T g :: ('e group_world_scheme, string list) prog"
  have r: "cache_view.reads memberDocs (\<lambda>ms. entryOK T (ds0, ms)) ms (\<lambda>ids. ids = memberIDs g ms) ?m"
    unfolding cache_GetGroupMemberIDs_def member_FindMemberUserID_def
    by (rule mem.reads_getCache, rule mem.reads_io, rule mem.reads_gets)
       (auto simp: entry_ids memberIDs_def membersOf_def tools_codec [OF assms])
  have p: "preserves (\<lambda>w. groupDocs w = ds) ?m"
    unfolding cache_GetGroupMemberIDs_def member_FindMemberUserID_def getCache_def rocksFetch2_def
    by (intro preserves_rules) simp_all
  show ?thesis
    unfolding alters_def
  proof (intro allI impI, elim conjE)
    fix w :: "'e group_world_scheme"
    assume "gdata w = (ds, ms)" and c: "cache_view.coh (entryOK T) (ds0, ms) (rocks w)"
    then have w: "groupDocs w = ds" "memberDocs w = ms" by (simp_all add: gdata_def)
    have "cache_view.sees memberDocs (\<lambda>ms. entryOK T (ds0, ms)) ms w"
      using c w by (simp add: mem.sees_def mem.coh_def grp.coh_def)
    with r have s: "cache_view.sees memberDocs (\<lambda>ms. entryOK T (ds0, ms)) ms (snd (?m w))" and v: "\<forall>a. fst (?m w) = Inr a \<longrightarrow> a = memberIDs g ms"
      by (auto simp: mem.reads_def)
    have "groupDocs (snd (?m w)) = ds" using p w by (simp add: preserves_def)
    with s v show "cache_view.coh (entryOK T) (ds0, ms) (rocks (snd (?m w))) \<and>
        (\<forall>a. fst (?m w) = Inr a \<longrightarrow> gdata (snd (?m w)) = (ds, ms) \<and> a = memberIDs g ms)"
      by (simp add: mem.sees_def mem.coh_def grp.coh_def gdata_def)
  qed
qed

lemma moves_DismissGroup:
  assumes T: "group_tools_ok T" and d: "docs_typed own (ds, ms)"
  shows "gmoves T own (ds, ms) (\<lambda>_. True) (db_DismissGroup T g deleteMember)"
proof (cases deleteMember)
  case False
  have "gmoves T own (ds, ms) (\<lambda>_. True) (fTx T (thenM (thenM (group_UpdateMap g [SetStatus GroupStatusDismissed])
      (IncrVersion GroupMemberVersionName g [VersionGroupChangeID] VersionStateUpdate))
      (groupChainDel T (DelGroupsInfo [g] (DelMaxGroupMemberVersion [g] [])))))"
  proof (rule moves_tx [OF T d TrueI, where S = "\<lambda>_ d'. d' = (changeGroup g [SetStatus GroupStatusDismissed] ds, ms)"])
    show "alters T (ds, ms) (ds, ms) (\<lambda>_ d'. d' = (changeGroup g [SetStatus GroupStatusDismissed] ds, ms))
        (thenM (group_UpdateMap g [SetStatus GroupStatusDismissed]) (IncrVersion GroupMemberVersionName g [VersionGroupChangeID] VersionStateUpdate))"
      by (rule alters_bind [OF alters_group_UpdateMap]) (rule alters_version, assumption)
  qed (use typed_groups [OF d changeGroup_ids] in \<open>auto simp: DelMaxGroupMemberVersion_def DelGroupsInfo_def intro!: covers_changeGroup [OF d]\<close>)
  with False show ?thesis
    by (simp add: db_DismissGroup_def group_UpdateStatus_def member_MemberGroupIncrVersion_def bindM_assoc)
next
  case True
  let ?ds = "changeGroup g [SetStatus GroupStatusDismissed] ds" and ?ms = "filter (\<lambda>m. \<not> deletes g [] m) ms"
  let ?keys = "\<lambda>us. DelGroupsInfo [g] (DelMaxJoinGroupVersion us (DelMaxGroupMemberVersion [g] (DelGroupMembersInfo g us (DelGroupAllRoleLevel g
    (DelGroupMembersHash g (DelGroupsMemberNum [g] (DelGroupMemberIDs g (DelJoinedGroupID us []))))))))"
  let ?W = "thenM (group_UpdateMap g [SetStatus GroupStatusDismissed]) (bindM (cache_GetGroupMemberIDs T g) (\<lambda>us. thenM (member_Delete T g [])
    (thenM (forM us (\<lambda>u. IncrVersion GroupJoinVersionName u [g] VersionStateDelete)) (ret us))))"
  have W: "alters T (ds, ms) (ds, ms) (\<lambda>us d'. us = memberIDs g ms \<and> d' = (?ds, ?ms)) ?W"
  proof (rule alters_bind [OF alters_group_UpdateMap], hypsubst, rule alters_bind [OF alters_member_ids [OF T]], elim conjE, hypsubst,
      rule alters_bind [OF alters_member_Delete [OF T]], hypsubst)
    show "alters T (ds, ms) (?ds, ?ms) (\<lambda>us d'. us = memberIDs g ms \<and> d' = (?ds, ?ms))
      (thenM (forM (memberIDs g ms) (\<lambda>u. IncrVersion GroupJoinVersionName u [g] VersionStateDelete)) (ret (memberIDs g ms)))"
      by (rule alters_bind [OF alters_forM]) (auto intro: alters_version alters_ret)
  qed
  have typed1: "docs_typed own (?ds, ms)" by (rule typed_groups [OF d changeGroup_ids])
  have "covers T (?ds, ms) (?keys (memberIDs g ms)) (?ds, ?ms)"
    by (rule covers_delete [OF typed1])
       (auto simp: DelMaxGroupMemberVersion_def DelMaxJoinGroupVersion_def DelGroupAllRoleLevel_def DelGroupRoleLevel_def DelGroupMembersInfo_def
        DelJoinedGroupID_def DelGroupMemberIDs_def DelGroupsMemberNum_def DelGroupMembersHash_def DelGroupsInfo_def deletes_def member_keys_def
        memberIDs_def memberSort_def membersOf_def)
  note c2 = this
  have c1: "covers T (ds, ms) (?keys (memberIDs g ms)) (?ds, ms)"
    by (rule covers_changeGroup [OF d]) (simp add: DelGroupsInfo_def)
  have c: "covers T (ds, ms) (?keys (memberIDs g ms)) (?ds, ?ms)" by (rule covers_trans [OF c1 c2]) simp
  have "gmoves T own (ds, ms) (\<lambda>_. True) (fTx T (bindM ?W (\<lambda>us. groupChainDel T (?keys us))))"
    by (rule moves_tx [OF T d TrueI W]) (use typed_filter [OF typed1] c in auto)
  with True show ?thesis
    by (simp add: db_DismissGroup_def group_UpdateStatus_def member_JoinGroupIncrVersion_def bindM_assoc)
qed

lemma reads_CreateGroupRequest:
  assumes "group_tools_ok T"
  shows "greads T d (\<lambda>_. True) (CreateGroupRequest T rs)"
proof -
  have "greads T d (\<lambda>_. True) (greq_Delete g u)" for g u
    unfolding greq_Delete_def by (intro grp.reads_io grp.reads_modifyM) (simp add: gdata_def)
  moreover have "greads T d (\<lambda>_. True) (greq_Create rs)"
    unfolding greq_Create_def by (intro grp.reads_io grp.reads_still) (simp add: gdata_def split: prod.split)
  ultimately show ?thesis
    unfolding CreateGroupRequest_def by (intro reads_tx [OF assms, where Q = "\<lambda>_. True"] grp.reads_bind [OF grp.reads_forM])
qed

end
