(* ===== verification/Group_Reads.thy ===== *)
theory Group_Reads
  imports Group_Writes
begin

text \<open>
  What the group service reads and tells: every question and every notification leaves the documents alone and keeps the cache in agreement with them, whatever
  fails. The rules are collected in \<open>greads\<close>, one for each operation; they give what a handler goes on with.
\<close>

named_theorems greads "operations that only read"

definition gctx :: "('e group_world_scheme, 't) group_tools_scheme \<Rightarrow> Group list \<times> GroupMember list \<Rightarrow> bool" where
  "gctx T d \<longleftrightarrow> group_tools_ok T \<and> docs_typed False d"

lemma gctxI: "group_tools_ok T \<Longrightarrow> docs_typed own d \<Longrightarrow> gctx T d"
  by (cases d) (simp add: gctx_def docs_typed_def)

lemmas gflow = grp.reads_if grp.reads_case_option grp.reads_case_sum grp.reads_case_prod grp.reads_ret grp.reads_throw TrueI

lemma R_tryM: "greads T d (\<lambda>_. True) m \<Longrightarrow> greads T d (\<lambda>_. True) (tryM m)"
  by (rule grp.reads_weaken [OF grp.reads_tryM]) simp_all

section \<open>The cache\<close>

lemma R_TakeGroup [greads]:
  "gctx T d \<Longrightarrow> greads T d (\<lambda>g. g \<in> set (fst d) \<and> gpGroupID g = groupId \<and> plain groupId) (TakeGroup T groupId)"
  by (cases d, rule grp.reads_weaken, simp, rule reads_TakeGroup)
     (auto simp: gctx_def isGroup_def docs_typed_def dest!: find_Some_props)

lemma R_TakeGroupMember [greads]:
  "gctx T d \<Longrightarrow> plain groupId \<Longrightarrow> greads T d (\<lambda>m. m \<in> set (snd d) \<and> memberKey m = (groupId, userID)) (TakeGroupMember T groupId userID)"
  by (cases d, rule grp.reads_weaken, simp, rule reads_TakeGroupMember)
     (auto simp: gctx_def isMember_def memberKey_def dest!: find_Some_props)

lemma R_FindGroupMemberUserID [greads]:
  "gctx T d \<Longrightarrow> greads T d (\<lambda>ids. ids = memberIDs groupId (snd d)) (FindGroupMemberUserID T groupId)"
  by (cases d) (simp add: gctx_def reads_FindGroupMemberUserID)

lemma R_cache_GetGroupMemberIDs [greads]:
  "gctx T d \<Longrightarrow> greads T d (\<lambda>ids. ids = memberIDs groupId (snd d)) (cache_GetGroupMemberIDs T groupId)"
  using R_FindGroupMemberUserID by (simp only: FindGroupMemberUserID_def)

lemma R_roleIDs [greads]:
  "gctx T d \<Longrightarrow> plain groupId \<Longrightarrow> greads T d (\<lambda>ids. ids = roleIDs groupId r (snd d)) (cache_GetGroupRoleLevelMemberIDs T groupId r)"
  by (cases d) (simp add: gctx_def reads_roleIDs)

lemma R_GetGroupRoleLevelMemberIDs [greads]:
  "gctx T d \<Longrightarrow> plain groupId \<Longrightarrow> greads T d (\<lambda>ids. ids = roleIDs groupId r (snd d)) (GetGroupRoleLevelMemberIDs T groupId r)"
  unfolding GetGroupRoleLevelMemberIDs_def by (rule R_roleIDs)

lemma R_GetGroupMemberNum [greads]: "greads T d (\<lambda>n. n = int (length (membersOf groupId (snd d)))) (GetGroupMemberNum groupId)"
  by (cases d) (simp add: reads_GetGroupMemberNum)

lemma R_FindGroupMemberNum [greads]: "greads T d (\<lambda>n. n = uint32 (int (length (membersOf groupId (snd d))))) (FindGroupMemberNum groupId)"
  unfolding FindGroupMemberNum_def by (rule grp.reads_bind [OF R_GetGroupMemberNum]) (simp add: grp.reads_ret)

lemma R_GetJoinedGroupIDs [greads]:
  "gctx T d \<Longrightarrow> greads T d (\<lambda>ids. set ids \<subseteq> groupsOf userID (snd d) \<and> (\<forall>g\<in>set ids. plain g)) (GetJoinedGroupIDs T userID)"
  by (cases d, rule grp.reads_weaken, simp, rule reads_GetJoinedGroupIDs) (use plain_groups [of False] in \<open>fastforce simp: gctx_def\<close>)+

lemma R_FindJoinGroupID [greads]:
  "gctx T d \<Longrightarrow> greads T d (\<lambda>ids. set ids \<subseteq> groupsOf userID (snd d) \<and> (\<forall>g\<in>set ids. plain g)) (FindJoinGroupID T userID)"
  unfolding FindJoinGroupID_def by (rule R_GetJoinedGroupIDs)

lemma R_FindGroup [greads]:
  "gctx T d \<Longrightarrow> greads T d (\<lambda>gs. set gs = {g \<in> set (fst d). gpGroupID g \<in> set groupIDs}) (FindGroup T groupIDs)"
  by (cases d) (auto simp: gctx_def intro: reads_FindGroup)

lemma R_FindGroupMembers [greads]:
  "gctx T d \<Longrightarrow> plain groupId \<Longrightarrow>
   greads T d (\<lambda>vs. set vs = {m \<in> set (snd d). gmGroupID m = groupId \<and> gmUserID m \<in> set userIDs}) (FindGroupMembers T groupId userIDs)"
  by (cases d) (auto simp: gctx_def intro: reads_FindGroupMembers)

lemma R_cache_GetGroupMembersInfo [greads]:
  "gctx T d \<Longrightarrow> plain groupId \<Longrightarrow>
   greads T d (\<lambda>vs. set vs = {m \<in> set (snd d). gmGroupID m = groupId \<and> gmUserID m \<in> set userIDs}) (cache_GetGroupMembersInfo T groupId userIDs)"
  using R_FindGroupMembers by (simp only: FindGroupMembers_def)

lemma R_FindGroupMemberUser [greads]:
  "gctx T d \<Longrightarrow> (\<And>g. g \<in> set groupIDs \<Longrightarrow> plain g) \<Longrightarrow>
   greads T d (\<lambda>vs. set vs \<subseteq> {m \<in> set (snd d). gmUserID m = userID}) (FindGroupMemberUser T groupIDs userID)"
  by (cases d) (auto simp: gctx_def intro: reads_FindGroupMemberUser)

lemma R_GetAllGroupMembersInfo [greads]:
  "gctx T d \<Longrightarrow> plain groupId \<Longrightarrow> greads T d (\<lambda>vs. set vs \<subseteq> set (snd d)) (GetAllGroupMembersInfo T groupId)"
  unfolding GetAllGroupMembersInfo_def
  by (rule grp.reads_bind [OF R_cache_GetGroupMemberIDs], assumption, rule grp.reads_weaken [OF R_cache_GetGroupMembersInfo]) auto

lemma R_FindGroupMemberAll [greads]:
  "gctx T d \<Longrightarrow> plain groupId \<Longrightarrow> greads T d (\<lambda>vs. set vs \<subseteq> set (snd d)) (FindGroupMemberAll T groupId)"
  unfolding FindGroupMemberAll_def by (rule R_GetAllGroupMembersInfo)

lemma R_GetGroupRoleLevelMemberInfo [greads]:
  "gctx T d \<Longrightarrow> plain groupId \<Longrightarrow> greads T d (\<lambda>vs. \<forall>m\<in>set vs. m \<in> set (snd d) \<and> gmGroupID m = groupId) (GetGroupRoleLevelMemberInfo T groupId r)"
  unfolding GetGroupRoleLevelMemberInfo_def
  by (rule grp.reads_bind [OF R_roleIDs], assumption+, rule grp.reads_weaken [OF R_cache_GetGroupMembersInfo]) auto

lemma R_FindGroupMemberRoleLevels [greads]:
  "gctx T d \<Longrightarrow> plain groupId \<Longrightarrow> greads T d (\<lambda>vs. set vs \<subseteq> set (snd d)) (FindGroupMemberRoleLevels T groupId rs)"
  unfolding FindGroupMemberRoleLevels_def GetGroupRolesLevelMemberInfo_def
  by (rule grp.reads_bind [OF grp.reads_foldM [where Q = "\<lambda>_. True"]], rule grp.reads_bind [OF R_roleIDs], assumption+,
      rule grp.reads_ret, rule TrueI, rule TrueI, rule grp.reads_weaken [OF R_cache_GetGroupMembersInfo]) auto

lemma R_TakeGroupOwner [greads]:
  "gctx T d \<Longrightarrow> plain groupId \<Longrightarrow> greads T d (\<lambda>m. m \<in> set (snd d) \<and> gmGroupID m = groupId) (TakeGroupOwner T groupId)"
  unfolding TakeGroupOwner_def GetGroupOwner_def
  by (rule grp.reads_bind [OF R_GetGroupRoleLevelMemberInfo]) (auto intro!: grp.reads_throw grp.reads_ret)

lemma R_FindGroupsOwner [greads]:
  "gctx T d \<Longrightarrow> (\<And>g. g \<in> set groupIDs \<Longrightarrow> plain g) \<Longrightarrow> greads T d (\<lambda>_. True) (FindGroupsOwner T groupIDs)"
  unfolding FindGroupsOwner_def GetGroupsOwner_def
  by (rule grp.reads_foldM [where Q = "\<lambda>_. True"])
     (auto intro!: grp.reads_bind [OF R_GetGroupRoleLevelMemberInfo] grp.reads_bind [OF grp.reads_idx] simp del: idx_in intro: grp.reads_ret)

text \<open>The newest version of a log; a log that is not there is created.\<close>

lemma R_initDoc [greads]: "greads T d (\<lambda>_. True) (initDoc coll did ids st t)"
  unfolding initDoc_def NewObjectID_def insertVersionDoc_def Let_def
  by (intro grp.reads_bind [where Q = "\<lambda>_. True"] grp.reads_io grp.reads_still grp.reads_ret TrueI)
     (auto simp: setVersionDocs_def gdata_def split: option.split)

lemma R_now [greads]: "greads T d (\<lambda>_. True) now"
  unfolding now_def by (rule grp.reads_gets) simp

lemma R_findChangeLog [greads]: "greads T d (\<lambda>_. True) (findChangeLog coll did v l)"
proof -
  have "greads T d (\<lambda>_. True) (findDoc coll did)"
    unfolding findDoc_def by (intro grp.reads_io grp.reads_still) (simp split: option.split)
  then show ?thesis
    unfolding findChangeLog_def by (intro gflow grp.reads_bind [where Q = "\<lambda>_. True"] grp.reads_io grp.reads_gets grp.reads_idx)
qed

lemma R_FindChangeLog [greads]: "greads T d (\<lambda>_. True) (FindChangeLog coll did v l)"
  unfolding FindChangeLog_def by (intro gflow greads R_tryM grp.reads_bind [where Q = "\<lambda>_. True"])

section \<open>Other services\<close>

lemma R_GetUsersInfo [greads]: "greads T d (\<lambda>_. True) (GetUsersInfo T' ids)"
  unfolding GetUsersInfo_def by (intro gflow grp.reads_io grp.reads_liftE)

lemma R_GetUsersInfoMap [greads]: "greads T d (\<lambda>_. True) (GetUsersInfoMap T' ids)"
  unfolding GetUsersInfoMap_def by (intro gflow grp.reads_bind [OF R_GetUsersInfo])

lemma R_GetUserInfo [greads]: "greads T d (\<lambda>_. True) (GetUserInfo T' u)"
  unfolding GetUserInfo_def by (intro gflow grp.reads_bind [OF R_GetUsersInfo] grp.reads_idx)

lemma R_CheckUser [greads]: "greads T d (\<lambda>_. True) (CheckUser T' ids)"
  unfolding CheckUser_def by (intro gflow grp.reads_bind [OF R_GetUsersInfo])

lemma R_GetConversationMaxSeq [greads]: "greads T d (\<lambda>_. True) (GetConversationMaxSeq T' cid)"
  unfolding GetConversationMaxSeq_def by (intro grp.reads_io grp.reads_liftE TrueI)

lemma R_peer: "greads T d (\<lambda>_. True) (peer c)"
  unfolding peer_def by (intro grp.reads_io grp.reads_modifyM) (simp add: gdata_def)

lemma R_clients [greads]:
  "greads T d (\<lambda>_. True) (client_SetConversationMaxSeq cid us n)" "greads T d (\<lambda>_. True) (client_SetConversations cid us)"
  "greads T d (\<lambda>_. True) (client_CreateGroupChatConversations g us)" "greads T d (\<lambda>_. True) (client_SetUserConversationsMinSeq cid us n)"
  unfolding client_SetConversationMaxSeq_def client_SetConversations_def client_CreateGroupChatConversations_def client_SetUserConversationsMinSeq_def
  by (intro gflow R_peer)+

text \<open>Filling in the names of members changes neither their keys nor their roles.\<close>

definition filled :: "GroupMember list \<Rightarrow> GroupMember list \<Rightarrow> bool" where
  "filled ms ms' \<longleftrightarrow> (\<exists>h. ms' = map h ms \<and> (\<forall>m. memberKey (h m) = memberKey m \<and> gmRoleLevel (h m) = gmRoleLevel m \<and> gmMuteEndTime (h m) = gmMuteEndTime m))"

lemma filled_refl: "filled ms ms"
  unfolding filled_def by (rule exI [of _ id]) simp

lemma filled_rolls: "filled ms ms' \<Longrightarrow> rolls ms' = rolls ms"
  by (auto simp: filled_def rolls_def)

lemma R_PopulateGroupMember [greads]: "greads T d (\<lambda>ms'. filled ms ms') (PopulateGroupMember T' ms)"
proof -
  have "filled ms (map (fillMember f) ms)" for f
    unfolding filled_def by (rule exI [of _ "fillMember f"]) (simp add: fillMember_def memberKey_def split: option.split)
  then show ?thesis
    unfolding PopulateGroupMember_def by (intro gflow grp.reads_bind [OF R_GetUsersInfo] filled_refl)
qed

lemma R_getUser [greads]: "greads T d (\<lambda>_. True) (getUser T' u)"
  unfolding getUser_def by (intro gflow grp.reads_bind [OF R_GetUsersInfo] grp.reads_bind [OF grp.reads_idx])

section \<open>What the notifications read\<close>

lemma R_getGroupInfo [greads]:
  "gctx T d \<Longrightarrow> greads T d (\<lambda>i. giGroupID i = groupId \<and> plain groupId) (getGroupInfo T groupId)"
  unfolding getGroupInfo_def
  by (intro grp.reads_bind [OF R_TakeGroup] grp.reads_bind [OF R_FindGroupMemberNum] grp.reads_bind [OF R_GetGroupRoleLevelMemberIDs] grp.reads_ret)
     (auto simp: Db2PbGroupInfo_def)

lemma R_getGroupMembers [greads]: "gctx T d \<Longrightarrow> plain groupId \<Longrightarrow> greads T d (\<lambda>_. True) (getGroupMembers T groupId us)"
  unfolding getGroupMembers_def
  by (intro grp.reads_bind [OF R_FindGroupMembers] grp.reads_bind [OF R_PopulateGroupMember] gflow)

lemma R_getGroupMemberMap [greads]: "gctx T d \<Longrightarrow> plain groupId \<Longrightarrow> greads T d (\<lambda>_. True) (getGroupMemberMap T groupId us)"
  unfolding getGroupMemberMap_def by (intro grp.reads_bind [OF R_getGroupMembers] gflow)

lemma R_getGroupMember [greads]: "gctx T d \<Longrightarrow> plain groupId \<Longrightarrow> greads T d (\<lambda>_. True) (getGroupMember T groupId u)"
  unfolding getGroupMember_def by (intro grp.reads_bind [OF R_getGroupMembers] gflow grp.reads_idx)

lemma R_getGroupOwnerAndAdminUserID [greads]:
  "gctx T d \<Longrightarrow> plain groupId \<Longrightarrow> greads T d (\<lambda>_. True) (getGroupOwnerAndAdminUserID T groupId)"
  unfolding getGroupOwnerAndAdminUserID_def
  by (intro grp.reads_bind [OF R_FindGroupMemberRoleLevels] grp.reads_bind [OF R_PopulateGroupMember] gflow)

lemma R_fillUserByUserID [greads]: "gctx T d \<Longrightarrow> plain groupId \<Longrightarrow> greads T d (\<lambda>_. True) (fillUserByUserID T u t groupId)"
  unfolding fillUserByUserID_def
  by (intro grp.reads_bind [where Q = "\<lambda>_. True"] gflow R_tryM grp.reads_weaken [OF R_TakeGroupMember] R_getUser)

lemma R_fillOpUser [greads]: "gctx T d \<Longrightarrow> plain groupId \<Longrightarrow> greads T d (\<lambda>_. True) (fillOpUser T u t groupId)"
  unfolding fillOpUser_def by (rule R_fillUserByUserID)

lemma R_send [greads]: "greads T d (\<lambda>_. True) (send n)"
  unfolding send_def by (rule grp.reads_modifyM) (simp add: gdata_def)

lemma R_ctxLogs: "greads T d (\<lambda>_. True) (gets ctxLogs)"
  by (rule grp.reads_gets) simp

lemma R_sendVersion [greads]: "greads T d (\<lambda>_. True) (sendVersion T' g n)" "greads T d (\<lambda>_. True) (sendSortVersion T' g n)"
  unfolding sendVersion_def sendSortVersion_def by (intro grp.reads_bind [OF R_ctxLogs] R_send)+

lemma R_quietly: "greads T d (\<lambda>_. True) m \<Longrightarrow> greads T d (\<lambda>_. True) (quietly m)"
  unfolding quietly_def by (intro grp.reads_bind [OF R_tryM] gflow)

section \<open>The notifications\<close>

lemma R_grp [greads]:
  assumes "gctx T d" and "plain (giGroupID grp)"
  shows "greads T d (\<lambda>_. True) (GroupCreatedNotification T op grp mo ms)" "greads T d (\<lambda>_. True) (GroupInfoSetNotification T op grp mo)"
    "greads T d (\<lambda>_. True) (GroupInfoSetNameNotification T op grp mo)" "greads T d (\<lambda>_. True) (GroupInfoSetAnnouncementNotification T op grp mo)"
    "greads T d (\<lambda>_. True) (MemberKickedNotification T op grp mo ms)" "greads T d (\<lambda>_. True) (GroupDismissedNotification T op grp mo)"
  unfolding GroupCreatedNotification_def GroupInfoSetNotification_def GroupInfoSetNameNotification_def GroupInfoSetAnnouncementNotification_def
    MemberKickedNotification_def GroupDismissedNotification_def
  by (insert assms, (intro R_quietly grp.reads_bind [OF R_fillOpUser] R_sendVersion R_send; assumption)+)

lemma R_application [greads]:
  assumes "gctx T d"
  shows "greads T d (\<lambda>_. True) (JoinGroupApplicationNotification T op g u)" "greads T d (\<lambda>_. True) (GroupApplicationAcceptedNotification T op g u)"
    "greads T d (\<lambda>_. True) (GroupApplicationRejectedNotification T op g u)" "greads T d (\<lambda>_. True) (MemberQuitNotification T op mf)"
  unfolding JoinGroupApplicationNotification_def GroupApplicationAcceptedNotification_def GroupApplicationRejectedNotification_def MemberQuitNotification_def
  by (insert assms, (intro R_quietly grp.reads_bind [OF R_getGroupInfo] grp.reads_bind [OF R_getUser] grp.reads_bind [OF R_getGroupOwnerAndAdminUserID]
      grp.reads_bind [OF R_fillOpUser] grp.reads_forM R_send R_sendVersion; (assumption | simp))+)

lemma R_member [greads]:
  assumes "gctx T d"
  shows "greads T d (\<lambda>_. True) (GroupOwnerTransferredNotification T op g u1 u2)" "greads T d (\<lambda>_. True) (GroupMemberMutedNotification T op g u)"
    "greads T d (\<lambda>_. True) (GroupMemberCancelMutedNotification T op g u)" "greads T d (\<lambda>_. True) (GroupMutedNotification T op g)"
    "greads T d (\<lambda>_. True) (GroupCancelMutedNotification T op g)" "greads T d (\<lambda>_. True) (GroupMemberInfoSetNotification T op g u)"
    "greads T d (\<lambda>_. True) (GroupMemberSetToAdminNotification T op g u)" "greads T d (\<lambda>_. True) (GroupMemberSetToOrdinaryUserNotification T op g u)"
  unfolding GroupOwnerTransferredNotification_def GroupMemberMutedNotification_def GroupMemberCancelMutedNotification_def GroupMutedNotification_def
    GroupCancelMutedNotification_def GroupMemberInfoSetNotification_def GroupMemberSetToAdminNotification_def GroupMemberSetToOrdinaryUserNotification_def
  by (insert assms, (intro R_quietly grp.reads_bind [OF R_getGroupInfo] grp.reads_bind [OF R_getGroupMemberMap] grp.reads_bind [OF R_getGroupMembers]
      grp.reads_bind [OF R_fillOpUser] R_sendVersion; (assumption | simp))+)

lemma R_hideHistory [greads]: "greads T d (\<lambda>_. True) (hideHistory T' g us)"
  unfolding hideHistory_def Let_def by (intro gflow grp.reads_bind [OF R_GetConversationMaxSeq] R_clients)

lemma R_entered [greads]:
  assumes "gctx T d"
  shows "greads T d (\<lambda>_. True) (MemberEnterNotification T op g u)" "greads T d (\<lambda>_. True) (GroupApplicationAgreeMemberEnterNotification T op g inviter us)"
  unfolding MemberEnterNotification_def GroupApplicationAgreeMemberEnterNotification_def
  by (insert assms, (intro grp.reads_bind [OF R_hideHistory] grp.reads_bind [OF R_clients(3)] grp.reads_bind [OF R_getGroupInfo] grp.reads_bind [OF R_getGroupMember]
      grp.reads_bind [OF R_getGroupMembers] grp.reads_bind [OF R_tryM [OF R_fillUserByUserID]] grp.reads_bind [where Q = "\<lambda>_. True"] R_fillUserByUserID gflow R_sendVersion;
      (assumption | simp))+)

end
