(* ===== verification/Group_Runs.thy ===== *)
theory Group_Runs
  imports Group_Reads
begin

text \<open>
  Every request to the group service keeps the invariant of \<open>Group_Inv\<close>, whatever fails; sequences of requests.
\<close>

section \<open>Hooks\<close>

text \<open>
  What the web hooks and the generator of ids must respect: a hook gives nobody the role of an owner and no role that does not exist, and new groups have ids without
  a dash.
\<close>

definition server_tools_ok :: "('e group_world_scheme, 't) gserver_tools_scheme \<Rightarrow> bool" where
  "server_tools_ok T \<longleftrightarrow> group_tools_ok T \<and>
     (\<forall>x rs r n. hkMembersJoin T x = Inr rs \<and> r \<in> set rs \<and> jrRoleLevel r = Some n \<longrightarrow> n = GroupAdmin \<or> n = GroupOrdinaryUsers) \<and>
     (\<forall>x r n. hkSetMember T x = Inr r \<and> msRoleLevel r = Some n \<longrightarrow> n = GroupAdmin \<or> n = GroupOrdinaryUsers) \<and>
     (\<forall>x r g. hkCreateGroup T x = Inr r \<and> crGroupID r = Some g \<longrightarrow> plain g) \<and> (\<forall>t n. plain (gGenID T t n))"

lemma server_tools_group: "server_tools_ok T \<Longrightarrow> group_tools_ok T"
  by (simp add: server_tools_ok_def)

lemma R_hookResult: "greads T d Q m \<Longrightarrow> Q a \<Longrightarrow> greads T d Q (hookResult a m)"
  unfolding hookResult_def by (rule grp.reads_bind [OF grp.reads_tryM]) (auto intro!: grp.reads_ret grp.reads_throw split: sum.split)

lemma R_WithCondition: "greads T d Q m \<Longrightarrow> Q a \<Longrightarrow> greads T d Q (WithCondition c m a)"
  unfolding WithCondition_def by (auto intro!: grp.reads_ret)

lemma R_call: "(\<And>a. r = Inr a \<Longrightarrow> Q a) \<Longrightarrow> greads T d Q (io (liftE r))"
  by (intro grp.reads_io grp.reads_liftE)

text \<open>The members after the hook: the same keys, some roles lowered.\<close>

definition joins :: "GroupMember list \<Rightarrow> GroupMember list \<Rightarrow> bool" where
  "joins ms ms' \<longleftrightarrow> list_all2 (\<lambda>m m'. memberKey m' = memberKey m \<and>
     (gmRoleLevel m' = gmRoleLevel m \<or> gmRoleLevel m' = GroupAdmin \<or> gmRoleLevel m' = GroupOrdinaryUsers)) ms ms'"

lemma joins_refl: "joins ms ms"
  by (simp add: joins_def list_all2_same)

lemma joins_trans: "joins a b \<Longrightarrow> joins b c \<Longrightarrow> joins a c"
  unfolding joins_def by (rule list_all2_trans [of _ _ _ a b c]) auto

lemma list_all2_updFirst: "(\<And>x. R x x) \<Longrightarrow> (\<And>x. R x (f x)) \<Longrightarrow> list_all2 R xs (updFirst P f xs)"
  by (induction xs) (auto simp: list_all2_same)

lemma joins_joinReply:
  assumes "\<And>n. jrRoleLevel r = Some n \<Longrightarrow> n = GroupAdmin \<or> n = GroupOrdinaryUsers"
  shows "greads T d (joins ms) (joinReply r ms)"
proof -
  have "joins (rev ms) (updFirst (\<lambda>m. gmUserID m = u) (replaceMember r) (rev ms))" for u
    unfolding joins_def
    by (rule list_all2_updFirst) (use assms in \<open>auto simp: replaceMember_def memberKey_def NotNilReplace_def split: option.split\<close>)
  then have "joins ms (rev (updFirst (\<lambda>m. gmUserID m = u) (replaceMember r) (rev ms)))" for u
    unfolding joins_def using list_all2_rev1 by blast
  then show ?thesis unfolding joinReply_def by (auto intro!: grp.reads_throw grp.reads_ret split: option.split)
qed

lemma R_webhookBeforeMembersJoinGroup:
  assumes "server_tools_ok T"
  shows "greads T d (joins ms) (hookResult ms (webhookBeforeMembersJoinGroup T ms g gex))"
  unfolding webhookBeforeMembersJoinGroup_def
proof (intro R_hookResult R_WithCondition joins_refl grp.reads_bind [OF R_call])
  fix resp assume "hkMembersJoin T (map (\<lambda>m. (gmUserID m, gmEx m)) ms, g, gex) = Inr resp"
  with assms have r: "n = GroupAdmin \<or> n = GroupOrdinaryUsers" if "r \<in> set resp" "jrRoleLevel r = Some n" for r n
    using that unfolding server_tools_ok_def by blast
  show "greads T d (joins ms) (foldM joinReply resp ms)"
  proof (rule grp.reads_foldM)
    show "greads T d (joins ms) (joinReply r c)" if "r \<in> set resp" "joins ms c" for r c
      by (rule grp.reads_weaken [OF joins_joinReply]) (use r that joins_trans in blast)+
  qed (rule joins_refl)
qed assumption

lemma joinable_joins:
  assumes "joinable own ds gs ns" and "joins ns ns'"
  shows "joinable own ds gs ns'"
proof -
  have el: "\<exists>n\<in>set ns. memberKey n' = memberKey n \<and> (gmRoleLevel n' = gmRoleLevel n \<or> gmRoleLevel n' = GroupAdmin \<or> gmRoleLevel n' = GroupOrdinaryUsers)"
    if "n' \<in> set ns'" for n'
    using assms(2) that unfolding joins_def list_all2_conv_all_nth in_set_conv_nth by (metis nth_mem)
  have len: "length (filter isOwner ns') \<le> length (filter isOwner ns)"
    using assms(2) unfolding joins_def
    by (induction rule: list_all2_induct) (auto simp: isOwner_def GroupOwner_def GroupAdmin_def GroupOrdinaryUsers_def)
  have "isRole (gmRoleLevel n') \<and> gmGroupID n' \<in> gpGroupID ` set (ds @ gs)" if "n' \<in> set ns'" for n'
    using el [OF that] assms(1) by (auto simp: joinable_def isRole_def memberKey_def)
  moreover have "gmGroupID n' \<in> gpGroupID ` set gs" if "own" "n' \<in> set ns'" "isOwner n'" for n'
    using el [OF that(2)] assms(1) that roles_distinct by (auto simp: joinable_def isOwner_def memberKey_def)
  ultimately show ?thesis using assms(1) len by (auto simp: joinable_def)
qed

section \<open>The writes again\<close>

lemma M_UpdateGroupMember: "group_tools_ok T \<Longrightarrow> docs_typed own d \<Longrightarrow> safe_fields data \<Longrightarrow> gmoves T own d (\<lambda>_. True) (UpdateGroupMember T g u data)"
  by (cases d) (auto intro: moves_UpdateGroupMember)

lemma M_UpdateGroupMembers:
  "group_tools_ok T \<Longrightarrow> docs_typed own d \<Longrightarrow> (\<And>item. item \<in> set items \<Longrightarrow> safe_fields (buMap item)) \<Longrightarrow> gmoves T own d (\<lambda>_. True) (UpdateGroupMembers T items)"
  by (rule moves_UpdateGroupMembers)

lemma M_CreateGroup:
  "group_tools_ok T \<Longrightarrow> docs_typed own d \<Longrightarrow> \<forall>g\<in>set gs. plain (gpGroupID g) \<Longrightarrow> joinable own (fst d) gs ns \<Longrightarrow> gmoves T own d (\<lambda>_. True) (db_CreateGroup T gs ns)"
  by (cases d) (auto intro!: moves_CreateGroup)

lemma M_HandlerGroupRequest:
  "group_tools_ok T \<Longrightarrow> docs_typed own d \<Longrightarrow> (\<And>m. mo = Some m \<Longrightarrow> gmGroupID m = g \<and> joinable own (fst d) [] [m]) \<Longrightarrow>
   gmoves T own d (\<lambda>_. True) (HandlerGroupRequest T g u msg res mo)"
  by (cases d) (auto intro!: moves_HandlerGroupRequest)

lemma M_DeleteGroupMember: "group_tools_ok T \<Longrightarrow> docs_typed own d \<Longrightarrow> us \<noteq> [] \<Longrightarrow> gmoves T own d (\<lambda>_. True) (DeleteGroupMember T g us)"
  by (cases d) (auto intro: moves_DeleteGroupMember)

lemma M_UpdateGroup: "group_tools_ok T \<Longrightarrow> docs_typed own d \<Longrightarrow> gmoves T own d (\<lambda>_. True) (UpdateGroup T g args)"
  by (cases d) (auto intro: moves_UpdateGroup)

lemma M_DismissGroup: "group_tools_ok T \<Longrightarrow> docs_typed own d \<Longrightarrow> gmoves T own d (\<lambda>_. True) (db_DismissGroup T g b)"
  by (cases d) (auto intro: moves_DismissGroup)

lemma info_ids [simp]: "giGroupID (groupDB2PB g o' n) = gpGroupID g" "giGroupID (Db2PbGroupInfo g o' n) = gpGroupID g" "mfGroupID (groupMemberDB2PB m l) = gmGroupID m"
  by (simp_all add: groupDB2PB_def Db2PbGroupInfo_def groupMemberDB2PB_def)

text \<open>A write followed by notifications.\<close>

lemma write_then:
  "gmoves T own d (\<lambda>_. True) m \<Longrightarrow> (\<And>d' a. docs_typed own d' \<Longrightarrow> greads T d' (\<lambda>_. True) (f a)) \<Longrightarrow> gmoves T own d (\<lambda>_. True) (bindM m f)"
  by (rule grp.moves_then_reads)

lemmas mflow = grp.moves_if grp.moves_case_option grp.moves_case_sum grp.moves_case_prod grp.moves_throw grp.moves_ret TrueI

section \<open>The requests\<close>

lemma R_deleteMemberAndSetConversationSeq [greads]: "greads T d (\<lambda>_. True) (deleteMemberAndSetConversationSeq T' g us)"
  unfolding deleteMemberAndSetConversationSeq_def Let_def by (intro grp.reads_bind [OF R_GetConversationMaxSeq] R_clients)

lemma M_KickGroupMember:
  assumes "server_tools_ok T" and "docs_typed own d"
  shows "gmoves T own d (\<lambda>_. True) (KickGroupMember T op g us)"
  using assms(2) gctxI [OF server_tools_group [OF assms(1)] assms(2)] server_tools_group [OF assms(1)]
  unfolding KickGroupMember_def Let_def
  by - (intro mflow greads [THEN grp.moves_bind] M_DeleteGroupMember [THEN write_then]
      grp.reads_bind [OF R_grp(5)] R_deleteMemberAndSetConversationSeq; (assumption | (rule gctxI; assumption) | simp))

lemma M_QuitGroup:
  assumes "server_tools_ok T" and "docs_typed own d" and "plain g"
  shows "gmoves T own d (\<lambda>_. True) (QuitGroup T op g u)"
proof -
  have who: "greads T d (\<lambda>_. True) (if u = [] then ret op else thenM (liftE (CheckAccessV3 op u (rAdmins T))) (ret u))"
    by (intro gflow grp.reads_bind [OF grp.reads_liftE [where Q = "\<lambda>_. True"]])
  show ?thesis
    using assms(2,3) gctxI [OF server_tools_group [OF assms(1)] assms(2)] server_tools_group [OF assms(1)]
    unfolding QuitGroup_def Let_def
    by - (intro mflow who [THEN grp.moves_bind] greads [THEN grp.moves_bind] grp.reads_idx [where Q = "\<lambda>_. True", THEN grp.moves_bind]
        M_DeleteGroupMember [THEN write_then]
        grp.reads_bind [OF R_application(4)] R_deleteMemberAndSetConversationSeq; (assumption | (rule gctxI; assumption) | simp))
qed

lemma R_CheckGroupAdmin [greads]: "gctx T d \<Longrightarrow> plain g \<Longrightarrow> greads T d (\<lambda>_. True) (CheckGroupAdmin T op g)"
  unfolding CheckGroupAdmin_def by (intro gflow grp.reads_bind [OF R_TakeGroupMember])

lemma M_MuteGroup:
  assumes "server_tools_ok T" and "docs_typed own d" and "plain g"
  shows "gmoves T own d (\<lambda>_. True) (MuteGroup T op g)" "gmoves T own d (\<lambda>_. True) (CancelMuteGroup T op g)"
  using assms(2,3) gctxI [OF server_tools_group [OF assms(1)] assms(2)] server_tools_group [OF assms(1)]
  unfolding MuteGroup_def CancelMuteGroup_def
  by - (intro mflow greads [THEN grp.moves_bind] M_UpdateGroup [THEN write_then] R_member;
    (assumption | (rule gctxI; assumption) | simp))+

lemma M_MuteGroupMember:
  assumes "server_tools_ok T" and "docs_typed own d" and "plain g"
  shows "gmoves T own d (\<lambda>_. True) (MuteGroupMember T op g u n)"
proof -
  have allowed: "greads T d (\<lambda>_. True) (if \<not> isManager T op then
       bindM (TakeGroupMember T g op) (\<lambda>opMember. if \<not> muteAllowed member opMember then throw ErrNoPermission else ret ()) else ret ())" for member
    using gctxI [OF server_tools_group [OF assms(1)] assms(2)] assms(3) by (intro gflow grp.reads_bind [OF R_TakeGroupMember])
  have safe: "safe_fields (UpdateGroupMemberMutedTimeMap t)" for t by (simp add: safe_fields_def UpdateGroupMemberMutedTimeMap_def)
  show ?thesis
    using assms(2,3) safe gctxI [OF server_tools_group [OF assms(1)] assms(2)] server_tools_group [OF assms(1)]
    unfolding MuteGroupMember_def
    by - (intro mflow allowed [THEN grp.moves_bind] greads [THEN grp.moves_bind] M_UpdateGroupMember [THEN write_then] R_member;
        (assumption | (rule gctxI; assumption) | simp))
qed

lemma R_opMemberOf [greads]: "gctx T d \<Longrightarrow> plain g \<Longrightarrow> greads T d (\<lambda>_. True) (opMemberOf T op g)"
  unfolding opMemberOf_def
  by (intro gflow grp.reads_bind [OF R_TakeGroupMember] grp.reads_bind [OF R_PopulateGroupMember] grp.reads_bind [OF grp.reads_idx [where Q = "\<lambda>_. True"]])

lemma R_hooks [greads]:
  "greads T d (\<lambda>_. True) (hookResult r1 (webhookBeforeSetGroupInfo T' r1))" "greads T d (\<lambda>_. True) (hookResult r2 (webhookBeforeSetGroupInfoEx T' r2))"
  "greads T d (\<lambda>_. True) (hookResult () (webhookBeforeApplyJoinGroup T' r3))" "greads T d (\<lambda>_. True) (hookResult () (webhookBeforeInviteUserToGroup T' g us))"
  unfolding webhookBeforeSetGroupInfo_def webhookBeforeSetGroupInfoEx_def webhookBeforeApplyJoinGroup_def webhookBeforeInviteUserToGroup_def
  by (intro R_hookResult R_WithCondition grp.reads_bind [OF R_call [where Q = "\<lambda>_. True"]] R_call gflow)+

lemma R_announce [greads]: "gctx T d \<Longrightarrow> greads T d (\<lambda>_. True) (announce T g)"
  unfolding announce_def by (intro grp.reads_bind [OF R_FindGroupMemberUserID] R_quietly R_clients)

lemmas btrue = grp.reads_bind [where Q = "\<lambda>_. True"]

lemma M_SetGroupInfo:
  assumes "server_tools_ok T" and "docs_typed own d" and "plain (sfGroupID req)"
  shows "gmoves T own d (\<lambda>_. True) (SetGroupInfo T op req)"
  using assms(2,3) gctxI [OF server_tools_group [OF assms(1)] assms(2)] server_tools_group [OF assms(1)]
  unfolding SetGroupInfo_def Let_def
  by - (intro mflow greads [THEN grp.moves_bind] M_UpdateGroup [THEN write_then] grp.reads_bind [OF R_TakeGroup] btrue gflow R_quietly R_announce R_grp;
    (assumption | (rule gctxI; assumption) | simp))

lemma M_SetGroupInfoEx:
  assumes "server_tools_ok T" and "docs_typed own d" and "plain (sxGroupID req)"
  shows "gmoves T own d (\<lambda>_. True) (SetGroupInfoEx T op req)"
  using assms(2,3) gctxI [OF server_tools_group [OF assms(1)] assms(2)] server_tools_group [OF assms(1)]
  unfolding SetGroupInfoEx_def Let_def
  by - (intro mflow greads [THEN grp.moves_bind] M_UpdateGroup [THEN write_then] grp.reads_bind [OF R_TakeGroup] btrue gflow R_announce R_grp;
    (assumption | (rule gctxI; assumption) | simp))

lemma M_rpc_DismissGroup:
  assumes "server_tools_ok T" and "docs_typed own d" and "plain g"
  shows "gmoves T own d (\<lambda>_. True) (DismissGroup T op g b)"
  using assms(2,3) gctxI [OF server_tools_group [OF assms(1)] assms(2)] server_tools_group [OF assms(1)]
  unfolding DismissGroup_def Let_def
  by - (intro mflow greads [THEN grp.moves_bind] grp.reads_idx [where Q = "\<lambda>_. True", THEN grp.moves_bind] M_DismissGroup [THEN write_then]
    grp.reads_bind [OF R_FindGroupMemberNum] grp.reads_bind [OF R_FindGroupMemberUserID] btrue gflow R_grp;
    (assumption | (rule gctxI; assumption) | simp))

lemma M_CancelMuteGroupMember:
  assumes "server_tools_ok T" and "docs_typed own d" and "plain g" and R: "\<And>ms. rolls ms = rolls (snd d) \<Longrightarrow> docs_typed own (fst d, ms) \<Longrightarrow> R (fst d, ms)"
  shows "gmoves T own d R (CancelMuteGroupMember T op g u)"
proof -
  have R0: "R d" using R [of "snd d"] assms(2) by simp
  have allowed: "greads T d (\<lambda>_. True) (if \<not> isManager T op then
       bindM (TakeGroupMember T g op) (\<lambda>opMember. if \<not> muteAllowed member opMember then throw ErrNoPermission else ret ()) else ret ())" for member
    using gctxI [OF server_tools_group [OF assms(1)] assms(2)] assms(3) by (intro gflow grp.reads_bind [OF R_TakeGroupMember])
  let ?data = "UpdateGroupMemberMutedTimeMap 0"
  have upd: "gmoves T own d R (UpdateGroupMember T g' u' ?data)" for g' u'
  proof -
    have s: "safe_fields ?data" "\<not> IsUpdateRoleLevel ?data" by (simp_all add: safe_fields_def UpdateGroupMemberMutedTimeMap_def IsUpdateRoleLevel_def)
    obtain ds ms where d: "d = (ds, ms)" by fastforce
    have "R (ds, setOne g' u' (setMemberFields ?data) ms)"
      using R [OF rolls_member_Update [OF s(2)]] typed_member_Update [OF _ s(1)] assms(2) d by simp
    with R0 show ?thesis using moves_UpdateGroupMember [OF server_tools_group [OF assms(1)], of own ds ms R] assms(2) s d by blast
  qed
  show ?thesis
    using assms(2,3) R0 gctxI [OF server_tools_group [OF assms(1)] assms(2)] server_tools_group [OF assms(1)]
    unfolding CancelMuteGroupMember_def
    by - (intro mflow allowed [THEN grp.moves_bind] greads [THEN grp.moves_bind] grp.moves_then_reads [where Q = "\<lambda>_. True"] upd R_member;
        (assumption | (rule gctxI; assumption) | simp))
qed

lemma sliceMap_Some: "sliceMap f xs k = Some x \<Longrightarrow> x \<in> set xs \<and> f x = k"
  unfolding sliceMap_def by (drule map_of_SomeD) auto

lemma filled_member: "filled ms ms' \<Longrightarrow> m' \<in> set ms' \<Longrightarrow> \<exists>m\<in>set ms. memberKey m' = memberKey m \<and> gmRoleLevel m' = gmRoleLevel m"
  unfolding filled_def by auto metis

lemma in_rolls: "(k, r) \<in> set (rolls ms) \<longleftrightarrow> (\<exists>m\<in>set ms. memberKey m = k \<and> gmRoleLevel m = r)"
  by (force simp: rolls_def)

lemma transfer_facts:
  assumes d: "docs_typed own d" and ms: "set ms = {m \<in> set (snd d). gmGroupID m = g \<and> gmUserID m \<in> set [old, new]}" and f: "filled ms ms'"
    and o': "sliceMap gmUserID ms' old = Some oldOwner" and n: "sliceMap gmUserID ms' new = Some newOwner" and ne: "old \<noteq> new"
    and own: "own \<Longrightarrow> gmRoleLevel oldOwner = GroupOwner \<or> ((g, old), GroupOwner) \<in> set (rolls (snd d))"
  shows "isRole (gmRoleLevel newOwner) \<and> (own \<longrightarrow> gmRoleLevel newOwner \<noteq> GroupOwner \<and> ((g, old), GroupOwner) \<in> set (rolls (snd d)))"
proof -
  have mem: "\<exists>m\<in>set (snd d). memberKey m = (g, u) \<and> gmRoleLevel x = gmRoleLevel m" if x: "sliceMap gmUserID ms' u = Some x" for u x
  proof -
    from sliceMap_Some [OF x] filled_member [OF f] obtain m where m: "m \<in> set ms" "memberKey x = memberKey m" "gmRoleLevel x = gmRoleLevel m"
      and "gmUserID x = u" by blast
    with ms show ?thesis by (auto simp: memberKey_def intro!: bexI [of _ m])
  qed
  from mem [OF o'] obtain mo where mo: "mo \<in> set (snd d)" "memberKey mo = (g, old)" "gmRoleLevel oldOwner = gmRoleLevel mo" by blast
  from mem [OF n] obtain mn where mn: "mn \<in> set (snd d)" "memberKey mn = (g, new)" "gmRoleLevel newOwner = gmRoleLevel mn" by blast
  have "isRole (gmRoleLevel mn)" using d mn(1) by (auto simp: docs_typed_def)
  moreover have "gmRoleLevel mn \<noteq> GroupOwner \<and> ((g, old), GroupOwner) \<in> set (rolls (snd d))" if own: own
  proof -
    have r: "((g, old), GroupOwner) \<in> set (rolls (snd d))" using assms(7) [OF own] mo unfolding in_rolls by metis
    then obtain m where m: "m \<in> set (snd d)" "memberKey m = (g, old)" "gmRoleLevel m = GroupOwner" unfolding in_rolls by blast
    have "one_owner (snd d)" using d own by (cases d) (simp add: docs_typed_def)
    then have "gmRoleLevel mn \<noteq> GroupOwner" using m mn(1,2) ne unfolding one_owner_def by (metis memberKey_def prod.inject)
    with r show ?thesis by blast
  qed
  ultimately show ?thesis using mn(3) by simp
qed

lemma M_TransferGroupOwner:
  assumes "server_tools_ok T" and "docs_typed own d" and "plain g"
    and own: "own \<Longrightarrow> isManager T op \<Longrightarrow> ((g, old), GroupOwner) \<in> set (rolls (snd d))"
  shows "gmoves T own d (\<lambda>_. True) (TransferGroupOwner T op g old new)"
proof -
  note T = server_tools_group [OF assms(1)]
  have last: "gmoves T own d (\<lambda>_. True) (thenM (if late then CancelMuteGroupMember T op (gpGroupID grp) new else ret ())
      (thenM (db_TransferGroupOwner T g old new (gmRoleLevel newOwner)) (GroupOwnerTransferredNotification T op g old new)))"
    if F: "isRole (gmRoleLevel newOwner) \<and> (own \<longrightarrow> gmRoleLevel newOwner \<noteq> GroupOwner \<and> ((g, old), GroupOwner) \<in> set (rolls (snd d)))"
      and ne: "old \<noteq> new" and grp: "gpGroupID grp = g" for newOwner late grp
  proof (rule grp.moves_then [where S = "\<lambda>d'. rolls (snd d') = rolls (snd d)"])
    show "gmoves T own d (\<lambda>d'. rolls (snd d') = rolls (snd d)) (if late then CancelMuteGroupMember T op (gpGroupID grp) new else ret ())"
      using assms(2,3) grp by (auto intro!: grp.moves_ret M_CancelMuteGroupMember [OF assms(1)])
    fix d' assume d': "docs_typed own d'" "rolls (snd d') = rolls (snd d)"
    obtain ds ms where dm: "d' = (ds, ms)" by fastforce
    have "gmoves T own d' (\<lambda>_. True) (db_TransferGroupOwner T g old new (gmRoleLevel newOwner))"
      unfolding dm
    proof (rule moves_TransferGroupOwner [OF T])
      show "gmRoleLevel newOwner \<noteq> GroupOwner \<and> (\<exists>m\<in>set ms. memberKey m = (g, old) \<and> gmRoleLevel m = GroupOwner)" if own
        using F that d'(2) dm in_rolls [of "(g, old)" GroupOwner ms] by auto
    qed (use F ne d' dm in auto)
    then show "gmoves T own d' (\<lambda>_. True) (thenM (db_TransferGroupOwner T g old new (gmRoleLevel newOwner)) (GroupOwnerTransferredNotification T op g old new))"
      by (rule write_then) (rule R_member [OF gctxI [OF T]])
  qed simp
  note G = gctxI [OF T assms(2)]
  show ?thesis
    unfolding TransferGroupOwner_def Let_def
  proof (rule grp.moves_bind [OF R_TakeGroup [OF G] assms(2) TrueI], rule grp.moves_if, rule grp.moves_throw [OF assms(2) TrueI],
      rule grp.moves_if, rule grp.moves_throw [OF assms(2) TrueI], rule grp.moves_bind [OF R_FindGroupMembers [OF G assms(3)] assms(2) TrueI],
      rule grp.moves_bind [OF R_PopulateGroupMember assms(2) TrueI], rule grp.moves_if, rule grp.moves_throw [OF assms(2) TrueI],
      rule grp.moves_case_option, rule grp.moves_throw [OF assms(2) TrueI], rule grp.moves_case_option, rule grp.moves_throw [OF assms(2) TrueI],
      rule grp.moves_if, rule grp.moves_throw [OF assms(2) TrueI], rule grp.moves_bind [OF R_now assms(2) TrueI], rule last, goal_cases)
    case (1 grp ms ms' oldOwner newOwner t)
    show ?case
      by (rule transfer_facts [OF assms(2) 1(4,5,7,8)]) (use 1 own in auto)
  qed auto
qed

lemma groupRequests_keys: "x \<in> set (groupRequests reqs) \<Longrightarrow> fst x \<in> smGroupID ` set reqs"
proof -
  have "fst ` set (AList.update k v m) = {k} \<union> fst ` set m" for k :: string and v :: "SetGroupMemberInfo list" and m
    by (induction m) auto
  then have "fst ` set (groupRequests reqs) = smGroupID ` set reqs"
    unfolding groupRequests_def by (induction reqs rule: rev_induct) auto
  then show "x \<in> set (groupRequests reqs) \<Longrightarrow> fst x \<in> smGroupID ` set reqs" by blast
qed

lemma R_checkSetMembers [greads]:
  assumes "gctx T d" and "plain (fst gm)"
  shows "greads T d (\<lambda>_. True) (checkSetMembers T op reqs gm)"
  using assms unfolding checkSetMembers_def Let_def
  by - (cases gm, simp only: prod.case, intro gflow grp.reads_bind [OF R_FindGroupMembers]; simp)

lemma R_memberChanged [greads]: "gctx T d \<Longrightarrow> greads T d (\<lambda>_. True) (memberChanged T op m)"
  unfolding memberChanged_def by (intro btrue gflow R_member)

definition safe_request :: "SetGroupMemberInfo \<Rightarrow> bool" where
  "safe_request r \<longleftrightarrow> (\<forall>n. smRoleLevel r = Some n \<longrightarrow> n = GroupAdmin \<or> n = GroupOrdinaryUsers)"

lemma R_webhookBeforeSetGroupMemberInfo:
  assumes "server_tools_ok T" and "safe_request r"
  shows "greads T d safe_request (hookResult r (webhookBeforeSetGroupMemberInfo T r))"
  unfolding webhookBeforeSetGroupMemberInfo_def
proof (intro R_hookResult R_WithCondition grp.reads_bind [OF R_call] grp.reads_ret)
  fix resp assume "hkSetMember T r = Inr resp"
  with assms have "n = GroupAdmin \<or> n = GroupOrdinaryUsers" if "msRoleLevel resp = Some n" for n
    using that unfolding server_tools_ok_def by blast
  with assms(2) show "safe_request (r\<lparr>smFaceURL := (case msFaceURL resp of None \<Rightarrow> smFaceURL r | Some s \<Rightarrow> Some s),
        smNickname := (case msNickname resp of None \<Rightarrow> smNickname r | Some s \<Rightarrow> Some s),
        smRoleLevel := (case msRoleLevel resp of None \<Rightarrow> smRoleLevel r | Some n \<Rightarrow> Some n),
        smEx := (case msEx resp of None \<Rightarrow> smEx r | Some s \<Rightarrow> Some s)\<rparr>)"
    by (auto simp: safe_request_def split: option.split)
qed (use assms in auto)

lemma M_SetGroupMemberInfo:
  assumes "server_tools_ok T" and "docs_typed own d" and "\<forall>r\<in>set reqs. plain (smGroupID r)"
  shows "gmoves T own d (\<lambda>_. True) (SetGroupMemberInfo T op reqs)"
proof -
  note T = server_tools_group [OF assms(1)]
  note G = gctxI [OF T assms(2)]
  have check: "greads T d (\<lambda>_. True) (forM (groupRequests reqs) (checkSetMembers T op reqs))"
    by (rule grp.reads_forM, rule R_checkSetMembers [OF G]) (use groupRequests_keys assms(3) in force)
  have hooks: "greads T d (\<lambda>rs. \<forall>r\<in>set rs. safe_request r)
      (foldM (\<lambda>r acc. bindM (hookResult r (webhookBeforeSetGroupMemberInfo T r)) (\<lambda>r. ret (acc @ [r]))) reqs [])"
    if "\<forall>r\<in>set reqs. safe_request r"
    by (rule grp.reads_foldM, rule grp.reads_bind [OF R_webhookBeforeSetGroupMemberInfo [OF assms(1)]]) (use that in \<open>auto intro!: grp.reads_ret\<close>)
  have safe: "safe_fields (buMap \<lparr>buGroupID = g, buUserID = u, buMap = UpdateGroupMemberMap e\<rparr>)" if "safe_request e" for g u e
    using that by (auto simp: safe_fields_def safe_request_def UpdateGroupMemberMap_def optField_def split: option.splits)
  show ?thesis
    unfolding SetGroupMemberInfo_def
  proof (intro grp.moves_if grp.moves_throw [OF assms(2) TrueI] grp.moves_case_option, goal_cases)
    case 1
    have "\<forall>r\<in>set reqs. safe_request r"
    proof
      fix r assume "r \<in> set reqs"
      with 1 have "roleError r = None" by (auto simp: find_None_iff)
      then show "safe_request r" by (auto simp: roleError_def safe_request_def split: option.splits if_splits)
    qed
    note hooks = hooks [OF this]
    show ?case
    proof (rule grp.moves_bind [OF check assms(2) TrueI], rule grp.moves_bind [OF hooks assms(2) TrueI], rule write_then)
      fix a :: unit and rs assume rs: "\<forall>r\<in>set rs. safe_request r"
      show "gmoves T own d (\<lambda>_. True) (UpdateGroupMembers T (map (\<lambda>e. \<lparr>buGroupID = smGroupID e, buUserID = smUserID e, buMap = UpdateGroupMemberMap e\<rparr>) rs))"
        by (rule M_UpdateGroupMembers [OF T assms(2)]) (use safe rs in auto)
      show "greads T d' (\<lambda>_. True) (forM rs (memberChanged T op))" if "docs_typed own d'" for d'
        by (rule grp.reads_forM, rule R_memberChanged [OF gctxI [OF T that]])
    qed
  qed
qed

lemma R_MemberGroupIncrVersion [greads]: "gctx T d \<Longrightarrow> greads T d (\<lambda>_. True) (MemberGroupIncrVersion T g us st)"
  unfolding MemberGroupIncrVersion_def member_MemberGroupIncrVersion_def
  by (intro btrue grp.reads_still IncrVersion_still reads_groupChainDel) (simp add: gctx_def)

lemma R_group_NotificationUserInfoUpdate [greads]: "gctx T d \<Longrightarrow> greads T d (\<lambda>_. True) (group_NotificationUserInfoUpdate T op u)"
  unfolding group_NotificationUserInfoUpdate_def Let_def DeleteGroupMemberHash_def
  by (intro grp.reads_bind [OF R_FindGroupMemberUser] btrue grp.reads_forM R_MemberGroupIncrVersion R_member gflow reads_groupChainDel;
    (assumption | simp add: gctx_def))

section \<open>Requests that add members\<close>

lemma joinable_ordinary:
  assumes "\<And>n. n \<in> set ns \<Longrightarrow> gmRoleLevel n = GroupOrdinaryUsers \<and> gmGroupID n \<in> gpGroupID ` set ds"
  shows "joinable own ds [] ns"
proof -
  have "\<not> isOwner n" if "n \<in> set ns" for n using assms [OF that] by (simp add: isOwner_def GroupOwner_def GroupOrdinaryUsers_def)
  then have "filter isOwner ns = []" by (simp add: filter_empty_conv)
  with assms \<open>\<And>n. n \<in> set ns \<Longrightarrow> \<not> isOwner n\<close> show ?thesis by (auto simp: joinable_def isRole_def)
qed

lemma newMember_simps [simp]:
  "gmGroupID (newMember g u r i s o' t) = g" "gmUserID (newMember g u r i s o' t) = u" "gmRoleLevel (newMember g u r i s o' t) = r"
  by (simp_all add: newMember_def)

lemma M_InviteUserToGroup:
  assumes "server_tools_ok T" and "docs_typed own d" and "plain g"
  shows "gmoves T own d (\<lambda>_. True) (InviteUserToGroup T op g us)"
proof -
  note T = server_tools_group [OF assms(1)]
  note G = gctxI [OF T assms(2)]
  have who: "greads T d (\<lambda>_. True) (if isManager T op then ret None
      else bindM (TakeGroupMember T g u) (\<lambda>m. bindM (PopulateGroupMember T [m]) (\<lambda>ms. bindM (idx ms 0) (\<lambda>m. ret (Some m)))))" for u
    by (intro gflow grp.reads_bind [OF R_TakeGroupMember] grp.reads_bind [OF R_PopulateGroupMember] grp.reads_bind [OF grp.reads_idx [where Q = "\<lambda>_. True"]] G assms(3))
  have join: "greads T d (\<lambda>_. True) (thenM (CreateGroupRequest T rs) (forM us (\<lambda>u. JoinGroupApplicationNotification T op g u')))" for rs u'
    by (intro grp.reads_bind [OF reads_CreateGroupRequest [OF T]] grp.reads_forM R_application(1) [OF G])
  have add: "gmoves T own d (\<lambda>_. True) (bindM (hookResult ms (webhookBeforeMembersJoinGroup T ms (gpGroupID grp) gex)) (\<lambda>ms.
      thenM (db_CreateGroup T [] ms) (GroupApplicationAgreeMemberEnterNotification T op g inviter us)))"
    if "grp \<in> set (fst d) \<and> gpGroupID grp = g \<and> plain g" and ms: "ms = map (\<lambda>u. newMember g u GroupOrdinaryUsers a JoinByInvitation b t) us" for grp ms gex inviter a b t
  proof (rule grp.moves_bind [OF R_webhookBeforeMembersJoinGroup [OF assms(1)] assms(2) TrueI], rule write_then)
    fix ms' assume j: "joins ms ms'"
    have "joinable own (fst d) [] ms" by (rule joinable_ordinary) (use that in auto)
    from joinable_joins [OF this j] show "gmoves T own d (\<lambda>_. True) (db_CreateGroup T [] ms')"
      by (intro M_CreateGroup [OF T assms(2)]) simp_all
  qed (rule R_entered [OF gctxI [OF T]])
  show ?thesis
    unfolding InviteUserToGroup_def Let_def
    by (intro mflow grp.moves_bind [OF R_TakeGroup [OF G]] grp.moves_bind [OF R_GetUsersInfo] grp.moves_bind [OF who] grp.moves_bind [OF R_hooks(4)]
        grp.moves_bind [OF R_now] grp.moves_reads [OF join] add; (rule assms(2) TrueI refl | assumption))
qed

lemma M_JoinGroup:
  assumes "server_tools_ok T" and "docs_typed own d" and "plain g"
  shows "gmoves T own d (\<lambda>_. True) (JoinGroup T op g u msg src gex)"
proof -
  note T = server_tools_group [OF assms(1)]
  note G = gctxI [OF T assms(2)]
  have ask: "greads T d (\<lambda>_. True) (thenM (CreateGroupRequest T rs) (JoinGroupApplicationNotification T op g u))" for rs
    by (intro grp.reads_bind [OF reads_CreateGroupRequest [OF T]] R_application(1) [OF G])
  have add: "gmoves T own d (\<lambda>_. True) (bindM (hookResult ms (webhookBeforeMembersJoinGroup T ms (gpGroupID grp) gex)) (\<lambda>ms.
      thenM (db_CreateGroup T [] ms) (MemberEnterNotification T op g u)))"
    if "grp \<in> set (fst d) \<and> gpGroupID grp = g \<and> plain g" and ms: "ms = [newMember (gpGroupID grp) v GroupOrdinaryUsers u 0 op t]" for grp ms gex v t
  proof (rule grp.moves_bind [OF R_webhookBeforeMembersJoinGroup [OF assms(1)] assms(2) TrueI], rule write_then)
    fix ms' assume j: "joins ms ms'"
    have "joinable own (fst d) [] ms" by (rule joinable_ordinary) (use that in auto)
    from joinable_joins [OF this j] show "gmoves T own d (\<lambda>_. True) (db_CreateGroup T [] ms')"
      by (intro M_CreateGroup [OF T assms(2)]) simp_all
  qed (rule R_entered [OF gctxI [OF T]])
  show ?thesis
    unfolding JoinGroup_def Let_def
    by (intro mflow grp.moves_bind [OF R_GetUserInfo] grp.moves_bind [OF R_TakeGroup [OF G]] grp.moves_bind [OF R_hooks(3)]
        grp.moves_bind [OF grp.reads_tryM [OF R_TakeGroupMember [OF G assms(3)]]] grp.moves_bind [OF R_now] grp.moves_reads [OF ask] add;
        (rule assms(2) TrueI refl | assumption))
qed

lemma R_idx: "greads T d (\<lambda>x. x \<in> set xs) (idx xs i)"
  by (rule grp.reads_idx)

lemma R_TakeGroupRequest [greads]: "greads T d (\<lambda>_. True) (TakeGroupRequest g u)"
  unfolding TakeGroupRequest_def greq_Take_def by (intro grp.reads_io grp.reads_still) (simp split: option.split)

lemma M_GroupApplicationResponse:
  assumes "server_tools_ok T" and "docs_typed own d" and "plain g"
  shows "gmoves T own d (\<lambda>_. True) (GroupApplicationResponse T op g u msg res)"
proof -
  note T = server_tools_group [OF assms(1)]
  note G = gctxI [OF T assms(2)]
  have inGroup: "greads T d (\<lambda>_. True) (bindM (tryM (TakeGroupMember T g u)) (\<lambda>r. case r of
      Inr _ \<Rightarrow> ret True | Inl err \<Rightarrow> if \<not> gNotFound T err then throw err else ret False))"
    by (intro grp.reads_bind [OF grp.reads_tryM [OF R_TakeGroupMember [OF G assms(3)]]] gflow)
  have mem: "greads T d (\<lambda>mo. \<forall>m. mo = Some m \<longrightarrow> gmGroupID m = g \<and> joinable own (fst d) [] [m])
      (if c then bindM (hookResult ms (webhookBeforeMembersJoinGroup T ms (gpGroupID grp) gex)) (\<lambda>ms. bindM (idx ms 0) (\<lambda>m. ret (Some m))) else ret None)"
    if g: "grp \<in> set (fst d) \<and> gpGroupID grp = g \<and> plain g" and ms: "ms = [newMember g u GroupOrdinaryUsers a n b t]" for c grp ms gex a n b t
  proof (intro grp.reads_if)
    show "greads T d (\<lambda>mo. \<forall>m. mo = Some m \<longrightarrow> gmGroupID m = g \<and> joinable own (fst d) [] [m])
        (bindM (hookResult ms (webhookBeforeMembersJoinGroup T ms (gpGroupID grp) gex)) (\<lambda>ms. bindM (idx ms 0) (\<lambda>m. ret (Some m))))"
    proof (rule grp.reads_bind [OF R_webhookBeforeMembersJoinGroup [OF assms(1)]], rule grp.reads_bind [OF R_idx], rule grp.reads_ret)
      fix ms' m assume j: "joins ms ms'" and m: "m \<in> set ms'"
      have "joinable own (fst d) [] ms" by (rule joinable_ordinary) (use g ms in auto)
      from joinable_joins [OF this j] have "joinable own (fst d) [] ms'" .
      moreover have "ms' = [m] \<and> gmGroupID m = g" using j m ms by (auto simp: joins_def list_all2_Cons1 memberKey_def)
      ultimately show "\<forall>m'. Some m = Some m' \<longrightarrow> gmGroupID m' = g \<and> joinable own (fst d) [] [m']" by simp
    qed
  qed (simp add: grp.reads_ret)
  have rest: "greads T d' (\<lambda>_. True) (if c1 then thenM (GroupApplicationAcceptedNotification T op g u)
        (if c2 then ret () else if c3 then MemberEnterNotification T op g u else GroupApplicationAgreeMemberEnterNotification T op g v us)
      else GroupApplicationRejectedNotification T op g u)" if "docs_typed own d'" for d' c1 c2 c3 v us
    by (intro gflow btrue R_application R_entered gctxI [OF T that])
  show ?thesis
    unfolding GroupApplicationResponse_def Let_def
  proof (intro mflow grp.moves_bind [OF R_CheckGroupAdmin [OF G assms(3)]] grp.moves_bind [OF R_TakeGroup [OF G]] grp.moves_bind [OF R_TakeGroupRequest]
      grp.moves_bind [OF inGroup] grp.moves_bind [OF R_CheckUser] grp.moves_bind [OF R_now] grp.moves_bind [OF mem] write_then [OF M_HandlerGroupRequest [OF T]] rest;
      (rule assms(2) TrueI refl | assumption)?)
  qed auto
qed

section \<open>Creating a group\<close>

lemma R_GenGroupID:
  assumes "server_tools_ok T" and "docs_typed own d" and "plain g"
  shows "greads T d plain (GenGroupID T g)"
proof -
  note G = gctxI [OF server_tools_group [OF assms(1)] assms(2)]
  have gen: "plain (gGenID T t n)" for t n using assms(1) by (simp add: server_tools_ok_def)
  have loop: "greads T d plain (GenGroupID_loop T n)" for n
  proof (induction n)
    case (Suc n)
    show ?case unfolding GenGroupID_loop.simps Let_def
      by (intro gflow grp.reads_bind [OF R_now] grp.reads_bind [OF grp.reads_tryM [OF R_TakeGroup [OF G]]] Suc.IH gen)
  qed (simp only: GenGroupID_loop.simps grp.reads_throw)
  show ?thesis unfolding GenGroupID_def
    by (intro gflow loop grp.reads_bind [OF grp.reads_tryM [OF R_TakeGroup [OF G]]] assms(3))
qed

lemma R_webhookBeforeCreateGroup:
  assumes "server_tools_ok T" and "plain (giGroupID (cgGroupInfo req))"
  shows "greads T d (\<lambda>r. plain (giGroupID (cgGroupInfo r))) (hookResult req (webhookBeforeCreateGroup T req))"
  unfolding webhookBeforeCreateGroup_def
proof (intro R_hookResult R_WithCondition grp.reads_bind [OF R_call] grp.reads_ret)
  fix resp assume "hkCreateGroup T req = Inr resp"
  with assms have "crGroupID resp = Some g \<Longrightarrow> plain g" for g unfolding server_tools_ok_def by blast
  with assms(2) have "plain (NotNilReplace (crGroupID resp) (giGroupID (cgGroupInfo req)))" by (simp add: NotNilReplace_def split: option.split)
  then show "hkCreateGroup T req = Inr resp \<Longrightarrow> plain (NotNilReplace (crGroupID resp) (giGroupID (cgGroupInfo req)))" .
qed (use assms(2) in simp_all)

lemma R_createdMembers [greads]: "greads T d (\<lambda>_. True) (createdMembers f op ms)"
proof (induction ms)
  case (Cons m ms)
  then show ?case unfolding createdMembers.simps Let_def levelOf_def by (intro btrue gflow)
qed (simp only: createdMembers.simps, intro gflow)

lemma joinable_created:
  assumes "gpGroupID grp = g"
  shows "joinable own ds [grp] (createdGroup req g t op)"
proof -
  have "filter isOwner (map (\<lambda>u. newMember g u GroupAdmin a b c t) us) = []" "filter isOwner (map (\<lambda>u. newMember g u GroupOrdinaryUsers a b c t) us) = []"
    for us a b c by (auto simp: filter_empty_conv isOwner_def GroupOwner_def GroupAdmin_def GroupOrdinaryUsers_def)
  then have "length (filter isOwner (createdGroup req g t op)) \<le> 1" by (simp add: createdGroup_def Let_def)
  moreover have "isRole (gmRoleLevel n) \<and> gmGroupID n = g" if "n \<in> set (createdGroup req g t op)" for n
    using that by (auto simp: createdGroup_def Let_def isRole_def)
  ultimately show ?thesis using assms by (auto simp: joinable_def)
qed

lemma M_rpc_CreateGroup:
  assumes "server_tools_ok T" and "docs_typed own d" and "plain (giGroupID (cgGroupInfo req))"
  shows "gmoves T own d (\<lambda>_. True) (CreateGroup T op req)"
proof -
  note T = server_tools_group [OF assms(1)]
  have access: "greads T d (\<lambda>_. True) (liftE (CheckAccessV3 op u admins))" for u admins by (rule grp.reads_liftE) simp
  have tell: "greads T d' (\<lambda>_. True) (bindM (idx ms 0) (\<lambda>m0. bindM (levelOf f (gmUserID m0)) (\<lambda>u0. bindM (createdMembers f op ms) (\<lambda>(memberList, opUser).
       thenM (GroupCreatedNotification T op info opUser (groupMemberDB2PB m0 (uiAppMangerLevel u0) # memberList))
       (thenM (if c then GroupInfoSetAnnouncementNotification T op info opUser else ret ()) (ret info))))))"
    if "docs_typed own d'" and "plain (giGroupID info)" for d' ms f info c
    unfolding levelOf_def by (intro btrue gflow grp.reads_idx R_createdMembers R_grp gctxI [OF T that(1)] that(2))
  show ?thesis
    unfolding CreateGroup_def Let_def
  proof (intro grp.moves_if grp.moves_throw [OF assms(2) TrueI] grp.moves_bind [OF access assms(2) TrueI] grp.moves_bind [OF R_GetUsersInfo assms(2) TrueI]
      grp.moves_bind [OF R_webhookBeforeCreateGroup [OF assms(1,3)] assms(2) TrueI] grp.moves_bind [OF R_now assms(2) TrueI], goal_cases)
    case (1 _ users r t)
    have p: "plain (gpGroupID (Pb2DBGroupInfo t (cgGroupInfo r)))" using 1 by (simp add: Pb2DBGroupInfo_def)
    show ?case
    proof (rule grp.moves_bind [OF R_GenGroupID [OF assms(1,2) p] assms(2) TrueI],
        rule grp.moves_bind [OF R_webhookBeforeMembersJoinGroup [OF assms(1)] assms(2) TrueI], rule write_then)
      fix g ms assume g: "plain g" and j: "joins (createdGroup r g t op) ms"
      show "gmoves T own d (\<lambda>_. True) (db_CreateGroup T [(Pb2DBGroupInfo t (cgGroupInfo r))\<lparr>gpGroupID := g\<rparr>] ms)"
        by (rule M_CreateGroup [OF T assms(2)]) (use g joinable_joins [OF joinable_created j] in simp_all)
    qed (rule tell, assumption, simp)
  qed
qed

end
