(* ===== verification/Group_Steps.thy ===== *)
theory Group_Steps
  imports Group_Runs
begin

text \<open>
  Sequences of requests to the group service. One step is a request of any kind with any outcome, or the loss of cached texts; every step keeps the documents
  well typed, the cache coherent with them and, when groups are handed over by their owners, at most one owner in each group.
\<close>

section \<open>Sequences of requests\<close>

text \<open>
  A request of any kind, with any outcome, or the loss of cached texts. Group ids in requests are without a dash. With \<open>own\<close>, an app manager hands a group over only
  from its owner.
\<close>

inductive group_step :: "('e group_world_scheme, 't) gserver_tools_scheme \<Rightarrow> bool \<Rightarrow> 'e group_world_scheme \<Rightarrow> 'e group_world_scheme \<Rightarrow> bool"
  for T own where
  expire: "group_step T own w (w\<lparr>rocks := rocks w |` keys\<rparr>)"
| create: "plain (giGroupID (cgGroupInfo req)) \<Longrightarrow> group_step T own w (snd (CreateGroup T op req w))"
| invite: "plain g \<Longrightarrow> group_step T own w (snd (InviteUserToGroup T op g us w))"
| kick: "group_step T own w (snd (KickGroupMember T op g us w))"
| respond: "plain g \<Longrightarrow> group_step T own w (snd (GroupApplicationResponse T op g u msg res w))"
| join: "plain g \<Longrightarrow> group_step T own w (snd (JoinGroup T op g u msg src gex w))"
| quit: "plain g \<Longrightarrow> group_step T own w (snd (QuitGroup T op g u w))"
| set_info: "plain (sfGroupID info1) \<Longrightarrow> group_step T own w (snd (SetGroupInfo T op info1 w))"
| set_info_ex: "plain (sxGroupID info2) \<Longrightarrow> group_step T own w (snd (SetGroupInfoEx T op info2 w))"
| dismiss: "plain g \<Longrightarrow> group_step T own w (snd (DismissGroup T op g deleteMember w))"
| mute: "plain g \<Longrightarrow> group_step T own w (snd (MuteGroup T op g w))"
| unmute: "plain g \<Longrightarrow> group_step T own w (snd (CancelMuteGroup T op g w))"
| mute_member: "plain g \<Longrightarrow> group_step T own w (snd (MuteGroupMember T op g u n w))"
| unmute_member: "plain g \<Longrightarrow> group_step T own w (snd (CancelMuteGroupMember T op g u w))"
| transfer: "plain g \<Longrightarrow> (own \<Longrightarrow> isManager T op \<Longrightarrow> ((g, old), GroupOwner) \<in> set (rolls (memberDocs w))) \<Longrightarrow>
    group_step T own w (snd (TransferGroupOwner T op g old new w))"
| set_members: "\<forall>r\<in>set reqs. plain (smGroupID r) \<Longrightarrow> group_step T own w (snd (SetGroupMemberInfo T op reqs w))"
| user_changed: "group_step T own w (snd (group_NotificationUserInfoUpdate T op u w))"
| get_groups: "\<forall>g\<in>set gids. plain g \<Longrightarrow> group_step T own w (snd (GetGroupsInfo T gids w))"
| get_members: "plain g \<Longrightarrow> group_step T own w (snd (GetGroupMembersInfo T g us w))"
| get_all_members: "plain g \<Longrightarrow> group_step T own w (snd (GetGroupAllMember T g w))"
| get_joined: "group_step T own w (snd (GetJoinedGroupList T op u p w))"
| get_hash: "plain g \<Longrightarrow> group_step T own w (snd (GetGroupMembersHash T g w))"
| get_full_ids: "group_step T own w (snd (GetFullGroupMemberUserIDs T g h w))"

lemma moves_step: "(\<And>d. docs_typed own d \<Longrightarrow> d = gdata w \<Longrightarrow> gmoves T own d (\<lambda>_. True) m) \<Longrightarrow> ginv T own w \<Longrightarrow> ginv T own (snd (m w))"
  unfolding grp.inv_sees grp.moves_def by (simp add: grp.inv_def grp.sees_def)

lemma reads_step:
  fixes T :: "('e group_world_scheme, 't) group_tools_scheme"
  assumes "group_tools_ok T" and "\<And>d. gctx T d \<Longrightarrow> docs_typed own d \<Longrightarrow> greads T d (\<lambda>_. True) m" and "ginv T own w"
  shows "ginv T own (snd (m w))"
  by (rule moves_step [OF grp.moves_reads [OF assms(2)] assms(3)]) (use gctxI [OF assms(1)] in auto)

lemma R_getGroupMembersInfo [greads]: "gctx T d \<Longrightarrow> plain g \<Longrightarrow> greads T d (\<lambda>_. True) (getGroupMembersInfo T g us)"
  unfolding getGroupMembersInfo_def by (intro gflow grp.reads_bind [OF R_FindGroupMembers] grp.reads_bind [OF R_PopulateGroupMember])

lemma R_GetGroupMembersInfo [greads]: "gctx T d \<Longrightarrow> plain g \<Longrightarrow> greads T d (\<lambda>_. True) (GetGroupMembersInfo T g us)"
  unfolding GetGroupMembersInfo_def by (intro gflow R_getGroupMembersInfo)

lemma R_GetGroupAllMember [greads]: "gctx T d \<Longrightarrow> plain g \<Longrightarrow> greads T d (\<lambda>_. True) (GetGroupAllMember T g)"
  unfolding GetGroupAllMember_def by (intro gflow grp.reads_bind [OF R_FindGroupMemberAll] grp.reads_bind [OF R_PopulateGroupMember])

lemma R_MapGroupMemberNum [greads]: "greads T d (\<lambda>_. True) (MapGroupMemberNum gs)"
  unfolding MapGroupMemberNum_def by (intro grp.reads_foldM [where Q = "\<lambda>_. True"] grp.reads_bind [OF R_GetGroupMemberNum] gflow)

lemma R_getGroupsInfo [greads]: "gctx T d \<Longrightarrow> \<forall>g\<in>set gids. plain g \<Longrightarrow> greads T d (\<lambda>_. True) (getGroupsInfo T gids)"
  unfolding getGroupsInfo_def Let_def
  by (intro gflow grp.reads_bind [OF R_FindGroup] grp.reads_bind [OF R_MapGroupMemberNum] grp.reads_bind [OF R_FindGroupsOwner]
      grp.reads_bind [OF R_PopulateGroupMember]; blast)

lemma R_GetGroupsInfo [greads]: "gctx T d \<Longrightarrow> \<forall>g\<in>set gids. plain g \<Longrightarrow> greads T d (\<lambda>_. True) (GetGroupsInfo T gids)"
  unfolding GetGroupsInfo_def by (intro gflow R_getGroupsInfo)

lemma set_Paginate: "set (Paginate T xs p) \<subseteq> set xs"
  unfolding Paginate_def by auto

lemma R_PageGetJoinGroup:
  assumes "gctx T d"
  shows "greads T d (\<lambda>r. \<forall>m\<in>set (snd r). plain (gmGroupID m)) (PageGetJoinGroup T u p)"
proof -
  have "greads T d (\<lambda>ms. \<forall>m\<in>set ms. plain (gmGroupID m))
      (foldM (\<lambda>groupId acc. bindM (cache_GetGroupMembersInfo T groupId [u]) (\<lambda>ms. ret (acc @ ms))) (Paginate T gids p) [])"
    if "\<forall>g\<in>set gids. plain g" for gids
    using that subsetD [OF set_Paginate [of T gids p]] assms
    by (intro grp.reads_foldM) (auto intro!: grp.reads_bind [OF R_cache_GetGroupMembersInfo] grp.reads_ret)
  then show ?thesis
    unfolding PageGetJoinGroup_def using assms
    by (intro grp.reads_bind [OF R_GetJoinedGroupIDs]) (auto intro!: grp.reads_bind grp.reads_ret)
qed

lemma R_GetJoinedGroupList [greads]: "gctx T d \<Longrightarrow> greads T d (\<lambda>_. True) (GetJoinedGroupList T op u p)"
  unfolding GetJoinedGroupList_def Let_def
  by (intro grp.reads_bind [OF grp.reads_liftE [where Q = "\<lambda>_. True"]] grp.reads_bind [OF R_PageGetJoinGroup] gflow grp.reads_bind [OF R_FindGroup]
      grp.reads_bind [OF R_MapGroupMemberNum] grp.reads_bind [OF R_FindGroupsOwner] grp.reads_bind [OF R_PopulateGroupMember]; auto)

lemma R_GetGroupHash [greads]: "gctx T d \<Longrightarrow> plain g \<Longrightarrow> greads T d (\<lambda>_. True) (GetGroupHash T g)"
  unfolding GetGroupHash_def GetGroupMemberUserIDs_def Let_def
  by (intro grp.reads_bind [OF R_FindGroupMemberUserID] btrue gflow R_GetGroupMembersInfo)

lemma R_GetGroupMembersHash [greads]: "gctx T d \<Longrightarrow> plain g \<Longrightarrow> greads T d (\<lambda>_. True) (GetGroupMembersHash T g)"
  unfolding GetGroupMembersHash_def by (intro grp.reads_free_getCache R_GetGroupHash entry_free)

lemma R_FindMaxGroupMemberVersionCache [greads]: "greads T d (\<lambda>_. True) (FindMaxGroupMemberVersionCache T g)"
  unfolding FindMaxGroupMemberVersionCache_def FindMaxGroupMemberVersion_def member_FindMemberIncrVersion_def
  by (intro grp.reads_free_getCache R_FindChangeLog entry_free)

lemma R_GetFullGroupMemberUserIDs [greads]: "gctx T d \<Longrightarrow> greads T d (\<lambda>_. True) (GetFullGroupMemberUserIDs T g h)"
  unfolding GetFullGroupMemberUserIDs_def Let_def
  by (intro grp.reads_bind [OF R_FindMaxGroupMemberVersionCache] grp.reads_bind [OF R_FindGroupMemberUserID] gflow)

text \<open>One step.\<close>

lemma group_step_inv:
  fixes T :: "('e group_world_scheme, 't) gserver_tools_scheme"
  assumes tools: "server_tools_ok T" and step: "group_step T own w w'" and inv0: "ginv T own w"
  shows "ginv T own w'"
proof -
  note G = server_tools_group [OF tools]
  note M = M_KickGroupMember [OF tools] M_QuitGroup [OF tools] M_MuteGroup [OF tools] M_MuteGroupMember [OF tools]
    M_CancelMuteGroupMember [OF tools, where R = "\<lambda>_. True"] M_SetGroupInfo [OF tools] M_SetGroupInfoEx [OF tools] M_rpc_DismissGroup [OF tools]
    M_SetGroupMemberInfo [OF tools] M_InviteUserToGroup [OF tools] M_JoinGroup [OF tools]
    M_GroupApplicationResponse [OF tools] M_rpc_CreateGroup [OF tools]
  note by_move = moves_step [OF _ inv0]
  note by_read = reads_step [OF G _ inv0]
  from step show ?thesis
  proof cases
    case (expire keys)
    with inv0 show ?thesis by (auto simp: grp.inv_def gdata_def map_le_def intro: grp.coh_le)
  next
    case (transfer g op old new)
    from transfer(1) show ?thesis
      by (simp only:) (rule by_move, rule M_TransferGroupOwner [OF tools], use transfer in \<open>auto simp: gdata_def\<close>)
  qed (simp only:, ((rule by_move, (rule M; (assumption | rule TrueI))) | (rule by_read, intro greads; assumption)))+
qed

section \<open>The invariant\<close>

text \<open>The documents are well typed and the cache agrees with them.\<close>

definition group_inv :: "('e group_world_scheme, 't) gserver_tools_scheme \<Rightarrow> bool \<Rightarrow> 'e group_world_scheme \<Rightarrow> bool" where
  "group_inv T own w \<longleftrightarrow> docs_typed own (groupDocs w, memberDocs w) \<and>
     (\<forall>k c. rocks w k = Some c \<longrightarrow> entryOK T (groupDocs w, memberDocs w) k c)"

lemma group_inv_eq: "group_inv T own w \<longleftrightarrow> ginv T own w"
  by (auto simp: group_inv_def grp.inv_def grp.coh_def gdata_def)

lemma group_runs_inv:
  fixes T :: "('e group_world_scheme, 't) gserver_tools_scheme"
  assumes "server_tools_ok T" and "(group_step T own)\<^sup>*\<^sup>* w w'" and "group_inv T own w"
  shows "group_inv T own w'"
  using assms(2,3) by (induction rule: rtranclp_induct) (auto simp: group_inv_eq intro: group_step_inv [OF assms(1)])

lemma group_inv_reads:
  assumes "group_inv T own w" and "greads T (groupDocs w, memberDocs w) Q m" and "fst (m w) = Inr a"
  shows "Q a"
  using assms unfolding group_inv_eq grp.inv_sees grp.reads_def gdata_def by auto

end
