(* ===== verification/Group_Props.thy ===== *)
theory Group_Props
  imports Group_Steps
begin

text \<open>
  What the group service guarantees: the documents stay well typed and the cache tells the truth, a group keeps a single owner, and members are only removed by
  those who may.
\<close>

section \<open>The owner of a group\<close>

lemma member_eq: "docs_typed own d \<Longrightarrow> m \<in> set (snd d) \<Longrightarrow> n \<in> set (snd d) \<Longrightarrow> memberKey m = memberKey n \<Longrightarrow> m = n"
  by (cases d) (auto simp: docs_typed_def distinct_map dest: inj_onD)

lemma TakeGroupOwner_owner:
  assumes "gctx T d" and "plain g"
  shows "greads T d (\<lambda>m. m \<in> set (snd d) \<and> gmGroupID m = g \<and> gmRoleLevel m = GroupOwner) (TakeGroupOwner T g)"
proof -
  have role: "gmRoleLevel m = r" if "m \<in> set (snd d)" "gmGroupID m = g" "gmUserID m \<in> set (roleIDs g r (snd d))" for m r
  proof -
    from that(3) obtain n where n: "n \<in> set (snd d)" "gmGroupID n = g" "gmRoleLevel n = r" "gmUserID n = gmUserID m" by (auto simp: roleIDs_def)
    then have "n = m" using assms(1) that by (intro member_eq [of False d]) (auto simp: gctx_def memberKey_def)
    with n show ?thesis by simp
  qed
  have "greads T d (\<lambda>ms. \<forall>m\<in>set ms. m \<in> set (snd d) \<and> gmGroupID m = g \<and> gmRoleLevel m = GroupOwner) (GetGroupRoleLevelMemberInfo T g GroupOwner)"
    unfolding GetGroupRoleLevelMemberInfo_def
    by (rule grp.reads_bind [OF R_roleIDs [OF assms]], rule grp.reads_weaken [OF R_cache_GetGroupMembersInfo [OF assms]]) (use role in auto)
  then show ?thesis
    unfolding TakeGroupOwner_def GetGroupOwner_def by (rule grp.reads_bind) (auto intro!: grp.reads_throw grp.reads_ret)
qed

section \<open>Who may remove members\<close>

definition mayKick :: "bool \<Rightarrow> bool \<Rightarrow> GroupMember list \<Rightarrow> string \<Rightarrow> string \<Rightarrow> string list \<Rightarrow> bool" where
  "mayKick own manager ms op g us \<longleftrightarrow> op \<notin> set us \<and> (\<forall>u\<in>set us. \<exists>m\<in>set ms. memberKey m = (g, u)) \<and>
     (own \<longrightarrow> (\<forall>m\<in>set ms. gmGroupID m = g \<and> gmRoleLevel m = GroupOwner \<longrightarrow> gmUserID m \<notin> set us)) \<and>
     (manager \<or> (\<exists>m\<in>set ms. memberKey m = (g, op) \<and> (gmRoleLevel m = GroupOwner \<or>
        gmRoleLevel m = GroupAdmin \<and> (\<forall>k\<in>set ms. gmGroupID k = g \<and> gmUserID k \<in> set us \<longrightarrow> gmRoleLevel k = GroupOrdinaryUsers))))"

lemma kickCheck_None:
  assumes "kickCheck manager opMember memberMap us = None" and "us \<noteq> []"
  shows "(\<forall>u\<in>set us. memberMap u \<noteq> None) \<and> (manager \<or> (\<exists>m. opMember = Some m \<and> (gmRoleLevel m = GroupOwner \<or>
    gmRoleLevel m = GroupAdmin \<and> (\<forall>u\<in>set us. \<forall>k. memberMap u = Some k \<longrightarrow> gmRoleLevel k \<noteq> GroupOwner \<and> gmRoleLevel k \<noteq> GroupAdmin))))"
  using assms
proof (induction us)
  case (Cons u us)
  then show ?case by (cases "us = []") (auto split: option.splits if_splits)
qed simp

lemma filled_found:
  assumes d: "docs_typed own d" and ms: "set ms = {m \<in> set (snd d). gmGroupID m = g \<and> gmUserID m \<in> us}" and f: "filled ms ms'"
  shows "sliceMap gmUserID ms' u = Some x \<Longrightarrow> \<exists>m\<in>set (snd d). memberKey m = (g, u) \<and> gmRoleLevel x = gmRoleLevel m"
    and "m \<in> set (snd d) \<Longrightarrow> memberKey m = (g, u) \<Longrightarrow> u \<in> us \<Longrightarrow> \<exists>x. sliceMap gmUserID ms' u = Some x \<and> gmRoleLevel x = gmRoleLevel m"
proof -
  show found: "\<exists>m\<in>set (snd d). memberKey m = (g, u) \<and> gmRoleLevel x = gmRoleLevel m" if "sliceMap gmUserID ms' u = Some x" for u x
  proof -
    from sliceMap_Some [OF that] filled_member [OF f] obtain m where m: "m \<in> set ms" "memberKey x = memberKey m" "gmRoleLevel x = gmRoleLevel m"
      and "gmUserID x = u" by blast
    with ms show ?thesis by (auto simp: memberKey_def intro!: bexI [of _ m])
  qed
  assume m: "m \<in> set (snd d)" "memberKey m = (g, u)" "u \<in> us"
  then have "m \<in> set ms" using ms by (auto simp: memberKey_def)
  moreover obtain h where h: "ms' = map h ms" "memberKey (h m) = memberKey m" using f by (auto simp: filled_def)
  ultimately have "h m \<in> set ms'" "gmUserID (h m) = u" using m(2) by (auto simp: memberKey_def)
  then have "u \<in> gmUserID ` set ms'" by blast
  then obtain x where x: "sliceMap gmUserID ms' u = Some x"
    unfolding sliceMap_def by (cases "map_of (rev (map (\<lambda>x. (gmUserID x, x)) ms')) u") (auto simp: map_of_eq_None_iff image_image)
  with found [OF x] member_eq [OF d m(1)] m(2) show "\<exists>x. sliceMap gmUserID ms' u = Some x \<and> gmRoleLevel x = gmRoleLevel m" by metis
qed


lemma mayKick_checked:
  assumes d: "docs_typed own d" and ms: "set ms = {m \<in> set (snd d). gmGroupID m = g \<and> gmUserID m \<in> set (us @ [op])}" and f: "filled ms ms'"
    and check: "kickCheck manager (sliceMap gmUserID ms' op) (sliceMap gmUserID ms') us = None" "us \<noteq> []" "op \<notin> set us"
    and owner: "m0 \<in> set (snd d)" "gmGroupID m0 = g" "gmRoleLevel m0 = GroupOwner" "gmUserID m0 \<notin> set us"
  shows "mayKick own manager (snd d) op g us"
proof -
  note found = filled_found [OF d ms f]
  note k = kickCheck_None [OF check(1,2)]
  have "\<exists>m\<in>set (snd d). memberKey m = (g, u)" if "u \<in> set us" for u using k found(1) that by blast
  moreover have "gmUserID m \<notin> set us" if own and m: "m \<in> set (snd d)" "gmGroupID m = g" "gmRoleLevel m = GroupOwner" for m
  proof -
    have "one_owner (snd d)" using d \<open>own\<close> by (cases d) (simp add: docs_typed_def)
    then have "m = m0" using m owner by (simp add: one_owner_def)
    with owner(4) show ?thesis by simp
  qed
  moreover have "\<exists>m\<in>set (snd d). memberKey m = (g, op) \<and> (gmRoleLevel m = GroupOwner \<or>
      gmRoleLevel m = GroupAdmin \<and> (\<forall>k\<in>set (snd d). gmGroupID k = g \<and> gmUserID k \<in> set us \<longrightarrow> gmRoleLevel k = GroupOrdinaryUsers))" if "\<not> manager"
  proof -
    from k that obtain x where x: "sliceMap gmUserID ms' op = Some x" and r: "gmRoleLevel x = GroupOwner \<or>
        gmRoleLevel x = GroupAdmin \<and> (\<forall>u\<in>set us. \<forall>k. sliceMap gmUserID ms' u = Some k \<longrightarrow> gmRoleLevel k \<noteq> GroupOwner \<and> gmRoleLevel k \<noteq> GroupAdmin)"
      by blast
    from found(1) [OF x] obtain m where m: "m \<in> set (snd d)" "memberKey m = (g, op)" "gmRoleLevel x = gmRoleLevel m" by blast
    have "gmRoleLevel k = GroupOrdinaryUsers" if "gmRoleLevel x \<noteq> GroupOwner" and k: "k \<in> set (snd d)" "gmGroupID k = g" "gmUserID k \<in> set us" for k
    proof -
      obtain y where y: "sliceMap gmUserID ms' (gmUserID k) = Some y" "gmRoleLevel y = gmRoleLevel k"
        using found(2) [of k "gmUserID k"] k by (auto simp: memberKey_def)
      moreover have "isRole (gmRoleLevel k)" using d k(1) by (auto simp: docs_typed_def)
      ultimately show ?thesis using r k(3) that(1) by (auto simp: isRole_def)
    qed
    with m r show ?thesis by metis
  qed
  ultimately show ?thesis using check(3) unfolding mayKick_def by blast
qed

lemma kick_tells:
  assumes "group_tools_ok T" and "docs_typed own d" and "plain (gpGroupID grp)"
  shows "greads T d (\<lambda>_. True) (thenM (MemberKickedNotification T op (groupDB2PB grp own' n) mo ks) (deleteMemberAndSetConversationSeq T g us))"
  by (intro grp.reads_bind [OF R_grp(5)] gctxI [OF assms(1,2)] R_deleteMemberAndSetConversationSeq) (simp add: assms(3) groupDB2PB_def)

lemma KickGroupMember_may:
  fixes T :: "('e group_world_scheme, 't) gserver_tools_scheme"
  assumes "server_tools_ok T" and d: "docs_typed own (ds, ms)" and R0: "R (ds, ms)"
    and gone: "us \<noteq> [] \<Longrightarrow> mayKick own (isManager T op) ms op g us \<Longrightarrow> R (ds, filter (\<lambda>m. \<not> deletes g us m) ms)"
  shows "gmoves T own (ds, ms) R (KickGroupMember T op g us)"
proof -
  note T = server_tools_group [OF assms(1)]
  note G = gctxI [OF T d]
  have F: "fContain T x xs \<longleftrightarrow> x \<in> set xs" for x xs using T by (simp add: group_tools_ok_def friend_tools_ok_def)
  note go = grp.moves_bind [where R = R and d = "(ds, ms)", OF _ d R0]
  note no = grp.moves_throw [where R = R and d = "(ds, ms)", OF d R0]
  show ?thesis
    unfolding KickGroupMember_def Let_def
  proof (rule go [OF R_TakeGroup [OF G]], rule grp.moves_if, rule no, rule grp.moves_if, rule no, rule grp.moves_if, rule no,
      rule go [OF TakeGroupOwner_owner [OF G]], blast, rule grp.moves_if, rule no, rule go [OF R_FindGroupMembers [OF G]], blast,
      rule go [OF R_PopulateGroupMember], rule grp.moves_case_option, rule go [OF R_FindGroupMemberNum],
      rule go [OF R_GetGroupRoleLevelMemberIDs [OF G]], blast, rule grp.moves_then_reads [OF _ kick_tells [OF T]], goal_cases)
    case (1 grp m0 vs vs' n ids)
    have "mayKick own (isManager T op) ms op g us"
      using 1 mayKick_checked [OF d, of vs g us op vs' "isManager T op" m0] by (simp add: F)
    with 1 R0 gone show ?case by (intro moves_DeleteGroupMember [OF T d]) auto
  qed (auto intro: no)
qed

lemma KickGroupMember_done:
  fixes T :: "('e group_world_scheme, 't) gserver_tools_scheme"
  assumes "server_tools_ok T" and d: "docs_typed own (ds, ms)"
  shows "cache_inv.ends gdata (entryOK T) (ds, ms) (\<lambda>d'. d' = (ds, filter (\<lambda>m. \<not> deletes g us m) ms)) (KickGroupMember T op g us)"
proof -
  note T = server_tools_group [OF assms(1)]
  note G = gctxI [OF T d]
  show ?thesis
    unfolding KickGroupMember_def Let_def
  proof (rule grp.ends_bind [OF R_TakeGroup [OF G]], rule grp.ends_if, rule grp.ends_throw, rule grp.ends_if,
      rule grp.ends_throw, rule grp.ends_if, rule grp.ends_throw, rule grp.ends_bind [OF R_TakeGroupOwner [OF G]], blast,
      rule grp.ends_if, rule grp.ends_throw, rule grp.ends_bind [OF R_FindGroupMembers [OF G]], blast,
      rule grp.ends_bind [OF R_PopulateGroupMember], rule grp.ends_case_option,
      rule grp.ends_bind [OF R_FindGroupMemberNum], rule grp.ends_bind [OF R_GetGroupRoleLevelMemberIDs [OF G]], blast,
      rule grp.ends_then [OF _ _ kick_tells [OF T]])
    fix grp m0 vs vs' n ids assume us: "\<not> length us = 0" and "grp \<in> set (fst (ds, ms)) \<and> gpGroupID grp = g \<and> plain g"
    then show "gmoves T own (ds, ms) (\<lambda>_. True) (DeleteGroupMember T (gpGroupID grp) us)"
      and "cache_inv.ends gdata (entryOK T) (ds, ms) (\<lambda>d'. d' = (ds, filter (\<lambda>m. \<not> deletes g us m) ms)) (DeleteGroupMember T (gpGroupID grp) us)"
      using M_DeleteGroupMember [OF T d, of us g] ends_DeleteGroupMember [OF T, of ds ms g us] by auto
  qed (auto intro: grp.ends_throw)
qed

section \<open>The guarantees\<close>

text \<open>
  C1. The documents of the group service stay well typed and its cache agrees with them: every group has one document, every member one document with one of the three
  roles and the id of a group that is there, and every cached group, member, list of members, number of members, list of the members of a role and list of the groups
  of a user is that of the documents. This holds after any sequence of requests and losses of cached texts, whichever of the calls of a request fail, before or after
  they take effect.
\<close>

theorem requests_keep_groups:
  fixes T :: "('e group_world_scheme, 't) gserver_tools_scheme"
  assumes "server_tools_ok T" and "(group_step T own)\<^sup>*\<^sup>* w w'" and "group_inv T own w"
  shows "group_inv T own w'"
  by (rule group_runs_inv [OF assms])

text \<open>
  C39. What is read through the cache, after any such sequence, is what the collections hold: a group, a member, the members of a group, their ids and their number, and the
  ids of the members with a role, whether the text was cached or not and whichever instance wrote it.
\<close>

theorem cached_reads_are_current:
  fixes T :: "('e group_world_scheme, 't) gserver_tools_scheme"
  assumes "server_tools_ok T" and "(group_step T own)\<^sup>*\<^sup>* w w'" and "group_inv T own w" and "plain g"
  shows "(\<forall>x. fst (TakeGroup T g w') = Inr x \<longrightarrow> x \<in> set (groupDocs w') \<and> gpGroupID x = g) \<and>
    (\<forall>u m. fst (TakeGroupMember T g u w') = Inr m \<longrightarrow> m \<in> set (memberDocs w') \<and> memberKey m = (g, u)) \<and>
    (\<forall>us ms. fst (FindGroupMembers T g us w') = Inr ms \<longrightarrow> set ms = {m \<in> set (memberDocs w'). gmGroupID m = g \<and> gmUserID m \<in> set us}) \<and>
    (\<forall>ids. fst (FindGroupMemberUserID T g w') = Inr ids \<longrightarrow> ids = memberIDs g (memberDocs w')) \<and>
    (\<forall>n. fst (GetGroupMemberNum g w') = Inr n \<longrightarrow> n = int (length (membersOf g (memberDocs w')))) \<and>
    (\<forall>r ids. fst (GetGroupRoleLevelMemberIDs T g r w') = Inr ids \<longrightarrow> ids = roleIDs g r (memberDocs w'))"
proof -
  have I: "group_inv T own w'" by (rule group_runs_inv [OF assms(1-3)])
  then have G: "gctx T (groupDocs w', memberDocs w')" using server_tools_group [OF assms(1)] by (auto simp: group_inv_def intro: gctxI)
  note R = group_inv_reads [OF I]
  show ?thesis
    using R [OF R_TakeGroup [OF G]] R [OF R_TakeGroupMember [OF G assms(4)]] R [OF R_FindGroupMembers [OF G assms(4)]]
      R [OF R_FindGroupMemberUserID [OF G]] R [OF R_GetGroupMemberNum] R [OF R_GetGroupRoleLevelMemberIDs [OF G assms(4)]]
    by (intro conjI allI impI) simp_all
qed


text \<open>
  C25. Removing members: a request that succeeds removes exactly the members it names, and one that fails removes exactly these or nobody. Members are only removed by an app
  manager, by the owner of the group, or, if they all are ordinary members, by one of its admins; all of them are members, and neither the operator nor the owner is one
  of them.
\<close>

theorem kick_permission:
  fixes T :: "('e group_world_scheme, 't) gserver_tools_scheme"
  assumes "server_tools_ok T" and "group_inv T own w" and "KickGroupMember T op g us w = (res, w')"
  defines "left \<equiv> filter (\<lambda>m. \<not> (gmGroupID m = g \<and> gmUserID m \<in> set us)) (memberDocs w)"
  shows "(res = Inr () \<longrightarrow> memberDocs w' = left) \<and> groupDocs w' = groupDocs w \<and>
    (memberDocs w' = memberDocs w \<or> memberDocs w' = left \<and> mayKick own (isManager T op) (memberDocs w) op g us)"
proof -
  let ?d = "(groupDocs w, memberDocs w)"
  have d: "docs_typed own ?d" and s: "cache_view.sees gdata (entryOK T) ?d w"
    using assms(2) unfolding group_inv_eq grp.inv_sees by (auto simp: gdata_def)
  let ?R = "\<lambda>d'. d' = ?d \<or> d' = (groupDocs w, left) \<and> mayKick own (isManager T op) (memberDocs w) op g us"
  have "us \<noteq> [] \<Longrightarrow> filter (\<lambda>m. \<not> deletes g us m) (memberDocs w) = left" by (simp add: left_def deletes_def)
  then have "gmoves T own ?d ?R (KickGroupMember T op g us)" by (intro KickGroupMember_may [OF assms(1) d]) auto
  moreover have "memberDocs w' = left" if "res = Inr ()"
  proof -
    have "us \<noteq> []"
    proof
      assume "us = []"
      then have "fst (KickGroupMember T op g us w) \<noteq> Inr ()"
        by (auto simp: KickGroupMember_def bindM_def split: prod.splits sum.splits)
      with assms(3) that show False by simp
    qed
    moreover have "gdata w' = (groupDocs w, filter (\<lambda>m. \<not> deletes g us m) (memberDocs w))"
      using KickGroupMember_done [OF assms(1) d, of g us op] s assms(3) that by (auto simp: grp.ends_def)
    ultimately show ?thesis by (simp add: left_def deletes_def)
  qed
  ultimately show ?thesis using s assms(3) by (auto simp: grp.moves_def)
qed

section \<open>Handing a group over\<close>

text \<open>The roles after a change of owner.\<close>

lemma rolls_swapRoles:
  "old \<noteq> new \<Longrightarrow> rolls (swapRoles g old new r ms) =
     map (\<lambda>(k, x). (k, if k = (g, new) then GroupOwner else if k = (g, old) then r else x)) (rolls ms)"
  by (auto simp: swapRoles_def setOne_def rolls_def setMemberFields_def memberKey_def)


lemma rolls_unique: "docs_typed own d \<Longrightarrow> (k, a) \<in> set (rolls (snd d)) \<Longrightarrow> (k, b) \<in> set (rolls (snd d)) \<Longrightarrow> a = b"
  unfolding in_rolls using member_eq by metis

lemma TransferGroupOwner_done:
  fixes T :: "('e group_world_scheme, 't) gserver_tools_scheme"
  assumes "server_tools_ok T" and d: "docs_typed own d" and g: "plain g"
  shows "cache_inv.ends gdata (entryOK T) d (\<lambda>d'. old \<noteq> new \<and> (isManager T op \<or> op = old \<and> ((g, old), GroupOwner) \<in> set (rolls (snd d))) \<and>
    (\<exists>r. ((g, new), r) \<in> set (rolls (snd d)) \<and>
       rolls (snd d') = map (\<lambda>(k, x). (k, if k = (g, new) then GroupOwner else if k = (g, old) then r else x)) (rolls (snd d))))
    (TransferGroupOwner T op g old new)" (is "cache_inv.ends _ _ _ ?R _")
proof -
  note T = server_tools_group [OF assms(1)]
  note G = gctxI [OF T d]
  have weak: "docs_typed False d" using d by (cases d) (simp add: docs_typed_def)
  have finish: "cache_inv.ends gdata (entryOK T) d' ?R (thenM (db_TransferGroupOwner T g old new r) (GroupOwnerTransferredNotification T op g old new))"
    if d': "docs_typed False d'" "rolls (snd d') = rolls (snd d)" and r: "((g, new), r) \<in> set (rolls (snd d))" and ne: "old \<noteq> new"
      and may: "isManager T op \<or> op = old \<and> ((g, old), GroupOwner) \<in> set (rolls (snd d))" for d' r
  proof -
    obtain ds ms where dm: "d' = (ds, ms)" by fastforce
    have role: "isRole r" using r d by (auto simp: in_rolls docs_typed_def)
    have dist: "distinct (map memberKey ms)" using d'(1) dm by (simp add: docs_typed_def)
    have "cache_inv.ends gdata (entryOK T) (ds, ms) ?R (db_TransferGroupOwner T g old new r)"
    proof (rule grp.ends_weaken [OF ends_transfer [OF T dist]])
      show "?R d1" if "d1 = (ds, swapRoles g old new r ms)" for d1
        using r ne may d'(2) by (auto simp: that dm rolls_swapRoles)
    qed
    note gone = this
    have "gmoves T False (ds, ms) (\<lambda>_. True) (db_TransferGroupOwner T g old new r)"
      using moves_TransferGroupOwner [OF T d'(1) [unfolded dm] role ne] by simp
    then show ?thesis unfolding dm by (rule grp.ends_then [OF _ gone]) (auto intro: R_member gctxI [OF T])
  qed
  show ?thesis
    unfolding TransferGroupOwner_def Let_def
  proof (rule grp.ends_bind [OF R_TakeGroup [OF G]], rule grp.ends_if, rule grp.ends_throw, rule grp.ends_if, rule grp.ends_throw,
      rule grp.ends_bind [OF R_FindGroupMembers [OF G g]], rule grp.ends_bind [OF R_PopulateGroupMember], rule grp.ends_if, rule grp.ends_throw,
      rule grp.ends_case_option, rule grp.ends_throw, rule grp.ends_case_option, rule grp.ends_throw, rule grp.ends_if, rule grp.ends_throw,
      rule grp.ends_bind [OF R_now], rule grp.ends_after [where own = False and S = "\<lambda>d'. rolls (snd d') = rolls (snd d)"], goal_cases)
    case (1 grp ms ms' oldOwner newOwner t)
    show ?case by (auto intro!: grp.moves_ret weak M_CancelMuteGroupMember [OF assms(1) weak] simp: 1(1) g)
  next
    case (2 grp ms ms' oldOwner newOwner t d' a)
    note found = filled_found(1) [OF d, of ms g "set [old, new]" ms', OF 2(4,5)]
    show ?case
    proof (rule finish [OF 2(11,12) _ 2(3)])
      show "((g, new), gmRoleLevel newOwner) \<in> set (rolls (snd d))" using found [OF 2(8)] by (auto simp: in_rolls)
      show "isManager T op \<or> op = old \<and> ((g, old), GroupOwner) \<in> set (rolls (snd d))"
        using 2(9) found [OF 2(7)] sliceMap_Some [OF 2(7)] by (auto simp: in_rolls)
    qed
  qed
qed

text \<open>
  C40. Handing a group over: when it succeeds, the new owner has the role of the owner, the old one the role the new one had, and everybody else the role as before. It is done
  for the owner himself and for app managers; for these nobody asks whether the old owner really is one, so that two owners can be left.
\<close>

theorem transfer_swaps_roles:
  fixes T :: "('e group_world_scheme, 't) gserver_tools_scheme"
  assumes "server_tools_ok T" and "group_inv T own w" and "plain g" and "TransferGroupOwner T op g old new w = (Inr (), w')"
  shows "(isManager T op \<or> op = old \<and> ((g, old), GroupOwner) \<in> set (rolls (memberDocs w))) \<and>
    (\<exists>r. ((g, new), r) \<in> set (rolls (memberDocs w)) \<and>
       rolls (memberDocs w') = map (\<lambda>(k, x). (k, if k = (g, new) then GroupOwner else if k = (g, old) then r else x)) (rolls (memberDocs w)))"
proof -
  have "docs_typed own (gdata w)" and "cache_view.sees gdata (entryOK T) (gdata w) w" using assms(2) unfolding group_inv_eq grp.inv_sees by auto
  from TransferGroupOwner_done [OF assms(1) this(1) assms(3), of old new op, unfolded grp.ends_def, rule_format, OF this(2)] assms(4)
  show ?thesis by (simp add: gdata_def)
qed

end
