(* ===== verification/Group_Samples.thy ===== *)
theory Group_Samples
  imports Group_Props Friend_Samples
begin

text \<open>
  A concrete group service: a text codec for groups and members, a transaction that takes the documents back, hooks that are off, and two groups with their members. The
  properties of \<open>Group_Props\<close> are evaluated on it.
\<close>

section \<open>A codec\<close>

definition optText :: "int option \<Rightarrow> string" where
  "optText i = (case i of None \<Rightarrow> '''' | Some n \<Rightarrow> itoa n)"

definition textOpt :: "string \<Rightarrow> int option option" where
  "textOpt s = (if s = '''' then Some None else map_option Some (atoi s))"

lemma textOpt_optText [simp]: "textOpt (optText i) = Some i"
proof (cases i)
  case (Some n)
  have "itoa n \<noteq> ''''" using atoi_itoa [of n] by (auto simp: atoi_def)
  with Some show ?thesis by (simp add: textOpt_def optText_def)
qed (simp add: textOpt_def optText_def)

definition groupText :: "Group \<Rightarrow> cached" where
  "groupText g = encText [gpGroupID g, gpGroupName g, gpNotification g, gpIntroduction g, gpFaceURL g, optText (gpCreateTime g), gpEx g, itoa (gpStatus g),
     gpCreatorUserID g, itoa (gpGroupType g), itoa (gpNeedVerification g), itoa (gpLookMemberInfo g), itoa (gpApplyMemberFriend g),
     optText (gpNotificationUpdateTime g), gpNotificationUserID g]"

definition textGroup :: "cached \<Rightarrow> Group option" where
  "textGroup c = (case decText c of
     Some [a, b, c, d, e, f, g, h, i, j, k, l, m, n, p] \<Rightarrow> (case (textOpt f, atoi h, atoi j, atoi k, atoi l, atoi m, textOpt n) of
       (Some t, Some st, Some ty, Some v, Some lk, Some af, Some t') \<Rightarrow> Some \<lparr>gpGroupID = a, gpGroupName = b, gpNotification = c, gpIntroduction = d,
         gpFaceURL = e, gpCreateTime = t, gpEx = g, gpStatus = st, gpCreatorUserID = i, gpGroupType = ty, gpNeedVerification = v, gpLookMemberInfo = lk,
         gpApplyMemberFriend = af, gpNotificationUpdateTime = t', gpNotificationUserID = p\<rparr>
     | _ \<Rightarrow> None)
   | _ \<Rightarrow> None)"

lemma textGroup_ok: "textGroup (groupText g) = Some g \<and> groupText g \<noteq> CText ''''"
  using decText_encText by (cases g) (simp add: textGroup_def groupText_def)

definition memberText :: "GroupMember \<Rightarrow> cached" where
  "memberText m = encText [gmGroupID m, gmUserID m, gmNickname m, gmFaceURL m, itoa (gmRoleLevel m), optText (gmJoinTime m), itoa (gmJoinSource m),
     gmInviterUserID m, gmOperatorUserID m, optText (gmMuteEndTime m), gmEx m]"

definition textMember :: "cached \<Rightarrow> GroupMember option" where
  "textMember c = (case decText c of
     Some [a, b, c, d, e, f, g, h, i, j, k] \<Rightarrow> (case (atoi e, textOpt f, atoi g, textOpt j) of
       (Some r, Some t, Some src, Some t') \<Rightarrow> Some \<lparr>gmGroupID = a, gmUserID = b, gmNickname = c, gmFaceURL = d, gmRoleLevel = r, gmJoinTime = t,
         gmJoinSource = src, gmInviterUserID = h, gmOperatorUserID = i, gmMuteEndTime = t', gmEx = k\<rparr>
     | _ \<Rightarrow> None)
   | _ \<Rightarrow> None)"

lemma textMember_ok: "textMember (memberText m) = Some m \<and> memberText m \<noteq> CText ''''"
  using decText_encText by (cases m) (simp add: textMember_def memberText_def)

section \<open>The parameters\<close>

definition takeBack :: "(group_world, unit) prog \<Rightarrow> (group_world, unit) prog" where
  "takeBack p w = (case p w of (Inr u, w') \<Rightarrow> (Inr u, w')
     | (Inl e, w') \<Rightarrow> (Inl e, w'\<lparr>groupDocs := groupDocs w, memberDocs := memberDocs w\<rparr>))"

definition sampleGroups :: "string list \<Rightarrow> group_world gserver_tools" where
  "sampleGroups managers = \<lparr>fIncr = thenM, fTx = takeBack,
     fPage = (\<lambda>is p. take (nat (showNumber p)) (drop (nat (showNumber p) * nat (pageNumber p - 1)) is)), fOidTime = (\<lambda>_. 0), fTopics = [],
     fDistinct = remdups, fContain = (\<lambda>x xs. x \<in> set xs), fDuplicate = (\<lambda>xs. \<not> distinct xs), encIDs = encText, decIDs = decText,
     encVL = encLog, decVL = decLog, encFriend = (\<lambda>_. CText ''''), decFriend = (\<lambda>_. None),
     rDesignateUsers = (\<lambda>ids. Inr (map sampleUser ids)), hkAddFriend = (\<lambda>_. Inr ()), hkImport = (\<lambda>(_, ids). Inr ids), hkAgree = (\<lambda>_. Inr ()),
     hkRemark = (\<lambda>(_, _, r). Inr r), rIdHash = length, rOid = \<lparr>Hex = showNat, ObjectIDFromHex = readNat 0\<rparr>, rAdmins = managers,
     cfgAddFriend = noHook, cfgImport = noHook, cfgAgree = noHook, cfgRemark = noHook,
     gIncr = (\<lambda>ps. foldr thenM ps (ret ())), gTopics = [], gRegex = (\<lambda>_ _. False), gDay = (\<lambda>_. ''''),
     gPaginate = (\<lambda>is _ _. is), gSingle = (\<lambda>xs ys. filter (\<lambda>x. x \<notin> set ys) xs), gOrder = (\<lambda>_ gs. gs), gSort = sort, gMembersHash = (\<lambda>_. 0),
     encGroup = groupText, decGroup = textGroup, encMember = memberText, decMember = textMember,
     nMaxSeq = (\<lambda>_. Inr 0), nEnableHistory = True,
     gNotFound = (\<lambda>e. e = ErrRecordNotFound), gGenID = (\<lambda>_ n. showNat n), gCfg = (\<lambda>_. noHook),
     hkCreateGroup = (\<lambda>_. Inl ErrRecordNotFound), hkMembersJoin = (\<lambda>_. Inr []), hkSetMember = (\<lambda>_. Inl ErrRecordNotFound), hkApplyJoin = (\<lambda>_. Inr ()),
     hkInvite = (\<lambda>_. Inr ()), hkSetInfo = (\<lambda>_. Inl ErrRecordNotFound), hkSetInfoEx = (\<lambda>x. Inr x)\<rparr>"

lemma sampleGroups_ok: "server_tools_ok (sampleGroups managers)"
proof -
  have tx: "(\<forall>w'. takeBack p w = (Inr (), w') \<longrightarrow> p w = (Inr (), w')) \<and>
      (\<forall>e w'. takeBack p w = (Inl e, w') \<longrightarrow> gdata w' = gdata w \<and> rocks w' = rocks (snd (p w)))" for p w
    by (cases "p w") (auto simp: takeBack_def gdata_def split: sum.splits)
  have "plain (showNat n)" for n unfolding plain_def by (simp add: showNat_no_char)
  with tx show ?thesis
    by (simp add: server_tools_ok_def group_tools_ok_def friend_tools_ok_def sampleGroups_def friend_tools.defs decText_encText decLog_encLog textGroup_ok textMember_ok)
qed

section \<open>Two groups\<close>

definition sampleGroup :: "string \<Rightarrow> Group" where
  "sampleGroup g = \<lparr>gpGroupID = g, gpGroupName = ''a name'', gpNotification = '''', gpIntroduction = '''', gpFaceURL = '''', gpCreateTime = Some 0, gpEx = '''',
     gpStatus = GroupOk, gpCreatorUserID = ''o'', gpGroupType = 2, gpNeedVerification = 0, gpLookMemberInfo = 0, gpApplyMemberFriend = 0,
     gpNotificationUpdateTime = None, gpNotificationUserID = ''''\<rparr>"

definition sampleMember :: "string \<Rightarrow> string \<Rightarrow> int \<Rightarrow> GroupMember" where
  "sampleMember g u r = \<lparr>gmGroupID = g, gmUserID = u, gmNickname = u, gmFaceURL = ''face'', gmRoleLevel = r, gmJoinTime = Some 0, gmJoinSource = 0,
     gmInviterUserID = '''', gmOperatorUserID = '''', gmMuteEndTime = None, gmEx = ''''\<rparr>"

definition sampleWorld :: group_world where
  "sampleWorld = \<lparr>faults = (\<lambda>_. NoFault), opno = 0, clock = 5, rand = (\<lambda>_. 0), cluster = None, rocks = Map.empty,
     versionDocs = (\<lambda>_. []), nextOid = 9, versionCtx = None, friendDocs = [], requestDocs = [], subscribed = [], published = [], notices = [],
     groupDocs = [sampleGroup ''g'', sampleGroup ''h''],
     memberDocs = [sampleMember ''g'' ''o'' GroupOwner, sampleMember ''g'' ''a'' GroupAdmin, sampleMember ''g'' ''u'' GroupOrdinaryUsers,
       sampleMember ''h'' ''o'' GroupOwner, sampleMember ''h'' ''u'' GroupOrdinaryUsers],
     groupReqDocs = [], groupNotices = [], peerCalls = []\<rparr>"

lemma sampleWorld_inv: "group_inv T own sampleWorld"
  by (simp add: group_inv_def docs_typed_def one_owner_def sampleWorld_def sampleGroup_def sampleMember_def plain_def isRole_def memberKey_def
      GroupOwner_def GroupAdmin_def GroupOrdinaryUsers_def)

definition isText :: "string \<Rightarrow> cached \<Rightarrow> bool" where
  "isText s c = (case c of CText s' \<Rightarrow> s' = s | CMsg _ \<Rightarrow> False)"

lemma isText_eq [code_unfold]: "HOL.equal c (CText s) \<longleftrightarrow> isText s c"
  by (cases c) (auto simp: isText_def equal_eq)

lemmas splitIntoBatches_code [code] = splitIntoBatches_loop.simps

section \<open>Requests\<close>

text \<open>What is left of the members: their groups, ids and roles.\<close>

abbreviation roster :: "group_world \<Rightarrow> ((string \<times> string) \<times> int) list" where
  "roster w \<equiv> rolls (memberDocs w)"

text \<open>The admin a removes u from g.\<close>

lemma kick_run:
  "case KickGroupMember (sampleGroups []) ''a'' ''g'' [''u''] sampleWorld of (r, w) \<Rightarrow> r = Inr () \<and>
     roster w = [((''g'', ''o''), 100), ((''g'', ''a''), 60), ((''h'', ''o''), 100), ((''h'', ''u''), 20)] \<and>
     fst (FindGroupMemberUserID (sampleGroups []) ''g'' w) = Inr [''o'', ''a'']"
  by code_simp

definition afterKick :: group_world where
  "afterKick = snd (KickGroupMember (sampleGroups []) ''a'' ''g'' [''u''] sampleWorld)"

lemma kick_result: "KickGroupMember (sampleGroups []) ''a'' ''g'' [''u''] sampleWorld = (Inr (), afterKick)"
  and kick_roster: "roster afterKick = [((''g'', ''o''), 100), ((''g'', ''a''), 60), ((''h'', ''o''), 100), ((''h'', ''u''), 20)]"
  and kick_read: "fst (FindGroupMemberUserID (sampleGroups []) ''g'' afterKick) = Inr [''o'', ''a'']"
  using kick_run by (auto simp: afterKick_def split: prod.splits)

lemma kick_step: "(group_step (sampleGroups []) own)\<^sup>*\<^sup>* sampleWorld afterKick"
  unfolding afterKick_def by (rule r_into_rtranclp) (rule group_step.kick)

lemma plain_g: "plain ''g''"
  by (simp add: plain_def)

theorem requests_keep_groups_witness:
  "group_inv (sampleGroups []) True afterKick \<and> length (memberDocs sampleWorld) = 5 \<and> length (roster afterKick) = 4"
  using requests_keep_groups [OF sampleGroups_ok kick_step sampleWorld_inv] kick_roster by (simp add: sampleWorld_def)

theorem cached_reads_are_current_witness:
  "memberIDs ''g'' (memberDocs afterKick) = [''o'', ''a''] \<and> fst (FindGroupMemberUserID (sampleGroups []) ''g'' afterKick) = Inr [''o'', ''a'']"
  using cached_reads_are_current [OF sampleGroups_ok kick_step sampleWorld_inv plain_g] kick_read by auto

theorem kick_permission_witness:
  "roster afterKick = [((''g'', ''o''), 100), ((''g'', ''a''), 60), ((''h'', ''o''), 100), ((''h'', ''u''), 20)] \<and>
   mayKick True (isManager (sampleGroups []) ''a'') (memberDocs sampleWorld) ''a'' ''g'' [''u'']"
proof -
  have "length (memberDocs sampleWorld) \<noteq> length (roster afterKick)" unfolding kick_roster by (simp add: sampleWorld_def)
  then have "memberDocs afterKick \<noteq> memberDocs sampleWorld" by (auto simp: rolls_def)
  with kick_permission [OF sampleGroups_ok sampleWorld_inv kick_result] kick_roster show ?thesis by blast
qed

text \<open>The owner hands g over to a; an app manager m hands g over from a, who does not own it, to u, which leaves two owners.\<close>

lemma transfer_run:
  "case TransferGroupOwner (sampleGroups []) ''o'' ''g'' ''o'' ''a'' sampleWorld of (r, w) \<Rightarrow> r = Inr () \<and>
     roster w = [((''g'', ''o''), 60), ((''g'', ''a''), 100), ((''g'', ''u''), 20), ((''h'', ''o''), 100), ((''h'', ''u''), 20)]"
  by code_simp


lemma manager_run:
  "case TransferGroupOwner (sampleGroups [''m'']) ''m'' ''g'' ''a'' ''u'' sampleWorld of (r, w) \<Rightarrow> r = Inr () \<and>
     roster w = [((''g'', ''o''), 100), ((''g'', ''a''), 20), ((''g'', ''u''), 100), ((''h'', ''o''), 100), ((''h'', ''u''), 20)]"
  by code_simp

theorem transfer_swaps_roles_witness:
  "\<exists>w. TransferGroupOwner (sampleGroups [''m'']) ''m'' ''g'' ''a'' ''u'' sampleWorld = (Inr (), w) \<and>
     roster w = map (\<lambda>(k, x). (k, if k = (''g'', ''u'') then GroupOwner else if k = (''g'', ''a'') then GroupOrdinaryUsers else x)) (roster sampleWorld) \<and>
     ((''g'', ''o''), GroupOwner) \<in> set (roster w) \<and> ((''g'', ''u''), GroupOwner) \<in> set (roster w)"
proof -
  obtain w where run: "TransferGroupOwner (sampleGroups [''m'']) ''m'' ''g'' ''a'' ''u'' sampleWorld = (Inr (), w)"
    and left: "roster w = [((''g'', ''o''), 100), ((''g'', ''a''), 20), ((''g'', ''u''), 100), ((''h'', ''o''), 100), ((''h'', ''u''), 20)]"
    using manager_run by (auto split: prod.splits)
  from transfer_swaps_roles [OF sampleGroups_ok sampleWorld_inv plain_g run] obtain r where r: "((''g'', ''u''), r) \<in> set (roster sampleWorld)"
    "roster w = map (\<lambda>(k, x). (k, if k = (''g'', ''u'') then GroupOwner else if k = (''g'', ''a'') then r else x)) (roster sampleWorld)" by blast
  have u: "r = GroupOrdinaryUsers" using r(1) by (auto simp: rolls_def sampleWorld_def sampleMember_def memberKey_def)
  have "((''g'', ''o''), GroupOwner) \<in> set (roster w) \<and> ((''g'', ''u''), GroupOwner) \<in> set (roster w)" by (simp add: left GroupOwner_def)
  with run r(2) [unfolded u] show ?thesis by blast
qed

section \<open>A role too high\<close>

definition setRole :: "string \<Rightarrow> string \<Rightarrow> int \<Rightarrow> SetGroupMemberInfo" where
  "setRole g u r = \<lparr>smGroupID = g, smUserID = u, smNickname = None, smFaceURL = None, smRoleLevel = Some r, smEx = None\<rparr>"

text \<open>Everything after the change fails, which only costs the notifications.\<close>

definition quietWorld :: group_world where
  "quietWorld = sampleWorld\<lparr>faults := \<lambda>n. if n < 13 then NoFault else FailBefore\<rparr>"

lemma quietWorld_inv: "group_inv T own quietWorld"
  using sampleWorld_inv by (simp add: group_inv_def quietWorld_def)

lemma promotion_run:
  "case SetGroupMemberInfo (sampleGroups []) ''u'' [setRole ''g'' ''u'' 20, setRole ''h'' ''u'' 60] quietWorld of (r, w) \<Rightarrow> r = Inr () \<and>
     roster w = [((''g'', ''o''), 100), ((''g'', ''a''), 60), ((''g'', ''u''), 20), ((''h'', ''o''), 100), ((''h'', ''u''), 60)]"
  by code_simp

text \<open>
  C8. An ordinary member can make himself an admin. \<^verbatim>\<open>SetGroupMemberInfo\<close> compares the role a member asks for himself with the role he has, for each group of the
  request, but takes the request to compare from all groups, the first one: whoever is an ordinary member of two groups asks to stay one in the first and to be an admin
  of the second.
\<close>

theorem self_promotion:
  "\<exists>(T :: group_world gserver_tools) w u reqs w'. server_tools_ok T \<and> group_inv T True w \<and> \<not> isManager T u \<and>
     map gmRoleLevel (filter (\<lambda>m. gmUserID m = u) (memberDocs w)) = [GroupOrdinaryUsers, GroupOrdinaryUsers] \<and> map smUserID reqs = [u, u] \<and>
     SetGroupMemberInfo T u reqs w = (Inr (), w') \<and>
     map gmRoleLevel (filter (\<lambda>m. gmUserID m = u) (memberDocs w')) = [GroupOrdinaryUsers, GroupAdmin]"
proof -
  obtain w' where run: "SetGroupMemberInfo (sampleGroups []) ''u'' [setRole ''g'' ''u'' 20, setRole ''h'' ''u'' 60] quietWorld = (Inr (), w')"
    and left: "roster w' = [((''g'', ''o''), 100), ((''g'', ''a''), 60), ((''g'', ''u''), 20), ((''h'', ''o''), 100), ((''h'', ''u''), 60)]"
    using promotion_run by (auto split: prod.splits)
  have "map gmRoleLevel (filter (\<lambda>m. gmUserID m = ''u'') ms) = map snd (filter (\<lambda>p. snd (fst p) = ''u'') (rolls ms))" for ms
    by (induction ms) (simp_all add: rolls_def memberKey_def)
  then have "map gmRoleLevel (filter (\<lambda>m. gmUserID m = ''u'') (memberDocs w')) = [GroupOrdinaryUsers, GroupAdmin]"
    by (simp add: left GroupOrdinaryUsers_def GroupAdmin_def)
  moreover have "\<not> isManager (sampleGroups []) ''u''" by (simp add: isManager_def IsAppManagerUid_def sampleGroups_def)
  moreover have "map gmRoleLevel (filter (\<lambda>m. gmUserID m = ''u'') (memberDocs quietWorld)) = [GroupOrdinaryUsers, GroupOrdinaryUsers]"
    by (simp add: quietWorld_def sampleWorld_def sampleMember_def)
  ultimately show ?thesis using sampleGroups_ok quietWorld_inv run
    by (intro exI [of _ "sampleGroups []"] exI [of _ quietWorld] exI [of _ "''u''"] exI [of _ "[setRole ''g'' ''u'' 20, setRole ''h'' ''u'' 60]"] exI [of _ w'])
      (simp add: setRole_def)
qed

end
