(* ===== verification/Sdk_Store.thy ===== *)
theory Sdk_Store
  imports Msg_Model
begin

text \<open>
  What the client keeps of messages: the rows of \<^verbatim>\<open>sdk-core/pkg/db/model_struct\<close> and the statements of \<^verbatim>\<open>sdk-core/pkg/db\<close> (\<^verbatim>\<open>chat_log_model.go\<close>,
  \<^verbatim>\<open>conversation_model.go\<close>, \<^verbatim>\<open>notification_model.go\<close>, \<^verbatim>\<open>app_version.go\<close>) that the message syncer and the message history use. The tables
  live in SQLite behind gorm: a statement is one external call, a violated key refuses the whole statement, \<^verbatim>\<open>Updates\<close> with a struct writes
  its non-zero fields only. A row is compared and sorted by its columns; rows that compare equal come in the order of the table.
  The commands for the conversation goroutine go to the channel \<open>conversationCh\<close>; a command that finds no place there within ten seconds is dropped.
  The calls to the server are a parameter: \<open>callServer\<close> answers the n-th external call with any reply, and notes the request in \<open>wire\<close>.
\<close>

section \<open>Rows\<close>

record LocalChatLog =
  clClientMsgID :: string
  clServerMsgID :: string
  clSendID :: string
  clRecvID :: string
  clSenderPlatformID :: int
  clSenderNickname :: string
  clSenderFaceURL :: string
  clSessionType :: int
  clMsgFrom :: int
  clContentType :: int
  clContent :: string
  clIsRead :: bool
  clStatus :: int
  clSeq :: int
  clSendTime :: int
  clCreateTime :: int
  clAttachedInfo :: string
  clEx :: string
  clLocalEx :: string

record LocalConversation =
  lcConversationID :: string
  lcConversationType :: int
  lcUserID :: string
  lcGroupID :: string
  lcShowName :: string
  lcFaceURL :: string
  lcRecvMsgOpt :: int
  lcUnreadCount :: int
  lcGroupAtType :: int
  lcLatestMsg :: string
  lcLatestMsgSendTime :: int
  lcDraftText :: string
  lcDraftTextTime :: int
  lcIsPinned :: bool
  lcIsPrivateChat :: bool
  lcBurnDuration :: int
  lcIsNotInGroup :: bool
  lcUpdateUnreadCountTime :: int
  lcAttachedInfo :: string
  lcEx :: string
  lcMaxSeq :: int
  lcMinSeq :: int
  lcMsgDestructTime :: int
  lcIsMsgDestruct :: bool

text \<open>\<^verbatim>\<open>sdkws.PullMsgs\<close> and \<^verbatim>\<open>sdkws.SeqRange\<close>.\<close>

record PullMsgs =
  pmMsgs :: "MsgData list"
  pmIsEnd :: bool
  pmEndSeq :: int

record SeqRange =
  srConversationID :: string
  srBegin :: int
  srEnd :: int
  srNum :: int

type_synonym msg_batch = "(string \<times> PullMsgs) list"

section \<open>The state of a client\<close>

text \<open>The commands of \<^verbatim>\<open>sdk-core/pkg/common/trigger_channel.go\<close>.\<close>

datatype sdk_cmd =
    CmdNewMsgCome msg_batch
  | CmdMsgSyncInReinstall msg_batch int
  | CmdNotification msg_batch
  | CmdSyncFlag int
  | CmdSyncData

datatype wire_req =
    GetNewestSeq string
  | PullMsgByRange string "SeqRange list"
  | PullConvLastMessage string "string list"
  | PullMsgBySeqList string string "int list" bool

record msg_client = env +
  mcUserID :: string
  chatLogs :: "string \<rightharpoonup> LocalChatLog list"
  conversations :: "LocalConversation list"
  notificationSeqs :: "(string \<times> int) list"
  sdkVersion :: "(string \<times> bool) option"
  conversationCh :: "sdk_cmd list"
  wire :: "(wire_req \<times> bool) list"

definition sendCmd :: "sdk_cmd \<Rightarrow> ('e msg_client_scheme, unit) prog" where
  "sendCmd cmd = (\<lambda>w. let w1 = w\<lparr>opno := Suc (opno w)\<rparr> in
     case faults w (opno w) of
       NoFault \<Rightarrow> (Inr (), w1\<lparr>conversationCh := conversationCh w @ [cmd]\<rparr>)
     | _ \<Rightarrow> (Inl (ErrNew ''send cmd timeout''), w1))"

text \<open>\<^verbatim>\<open>SendReqWaitResp\<close>: the reply to the call with this number, whatever it is.\<close>

definition callServer :: "wire_req \<Rightarrow> (nat \<Rightarrow> err + 'r) \<Rightarrow> ('e msg_client_scheme, 'r) prog" where
  "callServer req reply = (\<lambda>w. let r = (case reply (opno w) of Inl (Panic s) \<Rightarrow> Inl (ErrNew s) | r \<Rightarrow> r) in
     (r, w\<lparr>opno := Suc (opno w), wire := wire w @ [(req, \<not> isl r)]\<rparr>))"

text \<open>The replies of the server, by the number of the call.\<close>

record msg_server =
  newestSeqs :: "nat \<Rightarrow> string \<Rightarrow> err + (string \<times> int) list"
  msgsByRange :: "nat \<Rightarrow> string \<Rightarrow> SeqRange list \<Rightarrow> err + msg_batch \<times> msg_batch"
  convLastMessage :: "nat \<Rightarrow> string \<Rightarrow> string list \<Rightarrow> err + (string \<times> MsgData) list"
  msgsBySeqs :: "nat \<Rightarrow> string \<Rightarrow> string \<Rightarrow> int list \<Rightarrow> bool \<Rightarrow> err + msg_batch"

section \<open>The tables\<close>

definition GetAllConversationIDList :: "('e msg_client_scheme, string list) prog" where
  "GetAllConversationIDList = io (gets (\<lambda>w. map lcConversationID (conversations w)))"

text \<open>\<^verbatim>\<open>IFNULL(max(seq),0)\<close> of the rows of a conversation; 0 when it has no table.\<close>

fun maxSeqRow :: "LocalChatLog list \<Rightarrow> int" where
  "maxSeqRow [] = 0"
| "maxSeqRow [r] = clSeq r"
| "maxSeqRow (r # r' # rs) = max (clSeq r) (maxSeqRow (r' # rs))"

definition CheckConversationNormalMsgSeq :: "string \<Rightarrow> ('e msg_client_scheme, int) prog" where
  "CheckConversationNormalMsgSeq conversationID = io (gets (\<lambda>w.
     case chatLogs w conversationID of None \<Rightarrow> 0 | Some rows \<Rightarrow> maxSeqRow rows))"

definition GetNotificationAllSeqs :: "('e msg_client_scheme, (string \<times> int) list) prog" where
  "GetNotificationAllSeqs = io (gets notificationSeqs)"

definition BatchInsertNotificationSeq :: "(string \<times> int) list \<Rightarrow> ('e msg_client_scheme, unit) prog" where
  "BatchInsertNotificationSeq rows = io (\<lambda>w.
     if \<not> distinct (map fst rows) \<or> fst ` set rows \<inter> fst ` set (notificationSeqs w) \<noteq> {}
     then (Inl (ErrNew ''UNIQUE constraint failed''), w)
     else (Inr (), w\<lparr>notificationSeqs := notificationSeqs w @ rows\<rparr>))"

definition GetAppSDKVersion :: "('e msg_client_scheme, string \<times> bool) prog" where
  "GetAppSDKVersion = io (\<lambda>w. case sdkVersion w of None \<Rightarrow> (Inl ErrRecordNotFound, w) | Some v \<Rightarrow> (Inr v, w))"

text \<open>An update of a row whose key is the empty string has no condition, and gorm refuses it.\<close>

definition SetAppSDKVersion :: "string \<Rightarrow> bool \<Rightarrow> ('e msg_client_scheme, unit) prog" where
  "SetAppSDKVersion version installed =
     bindM (tryM (io (\<lambda>w. case sdkVersion w of None \<Rightarrow> (Inl ErrRecordNotFound, w) | Some v \<Rightarrow> (Inr v, w)))) (\<lambda>r. case r of
       Inl ErrRecordNotFound \<Rightarrow> io (modifyM (\<lambda>w. w\<lparr>sdkVersion := Some (version, installed)\<rparr>))
     | Inl e \<Rightarrow> throw e
     | Inr exist \<Rightarrow> io (\<lambda>w. if fst exist = '''' then (Inl (ErrNew ''WHERE conditions required''), w)
         else (Inr (), w\<lparr>sdkVersion := map_option (\<lambda>(v, b). (if version = '''' then v else version, installed \<or> b)) (sdkVersion w)\<rparr>)))"

section \<open>The messages of a conversation\<close>

definition rowsOf :: "'e msg_client_scheme \<Rightarrow> string \<Rightarrow> LocalChatLog list" where
  "rowsOf w conversationID = (case chatLogs w conversationID of None \<Rightarrow> [] | Some rows \<Rightarrow> rows)"

text \<open>The table of a conversation is created when it is first needed.\<close>

definition initChatLog :: "string \<Rightarrow> ('e msg_client_scheme, unit) prog" where
  "initChatLog conversationID = io (modifyM (\<lambda>w. if chatLogs w conversationID = None then w\<lparr>chatLogs := (chatLogs w)(conversationID \<mapsto> [])\<rparr> else w))"

text \<open>A statement on the table of a conversation; there is none when the table has not been created.\<close>

definition onTable :: "string \<Rightarrow> (LocalChatLog list \<Rightarrow> err + LocalChatLog list \<times> 'a) \<Rightarrow> ('e msg_client_scheme, 'a) prog" where
  "onTable conversationID f = io (\<lambda>w. case chatLogs w conversationID of
     None \<Rightarrow> (Inl (ErrNew ''no such table''), w)
   | Some rows \<Rightarrow> (case f rows of Inl e \<Rightarrow> (Inl e, w) | Inr (rows', a) \<Rightarrow> (Inr a, w\<lparr>chatLogs := (chatLogs w)(conversationID \<mapsto> rows')\<rparr>)))"

definition GetMessage :: "string \<Rightarrow> string \<Rightarrow> ('e msg_client_scheme, LocalChatLog) prog" where
  "GetMessage conversationID clientMsgID' = thenM (initChatLog conversationID) (onTable conversationID (\<lambda>rows.
     case List.find (\<lambda>r. clClientMsgID r = clientMsgID') rows of None \<Rightarrow> Inl ErrRecordNotFound | Some r \<Rightarrow> Inr (rows, r)))"

text \<open>Rows sorted by time and number, upwards or downwards; \<^verbatim>\<open>Limit\<close> with a negative number is no limit.\<close>

definition byTime :: "bool \<Rightarrow> LocalChatLog list \<Rightarrow> LocalChatLog list" where
  "byTime asc rows = (if asc then sort_key clSendTime (sort_key clSeq rows)
     else sort_key (\<lambda>r. - clSendTime r) (sort_key (\<lambda>r. - clSeq r) rows))"

definition limitRows :: "int \<Rightarrow> 'a list \<Rightarrow> 'a list" where
  "limitRows cnt rows = (if cnt < 0 then rows else take (nat cnt) rows)"

definition beyond :: "bool \<Rightarrow> int \<Rightarrow> int \<Rightarrow> string \<Rightarrow> LocalChatLog \<Rightarrow> bool" where
  "beyond isReverse startTime startSeq startClientMsgID r \<longleftrightarrow>
     (if isReverse then clSendTime r > startTime else clSendTime r < startTime) \<or>
     (clSendTime r = startTime \<and>
       ((if isReverse then clSeq r > startSeq else clSeq r < startSeq) \<or> (clSeq r = 0 \<and> clClientMsgID r \<noteq> startClientMsgID)))"

definition GetMessageList :: "string \<Rightarrow> int \<Rightarrow> int \<Rightarrow> int \<Rightarrow> string \<Rightarrow> bool \<Rightarrow> ('e msg_client_scheme, LocalChatLog list) prog" where
  "GetMessageList conversationID cnt startTime startSeq startClientMsgID isReverse =
     thenM (initChatLog conversationID) (onTable conversationID (\<lambda>rows. Inr (rows,
       limitRows cnt (byTime isReverse
         (if startTime > 0 then filter (beyond isReverse startTime startSeq startClientMsgID) rows else rows)))))"

definition GetMessagesByClientMsgIDs :: "string \<Rightarrow> string list \<Rightarrow> ('e msg_client_scheme, LocalChatLog list) prog" where
  "GetMessagesByClientMsgIDs conversationID msgIDs = onTable conversationID (\<lambda>rows. Inr (rows,
     sort_key (\<lambda>r. - clSendTime r) (filter (\<lambda>r. clClientMsgID r \<in> set msgIDs) rows)))"

text \<open>The row with a number whose time is nearest to the start; \<^verbatim>\<open>First\<close> breaks a tie with the key.\<close>

definition GetLatestValidServerMessage :: "string \<Rightarrow> int \<Rightarrow> bool \<Rightarrow> ('e msg_client_scheme, LocalChatLog option) prog" where
  "GetLatestValidServerMessage conversationID startTime isReverse = onTable conversationID (\<lambda>rows.
     let found = filter (\<lambda>r. (if isReverse then clSendTime r < startTime else clSendTime r > startTime) \<and> clSeq r \<noteq> 0) rows;
         ordered = sort_key (\<lambda>r. if isReverse then - clSendTime r else clSendTime r) (sort_key clClientMsgID found) in
     Inr (rows, case ordered of [] \<Rightarrow> None | r # _ \<Rightarrow> Some r))"

definition InsertMessage :: "string \<Rightarrow> LocalChatLog \<Rightarrow> ('e msg_client_scheme, unit) prog" where
  "InsertMessage conversationID m = onTable conversationID (\<lambda>rows.
     if clClientMsgID m \<in> clClientMsgID ` set rows then Inl (ErrNew ''UNIQUE constraint failed'') else Inr (rows @ [m], ()))"

text \<open>One statement for all rows: a repeated key refuses all of them.\<close>

definition BatchInsertMessageList :: "string \<Rightarrow> LocalChatLog list \<Rightarrow> ('e msg_client_scheme, unit) prog" where
  "BatchInsertMessageList conversationID messageList = thenM (initChatLog conversationID) (onTable conversationID (\<lambda>rows.
     if \<not> distinct (map clClientMsgID messageList) \<or> clClientMsgID ` set messageList \<inter> clClientMsgID ` set rows \<noteq> {}
     then Inl (ErrNew ''UNIQUE constraint failed'') else Inr (rows @ messageList, ())))"

text \<open>\<^verbatim>\<open>Updates\<close> writes the non-zero fields of the struct.\<close>

abbreviation (input) nz :: "'a \<Rightarrow> 'a \<Rightarrow> 'a \<Rightarrow> 'a" where "nz zero' new old \<equiv> (if new = zero' then old else new)"

definition updatesRow :: "LocalChatLog \<Rightarrow> LocalChatLog \<Rightarrow> LocalChatLog" where
  "updatesRow c r = \<lparr>clClientMsgID = clClientMsgID r, clServerMsgID = nz '''' (clServerMsgID c) (clServerMsgID r),
     clSendID = nz '''' (clSendID c) (clSendID r), clRecvID = nz '''' (clRecvID c) (clRecvID r),
     clSenderPlatformID = nz 0 (clSenderPlatformID c) (clSenderPlatformID r), clSenderNickname = nz '''' (clSenderNickname c) (clSenderNickname r),
     clSenderFaceURL = nz '''' (clSenderFaceURL c) (clSenderFaceURL r), clSessionType = nz 0 (clSessionType c) (clSessionType r),
     clMsgFrom = nz 0 (clMsgFrom c) (clMsgFrom r), clContentType = nz 0 (clContentType c) (clContentType r),
     clContent = nz '''' (clContent c) (clContent r), clIsRead = (clIsRead c \<or> clIsRead r), clStatus = nz 0 (clStatus c) (clStatus r),
     clSeq = nz 0 (clSeq c) (clSeq r), clSendTime = nz 0 (clSendTime c) (clSendTime r), clCreateTime = nz 0 (clCreateTime c) (clCreateTime r),
     clAttachedInfo = nz '''' (clAttachedInfo c) (clAttachedInfo r), clEx = nz '''' (clEx c) (clEx r), clLocalEx = nz '''' (clLocalEx c) (clLocalEx r)\<rparr>"

definition UpdateMessage :: "string \<Rightarrow> LocalChatLog \<Rightarrow> ('e msg_client_scheme, unit) prog" where
  "UpdateMessage conversationID c = onTable conversationID (\<lambda>rows.
     if clClientMsgID c \<notin> clClientMsgID ` set rows then Inl (ErrNew ''RowsAffected == 0'')
     else Inr (map (\<lambda>r. if clClientMsgID r = clClientMsgID c then updatesRow c r else r) rows, ()))"

section \<open>Conversations\<close>

definition GetConversationRow :: "string \<Rightarrow> ('e msg_client_scheme, LocalConversation) prog" where
  "GetConversationRow conversationID = io (\<lambda>w. case List.find (\<lambda>c. lcConversationID c = conversationID) (conversations w) of
     None \<Rightarrow> (Inl ErrRecordNotFound, w) | Some c \<Rightarrow> (Inr c, w))"

definition updatesConversation :: "LocalConversation \<Rightarrow> LocalConversation \<Rightarrow> LocalConversation" where
  "updatesConversation c r = \<lparr>lcConversationID = lcConversationID r, lcConversationType = nz 0 (lcConversationType c) (lcConversationType r),
     lcUserID = nz '''' (lcUserID c) (lcUserID r), lcGroupID = nz '''' (lcGroupID c) (lcGroupID r), lcShowName = nz '''' (lcShowName c) (lcShowName r),
     lcFaceURL = nz '''' (lcFaceURL c) (lcFaceURL r), lcRecvMsgOpt = nz 0 (lcRecvMsgOpt c) (lcRecvMsgOpt r),
     lcUnreadCount = nz 0 (lcUnreadCount c) (lcUnreadCount r), lcGroupAtType = nz 0 (lcGroupAtType c) (lcGroupAtType r),
     lcLatestMsg = nz '''' (lcLatestMsg c) (lcLatestMsg r), lcLatestMsgSendTime = nz 0 (lcLatestMsgSendTime c) (lcLatestMsgSendTime r),
     lcDraftText = nz '''' (lcDraftText c) (lcDraftText r), lcDraftTextTime = nz 0 (lcDraftTextTime c) (lcDraftTextTime r),
     lcIsPinned = (lcIsPinned c \<or> lcIsPinned r), lcIsPrivateChat = (lcIsPrivateChat c \<or> lcIsPrivateChat r),
     lcBurnDuration = nz 0 (lcBurnDuration c) (lcBurnDuration r), lcIsNotInGroup = (lcIsNotInGroup c \<or> lcIsNotInGroup r),
     lcUpdateUnreadCountTime = nz 0 (lcUpdateUnreadCountTime c) (lcUpdateUnreadCountTime r),
     lcAttachedInfo = nz '''' (lcAttachedInfo c) (lcAttachedInfo r), lcEx = nz '''' (lcEx c) (lcEx r),
     lcMaxSeq = nz 0 (lcMaxSeq c) (lcMaxSeq r), lcMinSeq = nz 0 (lcMinSeq c) (lcMinSeq r),
     lcMsgDestructTime = nz 0 (lcMsgDestructTime c) (lcMsgDestructTime r), lcIsMsgDestruct = (lcIsMsgDestruct c \<or> lcIsMsgDestruct r)\<rparr>"

definition UpdateConversationRow :: "LocalConversation \<Rightarrow> ('e msg_client_scheme, unit) prog" where
  "UpdateConversationRow c = io (\<lambda>w. if lcConversationID c \<notin> lcConversationID ` set (conversations w) then (Inl (ErrNew ''RowsAffected == 0''), w)
     else (Inr (), w\<lparr>conversations := map (\<lambda>r. if lcConversationID r = lcConversationID c then updatesConversation c r else r) (conversations w)\<rparr>))"

definition UpdateLatestMsgColumns :: "string \<Rightarrow> int \<Rightarrow> string \<Rightarrow> ('e msg_client_scheme, unit) prog" where
  "UpdateLatestMsgColumns conversationID sendTime' latestMsg = io (\<lambda>w.
     if conversationID \<notin> lcConversationID ` set (conversations w) then (Inl ErrRecordNotFound, w)
     else (Inr (), w\<lparr>conversations := map (\<lambda>r. if lcConversationID r = conversationID
         then r\<lparr>lcLatestMsgSendTime := sendTime', lcLatestMsg := latestMsg\<rparr> else r) (conversations w)\<rparr>))"

definition InsertConversationRow :: "LocalConversation \<Rightarrow> ('e msg_client_scheme, unit) prog" where
  "InsertConversationRow c = io (\<lambda>w. if lcConversationID c \<in> lcConversationID ` set (conversations w) then (Inl (ErrNew ''UNIQUE constraint failed''), w)
     else (Inr (), w\<lparr>conversations := conversations w @ [c]\<rparr>))"

end
