(* ===== verification/Sdk_Msg_Sync.thy ===== *)
theory Sdk_Msg_Sync
  imports Sdk_Store Conversation_Ids
begin

text \<open>
  The message syncer of a client, \<^verbatim>\<open>sdk-core/internal/interaction/msg_sync.go\<close>: which messages of which conversation it asks from the server, in
  which batches, what it hands to the conversation goroutine and up to which number it takes a conversation as synchronised. A Go map that is ranged
  over is an association list, so that a theorem for every list is one for every order of the range; the goroutines of the reinstallation run one
  after the other in any order \<open>sched\<close>.
\<close>

abbreviation (input) connectPullNums :: int where "connectPullNums \<equiv> 1"
abbreviation (input) defaultPullNums :: int where "defaultPullNums \<equiv> 10"
abbreviation (input) SplitPullMsgNum :: int where "SplitPullMsgNum \<equiv> 100"
abbreviation (input) MsgSyncBegin :: int where "MsgSyncBegin \<equiv> 1001"
abbreviation (input) MsgSyncEnd :: int where "MsgSyncEnd \<equiv> 1003"
abbreviation (input) MsgSyncFailed :: int where "MsgSyncFailed \<equiv> 1004"
abbreviation (input) AppDataSyncStart :: int where "AppDataSyncStart \<equiv> 1005"
abbreviation (input) AppDataSyncFinish :: int where "AppDataSyncFinish \<equiv> 1006"

section \<open>State\<close>

text \<open>\<open>timerPending\<close>: the goroutine of \<open>startSync\<close> that waits five seconds.\<close>

record msg_syncer = msg_client +
  syncedMaxSeqs :: "string \<rightharpoonup> int"
  reinstalled :: bool
  isSyncing :: bool
  timerPending :: bool

type_synonym seq_map = "(string \<times> int \<times> int) list"

datatype sync_event =
    CmdConnSuccesss
  | CmdWakeUpDataSync
  | CmdIMMessageSync
  | CmdPushMsg msg_batch msg_batch
  | CmdOther string

text \<open>A Go map read without a test: 0 for an absent key.\<close>

definition syncedSeq :: "'e msg_syncer_scheme \<Rightarrow> string \<Rightarrow> int" where
  "syncedSeq w conversationID = (case syncedMaxSeqs w conversationID of None \<Rightarrow> 0 | Some s \<Rightarrow> s)"

definition markSynced :: "(string \<rightharpoonup> int) \<Rightarrow> (string \<times> int) list \<Rightarrow> (string \<rightharpoonup> int)" where
  "markSynced m rows = foldl (\<lambda>m (c, s). m(c \<mapsto> s)) m rows"

definition setSynced :: "(string \<times> int) list \<Rightarrow> ('e msg_syncer_scheme, unit) prog" where
  "setSynced rows = modifyM (\<lambda>w. w\<lparr>syncedMaxSeqs := markSynced (syncedMaxSeqs w) rows\<rparr>)"

section \<open>Loading\<close>

function slicesOf :: "nat \<Rightarrow> 'a list \<Rightarrow> 'a list list" where
  "slicesOf k xs = (if xs = [] \<or> k = 0 then [] else take k xs # slicesOf k (drop k xs))"
  by pat_completeness auto
termination by (relation "measure (\<lambda>(k, xs). length xs)") auto

declare slicesOf.simps [simp del]

definition loadSeq :: "('e msg_syncer_scheme, unit) prog" where
  "loadSeq = bindM GetAllConversationIDList (\<lambda>conversationIDList.
     thenM (if conversationIDList = []
            then bindM (tryM GetAppSDKVersion) (\<lambda>r. case r of
                Inl ErrRecordNotFound \<Rightarrow> modifyM (\<lambda>w. w\<lparr>reinstalled := True\<rparr>)
              | Inl e \<Rightarrow> throw e
              | Inr (_, installed) \<Rightarrow> if installed then ret () else modifyM (\<lambda>w. w\<lparr>reinstalled := True\<rparr>))
            else ret ())
     (bindM (foldM (\<lambda>part results. foldM (\<lambda>v results. bindM (tryM (CheckConversationNormalMsgSeq v)) (\<lambda>r. ret (results @ [(v, r)]))) part results)
        (slicesOf 20 conversationIDList) []) (\<lambda>results.
      thenM (setSynced (List.map_filter (\<lambda>(v, r). case r of Inl e \<Rightarrow> None | Inr s \<Rightarrow> Some (v, s)) results))
      (bindM GetNotificationAllSeqs setSynced))))"

section \<open>Commands for the conversations\<close>

definition triggerConversation :: "msg_batch \<Rightarrow> ('e msg_client_scheme, unit) prog" where
  "triggerConversation msgs = (if msgs \<noteq> [] then sendCmd (CmdNewMsgCome msgs) else ret ())"

definition triggerReinstallConversation :: "msg_batch \<Rightarrow> int \<Rightarrow> ('e msg_client_scheme, unit) prog" where
  "triggerReinstallConversation msgs total0 = (if msgs \<noteq> [] then sendCmd (CmdMsgSyncInReinstall msgs total0) else ret ())"

definition triggerNotification :: "msg_batch \<Rightarrow> ('e msg_client_scheme, unit) prog" where
  "triggerNotification msgs = (if msgs \<noteq> [] then thenM (tryM (sendCmd (CmdNotification msgs))) (ret ()) else ret ())"

definition TriggerCmdSyncFlag :: "int \<Rightarrow> ('e msg_client_scheme, unit) prog" where
  "TriggerCmdSyncFlag syncFlag = thenM (tryM (sendCmd (CmdSyncFlag syncFlag))) (ret ())"

definition TriggerCmdSyncData :: "('e msg_client_scheme, unit) prog" where
  "TriggerCmdSyncData = thenM (tryM (sendCmd CmdSyncData)) (ret ())"

section \<open>Requests to the server\<close>

definition seqRanges :: "seq_map \<Rightarrow> int \<Rightarrow> SeqRange list" where
  "seqRanges seqMap syncMsgNum = map (\<lambda>(c, b, e). \<lparr>srConversationID = c, srBegin = b, srEnd = e, srNum = syncMsgNum\<rparr>) seqMap"

definition pullMsgBySeqRange :: "msg_server \<Rightarrow> seq_map \<Rightarrow> int \<Rightarrow> ('e msg_client_scheme, msg_batch \<times> msg_batch) prog" where
  "pullMsgBySeqRange S seqMap syncMsgNum = bindM (gets mcUserID) (\<lambda>u.
     callServer (PullMsgByRange u (seqRanges seqMap syncMsgNum)) (\<lambda>n. msgsByRange S n u (seqRanges seqMap syncMsgNum)))"

definition fetchLatestValidMessages :: "msg_server \<Rightarrow> string list \<Rightarrow> ('e msg_client_scheme, (string \<times> MsgData) list) prog" where
  "fetchLatestValidMessages S conversationIDs = bindM (gets mcUserID) (\<lambda>u.
     callServer (PullConvLastMessage u conversationIDs) (\<lambda>n. convLastMessage S n u conversationIDs))"

definition getNewestSeq :: "msg_server \<Rightarrow> ('e msg_client_scheme, (string \<times> int) list) prog" where
  "getNewestSeq S = bindM (gets mcUserID) (\<lambda>u. callServer (GetNewestSeq u) (\<lambda>n. newestSeqs S n u))"

section \<open>Pulling and handing on\<close>

definition endsOf :: "seq_map \<Rightarrow> (string \<times> int) list" where
  "endsOf seqMap = map (\<lambda>(c, b, e). (c, e)) seqMap"

definition pullBatch :: "msg_server \<Rightarrow> seq_map \<Rightarrow> int \<Rightarrow> ('e msg_syncer_scheme, unit) prog" where
  "pullBatch S tempSeqMap syncMsgNum = bindM (pullMsgBySeqRange S tempSeqMap syncMsgNum) (\<lambda>(msgs, notifications).
     thenM (tryM (triggerConversation msgs)) (thenM (tryM (triggerNotification notifications)) (setSynced (endsOf tempSeqMap))))"

text \<open>How many messages a conversation adds to a batch.\<close>

definition pullWeight :: "int \<Rightarrow> string \<Rightarrow> int \<times> int \<Rightarrow> int" where
  "pullWeight syncMsgNum k v = (let n = snd v - fst v + 1 in
     if IsNotification k then n else if n > syncMsgNum then syncMsgNum else n)"

fun syncLoop :: "msg_server \<Rightarrow> int \<Rightarrow> seq_map \<Rightarrow> seq_map \<Rightarrow> int \<Rightarrow> ('e msg_syncer_scheme, unit) prog" where
  "syncLoop S syncMsgNum [] tempSeqMap msgNum =
     (if tempSeqMap \<noteq> [] then pullBatch S tempSeqMap syncMsgNum else ret ())"
| "syncLoop S syncMsgNum ((k, v) # seqMap) tempSeqMap msgNum =
     (let temp = tempSeqMap @ [(k, v)]; msgNum = msgNum + pullWeight syncMsgNum k v in
      if msgNum \<ge> SplitPullMsgNum
      then thenM (pullBatch S temp syncMsgNum) (syncLoop S syncMsgNum seqMap [] 0)
      else syncLoop S syncMsgNum seqMap temp msgNum)"

definition syncAndTriggerMsgs :: "msg_server \<Rightarrow> seq_map \<Rightarrow> int \<Rightarrow> ('e msg_syncer_scheme, unit) prog" where
  "syncAndTriggerMsgs S seqMap syncMsgNum = (if seqMap = [] then ret () else syncLoop S syncMsgNum seqMap [] 0)"

section \<open>After a reinstallation\<close>

text \<open>\<^verbatim>\<open>messages[conversationID] = ...\<close> on the map of the reply.\<close>

definition checkMessagesAndGetLastMessage :: "msg_server \<Rightarrow> msg_batch \<Rightarrow> ('e msg_client_scheme, msg_batch) prog" where
  "checkMessagesAndGetLastMessage S messages =
     (let conversationIDs = map fst (filter (\<lambda>(c, m). list_all (\<lambda>d. \<not> status d < MsgStatusHasDeleted) (pmMsgs m)) messages) in
      if conversationIDs = [] then ret messages
      else bindM (tryM (fetchLatestValidMessages S conversationIDs)) (\<lambda>r. case r of
          Inl e \<Rightarrow> ret messages
        | Inr msgs \<Rightarrow> ret (foldl (\<lambda>ms (c, m). AList.update c \<lparr>pmMsgs = [m], pmIsEnd = False, pmEndSeq = 0\<rparr> ms) messages msgs)))"

fun reinstallBatches :: "int \<Rightarrow> seq_map \<Rightarrow> seq_map \<Rightarrow> int \<Rightarrow> seq_map list \<times> seq_map" where
  "reinstallBatches syncMsgNum [] tempSeqMap msgNum = ([], tempSeqMap)"
| "reinstallBatches syncMsgNum ((k, v) # seqMap) tempSeqMap msgNum =
     (let n = min (snd v - fst v + 1) syncMsgNum; temp = tempSeqMap @ [(k, v)]; msgNum = (if n > 0 then msgNum + n else msgNum) in
      if msgNum \<ge> SplitPullMsgNum
      then (case reinstallBatches syncMsgNum seqMap [] 0 of (bs, rest) \<Rightarrow> (temp # bs, rest))
      else reinstallBatches syncMsgNum seqMap temp msgNum)"

text \<open>A goroutine: the ranges it asks for and the conversations it marks.\<close>

definition reinstallTask :: "msg_server \<Rightarrow> int \<Rightarrow> int \<Rightarrow> seq_map \<times> seq_map \<Rightarrow> ('e msg_syncer_scheme, unit) prog" where
  "reinstallTask S total0 syncMsgNum = (\<lambda>(tpSeqMap, marks).
     bindM (pullMsgBySeqRange S tpSeqMap syncMsgNum) (\<lambda>(msgs, notifications).
     bindM (checkMessagesAndGetLastMessage S msgs) (\<lambda>msgs.
     thenM (tryM (triggerReinstallConversation msgs total0)) (setSynced (endsOf marks)))))"

definition reinstallTasks :: "int \<Rightarrow> seq_map \<Rightarrow> (seq_map \<times> seq_map) list" where
  "reinstallTasks syncMsgNum seqMap = (case reinstallBatches syncMsgNum seqMap [] 0 of (bs, rest) \<Rightarrow> map (\<lambda>b. (b, b)) bs @ [(rest, seqMap)])"

text \<open>\<^verbatim>\<open>errgroup.Group\<close>: every goroutine runs, the first error in time is the result.\<close>

primrec errgroup :: "('w, unit) prog list \<Rightarrow> ('w, unit) prog" where
  "errgroup [] = ret ()"
| "errgroup (t # ts) = bindM (tryM t) (\<lambda>r. case r of Inr _ \<Rightarrow> errgroup ts | Inl e \<Rightarrow> thenM (tryM (errgroup ts)) (throw e))"

definition syncAndTriggerReinstallMsgs :: "msg_server \<Rightarrow> (nat \<Rightarrow> nat list) \<Rightarrow> seq_map \<Rightarrow> int \<Rightarrow> ('e msg_syncer_scheme, unit) prog" where
  "syncAndTriggerReinstallMsgs S sched seqMap syncMsgNum = (if seqMap = [] then ret () else
     (let tasks = reinstallTasks syncMsgNum seqMap in
      errgroup (map (\<lambda>i. reinstallTask S (int (length seqMap)) syncMsgNum (tasks ! i)) (sched (length tasks)))))"

section \<open>Comparing with the server\<close>

definition needSyncReinstalled :: "(string \<rightharpoonup> int) \<Rightarrow> (string \<times> int) list \<Rightarrow> seq_map" where
  "needSyncReinstalled synced = List.map_filter (\<lambda>(c, maxSeq). case synced c of
     Some s \<Rightarrow> if maxSeq > s then Some (c, s + 1, maxSeq) else None
   | None \<Rightarrow> Some (c, 0, maxSeq))"

definition needSync :: "(string \<rightharpoonup> int) \<Rightarrow> (string \<times> int) list \<Rightarrow> seq_map" where
  "needSync synced = List.map_filter (\<lambda>(c, maxSeq). case synced c of
     Some s \<Rightarrow> if maxSeq > s then Some (c, s + 1, maxSeq) else None
   | None \<Rightarrow> if maxSeq \<noteq> 0 then Some (c, 0, maxSeq) else None)"

definition compareSeqsAndBatchSync ::
  "msg_server \<Rightarrow> (nat \<Rightarrow> nat list) \<Rightarrow> (string \<times> int) list \<Rightarrow> int \<Rightarrow> ('e msg_syncer_scheme, unit) prog" where
  "compareSeqsAndBatchSync S sched maxSeqToSync pullNums = bindM (gets reinstalled) (\<lambda>reinst.
     if reinst then
       (let notifications = filter (\<lambda>(c, s). IsNotification c \<and> s \<noteq> 0) maxSeqToSync;
            messages = filter (\<lambda>(c, s). \<not> IsNotification c) maxSeqToSync in
        thenM (setSynced notifications)
        (thenM (if notifications \<noteq> [] then thenM (tryM (BatchInsertNotificationSeq notifications)) (ret ()) else ret ())
        (bindM (gets syncedMaxSeqs) (\<lambda>synced.
         thenM (tryM (syncAndTriggerReinstallMsgs S sched (needSyncReinstalled synced messages) pullNums))
         (thenM (tryM (SetAppSDKVersion '''' True)) (modifyM (\<lambda>w. w\<lparr>reinstalled := False\<rparr>)))))))
     else bindM (gets syncedMaxSeqs) (\<lambda>synced.
       thenM (tryM (syncAndTriggerMsgs S (needSync synced maxSeqToSync) pullNums)) (ret ())))"

section \<open>Pushed messages\<close>

text \<open>
  The messages of a conversation: those without a number are handed on at once, the others are stored. \<open>lastSeq\<close> and \<open>storageMsgs\<close> are
  declared before the loop over the conversations: what a conversation leaves there is there for the next one.
\<close>

primrec pushScan :: "(msg_batch \<Rightarrow> ('w, unit) prog) \<Rightarrow> string \<Rightarrow> MsgData list \<Rightarrow> int \<times> MsgData list \<Rightarrow> ('w, int \<times> MsgData list) prog" where
  "pushScan triggerFunc conversationID [] st = ret st"
| "pushScan triggerFunc conversationID (m # ms) st =
     (if seq m = 0 then thenM (tryM (triggerFunc [(conversationID, \<lparr>pmMsgs = [m], pmIsEnd = False, pmEndSeq = 0\<rparr>)]))
        (pushScan triggerFunc conversationID ms st)
      else pushScan triggerFunc conversationID ms (seq m, snd st @ [m]))"

primrec pushLoop ::
  "(msg_batch \<Rightarrow> ('e msg_syncer_scheme, unit) prog) \<Rightarrow> msg_batch \<Rightarrow> int \<times> MsgData list \<Rightarrow> seq_map \<Rightarrow> ('e msg_syncer_scheme, seq_map) prog" where
  "pushLoop triggerFunc [] st needSyncSeqMap = ret needSyncSeqMap"
| "pushLoop triggerFunc (cm # rest) st needSyncSeqMap =
     bindM (pushScan triggerFunc (fst cm) (pmMsgs (snd cm)) st) (\<lambda>(lastSeq, storageMsgs).
     bindM (gets (\<lambda>w. syncedSeq w (fst cm))) (\<lambda>synced.
     if lastSeq = synced + int (length storageMsgs) \<and> lastSeq \<noteq> 0
     then thenM (tryM (triggerFunc [(fst cm, \<lparr>pmMsgs = storageMsgs, pmIsEnd = False, pmEndSeq = 0\<rparr>)]))
       (thenM (setSynced [(fst cm, lastSeq)]) (pushLoop triggerFunc rest (lastSeq, storageMsgs) needSyncSeqMap))
     else if lastSeq \<noteq> 0 \<and> lastSeq > synced
     then pushLoop triggerFunc rest (lastSeq, storageMsgs) (needSyncSeqMap @ [(fst cm, synced + 1, lastSeq)])
     else pushLoop triggerFunc rest (lastSeq, storageMsgs) needSyncSeqMap))"

definition pushTriggerAndSync ::
  "msg_server \<Rightarrow> msg_batch \<Rightarrow> (msg_batch \<Rightarrow> ('e msg_syncer_scheme, unit) prog) \<Rightarrow> ('e msg_syncer_scheme, unit) prog" where
  "pushTriggerAndSync S pushMessages triggerFunc = (if pushMessages = [] then ret () else
     bindM (pushLoop triggerFunc pushMessages (0, []) []) (\<lambda>needSyncSeqMap.
     thenM (tryM (syncAndTriggerMsgs S needSyncSeqMap defaultPullNums)) (ret ())))"

definition doPushMsg :: "msg_server \<Rightarrow> msg_batch \<Rightarrow> msg_batch \<Rightarrow> ('e msg_syncer_scheme, unit) prog" where
  "doPushMsg S msgs notificationMsgs =
     thenM (pushTriggerAndSync S msgs triggerConversation) (pushTriggerAndSync S notificationMsgs triggerNotification)"

section \<open>Events\<close>

definition startSync :: "('e msg_syncer_scheme, bool) prog" where
  "startSync = bindM (gets isSyncing) (\<lambda>b. if b then ret False
     else thenM (modifyM (\<lambda>w. w\<lparr>isSyncing := True, timerPending := True\<rparr>)) (ret True))"

definition syncTimer :: "'e msg_syncer_scheme \<Rightarrow> 'e msg_syncer_scheme" where
  "syncTimer w = (if timerPending w then w\<lparr>isSyncing := False, timerPending := False\<rparr> else w)"

definition doConnected :: "msg_server \<Rightarrow> (nat \<Rightarrow> nat list) \<Rightarrow> ('e msg_syncer_scheme, unit) prog" where
  "doConnected S sched = bindM (gets reinstalled) (\<lambda>reinst.
     thenM (TriggerCmdSyncFlag (if reinst then AppDataSyncStart else MsgSyncBegin))
     (bindM (tryM (getNewestSeq S)) (\<lambda>r. case r of
        Inl e \<Rightarrow> TriggerCmdSyncFlag MsgSyncFailed
      | Inr maxSeqs \<Rightarrow> thenM (compareSeqsAndBatchSync S sched maxSeqs connectPullNums)
          (TriggerCmdSyncFlag (if reinst then AppDataSyncFinish else MsgSyncEnd)))))"

definition doIMMessageSync :: "msg_server \<Rightarrow> (nat \<Rightarrow> nat list) \<Rightarrow> ('e msg_syncer_scheme, unit) prog" where
  "doIMMessageSync S sched = bindM (tryM (getNewestSeq S)) (\<lambda>r. case r of
     Inl e \<Rightarrow> ret ()
   | Inr maxSeqs \<Rightarrow> compareSeqsAndBatchSync S sched maxSeqs defaultPullNums)"

definition doWakeupDataSync :: "msg_server \<Rightarrow> (nat \<Rightarrow> nat list) \<Rightarrow> ('e msg_syncer_scheme, unit) prog" where
  "doWakeupDataSync S sched = thenM TriggerCmdSyncData (bindM (tryM (getNewestSeq S)) (\<lambda>r. case r of
     Inl e \<Rightarrow> ret ()
   | Inr maxSeqs \<Rightarrow> compareSeqsAndBatchSync S sched maxSeqs defaultPullNums))"

definition handlePushMsgAndEvent :: "msg_server \<Rightarrow> (nat \<Rightarrow> nat list) \<Rightarrow> sync_event \<Rightarrow> ('e msg_syncer_scheme, unit) prog" where
  "handlePushMsgAndEvent S sched cmd = (case cmd of
     CmdConnSuccesss \<Rightarrow> bindM startSync (\<lambda>b. if b then doConnected S sched else ret ())
   | CmdWakeUpDataSync \<Rightarrow> bindM startSync (\<lambda>b. if b then doWakeupDataSync S sched else ret ())
   | CmdIMMessageSync \<Rightarrow> doIMMessageSync S sched
   | CmdPushMsg msgs notificationMsgs \<Rightarrow> doPushMsg S msgs notificationMsgs
   | CmdOther _ \<Rightarrow> ret ())"

section \<open>Message numbers\<close>

text \<open>\<open>syncMsgBySeqs\<close> asks again until it has an answer: the bound is the number of requests it makes.\<close>

definition getSeqsNeedSync :: "int \<Rightarrow> int \<Rightarrow> int list" where
  "getSeqsNeedSync syncedMaxSeq maxSeq = [syncedMaxSeq + 1..maxSeq]"

definition splitSeqs :: "nat \<Rightarrow> 'a list \<Rightarrow> 'a list list" where
  "splitSeqs split seqsNeedSync = (if length seqsNeedSync \<le> split then [seqsNeedSync] else slicesOf split seqsNeedSync)"

fun syncMsgLoop :: "msg_server \<Rightarrow> string \<Rightarrow> nat \<Rightarrow> int list list \<Rightarrow> MsgData list \<Rightarrow> ('e msg_client_scheme, MsgData list option) prog" where
  "syncMsgLoop S conversationID fuel [] allMsgs = ret (Some allMsgs)"
| "syncMsgLoop S conversationID 0 (p # ps) allMsgs = ret None"
| "syncMsgLoop S conversationID (Suc fuel) (p # ps) allMsgs = bindM (tryM (pullMsgBySeqRange S [] 0)) (\<lambda>r. case r of
     Inl e \<Rightarrow> syncMsgLoop S conversationID fuel (p # ps) allMsgs
   | Inr (msgs, notifications) \<Rightarrow> (case map_of msgs conversationID of
       None \<Rightarrow> throw (Panic ''nil pointer dereference'')
     | Some pm \<Rightarrow> syncMsgLoop S conversationID fuel ps (allMsgs @ pmMsgs pm)))"

definition syncMsgBySeqs :: "nat \<Rightarrow> msg_server \<Rightarrow> string \<Rightarrow> int list \<Rightarrow> ('e msg_client_scheme, MsgData list option) prog" where
  "syncMsgBySeqs fuel S conversationID seqsNeedSync = syncMsgLoop S conversationID fuel (splitSeqs 100 seqsNeedSync) []"

end
