(* ===== verification/Sdk_Msg_Sync_Props.thy ===== *)
theory Sdk_Msg_Sync_Props
  imports Sdk_Msg_Sync
begin

text \<open>
  What the message syncer promises. The requests are cut into batches by a pure function (\<open>syncBatches\<close>), and a synchronisation is the pulling of
  these batches one by one; a conversation is marked as synchronised exactly when the request that names it has been answered.
\<close>

section \<open>Batches\<close>

fun syncBatches :: "int \<Rightarrow> seq_map \<Rightarrow> seq_map \<Rightarrow> int \<Rightarrow> seq_map list" where
  "syncBatches n [] temp msgNum = (if temp \<noteq> [] then [temp] else [])"
| "syncBatches n ((k, v) # rest) temp msgNum =
     (if msgNum + pullWeight n k v \<ge> SplitPullMsgNum then (temp @ [(k, v)]) # syncBatches n rest [] 0
      else syncBatches n rest (temp @ [(k, v)]) (msgNum + pullWeight n k v))"

primrec pullAll :: "msg_server \<Rightarrow> int \<Rightarrow> seq_map list \<Rightarrow> ('e msg_syncer_scheme, unit) prog" where
  "pullAll S n [] = ret ()"
| "pullAll S n (b # bs) = thenM (pullBatch S b n) (pullAll S n bs)"

lemma syncLoop_pullAll: "syncLoop S n seqMap temp msgNum = pullAll S n (syncBatches n seqMap temp msgNum)"
  by (induction n seqMap temp msgNum rule: syncBatches.induct) (simp_all add: Let_def)

lemma syncAndTriggerMsgs_pullAll: "syncAndTriggerMsgs S seqMap n = pullAll S n (syncBatches n seqMap [] 0)"
  by (simp add: syncAndTriggerMsgs_def syncLoop_pullAll)

lemma concat_syncBatches: "concat (syncBatches n seqMap temp msgNum) = temp @ seqMap"
  by (induction n seqMap temp msgNum rule: syncBatches.induct) simp_all

lemma syncBatches_nonempty: "[] \<notin> set (syncBatches n seqMap temp msgNum)"
  by (induction n seqMap temp msgNum rule: syncBatches.induct) simp_all

section \<open>Marks\<close>

lemma markSynced_Nil [simp]: "markSynced m [] = m"
  by (simp add: markSynced_def)

lemma markSynced_Cons [simp]: "markSynced m (cs # rows) = markSynced (m(fst cs \<mapsto> snd cs)) rows"
  by (simp add: markSynced_def split: prod.split)

lemma markSynced_append: "markSynced m (xs @ ys) = markSynced (markSynced m xs) ys"
  by (simp add: markSynced_def)

lemma markSynced_other: "c \<notin> fst ` set rows \<Longrightarrow> markSynced m rows c = m c"
  by (induction rows arbitrary: m) auto

lemma markSynced_in: "distinct (map fst rows) \<Longrightarrow> (c, s) \<in> set rows \<Longrightarrow> markSynced m rows c = Some s"
  by (induction rows arbitrary: m) (auto simp: markSynced_other)

lemma fst_endsOf [simp]: "map fst (endsOf seqMap) = map fst seqMap"
  by (induction seqMap) (auto simp: endsOf_def)

lemma endsOf_append: "endsOf (xs @ ys) = endsOf xs @ endsOf ys"
  by (simp add: endsOf_def)

text \<open>No entry moves back and none disappears.\<close>

definition ahead :: "(string \<rightharpoonup> int) \<Rightarrow> (string \<rightharpoonup> int) \<Rightarrow> bool" where
  "ahead m m' \<longleftrightarrow> (\<forall>c s. m c = Some s \<longrightarrow> (\<exists>s'. m' c = Some s' \<and> s \<le> s'))"

lemma ahead_refl [simp]: "ahead m m"
  by (simp add: ahead_def)

lemma ahead_trans: "ahead m m' \<Longrightarrow> ahead m' m'' \<Longrightarrow> ahead m m''"
  unfolding ahead_def by (meson order_trans)

lemma ahead_markAll:
  assumes "distinct (map fst rows)" "\<And>c e s. (c, e) \<in> set rows \<Longrightarrow> m c = Some s \<Longrightarrow> s \<le> e"
  shows "ahead m (markSynced m rows)"
  unfolding ahead_def
proof (intro allI impI)
  fix c s assume s: "m c = Some s"
  show "\<exists>s'. markSynced m rows c = Some s' \<and> s \<le> s'"
  proof (cases "c \<in> fst ` set rows")
    case True
    then obtain e where "(c, e) \<in> set rows" by auto
    then show ?thesis using assms(2) [OF _ s] markSynced_in [OF assms(1)] by blast
  next
    case False
    then show ?thesis using s by (simp add: markSynced_other)
  qed
qed

section \<open>One batch\<close>

definition pullReq :: "string \<Rightarrow> int \<Rightarrow> seq_map \<Rightarrow> wire_req" where
  "pullReq u n b = PullMsgByRange u (seqRanges b n)"

text \<open>What a command for the conversations changes.\<close>

definition quietStep :: "'e msg_syncer_scheme \<Rightarrow> 'e msg_syncer_scheme \<Rightarrow> bool" where
  "quietStep w w' \<longleftrightarrow> (\<exists>n out. w' = w\<lparr>opno := n, conversationCh := conversationCh w @ out\<rparr>)"

lemma quietStep_refl [simp]: "quietStep w w"
  unfolding quietStep_def by (intro exI [of _ "opno w"] exI [of _ "[]"]) simp

lemma quietStep_trans: "quietStep w w' \<Longrightarrow> quietStep w' w'' \<Longrightarrow> quietStep w w''"
  unfolding quietStep_def
proof (elim exE)
  fix n n' out out' assume "w' = w\<lparr>opno := n, conversationCh := conversationCh w @ out\<rparr>"
    "w'' = w'\<lparr>opno := n', conversationCh := conversationCh w' @ out'\<rparr>"
  then show "\<exists>n out. w'' = w\<lparr>opno := n, conversationCh := conversationCh w @ out\<rparr>"
    by (intro exI [of _ n'] exI [of _ "out @ out'"]) simp
qed

lemma sendCmd_quiet:
  assumes "sendCmd c w = (r, w')"
  shows "quietStep w w'"
proof -
  have "w' = w\<lparr>opno := Suc (opno w), conversationCh := conversationCh w @ [c]\<rparr> \<or> w' = w\<lparr>opno := Suc (opno w), conversationCh := conversationCh w @ []\<rparr>"
    using assms by (auto simp: sendCmd_def Let_def split: fault.splits)
  then show ?thesis unfolding quietStep_def by blast
qed

lemma sendCmd_noPanic: "sendCmd c w = (Inl e, w') \<Longrightarrow> e \<noteq> Panic s"
  by (auto simp: sendCmd_def Let_def split: fault.splits)

lemma trigger_quiet:
  "triggerConversation msgs w = (r, w') \<Longrightarrow> quietStep w w'"
  "triggerReinstallConversation msgs n w = (r, w') \<Longrightarrow> quietStep w w'"
  "triggerNotification msgs w = (r, w') \<Longrightarrow> quietStep w w'"
  by (auto simp: triggerConversation_def triggerReinstallConversation_def triggerNotification_def bindM_def tryM_def
      split: if_splits prod.splits sum.splits err.splits dest: sendCmd_quiet)

lemma trigger_noPanic:
  "triggerConversation msgs w \<noteq> (Inl (Panic s), w')"
  "triggerReinstallConversation msgs n w \<noteq> (Inl (Panic s), w')"
  "triggerNotification msgs w \<noteq> (Inl (Panic s), w')"
  by (auto simp: triggerConversation_def triggerReinstallConversation_def triggerNotification_def bindM_def tryM_def
      split: if_splits prod.splits sum.splits err.splits dest: sendCmd_noPanic)

lemma try_quiet:
  assumes "\<And>r w'. m w = (r, w') \<Longrightarrow> quietStep w w'" "\<And>s w'. m w \<noteq> (Inl (Panic s), w')"
  obtains w' r where "tryM m w = (Inr r, w')" "quietStep w w'"
proof (cases "m w")
  case (Pair r w')
  then have "quietStep w w'" "\<And>s. r \<noteq> Inl (Panic s)" using assms by auto
  with Pair that show thesis
  proof (cases r)
    case (Inl e)
    with Pair that \<open>quietStep w w'\<close> \<open>\<And>s. r \<noteq> Inl (Panic s)\<close> show thesis by (cases e) (auto simp: tryM_def)
  qed (auto simp: tryM_def)
qed

lemma callServer_cases:
  obtains (answer) a where "reply (opno w) = Inr a" "callServer req reply w = (Inr a, w\<lparr>opno := Suc (opno w), wire := wire w @ [(req, True)]\<rparr>)"
    | (error) e where "\<And>s. e \<noteq> Panic s" "callServer req reply w = (Inl e, w\<lparr>opno := Suc (opno w), wire := wire w @ [(req, False)]\<rparr>)"
proof (cases "reply (opno w)")
  case (Inl e)
  show ?thesis
  proof (cases e)
    case (Panic s)
    then show ?thesis using Inl error [of "ErrNew s"] by (simp add: callServer_def)
  qed (use Inl error [of e] in \<open>simp_all add: callServer_def\<close>)
next
  case (Inr a)
  then show ?thesis using answer [of a] by (simp add: callServer_def)
qed

lemma pullMsgBySeqRange_cases:
  obtains (answer) msgs notifications where
      "pullMsgBySeqRange S b n w = (Inr (msgs, notifications), w\<lparr>opno := Suc (opno w), wire := wire w @ [(pullReq (mcUserID w) n b, True)]\<rparr>)"
    | (error) e where "\<And>s. e \<noteq> Panic s"
      "pullMsgBySeqRange S b n w = (Inl e, w\<lparr>opno := Suc (opno w), wire := wire w @ [(pullReq (mcUserID w) n b, False)]\<rparr>)"
proof (cases rule: callServer_cases [of "\<lambda>i. msgsByRange S i (mcUserID w) (seqRanges b n)" w "pullReq (mcUserID w) n b"])
  case (answer a)
  then show ?thesis using that(1) [of "fst a" "snd a"] by (simp add: pullMsgBySeqRange_def pullReq_def)
next
  case (error e)
  then show ?thesis using that(2) [of e] by (simp add: pullMsgBySeqRange_def pullReq_def)
qed

lemma pullBatch_cases:
  obtains (answer) w' where "pullBatch S b n w = (Inr (), w'\<lparr>syncedMaxSeqs := markSynced (syncedMaxSeqs w) (endsOf b)\<rparr>)"
      "quietStep (w\<lparr>wire := wire w @ [(pullReq (mcUserID w) n b, True)]\<rparr>) w'"
    | (error) e where "\<And>s. e \<noteq> Panic s"
      "pullBatch S b n w = (Inl e, w\<lparr>opno := Suc (opno w), wire := wire w @ [(pullReq (mcUserID w) n b, False)]\<rparr>)"
proof (cases rule: pullMsgBySeqRange_cases [of S b n w])
  case (answer msgs notifications)
  note ans = this and that = that
  let ?w1 = "w\<lparr>opno := Suc (opno w), wire := wire w @ [(pullReq (mcUserID w) n b, True)]\<rparr>"
  have q1: "quietStep (w\<lparr>wire := wire w @ [(pullReq (mcUserID w) n b, True)]\<rparr>) ?w1"
    unfolding quietStep_def by (intro exI [of _ "Suc (opno w)"] exI [of _ "[]"]) simp
  obtain w2 r2 where 2: "tryM (triggerConversation msgs) ?w1 = (Inr r2, w2)" "quietStep ?w1 w2"
    using try_quiet [of "triggerConversation msgs" ?w1] trigger_quiet(1) trigger_noPanic(1) by metis
  obtain w3 r3 where 3: "tryM (triggerNotification notifications) w2 = (Inr r3, w3)" "quietStep w2 w3"
    using try_quiet [of "triggerNotification notifications" w2] trigger_quiet(3) trigger_noPanic(3) by metis
  have "quietStep (w\<lparr>wire := wire w @ [(pullReq (mcUserID w) n b, True)]\<rparr>) w3"
    using q1 2(2) 3(2) quietStep_trans by blast
  moreover from this have "syncedMaxSeqs w3 = syncedMaxSeqs w" by (auto simp: quietStep_def)
  ultimately show ?thesis using that(1) [of w3] ans 2 3
    by (simp add: pullBatch_def bindM_def setSynced_def)
next
  case (error e)
  then show ?thesis using that(2) [of e] by (simp add: pullBatch_def bindM_def)
qed

section \<open>A synchronisation\<close>

text \<open>The requests of the first \<open>k\<close> batches are answered, the next one, if there is one, fails and ends the synchronisation.\<close>

definition pulledUpTo :: "int \<Rightarrow> seq_map list \<Rightarrow> nat \<Rightarrow> 'e msg_syncer_scheme \<Rightarrow> 'e msg_syncer_scheme \<Rightarrow> bool" where
  "pulledUpTo n bs k w w' \<longleftrightarrow> k \<le> length bs \<and>
     wire w' = wire w @ map (\<lambda>b. (pullReq (mcUserID w) n b, True)) (take k bs) @ (if k < length bs then [(pullReq (mcUserID w) n (bs ! k), False)] else []) \<and>
     syncedMaxSeqs w' = markSynced (syncedMaxSeqs w) (endsOf (concat (take k bs))) \<and> mcUserID w' = mcUserID w \<and> reinstalled w' = reinstalled w"

lemma pullAll_pulls:
  "\<exists>k r w'. pullAll S n bs w = (r, w') \<and> pulledUpTo n bs k w w' \<and> (r = Inr () \<longleftrightarrow> k = length bs) \<and> (\<forall>s. r \<noteq> Inl (Panic s))"
proof (induction bs arbitrary: w)
  case Nil
  then show ?case by (simp add: pulledUpTo_def endsOf_def)
next
  case (Cons b bs)
  show ?case
  proof (cases rule: pullBatch_cases [of S b n w])
    case (answer w1)
    let ?w2 = "w1\<lparr>syncedMaxSeqs := markSynced (syncedMaxSeqs w) (endsOf b)\<rparr>"
    obtain k r w' where ih: "pullAll S n bs ?w2 = (r, w')" "pulledUpTo n bs k ?w2 w'" "r = Inr () \<longleftrightarrow> k = length bs" "\<forall>s. r \<noteq> Inl (Panic s)"
      using Cons by blast
    have "pulledUpTo n (b # bs) (Suc k) w w'"
      using ih(2) answer(2) by (auto simp: pulledUpTo_def quietStep_def endsOf_append markSynced_append)
    then show ?thesis using ih answer by (intro exI [of _ "Suc k"]) (auto simp: bindM_def)
  next
    case (error e)
    then show ?thesis by (intro exI [of _ 0]) (auto simp: bindM_def pulledUpTo_def endsOf_def)
  qed
qed

section \<open>Marks never move back\<close>

definition onward :: "'e msg_syncer_scheme \<Rightarrow> 'e msg_syncer_scheme \<Rightarrow> bool" where
  "onward w w' \<longleftrightarrow> \<not> reinstalled w' \<and> ahead (syncedMaxSeqs w) (syncedMaxSeqs w')"

definition forward :: "('e msg_syncer_scheme, 'a) prog \<Rightarrow> bool" where
  "forward m \<longleftrightarrow> (\<forall>w. \<not> reinstalled w \<longrightarrow> onward w (snd (m w)))"

lemma forwardI: "(\<And>w r w'. \<not> reinstalled w \<Longrightarrow> m w = (r, w') \<Longrightarrow> onward w w') \<Longrightarrow> forward m"
  unfolding forward_def by (metis prod.collapse)

lemma forwardD: "forward m \<Longrightarrow> \<not> reinstalled w \<Longrightarrow> m w = (r, w') \<Longrightarrow> onward w w'"
  unfolding forward_def by (metis snd_conv)

lemma onward_trans: "onward w w' \<Longrightarrow> onward w' w'' \<Longrightarrow> onward w w''"
  unfolding onward_def using ahead_trans by blast

lemma forward_ret [intro!]: "forward (ret a)"
  by (auto simp: forward_def onward_def)

lemma forward_throw [intro!]: "forward (throw e)"
  by (auto simp: forward_def onward_def)

lemma forward_bind: "forward m \<Longrightarrow> (\<And>a. forward (f a)) \<Longrightarrow> forward (bindM m f)"
proof (rule forwardI)
  fix w r w' assume m: "forward m" "\<And>a. forward (f a)" "\<not> reinstalled w" "bindM m f w = (r, w')"
  obtain r1 w1 where 1: "m w = (r1, w1)" by fastforce
  with m have o1: "onward w w1" using forwardD by blast
  show "onward w w'"
  proof (cases r1)
    case (Inl e)
    with 1 m o1 show ?thesis by (simp add: bindM_def)
  next
    case (Inr a)
    with 1 m have "f a w1 = (r, w')" by (simp add: bindM_def)
    with m o1 have "onward w1 w'" using forwardD [of "f a"] by (auto simp: onward_def)
    with o1 show ?thesis by (rule onward_trans)
  qed
qed

lemma forward_tryM: "forward m \<Longrightarrow> forward (tryM m)"
  unfolding forward_def tryM_def by (fastforce split: prod.splits sum.splits err.splits)

lemma quietStep_onward: "\<not> reinstalled w \<Longrightarrow> quietStep w w' \<Longrightarrow> onward w w'"
  by (auto simp: quietStep_def onward_def)

lemma forward_trigger:
  "forward (sendCmd c)" "forward (triggerConversation msgs)" "forward (triggerNotification msgs)" "forward (TriggerCmdSyncFlag f)" "forward TriggerCmdSyncData"
proof -
  show s: "forward (sendCmd c)" for c :: sdk_cmd
    using sendCmd_quiet quietStep_onward by (metis forwardI)
  show "forward (triggerConversation msgs)" "forward (triggerNotification msgs)" "forward (TriggerCmdSyncFlag f)" "forward TriggerCmdSyncData"
    unfolding triggerConversation_def triggerNotification_def TriggerCmdSyncFlag_def TriggerCmdSyncData_def
    by (auto intro!: s forward_bind forward_tryM)
qed

lemma forward_getNewestSeq: "forward (getNewestSeq S)"
  by (rule forwardI) (auto simp: getNewestSeq_def callServer_def Let_def onward_def)

text \<open>A synchronisation whose ends lie above the marks.\<close>

definition belowEnds :: "(string \<rightharpoonup> int) \<Rightarrow> seq_map \<Rightarrow> bool" where
  "belowEnds m seqMap \<longleftrightarrow> distinct (map fst seqMap) \<and> (\<forall>c b e s. (c, b, e) \<in> set seqMap \<longrightarrow> m c = Some s \<longrightarrow> s \<le> e)"

lemma belowEnds_append: "belowEnds m (xs @ ys) \<Longrightarrow> belowEnds m xs"
  by (auto simp: belowEnds_def)

lemma belowEnds_ahead: "belowEnds m seqMap \<Longrightarrow> ahead m (markSynced m (endsOf seqMap))"
  by (rule ahead_markAll) (auto simp: belowEnds_def, auto simp: endsOf_def)

lemma sync_onward:
  assumes "\<not> reinstalled w" "belowEnds (syncedMaxSeqs w) seqMap" "syncAndTriggerMsgs S seqMap n w = (r, w')"
  shows "onward w w'"
proof -
  let ?bs = "syncBatches n seqMap [] 0"
  obtain k where k: "pulledUpTo n ?bs k w w'"
    using pullAll_pulls [of S n ?bs w] assms(3) by (auto simp: syncAndTriggerMsgs_pullAll)
  have "concat (take k ?bs) @ concat (drop k ?bs) = seqMap"
    using concat_syncBatches [of n seqMap "[]" 0] by (metis append_take_drop_id concat_append append_Nil)
  then have "belowEnds (syncedMaxSeqs w) (concat (take k ?bs))"
    using assms(2) belowEnds_append by metis
  then have "ahead (syncedMaxSeqs w) (markSynced (syncedMaxSeqs w) (endsOf (concat (take k ?bs))))"
    by (rule belowEnds_ahead)
  with k assms(1) show ?thesis by (simp add: pulledUpTo_def onward_def)
qed

lemma needSync_belowEnds: "distinct (map fst rows) \<Longrightarrow> belowEnds m (needSync m rows)"
proof (induction rows)
  case (Cons cs rows)
  have sub: "c \<in> fst ` set (needSync m rows) \<Longrightarrow> c \<in> fst ` set rows" for c
    by (force simp: needSync_def List.map_filter_def split: option.splits if_splits)
  obtain c n where cs: "cs = (c, n)" by fastforce
  have step: "belowEnds m (needSync m rows)" "c \<notin> fst ` set (needSync m rows)"
    using Cons sub cs by auto
  have "needSync m (cs # rows) = needSync m rows \<or> (\<exists>b. needSync m (cs # rows) = (c, b, n) # needSync m rows \<and> (\<forall>s. m c = Some s \<longrightarrow> s \<le> n))"
    by (auto simp: needSync_def cs List.map_filter_simps split: option.splits)
  with step show ?case by (auto simp: belowEnds_def)
qed (simp add: belowEnds_def needSync_def List.map_filter_simps)

lemma forward_compare:
  assumes "distinct (map fst maxSeqs)"
  shows "forward (compareSeqsAndBatchSync S sched maxSeqs n)"
proof (rule forwardI)
  fix w :: "'e msg_syncer_scheme" and r w' assume w: "\<not> reinstalled w" and "compareSeqsAndBatchSync S sched maxSeqs n w = (r, w')"
  then have "w' = snd (syncAndTriggerMsgs S (needSync (syncedMaxSeqs w) maxSeqs) n w)"
    by (auto simp: compareSeqsAndBatchSync_def bindM_def tryM_def split: prod.splits sum.splits err.splits)
  then show "onward w w'" using sync_onward [OF w needSync_belowEnds [OF assms]] by (metis prod.collapse)
qed

text \<open>Maps: the replies of the server and the pushed messages name a conversation once.\<close>

definition mapReplies :: "msg_server \<Rightarrow> bool" where
  "mapReplies S \<longleftrightarrow> (\<forall>n u rows. newestSeqs S n u = Inr rows \<longrightarrow> distinct (map fst rows))"

lemma forward_after_newest:
  assumes "mapReplies S" "\<And>rows. distinct (map fst rows) \<Longrightarrow> forward (f rows)" "\<And>e. forward (g e)"
  shows "forward (bindM (tryM (getNewestSeq S) :: ('a msg_syncer_scheme, _) prog) (\<lambda>r. case r of Inl e \<Rightarrow> g e | Inr rows \<Rightarrow> f rows))"
proof (rule forwardI)
  fix w r w' assume w: "\<not> reinstalled (w :: 'a msg_syncer_scheme)" and
    r: "bindM (tryM (getNewestSeq S)) (\<lambda>r. case r of Inl e \<Rightarrow> g e | Inr rows \<Rightarrow> f rows) w = (r, w')"
  obtain r1 w1 where 1: "tryM (getNewestSeq S) w = (Inr r1, w1)" "\<And>rows. r1 = Inr rows \<Longrightarrow> distinct (map fst rows)"
  proof (cases rule: callServer_cases [of "\<lambda>i. newestSeqs S i (mcUserID w)" w "GetNewestSeq (mcUserID w)"])
    case (answer a)
    then show thesis using that [of "Inr a"] assms(1) by (simp add: getNewestSeq_def tryM_def mapReplies_def)
  next
    case (error e)
    then have "tryM (getNewestSeq S) w = (Inr (Inl e), w\<lparr>opno := Suc (opno w), wire := wire w @ [(GetNewestSeq (mcUserID w), False)]\<rparr>)"
      unfolding tryM_Inl_eq by (simp add: getNewestSeq_def)
    then show thesis using that [of "Inl e"] by simp
  qed
  have o1: "onward w w1"
    using 1(1) w forwardD forward_getNewestSeq forward_tryM by blast
  from r 1(1) have "(case r1 of Inl e \<Rightarrow> g e | Inr rows \<Rightarrow> f rows) w1 = (r, w')" by (simp add: bindM_def)
  moreover have "forward (case r1 of Inl e \<Rightarrow> g e | Inr rows \<Rightarrow> f rows)"
    using 1(2) assms(2,3) by (auto split: sum.split)
  ultimately have "onward w1 w'" using o1 forwardD onward_def by blast
  with o1 show "onward w w'" by (rule onward_trans)
qed

subsection \<open>Pushed messages\<close>

definition quietTrigger :: "(msg_batch \<Rightarrow> ('e msg_syncer_scheme, unit) prog) \<Rightarrow> bool" where
  "quietTrigger triggerFunc \<longleftrightarrow> (\<forall>msgs w. (\<exists>r w'. tryM (triggerFunc msgs) w = (Inr r, w') \<and> quietStep w w'))"

lemma quietTriggers: "quietTrigger triggerConversation" "quietTrigger triggerNotification"
proof -
  have "\<exists>r w'. tryM (triggerConversation msgs) w = (Inr r, w') \<and> quietStep w w'" for msgs and w :: "'a msg_syncer_scheme"
    using try_quiet [of "triggerConversation msgs" w] trigger_quiet(1) trigger_noPanic(1) by metis
  then show "quietTrigger (triggerConversation :: _ \<Rightarrow> ('a msg_syncer_scheme, unit) prog)" by (simp add: quietTrigger_def)
  have "\<exists>r w'. tryM (triggerNotification msgs) w = (Inr r, w') \<and> quietStep w w'" for msgs and w :: "'b msg_syncer_scheme"
    using try_quiet [of "triggerNotification msgs" w] trigger_quiet(3) trigger_noPanic(3) by metis
  then show "quietTrigger (triggerNotification :: _ \<Rightarrow> ('b msg_syncer_scheme, unit) prog)" by (simp add: quietTrigger_def)
qed

lemma pushScan_quiet:
  assumes "quietTrigger triggerFunc"
  shows "\<exists>w'. pushScan triggerFunc c ms st w =
      (Inr ((if filter (\<lambda>m. seq m \<noteq> 0) ms = [] then fst st else seq (last (filter (\<lambda>m. seq m \<noteq> 0) ms))), snd st @ filter (\<lambda>m. seq m \<noteq> 0) ms), w') \<and> quietStep w w'"
proof (induction ms arbitrary: st w)
  case (Cons m ms)
  show ?case
  proof (cases "seq m = 0")
    case True
    obtain r w1 where 1: "tryM (triggerFunc [(c, \<lparr>pmMsgs = [m], pmIsEnd = False, pmEndSeq = 0\<rparr>)]) w = (Inr r, w1)" "quietStep w w1"
      using assms unfolding quietTrigger_def by blast
    from Cons [of st w1] True 1 show ?thesis by (auto simp: bindM_def intro: quietStep_trans)
  next
    case False
    with Cons [of "(seq m, snd st @ [m])" w] show ?thesis by auto
  qed
qed simp

lemma quiet_synced: "quietStep w w' \<Longrightarrow> syncedMaxSeqs w' = syncedMaxSeqs w" "quietStep w w' \<Longrightarrow> reinstalled w' = reinstalled w"
  by (auto simp: quietStep_def)

lemma pushLoop_onward:
  assumes "quietTrigger triggerFunc" "\<not> reinstalled w" "belowEnds (syncedMaxSeqs w) needs" "distinct (map fst needs @ map fst rest)"
  shows "\<exists>needs' w'. pushLoop triggerFunc rest st needs w = (Inr needs', w') \<and> onward w w' \<and> belowEnds (syncedMaxSeqs w') needs'"
  using assms(2-4)
proof (induction rest arbitrary: st needs w)
  case Nil
  then show ?case by (simp add: onward_def)
next
  case (Cons cm rest)
  obtain lastSeq storageMsgs w1 where 1: "pushScan triggerFunc (fst cm) (pmMsgs (snd cm)) st w = (Inr (lastSeq, storageMsgs), w1)" "quietStep w w1"
    using pushScan_quiet [OF assms(1)] by metis
  note q1 = quiet_synced [OF 1(2)]
  show ?case
  proof (cases "lastSeq = syncedSeq w1 (fst cm) + int (length storageMsgs) \<and> lastSeq \<noteq> 0")
    case True
    obtain r w2 where 2: "tryM (triggerFunc [(fst cm, \<lparr>pmMsgs = storageMsgs, pmIsEnd = False, pmEndSeq = 0\<rparr>)]) w1 = (Inr r, w2)" "quietStep w1 w2"
      using assms(1) unfolding quietTrigger_def by blast
    note q2 = quiet_synced [OF 2(2)]
    let ?w3 = "w2\<lparr>syncedMaxSeqs := (syncedMaxSeqs w2)(fst cm \<mapsto> lastSeq)\<rparr>"
    have o: "onward w ?w3"
      using True Cons.prems(1) q1 q2 by (auto simp: onward_def ahead_def syncedSeq_def)
    have "belowEnds (syncedMaxSeqs ?w3) needs"
      using Cons.prems(2,3) q1 q2 by (force simp: belowEnds_def)
    moreover have "\<not> reinstalled ?w3" using Cons.prems(1) q1 q2 by simp
    moreover have "distinct (map fst needs @ map fst rest)" using Cons.prems(3) by auto
    ultimately obtain needs' w' where ih: "pushLoop triggerFunc rest (lastSeq, storageMsgs) needs ?w3 = (Inr needs', w')"
        "onward ?w3 w'" "belowEnds (syncedMaxSeqs w') needs'"
      using Cons.IH by blast
    then show ?thesis using 1 2 True onward_trans [OF o ih(2)] by (simp add: bindM_def setSynced_def)
  next
    case False
    let ?needs = "if lastSeq \<noteq> 0 \<and> lastSeq > syncedSeq w1 (fst cm) then needs @ [(fst cm, syncedSeq w1 (fst cm) + 1, lastSeq)] else needs"
    have o: "onward w w1" using quietStep_onward [OF Cons.prems(1) 1(2)] .
    have "belowEnds (syncedMaxSeqs w1) ?needs"
      using Cons.prems(2,3) q1 by (auto simp: belowEnds_def syncedSeq_def)
    moreover have "distinct (map fst ?needs @ map fst rest)"
      using Cons.prems(3) by auto
    moreover have "\<not> reinstalled w1" using Cons.prems(1) q1 by simp
    ultimately obtain needs' w' where ih: "pushLoop triggerFunc rest (lastSeq, storageMsgs) ?needs w1 = (Inr needs', w')"
        "onward w1 w'" "belowEnds (syncedMaxSeqs w') needs'"
      using Cons.IH by blast
    have "pushLoop triggerFunc (cm # rest) st needs w = pushLoop triggerFunc rest (lastSeq, storageMsgs) ?needs w1"
      using 1(1) False by (auto simp: bindM_def)
    then show ?thesis using ih onward_trans [OF o ih(2)] by simp
  qed
qed

lemma forward_push:
  assumes "quietTrigger triggerFunc" "distinct (map fst msgs)"
  shows "forward (pushTriggerAndSync S msgs triggerFunc)"
proof (rule forwardI)
  fix w r w' assume w: "\<not> reinstalled (w :: 'a msg_syncer_scheme)" and r: "pushTriggerAndSync S msgs triggerFunc w = (r, w')"
  show "onward w w'"
  proof (cases "msgs = []")
    case False
    obtain needs w1 where 1: "pushLoop triggerFunc msgs (0, []) [] w = (Inr needs, w1)" "onward w w1" "belowEnds (syncedMaxSeqs w1) needs"
      using pushLoop_onward [OF assms(1) w, of "[]" msgs "(0, [])"] assms(2) by (auto simp: belowEnds_def)
    have "w' = snd (syncAndTriggerMsgs S needs defaultPullNums w1)"
      using r 1(1) False by (auto simp: pushTriggerAndSync_def bindM_def tryM_def split: prod.splits sum.splits err.splits)
    then show ?thesis using sync_onward [OF _ 1(3)] 1(2) onward_trans by (metis onward_def prod.collapse)
  qed (use w r in \<open>simp add: pushTriggerAndSync_def onward_def\<close>)
qed

subsection \<open>Any sequence of events\<close>

definition mapEvent :: "sync_event \<Rightarrow> bool" where
  "mapEvent ev = (case ev of CmdPushMsg msgs notifications \<Rightarrow> distinct (map fst msgs) \<and> distinct (map fst notifications) | _ \<Rightarrow> True)"

lemma forward_startSync: "forward startSync"
  by (rule forwardI) (auto simp: startSync_def onward_def split: if_splits)

lemma forward_doConnected:
  assumes "mapReplies S"
  shows "forward (doConnected S sched)"
proof (rule forwardI)
  fix w r w' assume w: "\<not> reinstalled (w :: 'a msg_syncer_scheme)" and r: "doConnected S sched w = (r, w')"
  have "forward (thenM (TriggerCmdSyncFlag MsgSyncBegin)
     (bindM (tryM (getNewestSeq S)) (\<lambda>r. case r of Inl e \<Rightarrow> TriggerCmdSyncFlag MsgSyncFailed
      | Inr maxSeqs \<Rightarrow> thenM (compareSeqsAndBatchSync S sched maxSeqs connectPullNums) (TriggerCmdSyncFlag MsgSyncEnd))))"
    by (intro forward_bind forward_after_newest assms forward_compare forward_trigger)
  then show "onward w w'" using forwardD [OF _ w] w r by (auto simp: doConnected_def)
qed

lemma forward_doIM: "mapReplies S \<Longrightarrow> forward (doIMMessageSync S sched)"
  unfolding doIMMessageSync_def by (rule forward_after_newest) (auto intro: forward_compare)

lemma forward_doWakeup: "mapReplies S \<Longrightarrow> forward (doWakeupDataSync S sched)"
  unfolding doWakeupDataSync_def by (intro forward_bind forward_trigger forward_doIM [unfolded doIMMessageSync_def])

lemma forward_handle: "mapReplies S \<Longrightarrow> mapEvent ev \<Longrightarrow> forward (handlePushMsgAndEvent S sched ev)"
  unfolding handlePushMsgAndEvent_def mapEvent_def doPushMsg_def
  by (auto split: sync_event.splits intro!: forward_bind forward_startSync forward_doConnected forward_doWakeup forward_doIM
      forward_push quietTriggers)

text \<open>The goroutine of the syncer: events one after the other, \<open>None\<close> for the end of the five seconds.\<close>

primrec syncRun :: "msg_server \<Rightarrow> (nat \<Rightarrow> nat list) \<Rightarrow> sync_event option list \<Rightarrow> 'e msg_syncer_scheme \<Rightarrow> 'e msg_syncer_scheme" where
  "syncRun S sched [] w = w"
| "syncRun S sched (ev # evs) w = syncRun S sched evs
     (case ev of None \<Rightarrow> syncTimer w | Some cmd \<Rightarrow> snd (handlePushMsgAndEvent S sched cmd w))"

lemma syncRun_onward:
  "mapReplies S \<Longrightarrow> \<forall>ev. Some ev \<in> set evs \<longrightarrow> mapEvent ev \<Longrightarrow> \<not> reinstalled w \<Longrightarrow> onward w (syncRun S sched evs w)"
proof (induction evs arbitrary: w)
  case Nil
  then show ?case by (simp add: onward_def)
next
  case (Cons ev evs)
  let ?w = "case ev of None \<Rightarrow> syncTimer w | Some cmd \<Rightarrow> snd (handlePushMsgAndEvent S sched cmd w)"
  have "onward w ?w"
    using Cons.prems forward_handle [of S _ sched] by (auto simp: forward_def syncTimer_def onward_def split: option.splits)
  with Cons show ?case by (auto simp: onward_def intro: onward_trans [unfolded onward_def] ahead_trans)
qed

section \<open>Properties\<close>

text \<open>
  C2. A synchronisation cuts the conversations into batches, asks for them one after the other until a request fails, and takes a conversation as
  synchronised up to the end of its range exactly when the request that names it was answered; it succeeds when all of them were.
\<close>

theorem sync_marks_answered:
  "concat (syncBatches n seqMap [] 0) = seqMap \<and>
   (\<exists>k r w'. syncAndTriggerMsgs S seqMap n w = (r, w') \<and> pulledUpTo n (syncBatches n seqMap [] 0) k w w' \<and>
      (r = Inr () \<longleftrightarrow> k = length (syncBatches n seqMap [] 0)))"
  using pullAll_pulls [of S n "syncBatches n seqMap [] 0" w] concat_syncBatches [of n seqMap "[]" 0]
  by (auto simp: syncAndTriggerMsgs_pullAll)

text \<open>
  C7. Outside a reinstallation the numbers up to which the conversations are synchronised never move back, in any sequence of connections, wake-ups,
  manual synchronisations and pushed messages, whatever the server answers and whatever fails.
\<close>

theorem marks_never_back:
  assumes "mapReplies S" "\<forall>ev. Some ev \<in> set evs \<longrightarrow> mapEvent ev" "\<not> reinstalled w" "syncedMaxSeqs w c = Some s"
  shows "\<exists>s'. syncedMaxSeqs (syncRun S sched evs w) c = Some s' \<and> s \<le> s'"
  using syncRun_onward [OF assms(1-3)] assms(4) by (auto simp: onward_def ahead_def)

subsection \<open>One conversation\<close>

lemma pushLoop_one:
  assumes "quietTrigger triggerFunc" "\<forall>m \<in> set (pmMsgs pm). seq m \<noteq> 0" "pmMsgs pm \<noteq> []"
  shows "pushLoop triggerFunc [(c, pm)] (0, []) [] w =
    (let l = seq (last (pmMsgs pm)); s = syncedSeq w c in
     if l = s + int (length (pmMsgs pm))
     then thenM (tryM (triggerFunc [(c, \<lparr>pmMsgs = pmMsgs pm, pmIsEnd = False, pmEndSeq = 0\<rparr>)])) (thenM (setSynced [(c, l)]) (ret [])) w
     else (Inr (if l > s then [(c, s + 1, l)] else []), w))"
proof -
  have f: "filter (\<lambda>m. seq m \<noteq> 0) (pmMsgs pm) = pmMsgs pm" using assms(2) by simp
  have "pushScan triggerFunc c ms st w = (Inr (if ms = [] then fst st else seq (last ms), snd st @ ms), w)"
    if "\<forall>m \<in> set ms. seq m \<noteq> 0" for ms and st :: "int \<times> MsgData list"
    using that by (induction ms arbitrary: st) auto
  note scan = this [OF assms(2), of "(0, [])"]
  have "seq (last (pmMsgs pm)) \<noteq> 0" using assms(2,3) last_in_set by blast
  with assms(3) show ?thesis by (auto simp: bindM_def scan Let_def)
qed

text \<open>Numbers that rise and end as far above the mark as there are numbers are the numbers above the mark.\<close>

lemma rising_gap: "sorted_wrt (<) (s # xs) \<Longrightarrow> last (s # xs) \<ge> s + int (length xs)"
  by (induction xs arbitrary: s rule: list.induct) (auto, smt (verit) last_in_set)

lemma rising_full: "sorted_wrt (<) ((s::int) # xs) \<Longrightarrow> last (s # xs) = s + int (length xs) \<Longrightarrow> xs = [s + 1..s + int (length xs)]"
proof (induction xs arbitrary: s)
  case (Cons x xs)
  have "last (x # xs) \<ge> x + int (length xs)" using rising_gap [of x xs] Cons.prems(1) by simp
  with Cons.prems have x: "x = s + 1" by auto
  with Cons.prems have "xs = [x + 1..x + int (length xs)]" by (intro Cons.IH) auto
  with x show ?case by (simp add: upto_rec1 algebra_simps)
qed simp

lemma nothing_to_sync: "tryM (syncAndTriggerMsgs S [] n) w = (Inr (Inr ()), w)"
  by (simp add: syncAndTriggerMsgs_def tryM_def)

lemma doPushMsg_one:
  assumes "\<forall>m \<in> set (pmMsgs pm). seq m \<noteq> 0" "pmMsgs pm \<noteq> []"
  shows "doPushMsg S [(c, pm)] [] w =
    (let l = seq (last (pmMsgs pm)); s = syncedSeq w c in
     if l = s + int (length (pmMsgs pm))
     then (Inr (), (snd (triggerConversation [(c, \<lparr>pmMsgs = pmMsgs pm, pmIsEnd = False, pmEndSeq = 0\<rparr>)] w))\<lparr>syncedMaxSeqs := (syncedMaxSeqs w)(c \<mapsto> l)\<rparr>)
     else if l > s then (Inr (), snd (pullBatch S [(c, s + 1, l)] defaultPullNums w))
     else (Inr (), w))"
proof -
  note one = pushLoop_one [OF quietTriggers(1) assms, of c w]
  let ?msg = "[(c, \<lparr>pmMsgs = pmMsgs pm, pmIsEnd = False, pmEndSeq = 0\<rparr>)]"
  obtain r w1 where 1: "triggerConversation ?msg w = (r, w1)" by fastforce
  have tr: "\<exists>x. tryM (triggerConversation ?msg) w = (Inr x, w1)"
  proof -
    obtain w2 r2 where "tryM (triggerConversation ?msg) w = (Inr r2, w2)"
      using try_quiet [of "triggerConversation ?msg" w] trigger_quiet(1) trigger_noPanic(1) by metis
    with 1 show ?thesis by (auto simp: tryM_def split: sum.splits err.splits)
  qed
  have s1: "syncedMaxSeqs w1 = syncedMaxSeqs w" using quiet_synced(1) [OF trigger_quiet(1) [OF 1]] .
  have pull: "tryM (syncAndTriggerMsgs S [(c, b, l)] n) w = (Inr x, snd (pullBatch S [(c, b, l)] n w))"
    if "x = (case fst (pullBatch S [(c, b, l)] n w) of Inl e \<Rightarrow> Inl e | Inr y \<Rightarrow> Inr ())" for b l n x
    using that by (cases rule: pullBatch_cases [of S "[(c, b, l)]" n w])
      (auto simp: syncAndTriggerMsgs_def Let_def bindM_def tryM_def split: err.splits)
  show ?thesis
    using tr by (auto simp: doPushMsg_def pushTriggerAndSync_def bindM_def one Let_def 1 s1 setSynced_def pull nothing_to_sync simp del: pushLoop.simps)
qed

text \<open>
  C11. Messages of one conversation that are pushed in rising order: when they are the numbers right above the mark they are handed on in that order
  and the mark moves to the last of them; otherwise nothing of the push is handed on, the whole gap up to the last number is asked from the server,
  and the mark moves there when the server answers.
\<close>

theorem push_one_conversation:
  assumes "pmMsgs pm \<noteq> []" "syncedSeq w c = s" "0 \<le> s" "sorted_wrt (<) (s # map seq (pmMsgs pm))" "faults w (opno w) = NoFault"
  shows "\<exists>w'. doPushMsg S [(c, pm)] [] w = (Inr (), w') \<and>
    (if map seq (pmMsgs pm) = [s + 1..s + int (length (pmMsgs pm))]
     then conversationCh w' = conversationCh w @ [CmdNewMsgCome [(c, \<lparr>pmMsgs = pmMsgs pm, pmIsEnd = False, pmEndSeq = 0\<rparr>)]] \<and> wire w' = wire w \<and>
       syncedMaxSeqs w' = (syncedMaxSeqs w)(c \<mapsto> s + int (length (pmMsgs pm)))
     else (\<exists>answered. wire w' = wire w @ [(pullReq (mcUserID w) defaultPullNums [(c, s + 1, seq (last (pmMsgs pm)))], answered)] \<and>
       syncedMaxSeqs w' = (if answered then (syncedMaxSeqs w)(c \<mapsto> seq (last (pmMsgs pm))) else syncedMaxSeqs w)))"
proof -
  let ?l = "seq (last (pmMsgs pm))"
  have nz: "\<forall>m \<in> set (pmMsgs pm). seq m \<noteq> 0" using assms(3,4) by auto
  have l: "?l = last (s # map seq (pmMsgs pm))" "?l > s" using assms(1,4) by (auto simp: last_map)
  have full: "?l = s + int (length (pmMsgs pm)) \<longleftrightarrow> map seq (pmMsgs pm) = [s + 1..s + int (length (pmMsgs pm))]"
  proof
    assume "?l = s + int (length (pmMsgs pm))"
    then show "map seq (pmMsgs pm) = [s + 1..s + int (length (pmMsgs pm))]"
      using rising_full [OF assms(4)] unfolding l(1) length_map by blast
  next
    assume u: "map seq (pmMsgs pm) = [s + 1..s + int (length (pmMsgs pm))]"
    have "s + 1 \<le> s + int (length (pmMsgs pm))" using assms(1) by (cases "pmMsgs pm") auto
    then have "last [s + 1..s + int (length (pmMsgs pm))] = s + int (length (pmMsgs pm))" by (simp add: upto_rec2)
    moreover have "?l = last (map seq (pmMsgs pm))" using assms(1) by (simp add: last_map)
    ultimately show "?l = s + int (length (pmMsgs pm))" unfolding u by simp
  qed
  note step = doPushMsg_one [OF nz assms(1), of S c w]
  show ?thesis
  proof (cases "?l = s + int (length (pmMsgs pm))")
    case True
    with full assms(2,5) step show ?thesis by (simp add: Let_def triggerConversation_def sendCmd_def)
  next
    case False
    with step assms(2) l(2) have e: "doPushMsg S [(c, pm)] [] w = (Inr (), snd (pullBatch S [(c, s + 1, ?l)] defaultPullNums w))" by (simp add: Let_def)
    have ne: "map seq (pmMsgs pm) \<noteq> [s + 1..s + int (length (pmMsgs pm))]" using False full by blast
    have m: "markSynced (syncedMaxSeqs w) (endsOf [(c, s + 1, ?l)]) = (syncedMaxSeqs w)(c \<mapsto> ?l)" by (simp add: endsOf_def)
    show ?thesis
    proof (cases rule: pullBatch_cases [of S "[(c, s + 1, ?l)]" defaultPullNums w])
      case (answer w')
      have "wire w' = wire w @ [(pullReq (mcUserID w) defaultPullNums [(c, s + 1, ?l)], True)]"
        using answer(2) by (auto simp: quietStep_def)
      then show ?thesis unfolding e answer(1) if_not_P [OF ne] m
        by (intro exI [of _ "w'\<lparr>syncedMaxSeqs := (syncedMaxSeqs w)(c \<mapsto> ?l)\<rparr>"] conjI exI [of _ True]) simp_all
    next
      case (error x)
      show ?thesis unfolding e error(2) if_not_P [OF ne] by (rule exI, rule conjI, rule refl, rule exI [of _ False]) simp
    qed
  qed
qed

text \<open>
  C18. Messages of two conversations in one push: the one of the first counts as a message of the second, which is taken as synchronised past a
  number that was neither handed on nor asked for.
\<close>

theorem push_skips_message:
  assumes "a \<noteq> b" "syncedMaxSeqs w a = Some s" "syncedMaxSeqs w b = Some t" "0 \<le> s" "0 \<le> t" "seq m = s + 1" "seq n = t + 2"
    "faults w (opno w) = NoFault" "faults w (Suc (opno w)) = NoFault"
  shows "doPushMsg S [(a, \<lparr>pmMsgs = [m], pmIsEnd = False, pmEndSeq = 0\<rparr>), (b, \<lparr>pmMsgs = [n], pmIsEnd = False, pmEndSeq = 0\<rparr>)] [] w =
    (Inr (), w\<lparr>opno := Suc (Suc (opno w)),
       conversationCh := conversationCh w @ [CmdNewMsgCome [(a, \<lparr>pmMsgs = [m], pmIsEnd = False, pmEndSeq = 0\<rparr>)],
         CmdNewMsgCome [(b, \<lparr>pmMsgs = [m, n], pmIsEnd = False, pmEndSeq = 0\<rparr>)]],
       syncedMaxSeqs := (syncedMaxSeqs w)(a \<mapsto> s + 1, b \<mapsto> t + 2)\<rparr>)"
  using assms
  by (simp add: doPushMsg_def pushTriggerAndSync_def bindM_def syncedSeq_def tryM_def triggerConversation_def sendCmd_def setSynced_def
      syncAndTriggerMsgs_def)

section \<open>The reinstallation\<close>

text \<open>What a goroutine changes besides the marks.\<close>

definition sideStep :: "'e msg_syncer_scheme \<Rightarrow> 'e msg_syncer_scheme \<Rightarrow> bool" where
  "sideStep w w' \<longleftrightarrow> syncedMaxSeqs w' = syncedMaxSeqs w \<and> mcUserID w' = mcUserID w"

lemma quiet_side: "quietStep w w' \<Longrightarrow> sideStep w w'"
  by (auto simp: quietStep_def sideStep_def)

lemma side_trans: "sideStep w w' \<Longrightarrow> sideStep w' w'' \<Longrightarrow> sideStep w w''"
  by (simp add: sideStep_def)

lemma checkMessages_side:
  obtains w' msgs' where "checkMessagesAndGetLastMessage S msgs w = (Inr msgs', w')" "sideStep w w'"
proof -
  let ?ids = "map fst (filter (\<lambda>(c, m). list_all (\<lambda>d. \<not> status d < MsgStatusHasDeleted) (pmMsgs m)) msgs)"
  show thesis
  proof (cases "?ids = []")
    case True
    then show thesis using that [of msgs w] by (simp add: checkMessagesAndGetLastMessage_def sideStep_def del: map_is_Nil_conv)
  next
    case False
    show thesis
    proof (cases rule: callServer_cases [of "\<lambda>i. convLastMessage S i (mcUserID w) ?ids" w "PullConvLastMessage (mcUserID w) ?ids"])
      case (answer a)
      then have "tryM (fetchLatestValidMessages S ?ids) w = (Inr (Inr a), w\<lparr>opno := Suc (opno w), wire := wire w @ [(PullConvLastMessage (mcUserID w) ?ids, True)]\<rparr>)"
        by (intro tryM_Inr) (simp add: fetchLatestValidMessages_def)
      with False show thesis using that
        by (simp add: checkMessagesAndGetLastMessage_def bindM_def sideStep_def del: map_is_Nil_conv)
    next
      case (error e)
      then have "tryM (fetchLatestValidMessages S ?ids) w = (Inr (Inl e), w\<lparr>opno := Suc (opno w), wire := wire w @ [(PullConvLastMessage (mcUserID w) ?ids, False)]\<rparr>)"
        unfolding tryM_Inl_eq by (simp add: fetchLatestValidMessages_def)
      with False show thesis using that
        by (simp add: checkMessagesAndGetLastMessage_def bindM_def sideStep_def del: map_is_Nil_conv)
    qed
  qed
qed

lemma reinstallTask_cases:
  obtains (marked) w' where "reinstallTask S tot n (b, marks) w = (Inr (), w')" "mcUserID w' = mcUserID w"
      "syncedMaxSeqs w' = markSynced (syncedMaxSeqs w) (endsOf marks)"
    | (failed) e w' where "reinstallTask S tot n (b, marks) w = (Inl e, w')" "\<And>s. e \<noteq> Panic s" "sideStep w w'"
      "\<exists>e. msgsByRange S (opno w) (mcUserID w) (seqRanges b n) = Inl e"
proof (cases rule: callServer_cases [of "\<lambda>i. msgsByRange S i (mcUserID w) (seqRanges b n)" w "pullReq (mcUserID w) n b"])
  case (answer a)
  obtain msgs notifications where a: "a = (msgs, notifications)" by fastforce
  let ?w1 = "w\<lparr>opno := Suc (opno w), wire := wire w @ [(pullReq (mcUserID w) n b, True)]\<rparr>"
  obtain msgs' w2 where 2: "checkMessagesAndGetLastMessage S msgs ?w1 = (Inr msgs', w2)" "sideStep ?w1 w2"
    using checkMessages_side by blast
  obtain r3 w3 where 3: "tryM (triggerReinstallConversation msgs' tot) w2 = (Inr r3, w3)" "quietStep w2 w3"
    using try_quiet [of "triggerReinstallConversation msgs' tot" w2] trigger_quiet(2) trigger_noPanic(2) by metis
  have "sideStep ?w1 w3" using side_trans [OF 2(2) quiet_side [OF 3(2)]] .
  then show thesis using marked [of "w3\<lparr>syncedMaxSeqs := markSynced (syncedMaxSeqs w) (endsOf marks)\<rparr>"] answer 2(1) 3(1)
    by (simp add: reinstallTask_def bindM_def pullMsgBySeqRange_def pullReq_def a setSynced_def sideStep_def)
next
  case (error e)
  then have "\<exists>e. msgsByRange S (opno w) (mcUserID w) (seqRanges b n) = Inl e"
    by (cases "msgsByRange S (opno w) (mcUserID w) (seqRanges b n)") (auto simp: callServer_def)
  then show thesis using failed [of e] error
    by (simp add: reinstallTask_def bindM_def pullMsgBySeqRange_def pullReq_def sideStep_def)
qed

text \<open>Goroutines one after the other: a relation between the goroutines that are left and the state.\<close>

lemma errgroup_rel:
  assumes "\<And>t ts w. R (t # ts) w \<Longrightarrow> R ts (snd (f t w)) \<and> (\<forall>s. fst (f t w) \<noteq> Inl (Panic s))" "R ts w"
  shows "R [] (snd (errgroup (map f ts) w)) \<and> (\<forall>s. fst (errgroup (map f ts) w) \<noteq> Inl (Panic s))"
  using assms(2)
proof (induction ts arbitrary: w)
  case (Cons t ts)
  obtain r w1 where 1: "f t w = (r, w1)" by fastforce
  with Cons.prems have p1: "R ts w1" "\<And>s. r \<noteq> Inl (Panic s)" using assms(1) [of t ts w] by auto
  obtain r2 w2 where 2: "errgroup (map f ts) w1 = (r2, w2)" by fastforce
  with Cons.IH [OF p1(1)] have ih2: "R [] w2" "\<And>s. r2 \<noteq> Inl (Panic s)" by auto
  have t2: "\<exists>x. tryM (errgroup (map f ts)) w1 = (Inr x, w2)"
    using 2 ih2(2) by (cases r2) (auto simp: tryM_def split: err.splits)
  show ?case
  proof (cases r)
    case (Inl e)
    then have "tryM (f t) w = (Inr (Inl e), w1)" unfolding tryM_Inl_eq using 1 p1(2) by auto
    then show ?thesis using t2 ih2 p1(2) Inl by (auto simp: bindM_def)
  next
    case (Inr u)
    then show ?thesis using 1 2 ih2 by (simp add: bindM_def tryM_def)
  qed
qed simp

lemma reinstallBatches_concat: "concat (fst (reinstallBatches n seqMap temp k)) @ snd (reinstallBatches n seqMap temp k) = temp @ seqMap"
proof (induction seqMap arbitrary: temp k)
  case (Cons kv seqMap)
  obtain key v where kv: "kv = (key, v)" by (cases kv)
  show ?case using Cons [of "[]" 0] Cons [of "temp @ [kv]"] by (simp add: kv Let_def case_prod_beta)
qed simp

definition allMarked :: "seq_map \<Rightarrow> (string \<rightharpoonup> int) \<Rightarrow> bool" where
  "allMarked seqMap m \<longleftrightarrow> (\<forall>(c, b, e) \<in> set seqMap. m c = Some e)"

lemma allMarked_markAll:
  assumes "distinct (map fst seqMap)" "set b \<subseteq> set seqMap" "distinct (map fst b)" "allMarked seqMap m \<or> b = seqMap"
  shows "allMarked seqMap (markSynced m (endsOf b))"
  unfolding allMarked_def
proof (intro ballI, clarify)
  fix c x e assume i: "(c, x, e) \<in> set seqMap"
  show "markSynced m (endsOf b) c = Some e"
  proof (cases "c \<in> fst ` set (endsOf b)")
    case True
    then obtain x' e' where "(c, x', e') \<in> set b" by (auto simp: endsOf_def)
    with assms(2) i have "(c, x, e) \<in> set b" using eq_key_imp_eq_value [OF assms(1)] by (metis prod.inject subsetD)
    then have "(c, e) \<in> set (endsOf b)" by (force simp: endsOf_def)
    then show ?thesis using markSynced_in [of "endsOf b"] assms(3) by simp
  next
    case False
    then have "b \<noteq> seqMap" using i by (force simp: endsOf_def)
    then show ?thesis using assms(4) i False by (auto simp: markSynced_other allMarked_def)
  qed
qed

text \<open>
  After a reinstallation every conversation is taken as synchronised as soon as the request of the last goroutine is answered, in whatever
  order the goroutines run and even if the requests for the other conversations fail.
\<close>

theorem reinstall_marks_all:
  assumes "seqMap \<noteq> []" "distinct (map fst seqMap)" "\<And>N. set (sched N) = {..<N}"
    "\<And>i e. msgsByRange S i (mcUserID w) (seqRanges (snd (reinstallBatches n seqMap [] 0)) n) \<noteq> Inl e"
  shows "allMarked seqMap (syncedMaxSeqs (snd (syncAndTriggerReinstallMsgs S sched seqMap n w)))"
proof -
  obtain bs rest where br: "reinstallBatches n seqMap [] 0 = (bs, rest)" by fastforce
  define tasks where "tasks = map (\<lambda>b. (b, b)) bs @ [(rest, seqMap)]"
  have cc: "concat bs @ rest = seqMap" using reinstallBatches_concat [of n seqMap "[]" 0] br by simp
  let ?f = "\<lambda>i. reinstallTask S (int (length seqMap)) n (tasks ! i)"
  define R where "R is' w' \<longleftrightarrow> set is' \<subseteq> {..<length tasks} \<and> mcUserID w' = mcUserID w \<and>
     (length bs \<in> set is' \<or> allMarked seqMap (syncedMaxSeqs w'))" for is' and w' :: "'a msg_syncer_scheme"
  have step: "R is' (snd (?f i w')) \<and> (\<forall>s. fst (?f i w') \<noteq> Inl (Panic s))" if "R (i # is') w'" for i is' w'
  proof -
    obtain b marks where t: "tasks ! i = (b, marks)" by fastforce
    have i: "i < length tasks" "set is' \<subseteq> {..<length tasks}" "mcUserID w' = mcUserID w" using that by (auto simp: R_def)
    have m: "i = length bs \<and> b = rest \<and> marks = seqMap \<or> i \<noteq> length bs \<and> marks \<in> set bs"
      using i(1) t by (auto simp: tasks_def nth_append split: if_splits)
    have good: "allMarked seqMap (markSynced m' (endsOf marks))" if "i = length bs \<or> allMarked seqMap m'" for m'
    proof (rule allMarked_markAll [OF assms(2)])
      show "set marks \<subseteq> set seqMap" using m cc by auto
      show "distinct (map fst marks)"
      proof (cases "marks = seqMap")
        case False
        then have "marks \<in> set bs" using m by auto
        then obtain xs ys where "bs = xs @ marks # ys" by (auto simp: in_set_conv_decomp)
        then have "seqMap = concat xs @ marks @ concat ys @ rest" using cc by simp
        then show ?thesis using assms(2) by simp
      qed (use assms(2) in simp)
      show "allMarked seqMap m' \<or> marks = seqMap" using that m by auto
    qed
    show ?thesis
    proof (cases rule: reinstallTask_cases [of S "int (length seqMap)" n b marks w'])
      case (marked w2)
      then show ?thesis using that i good [of "syncedMaxSeqs w'"] by (auto simp: R_def t)
    next
      case (failed e w2)
      then have "i \<noteq> length bs" using m assms(4) [of "opno w'"] i(3) br by auto
      then show ?thesis using failed(1-3) that i by (auto simp: R_def t sideStep_def)
    qed
  qed
  have "R (sched (length tasks)) w" using assms(3) by (auto simp: R_def tasks_def)
  then have "R [] (snd (errgroup (map ?f (sched (length tasks))) w))"
    using errgroup_rel [where R = R and f = ?f, OF step] by blast
  then show ?thesis using assms(1) br by (simp add: R_def syncAndTriggerReinstallMsgs_def reinstallTasks_def tasks_def Let_def)
qed

end
