(* ===== verification/Sdk_History.thy ===== *)
theory Sdk_History
  imports Sdk_Store
begin

text \<open>
  The message history of a client, \<^verbatim>\<open>sdk-core/internal/conversation_msg/message_check.go\<close> and the reading of a page in \<^verbatim>\<open>conversation.go\<close>: a page
  is read from the table, checked for gaps inside, towards the previous page and at its end, and the missing messages are asked from the server,
  stored and merged into the page. A page is passed through the functions as a value, together with the answer of the call (\<open>callback\<close>).
  Parameters (\<open>sdk_deps\<close>): whether the long connection is up, the random texts, the JSON of the latest message of a conversation, and the lookups of
  names and faces in the user and group parts of the client, by the number of the call.
\<close>

section \<open>State\<close>

record LatestMsg =
  lmClientMsgID :: string
  lmServerMsgID :: string
  lmSeq :: int
  lmSendTime :: int
  lmStatus :: int
  lmRest :: string

record sdk_deps =
  isConnected :: "nat \<Rightarrow> bool"
  newMsgID :: "nat \<Rightarrow> string \<Rightarrow> string"
  randomText :: "nat \<Rightarrow> string"
  decodeLatest :: "string \<Rightarrow> LatestMsg option"
  encodeLatest :: "LatestMsg \<Rightarrow> string"
  loginUserInfo :: "nat \<Rightarrow> err + string \<times> string"
  groupMemberInfo :: "nat \<Rightarrow> string \<Rightarrow> string list \<Rightarrow> err + (string \<times> string \<times> string) list"
  userNameAndFace :: "nat \<Rightarrow> string \<Rightarrow> string \<times> string"

datatype msg_event =
    OnMessageSeqUpdated LocalChatLog
  | OnConversationChanged LocalConversation
  | OnNewConversation LocalConversation

record sdk_conv = msg_client +
  maxSeqRecorder :: "string \<rightharpoonup> int"
  pullForwardEndSeq :: "string \<rightharpoonup> int"
  pullReverseEndSeq :: "string \<rightharpoonup> int"
  msgEvents :: "msg_event list"

record callback =
  cbIsEnd :: bool
  cbErrCode :: int
  cbErrMsg :: "err option"

type_synonym page = "LocalChatLog list \<times> callback"

definition ask :: "(nat \<Rightarrow> 'a) \<Rightarrow> ('e env_scheme, 'a) prog" where
  "ask f = (\<lambda>w. (Inr (f (opno w)), w\<lparr>opno := Suc (opno w)\<rparr>))"

definition msgEvent :: "msg_event \<Rightarrow> ('e sdk_conv_scheme, unit) prog" where
  "msgEvent ev = modifyM (\<lambda>w. w\<lparr>msgEvents := msgEvents w @ [ev]\<rparr>)"

abbreviation (input) PullMsgNumForReadDiffusion :: nat where "PullMsgNumForReadDiffusion \<equiv> 50"

definition MsgDataToLocalChatLog :: "MsgData \<Rightarrow> LocalChatLog" where
  "MsgDataToLocalChatLog m = \<lparr>clClientMsgID = clientMsgID m, clServerMsgID = serverMsgID m, clSendID = sendID m,
     clRecvID = (if sessionType m = WriteGroupChatType \<or> sessionType m = ReadGroupChatType then groupID m else recvID m),
     clSenderPlatformID = senderPlatformID m, clSenderNickname = senderNickname m, clSenderFaceURL = senderFaceURL m,
     clSessionType = sessionType m, clMsgFrom = msgFrom m, clContentType = contentType m, clContent = content m, clIsRead = isRead m,
     clStatus = (if status m \<ge> MsgStatusHasDeleted then status m else MsgStatusSendSuccess), clSeq = seq m, clSendTime = sendTime m,
     clCreateTime = createTime m, clAttachedInfo = attachedInfo m, clEx = ex m, clLocalEx = ''''\<rparr>"

section \<open>Numbers\<close>

text \<open>\<^verbatim>\<open>MaxSeqRecorder\<close>.\<close>

definition recorderGet :: "string \<Rightarrow> 'e sdk_conv_scheme \<Rightarrow> int" where
  "recorderGet conversationID w = (case maxSeqRecorder w conversationID of None \<Rightarrow> 0 | Some s \<Rightarrow> s)"

definition recorderSet :: "string \<Rightarrow> int \<Rightarrow> 'e sdk_conv_scheme \<Rightarrow> 'e sdk_conv_scheme" where
  "recorderSet conversationID s w = w\<lparr>maxSeqRecorder := (maxSeqRecorder w)(conversationID \<mapsto> s)\<rparr>"

definition recorderIncr :: "string \<Rightarrow> int \<Rightarrow> 'e sdk_conv_scheme \<Rightarrow> 'e sdk_conv_scheme" where
  "recorderIncr conversationID n w = w\<lparr>maxSeqRecorder := (maxSeqRecorder w)(conversationID \<mapsto> recorderGet conversationID w + n)\<rparr>"

definition IsNewMsg :: "string \<Rightarrow> int \<Rightarrow> 'e sdk_conv_scheme \<Rightarrow> bool" where
  "IsNewMsg conversationID s w \<longleftrightarrow> s > recorderGet conversationID w"

text \<open>The ends of the pages read so far, by conversation and view.\<close>

definition viewTypeKey :: "string \<Rightarrow> int \<Rightarrow> string" where
  "viewTypeKey conversationID viewType = conversationID @ ''::viewType::'' @ itoa viewType"

definition endSeqOf :: "bool \<Rightarrow> string \<Rightarrow> int \<Rightarrow> 'e sdk_conv_scheme \<Rightarrow> int option" where
  "endSeqOf isReverse conversationID viewType w =
     (if isReverse then pullReverseEndSeq w else pullForwardEndSeq w) (viewTypeKey conversationID viewType)"

definition storeEndSeq :: "bool \<Rightarrow> string \<Rightarrow> int \<Rightarrow> int \<Rightarrow> 'e sdk_conv_scheme \<Rightarrow> 'e sdk_conv_scheme" where
  "storeEndSeq isReverse conversationID viewType s w = (if isReverse
     then w\<lparr>pullReverseEndSeq := (pullReverseEndSeq w)(viewTypeKey conversationID viewType \<mapsto> s)\<rparr>
     else w\<lparr>pullForwardEndSeq := (pullForwardEndSeq w)(viewTypeKey conversationID viewType \<mapsto> s)\<rparr>)"

definition endSeq0 :: "bool \<Rightarrow> string \<Rightarrow> int \<Rightarrow> 'e sdk_conv_scheme \<Rightarrow> int" where
  "endSeq0 isReverse conversationID viewType w = (case endSeqOf isReverse conversationID viewType w of None \<Rightarrow> 0 | Some s \<Rightarrow> s)"

text \<open>The largest and the smallest number of a page, and its numbers; a message without a number has 0.\<close>

primrec maxMinLoop :: "LocalChatLog list \<Rightarrow> int \<times> int \<times> int list \<Rightarrow> int \<times> int \<times> int list" where
  "maxMinLoop [] acc = acc"
| "maxMinLoop (m # ms) acc = (case acc of (mx, mn, seqList) \<Rightarrow>
     (let s = clSeq m;
          seqList = (if s \<noteq> 0 then seqList @ [s] else seqList);
          (mx, mn) = (if s \<noteq> 0 \<and> mn = 0 \<and> mx = 0 then (s, s) else (mx, mn));
          mn = (if s < mn \<and> s \<noteq> 0 then s else mn);
          mx = (if s > mx then s else mx) in
      maxMinLoop ms (mx, mn, seqList)))"

definition getMaxAndMinHaveSeqList :: "LocalChatLog list \<Rightarrow> int \<times> int \<times> int list" where
  "getMaxAndMinHaveSeqList messages = maxMinLoop messages (0, 0, [])"

definition getLostSeqListWithLimitLength :: "int \<Rightarrow> int \<Rightarrow> int list \<Rightarrow> bool \<Rightarrow> int list" where
  "getLostSeqListWithLimitLength minSeq maxSeq haveSeqList isReverse =
     (let lostSeqList = filter (\<lambda>i. i \<notin> set haveSeqList) [minSeq..maxSeq] in
      if length lostSeqList > PullMsgNumForReadDiffusion
      then (if isReverse then take PullMsgNumForReadDiffusion lostSeqList
            else drop (length lostSeqList - PullMsgNumForReadDiffusion) lostSeqList)
      else lostSeqList)"

section \<open>Merging\<close>

definition comesFirst :: "bool \<Rightarrow> LocalChatLog \<Rightarrow> LocalChatLog \<Rightarrow> bool" where
  "comesFirst isDescending a b \<longleftrightarrow>
     (isDescending \<and> (clSendTime a > clSendTime b \<or> (clSendTime a = clSendTime b \<and> clSeq a > clSeq b))) \<or>
     (\<not> isDescending \<and> (clSendTime a < clSendTime b \<or> (clSendTime a = clSendTime b \<and> clSeq a < clSeq b)))"

fun mergeLoop :: "bool \<Rightarrow> LocalChatLog list \<Rightarrow> LocalChatLog list \<Rightarrow> nat \<Rightarrow> LocalChatLog list" where
  "mergeLoop d xs ys 0 = []"
| "mergeLoop d (x # xs) (y # ys) (Suc n) =
     (if comesFirst d x y then x # mergeLoop d xs (y # ys) n else y # mergeLoop d (x # xs) ys n)"
| "mergeLoop d (x # xs) [] (Suc n) = x # mergeLoop d xs [] n"
| "mergeLoop d [] (y # ys) (Suc n) = y # mergeLoop d [] ys n"
| "mergeLoop d [] [] (Suc n) = []"

definition mergeSortedArrays :: "LocalChatLog list \<Rightarrow> LocalChatLog list \<Rightarrow> int \<Rightarrow> bool \<Rightarrow> LocalChatLog list" where
  "mergeSortedArrays arr1 arr2 n isDescending = mergeLoop isDescending arr1 arr2 (nat n)"

section \<open>Bounds of a conversation\<close>

definition getConversationMaxSeq :: "string \<Rightarrow> ('e sdk_conv_scheme, int) prog" where
  "getConversationMaxSeq conversationID = bindM (tryM (GetConversationRow conversationID)) (\<lambda>r. case r of
     Inl e \<Rightarrow> gets (recorderGet conversationID)
   | Inr c \<Rightarrow> if lcMaxSeq c = 0 then gets (recorderGet conversationID) else ret (lcMaxSeq c))"

definition getConversationMinSeq :: "string \<Rightarrow> ('e sdk_conv_scheme, int) prog" where
  "getConversationMinSeq conversationID = bindM (tryM (GetConversationRow conversationID)) (\<lambda>r. case r of
     Inl e \<Rightarrow> ret 1
   | Inr c \<Rightarrow> ret (if lcMinSeq c = 0 then 1 else lcMinSeq c))"

definition setConversationMinSeq :: "bool \<Rightarrow> string \<Rightarrow> int \<Rightarrow> ('e sdk_conv_scheme, unit) prog" where
  "setConversationMinSeq isReverse conversationID endSeq = bindM (tryM (GetConversationRow conversationID)) (\<lambda>r. case r of
     Inl e \<Rightarrow> ret ()
   | Inr c \<Rightarrow>
       if \<not> isReverse then
         (let c = (if lcMinSeq c = 0 \<or> endSeq > lcMinSeq c then c\<lparr>lcMinSeq := endSeq\<rparr> else c) in
          thenM (tryM (UpdateConversationRow c)) (ret ()))
       else if lcMaxSeq c = 0 \<or> endSeq < lcMaxSeq c then
         (let c = c\<lparr>lcMaxSeq := endSeq\<rparr> in thenM (tryM (UpdateConversationRow c)) (thenM (tryM (UpdateConversationRow c)) (ret ())))
       else thenM (tryM (UpdateConversationRow c)) (ret ()))"

text \<open>The page up to the first message that is not above the numbers that could not be pulled.\<close>

definition errHandle :: "int list \<Rightarrow> err \<Rightarrow> page \<Rightarrow> page" where
  "errHandle seqList e = (\<lambda>(pageMsgs, cb).
     (takeWhile (\<lambda>m. clSeq m = 0 \<or> clSeq m > last seqList) pageMsgs, cb\<lparr>cbErrCode := 100, cbErrMsg := Some e\<rparr>))"

section \<open>Messages that cannot be stored as they are\<close>

definition handleExceptionMessages :: "sdk_deps \<Rightarrow> LocalChatLog option \<Rightarrow> LocalChatLog \<Rightarrow> ('e msg_client_scheme, LocalChatLog) prog" where
  "handleExceptionMessages D existingMessage m = bindM (gets mcUserID) (\<lambda>u.
     bindM (case existingMessage of
         None \<Rightarrow> if clStatus m = MsgStatusHasDeleted
           then (if clClientMsgID m = ''''
             then bindM (ask (\<lambda>n. newMsgID D n u)) (\<lambda>i. ret (''[SEQ_GAP_+'' @ itoa (clSeq m) @ '']'', i))
             else ret (''[DELETED]'', clClientMsgID m))
           else ret (''[UNKNOWN]'', clClientMsgID m)
       | Some existing \<Rightarrow> ret (if clSeq existing = clSeq m then ''[SEQ_DUP]'' else ''[CLIENT_DUP]'', clClientMsgID m)) (\<lambda>(prefix, i).
     bindM (ask (randomText D)) (\<lambda>suffix.
     ret (m\<lparr>clStatus := MsgStatusHasDeleted, clClientMsgID := prefix @ i @ ''_'' @ suffix\<rparr>))))"

section \<open>Names and faces\<close>

abbreviation (input) renamed :: "string \<times> string \<Rightarrow> LocalChatLog \<Rightarrow> LocalChatLog" where
  "renamed fn m \<equiv> m\<lparr>clSenderFaceURL := fst fn, clSenderNickname := snd fn\<rparr>"

definition singleHandle :: "sdk_deps \<Rightarrow> LocalChatLog list \<Rightarrow> LocalChatLog list \<Rightarrow> LocalConversation \<Rightarrow> ('e msg_client_scheme, LocalChatLog list \<times> LocalChatLog list) prog" where
  "singleHandle D self others lc = bindM
     (if self \<noteq> [] then bindM (ask (loginUserInfo D)) (\<lambda>r. ret (case r of Inl e \<Rightarrow> self | Inr u \<Rightarrow> map (renamed u) self)) else ret self) (\<lambda>self.
     ret (self, if lcFaceURL lc \<noteq> '''' \<and> lcShowName lc \<noteq> '''' then map (renamed (lcFaceURL lc, lcShowName lc)) others else others))"

definition groupName :: "sdk_deps \<Rightarrow> (string \<times> string \<times> string) list \<Rightarrow> LocalChatLog \<Rightarrow> ('e msg_client_scheme, LocalChatLog) prog" where
  "groupName D groupMap m = (case map_of groupMap (clSendID m) of
     Some (f, n) \<Rightarrow> ret (if f \<noteq> '''' \<and> n \<noteq> '''' then renamed (f, n) m else m)
   | None \<Rightarrow> bindM (ask (\<lambda>k. userNameAndFace D k (clSendID m))) (\<lambda>(f, n). ret (if f \<noteq> '''' \<and> n \<noteq> '''' then renamed (f, n) m else m)))"

primrec mapM :: "('a \<Rightarrow> ('w, 'b) prog) \<Rightarrow> 'a list \<Rightarrow> ('w, 'b list) prog" where
  "mapM f [] = ret []"
| "mapM f (x # xs) = bindM (f x) (\<lambda>y. bindM (mapM f xs) (\<lambda>ys. ret (y # ys)))"

definition groupHandle :: "sdk_deps \<Rightarrow> LocalChatLog list \<Rightarrow> LocalChatLog list \<Rightarrow> LocalConversation \<Rightarrow> ('e msg_client_scheme, LocalChatLog list \<times> LocalChatLog list) prog" where
  "groupHandle D self others lc = bindM (ask (\<lambda>k. groupMemberInfo D k (lcGroupID lc) (remdups (map clSendID (self @ others))))) (\<lambda>r. case r of
     Inl e \<Rightarrow> ret (self, others)
   | Inr groupMap \<Rightarrow> bindM (mapM (groupName D groupMap) self) (\<lambda>self. bindM (mapM (groupName D groupMap) others) (\<lambda>others. ret (self, others))))"

definition faceURLAndNicknameHandle :: "sdk_deps \<Rightarrow> LocalChatLog list \<Rightarrow> LocalChatLog list \<Rightarrow> string \<Rightarrow> ('e msg_client_scheme, LocalChatLog list \<times> LocalChatLog list) prog" where
  "faceURLAndNicknameHandle D self others conversationID = bindM (tryM (GetConversationRow conversationID)) (\<lambda>r. case r of
     Inl e \<Rightarrow> ret (self, others)
   | Inr lc \<Rightarrow> if lcConversationType lc = SingleChatType then singleHandle D self others lc
       else if lcConversationType lc = ReadGroupChatType then groupHandle D self others lc
       else ret (self, others))"

section \<open>Storing pulled messages\<close>

definition latestID :: "sdk_deps \<Rightarrow> string \<Rightarrow> string" where
  "latestID D latestMsg = (case decodeLatest D latestMsg of None \<Rightarrow> '''' | Some m \<Rightarrow> lmClientMsgID m)"

text \<open>\<^verbatim>\<open>doUpdateConversation\<close> with \<^verbatim>\<open>AddConOrUpLatMsg\<close>.\<close>

definition addConOrUpLatMsg :: "sdk_deps \<Rightarrow> LocalConversation \<Rightarrow> ('e sdk_conv_scheme, unit) prog" where
  "addConOrUpLatMsg D lc = bindM (tryM (GetConversationRow (lcConversationID lc))) (\<lambda>r. case r of
     Inr oc \<Rightarrow> if lcLatestMsgSendTime lc \<ge> lcLatestMsgSendTime oc \<or> latestID D (lcLatestMsg lc) = latestID D (lcLatestMsg oc)
       then bindM (tryM (UpdateLatestMsgColumns (lcConversationID lc) (lcLatestMsgSendTime lc) (lcLatestMsg lc))) (\<lambda>r. case r of
          Inl e \<Rightarrow> ret ()
        | Inr _ \<Rightarrow> msgEvent (OnConversationChanged (oc\<lparr>lcLatestMsgSendTime := lcLatestMsgSendTime lc, lcLatestMsg := lcLatestMsg lc\<rparr>)))
       else ret ()
   | Inl e \<Rightarrow> bindM (tryM (InsertConversationRow lc)) (\<lambda>r. case r of Inl e \<Rightarrow> ret () | Inr _ \<Rightarrow> msgEvent (OnNewConversation lc)))"

definition seqUpdate :: "LocalChatLog \<Rightarrow> LocalChatLog" where
  "seqUpdate v = \<lparr>clClientMsgID = clClientMsgID v, clServerMsgID = clServerMsgID v, clSendID = '''', clRecvID = clRecvID v,
     clSenderPlatformID = 0, clSenderNickname = '''', clSenderFaceURL = '''', clSessionType = clSessionType v, clMsgFrom = 0,
     clContentType = 0, clContent = '''', clIsRead = False, clStatus = clStatus v, clSeq = clSeq v, clSendTime = clSendTime v,
     clCreateTime = 0, clAttachedInfo = '''', clEx = '''', clLocalEx = ''''\<rparr>"

primrec updateLoop :: "sdk_deps \<Rightarrow> string \<Rightarrow> LocalChatLog list \<Rightarrow> LocalConversation \<times> LatestMsg \<Rightarrow> ('e sdk_conv_scheme, unit) prog" where
  "updateLoop D conversationID [] st = ret ()"
| "updateLoop D conversationID (v # vs) st = (case st of (conversation, latest) \<Rightarrow>
     thenM (UpdateMessage conversationID (seqUpdate v))
     (bindM (gets mcUserID) (\<lambda>u.
      thenM (if clSendID v = u \<and> clSeq v > 0 then msgEvent (OnMessageSeqUpdated v) else ret ())
      (if lmClientMsgID latest = clClientMsgID v
       then (let latest = latest\<lparr>lmServerMsgID := clServerMsgID v, lmSeq := clSeq v, lmSendTime := clSendTime v, lmStatus := clStatus v\<rparr>;
                 conversation = conversation\<lparr>lcLatestMsg := encodeLatest D latest\<rparr> in
             thenM (addConOrUpLatMsg D conversation) (updateLoop D conversationID vs (conversation, latest)))
       else updateLoop D conversationID vs (conversation, latest)))))"

primrec batchUpdateMessageList :: "sdk_deps \<Rightarrow> (string \<times> LocalChatLog list) list \<Rightarrow> ('e sdk_conv_scheme, unit) prog" where
  "batchUpdateMessageList D [] = ret ()"
| "batchUpdateMessageList D (cm # rest) = bindM (tryM (GetConversationRow (fst cm))) (\<lambda>r. case r of
     Inl e \<Rightarrow> batchUpdateMessageList D rest
   | Inr conversation \<Rightarrow> (case decodeLatest D (lcLatestMsg conversation) of
       None \<Rightarrow> batchUpdateMessageList D rest
     | Some latest \<Rightarrow> thenM (updateLoop D (fst cm) (snd cm) (conversation, latest)) (batchUpdateMessageList D rest)))"

definition batchInsertMessageList :: "(string \<times> LocalChatLog list) list \<Rightarrow> ('e msg_client_scheme, unit) prog" where
  "batchInsertMessageList insertMsg = forM insertMsg (\<lambda>(conversationID, messages).
     if messages = [] then ret ()
     else bindM (tryM (BatchInsertMessageList conversationID messages)) (\<lambda>r. case r of
        Inr _ \<Rightarrow> ret ()
      | Inl e \<Rightarrow> forM messages (\<lambda>m. thenM (tryM (InsertMessage conversationID m)) (ret ()))))"

text \<open>
  The messages of a reply sorted into those to insert, those to update, and those that cannot be stored as they are. The slices are declared before the
  loop over the conversations. A message of the reply is changed in place: the changed messages are returned.
\<close>

record pull_acc =
  paInsert :: "LocalChatLog list"
  paSelf :: "LocalChatLog list"
  paOthers :: "LocalChatLog list"
  paUpdate :: "LocalChatLog list"

primrec sortPulled ::
  "sdk_deps \<Rightarrow> LocalChatLog list \<Rightarrow> MsgData list \<Rightarrow> (string \<rightharpoonup> LocalChatLog) \<Rightarrow> pull_acc \<Rightarrow> ('e msg_client_scheme, pull_acc \<times> MsgData list) prog" where
  "sortPulled D localMessages [] processed acc = ret (acc, [])"
| "sortPulled D localMessages (v # vs) processed acc = bindM (gets mcUserID) (\<lambda>u.
     let m = MsgDataToLocalChatLog v;
         local = List.find (\<lambda>r. clClientMsgID r = clClientMsgID m) localMessages;
         go = (\<lambda>m acc processed v. bindM (sortPulled D localMessages vs processed acc) (\<lambda>(acc, vs'). ret (acc, v # vs')));
         exception = (\<lambda>existing k. bindM (handleExceptionMessages D existing m) (\<lambda>m'. k m' (acc\<lparr>paInsert := paInsert acc @ [m']\<rparr>))) in
     case processed (clientMsgID v) of
       Some existing \<Rightarrow> exception (Some existing) (\<lambda>m' acc. go m' acc processed (v\<lparr>status := clStatus m'\<rparr>))
     | None \<Rightarrow>
       if status v = MsgStatusHasDeleted
       then exception None (\<lambda>m' acc. go m' acc processed (v\<lparr>clientMsgID := clClientMsgID m'\<rparr>))
       else (case local of
         None \<Rightarrow> go m (if sendID v = u then acc\<lparr>paSelf := paSelf acc @ [m]\<rparr> else acc\<lparr>paOthers := paOthers acc @ [m]\<rparr>)
             (processed(clClientMsgID m \<mapsto> m)) v
       | Some existing \<Rightarrow>
           if sendID v = u \<and> clSeq existing = 0
           then go m (acc\<lparr>paUpdate := paUpdate acc @ [m]\<rparr>) (processed(clClientMsgID m \<mapsto> m)) v
           else exception (Some existing) (\<lambda>m' acc. go m' acc (processed(clClientMsgID m' \<mapsto> m')) (v\<lparr>status := clStatus m'\<rparr>))))"

primrec pullLoop ::
  "sdk_deps \<Rightarrow> msg_batch \<Rightarrow> (string \<times> LocalChatLog list) list \<Rightarrow> (string \<times> LocalChatLog list) list \<Rightarrow> pull_acc \<Rightarrow> LocalChatLog list \<Rightarrow>
   ('e sdk_conv_scheme, LocalChatLog list \<times> msg_batch) prog" where
  "pullLoop D [] insertMsg updateMsg acc pageMsgs = ret (pageMsgs, [])"
| "pullLoop D (cm # rest) insertMsg updateMsg acc pageMsgs =
     bindM (tryM (GetMessagesByClientMsgIDs (fst cm) (map clientMsgID (pmMsgs (snd cm))))) (\<lambda>r.
     bindM (sortPulled D (case r of Inl e \<Rightarrow> [] | Inr ms \<Rightarrow> ms) (pmMsgs (snd cm)) Map.empty acc) (\<lambda>(acc, msgs').
     bindM (faceURLAndNicknameHandle D (paSelf acc) (paOthers acc) (fst cm)) (\<lambda>(self, others).
     let acc = acc\<lparr>paSelf := self, paOthers := others\<rparr>;
         insertMsg = AList.update (fst cm) (paInsert acc @ self @ others) insertMsg;
         updateMsg = AList.update (fst cm) (paUpdate acc) updateMsg;
         pageMsgs = (if paUpdate acc = [] then pageMsgs else filter (\<lambda>m. clClientMsgID m \<notin> clClientMsgID ` set (paUpdate acc)) pageMsgs) in
     thenM (tryM (batchUpdateMessageList D updateMsg))
     (thenM (batchInsertMessageList insertMsg)
     (bindM (pullLoop D rest insertMsg updateMsg acc pageMsgs) (\<lambda>(pageMsgs, rest').
      ret (pageMsgs, (fst cm, (snd cm)\<lparr>pmMsgs := msgs'\<rparr>) # rest')))))))"

definition pullMessageIntoTable :: "sdk_deps \<Rightarrow> msg_batch \<Rightarrow> LocalChatLog list \<Rightarrow> ('e sdk_conv_scheme, LocalChatLog list \<times> msg_batch) prog" where
  "pullMessageIntoTable D pullMsgData pageMsgs = pullLoop D pullMsgData [] [] \<lparr>paInsert = [], paSelf = [], paOthers = [], paUpdate = []\<rparr> pageMsgs"

section \<open>Filling gaps\<close>

definition fetchAndMergeMissingMessages ::
  "sdk_deps \<Rightarrow> msg_server \<Rightarrow> string \<Rightarrow> int list \<Rightarrow> bool \<Rightarrow> int \<Rightarrow> int \<Rightarrow> page \<Rightarrow> ('e sdk_conv_scheme, page) prog" where
  "fetchAndMergeMissingMessages D S conversationID seqList isReverse cnt startTime = (\<lambda>(pageMsgs, cb).
     bindM (gets (\<lambda>w. startTime = 0 \<and> \<not> isConnected D (opno w))) (\<lambda>offline.
     if offline then ret (pageMsgs, cb)
     else bindM (gets mcUserID) (\<lambda>u.
       bindM (tryM (callServer (PullMsgBySeqList u conversationID seqList isReverse) (\<lambda>n. msgsBySeqs S n u conversationID seqList isReverse))) (\<lambda>r. case r of
         Inl e \<Rightarrow> ret (errHandle seqList e (pageMsgs, cb))
       | Inr msgs \<Rightarrow> (case map_of msgs conversationID of
           None \<Rightarrow> ret (pageMsgs, cb)
         | Some _ \<Rightarrow> bindM (pullMessageIntoTable D msgs pageMsgs) (\<lambda>(pageMsgs, msgs).
             (case map_of msgs conversationID of
                None \<Rightarrow> ret (pageMsgs, cb)
              | Some v \<Rightarrow>
                  thenM (if pmIsEnd v then setConversationMinSeq isReverse conversationID (pmEndSeq v) else ret ())
                  (let localMessage = map MsgDataToLocalChatLog (pmMsgs v);
                       localMessage = (if isReverse then localMessage else rev localMessage) in
                   ret (mergeSortedArrays pageMsgs localMessage cnt (\<not> isReverse), cb)))))))))"

definition validateAndFillInternalGaps ::
  "sdk_deps \<Rightarrow> msg_server \<Rightarrow> string \<Rightarrow> bool \<Rightarrow> int \<Rightarrow> int \<Rightarrow> page \<Rightarrow> ('e sdk_conv_scheme, int \<times> page) prog" where
  "validateAndFillInternalGaps D S conversationID isReverse cnt startTime pg = (case getMaxAndMinHaveSeqList (fst pg) of (mx, mn, haveSeqList) \<Rightarrow>
     bindM (if mx \<noteq> 0 \<and> mn \<noteq> 0 then
         (let lostSeqList = getLostSeqListWithLimitLength mn mx haveSeqList isReverse in
          if lostSeqList \<noteq> [] then fetchAndMergeMissingMessages D S conversationID lostSeqList isReverse cnt startTime pg else ret pg)
       else ret pg) (\<lambda>pg. ret (if isReverse then mn else mx, pg)))"

definition validateAndFillInterBlockGaps ::
  "sdk_deps \<Rightarrow> msg_server \<Rightarrow> int \<Rightarrow> string \<Rightarrow> bool \<Rightarrow> int \<Rightarrow> int \<Rightarrow> int \<Rightarrow> page \<Rightarrow> ('e sdk_conv_scheme, page) prog" where
  "validateAndFillInterBlockGaps D S thisStartSeq conversationID isReverse viewType cnt startTime pg =
     bindM (gets (endSeq0 isReverse conversationID viewType)) (\<lambda>lastEndSeq.
     let (isLostSeq, startSeq, endSeq) = (if isReverse then (lastEndSeq + 1 \<noteq> thisStartSeq, lastEndSeq + 1, thisStartSeq - 1)
           else (thisStartSeq + 1 \<noteq> lastEndSeq, thisStartSeq + 1, lastEndSeq - 1)) in
     if isLostSeq \<and> lastEndSeq \<noteq> 0 then
       (let lostSeqList = getLostSeqListWithLimitLength startSeq endSeq [] isReverse in
        if lostSeqList \<noteq> [] then fetchAndMergeMissingMessages D S conversationID lostSeqList isReverse cnt startTime pg else ret pg)
     else ret pg)"

text \<open>The numbers to ask for at the end of a page, \<open>None\<close> when there is nothing to ask for.\<close>

definition checkEndBlock :: "string \<Rightarrow> bool \<Rightarrow> int \<Rightarrow> int \<Rightarrow> page \<Rightarrow> ('e sdk_conv_scheme, int list option \<times> page) prog" where
  "checkEndBlock conversationID isReverse viewType cnt = (\<lambda>(pageMsgs, cb).
     if int (length pageMsgs) < cnt then
       (if isReverse then
          bindM (getConversationMaxSeq conversationID) (\<lambda>currentMaxSeq.
          let mx = fst (getMaxAndMinHaveSeqList pageMsgs) in
          if mx \<ge> currentMaxSeq then ret (None, (pageMsgs, cb\<lparr>cbIsEnd := True\<rparr>))
          else bindM (gets (endSeq0 True conversationID viewType)) (\<lambda>lastEndSeq.
            if mx = 0 \<and> lastEndSeq \<ge> currentMaxSeq then ret (None, (pageMsgs, cb\<lparr>cbIsEnd := True\<rparr>))
            else (let lostSeqList = getLostSeqListWithLimitLength (mx + 1) currentMaxSeq [] isReverse in
              ret (if lostSeqList \<noteq> [] then Some lostSeqList else None, (pageMsgs, cb)))))
        else
          bindM (getConversationMinSeq conversationID) (\<lambda>userCanPullMinSeq.
          let mn = fst (snd (getMaxAndMinHaveSeqList pageMsgs)) in
          if mn \<le> userCanPullMinSeq then ret (None, (pageMsgs, cb\<lparr>cbIsEnd := True\<rparr>))
          else bindM (gets (endSeq0 False conversationID viewType)) (\<lambda>lastMinSeq.
            if mn = 0 \<and> lastMinSeq \<le> userCanPullMinSeq then ret (None, (pageMsgs, cb\<lparr>cbIsEnd := True\<rparr>))
            else (let lostSeqList = getLostSeqListWithLimitLength userCanPullMinSeq (mn - 1) [] isReverse in
              ret (if lostSeqList \<noteq> [] then Some lostSeqList else None, (pageMsgs, cb))))))
     else ret (None, (pageMsgs, cb\<lparr>cbIsEnd := False\<rparr>)))"

definition validateAndFillEndBlockContinuity ::
  "sdk_deps \<Rightarrow> msg_server \<Rightarrow> string \<Rightarrow> bool \<Rightarrow> int \<Rightarrow> int \<Rightarrow> int \<Rightarrow> page \<Rightarrow> ('e sdk_conv_scheme, page) prog" where
  "validateAndFillEndBlockContinuity D S conversationID isReverse viewType cnt startTime pg =
     bindM (checkEndBlock conversationID isReverse viewType cnt pg) (\<lambda>(lost, pg). case lost of
       None \<Rightarrow> ret pg
     | Some lostSeqList \<Rightarrow> bindM (fetchAndMergeMissingMessages D S conversationID lostSeqList isReverse cnt startTime pg) (\<lambda>pg.
         bindM (checkEndBlock conversationID isReverse viewType cnt pg) (\<lambda>(lost, pg). ret pg)))"

section \<open>A page of the history\<close>

text \<open>The number a page ends at, and its messages that are shown.\<close>

primrec pageEnd :: "bool \<Rightarrow> LocalChatLog list \<Rightarrow> int \<Rightarrow> int" where
  "pageEnd isReverse [] thisEndSeq = thisEndSeq"
| "pageEnd isReverse (m # ms) thisEndSeq =
     (let s = clSeq m; e = (if s \<noteq> 0 \<and> thisEndSeq = 0 then s else thisEndSeq) in
      pageEnd isReverse ms (if isReverse then (if s > e \<and> e \<noteq> 0 then s else e) else (if s < e \<and> s \<noteq> 0 then s else e)))"

definition validMessagesOf :: "LocalChatLog list \<Rightarrow> LocalChatLog list" where
  "validMessagesOf = filter (\<lambda>m. \<not> clStatus m \<ge> MsgStatusHasDeleted)"

definition shouldFetchMoreMessagesNum :: "string \<Rightarrow> int \<Rightarrow> bool \<Rightarrow> int \<Rightarrow> LocalChatLog list \<Rightarrow> ('e sdk_conv_scheme, int) prog" where
  "shouldFetchMoreMessagesNum conversationID viewType isReverse cnt messages =
     (let thisEndSeq = pageEnd isReverse messages 0 in
      thenM (if thisEndSeq \<noteq> 0 then
          bindM (gets (endSeq0 isReverse conversationID viewType)) (\<lambda>lastEndSeq.
          if (if isReverse then thisEndSeq > lastEndSeq else thisEndSeq < lastEndSeq) \<or> lastEndSeq = 0
          then modifyM (storeEndSeq isReverse conversationID viewType thisEndSeq) else ret ())
        else ret ())
      (ret (cnt - int (length (validMessagesOf messages)))))"

definition getNewStartMessageInfo :: "LocalChatLog list \<Rightarrow> int \<times> int \<times> string" where
  "getNewStartMessageInfo messages = (if messages = [] then (0, 0, '''')
     else (clSendTime (last messages), clSeq (last messages), clClientMsgID (last messages)))"

text \<open>The recursion has no bound: \<open>None\<close> when the fuel is used up.\<close>

primrec fetchMessagesWithGapCheck ::
  "nat \<Rightarrow> sdk_deps \<Rightarrow> msg_server \<Rightarrow> string \<Rightarrow> int \<Rightarrow> int \<Rightarrow> int \<Rightarrow> string \<Rightarrow> bool \<Rightarrow> int \<Rightarrow> callback \<Rightarrow> ('e sdk_conv_scheme, page option) prog" where
  "fetchMessagesWithGapCheck 0 D S conversationID cnt startTime startSeq startClientMsgID isReverse viewType cb = ret None"
| "fetchMessagesWithGapCheck (Suc fuel) D S conversationID cnt startTime startSeq startClientMsgID isReverse viewType cb =
     bindM (GetMessageList conversationID cnt startTime startSeq startClientMsgID isReverse) (\<lambda>pageMsgs.
     bindM (validateAndFillInternalGaps D S conversationID isReverse cnt startTime (pageMsgs, cb)) (\<lambda>(thisStartSeq, pg).
     bindM (validateAndFillInterBlockGaps D S thisStartSeq conversationID isReverse viewType cnt startTime pg) (\<lambda>pg.
     bindM (validateAndFillEndBlockContinuity D S conversationID isReverse viewType cnt startTime pg) (\<lambda>(pageMsgs, cb).
     bindM (shouldFetchMoreMessagesNum conversationID viewType isReverse cnt pageMsgs) (\<lambda>missingCount.
     if missingCount > 0 \<and> \<not> cbIsEnd cb then
       (case getNewStartMessageInfo pageMsgs of (newStartTime, newStartSeq, newStartClientMsgID) \<Rightarrow>
        bindM (fetchMessagesWithGapCheck fuel D S conversationID missingCount newStartTime newStartSeq newStartClientMsgID isReverse viewType cb) (\<lambda>r.
        ret (map_option (\<lambda>(missing, cb). (validMessagesOf pageMsgs @ missing, cb)) r)))
     else ret (Some (validMessagesOf pageMsgs, cb)))))))"

definition handleEndSeq :: "string \<Rightarrow> int \<Rightarrow> bool \<Rightarrow> LocalChatLog \<Rightarrow> ('e sdk_conv_scheme, unit) prog" where
  "handleEndSeq conversationID viewType isReverse startMessage =
     bindM (gets (endSeqOf isReverse conversationID viewType)) (\<lambda>known. case known of
       Some _ \<Rightarrow> ret ()
     | None \<Rightarrow>
         if clSeq startMessage \<noteq> 0 then modifyM (storeEndSeq isReverse conversationID viewType (clSeq startMessage))
         else bindM (GetLatestValidServerMessage conversationID (clSendTime startMessage) isReverse) (\<lambda>r. case r of
            None \<Rightarrow> ret ()
          | Some m \<Rightarrow> modifyM (storeEndSeq isReverse conversationID viewType (clSeq m))))"

text \<open>\<^verbatim>\<open>getAdvancedHistoryMessageList\<close>, up to the conversion of the messages for the application.\<close>

definition getAdvancedHistoryMessageList ::
  "nat \<Rightarrow> sdk_deps \<Rightarrow> msg_server \<Rightarrow> string \<Rightarrow> string \<Rightarrow> int \<Rightarrow> int \<Rightarrow> bool \<Rightarrow> ('e sdk_conv_scheme, page option) prog" where
  "getAdvancedHistoryMessageList fuel D S conversationID startClientMsgID viewType cnt isReverse =
     bindM (if startClientMsgID \<noteq> '''' then
         bindM (GetMessage conversationID startClientMsgID) (\<lambda>m.
         thenM (handleEndSeq conversationID viewType isReverse m) (ret (clSendTime m, clSeq m, startClientMsgID)))
       else thenM (modifyM (\<lambda>w. w\<lparr>pullForwardEndSeq := (pullForwardEndSeq w)(viewTypeKey conversationID viewType := None),
             pullReverseEndSeq := (pullReverseEndSeq w)(viewTypeKey conversationID viewType := None)\<rparr>)) (ret (0, 0, '''')))
     (\<lambda>(startTime, startSeq, startClientMsgID).
     fetchMessagesWithGapCheck fuel D S conversationID cnt startTime startSeq startClientMsgID isReverse viewType
       \<lparr>cbIsEnd = False, cbErrCode = 0, cbErrMsg = None\<rparr>)"

end
