(* ===== verification/Sdk_History_Props.thy ===== *)
theory Sdk_History_Props
  imports Sdk_History
begin

text \<open>
  The message history: the merge of two pages against the merge of the whole lists, the numbers a page lacks, what reading the history leaves of the
  stored messages, and a reading that does not come to an end.
\<close>

section \<open>Merging\<close>

text \<open>The order of a page; messages that compare equal may stand in either order.\<close>

definition inOrder :: "bool \<Rightarrow> LocalChatLog list \<Rightarrow> bool" where
  "inOrder d = sorted_wrt (\<lambda>a b. \<not> comesFirst d b a)"

lemma comesFirst_asym: "comesFirst d a b \<Longrightarrow> \<not> comesFirst d b a"
  by (auto simp: comesFirst_def)

lemma comesFirst_trans: "\<not> comesFirst d b a \<Longrightarrow> \<not> comesFirst d c b \<Longrightarrow> \<not> comesFirst d c a"
  by (cases d) (auto simp: comesFirst_def)

lemma mergeLoop_take: "mergeLoop d xs ys n = take n (mergeLoop d xs ys (length xs + length ys))"
proof (induction d xs ys n rule: mergeLoop.induct)
  case (2 d x xs y ys n)
  then show ?case by (cases "comesFirst d x y") auto
qed auto

lemma mset_mergeLoop: "length xs + length ys \<le> n \<Longrightarrow> mset (mergeLoop d xs ys n) = mset xs + mset ys"
  by (induction d xs ys n rule: mergeLoop.induct) auto

lemma set_mergeLoop: "set (mergeLoop d xs ys n) \<subseteq> set xs \<union> set ys"
  by (induction d xs ys n rule: mergeLoop.induct) auto

lemma inOrder_mergeLoop: "inOrder d xs \<Longrightarrow> inOrder d ys \<Longrightarrow> inOrder d (mergeLoop d xs ys n)"
proof (induction d xs ys n rule: mergeLoop.induct)
  case (2 d x xs y ys n)
  show ?case
  proof (cases "comesFirst d x y")
    case True
    have "\<not> comesFirst d z x" if "z \<in> set (mergeLoop d xs (y # ys) n)" for z
    proof -
      from that have "z \<in> set xs \<or> z = y \<or> z \<in> set ys" using set_mergeLoop by fastforce
      then show ?thesis
      proof (elim disjE)
        assume "z \<in> set ys"
        then have "\<not> comesFirst d z y" using 2 by (simp add: inOrder_def)
        then show ?thesis using comesFirst_trans [OF comesFirst_asym [OF True]] by blast
      qed (use 2 True comesFirst_asym in \<open>auto simp: inOrder_def\<close>)
    qed
    with 2 True show ?thesis by (simp add: inOrder_def)
  next
    case False
    have "\<not> comesFirst d z y" if "z \<in> set (mergeLoop d (x # xs) ys n)" for z
    proof -
      from that have "z \<in> set ys \<or> z = x \<or> z \<in> set xs" using set_mergeLoop by fastforce
      then show ?thesis
      proof (elim disjE)
        assume "z \<in> set xs"
        then have "\<not> comesFirst d z x" using 2 by (simp add: inOrder_def)
        then show ?thesis using comesFirst_trans [OF False] by blast
      qed (use 2 False in \<open>auto simp: inOrder_def\<close>)
    qed
    with 2 False show ?thesis by (simp add: inOrder_def)
  qed
next
  case (3 d x xs n)
  then show ?case using set_mergeLoop [of d xs "[]" n] by (fastforce simp: inOrder_def)
next
  case (4 d y ys n)
  then show ?case using set_mergeLoop [of d "[]" ys n] by (fastforce simp: inOrder_def)
qed (simp_all add: inOrder_def)

text \<open>
  C16. Merging two pages that are in order gives the first messages of both together in order: none is lost before the limit, none is repeated.
\<close>

theorem mergeSortedArrays_merges:
  assumes "inOrder isDescending arr1" "inOrder isDescending arr2"
  shows "\<exists>full. mergeSortedArrays arr1 arr2 n isDescending = take (nat n) full \<and> mset full = mset arr1 + mset arr2 \<and> inOrder isDescending full"
proof -
  let ?full = "mergeLoop isDescending arr1 arr2 (length arr1 + length arr2)"
  have "mset ?full = mset arr1 + mset arr2" by (rule mset_mergeLoop) simp
  then show ?thesis
    unfolding mergeSortedArrays_def using inOrder_mergeLoop [OF assms] mergeLoop_take by blast
qed

section \<open>The numbers a page lacks\<close>

definition numbersOf :: "LocalChatLog list \<Rightarrow> int list" where
  "numbersOf messages = filter (\<lambda>s. s \<noteq> 0) (map clSeq messages)"

lemma maxMinLoop_spec:
  assumes "\<forall>m \<in> set ms. 0 \<le> clSeq m"
    "(qs = [] \<and> mx = 0 \<and> mn = 0) \<or> (qs \<noteq> [] \<and> 0 < mn \<and> mx = Max (set qs) \<and> mn = Min (set qs))"
  shows "maxMinLoop ms (mx, mn, qs) = (let qs' = qs @ numbersOf ms in (if qs' = [] then 0 else Max (set qs'), if qs' = [] then 0 else Min (set qs'), qs'))"
  using assms
proof (induction ms arbitrary: mx mn qs)
  case Nil
  then show ?case by (auto simp: numbersOf_def)
next
  case (Cons m ms)
  show ?case
  proof (cases "clSeq m = 0")
    case True
    have "maxMinLoop (m # ms) (mx, mn, qs) = maxMinLoop ms (mx, mn, qs)"
    proof (cases "qs = []")
      case False
      then have "Max (set qs) \<in> set qs" "Min (set qs) \<in> set qs" by (simp_all add: Max_in Min_in)
      moreover have "0 < Min (set qs)" using Cons.prems(2) False by auto
      ultimately have "0 < mx" "0 < mn" using Cons.prems(2) False Min_le [of "set qs" "Max (set qs)"] by auto
      then show ?thesis using True by (simp add: Let_def)
    qed (use True Cons.prems(2) in \<open>simp add: Let_def\<close>)
    moreover have "numbersOf (m # ms) = numbersOf ms" by (simp add: numbersOf_def True)
    ultimately show ?thesis using Cons by simp
  next
    case False
    then have pos: "0 < clSeq m" using Cons.prems(1) by (simp add: order_less_le)
    let ?mx = "if qs = [] then clSeq m else max (clSeq m) mx" and ?mn = "if qs = [] then clSeq m else min (clSeq m) mn"
    have "maxMinLoop (m # ms) (mx, mn, qs) = maxMinLoop ms (?mx, ?mn, qs @ [clSeq m])"
      using pos Cons.prems(2) by (auto simp: Let_def max_def min_def)
    moreover have "maxMinLoop ms (?mx, ?mn, qs @ [clSeq m]) = (let qs' = (qs @ [clSeq m]) @ numbersOf ms in
        (if qs' = [] then 0 else Max (set qs'), if qs' = [] then 0 else Min (set qs'), qs'))"
      using Cons.prems pos by (intro Cons.IH) (auto simp: Max_insert Min_insert)
    moreover have "numbersOf (m # ms) = clSeq m # numbersOf ms" by (simp add: numbersOf_def False)
    ultimately show ?thesis by simp
  qed
qed

lemma getMaxAndMin_spec:
  assumes "\<forall>m \<in> set ms. 0 \<le> clSeq m"
  shows "getMaxAndMinHaveSeqList ms =
    (if numbersOf ms = [] then 0 else Max (set (numbersOf ms)), if numbersOf ms = [] then 0 else Min (set (numbersOf ms)), numbersOf ms)"
  using maxMinLoop_spec [OF assms, of "[]" 0 0] by (simp add: getMaxAndMinHaveSeqList_def Let_def)

lemma rising_split:
  assumes "sorted_wrt (<) (L :: int list)"
  shows "i \<in> set (take k L) \<Longrightarrow> j \<in> set L - set (take k L) \<Longrightarrow> i < j"
    and "i \<in> set (drop k L) \<Longrightarrow> j \<in> set L - set (drop k L) \<Longrightarrow> j < i"
proof -
  have *: "\<forall>a \<in> set (take k L). \<forall>b \<in> set (drop k L). a < b"
    using assms sorted_wrt_append [of "(<)" "take k L" "drop k L"] by simp
  have **: "set L = set (take k L) \<union> set (drop k L)" by (metis append_take_drop_id set_append)
  show "i \<in> set (take k L) \<Longrightarrow> j \<in> set L - set (take k L) \<Longrightarrow> i < j" using * ** by blast
  show "i \<in> set (drop k L) \<Longrightarrow> j \<in> set L - set (drop k L) \<Longrightarrow> j < i" using * ** by blast
qed

text \<open>
  C23. The numbers that are asked for to close a page: numbers between its smallest and its largest that it does not have, in rising order; all of
  them when there are at most fifty, otherwise the fifty the reading meets first (the smallest when it goes on to newer messages, else the largest).
\<close>

theorem lost_numbers:
  assumes "\<forall>m \<in> set ms. 0 \<le> clSeq m" "getMaxAndMinHaveSeqList ms = (mx, mn, have)" "mx \<noteq> 0"
  shows "let lost = getLostSeqListWithLimitLength mn mx have isReverse; missing = {mn..mx} - set (map clSeq ms) in
    sorted_wrt (<) lost \<and> set lost \<subseteq> missing \<and> length lost = min 50 (card missing) \<and>
    (\<forall>i \<in> set lost. \<forall>j \<in> missing - set lost. if isReverse then i < j else j < i)"
proof -
  define L where "L = filter (\<lambda>i. i \<notin> set have) [mn..mx]"
  let ?lost = "getLostSeqListWithLimitLength mn mx have isReverse"
  have h: "have = numbersOf ms" "numbersOf ms \<noteq> []" "mn = Min (set (numbersOf ms))"
    using assms(2,3) by (auto simp: getMaxAndMin_spec [OF assms(1)] split: if_splits)
  have "mn \<in> set (numbersOf ms)" using h(2,3) by simp
  then have "0 < mn" using assms(1) by (auto simp: numbersOf_def order_less_le)
  then have m: "set L = {mn..mx} - set (map clSeq ms)" by (auto simp: L_def h(1) numbersOf_def)
  have s: "sorted_wrt (<) L" unfolding L_def by (rule sorted_wrt_filter) (simp add: sorted_wrt_upto)
  have "distinct L" by (simp add: L_def)
  then have c: "card (set L) = length L" by (rule distinct_card)
  have "?lost = (if length L > 50 then if isReverse then take 50 L else drop (length L - 50) L else L)"
    by (simp add: getLostSeqListWithLimitLength_def Let_def L_def)
  then consider "?lost = take 50 L" "isReverse \<or> ?lost = L" "length ?lost = min 50 (length L)"
    | "?lost = drop (length L - 50) L" "\<not> isReverse" "length ?lost = min 50 (length L)"
    by (cases "length L > 50"; cases isReverse) auto
  then show ?thesis
  proof cases
    case 1
    then show ?thesis
      unfolding Let_def m [symmetric] c using s rising_split(1) [OF s, of _ 50] set_take_subset [of 50 L]
      by (auto simp: sorted_wrt_take)
  next
    case 2
    then show ?thesis
      unfolding Let_def m [symmetric] c using s rising_split(2) [OF s, of _ "length L - 50"] set_drop_subset [of "length L - 50" L]
      by (auto simp: sorted_wrt_drop)
  qed
qed

section \<open>A reading that does not end\<close>

text \<open>Nothing of the conversation is stored, there are messages on the server, and the connection is down.\<close>

definition strandedConv :: "sdk_deps \<Rightarrow> string \<Rightarrow> int \<Rightarrow> 'e sdk_conv_scheme \<Rightarrow> bool" where
  "strandedConv D c viewType w \<longleftrightarrow> reliable w \<and> rowsOf w c = [] \<and> c \<notin> lcConversationID ` set (conversations w) \<and> 0 < recorderGet c w \<and>
     endSeqOf True c viewType w = None \<and> (\<forall>n. \<not> isConnected D n)"

lemma stranded_opno [simp]: "strandedConv D c viewType (w\<lparr>opno := n\<rparr>) = strandedConv D c viewType w"
  by (simp add: strandedConv_def rowsOf_def recorderGet_def endSeqOf_def)

lemma reliable_chatLogs [simp]: "reliable (w\<lparr>chatLogs := t\<rparr>) = reliable w"
  by (simp add: reliable_def)

lemma stranded_list:
  assumes "strandedConv D c viewType w"
  shows "\<exists>w'. GetMessageList c cnt t s i r w = (Inr [], w') \<and> strandedConv D c viewType w'"
proof -
  have k: "reliable w" "rowsOf w c = []" using assms by (simp_all add: strandedConv_def)
  let ?w1 = "w\<lparr>opno := Suc (Suc (opno w)), chatLogs := (chatLogs w)(c \<mapsto> [])\<rparr>"
  have "GetMessageList c cnt t s i r w = (Inr [], ?w1)"
    using k by (auto simp: GetMessageList_def initChatLog_def onTable_def bindM_def io_reliable rowsOf_def byTime_def limitRows_def
        fun_upd_idem split: option.splits)
  moreover have "strandedConv D c viewType ?w1"
    using assms by (simp add: strandedConv_def rowsOf_def recorderGet_def endSeqOf_def reliable_def)
  ultimately show ?thesis by blast
qed

lemma stranded_checkEnd:
  assumes "strandedConv D c viewType w" "0 < cnt"
  shows "\<exists>w' lost. checkEndBlock c True viewType cnt ([], cb) w = (Inr (lost, ([], cb)), w') \<and> strandedConv D c viewType w'"
proof -
  have k: "reliable w" "c \<notin> lcConversationID ` set (conversations w)" "0 < recorderGet c w" "endSeqOf True c viewType w = None"
    using assms(1) by (simp_all add: strandedConv_def)
  let ?w1 = "w\<lparr>opno := Suc (opno w)\<rparr>"
  have find: "List.find (\<lambda>x. lcConversationID x = c) (conversations w) = None" using k(2) by (auto simp: find_None_iff)
  have get: "getConversationMaxSeq c w = (Inr (recorderGet c w), ?w1)"
    using k(1) find by (simp add: getConversationMaxSeq_def GetConversationRow_def bindM_def tryM_def io_reliable recorderGet_def)
  have "endSeq0 True c viewType ?w1 = 0" using k(4) by (simp add: endSeq0_def endSeqOf_def)
  with get k(3) assms(2) show ?thesis
    by (auto simp: checkEndBlock_def bindM_def getMaxAndMinHaveSeqList_def Let_def assms(1))
qed

lemma stranded_end:
  assumes "strandedConv D c viewType w" "0 < cnt"
  shows "\<exists>w'. validateAndFillEndBlockContinuity D S c True viewType cnt 0 ([], cb) w = (Inr ([], cb), w') \<and> strandedConv D c viewType w'"
proof -
  obtain w1 lost where 1: "checkEndBlock c True viewType cnt ([], cb) w = (Inr (lost, ([], cb)), w1)" "strandedConv D c viewType w1"
    using stranded_checkEnd [OF assms] by blast
  obtain w2 lost2 where 2: "checkEndBlock c True viewType cnt ([], cb) w1 = (Inr (lost2, ([], cb)), w2)" "strandedConv D c viewType w2"
    using stranded_checkEnd [OF 1(2) assms(2)] by blast
  have off: "\<not> isConnected D n" for n using assms(1) by (simp add: strandedConv_def)
  have f: "fetchAndMergeMissingMessages D S c l True cnt 0 ([], cb) w1 = (Inr ([], cb), w1)" for l
    by (simp add: fetchAndMergeMissingMessages_def off)
  show ?thesis
    using 1 2 f by (cases lost) (simp_all add: validateAndFillEndBlockContinuity_def bindM_def)
qed

lemma stranded_fetch:
  assumes "0 < cnt" "\<not> cbIsEnd cb" "strandedConv D c viewType w"
  shows "\<exists>w'. fetchMessagesWithGapCheck fuel D S c cnt 0 0 '''' True viewType cb w = (Inr None, w')"
  using assms(3)
proof (induction fuel arbitrary: w)
  case (Suc fuel)
  obtain w1 where 1: "GetMessageList c cnt 0 0 '''' True w = (Inr [], w1)" "strandedConv D c viewType w1"
    using stranded_list [OF Suc.prems] by blast
  have e: "endSeq0 True c viewType w1 = 0" using 1(2) by (simp add: strandedConv_def endSeq0_def)
  obtain w2 where 2: "validateAndFillEndBlockContinuity D S c True viewType cnt 0 ([], cb) w1 = (Inr ([], cb), w2)" "strandedConv D c viewType w2"
    using stranded_end [OF 1(2) assms(1)] by blast
  obtain w3 where "fetchMessagesWithGapCheck fuel D S c cnt 0 0 '''' True viewType cb w2 = (Inr None, w3)" using Suc.IH [OF 2(2)] by blast
  with 1(1) 2(1) assms(1,2) show ?case
    by (simp add: bindM_def validateAndFillInternalGaps_def validateAndFillInterBlockGaps_def getMaxAndMinHaveSeqList_def e Let_def
        shouldFetchMoreMessagesNum_def validMessagesOf_def getNewStartMessageInfo_def)
qed simp

text \<open>
  C28. Reading towards newer messages in a conversation of which nothing is stored yet never returns while the connection is down: it starts over
  from the beginning for every number of steps.
\<close>

theorem offline_history_never_returns:
  assumes "strandedConv D c viewType w" "0 < cnt"
  shows "fst (getAdvancedHistoryMessageList fuel D S c '''' viewType cnt True w) = Inr None"
proof -
  let ?w1 = "w\<lparr>pullForwardEndSeq := (pullForwardEndSeq w)(viewTypeKey c viewType := None),
     pullReverseEndSeq := (pullReverseEndSeq w)(viewTypeKey c viewType := None)\<rparr>"
  have "strandedConv D c viewType ?w1"
    using assms(1) by (simp add: strandedConv_def rowsOf_def recorderGet_def endSeqOf_def reliable_def)
  then obtain w' where "fetchMessagesWithGapCheck fuel D S c cnt 0 0 [] True viewType \<lparr>cbIsEnd = False, cbErrCode = 0, cbErrMsg = None\<rparr> ?w1 = (Inr None, w')"
    using stranded_fetch [OF assms(2), of "\<lparr>cbIsEnd = False, cbErrCode = 0, cbErrMsg = None\<rparr>"] by fastforce
  then show ?thesis by (simp add: getAdvancedHistoryMessageList_def bindM_def)
qed

section \<open>Stored messages are kept\<close>

definition keysUnique :: "'e msg_client_scheme \<Rightarrow> bool" where
  "keysUnique w \<longleftrightarrow> (\<forall>c. distinct (map clClientMsgID (rowsOf w c)))"

definition holds :: "(string \<times> LocalChatLog) set \<Rightarrow> 'e msg_client_scheme \<Rightarrow> bool" where
  "holds K w \<longleftrightarrow> keysUnique w \<and> (\<forall>(c, r) \<in> K. clSeq r \<noteq> 0 \<and> r \<in> set (rowsOf w c))"

named_theorems keep_rules "programs that leave the stored messages in place"

lemma holds_cong: "chatLogs w' = chatLogs w \<Longrightarrow> holds K w' = holds K w"
  by (simp add: holds_def keysUnique_def rowsOf_def)

lemma holds_opno [simp]: "holds K (w\<lparr>opno := n\<rparr>) = holds K w"
  by (rule holds_cong) simp

lemma sameLogs_holds: "(\<And>L. preserves (\<lambda>w. chatLogs w = L) m) \<Longrightarrow> preserves (holds K) m"
  unfolding preserves_def using holds_cong by blast

lemma sameLogs_io [keep_rules]: "preserves (\<lambda>w. chatLogs w = L) m \<Longrightarrow> preserves (\<lambda>w. chatLogs w = L) (io m)"
  by (rule preserves_io) simp_all

lemma sameLogs_modify [keep_rules]: "(\<And>w. chatLogs (f w) = chatLogs w) \<Longrightarrow> preserves (\<lambda>w. chatLogs w = L) (modifyM f)"
  by (simp add: preserves_def)

lemma sameLogs_ask [keep_rules]: "preserves (\<lambda>w. chatLogs w = L) (ask f)"
  by (simp add: preserves_def ask_def)

lemma sameLogs_callServer [keep_rules]: "preserves (\<lambda>w. chatLogs w = L) (callServer req f)"
  by (simp add: preserves_def callServer_def Let_def)

lemma sameLogs_mapM [keep_rules]: "(\<And>x. preserves P (f x)) \<Longrightarrow> preserves P (mapM f xs)"
  by (induction xs) (auto intro!: preserves_bind)

lemma sameLogs_rows [keep_rules]:
  "preserves (\<lambda>w. chatLogs w = L) (GetConversationRow c)" "preserves (\<lambda>w. chatLogs w = L) (UpdateConversationRow lc)"
  "preserves (\<lambda>w. chatLogs w = L) (UpdateLatestMsgColumns c t m)" "preserves (\<lambda>w. chatLogs w = L) (InsertConversationRow lc)"
  unfolding GetConversationRow_def UpdateConversationRow_def UpdateLatestMsgColumns_def InsertConversationRow_def
  by (rule sameLogs_io, simp add: preserves_def split: option.split)+

lemmas logs_rules = keep_rules preserves_bind preserves_tryM preserves_ret preserves_throw preserves_gets preserves_if
  preserves_case_sum preserves_case_option preserves_case_prod preserves_forM

lemma sameLogs_bounds [keep_rules]:
  "preserves (\<lambda>w. chatLogs w = L) (getConversationMaxSeq c)" "preserves (\<lambda>w. chatLogs w = L) (getConversationMinSeq c)"
  "preserves (\<lambda>w. chatLogs w = L) (setConversationMinSeq r c s)" "preserves (\<lambda>w. chatLogs w = L) (addConOrUpLatMsg D lc)"
  unfolding getConversationMaxSeq_def getConversationMinSeq_def setConversationMinSeq_def addConOrUpLatMsg_def msgEvent_def Let_def
  by (intro keep_rules logs_rules; simp)+

lemma sameLogs_exception [keep_rules]: "preserves (\<lambda>w. chatLogs w = L) (handleExceptionMessages D e m)"
  unfolding handleExceptionMessages_def by (intro keep_rules logs_rules; simp)

lemma sameLogs_faces [keep_rules]: "preserves (\<lambda>w. chatLogs w = L) (faceURLAndNicknameHandle D self others c)"
  unfolding faceURLAndNicknameHandle_def singleHandle_def groupHandle_def groupName_def by (intro keep_rules logs_rules; simp)

lemma sameLogs_sortPulled [keep_rules]: "preserves (\<lambda>w. chatLogs w = L) (sortPulled D ls vs processed acc)"
proof (induction vs arbitrary: processed acc)
  case (Cons v vs)
  show ?case unfolding sortPulled.simps Let_def by (intro keep_rules logs_rules Cons)
qed auto

subsection \<open>Statements on a table\<close>

lemma holds_onTable:
  assumes "\<And>rows rows' a. f rows = Inr (rows', a) \<Longrightarrow> distinct (map clClientMsgID rows) \<Longrightarrow> distinct (map clClientMsgID rows') \<and> set rows \<subseteq> set rows'"
  shows "preserves (holds K) (onTable c f)"
proof -
  have "holds K (w\<lparr>chatLogs := (chatLogs w)(c \<mapsto> rows')\<rparr>)" if "holds K w" "chatLogs w c = Some rows" "f rows = Inr (rows', a)" for w rows rows' a
  proof -
    have "rowsOf w c = rows" using that(2) by (simp add: rowsOf_def)
    moreover from this have "distinct (map clClientMsgID rows') \<and> set rows \<subseteq> set rows'"
      using assms [OF that(3)] that(1) unfolding holds_def keysUnique_def by metis
    moreover have "rowsOf (w\<lparr>chatLogs := (chatLogs w)(c \<mapsto> rows')\<rparr>) c' = (if c' = c then rows' else rowsOf w c')" for c'
      by (simp add: rowsOf_def)
    ultimately show ?thesis using that(1) by (fastforce simp: holds_def keysUnique_def)
  qed
  note stored = this
  have "preserves (holds K) (\<lambda>w. case chatLogs w c of
     None \<Rightarrow> (Inl (ErrNew ''no such table''), w)
   | Some rows \<Rightarrow> (case f rows of Inl e \<Rightarrow> (Inl e, w) | Inr (rows', a) \<Rightarrow> (Inr a, w\<lparr>chatLogs := (chatLogs w)(c \<mapsto> rows')\<rparr>)))"
  proof (unfold preserves_def, intro allI impI, goal_cases)
    case (1 w)
    show ?case
    proof (cases "chatLogs w c")
      case (Some rows)
      then show ?thesis using 1 stored [OF 1 Some] by (cases "f rows") auto
    qed (use 1 in simp)
  qed
  then show ?thesis unfolding onTable_def by (rule preserves_io [rotated]) simp
qed

lemma holds_initChatLog: "preserves (holds K) (initChatLog c)"
  unfolding initChatLog_def
proof (rule preserves_io)
  have "rowsOf (w\<lparr>chatLogs := (chatLogs w)(c \<mapsto> [])\<rparr>) c' = rowsOf w c'" if "chatLogs w c = None" for w :: "'a msg_client_scheme" and c'
    using that by (simp add: rowsOf_def)
  then show "preserves (holds K) (modifyM (\<lambda>w. if chatLogs w c = None then w\<lparr>chatLogs := (chatLogs w)(c \<mapsto> [])\<rparr> else w) :: ('a msg_client_scheme, unit) prog)"
    unfolding preserves_def holds_def keysUnique_def by simp
qed simp

lemma holds_statements:
  "preserves (holds K) (GetMessage c i)" "preserves (holds K) (GetMessageList c n t s i r)" "preserves (holds K) (GetMessagesByClientMsgIDs c is')"
  "preserves (holds K) (GetLatestValidServerMessage c t r)" "preserves (holds K) (InsertMessage c m)" "preserves (holds K) (BatchInsertMessageList c ms)"
  unfolding GetMessage_def GetMessageList_def GetMessagesByClientMsgIDs_def GetLatestValidServerMessage_def InsertMessage_def BatchInsertMessageList_def
  by (intro preserves_bind holds_initChatLog holds_onTable; force split: option.splits if_splits simp: Let_def)+

lemma holds_batchInsert: "preserves (holds K) (batchInsertMessageList insertMsg)"
  unfolding batchInsertMessageList_def
  by (intro logs_rules holds_statements)

subsection \<open>The messages that get their number\<close>

text \<open>The rows the messages stand for have no number yet.\<close>

definition unnumbered :: "(string \<times> LocalChatLog) set \<Rightarrow> string \<Rightarrow> LocalChatLog list \<Rightarrow> 'e msg_client_scheme \<Rightarrow> bool" where
  "unnumbered K c vs w \<longleftrightarrow> holds K w \<and> distinct (map clClientMsgID vs) \<and>
     (\<forall>v \<in> set vs. \<forall>r \<in> set (rowsOf w c). clClientMsgID r = clClientMsgID v \<longrightarrow> clSeq r = 0)"

lemma unnumbered_cong: "chatLogs w' = chatLogs w \<Longrightarrow> unnumbered K c vs w' = unnumbered K c vs w"
  using holds_cong [of w' w K] by (simp add: unnumbered_def rowsOf_def)

lemma sameLogs_run: "(\<And>L. preserves (\<lambda>w. chatLogs w = L) m) \<Longrightarrow> m w = (r, w') \<Longrightarrow> chatLogs w' = chatLogs w"
  using preservesD [of "\<lambda>v. chatLogs v = chatLogs w" m w r w'] by simp

lemma sameLogs_hoare:
  assumes "\<And>L. preserves (\<lambda>w. chatLogs w = L) m"
  shows "hoare (unnumbered K c vs) m (\<lambda>_. unnumbered K c vs) (\<lambda>_. holds K)"
proof (rule hoareI)
  show "unnumbered K c vs w'" if "unnumbered K c vs w" "m w = (Inr r, w')" for w r w'
    using sameLogs_run [OF assms that(2)] that(1) unnumbered_cong by blast
  show "holds K w'" if "unnumbered K c vs w" "m w = (Inl e, w')" for w e w'
    using sameLogs_run [OF assms that(2)] that(1) holds_cong unfolding unnumbered_def by blast
qed

lemma onTable_cases:
  assumes "onTable c f w = (r, w')"
  shows "chatLogs w' = chatLogs w \<or>
    (\<exists>rows rows' a. chatLogs w c = Some rows \<and> f rows = Inr (rows', a) \<and> chatLogs w' = (chatLogs w)(c \<mapsto> rows'))"
  using assms unfolding onTable_def io_def Let_def
  by (cases "chatLogs w c"; cases "f (the (chatLogs w c))") (auto split: fault.splits)

lemma updatesRow_id [simp]: "clClientMsgID (updatesRow c r) = clClientMsgID r"
  by (simp add: updatesRow_def)

lemma seqUpdate_id [simp]: "clClientMsgID (seqUpdate v) = clClientMsgID v"
  by (simp add: seqUpdate_def)

lemma UpdateMessage_unnumbered:
  assumes "unnumbered K c (v # vs) w" "UpdateMessage c (seqUpdate v) w = (r, w')"
  shows "unnumbered K c vs w'"
proof (cases "chatLogs w' = chatLogs w")
  case True
  have "unnumbered K c vs w" using assms(1) by (simp add: unnumbered_def)
  then show ?thesis using unnumbered_cong [OF True] by simp
next
  case False
  let ?up = "\<lambda>r. if clClientMsgID r = clClientMsgID v then updatesRow (seqUpdate v) r else r"
  obtain rows where rows: "chatLogs w c = Some rows" "chatLogs w' = (chatLogs w)(c \<mapsto> map ?up rows)"
    using onTable_cases [OF assms(2) [unfolded UpdateMessage_def]] False by (auto split: if_splits)
  have row: "rowsOf w c = rows" "rowsOf w' c' = (if c' = c then map ?up rows else rowsOf w c')" for c'
    using rows by (simp_all add: rowsOf_def)
  have ids: "map clClientMsgID (map ?up rows) = map clClientMsgID rows" by simp
  have u: "distinct (map clClientMsgID rows)" using assms(1) row(1) unfolding unnumbered_def holds_def keysUnique_def by metis
  have "distinct (map clClientMsgID (rowsOf w' c'))" for c'
    using assms(1) u unfolding unnumbered_def holds_def keysUnique_def row(2) ids [symmetric] by (cases "c' = c") simp_all
  then have "keysUnique w'" by (simp add: keysUnique_def)
  moreover have "clSeq x \<noteq> 0 \<and> x \<in> set (rowsOf w' c')" if k: "(c', x) \<in> K" for c' x
  proof -
    have x: "clSeq x \<noteq> 0" "x \<in> set (rowsOf w c')" using assms(1) k by (auto simp: unnumbered_def holds_def)
    have "clClientMsgID x \<noteq> clClientMsgID v" if "c' = c" using assms(1) x that by (auto simp: unnumbered_def)
    with x row show ?thesis by (force simp: image_iff)
  qed
  moreover have "clSeq x = 0" if "v' \<in> set vs" "x \<in> set (rowsOf w' c)" "clClientMsgID x = clClientMsgID v'" for v' x
  proof -
    have "clClientMsgID v' \<in> clClientMsgID ` set vs" using that(1) by simp
    then have "clClientMsgID v' \<noteq> clClientMsgID v" using assms(1) unfolding unnumbered_def by auto
    then have "x \<in> set rows" using that(2,3) row(2) [of c] by (auto split: if_splits)
    then show ?thesis using assms(1) that(1,3) row(1) by (auto simp: unnumbered_def)
  qed
  ultimately show ?thesis using assms(1) by (auto simp: unnumbered_def holds_def)
qed

lemma hoare_strengthen: "hoare P m Q E \<Longrightarrow> (\<And>w. P' w \<Longrightarrow> P w) \<Longrightarrow> hoare P' m Q E"
  by (auto simp: hoare_def)

lemma updateLoop_holds: "hoare (unnumbered K c vs) (updateLoop D c vs st :: ('a sdk_conv_scheme, unit) prog) (\<lambda>_. holds K) (\<lambda>_. holds K)"
proof (induction vs arbitrary: st)
  case Nil
  show ?case by (auto simp: hoare_def unnumbered_def)
next
  case (Cons v vs)
  obtain conversation latest where st: "st = (conversation, latest)" by fastforce
  have up: "hoare (unnumbered K c (v # vs)) (UpdateMessage c (seqUpdate v)) (\<lambda>_. unnumbered K c vs) (\<lambda>_. holds K)"
    using UpdateMessage_unnumbered unfolding unnumbered_def by (intro hoareI) blast+
  have ev: "hoare (unnumbered K c vs) (if b then msgEvent e else ret ()) (\<lambda>_. unnumbered K c vs) (\<lambda>_. holds K)" for b e
    by (rule sameLogs_hoare) (auto simp: msgEvent_def intro!: keep_rules)
  have ad: "hoare (unnumbered K c vs) (thenM (addConOrUpLatMsg D lc) (updateLoop D c vs st' :: ('a sdk_conv_scheme, unit) prog)) (\<lambda>_. holds K) (\<lambda>_. holds K)" for lc st'
    by (rule hoare_bind, rule sameLogs_hoare, rule sameLogs_bounds, rule Cons)
  have g: "hoare (unnumbered K c vs) (gets f) (\<lambda>_. unnumbered K c vs) (\<lambda>_. holds K)" for f :: "'a sdk_conv_scheme \<Rightarrow> 'z"
    by (simp add: hoare_def)
  show ?case unfolding st updateLoop.simps prod.case Let_def
    by (rule hoare_bind [OF up], rule hoare_bind [OF g], rule hoare_bind [OF ev]) (simp add: ad Cons)
qed

subsection \<open>Storing a reply\<close>

definition yields :: "('w, 'a) prog \<Rightarrow> ('a \<Rightarrow> bool) \<Rightarrow> bool" where
  "yields m Q \<longleftrightarrow> (\<forall>w a w'. m w = (Inr a, w') \<longrightarrow> Q a)"

lemma yields_bind: "yields m R \<Longrightarrow> (\<And>a. R a \<Longrightarrow> yields (f a) Q) \<Longrightarrow> yields (bindM m f) Q"
  unfolding yields_def bindM_eq_Inr by blast

lemma yields_any: "yields m (\<lambda>_. True)"
  by (simp add: yields_def)

lemma yields_ret: "Q a \<Longrightarrow> yields (ret a) Q"
  by (simp add: yields_def)

text \<open>The messages to update stand for rows without a number, each once.\<close>

definition goodUpdates :: "LocalChatLog list \<Rightarrow> LocalChatLog list \<Rightarrow> bool" where
  "goodUpdates ls us \<longleftrightarrow> distinct (map clClientMsgID us) \<and> (\<forall>m \<in> set us. \<exists>r \<in> set ls. clClientMsgID r = clClientMsgID m \<and> clSeq r = 0)"

lemma sortPulled_updates:
  "goodUpdates ls (paUpdate acc) \<Longrightarrow> clClientMsgID ` set (paUpdate acc) \<subseteq> dom processed \<Longrightarrow>
   yields (sortPulled D ls vs processed acc :: ('a msg_client_scheme, _) prog) (\<lambda>(acc', vs'). goodUpdates ls (paUpdate acc'))"
proof (induction vs arbitrary: processed acc)
  case (Cons v vs)
  let ?m = "MsgDataToLocalChatLog v"
  have id: "clClientMsgID ?m = clientMsgID v" by (simp add: MsgDataToLocalChatLog_def)
  have go: "yields (bindM (sortPulled D ls vs processed' acc' :: ('a msg_client_scheme, _) prog) (\<lambda>(acc, vs'). ret (acc, v' # vs'))) (\<lambda>(acc', vs'). goodUpdates ls (paUpdate acc'))"
    if "goodUpdates ls (paUpdate acc')" "clClientMsgID ` set (paUpdate acc') \<subseteq> dom processed'" for processed' acc' v'
    by (rule yields_bind [OF Cons.IH [OF that]]) (auto intro: yields_ret)
  have ex: "yields (bindM (handleExceptionMessages D e ?m :: ('a msg_client_scheme, _) prog) (\<lambda>m'. bindM (sortPulled D ls vs (P m') (acc\<lparr>paInsert := paInsert acc @ [m']\<rparr>))
      (\<lambda>(acc, vs'). ret (acc, V m' # vs')))) (\<lambda>(acc', vs'). goodUpdates ls (paUpdate acc'))"
    if "\<And>m'. dom processed \<subseteq> dom (P m')" for e P V
  proof (rule yields_bind [OF yields_any], rule go)
    show "clClientMsgID ` set (paUpdate (acc\<lparr>paInsert := paInsert acc @ [m']\<rparr>)) \<subseteq> dom (P m')" for m'
      using Cons.prems(2) that [of m'] by simp
  qed (use Cons.prems(1) in simp)
  have upd: "goodUpdates ls (paUpdate acc @ [?m])" if "processed (clientMsgID v) = None" "List.find (\<lambda>r. clClientMsgID r = clClientMsgID ?m) ls = Some r" "clSeq r = 0" for r
  proof -
    have "clClientMsgID ?m \<notin> clClientMsgID ` set (paUpdate acc)" using Cons.prems(2) that(1) id by auto
    moreover have "r \<in> set ls" "clClientMsgID r = clClientMsgID ?m" using that(2) by (auto simp: find_Some_iff)
    ultimately show ?thesis using Cons.prems(1) that(3) by (auto simp: goodUpdates_def)
  qed
  have d: "clClientMsgID ` set (paUpdate acc) \<subseteq> dom (processed(k \<mapsto> m))" for k m
    by (rule subset_trans [OF Cons.prems(2)]) auto
  have new1: "yields (bindM (sortPulled D ls vs (processed(k \<mapsto> m)) (if b then acc\<lparr>paSelf := x\<rparr> else acc\<lparr>paOthers := y\<rparr>) :: ('a msg_client_scheme, _) prog)
      (\<lambda>(acc, vs'). ret (acc, v # vs'))) (\<lambda>(acc', vs'). goodUpdates ls (paUpdate acc'))" for k m b x y
    by (rule go) (use Cons.prems(1) d in \<open>cases b; simp\<close>)+
  have new2: "yields (bindM (sortPulled D ls vs (processed(clClientMsgID ?m \<mapsto> ?m)) (acc\<lparr>paUpdate := paUpdate acc @ [?m]\<rparr>) :: ('a msg_client_scheme, _) prog)
      (\<lambda>(acc, vs'). ret (acc, v # vs'))) (\<lambda>(acc', vs'). goodUpdates ls (paUpdate acc'))" if "goodUpdates ls (paUpdate acc @ [?m])"
    by (rule go) (use that d [of "clClientMsgID ?m" ?m] in simp_all)
  show ?case
    unfolding sortPulled.simps Let_def
  proof (rule yields_bind [OF yields_any], goal_cases)
    case (1 u)
    show ?case
    proof (cases "processed (clientMsgID v)")
      case (Some e)
      then show ?thesis using ex [of "\<lambda>_. processed"] by simp
    next
      case None
      note new = None
      show ?thesis
      proof (cases "status v = MsgStatusHasDeleted")
        case True
        then show ?thesis using None ex [of "\<lambda>_. processed"] by simp
      next
        case False
        show ?thesis
        proof (cases "List.find (\<lambda>r. clClientMsgID r = clClientMsgID ?m) ls")
          case None
          then show ?thesis using new False by (simp add: new1)
        next
          case (Some r)
          show ?thesis
          proof (cases "sendID v = u \<and> clSeq r = 0")
            case True
            then show ?thesis using new False Some new2 [OF upd [OF new Some]] by simp
          next
            case notSelf: False
            have "dom processed \<subseteq> dom (processed(clClientMsgID m' \<mapsto> m'))" for m' :: LocalChatLog by auto
            then show ?thesis using new False Some notSelf ex [of "\<lambda>m'. processed(clClientMsgID m' \<mapsto> m')" "Some r"] by auto
          qed
        qed
      qed
    qed
  qed
qed (auto intro: yields_ret)

lemma hoare_tryM: "hoare P m Q E \<Longrightarrow> hoare P (tryM m) (\<lambda>r w. case r of Inl e \<Rightarrow> E e w | Inr a \<Rightarrow> Q a w) E"
  unfolding hoare_def tryM_def by (auto split: prod.splits sum.splits err.splits)

lemma preserves_hoare: "preserves P m \<Longrightarrow> hoare P m (\<lambda>_. P) (\<lambda>_. P)"
  unfolding preserves_def hoare_def by (auto split: prod.splits sum.splits)

lemma hoare_preserves: "hoare P m (\<lambda>_. P) (\<lambda>_. P) \<Longrightarrow> preserves P m"
  unfolding preserves_def hoare_def by (auto split: prod.splits sum.splits) (metis prod.collapse sum.exhaust)

lemma onTable_Inr:
  assumes "onTable c f w = (Inr a, w')"
  shows "\<exists>rows rows'. chatLogs w c = Some rows \<and> f rows = Inr (rows', a) \<and> chatLogs w' = (chatLogs w)(c \<mapsto> rows')"
proof (cases "chatLogs w c")
  case None
  with assms show ?thesis unfolding onTable_def io_Inr by simp
next
  case (Some rows)
  with assms show ?thesis unfolding onTable_def io_Inr by (cases "f rows") auto
qed

lemma local_rows:
  "hoare (holds K) (GetMessagesByClientMsgIDs c is') (\<lambda>ms w. holds K w \<and> set ms \<subseteq> set (rowsOf w c)) (\<lambda>_. holds K)"
proof (rule hoareI)
  fix w ms w' assume a: "holds K w" "GetMessagesByClientMsgIDs c is' w = (Inr ms, w')"
  have "holds K w'" by (rule preservesD [OF holds_statements(3) a])
  moreover obtain rows rows' where r: "Inr (rows, sort_key (\<lambda>r. - clSendTime r) (filter (\<lambda>r. clClientMsgID r \<in> set is') rows)) = (Inr (rows', ms) :: err + _)"
      "chatLogs w' = (chatLogs w)(c \<mapsto> rows')"
    using onTable_Inr [OF a(2) [unfolded GetMessagesByClientMsgIDs_def]] by blast
  then have "rowsOf w' c = rows" "set ms \<subseteq> set rows" by (auto simp: rowsOf_def)
  ultimately show "holds K w' \<and> set ms \<subseteq> set (rowsOf w' c)" by blast
next
  fix w e w' assume a: "holds K w" "GetMessagesByClientMsgIDs c is' w = (Inl e, w')"
  show "holds K w'" by (rule preservesD [OF holds_statements(3) a])
qed

lemma batchUpdate_holds: "hoare (unnumbered K c us) (batchUpdateMessageList D [(c, us)] :: ('a sdk_conv_scheme, unit) prog) (\<lambda>_. holds K) (\<lambda>_. holds K)"
proof -
  have get: "hoare (unnumbered K c us) (tryM (GetConversationRow c)) (\<lambda>_. unnumbered K c us) (\<lambda>_. holds K)"
    by (rule sameLogs_hoare) (intro keep_rules preserves_tryM)
  have fin: "hoare (unnumbered K c us) (ret ()) (\<lambda>_. holds K) (\<lambda>_. holds K)" by (simp add: hoare_def unnumbered_def)
  show ?thesis unfolding batchUpdateMessageList.simps fst_conv snd_conv
    by (rule hoare_bind, rule get) (auto split: sum.split option.split intro: fin updateLoop_holds)
qed

text \<open>The messages that were found are still there when the numbers are written.\<close>

lemma goodUpdates_unnumbered:
  assumes "holds K w" "set ls \<subseteq> set (rowsOf w c)" "goodUpdates ls us"
  shows "unnumbered K c us w"
proof -
  have "clSeq r = 0" if "v \<in> set us" "r \<in> set (rowsOf w c)" "clClientMsgID r = clClientMsgID v" for v r
  proof -
    obtain r' where r': "r' \<in> set ls" "clClientMsgID r' = clClientMsgID v" "clSeq r' = 0"
      using assms(3) \<open>v \<in> set us\<close> by (auto simp: goodUpdates_def)
    have "distinct (map clClientMsgID (rowsOf w c))" using assms(1) by (simp add: holds_def keysUnique_def)
    then have "r = r'" using that(2,3) r'(1,2) assms(2) by (metis distinct_map inj_onD subsetD)
    then show ?thesis using r'(3) by simp
  qed
  then show ?thesis using assms by (simp add: unnumbered_def goodUpdates_def)
qed

lemma pull_holds:
  assumes "length msgs \<le> 1"
  shows "preserves (holds K) (pullMessageIntoTable D msgs pageMsgs :: ('a sdk_conv_scheme, _) prog)"
proof (cases msgs)
  case Nil
  then show ?thesis by (simp add: pullMessageIntoTable_def preserves_ret)
next
  case (Cons cm rest)
  then have msgs: "msgs = [cm]" using assms by simp
  let ?acc0 = "\<lparr>paInsert = [], paSelf = [], paOthers = [], paUpdate = []\<rparr>"
  have sorted: "hoare (\<lambda>w. holds K w \<and> set ls \<subseteq> set (rowsOf w (fst cm))) (sortPulled D ls vs Map.empty ?acc0 :: ('a sdk_conv_scheme, _) prog)
      (\<lambda>p w. unnumbered K (fst cm) (paUpdate (fst p)) w) (\<lambda>_. holds K)" for ls vs
  proof (rule hoareI)
    fix w p w' assume a: "holds K w \<and> set ls \<subseteq> set (rowsOf w (fst cm))" "sortPulled D ls vs Map.empty ?acc0 w = (Inr p, w')"
    have "chatLogs w' = chatLogs w" by (rule sameLogs_run [OF sameLogs_sortPulled a(2)])
    then have "holds K w'" "set ls \<subseteq> set (rowsOf w' (fst cm))" using a(1) holds_cong by (auto simp: rowsOf_def)
    moreover have "goodUpdates ls (paUpdate (fst p))"
      using sortPulled_updates [of ls ?acc0 Map.empty D vs, unfolded yields_def, rule_format, OF _ _ a(2)]
      by (simp add: goodUpdates_def case_prod_beta)
    ultimately show "unnumbered K (fst cm) (paUpdate (fst p)) w'" by (rule goodUpdates_unnumbered)
  next
    fix w e w' assume a: "holds K w \<and> set ls \<subseteq> set (rowsOf w (fst cm))" "sortPulled D ls vs Map.empty ?acc0 w = (Inl e, w')"
    have "chatLogs w' = chatLogs w" by (rule sameLogs_run [OF sameLogs_sortPulled a(2)])
    then show "holds K w'" using a(1) holds_cong by blast
  qed
  have faces: "hoare (unnumbered K (fst cm) us) (faceURLAndNicknameHandle D self others (fst cm)) (\<lambda>_. unnumbered K (fst cm) us) (\<lambda>_. holds K)"
    for us self others
    by (rule sameLogs_hoare) (rule sameLogs_faces)
  have upd: "hoare (unnumbered K (fst cm) us) (tryM (batchUpdateMessageList D [(fst cm, us)])) (\<lambda>_. holds K) (\<lambda>_. holds K)" for us
    using hoare_tryM [OF batchUpdate_holds] by (rule hoare_weaken) (auto split: sum.splits)
  have found: "hoare (holds K) (tryM (GetMessagesByClientMsgIDs (fst cm) is'))
      (\<lambda>r w. holds K w \<and> set (case r of Inl e \<Rightarrow> [] | Inr ms \<Rightarrow> ms) \<subseteq> set (rowsOf w (fst cm))) (\<lambda>_. holds K)" for is'
    using hoare_tryM [OF local_rows] by (rule hoare_weaken) (auto split: sum.splits)
  have "hoare (holds K) (pullMessageIntoTable D [cm] pageMsgs :: ('a sdk_conv_scheme, _) prog) (\<lambda>_. holds K) (\<lambda>_. holds K)"
    unfolding pullMessageIntoTable_def pullLoop.simps Let_def case_prod_beta fst_conv snd_conv
    apply (rule hoare_bind [OF found], rule hoare_bind [OF sorted], rule hoare_bind [OF faces])
    apply (rule hoare_bind [where R = "\<lambda>_. holds K"])
     apply (simp add: upd del: batchUpdateMessageList.simps)
    apply (rule hoare_bind [OF preserves_hoare [OF holds_batchInsert]])
    apply (simp add: hoare_def)
    done
  then show ?thesis unfolding msgs by (rule hoare_preserves)
qed

subsection \<open>The whole reading\<close>

text \<open>A reply names the conversation that was asked for, and no other.\<close>

definition singleReplies :: "msg_server \<Rightarrow> bool" where
  "singleReplies S \<longleftrightarrow> (\<forall>n u c ss r msgs. msgsBySeqs S n u c ss r = Inr msgs \<longrightarrow> length msgs \<le> 1)"

lemma preserves_callServer:
  assumes "\<And>L. preserves (\<lambda>w. chatLogs w = L) m" "yields m Q" "\<And>r. Q r \<Longrightarrow> preserves (holds K) (g r)"
  shows "preserves (holds K) (bindM m g)"
proof (rule preservesI)
  fix w r w' assume w: "holds K w" "bindM m g w = (r, w')"
  obtain a w1 where 1: "m w = (a, w1)" by fastforce
  have h: "holds K w1" using sameLogs_run [OF assms(1) 1] w(1) holds_cong by blast
  show "holds K w'"
  proof (cases a)
    case (Inl e)
    with 1 w h show ?thesis by (simp add: bindM_def)
  next
    case (Inr x)
    then have "Q x" using assms(2) 1 unfolding yields_def by blast
    then show ?thesis using preservesD [OF assms(3) h] 1 Inr w(2) by (simp add: bindM_def)
  qed
qed

lemma holds_fetch:
  assumes "singleReplies S"
  shows "preserves (holds K) (fetchAndMergeMissingMessages D S c ss r n t pg)"
proof -
  obtain pageMsgs cb where pg: "pg = (pageMsgs, cb)" by fastforce
  have reply: "yields (tryM (callServer req (\<lambda>k. msgsBySeqs S k u c ss r))) (\<lambda>x. case x of Inl e \<Rightarrow> True | Inr msgs \<Rightarrow> length msgs \<le> 1)" for req u
    using assms unfolding yields_def singleReplies_def tryM_def callServer_def Let_def
    by (auto split: sum.splits err.splits)
  show ?thesis
    unfolding fetchAndMergeMissingMessages_def pg prod.case
    apply (rule preserves_bind [OF preserves_gets], rule preserves_if, rule preserves_ret)
    apply (rule preserves_bind [OF preserves_gets], rule preserves_callServer [OF _ reply])
     apply (intro keep_rules logs_rules)
    subgoal for offline u x
    proof (cases x)
      case (Inr msgs)
      assume "case x of Inl e \<Rightarrow> True | Inr msgs \<Rightarrow> length msgs \<le> 1"
      with Inr have "length msgs \<le> 1" by simp
      then show ?thesis unfolding Inr sum.case Let_def
        by (intro preserves_case_option preserves_bind [OF pull_holds] preserves_case_prod preserves_ret preserves_bind preserves_if
            sameLogs_holds [OF sameLogs_bounds(3)])
    qed (simp add: preserves_ret)
    done
qed

lemma sameLogs_checkEnd [keep_rules]: "preserves (\<lambda>w. chatLogs w = L) (checkEndBlock c r v n pg)"
  unfolding checkEndBlock_def Let_def by (cases pg; simp only: prod.case; intro keep_rules logs_rules)

lemma holds_validate:
  assumes "singleReplies S"
  shows "preserves (holds K) (validateAndFillInternalGaps D S c r n t pg)" "preserves (holds K) (validateAndFillInterBlockGaps D S s c r v n t pg)"
    "preserves (holds K) (validateAndFillEndBlockContinuity D S c r v n t pg)"
  unfolding validateAndFillInternalGaps_def validateAndFillInterBlockGaps_def validateAndFillEndBlockContinuity_def Let_def
    by (intro logs_rules holds_fetch [OF assms] sameLogs_holds [OF sameLogs_checkEnd])+

lemma sameLogs_store [keep_rules]: "preserves (\<lambda>w. chatLogs w = L) (modifyM (storeEndSeq r c v s))"
  by (rule sameLogs_modify) (simp add: storeEndSeq_def)

lemma sameLogs_more: "preserves (\<lambda>w. chatLogs w = L) (shouldFetchMoreMessagesNum c v r n ms)"
  unfolding shouldFetchMoreMessagesNum_def Let_def by (intro keep_rules logs_rules)

lemma holds_gapCheck:
  "singleReplies S \<Longrightarrow> preserves (holds K) (fetchMessagesWithGapCheck fuel D S c n t s i r v cb)"
proof (induction fuel arbitrary: n t s i cb)
  case (Suc fuel)
  show ?case unfolding fetchMessagesWithGapCheck.simps
    by (intro logs_rules holds_statements holds_validate [OF Suc.prems] sameLogs_holds [OF sameLogs_more] Suc)
qed auto

lemma holds_history: "singleReplies S \<Longrightarrow> preserves (holds K) (getAdvancedHistoryMessageList fuel D S c i v n r)"
  unfolding getAdvancedHistoryMessageList_def handleEndSeq_def
  by (intro logs_rules holds_statements holds_gapCheck sameLogs_holds [OF sameLogs_store] sameLogs_holds [OF sameLogs_modify]) simp_all

text \<open>What is shown has not been deleted.\<close>

lemma shown_gapCheck:
  "yields (fetchMessagesWithGapCheck fuel D S c n t s i r v cb :: ('a sdk_conv_scheme, _) prog) (\<lambda>x. case x of None \<Rightarrow> True | Some (ms, cb) \<Rightarrow> \<forall>m \<in> set ms. clStatus m < MsgStatusHasDeleted)"
proof (induction fuel arbitrary: n t s i cb)
  case 0
  then show ?case by (simp add: yields_def)
next
  case (Suc fuel)
  have valid: "\<forall>m \<in> set (validMessagesOf ms). clStatus m < MsgStatusHasDeleted" for ms by (auto simp: validMessagesOf_def)
  have more: "yields (bindM (fetchMessagesWithGapCheck fuel D S c n t s i r v cb :: ('a sdk_conv_scheme, _) prog) (\<lambda>x. ret (map_option (\<lambda>(missing, cb). (validMessagesOf ms @ missing, cb)) x)))
      (\<lambda>x. case x of None \<Rightarrow> True | Some (ms, cb) \<Rightarrow> \<forall>m \<in> set ms. clStatus m < MsgStatusHasDeleted)" for n t s i cb ms
    by (rule yields_bind [OF Suc.IH], rule yields_ret) (use valid in \<open>auto split: option.splits\<close>)
  show ?case unfolding fetchMessagesWithGapCheck.simps case_prod_beta
    apply (rule yields_bind [OF yields_any], rule yields_bind [OF yields_any], rule yields_bind [OF yields_any],
        rule yields_bind [OF yields_any], rule yields_bind [OF yields_any])
    subgoal for ms pg pg2 pg3 missing
      using valid more [unfolded case_prod_beta] by (simp add: yields_ret)
    done
qed

lemma shown_history:
  "yields (getAdvancedHistoryMessageList fuel D S c i v n r) (\<lambda>x. case x of None \<Rightarrow> True | Some (ms, cb) \<Rightarrow> \<forall>m \<in> set ms. clStatus m < MsgStatusHasDeleted)"
  unfolding getAdvancedHistoryMessageList_def by (rule yields_bind [OF yields_any]) (simp add: shown_gapCheck split: prod.split)

text \<open>
  C4. Reading the history leaves every stored message that has its number as it is, whatever the server replies about the conversation and whatever
  fails, and what it shows has not been deleted.
\<close>

theorem history_keeps_messages:
  assumes "singleReplies S" "keysUnique w" "r \<in> set (rowsOf w c')" "clSeq r \<noteq> 0"
    "getAdvancedHistoryMessageList fuel D S c startClientMsgID viewType cnt isReverse w = (res, w')"
  shows "keysUnique w' \<and> r \<in> set (rowsOf w' c') \<and>
    (case res of Inr (Some (ms, cb)) \<Rightarrow> list_all (\<lambda>m. clStatus m < MsgStatusHasDeleted) ms | _ \<Rightarrow> True)"
proof -
  have "holds {(c', r)} w" using assms(2-4) by (simp add: holds_def)
  then have "holds {(c', r)} w'" using preservesD [OF holds_history [OF assms(1)] _ assms(5)] by blast
  moreover have "case res of Inr (Some (ms, cb)) \<Rightarrow> list_all (\<lambda>m. clStatus m < MsgStatusHasDeleted) ms | _ \<Rightarrow> True"
  proof (cases res)
    case (Inr x)
    with shown_history [unfolded yields_def, rule_format, of fuel D S c startClientMsgID viewType cnt isReverse w x w'] assms(5)
    show ?thesis by (simp add: list_all_iff split: option.splits prod.splits)
  qed simp
  ultimately show ?thesis by (simp add: holds_def)
qed

end
