(* ===== verification/Sdk_Samples.thy ===== *)
theory Sdk_Samples
  imports Sdk_Msg_Sync_Props Sdk_History_Props
begin

text \<open>
  Concrete runs of the client: the theorems on the message syncer and on the message history at inputs that meet their hypotheses.
\<close>

section \<open>The message syncer\<close>

definition sdkWorld :: msg_syncer where
  "sdkWorld = \<lparr>faults = (\<lambda>n. NoFault), opno = 0, clock = 0, rand = (\<lambda>n. 0), mcUserID = ''u'', chatLogs = Map.empty, conversations = [],
     notificationSeqs = [], sdkVersion = Some ('''', True), conversationCh = [], wire = [],
     syncedMaxSeqs = [''si_a_u'' \<mapsto> 4, ''sg_g'' \<mapsto> 8], reinstalled = False, isSyncing = False, timerPending = False\<rparr>"

definition sdkServer :: msg_server where
  "sdkServer = \<lparr>newestSeqs = (\<lambda>n u. Inr [(''si_a_u'', 3), (''sg_g'', 12)]),
     msgsByRange = (\<lambda>n u rs. if length rs = 10 then Inl ErrIO else Inr ([], [])),
     convLastMessage = (\<lambda>n u cs. Inl ErrIO), msgsBySeqs = (\<lambda>n u c ss rev. Inl ErrIO)\<rparr>"

definition sdkMsg :: "int \<Rightarrow> MsgData" where
  "sdkMsg s = zeroMsgData\<lparr>clientMsgID := itoa s, sendID := ''a'', content := ''hi'', seq := s\<rparr>"

abbreviation (input) pushed :: "MsgData list \<Rightarrow> PullMsgs" where
  "pushed ms \<equiv> \<lparr>pmMsgs = ms, pmIsEnd = False, pmEndSeq = 0\<rparr>"

lemma seq_sdkMsg [simp]: "seq (sdkMsg s) = s"
  by (simp add: sdkMsg_def)

theorem marks_never_back_witness:
  "\<exists>s'. syncedMaxSeqs (syncRun sdkServer (\<lambda>N. [0..<N]) [Some CmdConnSuccesss, None, Some (CmdPushMsg [(''si_a_u'', pushed [sdkMsg 5])] []),
      Some CmdWakeUpDataSync] sdkWorld) ''si_a_u'' = Some s' \<and> 4 \<le> s'"
  by (rule marks_never_back) (auto simp: mapReplies_def sdkServer_def sdkWorld_def mapEvent_def)

theorem push_one_conversation_witness:
  "\<exists>w'. doPushMsg sdkServer [(''si_a_u'', pushed [sdkMsg 5, sdkMsg 6])] [] sdkWorld = (Inr (), w') \<and>
    syncedMaxSeqs w' = [''si_a_u'' \<mapsto> 6, ''sg_g'' \<mapsto> 8] \<and> wire w' = [] \<and>
    conversationCh w' = [CmdNewMsgCome [(''si_a_u'', pushed [sdkMsg 5, sdkMsg 6])]]"
proof -
  have "[5..6] = [5, 6 :: int]" by (simp add: upto_rec1)
  then show ?thesis
    using push_one_conversation [of "pushed [sdkMsg 5, sdkMsg 6]" sdkWorld "''si_a_u''" 4 sdkServer]
    by (auto simp: sdkWorld_def syncedSeq_def fun_upd_twist)
qed

theorem push_skips_message_witness:
  "doPushMsg sdkServer [(''si_a_u'', pushed [sdkMsg 5]), (''sg_g'', pushed [sdkMsg 10])] [] sdkWorld =
    (Inr (), sdkWorld\<lparr>opno := 2, conversationCh := [CmdNewMsgCome [(''si_a_u'', pushed [sdkMsg 5])],
       CmdNewMsgCome [(''sg_g'', pushed [sdkMsg 5, sdkMsg 10])]], syncedMaxSeqs := [''si_a_u'' \<mapsto> 5, ''sg_g'' \<mapsto> 10]\<rparr>)"
  using push_skips_message [of "''si_a_u''" "''sg_g''" sdkWorld 4 8 "sdkMsg 5" "sdkMsg 10" sdkServer]
  by (simp add: sdkWorld_def fun_upd_twist)

definition elevenGroups :: seq_map where
  "elevenGroups = map (\<lambda>c. (''sg_'' @ [c], 0, 9)) ''abcdefghijk''"

theorem reinstall_marks_all_witness:
  "allMarked elevenGroups (syncedMaxSeqs (snd (syncAndTriggerReinstallMsgs sdkServer (\<lambda>N. [0..<N]) elevenGroups 10 sdkWorld))) \<and>
   fst (syncAndTriggerReinstallMsgs sdkServer (\<lambda>N. [0..<N]) elevenGroups 10 sdkWorld) = Inl ErrIO"
proof -
  have b: "snd (reinstallBatches 10 elevenGroups [] 0) = [(''sg_k'', 0, 9)]" by code_simp
  have "allMarked elevenGroups (syncedMaxSeqs (snd (syncAndTriggerReinstallMsgs sdkServer (\<lambda>N. [0..<N]) elevenGroups 10 sdkWorld)))"
    by (rule reinstall_marks_all) (auto simp: elevenGroups_def sdkServer_def seqRanges_def b [unfolded elevenGroups_def, simplified])
  moreover have "fst (syncAndTriggerReinstallMsgs sdkServer (\<lambda>N. [0..<N]) elevenGroups 10 sdkWorld) = Inl ErrIO" by code_simp
  ultimately show ?thesis by blast
qed

section \<open>The message history\<close>

definition sdkRow :: "int \<Rightarrow> LocalChatLog" where
  "sdkRow s = MsgDataToLocalChatLog (sdkMsg s\<lparr>sendTime := 100 + s, sessionType := SingleChatType\<rparr>)"

lemma sdkRow_fields [simp]: "clSeq (sdkRow s) = s" "clSendTime (sdkRow s) = 100 + s" "clClientMsgID (sdkRow s) = itoa s" "clStatus (sdkRow s) = 2"
  by (simp_all add: sdkRow_def MsgDataToLocalChatLog_def sdkMsg_def zeroMsgData_def)

definition sdkDeps :: sdk_deps where
  "sdkDeps = \<lparr>isConnected = (\<lambda>n. False), newMsgID = (\<lambda>n u. ''id''), randomText = (\<lambda>n. ''abcdefgh''), decodeLatest = (\<lambda>s. None),
     encodeLatest = (\<lambda>m. ''''), loginUserInfo = (\<lambda>n. Inl ErrRecordNotFound), groupMemberInfo = (\<lambda>n g us. Inl ErrRecordNotFound),
     userNameAndFace = (\<lambda>n u. ('''', ''''))\<rparr>"

definition historyWorld :: "LocalChatLog list \<Rightarrow> sdk_conv" where
  "historyWorld rows = \<lparr>faults = (\<lambda>n. NoFault), opno = 0, clock = 0, rand = (\<lambda>n. 0), mcUserID = ''u'', chatLogs = [''si_a_u'' \<mapsto> rows],
     conversations = [], notificationSeqs = [], sdkVersion = None, conversationCh = [], wire = [], maxSeqRecorder = [''si_a_u'' \<mapsto> 7],
     pullForwardEndSeq = Map.empty, pullReverseEndSeq = Map.empty, msgEvents = []\<rparr>"

theorem mergeSortedArrays_merges_witness:
  "\<exists>full. mergeSortedArrays [sdkRow 9, sdkRow 5] [sdkRow 8, sdkRow 2] 3 True = take 3 full \<and>
     mset full = mset [sdkRow 9, sdkRow 5] + mset [sdkRow 8, sdkRow 2] \<and> inOrder True full"
  using mergeSortedArrays_merges [of True "[sdkRow 9, sdkRow 5]" "[sdkRow 8, sdkRow 2]" 3] by (simp add: inOrder_def comesFirst_def)

theorem lost_numbers_witness:
  "set (getLostSeqListWithLimitLength 2 6 [6, 2, 4] True) \<subseteq> {2..6} - set (map clSeq [sdkRow 6, sdkRow 2, sdkRow 4]) \<and>
   length (getLostSeqListWithLimitLength 2 6 [6, 2, 4] True) = min 50 (card ({2..6} - set (map clSeq [sdkRow 6, sdkRow 2, sdkRow 4])))"
  using lost_numbers [of "[sdkRow 6, sdkRow 2, sdkRow 4]" 6 2 "[6, 2, 4]" True]
  by (simp add: getMaxAndMinHaveSeqList_def Let_def)

theorem offline_history_never_returns_witness:
  "fst (getAdvancedHistoryMessageList 1000 sdkDeps sdkServer ''si_a_u'' '''' 0 20 True (historyWorld [])) = Inr None"
  by (rule offline_history_never_returns)
    (simp_all add: strandedConv_def historyWorld_def reliable_def rowsOf_def recorderGet_def endSeqOf_def sdkDeps_def)

theorem history_keeps_messages_witness:
  "sdkRow 5 \<in> set (rowsOf (snd (getAdvancedHistoryMessageList 3 sdkDeps sdkServer ''si_a_u'' '''' 0 20 False (historyWorld [sdkRow 3, sdkRow 5]))) ''si_a_u'')"
proof -
  obtain res w' where r: "getAdvancedHistoryMessageList 3 sdkDeps sdkServer ''si_a_u'' '''' 0 20 False (historyWorld [sdkRow 3, sdkRow 5]) = (res, w')"
    by fastforce
  have "keysUnique (historyWorld [sdkRow 3, sdkRow 5])" by (simp add: keysUnique_def rowsOf_def historyWorld_def)
  then show ?thesis
    using history_keeps_messages [OF _ _ _ _ r, of "sdkRow 5" "''si_a_u''"] r
    by (simp add: singleReplies_def sdkServer_def rowsOf_def historyWorld_def)
qed

end
