(* ===== verification/Conv_Store.thy ===== *)
theory Conv_Store
  imports Msg_Send
begin

text \<open>
  Conversations in the stores: the collection \<^verbatim>\<open>database/mgo/conversation.go\<close> with its change log, and the cache \<^verbatim>\<open>cache/redis/conversation.go\<close>
  with \<^verbatim>\<open>cachekey/conversation.go\<close>. Every user has a document of their own for each conversation.
\<close>

section \<open>Data\<close>

text \<open>\<^verbatim>\<open>model.Conversation\<close>; a time that may be zero is an option.\<close>

record ConversationModel =
  cvOwnerUserID :: string
  cvConversationID :: string
  cvConversationType :: int
  cvUserID :: string
  cvGroupID :: string
  cvRecvMsgOpt :: int
  cvIsPinned :: bool
  cvIsPrivateChat :: bool
  cvBurnDuration :: int
  cvGroupAtType :: int
  cvAttachedInfo :: string
  cvEx :: string
  cvMaxSeq :: int
  cvMinSeq :: int
  cvCreateTime :: "int option"
  cvIsMsgDestruct :: bool
  cvMsgDestructTime :: int
  cvLatestMsgDestructTime :: "int option"

definition zeroConversation :: ConversationModel where
  "zeroConversation = \<lparr>cvOwnerUserID = '''', cvConversationID = '''', cvConversationType = 0, cvUserID = '''', cvGroupID = '''', cvRecvMsgOpt = 0,
     cvIsPinned = False, cvIsPrivateChat = False, cvBurnDuration = 0, cvGroupAtType = 0, cvAttachedInfo = '''', cvEx = '''', cvMaxSeq = 0, cvMinSeq = 0,
     cvCreateTime = None, cvIsMsgDestruct = False, cvMsgDestructTime = 0, cvLatestMsgDestructTime = None\<rparr>"

text \<open>The notifications of the service, and its calls of the message service that change something there.\<close>

datatype conv_notice =
    NoticeChange string "string list"
  | NoticePrivate string string bool string
  | NoticeUnread string string int int

datatype msg_call =
    CallMaxSeq string "string list" int
  | CallMinSeq string "string list" int

record conv_world = friend_world +
  convDocs :: "ConversationModel list"
  convNotices :: "conv_notice list"
  msgCalls :: "msg_call list"

text \<open>
  Parameters. \<open>cvTopics\<close> is the topic of the conversation cache in the configuration; \<open>cvDifference\<close> is \<^verbatim>\<open>stringutil.DifferenceString\<close>,
  \<open>cvPaginate\<close> \<^verbatim>\<open>datautil.Paginate\<close> (as the positions it keeps), \<open>cvIDsHash\<close> the hash of a list of ids (sorted, MD5) and \<open>cvIdHash\<close> \<^verbatim>\<open>hashutil.IdHash\<close>;
  \<open>cvPageIDs\<close> and \<open>cvOptOf\<close> are what the driver decodes from a projection that keeps the object id; \<open>cvSample\<close> is \<^verbatim>\<open>$sample\<close>; the last are JSON.
\<close>

record 'w conv_tools = "'w friend_tools" +
  cvTopics :: "string list"
  cvDifference :: "string list \<Rightarrow> string list \<Rightarrow> string list"
  cvPaginate :: "nat list \<Rightarrow> int \<Rightarrow> int \<Rightarrow> nat list"
  cvIDsHash :: "string list \<Rightarrow> int"
  cvIdHash :: "string list \<Rightarrow> nat"
  cvPageIDs :: "ConversationModel list \<Rightarrow> pagination \<Rightarrow> err + string list"
  cvOptOf :: "ConversationModel \<Rightarrow> err + int"
  cvSample :: "nat \<Rightarrow> ConversationModel list \<Rightarrow> ConversationModel list"
  encConv :: "ConversationModel \<Rightarrow> cached"
  decConv :: "cached \<Rightarrow> ConversationModel option"

section \<open>The collection\<close>

definition ConversationVersionName :: string where "ConversationVersionName = ''conversation_version''"

definition isConv :: "string \<Rightarrow> string \<Rightarrow> ConversationModel \<Rightarrow> bool" where
  "isConv owner c d \<longleftrightarrow> cvOwnerUserID d = owner \<and> cvConversationID d = c"

fun insertConvDocs :: "ConversationModel list \<Rightarrow> ConversationModel list \<Rightarrow> err option \<times> ConversationModel list" where
  "insertConvDocs [] ds = (None, ds)"
| "insertConvDocs (c # cs) ds =
     (if list_ex (isConv (cvOwnerUserID c) (cvConversationID c)) ds then (Some MongoDuplicateKey, ds) else insertConvDocs cs (ds @ [c]))"

definition cmgo_InsertMany :: "ConversationModel list \<Rightarrow> ('e conv_world_scheme, unit) prog" where
  "cmgo_InsertMany cs = io (\<lambda>w. case insertConvDocs cs (convDocs w) of (e, ds) \<Rightarrow>
     ((case e of Some e \<Rightarrow> Inl e | None \<Rightarrow> Inr ()), w\<lparr>convDocs := ds\<rparr>))"

text \<open>The conversations of every owner, in the order of first appearance (Go walks over the map in any order).\<close>

definition byOwner :: "ConversationModel list \<Rightarrow> (string \<times> string list) list" where
  "byOwner cs = foldl (\<lambda>m c. AList.update (cvOwnerUserID c) (mapGet [] m (cvOwnerUserID c) @ [cvConversationID c]) m) [] cs"

definition cmgo_Create :: "('e conv_world_scheme, 't) conv_tools_scheme \<Rightarrow> ConversationModel list \<Rightarrow> ('e conv_world_scheme, unit) prog" where
  "cmgo_Create T cs = fIncr T (cmgo_InsertMany cs)
     (forM (byOwner cs) (\<lambda>(userID, conversationIDs). IncrVersion ConversationVersionName userID conversationIDs VersionStateInsert))"

text \<open>An entry of an update map. A document has no field \<^verbatim>\<open>has_read_seq\<close> that is read back.\<close>

datatype conv_field =
    SetRecvMsgOpt int
  | SetConvAttachedInfo string
  | SetConvEx string
  | SetIsPinned bool
  | SetGroupAtType int
  | SetMsgDestructTime int
  | SetIsMsgDestruct bool
  | SetBurnDuration int
  | SetIsPrivateChat bool
  | SetMinSeqField int
  | SetMaxSeqField int
  | SetLatestMsgDestructTime "int option"
  | SetHasReadSeqField int

fun setConvMap :: "conv_field \<Rightarrow> ConversationModel \<Rightarrow> ConversationModel" where
  "setConvMap (SetRecvMsgOpt n) c = c\<lparr>cvRecvMsgOpt := n\<rparr>"
| "setConvMap (SetConvAttachedInfo s) c = c\<lparr>cvAttachedInfo := s\<rparr>"
| "setConvMap (SetConvEx s) c = c\<lparr>cvEx := s\<rparr>"
| "setConvMap (SetIsPinned b) c = c\<lparr>cvIsPinned := b\<rparr>"
| "setConvMap (SetGroupAtType n) c = c\<lparr>cvGroupAtType := n\<rparr>"
| "setConvMap (SetMsgDestructTime n) c = c\<lparr>cvMsgDestructTime := n\<rparr>"
| "setConvMap (SetIsMsgDestruct b) c = c\<lparr>cvIsMsgDestruct := b\<rparr>"
| "setConvMap (SetBurnDuration n) c = c\<lparr>cvBurnDuration := n\<rparr>"
| "setConvMap (SetIsPrivateChat b) c = c\<lparr>cvIsPrivateChat := b\<rparr>"
| "setConvMap (SetMinSeqField n) c = c\<lparr>cvMinSeq := n\<rparr>"
| "setConvMap (SetMaxSeqField n) c = c\<lparr>cvMaxSeq := n\<rparr>"
| "setConvMap (SetLatestMsgDestructTime t) c = c\<lparr>cvLatestMsgDestructTime := t\<rparr>"
| "setConvMap (SetHasReadSeqField n) c = c"

definition setConvFields :: "conv_field list \<Rightarrow> ConversationModel \<Rightarrow> ConversationModel" where
  "setConvFields args c = foldl (\<lambda>c a. setConvMap a c) c args"

definition cmgo_UpdateByMap ::
  "('e conv_world_scheme, 't) conv_tools_scheme \<Rightarrow> string list \<Rightarrow> string \<Rightarrow> conv_field list \<Rightarrow> ('e conv_world_scheme, unit) prog" where
  "cmgo_UpdateByMap T userIDs conversationID args =
     (if length args = 0 \<or> length userIDs = 0 then ret ()
      else fIncr T (io (modifyM (\<lambda>w. w\<lparr>convDocs := map (\<lambda>d. if cvConversationID d = conversationID \<and> cvOwnerUserID d \<in> set userIDs
             then setConvFields args d else d) (convDocs w)\<rparr>)))
        (forM userIDs (\<lambda>userID. IncrVersion ConversationVersionName userID [conversationID] VersionStateUpdate)))"

text \<open>All fields are written; an update that matches nothing is an error.\<close>

definition cmgo_Update :: "('e conv_world_scheme, 't) conv_tools_scheme \<Rightarrow> ConversationModel \<Rightarrow> ('e conv_world_scheme, unit) prog" where
  "cmgo_Update T c = fIncr T (io (\<lambda>w.
       if list_ex (isConv (cvOwnerUserID c) (cvConversationID c)) (convDocs w)
       then (Inr (), w\<lparr>convDocs := updFirst (isConv (cvOwnerUserID c) (cvConversationID c)) (\<lambda>_. c) (convDocs w)\<rparr>)
       else (Inl MongoNoDocuments, w)))
     (IncrVersion ConversationVersionName (cvOwnerUserID c) [cvConversationID c] VersionStateUpdate)"

definition cmgo_query :: "(ConversationModel list \<Rightarrow> 'a) \<Rightarrow> ('e conv_world_scheme, 'a) prog" where
  "cmgo_query f = io (gets (\<lambda>w. f (convDocs w)))"

definition cmgo_Find :: "string \<Rightarrow> string list \<Rightarrow> ('e conv_world_scheme, ConversationModel list) prog" where
  "cmgo_Find owner conversationIDs = cmgo_query (filter (\<lambda>d. cvOwnerUserID d = owner \<and> cvConversationID d \<in> set conversationIDs))"

definition cmgo_FindUserID :: "string list \<Rightarrow> string list \<Rightarrow> ('e conv_world_scheme, string list) prog" where
  "cmgo_FindUserID userIDs conversationIDs = cmgo_query (\<lambda>ds.
     map cvOwnerUserID (filter (\<lambda>d. cvOwnerUserID d \<in> set userIDs \<and> cvConversationID d \<in> set conversationIDs) ds))"

definition cmgo_FindUserIDAllConversationID :: "string \<Rightarrow> ('e conv_world_scheme, string list) prog" where
  "cmgo_FindUserIDAllConversationID userID = cmgo_query (\<lambda>ds. map cvConversationID (filter (\<lambda>d. cvOwnerUserID d = userID) ds))"

definition cmgo_FindUserIDAllNotNotifyConversationID :: "string \<Rightarrow> ('e conv_world_scheme, string list) prog" where
  "cmgo_FindUserIDAllNotNotifyConversationID userID = cmgo_query (\<lambda>ds.
     map cvConversationID (filter (\<lambda>d. cvOwnerUserID d = userID \<and> cvRecvMsgOpt d = ReceiveNotNotifyMessage) ds))"

definition cmgo_FindUserIDAllPinnedConversationID :: "string \<Rightarrow> ('e conv_world_scheme, string list) prog" where
  "cmgo_FindUserIDAllPinnedConversationID userID = cmgo_query (\<lambda>ds.
     map cvConversationID (filter (\<lambda>d. cvOwnerUserID d = userID \<and> cvIsPinned d) ds))"

definition cmgo_Take :: "string \<Rightarrow> string \<Rightarrow> ('e conv_world_scheme, ConversationModel) prog" where
  "cmgo_Take userID conversationID = io (\<lambda>w. case List.find (isConv userID conversationID) (convDocs w) of
     None \<Rightarrow> (Inl MongoNoDocuments, w) | Some c \<Rightarrow> (Inr c, w))"

definition cmgo_FindConversationID :: "string \<Rightarrow> string list \<Rightarrow> ('e conv_world_scheme, string list) prog" where
  "cmgo_FindConversationID userID conversationIDs = cmgo_query (\<lambda>ds.
     map cvConversationID (filter (\<lambda>d. cvOwnerUserID d = userID \<and> cvConversationID d \<in> set conversationIDs) ds))"

definition cmgo_FindUserIDAllConversations :: "string \<Rightarrow> ('e conv_world_scheme, ConversationModel list) prog" where
  "cmgo_FindUserIDAllConversations userID = cmgo_query (filter (\<lambda>d. cvOwnerUserID d = userID))"

definition cmgo_FindRecvMsgUserIDs :: "string \<Rightarrow> int list \<Rightarrow> ('e conv_world_scheme, string list) prog" where
  "cmgo_FindRecvMsgUserIDs conversationID recvOpts = cmgo_query (\<lambda>ds.
     map cvOwnerUserID (filter (\<lambda>d. cvConversationID d = conversationID \<and> (length recvOpts = 0 \<or> cvRecvMsgOpt d \<in> set recvOpts)) ds))"

definition cmgo_GetUserRecvMsgOpt ::
  "('w, 't) conv_tools_scheme \<Rightarrow> string \<Rightarrow> string \<Rightarrow> ('e conv_world_scheme, int) prog" where
  "cmgo_GetUserRecvMsgOpt T owner conversationID = bindM (cmgo_Take owner conversationID) (\<lambda>d. liftE (cvOptOf T d))"

definition cmgo_GetAllConversationIDs :: "('e conv_world_scheme, string list) prog" where
  "cmgo_GetAllConversationIDs = cmgo_query (\<lambda>ds. remdups (map cvConversationID ds))"

definition cmgo_GetAllConversationIDsNumber :: "('e conv_world_scheme, int) prog" where
  "cmgo_GetAllConversationIDsNumber = cmgo_query (\<lambda>ds. int (length (remdups (map cvConversationID ds))))"

text \<open>The pages are pages of documents, one for every user of a conversation.\<close>

definition cmgo_PageConversationIDs :: "('w, 't) conv_tools_scheme \<Rightarrow> pagination \<Rightarrow> ('e conv_world_scheme, string list) prog" where
  "cmgo_PageConversationIDs T p = bindM (cmgo_query (\<lambda>ds. cvPageIDs T ds p)) liftE"

definition cmgo_GetConversationsByConversationID :: "string list \<Rightarrow> ('e conv_world_scheme, ConversationModel list) prog" where
  "cmgo_GetConversationsByConversationID conversationIDs = cmgo_query (filter (\<lambda>d. cvConversationID d \<in> set conversationIDs))"

definition cmgo_GetConversationNotReceiveMessageUserIDs :: "string \<Rightarrow> ('e conv_world_scheme, string list) prog" where
  "cmgo_GetConversationNotReceiveMessageUserIDs conversationID = cmgo_query (\<lambda>ds.
     map cvOwnerUserID (filter (\<lambda>d. cvConversationID d = conversationID \<and> cvRecvMsgOpt d \<noteq> ReceiveMessage) ds))"

definition cmgo_FindConversationUserVersion :: "string \<Rightarrow> nat \<Rightarrow> int \<Rightarrow> ('e conv_world_scheme, VersionLog) prog" where
  "cmgo_FindConversationUserVersion userID version limit = FindChangeLog ConversationVersionName userID version limit"

text \<open>The destruction is due when its period, in seconds, has passed since the last one, in milliseconds.\<close>

definition cmgo_FindRandConversation ::
  "('w, 't) conv_tools_scheme \<Rightarrow> int \<Rightarrow> nat \<Rightarrow> ('e conv_world_scheme, ConversationModel list) prog" where
  "cmgo_FindRandConversation T ts limit = cmgo_query (\<lambda>ds. cvSample T limit (filter (\<lambda>d.
     cvIsMsgDestruct d \<and> cvMsgDestructTime d \<noteq> 0 \<and> unixMilli (cvLatestMsgDestructTime d) + cvMsgDestructTime d * 1000 < ts) ds))"

section \<open>The cache\<close>

definition GetConversationKey :: "string \<Rightarrow> string \<Rightarrow> string" where
  "GetConversationKey owner c = ''CONVERSATION:'' @ owner @ '':'' @ c"
definition GetConversationIDsKey :: "string \<Rightarrow> string" where "GetConversationIDsKey owner = ''CONVERSATION_IDS:'' @ owner"
definition GetNotNotifyConversationIDsKey :: "string \<Rightarrow> string" where
  "GetNotNotifyConversationIDsKey owner = ''NOT_NOTIFY_CONVERSATION_IDS:'' @ owner"
definition GetPinnedConversationIDsKey :: "string \<Rightarrow> string" where "GetPinnedConversationIDsKey owner = ''PINNED_CONVERSATION_IDS:'' @ owner"
definition GetSuperGroupRecvNotNotifyUserIDsKey :: "string \<Rightarrow> string" where
  "GetSuperGroupRecvNotNotifyUserIDsKey g = ''SUPER_GROUP_RECV_MSG_NOT_NOTIFY_USER_IDS:'' @ g"
definition GetRecvMsgOptKey :: "string \<Rightarrow> string \<Rightarrow> string" where "GetRecvMsgOptKey owner c = ''RECV_MSG_OPT:'' @ owner @ '':'' @ c"
definition GetSuperGroupRecvNotNotifyUserIDsHashKey :: "string \<Rightarrow> string" where
  "GetSuperGroupRecvNotNotifyUserIDsHashKey g = ''SUPER_GROUP_RECV_MSG_NOT_NOTIFY_USER_IDS_HASH:'' @ g"
definition GetConversationHasReadSeqKey :: "string \<Rightarrow> string \<Rightarrow> string" where
  "GetConversationHasReadSeqKey owner c = ''CONVERSATION_HAS_READ_SEQ:'' @ owner @ '':'' @ c"
definition GetConversationNotReceiveMessageUserIDsKey :: "string \<Rightarrow> string" where
  "GetConversationNotReceiveMessageUserIDsKey c = ''CONVERSATION_NOT_RECEIVE_MESSAGE_USER_IDS:'' @ c"
definition GetUserConversationIDsHashKey :: "string \<Rightarrow> string" where "GetUserConversationIDsHashKey owner = ''CONVERSATION_IDS_HASH:'' @ owner"
definition GetConversationUserMaxVersionKey :: "string \<Rightarrow> string" where "GetConversationUserMaxVersionKey u = ''CONVERSATION_USER_MAX:'' @ u"

text \<open>A chain of deletions collects keys.\<close>

definition DelConversationIDs :: "string list \<Rightarrow> string list \<Rightarrow> string list" where
  "DelConversationIDs userIDs keys = keys @ map GetConversationIDsKey userIDs"
definition DelUserConversationIDsHash :: "string list \<Rightarrow> string list \<Rightarrow> string list" where
  "DelUserConversationIDsHash owners keys = keys @ map GetUserConversationIDsHashKey owners"
definition DelConversations :: "string \<Rightarrow> string list \<Rightarrow> string list \<Rightarrow> string list" where
  "DelConversations owner conversationIDs keys = keys @ map (GetConversationKey owner) conversationIDs"
definition DelUsersConversation :: "string \<Rightarrow> string list \<Rightarrow> string list \<Rightarrow> string list" where
  "DelUsersConversation conversationID owners keys = keys @ map (\<lambda>owner. GetConversationKey owner conversationID) owners"
definition DelUserRecvMsgOpt :: "string \<Rightarrow> string \<Rightarrow> string list \<Rightarrow> string list" where
  "DelUserRecvMsgOpt owner conversationID keys = keys @ [GetRecvMsgOptKey owner conversationID]"
definition DelSuperGroupRecvMsgNotNotifyUserIDs :: "string \<Rightarrow> string list \<Rightarrow> string list" where
  "DelSuperGroupRecvMsgNotNotifyUserIDs g keys = keys @ [GetSuperGroupRecvNotNotifyUserIDsKey g]"
definition DelSuperGroupRecvMsgNotNotifyUserIDsHash :: "string \<Rightarrow> string list \<Rightarrow> string list" where
  "DelSuperGroupRecvMsgNotNotifyUserIDsHash g keys = keys @ [GetSuperGroupRecvNotNotifyUserIDsHashKey g]"
definition DelUserAllHasReadSeqs :: "string \<Rightarrow> string list \<Rightarrow> string list \<Rightarrow> string list" where
  "DelUserAllHasReadSeqs owner conversationIDs keys = keys @ map (GetConversationHasReadSeqKey owner) conversationIDs"
definition DelConversationNotReceiveMessageUserIDs :: "string list \<Rightarrow> string list \<Rightarrow> string list" where
  "DelConversationNotReceiveMessageUserIDs conversationIDs keys = keys @ map GetConversationNotReceiveMessageUserIDsKey conversationIDs"
definition DelConversationNotNotifyMessageUserIDs :: "string list \<Rightarrow> string list \<Rightarrow> string list" where
  "DelConversationNotNotifyMessageUserIDs userIDs keys = keys @ map GetNotNotifyConversationIDsKey userIDs"
definition DelConversationPinnedMessageUserIDs :: "string list \<Rightarrow> string list \<Rightarrow> string list" where
  "DelConversationPinnedMessageUserIDs userIDs keys = keys @ map GetPinnedConversationIDsKey userIDs"
definition DelConversationVersionUserIDs :: "string list \<Rightarrow> string list \<Rightarrow> string list" where
  "DelConversationVersionUserIDs userIDs keys = keys @ map GetConversationUserMaxVersionKey userIDs"

definition convChainDel :: "('w, 't) conv_tools_scheme \<Rightarrow> string list \<Rightarrow> ('e conv_world_scheme, unit) prog" where
  "convChainDel T keys = ChainExecDel (fDistinct T) (cvTopics T) keys"

definition cc_GetUserConversationIDs :: "('w, 't) conv_tools_scheme \<Rightarrow> string \<Rightarrow> ('e conv_world_scheme, string list) prog" where
  "cc_GetUserConversationIDs T owner = getCache (encIDs T) (decIDs T) (GetConversationIDsKey owner) (cmgo_FindUserIDAllConversationID owner)"

definition cc_GetUserNotNotifyConversationIDs :: "('w, 't) conv_tools_scheme \<Rightarrow> string \<Rightarrow> ('e conv_world_scheme, string list) prog" where
  "cc_GetUserNotNotifyConversationIDs T userID =
     getCache (encIDs T) (decIDs T) (GetNotNotifyConversationIDsKey userID) (cmgo_FindUserIDAllNotNotifyConversationID userID)"

definition cc_GetPinnedConversationIDs :: "('w, 't) conv_tools_scheme \<Rightarrow> string \<Rightarrow> ('e conv_world_scheme, string list) prog" where
  "cc_GetPinnedConversationIDs T userID =
     getCache (encIDs T) (decIDs T) (GetPinnedConversationIDsKey userID) (cmgo_FindUserIDAllPinnedConversationID userID)"

definition cc_GetUserConversationIDsHash :: "('w, 't) conv_tools_scheme \<Rightarrow> string \<Rightarrow> ('e conv_world_scheme, int) prog" where
  "cc_GetUserConversationIDsHash T owner = getCache encInt decInt (GetUserConversationIDsHashKey owner)
     (bindM (cc_GetUserConversationIDs T owner) (\<lambda>conversationIDs. ret (cvIDsHash T conversationIDs)))"

definition cc_GetConversation :: "('w, 't) conv_tools_scheme \<Rightarrow> string \<Rightarrow> string \<Rightarrow> ('e conv_world_scheme, ConversationModel) prog" where
  "cc_GetConversation T owner conversationID =
     getCache (encConv T) (decConv T) (GetConversationKey owner conversationID) (cmgo_Take owner conversationID)"

definition cc_GetConversations ::
  "('w, 't) conv_tools_scheme \<Rightarrow> string \<Rightarrow> string list \<Rightarrow> ('e conv_world_scheme, ConversationModel list) prog" where
  "cc_GetConversations T owner conversationIDs = batchGetCache2 (encConv T) (decConv T) (\<lambda>_ c. c) '''' conversationIDs (GetConversationKey owner)
     cvConversationID (cmgo_Find owner)"

definition cc_GetUserAllConversations :: "('w, 't) conv_tools_scheme \<Rightarrow> string \<Rightarrow> ('e conv_world_scheme, ConversationModel list) prog" where
  "cc_GetUserAllConversations T owner = bindM (cc_GetUserConversationIDs T owner) (\<lambda>conversationIDs. cc_GetConversations T owner conversationIDs)"

definition cc_GetUserRecvMsgOpt :: "('w, 't) conv_tools_scheme \<Rightarrow> string \<Rightarrow> string \<Rightarrow> ('e conv_world_scheme, int) prog" where
  "cc_GetUserRecvMsgOpt T owner conversationID =
     getCache encInt decInt (GetRecvMsgOptKey owner conversationID) (cmgo_GetUserRecvMsgOpt T owner conversationID)"

definition cc_GetConversationNotReceiveMessageUserIDs :: "('w, 't) conv_tools_scheme \<Rightarrow> string \<Rightarrow> ('e conv_world_scheme, string list) prog" where
  "cc_GetConversationNotReceiveMessageUserIDs T conversationID = getCache (encIDs T) (decIDs T)
     (GetConversationNotReceiveMessageUserIDsKey conversationID) (cmgo_GetConversationNotReceiveMessageUserIDs conversationID)"

definition cc_FindMaxConversationUserVersion :: "('w, 't) conv_tools_scheme \<Rightarrow> string \<Rightarrow> ('e conv_world_scheme, VersionLog) prog" where
  "cc_FindMaxConversationUserVersion T userID =
     getCache (encVL T) (decVL T) (GetConversationUserMaxVersionKey userID) (cmgo_FindConversationUserVersion userID 0 0)"

end
