(* ===== verification/Conv_Db.thy ===== *)
theory Conv_Db
  imports Conv_Store
begin

text \<open>
  The conversation database, \<^verbatim>\<open>storage/controller/conversation.go\<close>: writes to the collection, with the keys they take out of the cache. Only some of them run in a
  transaction.
\<close>

section \<open>Writing\<close>

text \<open>
  The keys of a chain are collected in the order of the calls. For a user who has the conversation the fields are written; the others get a document with the whole
  conversation. The last deletion of the second branch has its arguments the other way round: it names the conversation as the owner.
\<close>

definition cdb_SetUsersConversationFieldTx ::
  "('e conv_world_scheme, 't) conv_tools_scheme \<Rightarrow> string list \<Rightarrow> ConversationModel \<Rightarrow> conv_field list \<Rightarrow> ('e conv_world_scheme, unit) prog" where
  "cdb_SetUsersConversationFieldTx T userIDs conversation fieldMap = fTx T (
     let c = cvConversationID conversation;
         keys0 = (if cvGroupID conversation \<noteq> '''' then DelSuperGroupRecvMsgNotNotifyUserIDsHash (cvGroupID conversation)
            (DelSuperGroupRecvMsgNotNotifyUserIDs (cvGroupID conversation) []) else []) in
     bindM (cmgo_FindUserID userIDs [c]) (\<lambda>haveUserIDs.
     bindM (if length haveUserIDs > 0 then
         thenM (cmgo_UpdateByMap T haveUserIDs c fieldMap)
          (let keys = DelUsersConversation c haveUserIDs keys0;
               keys = (if \<exists>f\<in>set fieldMap. (case f of SetHasReadSeqField _ \<Rightarrow> True | _ \<Rightarrow> False)
                 then foldl (\<lambda>keys userID. DelUserAllHasReadSeqs userID [c] keys) keys haveUserIDs else keys);
               keys = (if \<exists>f\<in>set fieldMap. (case f of SetRecvMsgOpt _ \<Rightarrow> True | _ \<Rightarrow> False)
                 then DelConversationNotNotifyMessageUserIDs userIDs (DelConversationNotReceiveMessageUserIDs [c] keys) else keys);
               keys = (if \<exists>f\<in>set fieldMap. (case f of SetIsPinned _ \<Rightarrow> True | _ \<Rightarrow> False)
                 then DelConversationPinnedMessageUserIDs userIDs keys else keys) in
           ret (DelConversationVersionUserIDs haveUserIDs keys))
       else ret keys0) (\<lambda>keys.
     let NotUserIDs = cvDifference T haveUserIDs userIDs in
     bindM now (\<lambda>t.
     let conversations = map (\<lambda>v. conversation\<lparr>cvOwnerUserID := v, cvCreateTime := Some t\<rparr>) NotUserIDs in
     bindM (if length conversations > 0 then
         thenM (cmgo_Create T conversations)
           (ret (DelConversations c NotUserIDs (DelUserConversationIDsHash NotUserIDs (DelConversationIDs NotUserIDs keys))))
       else ret keys) (\<lambda>keys.
     convChainDel T keys)))))"

definition cdb_UpdateUsersConversationField ::
  "('e conv_world_scheme, 't) conv_tools_scheme \<Rightarrow> string list \<Rightarrow> string \<Rightarrow> conv_field list \<Rightarrow> ('e conv_world_scheme, unit) prog" where
  "cdb_UpdateUsersConversationField T userIDs conversationID args =
     thenM (cmgo_UpdateByMap T userIDs conversationID args)
     (let keys = DelConversationVersionUserIDs userIDs (DelUsersConversation conversationID userIDs []);
          keys = (if \<exists>f\<in>set args. (case f of SetRecvMsgOpt _ \<Rightarrow> True | _ \<Rightarrow> False)
            then DelConversationNotNotifyMessageUserIDs userIDs (DelConversationNotReceiveMessageUserIDs [conversationID] keys) else keys);
          keys = (if \<exists>f\<in>set args. (case f of SetIsPinned _ \<Rightarrow> True | _ \<Rightarrow> False) then DelConversationPinnedMessageUserIDs userIDs keys else keys) in
      convChainDel T keys)"

definition cdb_CreateConversation ::
  "('e conv_world_scheme, 't) conv_tools_scheme \<Rightarrow> ConversationModel list \<Rightarrow> ('e conv_world_scheme, unit) prog" where
  "cdb_CreateConversation T conversations =
     thenM (cmgo_Create T conversations)
     (let keys = foldl (\<lambda>keys c. DelConversationNotReceiveMessageUserIDs [cvConversationID c]
            (DelConversations (cvOwnerUserID c) [cvConversationID c] keys)) [] conversations;
          userIDs = map cvOwnerUserID conversations;
          notNotifyUserIDs = map cvOwnerUserID (filter (\<lambda>c. cvRecvMsgOpt c = ReceiveNotNotifyMessage) conversations);
          pinnedUserIDs = map cvOwnerUserID (filter cvIsPinned conversations) in
      convChainDel T (DelConversationPinnedMessageUserIDs pinnedUserIDs (DelConversationNotNotifyMessageUserIDs notNotifyUserIDs
        (DelConversationVersionUserIDs userIDs (DelUserConversationIDsHash userIDs (DelConversationIDs userIDs keys))))))"

text \<open>One side of a private chat; a document that is created leaves the cached absence of its key and the cached list of who receives no messages.\<close>

definition syncPrivate ::
  "('e conv_world_scheme, 't) conv_tools_scheme \<Rightarrow> ConversationModel \<Rightarrow> string \<times> string \<Rightarrow> string list \<Rightarrow> ('e conv_world_scheme, string list) prog" where
  "syncPrivate T conversation v keys = (case v of (owner, userID) \<Rightarrow>
     bindM (cmgo_FindUserID [owner] [cvConversationID conversation]) (\<lambda>haveUserIDs.
     if length haveUserIDs > 0 then
       thenM (cmgo_UpdateByMap T [owner] (cvConversationID conversation) [SetIsPrivateChat (cvIsPrivateChat conversation)])
         (ret (DelUsersConversation (cvConversationID conversation) [owner] keys))
     else thenM (cmgo_Create T [conversation\<lparr>cvOwnerUserID := owner, cvUserID := userID\<rparr>])
         (ret (DelUserConversationIDsHash [owner] (DelConversationIDs [owner] keys)))))"

definition cdb_SyncPeerUserPrivateConversationTx ::
  "('e conv_world_scheme, 't) conv_tools_scheme \<Rightarrow> ConversationModel list \<Rightarrow> ('e conv_world_scheme, unit) prog" where
  "cdb_SyncPeerUserPrivateConversationTx T conversations = fTx T (
     bindM (foldM (\<lambda>c keys.
         foldM (syncPrivate T c) [(cvOwnerUserID c, cvUserID c), (cvUserID c, cvOwnerUserID c)]
           (DelConversationVersionUserIDs [cvOwnerUserID c, cvUserID c] keys)) conversations []) (\<lambda>keys.
     convChainDel T keys))"

text \<open>When one of the conversations exists, all are updated: one that does not exist is then an error.\<close>

definition cdb_SetUserConversations ::
  "('e conv_world_scheme, 't) conv_tools_scheme \<Rightarrow> string \<Rightarrow> ConversationModel list \<Rightarrow> ('e conv_world_scheme, unit) prog" where
  "cdb_SetUserConversations T owner conversations = fTx T (
     let keys = DelConversationPinnedMessageUserIDs [owner] (DelConversationNotNotifyMessageUserIDs [owner] (DelConversationVersionUserIDs [owner] []));
         groupIDs = fDistinct T (map cvGroupID (filter (\<lambda>e. cvGroupID e \<noteq> '''') conversations));
         keys = foldl (\<lambda>keys g. DelSuperGroupRecvMsgNotNotifyUserIDsHash g (DelSuperGroupRecvMsgNotNotifyUserIDs g keys)) keys groupIDs;
         conversationIDs = map cvConversationID conversations;
         keys = foldl (\<lambda>keys c. DelConversations (cvOwnerUserID c) [cvConversationID c] keys) keys conversations in
     bindM (cmgo_Find owner conversationIDs) (\<lambda>existConversations.
     bindM (if length existConversations > 0 then
         thenM (forM conversations (cmgo_Update T)) (ret (DelConversationNotReceiveMessageUserIDs conversationIDs keys))
       else ret keys) (\<lambda>keys.
     let existConversationIDs = map cvConversationID existConversations;
         notExistConversations = filter (\<lambda>c. \<not> fContain T (cvConversationID c) existConversationIDs) conversations in
     bindM (if length notExistConversations > 0 then
         thenM (cmgo_Create T notExistConversations)
           (ret (DelConversationNotReceiveMessageUserIDs (map cvConversationID notExistConversations)
             (DelUserConversationIDsHash [owner] (DelConversationIDs [owner] keys))))
       else ret keys) (\<lambda>keys.
     convChainDel T keys))))"

text \<open>The key of the newest version is not among those that are taken out.\<close>

definition cdb_CreateGroupChatConversation ::
  "('e conv_world_scheme, 't) conv_tools_scheme \<Rightarrow> string \<Rightarrow> string list \<Rightarrow> ('e conv_world_scheme, unit) prog" where
  "cdb_CreateGroupChatConversation T g userIDs = fTx T (
     let conversationID = GetConversationIDBySessionType ReadGroupChatType [g] in
     bindM (cmgo_FindUserID userIDs [conversationID]) (\<lambda>existConversationUserIDs.
     let notExistUserIDs = cvDifference T userIDs existConversationUserIDs;
         conversations = map (\<lambda>v. zeroConversation\<lparr>cvConversationType := ReadGroupChatType, cvGroupID := g, cvOwnerUserID := v,
           cvConversationID := conversationID\<rparr>) notExistUserIDs;
         keys = foldl (\<lambda>keys v. DelConversationNotReceiveMessageUserIDs [conversationID] (DelConversations v [conversationID] keys)) [] notExistUserIDs;
         keys = DelUserConversationIDsHash notExistUserIDs (DelConversationIDs notExistUserIDs keys) in
     thenM (if length conversations > 0 then cmgo_Create T conversations else ret ())
     (thenM (cmgo_UpdateByMap T existConversationUserIDs conversationID [SetMaxSeqField 0])
     (convChainDel T (foldl (\<lambda>keys v. DelConversations v [conversationID] keys) keys existConversationUserIDs)))))"

section \<open>Reading\<close>

definition cdb_FindConversations :: "('w, 't) conv_tools_scheme \<Rightarrow> string \<Rightarrow> string list \<Rightarrow> ('e conv_world_scheme, ConversationModel list) prog" where
  "cdb_FindConversations T owner conversationIDs = cc_GetConversations T owner conversationIDs"

definition cdb_GetConversation :: "('w, 't) conv_tools_scheme \<Rightarrow> string \<Rightarrow> string \<Rightarrow> ('e conv_world_scheme, ConversationModel) prog" where
  "cdb_GetConversation T owner conversationID = cc_GetConversation T owner conversationID"

definition cdb_GetUserAllConversation :: "('w, 't) conv_tools_scheme \<Rightarrow> string \<Rightarrow> ('e conv_world_scheme, ConversationModel list) prog" where
  "cdb_GetUserAllConversation T owner = cc_GetUserAllConversations T owner"

definition cdb_GetConversationIDs :: "('w, 't) conv_tools_scheme \<Rightarrow> string \<Rightarrow> ('e conv_world_scheme, string list) prog" where
  "cdb_GetConversationIDs T userID = cc_GetUserConversationIDs T userID"

definition cdb_GetUserConversationIDsHash :: "('w, 't) conv_tools_scheme \<Rightarrow> string \<Rightarrow> ('e conv_world_scheme, int) prog" where
  "cdb_GetUserConversationIDsHash T owner = cc_GetUserConversationIDsHash T owner"

definition cdb_GetAllConversationIDs :: "('e conv_world_scheme, string list) prog" where
  "cdb_GetAllConversationIDs = cmgo_GetAllConversationIDs"

definition cdb_GetAllConversationIDsNumber :: "('e conv_world_scheme, int) prog" where
  "cdb_GetAllConversationIDsNumber = cmgo_GetAllConversationIDsNumber"

definition cdb_PageConversationIDs :: "('w, 't) conv_tools_scheme \<Rightarrow> pagination \<Rightarrow> ('e conv_world_scheme, string list) prog" where
  "cdb_PageConversationIDs T p = cmgo_PageConversationIDs T p"

definition cdb_GetConversationsByConversationID :: "string list \<Rightarrow> ('e conv_world_scheme, ConversationModel list) prog" where
  "cdb_GetConversationsByConversationID conversationIDs = cmgo_GetConversationsByConversationID conversationIDs"

definition cdb_GetConversationNotReceiveMessageUserIDs :: "('w, 't) conv_tools_scheme \<Rightarrow> string \<Rightarrow> ('e conv_world_scheme, string list) prog" where
  "cdb_GetConversationNotReceiveMessageUserIDs T conversationID = cc_GetConversationNotReceiveMessageUserIDs T conversationID"

definition cdb_FindConversationUserVersion :: "string \<Rightarrow> nat \<Rightarrow> int \<Rightarrow> ('e conv_world_scheme, VersionLog) prog" where
  "cdb_FindConversationUserVersion userID version limit = cmgo_FindConversationUserVersion userID version limit"

definition cdb_FindMaxConversationUserVersionCache :: "('w, 't) conv_tools_scheme \<Rightarrow> string \<Rightarrow> ('e conv_world_scheme, VersionLog) prog" where
  "cdb_FindMaxConversationUserVersionCache T userID = cc_FindMaxConversationUserVersion T userID"

definition convPage :: "('w, 't) conv_tools_scheme \<Rightarrow> 'd list \<Rightarrow> pagination \<Rightarrow> 'd list" where
  "convPage T ds p = map ((!) ds) (filter (\<lambda>i. i < length ds) (cvPaginate T [0..<length ds] (pageNumber p) (showNumber p)))"

definition cdb_GetOwnerConversation ::
  "('w, 't) conv_tools_scheme \<Rightarrow> string \<Rightarrow> pagination \<Rightarrow> ('e conv_world_scheme, int \<times> ConversationModel list) prog" where
  "cdb_GetOwnerConversation T owner p =
     bindM (cc_GetUserConversationIDs T owner) (\<lambda>conversationIDs.
     bindM (foldM (\<lambda>c cs. bindM (cc_GetConversation T owner c) (\<lambda>conversation. ret (cs @ [conversation]))) (convPage T conversationIDs p) [])
       (\<lambda>conversations. ret (int (length conversationIDs), conversations)))"

definition cdb_GetNotNotifyConversationIDs :: "('w, 't) conv_tools_scheme \<Rightarrow> string \<Rightarrow> ('e conv_world_scheme, string list) prog" where
  "cdb_GetNotNotifyConversationIDs T userID = cc_GetUserNotNotifyConversationIDs T userID"

definition cdb_GetPinnedConversationIDs :: "('w, 't) conv_tools_scheme \<Rightarrow> string \<Rightarrow> ('e conv_world_scheme, string list) prog" where
  "cdb_GetPinnedConversationIDs T userID = cc_GetPinnedConversationIDs T userID"

definition cdb_FindRandConversation :: "('w, 't) conv_tools_scheme \<Rightarrow> int \<Rightarrow> nat \<Rightarrow> ('e conv_world_scheme, ConversationModel list) prog" where
  "cdb_FindRandConversation T ts limit = cmgo_FindRandConversation T ts limit"

end
