(* ===== verification/Conv_Rpc.thy ===== *)
theory Conv_Rpc
  imports Conv_Db Incr_Option
begin

text \<open>
  The conversation service, \<^verbatim>\<open>server/internal/rpc/conversation\<close>: its handlers, the incremental synchronisation (\<^verbatim>\<open>sync.go\<close>), and its notifications. The services of
  users, groups and messages are parameters, answered by the number of the call; the calls that change something in the message service are recorded.
\<close>

record 'w conv_peers = "'w conv_tools" +
  cpOid :: oid_tools
  cpGroupsInfo :: "nat \<Rightarrow> string list \<Rightarrow> err + GroupInfo list"
  cpMemberIDs :: "nat \<Rightarrow> string \<Rightarrow> err + string list"
  cpUsersInfo :: "nat \<Rightarrow> string list \<Rightarrow> err + UserInfo list"
  cpMaxSeqs :: "nat \<Rightarrow> string list \<Rightarrow> err + (string \<times> int) list"
  cpMsgs :: "nat \<Rightarrow> string list \<Rightarrow> (string \<times> int) list \<Rightarrow> err + (string \<times> MsgData) list"
  cpHasReadSeqs :: "nat \<Rightarrow> string list \<Rightarrow> string \<Rightarrow> err + (string \<times> int) list"
  cpLastSeqByTime :: "nat \<Rightarrow> string \<Rightarrow> int \<Rightarrow> err + int"
  cpUserReadSeqs :: "nat \<Rightarrow> (string \<times> string list) list \<Rightarrow> err + (string \<times> (string \<times> int) list) list"
  cpMsgCall :: "nat \<Rightarrow> msg_call \<Rightarrow> err + unit"

section \<open>Clients of the other services\<close>

definition cl_GetGroupsInfo :: "('w, 't) conv_peers_scheme \<Rightarrow> string list \<Rightarrow> ('e env_scheme, GroupInfo list) prog" where
  "cl_GetGroupsInfo T groupIDs = (if length groupIDs = 0 then ret [] else peerReply (\<lambda>n. cpGroupsInfo T n groupIDs))"

definition cl_GetGroupInfo :: "('w, 't) conv_peers_scheme \<Rightarrow> string \<Rightarrow> ('e env_scheme, GroupInfo) prog" where
  "cl_GetGroupInfo T g = bindM (cl_GetGroupsInfo T [g]) (\<lambda>gs. case gs of [] \<Rightarrow> throw ErrRecordNotFound | i # _ \<Rightarrow> ret i)"

definition cl_GetUsersInfo :: "('w, 't) conv_peers_scheme \<Rightarrow> string list \<Rightarrow> ('e env_scheme, UserInfo list) prog" where
  "cl_GetUsersInfo T userIDs = (if length userIDs = 0 then ret [] else peerReply (\<lambda>n. cpUsersInfo T n userIDs))"

definition cl_GetMaxSeqs :: "('w, 't) conv_peers_scheme \<Rightarrow> string list \<Rightarrow> ('e env_scheme, (string \<times> int) list) prog" where
  "cl_GetMaxSeqs T ids = (if length ids = 0 then ret [] else peerReply (\<lambda>n. cpMaxSeqs T n ids))"

definition cl_GetMsgByConversationIDs ::
  "('w, 't) conv_peers_scheme \<Rightarrow> string list \<Rightarrow> (string \<times> int) list \<Rightarrow> ('e env_scheme, (string \<times> MsgData) list) prog" where
  "cl_GetMsgByConversationIDs T ids maxSeqs =
     (if length ids = 0 \<or> length maxSeqs = 0 then ret [] else peerReply (\<lambda>n. cpMsgs T n ids maxSeqs))"

definition cl_GetHasReadSeqs :: "('w, 't) conv_peers_scheme \<Rightarrow> string list \<Rightarrow> string \<Rightarrow> ('e env_scheme, (string \<times> int) list) prog" where
  "cl_GetHasReadSeqs T ids userID = (if length ids = 0 then ret [] else peerReply (\<lambda>n. cpHasReadSeqs T n ids userID))"

definition msgCall :: "('w, 't) conv_peers_scheme \<Rightarrow> msg_call \<Rightarrow> ('e conv_world_scheme, unit) prog" where
  "msgCall T call' = thenM (modifyM (\<lambda>w. w\<lparr>msgCalls := msgCalls w @ [call']\<rparr>)) (peerReply (\<lambda>n. cpMsgCall T n call'))"

definition cl_SetUserConversationMaxSeq :: "('w, 't) conv_peers_scheme \<Rightarrow> string \<Rightarrow> string list \<Rightarrow> int \<Rightarrow> ('e conv_world_scheme, unit) prog" where
  "cl_SetUserConversationMaxSeq T c owners maxSeq = (if length owners = 0 then ret () else msgCall T (CallMaxSeq c owners maxSeq))"

definition cl_SetUserConversationMin :: "('w, 't) conv_peers_scheme \<Rightarrow> string \<Rightarrow> string list \<Rightarrow> int \<Rightarrow> ('e conv_world_scheme, unit) prog" where
  "cl_SetUserConversationMin T c owners minSeq = (if length owners = 0 then ret () else msgCall T (CallMinSeq c owners minSeq))"

definition cl_GetConversationsUserReadSeqs ::
  "('w, 't) conv_peers_scheme \<Rightarrow> (string \<times> string list) list \<Rightarrow> ('e env_scheme, (string \<times> (string \<times> int) list) list) prog" where
  "cl_GetConversationsUserReadSeqs T m = (if length m = 0 then ret [] else peerReply (\<lambda>n. cpUserReadSeqs T n m))"

section \<open>Notifications\<close>

text \<open>A notification is handed to a queue.\<close>

definition convNotify :: "conv_notice \<Rightarrow> ('e conv_world_scheme, unit) prog" where
  "convNotify n = modifyM (\<lambda>w. w\<lparr>convNotices := convNotices w @ [n]\<rparr>)"

definition ConversationSetPrivateNotification :: "string \<Rightarrow> string \<Rightarrow> bool \<Rightarrow> string \<Rightarrow> ('e conv_world_scheme, unit) prog" where
  "ConversationSetPrivateNotification sid rid isPrivateChat conversationID = convNotify (NoticePrivate sid rid isPrivateChat conversationID)"

definition ConversationChangeNotification :: "string \<Rightarrow> string list \<Rightarrow> ('e conv_world_scheme, unit) prog" where
  "ConversationChangeNotification userID conversationIDs = convNotify (NoticeChange userID conversationIDs)"

definition ConversationUnreadChangeNotification :: "string \<Rightarrow> string \<Rightarrow> int \<Rightarrow> int \<Rightarrow> ('e conv_world_scheme, unit) prog" where
  "ConversationUnreadChangeNotification userID conversationID unreadCountTime hasReadSeq =
     convNotify (NoticeUnread userID conversationID unreadCountTime hasReadSeq)"

section \<open>Conversion\<close>

text \<open>\<^verbatim>\<open>convert.ConversationDB2Pb\<close>: the fields of the same name and type, and the time in milliseconds.\<close>

definition ConversationDB2Pb :: "ConversationModel \<Rightarrow> Conversation" where
  "ConversationDB2Pb c = \<lparr>pcOwnerUserID = cvOwnerUserID c, pcConversationID = cvConversationID c, pcRecvMsgOpt = cvRecvMsgOpt c,
     pcConversationType = cvConversationType c, pcUserID = cvUserID c, pcGroupID = cvGroupID c, pcIsPinned = cvIsPinned c,
     pcAttachedInfo = cvAttachedInfo c, pcIsPrivateChat = cvIsPrivateChat c, pcGroupAtType = cvGroupAtType c, pcEx = cvEx c,
     pcBurnDuration = cvBurnDuration c, pcMinSeq = cvMinSeq c, pcMaxSeq = cvMaxSeq c, pcMsgDestructTime = cvMsgDestructTime c,
     pcLatestMsgDestructTime = unixMilli (cvLatestMsgDestructTime c), pcIsMsgDestruct = cvIsMsgDestruct c\<rparr>"

definition ConversationsDB2Pb :: "ConversationModel list \<Rightarrow> Conversation list" where
  "ConversationsDB2Pb cs = map ConversationDB2Pb cs"

text \<open>The two times of a document have no field of their type in the message.\<close>

definition ConversationPb2DB :: "Conversation \<Rightarrow> ConversationModel" where
  "ConversationPb2DB c = \<lparr>cvOwnerUserID = pcOwnerUserID c, cvConversationID = pcConversationID c, cvConversationType = pcConversationType c,
     cvUserID = pcUserID c, cvGroupID = pcGroupID c, cvRecvMsgOpt = pcRecvMsgOpt c, cvIsPinned = pcIsPinned c, cvIsPrivateChat = pcIsPrivateChat c,
     cvBurnDuration = pcBurnDuration c, cvGroupAtType = pcGroupAtType c, cvAttachedInfo = pcAttachedInfo c, cvEx = pcEx c, cvMaxSeq = pcMaxSeq c,
     cvMinSeq = pcMinSeq c, cvCreateTime = None, cvIsMsgDestruct = pcIsMsgDestruct c, cvMsgDestructTime = pcMsgDestructTime c,
     cvLatestMsgDestructTime = None\<rparr>"

section \<open>Reading\<close>

definition crpc_GetConversation :: "('w, 't) conv_peers_scheme \<Rightarrow> string \<Rightarrow> string \<Rightarrow> ('e conv_world_scheme, Conversation) prog" where
  "crpc_GetConversation T owner conversationID =
     bindM (cdb_FindConversations T owner [conversationID]) (\<lambda>conversations. case conversations of
       [] \<Rightarrow> throw ErrRecordNotFound | c # _ \<Rightarrow> ret (ConversationDB2Pb c))"

definition crpc_GetAllConversations :: "('w, 't) conv_peers_scheme \<Rightarrow> string \<Rightarrow> ('e conv_world_scheme, Conversation list) prog" where
  "crpc_GetAllConversations T owner =
     bindM (cdb_GetUserAllConversation T owner) (\<lambda>conversations. ret (ConversationsDB2Pb conversations))"

definition getConversations :: "('w, 't) conv_peers_scheme \<Rightarrow> string \<Rightarrow> string list \<Rightarrow> ('e conv_world_scheme, Conversation list) prog" where
  "getConversations T owner conversationIDs =
     bindM (cdb_FindConversations T owner conversationIDs) (\<lambda>conversations. ret (ConversationsDB2Pb conversations))"

definition crpc_GetConversations :: "('w, 't) conv_peers_scheme \<Rightarrow> string \<Rightarrow> string list \<Rightarrow> ('e conv_world_scheme, Conversation list) prog" where
  "crpc_GetConversations T owner conversationIDs = getConversations T owner conversationIDs"

definition crpc_GetConversationIDs :: "('w, 't) conv_peers_scheme \<Rightarrow> string \<Rightarrow> ('e conv_world_scheme, string list) prog" where
  "crpc_GetConversationIDs T userID = cdb_GetConversationIDs T userID"

definition crpc_GetUserConversationIDsHash :: "('w, 't) conv_peers_scheme \<Rightarrow> string \<Rightarrow> ('e conv_world_scheme, int) prog" where
  "crpc_GetUserConversationIDsHash T owner = cdb_GetUserConversationIDsHash T owner"

definition crpc_GetConversationsByConversationID :: "string list \<Rightarrow> ('e conv_world_scheme, Conversation list) prog" where
  "crpc_GetConversationsByConversationID conversationIDs =
     bindM (cdb_GetConversationsByConversationID conversationIDs) (\<lambda>conversations. ret (ConversationsDB2Pb conversations))"

text \<open>The users of the request without those who do not receive; the keys of a map come in any order.\<close>

definition GetConversationOfflinePushUserIDs :: "('w, 't) conv_peers_scheme \<Rightarrow> string \<Rightarrow> string list \<Rightarrow> ('e conv_world_scheme, string list) prog" where
  "GetConversationOfflinePushUserIDs T conversationID reqUserIDs =
     (if conversationID = '''' then throw (ErrArgs ''conversationID is empty'')
      else if length reqUserIDs = 0 then ret []
      else bindM (cdb_GetConversationNotReceiveMessageUserIDs T conversationID) (\<lambda>userIDs.
        if length userIDs = 0 then ret reqUserIDs
        else ret (filter (\<lambda>u. u \<notin> set userIDs) (remdups reqUserIDs))))"

definition crpc_GetConversationNotReceiveMessageUserIDs :: "('w, 't) conv_peers_scheme \<Rightarrow> string \<Rightarrow> ('e conv_world_scheme, string list) prog" where
  "crpc_GetConversationNotReceiveMessageUserIDs T conversationID =
     cdb_GetConversationNotReceiveMessageUserIDs T conversationID"

definition crpc_GetOwnerConversation ::
  "('w, 't) conv_peers_scheme \<Rightarrow> string \<Rightarrow> pagination \<Rightarrow> ('e conv_world_scheme, int \<times> Conversation list) prog" where
  "crpc_GetOwnerConversation T userID p =
     bindM (cdb_GetOwnerConversation T userID p) (\<lambda>(total, conversations). ret (total, ConversationsDB2Pb conversations))"

definition crpc_GetNotNotifyConversationIDs :: "('w, 't) conv_peers_scheme \<Rightarrow> string \<Rightarrow> ('e conv_world_scheme, string list) prog" where
  "crpc_GetNotNotifyConversationIDs T userID = cdb_GetNotNotifyConversationIDs T userID"

definition crpc_GetPinnedConversationIDs :: "('w, 't) conv_peers_scheme \<Rightarrow> string \<Rightarrow> ('e conv_world_scheme, string list) prog" where
  "crpc_GetPinnedConversationIDs T userID = cdb_GetPinnedConversationIDs T userID"

definition GetRecvMsgNotNotifyUserIDs :: "('w, string list) prog" where
  "GetRecvMsgNotNotifyUserIDs = throw (ErrNew ''deprecated'')"

text \<open>Messages to destroy; an error of a page is logged, and the pages start at zero.\<close>

definition needsClear :: "int \<Rightarrow> ConversationModel \<Rightarrow> bool" where
  "needsClear t c \<longleftrightarrow> cvIsMsgDestruct c \<and> cvMsgDestructTime c \<noteq> 0 \<and>
     (t > cvMsgDestructTime c + unixMilli (cvLatestMsgDestructTime c) + 8 * 60 * 60 \<or> cvLatestMsgDestructTime c = None)"

definition GetConversationsNeedClearMsg :: "('w, 't) conv_peers_scheme \<Rightarrow> ('e conv_world_scheme, Conversation list) prog" where
  "GetConversationsNeedClearMsg T =
     bindM cdb_GetAllConversationIDsNumber (\<lambda>num.
     if num = 0 then throw (ErrNew ''Need Destruct Msg is nil'')
     else bindM (foldM (\<lambda>page temp.
         bindM (tryM (cdb_PageConversationIDs T \<lparr>pageNumber = page, showNumber = 100\<rparr>)) (\<lambda>r. case r of
           Inl e \<Rightarrow> ret temp
         | Inr conversationIDs \<Rightarrow>
             if length conversationIDs = 0 then ret temp
             else bindM (tryM (cdb_GetConversationsByConversationID conversationIDs)) (\<lambda>r. case r of
               Inl e \<Rightarrow> ret temp
             | Inr conversations \<Rightarrow> bindM now (\<lambda>t. ret (temp @ filter (needsClear t) conversations)))))
       [0..(num + 99) div 100 - 1] []) (\<lambda>temp. ret (ConversationsDB2Pb temp)))"

section \<open>Writing\<close>

definition SetConversation :: "('e conv_world_scheme, 't) conv_peers_scheme \<Rightarrow> Conversation \<Rightarrow> ('e conv_world_scheme, unit) prog" where
  "SetConversation T c =
     thenM (cdb_SetUserConversations T (pcOwnerUserID c) [ConversationPb2DB c])
       (ConversationChangeNotification (pcOwnerUserID c) [pcConversationID c])"

text \<open>A field of a request that is nil is not written.\<close>

record ConversationReq =
  rqConversationID :: string
  rqConversationType :: int
  rqUserID :: string
  rqGroupID :: string
  rqRecvMsgOpt :: "int option"
  rqIsPinned :: "bool option"
  rqAttachedInfo :: "string option"
  rqIsPrivateChat :: "bool option"
  rqEx :: "string option"
  rqBurnDuration :: "int option"
  rqMinSeq :: "int option"
  rqMaxSeq :: "int option"
  rqGroupAtType :: "int option"
  rqMsgDestructTime :: "int option"
  rqIsMsgDestruct :: "bool option"

definition setIfGiven :: "('a \<Rightarrow> conv_field) \<Rightarrow> 'a option \<Rightarrow> conv_field list" where
  "setIfGiven f v = (case v of None \<Rightarrow> [] | Some x \<Rightarrow> [f x])"

text \<open>\<^verbatim>\<open>setConversationFieldsFunc\<close>: the entries of the map; the same fields go into the new conversation.\<close>

definition setConversationFieldsFunc :: "ConversationReq \<Rightarrow> conv_field list" where
  "setConversationFieldsFunc r =
     setIfGiven SetRecvMsgOpt (rqRecvMsgOpt r) @ setIfGiven SetConvAttachedInfo (rqAttachedInfo r) @ setIfGiven SetConvEx (rqEx r) @
     setIfGiven SetIsPinned (rqIsPinned r) @ setIfGiven SetGroupAtType (rqGroupAtType r) @ setIfGiven SetMsgDestructTime (rqMsgDestructTime r) @
     setIfGiven SetIsMsgDestruct (rqIsMsgDestruct r) @ setIfGiven SetBurnDuration (rqBurnDuration r)"

fun sameField :: "ConversationModel \<Rightarrow> conv_field \<Rightarrow> bool" where
  "sameField c (SetRecvMsgOpt n) = (n = cvRecvMsgOpt c)"
| "sameField c (SetConvAttachedInfo s) = (s = cvAttachedInfo c)"
| "sameField c (SetConvEx s) = (s = cvEx c)"
| "sameField c (SetIsPinned b) = (b = cvIsPinned c)"
| "sameField c (SetGroupAtType n) = (n = cvGroupAtType c)"
| "sameField c (SetMsgDestructTime n) = (n = cvMsgDestructTime c)"
| "sameField c (SetIsMsgDestruct b) = (b = cvIsMsgDestruct c)"
| "sameField c (SetBurnDuration n) = (n = cvBurnDuration c)"
| "sameField c _ = False"

text \<open>The number of entries that differ from the conversation of a user.\<close>

definition unequal :: "conv_field list \<Rightarrow> ConversationModel \<Rightarrow> nat" where
  "unequal m c = length m - length (filter (sameField c) m)"

definition crpc_SetConversations ::
  "('e conv_world_scheme, 't) conv_peers_scheme \<Rightarrow> string list \<Rightarrow> ConversationReq option \<Rightarrow> ('e conv_world_scheme, unit) prog" where
  "crpc_SetConversations T userIDs req = (case req of None \<Rightarrow> throw (ErrArgs ''conversation must not be nil'') | Some r \<Rightarrow>
     thenM (if rqConversationType r = WriteGroupChatType then
         bindM (cl_GetGroupInfo T (rqGroupID r)) (\<lambda>groupInfo.
           if giStatus groupInfo = GroupStatusDismissed then throw ErrDismissedAlready else ret ())
       else ret ())
     (bindM (foldM (\<lambda>userID (conversationMap, need).
         bindM (cdb_FindConversations T userID [rqConversationID r]) (\<lambda>conversationList. case conversationList of
           c # _ \<Rightarrow> ret (AList.update userID c conversationMap, need)
         | [] \<Rightarrow> ret (conversationMap, need @ [userID]))) userIDs ([], [])) (\<lambda>(conversationMap, need).
      let m = setConversationFieldsFunc r;
          conversation = setConvFields m (zeroConversation\<lparr>cvConversationID := rqConversationID r, cvConversationType := rqConversationType r,
            cvUserID := rqUserID r, cvGroupID := rqGroupID r\<rparr>);
          needUpdateUsersList = need @ map fst (filter (\<lambda>(userID, c). unequal m c > 0) conversationMap) in
      thenM (if length m \<noteq> 0 \<and> length needUpdateUsersList \<noteq> 0 then
          thenM (cdb_SetUsersConversationFieldTx T needUpdateUsersList conversation m)
            (forM needUpdateUsersList (\<lambda>v. ConversationChangeNotification v [rqConversationID r]))
        else ret ())
      (case rqIsPrivateChat r of
         None \<Rightarrow> ret ()
       | Some private' \<Rightarrow>
           if rqConversationType r \<noteq> ReadGroupChatType then
             thenM (cdb_SyncPeerUserPrivateConversationTx T
                 (map (\<lambda>owner. conversation\<lparr>cvOwnerUserID := owner, cvIsPrivateChat := private'\<rparr>) userIDs))
               (forM userIDs (\<lambda>userID. ConversationSetPrivateNotification userID (rqUserID r) private' (rqConversationID r)))
           else ret ()))))"

text \<open>The errors of a creation are logged.\<close>

definition crpc_CreateSingleChatConversations ::
  "('e conv_world_scheme, 't) conv_peers_scheme \<Rightarrow> string \<Rightarrow> string \<Rightarrow> string \<Rightarrow> int \<Rightarrow> ('e conv_world_scheme, unit) prog" where
  "crpc_CreateSingleChatConversations T rid sid conversationID st =
     (let conversation = (\<lambda>owner user. zeroConversation\<lparr>cvConversationID := conversationID, cvConversationType := st, cvOwnerUserID := owner,
            cvUserID := user\<rparr>) in
      if st = SingleChatType then
        bindM (tryM (cdb_CreateConversation T [conversation sid rid])) (\<lambda>_.
        bindM (tryM (cdb_CreateConversation T [conversation rid sid])) (\<lambda>_. ret ()))
      else if st = NotificationChatType then bindM (tryM (cdb_CreateConversation T [conversation rid sid])) (\<lambda>_. ret ())
      else ret ())"

definition crpc_CreateGroupChatConversations ::
  "('e conv_world_scheme, 't) conv_peers_scheme \<Rightarrow> string \<Rightarrow> string list \<Rightarrow> ('e conv_world_scheme, unit) prog" where
  "crpc_CreateGroupChatConversations T g userIDs =
     thenM (cdb_CreateGroupChatConversation T g userIDs)
       (cl_SetUserConversationMaxSeq T (GetConversationIDBySessionType ReadGroupChatType [g]) userIDs 0)"

definition crpc_SetConversationMaxSeq ::
  "('e conv_world_scheme, 't) conv_peers_scheme \<Rightarrow> string \<Rightarrow> string list \<Rightarrow> int \<Rightarrow> ('e conv_world_scheme, unit) prog" where
  "crpc_SetConversationMaxSeq T conversationID owners maxSeq =
     thenM (cl_SetUserConversationMaxSeq T conversationID owners maxSeq)
     (thenM (cdb_UpdateUsersConversationField T owners conversationID [SetMaxSeqField maxSeq])
       (forM owners (\<lambda>userID. ConversationChangeNotification userID [conversationID])))"

definition crpc_SetConversationMinSeq ::
  "('e conv_world_scheme, 't) conv_peers_scheme \<Rightarrow> string \<Rightarrow> string list \<Rightarrow> int \<Rightarrow> ('e conv_world_scheme, unit) prog" where
  "crpc_SetConversationMinSeq T conversationID owners minSeq =
     thenM (cl_SetUserConversationMin T conversationID owners minSeq)
     (thenM (cdb_UpdateUsersConversationField T owners conversationID [SetMinSeqField minSeq])
       (forM owners (\<lambda>userID. ConversationChangeNotification userID [conversationID])))"

record UpdateConversationReq = ConversationReq +
  uqUserIDs :: "string list"
  uqLatestMsgDestructTime :: "int option"

definition updateFields :: "UpdateConversationReq \<Rightarrow> conv_field list" where
  "updateFields r =
     setIfGiven SetRecvMsgOpt (rqRecvMsgOpt r) @ setIfGiven SetConvAttachedInfo (rqAttachedInfo r) @ setIfGiven SetConvEx (rqEx r) @
     setIfGiven SetIsPinned (rqIsPinned r) @ setIfGiven SetGroupAtType (rqGroupAtType r) @ setIfGiven SetMsgDestructTime (rqMsgDestructTime r) @
     setIfGiven SetIsMsgDestruct (rqIsMsgDestruct r) @ setIfGiven SetBurnDuration (rqBurnDuration r) @ setIfGiven SetIsPrivateChat (rqIsPrivateChat r) @
     setIfGiven SetMinSeqField (rqMinSeq r) @ setIfGiven SetMaxSeqField (rqMaxSeq r) @
     setIfGiven (\<lambda>t. SetLatestMsgDestructTime (Some t)) (uqLatestMsgDestructTime r)"

definition UpdateConversation ::
  "('e conv_world_scheme, 't) conv_peers_scheme \<Rightarrow> UpdateConversationReq \<Rightarrow> ('e conv_world_scheme, unit) prog" where
  "UpdateConversation T r =
     (if length (updateFields r) > 0
      then cdb_UpdateUsersConversationField T (uqUserIDs r) (rqConversationID r) (updateFields r) else ret ())"

definition setConversationMinSeqAndLatestMsgDestructTime ::
  "('e conv_world_scheme, 't) conv_peers_scheme \<Rightarrow> string \<Rightarrow> string \<Rightarrow> int \<Rightarrow> int \<Rightarrow> ('e conv_world_scheme, unit) prog" where
  "setConversationMinSeqAndLatestMsgDestructTime T conversationID owner minSeq latest =
     thenM (if minSeq \<ge> 0 then cl_SetUserConversationMin T conversationID [owner] minSeq else ret ())
     (thenM (cdb_UpdateUsersConversationField T [owner] conversationID
         (SetLatestMsgDestructTime (Some latest) # (if minSeq \<ge> 0 then [SetMinSeqField minSeq] else [])))
       (ConversationChangeNotification owner [conversationID]))"

definition ClearUserConversationMsg ::
  "('e conv_world_scheme, 't) conv_peers_scheme \<Rightarrow> int \<Rightarrow> nat \<Rightarrow> ('e conv_world_scheme, int) prog" where
  "ClearUserConversationMsg T timestamp limit =
     bindM (cdb_FindRandConversation T timestamp limit) (\<lambda>conversations.
     thenM (forM conversations (\<lambda>c.
         if \<not> cvIsMsgDestruct c \<or> cvMsgDestructTime c = 0 then ret ()
         else bindM (peerReply (\<lambda>n. cpLastSeqByTime T n (cvConversationID c) (timestamp - cvMsgDestructTime c * 1000))) (\<lambda>s.
           setConversationMinSeqAndLatestMsgDestructTime T (cvConversationID c) (cvOwnerUserID c) (if s \<le> 0 then -1 else s + 1) timestamp)))
       (ret (int (length conversations))))"

section \<open>The list of conversations\<close>

record MsgInfo =
  miServerMsgID :: string
  miClientMsgID :: string
  miSessionType :: int
  miSendID :: string
  miRecvID :: string
  miSenderName :: string
  miFaceURL :: string
  miGroupID :: string
  miGroupName :: string
  miGroupFaceURL :: string
  miGroupType :: int
  miGroupMemberCount :: int
  miLatestMsgRecvTime :: int
  miMsgFrom :: int
  miContentType :: int
  miContent :: string
  miEx :: string

record ConversationElem =
  ceConversationID :: string
  ceRecvMsgOpt :: int
  ceUnreadCount :: int
  ceIsPinned :: bool
  ceMsgInfo :: MsgInfo

definition msgInfoOf :: "MsgData \<Rightarrow> MsgInfo" where
  "msgInfoOf m = \<lparr>miServerMsgID = serverMsgID m, miClientMsgID = clientMsgID m, miSessionType = sessionType m, miSendID = sendID m, miRecvID = recvID m,
     miSenderName = '''', miFaceURL = '''', miGroupID = groupID m, miGroupName = '''', miGroupFaceURL = '''', miGroupType = 0, miGroupMemberCount = 0,
     miLatestMsgRecvTime = 0, miMsgFrom = msgFrom m, miContentType = contentType m, miContent = content m, miEx = ex m\<rparr>"

definition isGroupType :: "int \<Rightarrow> bool" where
  "isGroupType st \<longleftrightarrow> st = WriteGroupChatType \<or> st = ReadGroupChatType"

text \<open>The element of one conversation: its last message, with the names of who is on the other side.\<close>

definition elemOf ::
  "string \<Rightarrow> (string \<rightharpoonup> UserInfo) \<Rightarrow> (string \<rightharpoonup> GroupInfo) \<Rightarrow> string \<times> MsgData \<Rightarrow> string \<times> ConversationElem" where
  "elemOf userID sendMap groupMap cm = (case cm of (conversationID, chatLog) \<Rightarrow>
     let i0 = msgInfoOf chatLog;
         i1 = (if sessionType chatLog = SingleChatType then
             (case sendMap (if sendID chatLog = userID then recvID chatLog else sendID chatLog) of
                None \<Rightarrow> i0 | Some u \<Rightarrow> i0\<lparr>miFaceURL := uiFaceURL u, miSenderName := uiNickname u\<rparr>)
           else if isGroupType (sessionType chatLog) then
             (let i = i0\<lparr>miGroupID := groupID chatLog\<rparr>;
                  i = (case groupMap (groupID chatLog) of None \<Rightarrow> i
                    | Some g \<Rightarrow> i\<lparr>miGroupName := giGroupName g, miGroupFaceURL := giFaceURL g, miGroupMemberCount := giMemberCount g,
                        miGroupType := giGroupType g\<rparr>) in
              (case sendMap (sendID chatLog) of None \<Rightarrow> i | Some u \<Rightarrow> i\<lparr>miSenderName := uiNickname u\<rparr>))
           else i0) in
     (conversationID, \<lparr>ceConversationID = conversationID, ceRecvMsgOpt = 0, ceUnreadCount = 0, ceIsPinned = False,
        ceMsgInfo = i1\<lparr>miLatestMsgRecvTime := sendTime chatLog\<rparr>\<rparr>))"

definition sendersOf :: "string \<Rightarrow> MsgData \<Rightarrow> string list" where
  "sendersOf userID m =
     (if sessionType m = SingleChatType then (if sendID m = userID then [recvID m, sendID m] else [sendID m])
      else if isGroupType (sessionType m) then [sendID m] else [])"

definition getConversationInfo ::
  "('w, 't) conv_peers_scheme \<Rightarrow> (string \<times> MsgData) list \<Rightarrow> string \<Rightarrow> ('e conv_world_scheme, (string \<times> ConversationElem) list) prog" where
  "getConversationInfo T chatLogs userID =
     (let sendIDs = concat (map (\<lambda>(_, m). sendersOf userID m) chatLogs);
          groupIDs = map (\<lambda>(_, m). groupID m) (filter (\<lambda>(_, m). isGroupType (sessionType m)) chatLogs) in
      bindM (if length sendIDs \<noteq> 0 then cl_GetUsersInfo T sendIDs else ret []) (\<lambda>sendInfos.
      bindM (if length groupIDs \<noteq> 0 then cl_GetGroupsInfo T groupIDs else ret []) (\<lambda>groupInfos.
      ret (map (elemOf userID (sliceMap uiUserID sendInfos) (sliceMap giGroupID groupInfos)) chatLogs))))"

text \<open>The newest first; \<open>conversations\<close> maps a time to one conversation.\<close>

definition conversationSort ::
  "(int \<times> string) list \<Rightarrow> (string \<times> int) list \<Rightarrow> (string \<times> ConversationElem) list \<Rightarrow> ('w, ConversationElem list) prog" where
  "conversationSort conversations unread conversationMsg =
     foldM (\<lambda>t cons. case map_of conversationMsg (mapGet '''' conversations t) of
         None \<Rightarrow> throw (Panic ''nil pointer dereference'')
       | Some e \<Rightarrow> ret (cons @ [e\<lparr>ceUnreadCount := mapGet 0 unread (mapGet '''' conversations t)\<rparr>]))
       (rev (sort (map fst conversations))) []"

definition GetSortedConversationList ::
  "('w, 't) conv_peers_scheme \<Rightarrow> string \<Rightarrow> string list \<Rightarrow> pagination \<Rightarrow>
   ('e conv_world_scheme, int \<times> int \<times> ConversationElem list) prog" where
  "GetSortedConversationList T userID reqIDs p =
     bindM (if length reqIDs = 0 then cdb_GetConversationIDs T userID else ret reqIDs) (\<lambda>conversationIDs.
     bindM (cdb_FindConversations T userID conversationIDs) (\<lambda>conversations.
     if length conversations = 0 then throw ErrRecordNotFound
     else bindM (cl_GetMaxSeqs T conversationIDs) (\<lambda>maxSeqs.
     bindM (cl_GetMsgByConversationIDs T conversationIDs maxSeqs) (\<lambda>chatLogs.
     bindM (getConversationInfo T chatLogs userID) (\<lambda>conversationMsg.
     bindM (cl_GetHasReadSeqs T conversationIDs userID) (\<lambda>hasReadSeqs.
     let unread = map (\<lambda>(c, maxSeq). (c, maxSeq - mapGet 0 hasReadSeqs c)) maxSeqs in
     bindM (foldM (\<lambda>v (msgs, pinTime, notPinTime). case map_of msgs (cvConversationID v) of
           None \<Rightarrow> throw (Panic ''nil pointer dereference'')
         | Some e \<Rightarrow>
             let t = miLatestMsgRecvTime (ceMsgInfo e); c = cvConversationID v;
                 e' = e\<lparr>ceRecvMsgOpt := cvRecvMsgOpt v\<rparr> in
             if cvIsPinned v then ret (AList.update c (e'\<lparr>ceIsPinned := True\<rparr>) msgs, AList.update t c pinTime, notPinTime)
             else ret (AList.update c e' msgs, pinTime, AList.update t c notPinTime))
         conversations (conversationMsg, [], [])) (\<lambda>(msgs, pinTime, notPinTime).
     bindM (conversationSort pinTime unread msgs) (\<lambda>pinned.
     bindM (conversationSort notPinTime unread msgs) (\<lambda>others.
     ret (int (length chatLogs), sum_list (map snd unread), convPage T (pinned @ others) p))))))))))"

section \<open>Read cursors\<close>

text \<open>Of a conversation between two, the other document's owner; of a group, the members but the one who asks.\<close>

definition cursorUsers ::
  "('w, 't) conv_peers_scheme \<Rightarrow> string \<Rightarrow> ConversationModel \<Rightarrow> ('e env_scheme, string list) prog" where
  "cursorUsers T reqUserID c =
     (if cvConversationType c = SingleChatType then ret (if cvOwnerUserID c \<noteq> reqUserID then [cvOwnerUserID c] else [])
      else if isGroupType (cvConversationType c) then
        bindM (peerReply (\<lambda>n. cpMemberIDs T n (cvGroupID c))) (\<lambda>memberUserIDs. ret (filter (\<lambda>uid. uid \<noteq> reqUserID) memberUserIDs))
      else ret [])"

definition GetConversationReadCursors ::
  "('w, 't) conv_peers_scheme \<Rightarrow> string \<Rightarrow> string list \<Rightarrow> ('e conv_world_scheme, (string \<times> (string \<times> int) list) list) prog" where
  "GetConversationReadCursors T reqUserID conversationIDs =
     (if length conversationIDs = 0 then ret []
      else bindM (cdb_GetConversationsByConversationID conversationIDs) (\<lambda>conversations.
        bindM (foldM (\<lambda>c m. bindM (cursorUsers T reqUserID c) (\<lambda>userIDs.
            ret (if length userIDs > 0 then AList.update (cvConversationID c) userIDs m else m))) conversations []) (\<lambda>conversationUserIDs.
        bindM (cl_GetConversationsUserReadSeqs T conversationUserIDs) (\<lambda>allUserReadSeqs.
        ret (map (\<lambda>c. (c, mapGet [] allUserReadSeqs c)) conversationIDs)))))"

section \<open>Synchronisation\<close>

definition GetFullOwnerConversationIDs ::
  "('w, 't) conv_peers_scheme \<Rightarrow> string \<Rightarrow> nat \<Rightarrow> ('e conv_world_scheme, nat \<times> string \<times> bool \<times> string list option) prog" where
  "GetFullOwnerConversationIDs T userID reqIdHash =
     bindM (cdb_FindMaxConversationUserVersionCache T userID) (\<lambda>vl.
     bindM (cdb_GetConversationIDs T userID) (\<lambda>conversationIDs.
     let idHash = cvIdHash T conversationIDs in
     ret (idHash, Hex (cpOid T) (vtID vl), reqIdHash = idHash, if reqIdHash = idHash then None else Some conversationIDs)))"

record IncrementalConversation =
  icVersionID :: string
  icVersion :: nat
  icFull :: bool
  icDelete :: "string list"
  icInsert :: "Conversation list"
  icUpdate :: "Conversation list"

definition conversationOption ::
  "('w, 't) conv_peers_scheme \<Rightarrow> string \<Rightarrow> nat \<Rightarrow> string \<Rightarrow> ('e conv_world_scheme, Conversation, IncrementalConversation) sync_option" where
  "conversationOption T userID version versionID = \<lparr>hasCtx = True, VersionKey = userID, VersionID = versionID, VersionNumber = version,
     CacheMaxVersion = Some (cdb_FindMaxConversationUserVersionCache T), VersionFn = Some cdb_FindConversationUserVersion,
     Find = Some (getConversations T userID),
     Resp = Some (\<lambda>v delIDs insertList updateList full. ret \<lparr>icVersionID = Hex (cpOid T) (vtID v), icVersion = vtVersion v, icFull = full,
       icDelete = delIDs, icInsert = insertList, icUpdate = updateList\<rparr>)\<rparr>"

definition GetIncrementalConversation ::
  "('w, 't) conv_peers_scheme \<Rightarrow> string \<Rightarrow> nat \<Rightarrow> string \<Rightarrow> ('e conv_world_scheme, IncrementalConversation) prog" where
  "GetIncrementalConversation T userID version versionID = Build (cpOid T) (conversationOption T userID version versionID)"

end
