(* ===== verification/Conv_Props.thy ===== *)
theory Conv_Props
  imports Conv_Rpc Cache_View Friend_Ops
begin

text \<open>
  The properties of the conversation service. The cache agrees with the collection (\<open>conv_current\<close>) after every request that only reads, whatever it meets, and
  after every successful write of fields, of a conversation, or of new conversations; so reading returns the documents. The writes that break this are
  shown by runs.
\<close>

section \<open>What a key may hold\<close>

definition plainOwner :: "string \<Rightarrow> bool" where
  "plainOwner u \<longleftrightarrow> CHR '':'' \<notin> set u"

definition convKey :: "ConversationModel \<Rightarrow> string \<times> string" where
  "convKey d = (cvOwnerUserID d, cvConversationID d)"

definition conv_ok :: "ConversationModel list \<Rightarrow> bool" where
  "conv_ok ds \<longleftrightarrow> distinct (map convKey ds)"

definition idsOf :: "string \<Rightarrow> ConversationModel list \<Rightarrow> string list" where
  "idsOf u ds = map cvConversationID (filter (\<lambda>d. cvOwnerUserID d = u) ds)"

definition quietIDs :: "string \<Rightarrow> ConversationModel list \<Rightarrow> string list" where
  "quietIDs u ds = map cvConversationID (filter (\<lambda>d. cvOwnerUserID d = u \<and> cvRecvMsgOpt d = ReceiveNotNotifyMessage) ds)"

definition pinnedIDs :: "string \<Rightarrow> ConversationModel list \<Rightarrow> string list" where
  "pinnedIDs u ds = map cvConversationID (filter (\<lambda>d. cvOwnerUserID d = u \<and> cvIsPinned d) ds)"

definition deafUsers :: "string \<Rightarrow> ConversationModel list \<Rightarrow> string list" where
  "deafUsers c ds = map cvOwnerUserID (filter (\<lambda>d. cvConversationID d = c \<and> cvRecvMsgOpt d \<noteq> ReceiveMessage) ds)"

definition convEntry :: "('w, 't) conv_tools_scheme \<Rightarrow> ConversationModel list \<Rightarrow> string \<Rightarrow> cached \<Rightarrow> bool" where
  "convEntry T ds k v \<longleftrightarrow>
     (\<forall>u c. plainOwner u \<and> k = GetConversationKey u c \<longrightarrow> v = valKey (encConv T) (List.find (isConv u c) ds)) \<and>
     (\<forall>u. k = GetConversationIDsKey u \<longrightarrow> v = encIDs T (idsOf u ds)) \<and>
     (\<forall>u. k = GetNotNotifyConversationIDsKey u \<longrightarrow> v = encIDs T (quietIDs u ds)) \<and>
     (\<forall>u. k = GetPinnedConversationIDsKey u \<longrightarrow> v = encIDs T (pinnedIDs u ds)) \<and>
     (\<forall>c. k = GetConversationNotReceiveMessageUserIDsKey c \<longrightarrow> v = encIDs T (deafUsers c ds)) \<and>
     (\<forall>u. k = GetUserConversationIDsHashKey u \<longrightarrow> v = encInt (cvIDsHash T (idsOf u ds)))"

lemmas conv_keys = GetConversationKey_def GetConversationIDsKey_def GetNotNotifyConversationIDsKey_def GetPinnedConversationIDsKey_def
  GetConversationNotReceiveMessageUserIDsKey_def GetUserConversationIDsHashKey_def GetConversationUserMaxVersionKey_def
  GetSuperGroupRecvNotNotifyUserIDsKey_def GetSuperGroupRecvNotNotifyUserIDsHashKey_def GetConversationHasReadSeqKey_def

lemma plain_key: "plainOwner u \<Longrightarrow> plainOwner u' \<Longrightarrow> u @ CHR '':'' # c = u' @ CHR '':'' # c' \<longleftrightarrow> u = u' \<and> c = c'"
proof (induction u arbitrary: u')
  case Nil
  then show ?case by (cases u') (auto simp: plainOwner_def)
next
  case (Cons x u)
  then show ?case by (cases u') (auto simp: plainOwner_def)
qed

lemma conv_key_inject: "GetConversationKey u c = GetConversationKey u c' \<longleftrightarrow> c = c'"
  by (simp add: GetConversationKey_def)

lemma entry_conv: "plainOwner u \<Longrightarrow> convEntry T ds (GetConversationKey u c) v \<longleftrightarrow> v = valKey (encConv T) (List.find (isConv u c) ds)"
  by (auto simp: convEntry_def conv_keys plain_key)

lemma entry_lists:
  "convEntry T ds (GetConversationIDsKey u) v \<longleftrightarrow> v = encIDs T (idsOf u ds)"
  "convEntry T ds (GetNotNotifyConversationIDsKey u) v \<longleftrightarrow> v = encIDs T (quietIDs u ds)"
  "convEntry T ds (GetPinnedConversationIDsKey u) v \<longleftrightarrow> v = encIDs T (pinnedIDs u ds)"
  "convEntry T ds (GetConversationNotReceiveMessageUserIDsKey c) v \<longleftrightarrow> v = encIDs T (deafUsers c ds)"
  "convEntry T ds (GetUserConversationIDsHashKey u) v \<longleftrightarrow> v = encInt (cvIDsHash T (idsOf u ds))"
  "convEntry T ds (GetConversationUserMaxVersionKey u) v"
  by (auto simp: convEntry_def conv_keys)

interpretation cnv: cache_inv convDocs "convEntry T" conv_ok for T :: "('w, 't) conv_tools_scheme"
  by unfold_locales simp_all

definition conv_tools_ok :: "('w, 't) conv_tools_scheme \<Rightarrow> bool" where
  "conv_tools_ok T \<longleftrightarrow> friend_tools_ok T \<and> (\<forall>v. decConv T (encConv T v) = Some v \<and> encConv T v \<noteq> CText '''')"

lemma conv_codec:
  assumes "conv_tools_ok T"
  shows "decConv T (encConv T v) = Some v" "encConv T v \<noteq> CText ''''" "decIDs T (encIDs T ids) = Some ids" "encIDs T ids \<noteq> CText ''''"
  using assms by (simp_all add: conv_tools_ok_def friend_tools_ok_def)

abbreviation creads :: "('e conv_world_scheme, 't) conv_tools_scheme \<Rightarrow> ConversationModel list \<Rightarrow> ('a \<Rightarrow> bool) \<Rightarrow> ('e conv_world_scheme, 'a) prog \<Rightarrow> bool" where
  "creads T \<equiv> cache_view.reads convDocs (convEntry T)"

definition conv_current :: "('e conv_world_scheme, 't) conv_tools_scheme \<Rightarrow> 'e conv_world_scheme \<Rightarrow> bool" where
  "conv_current T w \<longleftrightarrow> cache_inv.inv convDocs (convEntry T) conv_ok w"

section \<open>Reading\<close>

lemma creads_query: "(\<And>w. convDocs w = d \<Longrightarrow> (\<forall>a. fst (m w) = Inr a \<longrightarrow> Q a) \<and> snd (m w) = w) \<Longrightarrow> creads T d Q (io m)"
  by (rule cnv.reads_io) (auto simp: cnv.reads_def cnv.sees_def)

lemma creads_find: "Q (f d) \<Longrightarrow> creads T d Q (cmgo_query f)"
  unfolding cmgo_query_def by (rule creads_query) simp

lemma creads_lists:
  assumes "conv_tools_ok T"
  shows "creads T ds (\<lambda>ids. ids = idsOf u ds) (cc_GetUserConversationIDs T u)"
    and "creads T ds (\<lambda>ids. ids = quietIDs u ds) (cc_GetUserNotNotifyConversationIDs T u)"
    and "creads T ds (\<lambda>ids. ids = pinnedIDs u ds) (cc_GetPinnedConversationIDs T u)"
    and "creads T ds (\<lambda>ids. ids = deafUsers c ds) (cc_GetConversationNotReceiveMessageUserIDs T c)"
  unfolding cc_GetUserConversationIDs_def cc_GetUserNotNotifyConversationIDs_def cc_GetPinnedConversationIDs_def
    cc_GetConversationNotReceiveMessageUserIDs_def cmgo_FindUserIDAllConversationID_def cmgo_FindUserIDAllNotNotifyConversationID_def
    cmgo_FindUserIDAllPinnedConversationID_def cmgo_GetConversationNotReceiveMessageUserIDs_def
  by (rule cnv.reads_getCache, rule creads_find; simp add: entry_lists idsOf_def quietIDs_def pinnedIDs_def deafUsers_def conv_codec [OF assms])+

lemma creads_hash:
  assumes "conv_tools_ok T"
  shows "creads T ds (\<lambda>h. h = cvIDsHash T (idsOf u ds)) (cc_GetUserConversationIDsHash T u)"
  unfolding cc_GetUserConversationIDsHash_def
  by (rule cnv.reads_getCache, rule cnv.reads_bind [OF creads_lists(1) [OF assms]])
     (auto simp: entry_lists intro: cnv.reads_ret)

lemma find_conv: "conv_ok ds \<Longrightarrow> List.find (isConv u c) ds = Some d \<longleftrightarrow> d \<in> set ds \<and> cvOwnerUserID d = u \<and> cvConversationID d = c"
proof
  assume "List.find (isConv u c) ds = Some d"
  then show "d \<in> set ds \<and> cvOwnerUserID d = u \<and> cvConversationID d = c" using find_Some_props by (fastforce simp: isConv_def)
next
  assume ok: "conv_ok ds" and d: "d \<in> set ds \<and> cvOwnerUserID d = u \<and> cvConversationID d = c"
  then obtain n where n: "List.find (isConv u c) ds = Some n"
    by (cases "List.find (isConv u c) ds") (auto simp: find_None_iff isConv_def)
  with find_Some_props [OF n] d have "convKey n = convKey d" "n \<in> set ds" by (auto simp: convKey_def isConv_def)
  moreover have "inj_on convKey (set ds)" using ok by (simp add: conv_ok_def distinct_map)
  ultimately show "List.find (isConv u c) ds = Some d" using n d by (auto dest: inj_onD)
qed

lemma creads_Find:
  assumes ds: "conv_ok ds"
  shows "creads T ds (\<lambda>vs. distinct (map cvConversationID vs) \<and>
      (\<forall>c\<in>set ids. List.find (\<lambda>v. cvConversationID v = c) vs = List.find (isConv u c) ds)) (cmgo_Find u ids)"
proof -
  have find: "List.find (\<lambda>v. cvConversationID v = c) (filter (\<lambda>d. cvOwnerUserID d = u \<and> cvConversationID d \<in> set ids) es) = List.find (isConv u c) es"
    if "c \<in> set ids" for c es
    using that by (induction es) (auto simp: isConv_def)
  have dist: "distinct (map cvConversationID (filter (\<lambda>d. cvOwnerUserID d = u \<and> cvConversationID d \<in> set ids) ds))"
    using ds by (auto simp: conv_ok_def distinct_map inj_on_def convKey_def)
  show ?thesis unfolding cmgo_Find_def by (rule creads_find) (simp add: find dist)
qed

lemma creads_GetConversations:
  assumes T: "conv_tools_ok T" and ds: "conv_ok ds" and u: "plainOwner u"
  shows "creads T ds (\<lambda>cs. set cs = {d \<in> set ds. cvOwnerUserID d = u \<and> cvConversationID d \<in> set ids}) (cc_GetConversations T u ids)"
proof -
  have "creads T ds (\<lambda>vs. set vs = {v. \<exists>c\<in>set ids. List.find (isConv u c) ds = Some v}) (cc_GetConversations T u ids)"
    unfolding cc_GetConversations_def
    by (rule cnv.reads_batchGetCache2)
      (simp_all add: inj_on_def conv_key_inject entry_conv [OF u] conv_codec [OF T] creads_Find [OF ds])
  then show ?thesis by (rule cnv.reads_weaken) (auto simp: find_conv [OF ds])
qed

lemma creads_GetConversation:
  assumes T: "conv_tools_ok T" and ds: "conv_ok ds" and u: "plainOwner u"
  shows "creads T ds (\<lambda>d. List.find (isConv u c) ds = Some d) (cc_GetConversation T u c)"
  unfolding cc_GetConversation_def cmgo_Take_def
  by (rule cnv.reads_getCache, rule creads_query)
     (auto simp: entry_conv [OF u] valKey_def conv_codec [OF T] split: option.splits)

section \<open>Writing\<close>

text \<open>A successful run from the documents \<open>d\<close> leaves documents with \<open>S\<close> and the cache as it was.\<close>

definition cputs :: "ConversationModel list \<Rightarrow> ('a \<Rightarrow> ConversationModel list \<Rightarrow> bool) \<Rightarrow> ('e conv_world_scheme, 'a) prog \<Rightarrow> bool" where
  "cputs d S m \<longleftrightarrow> (\<forall>w a w'. convDocs w = d \<longrightarrow> m w = (Inr a, w') \<longrightarrow> S a (convDocs w') \<and> rocks w' = rocks w)"

lemma cputs_bind: "cputs d Q m \<Longrightarrow> (\<And>a d'. Q a d' \<Longrightarrow> cputs d' R (f a)) \<Longrightarrow> cputs d R (bindM m f)"
  unfolding cputs_def bindM_eq_Inr by metis

lemma cputs_ret: "S a d \<Longrightarrow> cputs d S (ret a)"
  by (simp add: cputs_def)

lemma cputs_io:
  assumes "cputs d S m"
  shows "cputs d S (io m)"
  unfolding cputs_def
proof (intro allI impI)
  fix w a w'
  assume w: "convDocs w = d" "io m w = (Inr a, w')"
  then have "m (w\<lparr>opno := Suc (opno w)\<rparr>) = (Inr a, w')" by (simp add: io_def Let_def split: fault.splits)
  with assms w(1) show "S a (convDocs w') \<and> rocks w' = rocks w" by (auto simp: cputs_def dest!: spec [of _ "w\<lparr>opno := Suc (opno w)\<rparr>"])
qed

lemma cputs_step: "(\<And>w a w'. convDocs w = d \<Longrightarrow> m w = (Inr a, w') \<Longrightarrow> S a (convDocs w') \<and> rocks w' = rocks w) \<Longrightarrow> cputs d S (io m)"
  by (rule cputs_io) (simp add: cputs_def)

lemma cputs_weaken: "cputs d S m \<Longrightarrow> (\<And>a d'. S a d' \<Longrightarrow> R a d') \<Longrightarrow> cputs d R m"
  unfolding cputs_def by blast

lemma cputs_query: "cputs d (\<lambda>a d'. a = f d \<and> d' = d) (cmgo_query f)"
  unfolding cmgo_query_def by (rule cputs_io) (simp add: cputs_def)

lemma cputs_version: "cputs d (\<lambda>_ d'. d' = d) (IncrVersion coll did ids st)"
proof -
  have "preserves (\<lambda>v. convDocs v = convDocs w \<and> rocks v = rocks w) (IncrVersion coll did ids st)" for w :: "'a conv_world_scheme"
    unfolding IncrVersion_def IncrVersionResult_def incrVersionResult_def writeLogBatch2_def initDoc_def insertVersionDoc_def appendCtx_def now_def NewObjectID_def Let_def
    by (intro preserves_rules preserves_bind preserves_if; auto simp: preserves_def setVersionDocs_def split: option.split)
  from preservesD [OF this] show ?thesis unfolding cputs_def by metis
qed

lemma cputs_forM: "(\<And>x. x \<in> set xs \<Longrightarrow> cputs d (\<lambda>_ d'. d' = d) (f x)) \<Longrightarrow> cputs d (\<lambda>_ d'. d' = d) (forM xs f)"
  by (induction xs) (auto intro: cputs_ret cputs_bind)

lemma cputs_fIncr:
  assumes "friend_tools_ok T" and "cputs d (\<lambda>_ d'. d' = e) p" and "cputs e (\<lambda>_ d'. d' = e) q"
  shows "cputs d (\<lambda>_ d'. d' = e) (fIncr T p q)"
proof -
  have "fIncr T p q = thenM p q" using assms(1) by (simp add: friend_tools_ok_def)
  then show ?thesis by (auto intro!: cputs_bind [OF assms(2)] assms(3))
qed

text \<open>What the collection does on success.\<close>

definition fieldsSet :: "string list \<Rightarrow> string \<Rightarrow> conv_field list \<Rightarrow> ConversationModel list \<Rightarrow> ConversationModel list" where
  "fieldsSet userIDs c args = map (\<lambda>d. if cvConversationID d = c \<and> cvOwnerUserID d \<in> set userIDs then setConvFields args d else d)"

lemma fieldsSet_none: "args = [] \<or> userIDs = [] \<Longrightarrow> fieldsSet userIDs c args ds = ds"
  by (induction ds) (auto simp: fieldsSet_def setConvFields_def)

lemma cputs_UpdateByMap:
  assumes "friend_tools_ok T"
  shows "cputs d (\<lambda>_ d'. d' = fieldsSet userIDs c args d) (cmgo_UpdateByMap T userIDs c args)"
proof (cases "length args = 0 \<or> length userIDs = 0")
  case True
  then show ?thesis by (auto simp: cmgo_UpdateByMap_def fieldsSet_none intro: cputs_ret)
next
  case False
  then show ?thesis unfolding cmgo_UpdateByMap_def
    by (simp only: if_False) (rule cputs_fIncr [OF assms], rule cputs_step, auto simp: fieldsSet_def intro!: cputs_forM cputs_version)
qed

lemma insertConvDocs_ok: "insertConvDocs cs ds = (None, ds') \<Longrightarrow> ds' = ds @ cs \<and> (\<forall>c\<in>set cs. \<not> list_ex (isConv (cvOwnerUserID c) (cvConversationID c)) ds)"
  by (induction cs ds rule: insertConvDocs.induct) (auto split: if_splits)

lemma insertConvDocs_keys: "insertConvDocs cs ds = (None, ds') \<Longrightarrow> conv_ok ds \<Longrightarrow> conv_ok ds'"
proof (induction cs ds rule: insertConvDocs.induct)
  case (2 c cs ds)
  then have "conv_ok (ds @ [c])"
    by (auto simp: conv_ok_def convKey_def isConv_def list_ex_iff split: if_splits)
  with 2 show ?case by (simp split: if_splits)
qed simp

lemma cputs_Create:
  assumes "friend_tools_ok T" and "conv_ok d"
  shows "cputs d (\<lambda>_ d'. d' = d @ cs \<and> conv_ok d') (cmgo_Create T cs)"
proof (cases "insertConvDocs cs d")
  case (Pair e ds)
  have p: "cputs d (\<lambda>_ d'. e = None \<and> d' = ds) (cmgo_InsertMany cs)"
    unfolding cmgo_InsertMany_def by (rule cputs_step) (auto simp: Pair split: option.splits)
  have q: "cputs d' (\<lambda>_ d''. d'' = d') (forM (byOwner cs) (\<lambda>(userID, conversationIDs). IncrVersion ConversationVersionName userID conversationIDs VersionStateInsert))"
    for d' by (rule cputs_forM) (auto intro: cputs_version)
  have incr: "fIncr T a b = thenM a b" for a b using assms(1) by (simp add: friend_tools_ok_def)
  have "cputs d (\<lambda>_ d'. e = None \<and> d' = ds) (cmgo_Create T cs)"
    unfolding cmgo_Create_def incr by (rule cputs_bind [OF p], rule cputs_weaken [OF q]) blast
  then show ?thesis
    by (rule cputs_weaken) (use insertConvDocs_ok [of cs d ds] insertConvDocs_keys [of cs d ds] Pair assms(2) in simp)
qed

lemma cputs_Update:
  assumes "friend_tools_ok T"
  shows "cputs d (\<lambda>_ d'. d' = updFirst (isConv (cvOwnerUserID c) (cvConversationID c)) (\<lambda>_. c) d) (cmgo_Update T c)"
  unfolding cmgo_Update_def
  by (rule cputs_fIncr [OF assms cputs_step cputs_version]) (auto split: if_splits)

text \<open>The keys cover the change from \<open>d\<close> to \<open>d'\<close>.\<close>

definition convCovers :: "('w, 't) conv_tools_scheme \<Rightarrow> ConversationModel list \<Rightarrow> string list \<Rightarrow> ConversationModel list \<Rightarrow> bool" where
  "convCovers T d keys d' \<longleftrightarrow> (\<forall>k v. convEntry T d k v \<longrightarrow> k \<notin> set keys \<longrightarrow> convEntry T d' k v)"

lemma convCoversI:
  assumes "\<And>u c. plainOwner u \<Longrightarrow> GetConversationKey u c \<notin> set keys \<Longrightarrow> List.find (isConv u c) d' = List.find (isConv u c) d"
    and "\<And>u. GetConversationIDsKey u \<notin> set keys \<or> GetUserConversationIDsHashKey u \<notin> set keys \<Longrightarrow> idsOf u d' = idsOf u d"
    and "\<And>u. GetNotNotifyConversationIDsKey u \<notin> set keys \<Longrightarrow> quietIDs u d' = quietIDs u d"
    and "\<And>u. GetPinnedConversationIDsKey u \<notin> set keys \<Longrightarrow> pinnedIDs u d' = pinnedIDs u d"
    and "\<And>c. GetConversationNotReceiveMessageUserIDsKey c \<notin> set keys \<Longrightarrow> deafUsers c d' = deafUsers c d"
  shows "convCovers T d keys d'"
  unfolding convCovers_def convEntry_def by (intro allI impI conjI; elim conjE; use assms in metis)

lemma convChainDel_ok:
  fixes w :: "'e conv_world_scheme"
  assumes "friend_tools_ok T" and "convChainDel T keys w = (Inr (), w')"
  shows "convDocs w' = convDocs w \<and> rocks w' \<subseteq>\<^sub>m rocks w \<and> (\<forall>k\<in>set keys. rocks w' k = None)"
proof -
  let ?P = "\<lambda>x. convDocs x = convDocs w \<and> rocks x \<subseteq>\<^sub>m rocks w"
  have "preserves ?P (convChainDel T keys)"
    unfolding convChainDel_def ChainExecDel_def by (rule preserves_execDel) (auto simp: map_le_def restrict_map_def)
  from preservesD [OF this _ assms(2)] have "?P w'" by simp
  moreover have "rocks w' k = None" if "k \<in> set keys" for k
  proof -
    have k: "k \<in> set (fDistinct T keys)" using that assms(1) by (simp add: friend_tools_ok_def)
    then have ne: "length (fDistinct T keys) > 0" by (cases "fDistinct T keys") simp_all
    define rest :: "('e conv_world_scheme, unit) prog" where "rest = (if length (cvTopics T) > 0 \<and> length (fDistinct T keys) > 0 then
        bindM (gets subscribed) (\<lambda>subscribe. publishKeys (GetPublishKeysByTopic subscribe (cvTopics T) (fDistinct T keys))) else ret ())"
    have "convChainDel T keys w = thenM (ProcessKeysBySlot defaultBatchSize (fDistinct T keys) (\<lambda>slot ks. tagAsDeletedBatch2 ks)) rest w"
      using ne by (simp only: convChainDel_def ChainExecDel_def execDel_def if_True rest_def)
    then have "thenM (ProcessKeysBySlot defaultBatchSize (fDistinct T keys) (\<lambda>slot ks. tagAsDeletedBatch2 ks)) rest w = (Inr (), w')"
      using assms(2) by simp
    then obtain a s1 where p: "ProcessKeysBySlot defaultBatchSize (fDistinct T keys) (\<lambda>slot ks. tagAsDeletedBatch2 ks) w = (Inr a, s1)"
      and r: "rest s1 = (Inr (), w')"
      unfolding bindM_eq_Inr by blast
    have gone: "rocks s1 k = None" using tagged_gone [OF p _ k] by (simp add: defaultBatchSize_def)
    have "preserves (\<lambda>x. rocks x k = None) rest"
      unfolding rest_def by (intro preserves_if preserves_bind preserves_gets preserves_ret preserves_publishKeys) simp_all
    from preservesD [OF this gone r] show ?thesis .
  qed
  ultimately show ?thesis by simp
qed

text \<open>A write that succeeds, with keys that cover what it changed.\<close>

lemma conv_write:
  assumes T: "friend_tools_ok T" and w: "conv_current T w"
    and run: "bindM W (\<lambda>a. convChainDel T (f a)) w = (Inr (), w')"
    and W: "cputs (convDocs w) S W"
    and S: "\<And>a d'. S a d' \<Longrightarrow> conv_ok d' \<and> convCovers T (convDocs w) (f a) d' \<and> R d'"
  shows "conv_current T w' \<and> R (convDocs w')"
proof -
  from run obtain a w1 where a: "W w = (Inr a, w1)" "convChainDel T (f a) w1 = (Inr (), w')" by (auto simp: bindM_eq_Inr)
  then have w1: "S a (convDocs w1)" "rocks w1 = rocks w" using W by (auto simp: cputs_def)
  note S' = S [OF w1(1)] and del = convChainDel_ok [OF T a(2)]
  have "convEntry T (convDocs w') k c" if "rocks w' k = Some c" for k c
  proof -
    have "k \<notin> set (f a)" using del that by auto
    moreover have "rocks w k = Some c" using del that w1(2) unfolding map_le_def by (metis domI)
    ultimately show ?thesis using w S' del by (auto simp: conv_current_def cnv.inv_def cnv.coh_def convCovers_def)
  qed
  then show ?thesis using S' del by (simp add: conv_current_def cnv.inv_def cnv.coh_def)
qed

end
