(* ===== verification/Conv_Runs.thy ===== *)
theory Conv_Runs
  imports Conv_Props
begin

text \<open>
  Runs of the conversation service. Requests that read may meet anything; the requests that write succeed. Then the collection is that of a plain table, and what the
  service answers is read off that table.
\<close>

section \<open>Changes of the collection\<close>

lemma find_map_conv:
  assumes "\<And>d. d \<in> set ds \<Longrightarrow> convKey (h d) = convKey d" and "\<And>d. d \<in> set ds \<Longrightarrow> isConv u c d \<Longrightarrow> h d = d"
  shows "List.find (isConv u c) (map h ds) = List.find (isConv u c) ds"
  using assms by (induction ds) (auto simp: isConv_def convKey_def)

lemma map_filter_map:
  "(\<And>d. d \<in> set ds \<Longrightarrow> P (h d) = P d \<and> g (h d) = g d) \<Longrightarrow> map g (filter P (map h ds)) = map g (filter P ds)"
  by (induction ds) auto

lemma conv_ok_map: "(\<And>d. d \<in> set ds \<Longrightarrow> convKey (h d) = convKey d) \<Longrightarrow> conv_ok (map h ds) = conv_ok ds"
  by (simp add: conv_ok_def comp_def cong: map_cong)

lemma convCovers_map:
  assumes key: "\<And>d. d \<in> set ds \<Longrightarrow> convKey (h d) = convKey d"
    and doc: "\<And>d. d \<in> set ds \<Longrightarrow> h d \<noteq> d \<Longrightarrow> GetConversationKey (cvOwnerUserID d) (cvConversationID d) \<in> set K"
    and opt: "\<And>d. d \<in> set ds \<Longrightarrow> cvRecvMsgOpt (h d) \<noteq> cvRecvMsgOpt d \<Longrightarrow>
      GetNotNotifyConversationIDsKey (cvOwnerUserID d) \<in> set K \<and> GetConversationNotReceiveMessageUserIDsKey (cvConversationID d) \<in> set K"
    and pin: "\<And>d. d \<in> set ds \<Longrightarrow> cvIsPinned (h d) \<noteq> cvIsPinned d \<Longrightarrow> GetPinnedConversationIDsKey (cvOwnerUserID d) \<in> set K"
  shows "convCovers T ds K (map h ds)"
proof (rule convCoversI)
  have k: "cvOwnerUserID (h d) = cvOwnerUserID d" "cvConversationID (h d) = cvConversationID d" if "d \<in> set ds" for d
    using key [OF that] by (simp_all add: convKey_def)
  show "List.find (isConv u c) (map h ds) = List.find (isConv u c) ds" if "GetConversationKey u c \<notin> set K" for u c
    using doc that by (intro find_map_conv key) (auto simp: isConv_def)
  show "idsOf u (map h ds) = idsOf u ds" for u
    unfolding idsOf_def by (rule map_filter_map) (simp add: k)
  show "quietIDs u (map h ds) = quietIDs u ds" if "GetNotNotifyConversationIDsKey u \<notin> set K" for u
    unfolding quietIDs_def by (rule map_filter_map) (use opt that k in metis)
  show "pinnedIDs u (map h ds) = pinnedIDs u ds" if "GetPinnedConversationIDsKey u \<notin> set K" for u
    unfolding pinnedIDs_def by (rule map_filter_map) (use pin that k in metis)
  show "deafUsers c (map h ds) = deafUsers c ds" if "GetConversationNotReceiveMessageUserIDsKey c \<notin> set K" for c
    unfolding deafUsers_def by (rule map_filter_map) (use opt that k in metis)
qed

lemma filter_none: "(\<And>d. d \<in> set cs \<Longrightarrow> \<not> P d) \<Longrightarrow> filter P (ds @ cs) = filter P ds"
  by (simp add: filter_empty_conv)

lemma convCovers_append:
  assumes doc: "\<And>d. d \<in> set cs \<Longrightarrow> GetConversationKey (cvOwnerUserID d) (cvConversationID d) \<in> set K \<and>
      GetConversationIDsKey (cvOwnerUserID d) \<in> set K \<and> GetUserConversationIDsHashKey (cvOwnerUserID d) \<in> set K"
    and quiet: "\<And>d. d \<in> set cs \<Longrightarrow> cvRecvMsgOpt d = ReceiveNotNotifyMessage \<Longrightarrow> GetNotNotifyConversationIDsKey (cvOwnerUserID d) \<in> set K"
    and pin: "\<And>d. d \<in> set cs \<Longrightarrow> cvIsPinned d \<Longrightarrow> GetPinnedConversationIDsKey (cvOwnerUserID d) \<in> set K"
    and deaf: "\<And>d. d \<in> set cs \<Longrightarrow> cvRecvMsgOpt d \<noteq> ReceiveMessage \<Longrightarrow> GetConversationNotReceiveMessageUserIDsKey (cvConversationID d) \<in> set K"
  shows "convCovers T ds K (ds @ cs)"
proof (rule convCoversI)
  show "List.find (isConv u c) (ds @ cs) = List.find (isConv u c) ds" if "GetConversationKey u c \<notin> set K" for u c
  proof -
    have "List.find (isConv u c) cs = None" using doc that by (auto simp: find_None_iff isConv_def)
    then show ?thesis by (induction ds) auto
  qed
  show "idsOf u (ds @ cs) = idsOf u ds" if "GetConversationIDsKey u \<notin> set K \<or> GetUserConversationIDsHashKey u \<notin> set K" for u
    unfolding idsOf_def by (subst filter_none) (use doc that in auto)
  show "quietIDs u (ds @ cs) = quietIDs u ds" if "GetNotNotifyConversationIDsKey u \<notin> set K" for u
    unfolding quietIDs_def by (subst filter_none) (use quiet that in auto)
  show "pinnedIDs u (ds @ cs) = pinnedIDs u ds" if "GetPinnedConversationIDsKey u \<notin> set K" for u
    unfolding pinnedIDs_def by (subst filter_none) (use pin that in auto)
  show "deafUsers c (ds @ cs) = deafUsers c ds" if "GetConversationNotReceiveMessageUserIDsKey c \<notin> set K" for c
    unfolding deafUsers_def by (subst filter_none) (use deaf that in auto)
qed

section \<open>Fields\<close>

lemma setConvMap_key [simp]: "cvOwnerUserID (setConvMap a d) = cvOwnerUserID d" "cvConversationID (setConvMap a d) = cvConversationID d"
  by (cases a; simp)+

lemma setConvFields_key [simp]:
  "cvOwnerUserID (setConvFields args d) = cvOwnerUserID d" "cvConversationID (setConvFields args d) = cvConversationID d"
  unfolding setConvFields_def by (induction args arbitrary: d) simp_all

lemma setConvFields_opt: "\<not> (\<exists>f\<in>set args. case f of SetRecvMsgOpt _ \<Rightarrow> True | _ \<Rightarrow> False) \<Longrightarrow> cvRecvMsgOpt (setConvFields args d) = cvRecvMsgOpt d"
  unfolding setConvFields_def
proof (induction args arbitrary: d)
  case (Cons a args)
  then show ?case by (cases a) simp_all
qed simp

lemma setConvFields_pin: "\<not> (\<exists>f\<in>set args. case f of SetIsPinned _ \<Rightarrow> True | _ \<Rightarrow> False) \<Longrightarrow> cvIsPinned (setConvFields args d) = cvIsPinned d"
  unfolding setConvFields_def
proof (induction args arbitrary: d)
  case (Cons a args)
  then show ?case by (cases a) simp_all
qed simp

lemma fieldsSet_ok [simp]: "conv_ok (fieldsSet us c args ds) = conv_ok ds"
  unfolding fieldsSet_def by (rule conv_ok_map) (simp add: convKey_def)

lemmas conv_chain = DelConversationIDs_def DelUserConversationIDsHash_def DelConversations_def DelUsersConversation_def
  DelSuperGroupRecvMsgNotNotifyUserIDs_def DelSuperGroupRecvMsgNotNotifyUserIDsHash_def DelConversationNotReceiveMessageUserIDs_def
  DelConversationNotNotifyMessageUserIDs_def DelConversationPinnedMessageUserIDs_def DelConversationVersionUserIDs_def

lemma conv_update:
  assumes T: "friend_tools_ok T" and w: "conv_current T w"
    and run: "cdb_UpdateUsersConversationField T us c args w = (Inr (), w')"
  shows "conv_current T w' \<and> convDocs w' = fieldsSet us c args (convDocs w)"
proof (rule conv_write [OF T w run [unfolded cdb_UpdateUsersConversationField_def Let_def] cputs_UpdateByMap [OF T]], intro conjI)
  show "conv_ok d'" if "d' = fieldsSet us c args (convDocs w)" for d' using w that by (simp add: conv_current_def cnv.inv_def)
qed (auto simp: conv_chain fieldsSet_def setConvFields_opt setConvFields_pin convKey_def intro!: convCovers_map split: if_splits)

section \<open>Whole conversations\<close>

definition setDoc :: "ConversationModel \<Rightarrow> ConversationModel list \<Rightarrow> ConversationModel list" where
  "setDoc c ds = (let P = isConv (cvOwnerUserID c) (cvConversationID c) in
     if list_ex P ds then map (\<lambda>d. if P d then c else d) ds else ds @ [c])"

lemma updFirst_conv: "conv_ok ds \<Longrightarrow> updFirst (isConv u c) (\<lambda>_. x) ds = map (\<lambda>d. if isConv u c d then x else d) ds"
proof (induction ds)
  case (Cons d ds)
  have "map (\<lambda>e. if isConv u c e then x else e) ds = ds" if "isConv u c d"
  proof (rule map_idI)
    fix e assume "e \<in> set ds"
    then have "convKey d \<noteq> convKey e" using Cons.prems by (auto simp: conv_ok_def)
    with that show "(if isConv u c e then x else e) = e" by (auto simp: convKey_def isConv_def)
  qed
  with Cons show ?case by (simp add: conv_ok_def)
qed simp

lemma conv_create:
  assumes T: "friend_tools_ok T" and w: "conv_current T w" and run: "cdb_CreateConversation T cs w = (Inr (), w')"
  shows "conv_current T w' \<and> convDocs w' = convDocs w @ cs"
proof -
  have ok: "conv_ok (convDocs w)" using w by (simp add: conv_current_def cnv.inv_def)
  have keys: "set (foldl (\<lambda>keys c. DelConversationNotReceiveMessageUserIDs [cvConversationID c]
            (DelConversations (cvOwnerUserID c) [cvConversationID c] keys)) ks cs) =
      set ks \<union> (\<lambda>c. GetConversationNotReceiveMessageUserIDsKey (cvConversationID c)) ` set cs \<union>
      (\<lambda>c. GetConversationKey (cvOwnerUserID c) (cvConversationID c)) ` set cs" for ks
    by (induction cs arbitrary: ks) (auto simp: conv_chain)
  show ?thesis
  proof (rule conv_write [OF T w run [unfolded cdb_CreateConversation_def Let_def] cputs_Create [OF T ok]], intro conjI)
    fix d' assume d': "d' = convDocs w @ cs \<and> conv_ok d'"
    then show "conv_ok d'" and "d' = convDocs w @ cs" by blast+
    show "convCovers T (convDocs w) (DelConversationPinnedMessageUserIDs (map cvOwnerUserID (filter cvIsPinned cs))
        (DelConversationNotNotifyMessageUserIDs (map cvOwnerUserID (filter (\<lambda>c. cvRecvMsgOpt c = ReceiveNotNotifyMessage) cs))
        (DelConversationVersionUserIDs (map cvOwnerUserID cs) (DelUserConversationIDsHash (map cvOwnerUserID cs) (DelConversationIDs (map cvOwnerUserID cs)
        (foldl (\<lambda>keys c. DelConversationNotReceiveMessageUserIDs [cvConversationID c]
            (DelConversations (cvOwnerUserID c) [cvConversationID c] keys)) [] cs)))))) d'"
      unfolding d' [THEN conjunct1] by (rule convCovers_append) (auto simp: keys [unfolded conv_chain, simplified] conv_chain)
  qed
qed

lemma cputs_Find: "cputs d (\<lambda>a d'. a = filter (\<lambda>d. cvOwnerUserID d = u \<and> cvConversationID d \<in> set ids) d \<and> d' = d) (cmgo_Find u ids)"
  unfolding cmgo_Find_def by (rule cputs_query)

lemma conv_set:
  assumes T: "friend_tools_ok T" and w: "conv_current T w"
    and run: "cdb_SetUserConversations T (cvOwnerUserID c) [c] w = (Inr (), w')"
  shows "conv_current T w' \<and> convDocs w' = setDoc c (convDocs w)"
proof -
  let ?P = "isConv (cvOwnerUserID c) (cvConversationID c)"
  have ok: "conv_ok (convDocs w)" using w by (simp add: conv_current_def cnv.inv_def)
  have F: "fTx T p w = (Inr (), w') \<Longrightarrow> p w = (Inr (), w')" "fContain T x xs \<longleftrightarrow> x \<in> set xs" for p x xs
    using T by (simp_all add: friend_tools_ok_def)
  define K where "K = foldl (\<lambda>keys g. DelSuperGroupRecvMsgNotNotifyUserIDsHash g (DelSuperGroupRecvMsgNotNotifyUserIDs g keys))
    (DelConversationPinnedMessageUserIDs [cvOwnerUserID c] (DelConversationNotNotifyMessageUserIDs [cvOwnerUserID c]
      (DelConversationVersionUserIDs [cvOwnerUserID c] []))) (fDistinct T (map cvGroupID (filter (\<lambda>e. cvGroupID e \<noteq> '''') [c])))"
  have K0: "set ks \<subseteq> set (foldl (\<lambda>keys g. DelSuperGroupRecvMsgNotNotifyUserIDsHash g (DelSuperGroupRecvMsgNotNotifyUserIDs g keys)) ks gs)" for ks gs
    by (induction gs arbitrary: ks) (fastforce simp: conv_chain)+
  have K: "GetPinnedConversationIDsKey (cvOwnerUserID c) \<in> set K" "GetNotNotifyConversationIDsKey (cvOwnerUserID c) \<in> set K"
    using subsetD [OF K0] by (simp_all add: K_def conv_chain)
  define keys where "keys = DelConversations (cvOwnerUserID c) [cvConversationID c] K"
  define W :: "('a conv_world_scheme, string list) prog" where "W = bindM (cmgo_Find (cvOwnerUserID c) [cvConversationID c]) (\<lambda>existConversations.
     bindM (if length existConversations > 0 then
         thenM (forM [c] (cmgo_Update T)) (ret (DelConversationNotReceiveMessageUserIDs [cvConversationID c] keys))
       else ret keys) (\<lambda>keys.
     if length (filter (\<lambda>c. \<not> fContain T (cvConversationID c) (map cvConversationID existConversations)) [c]) > 0 then
         thenM (cmgo_Create T (filter (\<lambda>c. \<not> fContain T (cvConversationID c) (map cvConversationID existConversations)) [c]))
           (ret (DelConversationNotReceiveMessageUserIDs (map cvConversationID (filter (\<lambda>c. \<not> fContain T (cvConversationID c) (map cvConversationID existConversations)) [c]))
             (DelUserConversationIDsHash [cvOwnerUserID c] (DelConversationIDs [cvOwnerUserID c] keys))))
       else ret keys))"
  have run': "bindM W (\<lambda>keys. convChainDel T keys) w = (Inr (), w')"
    using F(1) [OF run [unfolded cdb_SetUserConversations_def]]
    by (simp only: W_def bindM_assoc Let_def keys_def K_def list.map foldl.simps)
  let ?S = "\<lambda>ks d'. if list_ex ?P (convDocs w)
      then ks = DelConversationNotReceiveMessageUserIDs [cvConversationID c] keys \<and> d' = map (\<lambda>d. if ?P d then c else d) (convDocs w)
      else ks = DelConversationNotReceiveMessageUserIDs [cvConversationID c]
          (DelUserConversationIDsHash [cvOwnerUserID c] (DelConversationIDs [cvOwnerUserID c] keys)) \<and> d' = convDocs w @ [c] \<and> conv_ok d'"
  have "cputs (convDocs w) ?S W"
    unfolding W_def
  proof (rule cputs_bind [OF cputs_Find], goal_cases)
    case (1 a d')
    show ?case
    proof (cases "list_ex ?P (convDocs w)")
      case True
      then have "a \<noteq> []" "cvConversationID c \<in> cvConversationID ` set a"
        using 1 by (auto simp: list_ex_iff isConv_def filter_empty_conv)
      then show ?thesis using 1 True
        by (simp add: F(2) bindM_assoc) (rule cputs_bind [OF cputs_Update [OF T]], simp add: updFirst_conv [OF ok] cputs_ret)
    next
      case False
      then have "a = []" using 1 by (auto simp: list_ex_iff isConv_def filter_empty_conv)
      then show ?thesis using 1 False
        by (simp add: F(2) bindM_assoc) (rule cputs_bind [OF cputs_Create [OF T ok]], auto simp: cputs_ret)
    qed
  qed
  then show ?thesis
  proof (rule conv_write [OF T w run'], goal_cases)
    case (1 ks d')
    then show ?case
    proof (cases "list_ex ?P (convDocs w)")
      case True
      with 1 have d': "d' = map (\<lambda>d. if ?P d then c else d) (convDocs w)" "ks = DelConversationNotReceiveMessageUserIDs [cvConversationID c] keys" by simp_all
      have "convCovers T (convDocs w) ks d'"
        unfolding d' by (rule convCovers_map) (use K in \<open>auto simp: convKey_def isConv_def conv_chain keys_def split: if_splits\<close>)
      moreover have "conv_ok d'" unfolding d' by (subst conv_ok_map) (use ok in \<open>auto simp: isConv_def convKey_def\<close>)
      ultimately show ?thesis using d' True by (simp add: setDoc_def)
    next
      case False
      note all = 1 [unfolded if_not_P [OF False]]
      then have d': "d' = convDocs w @ [c]" "conv_ok d'" "ks = DelConversationNotReceiveMessageUserIDs [cvConversationID c]
          (DelUserConversationIDsHash [cvOwnerUserID c] (DelConversationIDs [cvOwnerUserID c] keys))" by blast+
      have "convCovers T (convDocs w) ks (convDocs w @ [c])"
        by (rule convCovers_append) (use K in \<open>auto simp: d' conv_chain keys_def\<close>)
      then show ?thesis using d' False by (simp add: setDoc_def)
    qed
  qed
qed

section \<open>Runs\<close>

text \<open>The requests of a run: four that read, whose answer is not looked at, and four that write.\<close>

datatype conv_request =
    AskConversations string "string list"
  | AskAll string
  | AskHash string
  | AskPush string "string list"
  | PutFields UpdateConversationReq
  | PutConversation Conversation
  | PutMaxSeq string "string list" int
  | PutMinSeq string "string list" int

definition asked :: "('e env_scheme, 'a) prog \<Rightarrow> ('e env_scheme, unit) prog" where
  "asked m = bindM (tryM m) (\<lambda>_. ret ())"

fun serveConv :: "('e conv_world_scheme, 't) conv_peers_scheme \<Rightarrow> conv_request \<Rightarrow> ('e conv_world_scheme, unit) prog" where
  "serveConv T (AskConversations u ids) = asked (crpc_GetConversations T u ids)"
| "serveConv T (AskAll u) = asked (crpc_GetAllConversations T u)"
| "serveConv T (AskHash u) = asked (crpc_GetUserConversationIDsHash T u)"
| "serveConv T (AskPush c us) = asked (GetConversationOfflinePushUserIDs T c us)"
| "serveConv T (PutFields r) = UpdateConversation T r"
| "serveConv T (PutConversation c) = SetConversation T c"
| "serveConv T (PutMaxSeq c us n) = crpc_SetConversationMaxSeq T c us n"
| "serveConv T (PutMinSeq c us n) = crpc_SetConversationMinSeq T c us n"

fun plainCall :: "conv_request \<Rightarrow> bool" where
  "plainCall (AskConversations u ids) = plainOwner u"
| "plainCall (AskAll u) = plainOwner u"
| "plainCall _ = True"

text \<open>The table: what a request does to the documents.\<close>

fun applyConv :: "conv_request \<Rightarrow> ConversationModel list \<Rightarrow> ConversationModel list" where
  "applyConv (PutFields r) ds = fieldsSet (uqUserIDs r) (rqConversationID r) (updateFields r) ds"
| "applyConv (PutConversation c) ds = setDoc (ConversationPb2DB c) ds"
| "applyConv (PutMaxSeq c us n) ds = fieldsSet us c [SetMaxSeqField n] ds"
| "applyConv (PutMinSeq c us n) ds = fieldsSet us c [SetMinSeqField n] ds"
| "applyConv _ ds = ds"

lemma creads_asked: "creads T d Q m \<Longrightarrow> creads T d (\<lambda>_. True) (asked m)"
  unfolding asked_def by (rule cnv.reads_bind [OF cnv.reads_tryM]) (auto intro: cnv.reads_ret)

lemma creads_current: "conv_current T w \<Longrightarrow> creads T (convDocs w) Q m \<Longrightarrow> m w = (r, w') \<Longrightarrow>
    conv_current T w' \<and> convDocs w' = convDocs w \<and> (\<forall>a. r = Inr a \<longrightarrow> Q a)"
  unfolding conv_current_def cnv.inv_sees cnv.reads_def cnv.sees_def by force

lemma in_deafUsers: "v \<in> set (deafUsers c ds) \<longleftrightarrow> (\<exists>d\<in>set ds. cvOwnerUserID d = v \<and> cvConversationID d = c \<and> cvRecvMsgOpt d \<noteq> ReceiveMessage)"
  by (auto simp: deafUsers_def)

lemma creads_rpc:
  assumes T: "conv_tools_ok T" and ds: "conv_ok ds"
  shows "plainOwner u \<Longrightarrow> creads T ds (\<lambda>cs. set cs = ConversationDB2Pb ` {d \<in> set ds. cvOwnerUserID d = u \<and> cvConversationID d \<in> set ids})
      (crpc_GetConversations T u ids)"
    and "plainOwner u \<Longrightarrow> creads T ds (\<lambda>cs. set cs = ConversationDB2Pb ` {d \<in> set ds. cvOwnerUserID d = u}) (crpc_GetAllConversations T u)"
    and "creads T ds (\<lambda>h. h = cvIDsHash T (idsOf u ds)) (crpc_GetUserConversationIDsHash T u)"
    and "creads T ds (\<lambda>rs. set rs = {v \<in> set us. \<not> (\<exists>d\<in>set ds. cvOwnerUserID d = v \<and> cvConversationID d = c \<and> cvRecvMsgOpt d \<noteq> ReceiveMessage)})
      (GetConversationOfflinePushUserIDs T c us)"
proof -
  show "creads T ds (\<lambda>cs. set cs = ConversationDB2Pb ` {d \<in> set ds. cvOwnerUserID d = u \<and> cvConversationID d \<in> set ids}) (crpc_GetConversations T u ids)"
    if "plainOwner u"
    unfolding crpc_GetConversations_def getConversations_def cdb_FindConversations_def ConversationsDB2Pb_def
    by (rule cnv.reads_bind [OF creads_GetConversations [OF T ds that]]) (auto intro!: cnv.reads_ret)
  show "creads T ds (\<lambda>cs. set cs = ConversationDB2Pb ` {d \<in> set ds. cvOwnerUserID d = u}) (crpc_GetAllConversations T u)" if "plainOwner u"
    unfolding crpc_GetAllConversations_def cdb_GetUserAllConversation_def cc_GetUserAllConversations_def ConversationsDB2Pb_def bindM_assoc
    by (rule cnv.reads_bind [OF creads_lists(1) [OF T]], rule cnv.reads_bind [OF creads_GetConversations [OF T ds that]])
      (auto intro!: cnv.reads_ret simp: idsOf_def)
  show "creads T ds (\<lambda>h. h = cvIDsHash T (idsOf u ds)) (crpc_GetUserConversationIDsHash T u)"
    unfolding crpc_GetUserConversationIDsHash_def cdb_GetUserConversationIDsHash_def by (rule creads_hash [OF T])
  show "creads T ds (\<lambda>rs. set rs = {v \<in> set us. \<not> (\<exists>d\<in>set ds. cvOwnerUserID d = v \<and> cvConversationID d = c \<and> cvRecvMsgOpt d \<noteq> ReceiveMessage)})
      (GetConversationOfflinePushUserIDs T c us)"
    unfolding GetConversationOfflinePushUserIDs_def cdb_GetConversationNotReceiveMessageUserIDs_def in_deafUsers [symmetric]
    by (auto intro!: cnv.reads_ret cnv.reads_throw cnv.reads_bind [OF creads_lists(4) [OF T]])
qed

lemma msgCall_keeps: "msgCall T k w = (r, w') \<Longrightarrow> convDocs w' = convDocs w \<and> rocks w' = rocks w"
  by (auto simp: msgCall_def peerReply_def bindM_def liftE_def)

lemma convNotify_keeps: "convNotify n w = (r, w') \<Longrightarrow> convDocs w' = convDocs w \<and> rocks w' = rocks w"
  by (auto simp: convNotify_def)

lemma conv_current_cong: "convDocs w' = convDocs w \<Longrightarrow> rocks w' = rocks w \<Longrightarrow> conv_current T w' = conv_current T w"
  by (simp add: conv_current_def cnv.inv_def)

lemma serveConv_ok:
  assumes T: "conv_tools_ok T" and w: "conv_current T w" and k: "plainCall k" and run: "serveConv T k w = (Inr (), w')"
  shows "conv_current T w' \<and> convDocs w' = applyConv k (convDocs w)"
proof -
  have F: "friend_tools_ok T" and ok: "conv_ok (convDocs w)" using T w by (simp_all add: conv_tools_ok_def conv_current_def cnv.inv_def)
  note rpc = creads_rpc [OF T ok]
  have told: "conv_current T w2 \<and> convDocs w2 = convDocs w1"
    if "forM us (\<lambda>u. ConversationChangeNotification u ids) w1 = (Inr (), w2)" "conv_current T w1" for us ids w1 w2
    using that
  proof (induction us arbitrary: w1)
    case (Cons v us)
    from Cons.prems(1) obtain s where s: "ConversationChangeNotification v ids w1 = (Inr (), s)"
      "forM us (\<lambda>u. ConversationChangeNotification u ids) s = (Inr (), w2)" by (auto simp: bindM_eq_Inr)
    with Cons.IH [OF s(2)] Cons.prems(2) convNotify_keeps [OF s(1) [unfolded ConversationChangeNotification_def]]
    show ?case by (simp add: conv_current_cong [of s w1])
  qed simp
  have peer: "conv_current T w1 \<and> convDocs w1 = convDocs w"
    if "(if length us = 0 then ret () else msgCall T call') w = (Inr (), w1)" for us :: "string list" and call' w1
    using that w msgCall_keeps [of T call' w "Inr ()" w1] conv_current_cong [of w1 w T] by (simp split: if_splits)
  have fields: "conv_current T w' \<and> convDocs w' = fieldsSet us c args (convDocs w)"
    if "thenM (if length us = 0 then ret () else msgCall T call')
      (thenM (cdb_UpdateUsersConversationField T us c args) (forM us (\<lambda>u. ConversationChangeNotification u [c]))) w = (Inr (), w')" for us c args call'
  proof -
    from that obtain s1 s2 where s: "(if length us = 0 then ret () else msgCall T call') w = (Inr (), s1)"
      "cdb_UpdateUsersConversationField T us c args s1 = (Inr (), s2)" "forM us (\<lambda>u. ConversationChangeNotification u [c]) s2 = (Inr (), w')"
      unfolding bindM_eq_Inr by auto
    with peer [OF s(1)] conv_update [OF F _ s(2)] told [OF s(3)] show ?thesis by simp
  qed
  show ?thesis
  proof (cases k)
    case (PutFields r)
    then show ?thesis using run conv_update [OF F w] w
      by (auto simp: UpdateConversation_def fieldsSet_none split: if_splits)
  next
    case (PutConversation c)
    then obtain s where s: "cdb_SetUserConversations T (cvOwnerUserID (ConversationPb2DB c)) [ConversationPb2DB c] w = (Inr (), s)"
      "ConversationChangeNotification (pcOwnerUserID c) [pcConversationID c] s = (Inr (), w')"
      using run by (auto simp: SetConversation_def bindM_eq_Inr ConversationPb2DB_def)
    show ?thesis
      using conv_set [OF F w s(1)] convNotify_keeps [OF s(2) [unfolded ConversationChangeNotification_def]] PutConversation
        conv_current_cong [of w' s T] by simp
  next
    case (PutMaxSeq c us n)
    then show ?thesis using run
      by (simp add: crpc_SetConversationMaxSeq_def cl_SetUserConversationMaxSeq_def fields)
  next
    case (PutMinSeq c us n)
    then show ?thesis using run
      by (simp add: crpc_SetConversationMinSeq_def cl_SetUserConversationMin_def fields)
  qed (use run k creads_current [OF w creads_asked [OF rpc(1)]] creads_current [OF w creads_asked [OF rpc(2)]]
      creads_current [OF w creads_asked [OF rpc(3)]] creads_current [OF w creads_asked [OF rpc(4)]] in simp)+
qed

lemma serveConvs_ok:
  assumes "conv_tools_ok T" and "conv_current T w" and "\<And>k. k \<in> set ks \<Longrightarrow> plainCall k" and "forM ks (serveConv T) w = (Inr (), w')"
  shows "conv_current T w' \<and> convDocs w' = fold applyConv ks (convDocs w)"
  using assms(2-)
proof (induction ks arbitrary: w)
  case (Cons k ks)
  from Cons.prems(3) obtain s where s: "serveConv T k w = (Inr (), s)" "forM ks (serveConv T) s = (Inr (), w')" by (auto simp: bindM_eq_Inr)
  with serveConv_ok [OF assms(1) Cons.prems(1) _ s(1)] Cons.IH [OF _ _ s(2)] Cons.prems(2) show ?case by simp
qed simp

end
