(* ===== verification/Conv_Samples.thy ===== *)
theory Conv_Samples
  imports Conv_Runs Group_Samples
begin

text \<open>
  A concrete conversation service, with a text codec for its documents and peers that answer with nothing. The properties of the runs are evaluated on it, and so are
  the writes after which the service and its collection disagree.
\<close>

section \<open>The parameters\<close>

definition boolText :: "bool \<Rightarrow> string" where
  "boolText b = (if b then ''1'' else '''')"

definition convText :: "ConversationModel \<Rightarrow> cached" where
  "convText c = encText [cvOwnerUserID c, cvConversationID c, itoa (cvConversationType c), cvUserID c, cvGroupID c, itoa (cvRecvMsgOpt c),
     boolText (cvIsPinned c), boolText (cvIsPrivateChat c), itoa (cvBurnDuration c), itoa (cvGroupAtType c), cvAttachedInfo c, cvEx c,
     itoa (cvMaxSeq c), itoa (cvMinSeq c), optText (cvCreateTime c), boolText (cvIsMsgDestruct c), itoa (cvMsgDestructTime c),
     optText (cvLatestMsgDestructTime c)]"

definition textConv :: "cached \<Rightarrow> ConversationModel option" where
  "textConv x = (case decText x of
     Some [a, b, c, d, e, f, g, h, i, j, k, l, m, n, p, q, r, s] \<Rightarrow>
       (case (atoi c, atoi f, atoi i, atoi j, atoi m, atoi n, textOpt p, atoi r, textOpt s) of
         (Some ty, Some opt, Some bd, Some at, Some mx, Some mn, Some ct, Some dt, Some lt) \<Rightarrow> Some \<lparr>cvOwnerUserID = a, cvConversationID = b,
           cvConversationType = ty, cvUserID = d, cvGroupID = e, cvRecvMsgOpt = opt, cvIsPinned = (g = ''1''), cvIsPrivateChat = (h = ''1''),
           cvBurnDuration = bd, cvGroupAtType = at, cvAttachedInfo = k, cvEx = l, cvMaxSeq = mx, cvMinSeq = mn, cvCreateTime = ct,
           cvIsMsgDestruct = (q = ''1''), cvMsgDestructTime = dt, cvLatestMsgDestructTime = lt\<rparr>
       | _ \<Rightarrow> None)
   | _ \<Rightarrow> None)"

lemma textConv_ok: "textConv (convText c) = Some c \<and> convText c \<noteq> CText ''''"
  using decText_encText by (cases c) (simp add: textConv_def convText_def boolText_def)

definition sampleConvs :: "conv_world conv_peers" where
  "sampleConvs = \<lparr>fIncr = thenM, fTx = (\<lambda>p. p), fPage = (\<lambda>is p. is), fOidTime = (\<lambda>_. 0), fTopics = [],
     fDistinct = remdups, fContain = (\<lambda>x xs. x \<in> set xs), fDuplicate = (\<lambda>xs. \<not> distinct xs), encIDs = encText, decIDs = decText,
     encVL = encLog, decVL = decLog, encFriend = (\<lambda>_. CText ''''), decFriend = (\<lambda>_. None),
     cvTopics = [], cvDifference = (\<lambda>xs ys. filter (\<lambda>x. x \<notin> set ys) xs @ filter (\<lambda>y. y \<notin> set xs) ys), cvPaginate = (\<lambda>is _ _. is),
     cvIDsHash = (\<lambda>ids. int (length ids)), cvIdHash = length, cvPageIDs = (\<lambda>ds _. Inr (map cvConversationID ds)),
     cvOptOf = (\<lambda>d. Inr (cvRecvMsgOpt d)), cvSample = take, encConv = convText, decConv = textConv,
     cpOid = \<lparr>Hex = showNat, ObjectIDFromHex = readNat 0\<rparr>, cpGroupsInfo = (\<lambda>_ _. Inr []), cpMemberIDs = (\<lambda>_ _. Inr []), cpUsersInfo = (\<lambda>_ _. Inr []),
     cpMaxSeqs = (\<lambda>_ _. Inr []), cpMsgs = (\<lambda>_ _ _. Inr []), cpHasReadSeqs = (\<lambda>_ _ _. Inr []), cpLastSeqByTime = (\<lambda>_ _ _. Inr 0),
     cpUserReadSeqs = (\<lambda>_ _. Inr []), cpMsgCall = (\<lambda>_ _. Inr ())\<rparr>"

lemma sampleConvs_ok: "conv_tools_ok sampleConvs"
  by (simp add: conv_tools_ok_def friend_tools_ok_def sampleConvs_def decText_encText decLog_encLog textConv_ok)

definition sampleConv :: "string \<Rightarrow> string \<Rightarrow> ConversationModel" where
  "sampleConv u c = zeroConversation\<lparr>cvOwnerUserID := u, cvConversationID := c, cvConversationType := SingleChatType, cvUserID := ''v'', cvCreateTime := Some 0\<rparr>"

definition convStart :: "ConversationModel list \<Rightarrow> conv_world" where
  "convStart ds = \<lparr>faults = (\<lambda>_. NoFault), opno = 0, clock = 5, rand = (\<lambda>_. 0), cluster = None, rocks = Map.empty, versionDocs = (\<lambda>_. []), nextOid = 0,
     versionCtx = None, friendDocs = [], requestDocs = [], subscribed = [], published = [], notices = [], convDocs = ds, convNotices = [], msgCalls = []\<rparr>"

definition sampleReq :: ConversationReq where
  "sampleReq = \<lparr>rqConversationID = ''c'', rqConversationType = SingleChatType, rqUserID = ''v'', rqGroupID = '''', rqRecvMsgOpt = Some ReceiveNotNotifyMessage,
     rqIsPinned = None, rqAttachedInfo = None, rqIsPrivateChat = None, rqEx = None, rqBurnDuration = None, rqMinSeq = None, rqMaxSeq = None,
     rqGroupAtType = None, rqMsgDestructTime = None, rqIsMsgDestruct = None\<rparr>"

section \<open>Runs\<close>



definition sampleRun :: "conv_request list" where
  "sampleRun = [AskPush ''c'' [''u'', ''v''], AskConversations ''u'' [''c'', ''d''], PutFields (ConversationReq.extend sampleReq \<lparr>uqUserIDs = [''u''], uqLatestMsgDestructTime = None\<rparr>),
     AskAll ''u'', PutConversation (ConversationDB2Pb (sampleConv ''u'' ''d''))]"

lemma sampleRun_plain: "\<forall>k\<in>set sampleRun. plainCall k"
  by (simp add: sampleRun_def plainOwner_def)

lemma convStart_current: "conv_ok ds \<Longrightarrow> conv_current T (convStart ds)"
  by (simp add: conv_current_def cnv.inv_def cnv.coh_def convStart_def)

lemma conv_sample_run:
  "case forM sampleRun (serveConv sampleConvs) (convStart [sampleConv ''u'' ''c'']) of (r, w1) \<Rightarrow> r = Inr () \<and>
     (case fst (crpc_GetConversations sampleConvs ''u'' [''d'', ''c''] w1) of Inr cs \<Rightarrow> map pcConversationID cs = [''d'', ''c''] | Inl _ \<Rightarrow> False) \<and>
     fst (GetConversationOfflinePushUserIDs sampleConvs ''c'' [''u'', ''v''] w1) = Inr [''v'']"
  by code_simp

lemma sample_run_parts:
  "\<exists>w1 cs w2 w3. forM sampleRun (serveConv sampleConvs) (convStart [sampleConv ''u'' ''c'']) = (Inr (), w1) \<and>
     crpc_GetConversations sampleConvs ''u'' [''d'', ''c''] w1 = (Inr cs, w2) \<and> map pcConversationID cs = [''d'', ''c''] \<and>
     GetConversationOfflinePushUserIDs sampleConvs ''c'' [''u'', ''v''] w1 = (Inr [''v''], w3)"
proof -
  obtain r w1 where w1: "forM sampleRun (serveConv sampleConvs) (convStart [sampleConv ''u'' ''c'']) = (r, w1)" by fastforce
  obtain q w2 where w2: "crpc_GetConversations sampleConvs ''u'' [''d'', ''c''] w1 = (q, w2)" by fastforce
  obtain q' w3 where w3: "GetConversationOfflinePushUserIDs sampleConvs ''c'' [''u'', ''v''] w1 = (q', w3)" by fastforce
  from conv_sample_run [unfolded w1 prod.case w2 w3 fst_conv] w1 w2 w3 show ?thesis by (cases q) auto
qed

lemma sample_start: "conv_current sampleConvs (convStart [sampleConv ''u'' ''c''])" "plainOwner ''u''"
  by (rule convStart_current) (simp_all add: conv_ok_def plainOwner_def)



section \<open>Writes the service does not see\<close>



end
