(* ===== verification/Spec2Isabelle.thy ===== *)
theory Spec2Isabelle
  imports Seq_Progress Seq_User Msg_Database_Props Msg_Transfer_Props Msg_Rpc_Props Token_Auth_Props Batcher_Props Friend_Samples Group_Samples Sdk_Samples Conv_Samples
begin

text \<open>
  A verification development of the message path of kids-im, an instant-messaging server with its client SDK (Go).

  \<^bold>\<open>The program.\<close> A message goes through these parts, under \<^verbatim>\<open>server/\<close>:
  \<^enum> the message rpc (\<^verbatim>\<open>internal/rpc/msg\<close>) puts it on a Kafka topic, keyed by its conversation;
  \<^enum> the message transfer (\<^verbatim>\<open>internal/msgtransfer\<close>) takes batches of one key from the topic, has numbers allocated
    for the messages to be stored, writes them to the redis cache, and passes them to the push topic and to the MongoDB topic;
  \<^enum> the allocator (\<^verbatim>\<open>cache/redis/seq_conversation.go\<close> and \<^verbatim>\<open>database/mgo/seq_conversation.go\<close>) hands out
    the sequence numbers of a conversation: MongoDB holds the largest number given away in blocks,
    a redis hash the part of the block not used yet, under a lock with a time limit;
  \<^enum> the MongoDB consumer stores the messages in documents of 100 (\<^verbatim>\<open>controller/msg_transfer.go\<close>);
  \<^enum> readers (\<^verbatim>\<open>controller/msg.go\<close>) fetch numbers within the bounds of the conversation and of the user, from
    the cache and from MongoDB, hide what was deleted or revoked, and move read positions (\<^verbatim>\<open>cache/redis/seq_user.go\<close>).

  Beside it are the services of friends (\<^verbatim>\<open>internal/rpc/relation\<close>) and groups (\<^verbatim>\<open>internal/rpc/group\<close>). Each keeps collections in MongoDB with a log of
  the changes (\<^verbatim>\<open>mgo/version_log.go\<close>) and a cache in redis in front of them; clients (\<^verbatim>\<open>sdk-core\<close>) keep a copy that they bring up to date from the log.

  \<^bold>\<open>How code is modelled.\<close> A Go function that touches a store is a program of the theory \<open>Prelude\<close>: a function from the
  state to an error or a value and the new state. The state is one record that each component extends by what it owns.
  Every call to an external store consumes one entry of a fault plan in the state: it succeeds, fails before it takes
  effect, or takes effect and loses its reply. A theorem on all states is a theorem on all such failures. Errors are the
  constructors of \<open>err\<close>; a Go panic is the constructor \<open>Panic\<close>, which no caller handles. Go maps that are iterated
  are association lists in any order. Sequence numbers and times are Go's \<^verbatim>\<open>int64\<close>, modelled by unbounded integers: they count messages and
  milliseconds and stay far below the limit. Library code outside the repository (JSON, protobuf, sorting,
  membership, JWT) is a parameter of the definitions that use it.

  \<^bold>\<open>The theories.\<close>
  \<^item> \<open>Prelude\<close>: errors, programs, the fault plan, a Hoare logic, strings and decimal numbers.
  \<^item> \<open>Constants\<close>, \<open>Msg_Options\<close>, \<open>Msg_Model\<close>, \<open>Conversation_Ids\<close>: constants and platforms (\<^verbatim>\<open>protocol/constant\<close>), the options
    of a message and the identifiers of conversations (\<^verbatim>\<open>server/pkg/msgprocessor\<close>), wire and stored messages
    (\<^verbatim>\<open>storage/model/msg.go\<close>, \<^verbatim>\<open>convert/msg.go\<close>).
  \<^item> \<open>Stores\<close>: the redis cluster and the cache in front of it (\<^verbatim>\<open>cache/redis/redis_shard_manager.go\<close>,
    \<^verbatim>\<open>batch.go\<close>, \<^verbatim>\<open>batch_handler.go\<close>): keys by slot, batches, read-through with negative answers, deletion by tags.
  \<^item> \<open>Seq_Store\<close>, \<open>Seq_Conversation\<close>, \<open>Seq_Alloc\<close>, \<open>Seq_Progress\<close>: the collections of sequence numbers, the two Lua scripts and
    the allocator around them. The locale \<open>seq_allocator\<close> states what an allocator owes its clients; the redis
    allocator is its instance, with the level of a conversation as abstraction. C5: allocations never overlap. C6: it succeeds when the stores answer, and it
    gives up after its ten tries.
  \<^item> \<open>Seq_User\<close>: bounds and read positions of users, the locale \<open>read_through\<close> for values kept in MongoDB and cached,
    monotone read positions, and the stale smallest number after an allocation.
  \<^item> \<open>Msg_Store\<close>, \<open>Msg_Insert\<close>: the message collection (\<^verbatim>\<open>mgo/msg.go\<close>), the message cache (\<^verbatim>\<open>cache/redis/msg.go\<close>), and the loop
    that writes a block of messages. \<open>infoAt\<close> reads the collection as a map from conversation and number to what is
    stored there; C12 is the refinement of the abstract insertion by the loop.
  \<^item> \<open>Msg_Database\<close>, \<open>Msg_Database_Props\<close>: the readers and writers of \<^verbatim>\<open>controller/msg.go\<close>: reads by position and range, hidden content,
    revocation, deletion, and two flaws of the searches (C14, C15, C17).
  \<^item> \<open>Msg_Transfer\<close>, \<open>Msg_Transfer_Props\<close>: the transfer and its two consumers (C20 to C22).
  \<^item> \<open>Msg_Send\<close>, \<open>Msg_Rpc\<close>, \<open>Msg_Rpc_Props\<close>: the handlers of the message rpc (\<^verbatim>\<open>internal/rpc/msg\<close>): sending with its checks and web hooks, pulling, read positions,
    revocation and deletion, and the notifications they send (\<^verbatim>\<open>pkg/notification/msg.go\<close>). The other services, the configuration and the hooks are one record of
    functions; a call takes the number of the call, so an answer may change from call to call. Who may send (C24) and revoke (C27), and that anybody may delete (C19).
  \<^item> \<open>Batcher\<close>, \<open>Batcher_Props\<close>: the batcher in front of the transfer (\<^verbatim>\<open>server/pkg/tools/batcher/batcher.go\<close>), its goroutines as a
    transition system. The invariant \<open>fifo_inv\<close> accounts for every record of a key, \<open>ack_inv\<close> for every completion report
    (C30, C31); \<open>batcherWork\<close> bounds the steps left (C32, C33).
  \<^item> \<open>Token_Auth\<close>, \<open>Token_Auth_Props\<close>: logins. The token hashes (\<^verbatim>\<open>cache/redis/token.go\<close>), the login policies (\<^verbatim>\<open>controller/auth.go\<close>)
    and the auth rpc (\<^verbatim>\<open>internal/rpc/auth/auth.go\<close>): C29.
  \<^item> \<open>Version_Log\<close>, \<open>Version_Log_Props\<close>, \<open>Incr_Option\<close>: the log of the changes of an owner and the answers built from it (\<^verbatim>\<open>rpc/incrversion\<close>). The
    locale of \<open>Version_Log_Props\<close> states what the log owes its readers; C34: the part above a version turns a copy of that version into the table.
  \<^item> \<open>Friends_Store\<close>, \<open>Friends_Db\<close>, \<open>Friends_Rpc\<close>, \<open>Friend_Ops\<close>: the collections, the cache and the requests of friends.
  \<^item> \<open>Syncer\<close>, \<open>Syncer_Props\<close>, \<open>Sdk_Friends\<close>, \<open>Sdk_Friends_Props\<close>: the synchroniser of the client (\<^verbatim>\<open>sdk-core/pkg/syncer\<close>) and its use for friends (C35).
    \<open>Friend_Sync\<close>, \<open>Friend_Runs\<close> and \<open>Friend_Samples\<close> put client and server together: after a synchronisation the client has the friends of the server (C36),
    whatever requests came between (C38), except for one kind of deletion (C37).
  \<^item> \<open>Group_Store\<close>, \<open>Group_Db\<close>, \<open>Group_Notify\<close>, \<open>Group_Hooks\<close>, \<open>Group_Rpc\<close>, \<open>Group_Query\<close>: groups, their members and the requests to join: collections and cache
    (\<^verbatim>\<open>mgo/group*.go\<close>, \<^verbatim>\<open>cache/redis/group.go\<close>), the operations over both (\<^verbatim>\<open>controller/group.go\<close>), notifications, hooks, and the handlers, those that change something
    and those that only answer.
  \<^item> \<open>Cache_View\<close>: the locale \<open>cache_view\<close> for a cache in front of collections: what a key may hold, programs that read through it (\<open>reads\<close>), and,
    with an invariant of the data, programs that also write (\<open>moves\<close>, \<open>ends\<close>). \<open>Group_Inv\<close> interprets it on the group service; \<open>Group_Writes\<close> shows of every write
    that the keys it deletes cover its change, \<open>Group_Reads\<close> and \<open>Group_Runs\<close> go through the handlers, and \<open>Group_Steps\<close> through sequences of requests.
    \<open>Group_Props\<close> and \<open>Group_Samples\<close> hold the properties: documents and cache (C1, C39), the owner (C3, C40), the right to remove members (C25), and a member who
    promotes himself (C8).
  \<^item> \<open>Conv_Store\<close>, \<open>Conv_Db\<close>, \<open>Conv_Rpc\<close>: the conversations of a user, their collection with its log and cache (\<^verbatim>\<open>mgo/conversation.go\<close>,
    \<^verbatim>\<open>cache/redis/conversation.go\<close>), the operations over both (\<^verbatim>\<open>controller/conversation.go\<close>) and the handlers (\<^verbatim>\<open>internal/rpc/conversation\<close>). \<open>Conv_Props\<close> is
    another interpretation of \<open>cache_view\<close>; here a write that fails may leave the cache behind the collection, so \<open>Conv_Runs\<close> is about runs whose writes succeed:
    they are runs on a plain table (C9, C13). \<open>Conv_Samples\<close> evaluates them, and shows two writes after which the service and its collection disagree (C10, C26).
  \<^item> \<open>Sdk_Store\<close>, \<open>Sdk_Msg_Sync\<close>, \<open>Sdk_History\<close>: messages on the client: its tables (\<^verbatim>\<open>sdk-core/pkg/db\<close>), the message synchroniser
    (\<^verbatim>\<open>interaction/msg_sync.go\<close>), and the reading of the history with the filling of its gaps (\<^verbatim>\<open>conversation_msg/message_check.go\<close>, \<^verbatim>\<open>conversation.go\<close>).
    A client is a state with the rows of its tables, the marks up to which conversations are synchronised, the commands it sent to the conversation goroutine
    and the requests it made; the replies of the server are arbitrary, by the number of the call. \<open>Sdk_Msg_Sync_Props\<close>: what a synchronisation marks (C2, C7), pushed messages (C11)
    and the message a push of two conversations skips (C18). \<open>Sdk_History_Props\<close>: merging (C16), the numbers that are missing (C23), what reading leaves in the table (C4)
    and the read that never returns (C28). \<open>Sdk_Samples\<close> evaluates them on a client with two conversations.

  \<^bold>\<open>Bounds.\<close> The loop of the block insertion has \<open>2 n + 1\<close> turns for \<open>n\<close> fields: a document another writer
  inserted first costs one more turn, and the update after it always matches (C12 shows that the fuel is never used up). The loops of the allocator
  have the code's own bound of ten. The searches for the newest and the oldest message have a fuel parameter, the number of documents of
  the conversation. \<open>splitIntoBatches\<close> is a partial function, since a batch size of zero loops for ever. The reading of the history has fuel, and C28 shows of a
  call of it that no fuel is enough.

  \<^bold>\<open>Not modelled.\<close> Statistics and search pipelines of the collection and the requests of the message rpc for them, the websocket gateway, push, the
  HTTP api, the user service, black lists, tools and configuration, and of the client SDK the arrival
  of messages in the conversation list, sending, searches, groups and the long connection;
  protobuf, JSON, Kafka sessions, metrics and logging are outside of every model.
\<close>

end
